(* ===== verification/Prelude.thy ===== *)
theory Prelude
  imports Main "HOL-Library.List_Lexorder" "HOL-Library.Char_ord" "HOL-Library.Product_Lexorder"
begin

text \<open>
  Shared ground of the development: effectful computations with exceptions, the calculus
  that proves facts about them, Python string primitives, and generic facts on lists.

  A Python routine that reads and writes persistent state and may raise is a function from
  a state to either an exception or a value, paired with the state it leaves behind. The
  state survives an exception: what was written before a raise stays written.
\<close>

section \<open>Computations with state and exceptions\<close>

type_synonym ('s, 'e, 'a) io = "'s \<Rightarrow> ('e + 'a) \<times> 's"

definition ret :: "'a \<Rightarrow> ('s, 'e, 'a) io" where
  "ret x = (\<lambda>s. (Inr x, s))"

definition raise :: "'e \<Rightarrow> ('s, 'e, 'a) io" where
  "raise e = (\<lambda>s. (Inl e, s))"

definition bind_io :: "('s, 'e, 'a) io \<Rightarrow> ('a \<Rightarrow> ('s, 'e, 'b) io) \<Rightarrow> ('s, 'e, 'b) io" where
  "bind_io m k = (\<lambda>s. case m s of (Inl e, t) \<Rightarrow> (Inl e, t) | (Inr x, t) \<Rightarrow> k x t)"

definition seq_io :: "('s, 'e, 'a) io \<Rightarrow> ('s, 'e, 'b) io \<Rightarrow> ('s, 'e, 'b) io" where
  "seq_io m k = bind_io m (\<lambda>_. k)"

definition gets :: "('s \<Rightarrow> 'a) \<Rightarrow> ('s, 'e, 'a) io" where
  "gets f = (\<lambda>s. (Inr (f s), s))"

definition modify :: "('s \<Rightarrow> 's) \<Rightarrow> ('s, 'e, unit) io" where
  "modify f = (\<lambda>s. (Inr (), f s))"

definition lift_sum :: "'e + 'a \<Rightarrow> ('s, 'e, 'a) io" where
  "lift_sum r = (\<lambda>s. (r, s))"

text \<open>\<open>try: m except Exception as exc: h exc\<close>; the state at the raise is kept.\<close>

definition try_io :: "('s, 'e, 'a) io \<Rightarrow> ('e + 'a \<Rightarrow> ('s, 'e, 'b) io) \<Rightarrow> ('s, 'e, 'b) io" where
  "try_io m k = (\<lambda>s. case m s of (r, t) \<Rightarrow> k r t)"

named_theorems io_simps "one-step unfolding of the computations above"

lemma io_run [io_simps]:
  "ret x s = (Inr x, s)"
  "raise e s = (Inl e, s)"
  "gets f s = (Inr (f s), s)"
  "modify g s = (Inr (), g s)"
  "lift_sum r s = (r, s)"
  by (simp_all add: ret_def raise_def gets_def modify_def lift_sum_def)

lemma bind_io_run [io_simps]:
  "m s = (Inl e, t) \<Longrightarrow> bind_io m k s = (Inl e, t)"
  "m s = (Inr x, t) \<Longrightarrow> bind_io m k s = k x t"
  by (simp_all add: bind_io_def)

text \<open>
  Running a computation on a concrete state by rewriting: one step at a time, without looking
  into a continuation before its argument is known.
\<close>

lemma io_app:
  "bind_io m k s = (case m s of (Inl e, t) \<Rightarrow> (Inl e, t) | (Inr x, t) \<Rightarrow> k x t)"
  "seq_io m c s = (case m s of (Inl e, t) \<Rightarrow> (Inl e, t) | (Inr _, t) \<Rightarrow> c t)"
  "try_io m h s = (case m s of (r, t) \<Rightarrow> h r t)"
  by (simp_all add: bind_io_def seq_io_def try_io_def)

lemma io_cong:
  "m = m' \<Longrightarrow> s = s' \<Longrightarrow> bind_io m k s = bind_io m' k s'"
  "m = m' \<Longrightarrow> s = s' \<Longrightarrow> seq_io m c s = seq_io m' c s'"
  "m = m' \<Longrightarrow> s = s' \<Longrightarrow> try_io m h s = try_io m' h s'"
  by simp_all

lemma bind_ret: "bind_io (ret x) k = k x"
  by (rule ext) (simp add: io_app io_run)

lemma bind_io_cases:
  assumes "bind_io m k s = (r, t)"
  obtains (raised) e where "m s = (Inl e, t)" "r = Inl e"
    | (went_on) x u where "m s = (Inr x, u)" "k x u = (r, t)"
  using assms unfolding bind_io_def
  by (cases "m s"; cases "fst (m s)") auto

section \<open>Weakest preconditions\<close>

text \<open>
  \<open>wp m Q E s\<close> says that running \<open>m\<close> from \<open>s\<close> ends in \<open>Q\<close> when it returns and in
  \<open>E\<close> when it raises. Every computation here is total, so there is no third case.
\<close>

definition wp :: "('s, 'e, 'a) io \<Rightarrow> ('a \<Rightarrow> 's \<Rightarrow> bool) \<Rightarrow> ('e \<Rightarrow> 's \<Rightarrow> bool) \<Rightarrow> 's \<Rightarrow> bool" where
  "wp m Q E s = (case m s of (Inl e, t) \<Rightarrow> E e t | (Inr x, t) \<Rightarrow> Q x t)"

named_theorems wp_simps "weakest preconditions of the computations"

lemma wp_basic [wp_simps]:
  "wp (ret x) Q E s = Q x s"
  "wp (raise e) Q E s = E e s"
  "wp (gets f) Q E s = Q (f s) s"
  by (simp_all add: wp_def io_simps)

lemma wp_modify [wp_simps]: "wp (modify g) Q E s = Q () (g s)"
  by (simp add: wp_def io_simps)

lemma wp_lift_sum [wp_simps]:
  "wp (lift_sum r) Q E s = (case r of Inl e \<Rightarrow> E e s | Inr x \<Rightarrow> Q x s)"
  by (simp add: wp_def io_simps split: sum.splits)

lemma wp_bind [wp_simps]: "wp (bind_io m k) Q E s = wp m (\<lambda>x. wp (k x) Q E) E s"
  by (auto simp: wp_def bind_io_def split: prod.splits sum.splits)

lemma wp_seq [wp_simps]: "wp (seq_io m k) Q E s = wp m (\<lambda>_. wp k Q E) E s"
  by (simp add: seq_io_def wp_bind)

lemma wp_try [wp_simps]:
  "wp (try_io m k) Q E s = wp m (\<lambda>x. wp (k (Inr x)) Q E) (\<lambda>e. wp (k (Inl e)) Q E) s"
  by (auto simp: wp_def try_io_def split: prod.splits sum.splits)

lemma wp_if [wp_simps]: "wp (if b then m else n) Q E s = (if b then wp m Q E s else wp n Q E s)"
  by simp

lemma wp_cong_result:
  assumes "wp m Q E s" and "\<And>x t. Q x t \<Longrightarrow> Q' x t" and "\<And>e t. E e t \<Longrightarrow> E' e t"
  shows "wp m Q' E' s"
  using assms by (auto simp: wp_def split: prod.splits sum.splits)

lemma wp_return: "wp m Q E s \<Longrightarrow> m s = (Inr x, t) \<Longrightarrow> Q x t"
  by (simp add: wp_def)

lemma wp_raise: "wp m Q E s \<Longrightarrow> m s = (Inl e, t) \<Longrightarrow> E e t"
  by (simp add: wp_def)

lemma wpI:
  assumes "\<And>x t. m s = (Inr x, t) \<Longrightarrow> Q x t" and "\<And>e t. m s = (Inl e, t) \<Longrightarrow> E e t"
  shows "wp m Q E s"
  using assms by (cases "m s"; cases "fst (m s)") (auto simp: wp_def)

lemma wp_conj:
  "wp m Q E s \<Longrightarrow> wp m Q' E' s \<Longrightarrow> wp m (\<lambda>x t. Q x t \<and> Q' x t) (\<lambda>e t. E e t \<and> E' e t) s"
  by (auto simp: wp_def split: prod.splits sum.splits)

section \<open>Frames: what a computation leaves alone, whatever its outcome\<close>

text \<open>
  A frame is a reflexive and transitive relation between the states before and after. A
  computation keeps it when it holds across the computation, returned or raised. The
  rules below prove it for a composition from its parts, once for every frame.
\<close>

locale frame =
  fixes R :: "'s \<Rightarrow> 's \<Rightarrow> bool"
  assumes frame_refl: "R s s"
    and frame_trans: "R s t \<Longrightarrow> R t u \<Longrightarrow> R s u"
begin

definition keeps :: "('s, 'e, 'a) io \<Rightarrow> bool" where
  "keeps m \<longleftrightarrow> (\<forall>s. R s (snd (m s)))"

lemma keepsD: "keeps m \<Longrightarrow> m s = (r, t) \<Longrightarrow> R s t"
  by (metis keeps_def snd_conv)

lemma keeps_ret [simp]: "keeps (ret x)"
  and keeps_raise [simp]: "keeps (raise e)"
  and keeps_gets [simp]: "keeps (gets f)"
  and keeps_lift_sum [simp]: "keeps (lift_sum r)"
  by (simp_all add: keeps_def io_simps frame_refl)

lemma keeps_modify: "(\<And>s. R s (g s)) \<Longrightarrow> keeps (modify g)"
  by (simp add: keeps_def io_simps)

lemma keeps_bind:
  assumes "keeps m" and "\<And>x. keeps (k x)"
  shows "keeps (bind_io m k)"
  unfolding keeps_def
proof
  fix s
  obtain r t where m: "m s = (r, t)" by (cases "m s") auto
  then have "R s t" using assms(1) by (rule keepsD[rotated])
  moreover have "R t (snd (k x t))" for x
    using assms(2) by (simp add: keeps_def)
  ultimately show "R s (snd (bind_io m k s))"
    using m by (cases r) (auto simp: bind_io_def intro: frame_trans)
qed

lemma keeps_seq: "keeps m \<Longrightarrow> keeps k \<Longrightarrow> keeps (seq_io m k)"
  by (simp add: seq_io_def keeps_bind)

lemma keeps_try:
  assumes "keeps m" and "\<And>x. keeps (k x)"
  shows "keeps (try_io m k)"
  unfolding keeps_def
proof
  fix s
  obtain r t where m: "m s = (r, t)" by (cases "m s") auto
  then have "R s t" using assms(1) by (rule keepsD[rotated])
  moreover have "R t (snd (k r t))"
    using assms(2) by (simp add: keeps_def)
  ultimately show "R s (snd (try_io m k s))"
    using m by (auto simp: try_io_def intro: frame_trans)
qed

lemma keeps_bind_lift: "(\<And>x. r = Inr x \<Longrightarrow> keeps (k x)) \<Longrightarrow> keeps (bind_io (lift_sum r) k)"
  by (cases r) (auto simp: keeps_def bind_io_def lift_sum_def frame_refl)

lemmas keeps_intros = keeps_bind_lift keeps_bind keeps_seq keeps_try keeps_ret keeps_raise
  keeps_gets keeps_lift_sum

text \<open>
  The same from a precondition that the frame cannot break, with what a returned value
  satisfies: \<open>ends P G m\<close> says that \<open>m\<close>, started where \<open>P\<close> holds, stays within the frame, and
  when it returns \<open>x\<close>, then \<open>G x\<close>. A computation with \<open>ends P (\<lambda>_. False) m\<close> always raises.
\<close>

definition stable :: "('s \<Rightarrow> bool) \<Rightarrow> bool" where
  "stable P \<longleftrightarrow> (\<forall>s t. P s \<longrightarrow> R s t \<longrightarrow> P t)"

definition ends :: "('s \<Rightarrow> bool) \<Rightarrow> ('a \<Rightarrow> bool) \<Rightarrow> ('s, 'e, 'a) io \<Rightarrow> bool" where
  "ends P G m \<longleftrightarrow> (\<forall>s r t. P s \<longrightarrow> m s = (r, t) \<longrightarrow> R s t \<and> (\<forall>x. r = Inr x \<longrightarrow> G x))"

lemma endsD: "ends P G m \<Longrightarrow> P s \<Longrightarrow> m s = (r, t) \<Longrightarrow> R s t \<and> (\<forall>x. r = Inr x \<longrightarrow> G x)"
  by (simp add: ends_def)

lemma keeps_ends: "keeps m \<Longrightarrow> ends P (\<lambda>_. True) m"
  by (auto simp: ends_def dest: keepsD)

lemma ends_simple [simp]:
  "G x \<Longrightarrow> ends P G (ret x)"
  "ends P G (raise e)"
  "(\<And>x. r = Inr x \<Longrightarrow> G x) \<Longrightarrow> ends P G (lift_sum r)"
  by (auto simp: ends_def io_simps frame_refl)

lemma ends_mono: "ends P G m \<Longrightarrow> (\<And>x. G x \<Longrightarrow> G' x) \<Longrightarrow> ends P G' m"
  by (auto simp: ends_def)

lemma ends_bind:
  assumes st: "stable P" and m: "ends P G m" and k: "\<And>x. G x \<Longrightarrow> ends P F (k x)"
  shows "ends P F (bind_io m k)"
  unfolding ends_def
proof (intro allI impI)
  fix s r t assume s: "P s" and run: "bind_io m k s = (r, t)"
  from run show "R s t \<and> (\<forall>x. r = Inr x \<longrightarrow> F x)"
  proof (cases rule: bind_io_cases)
    case (raised e)
    then show ?thesis using endsD [OF m s] by simp
  next
    case (went_on x u)
    have u: "R s u" "G x" using endsD [OF m s went_on(1)] by simp_all
    then have "P u" using st s by (auto simp: stable_def)
    then show ?thesis using endsD [OF k [OF u(2)] _ went_on(2)] u(1) frame_trans by blast
  qed
qed

lemma ends_bind_any:
  "stable P \<Longrightarrow> keeps m \<Longrightarrow> (\<And>x. ends P F (k x)) \<Longrightarrow> ends P F (bind_io m k)"
  by (rule ends_bind [OF _ keeps_ends])

lemma ends_bind_lift: "(\<And>x. r = Inr x \<Longrightarrow> ends P F (k x)) \<Longrightarrow> ends P F (bind_io (lift_sum r) k)"
  by (cases r) (auto simp: ends_def bind_io_def lift_sum_def frame_refl)

lemma ends_bind_raises: "ends P (\<lambda>_. False) m \<Longrightarrow> ends P F (bind_io m k)"
  unfolding ends_def by (metis bind_io_cases sum.distinct(1))

lemma ends_seq: "stable P \<Longrightarrow> ends P (\<lambda>_. True) m \<Longrightarrow> ends P F k \<Longrightarrow> ends P F (seq_io m k)"
  by (simp add: seq_io_def ends_bind)

lemma ends_seq_any: "stable P \<Longrightarrow> keeps m \<Longrightarrow> ends P F k \<Longrightarrow> ends P F (seq_io m k)"
  by (simp add: seq_io_def ends_bind_any)

lemma ends_seq_raises: "ends P (\<lambda>_. False) m \<Longrightarrow> ends P F (seq_io m k)"
  by (simp add: seq_io_def ends_bind_raises)

lemma ends_try:
  assumes "stable P" and "keeps m" and "\<And>r. ends P F (k r)"
  shows "ends P F (try_io m k)"
  unfolding ends_def
proof (intro allI impI)
  fix s r t assume s: "P s" and run: "try_io m k s = (r, t)"
  obtain q u where m: "m s = (q, u)" by (cases "m s") auto
  then have u: "R s u" "P u" using assms(1,2) s by (auto simp: stable_def dest: keepsD)
  have "k q u = (r, t)" using run m by (simp add: try_io_def)
  then show "R s t \<and> (\<forall>x. r = Inr x \<longrightarrow> F x)"
    using endsD [OF assms(3) u(2)] u(1) frame_trans by blast
qed

end

section \<open>What a computation may return\<close>

text \<open>\<open>returns F m\<close>: whenever \<open>m\<close> returns a value, from whatever state, the value satisfies \<open>F\<close>.\<close>

definition returns :: "('a \<Rightarrow> bool) \<Rightarrow> ('s, 'e, 'a) io \<Rightarrow> bool" where
  "returns F m \<longleftrightarrow> (\<forall>s x t. m s = (Inr x, t) \<longrightarrow> F x)"

lemma returnsD: "returns F m \<Longrightarrow> m s = (Inr x, t) \<Longrightarrow> F x"
  unfolding returns_def by blast

lemma returns_ret [simp]: "returns F (ret x) \<longleftrightarrow> F x"
  by (simp add: returns_def ret_def)

lemma returns_raise [simp]: "returns F (raise e)"
  by (simp add: returns_def raise_def)

lemma returns_lift_sum [simp]: "returns F (lift_sum r) \<longleftrightarrow> (case r of Inl _ \<Rightarrow> True | Inr x \<Rightarrow> F x)"
  by (auto simp: returns_def lift_sum_def split: sum.splits)

lemma returns_any [simp]: "returns (\<lambda>_. True) m"
  by (simp add: returns_def)

lemma returns_bind:
  assumes "returns G m" and "\<And>x. G x \<Longrightarrow> returns F (k x)"
  shows "returns F (bind_io m k)"
  unfolding returns_def
proof (intro allI impI)
  fix s x t assume "bind_io m k s = (Inr x, t)"
  then show "F x"
    by (cases rule: bind_io_cases) (use assms in \<open>auto dest: returnsD\<close>)
qed

lemma returns_bind_any: "(\<And>x. returns F (k x)) \<Longrightarrow> returns F (bind_io m k)"
  by (rule returns_bind [where G = "\<lambda>_. True"]) auto

lemma returns_seq: "returns F k \<Longrightarrow> returns F (seq_io m k)"
  by (simp add: seq_io_def returns_bind_any)

lemma returns_try: "(\<And>r. returns F (k r)) \<Longrightarrow> returns F (try_io m k)"
  by (auto simp: returns_def try_io_def split: prod.splits)

lemma returns_mono: "returns F m \<Longrightarrow> (\<And>x. F x \<Longrightarrow> G x) \<Longrightarrow> returns G m"
  by (auto simp: returns_def)

lemma wp_returns: "returns F m \<Longrightarrow> wp m (\<lambda>x _. F x) (\<lambda>_ _. True) s"
  by (rule wpI) (auto dest: returnsD)

text \<open>
  \<open>establishes Q m\<close>: whenever \<open>m\<close> returns a value, the value and the state it leaves satisfy
  \<open>Q\<close>. This is the partial-correctness reading of \<open>wp\<close>; nothing is claimed of a raise.
\<close>

definition establishes :: "('a \<Rightarrow> 's \<Rightarrow> bool) \<Rightarrow> ('s, 'e, 'a) io \<Rightarrow> bool" where
  "establishes Q m \<longleftrightarrow> (\<forall>s. wp m Q (\<lambda>_ _. True) s)"

lemma establishesD: "establishes Q m \<Longrightarrow> m s = (Inr x, t) \<Longrightarrow> Q x t"
  unfolding establishes_def by (blast intro: wp_return)

lemma establishesI: "(\<And>s x t. m s = (Inr x, t) \<Longrightarrow> Q x t) \<Longrightarrow> establishes Q m"
  by (auto simp: establishes_def intro!: wpI)

lemma establishes_raise [simp]: "establishes Q (raise e)"
  by (simp add: establishes_def wp_simps)

lemma establishes_ret: "(\<And>t. Q x t) \<Longrightarrow> establishes Q (ret x)"
  by (simp add: establishes_def wp_simps)

lemma establishes_bind_returns:
  assumes "returns G m" and "\<And>x. G x \<Longrightarrow> establishes Q (k x)"
  shows "establishes Q (bind_io m k)"
proof (rule establishesI)
  fix s y t assume "bind_io m k s = (Inr y, t)"
  then show "Q y t"
    by (cases rule: bind_io_cases) (use assms in \<open>auto dest: returnsD establishesD\<close>)
qed

lemma establishes_bind_any: "(\<And>x. establishes Q (k x)) \<Longrightarrow> establishes Q (bind_io m k)"
  by (rule establishes_bind_returns [where G = "\<lambda>_. True"]) auto

lemma establishes_bind_lift:
  "(\<And>x. r = Inr x \<Longrightarrow> establishes Q (k x)) \<Longrightarrow> establishes Q (bind_io (lift_sum r) k)"
  by (auto simp: establishes_def wp_simps split: sum.splits)

lemma establishes_seq_any: "establishes Q k \<Longrightarrow> establishes Q (seq_io m k)"
  by (simp add: seq_io_def establishes_bind_any)

lemma establishes_try_any: "(\<And>r. establishes Q (k r)) \<Longrightarrow> establishes Q (try_io m k)"
  by (rule establishesI) (auto simp: try_io_def split: prod.splits dest: establishesD)

lemma establishes_mono: "establishes Q m \<Longrightarrow> (\<And>x t. Q x t \<Longrightarrow> Q' x t) \<Longrightarrow> establishes Q' m"
  by (rule establishesI) (auto dest: establishesD)

lemma establishes_bind_ret:
  assumes "establishes (\<lambda>x. Q (f x)) m"
  shows "establishes Q (bind_io m (\<lambda>x. ret (f x)))"
proof (rule establishesI)
  fix s y t assume "bind_io m (\<lambda>x. ret (f x)) s = (Inr y, t)"
  then show "Q y t"
    by (cases rule: bind_io_cases) (use assms in \<open>auto simp: ret_def dest: establishesD\<close>)
qed

lemma establishes_bind_some:
  assumes "establishes (\<lambda>x t. \<forall>r. x = Some r \<longrightarrow> Q r t) m" and "establishes Q k"
  shows "establishes Q (bind_io m (\<lambda>x. case x of Some r \<Rightarrow> ret r | None \<Rightarrow> k))"
proof (rule establishesI)
  fix s y t assume "bind_io m (\<lambda>x. case x of Some r \<Rightarrow> ret r | None \<Rightarrow> k) s = (Inr y, t)"
  then show "Q y t"
  proof (cases rule: bind_io_cases)
    case (went_on x u)
    then show ?thesis
      using establishesD [OF assms(1) went_on(1)] establishesD [OF assms(2)]
      by (cases x) (auto simp: ret_def)
  qed simp
qed

section \<open>Computations that never raise\<close>

definition never_raises :: "('s, 'e, 'a) io \<Rightarrow> bool" where
  "never_raises m \<longleftrightarrow> (\<forall>s. \<exists>x t. m s = (Inr x, t))"

lemma never_raises_simps [simp]:
  "never_raises (ret x)" "never_raises (gets f)" "never_raises (modify g)"
  "never_raises (lift_sum r) \<longleftrightarrow> (\<exists>x. r = Inr x)"
  by (simp_all add: never_raises_def io_run)

lemma never_raises_bind:
  assumes "never_raises m" and "\<And>x. never_raises (k x)"
  shows "never_raises (bind_io m k)"
  unfolding never_raises_def
proof
  fix s
  obtain x t where "m s = (Inr x, t)" using assms(1) unfolding never_raises_def by blast
  moreover obtain y u where "k x t = (Inr y, u)" using assms(2) unfolding never_raises_def by blast
  ultimately show "\<exists>x t. bind_io m k s = (Inr x, t)" by (simp add: bind_io_def)
qed

lemma never_raises_seq: "never_raises m \<Longrightarrow> never_raises k \<Longrightarrow> never_raises (seq_io m k)"
  by (simp add: seq_io_def never_raises_bind)

section \<open>Python strings\<close>

text \<open>
  A Python string is a list of UTF-8 bytes. The case conversions and \<open>strip\<close> are those
  of the ASCII range, which every identifier and status value of the program lies in.
\<close>

definition char_upper :: "char \<Rightarrow> char" where
  "char_upper c = (let n = of_char c in if (97::nat) \<le> n \<and> n \<le> 122 then char_of (n - 32) else c)"

definition char_lower :: "char \<Rightarrow> char" where
  "char_lower c = (let n = of_char c in if (65::nat) \<le> n \<and> n \<le> 90 then char_of (n + 32) else c)"

definition py_upper :: "string \<Rightarrow> string" where
  "py_upper = map char_upper"

definition py_lower :: "string \<Rightarrow> string" where
  "py_lower = map char_lower"

definition is_space :: "char \<Rightarrow> bool" where
  "is_space c = (let n = of_char c in n = (32::nat) \<or> (9 \<le> n \<and> n \<le> 13) \<or> (28 \<le> n \<and> n \<le> 31))"

definition py_strip :: "string \<Rightarrow> string" where
  "py_strip s = rev (dropWhile is_space (rev (dropWhile is_space s)))"

fun join :: "string \<Rightarrow> string list \<Rightarrow> string" where
  "join sep [] = []"
| "join sep [x] = x"
| "join sep (x # y # ys) = x @ sep @ join sep (y # ys)"

text \<open>Non-ASCII characters of the program's messages, as UTF-8 bytes.\<close>

definition section_sign :: string where
  "section_sign = [CHR 0xC2, CHR 0xA7]"

definition em_dash :: string where
  "em_dash = [CHR 0xE2, CHR 0x80, CHR 0x94]"

definition quote :: string where
  "quote = [CHR 0x27]"

text \<open>\<open>repr\<close> of a string without quotes and control characters in it.\<close>

definition py_repr :: "string \<Rightarrow> string" where
  "py_repr s = quote @ s @ quote"

section \<open>Decimal numerals\<close>

definition digit_char :: "nat \<Rightarrow> char" where
  "digit_char d = char_of (48 + d)"

definition digit_val :: "char \<Rightarrow> nat option" where
  "digit_val c = (let n = of_char c in if (48::nat) \<le> n \<and> n \<le> 57 then Some (n - 48) else None)"

fun show_nat :: "nat \<Rightarrow> string" where
  "show_nat n = (if n < 10 then [digit_char n] else show_nat (n div 10) @ [digit_char (n mod 10)])"

declare show_nat.simps [simp del]

definition show_int :: "int \<Rightarrow> string" where
  "show_int i = (if i < 0 then CHR ''-'' # show_nat (nat (- i)) else show_nat (nat i))"

text \<open>The format \<open>03d\<close> on a non-negative number: zero-padded to three digits.\<close>

definition pad3 :: "nat \<Rightarrow> string" where
  "pad3 n = (let s = show_nat n in replicate (3 - length s) CHR ''0'' @ s)"

text \<open>The digit part of \<open>int(s)\<close>: one or more digits, single underscores between them.\<close>

fun read_digits :: "nat \<Rightarrow> string \<Rightarrow> nat option" where
  "read_digits acc [] = Some acc"
| "read_digits acc (c # cs) =
     (case digit_val c of
        Some d \<Rightarrow> read_digits (10 * acc + d) cs
      | None \<Rightarrow>
          (if c = CHR ''_'' then
             (case cs of
                [] \<Rightarrow> None
              | c' # cs' \<Rightarrow>
                  (case digit_val c' of Some d \<Rightarrow> read_digits (10 * acc + d) cs' | None \<Rightarrow> None))
           else None))"

definition read_nat :: "string \<Rightarrow> nat option" where
  "read_nat s = (case s of [] \<Rightarrow> None
     | c # cs \<Rightarrow> (case digit_val c of Some d \<Rightarrow> read_digits d cs | None \<Rightarrow> None))"

definition py_int :: "string \<Rightarrow> int option" where
  "py_int s = (case py_strip s of
      [] \<Rightarrow> None
    | c # cs \<Rightarrow>
        if c = CHR ''-'' then map_option (\<lambda>n. - int n) (read_nat cs)
        else if c = CHR ''+'' then map_option int (read_nat cs)
        else map_option int (read_nat (c # cs)))"

lemma digit_val_char [simp]: "d < 10 \<Longrightarrow> digit_val (digit_char d) = Some d"
  by (simp add: digit_val_def digit_char_def Let_def)

lemma digit_char_not_space: "d < 10 \<Longrightarrow> \<not> is_space (digit_char d)"
  by (simp add: is_space_def digit_char_def Let_def)

lemma digit_char_zero: "digit_char 0 = CHR ''0''"
  by (simp add: digit_char_def char_of_eq_iff)

lemma show_nat_nonempty [simp]: "show_nat n \<noteq> []"
  by (subst show_nat.simps) simp

lemma show_nat_digits: "c \<in> set (show_nat n) \<Longrightarrow> \<exists>d < 10. c = digit_char d"
proof (induction n rule: show_nat.induct)
  case (1 n)
  then show ?case
    by (cases "n < 10") (auto simp: show_nat.simps [of n] intro: exI[of _ "n mod 10"])
qed

lemma read_digits_append:
  assumes "\<forall>c \<in> set xs. \<exists>d < 10. c = digit_char d"
  shows "read_digits acc (xs @ ys)
    = read_digits (foldl (\<lambda>a c. 10 * a + the (digit_val c)) acc xs) ys"
  using assms
proof (induction xs arbitrary: acc)
  case (Cons c cs)
  then have "\<exists>d. digit_val c = Some d" by auto
  with Cons show ?case by auto
qed simp

lemma read_digits_show_nat:
  "foldl (\<lambda>a c. 10 * a + the (digit_val c)) 0 (show_nat n) = n"
proof (induction n rule: show_nat.induct)
  case (1 n)
  then show ?case
    by (cases "n < 10") (auto simp: show_nat.simps [of n])
qed

lemma pad3_digits: "c \<in> set (pad3 n) \<Longrightarrow> \<exists>d < 10. c = digit_char d"
  by (auto simp: pad3_def Let_def dest: show_nat_digits intro: exI[of _ 0] simp: digit_char_zero)

lemma foldl_zeros:
  "foldl (\<lambda>a c. 10 * a + the (digit_val c)) 0 (replicate k CHR ''0'') = (0::nat)"
  using digit_val_char [of 0] by (induction k) (simp_all add: digit_char_zero)

lemma read_nat_digits:
  assumes "xs \<noteq> []" and "\<forall>c \<in> set xs. \<exists>d < 10. c = digit_char d"
  shows "read_nat xs = Some (foldl (\<lambda>a c. 10 * a + the (digit_val c)) 0 xs)"
proof -
  obtain c cs where xs: "xs = c # cs" using assms(1) by (cases xs) auto
  then obtain d where d: "d < 10" "c = digit_char d" using assms(2) by auto
  have "read_digits d (cs @ [])
      = read_digits (foldl (\<lambda>a c. 10 * a + the (digit_val c)) d cs) []"
    by (rule read_digits_append) (use assms(2) xs in auto)
  then show ?thesis using d xs by (simp add: read_nat_def)
qed

lemma pad3_nonempty [simp]: "pad3 n \<noteq> []"
  by (simp add: pad3_def Let_def)

lemma read_nat_pad3: "read_nat (pad3 n) = Some n"
proof -
  have "read_nat (pad3 n) = Some (foldl (\<lambda>a c. 10 * a + the (digit_val c)) 0 (pad3 n))"
    by (rule read_nat_digits) (use pad3_digits [of _ n] in auto)
  then show ?thesis
    by (simp add: pad3_def Let_def foldl_zeros read_digits_show_nat)
qed

lemma py_strip_digits:
  assumes "\<forall>c \<in> set xs. \<exists>d < 10. c = digit_char d"
  shows "py_strip xs = xs"
proof -
  have id: "dropWhile is_space zs = zs" if "\<forall>c \<in> set zs. \<not> is_space c" for zs
    using that by (cases zs) auto
  have "\<forall>c \<in> set xs. \<not> is_space c" using assms digit_char_not_space by auto
  then show ?thesis using id [of xs] id [of "rev xs"] by (simp add: py_strip_def)
qed

lemma digit_char_not_sign:
  "d < 10 \<Longrightarrow> digit_char d \<noteq> CHR ''-''" "d < 10 \<Longrightarrow> digit_char d \<noteq> CHR ''+''"
  by (auto simp: digit_char_def char_of_eq_iff take_bit_nat_eq_self)

lemma py_int_pad3: "py_int (pad3 n) = Some (int n)"
proof -
  have strip: "py_strip (pad3 n) = pad3 n"
    by (rule py_strip_digits) (blast dest: pad3_digits)
  obtain c cs where p: "pad3 n = c # cs" by (cases "pad3 n") auto
  then obtain d where "d < 10" "c = digit_char d" using pad3_digits [of c n] by auto
  then show ?thesis
    using read_nat_pad3 [of n] strip p by (simp add: py_int_def digit_char_not_sign)
qed

lemma py_int_show_nat: "py_int (show_nat n) = Some (int n)"
proof -
  have digits: "\<forall>c \<in> set (show_nat n). \<exists>d < 10. c = digit_char d" using show_nat_digits by blast
  obtain c cs where p: "show_nat n = c # cs" by (cases "show_nat n") auto
  then obtain d where "d < 10" "c = digit_char d" using digits by auto
  then show ?thesis
    using read_nat_digits [OF show_nat_nonempty digits] read_digits_show_nat [of n]
      py_strip_digits [OF digits] p
    by (simp add: py_int_def digit_char_not_sign)
qed

text \<open>\<open>s.split(sep, maxsplit=n)\<close>\<close>

fun split_max :: "char \<Rightarrow> nat \<Rightarrow> string \<Rightarrow> string list" where
  "split_max sep 0 s = [s]"
| "split_max sep (Suc n) s = (case dropWhile (\<lambda>c. c \<noteq> sep) s of
      [] \<Rightarrow> [s]
    | _ # rest \<Rightarrow> takeWhile (\<lambda>c. c \<noteq> sep) s # split_max sep n rest)"

lemma split_max_cons:
  "sep \<notin> set xs \<Longrightarrow> split_max sep (Suc n) (xs @ sep # ys) = xs # split_max sep n ys"
proof -
  assume "sep \<notin> set xs"
  then have "dropWhile (\<lambda>c. c \<noteq> sep) (xs @ sep # ys) = sep # ys"
    and "takeWhile (\<lambda>c. c \<noteq> sep) (xs @ sep # ys) = xs"
    by (auto simp: dropWhile_append takeWhile_append)
  then show ?thesis by simp
qed

text \<open>\<open>s.rsplit(sep, maxsplit=1)[1]\<close>: what follows the last separator, if there is one.\<close>

definition rsplit_last :: "char \<Rightarrow> string \<Rightarrow> string option" where
  "rsplit_last sep s = (if sep \<in> set s then Some (rev (takeWhile (\<lambda>c. c \<noteq> sep) (rev s))) else None)"

lemma rsplit_last_append:
  "sep \<notin> set ys \<Longrightarrow> rsplit_last sep (xs @ sep # ys) = Some ys"
  by (auto simp: rsplit_last_def takeWhile_append)

section \<open>Lists\<close>

text \<open>\<open>next((x for x in xs if p(x)), None)\<close> is the library's \<open>List.find\<close>.\<close>

lemma find_SomeD: "List.find p xs = Some x \<Longrightarrow> x \<in> set xs \<and> p x"
  by (induction xs) (auto split: if_splits)

lemma distinct_find_unique:
  assumes "distinct (map f xs)" and "x \<in> set xs"
  shows "List.find (\<lambda>y. f y = f x) xs = Some x"
  using assms by (induction xs) auto

lemma sorted_map_const: "(\<And>x. x \<in> set xs \<Longrightarrow> f x = c) \<Longrightarrow> sorted (map f xs)" for c :: "'b::linorder"
  by (induction xs) auto

end
