(* ===== verification/Core_Types.thy ===== *)
theory Core_Types
  imports Prelude
begin

text \<open>
  The closed vocabularies of the program: Python's \<open>StrEnum\<close> classes, each a datatype with
  its wire value, and the lookup \<open>Enum(value)\<close> that raises on an unknown value. Also the
  exceptions that the modelled code raises.
\<close>

section \<open>String enumerations\<close>

text \<open>\<open>E(s)\<close> for an enumeration with the given members: the member whose value is \<open>s\<close>.\<close>

definition enum_of :: "('a \<Rightarrow> string) \<Rightarrow> 'a list \<Rightarrow> string \<Rightarrow> 'a option" where
  "enum_of val members s = List.find (\<lambda>x. val x = s) members"

locale str_enum =
  fixes val :: "'a \<Rightarrow> string" and members :: "'a list"
  assumes values_distinct: "distinct (map val members)"
    and members_all: "x \<in> set members"
begin

lemma enum_of_value [simp]: "enum_of val members (val x) = Some x"
  using distinct_find_unique [OF values_distinct members_all] by (simp add: enum_of_def)

lemma enum_ofD: "enum_of val members s = Some x \<Longrightarrow> s = val x"
  by (auto simp: enum_of_def dest: find_SomeD)

lemma value_inj [simp]: "val x = val y \<longleftrightarrow> x = y"
  by (metis enum_of_value option.inject)

lemma enum_of_iff: "enum_of val members s = Some x \<longleftrightarrow> s = val x"
  using enum_ofD by auto

end

section \<open>Exceptions\<close>

datatype exn =
    PipelineError string
  | InvalidPauseReasonError string
  | WorkflowError string
  | ValidationError string
  | ValueError string
  | CorruptStateError string
  | OwnershipFenceViolationError string
  | StoryDependencyConflictError string
  | StoryDependencyNotFoundError string
  | StoryDependencyCycleError string "string list"
  | VerifyTargetUnknownError string
  | ResolutionMetadataError string
  | MandatoryTargetReadError string
  | LayerExecutionError string
  | AdversarialResultReadError string
  | AdversarialSparringError string
  | ProducerNotRegisteredError string
  | ProducerTypeMismatchError string
  | EnvelopeFieldError string
  | LlmStatusMappingError string
  | ArtifactNotFoundError string
  | ReconcilerFailClosedError string
  | ReconcilerApplyError string
  | LedgerInvalidError string
  | OSError string
  | StructuredEvaluatorError string
  | LlmClientError string
  | ParallelEvalError string
  | ConformanceManifestError string
  | ConformanceTier2NotSupportedError string
  | TypeError string
  | OtherException string

text \<open>\<open>str(exc)\<close>\<close>

fun exn_message :: "exn \<Rightarrow> string" where
  "exn_message (PipelineError m) = m"
| "exn_message (InvalidPauseReasonError m) = m"
| "exn_message (WorkflowError m) = m"
| "exn_message (ValidationError m) = m"
| "exn_message (ValueError m) = m"
| "exn_message (CorruptStateError m) = m"
| "exn_message (OwnershipFenceViolationError m) = m"
| "exn_message (StoryDependencyConflictError m) = m"
| "exn_message (StoryDependencyNotFoundError m) = m"
| "exn_message (StoryDependencyCycleError m p) = m"
| "exn_message (VerifyTargetUnknownError m) = m"
| "exn_message (ResolutionMetadataError m) = m"
| "exn_message (MandatoryTargetReadError m) = m"
| "exn_message (LayerExecutionError m) = m"
| "exn_message (AdversarialResultReadError m) = m"
| "exn_message (AdversarialSparringError m) = m"
| "exn_message (ProducerNotRegisteredError m) = m"
| "exn_message (ProducerTypeMismatchError m) = m"
| "exn_message (EnvelopeFieldError m) = m"
| "exn_message (LlmStatusMappingError m) = m"
| "exn_message (ArtifactNotFoundError m) = m"
| "exn_message (ReconcilerFailClosedError m) = m"
| "exn_message (ReconcilerApplyError m) = m"
| "exn_message (LedgerInvalidError m) = m"
| "exn_message (OSError m) = m"
| "exn_message (StructuredEvaluatorError m) = m"
| "exn_message (LlmClientError m) = m"
| "exn_message (ParallelEvalError m) = m"
| "exn_message (ConformanceManifestError m) = m"
| "exn_message (ConformanceTier2NotSupportedError m) = m"
| "exn_message (TypeError m) = m"
| "exn_message (OtherException m) = m"

text \<open>\<open>type(exc).__name__\<close>; every other exception class is called \<open>Exception\<close> here.\<close>

fun exn_type_name :: "exn \<Rightarrow> string" where
  "exn_type_name (PipelineError m) = ''PipelineError''"
| "exn_type_name (InvalidPauseReasonError m) = ''InvalidPauseReasonError''"
| "exn_type_name (WorkflowError m) = ''WorkflowError''"
| "exn_type_name (ValidationError m) = ''ValidationError''"
| "exn_type_name (ValueError m) = ''ValueError''"
| "exn_type_name (CorruptStateError m) = ''CorruptStateError''"
| "exn_type_name (OwnershipFenceViolationError m) = ''OwnershipFenceViolationError''"
| "exn_type_name (StoryDependencyConflictError m) = ''StoryDependencyConflictError''"
| "exn_type_name (StoryDependencyNotFoundError m) = ''StoryDependencyNotFoundError''"
| "exn_type_name (StoryDependencyCycleError m p) = ''StoryDependencyCycleError''"
| "exn_type_name (VerifyTargetUnknownError m) = ''VerifyTargetUnknownError''"
| "exn_type_name (ResolutionMetadataError m) = ''ResolutionMetadataError''"
| "exn_type_name (MandatoryTargetReadError m) = ''MandatoryTargetReadError''"
| "exn_type_name (LayerExecutionError m) = ''LayerExecutionError''"
| "exn_type_name (AdversarialResultReadError m) = ''AdversarialResultReadError''"
| "exn_type_name (AdversarialSparringError m) = ''AdversarialSparringError''"
| "exn_type_name (ProducerNotRegisteredError m) = ''ProducerNotRegisteredError''"
| "exn_type_name (ProducerTypeMismatchError m) = ''ProducerTypeMismatchError''"
| "exn_type_name (EnvelopeFieldError m) = ''EnvelopeFieldError''"
| "exn_type_name (LlmStatusMappingError m) = ''LlmStatusMappingError''"
| "exn_type_name (ArtifactNotFoundError m) = ''ArtifactNotFoundError''"
| "exn_type_name (ReconcilerFailClosedError m) = ''ReconcilerFailClosedError''"
| "exn_type_name (ReconcilerApplyError m) = ''ReconcilerApplyError''"
| "exn_type_name (LedgerInvalidError m) = ''LedgerInvalidError''"
| "exn_type_name (OSError m) = ''OSError''"
| "exn_type_name (StructuredEvaluatorError m) = ''StructuredEvaluatorError''"
| "exn_type_name (LlmClientError m) = ''LlmClientError''"
| "exn_type_name (ParallelEvalError m) = ''ParallelEvalError''"
| "exn_type_name (ConformanceManifestError m) = ''ConformanceManifestError''"
| "exn_type_name (ConformanceTier2NotSupportedError m) = ''ConformanceTier2NotSupportedError''"
| "exn_type_name (TypeError m) = ''TypeError''"
| "exn_type_name (OtherException m) = ''Exception''"

section \<open>Phases\<close>

datatype phase_status =
    PhaseStatus_PENDING | PhaseStatus_IN_PROGRESS | PhaseStatus_PAUSED
  | PhaseStatus_COMPLETED | PhaseStatus_FAILED | PhaseStatus_ESCALATED

fun phase_status_value :: "phase_status \<Rightarrow> string" where
  "phase_status_value PhaseStatus_PENDING = ''pending''"
| "phase_status_value PhaseStatus_IN_PROGRESS = ''in_progress''"
| "phase_status_value PhaseStatus_PAUSED = ''paused''"
| "phase_status_value PhaseStatus_COMPLETED = ''completed''"
| "phase_status_value PhaseStatus_FAILED = ''failed''"
| "phase_status_value PhaseStatus_ESCALATED = ''escalated''"

datatype phase_name =
    PhaseName_SETUP | PhaseName_EXPLORATION | PhaseName_IMPLEMENTATION | PhaseName_CLOSURE

fun phase_name_value :: "phase_name \<Rightarrow> string" where
  "phase_name_value PhaseName_SETUP = ''setup''"
| "phase_name_value PhaseName_EXPLORATION = ''exploration''"
| "phase_name_value PhaseName_IMPLEMENTATION = ''implementation''"
| "phase_name_value PhaseName_CLOSURE = ''closure''"

definition phase_names :: "phase_name list" where
  "phase_names = [PhaseName_SETUP, PhaseName_EXPLORATION, PhaseName_IMPLEMENTATION, PhaseName_CLOSURE]"

interpretation phase_name: str_enum phase_name_value phase_names
proof
  show "distinct (map phase_name_value phase_names)" by (simp add: phase_names_def)
  show "x \<in> set phase_names" for x by (cases x) (simp_all add: phase_names_def)
qed

abbreviation phase_name_of :: "string \<Rightarrow> phase_name option" where
  "phase_name_of \<equiv> enum_of phase_name_value phase_names"

text \<open>\<open>repr\<close> of an enumeration member, as in an f-string with \<open>!r\<close>.\<close>

definition enum_repr :: "string \<Rightarrow> string \<Rightarrow> string \<Rightarrow> string" where
  "enum_repr cls member_name v = ''<'' @ cls @ ''.'' @ member_name @ '': '' @ py_repr v @ ''>''"

definition phase_name_repr :: "phase_name \<Rightarrow> string" where
  "phase_name_repr p = enum_repr ''PhaseName'' (py_upper (phase_name_value p)) (phase_name_value p)"

definition phase_status_repr :: "phase_status \<Rightarrow> string" where
  "phase_status_repr p =
     enum_repr ''PhaseStatus'' (py_upper (phase_status_value p)) (phase_status_value p)"

datatype phase_state_mode = PhaseStateMode_EXECUTION | PhaseStateMode_EXPLORATION | PhaseStateMode_FAST

datatype escalation_reason =
    WORKER_BLOCKED | MAX_ROUNDS_EXCEEDED | IMPLEMENTATION_REQUIRED_AFTER_EXPLORATION
  | PREFLIGHT_FAIL | INTEGRITY_FAIL | MERGE_FAIL | DOC_FIDELITY_FAIL | IMPACT_VIOLATION
  | DESIGN_REVIEW_REJECTED | GOVERNANCE_VIOLATION

datatype qa_cycle_status =
    QaCycle_IDLE | QaCycle_AWAITING_QA | QaCycle_AWAITING_POLICY
  | QaCycle_AWAITING_REMEDIATION | QaCycle_PASS | QaCycle_ESCALATED

datatype are_bundle_status = AreBundle_LOADED | AreBundle_SKIPPED | AreBundle_FAILED

datatype exploration_gate_status = Gate_PENDING | Gate_APPROVED | Gate_REJECTED

fun exploration_gate_status_repr :: "exploration_gate_status \<Rightarrow> string" where
  "exploration_gate_status_repr Gate_PENDING = enum_repr ''ExplorationGateStatus'' ''PENDING'' ''pending''"
| "exploration_gate_status_repr Gate_APPROVED = enum_repr ''ExplorationGateStatus'' ''APPROVED'' ''approved''"
| "exploration_gate_status_repr Gate_REJECTED = enum_repr ''ExplorationGateStatus'' ''REJECTED'' ''rejected''"

section \<open>Pause reasons\<close>

datatype pause_reason =
    AWAITING_DESIGN_REVIEW | AWAITING_DESIGN_CHALLENGE | GOVERNANCE_INCIDENT
  | AWAITING_EDGE_PROVISIONING

fun pause_reason_value :: "pause_reason \<Rightarrow> string" where
  "pause_reason_value AWAITING_DESIGN_REVIEW = ''AWAITING_DESIGN_REVIEW''"
| "pause_reason_value AWAITING_DESIGN_CHALLENGE = ''AWAITING_DESIGN_CHALLENGE''"
| "pause_reason_value GOVERNANCE_INCIDENT = ''GOVERNANCE_INCIDENT''"
| "pause_reason_value AWAITING_EDGE_PROVISIONING = ''AWAITING_EDGE_PROVISIONING''"

definition pause_reasons :: "pause_reason list" where
  "pause_reasons = [AWAITING_DESIGN_REVIEW, AWAITING_DESIGN_CHALLENGE, GOVERNANCE_INCIDENT,
     AWAITING_EDGE_PROVISIONING]"

interpretation pause_reason: str_enum pause_reason_value pause_reasons
proof
  show "distinct (map pause_reason_value pause_reasons)" by (simp add: pause_reasons_def)
  show "x \<in> set pause_reasons" for x by (cases x) (simp_all add: pause_reasons_def)
qed

definition yield_status_synonyms :: "(string \<times> string) list" where
  "yield_status_synonyms =
    [(''awaiting_design_review'', ''AWAITING_DESIGN_REVIEW''),
     (''design_review_pending'', ''AWAITING_DESIGN_REVIEW''),
     (''design_review'', ''AWAITING_DESIGN_REVIEW''),
     (''awaiting_design_challenge'', ''AWAITING_DESIGN_CHALLENGE''),
     (''design_challenge'', ''AWAITING_DESIGN_CHALLENGE''),
     (''design_challenge_pending'', ''AWAITING_DESIGN_CHALLENGE''),
     (''governance_incident'', ''GOVERNANCE_INCIDENT''),
     (''governance_pause'', ''GOVERNANCE_INCIDENT''),
     (''governance_intervention'', ''GOVERNANCE_INCIDENT''),
     (''awaiting_edge_provisioning'', ''AWAITING_EDGE_PROVISIONING''),
     (''edge_provisioning'', ''AWAITING_EDGE_PROVISIONING''),
     (''edge_provisioning_pending'', ''AWAITING_EDGE_PROVISIONING'')]"

definition py_list_repr :: "string list \<Rightarrow> string" where
  "py_list_repr xs = ''['' @ join '', '' (map py_repr xs) @ '']''"

text \<open>\<open>cls(value)\<close>: the member, or the \<open>ValueError\<close> of the enumeration.\<close>

definition pause_reason_cls :: "string \<Rightarrow> exn + pause_reason" where
  "pause_reason_cls v = (case enum_of pause_reason_value pause_reasons v of
      Some p \<Rightarrow> Inr p
    | None \<Rightarrow> Inl (ValueError (py_repr v @ '' is not a valid PauseReason'')))"

definition from_yield_status :: "string \<Rightarrow> exn + pause_reason" where
  "from_yield_status raw =
    (if raw = [] then Inl (ValueError ''PauseReason.from_yield_status received empty string'')
     else let normalized = py_lower (py_strip raw) in
       if normalized = []
       then Inl (ValueError ''PauseReason.from_yield_status received whitespace-only string'')
       else case map_of yield_status_synonyms normalized of
          None \<Rightarrow>
            (case pause_reason_cls (py_upper (py_strip raw)) of
               Inr p \<Rightarrow> Inr p
             | Inl _ \<Rightarrow> Inl (ValueError
                 (''PauseReason.from_yield_status: unknown yield_status '' @ py_repr raw
                  @ ''; allowed synonyms: '' @ py_list_repr (sort (map fst yield_status_synonyms))
                  @ '' or a canonical member name ''
                  @ py_list_repr (sort (map pause_reason_value pause_reasons)))))
        | Some target_name \<Rightarrow> pause_reason_cls target_name)"

section \<open>Attempts and overrides\<close>

text \<open>A JSON value, for the untyped payloads of attempts and events.\<close>

datatype json =
    JNull
  | JBool bool
  | JInt int
  | JStr string
  | JList "json list"
  | JObj "(string \<times> json) list"

definition json_opt_str :: "string option \<Rightarrow> json" where
  "json_opt_str s = (case s of None \<Rightarrow> JNull | Some t \<Rightarrow> JStr t)"

datatype attempt_outcome =
    Outcome_COMPLETED | Outcome_FAILED | Outcome_ESCALATED
  | Outcome_SKIPPED | Outcome_YIELDED | Outcome_BLOCKED

datatype failure_cause =
    Cause_GUARD_REJECTED | Cause_STRUCTURAL_CHECK_FAIL | Cause_SEMANTIC_REVIEW_FAIL
  | Cause_ADVERSARIAL_FINDING | Cause_POLICY_FAIL | Cause_WORKER_BLOCKED | Cause_INTEGRITY_FAIL
  | Cause_MERGE_FAIL | Cause_PREFLIGHT_FAIL | Cause_MAX_ROUNDS_EXCEEDED | Cause_TIMEOUT
  | Cause_GUARD_FAILED | Cause_HANDLER_EXCEPTION | Cause_PRECONDITION_FAILED
  | Cause_HANDLER_REPORTED_FAILED | Cause_HANDLER_REPORTED_ESCALATED

datatype override_type =
    SKIP_NODE | FORCE_GATE_PASS | FORCE_GATE_FAIL | JUMP_TO | TRUNCATE_FLOW | FREEZE_RETRIES

fun override_type_value :: "override_type \<Rightarrow> string" where
  "override_type_value SKIP_NODE = ''skip_node''"
| "override_type_value FORCE_GATE_PASS = ''force_gate_pass''"
| "override_type_value FORCE_GATE_FAIL = ''force_gate_fail''"
| "override_type_value JUMP_TO = ''jump_to''"
| "override_type_value TRUNCATE_FLOW = ''truncate_flow''"
| "override_type_value FREEZE_RETRIES = ''freeze_retries''"

section \<open>Freezes\<close>

datatype freeze_kind = CONFLICT_FREEZE | SPLIT_ADMIN_FREEZE | RECONCILE_REPAIR | CONTESTED_LOCAL_WRITES

fun freeze_kind_value :: "freeze_kind \<Rightarrow> string" where
  "freeze_kind_value CONFLICT_FREEZE = ''conflict_freeze''"
| "freeze_kind_value SPLIT_ADMIN_FREEZE = ''split_admin_freeze''"
| "freeze_kind_value RECONCILE_REPAIR = ''reconcile_repair''"
| "freeze_kind_value CONTESTED_LOCAL_WRITES = ''contested_local_writes''"

definition freeze_kinds :: "freeze_kind list" where
  "freeze_kinds = [CONFLICT_FREEZE, SPLIT_ADMIN_FREEZE, RECONCILE_REPAIR, CONTESTED_LOCAL_WRITES]"

interpretation freeze_kind: str_enum freeze_kind_value freeze_kinds
proof
  show "distinct (map freeze_kind_value freeze_kinds)" by (simp add: freeze_kinds_def)
  show "x \<in> set freeze_kinds" for x by (cases x) (simp_all add: freeze_kinds_def)
qed

fun resolving_commands_by_kind :: "freeze_kind \<Rightarrow> string list" where
  "resolving_commands_by_kind CONFLICT_FREEZE = [''resolve_conflict_freeze'']"
| "resolving_commands_by_kind SPLIT_ADMIN_FREEZE = [''story_split_finalize'']"
| "resolving_commands_by_kind RECONCILE_REPAIR = [''admin_abort_inflight_operation'']"
| "resolving_commands_by_kind CONTESTED_LOCAL_WRITES = [''takeover_reconcile_clear'']"

record active_freeze_state =
  fz_kind :: "freeze_kind option"
  fz_reason :: "string option"
  fz_epoch :: "string option"
  fz_readable :: bool

definition is_canonical_freeze_epoch :: "string \<Rightarrow> bool" where
  "is_canonical_freeze_epoch v =
     (v \<noteq> [] \<and> list_all (\<lambda>c. digit_val c \<noteq> None) v \<and> hd v \<noteq> CHR ''0'')"

definition next_freeze_epoch :: "string option \<Rightarrow> exn + string" where
  "next_freeze_epoch previous = (case previous of
      None \<Rightarrow> Inr ''1''
    | Some e \<Rightarrow>
        if \<not> is_canonical_freeze_epoch e
        then Inl (ValueError (''invalid persisted freeze_epoch: '' @ py_repr e))
        else case py_int e of
            Some n \<Rightarrow> Inr (show_int (n + 1))
          | None \<Rightarrow> Inl (ValueError (''invalid literal for int() with base 10: '' @ py_repr e)))"

definition command_resolves_freeze :: "string \<Rightarrow> active_freeze_state \<Rightarrow> bool" where
  "command_resolves_freeze cmd fz =
    (if \<not> fz_readable fz \<or> fz_kind fz = None \<or> fz_reason fz = None \<or> fz_epoch fz = None
     then False
     else case fz_kind fz of Some k \<Rightarrow> cmd \<in> set (resolving_commands_by_kind k) | None \<Rightarrow> False)"

lemma executor_commit_in_no_kind [simp]:
  "''executor_commit'' \<notin> set (resolving_commands_by_kind k)"
  by (cases k) simp_all

lemma executor_commit_never_resolves [simp]: "\<not> command_resolves_freeze ''executor_commit'' fz"
  by (auto simp: command_resolves_freeze_def split: option.splits)

section \<open>Contexts of the QA subflow, spawn orders\<close>

datatype qa_context =
    IMPLEMENTATION_INITIAL | IMPLEMENTATION_REMEDIATION | EXPLORATION_INITIAL | EXPLORATION_REMEDIATION

datatype spawn_kind = Spawn_WORKER | Spawn_ADVERSARIAL

datatype spawn_reason = Spawn_INITIAL | Spawn_PAUSED_RETRY | Spawn_REMEDIATION

record spawn_request =
  sq_kind :: spawn_kind
  sq_spawn_reason :: spawn_reason
  sq_target_id :: "string option"
  sq_sandbox_path :: "string option"

section \<open>Classes and statuses of artifacts\<close>

datatype artifact_class =
    Class_WORKER | Class_QA | Class_PIPELINE | Class_TELEMETRY | Class_GOVERNANCE | Class_ENTWURF
  | Class_HANDOVER | Class_ADVERSARIAL_TEST_SANDBOX | Class_PROMPT_AUDIT

fun artifact_class_value :: "artifact_class \<Rightarrow> string" where
  "artifact_class_value Class_WORKER = ''worker''"
| "artifact_class_value Class_QA = ''qa''"
| "artifact_class_value Class_PIPELINE = ''pipeline''"
| "artifact_class_value Class_TELEMETRY = ''telemetry''"
| "artifact_class_value Class_GOVERNANCE = ''governance''"
| "artifact_class_value Class_ENTWURF = ''entwurf''"
| "artifact_class_value Class_HANDOVER = ''handover''"
| "artifact_class_value Class_ADVERSARIAL_TEST_SANDBOX = ''adversarial_test_sandbox''"
| "artifact_class_value Class_PROMPT_AUDIT = ''prompt_audit''"

definition artifact_classes :: "artifact_class list" where
  "artifact_classes = [Class_WORKER, Class_QA, Class_PIPELINE, Class_TELEMETRY, Class_GOVERNANCE,
     Class_ENTWURF, Class_HANDOVER, Class_ADVERSARIAL_TEST_SANDBOX, Class_PROMPT_AUDIT]"

interpretation artifact_class: str_enum artifact_class_value artifact_classes
proof unfold_locales
  show "x \<in> set artifact_classes" for x by (cases x) (simp_all add: artifact_classes_def)
qed (simp add: artifact_classes_def)

datatype envelope_status = Envelope_PASS | Envelope_FAIL | Envelope_WARN | Envelope_ERROR

fun envelope_status_value :: "envelope_status \<Rightarrow> string" where
  "envelope_status_value Envelope_PASS = ''PASS''"
| "envelope_status_value Envelope_FAIL = ''FAIL''"
| "envelope_status_value Envelope_WARN = ''WARN''"
| "envelope_status_value Envelope_ERROR = ''ERROR''"

definition envelope_statuses :: "envelope_status list" where
  "envelope_statuses = [Envelope_PASS, Envelope_FAIL, Envelope_WARN, Envelope_ERROR]"

interpretation envelope_status: str_enum envelope_status_value envelope_statuses
proof unfold_locales
  show "x \<in> set envelope_statuses" for x by (cases x) (simp_all add: envelope_statuses_def)
qed (simp add: envelope_statuses_def)

end
