(* ===== verification/Story_Context.thy ===== *)
theory Story_Context
  imports Core_Types
begin

text \<open>
  The story a pipeline run executes: story types and their profiles
  (\<open>story_context_manager/types.py\<close>), the run-time context with its validators
  (\<open>models.py\<close>) and the routing rules that pick the phases (\<open>routing_rules.py\<close>).
\<close>

section \<open>Story types and profiles\<close>

datatype story_type =
    StoryType_IMPLEMENTATION | StoryType_BUGFIX | StoryType_CONCEPT | StoryType_RESEARCH

fun story_type_value :: "story_type \<Rightarrow> string" where
  "story_type_value StoryType_IMPLEMENTATION = ''implementation''"
| "story_type_value StoryType_BUGFIX = ''bugfix''"
| "story_type_value StoryType_CONCEPT = ''concept''"
| "story_type_value StoryType_RESEARCH = ''research''"

datatype story_mode = StoryMode_EXECUTION | StoryMode_EXPLORATION

fun story_mode_repr :: "story_mode option \<Rightarrow> string" where
  "story_mode_repr None = ''None''"
| "story_mode_repr (Some StoryMode_EXECUTION) = enum_repr ''StoryMode'' ''EXECUTION'' ''execution''"
| "story_mode_repr (Some StoryMode_EXPLORATION) =
     enum_repr ''StoryMode'' ''EXPLORATION'' ''exploration''"

datatype wire_story_mode = Mode_STANDARD | Mode_FAST

datatype implementation_contract = Contract_STANDARD | Contract_INTEGRATION_STABILIZATION

record story_type_profile =
  sp_story_type :: story_type
  uses_worktree :: bool
  uses_full_qa :: bool
  uses_merge :: bool
  allowed_modes :: "story_mode option list"
  default_mode :: "story_mode option"
  allowed_implementation_contracts :: "implementation_contract list"
  default_implementation_contract :: "implementation_contract option"
  sp_phases :: "string list"

fun get_profile :: "story_type \<Rightarrow> story_type_profile" where
  "get_profile StoryType_IMPLEMENTATION = \<lparr>
     sp_story_type = StoryType_IMPLEMENTATION,
     uses_worktree = True, uses_full_qa = True, uses_merge = True,
     allowed_modes = [Some StoryMode_EXECUTION, Some StoryMode_EXPLORATION],
     default_mode = Some StoryMode_EXPLORATION,
     allowed_implementation_contracts = [Contract_STANDARD, Contract_INTEGRATION_STABILIZATION],
     default_implementation_contract = Some Contract_STANDARD,
     sp_phases = [''setup'', ''exploration'', ''implementation'', ''closure'']\<rparr>"
| "get_profile StoryType_BUGFIX = \<lparr>
     sp_story_type = StoryType_BUGFIX,
     uses_worktree = True, uses_full_qa = True, uses_merge = True,
     allowed_modes = [Some StoryMode_EXECUTION, Some StoryMode_EXPLORATION],
     default_mode = Some StoryMode_EXECUTION,
     allowed_implementation_contracts = [],
     default_implementation_contract = None,
     sp_phases = [''setup'', ''exploration'', ''implementation'', ''closure'']\<rparr>"
| "get_profile StoryType_CONCEPT = \<lparr>
     sp_story_type = StoryType_CONCEPT,
     uses_worktree = False, uses_full_qa = False, uses_merge = False,
     allowed_modes = [None],
     default_mode = None,
     allowed_implementation_contracts = [],
     default_implementation_contract = None,
     sp_phases = [''setup'', ''implementation'', ''closure'']\<rparr>"
| "get_profile StoryType_RESEARCH = \<lparr>
     sp_story_type = StoryType_RESEARCH,
     uses_worktree = False, uses_full_qa = False, uses_merge = False,
     allowed_modes = [None],
     default_mode = None,
     allowed_implementation_contracts = [],
     default_implementation_contract = None,
     sp_phases = [''setup'', ''implementation'', ''closure'']\<rparr>"

section \<open>The story context\<close>

text \<open>
  The fields the engine and the routing read or carry. Left out: \<open>story_uuid\<close>,
  \<open>story_size\<close>, the worktree paths, \<open>created_at\<close> and the inputs of mode determination,
  which no modelled code reads.
\<close>

record story_context =
  sc_project_key :: string
  sc_story_number :: int
  sc_story_id :: string
  sc_story_type :: story_type
  sc_execution_route :: "story_mode option"
  sc_mode :: wire_story_mode
  sc_implementation_contract :: "implementation_contract option"
  sc_title :: string
  sc_project_root :: "string option"
  sc_participating_repos :: "string list"
  sc_labels :: "string list"
  sc_implementation_required :: "bool option"
  sc_closure_allowed :: "bool option"
  sc_story_done :: "bool option"
  sc_exploration_completed :: "bool option"
  sc_execution_pending :: "bool option"

definition is_upper :: "char \<Rightarrow> bool" where
  "is_upper c = (let n = of_char c in (65::nat) \<le> n \<and> n \<le> 90)"

definition is_upper_digit :: "char \<Rightarrow> bool" where
  "is_upper_digit c = (is_upper c \<or> digit_val c \<noteq> None)"

text \<open>The pattern \<open>[A-Z][A-Z0-9]{1,9}-\d+\<close>, matched in full.\<close>

definition story_id_ok :: "string \<Rightarrow> bool" where
  "story_id_ok v =
    (let prefix = takeWhile is_upper_digit v; rest = dropWhile is_upper_digit v in
       prefix \<noteq> [] \<and> is_upper (hd prefix) \<and> 2 \<le> length prefix \<and> length prefix \<le> 10 \<and>
       rest \<noteq> [] \<and> hd rest = CHR ''-'' \<and> tl rest \<noteq> [] \<and> list_all (\<lambda>c. digit_val c \<noteq> None) (tl rest))"

text \<open>The part of \<open>_normalize_contract_defaults\<close> on the modelled fields (before validation).\<close>

definition normalize_contract_defaults :: "story_context \<Rightarrow> story_context" where
  "normalize_contract_defaults c =
    (if sc_story_type c = StoryType_IMPLEMENTATION \<and> sc_implementation_contract c = None
     then c\<lparr>sc_implementation_contract :=
              default_implementation_contract (get_profile (sc_story_type c))\<rparr>
     else c)"

definition validate_contract_shape :: "story_context \<Rightarrow> exn + story_context" where
  "validate_contract_shape c =
    (if sc_story_number c < 1 then Inl (ValidationError ''story_number must be >= 1'')
     else let profile = get_profile (sc_story_type c) in
     if sc_execution_route c \<notin> set (allowed_modes profile)
     then Inl (ValidationError ''execution_route is not allowed for story_type'')
     else if sc_mode c = Mode_FAST \<and>
             sc_story_type c \<notin> {StoryType_IMPLEMENTATION, StoryType_BUGFIX}
     then Inl (ValidationError ''mode=fast is only allowed for code-producing story_types'')
     else case sc_implementation_contract c of
        None \<Rightarrow>
          if allowed_implementation_contracts profile = [] then Inr c
          else Inl (ValidationError ''implementation_contract is not allowed for story_type'')
      | Some k \<Rightarrow>
          if k \<in> set (allowed_implementation_contracts profile) then Inr c
          else Inl (ValidationError ''implementation_contract is not allowed for story_type''))"

definition story_context_of :: "story_context \<Rightarrow> exn + story_context" where
  "story_context_of raw =
    (let c = normalize_contract_defaults raw in
     if py_strip (sc_project_key c) = [] then Inl (ValidationError ''project_key must not be empty'')
     else if \<not> story_id_ok (sc_story_id c) then Inl (ValidationError ''story_id must match the pattern'')
     else validate_contract_shape c)"

definition valid_context :: "story_context \<Rightarrow> bool" where
  "valid_context c = (story_context_of c = Inr c)"

section \<open>Routing rules\<close>

definition is_fast :: "story_context \<Rightarrow> bool" where
  "is_fast c = (sc_mode c = Mode_FAST)"

definition is_integration_stabilization :: "story_context \<Rightarrow> bool" where
  "is_integration_stabilization c =
     (sc_implementation_contract c = Some Contract_INTEGRATION_STABILIZATION)"

definition get_phases_for_story :: "story_context \<Rightarrow> string list" where
  "get_phases_for_story c =
    (let phases = sp_phases (get_profile (sc_story_type c)) in
     if is_integration_stabilization c
     then (if ''exploration'' \<notin> set phases then take 1 phases @ ''exploration'' # drop 1 phases
           else phases)
     else let skip_exploration = (is_fast c \<or> sc_execution_route c = Some StoryMode_EXECUTION) in
       if skip_exploration \<and> ''exploration'' \<in> set phases then remove1 ''exploration'' phases
       else phases)"

definition should_run_exploration :: "story_context \<Rightarrow> bool" where
  "should_run_exploration c =
    (let phases = sp_phases (get_profile (sc_story_type c)) in
     if is_integration_stabilization c \<and> ''exploration'' \<in> set phases then True
     else \<not> is_fast c \<and> sc_execution_route c = Some StoryMode_EXPLORATION
            \<and> ''exploration'' \<in> set phases)"

definition is_execution_routing_blocked :: "story_context \<Rightarrow> bool" where
  "is_execution_routing_blocked c = is_integration_stabilization c"

definition should_run_full_qa :: "story_context \<Rightarrow> bool" where
  "should_run_full_qa c = uses_full_qa (get_profile (sc_story_type c))"

definition requires_worktree :: "story_context \<Rightarrow> bool" where
  "requires_worktree c = uses_worktree (get_profile (sc_story_type c))"

definition requires_merge :: "story_context \<Rightarrow> bool" where
  "requires_merge c = uses_merge (get_profile (sc_story_type c))"

lemmas routing_defs = is_fast_def is_integration_stabilization_def get_phases_for_story_def
  should_run_exploration_def is_execution_routing_blocked_def

section \<open>What a valid context guarantees\<close>

lemma valid_context_contract:
  assumes "valid_context c" and "is_integration_stabilization c"
  shows "sc_story_type c = StoryType_IMPLEMENTATION"
  using assms
  by (cases "sc_story_type c")
     (auto simp: valid_context_def story_context_of_def validate_contract_shape_def Let_def
        is_integration_stabilization_def normalize_contract_defaults_def split: if_splits)

lemma valid_context_fast:
  assumes "valid_context c" and "is_fast c"
  shows "sc_story_type c \<in> {StoryType_IMPLEMENTATION, StoryType_BUGFIX}"
  using assms
  by (auto simp: valid_context_def story_context_of_def validate_contract_shape_def Let_def
        is_fast_def normalize_contract_defaults_def split: if_splits option.splits)

lemma valid_context_route:
  assumes "valid_context c"
  shows "sc_execution_route c \<in> set (allowed_modes (get_profile (sc_story_type c)))"
  using assms
  by (auto simp: valid_context_def story_context_of_def validate_contract_shape_def Let_def
        normalize_contract_defaults_def split: if_splits option.splits)

text \<open>
  For every valid story context, the phase list handed to the orchestrator contains the
  exploration phase exactly when \<open>should_run_exploration\<close> says so: the two routing rules,
  which the source computes by separate code, never disagree. The list always starts with
  setup and ends with implementation and closure.
\<close>
theorem routing_rules_agree:
  assumes "valid_context c"
  shows "(''exploration'' \<in> set (get_phases_for_story c) \<longleftrightarrow> should_run_exploration c)
    \<and> get_phases_for_story c =
        (if should_run_exploration c then [''setup'', ''exploration'', ''implementation'', ''closure'']
         else [''setup'', ''implementation'', ''closure''])"
  using valid_context_route [OF assms] valid_context_contract [OF assms]
  by (cases "sc_story_type c") (auto simp: routing_defs Let_def)

definition sample_context :: story_context where
  "sample_context = \<lparr>
     sc_project_key = ''ag3'', sc_story_number = 7, sc_story_id = ''AG3-007'',
     sc_story_type = StoryType_IMPLEMENTATION, sc_execution_route = Some StoryMode_EXPLORATION,
     sc_mode = Mode_STANDARD, sc_implementation_contract = Some Contract_STANDARD,
     sc_title = ''sample'', sc_project_root = Some ''/work/ag3'', sc_participating_repos = [''core''],
     sc_labels = [], sc_implementation_required = None, sc_closure_allowed = None,
     sc_story_done = None, sc_exploration_completed = None, sc_execution_pending = None\<rparr>"

lemma sample_context_valid: "valid_context sample_context"
  by code_simp

theorem routing_rules_agree_witness:
  "''exploration'' \<in> set (get_phases_for_story sample_context)"
  using routing_rules_agree [OF sample_context_valid]
  by (simp add: routing_defs sample_context_def)

end
