(* ===== verification/Phase_State.thy ===== *)
theory Phase_State
  imports Story_Context
begin

text \<open>
  The durable phase state (\<open>pipeline_engine/phase_executor/models.py\<close>): its payloads, its
  validators, and the validated copy \<open>evolve_phase_state\<close> through which the engine makes
  every state change; and the attempt record (\<open>records.py\<close>). Time stamps are UTC instants
  counted in microseconds, so the checks that reject a naive or non-UTC \<open>datetime\<close> have no
  counterpart here.
\<close>

section \<open>Payloads\<close>

definition is_hex :: "char \<Rightarrow> bool" where
  "is_hex c = (let n = of_char c in ((48::nat) \<le> n \<and> n \<le> 57) \<or> (97 \<le> n \<and> n \<le> 102))"

record verify_evidence_wait_cursor =
  vw_stage :: string
  vw_command_id :: string
  vw_candidate_digest :: string
  vw_implementation_attempt :: int
  vw_owner_session_id :: string
  vw_ownership_epoch :: int

record are_bundle_signal =
  ab_status :: are_bundle_status
  ab_requirement_count :: int

record implementation_payload =
  ip_qa_cycle_status :: qa_cycle_status
  ip_verify_context :: "qa_context option"
  ip_qa_cycle_round :: int
  ip_qa_cycle_id :: "string option"
  ip_evidence_epoch :: "int option"
  ip_evidence_fingerprint :: "string option"
  ip_verify_evidence_wait :: "verify_evidence_wait_cursor option"

record closure_progress =
  cp_integrity_passed :: bool
  cp_story_branch_pushed :: bool
  cp_merge_done :: bool
  cp_story_closed :: bool
  cp_metrics_written :: bool
  cp_postflight_done :: bool

record multi_repo_closure_state =
  mr_pre_merge_check_passed :: "string list"
  mr_pushed_repos :: "string list"
  mr_merged_repos :: "string list"
  mr_rolled_back_repos :: "string list"
  mr_failed_repo :: "string option"

datatype phase_payload =
    SetupPayload "are_bundle_signal option"
  | ExplorationPayload exploration_gate_status
  | ImplementationPayload implementation_payload
  | ClosurePayload closure_progress "multi_repo_closure_state option"

fun payload_phase_type :: "phase_payload \<Rightarrow> phase_name" where
  "payload_phase_type (SetupPayload _) = PhaseName_SETUP"
| "payload_phase_type (ExplorationPayload _) = PhaseName_EXPLORATION"
| "payload_phase_type (ImplementationPayload _) = PhaseName_IMPLEMENTATION"
| "payload_phase_type (ClosurePayload _ _) = PhaseName_CLOSURE"

definition verify_evidence_wait_ok :: "verify_evidence_wait_cursor \<Rightarrow> bool" where
  "verify_evidence_wait_ok w =
    (vw_stage w \<in> {''base_collection'', ''dynamic_requests''} \<and> vw_command_id w \<noteq> [] \<and>
     length (vw_candidate_digest w) = 64 \<and> list_all is_hex (vw_candidate_digest w) \<and>
     1 \<le> vw_implementation_attempt w \<and> vw_owner_session_id w \<noteq> [] \<and> 1 \<le> vw_ownership_epoch w)"

definition implementation_payload_ok :: "implementation_payload \<Rightarrow> bool" where
  "implementation_payload_ok p =
    (0 \<le> ip_qa_cycle_round p \<and>
     pred_option (\<lambda>i. length i = 12 \<and> list_all is_hex i) (ip_qa_cycle_id p) \<and>
     pred_option (\<lambda>f. length f = 64 \<and> list_all is_hex f) (ip_evidence_fingerprint p) \<and>
     pred_option verify_evidence_wait_ok (ip_verify_evidence_wait p) \<and>
     \<not> (ip_qa_cycle_id p \<noteq> None \<and> ip_qa_cycle_round p < 1))"

text \<open>
  \<open>_validate_checkpoint_order\<close>: each checkpoint needs the one before it. The first pair of
  the source reads \<open>integrity_passed\<close> against \<open>story_branch_pushed\<close>.
\<close>

definition ordered_checkpoints :: "closure_progress \<Rightarrow> (string \<times> bool \<times> bool) list" where
  "ordered_checkpoints p =
    [(''integrity_passed'', cp_integrity_passed p, cp_story_branch_pushed p),
     (''merge_done'', cp_merge_done p, cp_integrity_passed p),
     (''story_closed'', cp_story_closed p, cp_merge_done p),
     (''metrics_written'', cp_metrics_written p, cp_story_closed p),
     (''postflight_done'', cp_postflight_done p, cp_metrics_written p)]"

definition validate_checkpoint_order :: "closure_progress \<Rightarrow> exn + closure_progress" where
  "validate_checkpoint_order p =
    (case List.find (\<lambda>(_, current, previous). current \<and> \<not> previous) (ordered_checkpoints p) of
       Some (field_name, _, _) \<Rightarrow>
         Inl (ValidationError (field_name @ '' cannot be true before the previous closure checkpoint''))
     | None \<Rightarrow> Inr p)"

fun payload_ok :: "phase_payload \<Rightarrow> bool" where
  "payload_ok (SetupPayload s) = pred_option (\<lambda>s. 0 \<le> ab_requirement_count s) s"
| "payload_ok (ExplorationPayload _) = True"
| "payload_ok (ImplementationPayload p) = implementation_payload_ok p"
| "payload_ok (ClosurePayload p _) = (validate_checkpoint_order p = Inr p)"

section \<open>Phase state\<close>

record phase_memory =
  pm_exploration_review_rounds :: int
  pm_implementation_qa_feedback_rounds :: int

definition empty_memory :: phase_memory where
  "empty_memory = \<lparr>pm_exploration_review_rounds = 0, pm_implementation_qa_feedback_rounds = 0\<rparr>"

record phase_state_producer =
  pp_type :: string
  pp_name :: string

record phase_state =
  ps_schema_version :: string
  ps_story_id :: string
  ps_run_id :: string
  ps_phase :: phase_name
  ps_status :: phase_status
  ps_mode :: phase_state_mode
  ps_story_type :: story_type
  ps_attempt :: int
  ps_started_at :: int
  ps_phase_entered_at :: int
  ps_pause_reason :: "pause_reason option"
  ps_escalation_reason :: "escalation_reason option"
  ps_payload :: "phase_payload option"
  ps_memory :: phase_memory
  ps_review_round :: int
  ps_errors :: "string list"
  ps_warnings :: "string list"
  ps_producer :: phase_state_producer
  ps_attempt_id :: "string option"
  ps_agents_to_spawn :: "spawn_request list"

text \<open>
  \<open>UUID(value)\<close> of the standard library on a plain value: braces stripped, hyphens removed,
  32 hexadecimal digits left. The \<open>urn:uuid:\<close> prefix it also accepts is not read here.
\<close>

definition is_hex_digit :: "char \<Rightarrow> bool" where
  "is_hex_digit c = (is_hex c \<or> (let n = of_char c in (65::nat) \<le> n \<and> n \<le> 70))"

definition uuid_ok :: "string \<Rightarrow> bool" where
  "uuid_ok v =
    (let brace = (\<lambda>c. c \<in> {CHR ''{'', CHR ''}''});
         s = rev (dropWhile brace (rev (dropWhile brace v)));
         h = filter (\<lambda>c. c \<noteq> CHR ''-'') s in
       length h = 32 \<and> list_all is_hex_digit h)"

text \<open>Pydantic's validation of a whole \<open>PhaseState\<close>: the field validators, then the model's.\<close>

definition validate_phase_state :: "phase_state \<Rightarrow> exn + phase_state" where
  "validate_phase_state s =
    (if ps_schema_version s \<noteq> ''4.0'' then Inl (ValidationError (''schema_version must be '' @ py_repr ''4.0''))
     else if \<not> uuid_ok (ps_run_id s) then Inl (ValidationError ''run_id must be a UUID string'')
     else if ps_attempt s < 1 then Inl (ValidationError ''attempt must be >= 1'')
     else if \<not> pred_option payload_ok (ps_payload s) then Inl (ValidationError ''invalid payload'')
     else if \<not> pred_option (\<lambda>p. payload_phase_type p = ps_phase s) (ps_payload s)
     then Inl (ValidationError ''payload.phase_type must match phase'')
     else if pm_exploration_review_rounds (ps_memory s) < 0
             \<or> pm_implementation_qa_feedback_rounds (ps_memory s) < 0
     then Inl (ValidationError ''memory counters must be >= 0'')
     else if py_strip (pp_type (ps_producer s)) = [] \<or> py_strip (pp_name (ps_producer s)) = []
     then Inl (ValidationError ''producer fields must not be blank'')
     else if ps_pause_reason s \<noteq> None \<and> ps_status s \<noteq> PhaseStatus_PAUSED
     then Inl (ValidationError ''pause_reason may only be set when status is PAUSED'')
     else if ps_escalation_reason s \<noteq> None \<and> ps_status s \<noteq> PhaseStatus_ESCALATED
     then Inl (ValidationError ''escalation_reason may only be set when status is ESCALATED'')
     else Inr s)"

definition valid_state :: "phase_state \<Rightarrow> bool" where
  "valid_state s = (validate_phase_state s = Inr s)"

text \<open>
  \<open>evolve_phase_state(state, **updates)\<close>: dump, update, validate again. The updates are a
  function on the record.
\<close>

definition evolve_phase_state :: "phase_state \<Rightarrow> (phase_state \<Rightarrow> phase_state) \<Rightarrow> exn + phase_state" where
  "evolve_phase_state s updates = validate_phase_state (updates s)"

definition phase_state_mode_from_context :: "story_mode option \<Rightarrow> bool \<Rightarrow> phase_state_mode" where
  "phase_state_mode_from_context execution_route fast =
    (if fast then PhaseStateMode_FAST
     else case execution_route of
        None \<Rightarrow> PhaseStateMode_EXECUTION
      | Some StoryMode_EXECUTION \<Rightarrow> PhaseStateMode_EXECUTION
      | Some StoryMode_EXPLORATION \<Rightarrow> PhaseStateMode_EXPLORATION)"

record phase_state_spec =
  sp_story_id :: string
  sp_run_id :: string
  sp_phase :: string
  sp_status :: phase_status
  sp_mode :: phase_state_mode
  sp_story_type' :: story_type
  sp_attempt :: int
  sp_started_at :: int
  sp_phase_entered_at :: int
  sp_producer :: phase_state_producer

text \<open>
  \<open>build_phase_state_from_spec\<close> on the fields the runner gives; every other field takes its
  default. The phase is a string there, so an unknown name fails validation.
\<close>

definition build_phase_state_from_spec :: "phase_state_spec \<Rightarrow> exn + phase_state" where
  "build_phase_state_from_spec spec = (case phase_name_of (sp_phase spec) of
      None \<Rightarrow> Inl (ValidationError
        (''Input should be one of '' @ join '', '' (map (\<lambda>p. py_repr (phase_name_value p)) phase_names)))
    | Some p \<Rightarrow> validate_phase_state \<lparr>
        ps_schema_version = ''4.0'', ps_story_id = sp_story_id spec, ps_run_id = sp_run_id spec,
        ps_phase = p, ps_status = sp_status spec, ps_mode = sp_mode spec,
        ps_story_type = sp_story_type' spec, ps_attempt = sp_attempt spec,
        ps_started_at = sp_started_at spec, ps_phase_entered_at = sp_phase_entered_at spec,
        ps_pause_reason = None, ps_escalation_reason = None, ps_payload = None,
        ps_memory = empty_memory, ps_review_round = 0, ps_errors = [], ps_warnings = [],
        ps_producer = sp_producer spec, ps_attempt_id = None, ps_agents_to_spawn = []\<rparr>)"

section \<open>Attempt records\<close>

record attempt_record =
  ar_run_id :: string
  ar_phase :: phase_name
  ar_attempt :: int
  ar_outcome :: attempt_outcome
  ar_failure_cause :: "failure_cause option"
  ar_started_at :: int
  ar_ended_at :: int
  ar_detail :: "(string \<times> json) list option"

definition failure_outcomes :: "attempt_outcome list" where
  "failure_outcomes = [Outcome_FAILED, Outcome_BLOCKED, Outcome_ESCALATED]"

text \<open>The validators of \<open>AttemptRecord\<close>.\<close>

definition validate_attempt_record :: "attempt_record \<Rightarrow> exn + attempt_record" where
  "validate_attempt_record a =
    (if ar_attempt a < 1 then Inl (ValidationError ''attempt must be >= 1'')
     else if ar_outcome a \<in> set failure_outcomes \<and> ar_failure_cause a = None
     then Inl (ValidationError ''failure_cause must be set'')
     else if ar_outcome a \<notin> set failure_outcomes \<and> ar_failure_cause a \<noteq> None
     then Inl (ValidationError ''failure_cause must be None'')
     else if ar_ended_at a < ar_started_at a
     then Inl (ValidationError ''ended_at must be >= started_at'')
     else Inr a)"

definition attempt_ok :: "attempt_record \<Rightarrow> bool" where
  "attempt_ok a \<longleftrightarrow> 1 \<le> ar_attempt a
     \<and> (ar_outcome a \<in> set failure_outcomes \<longleftrightarrow> ar_failure_cause a \<noteq> None)
     \<and> ar_started_at a \<le> ar_ended_at a"

lemma validate_attempt_record_iff: "validate_attempt_record a = Inr b \<longleftrightarrow> b = a \<and> attempt_ok a"
  by (auto simp: validate_attempt_record_def attempt_ok_def)

section \<open>What validation guarantees\<close>

lemma validate_phase_state_id [simp]: "validate_phase_state s = Inr t \<Longrightarrow> t = s"
  by (auto simp: validate_phase_state_def split: if_splits)

lemma valid_state_iff: "validate_phase_state s = Inr t \<longleftrightarrow> t = s \<and> valid_state s"
  by (auto simp: valid_state_def)

lemma validate_cases:
  obtains (valid) "valid_state s" "validate_phase_state s = Inr s"
    | (invalid) m where "\<not> valid_state s" "validate_phase_state s = Inl (ValidationError m)"
  by (cases "validate_phase_state s")
     (auto simp: valid_state_def validate_phase_state_def split: if_splits)

lemma valid_state_reasons:
  assumes "valid_state s"
  shows "ps_pause_reason s \<noteq> None \<longrightarrow> ps_status s = PhaseStatus_PAUSED"
    and "ps_escalation_reason s \<noteq> None \<longrightarrow> ps_status s = PhaseStatus_ESCALATED"
    and "pred_option (\<lambda>p. payload_phase_type p = ps_phase s) (ps_payload s)"
  using assms by (auto simp: valid_state_def validate_phase_state_def split: if_splits)

text \<open>The updates the engine makes keep a valid state valid.\<close>

definition retire_updates ::
  "phase_name \<Rightarrow> phase_status \<Rightarrow> string list \<Rightarrow> string \<Rightarrow> phase_state \<Rightarrow> phase_state" where
  "retire_updates p st errs aid s = s\<lparr>ps_phase := p, ps_status := st, ps_pause_reason := None,
     ps_escalation_reason := None, ps_errors := errs, ps_attempt_id := Some aid\<rparr>"

lemma retire_updates_valid:
  assumes "valid_state s"
  shows "valid_state (retire_updates (ps_phase s) st errs aid s)"
  using assms
  by (auto simp: valid_state_def validate_phase_state_def retire_updates_def split: if_splits)

lemma retire_updates_sel [simp]:
  "ps_phase (retire_updates p st errs aid s) = p"
  "ps_status (retire_updates p st errs aid s) = st"
  "ps_story_id (retire_updates p st errs aid s) = ps_story_id s"
  "ps_run_id (retire_updates p st errs aid s) = ps_run_id s"
  "ps_payload (retire_updates p st errs aid s) = ps_payload s"
  "ps_errors (retire_updates p st errs aid s) = errs"
  "ps_attempt_id (retire_updates p st errs aid s) = Some aid"
  "ps_pause_reason (retire_updates p st errs aid s) = None"
  by (simp_all add: retire_updates_def)

text \<open>
  A closure payload that passes validation records a prefix of the closure checkpoints:
  \<open>postflight\<close> implies \<open>metrics\<close>, which implies \<open>story_closed\<close>, \<open>merge\<close>, \<open>integrity\<close> and
  finally the pushed story branch. The converse holds too: a progress record with these
  implications is accepted.
\<close>
theorem closure_checkpoints_form_a_prefix:
  "validate_checkpoint_order p = Inr p \<longleftrightarrow>
    (\<exists>n \<le> 6. [cp_story_branch_pushed p, cp_integrity_passed p, cp_merge_done p, cp_story_closed p,
              cp_metrics_written p, cp_postflight_done p]
            = replicate n True @ replicate (6 - n) False)"
proof -
  have six: "(\<exists>n \<le> 6. P n) \<longleftrightarrow> P 0 \<or> P 1 \<or> P 2 \<or> P 3 \<or> P 4 \<or> P 5 \<or> P (6::nat)" for P
    by (auto simp: le_Suc_eq numeral_eq_Suc)
  show ?thesis
    unfolding six
    by (cases "cp_story_branch_pushed p"; cases "cp_integrity_passed p"; cases "cp_merge_done p";
        cases "cp_story_closed p"; cases "cp_metrics_written p"; cases "cp_postflight_done p")
       (simp_all add: validate_checkpoint_order_def ordered_checkpoints_def numeral_eq_Suc)
qed

end
