(* ===== verification/Flow_Model.thy ===== *)
theory Flow_Model
  imports Phase_State
begin

text \<open>
  The process language: flow definitions (\<open>process/language/model.py\<close>, \<open>gates.py\<close>, the guard
  type of \<open>guards.py\<close>) and the fluent builder that constructs them (\<open>builder.py\<close>).
\<close>

section \<open>Guards, gates, nodes and edges\<close>

record guard_result =
  passed :: bool
  reason :: "string option"

definition guard_pass :: guard_result where
  "guard_pass = \<lparr>passed = True, reason = None\<rparr>"

definition guard_fail :: "string \<Rightarrow> guard_result" where
  "guard_fail r = \<lparr>passed = False, reason = Some r\<rparr>"

text \<open>A guard function with the name the \<open>@guard\<close> decorator binds to it. A guard may raise.\<close>

record guard_fn =
  guard_name :: string
  guard_run :: "story_context \<Rightarrow> phase_state \<Rightarrow> exn + guard_result"

datatype flow_level = FlowLevel_PIPELINE | FlowLevel_PHASE | FlowLevel_COMPONENT

fun flow_level_value :: "flow_level \<Rightarrow> string" where
  "flow_level_value FlowLevel_PIPELINE = ''pipeline''"
| "flow_level_value FlowLevel_PHASE = ''phase''"
| "flow_level_value FlowLevel_COMPONENT = ''component''"

datatype node_kind = Node_STEP | Node_GATE | Node_YIELD | Node_BRANCH | Node_SUBFLOW

datatype execution_policy = ALWAYS | ONCE_PER_RUN | ONCE_PER_STORY | UNTIL_SUCCESS | SKIP_AFTER_SUCCESS

fun execution_policy_value :: "execution_policy \<Rightarrow> string" where
  "execution_policy_value ALWAYS = ''always''"
| "execution_policy_value ONCE_PER_RUN = ''once_per_run''"
| "execution_policy_value ONCE_PER_STORY = ''once_per_story''"
| "execution_policy_value UNTIL_SUCCESS = ''until_success''"
| "execution_policy_value SKIP_AFTER_SUCCESS = ''skip_after_success''"

record retry_policy =
  max_attempts :: "int option"
  backtrack_target :: "string option"
  cooldown_policy :: "string option"

record override_policy =
  allow_skip :: bool
  allow_force_pass :: bool
  allow_force_fail :: bool
  allow_jump :: bool
  allow_truncate :: bool
  allow_freeze_retries :: bool

definition default_override_policy :: override_policy where
  "default_override_policy = \<lparr>allow_skip = False, allow_force_pass = False, allow_force_fail = False,
     allow_jump = False, allow_truncate = False, allow_freeze_retries = False\<rparr>"

datatype exploration_gate_stage = DOC_FIDELITY | DESIGN_REVIEW | DESIGN_CHALLENGE

record exploration_gate_stage_spec =
  gs_stage_id :: exploration_gate_stage
  gs_yield_point :: string
  gs_required :: bool
  gs_rollback_on_fail :: bool

record yield_point =
  yp_status :: string
  resume_triggers :: "string list"
  required_artifacts :: "string list"
  timeout_policy :: "string option"
  gate_stage :: "exploration_gate_stage_spec option"

record gate_stage_def =
  gst_name :: string
  gst_actor :: string
  gst_evidence :: "string list"
  gst_outcomes :: "string list"
  gst_condition :: "guard_fn option"
  gst_risk_triggers :: "string list"

record gate =
  gate_id :: string
  gate_stages :: "gate_stage_def list"
  gate_max_remediation_rounds :: int
  gate_on_max_exceeded :: string
  gate_final_aggregation :: string

record precondition =
  pc_guard :: guard_fn
  pc_when :: "(story_context \<Rightarrow> phase_state \<Rightarrow> exn + bool) option"

record hook_points =
  pre_transition :: "string list"
  post_transition :: "string list"
  on_yield :: "string list"
  on_escalate :: "string list"

definition no_hooks :: hook_points where
  "no_hooks = \<lparr>pre_transition = [], post_transition = [], on_yield = [], on_escalate = []\<rparr>"

record node_definition =
  nd_name :: string
  nd_kind :: node_kind
  nd_handler_ref :: "string option"
  nd_execution_policy :: execution_policy
  nd_retry_policy :: "retry_policy option"
  nd_override_policy :: override_policy
  nd_guards :: "guard_fn list"
  nd_gates :: "gate list"
  nd_yield_points :: "yield_point list"
  nd_preconditions :: "precondition list"
  nd_max_remediation_rounds :: "int option"
  nd_substates :: "string list"

record edge_rule =
  er_source :: string
  er_target :: string
  er_guard :: "guard_fn option"
  er_resume_policy :: "string option"
  er_priority :: int

record flow_definition =
  flow_id :: string
  flow_level :: flow_level
  flow_owner :: string
  flow_nodes :: "node_definition list"
  flow_edges :: "edge_rule list"
  flow_hooks :: hook_points

definition get_node :: "flow_definition \<Rightarrow> string \<Rightarrow> node_definition option" where
  "get_node w name = List.find (\<lambda>n. nd_name n = name) (flow_nodes w)"

text \<open>
  \<open>sorted(matches, key=priority, reverse=True)\<close>: descending priority, and among equal
  priorities the order of definition, since Python's sort stays stable when reversed.
\<close>

definition get_edges_from :: "flow_definition \<Rightarrow> string \<Rightarrow> edge_rule list" where
  "get_edges_from w node =
     sort_key (\<lambda>e. - er_priority e) (filter (\<lambda>e. er_source e = node) (flow_edges w))"

definition node_names :: "flow_definition \<Rightarrow> string list" where
  "node_names w = map nd_name (flow_nodes w)"

lemma get_node_name: "get_node w name = Some n \<Longrightarrow> nd_name n = name \<and> n \<in> set (flow_nodes w)"
  by (auto simp: get_node_def dest: find_SomeD)

lemma get_node_in_names: "(\<exists>n. get_node w name = Some n) \<longleftrightarrow> name \<in> set (node_names w)"
proof -
  have "(\<exists>n. List.find (\<lambda>n. nd_name n = name) xs = Some n) \<longleftrightarrow> name \<in> nd_name ` set xs" for xs
    by (induction xs) auto
  then show ?thesis by (simp add: get_node_def node_names_def)
qed

lemma set_get_edges_from [simp]:
  "set (get_edges_from w n) = {e \<in> set (flow_edges w). er_source e = n}"
  by (auto simp: get_edges_from_def)

lemma edges_by_priority:
  assumes "\<forall>e \<in> set (flow_edges w). er_priority e = p"
  shows "get_edges_from w n = filter (\<lambda>e. er_source e = n) (flow_edges w)"
proof -
  have "sorted (map (\<lambda>e. - er_priority e) (filter (\<lambda>e. er_source e = n) (flow_edges w)))"
    by (rule sorted_map_const [of _ _ "- p"]) (use assms in auto)
  then show ?thesis by (simp add: get_edges_from_def sort_key_id_if_sorted)
qed

section \<open>The builder\<close>

text \<open>
  The builder's state. The accumulator of a phase has the fields of a node definition, so it
  is one; \<open>_current_phase\<close>, a reference into \<open>_phases\<close>, is the position it refers to.
\<close>

record workflow_builder =
  wb_name :: string
  wb_level :: flow_level
  wb_owner :: string
  wb_phases :: "node_definition list"
  wb_transitions :: "edge_rule list"
  wb_hooks :: hook_points
  wb_current :: "nat option"

type_synonym builder_op = "workflow_builder \<Rightarrow> exn + workflow_builder"

definition workflow :: "string \<Rightarrow> workflow_builder" where
  "workflow name = \<lparr>wb_name = name, wb_level = FlowLevel_PIPELINE, wb_owner = ''PipelineEngine'',
     wb_phases = [], wb_transitions = [], wb_hooks = no_hooks, wb_current = None\<rparr>"

definition new_accumulator :: "string \<Rightarrow> node_definition" where
  "new_accumulator name = \<lparr>nd_name = name, nd_kind = Node_SUBFLOW, nd_handler_ref = None,
     nd_execution_policy = ALWAYS, nd_retry_policy = None,
     nd_override_policy = default_override_policy, nd_guards = [], nd_gates = [],
     nd_yield_points = [], nd_preconditions = [], nd_max_remediation_rounds = None,
     nd_substates = []\<rparr>"

definition b_level :: "flow_level \<Rightarrow> builder_op" where
  "b_level l b = Inr (b\<lparr>wb_level := l\<rparr>)"

definition b_owner :: "string \<Rightarrow> builder_op" where
  "b_owner o' b = Inr (b\<lparr>wb_owner := o'\<rparr>)"

definition b_node :: "string \<Rightarrow> node_kind \<Rightarrow> string option \<Rightarrow> builder_op" where
  "b_node name kind handler_ref b =
    (if name \<in> nd_name ` set (wb_phases b)
     then Inl (WorkflowError (''Duplicate phase name: '' @ quote @ name @ quote))
     else Inr (b\<lparr>wb_phases := wb_phases b @
                  [(new_accumulator name)\<lparr>nd_kind := kind, nd_handler_ref := handler_ref\<rparr>],
                 wb_current := Some (length (wb_phases b))\<rparr>))"

definition b_phase :: "string \<Rightarrow> builder_op" where
  "b_phase name b =
    (if name \<in> nd_name ` set (wb_phases b)
     then Inl (WorkflowError (''Duplicate phase name: '' @ quote @ name @ quote))
     else Inr (b\<lparr>wb_phases := wb_phases b @ [new_accumulator name],
                 wb_current := Some (length (wb_phases b))\<rparr>))"

text \<open>
  \<open>_require_current_phase\<close> and the mutation of the current accumulator, which every
  phase-scoped method starts with.
\<close>

definition on_current :: "string \<Rightarrow> (node_definition \<Rightarrow> node_definition) \<Rightarrow> builder_op" where
  "on_current method f b = (case wb_current b of
      None \<Rightarrow> Inl (WorkflowError
        (''Cannot call .'' @ method @ ''() before defining a phase with .phase().''))
    | Some i \<Rightarrow> Inr (b\<lparr>wb_phases := (wb_phases b)[i := f (wb_phases b ! i)]\<rparr>))"

definition b_execution_policy :: "execution_policy \<Rightarrow> builder_op" where
  "b_execution_policy p = on_current ''execution_policy'' (\<lambda>n. n\<lparr>nd_execution_policy := p\<rparr>)"

definition b_retry_policy :: "int option \<Rightarrow> string option \<Rightarrow> string option \<Rightarrow> builder_op" where
  "b_retry_policy ma bt cd = on_current ''retry_policy''
     (\<lambda>n. n\<lparr>nd_retry_policy := Some \<lparr>max_attempts = ma, backtrack_target = bt, cooldown_policy = cd\<rparr>\<rparr>)"

definition b_override_policy :: "override_policy \<Rightarrow> builder_op" where
  "b_override_policy p = on_current ''override_policy'' (\<lambda>n. n\<lparr>nd_override_policy := p\<rparr>)"

definition b_guard :: "guard_fn \<Rightarrow> builder_op" where
  "b_guard g = on_current ''guard'' (\<lambda>n. n\<lparr>nd_guards := nd_guards n @ [g]\<rparr>)"

definition b_gate :: "gate \<Rightarrow> builder_op" where
  "b_gate g = on_current ''gate'' (\<lambda>n. n\<lparr>nd_gates := nd_gates n @ [g]\<rparr>)"

text \<open>\<open>yield_to(target, on=...)\<close>; the target is informational and not stored.\<close>

definition b_yield_to ::
  "string \<Rightarrow> string \<Rightarrow> string list option \<Rightarrow> string list option \<Rightarrow> string option
    \<Rightarrow> exploration_gate_stage_spec option \<Rightarrow> builder_op" where
  "b_yield_to target on triggers artifacts timeout stage = on_current ''yield_to''
     (\<lambda>n. n\<lparr>nd_yield_points := nd_yield_points n @
        [\<lparr>yp_status = on,
          resume_triggers = (case triggers of None \<Rightarrow> [] | Some ts \<Rightarrow> ts),
          required_artifacts = (case artifacts of None \<Rightarrow> [] | Some xs \<Rightarrow> xs),
          timeout_policy = timeout, gate_stage = stage\<rparr>]\<rparr>)"

definition b_precondition ::
  "guard_fn \<Rightarrow> (story_context \<Rightarrow> phase_state \<Rightarrow> exn + bool) option \<Rightarrow> builder_op" where
  "b_precondition g w = on_current ''precondition''
     (\<lambda>n. n\<lparr>nd_preconditions := nd_preconditions n @ [\<lparr>pc_guard = g, pc_when = w\<rparr>]\<rparr>)"

definition b_max_remediation_rounds :: "int \<Rightarrow> builder_op" where
  "b_max_remediation_rounds k = on_current ''max_remediation_rounds''
     (\<lambda>n. n\<lparr>nd_max_remediation_rounds := Some k\<rparr>)"

definition b_substates :: "string list \<Rightarrow> builder_op" where
  "b_substates ss = on_current ''substates'' (\<lambda>n. n\<lparr>nd_substates := ss\<rparr>)"

definition b_transition :: "string \<Rightarrow> string \<Rightarrow> guard_fn option \<Rightarrow> string option \<Rightarrow> builder_op" where
  "b_transition source target g rp b = Inr (b\<lparr>wb_transitions := wb_transitions b @
     [\<lparr>er_source = source, er_target = target, er_guard = g, er_resume_policy = rp, er_priority = 0\<rparr>]\<rparr>)"

definition b_hooks :: "hook_points \<Rightarrow> builder_op" where
  "b_hooks h b = Inr (b\<lparr>wb_hooks := h\<rparr>)"

text \<open>The first transition with an unknown endpoint, source before target.\<close>

fun check_endpoints :: "string list \<Rightarrow> edge_rule list \<Rightarrow> exn + unit" where
  "check_endpoints names [] = Inr ()"
| "check_endpoints names (tr # trs) =
    (if er_source tr \<notin> set names
     then Inl (WorkflowError (''Transition source '' @ py_repr (er_source tr) @ '' is not a defined phase.''))
     else if er_target tr \<notin> set names
     then Inl (WorkflowError (''Transition target '' @ py_repr (er_target tr) @ '' is not a defined phase.''))
     else check_endpoints names trs)"

definition build :: "workflow_builder \<Rightarrow> exn + flow_definition" where
  "build b =
    (if wb_phases b = [] then Inl (WorkflowError ''Cannot build workflow: no phases defined.'')
     else case check_endpoints (map nd_name (wb_phases b)) (wb_transitions b) of
        Inl e \<Rightarrow> Inl e
      | Inr _ \<Rightarrow> Inr \<lparr>flow_id = wb_name b, flow_level = wb_level b, flow_owner = wb_owner b,
                     flow_nodes = wb_phases b, flow_edges = wb_transitions b,
                     flow_hooks = wb_hooks b\<rparr>)"

text \<open>A fluent chain \<open>b.m1().m2()...\<close>: the methods in order, up to the first raise.\<close>

fun chain :: "builder_op list \<Rightarrow> builder_op" where
  "chain [] b = Inr b"
| "chain (m # ms) b = (case m b of Inl e \<Rightarrow> Inl e | Inr b' \<Rightarrow> chain ms b')"

definition chain_build :: "builder_op list \<Rightarrow> workflow_builder \<Rightarrow> exn + flow_definition" where
  "chain_build ms b = (case chain ms b of Inl e \<Rightarrow> Inl e | Inr b' \<Rightarrow> build b')"

section \<open>The builder's invariant\<close>

definition builder_ok :: "workflow_builder \<Rightarrow> bool" where
  "builder_ok b \<longleftrightarrow> distinct (map nd_name (wb_phases b))
     \<and> pred_option (\<lambda>i. i < length (wb_phases b)) (wb_current b)"

text \<open>Every public method of the builder, as one vocabulary.\<close>

inductive builder_method :: "builder_op \<Rightarrow> bool" where
  "builder_method (b_level l)"
| "builder_method (b_owner w)"
| "builder_method (b_phase n)"
| "builder_method (b_node n k h)"
| "builder_method (b_execution_policy p)"
| "builder_method (b_retry_policy ma bt cd)"
| "builder_method (b_override_policy op)"
| "builder_method (b_guard g)"
| "builder_method (b_gate ga)"
| "builder_method (b_yield_to t on tr ar ti st)"
| "builder_method (b_precondition g wh)"
| "builder_method (b_max_remediation_rounds k)"
| "builder_method (b_substates ss)"
| "builder_method (b_transition s t gd rp)"
| "builder_method (b_hooks h)"

lemma builder_ok_workflow [simp]: "builder_ok (workflow n)"
  by (simp add: builder_ok_def workflow_def)

lemma on_current_ok:
  assumes "builder_ok b" and "on_current m f b = Inr b'" and "\<And>n. nd_name (f n) = nd_name n"
  shows "builder_ok b'"
  using assms
  by (auto simp: on_current_def builder_ok_def map_update split: option.splits)
     (metis length_map list_update_id nth_map)

lemmas phase_scoped_defs = b_execution_policy_def b_retry_policy_def b_override_policy_def
  b_guard_def b_gate_def b_yield_to_def b_precondition_def b_max_remediation_rounds_def
  b_substates_def

lemma builder_method_ok:
  assumes "builder_method m" and "builder_ok b" and "m b = Inr b'"
  shows "builder_ok b'"
  using assms(1)
proof cases
  case (3 n)
  with assms(2,3) show ?thesis
    by (auto simp: b_phase_def builder_ok_def new_accumulator_def split: if_splits)
next
  case (4 n k h)
  with assms(2,3) show ?thesis
    by (auto simp: b_node_def builder_ok_def new_accumulator_def split: if_splits)
qed (use assms(2,3) in \<open>auto simp: phase_scoped_defs b_level_def b_owner_def b_transition_def
      b_hooks_def builder_ok_def dest!: on_current_ok [unfolded builder_ok_def, rotated]\<close>)

lemma chain_ok:
  assumes "list_all builder_method ms" and "builder_ok b" and "chain ms b = Inr b'"
  shows "builder_ok b'"
  using assms
  by (induction ms arbitrary: b) (auto split: sum.splits intro: builder_method_ok)

lemma check_endpoints_iff:
  "check_endpoints names trs = Inr () \<longleftrightarrow>
     (\<forall>t \<in> set trs. er_source t \<in> set names \<and> er_target t \<in> set names)"
  by (induction trs) auto

definition flow_closed :: "flow_definition \<Rightarrow> bool" where
  "flow_closed w \<longleftrightarrow> flow_nodes w \<noteq> [] \<and> distinct (node_names w)
     \<and> (\<forall>e \<in> set (flow_edges w). er_source e \<in> set (node_names w) \<and> er_target e \<in> set (node_names w))"

lemma build_closed:
  assumes "builder_ok b" and "build b = Inr w"
  shows "flow_closed w"
  using assms
  by (auto simp: build_def flow_closed_def node_names_def builder_ok_def split: if_splits sum.splits
      dest!: check_endpoints_iff [THEN iffD1, rotated] simp: check_endpoints_iff [symmetric] old.unit.exhaust)

text \<open>No method but \<open>build\<close> reads or writes the builder's name.\<close>

lemma builder_method_name:
  assumes "builder_method m" and "m b = Inr b'"
  shows "wb_name b' = wb_name b"
  using assms
  by cases (auto simp: phase_scoped_defs b_level_def b_owner_def b_phase_def b_node_def
      b_transition_def b_hooks_def on_current_def split: if_splits option.splits)

lemma chain_name: "list_all builder_method ms \<Longrightarrow> chain ms b = Inr b' \<Longrightarrow> wb_name b' = wb_name b"
  by (induction ms arbitrary: b) (auto split: sum.splits dest: builder_method_name)

text \<open>
  C9. Any chain of builder calls that ends in a successful \<open>build\<close> yields a well-formed flow
  of the builder's name: at least one node, no two nodes of the same name, and no edge from or
  to a node that is not defined. In such a flow the lookup of a node by name finds the one
  node of that name.
\<close>
theorem built_flow_is_closed:
  assumes "list_all builder_method ms" and "chain_build ms (workflow name) = Inr w"
  shows "flow_closed w \<and> flow_id w = name
    \<and> (\<forall>n \<in> set (flow_nodes w). get_node w (nd_name n) = Some n)"
proof -
  obtain b where b: "chain ms (workflow name) = Inr b" "build b = Inr w"
    using assms(2) by (auto simp: chain_build_def split: sum.splits)
  have "builder_ok b" using chain_ok [OF assms(1) _ b(1)] by simp
  then have closed: "flow_closed w" using b(2) by (rule build_closed)
  have "wb_name b = name" using chain_name [OF assms(1) b(1)] by (simp add: workflow_def)
  then have "flow_id w = name" using b(2) by (auto simp: build_def split: if_splits sum.splits)
  moreover have "get_node w (nd_name n) = Some n" if "n \<in> set (flow_nodes w)" for n
    using closed that unfolding flow_closed_def node_names_def get_node_def
    by (intro distinct_find_unique) auto
  ultimately show ?thesis using closed by blast
qed

theorem built_flow_is_closed_witness:
  "\<exists>w. chain_build [b_phase ''setup'', b_phase ''run'', b_transition ''setup'' ''run'' None None]
         (workflow ''demo'') = Inr w \<and> flow_closed w"
proof -
  let ?ms = "[b_phase ''setup'', b_phase ''run'', b_transition ''setup'' ''run'' None None]"
  have m: "list_all builder_method ?ms" by (simp add: builder_method.intros)
  obtain w where w: "chain_build ?ms (workflow ''demo'') = Inr w"
    by (simp add: chain_build_def b_phase_def b_transition_def workflow_def build_def new_accumulator_def)
  show ?thesis using built_flow_is_closed [OF m w] w by blast
qed

text \<open>
  The edges leaving a node are tried in descending priority, and edges of equal priority
  in the order they were added to the flow: the reversed sort of the source is stable.
\<close>
theorem edges_sorted_by_priority_stably:
  "sorted_wrt (\<lambda>e f. er_priority f \<le> er_priority e) (get_edges_from w n)
   \<and> filter (\<lambda>e. er_priority e = p) (get_edges_from w n)
       = filter (\<lambda>e. er_source e = n \<and> er_priority e = p) (flow_edges w)"
proof
  let ?k = "\<lambda>e. - er_priority e"
  have "sorted (map ?k (get_edges_from w n))"
    by (simp add: get_edges_from_def)
  then show "sorted_wrt (\<lambda>e f. er_priority f \<le> er_priority e) (get_edges_from w n)"
    by (simp add: sorted_map)
  have "filter (\<lambda>e. ?k e = - p) (get_edges_from w n)
      = filter (\<lambda>e. ?k e = - p) (filter (\<lambda>e. er_source e = n) (flow_edges w))"
    unfolding get_edges_from_def by (rule sort_key_stable)
  then show "filter (\<lambda>e. er_priority e = p) (get_edges_from w n)
       = filter (\<lambda>e. er_source e = n \<and> er_priority e = p) (flow_edges w)"
    by (simp add: conj_commute)
qed

end
