(* ===== verification/Flow_Validator.thy ===== *)
theory Flow_Validator
  imports Flow_Model
begin

text \<open>
  The structural validator of flows (\<open>process/language/validators.py\<close>). Python iterates over
  sets in an order the language does not fix. The model takes that order as a parameter,
  \<open>it\<close>: a function from a set to the list of its elements in iteration order. The locale
  \<open>set_order\<close> states what Python guarantees of it.
\<close>

type_synonym set_iter = "string set \<Rightarrow> string list"

definition py_iter :: "set_iter \<Rightarrow> string set \<Rightarrow> string list" where
  "py_iter it S = filter (\<lambda>x. x \<in> S) (it S)"

locale set_order =
  fixes it :: set_iter
  assumes visits_all: "finite S \<Longrightarrow> S \<subseteq> set (it S)"
begin

lemma set_py_iter [simp]: "finite S \<Longrightarrow> set (py_iter it S) = S"
  using visits_all [of S] by (auto simp: py_iter_def)

end

interpretation sorted_order: set_order "sorted_list_of_set :: string set \<Rightarrow> string list"
  by unfold_locales simp

section \<open>Breadth-first reachability\<close>

text \<open>
  \<open>_build_adjacency\<close>: the dictionary is kept as the edges that pass its filter; a lookup
  collects the set that the loop over the transitions would have accumulated.
\<close>

definition build_adjacency :: "edge_rule list \<Rightarrow> string set \<Rightarrow> edge_rule list" where
  "build_adjacency trs names = filter (\<lambda>t. er_source t \<in> names \<and> er_target t \<in> names) trs"

definition adjacency_get :: "edge_rule list \<Rightarrow> string \<Rightarrow> string set" where
  "adjacency_get adj n = set (map er_target (filter (\<lambda>t. er_source t = n) adj))"

lemma finite_adjacency_get [simp]: "finite (adjacency_get adj n)"
  by (simp add: adjacency_get_def)

definition edge_nodes :: "edge_rule list \<Rightarrow> string set" where
  "edge_nodes adj = er_source ` set adj \<union> er_target ` set adj"

lemma adjacency_get_outside: "n \<notin> edge_nodes adj \<Longrightarrow> adjacency_get adj n = {}"
  by (auto simp: adjacency_get_def edge_nodes_def)

text \<open>The \<open>while queue\<close> loop of \<open>_reachable_from\<close>.\<close>

function bfs_loop :: "set_iter \<Rightarrow> edge_rule list \<Rightarrow> string list \<Rightarrow> string set \<Rightarrow> string set" where
  "bfs_loop it adj [] visited = visited"
| "bfs_loop it adj (node # queue) visited =
     (if node \<in> visited then bfs_loop it adj queue visited
      else let visited' = insert node visited in
        bfs_loop it adj (queue @ py_iter it (adjacency_get adj node - visited')) visited')"
  by pat_completeness auto
termination
proof (relation "inv_image (less_than <*lex*> less_than)
    (\<lambda>(it, adj, queue, visited). (card (edge_nodes adj - visited), length queue))", goal_cases)
  case (3 it adj node queue visited visited')
  show ?case
  proof (cases "node \<in> edge_nodes adj")
    case True
    have "card (edge_nodes adj - visited') < card (edge_nodes adj - visited)"
      by (rule psubset_card_mono) (use 3 True in \<open>auto simp: edge_nodes_def\<close>)
    then show ?thesis by simp
  next
    case False
    then have "edge_nodes adj - visited' = edge_nodes adj - visited" using 3 by auto
    then show ?thesis by (simp add: adjacency_get_outside [OF False] py_iter_def)
  qed
qed auto

definition reachable_from :: "set_iter \<Rightarrow> string \<Rightarrow> edge_rule list \<Rightarrow> string set" where
  "reachable_from it start adj = bfs_loop it adj (py_iter it (adjacency_get adj start)) {}"

definition edge_rel :: "edge_rule list \<Rightarrow> (string \<times> string) set" where
  "edge_rel adj = {(er_source t, er_target t) | t. t \<in> set adj}"

lemma adjacency_get_edge_rel: "adjacency_get adj n = edge_rel adj `` {n}"
  by (auto simp: adjacency_get_def edge_rel_def)

lemma bfs_loop_sound:
  "bfs_loop it adj queue visited \<subseteq> visited \<union> (edge_rel adj)\<^sup>* `` set queue"
proof (induction it adj queue visited rule: bfs_loop.induct)
  case (2 it adj node queue visited)
  show ?case
  proof (cases "node \<in> visited")
    case True
    with 2(1) show ?thesis by auto
  next
    case False
    have step: "set (py_iter it (adjacency_get adj node - insert node visited)) \<subseteq> edge_rel adj `` {node}"
      by (auto simp: py_iter_def adjacency_get_edge_rel)
    have "bfs_loop it adj (node # queue) visited
        \<subseteq> insert node visited \<union> (edge_rel adj)\<^sup>* ``
            set (queue @ py_iter it (adjacency_get adj node - insert node visited))"
      using 2(2) [OF False refl] False by (simp add: Let_def)
    also have "\<dots> \<subseteq> visited \<union> (edge_rel adj)\<^sup>* `` set (node # queue)"
      using step by (auto intro: converse_rtrancl_into_rtrancl)
    finally show ?thesis .
  qed
qed simp

lemma bfs_loop_mono: "visited \<union> set queue \<subseteq> bfs_loop it adj queue visited"
proof (induction it adj queue visited rule: bfs_loop.induct)
  case (2 it adj node queue visited)
  then show ?case by (cases "node \<in> visited") (auto simp: Let_def)
qed simp

lemma bfs_loop_closed:
  assumes "set_order it" and "edge_rel adj `` visited \<subseteq> visited \<union> set queue"
  shows "edge_rel adj `` bfs_loop it adj queue visited \<subseteq> bfs_loop it adj queue visited"
  using assms
proof (induction it adj queue visited rule: bfs_loop.induct)
  case (2 it adj node queue visited)
  show ?case
  proof (cases "node \<in> visited")
    case True
    then show ?thesis using 2(1) [OF True 2(3)] 2(4) by auto
  next
    case False
    have "edge_rel adj `` insert node visited
        \<subseteq> insert node visited \<union> set (queue @ py_iter it (adjacency_get adj node - insert node visited))"
      using 2(4) unfolding set_append set_order.set_py_iter [OF 2(3) finite_Diff [OF finite_adjacency_get]]
      by (auto simp: adjacency_get_edge_rel)
    then show ?thesis using 2(2) [OF False refl 2(3)] False by (simp add: Let_def)
  qed
qed simp

context set_order
begin

lemma reachable_from_trancl: "reachable_from it start adj = (edge_rel adj)\<^sup>+ `` {start}"
proof
  have q: "(edge_rel adj)\<^sup>* `` set (py_iter it (adjacency_get adj start)) = (edge_rel adj)\<^sup>+ `` {start}"
    unfolding set_py_iter [OF finite_adjacency_get] unfolding adjacency_get_edge_rel
    by (auto simp: trancl_unfold_left)
  show "reachable_from it start adj \<subseteq> (edge_rel adj)\<^sup>+ `` {start}"
    using bfs_loop_sound [of it adj "py_iter it (adjacency_get adj start)" "{}"] q
    by (simp add: reachable_from_def)
  have closed: "edge_rel adj `` reachable_from it start adj \<subseteq> reachable_from it start adj"
    unfolding reachable_from_def by (rule bfs_loop_closed [OF set_order_axioms]) simp
  have base: "edge_rel adj `` {start} \<subseteq> reachable_from it start adj"
    using bfs_loop_mono [of "{}" "py_iter it (adjacency_get adj start)" it adj]
    unfolding set_py_iter [OF finite_adjacency_get] reachable_from_def
    by (simp add: adjacency_get_edge_rel [symmetric])
  show "(edge_rel adj)\<^sup>+ `` {start} \<subseteq> reachable_from it start adj"
  proof clarify
    fix x
    assume "(start, x) \<in> (edge_rel adj)\<^sup>+"
    then show "x \<in> reachable_from it start adj"
      by (induction rule: trancl_induct) (use base closed in auto)
  qed
qed

end

section \<open>The checks\<close>

record validation_error =
  ve_message :: string
  ve_severity :: string

definition validation_error :: "string \<Rightarrow> validation_error" where
  "validation_error m = \<lparr>ve_message = m, ve_severity = ''error''\<rparr>"

definition validate_transition_endpoints :: "edge_rule list \<Rightarrow> string set \<Rightarrow> validation_error list" where
  "validate_transition_endpoints trs names = concat (map (\<lambda>t.
     (if er_source t \<notin> names
      then [validation_error (''Transition source '' @ py_repr (er_source t) @ '' is not a defined phase.'')]
      else []) @
     (if er_target t \<notin> names
      then [validation_error (''Transition target '' @ py_repr (er_target t) @ '' is not a defined phase.'')]
      else [])) trs)"

definition validate_reachability ::
  "set_iter \<Rightarrow> string \<Rightarrow> string set \<Rightarrow> edge_rule list \<Rightarrow> validation_error list" where
  "validate_reachability it first_phase names adj =
    (let reachable = reachable_from it first_phase adj in
     map (\<lambda>n. validation_error (''Phase '' @ py_repr n @ '' is not reachable from the first phase ''
               @ py_repr first_phase @ ''.''))
       (filter (\<lambda>n. n \<noteq> first_phase \<and> n \<notin> reachable) (py_iter it names)))"

definition validate_last_phase_transition ::
  "edge_rule list \<Rightarrow> string set \<Rightarrow> string \<Rightarrow> nat \<Rightarrow> validation_error list" where
  "validate_last_phase_transition trs names last_phase phase_count =
    (if phase_count \<le> 1 then []
     else let targets_last = list_ex (\<lambda>t. er_target t = last_phase)
                (filter (\<lambda>t. er_source t \<in> names \<and> er_target t \<in> names) trs) in
       if targets_last then []
       else [validation_error (''No transition leads to the last phase '' @ py_repr last_phase @ ''.'')])"

definition validate_yield_points :: "node_definition list \<Rightarrow> validation_error list" where
  "validate_yield_points phases = concat (map (\<lambda>p. concat (map (\<lambda>yp.
     if resume_triggers yp = []
     then [validation_error (''YieldPoint '' @ py_repr (yp_status yp) @ '' in phase ''
             @ py_repr (nd_name p) @ '' has no resume triggers.'')]
     else []) (nd_yield_points p))) phases)"

definition validate_phase_connectivity ::
  "set_iter \<Rightarrow> edge_rule list \<Rightarrow> string set \<Rightarrow> string \<Rightarrow> string \<Rightarrow> validation_error list" where
  "validate_phase_connectivity it trs names first_phase last_phase =
    (let inner = filter (\<lambda>t. er_source t \<in> names \<and> er_target t \<in> names) trs;
         outgoing = (\<lambda>n. length (filter (\<lambda>t. er_source t = n) inner));
         incoming = (\<lambda>n. length (filter (\<lambda>t. er_target t = n) inner)) in
     map (\<lambda>n. validation_error (''Phase '' @ py_repr n @ '' has no incoming or outgoing transitions.''))
       (filter (\<lambda>n. n \<noteq> first_phase \<and> n \<noteq> last_phase \<and> incoming n = 0 \<and> outgoing n = 0)
          (py_iter it names)))"

definition validate :: "set_iter \<Rightarrow> flow_definition \<Rightarrow> validation_error list" where
  "validate it w =
    (if flow_nodes w = [] then [validation_error ''Workflow has no phases defined.'']
     else let names = set (node_names w);
              first_phase = nd_name (hd (flow_nodes w));
              last_phase = nd_name (last (flow_nodes w));
              adj = build_adjacency (flow_edges w) names in
       validate_transition_endpoints (flow_edges w) names
       @ validate_reachability it first_phase names adj
       @ validate_last_phase_transition (flow_edges w) names last_phase (length (flow_nodes w))
       @ validate_yield_points (flow_nodes w)
       @ validate_phase_connectivity it (flow_edges w) names first_phase last_phase)"

section \<open>What the validator decides\<close>

definition structurally_sound :: "flow_definition \<Rightarrow> bool" where
  "structurally_sound w \<longleftrightarrow>
    flow_nodes w \<noteq> []
    \<and> (\<forall>e \<in> set (flow_edges w). er_source e \<in> set (node_names w) \<and> er_target e \<in> set (node_names w))
    \<and> (\<forall>n \<in> set (node_names w). (hd (node_names w), n) \<in> (edge_rel (flow_edges w))\<^sup>*)
    \<and> (length (flow_nodes w) > 1 \<longrightarrow>
         (\<exists>e \<in> set (flow_edges w). er_target e = last (node_names w)))
    \<and> (\<forall>n \<in> set (flow_nodes w). \<forall>yp \<in> set (nd_yield_points n). resume_triggers yp \<noteq> [])"

lemma endpoints_Nil:
  "validate_transition_endpoints trs names = [] \<longleftrightarrow>
     (\<forall>e \<in> set trs. er_source e \<in> names \<and> er_target e \<in> names)"
  by (auto simp: validate_transition_endpoints_def)

lemma yields_Nil:
  "validate_yield_points ns = [] \<longleftrightarrow> (\<forall>n \<in> set ns. \<forall>yp \<in> set (nd_yield_points n). resume_triggers yp \<noteq> [])"
  by (auto simp: validate_yield_points_def)

lemma last_phase_Nil:
  assumes "\<forall>e \<in> set trs. er_source e \<in> names \<and> er_target e \<in> names"
  shows "validate_last_phase_transition trs names l k = [] \<longleftrightarrow>
     (k > 1 \<longrightarrow> (\<exists>e \<in> set trs. er_target e = l))"
  using assms by (auto simp: validate_last_phase_transition_def list_ex_iff)

lemma build_adjacency_closed:
  "\<forall>e \<in> set trs. er_source e \<in> names \<and> er_target e \<in> names \<Longrightarrow> build_adjacency trs names = trs"
  by (simp add: build_adjacency_def)

context set_order
begin

lemma reachability_Nil:
  assumes "finite names"
  shows "validate_reachability it f names adj = [] \<longleftrightarrow> (\<forall>n \<in> names. (f, n) \<in> (edge_rel adj)\<^sup>*)"
  using assms
  by (auto simp: validate_reachability_def filter_empty_conv reachable_from_trancl rtrancl_eq_or_trancl)

lemma connectivity_Nil:
  assumes closed: "\<forall>e \<in> set trs. er_source e \<in> names \<and> er_target e \<in> names" and "finite names"
    and reach: "\<forall>n \<in> names. (f, n) \<in> (edge_rel trs)\<^sup>*"
  shows "validate_phase_connectivity it trs names f l = []"
proof -
  have "filter (\<lambda>t. er_target t = n) trs \<noteq> []" if n: "n \<in> names" "n \<noteq> f" for n
  proof -
    have "(f, n) \<in> (edge_rel trs)\<^sup>*" using reach n by blast
    then obtain m where "(m, n) \<in> edge_rel trs" using n(2) by (cases rule: rtranclE) auto
    then show ?thesis by (auto simp: edge_rel_def filter_empty_conv)
  qed
  moreover have "filter (\<lambda>t. er_source t \<in> names \<and> er_target t \<in> names) trs = trs"
    using closed by simp
  ultimately show ?thesis using assms(2)
    by (auto simp: validate_phase_connectivity_def Let_def filter_empty_conv)
qed

lemma validate_Nil_iff: "validate it w = [] \<longleftrightarrow> structurally_sound w"
proof (cases "flow_nodes w = []")
  case True
  then show ?thesis by (simp add: validate_def structurally_sound_def)
next
  case False
  let ?names = "set (node_names w)"
  have ends: "nd_name (hd (flow_nodes w)) = hd (node_names w)"
      "nd_name (last (flow_nodes w)) = last (node_names w)"
    using False by (simp_all add: node_names_def hd_map last_map)
  show ?thesis
  proof (cases "\<forall>e \<in> set (flow_edges w). er_source e \<in> ?names \<and> er_target e \<in> ?names")
    case closed: True
    have conn: "validate_phase_connectivity it (flow_edges w) ?names (hd (node_names w)) l = []"
      if "\<forall>n \<in> ?names. (hd (node_names w), n) \<in> (edge_rel (flow_edges w))\<^sup>*" for l
      using connectivity_Nil [OF closed _ that] by simp
    have "validate it w = [] \<longleftrightarrow>
        (\<forall>n \<in> ?names. (hd (node_names w), n) \<in> (edge_rel (flow_edges w))\<^sup>*)
        \<and> (length (flow_nodes w) > 1 \<longrightarrow> (\<exists>e \<in> set (flow_edges w). er_target e = last (node_names w)))
        \<and> validate_yield_points (flow_nodes w) = []
        \<and> validate_phase_connectivity it (flow_edges w) ?names (hd (node_names w)) (last (node_names w)) = []"
      unfolding validate_def Let_def ends build_adjacency_closed [OF closed]
      using False endpoints_Nil [of "flow_edges w" ?names] closed
      by (simp only: if_False append_is_Nil_conv reachability_Nil [OF finite_set]
          last_phase_Nil [OF closed]) blast
    then show ?thesis
      unfolding structurally_sound_def yields_Nil using False closed conn by blast
  next
    case open': False
    then show ?thesis
      by (auto simp: validate_def structurally_sound_def Let_def False endpoints_Nil)
  qed
qed

end

text \<open>
  C8. The validator is sound and complete: whatever order Python visits its sets in, it
  reports no error exactly when the flow is structurally sound, that is, it has a node, every
  edge joins defined nodes, every node can be reached from the first one by a path of edges,
  some edge enters the last node (when there is more than one node), and every yield point can
  be resumed. The breadth-first loop inside terminates and computes exactly the nodes reachable
  by one or more edges. The separate connectivity check never adds an error of its own.
\<close>
theorem validator_sound_and_complete:
  assumes "set_order it"
  shows "(validate it w = [] \<longleftrightarrow> structurally_sound w)
    \<and> reachable_from it start adj = (edge_rel adj)\<^sup>+ `` {start}"
  using set_order.validate_Nil_iff [OF assms] set_order.reachable_from_trancl [OF assms] by blast

theorem validator_sound_and_complete_witness:
  "validate sorted_list_of_set \<lparr>flow_id = ''f'', flow_level = FlowLevel_PIPELINE, flow_owner = ''o'',
      flow_nodes = [], flow_edges = [], flow_hooks = no_hooks\<rparr> \<noteq> []"
  using validator_sound_and_complete [OF sorted_order.set_order_axioms,
    where w = "\<lparr>flow_id = ''f'', flow_level = FlowLevel_PIPELINE, flow_owner = ''o'',
      flow_nodes = [], flow_edges = [], flow_hooks = no_hooks\<rparr>"]
  by (simp add: structurally_sound_def)

end
