(* ===== verification/Workflow_Defs.thy ===== *)
theory Workflow_Defs
  imports Flow_Validator
begin

text \<open>
  The shipped workflows: the transition guards (\<open>process/language/guards.py\<close> and
  \<open>definitions.py\<close>), the manifest checks they call
  (\<open>integration_stabilization/preconditions.py\<close>, \<open>models.py\<close>), the four workflow
  definitions and the transition superset derived from them (\<open>phase_transitions.py\<close>).
\<close>

section \<open>Transition guards\<close>

definition preflight_passed :: guard_fn where
  "preflight_passed = \<lparr>guard_name = ''preflight_passed'', guard_run = (\<lambda>ctx state. Inr
     (if ps_phase state = PhaseName_SETUP \<and> ps_status state = PhaseStatus_COMPLETED then guard_pass
      else guard_fail (''Setup phase not completed: phase='' @ phase_name_repr (ps_phase state)
             @ '', status='' @ phase_status_repr (ps_status state))))\<rparr>"

definition gate_status_of :: "phase_payload option \<Rightarrow> exploration_gate_status option" where
  "gate_status_of p = (case p of Some (ExplorationPayload g) \<Rightarrow> Some g | _ \<Rightarrow> None)"

definition exploration_approved :: "phase_state \<Rightarrow> bool" where
  "exploration_approved s \<longleftrightarrow> ps_phase s = PhaseName_EXPLORATION \<and> ps_status s = PhaseStatus_COMPLETED
     \<and> ps_payload s = Some (ExplorationPayload Gate_APPROVED)"

definition run_exploration_gate_approved :: "story_context \<Rightarrow> phase_state \<Rightarrow> guard_result" where
  "run_exploration_gate_approved ctx state =
    (if ps_phase state = PhaseName_EXPLORATION \<and> ps_status state = PhaseStatus_COMPLETED
        \<and> gate_status_of (ps_payload state) = Some Gate_APPROVED
     then guard_pass
     else guard_fail (''Exploration gate not approved: phase='' @ phase_name_repr (ps_phase state)
            @ '', status='' @ phase_status_repr (ps_status state) @ '', gate_status=''
            @ (case gate_status_of (ps_payload state) of
                 None \<Rightarrow> ''None'' | Some g \<Rightarrow> exploration_gate_status_repr g)))"

definition exploration_gate_approved :: guard_fn where
  "exploration_gate_approved = \<lparr>guard_name = ''exploration_gate_approved'',
     guard_run = (\<lambda>ctx state. Inr (run_exploration_gate_approved ctx state))\<rparr>"

definition implementation_completed :: guard_fn where
  "implementation_completed = \<lparr>guard_name = ''implementation_completed'', guard_run = (\<lambda>ctx state. Inr
     (if ps_phase state = PhaseName_IMPLEMENTATION \<and> ps_status state = PhaseStatus_COMPLETED
      then guard_pass
      else guard_fail (''Implementation phase not completed: phase='' @ phase_name_repr (ps_phase state)
             @ '', status='' @ phase_status_repr (ps_status state))))\<rparr>"

definition implementation_qa_needs_remediation :: guard_fn where
  "implementation_qa_needs_remediation = \<lparr>guard_name = ''implementation_qa_needs_remediation'',
     guard_run = (\<lambda>ctx state. Inr
       (if ps_phase state = PhaseName_IMPLEMENTATION \<and> ps_status state \<noteq> PhaseStatus_COMPLETED
        then guard_pass
        else guard_fail ''Implementation phase completed successfully, no remediation needed''))\<rparr>"

definition run_mode_is_exploration :: "story_context \<Rightarrow> guard_result" where
  "run_mode_is_exploration ctx =
    (if sc_mode ctx = Mode_FAST
     then guard_fail (''Story is in fast mode: the Exploration phase is skipped (FK-24 '' @ section_sign
            @ ''24.3.4 Mode-Profil Exploration=OUT); routing setup directly to implementation'')
     else if is_execution_routing_blocked ctx then guard_pass
     else if sc_execution_route ctx = Some StoryMode_EXPLORATION then guard_pass
     else guard_fail (''Story execution route is not EXPLORATION: execution_route=''
            @ story_mode_repr (sc_execution_route ctx)))"

definition mode_is_exploration :: guard_fn where
  "mode_is_exploration = \<lparr>guard_name = ''mode_is_exploration'',
     guard_run = (\<lambda>ctx state. Inr (run_mode_is_exploration ctx))\<rparr>"

definition run_mode_is_not_exploration :: "story_context \<Rightarrow> guard_result" where
  "run_mode_is_not_exploration ctx =
    (if is_execution_routing_blocked ctx
     then guard_fail (''integration_stabilization mandates exploration before implementation; the direct ''
            @ ''setup -> implementation transition is blocked (FK-05 '' @ section_sign @ ''5.6, AC8).'')
     else if sc_mode ctx = Mode_FAST then guard_pass
     else if sc_execution_route ctx \<noteq> Some StoryMode_EXPLORATION then guard_pass
     else guard_fail (''Story execution route is EXPLORATION: execution_route=''
            @ story_mode_repr (sc_execution_route ctx)))"

definition mode_is_not_exploration :: guard_fn where
  "mode_is_not_exploration = \<lparr>guard_name = ''mode_is_not_exploration'',
     guard_run = (\<lambda>ctx state. Inr (run_mode_is_not_exploration ctx))\<rparr>"

section \<open>The integration-scope manifest and its approval\<close>

text \<open>The identity fields of the two artefacts; their content is not read here.\<close>

record integration_scope_manifest =
  im_version :: int
  im_project_key :: string
  im_story_id :: string
  im_content_hash :: string

record manifest_approval_record =
  ma_project_key :: string
  ma_story_id :: string
  ma_run_id :: string
  ma_manifest_version :: int
  ma_manifest_hash :: string
  ma_approved_by :: string

record check_result =
  ck_ok :: bool
  ck_reason :: string

definition check_approval_present :: "manifest_approval_record option \<Rightarrow> check_result" where
  "check_approval_present approval = (case approval of
      None \<Rightarrow> \<lparr>ck_ok = False, ck_reason = ''No approved ManifestApprovalRecord present. ''
        @ ''Productive integration-stabilization work is fail-closed blocked without an approved record (FK-05 ''
        @ section_sign @ ''5.5.1/'' @ section_sign @ ''5.5.4).''\<rparr>
    | Some _ \<Rightarrow> \<lparr>ck_ok = True, ck_reason = []\<rparr>)"

definition binds_manifest :: "manifest_approval_record \<Rightarrow> integration_scope_manifest \<Rightarrow> bool" where
  "binds_manifest a m = (ma_project_key a = im_project_key m \<and> ma_story_id a = im_story_id m
     \<and> ma_manifest_version a = im_version m \<and> ma_manifest_hash a = im_content_hash m)"

definition check_binding_integrity ::
  "integration_scope_manifest \<Rightarrow> manifest_approval_record \<Rightarrow> string \<Rightarrow> check_result" where
  "check_binding_integrity m a current_run_id =
    (if \<not> binds_manifest a m then
       let reasons =
         (if ma_project_key a \<noteq> im_project_key m
          then [''project_key mismatch: record='' @ py_repr (ma_project_key a)
                @ '' vs manifest='' @ py_repr (im_project_key m)] else [])
         @ (if ma_story_id a \<noteq> im_story_id m
            then [''story_id mismatch: record='' @ py_repr (ma_story_id a)
                  @ '' vs manifest='' @ py_repr (im_story_id m)] else [])
         @ (if ma_manifest_version a \<noteq> im_version m
            then [''manifest_version mismatch: record='' @ show_int (ma_manifest_version a)
                  @ '' vs manifest='' @ show_int (im_version m)] else [])
         @ (if ma_manifest_hash a \<noteq> im_content_hash m
            then [''manifest_hash mismatch: record='' @ py_repr (ma_manifest_hash a)
                  @ '' vs manifest='' @ py_repr (im_content_hash m)] else []);
         text = join ''; '' reasons
       in \<lparr>ck_ok = False, ck_reason = (if text = [] then ''binding_integrity_failed'' else text)\<rparr>
     else if ma_run_id a \<noteq> current_run_id
     then \<lparr>ck_ok = False, ck_reason = ''run_id mismatch: record='' @ py_repr (ma_run_id a)
            @ '' vs current_run_id='' @ py_repr current_run_id @ '' (FK-05 '' @ section_sign
            @ ''5.5.4 run-id binding)''\<rparr>
     else \<lparr>ck_ok = True, ck_reason = []\<rparr>)"

text \<open>
  What the manifest guard reads from the story directory and the state backend: the two JSON
  files and the run id of the resolved scope. File access and hashing stay outside the model;
  the readers are a parameter, keyed by project root and story id. \<open>Inl\<close> stands for a scope
  that cannot be resolved.
\<close>

record is_env =
  load_integration_manifest :: "string \<Rightarrow> string \<Rightarrow> integration_scope_manifest option"
  load_manifest_approval :: "string \<Rightarrow> string \<Rightarrow> manifest_approval_record option"
  resolve_scope_run_id :: "string \<Rightarrow> string \<Rightarrow> exn + string option"

definition is_manifest_approved_and_bound :: "is_env \<Rightarrow> story_context \<Rightarrow> guard_result" where
  "is_manifest_approved_and_bound env ctx = (case sc_project_root ctx of
      None \<Rightarrow> guard_fail (''integration_stabilization: cannot resolve the story directory to verify ''
        @ ''manifest approval; execution is blocked fail-closed (FK-05 '' @ section_sign @ ''5.6, AC8).'')
    | Some root \<Rightarrow>
       let manifest = load_integration_manifest env root (sc_story_id ctx);
           approval = load_manifest_approval env root (sc_story_id ctx);
           blocked = guard_fail (''integration_stabilization: no approved IntegrationScopeManifest; the ''
             @ ''exploration -> implementation transition is blocked until the manifest is approved (FK-05 ''
             @ section_sign @ ''5.5.1/'' @ section_sign @ ''5.6, AC8).'')
       in case manifest of
          None \<Rightarrow> blocked
        | Some m \<Rightarrow>
            if \<not> ck_ok (check_approval_present approval) then blocked
            else case approval of
               None \<Rightarrow> blocked
             | Some a \<Rightarrow>
                let run_id = (case resolve_scope_run_id env root (sc_story_id ctx) of
                      Inl _ \<Rightarrow> ma_run_id a
                    | Inr None \<Rightarrow> ma_run_id a
                    | Inr (Some r) \<Rightarrow> if r = [] then ma_run_id a else r);
                    binding = check_binding_integrity m a run_id
                in if \<not> ck_ok binding
                   then guard_fail (''integration_stabilization: manifest-approval binding invalid (''
                     @ ck_reason binding @ ''); execution blocked fail-closed (FK-05 '' @ section_sign @ ''5.5.4).'')
                   else guard_pass)"

definition run_exploration_gate_approved_with_is_manifest ::
  "is_env \<Rightarrow> story_context \<Rightarrow> phase_state \<Rightarrow> guard_result" where
  "run_exploration_gate_approved_with_is_manifest env ctx state =
    (let base = run_exploration_gate_approved ctx state in
     if \<not> passed base then base
     else if sc_implementation_contract ctx \<noteq> Some Contract_INTEGRATION_STABILIZATION then base
     else is_manifest_approved_and_bound env ctx)"

definition exploration_gate_approved_with_is_manifest :: "is_env \<Rightarrow> guard_fn" where
  "exploration_gate_approved_with_is_manifest env =
     \<lparr>guard_name = ''exploration_gate_approved_with_is_manifest'', guard_run = (\<lambda>ctx state.
        Inr (run_exploration_gate_approved_with_is_manifest env ctx state))\<rparr>"

lemmas guard_fn_defs = preflight_passed_def exploration_gate_approved_def implementation_completed_def
  mode_is_exploration_def mode_is_not_exploration_def exploration_gate_approved_with_is_manifest_def

lemma guard_passed [simp]: "passed guard_pass" "\<not> passed (guard_fail r)"
  by (simp_all add: guard_pass_def guard_fail_def)

section \<open>The workflow definitions\<close>

definition edge_provisioning_yield :: builder_op where
  "edge_provisioning_yield = b_yield_to ''edge_provisioning'' ''awaiting_edge_provisioning''
     (Some [''edge_report_received'']) None None None"

definition design_review_yield :: builder_op where
  "design_review_yield = b_yield_to ''design_review'' ''awaiting_design_review''
     (Some [''design_approved'', ''design_rejected'']) (Some [''design_artifact'']) None
     (Some \<lparr>gs_stage_id = DESIGN_REVIEW, gs_yield_point = ''design_review'', gs_required = True,
            gs_rollback_on_fail = True\<rparr>)"

definition design_challenge_yield :: builder_op where
  "design_challenge_yield = b_yield_to ''design_challenge'' ''awaiting_design_challenge''
     (Some [''challenge_resolved'']) None None
     (Some \<lparr>gs_stage_id = DESIGN_CHALLENGE, gs_yield_point = ''design_challenge'', gs_required = False,
            gs_rollback_on_fail = False\<rparr>)"

definition verify_evidence_yield :: builder_op where
  "verify_evidence_yield = b_yield_to ''verify_evidence'' ''awaiting_edge_provisioning''
     (Some [''edge_report_received'', ''edge_deadline_elapsed'']) None None None"

definition full_hooks :: hook_points where
  "full_hooks = \<lparr>pre_transition = [''log_transition''], post_transition = [''emit_telemetry''],
     on_yield = [''notify_yield''], on_escalate = [''notify_escalation'']\<rparr>"

definition light_hooks :: hook_points where
  "light_hooks = \<lparr>pre_transition = [''log_transition''], post_transition = [''emit_telemetry''],
     on_yield = [], on_escalate = []\<rparr>"

definition build_implementation_workflow :: "is_env \<Rightarrow> exn + flow_definition" where
  "build_implementation_workflow env = chain_build
    [b_phase ''setup'', b_guard preflight_passed, edge_provisioning_yield,
     b_phase ''exploration'', design_review_yield, design_challenge_yield,
     b_phase ''implementation'', verify_evidence_yield, b_max_remediation_rounds 3,
     b_phase ''closure'', b_substates [''merging'', ''cleanup'', ''reporting''],
     b_transition ''setup'' ''exploration'' (Some mode_is_exploration) None,
     b_transition ''setup'' ''implementation'' (Some mode_is_not_exploration) None,
     b_transition ''exploration'' ''implementation''
       (Some (exploration_gate_approved_with_is_manifest env)) None,
     b_transition ''implementation'' ''closure'' (Some implementation_completed) None,
     b_hooks full_hooks] (workflow ''implementation'')"

definition build_bugfix_workflow :: "exn + flow_definition" where
  "build_bugfix_workflow = chain_build
    [b_phase ''setup'', b_guard preflight_passed, edge_provisioning_yield,
     b_phase ''exploration'', design_review_yield, design_challenge_yield,
     b_phase ''implementation'', verify_evidence_yield, b_max_remediation_rounds 3,
     b_phase ''closure'', b_substates [''merging'', ''cleanup'', ''reporting''],
     b_transition ''setup'' ''exploration'' (Some mode_is_exploration) None,
     b_transition ''setup'' ''implementation'' (Some mode_is_not_exploration) None,
     b_transition ''exploration'' ''implementation'' (Some exploration_gate_approved) None,
     b_transition ''implementation'' ''closure'' (Some implementation_completed) None,
     b_hooks full_hooks] (workflow ''bugfix'')"

definition build_concept_workflow :: "exn + flow_definition" where
  "build_concept_workflow = chain_build
    [b_phase ''setup'', b_guard preflight_passed, edge_provisioning_yield,
     b_phase ''implementation'', verify_evidence_yield,
     b_phase ''closure'',
     b_transition ''setup'' ''implementation'' None None,
     b_transition ''implementation'' ''closure'' None None,
     b_hooks light_hooks] (workflow ''concept'')"

definition build_research_workflow :: "exn + flow_definition" where
  "build_research_workflow = chain_build
    [b_phase ''setup'', b_guard preflight_passed, edge_provisioning_yield,
     b_phase ''implementation'', verify_evidence_yield,
     b_phase ''closure'',
     b_transition ''setup'' ''implementation'' None None,
     b_transition ''implementation'' ''closure'' None None,
     b_hooks light_hooks] (workflow ''research'')"

definition resolve_workflow :: "is_env \<Rightarrow> story_type \<Rightarrow> exn + flow_definition" where
  "resolve_workflow env t = (case t of
      StoryType_IMPLEMENTATION \<Rightarrow> build_implementation_workflow env
    | StoryType_BUGFIX \<Rightarrow> build_bugfix_workflow
    | StoryType_CONCEPT \<Rightarrow> build_concept_workflow
    | StoryType_RESEARCH \<Rightarrow> build_research_workflow)"

lemmas builder_op_defs = b_phase_def b_node_def b_transition_def b_hooks_def phase_scoped_defs
  on_current_def new_accumulator_def workflow_def edge_provisioning_yield_def
  design_review_yield_def design_challenge_yield_def verify_evidence_yield_def

lemmas workflow_defs = build_implementation_workflow_def build_bugfix_workflow_def
  build_concept_workflow_def build_research_workflow_def chain_build_def build_def builder_op_defs

text \<open>The module-level workflows: the builds succeed, so the constants are their results.\<close>

lemma shipped_workflows_build:
  "\<exists>w. resolve_workflow env t = Inr w \<and> flow_id w = story_type_value t \<and> flow_nodes w \<noteq> []
     \<and> hd (node_names w) = ''setup''
     \<and> node_names w = (if t \<in> {StoryType_IMPLEMENTATION, StoryType_BUGFIX}
          then [''setup'', ''exploration'', ''implementation'', ''closure'']
          else [''setup'', ''implementation'', ''closure''])"
  by (cases t) (simp_all add: resolve_workflow_def workflow_defs node_names_def)

section \<open>The edges of the shipped workflows\<close>

definition plain_edge :: "string \<Rightarrow> string \<Rightarrow> guard_fn option \<Rightarrow> edge_rule" where
  "plain_edge s t g = \<lparr>er_source = s, er_target = t, er_guard = g, er_resume_policy = None, er_priority = 0\<rparr>"

definition workflow_edges :: "is_env \<Rightarrow> story_type \<Rightarrow> edge_rule list" where
  "workflow_edges env t =
    (if t \<in> {StoryType_IMPLEMENTATION, StoryType_BUGFIX} then
       [plain_edge ''setup'' ''exploration'' (Some mode_is_exploration),
        plain_edge ''setup'' ''implementation'' (Some mode_is_not_exploration),
        plain_edge ''exploration'' ''implementation'' (Some
          (if t = StoryType_IMPLEMENTATION then exploration_gate_approved_with_is_manifest env
           else exploration_gate_approved)),
        plain_edge ''implementation'' ''closure'' (Some implementation_completed)]
     else [plain_edge ''setup'' ''implementation'' None, plain_edge ''implementation'' ''closure'' None])"

lemma shipped_workflow_edges: "resolve_workflow env t = Inr w \<Longrightarrow> flow_edges w = workflow_edges env t"
  by (cases t) (auto simp: resolve_workflow_def workflow_defs workflow_edges_def plain_edge_def)

lemma shipped_edges_from:
  assumes "resolve_workflow env t = Inr w"
  shows "get_edges_from w n = filter (\<lambda>e. er_source e = n) (workflow_edges env t)"
proof -
  have "\<forall>e \<in> set (flow_edges w). er_priority e = 0"
    using shipped_workflow_edges [OF assms] by (auto simp: workflow_edges_def plain_edge_def)
  then show ?thesis using edges_by_priority [of w 0 n] shipped_workflow_edges [OF assms] by simp
qed

lemma shipped_guards_only_on_setup:
  assumes "resolve_workflow env t = Inr w" and "get_node w p = Some n"
  shows "nd_guards n = (if p = ''setup'' then [preflight_passed] else []) \<and> nd_preconditions n = []
    \<and> nd_retry_policy n = None \<and> nd_override_policy n = default_override_policy
    \<and> nd_execution_policy n = ALWAYS"
proof -
  let ?P = "\<lambda>n. nd_guards n = (if nd_name n = ''setup'' then [preflight_passed] else [])
      \<and> nd_preconditions n = [] \<and> nd_retry_policy n = None
      \<and> nd_override_policy n = default_override_policy \<and> nd_execution_policy n = ALWAYS"
  have "case resolve_workflow env t of Inl x \<Rightarrow> True | Inr w \<Rightarrow> list_all ?P (flow_nodes w)"
    by (cases t) (simp_all add: resolve_workflow_def workflow_defs)
  then have "list_all ?P (flow_nodes w)" using assms(1) by simp
  then show ?thesis using get_node_name [OF assms(2)] by (auto simp: list_all_iff)
qed

section \<open>The transition superset\<close>

type_synonym phase_graph = "phase_name \<Rightarrow> phase_name set"

definition phase_name_cls :: "string \<Rightarrow> exn + phase_name" where
  "phase_name_cls v = (case phase_name_of v of
      Some p \<Rightarrow> Inr p | None \<Rightarrow> Inl (ValueError (py_repr v @ '' is not a valid PhaseName'')))"

fun add_targets :: "phase_name \<Rightarrow> edge_rule list \<Rightarrow> phase_graph \<Rightarrow> exn + phase_graph" where
  "add_targets src [] g = Inr g"
| "add_targets src (e # es) g = (case phase_name_cls (er_target e) of
      Inl x \<Rightarrow> Inl x
    | Inr tgt \<Rightarrow> add_targets src es (g(src := insert tgt (g src))))"

fun add_sources :: "flow_definition \<Rightarrow> string list \<Rightarrow> phase_graph \<Rightarrow> exn + phase_graph" where
  "add_sources w [] g = Inr g"
| "add_sources w (n # ns) g = (case phase_name_cls n of
      Inl x \<Rightarrow> Inl x
    | Inr src \<Rightarrow> (case add_targets src (get_edges_from w n) g of
          Inl x \<Rightarrow> Inl x | Inr g' \<Rightarrow> add_sources w ns g'))"

fun add_workflows :: "flow_definition list \<Rightarrow> phase_graph \<Rightarrow> exn + phase_graph" where
  "add_workflows [] g = Inr g"
| "add_workflows (w # ws) g = (case add_sources w (node_names w) g of
      Inl x \<Rightarrow> Inl x | Inr g' \<Rightarrow> add_workflows ws g')"

definition derive_phase_transition_graph :: "flow_definition list \<Rightarrow> exn + phase_graph" where
  "derive_phase_transition_graph ws = add_workflows ws (\<lambda>_. {})"

definition shipped_workflows :: "is_env \<Rightarrow> flow_definition list" where
  "shipped_workflows env = map (\<lambda>t. projr (resolve_workflow env t))
     [StoryType_IMPLEMENTATION, StoryType_BUGFIX, StoryType_CONCEPT, StoryType_RESEARCH]"

definition phase_transition_graph :: "is_env \<Rightarrow> phase_graph" where
  "phase_transition_graph env = projr (derive_phase_transition_graph (shipped_workflows env))"

definition is_valid_phase_transition :: "is_env \<Rightarrow> string \<Rightarrow> string \<Rightarrow> bool" where
  "is_valid_phase_transition env from to = (case (phase_name_cls from, phase_name_cls to) of
      (Inr source, Inr target) \<Rightarrow>
        if source = target then True else target \<in> phase_transition_graph env source
    | _ \<Rightarrow> False)"

definition allowed_phase_transition_targets :: "is_env \<Rightarrow> string \<Rightarrow> string list" where
  "allowed_phase_transition_targets env from = (case phase_name_cls from of
      Inl _ \<Rightarrow> []
    | Inr source \<Rightarrow> sorted_list_of_set (phase_name_value ` phase_transition_graph env source))"

definition linear_graph :: phase_graph where
  "linear_graph = (\<lambda>_. {})(
     PhaseName_SETUP := {PhaseName_EXPLORATION, PhaseName_IMPLEMENTATION},
     PhaseName_EXPLORATION := {PhaseName_IMPLEMENTATION},
     PhaseName_IMPLEMENTATION := {PhaseName_CLOSURE})"

lemma add_workflow_graph:
  assumes "resolve_workflow env t = Inr w"
  shows "add_sources w (node_names w) g = Inr
    (\<lambda>p. g p \<union> (if t \<in> {StoryType_IMPLEMENTATION, StoryType_BUGFIX} then linear_graph p
          else ((\<lambda>_. {})(PhaseName_SETUP := {PhaseName_IMPLEMENTATION},
                        PhaseName_IMPLEMENTATION := {PhaseName_CLOSURE})) p))"
proof -
  have names: "node_names w = (if t \<in> {StoryType_IMPLEMENTATION, StoryType_BUGFIX}
      then [''setup'', ''exploration'', ''implementation'', ''closure'']
      else [''setup'', ''implementation'', ''closure''])"
    using shipped_workflows_build [of env t] assms by auto
  have cls: "phase_name_cls (phase_name_value p) = Inr p" for p
    by (simp add: phase_name_cls_def)
  note [simp] = cls [of PhaseName_SETUP, simplified] cls [of PhaseName_EXPLORATION, simplified]
    cls [of PhaseName_IMPLEMENTATION, simplified] cls [of PhaseName_CLOSURE, simplified]
  show ?thesis
    by (cases t) (auto simp: names shipped_edges_from [OF assms] workflow_edges_def plain_edge_def
        linear_graph_def fun_eq_iff)
qed

lemma phase_transition_graph_eq: "phase_transition_graph env = linear_graph"
proof -
  have "\<exists>w. resolve_workflow env t = Inr w" for t
    using shipped_workflows_build [of env t] by blast
  then have "resolve_workflow env t = Inr (projr (resolve_workflow env t))" for t
    by (metis sum.sel(2))
  note step = add_workflow_graph [OF this]
  show ?thesis
    by (auto simp: phase_transition_graph_def derive_phase_transition_graph_def shipped_workflows_def
        step linear_graph_def fun_eq_iff)
qed

section \<open>Properties of the shipped workflows\<close>

lemma edge_rel_Cons: "edge_rel (e # es) = insert (er_source e, er_target e) (edge_rel es)"
  by (auto simp: edge_rel_def)

lemma shipped_sound: "resolve_workflow env t = Inr w \<Longrightarrow> structurally_sound w"
proof -
  assume w: "resolve_workflow env t = Inr w"
  have "case resolve_workflow env t of Inl x \<Rightarrow> True | Inr w \<Rightarrow>
      list_all (\<lambda>n. list_all (\<lambda>yp. resume_triggers yp \<noteq> []) (nd_yield_points n)) (flow_nodes w)"
    by (cases t) (simp_all add: resolve_workflow_def workflow_defs)
  then have yields: "\<forall>n \<in> set (flow_nodes w). \<forall>yp \<in> set (nd_yield_points n). resume_triggers yp \<noteq> []"
    using w by (simp add: list_all_iff)
  have names: "node_names w = (if t \<in> {StoryType_IMPLEMENTATION, StoryType_BUGFIX}
      then [''setup'', ''exploration'', ''implementation'', ''closure'']
      else [''setup'', ''implementation'', ''closure'']) \<and> flow_nodes w \<noteq> []"
    using shipped_workflows_build [of env t] w by auto
  have e: "(''setup'', ''implementation'') \<in> edge_rel (flow_edges w)"
      "(''implementation'', ''closure'') \<in> edge_rel (flow_edges w)"
      "t \<in> {StoryType_IMPLEMENTATION, StoryType_BUGFIX} \<Longrightarrow> (''setup'', ''exploration'') \<in> edge_rel (flow_edges w)"
    unfolding shipped_workflow_edges [OF w]
    by (simp_all add: edge_rel_Cons workflow_edges_def plain_edge_def)
  have "(''setup'', ''closure'') \<in> (edge_rel (flow_edges w))\<^sup>*"
    using e(1,2) by (meson r_into_rtrancl rtrancl_trans)
  then show "structurally_sound w"
    using names yields e shipped_workflow_edges [OF w]
    by (auto simp: structurally_sound_def workflow_edges_def plain_edge_def)
qed

text \<open>
  The four shipped workflows are what the structural validator accepts, and the derived
  transition superset is exactly the forward chain setup, exploration, implementation, closure
  with the shortcut from setup to implementation: a change of phase is admitted if and only if
  it is one of these four steps or stays in the phase, and an unknown name is rejected.
\<close>
theorem shipped_workflows_and_transition_graph:
  assumes "set_order it"
  shows "(\<exists>w. resolve_workflow env t = Inr w \<and> validate it w = [])
    \<and> (is_valid_phase_transition env from to \<longleftrightarrow>
        (\<exists>p q. from = phase_name_value p \<and> to = phase_name_value q \<and>
          (p = q \<or> (p, q) \<in> {(PhaseName_SETUP, PhaseName_EXPLORATION),
             (PhaseName_SETUP, PhaseName_IMPLEMENTATION),
             (PhaseName_EXPLORATION, PhaseName_IMPLEMENTATION),
             (PhaseName_IMPLEMENTATION, PhaseName_CLOSURE)})))"
proof
  show "\<exists>w. resolve_workflow env t = Inr w \<and> validate it w = []"
    using shipped_workflows_build [of env t] shipped_sound set_order.validate_Nil_iff [OF assms] by blast
  have cls: "phase_name_cls v = Inr p \<longleftrightarrow> v = phase_name_value p" for v p
    by (auto simp: phase_name_cls_def phase_name.enum_of_iff split: option.splits)
  have lin: "q \<in> linear_graph p \<longleftrightarrow> (p, q) \<in> {(PhaseName_SETUP, PhaseName_EXPLORATION),
             (PhaseName_SETUP, PhaseName_IMPLEMENTATION), (PhaseName_EXPLORATION, PhaseName_IMPLEMENTATION),
             (PhaseName_IMPLEMENTATION, PhaseName_CLOSURE)}" for p q
    by (cases p) (auto simp: linear_graph_def)
  have "is_valid_phase_transition env from to \<longleftrightarrow> (\<exists>p q. phase_name_cls from = Inr p
      \<and> phase_name_cls to = Inr q \<and> (p = q \<or> q \<in> linear_graph p))"
    by (auto simp: is_valid_phase_transition_def phase_transition_graph_eq split: sum.splits)
  then show "is_valid_phase_transition env from to \<longleftrightarrow>
        (\<exists>p q. from = phase_name_value p \<and> to = phase_name_value q \<and>
          (p = q \<or> (p, q) \<in> {(PhaseName_SETUP, PhaseName_EXPLORATION),
             (PhaseName_SETUP, PhaseName_IMPLEMENTATION),
             (PhaseName_EXPLORATION, PhaseName_IMPLEMENTATION),
             (PhaseName_IMPLEMENTATION, PhaseName_CLOSURE)}))"
    unfolding cls lin .
qed

definition no_manifest_env :: is_env where
  "no_manifest_env = \<lparr>load_integration_manifest = (\<lambda>_ _. None), load_manifest_approval = (\<lambda>_ _. None),
     resolve_scope_run_id = (\<lambda>_ _. Inr None)\<rparr>"

theorem shipped_workflows_and_transition_graph_witness:
  "\<not> is_valid_phase_transition no_manifest_env ''closure'' ''setup''
   \<and> is_valid_phase_transition no_manifest_env ''setup'' ''implementation''"
proof -
  note t = shipped_workflows_and_transition_graph [OF sorted_order.set_order_axioms,
      where env = no_manifest_env, THEN conjunct2]
  have no: "\<not> (\<exists>p q. ''closure'' = phase_name_value p \<and> ''setup'' = phase_name_value q \<and>
      (p = q \<or> (p, q) \<in> {(PhaseName_SETUP, PhaseName_EXPLORATION),
             (PhaseName_SETUP, PhaseName_IMPLEMENTATION), (PhaseName_EXPLORATION, PhaseName_IMPLEMENTATION),
             (PhaseName_IMPLEMENTATION, PhaseName_CLOSURE)}))"
  proof -
    have "''closure'' = phase_name_value p \<longleftrightarrow> p = PhaseName_CLOSURE"
      "''setup'' = phase_name_value p \<longleftrightarrow> p = PhaseName_SETUP" for p
      by (cases p; simp)+
    then show ?thesis by simp
  qed
  have "\<not> is_valid_phase_transition no_manifest_env ''closure'' ''setup''"
    by (rule notI, drule t [THEN iffD1]) (rule notE [OF no])
  moreover have "is_valid_phase_transition no_manifest_env ''setup'' ''implementation''"
    by (rule t [THEN iffD2], rule exI [of _ PhaseName_SETUP], rule exI [of _ PhaseName_IMPLEMENTATION],
        simp only: phase_name_value.simps, blast)
  ultimately show ?thesis by blast
qed

lemma setup_guard_exploration:
  "passed (run_mode_is_exploration c) \<longleftrightarrow> \<not> is_fast c
     \<and> (is_integration_stabilization c \<or> sc_execution_route c = Some StoryMode_EXPLORATION)"
  by (simp add: run_mode_is_exploration_def routing_defs)

lemma setup_guard_not_exploration:
  "passed (run_mode_is_not_exploration c) \<longleftrightarrow> \<not> is_integration_stabilization c
     \<and> (is_fast c \<or> sc_execution_route c \<noteq> Some StoryMode_EXPLORATION)"
  by (simp add: run_mode_is_not_exploration_def routing_defs)

text \<open>
  Where setup leads, for the code-producing story types whose workflows guard the two edges
  out of setup. The two guards never pass together. For a valid context exactly one passes, the
  one to exploration exactly when \<open>should_run_exploration\<close> asks for it, unless the story is both
  in fast mode and under the integration-stabilization contract: that combination is refused by
  both guards, so the story has no successor of setup although the routing rule wants
  exploration.
\<close>
theorem setup_routing_decides:
  assumes "valid_context c" and "sc_story_type c \<in> {StoryType_IMPLEMENTATION, StoryType_BUGFIX}"
  shows "\<not> (passed (run_mode_is_exploration c) \<and> passed (run_mode_is_not_exploration c))
    \<and> (\<not> (is_fast c \<and> is_integration_stabilization c) \<longrightarrow>
         passed (run_mode_is_exploration c) = should_run_exploration c
         \<and> passed (run_mode_is_not_exploration c) = (\<not> should_run_exploration c))
    \<and> (is_fast c \<and> is_integration_stabilization c \<longrightarrow>
         \<not> passed (run_mode_is_exploration c) \<and> \<not> passed (run_mode_is_not_exploration c)
         \<and> should_run_exploration c)"
  unfolding setup_guard_exploration setup_guard_not_exploration
  using assms(2) valid_context_contract [OF assms(1)]
  by (auto simp: should_run_exploration_def Let_def)

definition fast_stabilization_context :: story_context where
  "fast_stabilization_context = sample_context\<lparr>sc_mode := Mode_FAST,
     sc_implementation_contract := Some Contract_INTEGRATION_STABILIZATION\<rparr>"

lemma fast_stabilization_context_valid: "valid_context fast_stabilization_context"
  by code_simp

theorem setup_routing_decides_witness:
  "\<not> passed (run_mode_is_exploration fast_stabilization_context)
   \<and> \<not> passed (run_mode_is_not_exploration fast_stabilization_context)"
  using setup_routing_decides [OF fast_stabilization_context_valid]
  by (simp add: fast_stabilization_context_def sample_context_def is_fast_def is_integration_stabilization_def)

end
