(* ===== verification/Runtime_Store.thy ===== *)
theory Runtime_Store
  imports Workflow_Defs
begin

text \<open>
  The runtime tables of the state backend and the operations on them that the pipeline engine
  uses (\<open>state_backend/pipeline_runtime_store.py\<close> over \<open>sqlite_store/_runtime_rows.py\<close>,
  records of \<open>phase_state_store/models.py\<close>), and the engine's bookkeeping on top of them
  (\<open>pipeline_engine/runtime_state.py\<close>).

  A table is the list of its rows in insertion order; an upsert replaces the row with the same
  primary key. The serialisation of a row to text and back is the identity here, except that a
  stored phase state may be unreadable. Every write goes through \<open>do_write\<close>, which also
  appends it to a journal, so that the state after a crash between two writes can be talked
  about: it is what the writes before the crash make of the tables.
\<close>

section \<open>Records\<close>

record flow_execution =
  fe_project_key :: string
  fe_story_id :: string
  fe_run_id :: string
  fe_flow_id :: string
  fe_level :: string
  fe_owner :: string
  fe_parent_flow_id :: "string option"
  fe_status :: string
  fe_current_node_id :: "string option"
  fe_attempt_no :: int
  fe_started_at :: int
  fe_finished_at :: "int option"

record node_execution_ledger =
  nl_project_key :: string
  nl_story_id :: string
  nl_run_id :: string
  nl_flow_id :: string
  nl_node_id :: string
  nl_execution_count :: int
  nl_success_count :: int
  nl_last_outcome :: "string option"
  nl_last_attempt_no :: "int option"
  nl_last_executed_at :: "int option"

record override_record =
  ov_override_id :: string
  ov_project_key :: string
  ov_story_id :: string
  ov_run_id :: string
  ov_flow_id :: string
  ov_target_node_id :: "string option"
  ov_override_type :: override_type
  ov_actor_type :: string
  ov_actor_id :: string
  ov_reason :: string
  ov_created_at :: int
  ov_consumed_at :: "int option"
  ov_check_id :: "string option"

record phase_snapshot =
  sn_story_id :: string
  sn_phase :: phase_name
  sn_status :: phase_status
  sn_completed_at :: int
  sn_artifacts :: "string list"
  sn_evidence :: "phase_payload option"

datatype event_type = AGENT_START | FLOW_START | FLOW_END | NODE_RESULT | OVERRIDE_APPLIED

record event =
  ev_project_key :: string
  ev_story_id :: string
  ev_event_type :: event_type
  ev_phase :: "string option"
  ev_flow_id :: string
  ev_node_id :: "string option"
  ev_payload :: "(string \<times> json) list"
  ev_run_id :: string

text \<open>A row of \<open>governance_freeze_records\<close>, as stored.\<close>

record freeze_row =
  fr_story_id :: string
  fr_kind :: string
  fr_reason :: "string option"
  fr_epoch :: "string option"

text \<open>The columns of three tables that only the run purge touches.\<close>

record run_row =
  rr_project_key :: string
  rr_story_id :: string
  rr_run_id :: string

datatype state_cell = Readable phase_state | Unreadable string

record db =
  t_phase_states :: "(string \<times> state_cell) list"
  t_snapshots :: "phase_snapshot list"
  t_attempts :: "(string \<times> attempt_record) list"
  t_flows :: "flow_execution list"
  t_ledgers :: "node_execution_ledger list"
  t_overrides :: "override_record list"
  t_events :: "event list"
  t_freezes :: "freeze_row list"
  t_contexts :: "story_context list"
  t_guard_decisions :: "run_row list"
  t_decision_records :: "string list"
  t_artifact_envelopes :: "run_row list"

section \<open>Writes\<close>

definition upsert :: "('r \<Rightarrow> 'k) \<Rightarrow> 'r \<Rightarrow> 'r list \<Rightarrow> 'r list" where
  "upsert key r t =
    (if key r \<in> key ` set t then map (\<lambda>x. if key x = key r then r else x) t else t @ [r])"

definition attempt_key :: "string \<times> attempt_record \<Rightarrow> string \<times> string \<times> phase_name \<times> int" where
  "attempt_key r = (fst r, ar_run_id (snd r), ar_phase (snd r), ar_attempt (snd r))"

definition snapshot_key :: "phase_snapshot \<Rightarrow> string \<times> phase_name" where
  "snapshot_key r = (sn_story_id r, sn_phase r)"

definition ledger_key :: "node_execution_ledger \<Rightarrow> string \<times> string \<times> string" where
  "ledger_key r = (nl_story_id r, nl_flow_id r, nl_node_id r)"

definition context_key :: "story_context \<Rightarrow> string \<times> string" where
  "context_key c = (sc_project_key c, sc_story_id c)"

text \<open>\<open>INSERT OR REPLACE\<close>: the old row goes, the new one is inserted.\<close>

definition insert_or_replace :: "('r \<Rightarrow> 'k) \<Rightarrow> 'r \<Rightarrow> 'r list \<Rightarrow> 'r list" where
  "insert_or_replace key r t = filter (\<lambda>x. key x \<noteq> key r) t @ [r]"

text \<open>The upsert of an override leaves the scope columns of an existing row as they are.\<close>

definition upsert_override :: "override_record \<Rightarrow> override_record list \<Rightarrow> override_record list" where
  "upsert_override r t =
    (if ov_override_id r \<in> ov_override_id ` set t
     then map (\<lambda>x. if ov_override_id x = ov_override_id r
            then r\<lparr>ov_story_id := ov_story_id x, ov_project_key := ov_project_key x,
                   ov_run_id := ov_run_id x, ov_flow_id := ov_flow_id x\<rparr>
            else x) t
     else t @ [r])"

datatype db_write =
    W_context story_context
  | W_phase_state phase_state
  | W_completion string attempt_record phase_state
  | W_attempt string attempt_record
  | W_snapshot phase_snapshot
  | W_flow flow_execution
  | W_ledger node_execution_ledger
  | W_override override_record
  | W_event event

fun apply_write :: "db_write \<Rightarrow> db \<Rightarrow> db" where
  "apply_write (W_context c) D = D\<lparr>t_contexts := upsert context_key c (t_contexts D)\<rparr>"
| "apply_write (W_phase_state s) D =
     D\<lparr>t_phase_states := upsert fst (ps_story_id s, Readable s) (t_phase_states D)\<rparr>"
| "apply_write (W_completion sid a s) D =
     D\<lparr>t_attempts := insert_or_replace attempt_key (sid, a) (t_attempts D),
       t_phase_states := upsert fst (sid, Readable s) (t_phase_states D)\<rparr>"
| "apply_write (W_attempt sid a) D =
     D\<lparr>t_attempts := insert_or_replace attempt_key (sid, a) (t_attempts D)\<rparr>"
| "apply_write (W_snapshot r) D = D\<lparr>t_snapshots := upsert snapshot_key r (t_snapshots D)\<rparr>"
| "apply_write (W_flow r) D = D\<lparr>t_flows := upsert fe_story_id r (t_flows D)\<rparr>"
| "apply_write (W_ledger r) D = D\<lparr>t_ledgers := upsert ledger_key r (t_ledgers D)\<rparr>"
| "apply_write (W_override r) D = D\<lparr>t_overrides := upsert_override r (t_overrides D)\<rparr>"
| "apply_write (W_event r) D = D\<lparr>t_events := t_events D @ [r]\<rparr>"

definition apply_writes :: "db_write list \<Rightarrow> db \<Rightarrow> db" where
  "apply_writes ws D = fold apply_write ws D"

text \<open>
  The state a computation runs on: the tables, the journal, the clock (the reading at each
  call of \<open>datetime.now\<close>, which need not grow), whether the telemetry backend accepts an
  event, and the rest of the world, which only handlers see.
\<close>

record 'w st =
  st_db :: db
  st_log :: "db_write list"
  st_clock :: "nat \<Rightarrow> int"
  st_ticks :: nat
  st_event_accepted :: "event \<Rightarrow> bool"
  st_world :: 'w

type_synonym ('w, 'a) action = "('w st, exn, 'a) io"

definition write_step :: "db_write \<Rightarrow> 'w st \<Rightarrow> 'w st" where
  "write_step w s = s\<lparr>st_db := apply_write w (st_db s), st_log := st_log s @ [w]\<rparr>"

definition do_write :: "db_write \<Rightarrow> ('w, unit) action" where
  "do_write w = modify (write_step w)"

definition now :: "('w, int) action" where
  "now = bind_io (gets (\<lambda>s. st_clock s (st_ticks s))) (\<lambda>t.
         seq_io (modify (\<lambda>s. s\<lparr>st_ticks := Suc (st_ticks s)\<rparr>)) (ret t))"

section \<open>The store operations\<close>

definition story_id_for :: "string \<Rightarrow> string option" where
  "story_id_for d = (if d = [] then None else Some d)"

definition save_story_context :: "story_context \<Rightarrow> ('w, unit) action" where
  "save_story_context c = do_write (W_context c)"

definition save_phase_state :: "phase_state \<Rightarrow> ('w, unit) action" where
  "save_phase_state s = do_write (W_phase_state s)"

definition phase_state_row :: "db \<Rightarrow> string \<Rightarrow> state_cell option" where
  "phase_state_row D sid = map_option snd (List.find (\<lambda>r. fst r = sid) (t_phase_states D))"

definition load_phase_state :: "string \<Rightarrow> ('w, phase_state option) action" where
  "load_phase_state d = (case story_id_for d of
      None \<Rightarrow> ret None
    | Some sid \<Rightarrow> bind_io (gets (\<lambda>s. phase_state_row (st_db s) sid)) (\<lambda>row. (case row of
          None \<Rightarrow> ret None
        | Some (Unreadable m) \<Rightarrow>
            raise (CorruptStateError (''phase_states payload is invalid in '' @ d @ '': '' @ m))
        | Some (Readable p) \<Rightarrow> (case validate_phase_state p of
              Inl e \<Rightarrow> raise (CorruptStateError
                (''phase_states payload is invalid in '' @ d @ '': '' @ exn_message e))
            | Inr q \<Rightarrow> ret (Some q)))))"

definition save_phase_snapshot :: "phase_snapshot \<Rightarrow> ('w, unit) action" where
  "save_phase_snapshot r = do_write (W_snapshot r)"

definition load_phase_snapshot :: "string \<Rightarrow> phase_name \<Rightarrow> ('w, phase_snapshot option) action" where
  "load_phase_snapshot d p = (case story_id_for d of
      None \<Rightarrow> ret None
    | Some sid \<Rightarrow> gets (\<lambda>s. List.find (\<lambda>r. snapshot_key r = (sid, p)) (t_snapshots (st_db s))))"

definition backend_has_completed_snapshot :: "string \<Rightarrow> phase_name \<Rightarrow> ('w, bool) action" where
  "backend_has_completed_snapshot d p = bind_io (load_phase_snapshot d p)
     (\<lambda>r. ret (case r of None \<Rightarrow> False | Some sn \<Rightarrow> sn_status sn = PhaseStatus_COMPLETED))"

definition save_attempt :: "string \<Rightarrow> attempt_record \<Rightarrow> ('w, unit) action" where
  "save_attempt d a = (case story_id_for d of
      None \<Rightarrow> raise (CorruptStateError ''Cannot persist attempt without story context in canonical backend'')
    | Some sid \<Rightarrow> do_write (W_attempt sid a))"

definition freeze_of_row :: "freeze_row \<Rightarrow> active_freeze_state" where
  "freeze_of_row r = \<lparr>
     fz_kind = enum_of freeze_kind_value freeze_kinds (fr_kind r),
     fz_reason = (case fr_reason r of Some x \<Rightarrow> if py_strip x \<noteq> [] then Some x else None | None \<Rightarrow> None),
     fz_epoch = (case fr_epoch r of
        Some x \<Rightarrow> if is_canonical_freeze_epoch x then Some x else None | None \<Rightarrow> None),
     fz_readable = True\<rparr>"

definition freeze_rows :: "db \<Rightarrow> string \<Rightarrow> freeze_row list" where
  "freeze_rows D sid = filter (\<lambda>r. fr_story_id r = sid) (t_freezes D)"

definition save_phase_completion ::
  "string \<Rightarrow> attempt_record \<Rightarrow> phase_state \<Rightarrow> ('w, unit) action" where
  "save_phase_completion d a p = (case story_id_for d of
      None \<Rightarrow> raise (CorruptStateError ''Cannot persist phase completion without one canonical story scope'')
    | Some sid \<Rightarrow>
        if ps_story_id p \<noteq> sid
        then raise (CorruptStateError ''Cannot persist phase completion without one canonical story scope'')
        else bind_io (gets (\<lambda>s. freeze_rows (st_db s) sid)) (\<lambda>rows.
          if list_ex (\<lambda>r. \<not> command_resolves_freeze ''executor_commit'' (freeze_of_row r)) rows
          then raise (OwnershipFenceViolationError
                 (''story freeze blocks executor commit for story '' @ py_repr sid))
          else do_write (W_completion sid a p)))"

definition attempt_rows :: "db \<Rightarrow> string \<Rightarrow> string \<Rightarrow> string option \<Rightarrow> attempt_record list" where
  "attempt_rows D sid phase run_id = sort_key ar_attempt (map snd (filter
     (\<lambda>r. fst r = sid \<and> phase_name_value (ar_phase (snd r)) = phase
          \<and> (case run_id of None \<Rightarrow> True | Some x \<Rightarrow> ar_run_id (snd r) = x)) (t_attempts D)))"

fun rows_to_attempts :: "attempt_record list \<Rightarrow> exn + attempt_record list" where
  "rows_to_attempts [] = Inr []"
| "rows_to_attempts (r # rs) = (case validate_attempt_record r of
      Inl e \<Rightarrow> Inl e
    | Inr a \<Rightarrow> (case rows_to_attempts rs of Inl e \<Rightarrow> Inl e | Inr xs \<Rightarrow> Inr (a # xs)))"

definition load_attempts :: "string \<Rightarrow> string \<Rightarrow> string option \<Rightarrow> ('w, attempt_record list) action" where
  "load_attempts d phase run_id = (case story_id_for d of
      None \<Rightarrow> ret []
    | Some sid \<Rightarrow> bind_io (gets (\<lambda>s. attempt_rows (st_db s) sid phase run_id))
        (\<lambda>rows. lift_sum (rows_to_attempts rows)))"

definition save_flow_execution :: "flow_execution \<Rightarrow> ('w, unit) action" where
  "save_flow_execution r = do_write (W_flow r)"

definition flow_row :: "db \<Rightarrow> string \<Rightarrow> flow_execution option" where
  "flow_row D sid = List.find (\<lambda>r. fe_story_id r = sid) (t_flows D)"

definition load_flow_execution :: "string \<Rightarrow> ('w, flow_execution option) action" where
  "load_flow_execution d = (case story_id_for d of
      None \<Rightarrow> ret None | Some sid \<Rightarrow> gets (\<lambda>s. flow_row (st_db s) sid))"

definition save_node_execution_ledger :: "node_execution_ledger \<Rightarrow> ('w, unit) action" where
  "save_node_execution_ledger r = do_write (W_ledger r)"

definition ledger_row :: "db \<Rightarrow> string \<Rightarrow> string \<Rightarrow> string \<Rightarrow> node_execution_ledger option" where
  "ledger_row D sid f n = List.find (\<lambda>r. ledger_key r = (sid, f, n)) (t_ledgers D)"

definition load_node_execution_ledger ::
  "string \<Rightarrow> string \<Rightarrow> string \<Rightarrow> ('w, node_execution_ledger option) action" where
  "load_node_execution_ledger d f n = (case story_id_for d of
      None \<Rightarrow> ret None | Some sid \<Rightarrow> gets (\<lambda>s. ledger_row (st_db s) sid f n))"

definition save_override_record :: "override_record \<Rightarrow> ('w, unit) action" where
  "save_override_record r = do_write (W_override r)"

text \<open>\<open>ORDER BY created_at ASC\<close>; rows with equal time stamps in the order of insertion.\<close>

definition override_rows :: "db \<Rightarrow> string \<Rightarrow> override_record list" where
  "override_rows D sid = sort_key ov_created_at (filter (\<lambda>r. ov_story_id r = sid) (t_overrides D))"

definition load_override_records :: "string \<Rightarrow> ('w, override_record list) action" where
  "load_override_records d = (case story_id_for d of
      None \<Rightarrow> ret [] | Some sid \<Rightarrow> gets (\<lambda>s. override_rows (st_db s) sid))"

text \<open>\<open>StateBackendEmitter.emit\<close>: appends the event or degrades to a log line; never raises.\<close>

definition emit :: "event \<Rightarrow> ('w, unit) action" where
  "emit e = bind_io (gets (\<lambda>s. st_event_accepted s e))
     (\<lambda>ok. if ok then do_write (W_event e) else ret ())"

section \<open>The engine's bookkeeping\<close>

text \<open>An \<open>EngineRuntimeState\<close>; \<open>rs_run_id\<close> is the UUID drawn when it is constructed.\<close>

record runtime_state =
  rs_workflow :: flow_definition
  rs_story_dir :: string
  rs_run_id :: string

definition attempt_id_of :: "string \<Rightarrow> nat \<Rightarrow> string" where
  "attempt_id_of phase n = phase @ CHR ''-'' # pad3 n"

definition generate_attempt_id :: "runtime_state \<Rightarrow> string \<Rightarrow> ('w, string) action" where
  "generate_attempt_id rs phase =
     bind_io (load_attempts (rs_story_dir rs) phase (Some (rs_run_id rs)))
       (\<lambda>existing. ret (attempt_id_of phase (length existing + 1)))"

definition project_key_for :: "story_context \<Rightarrow> string" where
  "project_key_for ctx = sc_project_key ctx"

definition resolve_run_id :: "runtime_state \<Rightarrow> story_context \<Rightarrow> ('w, string) action" where
  "resolve_run_id rs ctx = bind_io (load_flow_execution (rs_story_dir rs)) (\<lambda>existing.
     ret (case existing of
        None \<Rightarrow> rs_run_id rs
      | Some f \<Rightarrow> if fe_flow_id f = flow_id (rs_workflow rs) \<and> fe_story_id f = sc_story_id ctx
                    \<and> fe_project_key f = project_key_for ctx
                 then fe_run_id f else rs_run_id rs))"

definition attempt_number :: "string \<Rightarrow> int" where
  "attempt_number aid = (case rsplit_last CHR ''-'' aid of
      None \<Rightarrow> 1
    | Some suffix \<Rightarrow> (case py_int suffix of None \<Rightarrow> 1 | Some n \<Rightarrow> n))"

definition emit_event ::
  "runtime_state \<Rightarrow> story_context \<Rightarrow> event_type \<Rightarrow> string option \<Rightarrow> string option
     \<Rightarrow> (string \<times> json) list \<Rightarrow> ('w, unit) action" where
  "emit_event rs ctx t phase node payload = bind_io (resolve_run_id rs ctx) (\<lambda>run_id.
     emit \<lparr>ev_project_key = project_key_for ctx, ev_story_id = sc_story_id ctx, ev_event_type = t,
           ev_phase = phase, ev_flow_id = flow_id (rs_workflow rs), ev_node_id = node,
           ev_payload = payload, ev_run_id = run_id\<rparr>)"

definition or_else :: "string option \<Rightarrow> string \<Rightarrow> string" where
  "or_else x d = (case x of None \<Rightarrow> d | Some v \<Rightarrow> if v = [] then d else v)"

definition flow_payload :: "runtime_state \<Rightarrow> int \<Rightarrow> (string \<times> json) list" where
  "flow_payload rs attempt_no =
    [(''flow_id'', JStr (flow_id (rs_workflow rs))),
     (''level'', JStr (flow_level_value (flow_level (rs_workflow rs)))),
     (''owner'', JStr (flow_owner (rs_workflow rs))), (''attempt_no'', JInt attempt_no)]"

definition record_flow_execution ::
  "runtime_state \<Rightarrow> story_context \<Rightarrow> string \<Rightarrow> string \<Rightarrow> string \<Rightarrow> string option \<Rightarrow> int option
     \<Rightarrow> ('w, unit) action" where
  "record_flow_execution rs ctx phase_name aid status node_id finished_at =
    bind_io (load_flow_execution (rs_story_dir rs)) (\<lambda>existing.
    bind_io (resolve_run_id rs ctx) (\<lambda>run_id.
    let attempt_no = attempt_number aid;
        same_flow = (case existing of None \<Rightarrow> False | Some f \<Rightarrow> fe_flow_id f = flow_id (rs_workflow rs));
        is_new_flow = \<not> same_flow;
        node = Some (or_else node_id phase_name) in
    bind_io (case existing of
        Some f \<Rightarrow> if fe_flow_id f = flow_id (rs_workflow rs) then ret (fe_started_at f) else now
      | None \<Rightarrow> now) (\<lambda>started_at.
    seq_io (save_flow_execution \<lparr>
        fe_project_key = project_key_for ctx, fe_story_id = sc_story_id ctx, fe_run_id = run_id,
        fe_flow_id = flow_id (rs_workflow rs),
        fe_level = flow_level_value (flow_level (rs_workflow rs)),
        fe_owner = flow_owner (rs_workflow rs), fe_parent_flow_id = None, fe_status = status,
        fe_current_node_id = node, fe_attempt_no = attempt_no, fe_started_at = started_at,
        fe_finished_at = finished_at\<rparr>)
    (if is_new_flow then
       seq_io (emit_event rs ctx AGENT_START (Some phase_name) node
                (flow_payload rs attempt_no @ [(''agent_type'', JStr ''pipeline_engine'')]))
              (emit_event rs ctx FLOW_START (Some phase_name) node (flow_payload rs attempt_no))
     else ret ()))))"

definition record_node_outcome ::
  "runtime_state \<Rightarrow> story_context \<Rightarrow> string \<Rightarrow> string \<Rightarrow> string \<Rightarrow> string option
     \<Rightarrow> ('w, unit) action" where
  "record_node_outcome rs ctx node_id aid outcome target_node_id =
    bind_io (load_node_execution_ledger (rs_story_dir rs) (flow_id (rs_workflow rs)) node_id) (\<lambda>existing.
    let succ = (if outcome = ''PASS'' then 1 else 0);
        execution_count = (case existing of None \<Rightarrow> 1 | Some l \<Rightarrow> nl_execution_count l + 1);
        success_count = (case existing of None \<Rightarrow> succ | Some l \<Rightarrow> nl_success_count l + succ) in
    bind_io (resolve_run_id rs ctx) (\<lambda>run_id.
    bind_io now (\<lambda>t.
    seq_io (save_node_execution_ledger \<lparr>
        nl_project_key = project_key_for ctx, nl_story_id = sc_story_id ctx, nl_run_id = run_id,
        nl_flow_id = flow_id (rs_workflow rs), nl_node_id = node_id,
        nl_execution_count = execution_count, nl_success_count = success_count,
        nl_last_outcome = Some outcome, nl_last_attempt_no = Some (attempt_number aid),
        nl_last_executed_at = Some t\<rparr>)
    (emit_event rs ctx NODE_RESULT (Some node_id) (Some node_id)
       ([(''flow_id'', JStr (flow_id (rs_workflow rs))), (''node_id'', JStr node_id),
         (''kind'', JStr ''phase''), (''outcome'', JStr outcome),
         (''attempt_no'', JInt (attempt_number aid))]
        @ (case target_node_id of None \<Rightarrow> [] | Some t \<Rightarrow> [(''target_node_id'', JStr t)]))))))"

definition record_flow_end ::
  "runtime_state \<Rightarrow> story_context \<Rightarrow> string \<Rightarrow> string \<Rightarrow> string \<Rightarrow> string option
     \<Rightarrow> ('w, unit) action" where
  "record_flow_end rs ctx phase_name aid status node_id =
    emit_event rs ctx FLOW_END (Some phase_name) (Some (or_else node_id phase_name))
      (flow_payload rs (attempt_number aid) @ [(''status'', JStr status)])"

definition iter_active_overrides :: "runtime_state \<Rightarrow> story_context \<Rightarrow> ('w, override_record list) action" where
  "iter_active_overrides rs ctx = bind_io (resolve_run_id rs ctx) (\<lambda>run_id.
     bind_io (load_override_records (rs_story_dir rs)) (\<lambda>records.
     ret (filter (\<lambda>r. ov_consumed_at r = None
            \<and> \<not> (ov_flow_id r \<noteq> flow_id (rs_workflow rs) \<or> ov_run_id r \<noteq> run_id)) records)))"

definition consume_override :: "runtime_state \<Rightarrow> story_context \<Rightarrow> override_record \<Rightarrow> ('w, unit) action" where
  "consume_override rs ctx r = bind_io now (\<lambda>t.
     seq_io (save_override_record (r\<lparr>ov_consumed_at := Some t\<rparr>))
       (emit_event rs ctx OVERRIDE_APPLIED (ov_target_node_id r) (ov_target_node_id r)
          [(''flow_id'', JStr (ov_flow_id r)), (''node_id'', json_opt_str (ov_target_node_id r)),
           (''override_type'', JStr (override_type_value (ov_override_type r))),
           (''actor_type'', JStr (ov_actor_type r)), (''override_id'', JStr (ov_override_id r))]))"

section \<open>What the operations write\<close>

text \<open>
  \<open>writes_only P\<close> relates the states before and after when everything written in between is a
  journalled write that satisfies \<open>P\<close> and the clock at most ticked on. It is a frame, so it is proved of a computation from its
  parts.
\<close>

definition writes_only :: "(db_write \<Rightarrow> bool) \<Rightarrow> 'w st \<Rightarrow> 'w st \<Rightarrow> bool" where
  "writes_only P s t \<longleftrightarrow>
    (\<exists>ws. st_log t = st_log s @ ws \<and> st_db t = apply_writes ws (st_db s) \<and> list_all P ws)
    \<and> st_clock t = st_clock s \<and> st_ticks s \<le> st_ticks t"

lemma apply_writes_simps [simp]:
  "apply_writes [] D = D"
  "apply_writes (w # ws) D = apply_writes ws (apply_write w D)"
  "apply_writes (ws @ vs) D = apply_writes vs (apply_writes ws D)"
  by (simp_all add: apply_writes_def)

interpretation writes: frame "writes_only P" for P
proof
  show "writes_only P s s" for s :: "'w st"
    by (simp add: writes_only_def exI [of _ "[]"])
  show "writes_only P s u" if "writes_only P s t" "writes_only P t u" for s t u :: "'w st"
  proof -
    from that obtain ws vs where "st_log t = st_log s @ ws" "st_db t = apply_writes ws (st_db s)"
        "list_all P ws" "st_log u = st_log t @ vs" "st_db u = apply_writes vs (st_db t)" "list_all P vs"
      by (auto simp: writes_only_def)
    then have "\<exists>xs. st_log u = st_log s @ xs \<and> st_db u = apply_writes xs (st_db s) \<and> list_all P xs"
      by (intro exI [of _ "ws @ vs"]) simp
    then show ?thesis using that by (auto simp: writes_only_def)
  qed
qed

lemma writes_only_invariant:
  assumes "writes_only P s t" and "\<And>w D. P w \<Longrightarrow> I D \<Longrightarrow> I (apply_write w D)" and "I (st_db s)"
  shows "I (st_db t)"
proof -
  have "list_all P ws \<Longrightarrow> I D \<Longrightarrow> I (apply_writes ws D)" for ws D
    by (induction ws arbitrary: D) (auto intro: assms(2))
  then show ?thesis using assms(1,3) by (auto simp: writes_only_def)
qed

lemma writes_do_write: "P w \<Longrightarrow> writes.keeps P (do_write w)"
  unfolding do_write_def
  by (rule writes.keeps_modify) (auto simp: writes_only_def write_step_def intro: exI [of _ "[w]"])

lemma writes_now: "writes.keeps P now"
  unfolding now_def
  by (intro writes.keeps_intros writes.keeps_modify)
     (auto simp: writes_only_def intro: exI [of _ "[]"])

named_theorems writes_intros "which writes an operation makes"

lemmas [writes_intros] = writes.keeps_intros writes_do_write writes_now

lemma writes_loads [writes_intros]:
  "writes.keeps P (load_flow_execution d)"
  "writes.keeps P (load_node_execution_ledger d f n)"
  "writes.keeps P (load_override_records d)"
  "writes.keeps P (load_attempts d ph r)"
  "writes.keeps P (load_phase_state d)"
  by (auto simp: load_flow_execution_def load_node_execution_ledger_def load_override_records_def
      load_attempts_def load_phase_state_def intro!: writes_intros split: option.splits state_cell.splits sum.splits)

lemma writes_resolve_run_id [writes_intros]: "writes.keeps P (resolve_run_id rs ctx)"
  by (simp add: resolve_run_id_def writes_intros)

lemma writes_generate_attempt_id [writes_intros]: "writes.keeps P (generate_attempt_id rs ph)"
  by (simp add: generate_attempt_id_def writes_intros)

lemma writes_iter_active_overrides [writes_intros]: "writes.keeps P (iter_active_overrides rs ctx)"
  by (simp add: iter_active_overrides_def writes_intros)

lemma writes_emit_event [writes_intros]:
  "(\<And>e. P (W_event e)) \<Longrightarrow> writes.keeps P (emit_event rs ctx t ph n pl)"
  by (auto simp: emit_event_def emit_def intro!: writes_intros)

lemma writes_record_flow_execution [writes_intros]:
  "(\<And>e. P (W_event e)) \<Longrightarrow> (\<And>r. P (W_flow r)) \<Longrightarrow>
    writes.keeps P (record_flow_execution rs ctx ph aid st n fin)"
  by (auto simp: record_flow_execution_def save_flow_execution_def Let_def intro!: writes_intros
      split: option.splits)

lemma writes_record_node_outcome [writes_intros]:
  "(\<And>e. P (W_event e)) \<Longrightarrow> (\<And>r. P (W_ledger r)) \<Longrightarrow>
    writes.keeps P (record_node_outcome rs ctx n aid out tgt)"
  by (auto simp: record_node_outcome_def save_node_execution_ledger_def Let_def intro!: writes_intros)

lemma writes_record_flow_end [writes_intros]:
  "(\<And>e. P (W_event e)) \<Longrightarrow> writes.keeps P (record_flow_end rs ctx ph aid st n)"
  by (simp add: record_flow_end_def writes_intros)

lemma writes_consume_override [writes_intros]:
  "(\<And>e. P (W_event e)) \<Longrightarrow> (\<And>r. P (W_override r)) \<Longrightarrow> writes.keeps P (consume_override rs ctx r)"
  by (auto simp: consume_override_def save_override_record_def intro!: writes_intros)

lemma writes_save_phase_completion [writes_intros]:
  "(\<And>sid. P (W_completion sid a p)) \<Longrightarrow> writes.keeps P (save_phase_completion d a p)"
  by (auto simp: save_phase_completion_def intro!: writes_intros split: option.splits)

lemma writes_saves [writes_intros]:
  "P (W_snapshot r) \<Longrightarrow> writes.keeps P (save_phase_snapshot r)"
  "P (W_context c) \<Longrightarrow> writes.keeps P (save_story_context c)"
  "P (W_phase_state p) \<Longrightarrow> writes.keeps P (save_phase_state p)"
  by (simp_all add: save_phase_snapshot_def save_story_context_def save_phase_state_def writes_do_write)

section \<open>Tables\<close>

lemma find_upsert:
  "List.find (\<lambda>x. key x = k) (upsert key r t) = (if k = key r then Some r else List.find (\<lambda>x. key x = k) t)"
proof -
  have other: "k \<noteq> key r \<Longrightarrow>
      List.find (\<lambda>x. key x = k) (map (\<lambda>x. if key x = key r then r else x) t) = List.find (\<lambda>x. key x = k) t"
    by (induction t) auto
  have same: "key r \<in> key ` set t \<Longrightarrow>
      List.find (\<lambda>x. key x = key r) (map (\<lambda>x. if key x = key r then r else x) t) = Some r"
    by (induction t) auto
  have append: "List.find p (t @ [r]) = (case List.find p t of None \<Rightarrow> if p r then Some r else None | Some x \<Rightarrow> Some x)" for p
    by (induction t) auto
  have fresh: "key r \<notin> key ` set t \<Longrightarrow> List.find (\<lambda>x. key x = key r) t = None"
    by (induction t) auto
  show ?thesis
  proof (cases "key r \<in> key ` set t")
    case True
    then show ?thesis using other same by (cases "k = key r") (simp_all add: upsert_def)
  next
    case False
    then show ?thesis using fresh
      by (cases "k = key r") (auto simp: upsert_def append split: option.splits)
  qed
qed

lemma set_upsert: "set (upsert key r t) \<subseteq> insert r (set t)"
  by (auto simp: upsert_def)

lemma upsert_in [simp]: "r \<in> set (upsert key r t)"
  by (force simp: upsert_def)

lemma insert_or_replace_in [simp]: "r \<in> set (insert_or_replace key r t)"
  by (simp add: insert_or_replace_def)

section \<open>Attempt identifiers\<close>

lemma attempt_number_attempt_id: "attempt_number (attempt_id_of phase n) = int n"
proof -
  have "CHR ''-'' \<notin> set (pad3 n)"
    by (auto dest!: pad3_digits dest: digit_char_not_sign(1) [THEN not_sym])
  from rsplit_last_append [OF this, of phase] show ?thesis
    unfolding attempt_number_def attempt_id_of_def by (simp only: option.case py_int_pad3)
qed

lemma returns_generate_attempt_id:
  "returns (\<lambda>aid. \<exists>n. aid = attempt_id_of phase (Suc n)) (generate_attempt_id rs phase)"
  by (auto simp: generate_attempt_id_def intro!: returns_bind_any)

section \<open>The run id\<close>

definition run_id_in :: "runtime_state \<Rightarrow> story_context \<Rightarrow> db \<Rightarrow> string" where
  "run_id_in rs ctx D = (case story_id_for (rs_story_dir rs) of
      None \<Rightarrow> rs_run_id rs
    | Some sid \<Rightarrow> (case flow_row D sid of
        None \<Rightarrow> rs_run_id rs
      | Some f \<Rightarrow> if fe_flow_id f = flow_id (rs_workflow rs) \<and> fe_story_id f = sc_story_id ctx
                    \<and> fe_project_key f = project_key_for ctx
                 then fe_run_id f else rs_run_id rs))"

lemma resolve_run_id_eq: "resolve_run_id rs ctx = gets (\<lambda>s. run_id_in rs ctx (st_db s))"
  by (rule ext) (auto simp: resolve_run_id_def run_id_in_def load_flow_execution_def bind_io_def ret_def
      gets_def split: option.splits)

lemma flow_row_upsert:
  "flow_row (apply_write (W_flow r) D) sid = (if sid = fe_story_id r then Some r else flow_row D sid)"
  by (simp add: flow_row_def find_upsert)

end
