(* ===== verification/Engine.thy ===== *)
theory Engine
  imports Runtime_Store
begin

text \<open>
  The pipeline interpreter: the handler protocol and registry (\<open>pipeline_engine/lifecycle.py\<close>),
  the semantics of transitions and handler results (\<open>result_handling.py\<close>) and the engine's
  \<open>run_phase\<close> and \<open>resume_phase\<close> (\<open>engine.py\<close>). Handlers are parameters: arbitrary
  computations on the store and the world that may raise.
\<close>

section \<open>Handlers\<close>

text \<open>A \<open>yield_status\<close> is a pause reason or a free string.\<close>

datatype yield_status = Yield_reason pause_reason | Yield_string string

record handler_result =
  hr_status :: phase_status
  hr_yield_status :: "yield_status option"
  hr_artifacts_produced :: "string list"
  hr_errors :: "string list"
  hr_updated_context :: "story_context option"
  hr_updated_state :: "phase_state option"
  hr_suggested_reaction :: "string option"

datatype phase_origin = Origin_NEW | Origin_LOADED

record phase_envelope =
  pe_state :: phase_state
  pe_origin :: phase_origin

record 'w phase_handler =
  on_enter :: "story_context \<Rightarrow> phase_envelope \<Rightarrow> ('w, handler_result) action"
  on_exit :: "story_context \<Rightarrow> phase_envelope \<Rightarrow> ('w, unit) action"
  on_resume :: "story_context \<Rightarrow> phase_envelope \<Rightarrow> string \<Rightarrow> ('w, handler_result) action"

definition handler_completed :: handler_result where
  "handler_completed = \<lparr>hr_status = PhaseStatus_COMPLETED, hr_yield_status = None,
     hr_artifacts_produced = [], hr_errors = [], hr_updated_context = None, hr_updated_state = None,
     hr_suggested_reaction = None\<rparr>"

definition no_op_handler :: "'w phase_handler" where
  "no_op_handler = \<lparr>on_enter = (\<lambda>ctx env. ret handler_completed), on_exit = (\<lambda>ctx env. ret ()),
     on_resume = (\<lambda>ctx env trigger. ret handler_completed)\<rparr>"

type_synonym 'w handler_registry = "string \<rightharpoonup> 'w phase_handler"

definition register :: "string \<Rightarrow> 'w phase_handler \<Rightarrow> 'w handler_registry \<Rightarrow> 'w handler_registry" where
  "register phase_name h reg = reg(phase_name \<mapsto> h)"

definition get_handler :: "'w handler_registry \<Rightarrow> string \<Rightarrow> exn + 'w phase_handler" where
  "get_handler reg phase_name = (case reg phase_name of
      None \<Rightarrow> Inl (PipelineError (''No handler registered for phase '' @ quote @ phase_name @ quote))
    | Some h \<Rightarrow> Inr h)"

definition has_handler :: "'w handler_registry \<Rightarrow> string \<Rightarrow> bool" where
  "has_handler reg phase_name = (reg phase_name \<noteq> None)"

definition registered_phases :: "'w handler_registry \<Rightarrow> string set" where
  "registered_phases reg = dom reg"

section \<open>The engine and its results\<close>

record 'w pipeline_engine =
  en_workflow :: flow_definition
  en_registry :: "'w handler_registry"
  en_story_dir :: string
  en_run_id :: string

definition en_runtime :: "'w pipeline_engine \<Rightarrow> runtime_state" where
  "en_runtime e = \<lparr>rs_workflow = en_workflow e, rs_story_dir = en_story_dir e, rs_run_id = en_run_id e\<rparr>"

record engine_result =
  res_status :: string
  res_phase :: string
  res_yield_status :: "yield_status option"
  res_next_phase :: "string option"
  res_errors :: "string list"
  res_attempt_id :: "string option"
  res_updated_context :: "story_context option"
  res_suggested_reaction :: "string option"

definition engine_result_of :: "string \<Rightarrow> string \<Rightarrow> engine_result" where
  "engine_result_of status phase = \<lparr>res_status = status, res_phase = phase, res_yield_status = None,
     res_next_phase = None, res_errors = [], res_attempt_id = None, res_updated_context = None,
     res_suggested_reaction = None\<rparr>"

section \<open>Semantics of pause reasons, transitions, preconditions and guards\<close>

definition yield_point_matches_pause_reason :: "string \<Rightarrow> pause_reason option \<Rightarrow> bool" where
  "yield_point_matches_pause_reason status pr = (case pr of
      None \<Rightarrow> False
    | Some p \<Rightarrow> (case from_yield_status status of Inr q \<Rightarrow> q = p | Inl _ \<Rightarrow> False))"

definition coerce_pause_reason :: "yield_status option \<Rightarrow> string \<Rightarrow> exn + pause_reason option" where
  "coerce_pause_reason raw phase_name = (case raw of
      None \<Rightarrow> Inr None
    | Some (Yield_reason p) \<Rightarrow> Inr (Some p)
    | Some (Yield_string v) \<Rightarrow> (case from_yield_status v of
          Inr p \<Rightarrow> Inr (Some p)
        | Inl _ \<Rightarrow> Inl (InvalidPauseReasonError
            (''Handler for phase '' @ py_repr phase_name @ '' produced unknown yield_status ''
             @ py_repr v @ ''; PauseReason allows only '' @ py_list_repr (map pause_reason_value pause_reasons)))))"

definition coerce_phase_name :: "string \<Rightarrow> phase_name" where
  "coerce_phase_name phase = (case phase_name_of phase of Some p \<Rightarrow> p | None \<Rightarrow> PhaseName_IMPLEMENTATION)"

definition build_attempt_record ::
  "string \<Rightarrow> string \<Rightarrow> int \<Rightarrow> attempt_outcome \<Rightarrow> failure_cause option \<Rightarrow> int \<Rightarrow> int
     \<Rightarrow> (string \<times> json) list option \<Rightarrow> exn + attempt_record" where
  "build_attempt_record run_id phase attempt_nr outcome failure_cause started_at ended_at detail =
     validate_attempt_record \<lparr>ar_run_id = run_id, ar_phase = coerce_phase_name phase,
       ar_attempt = attempt_nr, ar_outcome = outcome, ar_failure_cause = failure_cause,
       ar_started_at = started_at, ar_ended_at = ended_at, ar_detail = detail\<rparr>"

fun first_passing :: "edge_rule list \<Rightarrow> story_context \<Rightarrow> phase_state \<Rightarrow> exn + edge_rule option" where
  "first_passing [] ctx s = Inr None"
| "first_passing (tr # trs) ctx s = (case er_guard tr of
      None \<Rightarrow> Inr (Some tr)
    | Some g \<Rightarrow> (case guard_run g ctx s of
          Inl x \<Rightarrow> Inl x
        | Inr r \<Rightarrow> if passed r then Inr (Some tr) else first_passing trs ctx s))"

definition evaluate_transitions ::
  "flow_definition \<Rightarrow> story_context \<Rightarrow> phase_state \<Rightarrow> exn + edge_rule option" where
  "evaluate_transitions w ctx s = first_passing (get_edges_from w (phase_name_value (ps_phase s))) ctx s"

definition transition_target ::
  "flow_definition \<Rightarrow> story_context \<Rightarrow> phase_state \<Rightarrow> exn + string option" where
  "transition_target w ctx s = (case evaluate_transitions w ctx s of
      Inl x \<Rightarrow> Inl x | Inr t \<Rightarrow> Inr (map_option er_target t))"

fun check_preconditions ::
  "precondition list \<Rightarrow> story_context \<Rightarrow> phase_state \<Rightarrow> exn + string list" where
  "check_preconditions [] ctx s = Inr []"
| "check_preconditions (p # ps) ctx s =
    (let applies = (case pc_when p of
          None \<Rightarrow> True
        | Some w \<Rightarrow> (case w ctx s of Inl _ \<Rightarrow> True | Inr b \<Rightarrow> b)) in
     if \<not> applies then check_preconditions ps ctx s
     else case guard_run (pc_guard p) ctx s of
        Inl x \<Rightarrow> Inl x
      | Inr r \<Rightarrow> (case check_preconditions ps ctx s of
            Inl x \<Rightarrow> Inl x
          | Inr fs \<Rightarrow> Inr (if passed r then fs else or_else (reason r) ''Precondition failed'' # fs)))"

definition can_enter_phase ::
  "flow_definition \<Rightarrow> string \<Rightarrow> story_context \<Rightarrow> phase_state \<Rightarrow> exn + bool \<times> string list" where
  "can_enter_phase w phase_name ctx s = (case get_node w phase_name of
      None \<Rightarrow> Inr (True, [])
    | Some nd \<Rightarrow>
        if nd_preconditions nd = [] then Inr (True, [])
        else case check_preconditions (nd_preconditions nd) ctx s of
          Inl x \<Rightarrow> Inl x
        | Inr failures \<Rightarrow> if failures \<noteq> [] then Inr (False, failures) else Inr (True, []))"

record guard_evaluation =
  ge_guard :: string
  ge_passed :: bool
  ge_reason :: "string option"

definition evaluate_phase_guards ::
  "node_definition \<Rightarrow> story_context \<Rightarrow> phase_state \<Rightarrow> guard_evaluation list" where
  "evaluate_phase_guards nd ctx s = map (\<lambda>g. (case guard_run g ctx s of
      Inr r \<Rightarrow> \<lparr>ge_guard = guard_name g, ge_passed = passed r, ge_reason = reason r\<rparr>
    | Inl x \<Rightarrow> \<lparr>ge_guard = guard_name g, ge_passed = False,
                 ge_reason = Some (''Guard raised exception: '' @ exn_message x)\<rparr>)) (nd_guards nd)"

definition guard_evals_json :: "guard_evaluation list \<Rightarrow> json" where
  "guard_evals_json evs = JList (map (\<lambda>g. JObj [(''guard'', JStr (ge_guard g)),
     (''passed'', JBool (ge_passed g)), (''reason'', json_opt_str (ge_reason g))]) evs)"

fun override_allowed :: "override_type \<Rightarrow> override_policy \<Rightarrow> bool" where
  "override_allowed SKIP_NODE p = allow_skip p"
| "override_allowed FORCE_GATE_PASS p = allow_force_pass p"
| "override_allowed FORCE_GATE_FAIL p = allow_force_fail p"
| "override_allowed JUMP_TO p = allow_jump p"
| "override_allowed TRUNCATE_FLOW p = allow_truncate p"
| "override_allowed FREEZE_RETRIES p = allow_freeze_retries p"

text \<open>\<open>x or y\<close> on an optional value whose instances are all truthy.\<close>

definition or_value :: "'a option \<Rightarrow> 'a \<Rightarrow> 'a" where
  "or_value x d = (case x of None \<Rightarrow> d | Some v \<Rightarrow> v)"

definition completed_state_for ::
  "phase_state \<Rightarrow> string \<Rightarrow> handler_result \<Rightarrow> exn + phase_state" where
  "completed_state_for state aid result =
     evolve_phase_state (or_value (hr_updated_state result) state)
       (retire_updates (ps_phase state) PhaseStatus_COMPLETED (hr_errors result) aid)"

definition snapshot_evidence :: "phase_state \<Rightarrow> phase_payload option" where
  "snapshot_evidence s = ps_payload s"

text \<open>The optional entries of \<open>detail\<close>: an empty dictionary stays \<open>None\<close>.\<close>

definition detail_artifacts :: "string list \<Rightarrow> (string \<times> json) list" where
  "detail_artifacts arts = (if arts = [] then [] else [(''artifacts_produced'', JList (map JStr arts))])"

definition detail_trigger :: "string option \<Rightarrow> (string \<times> json) list" where
  "detail_trigger t = (case t of None \<Rightarrow> [] | Some x \<Rightarrow> [(''resume_trigger'', JStr x)])"

definition detail_of :: "(string \<times> json) list \<Rightarrow> (string \<times> json) list option" where
  "detail_of d = (if d = [] then None else Some d)"

section \<open>Completing a node without its handler\<close>

definition complete_without_handler ::
  "'w pipeline_engine \<Rightarrow> story_context \<Rightarrow> phase_state \<Rightarrow> string \<Rightarrow> attempt_outcome \<Rightarrow> failure_cause option
     \<Rightarrow> string \<Rightarrow> string \<Rightarrow> string list \<Rightarrow> string list \<Rightarrow> string option \<Rightarrow> int
     \<Rightarrow> ('w, engine_result) action" where
  "complete_without_handler e ctx state aid outcome failure_cause node_outcome flow_status
      artifacts errors next_phase_override started_at =
    (let phase_name = phase_name_value (ps_phase state); rs = en_runtime e in
    bind_io (lift_sum (evolve_phase_state state
        (retire_updates (ps_phase state) PhaseStatus_COMPLETED errors aid))) (\<lambda>completed_state.
    bind_io now (\<lambda>finished_at.
    bind_io (resolve_run_id rs ctx) (\<lambda>run_id.
    bind_io (lift_sum (build_attempt_record run_id phase_name (attempt_number aid) outcome failure_cause
        started_at finished_at (detail_of (detail_artifacts artifacts)))) (\<lambda>attempt.
    seq_io (save_phase_completion (en_story_dir e) attempt completed_state)
    (seq_io (record_flow_execution rs ctx phase_name aid flow_status (Some phase_name) (Some finished_at))
    (seq_io (record_node_outcome rs ctx phase_name aid node_outcome next_phase_override)
    (bind_io (case next_phase_override of
        Some t \<Rightarrow> ret (Some t)
      | None \<Rightarrow> lift_sum (transition_target (en_workflow e) ctx completed_state)) (\<lambda>next_phase.
    seq_io (if next_phase = None
            then record_flow_end rs ctx phase_name aid flow_status (Some phase_name) else ret ())
    (ret ((engine_result_of ''phase_completed'' phase_name)
       \<lparr>res_next_phase := next_phase, res_errors := errors, res_attempt_id := Some aid,
        res_updated_context := Some ctx\<rparr>)))))))))))"

section \<open>Overrides and execution policy\<close>

fun apply_override_records ::
  "'w pipeline_engine \<Rightarrow> story_context \<Rightarrow> phase_state \<Rightarrow> node_definition \<Rightarrow> string \<Rightarrow> int
     \<Rightarrow> override_record list \<Rightarrow> ('w, engine_result option) action" where
  "apply_override_records e ctx state nd aid started_at [] = ret None"
| "apply_override_records e ctx state nd aid started_at (r # records) =
    (if ov_override_type r = SKIP_NODE
        \<and> override_allowed (ov_override_type r) (nd_override_policy nd)
        \<and> ov_target_node_id r \<in> {None, Some (phase_name_value (ps_phase state))}
     then seq_io (consume_override (en_runtime e) ctx r)
       (bind_io (complete_without_handler e ctx state aid Outcome_SKIPPED None ''SKIP'' ''SKIPPED''
                  [] [ov_reason r] None started_at) (\<lambda>x. ret (Some x)))
     else if ov_override_type r = JUMP_TO
        \<and> override_allowed (ov_override_type r) (nd_override_policy nd)
        \<and> ov_target_node_id r \<noteq> None \<and> ov_target_node_id r \<noteq> Some []
        \<and> get_node (en_workflow e) (the (ov_target_node_id r)) \<noteq> None
     then seq_io (consume_override (en_runtime e) ctx r)
       (bind_io (complete_without_handler e ctx state aid Outcome_SKIPPED None ''SKIP'' ''JUMPED''
                  [] [ov_reason r] (ov_target_node_id r) started_at) (\<lambda>x. ret (Some x)))
     else apply_override_records e ctx state nd aid started_at records)"

definition apply_pre_execution_override ::
  "'w pipeline_engine \<Rightarrow> story_context \<Rightarrow> phase_state \<Rightarrow> node_definition \<Rightarrow> string \<Rightarrow> int
     \<Rightarrow> ('w, engine_result option) action" where
  "apply_pre_execution_override e ctx state nd aid started_at =
     bind_io (iter_active_overrides (en_runtime e) ctx)
       (\<lambda>records. apply_override_records e ctx state nd aid started_at (rev records))"

definition policy_skip_reason ::
  "execution_policy \<Rightarrow> string \<Rightarrow> string \<Rightarrow> node_execution_ledger \<Rightarrow> string option" where
  "policy_skip_reason policy name current_run_id existing =
    (if policy = ONCE_PER_RUN \<and> nl_run_id existing = current_run_id \<and> nl_execution_count existing > 0
     then Some (''ExecutionPolicy once_per_run already satisfied for node '' @ quote @ name @ quote)
     else if policy = ONCE_PER_STORY \<and> nl_execution_count existing > 0
     then Some (''ExecutionPolicy once_per_story already satisfied for node '' @ quote @ name @ quote)
     else if policy \<in> {SKIP_AFTER_SUCCESS, UNTIL_SUCCESS} \<and> nl_success_count existing > 0
     then Some (''ExecutionPolicy '' @ execution_policy_value policy @ '' already satisfied for node ''
                @ quote @ name @ quote)
     else None)"

definition should_skip_for_execution_policy ::
  "'w pipeline_engine \<Rightarrow> story_context \<Rightarrow> node_definition \<Rightarrow> ('w, string option) action" where
  "should_skip_for_execution_policy e ctx nd =
    bind_io (load_node_execution_ledger (en_story_dir e) (flow_id (en_workflow e)) (nd_name nd))
    (\<lambda>existing. (case existing of
        None \<Rightarrow> ret None
      | Some l \<Rightarrow> bind_io (resolve_run_id (en_runtime e) ctx)
          (\<lambda>run_id. ret (policy_skip_reason (nd_execution_policy nd) (nd_name nd) run_id l))))"

fun consume_freeze_retries ::
  "'w pipeline_engine \<Rightarrow> story_context \<Rightarrow> string \<Rightarrow> override_policy \<Rightarrow> override_record list
     \<Rightarrow> ('w, bool) action" where
  "consume_freeze_retries e ctx phase_name pol [] = ret False"
| "consume_freeze_retries e ctx phase_name pol (r # records) =
    (if ov_override_type r = FREEZE_RETRIES \<and> override_allowed (ov_override_type r) pol
        \<and> ov_target_node_id r \<in> {None, Some phase_name}
     then seq_io (consume_override (en_runtime e) ctx r) (ret True)
     else consume_freeze_retries e ctx phase_name pol records)"

definition freeze_retries_active ::
  "'w pipeline_engine \<Rightarrow> story_context \<Rightarrow> string \<Rightarrow> override_policy \<Rightarrow> ('w, bool) action" where
  "freeze_retries_active e ctx phase_name pol =
    (if \<not> allow_freeze_retries pol then ret False
     else bind_io (iter_active_overrides (en_runtime e) ctx)
            (\<lambda>records. consume_freeze_retries e ctx phase_name pol (rev records)))"

section \<open>Retry and failure\<close>

definition apply_retry_policy ::
  "'w pipeline_engine \<Rightarrow> story_context \<Rightarrow> phase_state \<Rightarrow> node_definition \<Rightarrow> string \<Rightarrow> string list
     \<Rightarrow> string list \<Rightarrow> string option \<Rightarrow> int \<Rightarrow> ('w, engine_result option) action" where
  "apply_retry_policy e ctx state nd aid failure_reasons artifacts resume_trigger started_at =
    (case nd_retry_policy nd of
        None \<Rightarrow> ret None
      | Some pol \<Rightarrow> (case backtrack_target pol of
          None \<Rightarrow> ret None
        | Some target \<Rightarrow>
          if (case max_attempts pol of None \<Rightarrow> False | Some m \<Rightarrow> attempt_number aid \<ge> m) then ret None
          else bind_io (freeze_retries_active e ctx (nd_name nd) (nd_override_policy nd)) (\<lambda>frozen.
          if frozen then ret None
          else if get_node (en_workflow e) target = None then ret None
          else
          let phase_name = nd_name nd; rs = en_runtime e in
          bind_io (lift_sum (evolve_phase_state state
            (retire_updates (ps_phase state) PhaseStatus_FAILED failure_reasons aid))) (\<lambda>failed_state.
          bind_io now (\<lambda>finished_at.
          bind_io (resolve_run_id rs ctx) (\<lambda>run_id.
          bind_io (lift_sum (build_attempt_record run_id phase_name (attempt_number aid) Outcome_FAILED
            (Some Cause_HANDLER_REPORTED_FAILED) started_at finished_at
            (detail_of (detail_artifacts artifacts @ detail_trigger resume_trigger)))) (\<lambda>attempt.
          seq_io (save_phase_completion (en_story_dir e) attempt failed_state)
          (seq_io (record_flow_execution rs ctx phase_name aid ''BACKTRACK'' (Some target) (Some finished_at))
          (seq_io (record_node_outcome rs ctx phase_name aid ''BACKTRACK'' (Some target))
          (ret (Some ((engine_result_of ''phase_completed'' phase_name)
             \<lparr>res_next_phase := Some target, res_errors := failure_reasons,
              res_attempt_id := Some aid\<rparr>))))))))))))"

definition handle_handler_exception ::
  "'w pipeline_engine \<Rightarrow> story_context \<Rightarrow> phase_state \<Rightarrow> string \<Rightarrow> string \<Rightarrow> exn \<Rightarrow> int
     \<Rightarrow> ('w, engine_result) action" where
  "handle_handler_exception e ctx state phase_name aid exc started_at =
    (let error_msg = ''Handler for phase '' @ quote @ phase_name @ quote @ '' raised: '' @ exn_message exc;
         rs = en_runtime e in
    bind_io (case get_node (en_workflow e) phase_name of
        None \<Rightarrow> ret None
      | Some nd \<Rightarrow> apply_retry_policy e ctx state nd aid [error_msg] [] None started_at) (\<lambda>retry.
    case retry of Some r \<Rightarrow> ret r | None \<Rightarrow>
    bind_io now (\<lambda>finished_at.
    bind_io (lift_sum (evolve_phase_state state
      (retire_updates (ps_phase state) PhaseStatus_FAILED [error_msg] aid))) (\<lambda>failed_state.
    bind_io (resolve_run_id rs ctx) (\<lambda>run_id.
    bind_io (lift_sum (build_attempt_record run_id phase_name (attempt_number aid) Outcome_FAILED
      (Some Cause_HANDLER_EXCEPTION) started_at finished_at
      (Some [(''exception'', JStr error_msg)]))) (\<lambda>attempt.
    seq_io (save_phase_completion (en_story_dir e) attempt failed_state)
    (seq_io (record_flow_execution rs ctx phase_name aid ''FAILED'' (Some phase_name) (Some finished_at))
    (seq_io (record_node_outcome rs ctx phase_name aid ''FAIL'' None)
    (seq_io (record_flow_end rs ctx phase_name aid ''FAILED'' (Some phase_name))
    (ret ((engine_result_of ''failed'' phase_name)
       \<lparr>res_errors := [error_msg], res_attempt_id := Some aid, res_updated_context := Some ctx\<rparr>)))))))))))"

definition guard_failure_reasons :: "guard_evaluation list \<Rightarrow> string list" where
  "guard_failure_reasons evs = map (\<lambda>g. case ge_reason g of None \<Rightarrow> ''None'' | Some r \<Rightarrow> r)
     (filter (\<lambda>g. \<not> ge_passed g) evs)"

definition handle_guard_failure_result ::
  "'w pipeline_engine \<Rightarrow> story_context \<Rightarrow> phase_state \<Rightarrow> node_definition \<Rightarrow> handler_result \<Rightarrow> string
     \<Rightarrow> guard_evaluation list \<Rightarrow> int \<Rightarrow> string option \<Rightarrow> ('w, engine_result) action" where
  "handle_guard_failure_result e ctx state nd result aid evals started_at resume_trigger =
    (let phase_name = phase_name_value (ps_phase state); rs = en_runtime e;
         failure_reasons = guard_failure_reasons evals in
    bind_io (apply_retry_policy e ctx state nd aid failure_reasons [] resume_trigger started_at) (\<lambda>retry.
    case retry of Some r \<Rightarrow> ret r | None \<Rightarrow>
    bind_io now (\<lambda>finished_at.
    bind_io (resolve_run_id rs ctx) (\<lambda>run_id.
    bind_io (lift_sum (build_attempt_record run_id phase_name (attempt_number aid) Outcome_BLOCKED
      (Some Cause_GUARD_REJECTED) started_at finished_at
      (Some ((''guard_evaluations'', guard_evals_json evals)
             # detail_artifacts (hr_artifacts_produced result) @ detail_trigger resume_trigger)))) (\<lambda>attempt.
    bind_io (lift_sum (evolve_phase_state state
      (retire_updates (ps_phase state) PhaseStatus_FAILED failure_reasons aid))) (\<lambda>new_state.
    seq_io (save_phase_completion (en_story_dir e) attempt new_state)
    (seq_io (record_flow_execution rs ctx phase_name aid ''FAILED'' (Some phase_name) (Some finished_at))
    (seq_io (record_node_outcome rs ctx phase_name aid ''FAIL'' None)
    (seq_io (record_flow_end rs ctx phase_name aid ''FAILED'' (Some phase_name))
    (ret ((engine_result_of ''failed'' phase_name)
       \<lparr>res_errors := failure_reasons, res_attempt_id := Some aid,
        res_updated_context := hr_updated_context result\<rparr>)))))))))))"

section \<open>Handler results\<close>

definition handle_completed_result ::
  "'w pipeline_engine \<Rightarrow> story_context \<Rightarrow> phase_state \<Rightarrow> node_definition \<Rightarrow> 'w phase_handler
     \<Rightarrow> handler_result \<Rightarrow> string \<Rightarrow> phase_envelope \<Rightarrow> int \<Rightarrow> string option
     \<Rightarrow> ('w, engine_result) action" where
  "handle_completed_result e ctx state nd h result aid env started_at resume_trigger =
    (let phase_name = phase_name_value (ps_phase state); rs = en_runtime e in
    try_io (on_exit h ctx env) (\<lambda>_.
    bind_io (lift_sum (completed_state_for state aid result)) (\<lambda>completed_state.
    let guard_evals = evaluate_phase_guards nd ctx completed_state in
    if list_ex (\<lambda>g. \<not> ge_passed g) guard_evals
    then handle_guard_failure_result e ctx state nd result aid guard_evals started_at resume_trigger
    else
    bind_io now (\<lambda>finished_at.
    bind_io (resolve_run_id rs ctx) (\<lambda>run_id.
    bind_io (lift_sum (build_attempt_record run_id phase_name (attempt_number aid) Outcome_COMPLETED None
      started_at finished_at
      (detail_of ((if guard_evals = [] then [] else [(''guard_evaluations'', guard_evals_json guard_evals)])
        @ detail_artifacts (hr_artifacts_produced result) @ detail_trigger resume_trigger)))) (\<lambda>attempt.
    seq_io (save_phase_completion (en_story_dir e) attempt completed_state)
    (bind_io now (\<lambda>snapshot_at.
    seq_io (save_phase_snapshot \<lparr>sn_story_id = ps_story_id state, sn_phase = ps_phase state,
      sn_status = PhaseStatus_COMPLETED, sn_completed_at = snapshot_at,
      sn_artifacts = hr_artifacts_produced result, sn_evidence = snapshot_evidence completed_state\<rparr>)
    (bind_io now (\<lambda>flow_finished_at.
    seq_io (record_flow_execution rs ctx phase_name aid ''COMPLETED'' (Some phase_name)
              (Some flow_finished_at))
    (seq_io (record_node_outcome rs ctx phase_name aid ''PASS'' None)
    (bind_io (lift_sum (transition_target (en_workflow e) ctx completed_state)) (\<lambda>next_phase.
    seq_io (if next_phase = None
            then record_flow_end rs ctx phase_name aid ''COMPLETED'' (Some phase_name) else ret ())
    (ret ((engine_result_of ''phase_completed'' phase_name)
       \<lparr>res_next_phase := next_phase, res_attempt_id := Some aid,
        res_updated_context := Some (or_value (hr_updated_context result) ctx)\<rparr>)))))))))))))))"

definition handle_reentry_result ::
  "'w pipeline_engine \<Rightarrow> story_context \<Rightarrow> phase_state \<Rightarrow> handler_result \<Rightarrow> string \<Rightarrow> int
     \<Rightarrow> string option \<Rightarrow> ('w, engine_result) action" where
  "handle_reentry_result e ctx state result aid started_at resume_trigger =
    (let phase_name = phase_name_value (ps_phase state); rs = en_runtime e;
         source = or_value (hr_updated_state result) state in
    bind_io now (\<lambda>finished_at.
    bind_io (resolve_run_id rs ctx) (\<lambda>run_id.
    bind_io (lift_sum (build_attempt_record run_id phase_name (attempt_number aid) Outcome_YIELDED None
      started_at finished_at
      (detail_of (detail_artifacts (hr_artifacts_produced result) @ detail_trigger resume_trigger)))) (\<lambda>attempt.
    bind_io (lift_sum (evolve_phase_state source (\<lambda>s.
      (retire_updates (ps_phase state) PhaseStatus_IN_PROGRESS (hr_errors result) aid s)
        \<lparr>ps_agents_to_spawn := ps_agents_to_spawn source\<rparr>))) (\<lambda>reentry_state.
    seq_io (save_phase_completion (en_story_dir e) attempt reentry_state)
    (seq_io (record_flow_execution rs ctx phase_name aid ''YIELDED'' (Some phase_name) None)
    (seq_io (record_node_outcome rs ctx phase_name aid ''YIELD'' None)
    (ret ((engine_result_of ''yielded'' phase_name)
       \<lparr>res_yield_status := hr_yield_status result, res_attempt_id := Some aid,
        res_updated_context := Some (or_value (hr_updated_context result) ctx)\<rparr>)))))))))"

definition pause_updates ::
  "phase_name \<Rightarrow> pause_reason option \<Rightarrow> string \<Rightarrow> phase_state \<Rightarrow> phase_state" where
  "pause_updates p pr aid s = s\<lparr>ps_phase := p, ps_status := PhaseStatus_PAUSED, ps_pause_reason := pr,
     ps_escalation_reason := None, ps_attempt_id := Some aid\<rparr>"

definition handle_paused_result ::
  "'w pipeline_engine \<Rightarrow> story_context \<Rightarrow> phase_state \<Rightarrow> handler_result \<Rightarrow> string \<Rightarrow> int
     \<Rightarrow> string option \<Rightarrow> ('w, engine_result) action" where
  "handle_paused_result e ctx state result aid started_at resume_trigger =
    (let phase_name = phase_name_value (ps_phase state); rs = en_runtime e;
         source = or_value (hr_updated_state result) state in
    bind_io (lift_sum (coerce_pause_reason (hr_yield_status result) phase_name)) (\<lambda>pause_reason.
    bind_io now (\<lambda>finished_at.
    bind_io (resolve_run_id rs ctx) (\<lambda>run_id.
    bind_io (lift_sum (build_attempt_record run_id phase_name (attempt_number aid) Outcome_YIELDED None
      started_at finished_at
      (detail_of (detail_artifacts (hr_artifacts_produced result) @ detail_trigger resume_trigger)))) (\<lambda>attempt.
    bind_io (lift_sum (evolve_phase_state source (pause_updates (ps_phase state) pause_reason aid)))
      (\<lambda>paused_state.
    seq_io (save_phase_completion (en_story_dir e) attempt paused_state)
    (seq_io (record_flow_execution rs ctx phase_name aid ''YIELDED'' (Some phase_name) None)
    (seq_io (record_node_outcome rs ctx phase_name aid ''YIELD'' None)
    (ret ((engine_result_of ''yielded'' phase_name)
       \<lparr>res_yield_status := hr_yield_status result, res_attempt_id := Some aid,
        res_updated_context := Some (or_value (hr_updated_context result) ctx)\<rparr>))))))))))"

definition engine_status_for :: "phase_status \<Rightarrow> string" where
  "engine_status_for st = (if st = PhaseStatus_ESCALATED then ''escalated'' else ''failed'')"

definition outcome_for_terminal :: "phase_status \<Rightarrow> attempt_outcome" where
  "outcome_for_terminal st = (if st = PhaseStatus_ESCALATED then Outcome_ESCALATED else Outcome_FAILED)"

definition failure_cause_for_terminal :: "phase_status \<Rightarrow> failure_cause" where
  "failure_cause_for_terminal st =
    (if st = PhaseStatus_ESCALATED then Cause_HANDLER_REPORTED_ESCALATED else Cause_HANDLER_REPORTED_FAILED)"

definition terminal_updates ::
  "phase_name \<Rightarrow> phase_status \<Rightarrow> escalation_reason option \<Rightarrow> string list \<Rightarrow> string
     \<Rightarrow> phase_state \<Rightarrow> phase_state" where
  "terminal_updates p st er errs aid s = s\<lparr>ps_phase := p, ps_status := st, ps_pause_reason := None,
     ps_escalation_reason := er, ps_errors := errs, ps_attempt_id := Some aid\<rparr>"

definition handle_terminal_result ::
  "'w pipeline_engine \<Rightarrow> story_context \<Rightarrow> phase_state \<Rightarrow> node_definition \<Rightarrow> handler_result \<Rightarrow> string
     \<Rightarrow> int \<Rightarrow> string option \<Rightarrow> ('w, engine_result) action" where
  "handle_terminal_result e ctx state nd result aid started_at resume_trigger =
    (let phase_name = phase_name_value (ps_phase state); rs = en_runtime e;
         status_text = py_upper (phase_status_value (hr_status result)) in
    bind_io (if hr_status result = PhaseStatus_FAILED
      then apply_retry_policy e ctx state nd aid (hr_errors result) (hr_artifacts_produced result)
             resume_trigger started_at
      else ret None) (\<lambda>retry.
    case retry of Some r \<Rightarrow> ret r | None \<Rightarrow>
    bind_io now (\<lambda>finished_at.
    let source = or_value (hr_updated_state result) state in
    bind_io (lift_sum (evolve_phase_state source (terminal_updates (ps_phase state) (hr_status result)
      (if hr_status result = PhaseStatus_ESCALATED then ps_escalation_reason source else None)
      (hr_errors result) aid))) (\<lambda>terminal_state.
    bind_io (resolve_run_id rs ctx) (\<lambda>run_id.
    bind_io (lift_sum (build_attempt_record run_id phase_name (attempt_number aid)
      (outcome_for_terminal (hr_status result)) (Some (failure_cause_for_terminal (hr_status result)))
      started_at finished_at
      (detail_of (detail_artifacts (hr_artifacts_produced result) @ detail_trigger resume_trigger)))) (\<lambda>attempt.
    seq_io (save_phase_completion (en_story_dir e) attempt terminal_state)
    (bind_io now (\<lambda>flow_finished_at.
    seq_io (record_flow_execution rs ctx phase_name aid status_text (Some phase_name)
              (Some flow_finished_at))
    (seq_io (record_node_outcome rs ctx phase_name aid ''FAIL'' None)
    (seq_io (record_flow_end rs ctx phase_name aid status_text (Some phase_name))
    (ret ((engine_result_of (engine_status_for (hr_status result)) phase_name)
       \<lparr>res_errors := hr_errors result, res_attempt_id := Some aid,
        res_updated_context := hr_updated_context result,
        res_suggested_reaction := hr_suggested_reaction result\<rparr>))))))))))))"

definition process_handler_result ::
  "'w pipeline_engine \<Rightarrow> story_context \<Rightarrow> phase_state \<Rightarrow> node_definition \<Rightarrow> 'w phase_handler
     \<Rightarrow> handler_result \<Rightarrow> string \<Rightarrow> phase_envelope \<Rightarrow> int \<Rightarrow> string option
     \<Rightarrow> ('w, engine_result) action" where
  "process_handler_result e ctx state nd h result aid env started_at resume_trigger =
    (if hr_status result = PhaseStatus_COMPLETED
     then handle_completed_result e ctx state nd h result aid env started_at resume_trigger
     else if hr_status result = PhaseStatus_PAUSED
     then handle_paused_result e ctx state result aid started_at resume_trigger
     else if hr_status result = PhaseStatus_IN_PROGRESS
             \<and> (case hr_updated_state result of None \<Rightarrow> False | Some u \<Rightarrow> ps_agents_to_spawn u \<noteq> [])
     then handle_reentry_result e ctx state result aid started_at resume_trigger
     else handle_terminal_result e ctx state nd result aid started_at resume_trigger)"

section \<open>Running and resuming a phase\<close>

definition undefined_phase :: "flow_definition \<Rightarrow> string \<Rightarrow> exn" where
  "undefined_phase w phase_name = PipelineError (''Phase '' @ quote @ phase_name @ quote
     @ '' is not defined in workflow '' @ quote @ flow_id w @ quote)"

text \<open>Step 2 of \<open>run_phase\<close> when a precondition failed.\<close>

definition block_on_preconditions ::
  "'w pipeline_engine \<Rightarrow> story_context \<Rightarrow> phase_state \<Rightarrow> string \<Rightarrow> int \<Rightarrow> string list
     \<Rightarrow> ('w, engine_result) action" where
  "block_on_preconditions e ctx state aid started_at failure_reasons =
    (let phase_name = phase_name_value (ps_phase state); rs = en_runtime e in
    bind_io now (\<lambda>finished_at.
    bind_io (lift_sum (evolve_phase_state state
      (retire_updates (ps_phase state) PhaseStatus_FAILED failure_reasons aid))) (\<lambda>failed_state.
    bind_io (resolve_run_id rs ctx) (\<lambda>run_id.
    bind_io (lift_sum (build_attempt_record run_id phase_name (attempt_number aid) Outcome_BLOCKED
      (Some Cause_PRECONDITION_FAILED) started_at finished_at
      (if failure_reasons = [] then None
       else Some [(''failure_reasons'', JList (map JStr failure_reasons))]))) (\<lambda>attempt.
    seq_io (save_phase_completion (en_story_dir e) attempt failed_state)
    (seq_io (record_flow_execution rs ctx phase_name aid ''FAILED'' (Some phase_name) (Some finished_at))
    (seq_io (record_node_outcome rs ctx phase_name aid ''FAIL'' None)
    (seq_io (record_flow_end rs ctx phase_name aid ''FAILED'' (Some phase_name))
    (ret ((engine_result_of ''failed'' phase_name)
       \<lparr>res_errors := failure_reasons, res_attempt_id := Some aid,
        res_updated_context := Some ctx\<rparr>))))))))))"

text \<open>Steps 3 to 5 of \<open>run_phase\<close>.\<close>

definition enter_phase ::
  "'w pipeline_engine \<Rightarrow> story_context \<Rightarrow> phase_envelope \<Rightarrow> node_definition \<Rightarrow> string \<Rightarrow> int
     \<Rightarrow> ('w, engine_result) action" where
  "enter_phase e ctx env nd aid started_at =
    (let state = pe_state env; phase_name = phase_name_value (ps_phase state) in
    bind_io (lift_sum (get_handler (en_registry e) phase_name)) (\<lambda>h.
    seq_io (record_flow_execution (en_runtime e) ctx phase_name aid ''IN_PROGRESS'' (Some phase_name) None)
    (try_io (on_enter h ctx env) (\<lambda>r. case r of
        Inl exc \<Rightarrow> handle_handler_exception e ctx state phase_name aid exc started_at
      | Inr result \<Rightarrow> process_handler_result e ctx state nd h result aid env started_at None))))"

definition run_phase ::
  "'w pipeline_engine \<Rightarrow> story_context \<Rightarrow> phase_envelope \<Rightarrow> ('w, engine_result) action" where
  "run_phase e ctx env =
    (let state = pe_state env; phase_name = phase_name_value (ps_phase state) in
    seq_io (save_story_context ctx)
    (case get_node (en_workflow e) phase_name of
        None \<Rightarrow> raise (undefined_phase (en_workflow e) phase_name)
      | Some nd \<Rightarrow>
    bind_io (generate_attempt_id (en_runtime e) phase_name) (\<lambda>aid.
    bind_io now (\<lambda>started_at.
    bind_io (apply_pre_execution_override e ctx state nd aid started_at) (\<lambda>ov.
    case ov of Some r \<Rightarrow> ret r | None \<Rightarrow>
    bind_io (should_skip_for_execution_policy e ctx nd) (\<lambda>skip.
    case skip of
        Some why \<Rightarrow> complete_without_handler e ctx state aid Outcome_SKIPPED None ''SKIP'' ''SKIPPED''
                         [] [why] None started_at
      | None \<Rightarrow>
    bind_io (lift_sum (can_enter_phase (en_workflow e) phase_name ctx state)) (\<lambda>entry.
    if \<not> fst entry then block_on_preconditions e ctx state aid started_at (snd entry)
    else enter_phase e ctx env nd aid started_at)))))))"

definition valid_trigger :: "node_definition \<Rightarrow> pause_reason option \<Rightarrow> string \<Rightarrow> bool" where
  "valid_trigger nd pr trigger = list_ex (\<lambda>yp.
     yield_point_matches_pause_reason (yp_status yp) pr \<and> trigger \<in> set (resume_triggers yp))
     (nd_yield_points nd)"

definition resume_phase ::
  "'w pipeline_engine \<Rightarrow> story_context \<Rightarrow> phase_envelope \<Rightarrow> string \<Rightarrow> ('w, engine_result) action" where
  "resume_phase e ctx env trigger =
    (let state = pe_state env; phase_name = phase_name_value (ps_phase state) in
    seq_io (save_story_context ctx)
    (if ps_status state \<noteq> PhaseStatus_PAUSED
     then ret ((engine_result_of ''failed'' phase_name)
       \<lparr>res_errors := [''Cannot resume phase '' @ quote @ phase_name @ quote @ '': status is '' @ quote
          @ phase_status_value (ps_status state) @ quote @ '', expected '' @ quote @ ''paused'' @ quote]\<rparr>)
     else case get_node (en_workflow e) phase_name of
        None \<Rightarrow> raise (undefined_phase (en_workflow e) phase_name)
      | Some nd \<Rightarrow>
    if \<not> valid_trigger nd (ps_pause_reason state) trigger
    then ret ((engine_result_of ''failed'' phase_name)
       \<lparr>res_errors := [''Invalid resume trigger '' @ quote @ trigger @ quote @ '' for phase '' @ quote
          @ phase_name @ quote @ '' with pause_reason '' @ quote
          @ (case ps_pause_reason state of None \<Rightarrow> ''None'' | Some p \<Rightarrow> pause_reason_value p) @ quote]\<rparr>)
    else
    bind_io (lift_sum (get_handler (en_registry e) phase_name)) (\<lambda>h.
    bind_io (generate_attempt_id (en_runtime e) phase_name) (\<lambda>aid.
    bind_io now (\<lambda>started_at.
    try_io (on_resume h ctx env trigger) (\<lambda>r. case r of
        Inl exc \<Rightarrow> handle_handler_exception e ctx state phase_name aid exc started_at
      | Inr result \<Rightarrow> process_handler_result e ctx state nd h result aid env started_at (Some trigger)))))))"

end
