(* ===== verification/Engine_Safety.thy ===== *)
theory Engine_Safety
  imports Engine
begin

text \<open>
  What the engine writes: the invariant of the attempt history, the freeze fence, and the
  order of writes that makes a crash recoverable.
\<close>

section \<open>The kinds of write a phase run makes\<close>

definition handler_keeps :: "(db_write \<Rightarrow> bool) \<Rightarrow> 'w phase_handler \<Rightarrow> bool" where
  "handler_keeps P h \<longleftrightarrow> (\<forall>c v. writes.keeps P (on_enter h c v)) \<and> (\<forall>c v. writes.keeps P (on_exit h c v))
     \<and> (\<forall>c v t. writes.keeps P (on_resume h c v t))"

definition handlers_keep :: "(db_write \<Rightarrow> bool) \<Rightarrow> 'w handler_registry \<Rightarrow> bool" where
  "handlers_keep P reg \<longleftrightarrow> (\<forall>n h. reg n = Some h \<longrightarrow> handler_keeps P h)"

lemma build_attempt_recordD:
  "build_attempt_record rid ph n out c s t d = Inr a \<Longrightarrow> attempt_ok a \<and> ar_run_id a = rid
     \<and> ar_phase a = coerce_phase_name ph \<and> ar_attempt a = n \<and> ar_outcome a = out \<and> ar_failure_cause a = c
     \<and> ar_detail a = d"
  by (auto simp: build_attempt_record_def validate_attempt_record_iff)

lemma evolve_phase_stateD: "evolve_phase_state s u = Inr q \<Longrightarrow> q = u s \<and> valid_state q"
  by (auto simp: evolve_phase_state_def valid_state_iff)

lemma completed_state_forD:
  "completed_state_for s aid r = Inr q \<Longrightarrow> valid_state q
     \<and> q = retire_updates (ps_phase s) PhaseStatus_COMPLETED (hr_errors r) aid (or_value (hr_updated_state r) s)"
  by (auto simp: completed_state_for_def dest: evolve_phase_stateD)

lemma get_handlerD: "get_handler reg n = Inr h \<Longrightarrow> reg n = Some h"
  by (auto simp: get_handler_def split: option.splits)

locale write_policy =
  fixes P :: "db_write \<Rightarrow> bool"
  assumes bookkeeping: "P (W_context c)" "P (W_flow f)" "P (W_ledger l)" "P (W_event v)"
      "P (W_override r)" "P (W_snapshot sn)"
    and completion: "attempt_ok a \<Longrightarrow> valid_state p \<Longrightarrow> P (W_completion sid a p)"
begin

lemmas policy_intros = writes_intros bookkeeping completion

lemma keeps_complete_without_handler:
  "writes.keeps P (complete_without_handler e ctx s aid out c no fs arts errs npo st)"
  unfolding complete_without_handler_def Let_def
  by (auto intro!: policy_intros dest: build_attempt_recordD evolve_phase_stateD split: option.splits)

lemma keeps_apply_override_records:
  "writes.keeps P (apply_override_records e ctx s nd aid st rs)"
  by (induction rs) (auto intro!: policy_intros keeps_complete_without_handler)

lemma keeps_apply_pre_execution_override:
  "writes.keeps P (apply_pre_execution_override e ctx s nd aid st)"
  unfolding apply_pre_execution_override_def
  by (auto intro!: policy_intros keeps_apply_override_records)

lemma keeps_should_skip: "writes.keeps P (should_skip_for_execution_policy e ctx nd)"
  unfolding should_skip_for_execution_policy_def
  by (auto intro!: policy_intros split: option.splits)

lemma keeps_consume_freeze_retries: "writes.keeps P (consume_freeze_retries e ctx n pol rs)"
  by (induction rs) (auto intro!: policy_intros)

lemma keeps_freeze_retries_active: "writes.keeps P (freeze_retries_active e ctx n pol)"
  unfolding freeze_retries_active_def
  by (auto intro!: policy_intros keeps_consume_freeze_retries)

lemma keeps_apply_retry_policy: "writes.keeps P (apply_retry_policy e ctx s nd aid why arts tr st)"
  unfolding apply_retry_policy_def Let_def
  by (auto intro!: policy_intros keeps_freeze_retries_active dest: build_attempt_recordD evolve_phase_stateD
      split: option.splits)

lemma keeps_handle_handler_exception:
  "writes.keeps P (handle_handler_exception e ctx s n aid exc st)"
  unfolding handle_handler_exception_def Let_def
  by (auto intro!: policy_intros keeps_apply_retry_policy dest: build_attempt_recordD evolve_phase_stateD
      split: option.splits)

lemma keeps_handle_guard_failure_result:
  "writes.keeps P (handle_guard_failure_result e ctx s nd r aid evs st tr)"
  unfolding handle_guard_failure_result_def Let_def
  by (auto intro!: policy_intros keeps_apply_retry_policy dest: build_attempt_recordD evolve_phase_stateD
      split: option.splits)

lemma keeps_handle_completed_result:
  "handler_keeps P h \<Longrightarrow> writes.keeps P (handle_completed_result e ctx s nd h r aid v st tr)"
  unfolding handle_completed_result_def Let_def
  by (auto intro!: policy_intros keeps_handle_guard_failure_result simp: handler_keeps_def
      dest: build_attempt_recordD completed_state_forD)

lemma keeps_handle_reentry_result: "writes.keeps P (handle_reentry_result e ctx s r aid st tr)"
  unfolding handle_reentry_result_def Let_def
  by (auto intro!: policy_intros dest: build_attempt_recordD evolve_phase_stateD)

lemma keeps_handle_paused_result: "writes.keeps P (handle_paused_result e ctx s r aid st tr)"
  unfolding handle_paused_result_def Let_def
  by (auto intro!: policy_intros dest: build_attempt_recordD evolve_phase_stateD)

lemma keeps_handle_terminal_result: "writes.keeps P (handle_terminal_result e ctx s nd r aid st tr)"
  unfolding handle_terminal_result_def Let_def
  by (auto intro!: policy_intros keeps_apply_retry_policy dest: build_attempt_recordD evolve_phase_stateD
      split: option.splits)

lemma keeps_process_handler_result:
  "handler_keeps P h \<Longrightarrow> writes.keeps P (process_handler_result e ctx s nd h r aid v st tr)"
  by (simp add: process_handler_result_def keeps_handle_completed_result keeps_handle_reentry_result
      keeps_handle_paused_result keeps_handle_terminal_result)

lemma keeps_block_on_preconditions: "writes.keeps P (block_on_preconditions e ctx s aid st why)"
  unfolding block_on_preconditions_def Let_def
  by (auto intro!: policy_intros dest: build_attempt_recordD evolve_phase_stateD)

lemma handlers_keepD: "handlers_keep P reg \<Longrightarrow> get_handler reg n = Inr h \<Longrightarrow> handler_keeps P h"
  by (auto simp: handlers_keep_def dest: get_handlerD)

lemma keeps_enter_phase:
  "handlers_keep P (en_registry e) \<Longrightarrow> writes.keeps P (enter_phase e ctx v nd aid st)"
  unfolding enter_phase_def Let_def
  by (auto intro!: policy_intros keeps_handle_handler_exception keeps_process_handler_result
      dest: handlers_keepD simp: handler_keeps_def split: sum.splits)

lemma keeps_run_phase:
  "handlers_keep P (en_registry e) \<Longrightarrow> writes.keeps P (run_phase e ctx v)"
  unfolding run_phase_def Let_def
  by (auto intro!: policy_intros keeps_apply_pre_execution_override keeps_should_skip
      keeps_complete_without_handler keeps_block_on_preconditions keeps_enter_phase split: option.splits)

lemma keeps_resume_phase:
  "handlers_keep P (en_registry e) \<Longrightarrow> writes.keeps P (resume_phase e ctx v tr)"
  unfolding resume_phase_def Let_def
  by (auto intro!: policy_intros keeps_handle_handler_exception keeps_process_handler_result
      dest: handlers_keepD simp: handler_keeps_def split: option.splits sum.splits)

end

section \<open>The attempt history\<close>

text \<open>
  Every attempt row and every readable phase state in the tables satisfies the validators of
  its model; for an attempt this is the rule that a failure cause is present exactly when the
  outcome is a failure.
\<close>

definition history_ok :: "db \<Rightarrow> bool" where
  "history_ok D \<longleftrightarrow> (\<forall>(sid, a) \<in> set (t_attempts D). attempt_ok a)
     \<and> (\<forall>sid p. (sid, Readable p) \<in> set (t_phase_states D) \<longrightarrow> valid_state p)"

fun sound_write :: "db_write \<Rightarrow> bool" where
  "sound_write (W_completion sid a p) = (attempt_ok a \<and> valid_state p)"
| "sound_write (W_attempt sid a) = attempt_ok a"
| "sound_write (W_phase_state p) = valid_state p"
| "sound_write w = True"

interpretation history: write_policy sound_write
  by unfold_locales simp_all

lemma history_ok_apply_write: "sound_write w \<Longrightarrow> history_ok D \<Longrightarrow> history_ok (apply_write w D)"
proof (cases w)
  case (W_phase_state p)
  moreover assume "sound_write w" "history_ok D"
  ultimately show ?thesis
    using set_upsert [of fst "(ps_story_id p, Readable p)" "t_phase_states D"] by (auto simp: history_ok_def)
next
  case (W_completion sid a p)
  moreover assume "sound_write w" "history_ok D"
  ultimately show ?thesis
    using set_upsert [of fst "(sid, Readable p)" "t_phase_states D"]
    by (auto simp: history_ok_def insert_or_replace_def)
qed (auto simp: history_ok_def insert_or_replace_def)

lemma history_ok_writes: "writes_only sound_write s t \<Longrightarrow> history_ok (st_db s) \<Longrightarrow> history_ok (st_db t)"
  by (erule writes_only_invariant) (auto intro: history_ok_apply_write)

section \<open>The freeze fence\<close>

definition frozen :: "string \<Rightarrow> 'w st \<Rightarrow> bool" where
  "frozen d s \<longleftrightarrow> d \<noteq> [] \<and> freeze_rows (st_db s) d \<noteq> []"

fun fenced_write :: "db_write \<Rightarrow> bool" where
  "fenced_write (W_completion sid a p) = False"
| "fenced_write (W_attempt sid a) = False"
| "fenced_write (W_phase_state p) = False"
| "fenced_write (W_snapshot r) = False"
| "fenced_write w = True"

lemma freezes_apply_write: "t_freezes (apply_write w D) = t_freezes D"
  by (cases w) simp_all

lemma freezes_writes_only: "writes_only P s t \<Longrightarrow> t_freezes (st_db t) = t_freezes (st_db s)"
  by (rule writes_only_invariant [where I = "\<lambda>D. t_freezes D = t_freezes (st_db s)"])
     (simp_all add: freezes_apply_write)

lemma frozen_stable: "writes.stable P (frozen d)"
  by (auto simp: writes.stable_def frozen_def freeze_rows_def dest: freezes_writes_only)

lemma fenced_completion: "writes.ends P (frozen d) (\<lambda>_. False) (save_phase_completion d a p)"
proof -
  have "list_ex (\<lambda>r. \<not> command_resolves_freeze ''executor_commit'' (freeze_of_row r)) rows"
    if "rows \<noteq> []" for rows
    using that by (cases rows) simp_all
  then show ?thesis
    by (auto simp: writes.ends_def frozen_def save_phase_completion_def story_id_for_def bind_io_def
        gets_def raise_def writes.frame_refl)
qed

lemmas fence_intros = frozen_stable writes_intros writes.ends_bind_lift writes.ends_seq_raises
  [OF fenced_completion] writes.ends_bind_any writes.ends_seq_any

lemma fenced_complete_without_handler:
  "writes.ends fenced_write (frozen (en_story_dir e)) (\<lambda>_. False)
     (complete_without_handler e ctx s aid out c no fs arts errs npo st)"
  unfolding complete_without_handler_def Let_def by (intro fence_intros)

lemma fenced_apply_override_records:
  "writes.ends fenced_write (frozen (en_story_dir e)) (\<lambda>x. x = None)
     (apply_override_records e ctx s nd aid st rs)"
  by (induction rs)
     (auto intro!: fence_intros writes.ends_bind_raises fenced_complete_without_handler)

lemma fenced_apply_pre_execution_override:
  "writes.ends fenced_write (frozen (en_story_dir e)) (\<lambda>x. x = None)
     (apply_pre_execution_override e ctx s nd aid st)"
  unfolding apply_pre_execution_override_def
  by (intro fence_intros fenced_apply_override_records)

lemma fence_keeps_consume_freeze_retries: "writes.keeps fenced_write (consume_freeze_retries e ctx n pol rs)"
  by (induction rs) (auto intro!: writes_intros)

lemma fence_keeps_freeze_retries_active: "writes.keeps fenced_write (freeze_retries_active e ctx n pol)"
  unfolding freeze_retries_active_def
  by (auto intro!: writes_intros fence_keeps_consume_freeze_retries)

lemma fenced_apply_retry_policy:
  "writes.ends fenced_write (frozen (en_story_dir e)) (\<lambda>x. x = None)
     (apply_retry_policy e ctx s nd aid why arts tr st)"
  unfolding apply_retry_policy_def Let_def
  by (auto intro!: fence_intros fence_keeps_freeze_retries_active split: option.splits)

lemma fenced_after_retry:
  assumes "writes.ends fenced_write (frozen d) (\<lambda>x. x = None) m"
    and "writes.ends fenced_write (frozen d) (\<lambda>_. False) k"
  shows "writes.ends fenced_write (frozen d) (\<lambda>_. False)
     (bind_io m (\<lambda>x. case x of Some r \<Rightarrow> ret r | None \<Rightarrow> k))"
  by (rule writes.ends_bind [OF frozen_stable assms(1)]) (simp add: assms(2))

lemma fenced_handle_handler_exception:
  "writes.ends fenced_write (frozen (en_story_dir e)) (\<lambda>_. False)
     (handle_handler_exception e ctx s n aid exc st)"
  unfolding handle_handler_exception_def Let_def
  by (intro fenced_after_retry)
     (auto intro!: fence_intros fenced_apply_retry_policy split: option.splits)

lemma fenced_handle_guard_failure_result:
  "writes.ends fenced_write (frozen (en_story_dir e)) (\<lambda>_. False)
     (handle_guard_failure_result e ctx s nd r aid evs st tr)"
  unfolding handle_guard_failure_result_def Let_def
  by (intro fenced_after_retry fenced_apply_retry_policy fence_intros)

lemma fenced_handle_completed_result:
  "handler_keeps fenced_write h \<Longrightarrow> writes.ends fenced_write (frozen (en_story_dir e)) (\<lambda>_. False)
     (handle_completed_result e ctx s nd h r aid v st tr)"
  unfolding handle_completed_result_def Let_def
  by (rule writes.ends_try [OF frozen_stable])
     (auto simp: handler_keeps_def intro!: fence_intros fenced_handle_guard_failure_result)

lemma fenced_process_handler_result:
  "handler_keeps fenced_write h \<Longrightarrow> writes.ends fenced_write (frozen (en_story_dir e)) (\<lambda>_. False)
     (process_handler_result e ctx s nd h r aid v st tr)"
  unfolding process_handler_result_def handle_reentry_result_def handle_paused_result_def
    handle_terminal_result_def Let_def
  by (auto intro!: fenced_handle_completed_result fence_intros fenced_after_retry
      fenced_apply_retry_policy)

lemma fence_keeps_should_skip: "writes.keeps fenced_write (should_skip_for_execution_policy e ctx nd)"
  unfolding should_skip_for_execution_policy_def by (auto intro!: writes_intros split: option.splits)

lemma fenced_handler: "handlers_keep P reg \<Longrightarrow> get_handler reg n = Inr h \<Longrightarrow> handler_keeps P h"
  by (auto simp: handlers_keep_def dest: get_handlerD)

lemma fenced_enter_phase:
  "handlers_keep fenced_write (en_registry e) \<Longrightarrow>
    writes.ends fenced_write (frozen (en_story_dir e)) (\<lambda>_. False) (enter_phase e ctx v nd aid st)"
  unfolding enter_phase_def Let_def
  by (intro writes.ends_bind_lift, drule (1) fenced_handler)
     (auto intro!: fence_intros writes.ends_try fenced_handle_handler_exception
        fenced_process_handler_result simp: handler_keeps_def split: sum.splits)

lemma fenced_run_phase:
  "handlers_keep fenced_write (en_registry e) \<Longrightarrow>
    writes.ends fenced_write (frozen (en_story_dir e)) (\<lambda>_. False) (run_phase e ctx v)"
  unfolding run_phase_def Let_def
  by (intro fence_intros)
     (auto intro!: fence_intros fenced_after_retry fenced_apply_pre_execution_override
        fence_keeps_should_skip fenced_complete_without_handler fenced_enter_phase
        simp: block_on_preconditions_def Let_def split: option.splits)

end
