(* ===== verification/Engine_Crash.thy ===== *)
theory Engine_Crash
  imports Engine_Safety
begin

text \<open>
  Crash safety of a phase run. Every prefix of the writes it makes leaves the tables in a state
  from which recovery can tell what happened: a flow marked finished has the attempt it names,
  and a snapshot of a completed phase has an attempt of that phase.
\<close>

section \<open>Crash consistency\<close>

definition attempt_recorded :: "string \<Rightarrow> string \<Rightarrow> int \<Rightarrow> db \<Rightarrow> bool" where
  "attempt_recorded sid rid n D \<longleftrightarrow>
    (\<exists>a. (sid, a) \<in> set (t_attempts D) \<and> ar_run_id a = rid \<and> ar_attempt a = n)"

definition phase_attempted :: "string \<Rightarrow> phase_name \<Rightarrow> db \<Rightarrow> bool" where
  "phase_attempted sid ph D \<longleftrightarrow> (\<exists>a. (sid, a) \<in> set (t_attempts D) \<and> ar_phase a = ph)"

definition crash_consistent :: "db \<Rightarrow> bool" where
  "crash_consistent D \<longleftrightarrow>
    (\<forall>f \<in> set (t_flows D). fe_finished_at f \<noteq> None \<longrightarrow>
       attempt_recorded (fe_story_id f) (fe_run_id f) (fe_attempt_no f) D)
    \<and> (\<forall>sn \<in> set (t_snapshots D). phase_attempted (sn_story_id sn) (sn_phase sn) D)"

lemma attempts_after_replace:
  assumes "(sid, a) \<in> set t"
  shows "\<exists>b. (sid, b) \<in> set (insert_or_replace attempt_key (sid', c) t) \<and> ar_run_id b = ar_run_id a
    \<and> ar_phase b = ar_phase a \<and> ar_attempt b = ar_attempt a"
proof (cases "attempt_key (sid, a) = attempt_key (sid', c)")
  case True
  then show ?thesis by (intro exI [of _ c]) (auto simp: attempt_key_def insert_or_replace_def)
next
  case False
  then show ?thesis using assms by (intro exI [of _ a]) (auto simp: insert_or_replace_def)
qed

lemma attempt_kept:
  assumes a: "(sid, a) \<in> set (t_attempts D)"
  shows "\<exists>b. (sid, b) \<in> set (t_attempts (apply_write w D)) \<and> ar_run_id b = ar_run_id a
    \<and> ar_phase b = ar_phase a \<and> ar_attempt b = ar_attempt a"
proof -
  have "t_attempts (apply_write w D) = t_attempts D
      \<or> (\<exists>sid' c. t_attempts (apply_write w D) = insert_or_replace attempt_key (sid', c) (t_attempts D))"
    by (cases w) auto
  then show ?thesis
  proof (elim disjE exE)
    assume "t_attempts (apply_write w D) = t_attempts D"
    then show ?thesis using a by (intro exI [of _ a]) simp
  next
    fix sid' c
    assume "t_attempts (apply_write w D) = insert_or_replace attempt_key (sid', c) (t_attempts D)"
    then show ?thesis using attempts_after_replace [OF a, of sid' c] by simp
  qed
qed

lemma attempt_recorded_write: "attempt_recorded sid rid n D \<Longrightarrow> attempt_recorded sid rid n (apply_write w D)"
  unfolding attempt_recorded_def by (elim exE conjE, drule attempt_kept [of _ _ _ w]) auto

lemma phase_attempted_write: "phase_attempted sid ph D \<Longrightarrow> phase_attempted sid ph (apply_write w D)"
  unfolding phase_attempted_def by (elim exE conjE, drule attempt_kept [of _ _ _ w]) auto

fun write_consistent :: "db \<Rightarrow> db_write \<Rightarrow> bool" where
  "write_consistent D (W_flow f) = (fe_finished_at f \<noteq> None \<longrightarrow>
     attempt_recorded (fe_story_id f) (fe_run_id f) (fe_attempt_no f) D)"
| "write_consistent D (W_snapshot sn) = phase_attempted (sn_story_id sn) (sn_phase sn) D"
| "write_consistent D w = True"

lemma crash_consistent_write:
  assumes "crash_consistent D" and "write_consistent D w"
  shows "crash_consistent (apply_write w D)"
proof -
  have flows: "fe_finished_at f \<noteq> None \<longrightarrow>
      attempt_recorded (fe_story_id f) (fe_run_id f) (fe_attempt_no f) (apply_write w D)"
    if "f \<in> set (t_flows (apply_write w D))" for f
  proof -
    have "f \<in> set (t_flows D) \<or> w = W_flow f"
      using that set_upsert by (cases w) fastforce+
    then show ?thesis using assms attempt_recorded_write [of _ _ _ D w]
      by (auto simp: crash_consistent_def)
  qed
  have "phase_attempted (sn_story_id sn) (sn_phase sn) (apply_write w D)"
    if "sn \<in> set (t_snapshots (apply_write w D))" for sn
  proof -
    have "sn \<in> set (t_snapshots D) \<or> w = W_snapshot sn"
      using that set_upsert by (cases w) fastforce+
    then show ?thesis using assms phase_attempted_write [of _ _ D w]
      by (auto simp: crash_consistent_def)
  qed
  with flows show ?thesis by (simp add: crash_consistent_def)
qed

section \<open>Steps that are safe at every prefix\<close>

definition crash_step :: "'w st \<Rightarrow> 'w st \<Rightarrow> bool" where
  "crash_step s t \<longleftrightarrow> (\<exists>ws. st_log t = st_log s @ ws \<and> st_db t = apply_writes ws (st_db s)
     \<and> (crash_consistent (st_db s) \<longrightarrow> (\<forall>n. crash_consistent (apply_writes (take n ws) (st_db s)))))"

interpretation crash: frame crash_step
proof
  show "crash_step s s" for s :: "'w st"
    by (auto simp: crash_step_def intro: exI [of _ "[]"])
  show "crash_step s u" if st: "crash_step s t" and tu: "crash_step t u" for s t u :: "'w st"
  proof -
    obtain ws where ws: "st_log t = st_log s @ ws" "st_db t = apply_writes ws (st_db s)"
        "crash_consistent (st_db s) \<longrightarrow> (\<forall>n. crash_consistent (apply_writes (take n ws) (st_db s)))"
      using st by (auto simp: crash_step_def)
    obtain vs where vs: "st_log u = st_log t @ vs" "st_db u = apply_writes vs (st_db t)"
        "crash_consistent (st_db t) \<longrightarrow> (\<forall>n. crash_consistent (apply_writes (take n vs) (st_db t)))"
      using tu by (auto simp: crash_step_def)
    have "crash_consistent (apply_writes (take n (ws @ vs)) (st_db s))"
      if "crash_consistent (st_db s)" for n
    proof (cases "n \<le> length ws")
      case True
      then show ?thesis using ws that by simp
    next
      case False
      have "crash_consistent (st_db t)"
        using ws that spec [of "\<lambda>n. crash_consistent (apply_writes (take n ws) (st_db s))" "length ws"] by simp
      then show ?thesis using False vs ws by simp
    qed
    then show ?thesis using ws vs unfolding crash_step_def by (intro exI [of _ "ws @ vs"]) simp
  qed
qed

lemma crash_step_prefixes:
  assumes "st_log t = st_log s @ ws" and "st_db t = apply_writes ws (st_db s)"
    and "list_all (Q :: db_write \<Rightarrow> bool) ws" and "J (st_db s)"
    and step: "\<And>D w. J D \<Longrightarrow> Q w \<Longrightarrow> write_consistent D w \<and> J (apply_write w D)"
  shows "crash_step s t"
proof -
  have "crash_consistent D \<Longrightarrow> J D \<Longrightarrow> list_all Q vs \<Longrightarrow> crash_consistent (apply_writes (take n vs) D)" for D vs n
  proof (induction vs arbitrary: D n)
    case (Cons w vs)
    then show ?case using step [of D w] by (cases n) (auto intro: crash_consistent_write)
  qed simp
  then show ?thesis using assms unfolding crash_step_def by blast
qed

text \<open>Before the completion: no flow is marked finished and no snapshot is taken.\<close>

fun quiet_write :: "db_write \<Rightarrow> bool" where
  "quiet_write (W_flow f) = (fe_finished_at f = None)"
| "quiet_write (W_snapshot sn) = False"
| "quiet_write w = True"

lemma quiet_crash_step: "writes_only quiet_write s t \<Longrightarrow> crash_step s t"
  unfolding writes_only_def
  by (elim exE conjE, rule crash_step_prefixes [where Q = quiet_write and J = "\<lambda>_. True"])
     (auto elim: quiet_write.elims)

lemma crash_quiet: "writes.keeps quiet_write m \<Longrightarrow> crash.keeps m"
  by (auto simp: crash.keeps_def writes.keeps_def intro: quiet_crash_step)

text \<open>After it: flows and snapshots belong to the attempt just recorded.\<close>

fun settled_write :: "runtime_state \<Rightarrow> story_context \<Rightarrow> attempt_record \<Rightarrow> db_write \<Rightarrow> bool" where
  "settled_write rs ctx a (W_flow f) = (fe_story_id f = sc_story_id ctx
     \<and> fe_flow_id f = flow_id (rs_workflow rs) \<and> fe_project_key f = sc_project_key ctx
     \<and> fe_run_id f = ar_run_id a \<and> fe_attempt_no f = ar_attempt a)"
| "settled_write rs ctx a (W_snapshot sn) = (sn_story_id sn = sc_story_id ctx \<and> sn_phase sn = ar_phase a)"
| "settled_write rs ctx a (W_completion sid b p) = False"
| "settled_write rs ctx a w = True"

lemma settled_crash_step:
  assumes "writes_only (settled_write rs ctx a) s t" and "(sc_story_id ctx, a) \<in> set (t_attempts (st_db s))"
  shows "crash_step s t"
proof -
  let ?J = "\<lambda>D. attempt_recorded (sc_story_id ctx) (ar_run_id a) (ar_attempt a) D
      \<and> phase_attempted (sc_story_id ctx) (ar_phase a) D"
  have "?J (st_db s)"
    using assms(2) by (auto simp: attempt_recorded_def phase_attempted_def)
  with assms(1) show ?thesis
    unfolding writes_only_def
    by (elim exE conjE, intro crash_step_prefixes [where Q = "settled_write rs ctx a" and J = ?J])
       (auto simp: attempt_recorded_write phase_attempted_write elim: write_consistent.elims settled_write.elims)
qed

section \<open>The run id across a boundary\<close>

definition run_id_is :: "runtime_state \<Rightarrow> story_context \<Rightarrow> attempt_record \<Rightarrow> 'w st \<Rightarrow> bool" where
  "run_id_is rs ctx a s \<longleftrightarrow> run_id_in rs ctx (st_db s) = ar_run_id a"

lemma run_id_cong: "t_flows D = t_flows D' \<Longrightarrow> run_id_in rs ctx D = run_id_in rs ctx D'"
proof -
  assume "t_flows D = t_flows D'"
  then have "flow_row D = flow_row D'" by (intro ext) (simp add: flow_row_def)
  then show ?thesis by (simp only: run_id_in_def)
qed

lemma run_id_write:
  assumes w: "settled_write rs ctx a w" and D: "run_id_in rs ctx D = ar_run_id a"
  shows "run_id_in rs ctx (apply_write w D) = ar_run_id a"
proof (cases "\<exists>f. w = W_flow f")
  case True
  then obtain f where f: "w = W_flow f" ..
  show ?thesis
  proof (cases "story_id_for (rs_story_dir rs)")
    case None
    then show ?thesis using D by (simp add: run_id_in_def)
  next
    case (Some sid)
    then show ?thesis using w D unfolding f run_id_in_def flow_row_upsert
      by (cases "sid = sc_story_id ctx") (simp_all add: project_key_for_def)
  qed
next
  case False
  then have "t_flows (apply_write w D) = t_flows D" by (cases w) auto
  then show ?thesis using D run_id_cong by metis
qed

lemma run_id_stable: "writes.stable (settled_write rs ctx a) (run_id_is rs ctx a)"
  unfolding writes.stable_def run_id_is_def
  by (intro allI impI, erule writes_only_invariant [where I = "\<lambda>D. run_id_in rs ctx D = ar_run_id a"])
     (simp_all add: run_id_write)

abbreviation settles :: "runtime_state \<Rightarrow> story_context \<Rightarrow> attempt_record \<Rightarrow> ('w, 'a) action \<Rightarrow> bool" where
  "settles rs ctx a m \<equiv> writes.ends (settled_write rs ctx a) (run_id_is rs ctx a) (\<lambda>_. True) m"

lemma settles_keeps: "writes.keeps (settled_write rs ctx a) m \<Longrightarrow> settles rs ctx a m"
  by (rule writes.keeps_ends)

lemma settles_emit_event: "settles rs ctx a (emit_event rs ctx t ph n pl)"
  by (intro settles_keeps writes_intros) simp

lemma settles_record_flow_execution:
  assumes "attempt_number aid = ar_attempt a"
  shows "settles rs ctx a (record_flow_execution rs ctx ph aid st n fin)"
proof -
  have "writes.ends (settled_write rs ctx a) (run_id_is rs ctx a) (\<lambda>x. x = ar_run_id a)
      (resolve_run_id rs ctx)"
    by (auto simp: writes.ends_def resolve_run_id_eq gets_def run_id_is_def writes.frame_refl)
  note resolved = writes.ends_bind [OF run_id_stable this]
  show ?thesis
    unfolding record_flow_execution_def Let_def save_flow_execution_def
    by (rule writes.ends_bind_any [OF run_id_stable], intro writes_intros, rule resolved)
       (auto intro!: writes.ends_bind_any writes.ends_seq_any writes.ends_seq run_id_stable
          writes_intros settles_emit_event settles_keeps simp: assms project_key_for_def split: option.splits)
qed

lemma settles_record_node_outcome: "settles rs ctx a (record_node_outcome rs ctx n aid out tgt)"
  by (intro settles_keeps writes_intros) simp_all

lemma settles_record_flow_end: "settles rs ctx a (record_flow_end rs ctx ph aid st n)"
  by (intro settles_keeps writes_intros) simp

lemma settles_save_phase_snapshot:
  "sn_story_id sn = sc_story_id ctx \<Longrightarrow> sn_phase sn = ar_phase a \<Longrightarrow> settles rs ctx a (save_phase_snapshot sn)"
  by (intro settles_keeps writes_intros) simp

lemma settles_seq: "settles rs ctx a m \<Longrightarrow> settles rs ctx a k \<Longrightarrow> settles rs ctx a (seq_io m k)"
  by (rule writes.ends_seq [OF run_id_stable])

lemma settles_bind_now: "(\<And>x. settles rs ctx a (k x)) \<Longrightarrow> settles rs ctx a (bind_io now k)"
  by (rule writes.ends_bind_any [OF run_id_stable writes_now])

lemma settles_bind_lift: "(\<And>x. settles rs ctx a (k x)) \<Longrightarrow> settles rs ctx a (bind_io (lift_sum r) k)"
  by (rule writes.ends_bind_lift)

lemma settles_bind_ret: "settles rs ctx a (k x) \<Longrightarrow> settles rs ctx a (bind_io (ret x) k)"
  by (simp add: bind_io_def ret_def)

lemma settles_ret: "settles rs ctx a (ret x)"
  by simp

lemmas settles_intros = settles_seq settles_bind_now settles_bind_lift settles_bind_ret settles_ret
  settles_record_flow_execution settles_record_node_outcome settles_record_flow_end
  settles_save_phase_snapshot

text \<open>
  The completion of an attempt under the current run id, followed by work that settles it, is
  safe at every prefix.
\<close>

lemma crash_boundary:
  assumes d: "d = sc_story_id ctx" and k: "settles rs ctx a k"
  shows "crash.ends (run_id_is rs ctx a) (\<lambda>_. True) (seq_io (save_phase_completion d a p) k)"
  unfolding crash.ends_def
proof (intro allI impI conjI)
  fix s r t assume s: "run_id_is rs ctx a s" and run: "seq_io (save_phase_completion d a p) k s = (r, t)"
  obtain q u where save: "save_phase_completion d a p s = (q, u)"
    by (cases "save_phase_completion d a p s") auto
  have "q = Inr () \<and> u = write_step (W_completion d a p) s \<or> (\<exists>e. q = Inl e) \<and> u = s"
    using save
    by (auto simp: save_phase_completion_def story_id_for_def bind_io_def gets_def raise_def do_write_def
        modify_def split: if_splits)
  then show "crash_step s t"
  proof (elim disjE conjE exE)
    assume q: "q = Inr ()" and u: "u = write_step (W_completion d a p) s"
    then have "k u = (r, t)" using run save by (simp add: seq_io_def bind_io_def)
    moreover have "run_id_is rs ctx a u"
      using s u run_id_cong [of "st_db u" "st_db s"] by (simp add: run_id_is_def write_step_def)
    ultimately have "writes_only (settled_write rs ctx a) u t"
      using writes.endsD [OF k] by blast
    moreover have "(sc_story_id ctx, a) \<in> set (t_attempts (st_db u))"
      using d u by (simp add: write_step_def)
    ultimately have "crash_step u t" by (rule settled_crash_step)
    moreover have "crash_step s u"
      by (rule quiet_crash_step)
         (auto simp: u writes_only_def write_step_def intro: exI [of _ "[W_completion d a p]"])
    ultimately show ?thesis using crash.frame_trans by blast
  next
    fix e assume "q = Inl e" "u = s"
    then show ?thesis using run save crash.frame_refl by (auto simp: seq_io_def bind_io_def)
  qed
qed simp

lemma crash_bind_resolve:
  assumes "\<And>rid. crash.ends (\<lambda>s. run_id_in rs ctx (st_db s) = rid) (\<lambda>_. True) (k rid)"
  shows "crash.keeps (bind_io (resolve_run_id rs ctx) k)"
  using assms
  by (auto simp: crash.keeps_def crash.ends_def resolve_run_id_eq bind_io_def gets_def) (metis prod.collapse)

lemma crash_bind_attempt:
  assumes "\<And>a. attempt_ok a \<Longrightarrow> ar_run_id a = rid \<Longrightarrow> ar_attempt a = n \<Longrightarrow> ar_phase a = coerce_phase_name ph \<Longrightarrow>
      crash.ends (run_id_is rs ctx a) (\<lambda>_. True) (k a)"
  shows "crash.ends (\<lambda>s. run_id_in rs ctx (st_db s) = rid) (\<lambda>_. True)
    (bind_io (lift_sum (build_attempt_record rid ph n out c st en det)) k)"
proof (rule crash.ends_bind_lift)
  fix a assume "build_attempt_record rid ph n out c st en det = Inr a"
  from build_attempt_recordD [OF this] assms [of a]
  show "crash.ends (\<lambda>s. run_id_in rs ctx (st_db s) = rid) (\<lambda>_. True) (k a)"
    by (auto simp: run_id_is_def crash.ends_def)
qed

section \<open>The engine is crash safe\<close>

text \<open>What only reads, or writes no finished flow and no snapshot, is safe at every prefix.\<close>

lemma crash_now: "crash.keeps now"
  and crash_iter: "crash.keeps (iter_active_overrides rs ctx)"
  and crash_consume: "crash.keeps (consume_override rs ctx r)"
  and crash_generate: "crash.keeps (generate_attempt_id rs ph)"
  and crash_context: "crash.keeps (save_story_context c)"
  by (rule crash_quiet, auto intro!: writes_intros)+

lemma crash_should_skip: "crash.keeps (should_skip_for_execution_policy e ctx nd)"
  unfolding should_skip_for_execution_policy_def
  by (rule crash_quiet) (auto intro!: writes_intros split: option.splits)

lemma crash_in_progress: "crash.keeps (record_flow_execution rs ctx ph aid st n None)"
proof (rule crash_quiet)
  have save: "writes.keeps quiet_write (save_flow_execution f)" if "fe_finished_at f = None" for f
    using that by (simp add: save_flow_execution_def writes_do_write)
  show "writes.keeps quiet_write (record_flow_execution rs ctx ph aid st n None)"
    unfolding record_flow_execution_def Let_def
    by (auto intro!: writes_intros save split: option.splits)
qed

lemma crash_consume_freeze_retries: "crash.keeps (consume_freeze_retries e ctx n pol rs)"
  by (induction rs) (auto intro!: crash.keeps_intros crash_consume)

lemma crash_freeze_retries_active: "crash.keeps (freeze_retries_active e ctx n pol)"
  unfolding freeze_retries_active_def
  by (auto intro!: crash.keeps_intros crash_iter crash_consume_freeze_retries)

lemma crash_handler:
  assumes "handler_keeps quiet_write h"
  shows "crash.keeps (on_enter h c v)" "crash.keeps (on_exit h c v)" "crash.keeps (on_resume h c v tr)"
  using assms by (auto simp: handler_keeps_def intro: crash_quiet)

lemma crash_bind_completed:
  "(\<And>q. crash.keeps (k q)) \<Longrightarrow> crash.keeps (bind_io (lift_sum (completed_state_for s aid r)) k)"
  by (rule crash.keeps_bind_lift)

lemma crash_bind_evolve:
  "(\<And>q. crash.ends P F (k q)) \<Longrightarrow> crash.ends P F (bind_io (lift_sum (evolve_phase_state s u)) k)"
  by (rule crash.ends_bind_lift)

lemmas crash_intros = crash_bind_resolve crash_bind_attempt crash_boundary crash_bind_evolve
  crash.keeps_intros crash_now crash_iter crash_consume crash_generate crash_context
  crash_should_skip crash_in_progress crash_freeze_retries_active

lemma crash_apply_retry_policy:
  assumes "en_story_dir e = sc_story_id ctx"
  shows "crash.keeps (apply_retry_policy e ctx s nd aid why arts tr st)"
  unfolding apply_retry_policy_def Let_def
  using assms by (auto intro!: crash_intros settles_intros split: option.splits)

lemma crash_after_retry:
  assumes "en_story_dir e = sc_story_id ctx" and "crash.keeps k"
  shows "crash.keeps (bind_io (apply_retry_policy e ctx s nd aid why arts tr st)
     (\<lambda>x. case x of Some r \<Rightarrow> ret r | None \<Rightarrow> k))"
  using assms by (auto intro!: crash.keeps_intros crash_apply_retry_policy split: option.splits)

lemma crash_handle_handler_exception:
  assumes "en_story_dir e = sc_story_id ctx"
  shows "crash.keeps (handle_handler_exception e ctx s n aid exc st)"
  unfolding handle_handler_exception_def Let_def
  using assms by (auto intro!: crash_intros settles_intros crash_apply_retry_policy split: option.splits)

lemma crash_handle_guard_failure_result:
  assumes "en_story_dir e = sc_story_id ctx"
  shows "crash.keeps (handle_guard_failure_result e ctx s nd r aid evs st tr)"
  unfolding handle_guard_failure_result_def Let_def
  using assms by (auto intro!: crash_intros settles_intros crash_after_retry)

lemma crash_complete_without_handler:
  assumes "en_story_dir e = sc_story_id ctx"
  shows "crash.keeps (complete_without_handler e ctx s aid out c no fs arts errs npo st)"
  unfolding complete_without_handler_def Let_def
  using assms by (auto intro!: crash_intros settles_intros split: option.splits)

lemma crash_handle_completed_result:
  assumes "en_story_dir e = sc_story_id ctx" and "handler_keeps quiet_write h"
    and "ps_story_id s = sc_story_id ctx"
  shows "crash.keeps (handle_completed_result e ctx s nd h r aid v st tr)"
  unfolding handle_completed_result_def Let_def
  using assms
  by (auto intro!: crash_intros settles_intros crash_handle_guard_failure_result crash_handler
      simp: coerce_phase_name_def)

lemma crash_process_handler_result:
  assumes "en_story_dir e = sc_story_id ctx" and "handler_keeps quiet_write h"
    and "ps_story_id s = sc_story_id ctx"
  shows "crash.keeps (process_handler_result e ctx s nd h r aid v st tr)"
  unfolding process_handler_result_def handle_reentry_result_def handle_paused_result_def
    handle_terminal_result_def Let_def
  using assms
  by (auto intro!: crash_intros settles_intros crash_handle_completed_result crash_apply_retry_policy
      split: option.splits)

lemma crash_apply_override_records:
  assumes "en_story_dir e = sc_story_id ctx"
  shows "crash.keeps (apply_override_records e ctx s nd aid st rs)"
  by (induction rs) (auto intro!: crash_intros crash_complete_without_handler [OF assms])

lemma crash_enter_phase:
  assumes "en_story_dir e = sc_story_id ctx" and "handlers_keep quiet_write (en_registry e)"
    and "ps_story_id (pe_state v) = sc_story_id ctx"
  shows "crash.keeps (enter_phase e ctx v nd aid st)"
  unfolding enter_phase_def Let_def
  by (rule crash.keeps_bind_lift, drule fenced_handler [OF assms(2)])
     (use assms in \<open>auto intro!: crash_intros crash_handle_handler_exception crash_process_handler_result
        crash_handler split: sum.splits\<close>)

lemma crash_run_phase:
  assumes "en_story_dir e = sc_story_id ctx" and "handlers_keep quiet_write (en_registry e)"
    and "ps_story_id (pe_state v) = sc_story_id ctx"
  shows "crash.keeps (run_phase e ctx v)"
  unfolding run_phase_def Let_def apply_pre_execution_override_def block_on_preconditions_def
  using assms
  by (auto intro!: crash_intros settles_intros crash_apply_override_records crash_complete_without_handler
      crash_enter_phase split: option.splits)

lemma crash_resume_phase:
  assumes "en_story_dir e = sc_story_id ctx" and "handlers_keep quiet_write (en_registry e)"
    and "ps_story_id (pe_state v) = sc_story_id ctx"
  shows "crash.keeps (resume_phase e ctx v tr)"
proof -
  have h: "crash.keeps (bind_io (lift_sum (get_handler (en_registry e) n)) k)"
    if "\<And>h. handler_keeps quiet_write h \<Longrightarrow> crash.keeps (k h)" for n and k :: "_ \<Rightarrow> ('a, engine_result) action"
    by (rule crash.keeps_bind_lift) (auto intro!: that fenced_handler [OF assms(2)])
  show ?thesis
    unfolding resume_phase_def Let_def
    using assms
    by (auto intro!: h crash.keeps_seq crash.keeps_try crash.keeps_bind crash_now crash_generate crash_context
        crash_handle_handler_exception crash_process_handler_result crash_handler
        split: option.splits sum.splits)
qed

end
