(* ===== verification/Engine_Results.thy ===== *)
theory Engine_Results
  imports Engine_Crash
begin

text \<open>
  What a result of the engine says about the store: the attempt and the phase state that were
  recorded, and where a suggested next phase comes from.
\<close>

section \<open>The contract of a result\<close>

text \<open>
  The combinations of engine status, attempt outcome, failure cause and durable phase status. The
  last two rows of the \<open>failed\<close> group are handler results that no branch expects (\<open>PENDING\<close>, and
  \<open>IN_PROGRESS\<close> without agents to spawn): they are reported as failed, while the durable
  state keeps the status the handler gave.
\<close>

definition result_agrees ::
  "string \<Rightarrow> attempt_outcome \<Rightarrow> failure_cause option \<Rightarrow> phase_status \<Rightarrow> bool" where
  "result_agrees status outcome cause ps \<longleftrightarrow> (status, outcome, cause, ps) \<in>
    {(''phase_completed'', Outcome_COMPLETED, None, PhaseStatus_COMPLETED),
     (''phase_completed'', Outcome_SKIPPED, None, PhaseStatus_COMPLETED),
     (''phase_completed'', Outcome_FAILED, Some Cause_HANDLER_REPORTED_FAILED, PhaseStatus_FAILED),
     (''yielded'', Outcome_YIELDED, None, PhaseStatus_PAUSED),
     (''yielded'', Outcome_YIELDED, None, PhaseStatus_IN_PROGRESS),
     (''failed'', Outcome_BLOCKED, Some Cause_PRECONDITION_FAILED, PhaseStatus_FAILED),
     (''failed'', Outcome_BLOCKED, Some Cause_GUARD_REJECTED, PhaseStatus_FAILED),
     (''failed'', Outcome_FAILED, Some Cause_HANDLER_EXCEPTION, PhaseStatus_FAILED),
     (''failed'', Outcome_FAILED, Some Cause_HANDLER_REPORTED_FAILED, PhaseStatus_FAILED),
     (''failed'', Outcome_FAILED, Some Cause_HANDLER_REPORTED_FAILED, PhaseStatus_PENDING),
     (''failed'', Outcome_FAILED, Some Cause_HANDLER_REPORTED_FAILED, PhaseStatus_IN_PROGRESS),
     (''escalated'', Outcome_ESCALATED, Some Cause_HANDLER_REPORTED_ESCALATED, PhaseStatus_ESCALATED)}"

text \<open>The cause is backed by the detail of the attempt: the exception, the guard results or the failed preconditions.\<close>

fun cause_evident :: "failure_cause option \<Rightarrow> (string \<times> json) list option \<Rightarrow> string list \<Rightarrow> bool" where
  "cause_evident (Some Cause_HANDLER_EXCEPTION) d errs = (\<exists>m. errs = [m] \<and> d = Some [(''exception'', JStr m)])"
| "cause_evident (Some Cause_GUARD_REJECTED) d errs = (\<exists>evs rest. d = Some ((''guard_evaluations'', guard_evals_json evs) # rest)
     \<and> errs = guard_failure_reasons evs)"
| "cause_evident (Some Cause_PRECONDITION_FAILED) d errs =
     (d = (if errs = [] then None else Some [(''failure_reasons'', JList (map JStr errs))]))"
| "cause_evident _ d errs = True"

definition next_phase_justified ::
  "'w pipeline_engine \<Rightarrow> story_context \<Rightarrow> node_definition \<Rightarrow> phase_state \<Rightarrow> string \<Rightarrow> bool" where
  "next_phase_justified e ctx nd q n \<longleftrightarrow>
     (ps_status q = PhaseStatus_COMPLETED \<and> transition_target (en_workflow e) ctx q = Inr (Some n))
   \<or> (\<exists>pol. nd_retry_policy nd = Some pol \<and> backtrack_target pol = Some n
        \<and> ps_status q = PhaseStatus_FAILED)
   \<or> (allow_jump (nd_override_policy nd) \<and> get_node (en_workflow e) n \<noteq> None)"

definition recorded ::
  "'w pipeline_engine \<Rightarrow> story_context \<Rightarrow> node_definition \<Rightarrow> phase_name \<Rightarrow> string \<Rightarrow> engine_result
     \<Rightarrow> db \<Rightarrow> bool" where
  "recorded e ctx nd ph aid r D \<longleftrightarrow>
    res_attempt_id r = Some aid \<and> res_phase r = phase_name_value ph
    \<and> (\<exists>a q. (en_story_dir e, a) \<in> set (t_attempts D)
        \<and> phase_state_row D (en_story_dir e) = Some (Readable q)
        \<and> attempt_ok a \<and> ar_phase a = ph \<and> ar_attempt a = attempt_number aid
        \<and> valid_state q \<and> ps_story_id q = en_story_dir e \<and> ps_phase q = ph \<and> ps_attempt_id q = Some aid
        \<and> result_agrees (res_status r) (ar_outcome a) (ar_failure_cause a) (ps_status q)
        \<and> cause_evident (ar_failure_cause a) (ar_detail a) (res_errors r)
        \<and> (\<forall>n. res_next_phase r = Some n \<longrightarrow> next_phase_justified e ctx nd q n))
    \<and> (res_next_phase r \<noteq> None \<longrightarrow> res_status r = ''phase_completed'')"

text \<open>The writes after a completion leave attempts and phase states alone.\<close>

fun tail_write :: "db_write \<Rightarrow> bool" where
  "tail_write (W_completion sid a p) = False"
| "tail_write (W_attempt sid a) = False"
| "tail_write (W_phase_state p) = False"
| "tail_write w = True"

lemma tail_writes_core:
  "writes_only tail_write s t \<Longrightarrow> t_attempts (st_db t) = t_attempts (st_db s)
     \<and> t_phase_states (st_db t) = t_phase_states (st_db s)"
  by (erule writes_only_invariant [where I = "\<lambda>D. t_attempts D = t_attempts (st_db s)
        \<and> t_phase_states D = t_phase_states (st_db s)"])
     (auto elim: tail_write.elims)

lemma save_phase_completion_returns:
  "save_phase_completion d a p s = (Inr x, t) \<Longrightarrow>
     t = write_step (W_completion d a p) s \<and> d \<noteq> [] \<and> ps_story_id p = d"
  by (auto simp: save_phase_completion_def story_id_for_def bind_io_def gets_def raise_def do_write_def
      modify_def split: if_splits)

lemma recorded_by_completion_via:
  fixes g :: "'x \<Rightarrow> engine_result"
  assumes k: "writes.keeps tail_write k"
    and r: "returns (\<lambda>x. res_attempt_id (g x) = Some aid \<and> res_phase (g x) = phase_name_value ph
        \<and> result_agrees (res_status (g x)) (ar_outcome a) (ar_failure_cause a) (ps_status q)
        \<and> cause_evident (ar_failure_cause a) (ar_detail a) (res_errors (g x))
        \<and> (\<forall>n. res_next_phase (g x) = Some n \<longrightarrow> next_phase_justified e ctx nd q n)
        \<and> (res_next_phase (g x) \<noteq> None \<longrightarrow> res_status (g x) = ''phase_completed'')) k"
    and a: "attempt_ok a" "ar_phase a = ph" "ar_attempt a = attempt_number aid"
    and q: "valid_state q" "ps_phase q = ph" "ps_attempt_id q = Some aid"
  shows "establishes (\<lambda>x t. recorded e ctx nd ph aid (g x) (st_db t))
    (seq_io (save_phase_completion (en_story_dir e) a q) k)"
proof (rule establishesI)
  fix s x t assume "seq_io (save_phase_completion (en_story_dir e) a q) k s = (Inr x, t)"
  then obtain u where u: "u = write_step (W_completion (en_story_dir e) a q) s"
      "ps_story_id q = en_story_dir e" "k u = (Inr x, t)"
    unfolding seq_io_def by (cases rule: bind_io_cases) (auto dest: save_phase_completion_returns)
  have "writes_only tail_write u t" using writes.keepsD [OF k u(3)] .
  from tail_writes_core [OF this]
  have "(en_story_dir e, a) \<in> set (t_attempts (st_db t))"
      "phase_state_row (st_db t) (en_story_dir e) = Some (Readable q)"
    by (simp_all add: u(1) write_step_def phase_state_row_def find_upsert [where key = fst])
  then show "recorded e ctx nd ph aid (g x) (st_db t)"
    using a q u(2) returnsD [OF r u(3)] unfolding recorded_def by auto
qed

lemmas recorded_by_completion = recorded_by_completion_via [where g = "\<lambda>r. r"]

lemma coerce_phase_name_value [simp]: "coerce_phase_name (phase_name_value p) = p"
  by (simp add: coerce_phase_name_def)

lemma engine_result_of_sel [simp]:
  "res_status (engine_result_of st ph) = st" "res_phase (engine_result_of st ph) = ph"
  "res_next_phase (engine_result_of st ph) = None" "res_attempt_id (engine_result_of st ph) = None"
  by (simp_all add: engine_result_of_def)

section \<open>Every branch of the engine\<close>

lemma establishes_bind_op:
  "(\<And>x. establishes Q (k1 x)) \<Longrightarrow> establishes Q (bind_io now k1)"
  "(\<And>x. establishes Q (k2 x)) \<Longrightarrow> establishes Q (bind_io (resolve_run_id rs ctx) k2)"
  "(\<And>x. establishes Q (k3 x)) \<Longrightarrow> establishes Q (bind_io (freeze_retries_active e ctx n pol) k3)"
  "(\<And>x. establishes Q (k4 x)) \<Longrightarrow> establishes Q (bind_io (iter_active_overrides rs ctx) k4)"
  "(\<And>x. establishes Q (k5 x)) \<Longrightarrow> establishes Q (bind_io (generate_attempt_id rs ph) k5)"
  by (rule establishes_bind_any, assumption)+

lemmas result_intros = establishes_bind_lift establishes_bind_some establishes_bind_op
  recorded_by_completion

lemma returns_bind_now: "(\<And>x. returns F (k x)) \<Longrightarrow> returns F (bind_io now k)"
  by (rule returns_bind_any)

lemmas tail_intros = writes_intros returns_bind_now returns_seq

lemmas record_facts = build_attempt_recordD evolve_phase_stateD completed_state_forD

lemma recorded_complete_without_handler:
  assumes "out = Outcome_COMPLETED \<or> out = Outcome_SKIPPED"
    and "npo \<noteq> None \<Longrightarrow> allow_jump (nd_override_policy nd) \<and> get_node (en_workflow e) (the npo) \<noteq> None"
  shows "establishes (\<lambda>r t. recorded e ctx nd (ps_phase s) aid r (st_db t))
    (complete_without_handler e ctx s aid out None no fs arts errs npo st)"
proof -
  have tgt: "returns (\<lambda>n. \<forall>m. n = Some m \<longrightarrow> next_phase_justified e ctx nd q m)
      (case npo of Some t \<Rightarrow> ret (Some t) | None \<Rightarrow> lift_sum (transition_target (en_workflow e) ctx q))"
    if "ps_status q = PhaseStatus_COMPLETED" for q
    using that assms(2) by (auto simp: next_phase_justified_def split: option.splits sum.splits)
  have kp: "writes.keeps tail_write (case npo of Some t \<Rightarrow> ret (Some t) | None \<Rightarrow> lift_sum r)" for r
    by (auto intro!: tail_intros split: option.splits)
  show ?thesis
    unfolding complete_without_handler_def Let_def
    by (intro establishes_bind_lift establishes_bind_any recorded_by_completion returns_seq
          returns_bind [OF tgt] writes.keeps_seq writes.keeps_bind kp)
       (use assms(1) in \<open>auto intro!: tail_intros dest!: record_facts simp: result_agrees_def\<close>)
qed

lemma recorded_apply_override_records:
  "establishes (\<lambda>x t. \<forall>r. x = Some r \<longrightarrow> recorded e ctx nd (ps_phase s) aid r (st_db t))
    (apply_override_records e ctx s nd aid st rs)"
proof (induction rs)
  case (Cons r rs)
  show ?case using Cons
    by (auto intro!: establishes_seq_any establishes_bind_ret recorded_complete_without_handler)
qed (simp add: establishes_ret)

lemma recorded_apply_retry_policy:
  assumes "nd_name nd = phase_name_value (ps_phase s)"
  shows "establishes (\<lambda>x t. \<forall>r. x = Some r \<longrightarrow> recorded e ctx nd (ps_phase s) aid r (st_db t))
    (apply_retry_policy e ctx s nd aid why arts tr st)"
proof (cases "\<exists>pol target. nd_retry_policy nd = Some pol \<and> backtrack_target pol = Some target")
  case False
  then show ?thesis
    by (auto simp: apply_retry_policy_def establishes_ret split: option.splits)
next
  case True
  then obtain pol target where pol: "nd_retry_policy nd = Some pol" "backtrack_target pol = Some target"
    by blast
  have "establishes (\<lambda>x t. \<forall>r. x = Some r \<longrightarrow> recorded e ctx nd (ps_phase s) aid r (st_db t))
      (seq_io (save_phase_completion (en_story_dir e) a q) k)"
    if "establishes (\<lambda>x t. recorded e ctx nd (ps_phase s) aid (the x) (st_db t))
      (seq_io (save_phase_completion (en_story_dir e) a q) k)" for a q k
    using that by (rule establishes_mono) auto
  note via = this [OF recorded_by_completion_via [where g = the]]
  show ?thesis
    unfolding apply_retry_policy_def Let_def pol option.case
    by (auto intro!: establishes_ret establishes_bind_lift establishes_bind_op via tail_intros
        dest!: record_facts simp: result_agrees_def next_phase_justified_def pol assms)
qed

lemma recorded_handle_handler_exception:
  assumes "get_node (en_workflow e) (phase_name_value (ps_phase s)) = Some nd"
  shows "establishes (\<lambda>r t. recorded e ctx nd (ps_phase s) aid r (st_db t))
    (handle_handler_exception e ctx s (phase_name_value (ps_phase s)) aid exc st)"
  unfolding handle_handler_exception_def Let_def assms option.case
  using get_node_name [OF assms]
  by (intro establishes_bind_some recorded_apply_retry_policy establishes_bind_lift establishes_bind_any
        recorded_by_completion)
     (auto intro!: tail_intros dest!: record_facts simp: result_agrees_def)

lemma recorded_handle_guard_failure_result:
  assumes "nd_name nd = phase_name_value (ps_phase s)"
  shows "establishes (\<lambda>r t. recorded e ctx nd (ps_phase s) aid r (st_db t))
    (handle_guard_failure_result e ctx s nd res aid evs st tr)"
  unfolding handle_guard_failure_result_def Let_def
  by (intro result_intros recorded_apply_retry_policy assms)
     (auto intro!: tail_intros dest!: record_facts simp: result_agrees_def)

lemma recorded_handle_completed_result:
  assumes "nd_name nd = phase_name_value (ps_phase s)"
  shows "establishes (\<lambda>r t. recorded e ctx nd (ps_phase s) aid r (st_db t))
    (handle_completed_result e ctx s nd h res aid v st tr)"
proof -
  have tgt: "returns (\<lambda>n. \<forall>m. n = Some m \<longrightarrow> next_phase_justified e ctx nd q m)
      (lift_sum (transition_target (en_workflow e) ctx q))"
    if "ps_status q = PhaseStatus_COMPLETED" for q
    using that by (auto simp: next_phase_justified_def split: option.splits sum.splits)
  have ok: "establishes (\<lambda>r t. recorded e ctx nd (ps_phase s) aid r (st_db t)) (if b then m else k)"
    if "establishes (\<lambda>r t. recorded e ctx nd (ps_phase s) aid r (st_db t)) m"
       "establishes (\<lambda>r t. recorded e ctx nd (ps_phase s) aid r (st_db t)) k" for b m k
    using that by simp
  show ?thesis
    unfolding handle_completed_result_def Let_def
    by (intro establishes_try_any ok recorded_handle_guard_failure_result assms result_intros returns_seq
          returns_bind_now returns_bind [OF tgt] writes.keeps_seq writes.keeps_bind)
       (auto intro!: tail_intros dest!: record_facts simp: result_agrees_def)
qed

lemma recorded_handle_reentry_result:
  "establishes (\<lambda>r t. recorded e ctx nd (ps_phase s) aid r (st_db t))
    (handle_reentry_result e ctx s res aid st tr)"
  unfolding handle_reentry_result_def Let_def
  by (intro result_intros) (auto intro!: tail_intros dest!: record_facts simp: result_agrees_def)

lemma recorded_handle_paused_result:
  "establishes (\<lambda>r t. recorded e ctx nd (ps_phase s) aid r (st_db t))
    (handle_paused_result e ctx s res aid st tr)"
  unfolding handle_paused_result_def Let_def
  by (intro result_intros)
     (auto intro!: tail_intros dest!: record_facts simp: result_agrees_def pause_updates_def)

lemma recorded_handle_terminal_result:
  assumes "nd_name nd = phase_name_value (ps_phase s)"
    and "hr_status res \<notin> {PhaseStatus_COMPLETED, PhaseStatus_PAUSED}"
  shows "establishes (\<lambda>r t. recorded e ctx nd (ps_phase s) aid r (st_db t))
    (handle_terminal_result e ctx s nd res aid st tr)"
proof -
  have retry: "establishes (\<lambda>x t. \<forall>r. x = Some r \<longrightarrow> recorded e ctx nd (ps_phase s) aid r (st_db t))
      (if b then apply_retry_policy e ctx s nd aid why arts tr st else ret None)" for b why arts
    by (simp add: establishes_ret recorded_apply_retry_policy [OF assms(1)])
  have agree: "result_agrees (engine_status_for (hr_status res)) (outcome_for_terminal (hr_status res))
      (Some (failure_cause_for_terminal (hr_status res))) (hr_status res)"
      and evident: "cause_evident (Some (failure_cause_for_terminal (hr_status res))) d errs" for d errs
    using assms(2)
    by (cases "hr_status res") (auto simp: result_agrees_def engine_status_for_def outcome_for_terminal_def failure_cause_for_terminal_def)
  show ?thesis
    unfolding handle_terminal_result_def Let_def
    by (intro result_intros retry)
       (auto intro!: tail_intros dest!: record_facts simp: agree evident terminal_updates_def)
qed

lemma recorded_process_handler_result:
  assumes "nd_name nd = phase_name_value (ps_phase s)"
  shows "establishes (\<lambda>r t. recorded e ctx nd (ps_phase s) aid r (st_db t))
    (process_handler_result e ctx s nd h res aid v st tr)"
  using assms
  by (auto simp: process_handler_result_def intro: recorded_handle_completed_result
      recorded_handle_paused_result recorded_handle_reentry_result recorded_handle_terminal_result)

lemma recorded_block_on_preconditions:
  "establishes (\<lambda>r t. recorded e ctx nd (ps_phase s) aid r (st_db t))
    (block_on_preconditions e ctx s aid st why)"
  unfolding block_on_preconditions_def Let_def
  by (intro result_intros) (auto intro!: tail_intros dest!: record_facts simp: result_agrees_def)

lemma recorded_enter_phase:
  assumes "get_node (en_workflow e) (phase_name_value (ps_phase (pe_state v))) = Some nd"
  shows "establishes (\<lambda>r t. recorded e ctx nd (ps_phase (pe_state v)) aid r (st_db t))
    (enter_phase e ctx v nd aid st)"
  unfolding enter_phase_def Let_def
  using get_node_name [OF assms]
  by (auto intro!: establishes_bind_lift establishes_seq_any establishes_try_any
      recorded_process_handler_result recorded_handle_handler_exception [OF assms] split: sum.splits)

text \<open>A result of \<open>run_phase\<close> describes what is stored, under an attempt id of the phase.\<close>

definition result_recorded ::
  "'w pipeline_engine \<Rightarrow> story_context \<Rightarrow> node_definition \<Rightarrow> phase_name \<Rightarrow> engine_result \<Rightarrow> db \<Rightarrow> bool" where
  "result_recorded e ctx nd ph r D \<longleftrightarrow>
    (\<exists>n. recorded e ctx nd ph (attempt_id_of (phase_name_value ph) (Suc n)) r D)"

lemma recorded_run_phase:
  assumes "get_node (en_workflow e) (phase_name_value (ps_phase (pe_state v))) = Some nd"
  shows "establishes (\<lambda>r t. result_recorded e ctx nd (ps_phase (pe_state v)) r (st_db t))
    (run_phase e ctx v)"
proof -
  let ?ph = "ps_phase (pe_state v)"
  have main: "establishes (\<lambda>r t. recorded e ctx nd ?ph aid r (st_db t))
      (bind_io now (\<lambda>started_at.
       bind_io (apply_pre_execution_override e ctx (pe_state v) nd aid started_at) (\<lambda>ov.
       case ov of Some r \<Rightarrow> ret r | None \<Rightarrow>
       bind_io (should_skip_for_execution_policy e ctx nd) (\<lambda>skip.
       case skip of
          Some why \<Rightarrow> complete_without_handler e ctx (pe_state v) aid Outcome_SKIPPED None ''SKIP''
                       ''SKIPPED'' [] [why] None started_at
        | None \<Rightarrow>
       bind_io (lift_sum (can_enter_phase (en_workflow e) (phase_name_value ?ph) ctx (pe_state v))) (\<lambda>entry.
       if \<not> fst entry then block_on_preconditions e ctx (pe_state v) aid started_at (snd entry)
       else enter_phase e ctx v nd aid started_at)))))" (is "establishes _ ?m") for aid
    unfolding apply_pre_execution_override_def
    by (intro establishes_bind_op establishes_bind_some recorded_apply_override_records)
       (auto intro!: establishes_bind_any recorded_complete_without_handler recorded_enter_phase [OF assms]
          recorded_block_on_preconditions split: option.splits)
  show ?thesis
    unfolding run_phase_def Let_def assms option.case
    by (intro establishes_seq_any establishes_bind_returns [OF returns_generate_attempt_id],
        elim exE, rule establishes_mono [OF main])
       (auto simp: result_recorded_def)
qed

lemma recorded_resumed_handler:
  assumes "get_node (en_workflow e) (phase_name_value (ps_phase (pe_state v))) = Some nd"
  shows "establishes (\<lambda>r t. result_recorded e ctx nd (ps_phase (pe_state v)) r (st_db t))
      (bind_io (generate_attempt_id (en_runtime e) (phase_name_value (ps_phase (pe_state v))))
        (\<lambda>aid. bind_io now (\<lambda>started_at. try_io (on_resume h ctx v tr) (\<lambda>r. case r of
          Inl exc \<Rightarrow> handle_handler_exception e ctx (pe_state v)
            (phase_name_value (ps_phase (pe_state v))) aid exc started_at
        | Inr result \<Rightarrow> process_handler_result e ctx (pe_state v) nd h result aid v started_at (Some tr)))))"
proof -
  have main: "establishes (\<lambda>r t. recorded e ctx nd (ps_phase (pe_state v)) aid r (st_db t))
      (bind_io now (\<lambda>started_at. try_io (on_resume h ctx v tr) (\<lambda>r. case r of
          Inl exc \<Rightarrow> handle_handler_exception e ctx (pe_state v)
            (phase_name_value (ps_phase (pe_state v))) aid exc started_at
        | Inr result \<Rightarrow> process_handler_result e ctx (pe_state v) nd h result aid v started_at (Some tr))))"
    for aid
    using get_node_name [OF assms]
    by (auto intro!: establishes_bind_op establishes_try_any recorded_process_handler_result
        recorded_handle_handler_exception [OF assms] split: sum.splits)
  show ?thesis
    by (intro establishes_bind_returns [OF returns_generate_attempt_id], elim exE,
        rule establishes_mono [OF main]) (auto simp: result_recorded_def)
qed

lemma recorded_accepted_resume:
  assumes "get_node (en_workflow e) (phase_name_value (ps_phase (pe_state v))) = Some nd"
    and "ps_status (pe_state v) = PhaseStatus_PAUSED" and "valid_trigger nd (ps_pause_reason (pe_state v)) tr"
  shows "establishes (\<lambda>r t. result_recorded e ctx nd (ps_phase (pe_state v)) r (st_db t)) (resume_phase e ctx v tr)"
  unfolding resume_phase_def Let_def assms option.case
  using assms(2,3)
  by (auto intro!: establishes_seq_any establishes_bind_lift recorded_resumed_handler [OF assms(1)])

lemma recorded_resume_phase:
  assumes "get_node (en_workflow e) (phase_name_value (ps_phase (pe_state v))) = Some nd"
  shows "establishes (\<lambda>r t. res_attempt_id r = None \<and> res_status r = ''failed'' \<and> res_next_phase r = None
      \<or> result_recorded e ctx nd (ps_phase (pe_state v)) r (st_db t)) (resume_phase e ctx v tr)"
  unfolding resume_phase_def Let_def assms option.case
  by (auto intro!: establishes_seq_any establishes_bind_lift establishes_ret
      establishes_mono [OF recorded_resumed_handler [OF assms]])

end
