(* ===== verification/Engine_Live.thy ===== *)
theory Engine_Live
  imports Engine_Results
begin

text \<open>
  When a phase run completes: the engine has no way to raise between the handler's \<open>COMPLETED\<close>
  and its own \<open>phase_completed\<close>, given the conditions of the main lemma below.
\<close>

section \<open>Operations that never raise\<close>

lemma never_now [simp]: "never_raises now"
  by (simp add: now_def never_raises_bind never_raises_seq)

lemma never_do_write [simp]: "never_raises (do_write w)"
  by (simp add: do_write_def)

lemma never_loads [simp]:
  "never_raises (load_flow_execution d)" "never_raises (load_node_execution_ledger d f n)"
  by (simp_all add: load_flow_execution_def load_node_execution_ledger_def split: option.splits)

lemma never_resolve_run_id [simp]: "never_raises (resolve_run_id rs ctx)"
  by (simp add: resolve_run_id_eq)

lemma never_emit_event [simp]: "never_raises (emit_event rs ctx t ph n pl)"
  by (auto simp: emit_event_def emit_def intro!: never_raises_bind)

lemma never_record_flow_execution [simp]: "never_raises (record_flow_execution rs ctx ph aid st n fin)"
  unfolding record_flow_execution_def Let_def save_flow_execution_def
  by (auto intro!: never_raises_bind never_raises_seq split: option.splits)

lemma never_record_node_outcome [simp]: "never_raises (record_node_outcome rs ctx n aid out tgt)"
  unfolding record_node_outcome_def Let_def save_node_execution_ledger_def
  by (auto intro!: never_raises_bind never_raises_seq)

lemma never_record_flow_end [simp]: "never_raises (record_flow_end rs ctx ph aid st n)"
  by (simp add: record_flow_end_def)

lemma never_saves [simp]: "never_raises (save_phase_snapshot r)" "never_raises (save_story_context c)"
  by (simp_all add: save_phase_snapshot_def save_story_context_def)

lemma wp_total:
  assumes "never_raises m" and "writes.keeps P m" and "\<And>x t. writes_only P s t \<Longrightarrow> Q x t"
  shows "wp m Q E s"
  using assms by (auto intro!: wpI dest: writes.keepsD simp: never_raises_def) (metis Inl_Inr_False prod.inject)

section \<open>From a completed handler to a completed phase\<close>

text \<open>A store that lets an executor commit, with a clock that does not run backwards.\<close>

definition live :: "string \<Rightarrow> 'w st \<Rightarrow> bool" where
  "live d s \<longleftrightarrow> d \<noteq> [] \<and> freeze_rows (st_db s) d = [] \<and> mono (st_clock s)"

lemma live_writes_only: "writes_only P s t \<Longrightarrow> live d s \<Longrightarrow> live d t"
  by (auto simp: live_def freeze_rows_def freezes_writes_only) (simp add: writes_only_def)

lemma ticks_writes_only: "writes_only P s t \<Longrightarrow> live d s \<Longrightarrow> c \<le> st_clock s (st_ticks s) \<Longrightarrow>
    c \<le> st_clock t (st_ticks t)"
  by (auto simp: writes_only_def live_def) (meson monoD order_trans)

lemma wp_now: "(\<And>t. t = st_clock s (st_ticks s) \<Longrightarrow> Q t (s\<lparr>st_ticks := Suc (st_ticks s)\<rparr>)) \<Longrightarrow> wp now Q E s"
  by (simp add: now_def wp_simps)

lemma live_completion:
  assumes "live d s" and "ps_story_id q = d" and "never_raises k" and "returns F k"
  shows "wp (seq_io (save_phase_completion d a q) k) (\<lambda>r _. F r) (\<lambda>_ _. False) s"
proof -
  have "save_phase_completion d a q s = (Inr (), write_step (W_completion d a q) s)"
    using assms(1,2)
    by (simp add: live_def save_phase_completion_def story_id_for_def io_app io_run do_write_def)
  moreover obtain x t where "k (write_step (W_completion d a q) s) = (Inr x, t)"
    using assms(3) unfolding never_raises_def by blast
  ultimately show ?thesis
    using returnsD [OF assms(4)] by (simp add: wp_def io_app)
qed

definition transitions_defined :: "flow_definition \<Rightarrow> story_context \<Rightarrow> bool" where
  "transitions_defined w ctx \<longleftrightarrow> (\<forall>q. \<exists>n. transition_target w ctx q = Inr n)"

definition completing :: "phase_state \<Rightarrow> node_definition \<Rightarrow> story_context \<Rightarrow> handler_result \<Rightarrow> bool" where
  "completing s nd ctx res \<longleftrightarrow> hr_status res = PhaseStatus_COMPLETED
     \<and> (\<forall>u. u = or_value (hr_updated_state res) s \<longrightarrow>
          valid_state u \<and> ps_phase u = ps_phase s \<and> ps_story_id u = ps_story_id s)
     \<and> (\<forall>g \<in> set (nd_guards nd). \<forall>q. ps_phase q = ps_phase s \<and> ps_status q = PhaseStatus_COMPLETED \<longrightarrow>
          (\<exists>r. guard_run g ctx q = Inr r \<and> passed r))"

text \<open>
  The result of a completed run: the next phase is the target of the transition that the
  completed state (the handler's, with the engine's updates) takes.
\<close>

definition completed_with ::
  "'w pipeline_engine \<Rightarrow> story_context \<Rightarrow> phase_state \<Rightarrow> handler_result \<Rightarrow> engine_result \<Rightarrow> bool" where
  "completed_with e ctx s res r \<longleftrightarrow> res_status r = ''phase_completed''
     \<and> res_phase r = phase_name_value (ps_phase s)
     \<and> res_updated_context r = Some (or_value (hr_updated_context res) ctx)
     \<and> (\<exists>q. ps_phase q = ps_phase s \<and> ps_status q = PhaseStatus_COMPLETED
          \<and> ps_payload q = ps_payload (or_value (hr_updated_state res) s)
          \<and> transition_target (en_workflow e) ctx q = Inr (res_next_phase r))"

lemma live_handle_completed_result:
  assumes l: "live (en_story_dir e) s" and c: "completing st nd ctx res"
    and d: "ps_story_id st = en_story_dir e" and h: "\<exists>P. writes.keeps P (on_exit h ctx v)"
    and tr: "transitions_defined (en_workflow e) ctx" and t0: "t0 \<le> st_clock s (st_ticks s)"
    and n: "1 \<le> attempt_number aid"
  shows "wp (handle_completed_result e ctx st nd h res aid v t0 trg)
    (\<lambda>r _. completed_with e ctx st res r) (\<lambda>_ _. False) s"
proof -
  let ?u = "or_value (hr_updated_state res) st"
  let ?q = "retire_updates (ps_phase st) PhaseStatus_COMPLETED (hr_errors res) aid ?u"
  have u: "valid_state ?u" "ps_phase ?u = ps_phase st" "ps_story_id ?u = en_story_dir e"
    using c d by (auto simp: completing_def)
  have q: "completed_state_for st aid res = Inr ?q"
    using retire_updates_valid [OF u(1), of PhaseStatus_COMPLETED "hr_errors res" aid] u(2)
    by (simp add: completed_state_for_def evolve_phase_state_def valid_state_def)
  have guards: "\<not> list_ex (\<lambda>g. \<not> ge_passed g) (evaluate_phase_guards nd ctx ?q)"
  proof -
    have "\<exists>r. guard_run g ctx ?q = Inr r \<and> passed r" if "g \<in> set (nd_guards nd)" for g
      using c that by (simp add: completing_def)
    then show ?thesis by (fastforce simp: evaluate_phase_guards_def list_ex_iff)
  qed
  have tail: "wp (seq_io (save_phase_completion (en_story_dir e) a ?q) k) (\<lambda>r _. F r) (\<lambda>_ _. False) w"
    if "live (en_story_dir e) w" "never_raises k" "returns F k" for a k F and w :: "'a st"
    using live_completion [OF that(1) _ that(2,3)] u(3) by simp
  obtain P where P: "writes.keeps P (on_exit h ctx v)" using h by blast
  have rest: "wp (bind_io now (\<lambda>finished_at. bind_io (resolve_run_id (en_runtime e) ctx) (\<lambda>run_id.
      bind_io (lift_sum (build_attempt_record run_id ph (attempt_number aid) Outcome_COMPLETED None t0
        finished_at dt)) k))) Q (\<lambda>_ _. False) w"
    if w: "live (en_story_dir e) w" "t0 \<le> st_clock w (st_ticks w)"
      and k: "\<And>a w'. live (en_story_dir e) w' \<Longrightarrow> wp (k a) Q (\<lambda>_ _. False) w'" for dt ph k Q and w :: "'a st"
  proof -
    have "live (en_story_dir e) (w\<lparr>st_ticks := Suc (st_ticks w)\<rparr>)" using w(1) by (simp add: live_def)
    then show ?thesis
      unfolding wp_bind resolve_run_id_eq wp_lift_sum
      by (intro wp_now)
         (use w(2) n k in \<open>simp add: wp_simps build_attempt_record_def validate_attempt_record_def failure_outcomes_def\<close>)
  qed
  have body: "wp (bind_io (lift_sum (completed_state_for st aid res)) (\<lambda>q.
      if list_ex (\<lambda>g. \<not> ge_passed g) (evaluate_phase_guards nd ctx q) then m q else
        bind_io now (\<lambda>finished_at. bind_io (resolve_run_id (en_runtime e) ctx) (\<lambda>run_id.
        bind_io (lift_sum (build_attempt_record run_id ph (attempt_number aid) Outcome_COMPLETED None t0
          finished_at (dt q))) (\<lambda>a. seq_io (save_phase_completion (en_story_dir e) a q) (k q))))))
      (\<lambda>r _. F r) (\<lambda>_ _. False) w"
    if "writes_only P s w" "never_raises (k ?q)" "returns F (k ?q)" for m ph dt k F w
    using guards
    by (simp add: wp_bind [of "lift_sum _"] wp_lift_sum q)
       (intro rest tail live_writes_only [OF that(1) l] ticks_writes_only [OF that(1) l t0] that(2,3))
  obtain n where target: "transition_target (en_workflow e) ctx ?q = Inr n"
    using tr by (auto simp: transitions_defined_def)
  have completed_returns: "returns (completed_with e ctx st res)
      (bind_io (lift_sum (transition_target (en_workflow e) ctx ?q)) (\<lambda>next_phase. seq_io (m next_phase)
        (ret ((engine_result_of ''phase_completed'' (phase_name_value (ps_phase st)))
          \<lparr>res_next_phase := next_phase, res_attempt_id := Some aid,
           res_updated_context := Some (or_value (hr_updated_context res) ctx)\<rparr>))))" for m
    unfolding target
    by (rule returns_bind [where G = "\<lambda>x. x = n"], simp, rule returns_seq)
       (auto simp: completed_with_def target u intro!: exI [of _ ?q])
  show ?thesis
    unfolding handle_completed_result_def Let_def wp_try
    by (intro wpI body writes.keepsD [OF P]) (use tr in \<open>auto simp: transitions_defined_def
         intro!: never_raises_bind never_raises_seq completed_returns returns_bind_any returns_seq\<close>)
qed

definition handler_completes ::
  "'w phase_handler \<Rightarrow> story_context \<Rightarrow> phase_envelope \<Rightarrow> handler_result \<Rightarrow> bool" where
  "handler_completes h ctx v res \<longleftrightarrow> (\<exists>P. writes.keeps P (on_enter h ctx v))
     \<and> (\<exists>P. writes.keeps P (on_exit h ctx v))
     \<and> never_raises (on_enter h ctx v) \<and> returns (\<lambda>x. x = res) (on_enter h ctx v)"

lemma live_enter_phase:
  assumes l: "live (en_story_dir e) s" and c: "completing (pe_state v) nd ctx res"
    and d: "ps_story_id (pe_state v) = en_story_dir e" and h: "handler_completes h ctx v res"
    and reg: "en_registry e (phase_name_value (ps_phase (pe_state v))) = Some h"
    and tr: "transitions_defined (en_workflow e) ctx" and t0: "t0 \<le> st_clock s (st_ticks s)"
    and n: "1 \<le> attempt_number aid"
  shows "wp (enter_phase e ctx v nd aid t0) (\<lambda>r _. completed_with e ctx (pe_state v) res r) (\<lambda>_ _. False) s"
proof -
  obtain P where P: "writes.keeps P (on_enter h ctx v)" using h by (auto simp: handler_completes_def)
  have exit: "\<exists>P. writes.keeps P (on_exit h ctx v)" using h by (auto simp: handler_completes_def)
  have result: "wp (process_handler_result e ctx (pe_state v) nd h res aid v t0 None)
      (\<lambda>r _. completed_with e ctx (pe_state v) res r) (\<lambda>_ _. False) w" if "writes_only Q s w" for Q w
    using live_handle_completed_result [OF live_writes_only [OF that l] c d exit tr
        ticks_writes_only [OF that l t0] n] c
    by (simp add: process_handler_result_def completing_def)
  have enter: "wp (on_enter h ctx v) (\<lambda>x. wp (process_handler_result e ctx (pe_state v) nd h x aid v t0 None)
      (\<lambda>r _. completed_with e ctx (pe_state v) res r) (\<lambda>_ _. False)) (\<lambda>_ _. False) w"
    if w: "writes_only (\<lambda>_. True) s w" for w
  proof -
    obtain x u where run: "on_enter h ctx v w = (Inr x, u)"
      using h unfolding handler_completes_def never_raises_def by blast
    then have "x = res" using h by (auto simp: handler_completes_def dest: returnsD)
    have "writes_only (\<lambda>_. True) w u"
      using writes.keepsD [OF P run] by (auto simp: writes_only_def list_all_iff)
    then have "writes_only (\<lambda>_. True) s u" using w writes.frame_trans by blast
    from result [OF this] show ?thesis using run \<open>x = res\<close> by (simp add: wp_def)
  qed
  have raised: "wp (on_enter h ctx v) Q E w = wp (on_enter h ctx v) Q E' w" for Q E E' w
  proof -
    obtain x u where "on_enter h ctx v w = (Inr x, u)"
      using h unfolding handler_completes_def never_raises_def by blast
    then show ?thesis by (simp add: wp_def)
  qed
  show ?thesis
    unfolding enter_phase_def Let_def wp_bind wp_lift_sum wp_seq wp_try get_handler_def reg option.case
      sum.case
    by (rule wp_total [where P = "\<lambda>_. True"], rule never_record_flow_execution)
       (intro writes_intros TrueI, subst raised [where E' = "\<lambda>_ _. False"], rule enter)
qed

lemma rows_to_attempts_ok: "list_all attempt_ok rows \<Longrightarrow> rows_to_attempts rows = Inr rows"
proof (induction rows)
  case (Cons a rows)
  then have "validate_attempt_record a = Inr a" by (simp add: validate_attempt_record_iff)
  then show ?case using Cons by simp
qed simp

lemma generate_attempt_id_run:
  assumes "history_ok (st_db s)"
  shows "\<exists>n. generate_attempt_id rs ph s = (Inr (attempt_id_of ph (Suc n)), s)"
proof -
  have "list_all attempt_ok (attempt_rows (st_db s) sid ph r)" for sid r
    using assms by (auto simp: history_ok_def attempt_rows_def list_all_iff)
  then show ?thesis
    by (auto simp: generate_attempt_id_def load_attempts_def io_app io_run rows_to_attempts_ok
        split: option.splits)
qed

lemma overrides_disallowed:
  "\<not> allow_skip (nd_override_policy nd) \<Longrightarrow> \<not> allow_jump (nd_override_policy nd) \<Longrightarrow>
    apply_override_records e ctx st nd aid t rs = ret None"
proof (induction rs)
  case (Cons r rs)
  then show ?case by (cases "ov_override_type r") simp_all
qed simp

lemma live_run_phase:
  assumes l: "live (en_story_dir e) s" and ok: "history_ok (st_db s)"
    and ov: "(\<forall>r \<in> set (t_overrides (st_db s)). ov_consumed_at r \<noteq> None)
      \<or> \<not> allow_skip (nd_override_policy nd) \<and> \<not> allow_jump (nd_override_policy nd)"
    and nd: "get_node (en_workflow e) (phase_name_value (ps_phase (pe_state v))) = Some nd"
    and pol: "nd_execution_policy nd = ALWAYS" "nd_preconditions nd = []"
    and c: "completing (pe_state v) nd ctx res"
    and d: "ps_story_id (pe_state v) = en_story_dir e" and h: "handler_completes h ctx v res"
    and reg: "en_registry e (phase_name_value (ps_phase (pe_state v))) = Some h"
    and tr: "transitions_defined (en_workflow e) ctx"
  shows "wp (run_phase e ctx v) (\<lambda>r _. completed_with e ctx (pe_state v) res r) (\<lambda>_ _. False) s"
proof -
  let ?ph = "phase_name_value (ps_phase (pe_state v))"
  let ?s = "write_step (W_context ctx) s"
  let ?u = "?s\<lparr>st_ticks := Suc (st_ticks ?s)\<rparr>"
  have ctx: "save_story_context ctx s = (Inr (), ?s)"
    by (simp add: save_story_context_def do_write_def io_run)
  have "history_ok (st_db ?s)" using ok by (simp add: write_step_def history_ok_def)
  from generate_attempt_id_run [OF this, of "en_runtime e" ?ph]
  obtain n where gen: "generate_attempt_id (en_runtime e) ?ph ?s = (Inr (attempt_id_of ?ph (Suc n)), ?s)"
    by blast
  have time: "now ?s = (Inr (st_clock ?s (st_ticks ?s)), ?u)"
    by (simp add: now_def io_app io_run)
  have some: "\<exists>rs. iter_active_overrides (en_runtime e) ctx ?u = (Inr rs, ?u)"
    by (auto simp: iter_active_overrides_def resolve_run_id_eq load_override_records_def io_app io_run
        split: option.splits)
  have none: "iter_active_overrides (en_runtime e) ctx ?u = (Inr [], ?u)"
    if "\<forall>r \<in> set (t_overrides (st_db s)). ov_consumed_at r \<noteq> None"
    using that by (auto simp: iter_active_overrides_def resolve_run_id_eq load_override_records_def io_app io_run
        override_rows_def write_step_def filter_empty_conv split: option.splits)
  have over: "apply_pre_execution_override e ctx (pe_state v) nd aid t ?u = (Inr None, ?u)" for aid t
    using ov
  proof
    assume "\<forall>r \<in> set (t_overrides (st_db s)). ov_consumed_at r \<noteq> None"
    from none [OF this] show ?thesis by (simp add: apply_pre_execution_override_def io_app io_run)
  next
    assume "\<not> allow_skip (nd_override_policy nd) \<and> \<not> allow_jump (nd_override_policy nd)"
    then show ?thesis using some by (auto simp: apply_pre_execution_override_def io_app io_run overrides_disallowed)
  qed
  have skip: "should_skip_for_execution_policy e ctx nd ?u = (Inr None, ?u)"
    using pol(1) by (simp add: should_skip_for_execution_policy_def load_node_execution_ledger_def io_app io_run
        resolve_run_id_eq policy_skip_reason_def split: option.splits)
  have can: "can_enter_phase (en_workflow e) ?ph ctx (pe_state v) = Inr (True, [])"
    using nd pol(2) by (simp add: can_enter_phase_def)
  have lu: "live (en_story_dir e) ?u"
    using l by (simp add: live_def write_step_def freeze_rows_def)
  have t0: "st_clock ?s (st_ticks ?s) \<le> st_clock ?u (st_ticks ?u)"
    using l by (simp add: live_def write_step_def mono_def)
  have "1 \<le> attempt_number (attempt_id_of ?ph (Suc n))"
    by (simp add: attempt_number_attempt_id)
  from live_enter_phase [OF lu c d h reg tr t0 this]
  have "wp (enter_phase e ctx v nd (attempt_id_of ?ph (Suc n)) (st_clock ?s (st_ticks ?s)))
      (\<lambda>r _. completed_with e ctx (pe_state v) res r) (\<lambda>_ _. False) ?u" .
  then show ?thesis
    by (simp add: wp_def run_phase_def Let_def io_app io_run ctx gen time over skip can nd)
qed

end
