(* ===== verification/Engine_Props.thy ===== *)
theory Engine_Props
  imports Engine_Live
begin

text \<open>
  The properties of the engine, each applied at a concrete engine, store and handler.
\<close>

section \<open>A concrete engine\<close>

definition demo_run_id :: string where
  "demo_run_id = ''0123456789abcdef0123456789abcdef''"

definition demo_context :: story_context where
  "demo_context = sample_context\<lparr>sc_story_type := StoryType_CONCEPT, sc_execution_route := None,
     sc_implementation_contract := None\<rparr>"

definition demo_state :: "phase_name \<Rightarrow> phase_status \<Rightarrow> phase_state" where
  "demo_state p st = \<lparr>ps_schema_version = ''4.0'', ps_story_id = ''AG3-007'', ps_run_id = demo_run_id,
     ps_phase = p, ps_status = st, ps_mode = PhaseStateMode_EXECUTION,
     ps_story_type = StoryType_CONCEPT, ps_attempt = 1, ps_started_at = 0, ps_phase_entered_at = 0,
     ps_pause_reason = None, ps_escalation_reason = None, ps_payload = None, ps_memory = empty_memory,
     ps_review_round = 0, ps_errors = [], ps_warnings = [],
     ps_producer = \<lparr>pp_type = ''script'', pp_name = ''run-pipeline''\<rparr>, ps_attempt_id = None,
     ps_agents_to_spawn = []\<rparr>"

definition demo_envelope :: "phase_name \<Rightarrow> phase_envelope" where
  "demo_envelope p = \<lparr>pe_state = demo_state p PhaseStatus_PENDING, pe_origin = Origin_NEW\<rparr>"

definition empty_db :: db where
  "empty_db = \<lparr>t_phase_states = [], t_snapshots = [], t_attempts = [], t_flows = [], t_ledgers = [],
     t_overrides = [], t_events = [], t_freezes = [], t_contexts = [], t_guard_decisions = [],
     t_decision_records = [], t_artifact_envelopes = []\<rparr>"

definition demo_store :: "db \<Rightarrow> unit st" where
  "demo_store D = \<lparr>st_db = D, st_log = [], st_clock = int, st_ticks = 0,
     st_event_accepted = (\<lambda>_. True), st_world = ()\<rparr>"

definition demo_registry :: "handler_result \<Rightarrow> unit handler_registry" where
  "demo_registry res = (\<lambda>_. Some (no_op_handler\<lparr>on_enter := (\<lambda>c v. ret res)\<rparr>))"

definition demo_engine :: "story_type \<Rightarrow> handler_result \<Rightarrow> unit pipeline_engine" where
  "demo_engine ty res = \<lparr>en_workflow = projr (resolve_workflow no_manifest_env ty),
     en_registry = demo_registry res, en_story_dir = ''AG3-007'', en_run_id = demo_run_id\<rparr>"

lemma demo_workflow: "resolve_workflow no_manifest_env ty = Inr (en_workflow (demo_engine ty res))"
  using shipped_workflows_build [of no_manifest_env ty] by (auto simp: demo_engine_def)

lemma demo_state_valid: "valid_state (demo_state p st)"
proof -
  have "uuid_ok demo_run_id" "py_strip ''script'' \<noteq> []" "py_strip ''run-pipeline'' \<noteq> []"
    by code_simp+
  then show ?thesis
    by (simp add: valid_state_def validate_phase_state_def demo_state_def empty_memory_def)
qed

lemma demo_handlers: "handlers_keep P (en_registry (demo_engine ty res))"
  by (auto simp: handlers_keep_def handler_keeps_def demo_engine_def demo_registry_def no_op_handler_def
      intro: writes_intros)

lemma shipped_transitions_defined:
  assumes "resolve_workflow env ty = Inr w"
  shows "transitions_defined w ctx"
  unfolding transitions_defined_def transition_target_def evaluate_transitions_def
    shipped_edges_from [OF assms]
  by (auto simp: workflow_edges_def plain_edge_def guard_fn_defs split: sum.splits)

lemma demo_node:
  assumes "p = PhaseName_EXPLORATION \<Longrightarrow> ty \<in> {StoryType_IMPLEMENTATION, StoryType_BUGFIX}"
  shows "\<exists>nd. get_node (en_workflow (demo_engine ty res)) (phase_name_value p) = Some nd"
proof -
  have "phase_name_value p \<in> set (node_names (en_workflow (demo_engine ty res)))"
    using shipped_workflows_build [of no_manifest_env ty] demo_workflow [of ty res] assms
    by (cases p) (auto split: if_splits)
  then show ?thesis using get_node_in_names by blast
qed

section \<open>Completion\<close>

lemma setup_value [simp]: "phase_name_value q = ''setup'' \<longleftrightarrow> q = PhaseName_SETUP"
  by (cases q) simp_all

definition demo_result :: "phase_name \<Rightarrow> handler_result \<Rightarrow> bool" where
  "demo_result p res \<longleftrightarrow> hr_status res = PhaseStatus_COMPLETED
     \<and> valid_state (or_value (hr_updated_state res) (demo_state p PhaseStatus_PENDING))
     \<and> ps_phase (or_value (hr_updated_state res) (demo_state p PhaseStatus_PENDING)) = p
     \<and> ps_story_id (or_value (hr_updated_state res) (demo_state p PhaseStatus_PENDING)) = ''AG3-007''"

lemma demo_result_completed: "demo_result p handler_completed"
  using demo_state_valid by (simp add: demo_result_def handler_completed_def or_value_def demo_state_def)

lemma demo_premises:
  assumes nd: "get_node (en_workflow (demo_engine ty res)) (phase_name_value p) = Some nd"
    and r: "demo_result p res"
  shows "live (en_story_dir (demo_engine ty res)) (demo_store empty_db)"
    and "history_ok (st_db (demo_store empty_db))"
    and "\<forall>r \<in> set (t_overrides (st_db (demo_store empty_db))). ov_consumed_at r \<noteq> None"
    and "get_node (en_workflow (demo_engine ty res))
      (phase_name_value (ps_phase (pe_state (demo_envelope p)))) = Some nd"
    and "nd_execution_policy nd = ALWAYS" and "nd_preconditions nd = []"
    and "completing (pe_state (demo_envelope p)) nd ctx res"
    and "ps_story_id (pe_state (demo_envelope p)) = en_story_dir (demo_engine ty res)"
    and "handler_completes (no_op_handler\<lparr>on_enter := (\<lambda>c v. ret res)\<rparr>) ctx (demo_envelope p) res"
    and "en_registry (demo_engine ty res) (phase_name_value (ps_phase (pe_state (demo_envelope p))))
      = Some (no_op_handler\<lparr>on_enter := (\<lambda>c v. ret res)\<rparr>)"
    and "transitions_defined (en_workflow (demo_engine ty res)) ctx"
proof -
  note node = shipped_guards_only_on_setup [OF demo_workflow nd]
  show "completing (pe_state (demo_envelope p)) nd ctx res"
    using node r
    by (auto simp: completing_def demo_result_def demo_envelope_def preflight_passed_def
        demo_state_def split: if_splits)
  show "handler_completes (no_op_handler\<lparr>on_enter := (\<lambda>c v. ret res)\<rparr>) ctx (demo_envelope p) res"
    by (auto simp: handler_completes_def no_op_handler_def intro: writes_intros)
  show "transitions_defined (en_workflow (demo_engine ty res)) ctx"
    by (rule shipped_transitions_defined [OF demo_workflow])
  show "live (en_story_dir (demo_engine ty res)) (demo_store empty_db)"
    by (simp add: live_def demo_engine_def demo_store_def empty_db_def freeze_rows_def mono_def)
qed (use shipped_guards_only_on_setup [OF demo_workflow nd] nd in \<open>simp_all add: demo_store_def empty_db_def
       history_ok_def demo_envelope_def demo_state_def demo_engine_def demo_registry_def\<close>)

lemma demo_run:
  assumes "p = PhaseName_EXPLORATION \<Longrightarrow> ty \<in> {StoryType_IMPLEMENTATION, StoryType_BUGFIX}"
    and "demo_result p res"
  obtains r t where "run_phase (demo_engine ty res) ctx (demo_envelope p) (demo_store empty_db) = (Inr r, t)"
    and "completed_with (demo_engine ty res) ctx (demo_state p PhaseStatus_PENDING) res r"
proof -
  obtain nd where nd: "get_node (en_workflow (demo_engine ty res)) (phase_name_value p) = Some nd"
    using demo_node [OF assms(1)] by blast
  have "wp (run_phase (demo_engine ty res) ctx (demo_envelope p))
    (\<lambda>r _. completed_with (demo_engine ty res) ctx (pe_state (demo_envelope p)) res r) (\<lambda>_ _. False)
    (demo_store empty_db)"
    using demo_premises [OF nd assms(2)] by (intro live_run_phase) blast+
  then show ?thesis
    using that by (auto simp: wp_def demo_envelope_def split: prod.splits sum.splits)
qed

text \<open>
  C1. A phase whose handler reports COMPLETED does complete: on a store without a freeze record
  for the story, with a valid attempt history, no unconsumed override and a clock that does not
  run backwards, for a node without preconditions or skip policy whose exit guards pass and
  whose transition guards do not raise, \<open>run_phase\<close> returns (it does not raise), and its result
  is \<open>phase_completed\<close>. What \<open>on_exit\<close> does or raises has no influence.
\<close>
theorem completed_handler_completes_the_phase:
  assumes "live (en_story_dir e) s" and "history_ok (st_db s)"
    and "\<forall>r \<in> set (t_overrides (st_db s)). ov_consumed_at r \<noteq> None"
    and "get_node (en_workflow e) (phase_name_value (ps_phase (pe_state v))) = Some nd"
    and "nd_execution_policy nd = ALWAYS" and "nd_preconditions nd = []"
    and "completing (pe_state v) nd ctx res"
    and "ps_story_id (pe_state v) = en_story_dir e" and "handler_completes h ctx v res"
    and "en_registry e (phase_name_value (ps_phase (pe_state v))) = Some h"
    and "transitions_defined (en_workflow e) ctx"
  shows "\<exists>r t. run_phase e ctx v s = (Inr r, t) \<and> completed_with e ctx (pe_state v) res r"
  using live_run_phase [OF assms(1,2) disjI1 [OF assms(3)] assms(4-)] by (auto simp: wp_def split: prod.splits sum.splits)

theorem completed_handler_completes_the_phase_witness:
  "\<exists>r t. run_phase (demo_engine StoryType_CONCEPT handler_completed) demo_context
      (demo_envelope PhaseName_CLOSURE) (demo_store empty_db) = (Inr r, t)
    \<and> res_status r = ''phase_completed''"
proof -
  obtain nd where nd: "get_node (en_workflow (demo_engine StoryType_CONCEPT handler_completed))
      (phase_name_value PhaseName_CLOSURE) = Some nd"
    using demo_node [of PhaseName_CLOSURE] by auto
  have "\<exists>r t. run_phase (demo_engine StoryType_CONCEPT handler_completed) demo_context
      (demo_envelope PhaseName_CLOSURE) (demo_store empty_db) = (Inr r, t)
    \<and> completed_with (demo_engine StoryType_CONCEPT handler_completed) demo_context
        (pe_state (demo_envelope PhaseName_CLOSURE)) handler_completed r"
    by (rule completed_handler_completes_the_phase [OF demo_premises [OF nd demo_result_completed]])
  then show ?thesis by (auto simp: completed_with_def)
qed

section \<open>Results and the store\<close>

text \<open>
  C2. A result is never at odds with the store: when \<open>run_phase\<close> returns, whatever the handler,
  the overrides and the policies did, the result names an attempt id of the phase, a valid
  attempt record with that number and a valid phase state with that id are stored, and their
  outcome, failure cause and status are one of the twelve combinations the engine status allows. A
  cause of a handler exception, a rejecting guard or a failed precondition is backed by the detail
  stored with the attempt, which holds the same messages as the result. A suggested next phase comes
  from a transition out of the completed state that is stored, from the node's backtrack target, or
  from an override the node allows.
\<close>
theorem result_describes_the_store:
  assumes "get_node (en_workflow e) (phase_name_value (ps_phase (pe_state v))) = Some nd"
    and "run_phase e ctx v s = (Inr r, t)"
  shows "result_recorded e ctx nd (ps_phase (pe_state v)) r (st_db t)"
  using establishesD [OF recorded_run_phase [OF assms(1)] assms(2)] .

theorem result_describes_the_store_witness:
  "\<exists>nd r t. run_phase (demo_engine StoryType_CONCEPT handler_completed) demo_context
      (demo_envelope PhaseName_SETUP) (demo_store empty_db) = (Inr r, t)
    \<and> result_recorded (demo_engine StoryType_CONCEPT handler_completed) demo_context nd
        PhaseName_SETUP r (st_db t)"
proof -
  obtain nd where nd: "get_node (en_workflow (demo_engine StoryType_CONCEPT handler_completed))
      (phase_name_value PhaseName_SETUP) = Some nd"
    using demo_node [of PhaseName_SETUP] by auto
  obtain r t where run: "run_phase (demo_engine StoryType_CONCEPT handler_completed) demo_context
      (demo_envelope PhaseName_SETUP) (demo_store empty_db) = (Inr r, t)"
    by (rule demo_run [OF _ demo_result_completed, of PhaseName_SETUP StoryType_CONCEPT demo_context]) auto
  have ph: "ps_phase (pe_state (demo_envelope PhaseName_SETUP)) = PhaseName_SETUP"
    by (simp add: demo_envelope_def demo_state_def)
  show ?thesis using result_describes_the_store [OF _ run, of nd] nd run by (auto simp: ph)
qed

text \<open>
  C4. The history stays valid: if every stored attempt and phase state satisfies its validators,
  in particular a failure cause is stored exactly for the failure outcomes, then the same holds
  after running or resuming a phase, whether the engine returned or raised, for handlers that
  themselves only write valid rows.
\<close>
theorem attempt_history_invariant:
  assumes "handlers_keep sound_write (en_registry e)" and "history_ok (st_db s)"
  shows "history_ok (st_db (snd (run_phase e ctx v s)))
    \<and> history_ok (st_db (snd (resume_phase e ctx v tr s)))"
proof -
  have "writes_only sound_write s (snd (run_phase e ctx v s))"
      "writes_only sound_write s (snd (resume_phase e ctx v tr s))"
    using history.keeps_run_phase [OF assms(1)] history.keeps_resume_phase [OF assms(1)]
    by (simp_all add: writes.keeps_def)
  then show ?thesis using history_ok_writes assms(2) by blast
qed

theorem attempt_history_invariant_witness:
  "history_ok (st_db (snd (run_phase (demo_engine StoryType_CONCEPT handler_completed) demo_context
     (demo_envelope PhaseName_SETUP) (demo_store empty_db))))"
  using attempt_history_invariant [OF demo_handlers,
    where s = "demo_store empty_db" and ctx = demo_context and v = "demo_envelope PhaseName_SETUP"]
  by (simp add: history_ok_def demo_store_def empty_db_def)

section \<open>Freezes and crashes\<close>

lemma fenced_resume_phase:
  assumes "handlers_keep fenced_write (en_registry e)"
  shows "writes.ends fenced_write (frozen (en_story_dir e)) (\<lambda>r. res_status r = ''failed'' \<and> res_attempt_id r = None)
    (resume_phase e ctx v tr)"
proof -
  have raises: "writes.ends fenced_write (frozen (en_story_dir e)) G
      (bind_io (generate_attempt_id (en_runtime e) n) (\<lambda>aid. bind_io now (\<lambda>t.
        try_io (on_resume h ctx v tr) (\<lambda>r. case r of
          Inl exc \<Rightarrow> handle_handler_exception e ctx s n aid exc t
        | Inr result \<Rightarrow> process_handler_result e ctx s nd h result aid v t (Some tr)))))"
    if h: "handler_keeps fenced_write h" for h n s nd G
  proof -
    have "writes.ends fenced_write (frozen (en_story_dir e)) (\<lambda>_. False)
        (try_io (on_resume h ctx v tr) (\<lambda>r. case r of
          Inl exc \<Rightarrow> handle_handler_exception e ctx s n aid exc t
        | Inr result \<Rightarrow> process_handler_result e ctx s nd h result aid v t (Some tr)))" for aid t
      using h by (intro writes.ends_try frozen_stable)
        (auto simp: handler_keeps_def intro: fenced_handle_handler_exception
          fenced_process_handler_result split: sum.splits)
    from writes.ends_mono [OF this, where G' = G] show ?thesis
      by (intro writes.ends_bind_any frozen_stable writes_intros) auto
  qed
  show ?thesis
    unfolding resume_phase_def Let_def
    by (rule writes.ends_seq_any [OF frozen_stable], rule writes_intros, simp)
       (auto intro!: writes.ends_simple writes.ends_bind_lift raises fenced_handler [OF assms]
        split: option.splits)
qed

lemma fenced_tables:
  assumes "writes_only fenced_write s t"
  shows "t_attempts (st_db t) = t_attempts (st_db s) \<and> t_phase_states (st_db t) = t_phase_states (st_db s)
    \<and> t_snapshots (st_db t) = t_snapshots (st_db s)"
  using assms
  by (rule writes_only_invariant [where I = "\<lambda>D. t_attempts D = t_attempts (st_db s)
      \<and> t_phase_states D = t_phase_states (st_db s) \<and> t_snapshots D = t_snapshots (st_db s)"])
     (auto elim: fenced_write.elims)

text \<open>
  C5. A freeze fences the executor off: while the story has any freeze record, of whatever kind
  and even an unreadable one, \<open>run_phase\<close> raises on every path, and neither an attempt nor a
  phase state nor a snapshot of any story changes; \<open>resume_phase\<close> raises too, unless it refuses
  the resume without having recorded an attempt, and changes none of the three tables either.
  Handlers are assumed not to write the three tables themselves.
\<close>
theorem freeze_fences_off_the_executor:
  assumes "handlers_keep fenced_write (en_registry e)" and "frozen (en_story_dir e) s"
    and "m = run_phase e ctx v \<or> m = resume_phase e ctx v tr" and "m s = (x, t)"
  shows "t_attempts (st_db t) = t_attempts (st_db s) \<and> t_phase_states (st_db t) = t_phase_states (st_db s)
    \<and> t_snapshots (st_db t) = t_snapshots (st_db s)
    \<and> (m = run_phase e ctx v \<longrightarrow> (\<exists>exc. x = Inl exc))
    \<and> (\<forall>r. x = Inr r \<longrightarrow> res_status r = ''failed'' \<and> res_attempt_id r = None)"
proof -
  note run = writes.endsD [OF fenced_run_phase [OF assms(1)] assms(2)]
  note resume = writes.endsD [OF fenced_resume_phase [OF assms(1)] assms(2)]
  have "writes_only fenced_write s t \<and> (\<forall>r. x = Inr r \<longrightarrow> res_status r = ''failed'' \<and> res_attempt_id r = None)"
    using assms(3,4) run resume by blast
  moreover have "m = run_phase e ctx v \<longrightarrow> (\<exists>exc. x = Inl exc)"
    using assms(4) run [of ctx v x t] by (cases x) auto
  ultimately show ?thesis using fenced_tables by blast
qed

definition frozen_db :: db where
  "frozen_db = empty_db\<lparr>t_freezes := [\<lparr>fr_story_id = ''AG3-007'', fr_kind = ''conflict_freeze'',
     fr_reason = Some ''conflict'', fr_epoch = Some ''1''\<rparr>]\<rparr>"

theorem freeze_fences_off_the_executor_witness:
  "\<exists>exc t. run_phase (demo_engine StoryType_CONCEPT handler_completed) demo_context
     (demo_envelope PhaseName_SETUP) (demo_store frozen_db) = (Inl exc, t) \<and> t_attempts (st_db t) = []"
proof -
  let ?m = "run_phase (demo_engine StoryType_CONCEPT handler_completed) demo_context
     (demo_envelope PhaseName_SETUP)"
  obtain x t where run: "?m (demo_store frozen_db) = (x, t)" by (cases "?m (demo_store frozen_db)") auto
  have "frozen (en_story_dir (demo_engine StoryType_CONCEPT handler_completed)) (demo_store frozen_db)"
    by (simp add: frozen_def demo_engine_def demo_store_def frozen_db_def freeze_rows_def)
  from freeze_fences_off_the_executor [OF demo_handlers this disjI1 [OF refl] run]
  show ?thesis using run by (auto simp: demo_store_def frozen_db_def empty_db_def)
qed

text \<open>
  C3. A phase run is crash safe. The writes it makes to the tables are journalled one by one,
  and the tables as they are after any prefix of them, that is, after a crash between any two
  writes, are consistent: a flow execution marked finished has the attempt record it refers to,
  and a phase snapshot has an attempt of its phase. This holds for running and for resuming a
  phase, returned or raised, for a story whose context and state name the story directory.
\<close>
theorem phase_run_is_crash_safe:
  assumes "en_story_dir e = sc_story_id ctx" and "handlers_keep quiet_write (en_registry e)"
    and "ps_story_id (pe_state v) = sc_story_id ctx" and "crash_consistent (st_db s)"
    and "t = snd (run_phase e ctx v s) \<or> t = snd (resume_phase e ctx v tr s)"
  shows "\<exists>ws. st_log t = st_log s @ ws \<and> st_db t = apply_writes ws (st_db s)
    \<and> (\<forall>n. crash_consistent (apply_writes (take n ws) (st_db s)))"
proof -
  have "crash_step s t"
    using assms(5) crash_run_phase [OF assms(1-3)] crash_resume_phase [OF assms(1-3)]
    by (auto simp: crash.keeps_def)
  then show ?thesis using assms(4) by (auto simp: crash_step_def)
qed

theorem phase_run_is_crash_safe_witness:
  "\<exists>ws. st_log (snd (run_phase (demo_engine StoryType_CONCEPT handler_completed) demo_context
      (demo_envelope PhaseName_SETUP) (demo_store empty_db))) = ws
    \<and> (\<forall>n. crash_consistent (apply_writes (take n ws) empty_db))"
proof -
  have "crash_consistent (st_db (demo_store empty_db))"
    by (simp add: crash_consistent_def demo_store_def empty_db_def)
  from phase_run_is_crash_safe [where e = "demo_engine StoryType_CONCEPT handler_completed"
      and ctx = demo_context and v = "demo_envelope PhaseName_SETUP", OF _ demo_handlers _ this disjI1 [OF refl]]
  show ?thesis
    by (auto simp: demo_engine_def demo_context_def sample_context_def demo_envelope_def demo_state_def
        demo_store_def)
qed

end
