(* ===== verification/Engine_Gates.thy ===== *)
theory Engine_Gates
  imports Engine_Props
begin

text \<open>
  The gates of a pipeline run: which phase may follow which in the shipped workflows, when a
  paused phase may be resumed, how pause reasons are read, and how overrides and execution
  policies keep a handler from running.
\<close>

section \<open>Successors in the shipped workflows\<close>

lemma first_passing_edge:
  "first_passing trs ctx q = Inr (Some tr) \<Longrightarrow> tr \<in> set trs
     \<and> (\<forall>g. er_guard tr = Some g \<longrightarrow> (\<exists>r. guard_run g ctx q = Inr r \<and> passed r))"
  by (induction trs) (auto split: option.splits sum.splits if_splits)

lemma shipped_target:
  assumes w: "resolve_workflow env ty = Inr w" and t: "transition_target w ctx q = Inr (Some n)"
  shows "\<exists>tr \<in> set (workflow_edges env ty). er_source tr = phase_name_value (ps_phase q) \<and> er_target tr = n
    \<and> (\<forall>g. er_guard tr = Some g \<longrightarrow> (\<exists>r. guard_run g ctx q = Inr r \<and> passed r))"
proof -
  obtain tr where tr: "first_passing (get_edges_from w (phase_name_value (ps_phase q))) ctx q = Inr (Some tr)"
      "er_target tr = n"
    using t by (auto simp: transition_target_def evaluate_transitions_def split: sum.splits)
  from first_passing_edge [OF tr(1)] tr(2) show ?thesis
    by (auto simp: shipped_edges_from [OF w])
qed

text \<open>Both entry points hand out a successor only from a stored completed state.\<close>

definition suggests ::
  "'w pipeline_engine \<Rightarrow> story_context \<Rightarrow> phase_envelope \<Rightarrow> string option \<Rightarrow> 'w st \<Rightarrow> string \<Rightarrow> 'w st \<Rightarrow> bool" where
  "suggests e ctx v trigger s n t \<longleftrightarrow>
    (\<exists>r. (case trigger of None \<Rightarrow> run_phase e ctx v | Some tr \<Rightarrow> resume_phase e ctx v tr) s = (Inr r, t)
       \<and> res_next_phase r = Some n)"

lemma suggests_recorded:
  assumes "get_node (en_workflow e) (phase_name_value (ps_phase (pe_state v))) = Some nd"
    and "suggests e ctx v trigger s n t"
  shows "\<exists>q. phase_state_row (st_db t) (en_story_dir e) = Some (Readable q)
    \<and> ps_phase q = ps_phase (pe_state v) \<and> next_phase_justified e ctx nd q n"
proof -
  obtain r where r: "(case trigger of None \<Rightarrow> run_phase e ctx v | Some tr \<Rightarrow> resume_phase e ctx v tr) s = (Inr r, t)"
      "res_next_phase r = Some n"
    using assms(2) by (auto simp: suggests_def)
  have "res_next_phase r = None \<or> result_recorded e ctx nd (ps_phase (pe_state v)) r (st_db t)"
  proof (cases trigger)
    case None
    then show ?thesis using r(1) establishesD [OF recorded_run_phase [OF assms(1)]] by simp
  next
    case (Some tr)
    then show ?thesis using r(1) establishesD [OF recorded_resume_phase [OF assms(1)], of ctx tr s r t] by auto
  qed
  then show ?thesis
    using r(2) by (auto simp: result_recorded_def recorded_def)
qed

lemma suggests_node:
  assumes "suggests e ctx v trigger s n t"
  obtains nd where "get_node (en_workflow e) (phase_name_value (ps_phase (pe_state v))) = Some nd"
proof (cases "get_node (en_workflow e) (phase_name_value (ps_phase (pe_state v)))")
  case None
  then have "\<forall>r u. run_phase e ctx v s \<noteq> (Inr r, u)"
      "\<forall>tr r u. resume_phase e ctx v tr s = (Inr r, u) \<longrightarrow> res_next_phase r \<noteq> Some n"
    by (auto simp: run_phase_def resume_phase_def Let_def io_app raise_def ret_def
        split: prod.splits sum.splits if_splits)
  then show ?thesis using assms unfolding suggests_def by (cases trigger) (simp_all, blast)
qed (rule that)

lemma shipped_suggestion:
  assumes w: "resolve_workflow env ty = Inr (en_workflow e)" and s: "suggests e ctx v trigger s n t"
  obtains q tr where "phase_state_row (st_db t) (en_story_dir e) = Some (Readable q)"
    "ps_phase q = ps_phase (pe_state v)" "ps_status q = PhaseStatus_COMPLETED"
    "tr \<in> set (workflow_edges env ty)" "er_source tr = phase_name_value (ps_phase q)" "er_target tr = n"
    "\<forall>g. er_guard tr = Some g \<longrightarrow> (\<exists>r. guard_run g ctx q = Inr r \<and> passed r)"
proof -
  obtain nd where nd: "get_node (en_workflow e) (phase_name_value (ps_phase (pe_state v))) = Some nd"
    using suggests_node [OF s] .
  obtain q where q: "phase_state_row (st_db t) (en_story_dir e) = Some (Readable q)"
      "ps_phase q = ps_phase (pe_state v)" "next_phase_justified e ctx nd q n"
    using suggests_recorded [OF nd s] by blast
  have "ps_status q = PhaseStatus_COMPLETED" "transition_target (en_workflow e) ctx q = Inr (Some n)"
    using q(3) shipped_guards_only_on_setup [OF w nd]
    by (auto simp: next_phase_justified_def default_override_policy_def)
  with q(1,2) shipped_target [OF w this(2)] show ?thesis using that by blast
qed

lemma phase_values [simp]:
  "phase_name_value q = ''exploration'' \<longleftrightarrow> q = PhaseName_EXPLORATION"
  "phase_name_value q = ''implementation'' \<longleftrightarrow> q = PhaseName_IMPLEMENTATION"
  "phase_name_value q = ''closure'' \<longleftrightarrow> q = PhaseName_CLOSURE"
  "''setup'' = phase_name_value q \<longleftrightarrow> q = PhaseName_SETUP"
  "''exploration'' = phase_name_value q \<longleftrightarrow> q = PhaseName_EXPLORATION"
  "''implementation'' = phase_name_value q \<longleftrightarrow> q = PhaseName_IMPLEMENTATION"
  by (cases q; simp)+

lemma shipped_edge_valid:
  assumes "tr \<in> set (workflow_edges env ty)"
  shows "is_valid_phase_transition env (er_source tr) (er_target tr) \<and> er_source tr \<noteq> er_target tr"
proof -
  have cls: "phase_name_cls (phase_name_value p) = Inr p" for p by (simp add: phase_name_cls_def)
  note [simp] = cls [of PhaseName_SETUP, simplified] cls [of PhaseName_EXPLORATION, simplified]
    cls [of PhaseName_IMPLEMENTATION, simplified] cls [of PhaseName_CLOSURE, simplified]
  show ?thesis using assms
    by (auto simp: workflow_edges_def plain_edge_def is_valid_phase_transition_def phase_transition_graph_eq
        linear_graph_def split: if_splits)
qed

lemma demo_target:
  "transition_target (en_workflow (demo_engine ty res)) ctx q =
    (case first_passing (filter (\<lambda>e. er_source e = phase_name_value (ps_phase q))
        (workflow_edges no_manifest_env ty)) ctx q of
      Inl x \<Rightarrow> Inl x | Inr t \<Rightarrow> Inr (map_option er_target t))"
  by (simp add: transition_target_def evaluate_transitions_def shipped_edges_from [OF demo_workflow])

lemma demo_suggests:
  assumes "p = PhaseName_EXPLORATION \<Longrightarrow> ty \<in> {StoryType_IMPLEMENTATION, StoryType_BUGFIX}"
    and "demo_result p res"
    and "\<And>q. ps_phase q = p \<Longrightarrow> ps_status q = PhaseStatus_COMPLETED \<Longrightarrow>
      ps_payload q = ps_payload (or_value (hr_updated_state res) (demo_state p PhaseStatus_PENDING)) \<Longrightarrow>
      transition_target (en_workflow (demo_engine ty res)) ctx q = Inr (Some n)"
  shows "\<exists>t. suggests (demo_engine ty res) ctx (demo_envelope p) None (demo_store empty_db) n t"
proof -
  obtain r t where "run_phase (demo_engine ty res) ctx (demo_envelope p) (demo_store empty_db) = (Inr r, t)"
    and "completed_with (demo_engine ty res) ctx (demo_state p PhaseStatus_PENDING) res r"
    using demo_run [OF assms(1,2)] by metis
  then show ?thesis using assms(3) by (auto simp: suggests_def completed_with_def demo_state_def)
qed

definition approving_result :: handler_result where
  "approving_result = handler_completed\<lparr>hr_updated_state := Some ((demo_state PhaseName_EXPLORATION
     PhaseStatus_PENDING)\<lparr>ps_payload := Some (ExplorationPayload Gate_APPROVED)\<rparr>)\<rparr>"

lemma demo_result_approving: "demo_result PhaseName_EXPLORATION approving_result"
proof -
  have "uuid_ok demo_run_id" "py_strip ''script'' \<noteq> []" "py_strip ''run-pipeline'' \<noteq> []"
    by code_simp+
  then show ?thesis
    by (simp add: demo_result_def approving_result_def handler_completed_def or_value_def valid_state_def
        validate_phase_state_def demo_state_def empty_memory_def)
qed

text \<open>
  In a shipped workflow, whatever a handler, an override or a retry policy does: when
  running or resuming a phase suggests a next phase, the phase is stored as COMPLETED, the step
  is one the derived transition graph admits, and it leads to a different phase.
\<close>
theorem suggested_step_is_a_valid_transition:
  assumes "resolve_workflow env ty = Inr (en_workflow e)" and "suggests e ctx v trigger s n t"
  shows "\<exists>q. phase_state_row (st_db t) (en_story_dir e) = Some (Readable q)
    \<and> ps_phase q = ps_phase (pe_state v) \<and> ps_status q = PhaseStatus_COMPLETED
    \<and> is_valid_phase_transition env (phase_name_value (ps_phase q)) n \<and> n \<noteq> phase_name_value (ps_phase q)"
proof -
  obtain q tr where q: "phase_state_row (st_db t) (en_story_dir e) = Some (Readable q)"
    "ps_phase q = ps_phase (pe_state v)" "ps_status q = PhaseStatus_COMPLETED"
    "tr \<in> set (workflow_edges env ty)" "er_source tr = phase_name_value (ps_phase q)" "er_target tr = n"
    using shipped_suggestion [OF assms] by metis
  then show ?thesis using shipped_edge_valid [of tr env ty] by auto
qed

theorem suggested_step_is_a_valid_transition_witness:
  "is_valid_phase_transition no_manifest_env ''setup'' ''implementation''"
proof -
  have "\<exists>t. suggests (demo_engine StoryType_CONCEPT handler_completed) demo_context
      (demo_envelope PhaseName_SETUP) None (demo_store empty_db) ''implementation'' t"
    by (rule demo_suggests [OF _ demo_result_completed])
       (auto simp: demo_target workflow_edges_def plain_edge_def)
  then obtain t where "suggests (demo_engine StoryType_CONCEPT handler_completed) demo_context
      (demo_envelope PhaseName_SETUP) None (demo_store empty_db) ''implementation'' t" ..
  from suggested_step_is_a_valid_transition [OF demo_workflow this]
  show ?thesis by (auto simp: demo_envelope_def demo_state_def)
qed

text \<open>
  C6. The exploration gate cannot be bypassed: from exploration the engine suggests nothing but
  implementation, and it does so only when the stored exploration state is COMPLETED with an
  APPROVED gate. For an implementation story under the integration-stabilization contract the
  scope manifest must moreover be approved and bound.
\<close>
theorem exploration_gate_cannot_be_bypassed:
  assumes "resolve_workflow env ty = Inr (en_workflow e)"
    and "ps_phase (pe_state v) = PhaseName_EXPLORATION" and "suggests e ctx v trigger s n t"
  shows "n = ''implementation'' \<and> (\<exists>q. phase_state_row (st_db t) (en_story_dir e) = Some (Readable q)
      \<and> exploration_approved q)
    \<and> (ty = StoryType_IMPLEMENTATION \<and> is_integration_stabilization ctx \<longrightarrow>
         passed (is_manifest_approved_and_bound env ctx))"
proof -
  obtain q tr where q: "phase_state_row (st_db t) (en_story_dir e) = Some (Readable q)"
      "ps_phase q = PhaseName_EXPLORATION" "tr \<in> set (workflow_edges env ty)"
      "er_source tr = ''exploration''" "er_target tr = n"
    and g: "\<forall>g. er_guard tr = Some g \<longrightarrow> (\<exists>r. guard_run g ctx q = Inr r \<and> passed r)"
    using shipped_suggestion [OF assms(1,3)] assms(2) by (metis phase_name_value.simps(2))
  have tr: "tr = plain_edge ''exploration'' ''implementation'' (Some
      (if ty = StoryType_IMPLEMENTATION then exploration_gate_approved_with_is_manifest env
       else exploration_gate_approved)) \<and> ty \<in> {StoryType_IMPLEMENTATION, StoryType_BUGFIX}"
    using q(3,4) by (auto simp: workflow_edges_def plain_edge_def split: if_splits)
  have approved: "exploration_approved q" if "passed (run_exploration_gate_approved ctx q)"
    using that by (auto simp: run_exploration_gate_approved_def exploration_approved_def gate_status_of_def
        split: if_splits option.splits phase_payload.splits)
  have "passed (run_exploration_gate_approved ctx q) \<and> (ty = StoryType_IMPLEMENTATION
      \<and> is_integration_stabilization ctx \<longrightarrow> passed (is_manifest_approved_and_bound env ctx))"
    using g tr
    by (auto simp: plain_edge_def exploration_gate_approved_def exploration_gate_approved_with_is_manifest_def
        run_exploration_gate_approved_with_is_manifest_def is_integration_stabilization_def Let_def
        split: if_splits)
  then show ?thesis using q approved tr by (auto simp: plain_edge_def)
qed

theorem exploration_gate_cannot_be_bypassed_witness:
  "\<exists>t q. suggests (demo_engine StoryType_BUGFIX approving_result) demo_context
      (demo_envelope PhaseName_EXPLORATION) None (demo_store empty_db) ''implementation'' t
    \<and> phase_state_row (st_db t) ''AG3-007'' = Some (Readable q) \<and> exploration_approved q"
proof -
  have "\<exists>t. suggests (demo_engine StoryType_BUGFIX approving_result) demo_context
      (demo_envelope PhaseName_EXPLORATION) None (demo_store empty_db) ''implementation'' t"
    by (rule demo_suggests [OF _ demo_result_approving])
       (auto simp: demo_target workflow_edges_def plain_edge_def approving_result_def or_value_def
          exploration_gate_approved_def run_exploration_gate_approved_def gate_status_of_def)
  then obtain t where t: "suggests (demo_engine StoryType_BUGFIX approving_result) demo_context
      (demo_envelope PhaseName_EXPLORATION) None (demo_store empty_db) ''implementation'' t" ..
  have "ps_phase (pe_state (demo_envelope PhaseName_EXPLORATION)) = PhaseName_EXPLORATION"
    by (simp add: demo_envelope_def demo_state_def)
  from exploration_gate_cannot_be_bypassed [OF demo_workflow this t] t
  show ?thesis by (auto simp: demo_engine_def)
qed

text \<open>
  Where setup leads. From setup a code-producing story goes to exploration only when it is
  not fast and its route (or the integration-stabilization contract) asks for exploration, and to
  implementation only when the contract is not integration-stabilization and it is fast or its
  route does not ask for exploration. In particular a fast story never enters exploration, and an
  integration-stabilization story never skips it.
\<close>
theorem setup_leads_where_the_route_says:
  assumes "resolve_workflow env ty = Inr (en_workflow e)"
    and "ty \<in> {StoryType_IMPLEMENTATION, StoryType_BUGFIX}"
    and "ps_phase (pe_state v) = PhaseName_SETUP" and "suggests e ctx v trigger s n t"
  shows "n = ''exploration'' \<and> \<not> is_fast ctx
      \<and> (is_integration_stabilization ctx \<or> sc_execution_route ctx = Some StoryMode_EXPLORATION)
    \<or> n = ''implementation'' \<and> \<not> is_integration_stabilization ctx
      \<and> (is_fast ctx \<or> sc_execution_route ctx \<noteq> Some StoryMode_EXPLORATION)"
proof -
  obtain q tr where q: "tr \<in> set (workflow_edges env ty)" "er_source tr = ''setup''" "er_target tr = n"
    and g: "\<forall>g. er_guard tr = Some g \<longrightarrow> (\<exists>r. guard_run g ctx q = Inr r \<and> passed r)"
    using shipped_suggestion [OF assms(1,4)] assms(3) by (metis phase_name_value.simps(1))
  then have "n = ''exploration'' \<and> passed (run_mode_is_exploration ctx)
      \<or> n = ''implementation'' \<and> passed (run_mode_is_not_exploration ctx)"
    using assms(2) by (auto simp: workflow_edges_def plain_edge_def mode_is_exploration_def
        mode_is_not_exploration_def split: if_splits)
  then show ?thesis unfolding setup_guard_exploration setup_guard_not_exploration by auto
qed

theorem setup_leads_where_the_route_says_witness:
  "\<exists>t. suggests (demo_engine StoryType_BUGFIX handler_completed) demo_context
      (demo_envelope PhaseName_SETUP) None (demo_store empty_db) ''implementation'' t
    \<and> \<not> is_integration_stabilization demo_context"
proof -
  have "\<exists>t. suggests (demo_engine StoryType_BUGFIX handler_completed) demo_context
      (demo_envelope PhaseName_SETUP) None (demo_store empty_db) ''implementation'' t"
    by (rule demo_suggests [OF _ demo_result_completed])
       (auto simp: demo_target workflow_edges_def plain_edge_def mode_is_exploration_def
          mode_is_not_exploration_def setup_guard_exploration setup_guard_not_exploration
          demo_context_def sample_context_def is_integration_stabilization_def)
  then obtain t where t: "suggests (demo_engine StoryType_BUGFIX handler_completed) demo_context
      (demo_envelope PhaseName_SETUP) None (demo_store empty_db) ''implementation'' t" ..
  have "ps_phase (pe_state (demo_envelope PhaseName_SETUP)) = PhaseName_SETUP"
    by (simp add: demo_envelope_def demo_state_def)
  from setup_leads_where_the_route_says [OF demo_workflow _ this t] t
  show ?thesis by auto
qed

section \<open>Resuming\<close>

text \<open>A refused resume: neither a handler is called nor anything but the story context written.\<close>

lemma refused_resume:
  assumes "get_node (en_workflow e) (phase_name_value (ps_phase (pe_state v))) = Some nd"
    and "\<not> (ps_status (pe_state v) = PhaseStatus_PAUSED
             \<and> valid_trigger nd (ps_pause_reason (pe_state v)) trigger)"
  shows "\<exists>r. resume_phase e ctx v trigger s = (Inr r, write_step (W_context ctx) s)
    \<and> res_status r = ''failed'' \<and> res_attempt_id r = None \<and> res_next_phase r = None"
  using assms
  by (auto simp: resume_phase_def Let_def io_app io_run save_story_context_def do_write_def ret_def)

text \<open>The pause reasons and triggers the shipped phases accept.\<close>

fun resume_table :: "phase_name \<Rightarrow> (pause_reason \<times> string) set" where
  "resume_table PhaseName_SETUP = {(AWAITING_EDGE_PROVISIONING, ''edge_report_received'')}"
| "resume_table PhaseName_EXPLORATION =
     {(AWAITING_DESIGN_REVIEW, ''design_approved''), (AWAITING_DESIGN_REVIEW, ''design_rejected''),
      (AWAITING_DESIGN_CHALLENGE, ''challenge_resolved'')}"
| "resume_table PhaseName_IMPLEMENTATION =
     {(AWAITING_EDGE_PROVISIONING, ''edge_report_received''),
      (AWAITING_EDGE_PROVISIONING, ''edge_deadline_elapsed'')}"
| "resume_table PhaseName_CLOSURE = {}"

definition shipped_yields :: "string \<Rightarrow> (string \<times> string list) list" where
  "shipped_yields name =
    (if name = ''setup'' then [(''awaiting_edge_provisioning'', [''edge_report_received''])]
     else if name = ''exploration'' then
       [(''awaiting_design_review'', [''design_approved'', ''design_rejected'']),
        (''awaiting_design_challenge'', [''challenge_resolved''])]
     else if name = ''implementation'' then
       [(''awaiting_edge_provisioning'', [''edge_report_received'', ''edge_deadline_elapsed''])]
     else [])"

lemma shipped_node_yields:
  assumes "resolve_workflow env t = Inr w" and "get_node w name = Some nd"
  shows "map (\<lambda>yp. (yp_status yp, resume_triggers yp)) (nd_yield_points nd) = shipped_yields name"
proof -
  let ?P = "\<lambda>n. map (\<lambda>yp. (yp_status yp, resume_triggers yp)) (nd_yield_points n) = shipped_yields (nd_name n)"
  have "case resolve_workflow env t of Inl x \<Rightarrow> True | Inr w \<Rightarrow> list_all ?P (flow_nodes w)"
    by (cases t) (simp_all add: resolve_workflow_def workflow_defs shipped_yields_def)
  then have "list_all ?P (flow_nodes w)" using assms(1) by simp
  then show ?thesis using get_node_name [OF assms(2)] by (auto simp: list_all_iff)
qed

lemma shipped_yield_reasons:
  "from_yield_status ''awaiting_edge_provisioning'' = Inr AWAITING_EDGE_PROVISIONING"
  "from_yield_status ''awaiting_design_review'' = Inr AWAITING_DESIGN_REVIEW"
  "from_yield_status ''awaiting_design_challenge'' = Inr AWAITING_DESIGN_CHALLENGE"
  by code_simp+

text \<open>
  In every shipped workflow the accepted resume triggers are exactly those of the table: an
  edge report for setup, a design decision or a resolved challenge for exploration, an edge
  report or an elapsed edge deadline for implementation, and nothing for closure. A phase that
  is paused without a reason, or for a governance incident, can be resumed by no trigger at all.
\<close>
theorem shipped_resume_triggers:
  assumes "resolve_workflow env t = Inr w" and "get_node w (phase_name_value p) = Some nd"
  shows "(valid_trigger nd (Some pr) trigger \<longleftrightarrow> (pr, trigger) \<in> resume_table p)
    \<and> \<not> valid_trigger nd None trigger \<and> \<not> valid_trigger nd (Some GOVERNANCE_INCIDENT) trigger"
proof -
  have "valid_trigger nd opr trigger \<longleftrightarrow> list_ex (\<lambda>(st, ts). yield_point_matches_pause_reason st opr
      \<and> trigger \<in> set ts) (map (\<lambda>yp. (yp_status yp, resume_triggers yp)) (nd_yield_points nd))" for opr
    by (simp add: valid_trigger_def list_ex_iff)
  then show ?thesis
    unfolding shipped_node_yields [OF assms]
    by (cases p) (auto simp: shipped_yields_def yield_point_matches_pause_reason_def shipped_yield_reasons)
qed

theorem shipped_resume_triggers_witness:
  "\<exists>nd. get_node (en_workflow (demo_engine StoryType_BUGFIX handler_completed)) ''exploration'' = Some nd
    \<and> valid_trigger nd (Some AWAITING_DESIGN_REVIEW) ''design_approved''
    \<and> \<not> valid_trigger nd (Some AWAITING_DESIGN_CHALLENGE) ''design_approved''"
proof -
  obtain nd where nd: "get_node (en_workflow (demo_engine StoryType_BUGFIX handler_completed))
      (phase_name_value PhaseName_EXPLORATION) = Some nd"
    using demo_node [of PhaseName_EXPLORATION StoryType_BUGFIX] by auto
  from shipped_resume_triggers [OF demo_workflow nd] nd show ?thesis by simp
qed

lemma live_resume_phase:
  assumes l: "live (en_story_dir e) s" and ok: "history_ok (st_db s)"
    and nd: "get_node (en_workflow e) (phase_name_value (ps_phase (pe_state v))) = Some nd"
    and paused: "ps_status (pe_state v) = PhaseStatus_PAUSED" "valid_trigger nd (ps_pause_reason (pe_state v)) tr"
    and c: "completing (pe_state v) nd ctx res" and d: "ps_story_id (pe_state v) = en_story_dir e"
    and reg: "en_registry e (phase_name_value (ps_phase (pe_state v))) = Some h"
    and h: "on_resume h ctx v tr = ret res" "\<exists>P. writes.keeps P (on_exit h ctx v)"
    and trs: "transitions_defined (en_workflow e) ctx"
  shows "wp (resume_phase e ctx v tr) (\<lambda>r _. completed_with e ctx (pe_state v) res r) (\<lambda>_ _. False) s"
proof -
  let ?ph = "phase_name_value (ps_phase (pe_state v))"
  let ?s = "write_step (W_context ctx) s"
  let ?u = "?s\<lparr>st_ticks := Suc (st_ticks ?s)\<rparr>"
  have "history_ok (st_db ?s)" using ok by (simp add: write_step_def history_ok_def)
  from generate_attempt_id_run [OF this, of "en_runtime e" ?ph]
  obtain n where gen: "generate_attempt_id (en_runtime e) ?ph ?s = (Inr (attempt_id_of ?ph (Suc n)), ?s)"
    by blast
  have lu: "live (en_story_dir e) ?u" and t0: "st_clock ?s (st_ticks ?s) \<le> st_clock ?u (st_ticks ?u)"
    using l by (simp_all add: live_def write_step_def freeze_rows_def mono_def)
  have "wp (handle_completed_result e ctx (pe_state v) nd h res (attempt_id_of ?ph (Suc n)) v (st_clock ?s (st_ticks ?s)) (Some tr))
      (\<lambda>r _. completed_with e ctx (pe_state v) res r) (\<lambda>_ _. False) ?u"
    by (rule live_handle_completed_result [OF lu c d h(2) trs t0]) (simp add: attempt_number_attempt_id)
  then show ?thesis
    using c by (simp add: wp_def resume_phase_def Let_def save_story_context_def do_write_def now_def io_app io_run gen nd
        paused get_handler_def reg h(1) process_handler_result_def completing_def)
qed

text \<open>
  C7. Resuming is gated by the table of pause reasons and triggers above, in every shipped workflow.
  When the state is PAUSED for a reason and the table lists the trigger for that reason and phase, a
  result that is returned names an attempt of the phase and describes the store. In every other case,
  whatever the handler, \<open>resume_phase\<close> returns \<open>failed\<close> without an attempt and without a next phase, and
  the story context is all it has written.
\<close>
theorem resume_is_gated:
  assumes "resolve_workflow env ty = Inr (en_workflow e)"
    and "get_node (en_workflow e) (phase_name_value (ps_phase (pe_state v))) = Some nd"
  shows "if ps_status (pe_state v) = PhaseStatus_PAUSED
      \<and> (\<exists>p. ps_pause_reason (pe_state v) = Some p \<and> (p, trigger) \<in> resume_table (ps_phase (pe_state v)))
    then (case resume_phase e ctx v trigger s of
        (Inr r, t) \<Rightarrow> result_recorded e ctx nd (ps_phase (pe_state v)) r (st_db t)
      | (Inl x, t) \<Rightarrow> True)
    else \<exists>r. resume_phase e ctx v trigger s = (Inr r, write_step (W_context ctx) s)
      \<and> res_status r = ''failed'' \<and> res_attempt_id r = None \<and> res_next_phase r = None"
proof -
  have "valid_trigger nd (ps_pause_reason (pe_state v)) trigger
      \<longleftrightarrow> (\<exists>p. ps_pause_reason (pe_state v) = Some p \<and> (p, trigger) \<in> resume_table (ps_phase (pe_state v)))"
    by (cases "ps_pause_reason (pe_state v)") (simp_all add: shipped_resume_triggers [OF assms])
  then show ?thesis
    using establishesD [OF recorded_accepted_resume [OF assms(2)], of trigger ctx s]
      refused_resume [OF assms(2), of trigger ctx s]
    by (auto split: prod.splits sum.splits)
qed

definition paused_envelope :: "pause_reason \<Rightarrow> phase_envelope" where
  "paused_envelope p = \<lparr>pe_state = (demo_state PhaseName_EXPLORATION PhaseStatus_PAUSED)\<lparr>ps_pause_reason := Some p\<rparr>,
     pe_origin = Origin_NEW\<rparr>"

lemma paused_state_valid: "valid_state (pe_state (paused_envelope p))"
proof -
  have "uuid_ok demo_run_id" "py_strip ''script'' \<noteq> []" "py_strip ''run-pipeline'' \<noteq> []"
    by code_simp+
  then show ?thesis
    by (simp add: valid_state_def validate_phase_state_def paused_envelope_def demo_state_def empty_memory_def)
qed

theorem resume_is_gated_witness:
  "(\<exists>r t. resume_phase (demo_engine StoryType_BUGFIX handler_completed) demo_context
      (paused_envelope AWAITING_DESIGN_REVIEW) ''design_approved'' (demo_store empty_db) = (Inr r, t)
      \<and> res_status r = ''phase_completed'' \<and> res_attempt_id r \<noteq> None)
    \<and> (\<exists>r. resume_phase (demo_engine StoryType_BUGFIX handler_completed) demo_context
      (paused_envelope AWAITING_DESIGN_CHALLENGE) ''design_approved'' (demo_store empty_db)
      = (Inr r, write_step (W_context demo_context) (demo_store empty_db)) \<and> res_status r = ''failed'')"
proof -
  let ?e = "demo_engine StoryType_BUGFIX handler_completed"
  have ph: "ps_phase (pe_state (paused_envelope p)) = PhaseName_EXPLORATION"
    "ps_status (pe_state (paused_envelope p)) = PhaseStatus_PAUSED" "ps_pause_reason (pe_state (paused_envelope p)) = Some p" for p
    by (simp_all add: paused_envelope_def demo_state_def)
  obtain nd where nd: "get_node (en_workflow ?e) (phase_name_value PhaseName_EXPLORATION) = Some nd"
    using demo_node [of PhaseName_EXPLORATION StoryType_BUGFIX] by auto
  then have node: "get_node (en_workflow ?e) (phase_name_value (ps_phase (pe_state (paused_envelope p)))) = Some nd" for p
    by (simp add: ph)
  let ?v = "paused_envelope AWAITING_DESIGN_REVIEW"
  have c: "completing (pe_state ?v) nd demo_context handler_completed"
    using shipped_guards_only_on_setup [OF demo_workflow nd] paused_state_valid
    by (auto simp: completing_def handler_completed_def or_value_def ph)
  have "wp (resume_phase ?e demo_context ?v ''design_approved'')
      (\<lambda>r _. completed_with ?e demo_context (pe_state ?v) handler_completed r) (\<lambda>_ _. False) (demo_store empty_db)"
  proof (rule live_resume_phase [OF _ _ node ph(2) _ c])
    show "valid_trigger nd (ps_pause_reason (pe_state ?v)) ''design_approved''"
      using shipped_resume_triggers [OF demo_workflow nd] by (simp add: ph(3))
    show "live (en_story_dir ?e) (demo_store empty_db)" "history_ok (st_db (demo_store empty_db))"
      by (rule demo_premises [OF nd demo_result_completed])+
    show "ps_story_id (pe_state ?v) = en_story_dir ?e"
      by (simp add: paused_envelope_def demo_state_def demo_engine_def)
    show "en_registry ?e (phase_name_value (ps_phase (pe_state ?v)))
        = Some (no_op_handler\<lparr>on_enter := (\<lambda>c v. ret handler_completed)\<rparr>)"
      by (simp add: demo_engine_def demo_registry_def)
    show "transitions_defined (en_workflow ?e) demo_context" by (rule shipped_transitions_defined [OF demo_workflow])
    show "\<exists>P. writes.keeps P (on_exit (no_op_handler\<lparr>on_enter := (\<lambda>c v. ret handler_completed)\<rparr>) demo_context ?v)"
      by (auto simp: no_op_handler_def intro: writes_intros)
  qed (simp add: no_op_handler_def)
  then obtain r t where run: "resume_phase ?e demo_context ?v ''design_approved'' (demo_store empty_db) = (Inr r, t)"
    "res_status r = ''phase_completed''"
    by (auto simp: wp_def completed_with_def split: prod.splits sum.splits)
  moreover have "res_attempt_id r \<noteq> None"
    using resume_is_gated [OF demo_workflow node [of AWAITING_DESIGN_REVIEW], of "''design_approved''" demo_context "demo_store empty_db"] run(1)
    by (auto simp: ph result_recorded_def recorded_def)
  moreover have "\<exists>r. resume_phase ?e demo_context (paused_envelope AWAITING_DESIGN_CHALLENGE) ''design_approved'' (demo_store empty_db)
      = (Inr r, write_step (W_context demo_context) (demo_store empty_db)) \<and> res_status r = ''failed''"
    using resume_is_gated [OF demo_workflow node [of AWAITING_DESIGN_CHALLENGE], of "''design_approved''" demo_context "demo_store empty_db"]
    by (auto simp: ph)
  ultimately show ?thesis by blast
qed

end
