(* ===== verification/Engine_Overrides.thy ===== *)
theory Engine_Overrides
  imports Engine_Gates
begin

text \<open>
  Reading of pause reasons, consumption of overrides, nodes completed without their handler,
  and the numbering of attempts.
\<close>

section \<open>Pause reasons\<close>

lemma from_yield_status_canonical: "from_yield_status (pause_reason_value p) = Inr p"
proof -
  have "list_all (\<lambda>p. from_yield_status (pause_reason_value p) = Inr p) pause_reasons"
    by code_simp
  then show ?thesis using pause_reason.members_all by (auto simp: list_all_iff)
qed

lemma pause_reason_clsD: "pause_reason_cls v = Inr p \<Longrightarrow> v = pause_reason_value p"
  by (auto simp: pause_reason_cls_def dest: pause_reason.enum_ofD split: option.splits)

lemma from_yield_statusD:
  assumes "from_yield_status raw = Inr p"
  shows "(py_lower (py_strip raw), pause_reason_value p) \<in> set yield_status_synonyms
    \<or> py_upper (py_strip raw) = pause_reason_value p"
  using assms
  by (auto simp: from_yield_status_def Let_def dest!: pause_reason_clsD map_of_SomeD
      split: if_splits option.splits sum.splits)

text \<open>
  Reading a yield status: the wire value of every pause reason is read back as that reason,
  every listed synonym is read, and whatever is read came, up to surrounding white space and
  letter case, from a synonym of the reason or from its own name. So no other text is ever
  taken for a pause reason.
\<close>
theorem yield_status_reading:
  "from_yield_status (pause_reason_value p) = Inr p
   \<and> (\<forall>(syn, target) \<in> set yield_status_synonyms.
        \<exists>q. from_yield_status syn = Inr q \<and> pause_reason_value q = target)
   \<and> (from_yield_status raw = Inr r \<longrightarrow>
        (py_lower (py_strip raw), pause_reason_value r) \<in> set yield_status_synonyms
        \<or> py_upper (py_strip raw) = pause_reason_value r)"
proof -
  have "list_all (\<lambda>x. case from_yield_status (fst x) of Inl e \<Rightarrow> False
      | Inr p \<Rightarrow> pause_reason_value p = snd x) yield_status_synonyms"
    by code_simp
  then have each: "x \<in> set yield_status_synonyms \<Longrightarrow>
      \<exists>q. from_yield_status (fst x) = Inr q \<and> pause_reason_value q = snd x" for x
    unfolding list_all_iff by (cases "from_yield_status (fst x)") auto
  have "\<forall>(syn, target) \<in> set yield_status_synonyms.
      \<exists>q. from_yield_status syn = Inr q \<and> pause_reason_value q = target"
    using each by auto
  then show ?thesis
    using from_yield_status_canonical from_yield_statusD by blast
qed

theorem yield_status_reading_witness:
  "py_upper (py_strip '' Design_Review '') \<noteq> pause_reason_value AWAITING_DESIGN_REVIEW
   \<and> (py_lower (py_strip '' Design_Review ''), pause_reason_value AWAITING_DESIGN_REVIEW)
       \<in> set yield_status_synonyms"
proof -
  have "from_yield_status '' Design_Review '' = Inr AWAITING_DESIGN_REVIEW" by code_simp
  moreover have "py_upper (py_strip '' Design_Review '') \<noteq> pause_reason_value AWAITING_DESIGN_REVIEW"
    by code_simp
  ultimately show ?thesis
    using yield_status_reading [where raw = "'' Design_Review ''" and r = AWAITING_DESIGN_REVIEW] by blast
qed

text \<open>What a paused handler result does: an unreadable yield status is refused before anything
  is written; otherwise the stored state carries the reason that was read.\<close>

lemma paused_stores_reason:
  "establishes (\<lambda>r t. \<exists>q. phase_state_row (st_db t) (en_story_dir e) = Some (Readable q)
      \<and> ps_status q = PhaseStatus_PAUSED
      \<and> coerce_pause_reason (hr_yield_status res) (phase_name_value (ps_phase st)) = Inr (ps_pause_reason q))
    (handle_paused_result e ctx st res aid t0 trg)"
proof -
  have tail: "establishes (\<lambda>r t. phase_state_row (st_db t) (en_story_dir e) = Some (Readable q))
      (seq_io (save_phase_completion (en_story_dir e) a q) k)"
    if k: "writes.keeps tail_write k" for a q and k :: "('a, engine_result) action"
  proof (rule establishesI)
    fix s x t assume "seq_io (save_phase_completion (en_story_dir e) a q) k s = (Inr x, t)"
    then obtain u where u: "u = write_step (W_completion (en_story_dir e) a q) s" "k u = (Inr x, t)"
      unfolding seq_io_def by (cases rule: bind_io_cases) (auto dest: save_phase_completion_returns)
    from tail_writes_core [OF writes.keepsD [OF k u(2)]]
    show "phase_state_row (st_db t) (en_story_dir e) = Some (Readable q)"
      by (simp add: u(1) write_step_def phase_state_row_def find_upsert [where key = fst])
  qed
  show ?thesis
    unfolding handle_paused_result_def Let_def
    by (intro establishes_bind_lift establishes_bind_op establishes_mono [OF tail])
       (auto intro!: tail_intros dest!: evolve_phase_stateD simp: pause_updates_def)
qed

text \<open>
  A pause is stored with its reason or refused: when the handler's yield status is a text
  that is no pause reason, handling the paused result raises \<open>InvalidPauseReasonError\<close> and
  leaves the whole state as it was; when handling returns, the stored phase state is PAUSED with
  exactly the reason that was read.
\<close>
theorem pause_is_stored_with_its_reason_or_refused:
  "(hr_yield_status res = Some (Yield_string v) \<and> from_yield_status v = Inl x \<longrightarrow>
      (\<exists>m. handle_paused_result e ctx st res aid t0 trg s = (Inl (InvalidPauseReasonError m), s)))
   \<and> (handle_paused_result e ctx st res aid t0 trg s = (Inr r, t) \<longrightarrow>
      (\<exists>q. phase_state_row (st_db t) (en_story_dir e) = Some (Readable q)
        \<and> ps_status q = PhaseStatus_PAUSED
        \<and> coerce_pause_reason (hr_yield_status res) (phase_name_value (ps_phase st)) = Inr (ps_pause_reason q)))"
proof (intro conjI impI)
  show "\<exists>m. handle_paused_result e ctx st res aid t0 trg s = (Inl (InvalidPauseReasonError m), s)"
    if "hr_yield_status res = Some (Yield_string v) \<and> from_yield_status v = Inl x"
    using that by (auto simp: handle_paused_result_def Let_def coerce_pause_reason_def io_app io_run)
qed (rule establishesD [OF paused_stores_reason])

theorem pause_is_stored_with_its_reason_or_refused_witness:
  "\<exists>m. handle_paused_result (demo_engine StoryType_CONCEPT handler_completed) demo_context
     (demo_state PhaseName_SETUP PhaseStatus_PENDING)
     (handler_completed\<lparr>hr_yield_status := Some (Yield_string ''lunch'')\<rparr>) ''setup-001'' 0 None
     (demo_store empty_db) = (Inl (InvalidPauseReasonError m), demo_store empty_db)"
proof -
  have "\<not> isl (from_yield_status ''lunch'') \<longrightarrow> False" by code_simp
  then obtain x where x: "from_yield_status ''lunch'' = Inl x"
    by (cases "from_yield_status ''lunch''") auto
  show ?thesis
    by (rule pause_is_stored_with_its_reason_or_refused [THEN conjunct1, THEN mp, OF conjI [OF _ x]]) simp
qed

section \<open>Nodes completed without their handler\<close>

text \<open>Nothing before the handler lookup reads the registry.\<close>

lemma runtime_registry: "en_runtime (e\<lparr>en_registry := reg\<rparr>) = en_runtime e"
  by (simp add: en_runtime_def)

lemma registry_selectors:
  "en_workflow (e\<lparr>en_registry := reg\<rparr>) = en_workflow e"
  "en_story_dir (e\<lparr>en_registry := reg\<rparr>) = en_story_dir e"
  "en_run_id (e\<lparr>en_registry := reg\<rparr>) = en_run_id e"
  by simp_all

lemma complete_without_handler_registry:
  "complete_without_handler (e\<lparr>en_registry := reg\<rparr>) ctx st aid oc fc no fs arts errs nxt t0
    = complete_without_handler e ctx st aid oc fc no fs arts errs nxt t0"
  unfolding complete_without_handler_def runtime_registry registry_selectors ..

lemma apply_override_records_registry:
  "apply_override_records (e\<lparr>en_registry := reg\<rparr>) ctx st nd aid t0 rs
    = apply_override_records e ctx st nd aid t0 rs"
  by (induction rs)
    (simp_all only: apply_override_records.simps complete_without_handler_registry runtime_registry registry_selectors)

lemma apply_pre_execution_override_registry:
  "apply_pre_execution_override (e\<lparr>en_registry := reg\<rparr>) ctx st nd aid t0
    = apply_pre_execution_override e ctx st nd aid t0"
  by (simp add: apply_pre_execution_override_def apply_override_records_registry runtime_registry)

lemma should_skip_registry:
  "should_skip_for_execution_policy (e\<lparr>en_registry := reg\<rparr>) ctx nd
    = should_skip_for_execution_policy e ctx nd"
  unfolding should_skip_for_execution_policy_def runtime_registry registry_selectors ..

lemma consume_overrides_table:
  assumes "consume_override rs ctx r s = (x, t)"
  shows "\<exists>c. t_overrides (st_db t) = upsert_override (r\<lparr>ov_consumed_at := Some c\<rparr>) (t_overrides (st_db s))"
  using assms
  by (auto simp: consume_override_def save_override_record_def do_write_def write_step_def io_app io_run now_def
      emit_event_def resolve_run_id_eq emit_def split: if_splits prod.splits sum.splits)

lemma upsert_override_consumed:
  assumes "x \<in> set (upsert_override (r\<lparr>ov_consumed_at := Some c\<rparr>) t)" and "ov_override_id x = ov_override_id r"
  shows "ov_consumed_at x \<noteq> None"
proof (cases "ov_override_id r \<in> ov_override_id ` set t")
  case True
  then show ?thesis using assms by (auto simp: upsert_override_def)
next
  case False
  then have "x \<notin> set t" using assms(2) by (metis imageI)
  then show ?thesis using assms(1) False by (simp add: upsert_override_def)
qed

text \<open>The unconsumed overrides of the current run of the flow, and those that end the phase here.\<close>

definition active_overrides :: "runtime_state \<Rightarrow> story_context \<Rightarrow> db \<Rightarrow> override_record list" where
  "active_overrides rs ctx D =
    filter (\<lambda>r. ov_consumed_at r = None
            \<and> \<not> (ov_flow_id r \<noteq> flow_id (rs_workflow rs) \<or> ov_run_id r \<noteq> run_id_in rs ctx D))
      (case story_id_for (rs_story_dir rs) of None \<Rightarrow> [] | Some sid \<Rightarrow> override_rows D sid)"

definition applicable :: "'w pipeline_engine \<Rightarrow> node_definition \<Rightarrow> string \<Rightarrow> override_record \<Rightarrow> bool" where
  "applicable e nd phase r \<longleftrightarrow> override_allowed (ov_override_type r) (nd_override_policy nd)
    \<and> (ov_override_type r = SKIP_NODE \<and> ov_target_node_id r \<in> {None, Some phase}
      \<or> ov_override_type r = JUMP_TO \<and> ov_target_node_id r \<noteq> None \<and> ov_target_node_id r \<noteq> Some []
        \<and> get_node (en_workflow e) (the (ov_target_node_id r)) \<noteq> None)"

definition policy_satisfied :: "'w pipeline_engine \<Rightarrow> story_context \<Rightarrow> node_definition \<Rightarrow> db \<Rightarrow> bool" where
  "policy_satisfied e ctx nd D \<longleftrightarrow> (\<exists>sid l. story_id_for (en_story_dir e) = Some sid
     \<and> ledger_row D sid (flow_id (en_workflow e)) (nd_name nd) = Some l
     \<and> policy_skip_reason (nd_execution_policy nd) (nd_name nd) (run_id_in (en_runtime e) ctx D) l \<noteq> None)"

lemma iter_active_overrides_eq:
  "iter_active_overrides rs ctx = gets (\<lambda>s. active_overrides rs ctx (st_db s))"
  by (rule ext) (simp add: iter_active_overrides_def resolve_run_id_eq active_overrides_def
      load_override_records_def io_app io_run split: option.splits)

lemma apply_override_records_none:
  "\<forall>r \<in> set rs. \<not> applicable e nd (phase_name_value (ps_phase st)) r \<Longrightarrow>
    apply_override_records e ctx st nd aid t0 rs = ret None"
  by (induction rs) (auto simp: applicable_def)

lemma apply_override_records_some:
  "\<exists>r \<in> set rs. applicable e nd (phase_name_value (ps_phase st)) r \<Longrightarrow>
    returns (\<lambda>x. x \<noteq> None) (apply_override_records e ctx st nd aid t0 rs)"
proof (induction rs)
  case (Cons r rs)
  show ?case
  proof (cases "applicable e nd (phase_name_value (ps_phase st)) r")
    case True
    then show ?thesis by (auto simp: applicable_def intro!: returns_seq returns_bind_any)
  next
    case False
    then show ?thesis using Cons by (auto intro!: returns_seq returns_bind_any)
  qed
qed simp

text \<open>The choice of an override, when one applies: the youngest.\<close>

lemma apply_override_records_first:
  assumes "apply_override_records e ctx st nd aid t0 rs s = (Inr (Some x), t)"
  obtains r as bs fs nxt u where "rs = as @ r # bs"
    and "\<forall>a \<in> set as. \<not> applicable e nd (phase_name_value (ps_phase st)) a"
    and "applicable e nd (phase_name_value (ps_phase st)) r"
    and "consume_override (en_runtime e) ctx r s = (Inr (), u)"
    and "nxt = (if ov_override_type r = JUMP_TO then ov_target_node_id r else None)"
    and "complete_without_handler e ctx st aid Outcome_SKIPPED None ''SKIP'' fs [] [ov_reason r] nxt t0 u = (Inr x, t)"
  using assms
proof (induction rs arbitrary: thesis)
  case Nil
  then show ?case by (simp add: io_run)
next
  case (Cons a rs)
  show ?case
  proof (cases "applicable e nd (phase_name_value (ps_phase st)) a")
    case False
    then have "apply_override_records e ctx st nd aid t0 (a # rs) = apply_override_records e ctx st nd aid t0 rs"
      by (auto simp: applicable_def)
    with Cons.prems(2) have "apply_override_records e ctx st nd aid t0 rs s = (Inr (Some x), t)" by simp
    from Cons.IH [OF _ this] obtain r as bs fs nxt u where r: "rs = as @ r # bs"
      "\<forall>a \<in> set as. \<not> applicable e nd (phase_name_value (ps_phase st)) a"
      "applicable e nd (phase_name_value (ps_phase st)) r"
      "consume_override (en_runtime e) ctx r s = (Inr (), u)"
      "nxt = (if ov_override_type r = JUMP_TO then ov_target_node_id r else None)"
      "complete_without_handler e ctx st aid Outcome_SKIPPED None ''SKIP'' fs [] [ov_reason r] nxt t0 u = (Inr x, t)"
      by metis
    show ?thesis using r False by (intro Cons.prems(1) [of "a # as" r bs u nxt fs]) auto
  next
    case True
    then obtain fs where "apply_override_records e ctx st nd aid t0 (a # rs)
        = seq_io (consume_override (en_runtime e) ctx a) (bind_io (complete_without_handler e ctx st aid
            Outcome_SKIPPED None ''SKIP'' fs [] [ov_reason a]
            (if ov_override_type a = JUMP_TO then ov_target_node_id a else None) t0) (\<lambda>x. ret (Some x)))"
      by (auto simp: applicable_def)
    with Cons.prems(2) obtain u where "consume_override (en_runtime e) ctx a s = (Inr (), u)"
      "complete_without_handler e ctx st aid Outcome_SKIPPED None ''SKIP'' fs [] [ov_reason a]
        (if ov_override_type a = JUMP_TO then ov_target_node_id a else None) t0 u = (Inr x, t)"
      by (auto simp: io_app io_run split: prod.splits sum.splits)
    with True show ?thesis by (intro Cons.prems(1) [of "[]" a rs u _ fs]) auto
  qed
qed

text \<open>A phase that an override or its execution policy completes in place of the handler.\<close>

definition bypassed :: "'w pipeline_engine \<Rightarrow> story_context \<Rightarrow> node_definition \<Rightarrow> string \<Rightarrow> db \<Rightarrow> bool" where
  "bypassed e ctx nd phase D \<longleftrightarrow>
    (\<exists>r \<in> set (active_overrides (en_runtime e) ctx D). applicable e nd phase r) \<or> policy_satisfied e ctx nd D"

lemma bypassed_cong:
  "t_overrides D = t_overrides D' \<Longrightarrow> t_flows D = t_flows D' \<Longrightarrow> t_ledgers D = t_ledgers D' \<Longrightarrow>
    bypassed e ctx nd phase D = bypassed e ctx nd phase D'"
  by (simp add: bypassed_def active_overrides_def policy_satisfied_def override_rows_def run_id_in_def
      flow_row_def ledger_row_def split: option.splits)

lemma should_skip_satisfied:
  "policy_satisfied e ctx nd (st_db s) \<Longrightarrow>
    \<exists>why. should_skip_for_execution_policy e ctx nd s = (Inr (Some why), s)"
  by (auto simp: policy_satisfied_def should_skip_for_execution_policy_def load_node_execution_ledger_def
      resolve_run_id_eq io_app io_run)

lemma apply_pre_execution_override_eq:
  "apply_pre_execution_override e ctx st nd aid t0 s
    = apply_override_records e ctx st nd aid t0 (rev (active_overrides (en_runtime e) ctx (st_db s))) s"
  by (simp add: apply_pre_execution_override_def iter_active_overrides_eq io_app io_run)

lemma bypassed_continuation:
  assumes "bypassed e ctx nd (phase_name_value (ps_phase st)) (st_db s)"
  shows "bind_io (apply_pre_execution_override e ctx st nd aid t0) (\<lambda>ov. case ov of Some r \<Rightarrow> ret r | None \<Rightarrow>
      bind_io (should_skip_for_execution_policy e ctx nd) (\<lambda>skip. case skip of Some why \<Rightarrow> c why | None \<Rightarrow> k)) s
    = bind_io (apply_pre_execution_override e ctx st nd aid t0) (\<lambda>ov. case ov of Some r \<Rightarrow> ret r | None \<Rightarrow>
      bind_io (should_skip_for_execution_policy e ctx nd) (\<lambda>skip. case skip of Some why \<Rightarrow> c why | None \<Rightarrow> k')) s"
proof (cases "\<exists>r \<in> set (active_overrides (en_runtime e) ctx (st_db s)).
    applicable e nd (phase_name_value (ps_phase st)) r")
  case True
  then have "returns (\<lambda>x. x \<noteq> None) (apply_override_records e ctx st nd aid t0
      (rev (active_overrides (en_runtime e) ctx (st_db s))))"
    by (intro apply_override_records_some) simp
  then have "apply_pre_execution_override e ctx st nd aid t0 s \<noteq> (Inr None, u)" for u
    unfolding apply_pre_execution_override_eq by (auto dest: returnsD)
  then show ?thesis by (auto simp: io_app split: prod.splits sum.splits option.splits)
next
  case False
  then have none: "apply_pre_execution_override e ctx st nd aid t0 s = (Inr None, s)"
    unfolding apply_pre_execution_override_eq by (subst apply_override_records_none) (auto simp: io_run)
  obtain why where "should_skip_for_execution_policy e ctx nd s = (Inr (Some why), s)"
    using assms False should_skip_satisfied [of e ctx nd s] by (auto simp: bypassed_def)
  then show ?thesis by (simp add: bind_io_run none)
qed

lemma keeps_overrides: "(\<And>r. w \<noteq> W_override r) \<Longrightarrow> t_overrides (apply_write w D) = t_overrides D"
  by (cases w) auto

lemma complete_without_handler_overrides:
  assumes "complete_without_handler e ctx st aid oc fc no fs arts errs nxt t0 s = (r, t)"
  shows "t_overrides (st_db t) = t_overrides (st_db s)"
proof -
  have "writes.keeps (\<lambda>w. \<forall>r. w \<noteq> W_override r) (complete_without_handler e ctx st aid oc fc no fs arts errs nxt t0)"
    unfolding complete_without_handler_def Let_def
    by (auto intro!: writes_intros split: option.splits)
  from writes.keepsD [OF this assms] show ?thesis
    by (rule writes_only_invariant [where I = "\<lambda>D. t_overrides D = t_overrides (st_db s)"])
       (auto simp: keeps_overrides)
qed

lemma complete_without_handler_result:
  "returns (\<lambda>r. res_status r = ''phase_completed'' \<and> (nxt \<noteq> None \<longrightarrow> res_next_phase r = nxt))
    (complete_without_handler e ctx st aid oc fc no fs arts errs nxt t0)"
  unfolding complete_without_handler_def Let_def
  by (cases nxt) (auto intro!: returns_seq returns_bind_any simp: engine_result_of_def bind_ret split: sum.splits)

text \<open>A phase run, split where the decision for the handler falls.\<close>

definition phase_decision ::
  "'w pipeline_engine \<Rightarrow> story_context \<Rightarrow> phase_state \<Rightarrow> node_definition \<Rightarrow> (string \<Rightarrow> int \<Rightarrow> ('w, engine_result) action)
     \<Rightarrow> string \<Rightarrow> int \<Rightarrow> ('w, engine_result) action" where
  "phase_decision e ctx st nd k aid t0 =
    bind_io (apply_pre_execution_override e ctx st nd aid t0) (\<lambda>ov. case ov of Some r \<Rightarrow> ret r | None \<Rightarrow>
    bind_io (should_skip_for_execution_policy e ctx nd) (\<lambda>skip. case skip of
        Some why \<Rightarrow> complete_without_handler e ctx st aid Outcome_SKIPPED None ''SKIP'' ''SKIPPED''
                         [] [why] None t0
      | None \<Rightarrow> k aid t0))"

definition entered ::
  "'w pipeline_engine \<Rightarrow> story_context \<Rightarrow> phase_envelope \<Rightarrow> node_definition \<Rightarrow> string \<Rightarrow> int \<Rightarrow> ('w, engine_result) action" where
  "entered e ctx v nd aid t0 =
    bind_io (lift_sum (can_enter_phase (en_workflow e) (phase_name_value (ps_phase (pe_state v))) ctx (pe_state v)))
      (\<lambda>entry. if \<not> fst entry then block_on_preconditions e ctx (pe_state v) aid t0 (snd entry)
        else enter_phase e ctx v nd aid t0)"

definition decided ::
  "'w pipeline_engine \<Rightarrow> story_context \<Rightarrow> phase_state \<Rightarrow> node_definition \<Rightarrow> (string \<Rightarrow> int \<Rightarrow> ('w, engine_result) action)
     \<Rightarrow> ('w, engine_result) action" where
  "decided e ctx st nd k =
    bind_io (generate_attempt_id (en_runtime e) (phase_name_value (ps_phase st)))
      (\<lambda>aid. bind_io now (phase_decision e ctx st nd k aid))"

lemma run_phase_decided:
  assumes "get_node (en_workflow e) (phase_name_value (ps_phase (pe_state v))) = Some nd"
  shows "run_phase e ctx v = seq_io (save_story_context ctx) (decided e ctx (pe_state v) nd (entered e ctx v nd))"
  unfolding run_phase_def Let_def decided_def phase_decision_def entered_def assms option.case ..

lemma bind_io_same:
  "(\<And>x t. m s = (Inr x, t) \<Longrightarrow> k x t = k' x t) \<Longrightarrow> bind_io m k s = bind_io m k' s"
  by (cases "m s"; cases "fst (m s)") (auto simp: io_app)

lemma complete_without_handler_completed:
  "returns (\<lambda>r. res_status r = ''phase_completed'') (complete_without_handler e ctx st aid oc fc no fs arts errs nxt t0)"
  by (rule returns_mono [OF complete_without_handler_result]) simp

lemma decided_bypassed:
  assumes "bypassed e ctx nd (phase_name_value (ps_phase st)) (st_db s)"
  shows "decided e ctx st nd k s = decided e ctx st nd k' s"
proof -
  have "phase_decision e ctx st nd k aid t0 u = phase_decision e ctx st nd k' aid t0 u"
    if "st_db u = st_db s" for aid t0 u
    unfolding phase_decision_def
    by (rule bypassed_continuation) (use assms that in simp)
  then have "bind_io now (phase_decision e ctx st nd k aid) u = bind_io now (phase_decision e ctx st nd k' aid) u"
    if "st_db u = st_db s" for aid u
    using that by (simp add: now_def io_app io_run)
  moreover have "st_db t = st_db s" if "generate_attempt_id (en_runtime e) (phase_name_value (ps_phase st)) s = (r, t)"
    for r t
    using that by (auto simp: generate_attempt_id_def load_attempts_def io_app io_run split: option.splits sum.splits)
  ultimately show ?thesis
    unfolding decided_def by - (rule bind_io_same, metis)
qed

lemma decided_registry:
  "decided (e\<lparr>en_registry := reg\<rparr>) ctx st nd k = decided e ctx st nd k"
  unfolding decided_def phase_decision_def runtime_registry apply_pre_execution_override_registry
    should_skip_registry complete_without_handler_registry ..

lemma decided_bypassed_result:
  assumes "bypassed e ctx nd (phase_name_value (ps_phase st)) (st_db s)"
    and "decided e ctx st nd k s = (Inr r, t)"
  shows "res_status r = ''phase_completed''"
proof -
  have ov: "returns (\<lambda>ov. \<forall>r. ov = Some r \<longrightarrow> res_status r = ''phase_completed'')
      (apply_pre_execution_override e ctx st nd aid t0)" for aid t0
    unfolding returns_def apply_pre_execution_override_eq
    by (auto elim!: apply_override_records_first dest: returnsD [OF complete_without_handler_result])
  have "returns (\<lambda>r. res_status r = ''phase_completed'') (decided e ctx st nd (\<lambda>aid t0. raise (PipelineError [])))"
    unfolding decided_def phase_decision_def
    by (auto intro!: returns_bind_any returns_bind [OF ov] complete_without_handler_completed
        split: option.splits)
  then show ?thesis
    using assms(2) decided_bypassed [OF assms(1), of k "\<lambda>aid t0. raise (PipelineError [])"]
    by (auto dest: returnsD)
qed

section \<open>A skip completes\<close>

lemma live_complete_without_handler:
  assumes l: "live (en_story_dir e) s" and st: "valid_state st" "ps_story_id st = en_story_dir e"
    and tr: "transitions_defined (en_workflow e) ctx" and t0: "t0 \<le> st_clock s (st_ticks s)"
    and n: "1 \<le> attempt_number aid"
  shows "wp (complete_without_handler e ctx st aid Outcome_SKIPPED None no fs arts errs nxt t0)
    (\<lambda>r _. True) (\<lambda>_ _. False) s"
proof -
  let ?q = "retire_updates (ps_phase st) PhaseStatus_COMPLETED errs aid st"
  have q: "evolve_phase_state st (retire_updates (ps_phase st) PhaseStatus_COMPLETED errs aid) = Inr ?q"
    using retire_updates_valid [OF st(1), of PhaseStatus_COMPLETED errs aid]
    by (simp add: evolve_phase_state_def valid_state_def)
  obtain m where target: "transition_target (en_workflow e) ctx ?q = Inr m"
    using tr by (auto simp: transitions_defined_def)
  have tick: "live (en_story_dir e) (s\<lparr>st_ticks := Suc (st_ticks s)\<rparr>)" using l by (simp add: live_def)
  show ?thesis
    unfolding complete_without_handler_def Let_def wp_bind resolve_run_id_eq wp_lift_sum q sum.case
    by (intro wp_now)
       (use t0 n st target in \<open>simp add: wp_simps(1-3) build_attempt_record_def validate_attempt_record_def
          failure_outcomes_def, intro live_completion tick never_raises_seq never_raises_bind returns_any,
        auto simp: never_raises_bind never_raises_seq split: option.splits\<close>)
qed

text \<open>A flow of one node that may be skipped, and an override that skips it.\<close>

definition demo_skip_engine :: "unit pipeline_engine" where
  "demo_skip_engine = \<lparr>en_workflow = \<lparr>flow_id = ''demo'', flow_level = FlowLevel_PIPELINE,
      flow_owner = ''PipelineEngine'',
      flow_nodes = [(new_accumulator ''setup'')
        \<lparr>nd_override_policy := default_override_policy\<lparr>allow_skip := True\<rparr>\<rparr>],
      flow_edges = [], flow_hooks = no_hooks\<rparr>,
    en_registry = (\<lambda>_. None), en_story_dir = ''AG3-007'', en_run_id = demo_run_id\<rparr>"

definition demo_override :: override_record where
  "demo_override = \<lparr>ov_override_id = ''ov-1'', ov_project_key = ''ag3'', ov_story_id = ''AG3-007'',
     ov_run_id = demo_run_id, ov_flow_id = ''demo'', ov_target_node_id = None, ov_override_type = SKIP_NODE,
     ov_actor_type = ''human'', ov_actor_id = ''po'', ov_reason = ''covered elsewhere'', ov_created_at = 0,
     ov_consumed_at = None, ov_check_id = None\<rparr>"

definition demo_skip_db :: db where
  "demo_skip_db = empty_db\<lparr>t_overrides := [demo_override]\<rparr>"

definition demo_skip_node :: node_definition where
  "demo_skip_node = (new_accumulator ''setup'')
     \<lparr>nd_override_policy := default_override_policy\<lparr>allow_skip := True\<rparr>\<rparr>"

lemma demo_skip_facts:
  "get_node (en_workflow demo_skip_engine) ''setup'' = Some demo_skip_node"
  "active_overrides (en_runtime demo_skip_engine) ctx demo_skip_db = [demo_override]"
  "applicable demo_skip_engine demo_skip_node ''setup'' demo_override"
  by (simp_all add: demo_skip_engine_def get_node_def new_accumulator_def demo_skip_node_def active_overrides_def
      en_runtime_def story_id_for_def override_rows_def demo_skip_db_def demo_override_def run_id_in_def
      flow_row_def empty_db_def applicable_def)

section \<open>Overrides: the properties\<close>

text \<open>
  A bypassed phase never reaches its handler: when an unconsumed override of the run applies
  to the node, or the node's execution policy is already satisfied, running the phase behaves
  the same whatever handler is registered, and a run that returns reports the phase completed.
\<close>
theorem bypassed_phase_ignores_its_handler:
  assumes nd: "get_node (en_workflow e) (phase_name_value (ps_phase (pe_state v))) = Some nd"
    and hit: "bypassed e ctx nd (phase_name_value (ps_phase (pe_state v))) (st_db s)"
  shows "run_phase (e\<lparr>en_registry := reg\<rparr>) ctx v s = run_phase e ctx v s
    \<and> (run_phase e ctx v s = (Inr r, t) \<longrightarrow> res_status r = ''phase_completed'')"
proof -
  let ?s = "write_step (W_context ctx) s"
  have run: "run_phase e' ctx v s = decided e' ctx (pe_state v) nd (entered e' ctx v nd) ?s"
    if "en_workflow e' = en_workflow e" for e' :: "'a pipeline_engine"
    using nd that by (simp add: run_phase_decided io_app save_story_context_def do_write_def io_run)
  have at: "bypassed e ctx nd (phase_name_value (ps_phase (pe_state v))) (st_db ?s)"
    using hit bypassed_cong [of "st_db ?s" "st_db s" e ctx nd] by (simp add: write_step_def)
  show ?thesis
    using run [of e] run [of "e\<lparr>en_registry := reg\<rparr>"] decided_bypassed_result [OF at]
      decided_bypassed [OF at, of "entered e ctx v nd" "entered (e\<lparr>en_registry := reg\<rparr>) ctx v nd"]
    by (simp add: decided_registry)
qed


theorem bypassed_phase_ignores_its_handler_witness:
  "run_phase (demo_skip_engine\<lparr>en_registry := demo_registry handler_completed\<rparr>) demo_context
      (demo_envelope PhaseName_SETUP) (demo_store demo_skip_db)
    = run_phase demo_skip_engine demo_context (demo_envelope PhaseName_SETUP) (demo_store demo_skip_db)"
proof -
  have ph: "phase_name_value (ps_phase (pe_state (demo_envelope PhaseName_SETUP))) = ''setup''"
    by (simp add: demo_envelope_def demo_state_def)
  have "bypassed demo_skip_engine demo_context demo_skip_node ''setup'' (st_db (demo_store demo_skip_db))"
    by (simp add: bypassed_def demo_skip_facts demo_store_def)
  then show ?thesis
    using bypassed_phase_ignores_its_handler [of demo_skip_engine "demo_envelope PhaseName_SETUP" demo_skip_node]
    by (simp add: ph demo_skip_facts)
qed

text \<open>
  An override is used once: when a phase ends by an override, that override was active and
  applies to the node, it is the youngest such override, a jump leads to its target, and
  afterwards no stored row with its identifier is unconsumed.
\<close>
theorem override_is_consumed_when_applied:
  assumes "apply_pre_execution_override e ctx st nd aid t0 s = (Inr (Some x), t)"
  shows "\<exists>as r bs. rev (active_overrides (en_runtime e) ctx (st_db s)) = as @ r # bs
    \<and> (\<forall>a \<in> set as. \<not> applicable e nd (phase_name_value (ps_phase st)) a)
    \<and> applicable e nd (phase_name_value (ps_phase st)) r
    \<and> (ov_override_type r = JUMP_TO \<longrightarrow> res_next_phase x = ov_target_node_id r)
    \<and> (\<forall>o' \<in> set (t_overrides (st_db t)). ov_override_id o' = ov_override_id r \<longrightarrow> ov_consumed_at o' \<noteq> None)"
proof -
  obtain r as bs fs nxt u where r: "rev (active_overrides (en_runtime e) ctx (st_db s)) = as @ r # bs"
    and as: "\<forall>a \<in> set as. \<not> applicable e nd (phase_name_value (ps_phase st)) a"
      "applicable e nd (phase_name_value (ps_phase st)) r"
    and u: "consume_override (en_runtime e) ctx r s = (Inr (), u)"
    and nxt: "nxt = (if ov_override_type r = JUMP_TO then ov_target_node_id r else None)"
    and x: "complete_without_handler e ctx st aid Outcome_SKIPPED None ''SKIP'' fs [] [ov_reason r] nxt t0 u = (Inr x, t)"
    using assms unfolding apply_pre_execution_override_eq by (rule apply_override_records_first)
  have "ov_override_type r = JUMP_TO \<Longrightarrow> res_next_phase x = ov_target_node_id r"
    using returnsD [OF complete_without_handler_result x] nxt as(2) by (auto simp: applicable_def)
  moreover have "ov_consumed_at o' \<noteq> None"
    if "o' \<in> set (t_overrides (st_db t))" "ov_override_id o' = ov_override_id r" for o'
    using consume_overrides_table [OF u] complete_without_handler_overrides [OF x] that
      upsert_override_consumed by metis
  ultimately show ?thesis using r as by blast
qed

theorem override_is_consumed_when_applied_witness:
  "\<exists>x t. apply_pre_execution_override demo_skip_engine demo_context
      (demo_state PhaseName_SETUP PhaseStatus_PENDING) demo_skip_node ''setup-001'' 0 (demo_store demo_skip_db)
      = (Inr (Some x), t)
    \<and> (\<forall>o' \<in> set (t_overrides (st_db t)). ov_override_id o' = ''ov-1'' \<longrightarrow> ov_consumed_at o' \<noteq> None)"
proof -
  let ?st = "demo_state PhaseName_SETUP PhaseStatus_PENDING"
  have ph: "phase_name_value (ps_phase ?st) = ''setup''" by (simp add: demo_state_def)
  have used: "ov_override_type demo_override = SKIP_NODE" "ov_target_node_id demo_override = None"
      "allow_skip (nd_override_policy demo_skip_node)"
    by (simp_all add: demo_override_def demo_skip_node_def)
  obtain c u where u: "consume_override (en_runtime demo_skip_engine) demo_context demo_override (demo_store demo_skip_db)
      = (Inr c, u)" "writes_only (\<lambda>_. True) (demo_store demo_skip_db) u"
  proof -
    have "never_raises (consume_override (en_runtime demo_skip_engine) demo_context demo_override)"
      unfolding consume_override_def save_override_record_def
      by (auto intro!: never_raises_bind never_raises_seq)
    then obtain c u where "consume_override (en_runtime demo_skip_engine) demo_context demo_override
        (demo_store demo_skip_db) = (Inr c, u)"
      unfolding never_raises_def by blast
    then show ?thesis using that writes.keepsD [OF writes_consume_override] by metis
  qed
  have l: "live (en_story_dir demo_skip_engine) (demo_store demo_skip_db)"
    by (simp add: live_def demo_skip_engine_def demo_store_def demo_skip_db_def empty_db_def freeze_rows_def mono_def)
  have "wp (complete_without_handler demo_skip_engine demo_context ?st ''setup-001'' Outcome_SKIPPED None ''SKIP''
      ''SKIPPED'' [] [ov_reason demo_override] None 0) (\<lambda>_ _. True) (\<lambda>_ _. False) u"
  proof (rule live_complete_without_handler)
    show "live (en_story_dir demo_skip_engine) u" by (rule live_writes_only [OF u(2) l])
    show "0 \<le> st_clock u (st_ticks u)"
      by (rule ticks_writes_only [OF u(2) l]) (simp add: demo_store_def)
    show "1 \<le> attempt_number ''setup-001''" by code_simp
    show "transitions_defined (en_workflow demo_skip_engine) demo_context"
      by (simp add: transitions_defined_def transition_target_def evaluate_transitions_def get_edges_from_def
          demo_skip_engine_def)
  qed (rule demo_state_valid, simp add: demo_state_def demo_skip_engine_def)
  then obtain x t where x: "complete_without_handler demo_skip_engine demo_context ?st ''setup-001'' Outcome_SKIPPED
      None ''SKIP'' ''SKIPPED'' [] [ov_reason demo_override] None 0 u = (Inr x, t)"
    by (auto simp: wp_def split: prod.splits sum.splits)
  have act: "active_overrides (en_runtime demo_skip_engine) demo_context (st_db (demo_store demo_skip_db))
      = [demo_override]"
    by (simp add: demo_skip_facts demo_store_def)
  have run: "apply_pre_execution_override demo_skip_engine demo_context ?st demo_skip_node ''setup-001'' 0
      (demo_store demo_skip_db) = (Inr (Some x), t)"
    unfolding apply_pre_execution_override_eq act
    by (simp add: used ph io_app io_run u x)
  from override_is_consumed_when_applied [OF run]
  obtain as r bs where "[demo_override] = as @ r # bs"
    "\<forall>o' \<in> set (t_overrides (st_db t)). ov_override_id o' = ov_override_id r \<longrightarrow> ov_consumed_at o' \<noteq> None"
    unfolding act by auto
  then have "\<forall>o' \<in> set (t_overrides (st_db t)). ov_override_id o' = ''ov-1'' \<longrightarrow> ov_consumed_at o' \<noteq> None"
    by (cases as) (auto simp: demo_override_def)
  then show ?thesis using run by blast
qed

section \<open>Attempt numbers\<close>

lemma rows_to_attempts_length: "rows_to_attempts rs = Inr xs \<Longrightarrow> length xs = length rs"
  by (induction rs arbitrary: xs) (auto split: sum.splits)

text \<open>
  The attempt identifier of a phase run names the phase and a number one above the count
  of the attempts stored for the phase under the run id the engine instance drew for itself;
  finding it changes nothing. The number read back out of the identifier is that number.
\<close>
lemma attempt_id_counts_own_run:
  "story_id_for (rs_story_dir rs) = Some sid \<and> generate_attempt_id rs phase s = (Inr aid, t) \<longrightarrow>
     t = s \<and> attempt_number aid = int (length (attempt_rows (st_db s) sid phase (Some (rs_run_id rs)))) + 1"
  by (auto simp: generate_attempt_id_def load_attempts_def attempt_number_attempt_id io_app io_run
      rows_to_attempts_length split: sum.splits)

definition demo_attempt :: "int \<Rightarrow> attempt_record" where
  "demo_attempt t = \<lparr>ar_run_id = ''earlier'', ar_phase = PhaseName_SETUP, ar_attempt = 1,
     ar_outcome = Outcome_COMPLETED, ar_failure_cause = None, ar_started_at = 0, ar_ended_at = t, ar_detail = None\<rparr>"

definition demo_taken_over_db :: db where
  "demo_taken_over_db = empty_db\<lparr>t_attempts := [(''AG3-007'', demo_attempt 1)],
     t_flows := [\<lparr>fe_project_key = ''ag3'', fe_story_id = ''AG3-007'', fe_run_id = ''earlier'', fe_flow_id = ''demo'',
       fe_level = ''pipeline'', fe_owner = ''PipelineEngine'', fe_parent_flow_id = None, fe_status = ''IN_PROGRESS'',
       fe_current_node_id = None, fe_attempt_no = 1, fe_started_at = 0, fe_finished_at = None\<rparr>]\<rparr>"

text \<open>
  The engine counts attempts under its own run id but stores them under the run id of the
  story's flow. So an instance that takes over a flow starts again at attempt 1 and, when it
  stores the completion, the attempt that an earlier instance stored under that number is gone.
\<close>
theorem new_instance_replaces_attempts:
  assumes sid: "story_id_for (rs_story_dir rs) = Some sid" "ps_story_id p = sid"
    and fresh: "\<forall>(i, a) \<in> set (t_attempts (st_db s)). ar_run_id a \<noteq> rs_run_id rs"
    and old: "(sid, a) \<in> set (t_attempts (st_db s))" "ar_attempt a = 1" "phase_name_value (ar_phase a) = phase"
      "ar_run_id a = run_id_in rs ctx (st_db s)"
    and build: "build_attempt_record (run_id_in rs ctx (st_db s)) phase 1 oc fc t0 t1 d = Inr b"
    and unfrozen: "freeze_rows (st_db s) sid = []"
  shows "\<exists>t. generate_attempt_id rs phase s = (Inr (attempt_id_of phase 1), s)
    \<and> save_phase_completion (rs_story_dir rs) b p s = (Inr (), t)
    \<and> length (t_attempts (st_db t)) \<le> length (t_attempts (st_db s))
    \<and> (a \<noteq> b \<longrightarrow> (sid, a) \<notin> set (t_attempts (st_db t)))"
proof -
  have none: "attempt_rows (st_db s) sid phase (Some (rs_run_id rs)) = []"
  proof -
    have "filter (\<lambda>r. fst r = sid \<and> phase_name_value (ar_phase (snd r)) = phase
        \<and> ar_run_id (snd r) = rs_run_id rs) (t_attempts (st_db s)) = []"
      using fresh by (auto simp: filter_empty_conv)
    then show ?thesis by (simp add: attempt_rows_def)
  qed
  have b: "ar_run_id b = run_id_in rs ctx (st_db s)" "ar_phase b = coerce_phase_name phase" "ar_attempt b = 1"
    using build_attempt_recordD [OF build] by auto
  have key: "attempt_key (sid, b) = attempt_key (sid, a)"
    using b old by (auto simp: attempt_key_def coerce_phase_name_def)
  have "length (filter (\<lambda>x. attempt_key x \<noteq> attempt_key (sid, b)) (t_attempts (st_db s))) < length (t_attempts (st_db s))"
    by (rule length_filter_less [OF old(1)]) (simp add: key)
  then show ?thesis using none sid unfrozen key
    by (auto simp: generate_attempt_id_def load_attempts_def save_phase_completion_def do_write_def write_step_def
        insert_or_replace_def io_app io_run)
qed


theorem new_instance_replaces_attempts_witness:
  "\<exists>t. save_phase_completion ''AG3-007'' (demo_attempt 7) (demo_state PhaseName_SETUP PhaseStatus_COMPLETED)
      (demo_store demo_taken_over_db) = (Inr (), t)
    \<and> (''AG3-007'', demo_attempt 1) \<in> set (t_attempts demo_taken_over_db)
    \<and> (''AG3-007'', demo_attempt 1) \<notin> set (t_attempts (st_db t))"
proof -
  let ?rs = "en_runtime demo_skip_engine"
  have id: "run_id_in ?rs demo_context (st_db (demo_store demo_taken_over_db)) = ''earlier''"
    by (simp add: run_id_in_def demo_taken_over_db_def demo_store_def en_runtime_def demo_skip_engine_def
        story_id_for_def flow_row_def demo_context_def sample_context_def project_key_for_def)
  have build: "build_attempt_record ''earlier'' ''setup'' 1 Outcome_COMPLETED None 0 7 None = Inr (demo_attempt 7)"
    by code_simp
  obtain t where "save_phase_completion (rs_story_dir ?rs) (demo_attempt 7)
      (demo_state PhaseName_SETUP PhaseStatus_COMPLETED) (demo_store demo_taken_over_db) = (Inr (), t)"
    "demo_attempt 1 \<noteq> demo_attempt 7 \<longrightarrow> (''AG3-007'', demo_attempt 1) \<notin> set (t_attempts (st_db t))"
  proof -
    have "\<exists>t. generate_attempt_id ?rs ''setup'' (demo_store demo_taken_over_db)
          = (Inr (attempt_id_of ''setup'' 1), demo_store demo_taken_over_db)
      \<and> save_phase_completion (rs_story_dir ?rs) (demo_attempt 7)
          (demo_state PhaseName_SETUP PhaseStatus_COMPLETED) (demo_store demo_taken_over_db) = (Inr (), t)
      \<and> length (t_attempts (st_db t)) \<le> length (t_attempts (st_db (demo_store demo_taken_over_db)))
      \<and> (demo_attempt 1 \<noteq> demo_attempt 7 \<longrightarrow> (''AG3-007'', demo_attempt 1) \<notin> set (t_attempts (st_db t)))"
      by (rule new_instance_replaces_attempts [where ctx = demo_context, OF _ _ _ _ _ _ _ build [folded id]])
         (simp_all add: id, simp_all add: en_runtime_def demo_skip_engine_def story_id_for_def demo_taken_over_db_def
           demo_store_def demo_state_def demo_attempt_def empty_db_def freeze_rows_def demo_run_id_def)
    then show ?thesis using that by blast
  qed
  then show ?thesis
    by (auto simp: en_runtime_def demo_skip_engine_def demo_attempt_def demo_taken_over_db_def)
qed

end
