(* ===== verification/Qa_Types.thy ===== *)
theory Qa_Types
  imports Story_Context
begin

text \<open>
  The vocabulary of the quality-assurance subflow: severities, trust classes, findings and
  layer results (\<open>verify_system/protocols.py\<close>), the verdict (\<open>core_types\<close>), the contexts it is
  called in and the layers a context selects (\<open>verify_system/routing.py\<close>).

  The metadata of a layer result is a dictionary of JSON values; a tuple, a list and a set of
  strings are all \<open>JList\<close> there.
\<close>

section \<open>Verdicts, severities, trust\<close>

datatype severity = Severity_BLOCKING | Severity_MAJOR | Severity_MINOR

fun severity_value :: "severity \<Rightarrow> string" where
  "severity_value Severity_BLOCKING = ''BLOCKING''"
| "severity_value Severity_MAJOR = ''MAJOR''"
| "severity_value Severity_MINOR = ''MINOR''"

datatype policy_verdict = Verdict_PASS | Verdict_FAIL

datatype trust_class = Trust_SYSTEM | Trust_VERIFIED_LLM | Trust_WORKER_ASSERTION

record finding =
  fd_layer :: string
  fd_check :: string
  fd_severity :: severity
  fd_message :: string
  fd_trust_class :: trust_class
  fd_file_path :: "string option"
  fd_line_number :: "int option"
  fd_suggestion :: "string option"
  fd_finding_type :: "string option"
  fd_addressed_part :: string

text \<open>\<open>Finding(layer=..., check=..., severity=..., message=..., trust_class=...)\<close>: the defaults.\<close>

definition new_finding :: "string \<Rightarrow> string \<Rightarrow> severity \<Rightarrow> string \<Rightarrow> trust_class \<Rightarrow> finding" where
  "new_finding layer check sev msg trust = \<lparr>fd_layer = layer, fd_check = check, fd_severity = sev,
     fd_message = msg, fd_trust_class = trust, fd_file_path = None, fd_line_number = None,
     fd_suggestion = None, fd_finding_type = None, fd_addressed_part = []\<rparr>"

lemma new_finding_sel [simp]:
  "fd_layer (new_finding l c v m t) = l" "fd_check (new_finding l c v m t) = c"
  "fd_severity (new_finding l c v m t) = v" "fd_trust_class (new_finding l c v m t) = t"
  by (simp_all add: new_finding_def)

type_synonym metadata = "(string \<times> json) list"

text \<open>\<open>artifacts/reference.py\<close>\<close>

record artifact_reference =
  af_artifact_class :: artifact_class
  af_story_id :: string
  af_run_id :: string
  af_record_key :: string

record layer_result =
  lr_layer :: string
  lr_passed :: bool
  lr_findings :: "finding list"
  lr_metadata :: metadata
  lr_artifact_reference :: "artifact_reference option"

section \<open>Contexts and routing\<close>

datatype qa_layer_kind =
    Kind_STRUCTURAL | Kind_LLM_EVALUATOR | Kind_ADVERSARIAL | Kind_SONARQUBE_GATE | Kind_POLICY

definition implementation_layers :: "qa_layer_kind list" where
  "implementation_layers =
     [Kind_STRUCTURAL, Kind_LLM_EVALUATOR, Kind_ADVERSARIAL, Kind_SONARQUBE_GATE, Kind_POLICY]"

definition exploration_layers :: "qa_layer_kind list" where
  "exploration_layers = [Kind_LLM_EVALUATOR, Kind_POLICY]"

fun select_layers :: "qa_context \<Rightarrow> qa_layer_kind list" where
  "select_layers IMPLEMENTATION_INITIAL = implementation_layers"
| "select_layers IMPLEMENTATION_REMEDIATION = implementation_layers"
| "select_layers EXPLORATION_INITIAL = exploration_layers"
| "select_layers EXPLORATION_REMEDIATION = exploration_layers"

definition remediation_contexts :: "qa_context list" where
  "remediation_contexts = [IMPLEMENTATION_REMEDIATION, EXPLORATION_REMEDIATION]"

section \<open>Blank strings\<close>

definition blank :: "string \<Rightarrow> bool" where
  "blank s = (py_strip s = [])"

lemma not_blank_Cons: "\<not> is_space c \<Longrightarrow> \<not> blank (c # cs)"
  by (simp add: blank_def py_strip_def dropWhile_append)

text \<open>The string list in a metadata entry, if it is one.\<close>

fun json_str :: "json \<Rightarrow> string option" where
  "json_str (JStr s) = Some s"
| "json_str _ = None"

fun json_strings :: "json \<Rightarrow> string list option" where
  "json_strings (JList xs) = those (map json_str xs)"
| "json_strings _ = None"

lemma those_map_JStr [simp]: "those (map (json_str \<circ> JStr) xs) = Some xs"
  by (induction xs) simp_all

lemma json_strings_JStr [simp]: "json_strings (JList (map JStr xs)) = Some xs"
  by simp

end
