(* ===== verification/Stage_Registry.thy ===== *)
theory Stage_Registry
  imports Qa_Types
begin

text \<open>
  The stage registry of the quality-assurance subflow (\<open>verify_system/stage_registry/\<close>): the typed
  stage profiles, the canonical catalogue, the construction of a registry with its fail-closed
  validation, and the queries: which stages apply to a story, which stage a layer result stands
  for, and which stages a set of results covers.

  A dictionary is an association list in insertion order; a frozen set of names a list. The
  messages of the validation errors leave out the list of offending names.
\<close>

section \<open>Stage profiles\<close>

datatype execution_policy_kind = Stage_ALWAYS | Stage_IF_LAYER_PASSES | Stage_IF_PREVIOUS_PASS

datatype stage_kind = Stage_DETERMINISTIC | Stage_LLM_EVALUATION | Stage_AGENT | Stage_POLICY

datatype stage_override_policy = Override_BLOCKING_ONLY | Override_NONE

record stage_definition =
  sd_stage_id :: string
  sd_layer :: nat
  sd_severity :: severity
  sd_applies_to :: "story_type list"
  sd_kind :: stage_kind
  sd_trust_class :: "trust_class option"
  sd_producer :: string
  sd_override_policy :: stage_override_policy
  sd_execution_policy :: execution_policy_kind
  sd_escalated :: bool
  sd_feature_gated_are :: bool
  sd_origin_check_ref :: "string option"
  sd_layer_result_name :: "string option"
  sd_blocking_override :: "bool option"

definition default_blocking :: "stage_definition \<Rightarrow> bool" where
  "default_blocking s = (sd_severity s = Severity_BLOCKING)"

definition effective_blocking :: "stage_definition \<Rightarrow> bool" where
  "effective_blocking s = (case sd_blocking_override s of Some b \<Rightarrow> b | None \<Rightarrow> default_blocking s)"

definition result_name :: "stage_definition \<Rightarrow> string" where
  "result_name s = (case sd_layer_result_name s of None \<Rightarrow> sd_stage_id s | Some n \<Rightarrow> n)"

section \<open>Producers\<close>

definition STRUCTURAL_PRODUCER :: string where "STRUCTURAL_PRODUCER = ''verify-system.layer-1-structural''"
definition QA_REVIEW_PRODUCER :: string where "QA_REVIEW_PRODUCER = ''verify-system.layer-2-qa-review''"
definition SEMANTIC_REVIEW_PRODUCER :: string where
  "SEMANTIC_REVIEW_PRODUCER = ''verify-system.layer-2-semantic-review''"
definition DOC_FIDELITY_PRODUCER :: string where
  "DOC_FIDELITY_PRODUCER = ''verify-system.layer-2-doc-fidelity''"
definition CONTEXT_SUFFICIENCY_PRODUCER :: string where
  "CONTEXT_SUFFICIENCY_PRODUCER = ''verify-system.layer-2-context-sufficiency''"
definition ADVERSARIAL_PRODUCER :: string where
  "ADVERSARIAL_PRODUCER = ''verify-system.layer-3-adversarial''"
definition SONARQUBE_GATE_PRODUCER :: string where
  "SONARQUBE_GATE_PRODUCER = ''verify-system.layer-1-sonarqube-gate''"
definition CONCEPT_FEEDBACK_PRODUCER :: string where
  "CONCEPT_FEEDBACK_PRODUCER = ''verify-system.layer-2-concept-feedback''"
definition RESEARCH_QUALITY_PRODUCER :: string where
  "RESEARCH_QUALITY_PRODUCER = ''verify-system.layer-1-research-quality''"
definition POLICY_PRODUCER :: string where "POLICY_PRODUCER = ''verify-system.layer-4-policy''"
definition STABILITY_GATE_PRODUCER :: string where
  "STABILITY_GATE_PRODUCER = ''verify-system.stability-gate''"

lemmas producer_defs = STRUCTURAL_PRODUCER_def QA_REVIEW_PRODUCER_def SEMANTIC_REVIEW_PRODUCER_def
  DOC_FIDELITY_PRODUCER_def CONTEXT_SUFFICIENCY_PRODUCER_def ADVERSARIAL_PRODUCER_def
  SONARQUBE_GATE_PRODUCER_def CONCEPT_FEEDBACK_PRODUCER_def RESEARCH_QUALITY_PRODUCER_def
  POLICY_PRODUCER_def STABILITY_GATE_PRODUCER_def

section \<open>The canonical catalogue\<close>

definition code_producing :: "story_type list" where
  "code_producing = [StoryType_IMPLEMENTATION, StoryType_BUGFIX]"

text \<open>\<open>StageDefinition(...)\<close> with its defaults; the records below override what they name.\<close>

definition new_stage :: "string \<Rightarrow> nat \<Rightarrow> severity \<Rightarrow> story_type list \<Rightarrow> stage_definition" where
  "new_stage i l v a = \<lparr>sd_stage_id = i, sd_layer = l, sd_severity = v, sd_applies_to = a,
     sd_kind = Stage_DETERMINISTIC, sd_trust_class = Some Trust_SYSTEM, sd_producer = STRUCTURAL_PRODUCER,
     sd_override_policy = Override_BLOCKING_ONLY, sd_execution_policy = Stage_ALWAYS,
     sd_escalated = False, sd_feature_gated_are = False, sd_origin_check_ref = None,
     sd_layer_result_name = None, sd_blocking_override = None\<rparr>"

definition stage_always :: "string \<Rightarrow> severity \<Rightarrow> stage_definition" where
  "stage_always i v = new_stage i 1 v code_producing"

definition stage_if_layer :: "string \<Rightarrow> severity \<Rightarrow> stage_definition" where
  "stage_if_layer i v = (stage_always i v)\<lparr>sd_execution_policy := Stage_IF_LAYER_PASSES\<rparr>"

definition stage_bugfix :: "string \<Rightarrow> stage_definition" where
  "stage_bugfix i =
     (new_stage i 1 Severity_BLOCKING [StoryType_BUGFIX])\<lparr>sd_override_policy := Override_NONE\<rparr>"

definition LAYER_1_STAGES :: "stage_definition list" where
  "LAYER_1_STAGES =
    [stage_always ''artifact.protocol'' Severity_BLOCKING,
     stage_always ''artifact.worker_manifest'' Severity_BLOCKING,
     stage_always ''artifact.manifest_claims'' Severity_BLOCKING,
     stage_always ''artifact.handover'' Severity_BLOCKING,
     stage_if_layer ''branch.story'' Severity_BLOCKING,
     stage_if_layer ''branch.commit_trailers'' Severity_BLOCKING,
     stage_if_layer ''completion.commit'' Severity_BLOCKING,
     stage_if_layer ''completion.push'' Severity_BLOCKING,
     stage_if_layer ''security.secrets'' Severity_BLOCKING,
     stage_if_layer ''security.secrets_content'' Severity_BLOCKING,
     stage_if_layer ''build.compile'' Severity_BLOCKING,
     stage_if_layer ''build.test_execution'' Severity_BLOCKING,
     stage_if_layer ''test.count'' Severity_MAJOR,
     stage_if_layer ''test.coverage'' Severity_MAJOR,
     stage_if_layer ''hygiene.todo_fixme'' Severity_MINOR,
     stage_if_layer ''hygiene.disabled_tests'' Severity_MINOR,
     stage_if_layer ''hygiene.commented_code'' Severity_MINOR,
     stage_always ''guard.llm_reviews'' Severity_BLOCKING,
     stage_always ''guard.review_compliance'' Severity_MAJOR,
     stage_always ''guard.no_violations'' Severity_BLOCKING,
     stage_always ''guard.multi_llm'' Severity_BLOCKING,
     (stage_always ''are.gate'' Severity_BLOCKING)\<lparr>sd_feature_gated_are := True\<rparr>,
     (stage_if_layer ''impact.violation'' Severity_BLOCKING)\<lparr>sd_escalated := True\<rparr>,
     stage_bugfix ''bugfix.reproducer_manifest'',
     stage_bugfix ''bugfix.red_evidence'',
     stage_bugfix ''bugfix.green_evidence'',
     stage_bugfix ''bugfix.suite_evidence'',
     stage_bugfix ''bugfix.red_green_consistency'']"

definition llm_stage :: "string \<Rightarrow> story_type list \<Rightarrow> string \<Rightarrow> stage_definition" where
  "llm_stage i a p = (new_stage i 2 Severity_BLOCKING a)\<lparr>sd_kind := Stage_LLM_EVALUATION,
     sd_trust_class := Some Trust_VERIFIED_LLM, sd_producer := p\<rparr>"

definition STANDARD_STAGES :: "stage_definition list" where
  "STANDARD_STAGES = LAYER_1_STAGES @
    [(new_stage ''sonarqube_gate'' 1 Severity_BLOCKING code_producing)\<lparr>sd_producer := SONARQUBE_GATE_PRODUCER\<rparr>,
     (new_stage ''research_quality'' 1 Severity_MINOR [StoryType_RESEARCH])
       \<lparr>sd_producer := RESEARCH_QUALITY_PRODUCER\<rparr>,
     llm_stage ''qa_review'' code_producing QA_REVIEW_PRODUCER,
     llm_stage ''semantic_review'' code_producing SEMANTIC_REVIEW_PRODUCER,
     (llm_stage ''doc_fidelity_impl'' code_producing DOC_FIDELITY_PRODUCER)
       \<lparr>sd_layer_result_name := Some ''doc_fidelity''\<rparr>,
     (new_stage ''context_sufficiency'' 2 Severity_MINOR code_producing)
       \<lparr>sd_producer := CONTEXT_SUFFICIENCY_PRODUCER, sd_override_policy := Override_NONE\<rparr>,
     llm_stage ''concept_feedback'' [StoryType_CONCEPT] CONCEPT_FEEDBACK_PRODUCER,
     (new_stage ''adversarial'' 3 Severity_BLOCKING code_producing)
       \<lparr>sd_kind := Stage_AGENT, sd_trust_class := Some Trust_VERIFIED_LLM,
        sd_producer := ADVERSARIAL_PRODUCER\<rparr>,
     (new_stage ''policy'' 4 Severity_BLOCKING code_producing)
       \<lparr>sd_kind := Stage_POLICY, sd_producer := POLICY_PRODUCER, sd_override_policy := Override_NONE\<rparr>]"

definition integration_stage :: "string \<Rightarrow> nat \<Rightarrow> stage_kind \<Rightarrow> stage_definition" where
  "integration_stage i l k = (new_stage i l Severity_BLOCKING [StoryType_IMPLEMENTATION])
     \<lparr>sd_kind := k, sd_producer := STABILITY_GATE_PRODUCER, sd_override_policy := Override_NONE\<rparr>"

definition ALL_STAGES :: "stage_definition list" where
  "ALL_STAGES = STANDARD_STAGES @
    [integration_stage ''integration.manifest_approval_required'' 1 Stage_DETERMINISTIC,
     integration_stage ''integration.binding_integrity'' 1 Stage_DETERMINISTIC,
     integration_stage ''integration.declared_surfaces_only'' 1 Stage_DETERMINISTIC,
     integration_stage ''integration.stabilization_budget_not_exhausted'' 1 Stage_DETERMINISTIC,
     integration_stage ''integration.integration_target_matrix_passed'' 4 Stage_POLICY,
     integration_stage ''stability_gate'' 4 Stage_POLICY]"

lemmas catalogue_defs = ALL_STAGES_def STANDARD_STAGES_def LAYER_1_STAGES_def integration_stage_def
  llm_stage_def stage_always_def stage_if_layer_def stage_bugfix_def new_stage_def code_producing_def

section \<open>Registries\<close>

record stage_registry =
  sr_stages :: "stage_definition list"
  sr_stage_overrides :: "(string \<times> bool) list"
  sr_native_check_origin_refs :: "(string \<times> string option) list"
  sr_stage_result_stage_ids :: "(string \<times> string) list"
  sr_stage_result_producers :: "(string \<times> string) list"
  sr_aggregate_result_stage_ids :: "(string \<times> string) list"
  sr_aggregate_result_producers :: "(string \<times> string) list"
  sr_aggregate_result_stage_coverage :: "(string \<times> string list) list"
  sr_result_additional_stage_coverage :: "(string \<times> string list) list"

text \<open>The arguments of the constructor; \<open>None\<close> asks for the derived mapping.\<close>

record registry_args =
  ra_stages :: "stage_definition list"
  ra_stage_overrides :: "(string \<times> bool) list"
  ra_native_check_origin_refs :: "(string \<times> string option) list"
  ra_stage_result_stage_ids :: "(string \<times> string) list option"
  ra_stage_result_producers :: "(string \<times> string) list option"
  ra_aggregate_result_stage_ids :: "(string \<times> string) list"
  ra_aggregate_result_producers :: "(string \<times> string) list"
  ra_aggregate_result_stage_coverage :: "(string \<times> string list) list option"
  ra_result_additional_stage_coverage :: "(string \<times> string list) list option"

text \<open>Some value occurs more than once.\<close>

definition ambiguous :: "'a list \<Rightarrow> bool" where
  "ambiguous xs = list_ex (\<lambda>x. length (filter ((=) x) xs) \<noteq> 1) xs"

definition build_stage_result_catalog ::
  "stage_definition list \<Rightarrow> exn + (string \<times> string) list \<times> (string \<times> string) list" where
  "build_stage_result_catalog stages =
    (if ambiguous (map result_name stages)
     then Inl (ValueError ''ambiguous LayerResult names claimed by stage definitions'')
     else Inr (map (\<lambda>s. (result_name s, sd_stage_id s)) stages,
               map (\<lambda>s. (result_name s, sd_producer s)) stages))"

fun validate_stage_definitions :: "string list \<Rightarrow> stage_definition list \<Rightarrow> exn + unit" where
  "validate_stage_definitions seen [] = Inr ()"
| "validate_stage_definitions seen (s # stages) =
    (if blank (sd_stage_id s)
     then Inl (ValueError ''stage id must not be empty or whitespace-only'')
     else if pred_option blank (sd_layer_result_name s) \<and> sd_layer_result_name s \<noteq> None
     then Inl (ValueError (''layer result name for stage '' @ py_repr (sd_stage_id s)
            @ '' must not be empty or whitespace-only''))
     else if sd_stage_id s \<in> set seen
     then Inl (ValueError (''duplicate stage id in registry: '' @ py_repr (sd_stage_id s)))
     else validate_stage_definitions (sd_stage_id s # seen) stages)"

definition override_stage :: "(string \<times> bool) list \<Rightarrow> stage_definition \<Rightarrow> exn + stage_definition" where
  "override_stage overrides s =
    (case map_of overrides (sd_stage_id s) of
       None \<Rightarrow> Inr s
     | Some b \<Rightarrow>
         if sd_override_policy s = Override_NONE
         then Inl (ValueError (''stage '' @ py_repr (sd_stage_id s) @ '' does not allow blocking overrides''))
         else Inr (s\<lparr>sd_blocking_override := Some b\<rparr>))"

fun override_stages ::
  "(string \<times> bool) list \<Rightarrow> stage_definition list \<Rightarrow> exn + stage_definition list" where
  "override_stages overrides [] = Inr []"
| "override_stages overrides (s # stages) = (case override_stage overrides s of
      Inl e \<Rightarrow> Inl e
    | Inr t \<Rightarrow>
        if sd_trust_class t = Some Trust_WORKER_ASSERTION \<and> effective_blocking t
        then Inl (ValueError (''stage '' @ py_repr (sd_stage_id t)
               @ '' has trust class C and is blocking; Trust-C stages must never block''))
        else (case override_stages overrides stages of Inl e \<Rightarrow> Inl e | Inr ts \<Rightarrow> Inr (t # ts)))"

definition apply_stage_overrides ::
  "(string \<times> bool) list \<Rightarrow> stage_definition list \<Rightarrow> exn + stage_definition list" where
  "apply_stage_overrides overrides stages =
    (if list_ex (\<lambda>o'. fst o' \<notin> sd_stage_id ` set stages) overrides
     then Inl (ValueError ''unknown stage override(s)'')
     else override_stages overrides stages)"

definition validate_result_catalog_names :: "(string \<times> string) list \<Rightarrow> exn + unit" where
  "validate_result_catalog_names entries = (case List.find (\<lambda>(n, i). blank n \<or> blank i) entries of
      None \<Rightarrow> Inr ()
    | Some (n, i) \<Rightarrow>
        if blank n then Inl (ValueError ''layer result name must not be empty or whitespace-only'')
        else Inl (ValueError (''canonical stage id for result '' @ py_repr n
                   @ '' must not be empty or whitespace-only'')))"

definition validate_producer_catalog ::
  "string \<Rightarrow> (string \<times> string) list \<Rightarrow> (string \<times> string) list \<Rightarrow> exn + unit" where
  "validate_producer_catalog catalog_name result_stage_ids result_producers =
    (if list_ex (\<lambda>p. fst p \<notin> fst ` set result_stage_ids) result_producers
     then Inl (ValueError (catalog_name @ '' producer(s) have no registered result identity''))
     else if list_ex (\<lambda>r. fst r \<notin> fst ` set result_producers) result_stage_ids
     then Inl (ValueError (catalog_name @ ''(s) have no registered producer''))
     else if list_ex (\<lambda>p. blank (snd p)) result_producers
     then Inl (ValueError (catalog_name @ '' producer(s) must not be empty''))
     else Inr ())"

text \<open>The sequence of two validations: the first error wins.\<close>

definition and_then :: "exn + unit \<Rightarrow> exn + 'a \<Rightarrow> exn + 'a" where
  "and_then a b = (case a of Inl e \<Rightarrow> Inl e | Inr _ \<Rightarrow> b)"

definition validate_result_catalog_relations ::
  "(string \<times> string) list \<Rightarrow> (string \<times> string) list \<Rightarrow> (string \<times> string) list \<Rightarrow> (string \<times> string) list
     \<Rightarrow> exn + unit" where
  "validate_result_catalog_relations stage_ids stage_producers aggregate_ids aggregate_producers =
    (if ambiguous (map fst (stage_ids @ aggregate_ids))
     then Inl (ValueError ''ambiguous LayerResult names in stage registry'')
     else if ambiguous (map snd (stage_ids @ aggregate_ids))
     then Inl (ValueError ''canonical stage ids have ambiguous LayerResult owners'')
     else and_then (validate_producer_catalog ''stage result'' stage_ids stage_producers)
            (validate_producer_catalog ''aggregate result'' aggregate_ids aggregate_producers))"

definition DEFAULT_AGGREGATE_RESULT_STAGE_IDS :: "(string \<times> string) list" where
  "DEFAULT_AGGREGATE_RESULT_STAGE_IDS = [(''structural'', ''structural'')]"

definition DEFAULT_AGGREGATE_RESULT_PRODUCERS :: "(string \<times> string) list" where
  "DEFAULT_AGGREGATE_RESULT_PRODUCERS = [(''structural'', STRUCTURAL_PRODUCER)]"

definition DEFAULT_RESULT_ADDITIONAL_STAGE_COVERAGE :: "(string \<times> string list) list" where
  "DEFAULT_RESULT_ADDITIONAL_STAGE_COVERAGE =
     [(''stability_gate'', [''integration.integration_target_matrix_passed''])]"

definition structural_coverage :: "stage_definition list \<Rightarrow> string list" where
  "structural_coverage stages =
     map sd_stage_id (filter (\<lambda>s. sd_layer s = 1 \<and> sd_stage_id s \<noteq> ''sonarqube_gate'') stages)"

text \<open>\<open>_configure_result_coverage\<close>: derive the two coverage maps, then validate them.\<close>

definition aggregate_coverage_of ::
  "registry_args \<Rightarrow> stage_definition list \<Rightarrow> (string \<times> string list) list" where
  "aggregate_coverage_of a stages = (case ra_aggregate_result_stage_coverage a of
      Some c \<Rightarrow> c
    | None \<Rightarrow> if ''structural'' \<in> fst ` set (ra_aggregate_result_stage_ids a)
              then [(''structural'', structural_coverage stages)] else [])"

definition additional_coverage_of ::
  "registry_args \<Rightarrow> string list \<Rightarrow> string list \<Rightarrow> (string \<times> string list) list" where
  "additional_coverage_of a result_names stage_ids = (case ra_result_additional_stage_coverage a of
      Some c \<Rightarrow> c
    | None \<Rightarrow> filter (\<lambda>(n, c). n \<in> set result_names \<and> set c \<subseteq> set stage_ids)
                DEFAULT_RESULT_ADDITIONAL_STAGE_COVERAGE)"

definition validate_result_coverage ::
  "(string \<times> string list) list \<Rightarrow> (string \<times> string list) list \<Rightarrow> (string \<times> string) list
     \<Rightarrow> string list \<Rightarrow> string list \<Rightarrow> exn + unit" where
  "validate_result_coverage aggregate additional aggregate_ids result_names stage_ids =
    (if list_ex (\<lambda>c. fst c \<notin> fst ` set aggregate_ids) aggregate
     then Inl (ValueError ''aggregate coverage has no registered result identity'')
     else if list_ex (\<lambda>c. fst c \<notin> set result_names) additional
     then Inl (ValueError ''additional coverage has no registered result identity'')
     else if list_ex (\<lambda>c. \<not> set (snd c) \<subseteq> set stage_ids) (aggregate @ additional)
     then Inl (ValueError ''result coverage references unknown stage id(s)'')
     else Inr ())"

definition or_derived :: "'a option \<Rightarrow> 'a \<Rightarrow> 'a" where
  "or_derived x d = (case x of Some v \<Rightarrow> v | None \<Rightarrow> d)"

text \<open>\<open>__post_init__\<close>, in the order of the source.\<close>

definition new_stage_registry :: "registry_args \<Rightarrow> exn + stage_registry" where
  "new_stage_registry a =
    and_then (validate_stage_definitions [] (ra_stages a))
    (case apply_stage_overrides (ra_stage_overrides a) (ra_stages a) of
       Inl e \<Rightarrow> Inl e
     | Inr stages \<Rightarrow> (case build_stage_result_catalog stages of
         Inl e \<Rightarrow> Inl e
       | Inr (derived_ids, derived_producers) \<Rightarrow>
           let stage_ids = or_derived (ra_stage_result_stage_ids a) derived_ids;
               stage_producers = or_derived (ra_stage_result_producers a) derived_producers;
               aggregate_ids = ra_aggregate_result_stage_ids a;
               registered_names = map fst (stage_ids @ aggregate_ids);
               registered_ids = map sd_stage_id stages @ map snd (stage_ids @ aggregate_ids);
               aggregate = aggregate_coverage_of a stages;
               additional = additional_coverage_of a registered_names registered_ids in
           and_then (validate_result_catalog_names (stage_ids @ aggregate_ids))
           (and_then (validate_result_catalog_relations stage_ids stage_producers aggregate_ids
                        (ra_aggregate_result_producers a))
           (and_then (validate_result_coverage aggregate additional aggregate_ids registered_names
                        registered_ids)
           (Inr \<lparr>sr_stages = stages, sr_stage_overrides = ra_stage_overrides a,
                 sr_native_check_origin_refs = ra_native_check_origin_refs a,
                 sr_stage_result_stage_ids = stage_ids, sr_stage_result_producers = stage_producers,
                 sr_aggregate_result_stage_ids = aggregate_ids,
                 sr_aggregate_result_producers = ra_aggregate_result_producers a,
                 sr_aggregate_result_stage_coverage = aggregate,
                 sr_result_additional_stage_coverage = additional\<rparr>)))))"

text \<open>\<open>StageRegistry(stages=..., stage_overrides=...)\<close> with every other argument at its default.\<close>

definition registry_args_of ::
  "(string \<times> string option) list \<Rightarrow> stage_definition list \<Rightarrow> (string \<times> bool) list \<Rightarrow> registry_args" where
  "registry_args_of native stages overrides = \<lparr>ra_stages = stages, ra_stage_overrides = overrides,
     ra_native_check_origin_refs = native, ra_stage_result_stage_ids = None,
     ra_stage_result_producers = None,
     ra_aggregate_result_stage_ids = DEFAULT_AGGREGATE_RESULT_STAGE_IDS,
     ra_aggregate_result_producers = DEFAULT_AGGREGATE_RESULT_PRODUCERS,
     ra_aggregate_result_stage_coverage = None, ra_result_additional_stage_coverage = None\<rparr>"

definition result_catalog_only :: "(string \<times> string option) list \<Rightarrow> exn + stage_registry" where
  "result_catalog_only native = (case build_stage_result_catalog ALL_STAGES of
      Inl e \<Rightarrow> Inl e
    | Inr (ids, producers) \<Rightarrow> new_stage_registry ((registry_args_of native [] [])
        \<lparr>ra_stage_result_stage_ids := Some ids, ra_stage_result_producers := Some producers\<rparr>))"

text \<open>\<open>check_origins.py\<close>: the built-in checks, none of which has a failure-corpus origin.\<close>

definition PHASE_SNAPSHOT_CHECK_IDS :: "(string \<times> string) list" where
  "PHASE_SNAPSHOT_CHECK_IDS = [(''setup'', ''phase_snapshots.setup''),
     (''exploration'', ''phase_snapshots.exploration''),
     (''implementation'', ''phase_snapshots.implementation''), (''closure'', ''phase_snapshots.closure'')]"

definition NATIVE_CHECK_IDS :: "string list" where
  "NATIVE_CHECK_IDS =
    [''adversarial_runtime'', ''context_exists'', ''context_valid'', ''doc_fidelity.missing_docstring'',
     ''doc_fidelity.no_concept_anchor'', ''doc_fidelity.pydantic_config_missing'', ''fast_tests_green'',
     ''implementation_evidence.required_after_exploration'', ''layer2_input.missing'', ''layer2_llm.failure'',
     ''layer_execution'', ''no_corrupt_state'', ''no_test_executed'', ''proven_finding'',
     ''qa_review.coverage_unknown'', ''qa_review.edge_cases_thin'', ''qa_review.no_tests'',
     ''semantic.dangling_concept_ref'', ''semantic.naming_violation'', ''semantic.todo_in_production'',
     ''sonarqube_green_gate'', ''sparring_missing'',
     ''ac_fulfilled'', ''arch_conformity'', ''authz_logic'', ''backward_compat'', ''doc_impact'',
     ''error_handling'', ''impact_violation'', ''impl_fidelity'', ''observability'', ''proportionality'',
     ''scope_compliance'', ''silent_data_loss'', ''systemic_adequacy'', ''conflict_assessment'']
     @ map snd PHASE_SNAPSHOT_CHECK_IDS"

definition NATIVE_CHECK_ORIGIN_REFS :: "(string \<times> string option) list" where
  "NATIVE_CHECK_ORIGIN_REFS = map (\<lambda>c. (c, None)) NATIVE_CHECK_IDS"

definition phase_snapshot_check_id :: "string \<Rightarrow> exn + string" where
  "phase_snapshot_check_id phase = (case map_of PHASE_SNAPSHOT_CHECK_IDS phase of
      Some c \<Rightarrow> Inr c
    | None \<Rightarrow> Inl (ValueError (''unknown phase snapshot check phase: '' @ py_repr phase)))"

text \<open>\<open>StageRegistry()\<close>\<close>

definition default_registry_args :: registry_args where
  "default_registry_args = registry_args_of NATIVE_CHECK_ORIGIN_REFS ALL_STAGES []"

section \<open>Queries\<close>

definition id_starts_with :: "string \<Rightarrow> string \<Rightarrow> bool" where
  "id_starts_with s p = (take (length p) s = p)"

definition is_integration_stabilization_stage :: "string \<Rightarrow> bool" where
  "is_integration_stabilization_stage i = (id_starts_with i ''integration.'' \<or> i = ''stability_gate'')"

definition stages_for ::
  "stage_registry \<Rightarrow> story_type \<Rightarrow> implementation_contract option \<Rightarrow> stage_definition list" where
  "stages_for r st contract = filter (\<lambda>s. st \<in> set (sd_applies_to s)
     \<and> (contract = Some Contract_INTEGRATION_STABILIZATION
        \<or> \<not> is_integration_stabilization_stage (sd_stage_id s))) (sr_stages r)"

definition stage_for_id ::
  "stage_registry \<Rightarrow> string \<Rightarrow> implementation_contract option \<Rightarrow> stage_definition option" where
  "stage_for_id r i contract =
    (if contract \<noteq> Some Contract_INTEGRATION_STABILIZATION \<and> is_integration_stabilization_stage i
     then None else List.find (\<lambda>s. sd_stage_id s = i) (sr_stages r))"

definition layer1_stages_for ::
  "stage_registry \<Rightarrow> story_type \<Rightarrow> bool \<Rightarrow> implementation_contract option \<Rightarrow> stage_definition list" where
  "layer1_stages_for r st are_enabled contract = filter (\<lambda>s. sd_layer s = 1
     \<and> sd_stage_id s \<noteq> ''sonarqube_gate'' \<and> (are_enabled \<or> \<not> sd_feature_gated_are s))
     (stages_for r st contract)"

definition result_names_for_layer :: "stage_registry \<Rightarrow> nat \<Rightarrow> string list" where
  "result_names_for_layer r l = map result_name (filter (\<lambda>s. sd_layer s = l) (sr_stages r))"

definition opt_list :: "'a option \<Rightarrow> 'a list" where
  "opt_list x = (case x of None \<Rightarrow> [] | Some y \<Rightarrow> [y])"

definition canonical_stage_id_for_result_name :: "stage_registry \<Rightarrow> string \<Rightarrow> exn + string" where
  "canonical_stage_id_for_result_name r n =
    (case opt_list (map_of (sr_stage_result_stage_ids r) n)
          @ opt_list (map_of (sr_aggregate_result_stage_ids r) n) of
       [] \<Rightarrow> Inl (ValueError (''unknown LayerResult name '' @ py_repr n @ '' in stage registry''))
     | [i] \<Rightarrow> Inr i
     | _ \<Rightarrow> Inl (ValueError (''ambiguous LayerResult name '' @ py_repr n @ '' in stage registry'')))"

definition producer_for_result_name :: "stage_registry \<Rightarrow> string \<Rightarrow> exn + string" where
  "producer_for_result_name r n = (case map_of (sr_aggregate_result_producers r) n of
      Some p \<Rightarrow> Inr p
    | None \<Rightarrow> (case canonical_stage_id_for_result_name r n of
        Inl e \<Rightarrow> Inl e
      | Inr _ \<Rightarrow> (case map_of (sr_stage_result_producers r) n of
          Some p \<Rightarrow> Inr p
        | None \<Rightarrow> Inl (ValueError (''LayerResult name '' @ py_repr n @ '' has no projectable producer'')))))"

definition registered_stage_ids :: "stage_registry \<Rightarrow> string list" where
  "registered_stage_ids r = map sd_stage_id (sr_stages r) @ map snd (sr_stage_result_stage_ids r)
     @ map snd (sr_aggregate_result_stage_ids r)"

definition executed_check_ids_for_coverage :: "layer_result \<Rightarrow> exn + string list" where
  "executed_check_ids_for_coverage lr = (case map_of (lr_metadata lr) ''executed_check_ids'' of
      None \<Rightarrow> Inr []
    | Some v \<Rightarrow> (case json_strings v of
        None \<Rightarrow> Inl (ValueError (''LayerResult metadata['' @ quote @ ''executed_check_ids'' @ quote
                   @ ''] must be a string list or tuple''))
      | Some ids \<Rightarrow> Inr ids))"

definition result_coverage_for ::
  "stage_registry \<Rightarrow> layer_result \<Rightarrow> string \<Rightarrow> string list \<Rightarrow> string list \<Rightarrow> string list" where
  "result_coverage_for r lr canonical executed expected =
    (if lr_layer lr \<in> fst ` set (sr_aggregate_result_stage_ids r)
     then filter (\<lambda>i. i \<in> set expected)
            (or_derived (map_of (sr_aggregate_result_stage_coverage r) (lr_layer lr)) [canonical])
     else filter (\<lambda>i. i \<in> set expected) [canonical]
          @ filter (\<lambda>i. i \<in> set executed \<and> i \<in> set expected)
              (or_derived (map_of (sr_result_additional_stage_coverage r) (lr_layer lr)) []))"

text \<open>\<open>metadata.get("stage_ids")\<close>: a present \<open>None\<close> counts as absent.\<close>

definition validate_metadata_stage_coverage :: "layer_result \<Rightarrow> string list \<Rightarrow> exn + unit" where
  "validate_metadata_stage_coverage lr coverage = (case map_of (lr_metadata lr) ''stage_ids'' of
      None \<Rightarrow> Inr ()
    | Some JNull \<Rightarrow> Inr ()
    | Some v \<Rightarrow> (case json_strings v of
        None \<Rightarrow> Inl (ValueError (''LayerResult metadata['' @ quote @ ''stage_ids'' @ quote
                   @ ''] must be a string sequence''))
      | Some claimed \<Rightarrow>
          if set claimed \<noteq> set coverage
          then Inl (ValueError (''LayerResult '' @ py_repr (lr_layer lr)
                 @ '' metadata stage coverage does not match registry and execution plan''))
          else Inr ()))"

definition result_coverage ::
  "stage_registry \<Rightarrow> string list \<Rightarrow> layer_result \<Rightarrow> exn + string list" where
  "result_coverage r expected lr = (case canonical_stage_id_for_result_name r (lr_layer lr) of
      Inl e \<Rightarrow> Inl e
    | Inr canonical \<Rightarrow> (case executed_check_ids_for_coverage lr of
        Inl e \<Rightarrow> Inl e
      | Inr executed \<Rightarrow>
          let coverage = result_coverage_for r lr canonical executed expected in
          and_then (validate_metadata_stage_coverage lr coverage) (Inr coverage)))"

fun covered_by ::
  "stage_registry \<Rightarrow> string list \<Rightarrow> layer_result list \<Rightarrow> exn + string list" where
  "covered_by r expected [] = Inr []"
| "covered_by r expected (lr # lrs) = (case result_coverage r expected lr of
      Inl e \<Rightarrow> Inl e
    | Inr c \<Rightarrow> (case covered_by r expected lrs of Inl e \<Rightarrow> Inl e | Inr cs \<Rightarrow> Inr (c @ cs)))"

definition produced_stage_ids ::
  "stage_registry \<Rightarrow> layer_result list \<Rightarrow> string list \<Rightarrow> exn + string list" where
  "produced_stage_ids r lrs expected =
    (if list_ex (\<lambda>i. i \<notin> set (registered_stage_ids r)) expected
     then Inl (ValueError ''execution plan references unknown stage id(s)'')
     else covered_by r expected lrs)"

definition resolve_check_origin_refs ::
  "stage_registry \<Rightarrow> (string \<times> string) list \<Rightarrow> string list \<Rightarrow> (string \<rightharpoonup> string option)" where
  "resolve_check_origin_refs r target_sources executed =
    (let origins = map_of (sr_native_check_origin_refs r)
                   ++ map_of (rev (map (\<lambda>s. (sd_stage_id s, sd_origin_check_ref s)) (sr_stages r))) in
     (\<lambda>c. if c \<notin> set executed then None
          else case origins c of
            Some ref \<Rightarrow> Some ref
          | None \<Rightarrow> (case map_of target_sources c of None \<Rightarrow> None | Some src \<Rightarrow> origins src)))"

section \<open>What construction guarantees\<close>

lemma not_ambiguous [simp]: "\<not> ambiguous xs \<longleftrightarrow> distinct xs"
proof (induction xs)
  case (Cons x xs)
  have "filter ((=) y) xs = [] \<longleftrightarrow> y \<notin> set xs" for y by (auto simp: filter_empty_conv)
  then show ?case using Cons by (auto simp: ambiguous_def list_ex_iff)
qed (simp add: ambiguous_def)

lemma not_list_ex: "\<not> list_ex (\<lambda>x. \<not> P x) xs \<longleftrightarrow> list_all P xs"
  by (auto simp: list_ex_iff list_all_iff)

lemma and_then_Inr [simp]: "and_then a b = Inr x \<longleftrightarrow> a = Inr () \<and> b = Inr x"
  by (auto simp: and_then_def split: sum.splits)

lemma and_then_run: "and_then (Inr ()) b = b"
  by (simp add: and_then_def)

lemma if_Inl_Inr [simp]: "(if b then Inl e else y) = Inr x \<longleftrightarrow> \<not> b \<and> y = Inr x"
  by simp

lemma validate_stage_definitions_ok:
  "validate_stage_definitions seen stages = Inr () \<Longrightarrow>
    distinct (map sd_stage_id stages) \<and> set seen \<inter> sd_stage_id ` set stages = {}
    \<and> (\<forall>s \<in> set stages. \<not> blank (sd_stage_id s))"
  by (induction seen stages rule: validate_stage_definitions.induct) (auto split: if_splits)

lemma override_stage_keeps:
  "override_stage ov s = Inr t \<Longrightarrow> t = s\<lparr>sd_blocking_override := sd_blocking_override t\<rparr>
    \<and> (sd_blocking_override t \<noteq> sd_blocking_override s \<longrightarrow>
        map_of ov (sd_stage_id s) = sd_blocking_override t \<and> sd_override_policy s = Override_BLOCKING_ONLY)"
  by (cases "sd_override_policy s") (auto simp: override_stage_def split: option.splits if_splits)

lemma override_stages_all2:
  "override_stages ov stages = Inr ts \<Longrightarrow> list_all2 (\<lambda>s t. override_stage ov s = Inr t
     \<and> \<not> (sd_trust_class t = Some Trust_WORKER_ASSERTION \<and> effective_blocking t)) stages ts"
  by (induction ov stages arbitrary: ts rule: override_stages.induct)
     (auto split: sum.splits if_splits)

lemma override_stage_id: "override_stage ov s = Inr t \<Longrightarrow> sd_stage_id t = sd_stage_id s"
  by (auto simp: override_stage_def split: option.splits if_splits)

lemma override_stages_ids: "override_stages ov stages = Inr ts \<Longrightarrow> map sd_stage_id ts = map sd_stage_id stages"
  by (drule override_stages_all2, induction rule: list_all2_induct) (auto dest: override_stage_id)

lemma new_stage_registry_cases:
  assumes "new_stage_registry a = Inr r"
  obtains ids producers where
    "validate_stage_definitions [] (ra_stages a) = Inr ()"
    "apply_stage_overrides (ra_stage_overrides a) (ra_stages a) = Inr (sr_stages r)"
    "build_stage_result_catalog (sr_stages r) = Inr (ids, producers)"
    "sr_stage_result_stage_ids r = or_derived (ra_stage_result_stage_ids a) ids"
    "sr_stage_result_producers r = or_derived (ra_stage_result_producers a) producers"
    "sr_aggregate_result_stage_ids r = ra_aggregate_result_stage_ids a"
    "sr_aggregate_result_producers r = ra_aggregate_result_producers a"
    "validate_result_catalog_relations (sr_stage_result_stage_ids r) (sr_stage_result_producers r)
       (sr_aggregate_result_stage_ids r) (sr_aggregate_result_producers r) = Inr ()"
    "validate_result_coverage (sr_aggregate_result_stage_coverage r) (sr_result_additional_stage_coverage r)
       (sr_aggregate_result_stage_ids r)
       (map fst (sr_stage_result_stage_ids r @ sr_aggregate_result_stage_ids r))
       (registered_stage_ids r) = Inr ()"
    "sr_aggregate_result_stage_coverage r = aggregate_coverage_of a (sr_stages r)"
    "sr_result_additional_stage_coverage r = additional_coverage_of a
       (map fst (sr_stage_result_stage_ids r @ sr_aggregate_result_stage_ids r)) (registered_stage_ids r)"
  using assms
  by (auto simp: new_stage_registry_def Let_def registered_stage_ids_def split: sum.splits prod.splits)

lemma new_stage_registry_ok:
  assumes "new_stage_registry a = Inr r"
  shows "override_stages (ra_stage_overrides a) (ra_stages a) = Inr (sr_stages r)"
    and "distinct (map sd_stage_id (sr_stages r))"
    and "distinct (map fst (sr_stage_result_stage_ids r @ sr_aggregate_result_stage_ids r))"
    and "distinct (map snd (sr_stage_result_stage_ids r @ sr_aggregate_result_stage_ids r))"
    and "list_all (\<lambda>c. set (snd c) \<subseteq> set (registered_stage_ids r))
           (sr_aggregate_result_stage_coverage r @ sr_result_additional_stage_coverage r)"
proof -
  from assms obtain ids producers where
    v: "validate_stage_definitions [] (ra_stages a) = Inr ()"
    and o': "apply_stage_overrides (ra_stage_overrides a) (ra_stages a) = Inr (sr_stages r)"
    and rel: "validate_result_catalog_relations (sr_stage_result_stage_ids r) (sr_stage_result_producers r)
       (sr_aggregate_result_stage_ids r) (sr_aggregate_result_producers r) = Inr ()"
    and cov: "validate_result_coverage (sr_aggregate_result_stage_coverage r) (sr_result_additional_stage_coverage r)
       (sr_aggregate_result_stage_ids r)
       (map fst (sr_stage_result_stage_ids r @ sr_aggregate_result_stage_ids r))
       (registered_stage_ids r) = Inr ()"
    by (rule new_stage_registry_cases)
  show st: "override_stages (ra_stage_overrides a) (ra_stages a) = Inr (sr_stages r)"
    using o' by (simp add: apply_stage_overrides_def split: if_splits)
  show "distinct (map sd_stage_id (sr_stages r))"
    using validate_stage_definitions_ok [OF v] override_stages_ids [OF st] by simp
  show "distinct (map fst (sr_stage_result_stage_ids r @ sr_aggregate_result_stage_ids r))"
    and "distinct (map snd (sr_stage_result_stage_ids r @ sr_aggregate_result_stage_ids r))"
    using rel by (simp_all only: validate_result_catalog_relations_def if_Inl_Inr not_ambiguous not_not)
  show "list_all (\<lambda>c. set (snd c) \<subseteq> set (registered_stage_ids r))
           (sr_aggregate_result_stage_coverage r @ sr_result_additional_stage_coverage r)"
    using cov by (simp only: validate_result_coverage_def if_Inl_Inr not_list_ex)
qed

lemma canonical_stage_id_iff:
  assumes "new_stage_registry a = Inr r"
  shows "canonical_stage_id_for_result_name r n = Inr i \<longleftrightarrow>
    (n, i) \<in> set (sr_stage_result_stage_ids r @ sr_aggregate_result_stage_ids r)"
proof -
  let ?s = "sr_stage_result_stage_ids r" and ?a = "sr_aggregate_result_stage_ids r"
  have d: "distinct (map fst ?s)" "distinct (map fst ?a)" "fst ` set ?s \<inter> fst ` set ?a = {}"
    using new_stage_registry_ok(3) [OF assms] by auto
  have "map_of ?s n = Some i \<longleftrightarrow> (n, i) \<in> set ?s" "map_of ?a n = Some i \<longleftrightarrow> (n, i) \<in> set ?a"
    using d by simp_all
  moreover have "map_of ?s n = None \<or> map_of ?a n = None"
    using d(3) by (auto simp: map_of_eq_None_iff)
  ultimately show ?thesis
    by (cases "map_of ?s n"; cases "map_of ?a n")
       (simp_all add: canonical_stage_id_for_result_name_def opt_list_def)
qed

text \<open>
  A registry that its constructor accepts is unambiguous: stage ids are distinct, the overrides
  changed nothing but the blocking flag of stages whose policy allows it, no stage of trust class C
  blocks, a layer result name resolves to exactly the stage its catalogue owns, and no two result
  names resolve to one stage.
\<close>
theorem registry_is_unambiguous:
  assumes "new_stage_registry a = Inr r"
  shows "distinct (map sd_stage_id (sr_stages r))
    \<and> list_all2 (\<lambda>s t. t = s\<lparr>sd_blocking_override := sd_blocking_override t\<rparr>
        \<and> (sd_blocking_override t \<noteq> sd_blocking_override s \<longrightarrow>
             map_of (ra_stage_overrides a) (sd_stage_id s) = sd_blocking_override t
             \<and> sd_override_policy s = Override_BLOCKING_ONLY)) (ra_stages a) (sr_stages r)
    \<and> (\<forall>t \<in> set (sr_stages r). sd_trust_class t = Some Trust_WORKER_ASSERTION \<longrightarrow> \<not> effective_blocking t)
    \<and> (canonical_stage_id_for_result_name r n = Inr i \<longleftrightarrow>
         (n, i) \<in> set (sr_stage_result_stage_ids r @ sr_aggregate_result_stage_ids r))
    \<and> (canonical_stage_id_for_result_name r n = Inr i \<and> canonical_stage_id_for_result_name r m = Inr i \<longrightarrow> n = m)"
proof -
  note ok = new_stage_registry_ok [OF assms] and canonical = canonical_stage_id_iff [OF assms]
  note all2 = override_stages_all2 [OF ok(1)]
  have "list_all2 (\<lambda>s t. t = s\<lparr>sd_blocking_override := sd_blocking_override t\<rparr>
        \<and> (sd_blocking_override t \<noteq> sd_blocking_override s \<longrightarrow>
             map_of (ra_stage_overrides a) (sd_stage_id s) = sd_blocking_override t
             \<and> sd_override_policy s = Override_BLOCKING_ONLY)) (ra_stages a) (sr_stages r)"
    by (rule list_all2_mono [OF all2]) (use override_stage_keeps in blast)
  moreover have "\<forall>t \<in> set (sr_stages r). sd_trust_class t = Some Trust_WORKER_ASSERTION \<longrightarrow> \<not> effective_blocking t"
    using all2 by (auto simp: list_all2_conv_all_nth in_set_conv_nth)
  moreover have "n = m" if "(n, i) \<in> set (sr_stage_result_stage_ids r @ sr_aggregate_result_stage_ids r)"
    "(m, i) \<in> set (sr_stage_result_stage_ids r @ sr_aggregate_result_stage_ids r)"
    using ok(4) that by (force simp only: distinct_map inj_on_def snd_conv prod.inject)
  ultimately show ?thesis using ok(2) canonical by blast
qed

text \<open>The canonical catalogue is accepted as it stands.\<close>

definition registry_for_stages :: "stage_definition list \<Rightarrow> stage_registry" where
  "registry_for_stages stages = \<lparr>sr_stages = stages, sr_stage_overrides = [],
     sr_native_check_origin_refs = NATIVE_CHECK_ORIGIN_REFS,
     sr_stage_result_stage_ids = map (\<lambda>s. (result_name s, sd_stage_id s)) stages,
     sr_stage_result_producers = map (\<lambda>s. (result_name s, sd_producer s)) stages,
     sr_aggregate_result_stage_ids = DEFAULT_AGGREGATE_RESULT_STAGE_IDS,
     sr_aggregate_result_producers = DEFAULT_AGGREGATE_RESULT_PRODUCERS,
     sr_aggregate_result_stage_coverage = [(''structural'', structural_coverage stages)],
     sr_result_additional_stage_coverage = filter (\<lambda>(n, c). n \<in> result_name ` set stages
        \<and> set c \<subseteq> sd_stage_id ` set stages) DEFAULT_RESULT_ADDITIONAL_STAGE_COVERAGE\<rparr>"

definition plain_stage :: "stage_definition \<Rightarrow> bool" where
  "plain_stage s \<longleftrightarrow> \<not> blank (sd_stage_id s) \<and> \<not> blank (result_name s) \<and> \<not> blank (sd_producer s)
     \<and> sd_trust_class s \<noteq> Some Trust_WORKER_ASSERTION"

lemma validate_stage_definitions_plain:
  "distinct (map sd_stage_id stages) \<Longrightarrow> set seen \<inter> sd_stage_id ` set stages = {} \<Longrightarrow>
    list_all plain_stage stages \<Longrightarrow> validate_stage_definitions seen stages = Inr ()"
  by (induction seen stages rule: validate_stage_definitions.induct)
     (auto simp: plain_stage_def result_name_def split: option.splits)

lemma override_stages_plain: "list_all plain_stage stages \<Longrightarrow> override_stages [] stages = Inr stages"
  by (induction stages) (auto simp: plain_stage_def override_stage_def)

lemma registry_for_stages:
  assumes d: "distinct (map sd_stage_id stages)" "distinct (map result_name stages)"
    and p: "list_all plain_stage stages"
    and s: "''structural'' \<notin> sd_stage_id ` set stages" "''structural'' \<notin> result_name ` set stages"
  shows "new_stage_registry (registry_args_of NATIVE_CHECK_ORIGIN_REFS stages []) = Inr (registry_for_stages stages)"
proof -
  have nb: "\<not> blank ''structural''" "\<not> blank STRUCTURAL_PRODUCER"
    by (simp_all add: not_blank_Cons is_space_def STRUCTURAL_PRODUCER_def)
  have names: "validate_result_catalog_names (map (\<lambda>s. (result_name s, sd_stage_id s)) stages
      @ DEFAULT_AGGREGATE_RESULT_STAGE_IDS) = Inr ()"
    using p nb by (auto simp: validate_result_catalog_names_def DEFAULT_AGGREGATE_RESULT_STAGE_IDS_def
        plain_stage_def list_all_iff dest!: find_SomeD split: option.splits)
  have amb: "\<not> ambiguous (map fst (map (\<lambda>s. (result_name s, sd_stage_id s)) stages @ DEFAULT_AGGREGATE_RESULT_STAGE_IDS))"
    "\<not> ambiguous (map snd (map (\<lambda>s. (result_name s, sd_stage_id s)) stages @ DEFAULT_AGGREGATE_RESULT_STAGE_IDS))"
    "\<not> ambiguous (map result_name stages)"
    using d s by (simp_all add: DEFAULT_AGGREGATE_RESULT_STAGE_IDS_def comp_def)
  have prod: "validate_producer_catalog ''stage result'' (map (\<lambda>s. (result_name s, sd_stage_id s)) stages)
      (map (\<lambda>s. (result_name s, sd_producer s)) stages) = Inr ()"
    "validate_producer_catalog ''aggregate result'' DEFAULT_AGGREGATE_RESULT_STAGE_IDS
      DEFAULT_AGGREGATE_RESULT_PRODUCERS = Inr ()"
    using p nb by (auto simp: validate_producer_catalog_def list_ex_iff list_all_iff plain_stage_def image_image
        DEFAULT_AGGREGATE_RESULT_STAGE_IDS_def DEFAULT_AGGREGATE_RESULT_PRODUCERS_def)
  let ?a = "registry_args_of NATIVE_CHECK_ORIGIN_REFS stages []"
  let ?names = "map fst (map (\<lambda>s. (result_name s, sd_stage_id s)) stages @ DEFAULT_AGGREGATE_RESULT_STAGE_IDS)"
  let ?ids = "map sd_stage_id stages @ map snd (map (\<lambda>s. (result_name s, sd_stage_id s)) stages
    @ DEFAULT_AGGREGATE_RESULT_STAGE_IDS)"
  have agg: "aggregate_coverage_of ?a stages = [(''structural'', structural_coverage stages)]"
    by (simp add: aggregate_coverage_of_def registry_args_of_def DEFAULT_AGGREGATE_RESULT_STAGE_IDS_def)
  have add: "additional_coverage_of ?a ?names ?ids = sr_result_additional_stage_coverage (registry_for_stages stages)"
    by (auto simp: additional_coverage_of_def registry_args_of_def registry_for_stages_def
        DEFAULT_RESULT_ADDITIONAL_STAGE_COVERAGE_def DEFAULT_AGGREGATE_RESULT_STAGE_IDS_def)
  have "validate_result_coverage (aggregate_coverage_of ?a stages) (additional_coverage_of ?a ?names ?ids)
      DEFAULT_AGGREGATE_RESULT_STAGE_IDS ?names ?ids = Inr ()"
    unfolding agg by (auto simp: validate_result_coverage_def list_ex_iff structural_coverage_def
        DEFAULT_AGGREGATE_RESULT_STAGE_IDS_def additional_coverage_of_def registry_args_of_def)
  note coverage = this [unfolded add agg]
  have rel: "validate_result_catalog_relations (map (\<lambda>s. (result_name s, sd_stage_id s)) stages)
      (map (\<lambda>s. (result_name s, sd_producer s)) stages)
      DEFAULT_AGGREGATE_RESULT_STAGE_IDS DEFAULT_AGGREGATE_RESULT_PRODUCERS = Inr ()"
    using amb prod by (simp only: validate_result_catalog_relations_def if_False and_then_run)
  have stages: "validate_stage_definitions [] stages = Inr ()"
    by (rule validate_stage_definitions_plain [OF d(1) _ p]) simp
  have args: "ra_stages ?a = stages" "ra_stage_overrides ?a = []" "ra_stage_result_stage_ids ?a = None"
    "ra_native_check_origin_refs ?a = NATIVE_CHECK_ORIGIN_REFS"
    "ra_stage_result_producers ?a = None" "ra_aggregate_result_stage_ids ?a = DEFAULT_AGGREGATE_RESULT_STAGE_IDS"
    "ra_aggregate_result_producers ?a = DEFAULT_AGGREGATE_RESULT_PRODUCERS"
    by (simp_all add: registry_args_of_def)
  have or: "or_derived None y = y" for y :: 'b by (simp add: or_derived_def)
  have over: "apply_stage_overrides [] stages = Inr stages"
    using override_stages_plain [OF p] by (simp add: apply_stage_overrides_def)
  have catalog: "build_stage_result_catalog stages =
      Inr (map (\<lambda>s. (result_name s, sd_stage_id s)) stages, map (\<lambda>s. (result_name s, sd_producer s)) stages)"
    using amb(3) by (simp only: build_stage_result_catalog_def if_False)
  show ?thesis
    unfolding new_stage_registry_def args over catalog Let_def sum.case prod.case or agg add names rel
      coverage stages and_then_run
    by (simp add: registry_for_stages_def)
qed

definition default_registry :: stage_registry where
  "default_registry = registry_for_stages ALL_STAGES"

lemma all_stage_ids: "map sd_stage_id ALL_STAGES =
    [''artifact.protocol'', ''artifact.worker_manifest'', ''artifact.manifest_claims'', ''artifact.handover'',
     ''branch.story'', ''branch.commit_trailers'', ''completion.commit'', ''completion.push'',
     ''security.secrets'', ''security.secrets_content'', ''build.compile'', ''build.test_execution'',
     ''test.count'', ''test.coverage'', ''hygiene.todo_fixme'', ''hygiene.disabled_tests'',
     ''hygiene.commented_code'', ''guard.llm_reviews'', ''guard.review_compliance'', ''guard.no_violations'',
     ''guard.multi_llm'', ''are.gate'', ''impact.violation'', ''bugfix.reproducer_manifest'',
     ''bugfix.red_evidence'', ''bugfix.green_evidence'', ''bugfix.suite_evidence'',
     ''bugfix.red_green_consistency'', ''sonarqube_gate'', ''research_quality'', ''qa_review'',
     ''semantic_review'', ''doc_fidelity_impl'', ''context_sufficiency'', ''concept_feedback'', ''adversarial'',
     ''policy'', ''integration.manifest_approval_required'', ''integration.binding_integrity'',
     ''integration.declared_surfaces_only'', ''integration.stabilization_budget_not_exhausted'',
     ''integration.integration_target_matrix_passed'', ''stability_gate'']"
  by (simp add: catalogue_defs)

lemma all_stage_results: "map (\<lambda>s. (result_name s, sd_stage_id s)) ALL_STAGES =
    map (\<lambda>i. (if i = ''doc_fidelity_impl'' then ''doc_fidelity'' else i, i)) (map sd_stage_id ALL_STAGES)"
  by (simp add: catalogue_defs result_name_def)

lemma all_result_names: "map result_name ALL_STAGES =
    map (\<lambda>i. if i = ''doc_fidelity_impl'' then ''doc_fidelity'' else i) (map sd_stage_id ALL_STAGES)"
  using arg_cong [OF all_stage_results, of "map fst"] by (simp add: comp_def)

lemma default_registry: "new_stage_registry default_registry_args = Inr default_registry"
  unfolding default_registry_args_def default_registry_def
proof (rule registry_for_stages)
  show "distinct (map sd_stage_id ALL_STAGES)" by (simp add: all_stage_ids)
  show "distinct (map result_name ALL_STAGES)" by (simp add: all_result_names all_stage_ids)
  show "''structural'' \<notin> sd_stage_id ` set ALL_STAGES"
    by (simp flip: set_map add: all_stage_ids)
  show "''structural'' \<notin> result_name ` set ALL_STAGES"
    by (simp flip: set_map add: all_result_names all_stage_ids)
  show "list_all plain_stage ALL_STAGES"
    by (simp add: catalogue_defs plain_stage_def result_name_def not_blank_Cons is_space_def producer_defs)
qed

lemma registry_is_unambiguous_witness:
  "canonical_stage_id_for_result_name default_registry ''doc_fidelity'' = Inr ''doc_fidelity_impl''
   \<and> distinct (map sd_stage_id (sr_stages default_registry))"
  using registry_is_unambiguous [OF default_registry, of "''doc_fidelity''" "''doc_fidelity_impl''"]
  by (simp add: default_registry_def registry_for_stages_def all_stage_results all_stage_ids)

end
