(* ===== verification/Policy_Engine.thy ===== *)
theory Policy_Engine
  imports Stage_Registry "HOL-Library.AList"
begin

text \<open>
  The policy layer (\<open>verify_system/policy_engine/\<close> and \<open>stage_coverage_mapping.py\<close>): which stages
  of the executed route are missing a result, which findings block, the verdict with its summary
  and warnings, and the projection of a decision into its artifact.

  The theorems characterise the verdict exactly, and show that neither worker self-reports nor
  context-sufficiency warnings have a say in it.
\<close>

section \<open>The layers of a route\<close>

definition layer_number_for_kind :: "stage_registry \<Rightarrow> qa_layer_kind \<Rightarrow> exn + nat" where
  "layer_number_for_kind r k =
    (case (case k of
        Kind_STRUCTURAL \<Rightarrow> stage_for_id r ''artifact.protocol'' None
      | Kind_SONARQUBE_GATE \<Rightarrow> stage_for_id r ''sonarqube_gate'' None
      | Kind_LLM_EVALUATOR \<Rightarrow> List.find (\<lambda>s. sd_kind s = Stage_LLM_EVALUATION) (sr_stages r)
      | Kind_ADVERSARIAL \<Rightarrow> stage_for_id r ''adversarial'' None
      | Kind_POLICY \<Rightarrow> stage_for_id r ''policy'' None) of
       Some s \<Rightarrow> Inr (sd_layer s)
     | None \<Rightarrow> Inl (ValueError ''cannot resolve layer for routed QA kind''))"

fun layer_numbers :: "stage_registry \<Rightarrow> qa_layer_kind list \<Rightarrow> exn + nat list" where
  "layer_numbers r [] = Inr []"
| "layer_numbers r (k # ks) = (case layer_number_for_kind r k of
      Inl e \<Rightarrow> Inl e
    | Inr n \<Rightarrow> (case layer_numbers r ks of Inl e \<Rightarrow> Inl e | Inr ns \<Rightarrow> Inr (n # ns)))"

text \<open>A frozen set of layer numbers is a list. The registry is \<open>StageRegistry()\<close>.\<close>

definition traversed_layers :: "qa_layer_kind list \<Rightarrow> exn + nat list" where
  "traversed_layers ks = (case new_stage_registry default_registry_args of
      Inl e \<Rightarrow> Inl e
    | Inr r \<Rightarrow> layer_numbers r ks)"

section \<open>Decisions\<close>

record policy_warning =
  pw_stage_id :: string
  pw_detail :: string
  pw_source_artifact :: string

record verify_decision =
  vd_passed :: bool
  vd_verdict :: policy_verdict
  vd_layer_results :: "layer_result list"
  vd_all_findings :: "finding list"
  vd_blocking_findings :: "finding list"
  vd_summary :: string
  vd_max_major_findings :: int
  vd_warnings :: "policy_warning list"

record policy_engine =
  pe_max_major_per_type :: "(story_type \<times> int) list"
  pe_registry :: stage_registry

definition DEFAULT_MAJOR_THRESHOLD :: int where
  "DEFAULT_MAJOR_THRESHOLD = 3"

definition DEFAULT_MAX_MAJOR_FINDINGS_PER_STORY_TYPE :: "(story_type \<times> int) list" where
  "DEFAULT_MAX_MAJOR_FINDINGS_PER_STORY_TYPE =
     [(StoryType_IMPLEMENTATION, DEFAULT_MAJOR_THRESHOLD), (StoryType_BUGFIX, DEFAULT_MAJOR_THRESHOLD),
      (StoryType_CONCEPT, DEFAULT_MAJOR_THRESHOLD), (StoryType_RESEARCH, DEFAULT_MAJOR_THRESHOLD)]"

definition new_policy_engine ::
  "(story_type \<times> int) list option \<Rightarrow> stage_registry option \<Rightarrow> exn + policy_engine" where
  "new_policy_engine thresholds registry =
    (case (case registry of Some r \<Rightarrow> Inr r | None \<Rightarrow> new_stage_registry default_registry_args) of
       Inl e \<Rightarrow> Inl e
     | Inr r \<Rightarrow> Inr \<lparr>pe_max_major_per_type =
         (case thresholds of Some t \<Rightarrow> t | None \<Rightarrow> DEFAULT_MAX_MAJOR_FINDINGS_PER_STORY_TYPE),
         pe_registry = r\<rparr>)"

definition threshold_for :: "policy_engine \<Rightarrow> story_type \<Rightarrow> exn + int" where
  "threshold_for pe st = (case map_of (pe_max_major_per_type pe) st of
      Some n \<Rightarrow> Inr n
    | None \<Rightarrow> Inl (ValueError (''no MAJOR threshold configured for story_type ''
        @ py_repr (story_type_value st) @ '' (FK-33 '' @ section_sign @ ''33.7.3 fail-closed)'')))"

section \<open>What blocks\<close>

definition trust_can_block :: "finding \<Rightarrow> bool" where
  "trust_can_block f = (fd_trust_class f \<in> {Trust_SYSTEM, Trust_VERIFIED_LLM})"

fun append_new :: "'a list \<Rightarrow> 'a list \<Rightarrow> 'a list" where
  "append_new b [] = b"
| "append_new b (x # xs) = append_new (if x \<in> set b then b else b @ [x]) xs"

definition compute_blocking :: "finding list \<Rightarrow> int \<Rightarrow> finding list" where
  "compute_blocking findings max_major =
    (let eligible = filter trust_can_block findings;
         blocking = filter (\<lambda>f. fd_severity f = Severity_BLOCKING) eligible;
         all_major = filter (\<lambda>f. fd_severity f = Severity_MAJOR) eligible in
     if int (length all_major) > max_major then append_new blocking all_major else blocking)"

section \<open>Summaries and warnings\<close>

definition count_severity :: "severity \<Rightarrow> finding list \<Rightarrow> nat" where
  "count_severity v fs = length (filter (\<lambda>f. fd_severity f = v) fs)"

definition build_fail_summary :: "finding list \<Rightarrow> string" where
  "build_fail_summary blocking =
    (let b = count_severity Severity_BLOCKING blocking; m = count_severity Severity_MAJOR blocking;
         parts = (if b \<noteq> 0 then [show_nat b @ '' blocking''] else [])
                 @ (if m \<noteq> 0 then [show_nat m @ '' major''] else []) in
     ''FAIL: '' @ show_nat (length blocking) @ '' blocking finding(s) ('' @ join '', '' parts @ '').'')"

fun severity_counts :: "(string \<times> nat) list \<Rightarrow> finding list \<Rightarrow> (string \<times> nat) list" where
  "severity_counts counts [] = counts"
| "severity_counts counts (f # fs) =
     (let v = severity_value (fd_severity f) in
      severity_counts (AList.update v (or_derived (map_of counts v) 0 + 1) counts) fs)"

definition build_warnings_summary :: "finding list \<Rightarrow> string" where
  "build_warnings_summary findings =
    ''PASS with warnings: '' @ show_nat (length findings) @ '' finding(s) (''
    @ join '', '' (map (\<lambda>(sev, n). show_nat n @ '' '' @ sev) (severity_counts [] findings)) @ '').''"

text \<open>The optional artifact is a dictionary.\<close>

definition context_sufficiency_warnings :: "(string \<times> json) list option \<Rightarrow> policy_warning list" where
  "context_sufficiency_warnings artifact = (case artifact of None \<Rightarrow> [] | Some a \<Rightarrow>
    (case map_of a ''sufficiency'' of
       Some (JStr s) \<Rightarrow>
         if s = ''sufficient'' then []
         else [\<lparr>pw_stage_id = ''context_sufficiency'',
                pw_detail = ''Context sufficiency: '' @ s @ ''; ''
                  @ show_nat (case map_of a ''gaps'' of Some (JList gs) \<Rightarrow> length gs | _ \<Rightarrow> 0)
                  @ '' gaps identified'',
                pw_source_artifact = ''context_sufficiency.json''\<rparr>]
     | _ \<Rightarrow> []))"

section \<open>Missing stages\<close>

definition planned_stages ::
  "policy_engine \<Rightarrow> story_type \<Rightarrow> nat list \<Rightarrow> bool \<Rightarrow> implementation_contract option
     \<Rightarrow> stage_definition list" where
  "planned_stages pe st layers are_enabled contract =
    filter (\<lambda>s. sd_stage_id s \<noteq> ''policy'' \<and> sd_layer s \<in> set layers
              \<and> (are_enabled \<or> \<not> sd_feature_gated_are s)) (stages_for (pe_registry pe) st contract)"

definition missing_finding :: "stage_definition \<Rightarrow> finding" where
  "missing_finding s = new_finding ''policy'' (sd_stage_id s) Severity_BLOCKING
     (''missing artifact for blocking stage '' @ py_repr (sd_stage_id s) @ '' with producer ''
       @ py_repr (sd_producer s) @ '' in traversed layer '' @ show_nat (sd_layer s)
       @ '' -> fail-closed (FK-33 '' @ section_sign @ ''33.7)'') Trust_SYSTEM"

definition missing_stage_findings ::
  "policy_engine \<Rightarrow> layer_result list \<Rightarrow> story_type \<Rightarrow> nat list \<Rightarrow> bool
     \<Rightarrow> implementation_contract option \<Rightarrow> exn + finding list" where
  "missing_stage_findings pe lrs st layers are_enabled contract =
    (let planned = planned_stages pe st layers are_enabled contract in
     case produced_stage_ids (pe_registry pe) lrs (map sd_stage_id planned) of
       Inl e \<Rightarrow> Inl e
     | Inr produced \<Rightarrow> Inr (map missing_finding
         (filter (\<lambda>s. effective_blocking s \<and> sd_stage_id s \<notin> set produced) planned)))"

section \<open>The decision\<close>

definition show_list :: "nat list \<Rightarrow> string" where
  "show_list ns = ''['' @ join '', '' (map show_nat ns) @ '']''"

definition validate_traversed_layers :: "nat list \<Rightarrow> exn + unit" where
  "validate_traversed_layers layers =
    (let unknown = filter (\<lambda>n. n \<notin> {1, 2, 3, 4}) layers in
     if layers = [] then Inl (ValueError ''traversed_layers must not be empty (fail-closed)'')
     else if unknown \<noteq> []
     then Inl (ValueError (''traversed_layers contains unknown layer(s): ''
            @ show_list (sorted_list_of_set (set unknown))))
     else if 4 \<notin> set layers
     then Inl (ValueError ''traversed_layers must include mandatory policy layer 4'')
     else Inr ())"

definition decide ::
  "policy_engine \<Rightarrow> layer_result list \<Rightarrow> story_type \<Rightarrow> nat list \<Rightarrow> bool
     \<Rightarrow> (string \<times> json) list option \<Rightarrow> implementation_contract option \<Rightarrow> exn + verify_decision" where
  "decide pe lrs st layers are_enabled sufficiency contract =
    and_then (validate_traversed_layers layers)
    (case threshold_for pe st of
       Inl e \<Rightarrow> Inl e
     | Inr max_major \<Rightarrow> (case missing_stage_findings pe lrs st layers are_enabled contract of
         Inl e \<Rightarrow> Inl e
       | Inr missing \<Rightarrow>
           let all_findings = concat (map lr_findings lrs) @ missing;
               blocking = compute_blocking all_findings max_major;
               passed = (blocking = []) in
           Inr \<lparr>vd_passed = passed, vd_verdict = (if passed then Verdict_PASS else Verdict_FAIL),
                vd_layer_results = lrs, vd_all_findings = all_findings,
                vd_blocking_findings = blocking,
                vd_summary = (if blocking \<noteq> [] then build_fail_summary blocking
                              else if all_findings \<noteq> [] then build_warnings_summary all_findings
                              else ''All QA layers passed with no findings.''),
                vd_max_major_findings = max_major,
                vd_warnings = context_sufficiency_warnings sufficiency\<rparr>))"

section \<open>Projections\<close>

definition json_opt :: "('a \<Rightarrow> json) \<Rightarrow> 'a option \<Rightarrow> json" where
  "json_opt f x = (case x of None \<Rightarrow> JNull | Some y \<Rightarrow> f y)"

fun trust_class_value :: "trust_class \<Rightarrow> string" where
  "trust_class_value Trust_SYSTEM = ''A''"
| "trust_class_value Trust_VERIFIED_LLM = ''B''"
| "trust_class_value Trust_WORKER_ASSERTION = ''C''"

fun policy_verdict_value :: "policy_verdict \<Rightarrow> string" where
  "policy_verdict_value Verdict_PASS = ''PASS''"
| "policy_verdict_value Verdict_FAIL = ''FAIL''"

definition serialize_finding :: "finding \<Rightarrow> (string \<times> json) list" where
  "serialize_finding f = [(''layer'', JStr (fd_layer f)), (''check'', JStr (fd_check f)),
     (''severity'', JStr (severity_value (fd_severity f))), (''message'', JStr (fd_message f)),
     (''trust_class'', JStr (trust_class_value (fd_trust_class f))),
     (''file_path'', json_opt JStr (fd_file_path f)), (''line_number'', json_opt JInt (fd_line_number f)),
     (''suggestion'', json_opt JStr (fd_suggestion f)),
     (''finding_type'', json_opt JStr (fd_finding_type f)), (''addressed_part'', JStr (fd_addressed_part f))]"

definition serialize_layer_result :: "layer_result \<Rightarrow> int \<Rightarrow> (string \<times> json) list" where
  "serialize_layer_result lr attempt_nr = [(''layer'', JStr (lr_layer lr)), (''passed'', JBool (lr_passed lr)),
     (''attempt_nr'', JInt attempt_nr),
     (''findings'', JList (map (\<lambda>f. JObj (serialize_finding f)) (lr_findings lr))),
     (''metadata'', JObj (lr_metadata lr))]"

definition build_verify_decision_artifact :: "verify_decision \<Rightarrow> int \<Rightarrow> (string \<times> json) list" where
  "build_verify_decision_artifact d attempt_nr =
    [(''passed'', JBool (vd_passed d)), (''status'', JStr (policy_verdict_value (vd_verdict d))),
     (''major_threshold'', JInt (vd_max_major_findings d)),
     (''layers'', JList (map (\<lambda>lr. JObj [(''layer'', JStr (lr_layer lr)), (''passed'', JBool (lr_passed lr)),
        (''findings_count'', JInt (int (length (lr_findings lr)))),
        (''metadata'', JObj (lr_metadata lr))]) (vd_layer_results d))),
     (''blocking_findings'', JList (map (\<lambda>f. JObj [(''layer'', JStr (fd_layer f)),
        (''check'', JStr (fd_check f)), (''severity'', JStr (severity_value (fd_severity f))),
        (''message'', JStr (fd_message f))]) (vd_blocking_findings d))),
     (''warnings'', JList (map (\<lambda>w. JObj [(''stage_id'', JStr (pw_stage_id w)),
        (''detail'', JStr (pw_detail w)), (''source_artifact'', JStr (pw_source_artifact w))]) (vd_warnings d))),
     (''all_findings_count'', JInt (int (length (vd_all_findings d)))),
     (''summary'', JStr (vd_summary d)), (''attempt_nr'', JInt attempt_nr)]"

text \<open>\<open>bool(x)\<close>\<close>

fun truthy :: "json \<Rightarrow> bool" where
  "truthy JNull = False"
| "truthy (JBool b) = b"
| "truthy (JInt i) = (i \<noteq> 0)"
| "truthy (JStr s) = (s \<noteq> [])"
| "truthy (JList xs) = (xs \<noteq> [])"
| "truthy (JObj kvs) = (kvs \<noteq> [])"

definition verify_decision_passed :: "(string \<times> json) list \<Rightarrow> bool" where
  "verify_decision_passed data = (case map_of data ''status'' of
      Some (JStr s) \<Rightarrow> truthy (or_derived (map_of data ''passed'') JNull) \<and> s = policy_verdict_value Verdict_PASS
    | _ \<Rightarrow> False)"

fun envelope_status_from_verdict :: "policy_verdict \<Rightarrow> envelope_status" where
  "envelope_status_from_verdict Verdict_PASS = Envelope_PASS"
| "envelope_status_from_verdict Verdict_FAIL = Envelope_FAIL"

fun severity_score :: "severity \<Rightarrow> int" where
  "severity_score Severity_BLOCKING = 100"
| "severity_score Severity_MAJOR = 50"
| "severity_score Severity_MINOR = 20"

fun TRUST_WEIGHT :: "trust_class \<Rightarrow> int" where
  "TRUST_WEIGHT Trust_SYSTEM = 3"
| "TRUST_WEIGHT Trust_VERIFIED_LLM = 2"
| "TRUST_WEIGHT Trust_WORKER_ASSERTION = 1"

definition effective_severity :: "finding \<Rightarrow> int" where
  "effective_severity f = severity_score (fd_severity f) * TRUST_WEIGHT (fd_trust_class f)"

section \<open>Facts about blocking\<close>

lemma set_append_new [simp]: "set (append_new b xs) = set b \<union> set xs"
  by (induction b xs rule: append_new.induct) auto

lemma append_new_Nil [simp]: "append_new b xs = [] \<longleftrightarrow> b = [] \<and> xs = []"
  by (metis set_append_new set_empty Un_empty)

definition eligible_majors :: "finding list \<Rightarrow> finding list" where
  "eligible_majors fs = filter (\<lambda>f. trust_can_block f \<and> fd_severity f = Severity_MAJOR) fs"

definition hard_blocker :: "finding \<Rightarrow> bool" where
  "hard_blocker f \<longleftrightarrow> trust_can_block f \<and> fd_severity f = Severity_BLOCKING"

lemma compute_blocking_alt:
  "compute_blocking fs m = (if int (length (eligible_majors fs)) > m
     then append_new (filter hard_blocker fs) (eligible_majors fs) else filter hard_blocker fs)"
  by (simp add: compute_blocking_def eligible_majors_def hard_blocker_def [abs_def] Let_def)

lemma compute_blocking_Nil:
  "compute_blocking fs m = [] \<longleftrightarrow>
    (\<forall>f \<in> set fs. \<not> hard_blocker f) \<and> int (length (eligible_majors fs)) \<le> max 0 m"
  by (cases "eligible_majors fs = []") (auto simp: compute_blocking_alt filter_empty_conv max_def)

lemma compute_blocking_eligible:
  "filter trust_can_block fs = filter trust_can_block gs \<Longrightarrow> compute_blocking fs m = compute_blocking gs m"
  by (simp add: compute_blocking_def)

lemma compute_blocking_trusted: "f \<in> set (compute_blocking fs m) \<Longrightarrow> f \<in> set fs \<and> trust_can_block f"
  by (auto simp: compute_blocking_alt eligible_majors_def hard_blocker_def split: if_splits)

lemma missing_finding_blocks [simp]: "hard_blocker (missing_finding s)"
  by (simp add: missing_finding_def hard_blocker_def trust_can_block_def)

lemma missing_not_major [simp]: "eligible_majors (map missing_finding ss) = []"
  by (simp add: eligible_majors_def missing_finding_def filter_empty_conv)

lemma eligible_majors_append [simp]: "eligible_majors (fs @ gs) = eligible_majors fs @ eligible_majors gs"
  by (simp add: eligible_majors_def)

section \<open>Facts about decisions\<close>

lemma decideE:
  assumes "decide pe lrs st layers are suff contract = Inr d"
  obtains missing max_major where
    "validate_traversed_layers layers = Inr ()" "threshold_for pe st = Inr max_major"
    "missing_stage_findings pe lrs st layers are contract = Inr missing"
    "vd_all_findings d = concat (map lr_findings lrs) @ missing"
    "vd_blocking_findings d = compute_blocking (vd_all_findings d) max_major"
    "vd_max_major_findings d = max_major" "vd_layer_results d = lrs"
    "vd_passed d \<longleftrightarrow> vd_blocking_findings d = []"
    "vd_verdict d = (if vd_passed d then Verdict_PASS else Verdict_FAIL)"
  using assms by (auto simp: decide_def Let_def split: sum.splits)

lemma decide_Inr:
  "(\<exists>d. decide pe lrs st layers are suff contract = Inr d) \<longleftrightarrow>
    validate_traversed_layers layers = Inr () \<and> (\<exists>m. threshold_for pe st = Inr m)
    \<and> (\<exists>ms. missing_stage_findings pe lrs st layers are contract = Inr ms)"
  by (auto simp: decide_def Let_def split: sum.splits)

text \<open>
  What the consumers of a decision rely on, whoever took it: the flag, the verdict and the
  blocking findings say the same.
\<close>

locale verdict_source =
  fixes decision :: "'a \<Rightarrow> exn + verify_decision"
  assumes verdict_flag: "decision x = Inr d \<Longrightarrow> vd_verdict d = Verdict_PASS \<longleftrightarrow> vd_passed d"
    and blocking_flag: "decision x = Inr d \<Longrightarrow> vd_blocking_findings d = [] \<longleftrightarrow> vd_passed d"
begin

lemma artifact_passed:
  assumes "decision x = Inr d"
  shows "verify_decision_passed (build_verify_decision_artifact d n) \<longleftrightarrow> vd_blocking_findings d = []"
  using verdict_flag [OF assms] blocking_flag [OF assms]
  by (cases "vd_verdict d")
     (simp_all add: verify_decision_passed_def build_verify_decision_artifact_def or_derived_def)

lemma fail_names_a_finding:
  "decision x = Inr d \<Longrightarrow> vd_verdict d = Verdict_FAIL \<longleftrightarrow> vd_blocking_findings d \<noteq> []"
  using verdict_flag [of x d] blocking_flag [of x d] by (cases "vd_verdict d") simp_all

end

interpretation policy: verdict_source
  "\<lambda>(pe, lrs, st, layers, are, suff, contract). decide pe lrs st layers are suff contract"
  by unfold_locales (auto elim!: decideE split: if_splits)

lemma missing_stage_findings_Inr:
  "produced_stage_ids (pe_registry pe) lrs (map sd_stage_id (planned_stages pe st layers are contract))
     = Inr produced \<Longrightarrow>
   missing_stage_findings pe lrs st layers are contract = Inr (map missing_finding
     (filter (\<lambda>s. effective_blocking s \<and> sd_stage_id s \<notin> set produced)
        (planned_stages pe st layers are contract)))"
  by (simp add: missing_stage_findings_def Let_def)

text \<open>
  C19. The verdict is exactly the policy of the three rules: PASS if and only if no finding of a
  trust class that may block is BLOCKING, the MAJOR findings of such classes stay within the story
  type's threshold, and every blocking stage planned for the traversed layers is covered by a
  result. The flag and the list of blocking findings agree with the verdict.
\<close>
theorem policy_verdict_exact:
  assumes "decide pe lrs st layers are suff contract = Inr d"
    and "produced_stage_ids (pe_registry pe) lrs
           (map sd_stage_id (planned_stages pe st layers are contract)) = Inr produced"
  shows "(vd_verdict d = Verdict_PASS \<longleftrightarrow>
      (\<forall>lr \<in> set lrs. \<forall>f \<in> set (lr_findings lr). \<not> hard_blocker f)
      \<and> int (length (eligible_majors (concat (map lr_findings lrs)))) \<le> max 0 (vd_max_major_findings d)
      \<and> (\<forall>s \<in> set (planned_stages pe st layers are contract).
           effective_blocking s \<longrightarrow> sd_stage_id s \<in> set produced))
    \<and> (vd_passed d \<longleftrightarrow> vd_verdict d = Verdict_PASS)
    \<and> (vd_blocking_findings d = [] \<longleftrightarrow> vd_verdict d = Verdict_PASS)
    \<and> threshold_for pe st = Inr (vd_max_major_findings d)"
proof -
  from assms(1) obtain missing max_major where
    d: "threshold_for pe st = Inr max_major"
    "missing_stage_findings pe lrs st layers are contract = Inr missing"
    "vd_all_findings d = concat (map lr_findings lrs) @ missing"
    "vd_blocking_findings d = compute_blocking (vd_all_findings d) max_major"
    "vd_max_major_findings d = max_major"
    "vd_passed d \<longleftrightarrow> vd_blocking_findings d = []"
    "vd_verdict d = (if vd_passed d then Verdict_PASS else Verdict_FAIL)"
    by (elim decideE)
  have missing: "missing = map missing_finding (filter (\<lambda>s. effective_blocking s \<and> sd_stage_id s \<notin> set produced)
        (planned_stages pe st layers are contract))"
    using d(2) missing_stage_findings_Inr [OF assms(2)] by simp
  have "vd_blocking_findings d = [] \<longleftrightarrow>
      (\<forall>lr \<in> set lrs. \<forall>f \<in> set (lr_findings lr). \<not> hard_blocker f)
      \<and> int (length (eligible_majors (concat (map lr_findings lrs)))) \<le> max 0 (vd_max_major_findings d)
      \<and> (\<forall>s \<in> set (planned_stages pe st layers are contract).
           effective_blocking s \<longrightarrow> sd_stage_id s \<in> set produced)"
    unfolding d(3,4,5) compute_blocking_Nil missing by (simp add: ball_Un conj_ac) blast
  then show ?thesis using d by auto
qed

text \<open>Two results that differ only in what may not block.\<close>

definition same_evidence :: "layer_result \<Rightarrow> layer_result \<Rightarrow> bool" where
  "same_evidence lr lr' \<longleftrightarrow> lr_layer lr' = lr_layer lr \<and> lr_metadata lr' = lr_metadata lr
     \<and> filter trust_can_block (lr_findings lr') = filter trust_can_block (lr_findings lr)"

lemma same_evidence_coverage:
  assumes "same_evidence lr lr'"
  shows "result_coverage r e lr' = result_coverage r e lr"
proof -
  have same: "lr_layer lr' = lr_layer lr" "lr_metadata lr' = lr_metadata lr"
    using assms by (simp_all add: same_evidence_def)
  have parts: "executed_check_ids_for_coverage lr' = executed_check_ids_for_coverage lr"
    "result_coverage_for r lr' = result_coverage_for r lr"
    "validate_metadata_stage_coverage lr' = validate_metadata_stage_coverage lr"
    unfolding executed_check_ids_for_coverage_def result_coverage_for_def [abs_def]
        validate_metadata_stage_coverage_def [abs_def] same by (rule refl)+
  show ?thesis unfolding result_coverage_def same parts by (rule refl)
qed

lemma same_evidence_covered: "list_all2 same_evidence lrs lrs' \<Longrightarrow> covered_by r e lrs' = covered_by r e lrs"
  by (induction rule: list_all2_induct) (simp_all add: same_evidence_coverage split: sum.split)

lemma same_evidence_missing:
  "list_all2 same_evidence lrs lrs' \<Longrightarrow>
    missing_stage_findings pe lrs' st layers are contract = missing_stage_findings pe lrs st layers are contract"
  by (simp add: missing_stage_findings_def produced_stage_ids_def same_evidence_covered Let_def)

lemma same_evidence_findings:
  "list_all2 same_evidence lrs lrs' \<Longrightarrow>
    filter trust_can_block (concat (map lr_findings lrs')) = filter trust_can_block (concat (map lr_findings lrs))"
  by (induction rule: list_all2_induct) (simp_all add: same_evidence_def)

text \<open>
  A worker cannot pass or fail its own check: two runs whose results differ only in findings of
  trust class C, in the flags of the layers and in the context-sufficiency artifact are decided
  alike, with the same blocking findings, and none of those is the worker's own assertion.
\<close>
theorem worker_assertions_have_no_say:
  assumes "list_all2 same_evidence lrs lrs'"
    and "decide pe lrs st layers are suff contract = Inr d"
  shows "\<exists>d'. decide pe lrs' st layers are suff' contract = Inr d' \<and> vd_verdict d' = vd_verdict d
    \<and> vd_blocking_findings d' = vd_blocking_findings d
    \<and> Trust_WORKER_ASSERTION \<notin> fd_trust_class ` set (vd_blocking_findings d')"
proof -
  from assms(2) obtain missing max_major where
    d: "validate_traversed_layers layers = Inr ()" "threshold_for pe st = Inr max_major"
    "missing_stage_findings pe lrs st layers are contract = Inr missing"
    "vd_all_findings d = concat (map lr_findings lrs) @ missing"
    "vd_blocking_findings d = compute_blocking (vd_all_findings d) max_major"
    "vd_passed d \<longleftrightarrow> vd_blocking_findings d = []"
    "vd_verdict d = (if vd_passed d then Verdict_PASS else Verdict_FAIL)"
    by (elim decideE)
  have same: "compute_blocking (concat (map lr_findings lrs') @ missing) max_major = vd_blocking_findings d"
    unfolding d(4,5) by (rule compute_blocking_eligible) (simp add: same_evidence_findings [OF assms(1)])
  have "Trust_WORKER_ASSERTION \<notin> fd_trust_class ` set (vd_blocking_findings d)"
    unfolding d(4,5) by (auto simp: trust_can_block_def dest!: compute_blocking_trusted)
  then show ?thesis
    using d same by (simp add: decide_def Let_def same_evidence_missing [OF assms(1)])
qed

text \<open>More findings never turn a failed round into a passed one.\<close>

lemma more_findings_never_help:
  assumes "set fs \<subseteq> set gs" "length (eligible_majors fs) \<le> length (eligible_majors gs)"
    and "compute_blocking fs m \<noteq> []"
  shows "compute_blocking gs m \<noteq> []"
  using assms unfolding compute_blocking_Nil by fastforce

section \<open>The default engine at work\<close>

definition default_engine :: policy_engine where
  "default_engine = \<lparr>pe_max_major_per_type = DEFAULT_MAX_MAJOR_FINDINGS_PER_STORY_TYPE,
     pe_registry = default_registry\<rparr>"

lemma default_engine_registry [simp]: "pe_registry default_engine = default_registry"
  by (simp add: default_engine_def)

lemma default_engine: "new_policy_engine None None = Inr default_engine"
  by (simp add: new_policy_engine_def default_registry default_engine_def)

text \<open>A concept story whose only stage of the route is its feedback, with one MAJOR of the worker.\<close>

definition feedback_result :: "finding list \<Rightarrow> layer_result" where
  "feedback_result fs = \<lparr>lr_layer = ''concept_feedback'', lr_passed = True, lr_findings = fs,
     lr_metadata = [], lr_artifact_reference = None\<rparr>"

lemma concept_planned: "planned_stages default_engine StoryType_CONCEPT [2, 4] False None =
    filter (\<lambda>s. sd_stage_id s = ''concept_feedback'') ALL_STAGES"
  by (simp add: planned_stages_def stages_for_def default_engine_def default_registry_def
      registry_for_stages_def catalogue_defs is_integration_stabilization_stage_def id_starts_with_def)

lemma concept_covered: "produced_stage_ids default_registry [feedback_result fs] [''concept_feedback''] =
    Inr [''concept_feedback'']"
  by (simp add: produced_stage_ids_def registered_stage_ids_def default_registry_def registry_for_stages_def
      all_stage_ids all_stage_results feedback_result_def result_coverage_def
      canonical_stage_id_for_result_name_def opt_list_def executed_check_ids_for_coverage_def
      result_coverage_for_def validate_metadata_stage_coverage_def Let_def and_then_def or_derived_def
      DEFAULT_AGGREGATE_RESULT_STAGE_IDS_def)

lemma concept_ids: "map sd_stage_id (planned_stages default_engine StoryType_CONCEPT [2, 4] False None)
    = [''concept_feedback'']"
  by (simp add: concept_planned catalogue_defs)

lemma concept_coverage: "produced_stage_ids (pe_registry default_engine) [feedback_result fs]
    (map sd_stage_id (planned_stages default_engine StoryType_CONCEPT [2, 4] False None)) = Inr [''concept_feedback'']"
  unfolding concept_ids by (simp add: concept_covered default_engine_def)

lemma concept_decision:
  obtains d where
    "decide default_engine [feedback_result fs] StoryType_CONCEPT [2, 4] False suff None = Inr d"
proof -
  have "validate_traversed_layers [2, 4] = Inr ()" by (simp add: validate_traversed_layers_def)
  moreover have "threshold_for default_engine StoryType_CONCEPT = Inr 3"
    by (simp add: threshold_for_def default_engine_def DEFAULT_MAX_MAJOR_FINDINGS_PER_STORY_TYPE_def
        DEFAULT_MAJOR_THRESHOLD_def)
  ultimately show ?thesis
    using that missing_stage_findings_Inr [OF concept_coverage]
      decide_Inr [of default_engine "[feedback_result fs]" StoryType_CONCEPT "[2, 4]" False suff None]
    by blast
qed

lemma policy_verdict_exact_witness:
  "\<exists>d. decide default_engine [feedback_result []] StoryType_CONCEPT [2, 4] False None None = Inr d
     \<and> vd_verdict d = Verdict_PASS \<and> vd_passed d"
proof -
  obtain d where d:
    "decide default_engine [feedback_result []] StoryType_CONCEPT [2, 4] False None None = Inr d"
    by (rule concept_decision)
  have "sd_stage_id s = ''concept_feedback''"
    if "s \<in> set (planned_stages default_engine StoryType_CONCEPT [2, 4] False None)" for s
    using that arg_cong [OF concept_ids, of set] by auto
  then have "vd_verdict d = Verdict_PASS \<and> vd_passed d"
    using policy_verdict_exact [OF d concept_coverage]
    by (simp add: feedback_result_def eligible_majors_def)
  then show ?thesis using d by blast
qed

lemma worker_assertions_have_no_say_witness:
  "\<exists>d d'. decide default_engine [feedback_result []] StoryType_CONCEPT [2, 4] False None None = Inr d
    \<and> decide default_engine [feedback_result [new_finding ''concept_feedback'' ''self_review''
         Severity_BLOCKING ''unhappy'' Trust_WORKER_ASSERTION]] StoryType_CONCEPT [2, 4] False
         (Some [(''sufficiency'', JStr ''insufficient'')]) None = Inr d'
    \<and> vd_verdict d' = vd_verdict d"
proof -
  obtain d where d:
    "decide default_engine [feedback_result []] StoryType_CONCEPT [2, 4] False None None = Inr d"
    by (rule concept_decision)
  have "list_all2 same_evidence [feedback_result []] [feedback_result [new_finding ''concept_feedback''
      ''self_review'' Severity_BLOCKING ''unhappy'' Trust_WORKER_ASSERTION]]"
    by (simp add: same_evidence_def feedback_result_def trust_can_block_def)
  from worker_assertions_have_no_say [OF this d] show ?thesis using d by blast
qed

text \<open>
  Reading a decision back from its artifact gives the decision's outcome: the persisted
  envelope of a decision of the engine passes exactly when nothing blocked it.
\<close>
theorem decision_artifact_roundtrip:
  assumes "decide pe lrs st layers are suff contract = Inr d"
  shows "verify_decision_passed (build_verify_decision_artifact d n) \<longleftrightarrow> vd_blocking_findings d = []"
  using policy.artifact_passed [of "(pe, lrs, st, layers, are, suff, contract)"] assms by simp

lemma decision_artifact_roundtrip_witness:
  "\<exists>d. decide default_engine [feedback_result []] StoryType_CONCEPT [2, 4] False None None = Inr d
    \<and> (verify_decision_passed (build_verify_decision_artifact d 1) \<longleftrightarrow> vd_blocking_findings d = [])"
proof -
  obtain d where d:
    "decide default_engine [feedback_result []] StoryType_CONCEPT [2, 4] False None None = Inr d"
    by (rule concept_decision)
  show ?thesis using decision_artifact_roundtrip [OF d, of 1] d by blast
qed

section \<open>Concept stories\<close>

lemma concept_stages: "filter (\<lambda>s. StoryType_CONCEPT \<in> set (sd_applies_to s)) ALL_STAGES =
    [llm_stage ''concept_feedback'' [StoryType_CONCEPT] CONCEPT_FEEDBACK_PRODUCER]"
  by (simp add: catalogue_defs)

lemma default_registry_sel:
  "sr_stages default_registry = ALL_STAGES"
  "sr_stage_result_stage_ids default_registry = map (\<lambda>s. (result_name s, sd_stage_id s)) ALL_STAGES"
  "sr_aggregate_result_stage_ids default_registry = [(''structural'', ''structural'')]"
  "sr_aggregate_result_stage_coverage default_registry = [(''structural'', structural_coverage ALL_STAGES)]"
  by (simp_all add: default_registry_def registry_for_stages_def DEFAULT_AGGREGATE_RESULT_STAGE_IDS_def)

lemma concept_planned_2:
  assumes "2 \<in> set layers"
  shows "planned_stages default_engine StoryType_CONCEPT layers are contract =
    [llm_stage ''concept_feedback'' [StoryType_CONCEPT] CONCEPT_FEEDBACK_PRODUCER]"
proof -
  have "stages_for default_registry StoryType_CONCEPT contract =
      filter (\<lambda>s. contract = Some Contract_INTEGRATION_STABILIZATION
        \<or> \<not> is_integration_stabilization_stage (sd_stage_id s))
        (filter (\<lambda>s. StoryType_CONCEPT \<in> set (sd_applies_to s)) ALL_STAGES)"
    by (simp add: stages_for_def default_registry_sel conj_commute)
  also have "\<dots> = [llm_stage ''concept_feedback'' [StoryType_CONCEPT] CONCEPT_FEEDBACK_PRODUCER]"
    unfolding concept_stages
    by (simp add: is_integration_stabilization_stage_def id_starts_with_def llm_stage_def new_stage_def)
  finally show ?thesis
    using assms by (simp add: planned_stages_def default_engine_def llm_stage_def new_stage_def)
qed

lemma result_coverageE:
  assumes "result_coverage r expected lr = Inr c"
  obtains can executed where "canonical_stage_id_for_result_name r (lr_layer lr) = Inr can"
    "c = result_coverage_for r lr can executed expected"
  using assms by (auto simp: result_coverage_def Let_def split: sum.splits)

lemma concept_feedback_needs_its_result:
  assumes "result_coverage default_registry expected lr = Inr c" "''concept_feedback'' \<in> set c"
  shows "lr_layer lr = ''concept_feedback''"
proof -
  from assms(1) obtain can executed where
    can: "canonical_stage_id_for_result_name default_registry (lr_layer lr) = Inr can"
    and c: "c = result_coverage_for default_registry lr can executed expected"
    by (rule result_coverageE)
  have "''concept_feedback'' \<notin> set (structural_coverage ALL_STAGES)"
    by (simp add: structural_coverage_def catalogue_defs)
  moreover have "''concept_feedback'' \<notin> set (or_derived
      (map_of (sr_result_additional_stage_coverage default_registry) (lr_layer lr)) [])"
    by (auto simp: default_registry_def registry_for_stages_def or_derived_def
        DEFAULT_RESULT_ADDITIONAL_STAGE_COVERAGE_def)
  ultimately have can': "can = ''concept_feedback''" and n: "lr_layer lr \<noteq> ''structural''"
    using assms(2) c by (auto simp: result_coverage_for_def default_registry_sel or_derived_def split: if_splits)
  have "(lr_layer lr, can) \<in> set (sr_stage_result_stage_ids default_registry)"
    using can n unfolding canonical_stage_id_iff [OF default_registry] by (simp add: default_registry_sel)
  then show ?thesis by (auto simp: default_registry_sel(2) all_stage_results can')
qed

lemma covered_byD:
  "covered_by r expected lrs = Inr c \<Longrightarrow> i \<in> set c \<Longrightarrow>
    \<exists>lr \<in> set lrs. \<exists>d. result_coverage r expected lr = Inr d \<and> i \<in> set d"
  by (induction lrs arbitrary: c) (auto split: sum.splits)

text \<open>
  The canonical catalogue gives every concept story a blocking stage of layer 2: under the
  default engine a concept story whose round traversed layer 2 without a result named
  \<open>concept_feedback\<close> fails, whatever the layers found.
\<close>
theorem concept_stories_need_feedback:
  assumes "decide default_engine lrs StoryType_CONCEPT layers are suff contract = Inr d"
    and "2 \<in> set layers" and "''concept_feedback'' \<notin> lr_layer ` set lrs"
  shows "vd_verdict d = Verdict_FAIL \<and> ''concept_feedback'' \<in> fd_check ` set (vd_blocking_findings d)"
proof -
  let ?s = "llm_stage ''concept_feedback'' [StoryType_CONCEPT] CONCEPT_FEEDBACK_PRODUCER"
  from assms(1) obtain missing max_major where
    d: "missing_stage_findings default_engine lrs StoryType_CONCEPT layers are contract = Inr missing"
    "vd_all_findings d = concat (map lr_findings lrs) @ missing"
    "vd_blocking_findings d = compute_blocking (vd_all_findings d) max_major"
    "vd_passed d \<longleftrightarrow> vd_blocking_findings d = []"
    "vd_verdict d = (if vd_passed d then Verdict_PASS else Verdict_FAIL)"
    by (elim decideE)
  obtain produced where p: "produced_stage_ids default_registry lrs [sd_stage_id ?s] = Inr produced"
    and m: "missing = map missing_finding (filter (\<lambda>s. effective_blocking s \<and> sd_stage_id s \<notin> set produced) [?s])"
    using d(1) unfolding missing_stage_findings_def Let_def concept_planned_2 [OF assms(2)]
    by (auto split: sum.splits)
  have covered: "covered_by default_registry [sd_stage_id ?s] lrs = Inr produced"
    using p unfolding produced_stage_ids_def by (simp split: if_splits)
  have "''concept_feedback'' \<notin> set produced"
  proof
    assume "''concept_feedback'' \<in> set produced"
    from covered_byD [OF covered this] obtain lr c where "lr \<in> set lrs"
      "result_coverage default_registry [sd_stage_id ?s] lr = Inr c" "''concept_feedback'' \<in> set c"
      by blast
    note lr = imageI [OF this(1), of lr_layer] concept_feedback_needs_its_result [OF this(2,3)]
    from lr(1) assms(3) show False unfolding lr(2) by (rule notE [rotated])
  qed
  then have "missing = [missing_finding ?s]"
    unfolding m by (simp add: llm_stage_def new_stage_def effective_blocking_def default_blocking_def)
  then have "missing_finding ?s \<in> set (filter hard_blocker (vd_all_findings d))" using d(2) by simp
  then have "missing_finding ?s \<in> set (vd_blocking_findings d)"
    unfolding d(3) compute_blocking_alt by auto
  moreover have "fd_check (missing_finding ?s) = ''concept_feedback''"
    by (simp add: missing_finding_def llm_stage_def new_stage_def)
  ultimately show ?thesis using d(4,5) by force
qed

lemma concept_stories_need_feedback_witness:
  "\<exists>d. decide default_engine [] StoryType_CONCEPT [2, 4] False None None = Inr d
     \<and> vd_verdict d = Verdict_FAIL"
proof -
  have "missing_stage_findings default_engine [] StoryType_CONCEPT [2, 4] False None
      = Inr (map missing_finding (filter effective_blocking
          [llm_stage ''concept_feedback'' [StoryType_CONCEPT] CONCEPT_FEEDBACK_PRODUCER]))"
    by (simp add: missing_stage_findings_def concept_planned_2 produced_stage_ids_def Let_def
        registered_stage_ids_def default_registry_sel all_stage_ids llm_stage_def new_stage_def)
  then obtain d where "decide default_engine [] StoryType_CONCEPT [2, 4] False None None = Inr d"
    using decide_Inr [of default_engine "[]" StoryType_CONCEPT "[2, 4]" False None None]
    by (auto simp: validate_traversed_layers_def threshold_for_def default_engine_def
        DEFAULT_MAX_MAJOR_FINDINGS_PER_STORY_TYPE_def)
  then show ?thesis using concept_stories_need_feedback [of "[]" "[2, 4]" False None None d] by auto
qed

end
