(* ===== verification/Py_Text.thy ===== *)
theory Py_Text
  imports Prelude
begin

text \<open>
  Text primitives of Python that the review bundle and the evaluator use: length in characters
  (strings are UTF-8 bytes), slicing, searching and splitting, with the facts about lengths.
\<close>

section \<open>Characters\<close>

text \<open>A byte that continues a character of several bytes.\<close>

definition continuation :: "char \<Rightarrow> bool" where
  "continuation c = (let n = of_char c in (128::nat) \<le> n \<and> n < 192)"

definition py_len :: "string \<Rightarrow> nat" where
  "py_len s = length (filter (\<lambda>c. \<not> continuation c) s)"

text \<open>\<open>s[:n]\<close>\<close>

fun py_take :: "nat \<Rightarrow> string \<Rightarrow> string" where
  "py_take n [] = []"
| "py_take n (c # cs) =
    (if continuation c then c # py_take n cs
     else case n of 0 \<Rightarrow> [] | Suc m \<Rightarrow> c # py_take m cs)"

lemma py_len_simps [simp]:
  "py_len [] = 0"
  "py_len (s @ t) = py_len s + py_len t"
  by (simp_all add: py_len_def)

lemma py_len_Cons: "py_len (c # s) = (if continuation c then 0 else 1) + py_len s"
  by (simp add: py_len_def)

lemma py_len_take: "py_len (py_take n s) \<le> n"
  by (induction n s rule: py_take.induct) (auto simp: py_len_Cons split: nat.splits)

lemma py_len_rev [simp]: "py_len (rev s) = py_len s"
  by (simp add: py_len_def rev_filter [symmetric])

lemma py_len_dropWhile: "py_len (dropWhile p s) \<le> py_len s"
  by (induction s) (auto simp: py_len_Cons)

section \<open>Stripping\<close>

definition py_rstrip :: "string \<Rightarrow> string" where
  "py_rstrip s = rev (dropWhile is_space (rev s))"

lemma py_len_rstrip: "py_len (py_rstrip s) \<le> py_len s"
  using py_len_dropWhile [of is_space "rev s"] by (simp add: py_rstrip_def)

lemma py_len_strip: "py_len (py_strip s) \<le> py_len s"
  using py_len_dropWhile [of is_space "rev (dropWhile is_space s)"] py_len_dropWhile [of is_space s]
  by (simp add: py_strip_def)

section \<open>Searching\<close>

definition starts_with :: "string \<Rightarrow> string \<Rightarrow> bool" where
  "starts_with p s = (take (length p) s = p)"

text \<open>\<open>s.find(p)\<close>, as the index in bytes\<close>

fun py_find :: "string \<Rightarrow> string \<Rightarrow> nat option" where
  "py_find p [] = (if p = [] then Some 0 else None)"
| "py_find p (c # cs) = (if starts_with p (c # cs) then Some 0 else map_option Suc (py_find p cs))"

text \<open>\<open>s.rfind(p)\<close>\<close>

fun py_rfind :: "string \<Rightarrow> string \<Rightarrow> nat option" where
  "py_rfind p [] = (if p = [] then Some 0 else None)"
| "py_rfind p (c # cs) = (case py_rfind p cs of
      Some i \<Rightarrow> Some (Suc i)
    | None \<Rightarrow> if starts_with p (c # cs) then Some 0 else None)"

definition contains :: "string \<Rightarrow> string \<Rightarrow> bool" where
  "contains p s = (py_find p s \<noteq> None)"

lemma starts_with_append [simp]: "starts_with p (p @ s)"
  by (simp add: starts_with_def)

lemma py_find_Some: "py_find p s = Some i \<Longrightarrow> starts_with p (drop i s) \<and> i \<le> length s"
  by (induction p s arbitrary: i rule: py_find.induct) (auto simp: starts_with_def split: if_splits)

section \<open>Splitting\<close>

text \<open>\<open>s.split(sep)\<close> for a separator of one character.\<close>

fun split_on :: "char \<Rightarrow> string \<Rightarrow> string list" where
  "split_on c [] = [[]]"
| "split_on c (x # xs) =
     (if x = c then [] # split_on c xs
      else case split_on c xs of [] \<Rightarrow> [[x]] | p # ps \<Rightarrow> (x # p) # ps)"

lemma split_on_nonempty [simp]: "split_on c s \<noteq> []"
  by (induction s) (auto split: list.splits)

lemma length_split_on: "length (split_on c s) = Suc (count_list s c)"
proof (induction s)
  case (Cons x s)
  then show ?case by (cases "split_on c s") simp_all
qed simp

lemma split_on_none: "c \<notin> set s \<Longrightarrow> split_on c s = [s]"
  by (induction s) auto

lemma split_on_append: "c \<notin> set l \<Longrightarrow> split_on c (l @ c # r) = l # split_on c r"
  by (induction l) auto

definition line_break :: "char \<Rightarrow> bool" where
  "line_break c = (let n = of_char c in (10::nat) \<le> n \<and> n \<le> 13 \<or> 28 \<le> n \<and> n \<le> 30)"

text \<open>\<open>s.splitlines()\<close> on the breaks of the ASCII range: a carriage return and line feed is one.\<close>

definition after_break :: "char \<Rightarrow> string \<Rightarrow> string" where
  "after_break c cs = (if c = CHR 0x0D \<and> take 1 cs = [CHR 0x0A] then drop 1 cs else cs)"

function split_lines :: "string \<Rightarrow> string \<Rightarrow> string list" where
  "split_lines acc [] = (if acc = [] then [] else [rev acc])"
| "split_lines acc (c # cs) =
    (if line_break c then rev acc # split_lines [] (after_break c cs) else split_lines (c # acc) cs)"
  by pat_completeness auto

termination split_lines
  by (relation "measure (\<lambda>(_, s). length s)") (auto simp: after_break_def)

definition splitlines :: "string \<Rightarrow> string list" where
  "splitlines = split_lines []"

text \<open>\<open>s.split("\n\n")\<close>\<close>

fun split_blank_lines :: "string \<Rightarrow> string \<Rightarrow> string list" where
  "split_blank_lines acc [] = [rev acc]"
| "split_blank_lines acc [c] = [rev (c # acc)]"
| "split_blank_lines acc (c # d # cs) =
    (if c = CHR 0x0A \<and> d = CHR 0x0A then rev acc # split_blank_lines [] cs
     else split_blank_lines (c # acc) (d # cs))"

definition blank_line :: string where
  "blank_line = [CHR 0x0A, CHR 0x0A]"

lemma join_split_blank_lines: "join blank_line (split_blank_lines acc s) = rev acc @ s"
proof (induction acc s rule: split_blank_lines.induct)
  case (3 acc c d cs)
  have "split_blank_lines acc' s' \<noteq> []" for acc' s'
    by (induction acc' s' rule: split_blank_lines.induct) auto
  then obtain x xs where "split_blank_lines [] cs = x # xs" by (cases "split_blank_lines [] cs") auto
  with 3 show ?case by (auto simp: blank_line_def)
qed simp_all

lemma py_len_join: "py_len (join sep xs) = sum_list (map py_len xs) + py_len sep * (length xs - 1)"
  by (induction sep xs rule: join.induct) (auto simp: algebra_simps)

end
