(* ===== verification/Finding_Resolution.thy ===== *)
theory Finding_Resolution
  imports Policy_Engine Py_Text
begin

text \<open>
  Finding resolution and remediation feedback (\<open>verify_system/remediation/\<close>, and the two helpers of
  \<open>qa_cycle/integration.py\<close> that use it): how the findings of the previous round are classified
  against this round, how the verdicts of the LLM reviewers travel in the metadata of a layer
  result, how both are merged, and what feedback a failed round gives the worker.

  A dictionary keyed by \<open>(layer, check)\<close> is an association list in insertion order; the keys of a
  JSON dictionary are strings.
\<close>

section \<open>Assessment\<close>

type_synonym finding_key = "string \<times> string"

datatype finding_resolution_status = FULLY_RESOLVED | PARTIALLY_RESOLVED | NOT_RESOLVED

fun resolution_value :: "finding_resolution_status \<Rightarrow> string" where
  "resolution_value FULLY_RESOLVED = ''fully_resolved''"
| "resolution_value PARTIALLY_RESOLVED = ''partially_resolved''"
| "resolution_value NOT_RESOLVED = ''not_resolved''"

definition resolution_statuses :: "finding_resolution_status list" where
  "resolution_statuses = [FULLY_RESOLVED, PARTIALLY_RESOLVED, NOT_RESOLVED]"

interpretation resolution: str_enum resolution_value resolution_statuses
proof
  show "distinct (map resolution_value resolution_statuses)" by (simp add: resolution_statuses_def)
  show "x \<in> set resolution_statuses" for x by (cases x) (simp_all add: resolution_statuses_def)
qed

type_synonym resolution_map = "(finding_key \<times> finding_resolution_status) list"

definition finding_key :: "finding \<Rightarrow> finding_key" where
  "finding_key f = (fd_layer f, fd_check f)"

fun severity_rank :: "severity \<Rightarrow> nat" where
  "severity_rank Severity_MINOR = 1"
| "severity_rank Severity_MAJOR = 2"
| "severity_rank Severity_BLOCKING = 3"

text \<open>The loop that keeps the most severe finding per key.\<close>

fun max_severity :: "(finding_key \<times> severity) list \<Rightarrow> finding list \<Rightarrow> (finding_key \<times> severity) list" where
  "max_severity acc [] = acc"
| "max_severity acc (f # fs) =
     (let k = finding_key f; existing = map_of acc k in
      max_severity
        (if existing = None \<or> severity_rank (fd_severity f) > severity_rank (the existing)
         then AList.update k (fd_severity f) acc else acc) fs)"

definition classify :: "severity \<Rightarrow> severity option \<Rightarrow> finding_resolution_status" where
  "classify previous current = (case current of
      None \<Rightarrow> FULLY_RESOLVED
    | Some c \<Rightarrow> if severity_rank c < severity_rank previous then PARTIALLY_RESOLVED else NOT_RESOLVED)"

definition assess :: "finding list \<Rightarrow> finding list \<Rightarrow> resolution_map" where
  "assess previous current =
    (let current_max = max_severity [] current; previous_max = max_severity [] previous in
     map (\<lambda>(k, prev). (k, classify prev (map_of current_max k))) previous_max)"

definition is_open_resolution_status :: "finding_resolution_status \<Rightarrow> bool" where
  "is_open_resolution_status s = (s \<in> {NOT_RESOLVED, PARTIALLY_RESOLVED})"

definition resolution_map_has_open_findings :: "resolution_map option \<Rightarrow> bool" where
  "resolution_map_has_open_findings m = (case m of
      None \<Rightarrow> False
    | Some kvs \<Rightarrow> list_ex (\<lambda>(k, s). is_open_resolution_status s) kvs)"

definition has_unresolved :: "finding list \<Rightarrow> finding list \<Rightarrow> bool" where
  "has_unresolved previous current = resolution_map_has_open_findings (Some (assess previous current))"

section \<open>The metadata form\<close>

definition LLM_RESOLUTION_METADATA_KEY :: string where
  "LLM_RESOLUTION_METADATA_KEY = ''finding_resolutions''"

definition joined_key :: "finding_key \<Rightarrow> string" where
  "joined_key k = fst k @ '':'' @ snd k"

fun put_all :: "('k \<times> 'v) list \<Rightarrow> ('k \<times> 'v) list \<Rightarrow> ('k \<times> 'v) list" where
  "put_all acc [] = acc"
| "put_all acc ((k, v) # kvs) = put_all (AList.update k v acc) kvs"

definition serialize_resolution_map :: "resolution_map \<Rightarrow> (string \<times> string) list" where
  "serialize_resolution_map m =
     put_all [] (map (\<lambda>(k, s). (joined_key k, resolution_value s)) (sort_key fst m))"

definition decode_finding_key :: "string \<Rightarrow> exn + finding_key" where
  "decode_finding_key key = (case split_on (CHR '':'') key of
      [layer, check] \<Rightarrow>
        if layer \<noteq> [] \<and> check \<noteq> [] then Inr (layer, check)
        else Inl (ResolutionMetadataError (''resolution key '' @ py_repr key @ '' is not a well-formed ''
               @ py_repr ''layer:check'' @ '' pair''))
    | _ \<Rightarrow> Inl (ResolutionMetadataError (''resolution key '' @ py_repr key @ '' is not a well-formed ''
               @ py_repr ''layer:check'' @ '' pair'')))"

fun json_type_name :: "json \<Rightarrow> string" where
  "json_type_name JNull = ''NoneType''"
| "json_type_name (JBool b) = ''bool''"
| "json_type_name (JInt i) = ''int''"
| "json_type_name (JStr s) = ''str''"
| "json_type_name (JList xs) = ''list''"
| "json_type_name (JObj kvs) = ''dict''"

definition decode_status :: "json \<Rightarrow> exn + finding_resolution_status" where
  "decode_status v = (case v of
      JStr s \<Rightarrow> (case enum_of resolution_value resolution_statuses s of
          Some x \<Rightarrow> Inr x
        | None \<Rightarrow> Inl (ResolutionMetadataError (''unknown resolution status value '' @ py_repr s)))
    | _ \<Rightarrow> Inl (ResolutionMetadataError (''resolution status must be a string, got '' @ json_type_name v)))"

text \<open>The right-hand side of the assignment is evaluated before its subscript.\<close>

fun decode_entries :: "resolution_map \<Rightarrow> (string \<times> json) list \<Rightarrow> exn + resolution_map" where
  "decode_entries acc [] = Inr acc"
| "decode_entries acc ((key, v) # kvs) = (case decode_status v of
      Inl e \<Rightarrow> Inl e
    | Inr s \<Rightarrow> (case decode_finding_key key of
        Inl e \<Rightarrow> Inl e
      | Inr k \<Rightarrow> decode_entries (AList.update k s acc) kvs))"

definition resolution_map_from_metadata :: "metadata option \<Rightarrow> exn + resolution_map" where
  "resolution_map_from_metadata md = (case md of
      None \<Rightarrow> Inr []
    | Some m \<Rightarrow> (case map_of m LLM_RESOLUTION_METADATA_KEY of
        None \<Rightarrow> Inr []
      | Some (JObj kvs) \<Rightarrow> decode_entries [] kvs
      | Some v \<Rightarrow> Inl (ResolutionMetadataError (py_repr LLM_RESOLUTION_METADATA_KEY
                     @ '' metadata must be a dict, got '' @ json_type_name v))))"

section \<open>The merged resolution map\<close>

definition assess_finding_resolution ::
  "qa_context \<Rightarrow> finding list \<Rightarrow> finding list \<Rightarrow> resolution_map option" where
  "assess_finding_resolution qa previous current =
    (if qa \<notin> set remediation_contexts \<or> previous = [] then None else Some (assess previous current))"

fun merge_entries :: "resolution_map \<Rightarrow> resolution_map \<Rightarrow> resolution_map" where
  "merge_entries merged [] = merged"
| "merge_entries merged ((k, s) # kvs) =
     (let existing = map_of merged k in
      merge_entries
        (if existing = None \<or> is_open_resolution_status s \<and> \<not> is_open_resolution_status (the existing)
         then AList.update k s merged else merged) kvs)"

fun merge_results :: "resolution_map \<Rightarrow> bool \<Rightarrow> layer_result list \<Rightarrow> exn + resolution_map \<times> bool" where
  "merge_results merged saw [] = Inr (merged, saw)"
| "merge_results merged saw (lr # lrs) = (case resolution_map_from_metadata (Some (lr_metadata lr)) of
      Inl e \<Rightarrow> Inl e
    | Inr m \<Rightarrow> merge_results (merge_entries merged m) (saw \<or> m \<noteq> []) lrs)"

definition merge_llm_finding_resolutions ::
  "resolution_map option \<Rightarrow> layer_result list \<Rightarrow> exn + resolution_map option" where
  "merge_llm_finding_resolutions base lrs =
    (case merge_results (or_derived base []) False lrs of
       Inl e \<Rightarrow> Inl e
     | Inr (merged, saw) \<Rightarrow>
         if merged = [] \<and> \<not> saw \<and> base = None then Inr None else Inr (Some merged))"

section \<open>Feedback\<close>

record remediation_feedback =
  rf_story_id :: string
  rf_round_nr :: int
  rf_blocking_findings :: "finding list"
  rf_advisory_findings :: "finding list"
  rf_summary :: string
  rf_finding_resolution :: resolution_map

definition has_open_findings :: "remediation_feedback \<Rightarrow> bool" where
  "has_open_findings fb = resolution_map_has_open_findings (Some (rf_finding_resolution fb))"

definition summary_with_extra_findings :: "string \<Rightarrow> finding list \<Rightarrow> string" where
  "summary_with_extra_findings s extra =
    (if extra = [] then s
     else s @ '' Mandatory adversarial target feedback added: '' @ show_nat (length extra)
          @ '' blocking finding(s).'')"

definition build_feedback ::
  "verify_decision \<Rightarrow> string \<Rightarrow> int \<Rightarrow> resolution_map option \<Rightarrow> finding list
     \<Rightarrow> remediation_feedback option" where
  "build_feedback d story_id round_nr resolution extra =
    (if vd_passed d \<and> extra = [] then None
     else Some \<lparr>rf_story_id = story_id, rf_round_nr = round_nr,
       rf_blocking_findings = vd_blocking_findings d @ extra,
       rf_advisory_findings = filter (\<lambda>f. fd_severity f \<noteq> Severity_BLOCKING) (vd_all_findings d),
       rf_summary = summary_with_extra_findings (vd_summary d) extra,
       rf_finding_resolution = or_derived resolution []\<rparr>)"

text \<open>\<open>enumerate(xs, 1)\<close>\<close>

definition numbered :: "'a list \<Rightarrow> (nat \<times> 'a) list" where
  "numbered xs = zip [1..<Suc (length xs)] xs"

definition finding_line :: "nat \<Rightarrow> finding \<Rightarrow> string" where
  "finding_line i f = show_nat i @ ''. ['' @ py_upper (severity_value (fd_severity f)) @ ''] ''
     @ fd_check f @ '': '' @ fd_message f"

text \<open>An optional text counts only when it is present and not empty.\<close>

definition text_line :: "string \<Rightarrow> string option \<Rightarrow> string list" where
  "text_line label x = (if x = None \<or> x = Some [] then [] else [label @ the x])"

definition blocking_section :: "remediation_feedback \<Rightarrow> string list" where
  "blocking_section fb = (let fs = rf_blocking_findings fb in
     if fs = [] then []
     else [''### Blocking Issues ('' @ show_nat (length fs) @ '')'', []]
       @ concat (map (\<lambda>(i, f). [finding_line i f] @ text_line ''   File: '' (fd_file_path f)
           @ text_line ''   Suggestion: '' (fd_suggestion f)) (numbered fs)) @ [[]])"

definition advisory_section :: "remediation_feedback \<Rightarrow> string list" where
  "advisory_section fb = (let fs = rf_advisory_findings fb in
     if fs = [] then []
     else [''### Advisory ('' @ show_nat (length fs) @ '')'', []]
       @ map (\<lambda>(i, f). finding_line i f) (numbered fs) @ [[]])"

definition unresolved_section :: "remediation_feedback \<Rightarrow> string list" where
  "unresolved_section fb =
    (let os = filter (\<lambda>(k, s). is_open_resolution_status s) (rf_finding_resolution fb) in
     if os = [] then []
     else [''### Unresolved Previous Findings ('' @ show_nat (length os) @ '')'', []]
       @ map (\<lambda>(i, (layer, check), s). show_nat i @ ''. ['' @ layer @ ''] '' @ check @ '': still ''
                @ py_upper (resolution_value s)) (numbered os) @ [[]])"

definition newline :: string where
  "newline = [CHR 0x0A]"

definition to_prompt_text :: "remediation_feedback \<Rightarrow> string" where
  "to_prompt_text fb = join newline
     ([''## Remediation Feedback (Round '' @ show_int (rf_round_nr fb) @ '')'', [],
       ''Story: '' @ rf_story_id fb, ''Status: FAILED'', []]
      @ blocking_section fb @ advisory_section fb @ unresolved_section fb
      @ [''Summary: '' @ rf_summary fb])"

section \<open>Mandatory adversarial targets\<close>

text \<open>\<open>str(x)\<close> and \<open>repr(x)\<close> of a JSON value.\<close>

fun json_repr :: "json \<Rightarrow> string" where
  "json_repr JNull = ''None''"
| "json_repr (JBool b) = (if b then ''True'' else ''False'')"
| "json_repr (JInt i) = show_int i"
| "json_repr (JStr s) = py_repr s"
| "json_repr (JList xs) = ''['' @ join '', '' (map json_repr xs) @ '']''"
| "json_repr (JObj kvs) = ''{'' @ join '', '' (map (\<lambda>(k, v). py_repr k @ '': '' @ json_repr v) kvs) @ ''}''"

fun json_show :: "json \<Rightarrow> string" where
  "json_show (JStr s) = s"
| "json_show v = json_repr v"

text \<open>\<open>d.get(k1) or d.get(k2) or default\<close>\<close>

definition first_truthy :: "(string \<times> json) list \<Rightarrow> string \<Rightarrow> string \<Rightarrow> string \<Rightarrow> json" where
  "first_truthy d k1 k2 dflt =
    (let v1 = or_derived (map_of d k1) JNull; v2 = or_derived (map_of d k2) JNull in
     if truthy v1 then v1 else if truthy v2 then v2 else JStr dflt)"

definition mandatory_target_finding :: "(string \<times> json) list \<Rightarrow> finding option" where
  "mandatory_target_finding raw =
    (let status = py_upper (json_show (or_derived (map_of raw ''status'') (JStr [])));
         target_id = json_show (first_truthy raw ''target_id'' ''id'' ''mandatory_target'');
         detail = json_show (first_truthy raw ''detail'' ''reason'' ''target was not tested'') in
     if status \<in> {''TESTED'', ''UNRESOLVABLE''} then None
     else Some ((new_finding ''adversarial'' target_id Severity_BLOCKING
       (''Mandatory adversarial target not fulfilled: '' @ target_id @ '' (status=''
         @ (if status = [] then ''MISSING'' else status) @ ''; '' @ detail @ '')'') Trust_VERIFIED_LLM)
       \<lparr>fd_suggestion := Some ''Cover this mandatory adversarial target or mark it UNRESOLVABLE with evidence.''\<rparr>))"

fun target_findings :: "json list \<Rightarrow> exn + finding list" where
  "target_findings [] = Inr []"
| "target_findings (JObj raw # rest) = (case target_findings rest of
      Inl e \<Rightarrow> Inl e
    | Inr fs \<Rightarrow> Inr (opt_list (mandatory_target_finding raw) @ fs))"
| "target_findings (v # rest) =
     Inl (MandatoryTargetReadError (''The adversarial artifact'' @ quote @ ''s ''
       @ py_repr ''mandatory_target_results''
       @ '' contains an entry of the wrong shape: expected a mapping, got '' @ json_type_name v
       @ ''. A present-but-malformed mandatory-target entry must not silently drop a mandatory ''
       @ ''target (FAIL-CLOSED).''))"

definition mandatory_target_findings_from_adversarial ::
  "(string \<times> json) list \<Rightarrow> exn + finding list" where
  "mandatory_target_findings_from_adversarial payload =
    (case map_of payload ''mandatory_target_results'' of
       None \<Rightarrow> Inr []
     | Some (JList raws) \<Rightarrow> target_findings raws
     | Some v \<Rightarrow> Inl (MandatoryTargetReadError (''The adversarial artifact carries a ''
         @ py_repr ''mandatory_target_results'' @ '' key but its shape is broken: expected a list, got ''
         @ json_type_name v @ ''. A present-but-malformed mandatory_target_results must not silently drop ''
         @ ''a mandatory target (FAIL-CLOSED).'')))"

section \<open>The assessment compares the worst findings\<close>

fun join_max :: "nat option \<Rightarrow> nat option \<Rightarrow> nat option" where
  "join_max None y = y"
| "join_max x None = x"
| "join_max (Some a) (Some b) = Some (max a b)"

lemma join_max_None [simp]: "join_max x None = x"
  by (cases x) simp_all

lemma join_max_assoc: "join_max (join_max x y) z = join_max x (join_max y z)"
  by (cases x; cases y; cases z) simp_all

definition ranks :: "finding_key \<Rightarrow> finding list \<Rightarrow> nat set" where
  "ranks k fs = severity_rank ` fd_severity ` {f \<in> set fs. finding_key f = k}"

definition worst_rank :: "finding_key \<Rightarrow> finding list \<Rightarrow> nat option" where
  "worst_rank k fs = (if k \<in> finding_key ` set fs then Some (Max (ranks k fs)) else None)"

lemma ranks_Cons: "ranks k (f # fs) =
    (if finding_key f = k then insert (severity_rank (fd_severity f)) (ranks k fs) else ranks k fs)"
  by (auto simp: ranks_def)

lemma ranks_empty: "ranks k fs = {} \<longleftrightarrow> k \<notin> finding_key ` set fs"
  by (auto simp: ranks_def)

lemma finite_ranks [simp]: "finite (ranks k fs)"
  by (simp add: ranks_def)

lemma worst_rank_Nil [simp]: "worst_rank k [] = None"
  by (simp add: worst_rank_def)

lemma worst_rank_Cons: "worst_rank k (f # fs) =
    (if finding_key f = k then join_max (Some (severity_rank (fd_severity f))) (worst_rank k fs)
     else worst_rank k fs)"
  using ranks_empty [of k fs] by (auto simp: worst_rank_def ranks_Cons)

lemma max_severity_worst:
  "map_option severity_rank (map_of (max_severity acc fs) k) =
    join_max (map_option severity_rank (map_of acc k)) (worst_rank k fs)"
proof (induction acc fs rule: max_severity.induct)
  case (2 acc f fs)
  let ?acc = "if map_of acc (finding_key f) = None \<or>
      severity_rank (fd_severity f) > severity_rank (the (map_of acc (finding_key f)))
    then AList.update (finding_key f) (fd_severity f) acc else acc"
  have "map_option severity_rank (map_of ?acc k) = (if finding_key f = k
      then join_max (map_option severity_rank (map_of acc k)) (Some (severity_rank (fd_severity f)))
      else map_option severity_rank (map_of acc k))"
    by (cases "map_of acc (finding_key f)") (auto simp: update_conv' max_def)
  moreover have "map_option severity_rank (map_of (max_severity ?acc fs) k)
      = join_max (map_option severity_rank (map_of ?acc k)) (worst_rank k fs)"
    using 2 by (simp add: Let_def)
  ultimately show ?case by (simp add: Let_def worst_rank_Cons join_max_assoc)
qed simp

lemma map_of_map_entry: "map_of (map (\<lambda>(k, v). (k, g k v)) kvs) k = map_option (g k) (map_of kvs k)"
  by (induction kvs) auto

text \<open>
  The assessment of a remediation round compares, per finding identity, the worst severity
  before with the worst severity now: it speaks about exactly the identities found before, calls
  one fully resolved if it is gone, partially resolved if its worst severity dropped, and not
  resolved otherwise, however often and in whatever order the identity was reported.
\<close>
theorem assessment_compares_the_worst:
  "map_of (assess previous current) k =
    (if k \<notin> finding_key ` set previous then None
     else Some (if k \<notin> finding_key ` set current then FULLY_RESOLVED
                else if Max (ranks k current) < Max (ranks k previous) then PARTIALLY_RESOLVED
                else NOT_RESOLVED))"
proof -
  let ?c = "map_of (max_severity [] current) k" and ?p = "map_of (max_severity [] previous) k"
  have "map_option severity_rank ?c = worst_rank k current"
    "map_option severity_rank ?p = worst_rank k previous"
    by (simp_all add: max_severity_worst)
  moreover have "map_of (assess previous current) k = map_option (\<lambda>v. classify v ?c) ?p"
    by (simp add: assess_def Let_def map_of_map_entry)
  ultimately show ?thesis
    by (cases ?c; cases ?p) (auto simp: worst_rank_def classify_def split: if_splits)
qed

section \<open>Verdicts survive the metadata\<close>

definition plain_key :: "finding_key \<Rightarrow> bool" where
  "plain_key k \<longleftrightarrow> fst k \<noteq> [] \<and> snd k \<noteq> [] \<and> CHR '':'' \<notin> set (fst k) \<and> CHR '':'' \<notin> set (snd k)"

lemma case_not_two: "length ps \<noteq> 2 \<Longrightarrow> (case ps of [a, b] \<Rightarrow> f a b | _ \<Rightarrow> y) = y"
  by (auto split: list.splits)

lemma decode_joined_key:
  "decode_finding_key (joined_key k) = (if plain_key k then Inr k
     else Inl (ResolutionMetadataError (''resolution key '' @ py_repr (joined_key k)
       @ '' is not a well-formed '' @ py_repr ''layer:check'' @ '' pair'')))"
proof (cases "CHR '':'' \<in> set (fst k) \<or> CHR '':'' \<in> set (snd k)")
  case True
  then have "count_list (fst k) (CHR '':'') \<noteq> 0 \<or> count_list (snd k) (CHR '':'') \<noteq> 0"
    by (simp add: count_list_0_iff)
  then have two: "length (split_on (CHR '':'') (joined_key k)) \<noteq> 2"
    by (simp add: length_split_on joined_key_def)
  have "\<not> plain_key k" using True by (auto simp: plain_key_def)
  then show ?thesis
    unfolding decode_finding_key_def case_not_two [OF two] by (simp only: if_False)
next
  case False
  then have "split_on (CHR '':'') (joined_key k) = [fst k, snd k]"
    by (simp add: joined_key_def split_on_append split_on_none)
  then show ?thesis using False by (simp add: decode_finding_key_def plain_key_def)
qed

lemma decode_plain_key: "plain_key k \<Longrightarrow> decode_finding_key (joined_key k) = Inr k"
  unfolding decode_joined_key by (simp only: if_True)

lemma joined_key_inj: "plain_key k \<Longrightarrow> plain_key l \<Longrightarrow> joined_key k = joined_key l \<Longrightarrow> k = l"
  by (metis decode_plain_key sum.inject(2))

lemma keys_put_all [simp]: "fst ` set (put_all acc kvs) = fst ` set acc \<union> fst ` set kvs"
  by (induction acc kvs rule: put_all.induct) (auto simp: dom_update)

lemma update_nonexist: "k \<notin> fst ` set al \<Longrightarrow> AList.update k v al = al @ [(k, v)]"
  by (induction al) auto

lemma distinct_sort_key: "distinct (map f xs) \<Longrightarrow> distinct (map f (sort_key g xs))"
  by (metis card_distinct distinct_card length_map length_sort set_map set_sort)

lemma put_all_distinct:
  "distinct (map fst (acc @ kvs)) \<Longrightarrow> put_all acc kvs = acc @ kvs"
proof (induction acc kvs rule: put_all.induct)
  case (2 acc k v kvs)
  then have "AList.update k v acc = acc @ [(k, v)]" by (simp add: update_nonexist)
  then show ?case using 2 by simp
qed simp

lemma decode_entries_distinct:
  assumes "distinct (map fst (acc @ m))" and "list_all plain_key (map fst m)"
  shows "decode_entries acc (map (\<lambda>(k, s). (joined_key k, JStr (resolution_value s))) m) = Inr (acc @ m)"
  using assms
proof (induction m arbitrary: acc)
  case (Cons e m)
  obtain k s where e: "e = (k, s)" by (cases e) auto
  have "AList.update k s acc = acc @ [(k, s)]" using Cons.prems e by (simp add: update_nonexist)
  then show ?case
    using Cons.IH [of "acc @ [(k, s)]"] Cons.prems e by (simp add: decode_status_def decode_plain_key)
qed simp

lemma decode_entries_raises:
  "(k, v) \<in> set kvs \<Longrightarrow> decode_finding_key k = Inl e \<Longrightarrow> \<exists>e'. decode_entries acc kvs = Inl e'"
  by (induction acc kvs rule: decode_entries.induct) (auto split: sum.splits)

definition resolution_metadata :: "resolution_map \<Rightarrow> metadata" where
  "resolution_metadata m = [(LLM_RESOLUTION_METADATA_KEY,
     JObj (map (\<lambda>(k, v). (k, JStr v)) (serialize_resolution_map m)))]"

lemma serialize_plain:
  assumes "distinct (map fst m)" and "list_all plain_key (map fst m)"
  shows "serialize_resolution_map m = map (\<lambda>(k, s). (joined_key k, resolution_value s)) (sort_key fst m)"
proof -
  have "inj_on joined_key (fst ` set m)"
    using assms(2) by (auto simp: inj_on_def list_all_iff dest: joined_key_inj)
  moreover have "distinct (map fst (sort_key fst m))"
    using assms(1) by (rule distinct_sort_key)
  ultimately have "distinct (map (joined_key \<circ> fst) (sort_key fst m))"
    by (simp add: distinct_map comp_inj_on flip: map_map)
  then show ?thesis
    unfolding serialize_resolution_map_def
    by (subst put_all_distinct) (simp_all add: comp_def case_prod_beta)
qed

text \<open>
  The verdicts of the reviewers survive their trip through the metadata of a layer result
  exactly when no layer or check name is empty or contains the separator: then the decoded map has
  the same entries; otherwise the reader raises instead of dropping or renaming a verdict.
\<close>
theorem resolution_metadata_roundtrip:
  assumes "distinct (map fst m)"
  shows "if list_all plain_key (map fst m)
    then resolution_map_from_metadata (Some (resolution_metadata m)) = Inr (sort_key fst m)
      \<and> set (sort_key fst m) = set m
    else \<exists>e. resolution_map_from_metadata (Some (resolution_metadata m)) = Inl e"
proof (cases "list_all plain_key (map fst m)")
  case True
  have "distinct (map fst (sort_key fst m))" "list_all plain_key (map fst (sort_key fst m))"
    using distinct_sort_key [OF assms] True by (simp_all add: list_all_iff)
  then show ?thesis
    using True decode_entries_distinct [of "[]" "sort_key fst m"] serialize_plain [OF assms True]
    by (simp add: resolution_map_from_metadata_def resolution_metadata_def comp_def case_prod_unfold)
next
  case False
  then obtain k s where k: "(k, s) \<in> set m" "\<not> plain_key k" by (auto simp: list_all_iff)
  have "joined_key k \<in> fst ` set (serialize_resolution_map m)"
    using k(1) by (force simp: serialize_resolution_map_def)
  then obtain v where "(joined_key k, JStr v) \<in> set (map (\<lambda>(k, v). (k, JStr v)) (serialize_resolution_map m))"
    by force
  from decode_entries_raises [OF this] decode_joined_key [of k] k(2) False
  show ?thesis by (auto simp: resolution_map_from_metadata_def resolution_metadata_def)
qed

lemma resolution_metadata_roundtrip_witness:
  "resolution_map_from_metadata (Some (resolution_metadata [((''semantic_review'', ''ac_fulfilled''),
     NOT_RESOLVED)])) = Inr [((''semantic_review'', ''ac_fulfilled''), NOT_RESOLVED)]"
  using resolution_metadata_roundtrip [of "[((''semantic_review'', ''ac_fulfilled''), NOT_RESOLVED)]"]
  by (simp add: plain_key_def)

section \<open>An open verdict survives every merge\<close>

definition open_in :: "resolution_map \<Rightarrow> finding_key \<Rightarrow> bool" where
  "open_in m k \<longleftrightarrow> (\<exists>s. map_of m k = Some s \<and> is_open_resolution_status s)"

lemma has_open_iff: "resolution_map_has_open_findings (Some m) \<longleftrightarrow>
    (\<exists>(k, s) \<in> set m. is_open_resolution_status s)"
  by (simp add: resolution_map_has_open_findings_def list_ex_iff case_prod_unfold)

lemma has_open_distinct:
  "distinct (map fst m) \<Longrightarrow> resolution_map_has_open_findings (Some m) \<longleftrightarrow> (\<exists>k. open_in m k)"
  by (force simp: has_open_iff open_in_def)

lemma open_in_update:
  assumes "map_of m k = None \<or> is_open_resolution_status s \<and> \<not> is_open_resolution_status (the (map_of m k))"
  shows "open_in (AList.update k s m) l \<longleftrightarrow> open_in m l \<or> (l = k \<and> is_open_resolution_status s)"
  using assms by (auto simp: open_in_def update_conv')

lemma merge_entries_open:
  "open_in (merge_entries merged kvs) l \<longleftrightarrow>
    open_in merged l \<or> (\<exists>s. (l, s) \<in> set kvs \<and> is_open_resolution_status s)"
proof (induction merged kvs rule: merge_entries.induct)
  case (2 merged k s kvs)
  let ?c = "map_of merged k = None \<or> is_open_resolution_status s \<and> \<not> is_open_resolution_status (the (map_of merged k))"
  have "open_in (if ?c then AList.update k s merged else merged) l \<longleftrightarrow>
      open_in merged l \<or> (l = k \<and> is_open_resolution_status s)"
    by (auto simp: open_in_update) (auto simp: open_in_def)
  then show ?case using 2 by (auto simp: Let_def)
qed simp

lemma merge_entries_distinct:
  "distinct (map fst merged) \<Longrightarrow> distinct (map fst (merge_entries merged kvs))"
  by (induction merged kvs rule: merge_entries.induct) (auto simp: Let_def distinct_update)

lemma merge_results_open:
  "merge_results merged saw lrs = Inr (m, b) \<Longrightarrow> open_in m l \<longleftrightarrow> open_in merged l \<or>
    (\<exists>lr \<in> set lrs. \<exists>rm. resolution_map_from_metadata (Some (lr_metadata lr)) = Inr rm
       \<and> (\<exists>s. (l, s) \<in> set rm \<and> is_open_resolution_status s))"
  by (induction lrs arbitrary: merged saw) (auto simp: merge_entries_open split: sum.splits)

lemma merge_results_distinct:
  "merge_results merged saw lrs = Inr (m, b) \<Longrightarrow> distinct (map fst merged) \<Longrightarrow> distinct (map fst m)"
  by (induction lrs arbitrary: merged saw) (auto simp: merge_entries_distinct split: sum.splits)

text \<open>
  Merging is fail-closed and adds nothing of its own: closure is blocked by the merged map
  exactly when the deterministic assessment or the verdicts of some reviewer left a previous finding
  open, in whatever order the results are merged.
\<close>
theorem merge_keeps_open_findings:
  assumes "merge_llm_finding_resolutions base lrs = Inr m"
    and "distinct (map fst (or_derived base []))"
  shows "resolution_map_has_open_findings m \<longleftrightarrow> resolution_map_has_open_findings base \<or>
    (\<exists>lr \<in> set lrs. \<exists>rm. resolution_map_from_metadata (Some (lr_metadata lr)) = Inr rm
       \<and> resolution_map_has_open_findings (Some rm))"
proof -
  obtain merged saw where run: "merge_results (or_derived base []) False lrs = Inr (merged, saw)"
    and m: "m = (if merged = [] \<and> \<not> saw \<and> base = None then None else Some merged)"
    using assms(1) by (auto simp: merge_llm_finding_resolutions_def split: sum.splits if_splits)
  have "resolution_map_has_open_findings m \<longleftrightarrow> resolution_map_has_open_findings (Some merged)"
    using m by (simp add: resolution_map_has_open_findings_def)
  also have "\<dots> \<longleftrightarrow> (\<exists>k. open_in merged k)"
    by (rule has_open_distinct [OF merge_results_distinct [OF run assms(2)]])
  also have "\<dots> \<longleftrightarrow> (\<exists>k. open_in (or_derived base []) k) \<or>
    (\<exists>lr \<in> set lrs. \<exists>rm. resolution_map_from_metadata (Some (lr_metadata lr)) = Inr rm
       \<and> resolution_map_has_open_findings (Some rm))"
    unfolding merge_results_open [OF run] has_open_iff by blast
  also have "(\<exists>k. open_in (or_derived base []) k) \<longleftrightarrow> resolution_map_has_open_findings base"
    using has_open_distinct [OF assms(2)]
    by (cases base) (simp_all add: or_derived_def resolution_map_has_open_findings_def)
  finally show ?thesis .
qed

lemma merge_keeps_open_findings_witness:
  "\<exists>m. merge_llm_finding_resolutions (Some [((''qa_review'', ''ac_fulfilled''), FULLY_RESOLVED)])
     [\<lparr>lr_layer = ''qa_review'', lr_passed = True, lr_findings = [],
       lr_metadata = resolution_metadata [((''qa_review'', ''ac_fulfilled''), PARTIALLY_RESOLVED)],
       lr_artifact_reference = None\<rparr>] = Inr m
   \<and> resolution_map_has_open_findings m"
proof -
  let ?lr = "\<lparr>lr_layer = ''qa_review'', lr_passed = True, lr_findings = [],
       lr_metadata = resolution_metadata [((''qa_review'', ''ac_fulfilled''), PARTIALLY_RESOLVED)],
       lr_artifact_reference = None\<rparr>"
  have md: "resolution_map_from_metadata (Some (lr_metadata ?lr)) =
      Inr [((''qa_review'', ''ac_fulfilled''), PARTIALLY_RESOLVED)]"
    by (simp add: resolution_metadata_def resolution_map_from_metadata_def serialize_resolution_map_def
        joined_key_def decode_status_def decode_finding_key_def enum_of_def resolution_statuses_def)
  then obtain m where m: "merge_llm_finding_resolutions
      (Some [((''qa_review'', ''ac_fulfilled''), FULLY_RESOLVED)]) [?lr] = Inr m"
    by (simp add: merge_llm_finding_resolutions_def or_derived_def)
  have "resolution_map_has_open_findings (Some [((''qa_review'', ''ac_fulfilled''), PARTIALLY_RESOLVED)])"
    by (simp add: resolution_map_has_open_findings_def is_open_resolution_status_def)
  then have "resolution_map_has_open_findings m"
    using merge_keeps_open_findings [OF m] md by (simp add: or_derived_def)
  then show ?thesis using m by blast
qed

section \<open>What the feedback says\<close>

context verdict_source
begin

lemma feedback_names_a_blocker:
  assumes "decision x = Inr d"
  shows "case build_feedback d story round_nr resolution extra of
      None \<Rightarrow> vd_verdict d = Verdict_PASS \<and> extra = []
    | Some fb \<Rightarrow> rf_blocking_findings fb \<noteq> [] \<and> set extra \<subseteq> set (rf_blocking_findings fb)
        \<and> set (vd_blocking_findings d) \<subseteq> set (rf_blocking_findings fb)"
  using verdict_flag [OF assms] blocking_flag [OF assms] by (auto simp: build_feedback_def)

end

text \<open>
  The worker is told why: a decision of the engine yields no feedback exactly when it passed and
  no mandatory target is open; otherwise the feedback lists at least one blocking finding, all
  findings that blocked the decision and all unmet targets.
\<close>
theorem feedback_names_what_blocks:
  assumes "decide pe lrs st layers are suff contract = Inr d"
  shows "case build_feedback d story round_nr resolution extra of
      None \<Rightarrow> vd_verdict d = Verdict_PASS \<and> extra = []
    | Some fb \<Rightarrow> rf_blocking_findings fb \<noteq> [] \<and> set extra \<subseteq> set (rf_blocking_findings fb)
        \<and> set (vd_blocking_findings d) \<subseteq> set (rf_blocking_findings fb)"
  using policy.feedback_names_a_blocker [of "(pe, lrs, st, layers, are, suff, contract)" d] assms by simp

lemma feedback_names_what_blocks_witness:
  "\<exists>d. decide default_engine [feedback_result []] StoryType_CONCEPT [2, 4] False None None = Inr d
    \<and> (case build_feedback d ''AG3-1'' 1 None [] of None \<Rightarrow> vd_verdict d = Verdict_PASS
       | Some fb \<Rightarrow> rf_blocking_findings fb \<noteq> [])"
proof -
  obtain d where d:
    "decide default_engine [feedback_result []] StoryType_CONCEPT [2, 4] False None None = Inr d"
    by (rule concept_decision)
  show ?thesis using feedback_names_what_blocks [OF d, where story = "''AG3-1''" and round_nr = 1 and resolution = None and extra = "[]"] d
    by (auto split: option.splits)
qed

text \<open>
  No mandatory target is dropped: reading the adversarial results either raises, exactly when an entry
  is not an object, or yields one finding per entry that is neither tested nor unresolvable.
\<close>

lemma target_findings_exact:
  "target_findings raws = Inr fs \<longleftrightarrow> (\<exists>objs. raws = map JObj objs
     \<and> fs = concat (map (\<lambda>o'. opt_list (mandatory_target_finding o')) objs))"
proof (induction raws arbitrary: fs rule: target_findings.induct)
  case (2 raw rest)
  show ?case
  proof (cases "target_findings rest")
    case (Inl e)
    then have "\<nexists>objs. rest = map JObj objs" using 2 by auto
    then show ?thesis using Inl by (auto simp: Cons_eq_map_conv)
  next
    case (Inr gs)
    then obtain objs where "rest = map JObj objs"
      "gs = concat (map (\<lambda>o'. opt_list (mandatory_target_finding o')) objs)" using 2 by auto
    then show ?thesis using Inr by (auto simp: Cons_eq_map_conv dest: map_injective [OF _ injI])
  qed
qed auto

end
