(* ===== verification/Json_Text.thy ===== *)
theory Json_Text
  imports Core_Types
begin

text \<open>
  JSON texts as Python's \<open>json\<close> module reads and writes them. The decoder keeps the members of an
  object in wire order, repeated keys included, since \<open>object_pairs_hook\<close> receives them so; numbers
  keep their text; \<open>json_of_wire\<close> reads the integers among them, which are all that payloads hold. Strings are UTF-8 bytes as everywhere.
  The encoder is the one of \<open>ensure_ascii=False\<close>.
\<close>

datatype wire =
    WNull
  | WBool bool
  | WNumber string
  | WStr string
  | WList "wire list"
  | WObj "(string \<times> wire) list"

section \<open>Strings\<close>

definition dquote :: char where
  "dquote = CHR 0x22"

definition backslash :: char where
  "backslash = CHR 0x5C"

definition json_space :: "char \<Rightarrow> bool" where
  "json_space c = (c \<in> {CHR 0x20, CHR 0x09, CHR 0x0A, CHR 0x0D})"

definition hex_val :: "char \<Rightarrow> nat option" where
  "hex_val c = (let n = of_char c in
     if (48::nat) \<le> n \<and> n \<le> 57 then Some (n - 48)
     else if 97 \<le> n \<and> n \<le> 102 then Some (n - 87)
     else if 65 \<le> n \<and> n \<le> 70 then Some (n - 55) else None)"

text \<open>Four hexadecimal digits.\<close>

definition hex4 :: "string \<Rightarrow> (nat \<times> string) option" where
  "hex4 s = (case s of
      a # b # c # d # rest \<Rightarrow> (case (hex_val a, hex_val b, hex_val c, hex_val d) of
          (Some w, Some x, Some y, Some z) \<Rightarrow> Some (4096 * w + 256 * x + 16 * y + z, rest)
        | _ \<Rightarrow> None)
    | _ \<Rightarrow> None)"

text \<open>What follows \<open>\u\<close>: a code point, of two surrogates where they pair up.\<close>

definition unicode_escape :: "string \<Rightarrow> (nat \<times> string) option" where
  "unicode_escape s = (case hex4 s of
      None \<Rightarrow> None
    | Some (n, rest) \<Rightarrow>
        if 0xD800 \<le> n \<and> n \<le> 0xDBFF \<and> take 2 rest = [backslash, CHR ''u'']
        then (case hex4 (drop 2 rest) of
                None \<Rightarrow> Some (n, rest)
              | Some (m, rest') \<Rightarrow>
                  if 0xDC00 \<le> m \<and> m \<le> 0xDFFF
                  then Some (0x10000 + 1024 * (n - 0xD800) + (m - 0xDC00), rest')
                  else Some (n, rest))
        else Some (n, rest))"

definition utf8 :: "nat \<Rightarrow> string" where
  "utf8 n =
    (if n < 128 then [char_of n]
     else if n < 2048 then [char_of (192 + n div 64), char_of (128 + n mod 64)]
     else if n < 65536 then [char_of (224 + n div 4096), char_of (128 + n div 64 mod 64), char_of (128 + n mod 64)]
     else [char_of (240 + n div 262144), char_of (128 + n div 4096 mod 64),
           char_of (128 + n div 64 mod 64), char_of (128 + n mod 64)])"

text \<open>The one-character escapes.\<close>

definition BACKSLASH_ESCAPES :: "(char \<times> char) list" where
  "BACKSLASH_ESCAPES = [(dquote, dquote), (backslash, backslash), (CHR ''/'', CHR ''/''),
     (CHR ''b'', CHR 0x08), (CHR ''f'', CHR 0x0C), (CHR ''n'', CHR 0x0A), (CHR ''r'', CHR 0x0D),
     (CHR ''t'', CHR 0x09)]"

lemma hex4_shorter: "hex4 s = Some (n, rest) \<Longrightarrow> length rest < length s"
  by (auto simp: hex4_def split: list.splits option.splits)

lemma unicode_escape_shorter:
  assumes "unicode_escape s = Some (n, rest)"
  shows "length rest < length s"
proof -
  obtain m r where "hex4 s = Some (m, r)" "length r < length s"
    using assms hex4_shorter by (fastforce simp: unicode_escape_def split: option.splits)
  then show ?thesis
    using assms hex4_shorter [of "drop 2 r"]
    by (fastforce simp: unicode_escape_def split: option.splits if_splits)
qed

text \<open>The rest of a string after its opening quote: the text, and what follows the closing one.\<close>

function scan_string :: "string \<Rightarrow> (string \<times> string) option" where
  "scan_string [] = None"
| "scan_string (c # cs) =
    (if c = dquote then Some ([], cs)
     else if c = backslash then (case cs of
         [] \<Rightarrow> None
       | e # es \<Rightarrow>
           if e = CHR ''u'' then (case unicode_escape es of
               None \<Rightarrow> None
             | Some (n, rest) \<Rightarrow> map_option (apfst ((@) (utf8 n))) (scan_string rest))
           else (case map_of BACKSLASH_ESCAPES e of
               None \<Rightarrow> None
             | Some d \<Rightarrow> map_option (apfst (Cons d)) (scan_string es)))
     else if of_char c < (32::nat) then None
     else map_option (apfst (Cons c)) (scan_string cs))"
  by pat_completeness auto

termination scan_string
  by (relation "measure length") (auto dest!: unicode_escape_shorter)

section \<open>Values\<close>

definition is_digit :: "char \<Rightarrow> bool" where
  "is_digit c = (digit_val c \<noteq> None)"

text \<open>\<open>(-?(?:0|[1-9][0-9]*))(\.[0-9]+)?([eE][-+]?[0-9]+)?\<close> at the start of the text\<close>

definition scan_fraction :: "string \<Rightarrow> string \<times> string" where
  "scan_fraction s = (case s of
      c # cs \<Rightarrow> if c = CHR ''.'' \<and> takeWhile is_digit cs \<noteq> []
                then (c # takeWhile is_digit cs, dropWhile is_digit cs) else ([], s)
    | [] \<Rightarrow> ([], []))"

definition scan_exponent :: "string \<Rightarrow> string \<times> string" where
  "scan_exponent s = (case s of
      c # cs \<Rightarrow>
        (let sign = take 1 (takeWhile (\<lambda>x. x \<in> {CHR ''-'', CHR ''+''}) cs);
             ds = drop (length sign) cs in
         if c \<in> {CHR ''e'', CHR ''E''} \<and> takeWhile is_digit ds \<noteq> []
         then (c # sign @ takeWhile is_digit ds, dropWhile is_digit ds) else ([], s))
    | [] \<Rightarrow> ([], []))"

definition int_part :: "string \<Rightarrow> string" where
  "int_part s = (case s of
      c # _ \<Rightarrow> if c = CHR ''0'' then [c] else takeWhile is_digit s
    | [] \<Rightarrow> [])"

definition scan_number :: "string \<Rightarrow> (wire \<times> string) option" where
  "scan_number s =
    (let sign = take 1 (takeWhile (\<lambda>x. x = CHR ''-'') s); s1 = drop (length sign) s;
         digits = int_part s1;
         (frac, s2) = scan_fraction (drop (length digits) s1);
         (expo, s3) = scan_exponent s2 in
     if digits = [] then None else Some (WNumber (sign @ digits @ frac @ expo), s3))"

definition constants :: "(string \<times> wire) list" where
  "constants = [(''null'', WNull), (''true'', WBool True), (''false'', WBool False),
     (''NaN'', WNumber ''NaN''), (''Infinity'', WNumber ''Infinity''),
     (''-Infinity'', WNumber ''-Infinity'')]"

definition scan_constant :: "string \<Rightarrow> (wire \<times> string) option" where
  "scan_constant s = (case List.find (\<lambda>(k, _). take (length k) s = k) constants of
      Some (k, v) \<Rightarrow> Some (v, drop (length k) s)
    | None \<Rightarrow> None)"

definition skip_space :: "string \<Rightarrow> string" where
  "skip_space = dropWhile json_space"

text \<open>
  The scanner: a value, the items of an array after its bracket or a comma, the members of an
  object likewise. The number bounds the nesting of calls; \<open>2 * length s\<close> is enough, since a
  value, or the separator after it, takes up a character.
\<close>

fun scan_value :: "nat \<Rightarrow> string \<Rightarrow> (wire \<times> string) option"
  and scan_items :: "nat \<Rightarrow> string \<Rightarrow> (wire list \<times> string) option"
  and scan_members :: "nat \<Rightarrow> string \<Rightarrow> ((string \<times> wire) list \<times> string) option" where
  "scan_value 0 s = None"
| "scan_value (Suc n) s = (case s of
      [] \<Rightarrow> None
    | c # cs \<Rightarrow>
        if c = dquote then map_option (apfst WStr) (scan_string cs)
        else if c = CHR ''['' then
          (if take 1 (skip_space cs) = '']'' then Some (WList [], drop 1 (skip_space cs))
           else map_option (apfst WList) (scan_items n (skip_space cs)))
        else if c = CHR ''{'' then
          (if take 1 (skip_space cs) = ''}'' then Some (WObj [], drop 1 (skip_space cs))
           else map_option (apfst WObj) (scan_members n (skip_space cs)))
        else (case scan_constant s of Some r \<Rightarrow> Some r | None \<Rightarrow> scan_number s))"
| "scan_items 0 s = None"
| "scan_items (Suc n) s = (case scan_value n s of
      None \<Rightarrow> None
    | Some (v, r) \<Rightarrow> (case skip_space r of
        [] \<Rightarrow> None
      | d # ds \<Rightarrow>
          if d = CHR '']'' then Some ([v], ds)
          else if d = CHR '','' then map_option (apfst (Cons v)) (scan_items n (skip_space ds))
          else None))"
| "scan_members 0 s = None"
| "scan_members (Suc n) s = (case s of
      [] \<Rightarrow> None
    | q # cs \<Rightarrow>
        if q \<noteq> dquote then None
        else (case scan_string cs of
          None \<Rightarrow> None
        | Some (k, r) \<Rightarrow>
            if take 1 (skip_space r) \<noteq> '':'' then None
            else (case scan_value n (skip_space (drop 1 (skip_space r))) of
                None \<Rightarrow> None
              | Some (v, r') \<Rightarrow> (case skip_space r' of
                  [] \<Rightarrow> None
                | d # ds \<Rightarrow>
                    if d = CHR ''}'' then Some ([(k, v)], ds)
                    else if d = CHR '','' then map_option (apfst (Cons (k, v))) (scan_members n (skip_space ds))
                    else None))))"

text \<open>\<open>json.loads(text)\<close>\<close>

definition json_loads :: "string \<Rightarrow> wire option" where
  "json_loads s = (case scan_value (2 * length s) (skip_space s) of
      Some (v, rest) \<Rightarrow> if skip_space rest = [] then Some v else None
    | None \<Rightarrow> None)"

subsection \<open>The bound on nesting is never met\<close>

lemma skip_space_le: "length (skip_space s) \<le> length s"
  by (simp add: skip_space_def length_dropWhile_le)

lemma skip_sep_le: "length (skip_space (drop (Suc 0) (skip_space s))) \<le> length s"
  using skip_space_le [of s] skip_space_le [of "drop (Suc 0) (skip_space s)"] by simp

lemma scan_string_shorter: "scan_string s = Some (t, r) \<Longrightarrow> length r < length s"
proof (induction s arbitrary: t r rule: scan_string.induct)
  case (2 c cs)
  then show ?case
    by (fastforce split: if_splits list.splits option.splits dest: unicode_escape_shorter)
qed simp

lemma scan_constant_shorter: "scan_constant s = Some (v, r) \<Longrightarrow> length r < length s"
  by (cases s) (auto simp: scan_constant_def constants_def split: if_splits)

lemma scan_fraction_le: "scan_fraction s = (t, r) \<Longrightarrow> length r \<le> length s"
  by (auto simp: scan_fraction_def length_dropWhile_le le_SucI split: list.splits if_splits)

lemma scan_exponent_le: "scan_exponent s = (t, r) \<Longrightarrow> length r \<le> length s"
  by (auto simp: scan_exponent_def Let_def split: list.splits if_splits)
    (metis length_dropWhile_le length_drop diff_le_self le_SucI le_trans)+

lemma drop_eq_Cons_less: "drop k s = x # xs \<Longrightarrow> k < length s"
  by (metis drop_all list.distinct(1) not_le_imp_less)

lemma scan_number_shorter: "scan_number s = Some (v, r) \<Longrightarrow> length r < length s"
  by (auto simp: scan_number_def int_part_def Let_def split: prod.splits if_splits list.splits
      dest!: scan_fraction_le scan_exponent_le dest: drop_eq_Cons_less)

lemma skip_space_less: "skip_space r = d # ds \<Longrightarrow> length ds < length r"
  using skip_space_le [of r] by simp

lemma scan_shorter_all:
  "(\<forall>s v r. scan_value n s = Some (v, r) \<longrightarrow> length r < length s)
    \<and> (\<forall>s v r. scan_items n s = Some (v, r) \<longrightarrow> length r < length s)
    \<and> (\<forall>s v r. scan_members n s = Some (v, r) \<longrightarrow> length r < length s)"
proof (induction n)
  case (Suc n)
  then have IH: "scan_value n s = Some (v, r) \<Longrightarrow> length r < length s"
      "scan_items n s = Some (vs, r) \<Longrightarrow> length r < length s"
      "scan_members n s = Some (ms, r) \<Longrightarrow> length r < length s" for s v vs ms r
    by blast+
  have le: "length r < length (skip_space s) \<Longrightarrow> length r < length s"
    "length r < length (skip_space (drop (Suc 0) (skip_space s))) \<Longrightarrow> length r < length s" for s and r :: string
    using skip_space_le [of s] skip_space_le [of "drop (Suc 0) (skip_space s)"] by simp_all
  have "length r < length s" if "scan_value (Suc n) s = Some (v, r)" for s v r
    using that skip_space_le [of "tl s"]
    by (auto split: list.splits if_splits option.splits
        dest!: IH scan_string_shorter scan_constant_shorter scan_number_shorter dest: le)
  moreover have "length r < length s" if "scan_items (Suc n) s = Some (v, r)" for s v r
    using that by (fastforce split: list.splits if_splits option.splits dest!: IH skip_space_less dest: le)
  moreover have "length r < length s" if "scan_members (Suc n) s = Some (v, r)" for s v r
    using that
    by (fastforce split: list.splits if_splits option.splits
        dest!: IH skip_space_less scan_string_shorter dest: le)
  ultimately show ?case by blast
qed simp

lemmas scan_shorter = scan_shorter_all [THEN conjunct1, rule_format]
  scan_shorter_all [THEN conjunct2, THEN conjunct1, rule_format]
  scan_shorter_all [THEN conjunct2, THEN conjunct2, rule_format]

text \<open>More fuel gives the same scan.\<close>

lemma scan_fuel_all:
  "(\<forall>s. 2 * length s \<le> n \<longrightarrow> scan_value (Suc n) s = scan_value n s)
    \<and> (\<forall>s. 2 * length s < n \<longrightarrow> scan_items (Suc n) s = scan_items n s)
    \<and> (\<forall>s. 2 * length s < n \<longrightarrow> scan_members (Suc n) s = scan_members n s)"
proof (induction n)
  case (Suc n)
  then have IH: "2 * length s \<le> n \<Longrightarrow> scan_value (Suc n) s = scan_value n s"
      "2 * length s < n \<Longrightarrow> scan_items (Suc n) s = scan_items n s"
      "2 * length s < n \<Longrightarrow> scan_members (Suc n) s = scan_members n s" for s
    by blast+
  have "scan_value (Suc (Suc n)) s = scan_value (Suc n) s" if "2 * length s \<le> Suc n" for s
  proof (cases s)
    case (Cons c cs)
    then have "2 * length (skip_space cs) < n" using that skip_space_le [of cs] by simp
    then show ?thesis
      using Cons IH(2,3) [of "skip_space cs"] by (simp del: scan_items.simps scan_members.simps)
  qed simp
  moreover have "scan_items (Suc (Suc n)) s = scan_items (Suc n) s" if "2 * length s < Suc n" for s
  proof -
    have "scan_items (Suc n) (skip_space ds) = scan_items n (skip_space ds)"
      if "scan_value n s = Some (v, r)" "skip_space r = d # ds" for v r d ds
      using scan_shorter(1) [OF that(1)] skip_space_less [OF that(2)] skip_space_le [of ds] \<open>2 * length s < Suc n\<close>
      by (intro IH(2)) linarith
    then show ?thesis
      using that IH(1) [of s] by (auto simp del: scan_value.simps split: option.splits list.splits)
  qed
  moreover have "scan_members (Suc (Suc n)) s = scan_members (Suc n) s" if "2 * length s < Suc n" for s
  proof (cases s)
    case (Cons q cs)
    have v: "scan_value (Suc n) (skip_space (drop (Suc 0) (skip_space r)))
        = scan_value n (skip_space (drop (Suc 0) (skip_space r)))"
      if "scan_string cs = Some (k, r)" for k r
      using scan_string_shorter [OF that] skip_sep_le [of r] Cons \<open>2 * length s < Suc n\<close>
      by (intro IH(1)) simp
    moreover have "scan_members (Suc n) (skip_space ds) = scan_members n (skip_space ds)"
      if "scan_string cs = Some (k, r)" "skip_space r' = d # ds"
        "scan_value n (skip_space (drop (Suc 0) (skip_space r))) = Some (w, r')" for k r w r' d ds
      using scan_string_shorter [OF that(1)] skip_space_less [OF that(2)] skip_space_le [of ds]
        scan_shorter(1) [OF that(3)] skip_sep_le [of r] Cons \<open>2 * length s < Suc n\<close>
      by (intro IH(3)) simp
    ultimately show ?thesis
      using Cons by (auto simp del: scan_value.simps split: option.splits list.splits)
  qed simp
  ultimately show ?case by blast
qed simp

lemma scan_value_fuel:
  "2 * length s \<le> n \<Longrightarrow> scan_value n s = scan_value (2 * length s) s"
  by (induction n rule: dec_induct) (use scan_fuel_all in simp_all)

section \<open>Encoding\<close>

definition hex_digit :: "nat \<Rightarrow> char" where
  "hex_digit n = char_of (if n < 10 then 48 + n else 87 + n)"

definition escaped :: "char \<Rightarrow> string" where
  "escaped c = (case List.find (\<lambda>(e, d). d = c \<and> e \<noteq> CHR ''/'') BACKSLASH_ESCAPES of
      Some (e, _) \<Rightarrow> [backslash, e]
    | None \<Rightarrow> if of_char c < (32::nat)
              then backslash # ''u00'' @ [hex_digit (of_char c div 16), hex_digit (of_char c mod 16)]
              else [c])"

definition json_string :: "string \<Rightarrow> string" where
  "json_string s = dquote # concat (map escaped s) @ [dquote]"

text \<open>\<open>json.dumps(value, sort_keys=True, ensure_ascii=False)\<close>\<close>

fun json_dumps :: "json \<Rightarrow> string" where
  "json_dumps JNull = ''null''"
| "json_dumps (JBool b) = (if b then ''true'' else ''false'')"
| "json_dumps (JInt i) = show_int i"
| "json_dumps (JStr s) = json_string s"
| "json_dumps (JList vs) = ''['' @ join '', '' (map json_dumps vs) @ '']''"
| "json_dumps (JObj m) = ''{'' @ join '', ''
     (map snd (sort_key fst (map (\<lambda>(k, v). (k, json_string k @ '': '' @ json_dumps v)) m))) @ ''}''"

text \<open>What a document looks like when it is read again: members sorted by key.\<close>

fun wire_of :: "json \<Rightarrow> wire" where
  "wire_of JNull = WNull"
| "wire_of (JBool b) = WBool b"
| "wire_of (JInt i) = WNumber (show_int i)"
| "wire_of (JStr s) = WStr s"
| "wire_of (JList vs) = WList (map wire_of vs)"
| "wire_of (JObj m) = WObj (sort_key fst (map (\<lambda>(k, v). (k, wire_of v)) m))"

subsection \<open>Reading what was written\<close>

lemma utf8_ascii: "n < 128 \<Longrightarrow> utf8 n = [char_of n]"
  by (simp add: utf8_def)

lemma hex_val_digit: "n < 16 \<Longrightarrow> hex_val (hex_digit n) = Some n"
  by (simp add: hex_val_def hex_digit_def Let_def)

lemma control_escape:
  "n < 32 \<Longrightarrow> unicode_escape (CHR ''0'' # CHR ''0'' # hex_digit (n div 16) # hex_digit (n mod 16) # r) = Some (n, r)"
  by (simp add: unicode_escape_def hex4_def hex_val_digit hex_val_def [of "CHR ''0''"])

lemma append_single: "(@) [c] = Cons c"
  by auto

lemma scan_string_escaped:
  "scan_string (escaped c @ r) = map_option (apfst (Cons c)) (scan_string r)"
proof (cases "List.find (\<lambda>(e, d). d = c \<and> e \<noteq> CHR ''/'') BACKSLASH_ESCAPES")
  case None
  then have "c \<noteq> dquote" "c \<noteq> backslash"
    by (auto simp: BACKSLASH_ESCAPES_def dquote_def backslash_def split: if_splits)
  moreover have "utf8 (of_char c) = [c]" if "of_char c < (32::nat)"
    using that by (simp add: utf8_ascii)
  ultimately show ?thesis
    using None by (simp add: escaped_def control_escape) (simp add: dquote_def backslash_def append_single)
next
  case (Some ed)
  then show ?thesis
    by (auto simp: escaped_def BACKSLASH_ESCAPES_def dquote_def backslash_def split: if_splits)
qed

lemma scan_string_json: "scan_string (concat (map escaped s) @ dquote # r) = Some (s, r)"
  by (induction s) (simp_all add: scan_string_escaped)

lemma sort_key_map: "sort_key f (map g xs) = map g (sort_key (f \<circ> g) xs)"
proof -
  have "insort_key f (g x) (map g ys) = map g (insort_key (f \<circ> g) x ys)" for x ys
    by (induction ys) simp_all
  then show ?thesis by (induction xs) simp_all
qed

text \<open>A number ends where the text goes on with a separator or a bracket.\<close>

definition boundary :: "string \<Rightarrow> bool" where
  "boundary r = (r = [] \<or> hd r \<in> {CHR '','', CHR '']'', CHR ''}''})"

lemma show_nat_head: "0 < n \<Longrightarrow> \<exists>c cs. show_nat n = c # cs \<and> c \<noteq> CHR ''0''"
proof (induction n rule: show_nat.induct)
  case (1 n)
  have "digit_char n \<noteq> CHR ''0''" if "n < 10"
    using that 1 by (metis digit_char_zero digit_val_char less_irrefl option.inject zero_less_numeral)
  with 1 show ?case by (cases "n < 10") (fastforce simp: show_nat.simps [of n])+
qed

lemma is_digit_show_nat: "c \<in> set (show_nat n) \<Longrightarrow> is_digit c"
  by (auto simp: is_digit_def dest!: show_nat_digits)

lemma span_digits:
  assumes "boundary r" and "list_all is_digit xs"
  shows "takeWhile is_digit (xs @ r) = xs" "dropWhile is_digit (xs @ r) = r"
proof -
  have r: "takeWhile is_digit r = [] \<and> dropWhile is_digit r = r"
    using assms(1) by (cases r) (auto simp: boundary_def is_digit_def digit_val_def)
  have xs: "\<forall>x \<in> set xs. is_digit x" using assms(2) by (simp add: list_all_iff)
  show "takeWhile is_digit (xs @ r) = xs" "dropWhile is_digit (xs @ r) = r"
    using r xs by (simp_all add: takeWhile_append dropWhile_append)
qed

lemma boundary_stops: "boundary r \<Longrightarrow> scan_fraction r = ([], r)" "boundary r \<Longrightarrow> scan_exponent r = ([], r)"
  by (auto simp: boundary_def scan_fraction_def scan_exponent_def split: list.splits)

lemma scan_number_nat:
  assumes "boundary r"
  shows "scan_number (show_nat n @ r) = Some (WNumber (show_nat n), r)"
    "scan_number (CHR ''-'' # show_nat n @ r) = Some (WNumber (CHR ''-'' # show_nat n), r)"
proof -
  obtain c cs where n: "show_nat n = c # cs" by (cases "show_nat n") auto
  have digits: "list_all is_digit (show_nat n)"
    by (simp add: list_all_iff is_digit_show_nat)
  then have minus: "c \<noteq> CHR ''-''" using n by (auto simp: is_digit_def digit_val_def)
  have zero: "c = CHR ''0'' \<Longrightarrow> cs = []"
  proof (cases "n = 0")
    case True
    then show ?thesis using n by (simp add: show_nat.simps)
  qed (use show_nat_head [of n] n in auto)
  have "int_part (show_nat n @ r) = show_nat n"
    using n zero span_digits [OF assms digits] by (auto simp: int_part_def)
  moreover have "takeWhile (\<lambda>x. x = CHR ''-'') (show_nat n @ r) = []" using n minus by simp
  ultimately show "scan_number (show_nat n @ r) = Some (WNumber (show_nat n), r)"
    "scan_number (CHR ''-'' # show_nat n @ r) = Some (WNumber (CHR ''-'' # show_nat n), r)"
    using boundary_stops [OF assms] by (simp_all add: scan_number_def Let_def)
qed

lemma scan_number_int: "boundary r \<Longrightarrow> scan_number (show_int i @ r) = Some (WNumber (show_int i), r)"
  by (simp add: show_int_def scan_number_nat)

lemma show_nat_digit_head: "\<exists>c cs. show_nat n = c # cs \<and> is_digit c"
  by (metis is_digit_show_nat list.exhaust list.set_intros(1) show_nat_nonempty)

lemma show_int_head:
  "\<exists>c cs. show_int i = c # cs \<and> (is_digit c \<or> c = CHR ''-'' \<and> cs \<noteq> [] \<and> is_digit (hd cs))"
  using show_nat_digit_head [of "nat i"] show_nat_digit_head [of "nat (- i)"]
  by (cases "i < 0") (auto simp: show_int_def)

lemma scan_value_int:
  assumes "boundary r" and "0 < n"
  shows "scan_value n (show_int i @ r) = Some (WNumber (show_int i), r)"
proof -
  obtain c cs where s: "show_int i @ r = c # cs" "is_digit c \<or> c = CHR ''-'' \<and> cs \<noteq> [] \<and> is_digit (hd cs)"
    using show_int_head [of i] by auto
  have letters: "\<not> is_digit x" if "x \<in> {dquote, CHR ''['', CHR ''{'', CHR ''n'', CHR ''t'', CHR ''f'', CHR ''N'', CHR ''I''}" for x
    using that by (auto simp: is_digit_def digit_val_def dquote_def)
  then have "c \<noteq> dquote" "c \<noteq> CHR ''[''" "c \<noteq> CHR ''{''"
    using s(2) by (auto simp: dquote_def)
  moreover have "scan_constant (c # cs) = None"
  proof -
    have "c \<noteq> CHR ''n''" "c \<noteq> CHR ''t''" "c \<noteq> CHR ''f''" "c \<noteq> CHR ''N''" "c \<noteq> CHR ''I''"
      using s(2) letters by auto
    moreover have "cs = [] \<or> c \<noteq> CHR ''-'' \<or> hd cs \<noteq> CHR ''I''"
      using s(2) letters [of "CHR ''I''"] letters [of "hd cs"] by (auto simp: is_digit_def digit_val_def)
    ultimately show ?thesis by (cases cs) (auto simp: scan_constant_def constants_def)
  qed
  ultimately show ?thesis
    using s(1) assms scan_number_int [OF assms(1), of i] by (cases n) simp_all
qed

text \<open>A document does not start with a space or a closing bracket.\<close>

lemma json_dumps_head:
  "\<exists>c cs. json_dumps j = c # cs \<and> \<not> json_space c \<and> c \<noteq> CHR '']'' \<and> c \<noteq> CHR ''}''"
proof (cases j)
  case (JInt i)
  then show ?thesis
    using show_int_head [of i] by (auto simp: is_digit_def digit_val_def json_space_def)
qed (auto simp: json_string_def json_space_def dquote_def)

lemma skip_dumps [simp]: "skip_space (json_dumps j @ r) = json_dumps j @ r"
  using json_dumps_head [of j] by (auto simp: skip_space_def)

lemma take1_dumps [simp]:
  "take (Suc 0) (json_dumps j @ r) \<noteq> '']''" "take (Suc 0) (json_dumps j @ r) \<noteq> ''}''"
  using json_dumps_head [of j] by auto

definition reads_back :: "json \<Rightarrow> bool" where
  "reads_back j = (\<forall>n r. boundary r \<longrightarrow> 2 * length (json_dumps j @ r) \<le> n
     \<longrightarrow> scan_value n (json_dumps j @ r) = Some (wire_of j, r))"

lemma reads_backD:
  "reads_back j \<Longrightarrow> boundary r \<Longrightarrow> 2 * length (json_dumps j @ r) \<le> n
    \<Longrightarrow> scan_value n (json_dumps j @ r) = Some (wire_of j, r)"
  by (simp add: reads_back_def)

lemma reads_backI:
  assumes "\<And>k r. boundary r \<Longrightarrow> scan_value (Suc k) (json_dumps j @ r) = Some (wire_of j, r)"
  shows "reads_back j"
  unfolding reads_back_def
proof (intro allI impI)
  fix n r assume "boundary r" and "2 * length (json_dumps j @ r) \<le> n"
  then show "scan_value n (json_dumps j @ r) = Some (wire_of j, r)"
    using assms [of r "n - 1"] json_dumps_head [of j] by (cases n) auto
qed

lemma scan_items_dumps:
  assumes "list_all reads_back vs" and "vs \<noteq> []"
    and "2 * length (join '', '' (map json_dumps vs) @ CHR '']'' # r) < n"
  shows "scan_items n (join '', '' (map json_dumps vs) @ CHR '']'' # r) = Some (map wire_of vs, r)"
  using assms
proof (induction vs arbitrary: n)
  case (Cons v vs)
  then obtain m where n: "n = Suc m" by (cases n) auto
  show ?case
  proof (cases vs)
    case Nil
    then show ?thesis
      using Cons.prems reads_backD [of v "CHR '']'' # r" m] n
      by (simp add: boundary_def skip_space_def json_space_def)
  next
    case (Cons w ws)
    let ?rest = "join '', '' (map json_dumps vs) @ CHR '']'' # r"
    have "scan_value m (json_dumps v @ CHR '','' # CHR '' '' # ?rest)
        = Some (wire_of v, CHR '','' # CHR '' '' # ?rest)"
      using Cons.prems Cons n by (intro reads_backD) (auto simp: boundary_def)
    moreover have "skip_space ?rest = ?rest"
      using Cons skip_dumps [of w "drop (length (json_dumps w)) ?rest"] by (cases ws) auto
    moreover have "scan_items m ?rest = Some (map wire_of vs, r)"
      using Cons.prems Cons n by (intro Cons.IH) auto
    ultimately show ?thesis
      using Cons n by (simp add: skip_space_def json_space_def)
  qed
qed simp

lemma skip_space_Cons: "skip_space (c # cs) = (if json_space c then skip_space cs else c # cs)"
  by (simp add: skip_space_def)

definition member_text :: "string \<times> json \<Rightarrow> string" where
  "member_text m = json_string (fst m) @ '': '' @ json_dumps (snd m)"

lemma member_text_pair: "member_text (k, v) = json_string k @ '': '' @ json_dumps v"
  by (simp add: member_text_def)

lemma scan_members_dumps:
  assumes "list_all (\<lambda>m. reads_back (snd m)) ms" and "ms \<noteq> []"
    and "2 * length (join '', '' (map member_text ms) @ CHR ''}'' # r) < n"
  shows "scan_members n (join '', '' (map member_text ms) @ CHR ''}'' # r)
    = Some (map (apsnd wire_of) ms, r)"
  using assms
proof (induction ms arbitrary: n)
  case (Cons m ms)
  then obtain k where n: "n = Suc k" by (cases n) auto
  obtain key v where m: "m = (key, v)" by (cases m)
  have key: "scan_string (concat (map escaped key) @ dquote # CHR '':'' # CHR '' '' # t)
      = Some (key, CHR '':'' # CHR '' '' # t)" for t
    by (rule scan_string_json)
  show ?case
  proof (cases ms)
    case Nil
    have "scan_value k (json_dumps v @ CHR ''}'' # r) = Some (wire_of v, CHR ''}'' # r)"
      using Cons.prems Nil n m by (intro reads_backD) (auto simp: boundary_def member_text_pair)
    then show ?thesis
      using Nil n m key
      by (simp add: member_text_pair json_string_def skip_space_Cons json_space_def)
  next
    case (Cons w ws)
    let ?rest = "join '', '' (map member_text ms) @ CHR ''}'' # r"
    have "scan_value k (json_dumps v @ CHR '','' # CHR '' '' # ?rest)
        = Some (wire_of v, CHR '','' # CHR '' '' # ?rest)"
      using Cons.prems Cons n m by (intro reads_backD) (auto simp: boundary_def member_text_pair)
    moreover have "skip_space ?rest = ?rest"
      using Cons by (cases ws) (auto simp: member_text_def json_string_def skip_space_Cons json_space_def dquote_def)
    moreover have "scan_members k ?rest = Some (map (apsnd wire_of) ms, r)"
      using Cons.prems Cons n by (intro Cons.IH) auto
    ultimately show ?thesis
      using Cons n m key [of "json_dumps v @ CHR '','' # CHR '' '' # ?rest"]
      by (simp add: member_text_pair json_string_def skip_space_Cons json_space_def)
  qed
qed simp

lemma dumps_JObj:
  "json_dumps (JObj m) = CHR ''{'' # join '', '' (map member_text (sort_key fst m)) @ ''}''"
  by (simp add: sort_key_map o_def case_prod_unfold member_text_def [abs_def])

lemma wire_of_JObj: "wire_of (JObj m) = WObj (map (apsnd wire_of) (sort_key fst m))"
  by (simp add: sort_key_map o_def case_prod_unfold apsnd_def map_prod_def)

lemma dumps_reads_back: "reads_back j"
proof (induction j)
  case (JInt i)
  show ?case by (rule reads_backI) (simp only: json_dumps.simps wire_of.simps, rule scan_value_int, simp_all)
next
  case (JList vs)
  show ?case unfolding reads_back_def
  proof (intro allI impI)
    fix n r assume r: "boundary r" and le: "2 * length (json_dumps (JList vs) @ r) \<le> n"
    obtain k where n: "n = Suc k" using le by (cases n) auto
    show "scan_value n (json_dumps (JList vs) @ r) = Some (wire_of (JList vs), r)"
    proof (cases "vs = []")
      case False
      let ?t = "join '', '' (map json_dumps vs) @ CHR '']'' # r"
      have "scan_items k ?t = Some (map wire_of vs, r)"
        using JList False le n by (intro scan_items_dumps) (auto simp: list_all_iff)
      moreover have "skip_space ?t = ?t \<and> take (Suc 0) ?t \<noteq> '']''"
      proof -
        obtain v ws where vs: "vs = v # ws" using False by (cases vs) auto
        show ?thesis
          using json_dumps_head [of v] vs by (cases ws) (auto simp: skip_space_Cons)
      qed
      ultimately show ?thesis using n by (simp add: dquote_def)
    qed (simp add: n dquote_def skip_space_Cons json_space_def)
  qed
next
  case (JObj m)
  show ?case unfolding reads_back_def
  proof (intro allI impI)
    fix n r assume r: "boundary r" and le: "2 * length (json_dumps (JObj m) @ r) \<le> n"
    obtain k where n: "n = Suc k" using le by (cases n) auto
    show "scan_value n (json_dumps (JObj m) @ r) = Some (wire_of (JObj m), r)"
    proof (cases "m = []")
      case False
      let ?ms = "sort_key fst m" and ?t = "join '', '' (map member_text (sort_key fst m)) @ CHR ''}'' # r"
      have ne: "?ms \<noteq> []" using False by (metis set_empty set_sort)
      have "list_all (\<lambda>x. reads_back (snd x)) ?ms"
        using JObj by (fastforce simp: list_all_iff intro: prod_set_simps)
      then have "scan_members k ?t = Some (map (apsnd wire_of) ?ms, r)"
        using ne le n by (intro scan_members_dumps) (auto simp: dumps_JObj simp del: json_dumps.simps)
      moreover have "skip_space ?t = ?t \<and> take (Suc 0) ?t \<noteq> ''}''"
      proof -
        obtain v ws where ms: "?ms = v # ws" using ne by (cases ?ms) auto
        show ?thesis
          using ms by (cases ws) (auto simp: member_text_def json_string_def skip_space_Cons json_space_def dquote_def)
      qed
      ultimately show ?thesis
        using n by (simp add: dumps_JObj wire_of_JObj dquote_def del: json_dumps.simps wire_of.simps)
    qed (simp add: n dquote_def skip_space_Cons json_space_def)
  qed
next
  case JNull
  show ?case by (rule reads_backI) (simp add: scan_constant_def constants_def dquote_def)
next
  case (JBool b)
  show ?case by (rule reads_backI) (simp add: scan_constant_def constants_def dquote_def)
next
  case (JStr x)
  show ?case by (rule reads_backI) (simp add: json_string_def scan_string_json)
qed

text \<open>What the encoder writes, the decoder reads, the members of objects in the order of their keys.\<close>

lemma json_text_roundtrip: "json_loads (json_dumps j) = Some (wire_of j)"
proof -
  have "scan_value (2 * length (json_dumps j)) (json_dumps j @ []) = Some (wire_of j, [])"
    by (rule reads_backD [OF dumps_reads_back]) (simp_all add: boundary_def)
  then show ?thesis
    using skip_dumps [of j "[]"] by (simp add: json_loads_def skip_space_def)
qed

text \<open>Sorting the members of an object does not change what a key maps to.\<close>

lemma map_of_sort_key: "distinct (map fst xs) \<Longrightarrow> map_of (sort_key fst xs) = map_of xs"
  by (subst map_of_inject_set) (auto simp: distinct_map inj_on_def)

subsection \<open>Values from a text\<close>

text \<open>
  The value \<open>json.loads\<close> gives for a document, and what a value looks like after it was written and
  read: the members of every object in the order of their keys. The values of the model hold no
  floats, so a document with another number than an integer is none of theirs; an object of a stored
  value, made from a dict, names each key once.
\<close>

fun json_of_wire :: "wire \<Rightarrow> json option" where
  "json_of_wire WNull = Some JNull"
| "json_of_wire (WBool b) = Some (JBool b)"
| "json_of_wire (WNumber t) = map_option JInt (py_int t)"
| "json_of_wire (WStr t) = Some (JStr t)"
| "json_of_wire (WList ws) = map_option JList (those (map json_of_wire ws))"
| "json_of_wire (WObj m) = map_option JObj (those (map (\<lambda>(k, w). map_option (Pair k) (json_of_wire w)) m))"

fun canon :: "json \<Rightarrow> json" where
  "canon (JList vs) = JList (map canon vs)"
| "canon (JObj m) = JObj (sort_key fst (map (\<lambda>(k, v). (k, canon v)) m))"
| "canon v = v"

lemma those_map_Some: "(\<And>x. x \<in> set xs \<Longrightarrow> f x = Some (g x)) \<Longrightarrow> those (map f xs) = Some (map g xs)"
  by (induction xs) simp_all

lemma py_int_show_int: "py_int (show_int i) = Some i"
proof (cases "i < 0")
  case True
  let ?ds = "show_nat (nat (- i))"
  have digits: "\<forall>c \<in> set ?ds. \<exists>d < 10. c = digit_char d" using show_nat_digits by blast
  have dash: "\<not> is_space CHR ''-''" by (simp add: is_space_def)
  have "\<forall>c \<in> set (CHR ''-'' # ?ds). \<not> is_space c" using digits digit_char_not_space dash by auto
  then have "py_strip (CHR ''-'' # ?ds) = CHR ''-'' # ?ds"
    using py_strip_digits [OF digits] dash show_nat_nonempty [of "nat (- i)"]
    by (simp add: py_strip_def dropWhile_append3)
  then show ?thesis
    using True read_nat_digits [OF show_nat_nonempty digits] read_digits_show_nat [of "nat (- i)"]
    by (simp add: show_int_def py_int_def)
qed (simp add: show_int_def py_int_show_nat)

lemma json_of_wire_of: "json_of_wire (wire_of j) = Some (canon j)"
proof (induction j)
  case (JList vs)
  then show ?case by (simp add: those_map_Some [where g = canon] o_def)
next
  case (JObj m)
  have "those (map ((\<lambda>(k, w). map_option (Pair k) (json_of_wire w)) \<circ> apsnd wire_of) (sort_key fst m))
      = Some (map (apsnd canon) (sort_key fst m))"
    by (rule those_map_Some) (use JObj in \<open>auto simp: snds.simps\<close>)
  then show ?case
    by (simp add: wire_of_JObj del: wire_of.simps) (simp add: sort_key_map o_def case_prod_unfold apsnd_def map_prod_def)
qed (simp_all add: py_int_show_int)

lemma sort_key_sorted [simp]: "sort_key f (sort_key f xs) = sort_key f xs"
  by (simp add: sort_key_id_if_sorted)

lemma canon_JObj: "canon (JObj m) = JObj (map (apsnd canon) (sort_key fst m))"
  by (simp add: sort_key_map o_def case_prod_unfold apsnd_def map_prod_def)

lemma sort_key_apsnd: "sort_key fst (map (apsnd f) xs) = map (apsnd f) (sort_key fst xs)"
  by (simp add: sort_key_map o_def)

lemma dumps_canon [simp]: "json_dumps (canon j) = json_dumps j"
proof (induction j)
  case (JList vs)
  then have "map json_dumps (map canon vs) = map json_dumps vs" by simp
  then show ?case by (simp only: canon.simps json_dumps.simps)
next
  case (JObj m)
  have "map member_text (map (apsnd canon) (sort_key fst m)) = map member_text (sort_key fst m)"
    using JObj by (auto simp: member_text_def snds.simps)
  then show ?case by (simp only: canon_JObj dumps_JObj sort_key_apsnd sort_key_sorted)
qed simp_all

text \<open>Writing and reading again is exact: what is read is the value in its canonical order.\<close>

lemma json_value_roundtrip: "Option.bind (json_loads (json_dumps j)) json_of_wire = Some (canon j)"
  by (simp add: json_text_roundtrip json_of_wire_of)

text \<open>A dict is the same dict, its values read back.\<close>

lemma canon_member:
  assumes "distinct (map fst m)"
  shows "map_of (map (apsnd canon) (sort_key fst m)) k = map_option canon (map_of m k)"
  by (simp add: map_of_map apsnd_def map_prod_def case_prod_unfold [symmetric] map_of_sort_key [OF assms])

end
