(* ===== verification/Py_Path.thy ===== *)
theory Py_Path
  imports Py_Text "HOL-Library.Sublist"
begin

text \<open>
  \<open>os.path.normpath\<close> of Python on POSIX, as a root (how many leading slashes count: none, one, or
  exactly two) and a list of components, and what the test \<open>p == s or p.startswith(s + os.sep)\<close> of
  the program means on normalised paths: the components of \<open>s\<close> are a prefix of those of \<open>p\<close>.
\<close>

section \<open>Normalisation\<close>

abbreviation slash :: char where
  "slash \<equiv> CHR ''/''"

definition initial_slashes :: "string \<Rightarrow> nat" where
  "initial_slashes p = (if starts_with ''//'' p \<and> \<not> starts_with ''///'' p then 2
     else if starts_with ''/'' p then 1 else 0)"

text \<open>One turn of the loop over the components; the accumulator is the path so far, last first.\<close>

definition push_comp :: "nat \<Rightarrow> string \<Rightarrow> string list \<Rightarrow> string list" where
  "push_comp root part acc =
    (if part = [] \<or> part = ''.'' then acc
     else if part \<noteq> ''..'' \<or> (root = 0 \<and> acc = []) \<or> (acc \<noteq> [] \<and> hd acc = ''..'') then part # acc
     else tl acc)"

definition norm_parts :: "string \<Rightarrow> nat \<times> string list" where
  "norm_parts p = (initial_slashes p, rev (fold (push_comp (initial_slashes p)) (split_on slash p) []))"

fun render :: "nat \<times> string list \<Rightarrow> string" where
  "render (root, cs) = (let s = replicate root slash @ join ''/'' cs in if s = [] then ''.'' else s)"

definition normpath :: "string \<Rightarrow> string" where
  "normpath p = (if p = [] then ''.'' else render (norm_parts p))"

section \<open>Normalised paths\<close>

definition good_comp :: "string \<Rightarrow> bool" where
  "good_comp c = (c \<noteq> [] \<and> c \<noteq> ''.'' \<and> slash \<notin> set c)"

definition normal_stack :: "nat \<Rightarrow> string list \<Rightarrow> bool" where
  "normal_stack root acc = (list_all good_comp acc \<and> (\<exists>k ds. acc = ds @ replicate k ''..''
     \<and> ''..'' \<notin> set ds \<and> (root \<noteq> 0 \<longrightarrow> k = 0)))"

definition normal_path :: "nat \<times> string list \<Rightarrow> bool" where
  "normal_path x = (fst x \<le> 2 \<and> normal_stack (fst x) (rev (snd x)))"

lemma split_on_free: "list_all (\<lambda>w. c \<notin> set w) (split_on c s)"
  by (induction s) (auto split: list.splits)

lemma split_on_join:
  "list_all good_comp cs \<Longrightarrow> cs \<noteq> [] \<Longrightarrow> split_on slash (join ''/'' cs) = cs"
proof (induction cs rule: induct_list012)
  case (3 x y ys)
  then show ?case using split_on_append [of slash x "join ''/'' (y # ys)"] by (simp add: good_comp_def)
qed (auto simp: good_comp_def split_on_none)

lemma initial_slashes_le: "initial_slashes p \<le> 2"
  by (simp add: initial_slashes_def)

lemma normal_stack_Nil [simp]: "normal_stack root []"
  by (auto simp: normal_stack_def)

lemma normal_stack_tl: "normal_stack root acc \<Longrightarrow> normal_stack root (tl acc)"
proof -
  assume n: "normal_stack root acc"
  then obtain k ds where acc: "acc = ds @ replicate k ''..''" "''..'' \<notin> set ds" "root \<noteq> 0 \<longrightarrow> k = 0"
    by (auto simp: normal_stack_def)
  have "list_all good_comp (tl acc)" using n by (cases acc) (auto simp: normal_stack_def)
  moreover have "\<exists>k ds. tl acc = ds @ replicate k ''..'' \<and> ''..'' \<notin> set ds \<and> (root \<noteq> 0 \<longrightarrow> k = 0)"
  proof (cases ds)
    case Nil
    then have "tl acc = [] @ replicate (k - 1) ''..''" using acc by (cases k) auto
    then show ?thesis using acc(3) by fastforce
  next
    case (Cons d es)
    then show ?thesis using acc by fastforce
  qed
  ultimately show ?thesis by (simp add: normal_stack_def)
qed

lemma normal_stack_push:
  assumes "normal_stack root acc" and "slash \<notin> set part"
  shows "normal_stack root (push_comp root part acc)"
proof -
  have good: "list_all good_comp acc" using assms(1) by (simp add: normal_stack_def)
  from assms(1) obtain k ds where acc: "acc = ds @ replicate k ''..''" "''..'' \<notin> set ds" "root \<noteq> 0 \<longrightarrow> k = 0"
    unfolding normal_stack_def by blast
  consider "part = [] \<or> part = ''.''" | "good_comp part" "part \<noteq> ''..''"
    | "part = ''..''" "root = 0 \<and> acc = []" | "part = ''..''" "acc \<noteq> [] \<and> hd acc = ''..''"
    | "part = ''..''" "push_comp root part acc = tl acc"
    using assms(2) by (cases "part = ''..''"; cases "root = 0 \<and> acc = []"; cases "acc \<noteq> [] \<and> hd acc = ''..''")
      (auto simp: good_comp_def push_comp_def)
  then show ?thesis
  proof cases
    case 1
    then show ?thesis using assms(1) by (auto simp: push_comp_def)
  next
    case 2
    then have "push_comp root part acc = (part # ds) @ replicate k ''..''"
      using acc by (simp add: push_comp_def good_comp_def)
    then show ?thesis unfolding normal_stack_def using 2 acc good
      by (metis append_Cons list.pred_inject(2) set_ConsD)
  next
    case 3
    then have "push_comp root part acc = [] @ replicate 1 ''..''" by (simp add: push_comp_def)
    then show ?thesis unfolding normal_stack_def using 3 by (auto simp: good_comp_def intro!: exI [of _ 1])
  next
    case 4
    then have "ds = []" using acc by (cases ds) auto
    then have "push_comp root part acc = [] @ replicate (Suc k) ''..''" "root = 0"
      using acc 4 by (auto simp: push_comp_def)
    then show ?thesis unfolding normal_stack_def by (auto simp: good_comp_def list_all_iff intro!: exI [of _ "Suc k"])
  next
    case 5
    then show ?thesis using normal_stack_tl [OF assms(1)] by simp
  qed
qed

lemma normal_stack_fold:
  "list_all (\<lambda>w. slash \<notin> set w) ws \<Longrightarrow> normal_stack root acc \<Longrightarrow> normal_stack root (fold (push_comp root) ws acc)"
  by (induction ws arbitrary: acc) (auto intro: normal_stack_push)

lemma normal_norm_parts: "normal_path (norm_parts p)"
  using normal_stack_fold [OF split_on_free normal_stack_Nil] initial_slashes_le
  by (simp add: normal_path_def norm_parts_def)

text \<open>A normalised path is read back from what it is rendered to.\<close>

lemma good_comp_hd: "good_comp c \<Longrightarrow> c \<noteq> [] \<and> hd c \<noteq> slash"
  by (cases c) (auto simp: good_comp_def)

lemma join_comp_head:
  assumes "list_all good_comp cs" and "cs \<noteq> []"
  shows "join ''/'' cs \<noteq> []" and "hd (join ''/'' cs) \<noteq> slash"
  using assms good_comp_hd by (induction cs rule: induct_list012) (auto simp: hd_append)

lemma fold_push_normal:
  assumes "normal_stack root (rev cs @ acc)" and "list_all good_comp cs"
  shows "fold (push_comp root) cs acc = rev cs @ acc"
  using assms
proof (induction cs arbitrary: acc)
  case (Cons c cs)
  have stack: "normal_stack root (c # acc)"
  proof -
    have tails: "normal_stack root (ys @ zs) \<Longrightarrow> normal_stack root zs" for ys zs
      by (induction ys) (use normal_stack_tl in fastforce)+
    show ?thesis using tails [of "rev cs" "c # acc"] Cons.prems(1) by simp
  qed
  have "push_comp root c acc = c # acc"
  proof (cases "c = ''..''")
    case True
    from stack obtain k ds where ds: "c # acc = ds @ replicate k ''..''" "''..'' \<notin> set ds" "root \<noteq> 0 \<longrightarrow> k = 0"
      unfolding normal_stack_def by blast
    then have "ds = []" using True by (cases ds) auto
    with ds True obtain j where "acc = replicate j ''..''" "root = 0" by (cases k) auto
    then show ?thesis using True by (cases j) (auto simp: push_comp_def)
  next
    case False
    then show ?thesis using Cons.prems(2) by (auto simp: push_comp_def good_comp_def)
  qed
  then show ?case using Cons.IH [of "c # acc"] Cons.prems by simp
qed simp

lemma starts_slash: "starts_with ''/'' s \<longleftrightarrow> s \<noteq> [] \<and> hd s = slash"
  by (cases s) (auto simp: starts_with_def)

lemma initial_slashes_render:
  assumes "normal_path (root, cs)"
  shows "initial_slashes (render (root, cs)) = root"
proof -
  have good: "list_all good_comp cs" using assms by (simp add: normal_path_def normal_stack_def)
  have root: "root = 0 \<or> root = 1 \<or> root = 2" using assms by (auto simp: normal_path_def)
  show ?thesis
  proof (cases "cs = []")
    case True
    then show ?thesis using root by (auto simp: initial_slashes_def starts_with_def numeral_2_eq_2)
  next
    case False
    obtain c s where j: "join ''/'' cs = c # s" "c \<noteq> slash"
      using join_comp_head [OF good False] by (cases "join ''/'' cs") auto
    then show ?thesis using root
      by (auto simp: initial_slashes_def starts_with_def numeral_2_eq_2 take_Cons split: nat.splits)
  qed
qed

lemma fold_push_slashes: "(push_comp root [] ^^ n) acc = acc"
  by (induction n) (simp_all add: push_comp_def)

lemma split_on_slashes: "split_on slash (replicate n slash @ s) = replicate n [] @ split_on slash s"
  by (induction n) simp_all

lemma norm_parts_render:
  assumes "normal_path x"
  shows "norm_parts (render x) = x"
proof -
  obtain root cs where x: "x = (root, cs)" by (cases x)
  have good: "list_all good_comp cs" and stack: "normal_stack root (rev cs)"
    using assms x by (simp_all add: normal_path_def normal_stack_def)
  have fold: "fold (push_comp root) (split_on slash (render x)) [] = rev cs"
  proof (cases "cs = []")
    case True
    then show ?thesis using x
      by (cases root) (simp_all add: push_comp_def split_on_slashes [of "Suc _" "[]", simplified] fold_push_slashes)
  next
    case False
    then have "split_on slash (render x) = replicate root [] @ cs"
      using join_comp_head [OF good False] x by (simp add: split_on_slashes split_on_join good)
    then show ?thesis using fold_push_normal [of root cs "[]"] good stack by (simp add: fold_push_slashes)
  qed
  show ?thesis using fold initial_slashes_render [of root cs] assms x by (simp add: norm_parts_def)
qed

lemma norm_parts_Nil: "norm_parts [] = (0, [])"
  by (simp add: norm_parts_def initial_slashes_def starts_with_def push_comp_def)

lemma normpath_render: "normpath p = render (norm_parts p)"
  by (simp add: normpath_def norm_parts_Nil)

lemma norm_parts_normpath [simp]: "norm_parts (normpath p) = norm_parts p"
  by (simp add: normpath_render norm_parts_render normal_norm_parts)

lemma normpath_idem [simp]: "normpath (normpath p) = normpath p"
  by (simp add: normpath_render norm_parts_render normal_norm_parts)

lemma normpath_eq_iff: "normpath p = normpath q \<longleftrightarrow> norm_parts p = norm_parts q"
  by (metis norm_parts_normpath normpath_render)

section \<open>Containment\<close>

text \<open>The program's test whether a path lies in a directory, both normalised.\<close>

definition within_dir :: "string \<Rightarrow> string \<Rightarrow> bool" where
  "within_dir path dir = (normpath path = normpath dir \<or> starts_with (normpath dir @ ''/'') (normpath path))"

text \<open>
  What it means: the same root, and the components of the directory are the first ones of the path.
  A directory without components is the current directory, which contains only itself, or the root,
  which contains itself and the paths written with two slashes.
\<close>

definition covers :: "nat \<times> string list \<Rightarrow> nat \<times> string list \<Rightarrow> bool" where
  "covers d p = (p = d \<or> (snd d \<noteq> [] \<and> fst p = fst d \<and> prefix (snd d) (snd p))
     \<or> (d = (1, []) \<and> fst p = 2))"

lemma starts_with_iff_prefix: "starts_with p s \<longleftrightarrow> prefix p s"
  by (auto simp: starts_with_def prefix_def) (metis append_take_drop_id)

lemma prefix_slash_word:
  assumes "slash \<notin> set u" and "slash \<notin> set v"
  shows "prefix (u @ slash # s) (v @ slash # t) \<longleftrightarrow> u = v \<and> prefix s t"
  using assms
proof (induction u arbitrary: v)
  case Nil
  then show ?case by (cases v) auto
next
  case (Cons c u)
  then show ?case by (cases v) auto
qed

lemma not_prefix_slash_word: "slash \<notin> set v \<Longrightarrow> \<not> prefix (u @ slash # s) v"
  by (auto simp: prefix_def)

lemma prefix_join:
  assumes "list_all good_comp ds" and "list_all good_comp cs" and "ds \<noteq> []"
  shows "prefix (join ''/'' ds @ ''/'') (join ''/'' cs) \<longleftrightarrow> strict_prefix ds cs"
  using assms
proof (induction ds arbitrary: cs rule: induct_list012)
  case (2 d)
  then show ?case
    by (cases cs rule: remdups_adj.cases) (auto simp: good_comp_def prefix_slash_word not_prefix_slash_word strict_prefix_def)
next
  case (3 d e ds)
  show ?case
  proof (cases cs rule: remdups_adj.cases)
    case (3 x y ys)
    then show ?thesis using "3.IH"(2) [of "y # ys"] "3.prems"
      by (auto simp: good_comp_def prefix_slash_word strict_prefix_def)
  qed (use "3.prems" in \<open>auto simp: good_comp_def not_prefix_slash_word strict_prefix_def\<close>)
qed simp

lemma render_roots:
  "prefix (replicate m slash @ s) (replicate n slash @ t) \<longleftrightarrow> m = n \<and> prefix s t"
  if "s \<noteq> [] \<longrightarrow> hd s \<noteq> slash" "t \<noteq> [] \<longrightarrow> hd t \<noteq> slash" "s \<noteq> []"
  using that
proof (induction m arbitrary: n)
  case 0
  then show ?case by (cases n; cases s) auto
next
  case (Suc m)
  then show ?case by (cases n; cases t) auto
qed

lemma not_prefix_dot_slash: "list_all good_comp cs \<Longrightarrow> \<not> prefix ''./'' (join ''/'' cs)"
  by (cases cs rule: remdups_adj.cases)
    (use prefix_slash_word [of "''.''" _ "[]"] not_prefix_slash_word [of _ "''.''" "[]"] in \<open>auto simp: good_comp_def\<close>)

lemma bare_dir:
  assumes "list_all good_comp cs" and "r \<le> 2" and "q \<le> 2"
  shows "prefix (render (q, []) @ ''/'') (render (r, cs)) \<longleftrightarrow> q = 1 \<and> r = 2"
proof (cases "cs = []")
  case True
  have "q = 0 \<or> q = 1 \<or> q = 2" "r = 0 \<or> r = 1 \<or> r = 2" using assms by auto
  then show ?thesis using True by (auto simp: numeral_2_eq_2)
next
  case False
  obtain c s where j: "join ''/'' cs = c # s" "c \<noteq> slash"
    using join_comp_head [OF assms(1) False] by (cases "join ''/'' cs") auto
  have "q = 0 \<or> q = 1 \<or> q = 2" "r = 0 \<or> r = 1 \<or> r = 2" using assms by auto
  then show ?thesis using j not_prefix_dot_slash [OF assms(1)] by (auto simp: numeral_2_eq_2)
qed

theorem within_dir_iff_covers: "within_dir path dir \<longleftrightarrow> covers (norm_parts dir) (norm_parts path)"
proof -
  obtain r cs where p: "norm_parts path = (r, cs)" by (cases "norm_parts path")
  obtain q ds where d: "norm_parts dir = (q, ds)" by (cases "norm_parts dir")
  have np: "normal_path (r, cs)" and nd: "normal_path (q, ds)"
    using normal_norm_parts [of path] normal_norm_parts [of dir] p d by simp_all
  have gc: "list_all good_comp cs" and gd: "list_all good_comp ds"
    using np nd by (simp_all add: normal_path_def normal_stack_def)
  have le: "r \<le> 2" "q \<le> 2" using np nd by (simp_all add: normal_path_def)
  have path: "normpath path = render (r, cs)" and dir: "normpath dir = render (q, ds)"
    using p d by (simp_all add: normpath_render)
  have same: "render (r, cs) = render (q, ds) \<longleftrightarrow> r = q \<and> cs = ds"
    using norm_parts_render [OF np] norm_parts_render [OF nd] by (metis prod.inject)
  show ?thesis
  proof (cases "ds = []")
    case False
    have render: "render (q, ds) @ ''/'' = replicate q slash @ (join ''/'' ds @ ''/'')"
      using join_comp_head [OF gd False] by simp
    have head: "hd (join ''/'' ds @ ''/'') \<noteq> slash"
      using join_comp_head [OF gd False] by simp
    have "prefix (render (q, ds) @ ''/'') (render (r, cs)) \<longleftrightarrow> q = r \<and> strict_prefix ds cs"
    proof (cases "cs = []")
      case True
      have "\<not> prefix (replicate q slash @ (join ''/'' ds @ ''/'')) (render (r, []))"
        using render_roots [of "join ''/'' ds @ ''/''" "[]" q r] head
        by (cases r) (auto dest: prefix_length_le simp: prefix_def Cons_eq_append_conv good_comp_def)
      then show ?thesis using True render by simp
    next
      case cs: False
      have "render (r, cs) = replicate r slash @ join ''/'' cs"
        using join_comp_head [OF gc cs] by simp
      then show ?thesis
        using render render_roots [of "join ''/'' ds @ ''/''" "join ''/'' cs" q r] head
          join_comp_head [OF gc cs] prefix_join [OF gd gc False] by auto
    qed
    then show ?thesis using False p d
      by (auto simp: within_dir_def covers_def starts_with_iff_prefix path dir same strict_prefix_def simp del: render.simps)
  next
    case True
    have "prefix (render (q, []) @ ''/'') (render (r, cs)) \<longleftrightarrow> q = 1 \<and> r = 2"
      using bare_dir [OF gc le] .
    then show ?thesis using True p d same [unfolded True]
      by (auto simp: within_dir_def covers_def starts_with_iff_prefix path dir simp del: render.simps)
  qed
qed

end
