(* ===== verification/Stabilization.thy ===== *)
theory Stabilization
  imports Workflow_Defs Finding_Resolution Json_Text Py_Path
begin

text \<open>
  Integration stabilisation (\<open>integration_stabilization/\<close>): the scope manifest with its content
  hash and its approval, the budget, the checks that the stability gate aggregates, the guards that
  enforce them on every tool call, the gate's producer and the closure precondition that reads what
  the producer wrote.

  The story directory is a record of JSON documents, each absent, unreadable or read; a document of
  another shape than the pydantic model expects is unreadable too. Counters are integers (a fraction
  is not representable). SHA-256 over the canonical JSON text of a manifest's declarative content is
  the parameter \<open>digest\<close>. Paths are POSIX paths.
\<close>

section \<open>Budgets\<close>

record budget_caps =
  bc_max_loops :: int
  bc_max_new_surfaces :: int
  bc_max_contract_changes :: int
  bc_max_regressions_per_cycle :: int

definition caps_valid :: "budget_caps \<Rightarrow> bool" where
  "caps_valid c = (1 \<le> bc_max_loops c \<and> 0 \<le> bc_max_new_surfaces c \<and> 0 \<le> bc_max_contract_changes c
     \<and> 0 \<le> bc_max_regressions_per_cycle c)"

record stabilization_budget =
  sb_caps :: budget_caps
  sb_loops_used :: int
  sb_new_surfaces_used :: int
  sb_contract_changes_used :: int
  sb_regressions_this_cycle :: int

definition loops_exhausted :: "stabilization_budget \<Rightarrow> bool" where
  "loops_exhausted b = (bc_max_loops (sb_caps b) \<le> sb_loops_used b)"

definition surfaces_exhausted :: "stabilization_budget \<Rightarrow> bool" where
  "surfaces_exhausted b = (bc_max_new_surfaces (sb_caps b) \<le> sb_new_surfaces_used b)"

definition contract_changes_exhausted :: "stabilization_budget \<Rightarrow> bool" where
  "contract_changes_exhausted b = (bc_max_contract_changes (sb_caps b) \<le> sb_contract_changes_used b)"

definition regressions_exhausted :: "stabilization_budget \<Rightarrow> bool" where
  "regressions_exhausted b = (bc_max_regressions_per_cycle (sb_caps b) \<le> sb_regressions_this_cycle b)"

definition any_cap_exhausted :: "stabilization_budget \<Rightarrow> bool" where
  "any_cap_exhausted b = (loops_exhausted b \<or> surfaces_exhausted b \<or> contract_changes_exhausted b
     \<or> regressions_exhausted b)"

definition exhausted_caps :: "stabilization_budget \<Rightarrow> string list" where
  "exhausted_caps b = (if loops_exhausted b then [''loops''] else [])
     @ (if surfaces_exhausted b then [''new_surfaces''] else [])
     @ (if contract_changes_exhausted b then [''contract_changes''] else [])
     @ (if regressions_exhausted b then [''regressions_per_cycle''] else [])"

lemma exhausted_caps_Nil: "exhausted_caps b = [] \<longleftrightarrow> \<not> any_cap_exhausted b"
  by (auto simp: exhausted_caps_def any_cap_exhausted_def)

section \<open>The manifest\<close>

text \<open>The fields of a manifest document, and the manifest built from it.\<close>

record manifest_data =
  md_version :: int
  md_project_key :: string
  md_story_id :: string
  md_implementation_contract :: string
  md_target_seams :: "string list"
  md_allowed_repos_paths :: "string list"
  md_integration_targets :: "string list"
  md_allowed_contract_changes :: "string list"
  md_stabilization_budget :: budget_caps
  md_out_of_contract_examples :: "string list"

record scope_manifest = integration_scope_manifest +
  im_target_seams :: "string list"
  im_allowed_repos_paths :: "string list"
  im_integration_targets :: "string list"
  im_allowed_contract_changes :: "string list"
  im_stabilization_budget :: budget_caps
  im_out_of_contract_examples :: "string list"

definition manifest_identity :: "scope_manifest \<Rightarrow> integration_scope_manifest" where
  "manifest_identity m = integration_scope_manifest.truncate m"

definition json_strs :: "string list \<Rightarrow> json" where
  "json_strs xs = JList (map JStr xs)"

definition caps_dump :: "budget_caps \<Rightarrow> json" where
  "caps_dump c = JObj [(''max_loops'', JInt (bc_max_loops c)),
     (''max_new_surfaces'', JInt (bc_max_new_surfaces c)),
     (''max_contract_changes'', JInt (bc_max_contract_changes c)),
     (''max_regressions_per_cycle'', JInt (bc_max_regressions_per_cycle c))]"

definition declarative_payload :: "manifest_data \<Rightarrow> json" where
  "declarative_payload d = JObj
    [(''project_key'', JStr (md_project_key d)), (''story_id'', JStr (md_story_id d)),
     (''implementation_contract'', JStr (md_implementation_contract d)),
     (''target_seams'', json_strs (md_target_seams d)),
     (''allowed_repos_paths'', json_strs (md_allowed_repos_paths d)),
     (''integration_targets'', json_strs (md_integration_targets d)),
     (''allowed_contract_changes'', json_strs (md_allowed_contract_changes d)),
     (''stabilization_budget'', caps_dump (md_stabilization_budget d)),
     (''out_of_contract_examples'', json_strs (md_out_of_contract_examples d))]"

definition manifest_data_valid :: "manifest_data \<Rightarrow> bool" where
  "manifest_data_valid d = (md_implementation_contract d = ''integration_stabilization''
     \<and> 1 \<le> md_version d \<and> md_project_key d \<noteq> [] \<and> md_story_id d \<noteq> []
     \<and> caps_valid (md_stabilization_budget d))"

text \<open>\<open>IntegrationScopeManifest(**data)\<close>: \<open>None\<close> is a validation error; the hash is always computed.\<close>

definition build_manifest :: "(json \<Rightarrow> string) \<Rightarrow> manifest_data \<Rightarrow> scope_manifest option" where
  "build_manifest digest d = (if \<not> manifest_data_valid d then None else Some
     \<lparr>im_version = md_version d, im_project_key = md_project_key d, im_story_id = md_story_id d,
      im_content_hash = digest (declarative_payload d),
      im_target_seams = md_target_seams d, im_allowed_repos_paths = md_allowed_repos_paths d,
      im_integration_targets = md_integration_targets d,
      im_allowed_contract_changes = md_allowed_contract_changes d,
      im_stabilization_budget = md_stabilization_budget d,
      im_out_of_contract_examples = md_out_of_contract_examples d\<rparr>)"

definition manifest_dump :: "scope_manifest \<Rightarrow> manifest_data" where
  "manifest_dump m = \<lparr>md_version = im_version m, md_project_key = im_project_key m,
     md_story_id = im_story_id m, md_implementation_contract = ''integration_stabilization'',
     md_target_seams = im_target_seams m, md_allowed_repos_paths = im_allowed_repos_paths m,
     md_integration_targets = im_integration_targets m,
     md_allowed_contract_changes = im_allowed_contract_changes m,
     md_stabilization_budget = im_stabilization_budget m,
     md_out_of_contract_examples = im_out_of_contract_examples m\<rparr>"

definition approval_valid :: "manifest_approval_record \<Rightarrow> bool" where
  "approval_valid a = (ma_project_key a \<noteq> [] \<and> ma_story_id a \<noteq> [] \<and> ma_run_id a \<noteq> []
     \<and> 1 \<le> ma_manifest_version a \<and> ma_manifest_hash a \<noteq> [])"

section \<open>The story directory\<close>

datatype 'a doc = Doc_absent | Doc_unreadable | Doc 'a

record is_files =
  if_manifest :: "manifest_data doc"
  if_approval :: "manifest_approval_record doc"
  if_quarantine :: "json doc"
  if_budget :: "json doc"
  if_targets :: "json doc"
  if_gate :: "json doc"

datatype is_event =
    Ev_manifest_approved string string string int string
  | Ev_undeclared_surface string
  | Ev_budget_exhausted "string list"
  | Ev_stability_gate_passed string string string "string list"

record is_world =
  iw_files :: is_files
  iw_events :: "is_event list"

type_synonym 'a is_action = "(is_world, exn, 'a) io"

definition update_is_files :: "(is_files \<Rightarrow> is_files) \<Rightarrow> unit is_action" where
  "update_is_files g = modify (\<lambda>w. w\<lparr>iw_files := g (iw_files w)\<rparr>)"

text \<open>\<open>emitter.emit\<close> of an optional emitter\<close>

definition emit_is_event :: "bool \<Rightarrow> is_event \<Rightarrow> unit is_action" where
  "emit_is_event emitting ev = (if emitting then modify (\<lambda>w. w\<lparr>iw_events := iw_events w @ [ev]\<rparr>) else ret ())"

definition stored_manifest :: "(json \<Rightarrow> string) \<Rightarrow> is_files \<Rightarrow> scope_manifest option" where
  "stored_manifest digest f = (case if_manifest f of Doc d \<Rightarrow> build_manifest digest d | _ \<Rightarrow> None)"

definition stored_approval :: "is_files \<Rightarrow> manifest_approval_record option" where
  "stored_approval f = (case if_approval f of
      Doc a \<Rightarrow> if approval_valid a then Some a else None | _ \<Rightarrow> None)"

definition read_quarantine_state :: "is_files \<Rightarrow> string list" where
  "read_quarantine_state f = (case if_quarantine f of
      Doc (JObj kvs) \<Rightarrow> (case map_of kvs ''pre_snapshot_deltas'' of
         Some (JList xs) \<Rightarrow> map json_show xs | _ \<Rightarrow> [])
    | _ \<Rightarrow> [])"

section \<open>Declared surfaces\<close>

definition is_path_within_seam_allowlist :: "string \<Rightarrow> string list \<Rightarrow> bool" where
  "is_path_within_seam_allowlist path allowlist = list_ex (within_dir path) allowlist"

definition materialize_seam_allowlist :: "scope_manifest \<Rightarrow> string list" where
  "materialize_seam_allowlist m = map normpath (im_target_seams m @ im_allowed_repos_paths m)"

record declared_surfaces_result =
  dr_passed :: bool
  dr_undeclared_paths :: "string list"
  dr_findings :: "finding list"

definition undeclared_finding :: "string \<Rightarrow> finding" where
  "undeclared_finding path = new_finding ''structural'' ''integration.declared_surfaces_only'' Severity_BLOCKING
    (''Undeclared surface touched: '' @ py_repr path @ ''. Path is not within any declared seam, allowed repo path, or seam allowlist (FK-05 ''
      @ section_sign @ ''5.10, invariant: declared_surfaces_only_is_deterministic).'') Trust_SYSTEM"

definition quarantined_finding :: "string \<Rightarrow> finding" where
  "quarantined_finding path = new_finding ''structural'' ''integration.declared_surfaces_only'' Severity_BLOCKING
    (''Quarantined pre-snapshot cross-scope delta touched: '' @ py_repr path
      @ ''. A pre-manifest delta is NOT retroactively legalized by reclassification (FK-05 '' @ section_sign @ ''5.7/''
      @ section_sign @ ''5.13, invariant: reclassification_may_not_legalize_pre_manifest_cross_scope_delta).'') Trust_SYSTEM"

definition check_declared_surfaces_only ::
  "string list \<Rightarrow> scope_manifest \<Rightarrow> string list option \<Rightarrow> string list \<Rightarrow> declared_surfaces_result" where
  "check_declared_surfaces_only touched m seam_allowlist quarantined =
    (let combined = im_target_seams m @ im_allowed_repos_paths m
           @ (case seam_allowlist of None \<Rightarrow> [] | Some xs \<Rightarrow> xs);
         in_quarantine = (\<lambda>p. normpath p \<in> set (map normpath quarantined));
         undeclared = filter (\<lambda>p. \<not> in_quarantine p \<and> \<not> is_path_within_seam_allowlist p combined) touched;
         quarantined_touched = filter in_quarantine touched in
     if undeclared = [] \<and> quarantined_touched = []
     then \<lparr>dr_passed = True, dr_undeclared_paths = [], dr_findings = []\<rparr>
     else \<lparr>dr_passed = False, dr_undeclared_paths = undeclared @ quarantined_touched,
           dr_findings = map undeclared_finding undeclared @ map quarantined_finding quarantined_touched\<rparr>)"

section \<open>The named checks\<close>

definition check_budget_not_exhausted :: "stabilization_budget \<Rightarrow> bool \<times> string list" where
  "check_budget_not_exhausted b = (if any_cap_exhausted b then (False, exhausted_caps b) else (True, []))"

definition check_manifest_repo_set :: "scope_manifest \<Rightarrow> string list \<Rightarrow> bool \<times> string list" where
  "check_manifest_repo_set m bound_roots =
    (let violating = filter (\<lambda>p. \<not> list_ex (within_dir p) bound_roots)
           (im_allowed_repos_paths m @ im_target_seams m) in
     (violating = [], violating))"

definition unmet_targets :: "string list \<Rightarrow> string list \<Rightarrow> string list" where
  "unmet_targets required achieved = sort (remdups (filter (\<lambda>t. t \<notin> set achieved) required))"

definition check_integration_target_matrix_passed :: "string list \<Rightarrow> string list \<Rightarrow> bool \<times> string list" where
  "check_integration_target_matrix_passed achieved required =
    (let unmet = unmet_targets required achieved in (unmet = [], unmet))"

record stability_gate_result =
  sg_passed :: bool
  sg_approval_result :: check_result
  sg_binding_result :: "check_result option"
  sg_declared_surfaces_result :: declared_surfaces_result
  sg_budget_result :: "bool \<times> string list"
  sg_target_matrix_result :: "bool \<times> string list"
  sg_block_reasons :: "string list"

definition check_stability_gate ::
  "string list \<Rightarrow> scope_manifest \<Rightarrow> stabilization_budget \<Rightarrow> string list \<Rightarrow> manifest_approval_record option
     \<Rightarrow> string \<Rightarrow> string list option \<Rightarrow> stability_gate_result" where
  "check_stability_gate touched m budget achieved approval run_id seam_allowlist =
    (let approval_result = check_approval_present approval;
         binding_result = map_option (\<lambda>a. check_binding_integrity (manifest_identity m) a run_id) approval;
         declared = check_declared_surfaces_only touched m seam_allowlist [];
         budget_result = check_budget_not_exhausted budget;
         matrix = check_integration_target_matrix_passed achieved (im_integration_targets m);
         reasons =
           (if ck_ok approval_result then [] else [''[manifest_approval_required] '' @ ck_reason approval_result])
           @ (case binding_result of
                Some b \<Rightarrow> if ck_ok b then [] else [''[binding_integrity] '' @ ck_reason b] | None \<Rightarrow> [])
           @ (if dr_passed declared then []
              else map (\<lambda>f. ''[declared_surfaces_only] '' @ fd_message f) (dr_findings declared))
           @ (if fst budget_result then []
              else [''[stabilization_budget_not_exhausted] exhausted caps: '' @ py_list_repr (snd budget_result)])
           @ (if fst matrix then []
              else [''[integration_target_matrix_passed] unmet targets: '' @ py_list_repr (snd matrix)]) in
     \<lparr>sg_passed = (reasons = []), sg_approval_result = approval_result, sg_binding_result = binding_result,
      sg_declared_surfaces_result = declared, sg_budget_result = budget_result,
      sg_target_matrix_result = matrix, sg_block_reasons = reasons\<rparr>)"

definition check_closure_precondition ::
  "bool \<Rightarrow> string list \<Rightarrow> string list \<Rightarrow> int \<Rightarrow> bool \<Rightarrow> bool \<times> string list" where
  "check_closure_precondition gate_passed achieved required open_violations replan_needed =
    (let unmet = unmet_targets required achieved;
         reasons =
           (if gate_passed then [] else [''stability_gate has not passed (FK-05 '' @ section_sign
              @ ''5.11 / invariant: closure_requires_stability_gate_pass)''])
           @ (if unmet = [] then [] else [''integration_targets not yet achieved: '' @ py_list_repr unmet
              @ '' (FK-05 '' @ section_sign @ ''5.11)''])
           @ (if open_violations > 0 then [show_int open_violations
              @ '' open manifest violation(s) unresolved (FK-05 '' @ section_sign @ ''5.11)''] else [])
           @ (if replan_needed then [''replan or story-split flagged; closure not allowed until resolved (FK-05 ''
              @ section_sign @ ''5.11)''] else []) in
     (reasons = [], reasons))"

text \<open>\<open>routing.py\<close>\<close>

definition decide_integration_stabilization_routing ::
  "manifest_approval_record option \<Rightarrow> bool \<times> bool \<times> string" where
  "decide_integration_stabilization_routing approval = (case approval of
      None \<Rightarrow> (True, True, ''integration_stabilization requires an approved IntegrationScopeManifest before execution-routing is allowed (FK-05 ''
        @ section_sign @ ''5.6, invariant: integration_contract_requires_exploration_first).'')
    | Some _ \<Rightarrow> (True, False, []))"

section \<open>Approval and reclassification\<close>

definition enforce_repo_set :: "scope_manifest \<Rightarrow> string list \<Rightarrow> unit is_action" where
  "enforce_repo_set m bound_roots = (let r = check_manifest_repo_set m bound_roots in
     if fst r then ret ()
     else raise (ValueError (''IntegrationScopeManifest authorizes paths outside the bound worktree set: ''
       @ py_list_repr (snd r) @ '' (FK-05 '' @ section_sign
       @ ''5.5.5, AC3, invariant: manifest_may_not_expand_repo_set).'')))"

definition save_integration_manifest :: "scope_manifest \<Rightarrow> string list option \<Rightarrow> unit is_action" where
  "save_integration_manifest m bound_roots =
    seq_io (case bound_roots of None \<Rightarrow> ret () | Some roots \<Rightarrow> enforce_repo_set m roots)
      (update_is_files (\<lambda>f. f\<lparr>if_manifest := Doc (manifest_dump m)\<rparr>))"

definition save_manifest_approval :: "manifest_approval_record \<Rightarrow> unit is_action" where
  "save_manifest_approval a = update_is_files (\<lambda>f. f\<lparr>if_approval := Doc a\<rparr>)"

definition approve_manifest ::
  "scope_manifest \<Rightarrow> manifest_approval_record \<Rightarrow> string list \<Rightarrow> string \<Rightarrow> bool \<Rightarrow> unit is_action" where
  "approve_manifest m a bound_roots run_id emitting =
    seq_io (enforce_repo_set m bound_roots)
    (let binding = check_binding_integrity (manifest_identity m) a run_id in
     if \<not> ck_ok binding
     then raise (ValueError (''ManifestApprovalRecord does not bind the manifest fail-closed: ''
       @ ck_reason binding @ '' (FK-05 '' @ section_sign @ ''5.5.4, AC2).''))
     else seq_io (save_integration_manifest m None) (seq_io (save_manifest_approval a)
       (emit_is_event emitting (Ev_manifest_approved (im_story_id m) (im_project_key m) run_id
          (im_version m) (im_content_hash m)))))"

text \<open>The epoch and the time of reclassification are drawn by the caller.\<close>

definition apply_reclassification ::
  "string list \<Rightarrow> string \<Rightarrow> string \<Rightarrow> (bool \<times> string list \<times> string) is_action" where
  "apply_reclassification deltas epoch now_iso =
    seq_io (update_is_files (\<lambda>f. f\<lparr>if_quarantine := Doc (JObj
       [(''evidence_epoch'', JStr epoch), (''pre_snapshot_deltas'', json_strs deltas),
        (''reclassified_at'', JStr now_iso), (''legalization_blocked'', JBool True)])\<rparr>))
    (ret (if epoch = [] then (False, deltas, []) else (True, deltas, epoch)))"

definition reclassify_standard_to_integration_stabilization ::
  "story_context \<Rightarrow> string list \<Rightarrow> (story_context \<Rightarrow> unit is_action) \<Rightarrow> string \<Rightarrow> string
     \<Rightarrow> (story_context \<times> string \<times> string list \<times> bool) is_action" where
  "reclassify_standard_to_integration_stabilization ctx deltas context_writer epoch now_iso =
    (if sc_implementation_contract ctx = Some Contract_INTEGRATION_STABILIZATION
     then raise (ValueError (''story is already integration_stabilization; the narrow reclassification only applies standard -> integration_stabilization (FK-05 ''
       @ section_sign @ ''5.7, AG3-069 AC10).''))
     else let ctx' = ctx\<lparr>sc_implementation_contract := Some Contract_INTEGRATION_STABILIZATION\<rparr> in
       seq_io (context_writer ctx')
       (bind_io (apply_reclassification deltas epoch now_iso) (\<lambda>(blocked, _, ep).
        bind_io (gets (\<lambda>w. read_quarantine_state (iw_files w))) (\<lambda>quarantined.
        ret (ctx', ep, quarantined, blocked)))))"

section \<open>The guards of the tool calls\<close>

datatype violation_type = Violation_SCOPE | Violation_POLICY

record guard_verdict =
  gv_allowed :: bool
  gv_guard_name :: string
  gv_violation_type :: "violation_type option"
  gv_message :: "string option"

definition guard_allow :: "string \<Rightarrow> guard_verdict" where
  "guard_allow n = \<lparr>gv_allowed = True, gv_guard_name = n, gv_violation_type = None, gv_message = None\<rparr>"

definition guard_block :: "string \<Rightarrow> violation_type \<Rightarrow> string \<Rightarrow> guard_verdict" where
  "guard_block n v m = \<lparr>gv_allowed = False, gv_guard_name = n, gv_violation_type = Some v, gv_message = Some m\<rparr>"

text \<open>The three guards that may be installed for a campaign.\<close>

datatype is_guard =
    Seam_allowlist_guard "string list"
  | Budget_guard scope_manifest
  | Fail_closed_guard string

definition mutating_operations :: "string list" where
  "mutating_operations = [''file_write'', ''file_edit'', ''bash_command'']"

definition counter_of :: "(string \<times> json) list \<Rightarrow> string \<Rightarrow> int" where
  "counter_of kvs k = (case map_of kvs k of
      Some (JInt i) \<Rightarrow> i | Some (JBool b) \<Rightarrow> (if b then 1 else 0) | _ \<Rightarrow> 0)"

definition budget_of_counters :: "budget_caps \<Rightarrow> (string \<times> json) list \<Rightarrow> exn + stabilization_budget" where
  "budget_of_counters caps kvs =
    (let b = \<lparr>sb_caps = caps, sb_loops_used = counter_of kvs ''loops_used'',
          sb_new_surfaces_used = counter_of kvs ''new_surfaces_used'',
          sb_contract_changes_used = counter_of kvs ''contract_changes_used'',
          sb_regressions_this_cycle = counter_of kvs ''regressions_this_cycle''\<rparr> in
     if sb_loops_used b < 0 \<or> sb_new_surfaces_used b < 0 \<or> sb_contract_changes_used b < 0
        \<or> sb_regressions_this_cycle b < 0
     then Inl (ValidationError ''StabilizationBudget'') else Inr b)"

text \<open>A counter document that is not an object has no \<open>get\<close>.\<close>

definition budget_of_document :: "budget_caps \<Rightarrow> json \<Rightarrow> exn + stabilization_budget" where
  "budget_of_document caps j = (case j of
      JObj kvs \<Rightarrow> budget_of_counters caps kvs
    | _ \<Rightarrow> Inl (OtherException ''AttributeError''))"

text \<open>The budget guard's reader: an unreadable file is \<open>None\<close>, an absent one an unused budget.\<close>

definition guard_load_budget :: "budget_caps \<Rightarrow> is_files \<Rightarrow> exn + stabilization_budget option" where
  "guard_load_budget caps f = (case if_budget f of
      Doc_absent \<Rightarrow> map_sum id Some (budget_of_counters caps [])
    | Doc_unreadable \<Rightarrow> Inr None
    | Doc j \<Rightarrow> map_sum id Some (budget_of_document caps j))"

definition seam_guard_evaluate :: "string list \<Rightarrow> bool \<Rightarrow> string \<Rightarrow> string \<Rightarrow> guard_verdict is_action" where
  "seam_guard_evaluate allowlist emitting op path =
    (if op \<notin> {''file_write'', ''file_edit''} then ret (guard_allow ''seam_allowlist_guard'')
     else let p = normpath path in
       if list_ex (\<lambda>a. p = a \<or> starts_with (a @ ''/'') p) allowlist
       then ret (guard_allow ''seam_allowlist_guard'')
       else seq_io (emit_is_event emitting (Ev_undeclared_surface p))
         (ret (guard_block ''seam_allowlist_guard'' Violation_SCOPE (''Write outside seam allowlist: ''
           @ py_repr p @ ''. The path is not within any declared integration seam or allowed repo path (FK-05 ''
           @ section_sign @ ''5.12, invariant: capability_overlay_is_manifest_scoped).''))))"

definition budget_guard_evaluate :: "scope_manifest \<Rightarrow> bool \<Rightarrow> string \<Rightarrow> guard_verdict is_action" where
  "budget_guard_evaluate m emitting op =
    (if op \<notin> set mutating_operations then ret (guard_allow ''stabilization_budget_guard'')
     else bind_io (gets iw_files) (\<lambda>f. bind_io (lift_sum (guard_load_budget (im_stabilization_budget m) f)) (\<lambda>b.
       case b of
         None \<Rightarrow> ret (guard_block ''stabilization_budget_guard'' Violation_POLICY
           (''Stabilization budget is unreadable; cannot confirm within-budget status. All mutating operations are blocked (FK-05 ''
             @ section_sign @ ''5.9, invariant: stabilization_budget_is_hard_cap).''))
       | Some bud \<Rightarrow>
           if any_cap_exhausted bud
           then seq_io (emit_is_event emitting (Ev_budget_exhausted (exhausted_caps bud)))
             (ret (guard_block ''stabilization_budget_guard'' Violation_POLICY (''Stabilization budget exhausted ''
               @ em_dash @ '' caps hit: '' @ py_list_repr (exhausted_caps bud)
               @ ''. All mutating operations are blocked until the replan gate (FK-05 '' @ section_sign
               @ ''5.9, invariant: stabilization_budget_is_hard_cap).'')))
           else ret (guard_allow ''stabilization_budget_guard''))))"

definition fail_closed_guard_evaluate :: "string \<Rightarrow> string \<Rightarrow> guard_verdict is_action" where
  "fail_closed_guard_evaluate why op =
    ret (if op \<notin> set mutating_operations then guard_allow ''seam_allowlist_guard_fail_closed''
         else guard_block ''seam_allowlist_guard_fail_closed'' Violation_SCOPE
           (''Integration-stabilization seam guard could not be constructed; productive work is fail-closed blocked (''
             @ why @ ''). A missing or broken IS guard must BLOCK, never silently skip (FK-05 '' @ section_sign @ ''5.12).''))"

fun guard_evaluate :: "is_guard \<Rightarrow> bool \<Rightarrow> string \<Rightarrow> string \<Rightarrow> guard_verdict is_action" where
  "guard_evaluate (Seam_allowlist_guard allowlist) emitting op path = seam_guard_evaluate allowlist emitting op path"
| "guard_evaluate (Budget_guard m) emitting op path = budget_guard_evaluate m emitting op"
| "guard_evaluate (Fail_closed_guard r) emitting op path = fail_closed_guard_evaluate r op"

text \<open>
  Building the guards. A story is a campaign when its manifest file exists. \<open>worktree_read\<close> is what
  reading the allowlist file back from a worktree root gives after it was written there, an exception
  when the write fails.
\<close>

definition approved_manifest ::
  "(json \<Rightarrow> string) \<Rightarrow> is_files \<Rightarrow> string \<Rightarrow> is_guard + scope_manifest" where
  "approved_manifest digest f run_id = (case stored_manifest digest f of
      None \<Rightarrow> Inl (Fail_closed_guard ''no approved IntegrationScopeManifest present'')
    | Some m \<Rightarrow> (case stored_approval f of
         None \<Rightarrow> Inl (Fail_closed_guard ''no approved ManifestApprovalRecord present'')
       | Some a \<Rightarrow> (let binding = check_binding_integrity (manifest_identity m) a run_id in
           if ck_ok binding then Inr m
           else Inl (Fail_closed_guard (''manifest binding invalid: '' @ ck_reason binding)))))"

fun materialize_everywhere ::
  "(string \<Rightarrow> string list \<Rightarrow> exn + string list option) \<Rightarrow> string list \<Rightarrow> string list
     \<Rightarrow> string list option \<Rightarrow> exn + string list option" where
  "materialize_everywhere worktree_read xs [] acc = Inr acc"
| "materialize_everywhere worktree_read xs (root # roots) acc = (case worktree_read root xs of
      Inl e \<Rightarrow> Inl e
    | Inr r \<Rightarrow> materialize_everywhere worktree_read xs roots r)"

definition maybe_seam_guard ::
  "(json \<Rightarrow> string) \<Rightarrow> (string \<Rightarrow> string list \<Rightarrow> exn + string list option) \<Rightarrow> is_files \<Rightarrow> string
     \<Rightarrow> string list \<Rightarrow> is_guard option" where
  "maybe_seam_guard digest worktree_read f run_id roots =
    (if if_manifest f = Doc_absent then None
     else Some (case approved_manifest digest f run_id of
        Inl g \<Rightarrow> g
      | Inr m \<Rightarrow> (case materialize_everywhere worktree_read (materialize_seam_allowlist m) roots None of
           Inl e \<Rightarrow> Fail_closed_guard (''seam guard construction error: '' @ exn_message e)
         | Inr None \<Rightarrow> Fail_closed_guard (''seam allowlist could not be materialized: no worktree root available or the allowlist file was unreadable after write (FK-05 ''
              @ section_sign @ ''5.14, fail-closed)'')
         | Inr (Some allowlist) \<Rightarrow> Seam_allowlist_guard allowlist)))"

definition maybe_budget_guard :: "(json \<Rightarrow> string) \<Rightarrow> is_files \<Rightarrow> string \<Rightarrow> is_guard option" where
  "maybe_budget_guard digest f run_id =
    (if if_manifest f = Doc_absent then None
     else Some (case approved_manifest digest f run_id of Inl g \<Rightarrow> g | Inr m \<Rightarrow> Budget_guard m))"

section \<open>The producer of the gate\<close>

text \<open>The producer's reader takes an unreadable counter file for an unused budget.\<close>

definition load_budget :: "budget_caps \<Rightarrow> is_files \<Rightarrow> exn + stabilization_budget" where
  "load_budget caps f = (case if_budget f of
      Doc j \<Rightarrow> budget_of_document caps j | _ \<Rightarrow> budget_of_counters caps [])"

definition load_achieved_targets :: "is_files \<Rightarrow> string list" where
  "load_achieved_targets f = (case if_targets f of
      Doc (JList xs) \<Rightarrow> map json_show xs
    | Doc (JObj kvs) \<Rightarrow> (case map_of kvs ''achieved_targets'' of Some (JList xs) \<Rightarrow> map json_show xs | _ \<Rightarrow> [])
    | _ \<Rightarrow> [])"

definition sorted_targets :: "string list \<Rightarrow> string list" where
  "sorted_targets xs = sort (remdups xs)"

definition persist_gate_result :: "bool \<Rightarrow> string list \<Rightarrow> string list \<Rightarrow> unit is_action" where
  "persist_gate_result passed_gate achieved reasons = update_is_files (\<lambda>f. f\<lparr>if_gate := Doc (JObj
     [(''passed'', JBool passed_gate), (''achieved_targets'', json_strs achieved),
      (''open_violations'', JInt (if passed_gate then 0 else int (length reasons))),
      (''replan_needed'', JBool False), (''block_reasons'', json_strs reasons)])\<rparr>)"

definition stability_finding :: "string \<Rightarrow> string \<Rightarrow> finding" where
  "stability_finding check_id message = new_finding ''stability_gate'' check_id Severity_BLOCKING message Trust_SYSTEM"

definition build_stability_findings :: "stability_gate_result \<Rightarrow> finding list" where
  "build_stability_findings g =
    (if ck_ok (sg_approval_result g) then [] else [stability_finding ''integration.manifest_approval_required''
       (''manifest approval required: '' @ ck_reason (sg_approval_result g))])
    @ (case sg_binding_result g of
         Some b \<Rightarrow> if ck_ok b then [] else [stability_finding ''integration.binding_integrity''
            (''manifest binding integrity failed: '' @ ck_reason b)]
       | None \<Rightarrow> [])
    @ (if dr_passed (sg_declared_surfaces_result g) then []
       else map (\<lambda>f. stability_finding ''integration.declared_surfaces_only'' (fd_message f))
         (dr_findings (sg_declared_surfaces_result g)))
    @ (if fst (sg_budget_result g) then [] else [stability_finding ''integration.stabilization_budget_not_exhausted''
         (''stabilization budget exhausted: '' @ py_list_repr (snd (sg_budget_result g)))])
    @ (if fst (sg_target_matrix_result g) then [] else [stability_finding ''integration.integration_target_matrix_passed''
         (''integration targets unmet: '' @ py_list_repr (snd (sg_target_matrix_result g)))])
    @ (if sg_passed g then [] else [stability_finding ''stability_gate''
         (''stability_gate FAILED (FK-37 '' @ section_sign @ ''37.1.3, AC5/AC12): ''
           @ join ''; '' (sg_block_reasons g))])"

definition gate_layer_result :: "bool \<Rightarrow> finding list \<Rightarrow> string list \<Rightarrow> string list \<Rightarrow> layer_result" where
  "gate_layer_result passed_gate fs stage_ids executed = \<lparr>lr_layer = ''stability_gate'',
     lr_passed = passed_gate, lr_findings = fs,
     lr_metadata = [(''stage_ids'', json_strs stage_ids), (''producer'', JStr STABILITY_GATE_PRODUCER),
       (''executed_check_ids'', json_strs executed)],
     lr_artifact_reference = None\<rparr>"

definition no_manifest_message :: string where
  "no_manifest_message = ''No approved IntegrationScopeManifest found; the stability_gate cannot pass. Integration-stabilization closure is fail-closed blocked without an approved manifest (FK-05 ''
     @ section_sign @ ''5.10/'' @ section_sign @ ''5.11, AC5).''"

definition executed_gate_checks :: "stability_gate_result \<Rightarrow> string list" where
  "executed_gate_checks g = ''integration.manifest_approval_required''
     # (if sg_binding_result g = None then [] else [''integration.binding_integrity''])
     @ [''integration.declared_surfaces_only'', ''integration.stabilization_budget_not_exhausted'',
        ''integration.integration_target_matrix_passed'', ''stability_gate'']"

definition produce_stability_gate_layer_result ::
  "(json \<Rightarrow> string) \<Rightarrow> string \<Rightarrow> string list \<Rightarrow> bool \<Rightarrow> string \<Rightarrow> string \<Rightarrow> layer_result is_action" where
  "produce_stability_gate_layer_result digest run_id touched emitting story_id project_key =
    bind_io (gets iw_files) (\<lambda>f. case stored_manifest digest f of
      None \<Rightarrow> seq_io (persist_gate_result False [] [no_manifest_message])
        (ret (gate_layer_result False [stability_finding ''stability_gate'' no_manifest_message]
           [''stability_gate''] [''stability_gate'']))
    | Some m \<Rightarrow> bind_io (lift_sum (load_budget (im_stabilization_budget m) f)) (\<lambda>budget.
       (let achieved = load_achieved_targets f;
            g = check_stability_gate touched m budget achieved (stored_approval f) run_id
                  (Some (materialize_seam_allowlist m)) in
        seq_io (persist_gate_result (sg_passed g) (sorted_targets achieved) (sg_block_reasons g))
        (seq_io (if sg_passed g
                 then emit_is_event emitting (Ev_stability_gate_passed story_id project_key run_id (sorted_targets achieved))
                 else ret ())
        (ret (gate_layer_result (sg_passed g) (build_stability_findings g)
           [''stability_gate'', ''integration.integration_target_matrix_passed''] (executed_gate_checks g)))))))"

section \<open>The closure precondition\<close>

text \<open>
  What closure reads from the gate's document. An entry that cannot be hashed, or a document that is
  not an object, raises inside the \<open>try\<close>: the verdict counts as not passed and what was read before
  stays.
\<close>

record gate_reading =
  gr_passed :: bool
  gr_targets :: "json list"
  gr_open_violations :: int
  gr_replan :: bool

definition no_gate :: gate_reading where
  "no_gate = \<lparr>gr_passed = False, gr_targets = [], gr_open_violations = 0, gr_replan = False\<rparr>"

fun hashable :: "json \<Rightarrow> bool" where
  "hashable (JList _) = False"
| "hashable (JObj _) = False"
| "hashable _ = True"

definition read_gate :: "is_files \<Rightarrow> gate_reading" where
  "read_gate f = (case if_gate f of
      Doc (JObj kvs) \<Rightarrow>
       (let targets = (case map_of kvs ''achieved_targets'' of Some (JList xs) \<Rightarrow> xs | _ \<Rightarrow> []) in
        if \<not> list_all hashable targets then no_gate
        else \<lparr>gr_passed = (case map_of kvs ''passed'' of Some v \<Rightarrow> truthy v | None \<Rightarrow> False),
              gr_targets = targets, gr_open_violations = counter_of kvs ''open_violations'',
              gr_replan = (case map_of kvs ''replan_needed'' of Some v \<Rightarrow> truthy v | None \<Rightarrow> False)\<rparr>)
    | _ \<Rightarrow> no_gate)"

text \<open>Only strings of the document can equal a declared target.\<close>

definition achieved_strings :: "json list \<Rightarrow> string list" where
  "achieved_strings xs = concat (map (\<lambda>j. case j of JStr s \<Rightarrow> [s] | _ \<Rightarrow> []) xs)"

definition check_is_closure_precondition ::
  "(json \<Rightarrow> string) \<Rightarrow> story_context \<Rightarrow> is_files \<Rightarrow> string option" where
  "check_is_closure_precondition digest ctx f =
    (if sc_implementation_contract ctx \<noteq> Some Contract_INTEGRATION_STABILIZATION then None
     else case (stored_manifest digest f, stored_approval f) of
       (Some m, Some _) \<Rightarrow>
        (let g = read_gate f;
             r = check_closure_precondition (gr_passed g) (achieved_strings (gr_targets g))
                   (im_integration_targets m) (gr_open_violations g) (gr_replan g) in
         if fst r then None
         else Some (''Integration-stabilization closure precondition failed (FK-05 '' @ section_sign
           @ ''5.11, AC9): '' @ join ''; '' (snd r)))
     | (m, _) \<Rightarrow> Some (''Integration-stabilization closure blocked: ''
          @ (if m = None then ''manifest'' else ''approval record'')
          @ '' not found in story directory. An approved manifest is required for closure (FK-05 ''
          @ section_sign @ ''5.11, AC9).''))"

section \<open>Paths and surfaces\<close>

definition declared_paths :: "scope_manifest \<Rightarrow> string list" where
  "declared_paths m = im_target_seams m @ im_allowed_repos_paths m"

text \<open>What a manifest declares, component by component.\<close>

definition surface_declared :: "scope_manifest \<Rightarrow> string \<Rightarrow> bool" where
  "surface_declared m p = list_ex (\<lambda>d. covers (norm_parts d) (norm_parts p)) (declared_paths m)"

lemma within_seam_allowlist_iff:
  "is_path_within_seam_allowlist p xs \<longleftrightarrow> list_ex (\<lambda>d. covers (norm_parts d) (norm_parts p)) xs"
  by (simp add: is_path_within_seam_allowlist_def within_dir_iff_covers list_ex_iff)

lemma within_materialized: "is_path_within_seam_allowlist p (materialize_seam_allowlist m) \<longleftrightarrow> surface_declared m p"
  by (simp add: within_seam_allowlist_iff materialize_seam_allowlist_def surface_declared_def declared_paths_def
      list_ex_iff image_Un bex_Un)

lemma declared_surfaces_passed:
  "dr_passed (check_declared_surfaces_only touched m (Some (materialize_seam_allowlist m)) quarantined)
     \<longleftrightarrow> (\<forall>p \<in> set touched. surface_declared m p \<and> normpath p \<notin> normpath ` set quarantined)"
proof -
  have "is_path_within_seam_allowlist p (im_target_seams m @ im_allowed_repos_paths m @ materialize_seam_allowlist m)
      \<longleftrightarrow> surface_declared m p" for p
    using within_materialized [of p m]
    by (auto simp: within_seam_allowlist_iff surface_declared_def declared_paths_def list_ex_iff)
  then show ?thesis by (auto simp: check_declared_surfaces_only_def Let_def filter_empty_conv)
qed

section \<open>The gate\<close>

definition approval_binds :: "manifest_approval_record option \<Rightarrow> scope_manifest \<Rightarrow> string \<Rightarrow> bool" where
  "approval_binds approval m run_id = (case approval of None \<Rightarrow> False
    | Some a \<Rightarrow> binds_manifest a (manifest_identity m) \<and> ma_run_id a = run_id)"

lemma binding_integrity_ok:
  "ck_ok (check_binding_integrity m a run_id) \<longleftrightarrow> binds_manifest a m \<and> ma_run_id a = run_id"
  by (simp add: check_binding_integrity_def Let_def)

lemma unmet_targets_Nil: "unmet_targets required achieved = [] \<longleftrightarrow> set required \<subseteq> set achieved"
proof -
  have "unmet_targets required achieved = [] \<longleftrightarrow> set (unmet_targets required achieved) = {}" by simp
  then show ?thesis by (auto simp: unmet_targets_def)
qed

lemma gate_passed_parts:
  "sg_passed (check_stability_gate touched m budget achieved approval run_id (Some (materialize_seam_allowlist m)))
    \<longleftrightarrow> approval_binds approval m run_id \<and> (\<forall>p \<in> set touched. surface_declared m p)
      \<and> \<not> any_cap_exhausted budget \<and> set (im_integration_targets m) \<subseteq> set achieved"
proof -
  have findings: "\<not> dr_passed r \<longleftrightarrow> dr_findings r \<noteq> []"
    if "r = check_declared_surfaces_only touched m (Some (materialize_seam_allowlist m)) []" for r
    using that by (auto simp: check_declared_surfaces_only_def Let_def)
  show ?thesis
    using findings [OF refl] declared_surfaces_passed [of touched m "[]"]
    by (cases approval)
      (auto simp: check_stability_gate_def Let_def approval_binds_def check_approval_present_def binding_integrity_ok
        check_budget_not_exhausted_def check_integration_target_matrix_passed_def unmet_targets_Nil split: if_splits)
qed

text \<open>
  C26. The stability gate passes exactly when the approval record binds this manifest (project,
  story, version and content hash) in this run, every touched path lies, component by component and
  after resolving \<open>.\<close> and \<open>..\<close>, under a declared seam or repository path, every budget counter is
  strictly below its cap, and every declared integration target is achieved.\<close>
theorem stability_gate_exact:
  "sg_passed (check_stability_gate touched m budget achieved approval run_id (Some (materialize_seam_allowlist m)))
    \<longleftrightarrow> (\<exists>a. approval = Some a \<and> ma_project_key a = im_project_key m \<and> ma_story_id a = im_story_id m
          \<and> ma_manifest_version a = im_version m \<and> ma_manifest_hash a = im_content_hash m \<and> ma_run_id a = run_id)
      \<and> (\<forall>p \<in> set touched. \<exists>d \<in> set (im_target_seams m @ im_allowed_repos_paths m).
            covers (norm_parts d) (norm_parts p))
      \<and> sb_loops_used budget < bc_max_loops (sb_caps budget)
      \<and> sb_new_surfaces_used budget < bc_max_new_surfaces (sb_caps budget)
      \<and> sb_contract_changes_used budget < bc_max_contract_changes (sb_caps budget)
      \<and> sb_regressions_this_cycle budget < bc_max_regressions_per_cycle (sb_caps budget)
      \<and> set (im_integration_targets m) \<subseteq> set achieved"
proof -
  have "approval_binds approval m run_id \<longleftrightarrow> (\<exists>a. approval = Some a \<and> ma_project_key a = im_project_key m
      \<and> ma_story_id a = im_story_id m \<and> ma_manifest_version a = im_version m
      \<and> ma_manifest_hash a = im_content_hash m \<and> ma_run_id a = run_id)"
    by (cases approval) (auto simp: approval_binds_def binds_manifest_def manifest_identity_def
        integration_scope_manifest.truncate_def)
  then show ?thesis
    by (auto simp: gate_passed_parts surface_declared_def declared_paths_def list_ex_iff any_cap_exhausted_def
        loops_exhausted_def surfaces_exhausted_def contract_changes_exhausted_def regressions_exhausted_def)
qed

section \<open>The guard of the writes\<close>

lemma allowlist_test:
  "list_ex (\<lambda>a. normpath path = a \<or> starts_with (a @ ''/'') (normpath path)) (map normpath (materialize_seam_allowlist m))
     \<longleftrightarrow> surface_declared m path"
proof -
  have "list_ex (\<lambda>a. normpath path = a \<or> starts_with (a @ ''/'') (normpath path)) (map normpath xs)
      \<longleftrightarrow> is_path_within_seam_allowlist path xs" for xs
    by (simp add: is_path_within_seam_allowlist_def within_dir_def list_ex_iff)
  then show ?thesis by (simp add: within_materialized)
qed

text \<open>What the program relies on: a file that was written is read back, or cannot be read.\<close>

definition reads_what_was_written :: "(string \<Rightarrow> string list \<Rightarrow> exn + string list option) \<Rightarrow> bool" where
  "reads_what_was_written wr = (\<forall>root xs r. wr root xs = Inr r \<longrightarrow> r = None \<or> r = Some (map normpath xs))"

lemma materialize_everywhere_reads:
  assumes "reads_what_was_written wr" and "materialize_everywhere wr xs roots acc = Inr (Some ys)"
    and "acc = None \<or> acc = Some (map normpath xs)"
  shows "ys = map normpath xs"
  using assms(2,3)
proof (induction roots arbitrary: acc)
  case (Cons root roots)
  then obtain r where r: "wr root xs = Inr r" "materialize_everywhere wr xs roots r = Inr (Some ys)"
    by (auto split: sum.splits)
  then show ?case using Cons.IH assms(1) by (auto simp: reads_what_was_written_def)
qed auto

lemma approved_manifestD:
  assumes "approved_manifest digest f run_id = Inr m"
  shows "stored_manifest digest f = Some m" and "approval_binds (stored_approval f) m run_id"
  using assms by (auto simp: approved_manifest_def approval_binds_def binding_integrity_ok Let_def
      split: option.splits if_splits)

lemma approved_manifest_Inr:
  "approved_manifest digest f run_id = Inr m \<longleftrightarrow>
     stored_manifest digest f = Some m \<and> approval_binds (stored_approval f) m run_id"
  by (auto simp: approved_manifest_def approval_binds_def binding_integrity_ok Let_def split: option.splits)

lemma approved_manifest_guard:
  "approved_manifest digest f run_id = Inl g \<Longrightarrow> \<exists>why. g = Fail_closed_guard why"
  by (auto simp: approved_manifest_def Let_def split: option.splits if_splits)

lemma fail_closed_blocks:
  "op \<in> set mutating_operations \<Longrightarrow> guard_evaluate (Fail_closed_guard why) emitting op path w = (Inr v, t)
     \<Longrightarrow> \<not> gv_allowed v"
  by (auto simp: fail_closed_guard_evaluate_def guard_block_def ret_def)

text \<open>
  C27. Once a manifest file exists, the guard installed for the story lets a file write or edit
  through exactly when the manifest and its approval are stored, the approval binds the manifest in
  the current run, the allowlist could be written and read back in the worktrees, and the target path
  lies under a declared seam or repository path, also when it is reached through \<open>..\<close>; every other
  state of the files blocks the write.\<close>
theorem writes_stay_in_the_approved_seams:
  assumes "reads_what_was_written wr" and "if_manifest f \<noteq> Doc_absent" and "op \<in> {''file_write'', ''file_edit''}"
  shows "\<exists>g v t. maybe_seam_guard digest wr f run_id roots = Some g
    \<and> guard_evaluate g emitting op path w = (Inr v, t)
    \<and> (gv_allowed v \<longleftrightarrow> (\<exists>m allowlist. stored_manifest digest f = Some m
         \<and> approval_binds (stored_approval f) m run_id
         \<and> materialize_everywhere wr (materialize_seam_allowlist m) roots None = Inr (Some allowlist)
         \<and> (\<exists>d \<in> set (im_target_seams m @ im_allowed_repos_paths m). covers (norm_parts d) (norm_parts path))))"
proof (cases "approved_manifest digest f run_id")
  case (Inl g)
  then obtain why where g: "g = Fail_closed_guard why" using approved_manifest_guard by blast
  have "\<nexists>m. stored_manifest digest f = Some m \<and> approval_binds (stored_approval f) m run_id"
    using Inl approved_manifest_Inr by (metis Inl_Inr_False)
  then show ?thesis using assms(2,3) Inl g
    by (auto simp: maybe_seam_guard_def fail_closed_guard_evaluate_def ret_def guard_block_def mutating_operations_def)
next
  case (Inr m)
  note ok = Inr [unfolded approved_manifest_Inr]
  let ?r = "materialize_everywhere wr (materialize_seam_allowlist m) roots None"
  show ?thesis
  proof (cases "\<exists>allowlist. ?r = Inr (Some allowlist)")
    case True
    then obtain xs where xs: "?r = Inr (Some xs)" by blast
    then have "xs = map normpath (materialize_seam_allowlist m)"
      using materialize_everywhere_reads [OF assms(1) xs] by simp
    then show ?thesis using xs Inr ok assms(2,3) allowlist_test [of path m]
      by (auto simp: maybe_seam_guard_def seam_guard_evaluate_def Let_def io_app io_run guard_allow_def guard_block_def
          emit_is_event_def surface_declared_def declared_paths_def list_ex_iff)
  next
    case False
    then obtain why where "maybe_seam_guard digest wr f run_id roots = Some (Fail_closed_guard why)"
      using Inr assms(2) by (cases ?r) (auto simp: maybe_seam_guard_def split: option.splits)
    then show ?thesis using False ok assms(3)
      by (auto simp: fail_closed_guard_evaluate_def ret_def guard_block_def mutating_operations_def)
  qed
qed

section \<open>Approval\<close>

lemma build_manifest_dump:
  "build_manifest digest d = Some m \<Longrightarrow> manifest_dump m = d"
  by (auto simp: build_manifest_def manifest_dump_def manifest_data_valid_def split: if_splits)

text \<open>What the hash is relied on for: payloads with one hash read back as the same document.\<close>

definition collision_free :: "(json \<Rightarrow> string) \<Rightarrow> bool" where
  "collision_free digest = (\<forall>j k. digest j = digest k \<longrightarrow> wire_of j = wire_of k)"

lemma show_nat_inject: "show_nat m = show_nat n \<Longrightarrow> m = n"
  using py_int_show_nat by (metis of_nat_eq_iff option.inject)

lemma show_int_inject: "show_int i = show_int j \<longleftrightarrow> i = j"
proof -
  have dash: "CHR ''-'' # s \<noteq> show_nat n" for s n
  proof
    assume "CHR ''-'' # s = show_nat n"
    then have "CHR ''-'' \<in> set (show_nat n)" by (metis list.set_intros(1))
    then show False using is_digit_show_nat [of "CHR ''-''" n] by (simp add: is_digit_def digit_val_def)
  qed
  then show ?thesis using show_nat_inject [of "nat (- i)" "nat (- j)"] show_nat_inject [of "nat i" "nat j"]
      dash [of "show_nat (nat (- i))" "nat j"] dash [of "show_nat (nat (- j))" "nat i", THEN not_sym]
    by (auto simp: show_int_def split: if_splits)
qed

lemma wire_of_member:
  assumes "wire_of (JObj kvs) = wire_of (JObj lvs)" and "distinct (map fst kvs)" and "distinct (map fst lvs)"
  shows "map_option wire_of (map_of kvs k) = map_option wire_of (map_of lvs k)"
proof -
  have dist: "distinct (map fst (map (\<lambda>(k, v). (k, wire_of v)) xs)) = distinct (map fst xs)" for xs
    by (simp add: comp_def case_prod_beta)
  have "map_of (map (\<lambda>(k, v). (k, wire_of v)) xs) k = map_option wire_of (map_of xs k)" for xs :: "(string \<times> json) list"
    by (induction xs) auto
  moreover have "map_of (sort_key fst (map (\<lambda>(k, v). (k, wire_of v)) kvs)) k
      = map_of (sort_key fst (map (\<lambda>(k, v). (k, wire_of v)) lvs)) k"
    using assms(1) by simp
  ultimately show ?thesis using assms(2,3) by (simp only: map_of_sort_key dist)
qed

lemma json_strs_inject: "wire_of (json_strs xs) = wire_of (json_strs ys) \<longleftrightarrow> xs = ys"
proof -
  have "inj (wire_of \<circ> JStr)" by (auto simp: inj_def)
  then show ?thesis by (simp add: json_strs_def inj_map_eq_map)
qed

lemma caps_dump_inject: "wire_of (caps_dump c) = wire_of (caps_dump e) \<longleftrightarrow> c = e"
proof
  assume w: "wire_of (caps_dump c) = wire_of (caps_dump e)"
  note member = wire_of_member [OF w [unfolded caps_dump_def]]
  show "c = e"
    using member [of "''max_loops''"] member [of "''max_new_surfaces''"] member [of "''max_contract_changes''"]
      member [of "''max_regressions_per_cycle''"]
    by (auto simp: show_int_inject intro: budget_caps.equality)
qed simp

lemma payload_inject:
  assumes "wire_of (declarative_payload d) = wire_of (declarative_payload e)" and "md_version d = md_version e"
  shows "d = e"
proof -
  note member = wire_of_member [OF assms(1) [unfolded declarative_payload_def]]
  have "md_project_key d = md_project_key e" using member [of "''project_key''"] by simp
  moreover have "md_story_id d = md_story_id e" using member [of "''story_id''"] by simp
  moreover have "md_implementation_contract d = md_implementation_contract e"
    using member [of "''implementation_contract''"] by simp
  moreover have "md_target_seams d = md_target_seams e"
    using member [of "''target_seams''"] by (simp add: json_strs_inject)
  moreover have "md_allowed_repos_paths d = md_allowed_repos_paths e"
    using member [of "''allowed_repos_paths''"] by (simp add: json_strs_inject)
  moreover have "md_integration_targets d = md_integration_targets e"
    using member [of "''integration_targets''"] by (simp add: json_strs_inject)
  moreover have "md_allowed_contract_changes d = md_allowed_contract_changes e"
    using member [of "''allowed_contract_changes''"] by (simp add: json_strs_inject)
  moreover have "md_stabilization_budget d = md_stabilization_budget e"
    using member [of "''stabilization_budget''"] by (simp add: caps_dump_inject)
  moreover have "md_out_of_contract_examples d = md_out_of_contract_examples e"
    using member [of "''out_of_contract_examples''"] by (simp add: json_strs_inject)
  ultimately show ?thesis using assms(2) by (auto intro: manifest_data.equality)
qed

lemma build_manifest_hash:
  "build_manifest digest d = Some m \<Longrightarrow> im_content_hash m = digest (declarative_payload d) \<and> im_version m = md_version d"
  by (auto simp: build_manifest_def split: if_splits)

lemma enforce_repo_set_run:
  "enforce_repo_set m roots w = (if fst (check_manifest_repo_set m roots) then (Inr (), w)
     else (Inl (ValueError (''IntegrationScopeManifest authorizes paths outside the bound worktree set: ''
       @ py_list_repr (snd (check_manifest_repo_set m roots)) @ '' (FK-05 '' @ section_sign
       @ ''5.5.5, AC3, invariant: manifest_may_not_expand_repo_set).'')), w))"
  by (simp add: enforce_repo_set_def Let_def io_run)

lemma approve_manifest_returns:
  assumes "approve_manifest m a roots run_id emitting w = (Inr (), t)"
  shows "fst (check_manifest_repo_set m roots)" and "binds_manifest a (manifest_identity m)" and "ma_run_id a = run_id"
    and "iw_files t = (iw_files w)\<lparr>if_manifest := Doc (manifest_dump m), if_approval := Doc a\<rparr>"
  using assms
  by (auto simp: approve_manifest_def io_app enforce_repo_set_run Let_def binding_integrity_ok io_run
      save_integration_manifest_def save_manifest_approval_def update_is_files_def emit_is_event_def
      split: if_splits)

lemma binds_built:
  assumes "build_manifest digest d = Some m" and "binds_manifest a (manifest_identity m)"
  shows "ma_manifest_hash a = digest (declarative_payload d)" and "ma_manifest_version a = md_version d"
  using assms build_manifest_hash [OF assms(1)]
  by (auto simp: binds_manifest_def manifest_identity_def integration_scope_manifest.truncate_def)

text \<open>
  C28. An approved campaign is what is stored, and it cannot be changed afterwards: when approving
  a manifest returns, its paths lie within the bound worktrees, reading the story directory in that run
  gives back exactly this manifest, and if the manifest file is later replaced by any other document,
  then under the stored approval no run accepts a different manifest.\<close>
theorem approval_is_durable_and_tamper_evident:
  assumes "collision_free digest" and "build_manifest digest d = Some m" and "approval_valid a"
    and "approve_manifest m a roots run_id emitting w = (Inr (), t)"
  shows "approved_manifest digest (iw_files t) run_id = Inr m
    \<and> (\<forall>p \<in> set (im_allowed_repos_paths m @ im_target_seams m). \<exists>r \<in> set roots. covers (norm_parts r) (norm_parts p))
    \<and> (\<forall>doc run' m'. approved_manifest digest ((iw_files t)\<lparr>if_manifest := doc\<rparr>) run' = Inr m'
          \<longrightarrow> m' = m \<and> run' = run_id)"
proof (intro conjI allI impI)
  note ok = approve_manifest_returns [OF assms(4)]
  have approval: "stored_approval (iw_files t) = Some a"
    using ok(4) assms(3) by (simp add: stored_approval_def)
  show "approved_manifest digest (iw_files t) run_id = Inr m"
    using ok approval assms(2) build_manifest_dump [OF assms(2)]
    by (simp add: approved_manifest_Inr stored_manifest_def approval_binds_def)
  show "\<forall>p \<in> set (im_allowed_repos_paths m @ im_target_seams m). \<exists>r \<in> set roots. covers (norm_parts r) (norm_parts p)"
    using ok(1) by (simp add: check_manifest_repo_set_def Let_def filter_empty_conv list_ex_iff within_dir_iff_covers ball_Un)
  fix doc run' m'
  assume other: "approved_manifest digest ((iw_files t)\<lparr>if_manifest := doc\<rparr>) run' = Inr m'"
  then obtain e where e: "build_manifest digest e = Some m'" "binds_manifest a (manifest_identity m')" "ma_run_id a = run'"
    using approval by (auto simp: approved_manifest_Inr stored_manifest_def stored_approval_def approval_binds_def
        split: doc.splits)
  have "wire_of (declarative_payload e) = wire_of (declarative_payload d)"
    using binds_built [OF assms(2) ok(2)] binds_built [OF e(1,2)] assms(1) by (metis collision_free_def)
  then have "e = d"
    using binds_built [OF assms(2) ok(2)] binds_built [OF e(1,2)] by (intro payload_inject) simp_all
  then show "m' = m" and "run' = run_id" using e assms(2) ok(3) by simp_all
qed

section \<open>Closure reads what the gate wrote\<close>

lemma json_show_strs: "map json_show (map JStr xs) = xs"
  by (simp add: comp_def)

lemma achieved_strings_strs [simp]: "achieved_strings (map JStr xs) = xs"
  by (induction xs) (simp_all add: achieved_strings_def)

lemma read_gate_persisted:
  "read_gate (f\<lparr>if_gate := Doc (JObj
     [(''passed'', JBool b), (''achieved_targets'', json_strs ts),
      (''open_violations'', JInt n), (''replan_needed'', JBool False), (''block_reasons'', json_strs rs)])\<rparr>)
    = \<lparr>gr_passed = b, gr_targets = map JStr ts, gr_open_violations = n, gr_replan = False\<rparr>"
  by (simp add: read_gate_def json_strs_def counter_of_def list_all_iff)

text \<open>The run of the producer, by cases.\<close>

lemma produce_run:
  assumes "produce_stability_gate_layer_result digest run_id touched emitting sid pk w = (Inr lr, t)"
  obtains (missing) "stored_manifest digest (iw_files w) = None" "\<not> lr_passed lr"
      "stored_manifest digest (iw_files t) = None"
  | (evaluated) m budget g where "stored_manifest digest (iw_files w) = Some m"
      "load_budget (im_stabilization_budget m) (iw_files w) = Inr budget"
      "g = check_stability_gate touched m budget (load_achieved_targets (iw_files w)) (stored_approval (iw_files w))
         run_id (Some (materialize_seam_allowlist m))"
      "lr_passed lr = sg_passed g" "lr_findings lr = build_stability_findings g"
      "iw_files t = (iw_files w)\<lparr>if_gate := Doc (JObj
         [(''passed'', JBool (sg_passed g)),
          (''achieved_targets'', json_strs (sorted_targets (load_achieved_targets (iw_files w)))),
          (''open_violations'', JInt (if sg_passed g then 0 else int (length (sg_block_reasons g)))),
          (''replan_needed'', JBool False), (''block_reasons'', json_strs (sg_block_reasons g))])\<rparr>"
proof (cases "stored_manifest digest (iw_files w)")
  case None
  then show ?thesis using assms
    by (intro missing) (auto simp: produce_stability_gate_layer_result_def io_app io_run persist_gate_result_def
        update_is_files_def gate_layer_result_def stored_manifest_def split: doc.splits)
next
  case (Some m)
  obtain budget where b: "load_budget (im_stabilization_budget m) (iw_files w) = Inr budget"
    using assms Some by (cases "load_budget (im_stabilization_budget m) (iw_files w)")
      (auto simp: produce_stability_gate_layer_result_def io_app io_run)
  show ?thesis
    by (rule evaluated [OF Some b refl])
      (use assms Some b in \<open>auto simp: produce_stability_gate_layer_result_def io_app io_run persist_gate_result_def
        update_is_files_def gate_layer_result_def emit_is_event_def Let_def split: if_splits\<close>)
qed

text \<open>
  C29. The gate's verdict is the one closure acts on: when the producer returns for a campaign, the
  closure precondition evaluated on the files it left lets the story close if and only if the layer
  result passed; in particular a missing manifest, a missing or foreign approval, an undeclared path,
  an exhausted budget or an unmet target keeps the story open.\<close>
theorem closure_acts_on_the_gate:
  assumes "produce_stability_gate_layer_result digest run_id touched emitting sid pk w = (Inr lr, t)"
    and "sc_implementation_contract ctx = Some Contract_INTEGRATION_STABILIZATION"
  shows "check_is_closure_precondition digest ctx (iw_files t) = None \<longleftrightarrow> lr_passed lr"
  using assms(1)
proof (cases rule: produce_run)
  case missing
  then show ?thesis using assms(2) by (simp add: check_is_closure_precondition_def)
next
  case (evaluated m budget g)
  have stored: "stored_manifest digest (iw_files t) = Some m" "stored_approval (iw_files t) = stored_approval (iw_files w)"
    using evaluated by (simp_all add: stored_manifest_def stored_approval_def)
  have reading: "read_gate (iw_files t) = \<lparr>gr_passed = sg_passed g,
      gr_targets = map JStr (sorted_targets (load_achieved_targets (iw_files w))),
      gr_open_violations = (if sg_passed g then 0 else int (length (sg_block_reasons g))), gr_replan = False\<rparr>"
    using evaluated(6) read_gate_persisted by simp
  show ?thesis
  proof (cases "sg_passed g")
    case False
    then show ?thesis using evaluated(4) stored reading assms(2)
      by (auto simp: check_is_closure_precondition_def check_closure_precondition_def Let_def split: option.splits)
  next
    case True
    then have met: "approval_binds (stored_approval (iw_files w)) m run_id"
      "set (im_integration_targets m) \<subseteq> set (load_achieved_targets (iw_files w))"
      using gate_passed_parts evaluated(3) by simp_all
    then obtain a where "stored_approval (iw_files w) = Some a" by (auto simp: approval_binds_def split: option.splits)
    moreover have "unmet_targets (im_integration_targets m) (sorted_targets (load_achieved_targets (iw_files w))) = []"
      using met by (simp add: unmet_targets_Nil sorted_targets_def)
    ultimately show ?thesis using True evaluated(4) stored reading assms(2)
      by (simp add: check_is_closure_precondition_def check_closure_precondition_def Let_def)
  qed
qed

section \<open>Budgets that cannot be used\<close>

lemma budget_of_counters_bounds:
  "budget_of_counters caps kvs = Inr b \<Longrightarrow> sb_caps b = caps \<and> 0 \<le> sb_loops_used b \<and> 0 \<le> sb_new_surfaces_used b
     \<and> 0 \<le> sb_contract_changes_used b \<and> 0 \<le> sb_regressions_this_cycle b"
  by (auto simp: budget_of_counters_def Let_def split: if_splits)

lemma budget_of_document_bounds:
  "budget_of_document caps j = Inr b \<Longrightarrow> sb_caps b = caps \<and> 0 \<le> sb_loops_used b \<and> 0 \<le> sb_new_surfaces_used b
     \<and> 0 \<le> sb_contract_changes_used b \<and> 0 \<le> sb_regressions_this_cycle b"
  using budget_of_counters_bounds by (auto simp: budget_of_document_def split: json.splits)

definition has_zero_cap :: "budget_caps \<Rightarrow> bool" where
  "has_zero_cap c = (bc_max_new_surfaces c = 0 \<or> bc_max_contract_changes c = 0 \<or> bc_max_regressions_per_cycle c = 0)"

lemma zero_cap_exhausted:
  assumes "has_zero_cap (sb_caps b)" and "0 \<le> sb_new_surfaces_used b" and "0 \<le> sb_contract_changes_used b"
    and "0 \<le> sb_regressions_this_cycle b"
  shows "any_cap_exhausted b"
  using assms by (auto simp: has_zero_cap_def any_cap_exhausted_def surfaces_exhausted_def
      contract_changes_exhausted_def regressions_exhausted_def)

lemma map_sum_Some_iff: "map_sum id Some r = Inr (Some b) \<longleftrightarrow> r = Inr b"
  by (cases r) auto

text \<open>
  A cap of zero, which a manifest may declare to forbid new surfaces, contract changes or
  regressions, counts as exhausted before anything was used: under such a manifest the stability gate
  never passes and the budget guard lets no write, edit or shell command through, whatever the
  counter file says.\<close>
theorem zero_cap_is_never_workable:
  assumes "stored_manifest digest (iw_files w) = Some m" and "has_zero_cap (im_stabilization_budget m)"
    and "op \<in> set mutating_operations"
  shows "(\<forall>run_id touched emitting sid pk lr t.
      produce_stability_gate_layer_result digest run_id touched emitting sid pk w = (Inr lr, t) \<longrightarrow> \<not> lr_passed lr)
    \<and> (\<forall>emitting path v t. guard_evaluate (Budget_guard m) emitting op path w = (Inr v, t) \<longrightarrow> \<not> gv_allowed v)"
proof (intro conjI allI impI)
  have exhausted: "any_cap_exhausted b" if "budget_of_counters (im_stabilization_budget m) kvs = Inr b
      \<or> budget_of_document (im_stabilization_budget m) j = Inr b" for b kvs j
    using that zero_cap_exhausted budget_of_counters_bounds budget_of_document_bounds assms(2) by metis
  show "\<not> lr_passed lr"
    if "produce_stability_gate_layer_result digest run_id touched emitting sid pk w = (Inr lr, t)"
    for run_id touched emitting sid pk lr t
    using that
  proof (cases rule: produce_run)
    case (evaluated m' budget g)
    then have "any_cap_exhausted budget"
      using assms(1) exhausted by (auto simp: load_budget_def split: doc.splits)
    then show ?thesis using evaluated gate_passed_parts by simp
  qed
  show "\<not> gv_allowed v" if "guard_evaluate (Budget_guard m) emitting op path w = (Inr v, t)" for emitting path v t
  proof -
    have "guard_load_budget (im_stabilization_budget m) (iw_files w) = Inr (Some b) \<Longrightarrow> any_cap_exhausted b" for b
      using exhausted by (auto simp: guard_load_budget_def map_sum_Some_iff split: doc.splits)
    then show ?thesis using that assms(3)
      by (auto simp: budget_guard_evaluate_def io_app io_run guard_block_def emit_is_event_def
          split: sum.splits option.splits if_splits)
  qed
qed

section \<open>Reclassification\<close>

lemma quarantine_written:
  "read_quarantine_state (f\<lparr>if_quarantine := Doc (JObj [(''evidence_epoch'', JStr e), (''pre_snapshot_deltas'', json_strs ds),
     (''reclassified_at'', JStr n), (''legalization_blocked'', JBool True)])\<rparr>) = ds"
  by (simp add: read_quarantine_state_def json_strs_def comp_def)

text \<open>Deltas from before the snapshot are never declared surfaces of the reclassified story.\<close>

lemma reclassification_legalises_nothing:
  assumes "reclassify_standard_to_integration_stabilization ctx deltas (\<lambda>_. ret ()) epoch now_iso w
      = (Inr (ctx', ep, quarantined, blocked), t)"
    and "p \<in> set touched" and "d \<in> set deltas" and "normpath p = normpath d"
  shows "\<not> dr_passed (check_declared_surfaces_only touched m (Some (materialize_seam_allowlist m))
      (read_quarantine_state (iw_files t)))"
proof -
  have "read_quarantine_state (iw_files t) = deltas"
    using assms(1) by (auto simp: reclassify_standard_to_integration_stabilization_def apply_reclassification_def
        io_app io_run update_is_files_def Let_def quarantine_written split: if_splits)
  then show ?thesis using assms(2-4) by (auto simp: declared_surfaces_passed)
qed

text \<open>A manifest within absolute worktree roots declares no relative path.\<close>

lemma bound_seams_declare_no_relative_path:
  assumes "fst (check_manifest_repo_set m roots)" and "\<forall>r \<in> set roots. 0 < initial_slashes r"
    and "initial_slashes p = 0"
  shows "\<not> surface_declared m p"
proof
  assume "surface_declared m p"
  then obtain d where d: "d \<in> set (declared_paths m)" "covers (norm_parts d) (norm_parts p)"
    by (auto simp: surface_declared_def list_ex_iff)
  then obtain r where "r \<in> set roots" "covers (norm_parts r) (norm_parts d)"
    using assms(1) by (auto simp: check_manifest_repo_set_def Let_def filter_empty_conv list_ex_iff
        within_dir_iff_covers declared_paths_def)
  then show False using d(2) assms(2,3) by (auto simp: covers_def norm_parts_def)
qed

section \<open>Concrete campaigns\<close>

definition demo_caps :: budget_caps where
  "demo_caps = \<lparr>bc_max_loops = 3, bc_max_new_surfaces = 5, bc_max_contract_changes = 2, bc_max_regressions_per_cycle = 1\<rparr>"

definition demo_manifest_data :: "budget_caps \<Rightarrow> manifest_data" where
  "demo_manifest_data caps = \<lparr>md_version = 1, md_project_key = ''p'', md_story_id = ''S-1'',
     md_implementation_contract = ''integration_stabilization'', md_target_seams = [''/w/seam''],
     md_allowed_repos_paths = [''/w/lib''], md_integration_targets = [''t1''], md_allowed_contract_changes = [],
     md_stabilization_budget = caps, md_out_of_contract_examples = []\<rparr>"

definition demo_scope_manifest :: "budget_caps \<Rightarrow> scope_manifest" where
  "demo_scope_manifest caps = the (build_manifest json_dumps (demo_manifest_data caps))"

definition demo_approval :: manifest_approval_record where
  "demo_approval = \<lparr>ma_project_key = ''p'', ma_story_id = ''S-1'', ma_run_id = ''r1'', ma_manifest_version = 1,
     ma_manifest_hash = json_dumps (declarative_payload (demo_manifest_data demo_caps)), ma_approved_by = ''human_cli''\<rparr>"

definition demo_is_files :: "budget_caps \<Rightarrow> is_files" where
  "demo_is_files caps = \<lparr>if_manifest = Doc (demo_manifest_data caps), if_approval = Doc demo_approval,
     if_quarantine = Doc_absent, if_budget = Doc_absent, if_targets = Doc (JList [JStr ''t1'']), if_gate = Doc_absent\<rparr>"

lemma collision_free_dumps: "collision_free json_dumps"
  by (metis collision_free_def json_text_roundtrip option.inject)

lemma demo_build: "caps_valid caps \<Longrightarrow> build_manifest json_dumps (demo_manifest_data caps) = Some (demo_scope_manifest caps)"
  by (simp add: demo_scope_manifest_def build_manifest_def manifest_data_valid_def demo_manifest_data_def)

lemma demo_caps_valid: "caps_valid demo_caps"
  by (simp add: caps_valid_def demo_caps_def)

lemmas demo_built = demo_build [OF demo_caps_valid]

lemma demo_scope_manifest_sel:
  "im_version (demo_scope_manifest demo_caps) = 1" "im_project_key (demo_scope_manifest demo_caps) = ''p''"
  "im_story_id (demo_scope_manifest demo_caps) = ''S-1''" "im_target_seams (demo_scope_manifest demo_caps) = [''/w/seam'']"
  "im_allowed_repos_paths (demo_scope_manifest demo_caps) = [''/w/lib'']"
  "im_integration_targets (demo_scope_manifest demo_caps) = [''t1'']"
  "im_content_hash (demo_scope_manifest demo_caps) = ma_manifest_hash demo_approval"
  "im_stabilization_budget (demo_scope_manifest demo_caps) = demo_caps"
  by (simp_all add: demo_scope_manifest_def build_manifest_def manifest_data_valid_def demo_caps_valid demo_manifest_data_def
      demo_approval_def)

lemma demo_scope_manifest_budget: "caps_valid caps \<Longrightarrow> im_stabilization_budget (demo_scope_manifest caps) = caps"
  by (simp add: demo_scope_manifest_def build_manifest_def manifest_data_valid_def demo_manifest_data_def)

lemma demo_approval_valid: "approval_valid demo_approval"
proof -
  have "ma_manifest_hash demo_approval \<noteq> []"
    by (simp add: demo_approval_def declarative_payload_def)
  then show ?thesis by (simp add: approval_valid_def) (simp add: demo_approval_def)
qed

lemma demo_binds: "approval_binds (Some demo_approval) (demo_scope_manifest demo_caps) ''r1''"
  by (simp add: approval_binds_def binds_manifest_def manifest_identity_def integration_scope_manifest.truncate_def
      demo_scope_manifest_sel) (simp add: demo_approval_def)

lemma demo_covers:
  "covers (norm_parts ''/w/seam'') (norm_parts ''/w/seam/a.py'')"
  "covers (norm_parts ''/w/lib'') (norm_parts ''/w/x/../lib/b.py'')"
  "\<not> covers (norm_parts ''/w/seam'') (norm_parts ''/w/seam/../c.py'')"
  "\<not> covers (norm_parts ''/w/lib'') (norm_parts ''/w/seam/../c.py'')"
  "covers (norm_parts ''/w'') (norm_parts ''/w/seam'')" "covers (norm_parts ''/w'') (norm_parts ''/w/lib'')"
  by code_simp+

definition demo_budget :: stabilization_budget where
  "demo_budget = \<lparr>sb_caps = demo_caps, sb_loops_used = 2, sb_new_surfaces_used = 0, sb_contract_changes_used = 1,
     sb_regressions_this_cycle = 0\<rparr>"

lemma stability_gate_exact_witness:
  "sg_passed (check_stability_gate [''/w/seam/a.py'', ''/w/x/../lib/b.py''] (demo_scope_manifest demo_caps) demo_budget
     [''t1''] (Some demo_approval) ''r1'' (Some (materialize_seam_allowlist (demo_scope_manifest demo_caps))))
   \<and> \<not> sg_passed (check_stability_gate [''/w/seam/../c.py''] (demo_scope_manifest demo_caps) demo_budget
     [''t1''] (Some demo_approval) ''r1'' (Some (materialize_seam_allowlist (demo_scope_manifest demo_caps))))"
  by (simp add: stability_gate_exact demo_scope_manifest_sel demo_covers)
    (simp add: demo_approval_def demo_budget_def demo_caps_def)

lemma writes_stay_in_the_approved_seams_witness:
  "\<forall>w. \<exists>g v t u t'. maybe_seam_guard json_dumps (\<lambda>_ xs. Inr (Some (map normpath xs))) (demo_is_files demo_caps) ''r1'' [''/w''] = Some g
     \<and> guard_evaluate g True ''file_write'' ''/w/seam/a.py'' w = (Inr v, t) \<and> gv_allowed v
     \<and> guard_evaluate g True ''file_write'' ''/w/seam/../c.py'' w = (Inr u, t') \<and> \<not> gv_allowed u"
proof
  fix w
  let ?wr = "\<lambda>_ xs. Inr (Some (map normpath xs)) :: exn + string list option"
  have wr: "reads_what_was_written ?wr" by (simp add: reads_what_was_written_def)
  have files: "if_manifest (demo_is_files demo_caps) \<noteq> Doc_absent" by (simp add: demo_is_files_def)
  have stored: "stored_manifest json_dumps (demo_is_files demo_caps) = Some (demo_scope_manifest demo_caps)"
    "stored_approval (demo_is_files demo_caps) = Some demo_approval"
    using demo_built demo_approval_valid by (simp_all add: stored_manifest_def stored_approval_def demo_is_files_def)
  note rule = writes_stay_in_the_approved_seams [OF wr files, where op = "''file_write''" and digest = json_dumps
      and run_id = "''r1''" and roots = "[''/w'']" and emitting = True and w = w]
  show "\<exists>g v t u t'. maybe_seam_guard json_dumps (\<lambda>_ xs. Inr (Some (map normpath xs))) (demo_is_files demo_caps) ''r1'' [''/w''] = Some g
     \<and> guard_evaluate g True ''file_write'' ''/w/seam/a.py'' w = (Inr v, t) \<and> gv_allowed v
     \<and> guard_evaluate g True ''file_write'' ''/w/seam/../c.py'' w = (Inr u, t') \<and> \<not> gv_allowed u"
    using rule [where path = "''/w/seam/a.py''"] rule [where path = "''/w/seam/../c.py''"] demo_binds
    by (auto simp: stored demo_scope_manifest_sel demo_covers)
qed

lemma approval_is_durable_and_tamper_evident_witness:
  "\<forall>w. \<exists>t. approve_manifest (demo_scope_manifest demo_caps) demo_approval [''/w''] ''r1'' True w = (Inr (), t)
     \<and> approved_manifest json_dumps (iw_files t) ''r1'' = Inr (demo_scope_manifest demo_caps)"
proof
  fix w
  have bounds: "fst (check_manifest_repo_set (demo_scope_manifest demo_caps) [''/w''])"
    by (simp add: check_manifest_repo_set_def Let_def within_dir_iff_covers demo_scope_manifest_sel demo_covers)
  have "ck_ok (check_binding_integrity (manifest_identity (demo_scope_manifest demo_caps)) demo_approval ''r1'')"
    using demo_binds by (simp add: binding_integrity_ok approval_binds_def)
  then obtain t where run: "approve_manifest (demo_scope_manifest demo_caps) demo_approval [''/w''] ''r1'' True w = (Inr (), t)"
    using bounds by (simp add: approve_manifest_def io_app enforce_repo_set_run io_run save_integration_manifest_def
        save_manifest_approval_def update_is_files_def emit_is_event_def)
  then show "\<exists>t. approve_manifest (demo_scope_manifest demo_caps) demo_approval [''/w''] ''r1'' True w = (Inr (), t)
     \<and> approved_manifest json_dumps (iw_files t) ''r1'' = Inr (demo_scope_manifest demo_caps)"
    using approval_is_durable_and_tamper_evident [OF collision_free_dumps demo_built demo_approval_valid run] by blast
qed

definition demo_is_ctx :: "story_context \<Rightarrow> story_context" where
  "demo_is_ctx ctx = ctx\<lparr>sc_implementation_contract := Some Contract_INTEGRATION_STABILIZATION\<rparr>"

lemma closure_acts_on_the_gate_witness:
  "\<exists>lr t. produce_stability_gate_layer_result json_dumps ''r1'' [''/w/seam/a.py''] True ''S-1'' ''p''
       \<lparr>iw_files = demo_is_files demo_caps, iw_events = []\<rparr> = (Inr lr, t)
     \<and> check_is_closure_precondition json_dumps (demo_is_ctx sample_context) (iw_files t) = None"
proof -
  let ?w = "\<lparr>iw_files = demo_is_files demo_caps, iw_events = []\<rparr>"
  have stored: "stored_manifest json_dumps (demo_is_files demo_caps) = Some (demo_scope_manifest demo_caps)"
    "stored_approval (demo_is_files demo_caps) = Some demo_approval"
    using demo_built demo_approval_valid by (simp_all add: stored_manifest_def stored_approval_def demo_is_files_def)
  obtain budget where budget: "load_budget demo_caps (demo_is_files demo_caps) = Inr budget" "\<not> any_cap_exhausted budget"
    by (auto simp: load_budget_def demo_is_files_def budget_of_counters_def counter_of_def any_cap_exhausted_def demo_caps_def
        loops_exhausted_def surfaces_exhausted_def contract_changes_exhausted_def regressions_exhausted_def)
  have gate: "sg_passed (check_stability_gate [''/w/seam/a.py''] (demo_scope_manifest demo_caps) budget
      (load_achieved_targets (demo_is_files demo_caps)) (Some demo_approval) ''r1''
      (Some (materialize_seam_allowlist (demo_scope_manifest demo_caps))))"
    using budget(2) demo_binds
    by (simp add: gate_passed_parts surface_declared_def declared_paths_def demo_scope_manifest_sel demo_covers
        load_achieved_targets_def demo_is_files_def)
  then obtain lr t where run: "produce_stability_gate_layer_result json_dumps ''r1'' [''/w/seam/a.py''] True ''S-1'' ''p'' ?w
      = (Inr lr, t)" "lr_passed lr"
    using budget(1) stored by (simp add: produce_stability_gate_layer_result_def io_app io_run demo_scope_manifest_sel Let_def
        persist_gate_result_def update_is_files_def emit_is_event_def gate_layer_result_def)
  then show ?thesis
    using closure_acts_on_the_gate [OF run(1), of "demo_is_ctx sample_context"] by (auto simp: demo_is_ctx_def)
qed

lemma zero_cap_is_never_workable_witness:
  "\<exists>v t. guard_evaluate (Budget_guard (demo_scope_manifest (demo_caps\<lparr>bc_max_new_surfaces := 0\<rparr>))) False ''file_write'' ''/w/seam/a.py''
       \<lparr>iw_files = demo_is_files (demo_caps\<lparr>bc_max_new_surfaces := 0\<rparr>), iw_events = []\<rparr> = (Inr v, t)
     \<and> \<not> gv_allowed v"
proof -
  let ?caps = "demo_caps\<lparr>bc_max_new_surfaces := 0\<rparr>"
  let ?m = "demo_scope_manifest ?caps" and ?w = "\<lparr>iw_files = demo_is_files ?caps, iw_events = []\<rparr>"
  have valid: "caps_valid ?caps" by (simp add: caps_valid_def demo_caps_def)
  note built = demo_build [OF valid]
  have stored: "stored_manifest json_dumps (iw_files ?w) = Some ?m"
    using built by (simp add: stored_manifest_def demo_is_files_def)
  have caps: "im_stabilization_budget ?m = ?caps"
    by (rule demo_scope_manifest_budget [OF valid])
  have zero: "has_zero_cap (im_stabilization_budget ?m)"
    by (simp add: caps has_zero_cap_def)
  obtain b where b: "guard_load_budget ?caps (demo_is_files ?caps) = Inr (Some b)"
    by (simp add: guard_load_budget_def demo_is_files_def budget_of_counters_def counter_of_def)
  obtain v t where run: "guard_evaluate (Budget_guard ?m) False ''file_write'' ''/w/seam/a.py'' ?w = (Inr v, t)"
    using b caps by (cases "any_cap_exhausted b")
      (auto simp: budget_guard_evaluate_def io_app io_run mutating_operations_def emit_is_event_def)
  have "''file_write'' \<in> set mutating_operations" by (simp add: mutating_operations_def)
  from zero_cap_is_never_workable [OF stored zero this] run have "\<not> gv_allowed v" by blast
  then show ?thesis using run by blast
qed

end
