(* ===== verification/Review_Bundle.thy ===== *)
theory Review_Bundle
  imports Json_Text Py_Text Qa_Types
begin

text \<open>
  The input of the layer-2 reviewers (\<open>verify_system/llm_evaluator/\<close>: \<open>inputs.py\<close>, \<open>packing.py\<close>,
  \<open>bundle.py\<close>): the four texts of a review, the section-aware packing that bounds each text, and
  the bundle with its JSON form for the prompt. Lengths count characters.
\<close>

section \<open>Packing\<close>

definition BUNDLE_TOKEN_LIMIT :: int where
  "BUNDLE_TOKEN_LIMIT = 32000"

definition TRUNCATION_MARKER :: string where
  "TRUNCATION_MARKER = ''[...PACKED by section-aware bundle packing (FK-37 '' @ section_sign @ ''37.3)...]''"

datatype packing_kind = Packing_MARKDOWN | Packing_CODE

record packing_result =
  pk_content :: string
  pk_truncated :: bool
  pk_original_chars :: nat
  pk_packed_chars :: nat
  pk_kind :: packing_kind
  pk_protocol :: "string list"

subsection \<open>Sections and blocks\<close>

definition section_title :: "string \<Rightarrow> string" where
  "section_title section =
    (let first = (if py_strip section = [] then ''preamble'' else py_strip (hd (splitlines section)));
         title = py_strip (dropWhile (\<lambda>c. c = CHR ''#'') first) in
     if title = [] then ''preamble'' else title)"

text \<open>\<open>content.find("\n", pos)\<close> and the end of the text where there is none\<close>

definition line_end :: "string \<Rightarrow> nat \<Rightarrow> nat" where
  "line_end content pos = pos + length (takeWhile (\<lambda>c. c \<noteq> CHR 0x0A) (drop pos content))"

text \<open>
  One to six number signs, at least one space, and a line that has text after some of the spaces;
  the last place that has is taken.
\<close>

definition heading_body :: "string \<Rightarrow> nat \<Rightarrow> nat \<Rightarrow> nat option" where
  "heading_body content w spaces =
     List.find (\<lambda>b. b < line_end content b) (rev [Suc w ..< Suc (w + spaces)])"

definition match_heading :: "string \<Rightarrow> nat \<Rightarrow> (nat \<times> nat) option" where
  "match_heading content start =
    (let hashes = length (takeWhile (\<lambda>c. c = CHR ''#'') (take 6 (drop start content)));
         w = start + hashes;
         spaces = length (takeWhile is_space (drop w content)) in
     if hashes = 0 \<or> length content \<le> w \<or> content ! w = CHR ''#'' \<or> spaces = 0 then None
     else map_option (\<lambda>b. (start, line_end content b)) (heading_body content w spaces))"

lemma heading_body_Some: "heading_body content w k = Some b \<Longrightarrow> w < b \<and> b < line_end content b"
  unfolding heading_body_def by (drule find_SomeD) (simp del: upt_Suc)

lemma match_heading_end: "match_heading content start = Some (a, e) \<Longrightarrow> start < e \<and> e \<le> length content"
proof -
  assume "match_heading content start = Some (a, e)"
  then obtain w k b where b: "heading_body content w k = Some b" "start \<le> w" "e = line_end content b"
    by (auto simp: match_heading_def Let_def split: if_splits)
  have "line_end content b \<le> length content \<or> length content < b"
    using length_takeWhile_le [of "\<lambda>c. c \<noteq> CHR 0x0A" "drop b content"] by (auto simp: line_end_def)
  then show ?thesis using b heading_body_Some [OF b(1)] by (auto simp: line_end_def)
qed

text \<open>The loop over line starts: the position after the next line feed at or after \<open>pos\<close>, if any.\<close>

definition next_line :: "string \<Rightarrow> nat \<Rightarrow> nat option" where
  "next_line content pos =
    (if line_end content pos < length content then Some (Suc (line_end content pos)) else None)"

function heading_spans :: "string \<Rightarrow> nat \<Rightarrow> (nat \<times> nat) list" where
  "heading_spans content pos =
    (if length content \<le> pos then []
     else (case (if 0 < pos \<and> content ! (pos - 1) \<noteq> CHR 0x0A then next_line content pos else Some pos) of
         None \<Rightarrow> []
       | Some p \<Rightarrow> (case match_heading content p of
             Some span \<Rightarrow> span # heading_spans content (snd span)
           | None \<Rightarrow> (case next_line content p of
                 None \<Rightarrow> []
               | Some q \<Rightarrow> heading_spans content q))))"
  by pat_completeness auto

lemma next_line_greater: "next_line content pos = Some q \<Longrightarrow> pos < q"
  by (auto simp: next_line_def line_end_def split: if_splits)

termination heading_spans
  by (relation "measure (\<lambda>(content, pos). Suc (length content) - pos)")
    (auto split: if_splits dest!: next_line_greater match_heading_end)

definition markdown_heading_spans :: "string \<Rightarrow> (nat \<times> nat) list" where
  "markdown_heading_spans content = heading_spans content 0"

text \<open>\<open>content[a:b]\<close>\<close>

definition slice :: "nat \<Rightarrow> nat \<Rightarrow> string \<Rightarrow> string" where
  "slice a b s = take (b - a) (drop a s)"

fun sections_from :: "string \<Rightarrow> nat list \<Rightarrow> string list" where
  "sections_from content [] = []"
| "sections_from content [a] = [py_strip (drop a content)]"
| "sections_from content (a # b # rest) = py_strip (slice a b content) # sections_from content (b # rest)"

definition split_markdown_sections :: "string \<Rightarrow> string list" where
  "split_markdown_sections content =
    (let starts = map fst (markdown_heading_spans content) in
     if starts = [] then [content]
     else filter (\<lambda>s. s \<noteq> [])
       ((if 0 < hd starts then [py_strip (take (hd starts) content)] else []) @ sections_from content starts))"

text \<open>\<open>re.split\<close> at a line feed before one of the four openings.\<close>

definition block_openings :: "string list" where
  "block_openings = [''diff --git '', ''@@ '', ''class '', ''def '']"

fun split_blocks :: "string \<Rightarrow> string \<Rightarrow> string list" where
  "split_blocks acc [] = [rev acc]"
| "split_blocks acc (c # cs) =
    (if c = CHR 0x0A \<and> list_ex (\<lambda>p. starts_with p cs) block_openings
     then rev acc # split_blocks [] cs else split_blocks (c # acc) cs)"

definition split_code_blocks :: "string \<Rightarrow> string list" where
  "split_code_blocks content = filter (\<lambda>b. b \<noteq> []) (map py_strip (split_blocks [] content))"

fun heading_rank :: "nat \<Rightarrow> string \<Rightarrow> string list \<Rightarrow> nat option" where
  "heading_rank i title [] = None"
| "heading_rank i title (h # hs) = (if contains (py_lower h) title then Some i else heading_rank (Suc i) title hs)"

definition section_priority :: "string list \<Rightarrow> string \<Rightarrow> nat" where
  "section_priority headings section =
    (case heading_rank 0 (py_lower (section_title section)) headings of
       Some i \<Rightarrow> i | None \<Rightarrow> length headings + 1)"

definition block_priority :: "string list \<Rightarrow> string \<Rightarrow> nat" where
  "block_priority symbols block =
    (if list_ex (\<lambda>s. s \<noteq> [] \<and> contains s block) symbols then 0
     else if starts_with ''diff --git'' block \<or> starts_with ''@@'' block then 1 else 2)"

subsection \<open>The choice of parts\<close>

text \<open>
  The ranked parts are taken greedily: a part that costs more than the whole budget or than what is
  left of it is omitted, which the protocol says. The result: the indexes kept, and the protocol.
\<close>

fun choose_parts :: "int \<Rightarrow> (nat \<Rightarrow> string \<Rightarrow> bool \<Rightarrow> string) \<Rightarrow> int \<Rightarrow> (nat \<times> string) list \<Rightarrow> nat list \<times> string list" where
  "choose_parts budget remark used [] = ([], [])"
| "choose_parts budget remark used ((i, part) # rest) =
    (let cost = int (py_len part) + 2 in
     if budget < cost then apsnd (Cons (remark i part True)) (choose_parts budget remark used rest)
     else if used + cost \<le> budget then apfst (Cons i) (choose_parts budget remark (used + cost) rest)
     else apsnd (Cons (remark i part False)) (choose_parts budget remark used rest))"

text \<open>The over-long body keeps whole paragraphs from the front, then a marker.\<close>

fun cap_loop :: "nat \<Rightarrow> nat \<Rightarrow> string list \<Rightarrow> string list \<Rightarrow> string list" where
  "cap_loop budget used kept [] = rev kept"
| "cap_loop budget used kept (s # ss) =
    (let cost = py_len s + (if kept \<noteq> [] then 2 else 0) in
     if budget < used + cost then rev kept
     else cap_loop budget (used + cost) (s # kept) ss)"

definition section_aware_cap :: "string \<Rightarrow> nat \<Rightarrow> string" where
  "section_aware_cap content limit =
    (let marker = CHR 0x0A # TRUNCATION_MARKER in
     if limit \<le> py_len marker then py_take limit marker
     else let body = py_rstrip (join blank_line
                (cap_loop (limit - py_len marker) 0 [] (split_blank_lines [] content))) in
       if body \<noteq> [] then body @ marker else TRUNCATION_MARKER)"

definition validate_limit :: "int \<Rightarrow> exn + unit" where
  "validate_limit limit = (if limit \<le> 0 then Inl (ValueError ''bundle packing limit must be > 0'') else Inr ())"

text \<open>The steps the two packers share, after the split into parts.\<close>

definition unpacked :: "packing_kind \<Rightarrow> string \<Rightarrow> packing_result" where
  "unpacked kind content = \<lparr>pk_content = content, pk_truncated = False, pk_original_chars = py_len content,
     pk_packed_chars = py_len content, pk_kind = kind, pk_protocol = []\<rparr>"

definition ranked :: "(string \<Rightarrow> nat) \<Rightarrow> string list \<Rightarrow> (nat \<times> string) list" where
  "ranked priority parts = sort_key (\<lambda>(i, s). (priority s, i)) (enumerate 0 parts)"

definition packing_budget :: "int \<Rightarrow> int" where
  "packing_budget limit = limit - int (py_len TRUNCATION_MARKER) - 2"

definition packed_parts :: "nat list \<Rightarrow> (nat \<Rightarrow> string \<Rightarrow> string) \<Rightarrow> string list \<Rightarrow> string list" where
  "packed_parts kept placeholder parts =
     map (\<lambda>(i, s). if i \<in> set kept then s else placeholder i s) (enumerate 0 parts)"

definition cap_packed :: "packing_kind \<Rightarrow> int \<Rightarrow> string \<Rightarrow> string \<Rightarrow> string list \<Rightarrow> string \<Rightarrow> packing_result" where
  "cap_packed kind limit content packed protocol remark =
    (let over = limit < int (py_len packed);
         body = (if over then section_aware_cap packed (nat limit) else packed) in
     \<lparr>pk_content = body, pk_truncated = True, pk_original_chars = py_len content,
      pk_packed_chars = py_len body, pk_kind = kind,
      pk_protocol = protocol @ (if over then [remark] else [])\<rparr>)"

subsection \<open>Markdown\<close>

definition section_note :: "nat \<Rightarrow> string \<Rightarrow> bool \<Rightarrow> string" where
  "section_note i section oversized = ''omitted section '' @ py_repr (section_title section) @ '': ''
     @ show_nat (py_len section) @ '' chars''"

definition section_placeholder :: "nat \<Rightarrow> string \<Rightarrow> string" where
  "section_placeholder i section = ''[Section '' @ [dquote] @ section_title section @ [dquote]
     @ '' omitted - '' @ show_nat (py_len section) @ '' chars]''"

definition markdown_cap_note :: string where
  "markdown_cap_note = ''section placeholders exceeded limit; dropped trailing whole sections (section-aware, no mid-content cut)''"

definition pack_markdown :: "string \<Rightarrow> int \<Rightarrow> string list \<Rightarrow> exn + packing_result" where
  "pack_markdown content limit priority_headings = (case validate_limit limit of
      Inl e \<Rightarrow> Inl e
    | Inr _ \<Rightarrow>
        if int (py_len content) \<le> limit then Inr (unpacked Packing_MARKDOWN content)
        else let sections = split_markdown_sections content;
                 (kept, protocol) = choose_parts (packing_budget limit) section_note 0
                    (ranked (section_priority priority_headings) sections) in
          Inr (cap_packed Packing_MARKDOWN limit content
                (join blank_line (packed_parts kept section_placeholder sections)) protocol markdown_cap_note))"

subsection \<open>Code\<close>

definition block_note :: "nat \<Rightarrow> string \<Rightarrow> bool \<Rightarrow> string" where
  "block_note i block oversized = (if oversized then ''omitted oversized code block '' else ''omitted code block '')
     @ show_nat i @ '': '' @ show_nat (py_len block) @ '' chars''"

definition block_placeholder :: "nat \<Rightarrow> string \<Rightarrow> string" where
  "block_placeholder i block = ''[Code block '' @ show_nat i @ '' omitted - '' @ show_nat (py_len block) @ '' chars]''"

definition code_cap_note :: string where
  "code_cap_note = ''code placeholders exceeded limit; dropped trailing whole blocks (section-aware, no mid-content cut)''"

definition pack_code :: "string \<Rightarrow> string list \<Rightarrow> int \<Rightarrow> exn + packing_result" where
  "pack_code content changed_symbols limit = (case validate_limit limit of
      Inl e \<Rightarrow> Inl e
    | Inr _ \<Rightarrow>
        if int (py_len content) \<le> limit then Inr (unpacked Packing_CODE content)
        else let blocks = split_code_blocks content;
                 (kept, protocol) = choose_parts (packing_budget limit) block_note 0
                    (ranked (block_priority changed_symbols) blocks) in
          Inr (cap_packed Packing_CODE limit content
                (py_rstrip (join blank_line (packed_parts kept block_placeholder blocks))) protocol code_cap_note))"

definition truncate_bundle :: "string \<Rightarrow> int \<Rightarrow> string list option \<Rightarrow> exn + packing_result" where
  "truncate_bundle content limit priority_headings = (case validate_limit limit of
      Inl e \<Rightarrow> Inl e
    | Inr _ \<Rightarrow> pack_markdown content limit (case priority_headings of None \<Rightarrow> [] | Some hs \<Rightarrow> hs))"

section \<open>The bundle\<close>

record layer2_review_input =
  li_story_spec :: string
  li_diff_summary :: string
  li_concept_excerpt :: string
  li_handover :: string

definition empty_review_input :: layer2_review_input where
  "empty_review_input = \<lparr>li_story_spec = [], li_diff_summary = [], li_concept_excerpt = [], li_handover = []\<rparr>"

record review_bundle =
  rb_story_id :: string
  rb_story_brief_excerpt :: string
  rb_acceptance_criteria :: "string list"
  rb_diff_summary :: string
  rb_diff_content :: string
  rb_concept_excerpt :: string
  rb_concept_refs :: "string list"
  rb_arch_references :: string
  rb_evidence_manifest :: "json option"
  rb_packing_protocol :: "(string \<times> string list) list"
  rb_previous_findings :: "finding list option"
  rb_qa_cycle_round :: int

definition previous_finding_json :: "finding \<Rightarrow> json" where
  "previous_finding_json f = JObj [(''layer'', JStr (fd_layer f)), (''check'', JStr (fd_check f)),
     (''severity'', JStr (severity_value (fd_severity f))), (''message'', JStr (fd_message f))]"

definition bundle_payload :: "review_bundle \<Rightarrow> (string \<times> json) list" where
  "bundle_payload b = [(''story_id'', JStr (rb_story_id b)),
     (''story_brief_excerpt'', JStr (rb_story_brief_excerpt b)),
     (''acceptance_criteria'', JList (map JStr (rb_acceptance_criteria b))),
     (''diff_summary'', JStr (rb_diff_summary b)), (''diff_content'', JStr (rb_diff_content b)),
     (''concept_excerpt'', JStr (rb_concept_excerpt b)),
     (''concept_refs'', JList (map JStr (rb_concept_refs b))),
     (''arch_references'', JStr (rb_arch_references b)),
     (''evidence_manifest'', case rb_evidence_manifest b of None \<Rightarrow> JNull | Some m \<Rightarrow> m),
     (''packing_protocol'', JObj (map (\<lambda>(k, ls). (k, JList (map JStr ls))) (rb_packing_protocol b))),
     (''previous_findings'', case rb_previous_findings b of
        None \<Rightarrow> JNull | Some fs \<Rightarrow> JList (map previous_finding_json fs)),
     (''qa_cycle_round'', JInt (rb_qa_cycle_round b))]"

definition to_prompt_json :: "review_bundle \<Rightarrow> string" where
  "to_prompt_json b = json_dumps (JObj (bundle_payload b))"

fun priorities_for :: "string \<Rightarrow> string list" where
  "priorities_for f =
    (if f = ''story_spec'' then [''Acceptance'', ''Akzeptanz'', ''Scope'', ''Context'']
     else if f = ''concept_excerpt'' then [''Invariant'', ''Guardrail'', ''Scope'', ''Design'']
     else if f = ''arch_references'' then [''Guardrail'', ''Architecture'', ''Bounded Context'']
     else [])"

text \<open>The symbol named by a line of a diff: a definition, or the tail of a hunk header.\<close>

definition line_symbol :: "string \<Rightarrow> string option" where
  "line_symbol line = (let s = py_strip line in
     if starts_with ''def '' s \<or> starts_with ''class '' s
     then Some (takeWhile (\<lambda>c. c \<noteq> CHR '':'') (takeWhile (\<lambda>c. c \<noteq> CHR ''('') s))
     else if starts_with ''@@'' s \<and> contains ''@@'' (drop 2 s)
     then (let tail = py_strip (drop (the (py_rfind ''@@'' s) + 2) s) in if tail = [] then None else Some tail)
     else None)"

definition extract_symbols :: "string \<Rightarrow> string list" where
  "extract_symbols s = List.map_filter line_symbol (splitlines s)"

definition pack_field :: "string \<Rightarrow> string \<Rightarrow> int \<Rightarrow> exn + packing_result" where
  "pack_field name text limit =
    (if name \<in> {''story_spec'', ''concept_excerpt'', ''arch_references''}
     then pack_markdown text limit (priorities_for name)
     else if name = ''diff_summary'' then pack_code text (extract_symbols text) limit
     else pack_markdown text limit [])"

definition field_protocol :: "string \<Rightarrow> packing_result \<Rightarrow> (string \<times> string list) list" where
  "field_protocol name r =
    (if pk_truncated r
     then [(name, if pk_protocol r \<noteq> [] then pk_protocol r
                  else [name @ '': packed from '' @ show_nat (pk_original_chars r) @ '' to ''
                        @ show_nat (pk_packed_chars r) @ '' chars''])]
     else [])"

fun pack_fields :: "int \<Rightarrow> (string \<times> string) list \<Rightarrow> exn + ((string \<times> string) list \<times> (string \<times> string list) list)" where
  "pack_fields limit [] = Inr ([], [])"
| "pack_fields limit ((name, text) # rest) = (case pack_field name text limit of
      Inl e \<Rightarrow> Inl e
    | Inr r \<Rightarrow> (case pack_fields limit rest of
        Inl e \<Rightarrow> Inl e
      | Inr (packed, protocol) \<Rightarrow> Inr ((name, pk_content r) # packed, field_protocol name r @ protocol)))"

definition pack_and_convert ::
  "layer2_review_input \<Rightarrow> string \<Rightarrow> int \<Rightarrow> exn + ((string \<times> string) list \<times> (string \<times> string list) list)" where
  "pack_and_convert i arch_references limit = pack_fields limit
     [(''story_spec'', li_story_spec i), (''diff_summary'', li_diff_summary i),
      (''concept_excerpt'', li_concept_excerpt i), (''handover'', li_handover i),
      (''arch_references'', arch_references)]"

definition packed_field :: "(string \<times> string) list \<Rightarrow> string \<Rightarrow> string" where
  "packed_field packed name = the (map_of packed name)"

text \<open>The callers pass neither acceptance criteria nor concept references.\<close>

definition build_review_bundle ::
  "layer2_review_input \<Rightarrow> string \<Rightarrow> int \<Rightarrow> string \<Rightarrow> json option \<Rightarrow> int \<Rightarrow> finding list option
     \<Rightarrow> exn + review_bundle" where
  "build_review_bundle i story_id qa_round arch_references evidence_manifest limit previous_findings =
    (if qa_round < 1
     then Inl (ValueError (''qa_cycle_round must be >= 1 (FK-27 '' @ section_sign
            @ ''27.2.1, 1-based); got '' @ show_int qa_round))
     else (case pack_and_convert i arch_references limit of
         Inl e \<Rightarrow> Inl e
       | Inr (packed, protocol) \<Rightarrow> Inr \<lparr>
           rb_story_id = story_id,
           rb_story_brief_excerpt = packed_field packed ''story_spec'',
           rb_acceptance_criteria = [],
           rb_diff_summary = packed_field packed ''diff_summary'',
           rb_diff_content = packed_field packed ''handover'',
           rb_concept_excerpt = packed_field packed ''concept_excerpt'',
           rb_concept_refs = (if li_concept_excerpt i \<noteq> [] then [li_concept_excerpt i] else []),
           rb_arch_references = packed_field packed ''arch_references'',
           rb_evidence_manifest = evidence_manifest,
           rb_packing_protocol = protocol,
           rb_previous_findings = previous_findings,
           rb_qa_cycle_round = qa_round\<rparr>))"

section \<open>What packing keeps\<close>

definition part_cost :: "string \<Rightarrow> int" where
  "part_cost s = int (py_len s) + 2"

lemma choose_parts_subset:
  "choose_parts budget remark used parts = (kept, protocol) \<Longrightarrow> set kept \<subseteq> fst ` set parts"
  by (induction budget remark used parts arbitrary: kept protocol rule: choose_parts.induct)
    (fastforce simp: Let_def apfst_def apsnd_def map_prod_def split: if_splits prod.splits)+

text \<open>A part is kept when it fits beside the kept parts before it, and only then.\<close>

lemma choose_parts_greedy:
  assumes "choose_parts budget remark used (xs @ y # ys) = (kept, protocol)"
    and "distinct (map fst (xs @ y # ys))" and "0 \<le> used"
  shows "fst y \<in> set kept \<longleftrightarrow>
    used + part_cost (snd y) + (\<Sum>x \<leftarrow> filter (\<lambda>x. fst x \<in> set kept) xs. part_cost (snd x)) \<le> budget"
  using assms
proof (induction xs arbitrary: used kept protocol)
  case Nil
  obtain i part where y: "y = (i, part)" by (cases y)
  show ?case
    using Nil y choose_parts_subset [of budget remark _ ys]
    by (fastforce simp: Let_def part_cost_def apfst_def apsnd_def map_prod_def split: if_splits prod.splits)
next
  case (Cons x xs)
  obtain i part where x: "x = (i, part)" by (cases x)
  let ?cost = "part_cost part" and ?rest = "xs @ y # ys"
  have i: "i \<notin> fst ` set ?rest" "distinct (map fst ?rest)" using Cons.prems(2) x by auto
  have y: "fst y \<noteq> i" using i by auto
  have same: "filter (\<lambda>z. fst z \<in> set (i # ks)) xs = filter (\<lambda>z. fst z \<in> set ks) xs" for ks
    using i(1) by (intro filter_cong) (auto simp: image_iff)
  show ?case
  proof (cases "used + ?cost \<le> budget \<and> ?cost \<le> budget")
    case True
    obtain ks where ks: "kept = i # ks" "choose_parts budget remark (used + ?cost) ?rest = (ks, protocol)"
      using Cons.prems(1) x True
      by (auto simp: Let_def part_cost_def apfst_def map_prod_def split: if_splits prod.splits)
    have "fst y \<in> set ks \<longleftrightarrow> used + ?cost + part_cost (snd y)
        + (\<Sum>z \<leftarrow> filter (\<lambda>z. fst z \<in> set ks) xs. part_cost (snd z)) \<le> budget"
      using Cons.IH [OF ks(2) i(2)] Cons.prems(3) by (simp add: part_cost_def)
    then show ?thesis using ks(1) x y same [of ks] by (simp add: ac_simps)
  next
    case False
    then obtain ps where ks: "choose_parts budget remark used ?rest = (kept, ps)"
      using Cons.prems(1,3) x
      by (auto simp: Let_def part_cost_def apsnd_def map_prod_def split: if_splits prod.splits)
    then have "i \<notin> set kept" using choose_parts_subset [OF ks] i(1) by auto
    then show ?thesis using Cons.IH [OF ks i(2) Cons.prems(3)] x by simp
  qed
qed

text \<open>In terms of the parts themselves: the rank of part \<open>i\<close> is its priority, then its position.\<close>

definition rank :: "(string \<Rightarrow> nat) \<Rightarrow> string list \<Rightarrow> nat \<Rightarrow> nat \<times> nat" where
  "rank priority parts i = (priority (parts ! i), i)"

definition greedy :: "int \<Rightarrow> (string \<Rightarrow> nat) \<Rightarrow> string list \<Rightarrow> nat set \<Rightarrow> bool" where
  "greedy budget priority parts kept = (kept \<subseteq> {..<length parts} \<and> (\<forall>i < length parts. i \<in> kept \<longleftrightarrow>
     part_cost (parts ! i)
       + (\<Sum>j | j \<in> kept \<and> rank priority parts j < rank priority parts i. part_cost (parts ! j)) \<le> budget))"

lemma choose_parts_is_greedy:
  assumes chosen: "choose_parts budget remark 0 (ranked priority parts) = (kept, protocol)"
  shows "greedy budget priority parts (set kept)"
proof -
  let ?L = "ranked priority parts" and ?key = "rank priority parts"
  have L: "set ?L = (\<lambda>j. (j, parts ! j)) ` {..<length parts}"
    by (auto simp: ranked_def in_set_enumerate_eq)
  have dist: "distinct (map fst ?L)"
    using L by (auto simp: distinct_map inj_on_def ranked_def distinct_enumerate)
  have "sorted (map (\<lambda>(i, s). (priority s, i)) ?L)" by (simp add: ranked_def)
  moreover have "map (\<lambda>(i, s). (priority s, i)) ?L = map (?key \<circ> fst) ?L"
    using L by (auto simp: rank_def)
  ultimately have sorted: "sorted (map (?key \<circ> fst) ?L)" by simp
  have keys: "?key j = ?key i \<longleftrightarrow> j = i" for i j by (auto simp: rank_def)
  have sub: "set kept \<subseteq> {..<length parts}"
    using choose_parts_subset [OF chosen] L by auto
  have "i \<in> set kept \<longleftrightarrow> part_cost (parts ! i)
      + (\<Sum>j | j \<in> set kept \<and> ?key j < ?key i. part_cost (parts ! j)) \<le> budget" if i: "i < length parts" for i
  proof -
    obtain xs ys where split: "?L = xs @ (i, parts ! i) # ys"
      using L i by (metis (no_types, lifting) image_eqI lessThan_iff split_list)
    have before: "j \<in> fst ` set xs \<longleftrightarrow> j < length parts \<and> ?key j < ?key i" for j
    proof -
      have le: "?key j \<le> ?key i" if "j \<in> fst ` set xs" using sorted split that by (auto simp: sorted_append)
      have ge: "?key i \<le> ?key j" if "j \<in> fst ` set ys" using sorted split that by (auto simp: sorted_append)
      have "j < length parts \<longleftrightarrow> j \<in> fst ` set xs \<or> j = i \<or> j \<in> fst ` set ys"
      proof -
        have "fst ` set ?L = {..<length parts}" by (simp add: L image_image)
        then have "j < length parts \<longleftrightarrow> j \<in> fst ` set ?L" by simp
        also have "\<dots> \<longleftrightarrow> j \<in> fst ` set xs \<or> j = i \<or> j \<in> fst ` set ys"
          unfolding split by (simp add: image_Un) blast
        finally show ?thesis .
      qed
      moreover have "i \<notin> fst ` set xs" "i \<notin> fst ` set ys" using dist split by auto
      ultimately show ?thesis using le ge keys [of j i] by (metis less_le not_le)
    qed
    have "(\<Sum>x \<leftarrow> filter (\<lambda>x. fst x \<in> set kept) xs. part_cost (snd x))
        = (\<Sum>j | j \<in> set kept \<and> ?key j < ?key i. part_cost (parts ! j))"
    proof -
      let ?F = "filter (\<lambda>x. fst x \<in> set kept) xs"
      have "distinct (map fst ?F)" using dist split by (auto simp: distinct_map intro: inj_on_subset)
      then have d: "distinct ?F" "inj_on fst (set ?F)" by (simp_all add: distinct_map)
      have at: "snd x = parts ! fst x" if "x \<in> set ?F" for x
      proof -
        have "x \<in> set ?L" using that split by simp
        then show ?thesis unfolding L by auto
      qed
      have "(\<Sum>x \<leftarrow> ?F. part_cost (snd x)) = (\<Sum>x \<in> set ?F. part_cost (parts ! fst x))"
        using d(1) at by (simp add: sum_list_distinct_conv_sum_set)
      also have "\<dots> = (\<Sum>j \<in> fst ` set ?F. part_cost (parts ! j))"
        using d(2) by (simp add: sum.reindex)
      also have "fst ` set ?F = {j. j \<in> set kept \<and> j \<in> fst ` set xs}" by auto
      also have "\<dots> = {j. j \<in> set kept \<and> ?key j < ?key i}"
        unfolding before using sub by blast
      finally show ?thesis .
    qed
    then show ?thesis
      using choose_parts_greedy [OF chosen [unfolded split]] dist split by simp
  qed
  then show ?thesis using sub by (simp add: greedy_def)
qed

section \<open>The bound\<close>

lemma join_snoc: "xs \<noteq> [] \<Longrightarrow> join sep (xs @ [y]) = join sep xs @ sep @ y"
  by (induction sep xs rule: join.induct) auto

lemma py_len_blank_line: "py_len blank_line = 2"
  by (simp add: blank_line_def py_len_Cons continuation_def)

lemma cap_loop_bound:
  assumes "py_len (join blank_line (rev kept)) = used" and "used \<le> budget"
  shows "py_len (join blank_line (cap_loop budget used kept ss)) \<le> budget"
  using assms
proof (induction budget used kept ss rule: cap_loop.induct)
  case (2 budget used kept s ss)
  then show ?case by (cases "kept = []") (auto simp: Let_def join_snoc py_len_blank_line)
qed simp

lemma section_aware_cap_bound: "py_len (section_aware_cap content limit) \<le> limit"
proof -
  let ?marker = "CHR 0x0A # TRUNCATION_MARKER"
  let ?kept = "cap_loop (limit - py_len ?marker) 0 [] (split_blank_lines [] content)"
  have "py_len (py_rstrip (join blank_line ?kept)) \<le> limit - py_len ?marker"
    using py_len_rstrip [of "join blank_line ?kept"]
      cap_loop_bound [of "[]" 0 "limit - py_len ?marker" "split_blank_lines [] content"] by simp
  moreover have "py_len TRUNCATION_MARKER \<le> py_len ?marker" by (simp add: py_len_Cons)
  ultimately show ?thesis
    using py_len_take [of limit ?marker] by (auto simp: section_aware_cap_def Let_def simp del: py_take.simps)
qed

lemma cap_packed_sel:
  "int (py_len packed) \<le> limit \<Longrightarrow> pk_content (cap_packed kind limit content packed protocol remark) = packed"
  "0 < limit \<Longrightarrow> int (py_len (pk_content (cap_packed kind limit content packed protocol remark))) \<le> limit"
  using section_aware_cap_bound [of packed "nat limit"] by (auto simp: cap_packed_def Let_def)

lemma pack_code_bound:
  assumes "0 < limit"
  shows "\<exists>r. pack_code content symbols limit = Inr r \<and> int (py_len (pk_content r)) \<le> limit"
  using assms cap_packed_sel(2) [OF assms]
  by (auto simp: pack_code_def validate_limit_def unpacked_def Let_def split: prod.splits)

text \<open>
  Packing never exceeds its limit, leaves a text that fits as it is, and chooses sections by rank:
  a section is kept exactly when it fits into the budget beside the kept sections of higher rank
  (its priority heading first, then its position). The result is then the sections in their order,
  each whole or as a placeholder, unless the placeholders alone break the limit.
\<close>
theorem packing_is_bounded_and_greedy:
  assumes "0 < limit"
  shows "\<exists>r. pack_markdown content limit headings = Inr r \<and> int (py_len (pk_content r)) \<le> limit
    \<and> (int (py_len content) \<le> limit \<longrightarrow> pk_content r = content \<and> pk_protocol r = [])
    \<and> (limit < int (py_len content) \<longrightarrow> (\<exists>kept.
         greedy (packing_budget limit) (section_priority headings) (split_markdown_sections content) (set kept)
         \<and> (let body = join blank_line (packed_parts kept section_placeholder (split_markdown_sections content)) in
            int (py_len body) \<le> limit \<longrightarrow> pk_content r = body)))"
proof (cases "int (py_len content) \<le> limit")
  case True
  then show ?thesis using assms by (simp add: pack_markdown_def validate_limit_def unpacked_def)
next
  case False
  let ?sections = "split_markdown_sections content"
  obtain kept protocol where chosen:
    "choose_parts (packing_budget limit) section_note 0 (ranked (section_priority headings) ?sections) = (kept, protocol)"
    by (cases "choose_parts (packing_budget limit) section_note 0 (ranked (section_priority headings) ?sections)") auto
  then have "pack_markdown content limit headings = Inr (cap_packed Packing_MARKDOWN limit content
      (join blank_line (packed_parts kept section_placeholder ?sections)) protocol markdown_cap_note)"
    using assms False by (simp add: pack_markdown_def validate_limit_def)
  then show ?thesis
    using False choose_parts_is_greedy [OF chosen] cap_packed_sel [where limit = limit] assms by (auto simp: Let_def)
qed

definition demo_text :: string where
  "demo_text = ''# A'' @ [CHR 0x0A] @ replicate 120 CHR ''x'' @ [CHR 0x0A] @ ''# Acceptance'' @ [CHR 0x0A] @ ''ok''"

lemma packing_is_bounded_and_greedy_witness:
  "\<exists>r. pack_markdown demo_text 120 [''Acceptance''] = Inr r \<and> int (py_len (pk_content r)) \<le> 120"
  using packing_is_bounded_and_greedy [of 120 demo_text "[''Acceptance'']"] by auto

text \<open>Each packed text of a bundle keeps the limit; the concept references carry the whole excerpt.\<close>

lemma pack_field_bound: "pack_field name t limit = Inr r \<Longrightarrow> int (py_len (pk_content r)) \<le> limit"
proof -
  assume r: "pack_field name t limit = Inr r"
  have "0 < limit"
    using r by (auto simp: pack_field_def pack_markdown_def pack_code_def validate_limit_def split: if_splits)
  then show ?thesis
    using r cap_packed_sel(2) [of limit] pack_code_bound [of limit t "extract_symbols t"]
    by (auto simp: pack_field_def pack_markdown_def validate_limit_def unpacked_def Let_def
        split: if_splits prod.splits)
qed

lemma pack_fields_bound:
  "pack_fields limit fs = Inr (packed, protocol) \<Longrightarrow>
    map fst packed = map fst fs \<and> (\<forall>(n, t) \<in> set packed. int (py_len t) \<le> limit)"
proof (induction limit fs arbitrary: packed protocol rule: pack_fields.induct)
  case (2 limit name t rest)
  obtain r p q where r: "pack_field name t limit = Inr r" "pack_fields limit rest = Inr (p, q)"
    using "2.prems" by (auto split: sum.splits prod.splits)
  then show ?case using "2.IH" [OF r] "2.prems" pack_field_bound [OF r(1)] by auto
qed simp

lemma packed_field_bound:
  assumes "pack_and_convert i a limit = Inr (packed, protocol)"
    and "n \<in> {''story_spec'', ''diff_summary'', ''concept_excerpt'', ''handover'', ''arch_references''}"
  shows "int (py_len (packed_field packed n)) \<le> limit"
proof -
  note spec = pack_fields_bound [OF assms(1) [unfolded pack_and_convert_def]]
  have "n \<in> set (map fst packed)" using assms(2) by (simp only: spec [THEN conjunct1]) auto
  then obtain t where "map_of packed n = Some t" by (metis list.set_map map_of_eq_None_iff option.exhaust)
  then show ?thesis
    using spec map_of_SomeD by (fastforce simp: packed_field_def)
qed

lemma bundle_texts_are_bounded:
  assumes "build_review_bundle i sid n a m limit prev = Inr b"
  shows "\<forall>t \<in> {rb_story_brief_excerpt b, rb_diff_summary b, rb_diff_content b, rb_concept_excerpt b,
      rb_arch_references b}. int (py_len t) \<le> limit"
    and "rb_concept_refs b = (if li_concept_excerpt i \<noteq> [] then [li_concept_excerpt i] else [])"
  using assms packed_field_bound [of i a limit]
  by (auto simp: build_review_bundle_def split: if_splits sum.splits)

section \<open>The prompt\<close>

text \<open>
  Nothing of a bundle is lost in the prompt: the decoder reads back an object that has, under each
  field name of the bundle, exactly the value of that field, and nothing else, in the order of the
  names.
\<close>
theorem prompt_json_roundtrip:
  "\<exists>m. json_loads (to_prompt_json b) = Some (WObj m) \<and> sorted (map fst m)
    \<and> (\<forall>k. map_of m k = map_option wire_of (map_of (bundle_payload b) k))"
proof (intro exI conjI allI)
  let ?m = "sort_key fst (map (\<lambda>(k, v). (k, wire_of v)) (bundle_payload b))"
  have "distinct (map fst (map (\<lambda>(k, v). (k, wire_of v)) (bundle_payload b)))"
    by (simp add: bundle_payload_def)
  then show "map_of ?m k = map_option wire_of (map_of (bundle_payload b) k)" for k
    by (simp add: map_of_sort_key map_of_map)
  show "json_loads (to_prompt_json b) = Some (WObj ?m)"
    unfolding to_prompt_json_def json_text_roundtrip by simp
qed simp

end
