(* ===== verification/Qa_Cycle.thy ===== *)
theory Qa_Cycle
  imports Finding_Resolution Engine_Props "HOL-Library.Multiset"
begin

text \<open>
  The QA cycle (\<open>verify_system/qa_cycle/\<close> and \<open>remediation/loop_counter.py\<close>): the four identities of a
  cycle, the evidence fingerprint, starting and advancing a cycle with the invalidation of the
  artifacts bound to it, how a run of the subflow resolves its cycle, and the bounded remediation
  loop.

  The artifact directory of a story is a map from relative paths (lists of names) to contents;
  directories exist as needed. SHA-256 is a parameter, as are the sources of pushed heads, the
  push barrier and the sink of invalidation events. The identifier \<open>uuid4().hex[:12]\<close> is an argument.
\<close>

record qa_world =
  qw_files :: "string list \<rightharpoonup> string"

section \<open>The view of the phase state\<close>

record phase_envelope_view =
  vw_qa_cycle_id :: "string option"
  vw_qa_cycle_round :: "int option"
  vw_evidence_epoch :: "int option"
  vw_evidence_fingerprint :: "string option"

text \<open>The constructor of the model, with its validators.\<close>

definition new_phase_envelope_view :: "phase_envelope_view \<Rightarrow> exn + phase_envelope_view" where
  "new_phase_envelope_view v =
    (if \<not> pred_option (\<lambda>i. length i = 12 \<and> list_all is_hex i) (vw_qa_cycle_id v)
     then Inl (ValidationError ''qa_cycle_id must be a 12-char lowercase hex UUID-fragment'')
     else if \<not> pred_option (\<lambda>f. length f = 64 \<and> list_all is_hex f) (vw_evidence_fingerprint v)
     then Inl (ValidationError ''evidence_fingerprint must be a 64-char lowercase hex SHA-256 digest'')
     else if vw_qa_cycle_id v \<noteq> None
          \<and> (case vw_qa_cycle_round v of None \<Rightarrow> True | Some n \<Rightarrow> n < 1)
     then Inl (ValidationError ''qa_cycle_round must be >= 1 when qa_cycle_id is set'')
     else Inr v)"

record qa_cycle_state =
  qc_qa_cycle_id :: string
  qc_round :: int
  qc_epoch :: int
  qc_evidence_epoch :: int
  qc_evidence_fingerprint :: string

definition to_view :: "qa_cycle_state \<Rightarrow> phase_envelope_view" where
  "to_view c = \<lparr>vw_qa_cycle_id = Some (qc_qa_cycle_id c), vw_qa_cycle_round = Some (qc_round c),
     vw_evidence_epoch = Some (qc_evidence_epoch c),
     vw_evidence_fingerprint = Some (qc_evidence_fingerprint c)\<rparr>"

section \<open>The evidence fingerprint\<close>

record reported_head =
  rh_repo_id :: string
  rh_head_sha :: string
  rh_compare_paths :: "string list"

definition is_sha_like :: "string \<Rightarrow> bool" where
  "is_sha_like v = (length v = 40 \<and> list_all is_hex v)"

definition slashes :: "string \<Rightarrow> string" where
  "slashes s = map (\<lambda>c. if c = CHR 0x5C then CHR ''/'' else c) s"

text \<open>One head: its line, and its compare lines in sorted order without duplicates.\<close>

definition head_lines :: "reported_head \<Rightarrow> exn + string \<times> string list" where
  "head_lines h =
    (let repo = py_strip (rh_repo_id h); sha = py_lower (py_strip (rh_head_sha h)) in
     if repo = [] \<or> \<not> is_sha_like sha
     then Inl (OtherException (''invalid reported pushed head for QA-cycle fingerprint: repo_id=''
            @ py_repr (rh_repo_id h) @ '', head_sha='' @ py_repr (rh_head_sha h)))
     else Inr (repo @ newline @ sha,
       map (\<lambda>p. repo @ newline @ p)
         (sorted_list_of_set (set (map (\<lambda>p. slashes (py_strip p))
            (filter (\<lambda>p. \<not> blank p) (rh_compare_paths h)))))))"

fun heads_lines :: "reported_head list \<Rightarrow> exn + string list \<times> string list" where
  "heads_lines [] = Inr ([], [])"
| "heads_lines (h # hs) = (case head_lines h of
      Inl e \<Rightarrow> Inl e
    | Inr (l, cs) \<Rightarrow> (case heads_lines hs of
        Inl e \<Rightarrow> Inl e
      | Inr (ls, cs') \<Rightarrow> Inr (l # ls, cs @ cs')))"

definition compute_evidence_fingerprint ::
  "(string \<Rightarrow> string) \<Rightarrow> reported_head list \<Rightarrow> string \<Rightarrow> exn + string" where
  "compute_evidence_fingerprint sha256 heads diff_base =
    (if heads = []
     then Inl (OtherException ''cannot compute QA-cycle evidence fingerprint without reported pushed heads'')
     else (case heads_lines (sort_key rh_repo_id heads) of
        Inl e \<Rightarrow> Inl e
      | Inr (lines, compare_lines) \<Rightarrow> Inr (sha256 (join newline
          [''base='' @ diff_base, ''## reported_heads'', join newline lines,
           ''## compare_evidence'', join newline compare_lines]))))"

section \<open>Invalidation\<close>

definition CYCLE_BOUND_QA_ARTIFACTS :: "string list" where
  "CYCLE_BOUND_QA_ARTIFACTS =
    [''semantic_review.json'', ''guardrail.json'', ''decision.json'', ''qa_review.json'',
     ''doc_fidelity.json'', ''feedback.json'', ''adversarial.json'', ''sonarqube_gate.json'',
     ''e2e_verify.json'', ''structural.json'', ''context.json'', ''context_sufficiency.json'']"

record invalidation_event =
  ie_story_id :: string
  ie_filename :: string
  ie_old_epoch :: int
  ie_source_path :: "string list"
  ie_stale_path :: "string list"

definition STALE_SUBDIR :: string where
  "STALE_SUBDIR = ''stale''"

definition stale_path :: "int \<Rightarrow> string \<Rightarrow> string list" where
  "stale_path e f = [STALE_SUBDIR, show_int e, f]"

definition invalidation_event_of :: "string \<Rightarrow> int \<Rightarrow> string \<Rightarrow> invalidation_event" where
  "invalidation_event_of sid e f = \<lparr>ie_story_id = sid, ie_filename = f, ie_old_epoch = e,
     ie_source_path = [f], ie_stale_path = stale_path e f\<rparr>"

text \<open>\<open>os.replace\<close>\<close>

definition move_file :: "string list \<Rightarrow> string list \<Rightarrow> (string list \<rightharpoonup> string) \<Rightarrow> (string list \<rightharpoonup> string)" where
  "move_file p q m = (m(q := m p))(p := None)"

definition update_files ::
  "((string list \<rightharpoonup> string) \<Rightarrow> (string list \<rightharpoonup> string)) \<Rightarrow> 'x qa_world_scheme st \<Rightarrow> 'x qa_world_scheme st" where
  "update_files g s = s\<lparr>st_world := (st_world s)\<lparr>qw_files := g (qw_files (st_world s))\<rparr>\<rparr>"

abbreviation files :: "'x qa_world_scheme st \<Rightarrow> (string list \<rightharpoonup> string)" where
  "files s \<equiv> qw_files (st_world s)"

type_synonym 'x qa_state = "'x qa_world_scheme st"

type_synonym ('x, 'a) qa_action = "('x qa_state, exn, 'a) io"

fun invalidate_files ::
  "(invalidation_event \<Rightarrow> ('x, unit) qa_action) \<Rightarrow> string \<Rightarrow> int \<Rightarrow> string list
     \<Rightarrow> ('x, invalidation_event list) qa_action" where
  "invalidate_files sink sid e [] = ret []"
| "invalidate_files sink sid e (f # fs) = bind_io (gets files) (\<lambda>m.
     if m [f] = None then invalidate_files sink sid e fs
     else seq_io (modify (update_files (move_file [f] (stale_path e f))))
         (seq_io (sink (invalidation_event_of sid e f))
         (bind_io (invalidate_files sink sid e fs) (\<lambda>es.
          ret (invalidation_event_of sid e f # es)))))"

definition invalidate_cycle_artifacts ::
  "(invalidation_event \<Rightarrow> ('x, unit) qa_action) \<Rightarrow> string \<Rightarrow> int
     \<Rightarrow> ('x, invalidation_event list) qa_action" where
  "invalidate_cycle_artifacts sink sid e = invalidate_files sink sid e CYCLE_BOUND_QA_ARTIFACTS"

definition null_sink :: "invalidation_event \<Rightarrow> ('x, unit) qa_action" where
  "null_sink ev = ret ()"

section \<open>The lifecycle\<close>

record 'x qa_cycle_lifecycle =
  lc_invalidation_sink :: "invalidation_event \<Rightarrow> ('x, unit) qa_action"
  lc_diff_base :: string
  lc_push_barrier_gate :: "phase_envelope_view \<Rightarrow> ('x, unit) qa_action"
  lc_fingerprint_source :: "('x, reported_head list) qa_action"
  lc_sha256 :: "string \<Rightarrow> string"

definition fingerprint_now :: "'x qa_cycle_lifecycle \<Rightarrow> ('x, string) qa_action" where
  "fingerprint_now lc = bind_io (lc_fingerprint_source lc) (\<lambda>heads.
     lift_sum (compute_evidence_fingerprint (lc_sha256 lc) heads (lc_diff_base lc)))"

definition start_cycle :: "'x qa_cycle_lifecycle \<Rightarrow> string \<Rightarrow> ('x, qa_cycle_state) qa_action" where
  "start_cycle lc cid = bind_io now (\<lambda>t. bind_io (fingerprint_now lc) (\<lambda>fp.
     ret \<lparr>qc_qa_cycle_id = cid, qc_round = 1, qc_epoch = 1, qc_evidence_epoch = t,
          qc_evidence_fingerprint = fp\<rparr>))"

definition advance_qa_cycle ::
  "'x qa_cycle_lifecycle \<Rightarrow> string \<Rightarrow> phase_envelope_view \<Rightarrow> string
     \<Rightarrow> ('x, qa_cycle_state \<times> invalidation_event list) qa_action" where
  "advance_qa_cycle lc cid current sid =
    (case vw_qa_cycle_round current of
       None \<Rightarrow> raise (OtherException ''advance_qa_cycle requires an active cycle'')
     | Some prev_round \<Rightarrow>
         if vw_qa_cycle_id current = None \<or> prev_round < 1
         then raise (OtherException ''advance_qa_cycle requires an active cycle'')
         else seq_io (lc_push_barrier_gate lc current)
             (bind_io (invalidate_cycle_artifacts (lc_invalidation_sink lc) sid prev_round) (\<lambda>events.
              bind_io now (\<lambda>t. bind_io (fingerprint_now lc) (\<lambda>fp.
              ret (\<lparr>qc_qa_cycle_id = cid, qc_round = prev_round + 1, qc_epoch = prev_round + 1,
                    qc_evidence_epoch = t, qc_evidence_fingerprint = fp\<rparr>, events))))))"

definition get_current_state :: "phase_envelope_view \<Rightarrow> qa_cycle_state option" where
  "get_current_state v =
    (case (vw_qa_cycle_id v, vw_qa_cycle_round v, vw_evidence_epoch v, vw_evidence_fingerprint v) of
       (Some i, Some r, Some t, Some f) \<Rightarrow> Some \<lparr>qc_qa_cycle_id = i, qc_round = r, qc_epoch = r,
          qc_evidence_epoch = t, qc_evidence_fingerprint = f\<rparr>
     | _ \<Rightarrow> None)"

definition resolve_qa_cycle_state ::
  "'x qa_cycle_lifecycle \<Rightarrow> string \<Rightarrow> phase_envelope_view option \<Rightarrow> string \<Rightarrow> qa_context
     \<Rightarrow> ('x, qa_cycle_state) qa_action" where
  "resolve_qa_cycle_state lc cid view sid qa =
    (case view of
       None \<Rightarrow> start_cycle lc cid
     | Some v \<Rightarrow> (case get_current_state v of
         None \<Rightarrow> start_cycle lc cid
       | Some current \<Rightarrow>
           if qa \<in> set remediation_contexts
           then bind_io (advance_qa_cycle lc cid v sid) (\<lambda>(next, _). ret next)
           else ret current))"

text \<open>The instant is written by \<open>isoformat\<close>, which is left as the number.\<close>

definition qa_cycle_state_to_fields :: "qa_cycle_state \<Rightarrow> (string \<times> json) list" where
  "qa_cycle_state_to_fields c = [(''qa_cycle_id'', JStr (qc_qa_cycle_id c)),
     (''qa_cycle_round'', JInt (qc_round c)), (''evidence_epoch'', JInt (qc_evidence_epoch c)),
     (''evidence_fingerprint'', JStr (qc_evidence_fingerprint c))]"

section \<open>The remediation loop\<close>

datatype remediation_decision = CONTINUE_TO_CLOSURE | CONTINUE_REMEDIATION | ESCALATE

definition DEFAULT_MAX_FEEDBACK_ROUNDS :: int where
  "DEFAULT_MAX_FEEDBACK_ROUNDS = 3"

text \<open>The controller is its ceiling; its constructor refuses a ceiling below one.\<close>

definition new_remediation_loop_controller :: "int \<Rightarrow> exn + int" where
  "new_remediation_loop_controller n =
    (if n < 1 then Inl (ValueError (''max_feedback_rounds must be >= 1 (FK-03 '' @ section_sign
       @ ''3.4.2); got '' @ show_int n)) else Inr n)"

definition check_and_advance :: "int \<Rightarrow> qa_cycle_state \<Rightarrow> policy_verdict \<Rightarrow> remediation_decision" where
  "check_and_advance max_feedback_rounds c v =
    (if v = Verdict_PASS then CONTINUE_TO_CLOSURE
     else if qc_round c < max_feedback_rounds then CONTINUE_REMEDIATION
     else ESCALATE)"

definition evaluate_escalation :: "int \<Rightarrow> qa_cycle_state \<Rightarrow> policy_verdict \<Rightarrow> bool" where
  "evaluate_escalation controller c v = (check_and_advance controller c v = ESCALATE)"

section \<open>What invalidation does\<close>

text \<open>The files after the artifacts \<open>fs\<close> of epoch \<open>e\<close> were set aside.\<close>

definition stale_files :: "string list \<Rightarrow> int \<Rightarrow> (string list \<rightharpoonup> string) \<Rightarrow> (string list \<rightharpoonup> string)" where
  "stale_files fs e m p = (case p of
      [f] \<Rightarrow> if f \<in> set fs then None else m p
    | [a, b, f] \<Rightarrow> if a = STALE_SUBDIR \<and> b = show_int e \<and> f \<in> set fs \<and> m [f] \<noteq> None then m [f] else m p
    | _ \<Rightarrow> m p)"

lemma stale_files_Nil: "stale_files [] e m = m"
  by (rule ext) (simp add: stale_files_def split: list.splits)

lemma stale_files_absent: "m [f] = None \<Longrightarrow> stale_files fs e m = stale_files (f # fs) e m"
  by (rule ext) (auto simp: stale_files_def split: list.splits)

lemma stale_files_move:
  "m [f] \<noteq> None \<Longrightarrow> f \<notin> set fs \<Longrightarrow>
    stale_files fs e (move_file [f] (stale_path e f) m) = stale_files (f # fs) e m"
  by (rule ext) (auto simp: stale_files_def move_file_def stale_path_def split: list.splits)

lemma stale_files_top: "f \<in> set fs \<Longrightarrow> stale_files fs e m [f] = None"
  and stale_files_kept: "f \<in> set fs \<Longrightarrow> m [f] = Some c \<Longrightarrow> stale_files fs e m (stale_path e f) = Some c"
  by (simp_all add: stale_files_def stale_path_def)

lemma files_update [simp]: "files (update_files g s) = g (files s)"
  by (simp add: update_files_def)

text \<open>What the lifecycle relies on: a sink takes the event without raising and leaves the files alone.\<close>

locale invalidation_sink =
  fixes sink :: "invalidation_event \<Rightarrow> ('x, unit) qa_action"
  assumes sink_takes: "\<exists>t. sink ev s = (Inr (), t) \<and> files t = files s"
begin

lemma invalidate_files_run:
  "distinct fs \<Longrightarrow> \<exists>t. invalidate_files sink sid e fs s =
      (Inr (map (invalidation_event_of sid e) (filter (\<lambda>f. files s [f] \<noteq> None) fs)), t)
    \<and> files t = stale_files fs e (files s)"
proof (induction fs arbitrary: s)
  case (Cons f fs)
  show ?case
  proof (cases "files s [f]")
    case None
    then show ?thesis
      using Cons.IH [of s] Cons.prems stale_files_absent [of "files s" f fs e]
      by (auto simp: bind_io_def gets_def)
  next
    case (Some c)
    let ?s = "update_files (move_file [f] (stale_path e f)) s"
    obtain u where u: "sink (invalidation_event_of sid e f) ?s = (Inr (), u)" "files u = files ?s"
      using sink_takes by blast
    have "filter (\<lambda>g. files u [g] \<noteq> None) fs = filter (\<lambda>g. files s [g] \<noteq> None) fs"
      using Cons.prems u(2) by (intro filter_cong) (auto simp: move_file_def stale_path_def)
    moreover have "stale_files fs e (files u) = stale_files (f # fs) e (files s)"
      using stale_files_move [of "files s" f fs e] Some Cons.prems u(2) by simp
    ultimately show ?thesis
      using Cons.IH [of u] Cons.prems Some u(1)
      by (auto simp: bind_io_def seq_io_def gets_def modify_def ret_def)
  qed
qed (simp add: ret_def stale_files_Nil)

lemma invalidate_cycle_artifacts_run:
  "\<exists>t. invalidate_cycle_artifacts sink sid e s = (Inr (map (invalidation_event_of sid e)
      (filter (\<lambda>f. files s [f] \<noteq> None) CYCLE_BOUND_QA_ARTIFACTS)), t)
    \<and> files t = stale_files CYCLE_BOUND_QA_ARTIFACTS e (files s)"
  unfolding invalidate_cycle_artifacts_def
  by (rule invalidate_files_run) (simp add: CYCLE_BOUND_QA_ARTIFACTS_def)

end

interpretation null: invalidation_sink null_sink
  by unfold_locales (simp add: null_sink_def ret_def)

text \<open>A computation that leaves the artifact files alone, however it ends.\<close>

definition leaves_files :: "('x, 'a) qa_action \<Rightarrow> bool" where
  "leaves_files m \<longleftrightarrow> (\<forall>s. files (snd (m s)) = files s)"

lemma leaves_filesD: "leaves_files m \<Longrightarrow> m s = (r, t) \<Longrightarrow> files t = files s"
  by (metis leaves_files_def snd_conv)

text \<open>The ports of a lifecycle that behave: the sink as above, the others do not touch the files.\<close>

definition lawful_lifecycle :: "'x qa_cycle_lifecycle \<Rightarrow> bool" where
  "lawful_lifecycle lc \<longleftrightarrow> invalidation_sink (lc_invalidation_sink lc)
     \<and> (\<forall>v. leaves_files (lc_push_barrier_gate lc v)) \<and> leaves_files (lc_fingerprint_source lc)"

lemma now_files: "leaves_files now"
  by (simp add: leaves_files_def now_def bind_io_def seq_io_def gets_def modify_def ret_def)

lemma fingerprint_now_files: "leaves_files (lc_fingerprint_source lc) \<Longrightarrow> leaves_files (fingerprint_now lc)"
  unfolding leaves_files_def fingerprint_now_def
  by (auto simp: bind_io_def lift_sum_def split: prod.splits sum.splits) (metis snd_conv)+

text \<open>
  C20. A round of QA never consumes the artifacts of the round before: when the cycle advances, each of
  the twelve cycle-bound artifacts has left its place for the stale directory of the previous round
  with its content, one event each, nothing else moved, and the round is one higher. If advancing
  raises, either nothing moved or everything did.
\<close>
theorem advance_sets_the_old_round_aside:
  assumes lawful: "lawful_lifecycle lc"
    and run: "advance_qa_cycle lc cid v sid s = (r, t)"
  shows "case r of
      Inr (c, events) \<Rightarrow> vw_qa_cycle_round v = Some (qc_round c - 1)
        \<and> files t = stale_files CYCLE_BOUND_QA_ARTIFACTS (qc_round c - 1) (files s)
        \<and> (\<forall>f \<in> set CYCLE_BOUND_QA_ARTIFACTS. files t [f] = None)
        \<and> events = map (invalidation_event_of sid (qc_round c - 1))
            (filter (\<lambda>f. files s [f] \<noteq> None) CYCLE_BOUND_QA_ARTIFACTS)
        \<and> qc_epoch c = qc_round c \<and> qc_qa_cycle_id c = cid
    | Inl e \<Rightarrow> files t = files s
        \<or> files t = stale_files CYCLE_BOUND_QA_ARTIFACTS (the (vw_qa_cycle_round v)) (files s)"
proof (cases "vw_qa_cycle_id v = None \<or> vw_qa_cycle_round v = None \<or> the (vw_qa_cycle_round v) < 1")
  case True
  then show ?thesis using run
    by (auto simp: advance_qa_cycle_def raise_def split: option.splits if_splits)
next
  case False
  then obtain n where n: "vw_qa_cycle_round v = Some n" and ok: "\<not> (vw_qa_cycle_id v = None \<or> n < 1)" by auto
  have ports: "invalidation_sink (lc_invalidation_sink lc)" "leaves_files (lc_push_barrier_gate lc v)"
    "leaves_files (fingerprint_now lc)"
    using lawful fingerprint_now_files by (auto simp: lawful_lifecycle_def)
  obtain rb u where b: "lc_push_barrier_gate lc v s = (rb, u)" by fastforce
  have fu: "files u = files s" by (rule leaves_filesD [OF ports(2) b])
  obtain w where w: "invalidate_cycle_artifacts (lc_invalidation_sink lc) sid n u =
      (Inr (map (invalidation_event_of sid n) (filter (\<lambda>f. files u [f] \<noteq> None) CYCLE_BOUND_QA_ARTIFACTS)), w)"
    "files w = stale_files CYCLE_BOUND_QA_ARTIFACTS n (files u)"
    using invalidation_sink.invalidate_cycle_artifacts_run [OF ports(1)] by blast
  obtain x y where x: "now w = (Inr x, y)" by (simp add: now_def io_app io_run)
  obtain rf z where f: "fingerprint_now lc y = (rf, z)" by fastforce
  have fz: "files z = files w"
    using leaves_filesD [OF now_files x] leaves_filesD [OF ports(3) f] by simp
  show ?thesis
  proof (cases rb)
    case (Inl e)
    then show ?thesis using run n ok b fu by (auto simp: advance_qa_cycle_def io_app)
  next
    case (Inr _)
    then show ?thesis using run n ok b fu w x f fz
      by (cases rf) (auto simp: advance_qa_cycle_def io_app io_run stale_files_top)
  qed
qed

section \<open>A lifecycle at work\<close>

definition demo_head :: reported_head where
  "demo_head = \<lparr>rh_repo_id = ''app'', rh_head_sha = replicate 40 CHR ''a'', rh_compare_paths = []\<rparr>"

definition demo_lifecycle :: "'x qa_cycle_lifecycle" where
  "demo_lifecycle = \<lparr>lc_invalidation_sink = null_sink, lc_diff_base = ''origin/main'',
     lc_push_barrier_gate = (\<lambda>_. ret ()), lc_fingerprint_source = ret [demo_head], lc_sha256 = (\<lambda>d. d)\<rparr>"

definition demo_qa_store :: "(string list \<rightharpoonup> string) \<Rightarrow> qa_world st" where
  "demo_qa_store fs = \<lparr>st_db = empty_db, st_log = [], st_clock = int, st_ticks = 0,
     st_event_accepted = (\<lambda>_. True), st_world = \<lparr>qw_files = fs\<rparr>\<rparr>"

lemma demo_lifecycle_sel [simp]:
  "lc_invalidation_sink demo_lifecycle = null_sink" "lc_push_barrier_gate demo_lifecycle v = ret ()"
  by (simp_all add: demo_lifecycle_def)

lemma demo_lifecycle_lawful: "lawful_lifecycle demo_lifecycle"
  using null.invalidation_sink_axioms
  by (simp add: lawful_lifecycle_def demo_lifecycle_def leaves_files_def ret_def)

lemma demo_fingerprint: "\<exists>fp. \<forall>s. fingerprint_now demo_lifecycle s = (Inr fp, s)"
proof -
  have "py_strip ''app'' = ''app''" "py_lower (py_strip (replicate 40 CHR ''a'')) = replicate 40 CHR ''a''"
    by (simp_all add: py_strip_def is_space_def py_lower_def char_lower_def numeral_eq_Suc)
  then have "\<exists>x. head_lines demo_head = Inr x"
    by (simp add: head_lines_def demo_head_def is_sha_like_def is_hex_def list_all_iff)
  then obtain l cs where "head_lines demo_head = Inr (l, cs)" by force
  then show ?thesis
    by (auto simp: fingerprint_now_def demo_lifecycle_def io_app io_run compute_evidence_fingerprint_def)
qed

definition demo_view :: phase_envelope_view where
  "demo_view = \<lparr>vw_qa_cycle_id = Some (replicate 12 CHR ''0''), vw_qa_cycle_round = Some 1,
     vw_evidence_epoch = Some 0, vw_evidence_fingerprint = Some (replicate 64 CHR ''0'')\<rparr>"

lemma demo_advance:
  fixes s :: "'x qa_state"
  shows "\<exists>c evs t. advance_qa_cycle demo_lifecycle cid demo_view sid s = (Inr (c, evs), t)"
proof -
  obtain t where t: "invalidate_cycle_artifacts null_sink sid 1 s = (Inr (map (invalidation_event_of sid 1)
      (filter (\<lambda>f. files s [f] \<noteq> None) CYCLE_BOUND_QA_ARTIFACTS)), t)"
    using null.invalidate_cycle_artifacts_run by blast
  have "\<exists>fp. \<forall>u :: 'x qa_state. fingerprint_now demo_lifecycle u = (Inr fp, u)"
    by (rule demo_fingerprint)
  then obtain fp where "\<And>u :: 'x qa_state. fingerprint_now demo_lifecycle u = (Inr fp, u)" by blast
  then show ?thesis
    by (simp add: advance_qa_cycle_def demo_view_def io_app io_run t now_def)
qed

lemma advance_sets_the_old_round_aside_witness:
  "\<exists>c evs t. advance_qa_cycle demo_lifecycle ''c2'' demo_view ''AG3-1''
       (demo_qa_store [[''decision.json''] \<mapsto> ''PASS'']) = (Inr (c, evs), t)
     \<and> files t [''decision.json''] = None \<and> files t (stale_path 1 ''decision.json'') = Some ''PASS''"
proof -
  let ?s = "demo_qa_store [[''decision.json''] \<mapsto> ''PASS'']"
  obtain c evs t where run: "advance_qa_cycle demo_lifecycle ''c2'' demo_view ''AG3-1'' ?s = (Inr (c, evs), t)"
    using demo_advance by blast
  have bound: "''decision.json'' \<in> set CYCLE_BOUND_QA_ARTIFACTS" by (simp add: CYCLE_BOUND_QA_ARTIFACTS_def)
  have "files ?s [''decision.json''] = Some ''PASS''" by (simp add: demo_qa_store_def)
  from stale_files_kept [of _ _ "files ?s", OF bound this, of 1] stale_files_top [OF bound, of 1 "files ?s"] show ?thesis
    using advance_sets_the_old_round_aside [OF demo_lifecycle_lawful run] run by (auto simp: demo_view_def)
qed

section \<open>The round of a run\<close>

lemma start_cycle_round: "start_cycle lc cid s = (Inr c, t) \<Longrightarrow>
    qc_round c = 1 \<and> qc_epoch c = 1 \<and> qc_qa_cycle_id c = cid"
  unfolding start_cycle_def by (auto elim!: bind_io_cases simp: ret_def)

lemma advance_cycle_round: "advance_qa_cycle lc cid v sid s = (Inr (c, evs), t) \<Longrightarrow>
    vw_qa_cycle_round v = Some (qc_round c - 1) \<and> qc_epoch c = qc_round c \<and> qc_qa_cycle_id c = cid"
  unfolding advance_qa_cycle_def seq_io_def
  by (auto elim!: bind_io_cases simp: ret_def raise_def split: option.splits if_splits)

lemma get_current_state_round: "get_current_state v = Some c \<Longrightarrow>
    vw_qa_cycle_round v = Some (qc_round c) \<and> qc_epoch c = qc_round c"
  by (auto simp: get_current_state_def split: option.splits)

lemma get_current_state_to_view: "qc_epoch c = qc_round c \<Longrightarrow> get_current_state (to_view c) = Some c"
  by (simp add: get_current_state_def to_view_def)

lemma resolved_round:
  assumes "resolve_qa_cycle_state lc cid view sid qa s = (Inr c, t)"
  shows "qc_round c = (case view of None \<Rightarrow> 1
      | Some v \<Rightarrow> (case get_current_state v of None \<Rightarrow> 1
          | Some current \<Rightarrow> if qa \<in> set remediation_contexts then qc_round current + 1 else qc_round current))
    \<and> qc_epoch c = qc_round c"
proof (cases "view = None \<or> get_current_state (the view) = None")
  case True
  then show ?thesis using assms start_cycle_round [of lc cid s c t]
    by (auto simp: resolve_qa_cycle_state_def split: option.splits)
next
  case False
  then obtain v current where v: "view = Some v" "get_current_state v = Some current" by auto
  show ?thesis
  proof (cases "qa \<in> set remediation_contexts")
    case True
    then have "bind_io (advance_qa_cycle lc cid v sid) (\<lambda>(next, _). ret next) s = (Inr c, t)"
      using assms v by (simp add: resolve_qa_cycle_state_def)
    then obtain evs u where "advance_qa_cycle lc cid v sid s = (Inr (c, evs), u)"
      by (auto elim!: bind_io_cases simp: ret_def)
    then show ?thesis using advance_cycle_round get_current_state_round [OF v(2)] v True by fastforce
  next
    case False
    then show ?thesis using assms v get_current_state_round [OF v(2)]
      by (auto simp: resolve_qa_cycle_state_def ret_def)
  qed
qed

text \<open>
  The round a run of the subflow works in: an idle story starts at round one, a remediation run
  with an active cycle is one round later, and an initial run with an active cycle stays in its
  round. The epoch is always the round.
\<close>
theorem cycle_round_resolution:
  assumes "resolve_qa_cycle_state lc cid view sid qa s = (Inr c, t)"
  shows "qc_round c = (case view of None \<Rightarrow> 1
      | Some v \<Rightarrow> (case get_current_state v of None \<Rightarrow> 1
          | Some current \<Rightarrow> if qa \<in> set remediation_contexts then qc_round current + 1 else qc_round current))
    \<and> qc_epoch c = qc_round c"
  using assms by (rule resolved_round)

lemma cycle_round_resolution_witness:
  "\<exists>c t. resolve_qa_cycle_state demo_lifecycle ''c2'' (Some demo_view) ''AG3-1'' IMPLEMENTATION_REMEDIATION
     (demo_qa_store Map.empty) = (Inr c, t) \<and> qc_round c = 2"
proof -
  obtain c evs t where
    "advance_qa_cycle demo_lifecycle ''c2'' demo_view ''AG3-1'' (demo_qa_store Map.empty) = (Inr (c, evs), t)"
    using demo_advance by blast
  then have "resolve_qa_cycle_state demo_lifecycle ''c2'' (Some demo_view) ''AG3-1'' IMPLEMENTATION_REMEDIATION
     (demo_qa_store Map.empty) = (Inr c, t)"
    by (simp add: resolve_qa_cycle_state_def get_current_state_def demo_view_def remediation_contexts_def
        io_app ret_def)
  from cycle_round_resolution [OF this] this show ?thesis
    by (auto simp: get_current_state_def demo_view_def remediation_contexts_def)
qed

section \<open>The loop ends\<close>

text \<open>
  The rounds of a story whose state owner feeds the identities of each round into the next: the
  first run finds an idle story, every later one is a remediation run.
\<close>

inductive qa_rounds :: "'x qa_cycle_lifecycle \<Rightarrow> qa_cycle_state list \<Rightarrow> bool"
  for lc :: "'x qa_cycle_lifecycle" where
  first_round: "resolve_qa_cycle_state lc cid None sid qa s = (Inr c, t) \<Longrightarrow> qa_rounds lc [c]"
| next_round: "qa_rounds lc (cs @ [c]) \<Longrightarrow> qa \<in> set remediation_contexts \<Longrightarrow>
    resolve_qa_cycle_state lc cid (Some (to_view c)) sid qa s = (Inr d, t) \<Longrightarrow> qa_rounds lc (cs @ [c, d])"

lemma qa_rounds_count:
  "qa_rounds lc cs \<Longrightarrow> cs \<noteq> [] \<and> (\<forall>i < length cs. qc_round (cs ! i) = int i + 1 \<and> qc_epoch (cs ! i) = int i + 1)"
proof (induction rule: qa_rounds.induct)
  case (first_round cid sid qa s c t)
  then show ?case using resolved_round by fastforce
next
  case (next_round cs c qa cid sid s d t)
  have c: "qc_round c = int (length cs) + 1" "qc_epoch c = int (length cs) + 1"
    using next_round.IH [THEN conjunct2] by (auto dest!: spec [of _ "length cs"])
  have "qc_round d = qc_round c + 1 \<and> qc_epoch d = qc_round d"
    using resolved_round [OF next_round.hyps(3)] next_round.hyps(2) c by (simp add: get_current_state_to_view)
  then have "qc_round (((cs @ [c]) @ [d]) ! i) = int i + 1 \<and> qc_epoch (((cs @ [c]) @ [d]) ! i) = int i + 1"
    if "i < length (cs @ [c, d])" for i
    using that next_round.IH c
    by (cases "i < length (cs @ [c])") (auto simp: nth_append_left nth_append_right less_Suc_eq)
  then show ?case by simp
qed

text \<open>
  C21. The remediation loop is bounded: when the identities of each round reach the next, the i-th
  round is numbered i, and a FAIL escalates exactly from round \<open>max_feedback_rounds\<close> on; no
  story is remediated more often than that, and a PASS never escalates.
\<close>
theorem remediation_loop_is_bounded:
  assumes "qa_rounds lc cs" and "i < length cs"
  shows "qc_round (cs ! i) = int i + 1
    \<and> (evaluate_escalation ceiling (cs ! i) v \<longleftrightarrow> v = Verdict_FAIL \<and> ceiling \<le> int i + 1)"
proof -
  have "qc_round (cs ! i) = int i + 1" using qa_rounds_count [OF assms(1)] assms(2) by blast
  then show ?thesis by (cases v) (auto simp: evaluate_escalation_def check_and_advance_def)
qed

lemma remediation_loop_is_bounded_witness:
  "\<exists>c :: qa_cycle_state. qa_rounds (demo_lifecycle :: unit qa_cycle_lifecycle) [c]
     \<and> qc_round c = 1 \<and> evaluate_escalation 1 c Verdict_FAIL \<and> \<not> evaluate_escalation 3 c Verdict_FAIL"
proof -
  have "\<exists>fp. \<forall>u :: unit qa_state. fingerprint_now demo_lifecycle u = (Inr fp, u)"
    by (rule demo_fingerprint)
  then obtain fp where "\<And>u :: unit qa_state. fingerprint_now demo_lifecycle u = (Inr fp, u)" by blast
  then obtain c t where "resolve_qa_cycle_state demo_lifecycle ''c1'' None ''AG3-1'' IMPLEMENTATION_INITIAL
      (demo_qa_store Map.empty) = (Inr c, t)"
    by (simp add: resolve_qa_cycle_state_def start_cycle_def io_app io_run now_def)
  then have "qa_rounds (demo_lifecycle :: unit qa_cycle_lifecycle) [c]" by (rule qa_rounds.first_round)
  from remediation_loop_is_bounded [OF this, of 0] this show ?thesis by auto
qed

section \<open>The fingerprint does not depend on the order of reports\<close>

text \<open>
  The fingerprint is a function of the set of reported heads: sources that report the same heads,
  one per repository, in different orders give the same fingerprint.
\<close>
theorem fingerprint_is_order_independent:
  assumes "mset heads = mset heads'" and "distinct (map rh_repo_id heads)"
  shows "compute_evidence_fingerprint sha256 heads diff_base = compute_evidence_fingerprint sha256 heads' diff_base"
proof -
  have "sort_key rh_repo_id heads = sort_key rh_repo_id heads'"
    by (rule sort_key_inj_key_eq) (use assms in \<open>simp_all add: distinct_map\<close>)
  moreover have "heads = [] \<longleftrightarrow> heads' = []" using assms(1) by auto
  ultimately show ?thesis by (simp add: compute_evidence_fingerprint_def)
qed

lemma fingerprint_is_order_independent_witness:
  "compute_evidence_fingerprint id [demo_head, demo_head\<lparr>rh_repo_id := ''web''\<rparr>] ''origin/main''
   = compute_evidence_fingerprint id [demo_head\<lparr>rh_repo_id := ''web''\<rparr>, demo_head] ''origin/main''"
  by (rule fingerprint_is_order_independent) (simp_all add: demo_head_def)

end
