(* ===== verification/Artifacts.thy ===== *)
theory Artifacts
  imports Runtime_Store Stage_Registry Json_Text
begin

text \<open>
  The artifact store (\<open>artifacts/\<close>, \<open>state_backend/store/artifact_repository.py\<close>,
  \<open>state_backend/artifact_envelope_mappers.py\<close>, \<open>verify_system/register.py\<close>): typed envelopes with
  their validators, the registry of producers, the envelope validator, the rows of
  \<open>artifact_envelopes\<close> with their canonical record key, and the manager.

  A repository is the access to the rows in the state, the fence that a write passes (none for
  SQLite; the ownership fence for Postgres), and the choice that \<open>ORDER BY attempt DESC LIMIT 1\<close>
  makes between rows of the same attempt, which SQL leaves open. The payload of a row is JSON text,
  written and parsed by the codec of \<open>Json_Text\<close>; that \<open>json.dumps\<close> also escapes the characters
  outside ASCII changes this text, not what it is read as, and is left out. A payload is a JSON value
  without floats: tuples and keys that are not strings, which would come back as lists and strings,
  and values that \<open>json.dumps\<close> refuses are outside the model. The text of an instant is the instant
  itself. Messages leave out lists of known names.

  The locale \<open>artifact_table\<close> says what the manager relies on; the theorems are that a stored
  envelope is read back exactly when its run id is free of the separator of the record key, that
  a write touches no other record, that a refused envelope leaves the table alone, and that the
  latest attempt is what is read.
\<close>

section \<open>Producers\<close>

datatype producer_type = Producer_WORKER | Producer_LLM_REVIEWER | Producer_DETERMINISTIC

fun producer_type_value :: "producer_type \<Rightarrow> string" where
  "producer_type_value Producer_WORKER = ''WORKER''"
| "producer_type_value Producer_LLM_REVIEWER = ''LLM_REVIEWER''"
| "producer_type_value Producer_DETERMINISTIC = ''DETERMINISTIC''"

definition producer_types :: "producer_type list" where
  "producer_types = [Producer_WORKER, Producer_LLM_REVIEWER, Producer_DETERMINISTIC]"

interpretation producer_type: str_enum producer_type_value producer_types
proof unfold_locales
  show "x \<in> set producer_types" for x by (cases x) (simp_all add: producer_types_def)
qed (simp add: producer_types_def)

record producer =
  pr_type :: producer_type
  pr_name :: string
  pr_id :: string
  pr_version :: "string option"

section \<open>The envelope\<close>

record artifact_envelope =
  ae_schema_version :: string
  ae_story_id :: string
  ae_run_id :: string
  ae_stage :: string
  ae_attempt :: int
  ae_producer :: producer
  ae_started_at :: int
  ae_finished_at :: int
  ae_status :: envelope_status
  ae_artifact_class :: artifact_class
  ae_payload :: "metadata option"

definition ENVELOPE_SCHEMA_VERSION :: string where
  "ENVELOPE_SCHEMA_VERSION = ''3.0''"

definition upper_ascii :: "char \<Rightarrow> bool" where
  "upper_ascii c = (let n = of_char c in (65::nat) \<le> n \<and> n \<le> 90)"

definition lower_ascii :: "char \<Rightarrow> bool" where
  "lower_ascii c = (let n = of_char c in (97::nat) \<le> n \<and> n \<le> 122)"

definition digit_ascii :: "char \<Rightarrow> bool" where
  "digit_ascii c = (digit_val c \<noteq> None)"

text \<open>\<open>\A[A-Z][A-Z0-9]+-\d+\Z\<close>, matched in full. The prefix ends at the first dash.\<close>

definition STORY_ID_PATTERN :: "string \<Rightarrow> bool" where
  "STORY_ID_PATTERN s =
    (let p = takeWhile (\<lambda>c. c \<noteq> CHR ''-'') s; n = drop (length p + 1) s in
     2 \<le> length p \<and> upper_ascii (hd p) \<and> list_all (\<lambda>c. upper_ascii c \<or> digit_ascii c) (tl p)
     \<and> n \<noteq> [] \<and> list_all digit_ascii n)"

text \<open>\<open>^[a-z][a-z0-9_-]{0,63}$\<close> by \<open>re.match\<close>: the dollar also matches before a final newline.\<close>

definition STAGE_ID_PATTERN :: "string \<Rightarrow> bool" where
  "STAGE_ID_PATTERN s =
    (let b = (if s \<noteq> [] \<and> last s = CHR 0x0A then butlast s else s) in
     b \<noteq> [] \<and> length b \<le> 64 \<and> lower_ascii (hd b)
     \<and> list_all (\<lambda>c. lower_ascii c \<or> digit_ascii c \<or> c = CHR ''_'' \<or> c = CHR ''-'') (tl b))"

text \<open>The constructor with its validators; every payload of the model is JSON-serialisable.\<close>

definition new_artifact_envelope :: "artifact_envelope \<Rightarrow> exn + artifact_envelope" where
  "new_artifact_envelope e =
    (if ae_schema_version e \<noteq> ENVELOPE_SCHEMA_VERSION
     then Inl (ValidationError (''Input should be '' @ quote @ ENVELOPE_SCHEMA_VERSION @ quote))
     else if \<not> STORY_ID_PATTERN (ae_story_id e)
     then Inl (ValidationError (''story_id '' @ quote @ ae_story_id e @ quote @ '' does not match pattern''))
     else if ae_run_id e = []
     then Inl (ValidationError ''String should have at least 1 character'')
     else if \<not> STAGE_ID_PATTERN (ae_stage e)
     then Inl (ValidationError (''stage '' @ quote @ ae_stage e @ quote @ '' does not match pattern''))
     else if ae_attempt e < 1
     then Inl (ValidationError (''attempt must be >= 1, received: '' @ show_int (ae_attempt e)))
     else if ae_finished_at e < ae_started_at e
     then Inl (ValidationError ''finished_at must be >= started_at'')
     else Inr e)"

section \<open>The registry of producers and the validator\<close>

type_synonym producer_registry = "artifact_class \<Rightarrow> string \<Rightarrow> producer_type option"

definition new_producer_registry :: producer_registry where
  "new_producer_registry = (\<lambda>_ _. None)"

definition register_producer :: "artifact_class \<Rightarrow> string \<Rightarrow> producer_type \<Rightarrow> producer_registry \<Rightarrow> producer_registry" where
  "register_producer c n t g = g(c := (g c)(n \<mapsto> t))"

definition registry_validate :: "producer_registry \<Rightarrow> artifact_envelope \<Rightarrow> exn + unit" where
  "registry_validate g e =
    (let name = pr_name (ae_producer e); cls = artifact_class_value (ae_artifact_class e) in
     case g (ae_artifact_class e) name of
       None \<Rightarrow> Inl (ProducerNotRegisteredError (''Producer '' @ quote @ name @ quote
          @ '' is not registered for ArtifactClass '' @ quote @ cls @ quote @ ''.''))
     | Some t \<Rightarrow>
         if t \<noteq> pr_type (ae_producer e)
         then Inl (ProducerTypeMismatchError (''Producer '' @ quote @ name @ quote
            @ '' is registered for ArtifactClass '' @ quote @ cls @ quote @ '' as '' @ quote
            @ producer_type_value t @ quote @ '', but the envelope claims '' @ quote
            @ producer_type_value (pr_type (ae_producer e)) @ quote @ '' (type drift).''))
         else Inr ())"

definition map_llm_status_to_envelope_status :: "string \<Rightarrow> exn + envelope_status" where
  "map_llm_status_to_envelope_status s =
    (if s = ''PASS'' then Inr Envelope_PASS
     else if s = ''PASS_WITH_CONCERNS'' then Inr Envelope_WARN
     else if s = ''FAIL'' then Inr Envelope_FAIL
     else if s = ''ERROR'' \<or> s = ''TIMEOUT'' then Inr Envelope_ERROR
     else Inl (LlmStatusMappingError (''Unknown LLM check status '' @ quote @ s @ quote @ ''.'')))"

definition known_producers :: "producer_registry \<Rightarrow> artifact_class \<Rightarrow> string set" where
  "known_producers g c = dom (g c)"

fun ALLOWED_STATUSES :: "artifact_class \<Rightarrow> envelope_status list" where
  "ALLOWED_STATUSES Class_TELEMETRY = [Envelope_PASS, Envelope_ERROR]"
| "ALLOWED_STATUSES Class_ENTWURF = [Envelope_PASS, Envelope_FAIL, Envelope_ERROR]"
| "ALLOWED_STATUSES Class_PROMPT_AUDIT = [Envelope_PASS, Envelope_ERROR]"
| "ALLOWED_STATUSES Class_WORKER = [Envelope_PASS, Envelope_FAIL, Envelope_WARN, Envelope_ERROR]"
| "ALLOWED_STATUSES Class_QA = [Envelope_PASS, Envelope_FAIL, Envelope_WARN, Envelope_ERROR]"
| "ALLOWED_STATUSES Class_PIPELINE = [Envelope_PASS, Envelope_FAIL, Envelope_WARN, Envelope_ERROR]"
| "ALLOWED_STATUSES Class_GOVERNANCE = [Envelope_PASS, Envelope_FAIL, Envelope_WARN, Envelope_ERROR]"
| "ALLOWED_STATUSES Class_HANDOVER = [Envelope_PASS, Envelope_FAIL, Envelope_WARN, Envelope_ERROR]"
| "ALLOWED_STATUSES Class_ADVERSARIAL_TEST_SANDBOX =
     [Envelope_PASS, Envelope_FAIL, Envelope_WARN, Envelope_ERROR]"

definition envelope_validate :: "producer_registry \<Rightarrow> artifact_envelope \<Rightarrow> exn + unit" where
  "envelope_validate g e = and_then (registry_validate g e)
    (if ae_attempt e < 1
     then Inl (EnvelopeFieldError (''attempt must be >= 1, received: '' @ show_int (ae_attempt e)))
     else if ae_status e \<notin> set (ALLOWED_STATUSES (ae_artifact_class e))
     then Inl (EnvelopeFieldError (''EnvelopeStatus '' @ quote @ envelope_status_value (ae_status e) @ quote
        @ '' is not allowed for ArtifactClass '' @ quote
        @ artifact_class_value (ae_artifact_class e) @ quote @ ''.''))
     else if ae_finished_at e < ae_started_at e
     then Inl (EnvelopeFieldError ''finished_at must be >= started_at'')
     else Inr ())"

section \<open>The producers of the verify system\<close>

definition VERIFY_PRODUCERS :: "(artifact_class \<times> string \<times> producer_type) list" where
  "VERIFY_PRODUCERS =
    [(Class_QA, ''verify-system.layer-1-structural'', Producer_DETERMINISTIC),
     (Class_QA, ''verify-system.layer-2-qa-review'', Producer_LLM_REVIEWER),
     (Class_QA, ''verify-system.layer-2-semantic-review'', Producer_LLM_REVIEWER),
     (Class_QA, ''verify-system.layer-2-doc-fidelity'', Producer_LLM_REVIEWER),
     (Class_QA, ''verify-system.layer-2-context-sufficiency'', Producer_DETERMINISTIC),
     (Class_QA, ''verify-system.layer-3-adversarial'', Producer_LLM_REVIEWER),
     (Class_QA, ''verify-system.layer-1-sonarqube-gate'', Producer_DETERMINISTIC),
     (Class_QA, ''verify-system.layer-4-policy'', Producer_DETERMINISTIC),
     (Class_QA, ''verify-system.stability-gate'', Producer_DETERMINISTIC),
     (Class_ADVERSARIAL_TEST_SANDBOX, ''qa-adversarial-sandbox'', Producer_WORKER)]"

definition register_verify_producers :: "producer_registry \<Rightarrow> producer_registry" where
  "register_verify_producers g = fold (\<lambda>(c, n, t). register_producer c n t) VERIFY_PRODUCERS g"

section \<open>Rows and record keys\<close>

record artifact_row =
  aw_story_id :: string
  aw_run_id :: string
  aw_stage :: string
  aw_attempt :: int
  aw_schema_version :: string
  aw_producer_type :: string
  aw_producer_id :: string
  aw_producer_name :: string
  aw_producer_version :: "string option"
  aw_started_at :: int
  aw_finished_at :: int
  aw_status :: string
  aw_artifact_class :: string
  aw_payload_json :: "string option"

type_synonym artifact_key = "string \<times> string \<times> string \<times> int \<times> string \<times> string"

text \<open>The primary key.\<close>

definition row_key :: "artifact_row \<Rightarrow> artifact_key" where
  "row_key r = (aw_story_id r, aw_run_id r, aw_stage r, aw_attempt r, aw_artifact_class r, aw_producer_name r)"

definition record_key :: "string \<Rightarrow> string \<Rightarrow> string \<Rightarrow> int \<Rightarrow> artifact_class \<Rightarrow> string \<Rightarrow> string" where
  "record_key story_id run_id stage attempt cls producer_name =
     join ''|'' [story_id, run_id, stage, show_int attempt, artifact_class_value cls, producer_name]"

definition reference_from_envelope :: "artifact_envelope \<Rightarrow> artifact_reference" where
  "reference_from_envelope e = \<lparr>af_artifact_class = ae_artifact_class e, af_story_id = ae_story_id e,
     af_run_id = ae_run_id e, af_record_key = record_key (ae_story_id e) (ae_run_id e) (ae_stage e)
       (ae_attempt e) (ae_artifact_class e) (pr_name (ae_producer e))\<rparr>"

definition parse_record_key :: "string \<Rightarrow> exn + artifact_key" where
  "parse_record_key k = (case split_max CHR ''|'' 5 k of
      [story_id, run_id, stage, attempt, cls, producer_name] \<Rightarrow> (case py_int attempt of
          Some n \<Rightarrow> Inr (story_id, run_id, stage, n, cls, producer_name)
        | None \<Rightarrow> Inl (ValueError (''invalid literal for int() with base 10: '' @ py_repr attempt)))
    | _ \<Rightarrow> Inl (ValueError (''Ungueltige record_key-Struktur: '' @ py_repr k)))"

definition envelope_to_row :: "artifact_envelope \<Rightarrow> artifact_row" where
  "envelope_to_row e = \<lparr>aw_story_id = ae_story_id e, aw_run_id = ae_run_id e, aw_stage = ae_stage e,
     aw_attempt = ae_attempt e, aw_schema_version = ae_schema_version e,
     aw_producer_type = producer_type_value (pr_type (ae_producer e)),
     aw_producer_id = pr_id (ae_producer e), aw_producer_name = pr_name (ae_producer e),
     aw_producer_version = pr_version (ae_producer e), aw_started_at = ae_started_at e,
     aw_finished_at = ae_finished_at e, aw_status = envelope_status_value (ae_status e),
     aw_artifact_class = artifact_class_value (ae_artifact_class e),
     aw_payload_json = map_option (\<lambda>m. json_dumps (JObj m)) (ae_payload e)\<rparr>"

definition enum_or_raise :: "('a \<Rightarrow> string) \<Rightarrow> 'a list \<Rightarrow> string \<Rightarrow> exn + 'a" where
  "enum_or_raise val members s = (case enum_of val members s of
      Some x \<Rightarrow> Inr x | None \<Rightarrow> Inl (ValueError (py_repr s @ '' is not a valid enum value'')))"

text \<open>
  \<open>json.loads(str(raw_payload))\<close> and the type of the field: a payload that is not an object is refused by
  the constructor. Payloads hold no floats.
\<close>

definition payload_of_text :: "string option \<Rightarrow> exn + metadata option" where
  "payload_of_text raw = (case raw of
      None \<Rightarrow> Inr None
    | Some txt \<Rightarrow> (case json_loads txt of
        None \<Rightarrow> Inl (ValueError ''invalid JSON'')
      | Some w \<Rightarrow> (case json_of_wire w of
          None \<Rightarrow> Inl (ValueError ''not a number of the model'')
        | Some (JObj m) \<Rightarrow> Inr (Some m)
        | Some JNull \<Rightarrow> Inr None
        | Some _ \<Rightarrow> Inl (ValidationError ''Input should be a valid dictionary''))))"

definition row_to_record :: "artifact_row \<Rightarrow> exn + artifact_envelope" where
  "row_to_record r = (case payload_of_text (aw_payload_json r) of
       Inl x \<Rightarrow> Inl x
     | Inr payload \<Rightarrow>
    (case enum_or_raise producer_type_value producer_types (aw_producer_type r) of
       Inl x \<Rightarrow> Inl x
     | Inr t \<Rightarrow> (case enum_or_raise envelope_status_value envelope_statuses (aw_status r) of
         Inl x \<Rightarrow> Inl x
       | Inr st \<Rightarrow> (case enum_or_raise artifact_class_value artifact_classes (aw_artifact_class r) of
           Inl x \<Rightarrow> Inl x
         | Inr c \<Rightarrow> new_artifact_envelope \<lparr>ae_schema_version = ''3.0'', ae_story_id = aw_story_id r,
             ae_run_id = aw_run_id r, ae_stage = aw_stage r, ae_attempt = aw_attempt r,
             ae_producer = \<lparr>pr_type = t, pr_name = aw_producer_name r, pr_id = aw_producer_id r,
               pr_version = aw_producer_version r\<rparr>,
             ae_started_at = aw_started_at r, ae_finished_at = aw_finished_at r, ae_status = st,
             ae_artifact_class = c, ae_payload = payload\<rparr>))))"

section \<open>The repository\<close>

record 's artifact_repository =
  rp_rows :: "'s \<Rightarrow> artifact_row list"
  rp_set_rows :: "artifact_row list \<Rightarrow> 's \<Rightarrow> 's"
  rp_fence :: "artifact_envelope \<Rightarrow> ('s, exn, unit) io"
  rp_pick :: "artifact_row list \<Rightarrow> artifact_row"

definition write_envelope :: "'s artifact_repository \<Rightarrow> artifact_envelope \<Rightarrow> ('s, exn, artifact_reference) io" where
  "write_envelope rp e = seq_io (rp_fence rp e)
     (seq_io (modify (\<lambda>s. rp_set_rows rp (upsert row_key (envelope_to_row e) (rp_rows rp s)) s))
     (ret (reference_from_envelope e)))"

definition read_envelope :: "'s artifact_repository \<Rightarrow> artifact_reference \<Rightarrow> ('s, exn, artifact_envelope option) io" where
  "read_envelope rp ref = (case parse_record_key (af_record_key ref) of
      Inl _ \<Rightarrow> ret None
    | Inr k \<Rightarrow> bind_io (gets (\<lambda>s. List.find (\<lambda>r. row_key r = k) (rp_rows rp s))) (\<lambda>row. (case row of
          None \<Rightarrow> ret None
        | Some r \<Rightarrow> bind_io (lift_sum (row_to_record r)) (\<lambda>e. ret (Some e)))))"

definition exists_envelope :: "'s artifact_repository \<Rightarrow> artifact_reference \<Rightarrow> ('s, exn, bool) io" where
  "exists_envelope rp ref = (case parse_record_key (af_record_key ref) of
      Inl _ \<Rightarrow> ret False
    | Inr k \<Rightarrow> gets (\<lambda>s. list_ex (\<lambda>r. row_key r = k) (rp_rows rp s)))"

definition in_scope :: "string \<Rightarrow> string option \<Rightarrow> artifact_class \<Rightarrow> string \<Rightarrow> artifact_row \<Rightarrow> bool" where
  "in_scope story_id run_id cls stage r = (aw_story_id r = story_id
     \<and> (case run_id of None \<Rightarrow> True | Some x \<Rightarrow> aw_run_id r = x)
     \<and> aw_stage r = stage \<and> aw_artifact_class r = artifact_class_value cls)"

text \<open>The rows of the highest attempt.\<close>

definition newest :: "artifact_row list \<Rightarrow> artifact_row list" where
  "newest rows = filter (\<lambda>r. aw_attempt r = Max (set (map aw_attempt rows))) rows"

definition find_latest_envelope ::
  "'s artifact_repository \<Rightarrow> string \<Rightarrow> string option \<Rightarrow> artifact_class \<Rightarrow> string
     \<Rightarrow> ('s, exn, artifact_envelope option) io" where
  "find_latest_envelope rp story_id run_id cls stage =
     bind_io (gets (\<lambda>s. filter (in_scope story_id run_id cls stage) (rp_rows rp s))) (\<lambda>rows.
       if rows = [] then ret None
       else bind_io (lift_sum (row_to_record (rp_pick rp (newest rows)))) (\<lambda>e. ret (Some e)))"

text \<open>A repository on SQLite over a table on its own: no fence, the first of equals.\<close>

definition sqlite_repository :: "artifact_row list artifact_repository" where
  "sqlite_repository = \<lparr>rp_rows = (\<lambda>s. s), rp_set_rows = (\<lambda>rows s. rows),
     rp_fence = (\<lambda>e. ret ()), rp_pick = hd\<rparr>"

section \<open>The manager\<close>

record 's artifact_manager =
  am_repository :: "'s artifact_repository"
  am_registry :: producer_registry

definition manager_write :: "'s artifact_manager \<Rightarrow> artifact_envelope \<Rightarrow> ('s, exn, artifact_reference) io" where
  "manager_write m e = seq_io (lift_sum (envelope_validate (am_registry m) e))
     (write_envelope (am_repository m) e)"

definition manager_read :: "'s artifact_manager \<Rightarrow> artifact_reference \<Rightarrow> ('s, exn, artifact_envelope) io" where
  "manager_read m ref = bind_io (read_envelope (am_repository m) ref) (\<lambda>r. (case r of
      None \<Rightarrow> raise (ArtifactNotFoundError (''No artifact found for reference: record_key=''
        @ py_repr (af_record_key ref)))
    | Some e \<Rightarrow> ret e))"

definition manager_read_latest ::
  "'s artifact_manager \<Rightarrow> string \<Rightarrow> string option \<Rightarrow> artifact_class \<Rightarrow> string
     \<Rightarrow> ('s, exn, artifact_envelope) io" where
  "manager_read_latest m story_id run_id cls stage =
     bind_io (find_latest_envelope (am_repository m) story_id run_id cls stage) (\<lambda>r. (case r of
      None \<Rightarrow> raise (ArtifactNotFoundError (''No artifact in scope: story_id='' @ py_repr story_id
        @ '', stage='' @ py_repr stage))
    | Some e \<Rightarrow> ret e))"

definition manager_exists :: "'s artifact_manager \<Rightarrow> artifact_reference \<Rightarrow> ('s, exn, bool) io" where
  "manager_exists m ref = exists_envelope (am_repository m) ref"

section \<open>Keys and rows\<close>

lemma bar_class [simp]: "\<not> upper_ascii (CHR ''|'')" "\<not> lower_ascii (CHR ''|'')" "digit_val (CHR ''|'') = None"
  by (simp_all add: upper_ascii_def lower_ascii_def digit_val_def)

lemma bar_no_digit [simp]: "\<not> digit_ascii (CHR ''|'')"
  by (simp add: digit_ascii_def)

lemma bar_notin_digits: "CHR ''|'' \<notin> set (show_nat n)"
proof
  assume "CHR ''|'' \<in> set (show_nat n)"
  then obtain d where "d < 10" "CHR ''|'' = digit_char d" using show_nat_digits by blast
  then show False using digit_val_char [of d] bar_class(3) by simp
qed

lemma notin_list_all: "list_all P xs \<Longrightarrow> \<not> P c \<Longrightarrow> c \<notin> set xs"
  by (auto simp: list_all_iff)

lemma notin_hd_tl: "xs \<noteq> [] \<Longrightarrow> P (hd xs) \<Longrightarrow> list_all Q (tl xs) \<Longrightarrow> \<not> P c \<Longrightarrow> \<not> Q c \<Longrightarrow> c \<notin> set xs"
  by (cases xs) (auto simp: list_all_iff)

lemma story_id_no_bar:
  assumes "STORY_ID_PATTERN s"
  shows "CHR ''|'' \<notin> set s"
proof -
  define p where "p = takeWhile (\<lambda>c. c \<noteq> CHR ''-'') s"
  define n where "n = drop (length p + 1) s"
  have ok: "2 \<le> length p" "upper_ascii (hd p)" "list_all (\<lambda>c. upper_ascii c \<or> digit_ascii c) (tl p)"
    "n \<noteq> []" "list_all digit_ascii n"
    using assms by (simp_all add: STORY_ID_PATTERN_def Let_def p_def n_def)
  have "s = p @ dropWhile (\<lambda>c. c \<noteq> CHR ''-'') s" by (simp add: p_def)
  moreover have "dropWhile (\<lambda>c. c \<noteq> CHR ''-'') s = CHR ''-'' # n"
  proof (cases "dropWhile (\<lambda>c. c \<noteq> CHR ''-'') s")
    case Nil
    then show ?thesis using ok(4) by (simp add: n_def p_def dropWhile_eq_drop)
  next
    case (Cons c cs)
    moreover have "c = CHR ''-''" using hd_dropWhile [of "\<lambda>c. c \<noteq> CHR ''-''" s] Cons by simp
    moreover have "n = cs" using Cons by (simp add: n_def p_def dropWhile_eq_drop drop_Suc [symmetric] flip: tl_drop) (metis drop_Suc list.sel(3) tl_drop)
    ultimately show ?thesis by simp
  qed
  moreover have "CHR ''|'' \<notin> set p" by (rule notin_hd_tl [where P = upper_ascii, OF _ ok(2,3)]) (use ok(1) in auto)
  moreover have "CHR ''|'' \<notin> set n" by (rule notin_list_all [OF ok(5)]) simp
  ultimately have "s = p @ CHR ''-'' # n" "CHR ''|'' \<notin> set p" "CHR ''|'' \<notin> set n" by simp_all
  then show ?thesis by simp
qed

lemma stage_no_bar:
  assumes "STAGE_ID_PATTERN s"
  shows "CHR ''|'' \<notin> set s"
proof -
  define b where "b = (if s \<noteq> [] \<and> last s = CHR 0x0A then butlast s else s)"
  have ok: "b \<noteq> []" "lower_ascii (hd b)"
    "list_all (\<lambda>c. lower_ascii c \<or> digit_ascii c \<or> c = CHR ''_'' \<or> c = CHR ''-'') (tl b)"
    using assms by (simp_all add: STAGE_ID_PATTERN_def Let_def b_def)
  have "CHR ''|'' \<notin> set b" by (rule notin_hd_tl [where P = lower_ascii, OF ok]) simp_all
  moreover have "s = b \<or> s = b @ [CHR 0x0A]"
  proof (cases "s \<noteq> [] \<and> last s = CHR 0x0A")
    case True
    then show ?thesis using append_butlast_last_id [of s] by (simp add: b_def)
  qed (auto simp: b_def)
  ultimately show ?thesis by auto
qed

lemma class_no_bar: "CHR ''|'' \<notin> set (artifact_class_value c)"
  by (cases c) simp_all

text \<open>The envelope constructor accepts.\<close>

lemma new_artifact_envelopeD:
  assumes "new_artifact_envelope e = Inr f"
  shows "f = e" "ae_schema_version e = ''3.0''" "STORY_ID_PATTERN (ae_story_id e)" "ae_run_id e \<noteq> []"
    "STAGE_ID_PATTERN (ae_stage e)" "1 \<le> ae_attempt e" "ae_started_at e \<le> ae_finished_at e"
  using assms by (auto simp: new_artifact_envelope_def ENVELOPE_SCHEMA_VERSION_def split: if_splits)

definition valid_envelope :: "artifact_envelope \<Rightarrow> bool" where
  "valid_envelope e \<longleftrightarrow> new_artifact_envelope e = Inr e"

definition envelope_key :: "artifact_envelope \<Rightarrow> artifact_key" where
  "envelope_key e = (ae_story_id e, ae_run_id e, ae_stage e, ae_attempt e,
     artifact_class_value (ae_artifact_class e), pr_name (ae_producer e))"

lemma row_key_envelope [simp]: "row_key (envelope_to_row e) = envelope_key e"
  by (simp add: row_key_def envelope_to_row_def envelope_key_def)

text \<open>
  An envelope as it comes back from its row: its own, the members of every object of the payload in
  the order of their keys, which makes no difference to a Python dict. Written again it gives the
  same row.
\<close>

definition stored_form :: "artifact_envelope \<Rightarrow> artifact_envelope" where
  "stored_form e = e\<lparr>ae_payload := map_option (\<lambda>m. map (apsnd canon) (sort_key fst m)) (ae_payload e)\<rparr>"

lemma stored_form_sel [simp]:
  "ae_schema_version (stored_form e) = ae_schema_version e" "ae_story_id (stored_form e) = ae_story_id e"
  "ae_run_id (stored_form e) = ae_run_id e" "ae_stage (stored_form e) = ae_stage e" "ae_attempt (stored_form e) = ae_attempt e"
  "ae_producer (stored_form e) = ae_producer e" "ae_started_at (stored_form e) = ae_started_at e"
  "ae_finished_at (stored_form e) = ae_finished_at e" "ae_status (stored_form e) = ae_status e"
  "ae_artifact_class (stored_form e) = ae_artifact_class e"
  "ae_payload (stored_form e) = map_option (\<lambda>m. map (apsnd canon) (sort_key fst m)) (ae_payload e)"
  by (simp_all add: stored_form_def)

lemma payload_text_roundtrip:
  "payload_of_text (map_option (\<lambda>m. json_dumps (JObj m)) p) = Inr (map_option (\<lambda>m. map (apsnd canon) (sort_key fst m)) p)"
  by (cases p) (simp_all add: payload_of_text_def json_text_roundtrip json_of_wire_of canon_JObj del: json_dumps.simps wire_of.simps canon.simps)

lemma stored_form_row [simp]: "envelope_to_row (stored_form e) = envelope_to_row e"
  using dumps_canon [of "JObj m" for m]
  by (cases "ae_payload e") (simp_all add: envelope_to_row_def canon_JObj del: json_dumps.simps canon.simps dumps_canon)

lemma stored_form_key [simp]: "reference_from_envelope (stored_form e) = reference_from_envelope e" "envelope_key (stored_form e) = envelope_key e"
  by (simp_all add: reference_from_envelope_def envelope_key_def)

lemma new_stored_form: "new_artifact_envelope (stored_form e) = map_sum id stored_form (new_artifact_envelope e)"
  by (simp add: new_artifact_envelope_def)

lemma valid_stored_form [simp]: "valid_envelope e \<Longrightarrow> valid_envelope (stored_form e)"
  by (simp add: valid_envelope_def new_stored_form)

text \<open>A row read back is the envelope it was made of.\<close>

lemma row_roundtrip:
  assumes "valid_envelope e"
  shows "row_to_record (envelope_to_row e) = Inr (stored_form e)"
proof -
  have v: "new_artifact_envelope (stored_form e) = Inr (stored_form e)"
    using assms by (simp add: valid_envelope_def new_stored_form)
  have "\<lparr>ae_schema_version = ''3.0'', ae_story_id = ae_story_id e, ae_run_id = ae_run_id e, ae_stage = ae_stage e,
      ae_attempt = ae_attempt e, ae_producer = \<lparr>pr_type = pr_type (ae_producer e), pr_name = pr_name (ae_producer e),
        pr_id = pr_id (ae_producer e), pr_version = pr_version (ae_producer e)\<rparr>,
      ae_started_at = ae_started_at e, ae_finished_at = ae_finished_at e, ae_status = ae_status e,
      ae_artifact_class = ae_artifact_class e, ae_payload = ae_payload (stored_form e)\<rparr> = stored_form e"
    using new_artifact_envelopeD(2) [OF v] by (simp add: stored_form_def)
  then show ?thesis
    using v by (simp add: row_to_record_def envelope_to_row_def enum_or_raise_def payload_text_roundtrip del: json_dumps.simps)
qed

text \<open>The record key of an envelope parses back to its key when its run id has no separator.\<close>

lemma parse_key_of_reference:
  assumes "valid_envelope e" and "CHR ''|'' \<notin> set (ae_run_id e)"
  shows "parse_record_key (af_record_key (reference_from_envelope e)) = Inr (envelope_key e)"
proof -
  note v = new_artifact_envelopeD [OF assms(1) [unfolded valid_envelope_def]]
  have n: "show_int (ae_attempt e) = show_nat (nat (ae_attempt e))" using v(6) by (simp add: show_int_def)
  have "split_max CHR ''|'' 5 (af_record_key (reference_from_envelope e))
      = [ae_story_id e, ae_run_id e, ae_stage e, show_nat (nat (ae_attempt e)),
         artifact_class_value (ae_artifact_class e), pr_name (ae_producer e)]"
    using story_id_no_bar [OF v(3)] stage_no_bar [OF v(5)] assms(2) class_no_bar bar_notin_digits
    by (simp add: reference_from_envelope_def record_key_def n numeral_eq_Suc split_max_cons del: split_max.simps(2))
  then show ?thesis
    using v(6) py_int_show_nat by (simp add: parse_record_key_def envelope_key_def)
qed

lemma split_max_parts: "x \<in> set (butlast (split_max sep n s)) \<Longrightarrow> sep \<notin> set x"
proof (induction sep n s rule: split_max.induct)
  case (2 sep n s)
  show ?case
  proof (cases "dropWhile (\<lambda>c. c \<noteq> sep) s")
    case (Cons c rest)
    then have "x = takeWhile (\<lambda>c. c \<noteq> sep) s \<or> x \<in> set (butlast (split_max sep n rest))"
      using 2(2) by (auto split: if_splits)
    then show ?thesis using 2(1) [OF Cons] set_takeWhileD by fastforce
  next
    case Nil
    then have "split_max sep (Suc n) s = [s]" by (simp only: split_max.simps list.case)
    then show ?thesis using 2(2) by (metis butlast.simps(2) empty_iff list.set(1))
  qed
qed simp

lemma parsed_run_id: "parse_record_key k = Inr (a, b, c) \<Longrightarrow> CHR ''|'' \<notin> set b"
  using split_max_parts [of b "CHR ''|''" 5 k]
  by (auto simp: parse_record_key_def split: list.splits option.splits)

lemma row_to_record_fields:
  assumes "row_to_record r = Inr e"
  shows "valid_envelope e" "ae_run_id e = aw_run_id r" "ae_attempt e = aw_attempt r"
  using assms by (auto simp: row_to_record_def valid_envelope_def split: sum.splits dest: new_artifact_envelopeD(1))

section \<open>Reading and writing\<close>

lemma map_sum_Some [simp]: "map_sum id Some r = Inr (Some x) \<longleftrightarrow> r = Inr x"
  by (cases r) simp_all

lemma read_envelope_run:
  "read_envelope rp ref s = (case parse_record_key (af_record_key ref) of
      Inl _ \<Rightarrow> (Inr None, s)
    | Inr k \<Rightarrow> (case List.find (\<lambda>r. row_key r = k) (rp_rows rp s) of
        None \<Rightarrow> (Inr None, s)
      | Some r \<Rightarrow> (map_sum id Some (row_to_record r), s)))"
  by (simp add: read_envelope_def bind_io_def io_run split: sum.split option.split)

lemma manager_read_run:
  "fst (manager_read m ref s) = (case fst (read_envelope (am_repository m) ref s) of
      Inl x \<Rightarrow> Inl x
    | Inr None \<Rightarrow> Inl (ArtifactNotFoundError (''No artifact found for reference: record_key=''
        @ py_repr (af_record_key ref)))
    | Inr (Some e) \<Rightarrow> Inr e)"
  by (cases "read_envelope (am_repository m) ref s")
    (simp add: manager_read_def bind_io_def io_run split: sum.split option.split)

text \<open>What the manager relies on.\<close>

locale artifact_table =
  fixes rp :: "'s artifact_repository"
  assumes get_set: "rp_rows rp (rp_set_rows rp rows s) = rows"
    and fence_leaves: "rp_rows rp (snd (rp_fence rp e s)) = rp_rows rp s"
    and pick_in: "rows \<noteq> [] \<Longrightarrow> rp_pick rp rows \<in> set rows"
begin

lemma write_run:
  assumes "write_envelope rp e s = (r, t)"
  shows "case r of
      Inr ref \<Rightarrow> ref = reference_from_envelope e
        \<and> rp_rows rp t = upsert row_key (envelope_to_row e) (rp_rows rp s)
    | Inl _ \<Rightarrow> rp_rows rp t = rp_rows rp s"
proof -
  obtain q u where u: "rp_fence rp e s = (q, u)" by (cases "rp_fence rp e s")
  then have "rp_rows rp u = rp_rows rp s" using fence_leaves [of e s] by simp
  then show ?thesis
    using assms u get_set by (cases q) (auto simp: write_envelope_def seq_io_def bind_io_def io_run)
qed

lemma manager_write_run:
  assumes "manager_write m e s = (r, t)" and "am_repository m = rp"
  shows "case r of
      Inr ref \<Rightarrow> envelope_validate (am_registry m) e = Inr () \<and> ref = reference_from_envelope e
        \<and> rp_rows rp t = upsert row_key (envelope_to_row e) (rp_rows rp s)
    | Inl _ \<Rightarrow> rp_rows rp t = rp_rows rp s"
  using assms write_run [of e s r t]
  by (cases "envelope_validate (am_registry m) e")
    (auto simp: manager_write_def seq_io_def bind_io_def io_run split: sum.splits)

lemma find_latest_run:
  assumes "\<forall>r \<in> set (rp_rows rp s). \<exists>e. valid_envelope e \<and> r = envelope_to_row e"
  shows "case fst (find_latest_envelope rp sid run cls stage s) of
      Inl _ \<Rightarrow> False
    | Inr None \<Rightarrow> \<forall>r \<in> set (rp_rows rp s). \<not> in_scope sid run cls stage r
    | Inr (Some e) \<Rightarrow> valid_envelope e \<and> envelope_to_row e \<in> set (rp_rows rp s)
        \<and> in_scope sid run cls stage (envelope_to_row e)
        \<and> (\<forall>r \<in> set (rp_rows rp s). in_scope sid run cls stage r \<longrightarrow> aw_attempt r \<le> ae_attempt e)"
proof -
  define rows where "rows = filter (in_scope sid run cls stage) (rp_rows rp s)"
  show ?thesis
  proof (cases "rows = []")
    case True
    then show ?thesis
      by (auto simp: find_latest_envelope_def bind_io_def io_run rows_def filter_empty_conv)
  next
    case False
    let ?M = "Max (set (map aw_attempt rows))"
    have "?M \<in> set (map aw_attempt rows)" using False by (intro Max_in) auto
    then have "newest rows \<noteq> []" by (auto simp: newest_def filter_empty_conv)
    then have r: "rp_pick rp (newest rows) \<in> set (newest rows)" by (rule pick_in)
    then obtain e where e: "valid_envelope e" "rp_pick rp (newest rows) = envelope_to_row e"
      using assms by (force simp: newest_def rows_def)
    have "aw_attempt x \<le> ?M" if "x \<in> set rows" for x using that by (intro Max_ge) auto
    moreover have "ae_attempt e = ?M" using r e(2) by (simp add: newest_def envelope_to_row_def)
    ultimately have "\<forall>x \<in> set rows. aw_attempt x \<le> ae_attempt e" by simp
    moreover have "find_latest_envelope rp sid run cls stage s = (Inr (Some (stored_form e)), s)"
      using False e row_roundtrip [OF e(1)]
      by (simp add: find_latest_envelope_def bind_io_def io_run rows_def [symmetric])
    ultimately show ?thesis using e r by (auto simp: newest_def rows_def)
  qed
qed

end

interpretation sqlite: artifact_table sqlite_repository
  by unfold_locales (simp_all add: sqlite_repository_def ret_def)


definition demo_manager :: "artifact_row list artifact_manager" where
  "demo_manager = \<lparr>am_repository = sqlite_repository,
     am_registry = register_verify_producers new_producer_registry\<rparr>"

definition demo_envelope :: "string \<Rightarrow> int \<Rightarrow> artifact_envelope" where
  "demo_envelope run_id attempt = \<lparr>ae_schema_version = ''3.0'', ae_story_id = ''AG3-42'', ae_run_id = run_id,
     ae_stage = ''qa-layer-structural'', ae_attempt = attempt,
     ae_producer = \<lparr>pr_type = Producer_DETERMINISTIC, pr_name = ''verify-system.layer-1-structural'',
       pr_id = ''p'', pr_version = None\<rparr>,
     ae_started_at = 0, ae_finished_at = 0, ae_status = Envelope_PASS, ae_artifact_class = Class_QA,
     ae_payload = None\<rparr>"

lemma demo_registry: "register_verify_producers g Class_QA ''verify-system.layer-1-structural''
    = Some Producer_DETERMINISTIC"
  by (simp add: register_verify_producers_def VERIFY_PRODUCERS_def register_producer_def)

lemma demo_envelope_ok: "r \<noteq> [] \<Longrightarrow> 1 \<le> n \<Longrightarrow> new_artifact_envelope (demo_envelope r n) = Inr (demo_envelope r n)"
  by (simp add: new_artifact_envelope_def demo_envelope_def ENVELOPE_SCHEMA_VERSION_def STORY_ID_PATTERN_def
      STAGE_ID_PATTERN_def upper_ascii_def lower_ascii_def digit_ascii_def digit_val_def)

lemma demo_write:
  "1 \<le> n \<Longrightarrow> manager_write demo_manager (demo_envelope r n) rows
    = (Inr (reference_from_envelope (demo_envelope r n)),
       upsert row_key (envelope_to_row (demo_envelope r n)) rows)"
  by (simp add: manager_write_def seq_io_def bind_io_def io_run demo_manager_def envelope_validate_def
      and_then_def registry_validate_def demo_registry write_envelope_def sqlite_repository_def demo_envelope_def)

lemma demo_table: "artifact_table (am_repository demo_manager)"
  by (simp add: demo_manager_def sqlite.artifact_table_axioms)


section \<open>The latest attempt\<close>

text \<open>The states after any sequence of writes to an empty table, accepted or refused.\<close>

inductive artifact_history :: "'s artifact_manager \<Rightarrow> 's \<Rightarrow> bool" for m :: "'s artifact_manager" where
  empty_table: "rp_rows (am_repository m) s = [] \<Longrightarrow> artifact_history m s"
| next_write: "artifact_history m s \<Longrightarrow> new_artifact_envelope e = Inr e \<Longrightarrow> manager_write m e s = (r, t) \<Longrightarrow>
    artifact_history m t"

lemma history_rows:
  assumes table: "artifact_table (am_repository m)" and "artifact_history m s"
  shows "\<forall>r \<in> set (rp_rows (am_repository m) s). \<exists>e. valid_envelope e \<and> r = envelope_to_row e"
  using assms(2)
proof (induction rule: artifact_history.induct)
  case (next_write s e r t)
  have "case r of Inr ref \<Rightarrow> envelope_validate (am_registry m) e = Inr () \<and> ref = reference_from_envelope e
        \<and> rp_rows (am_repository m) t = upsert row_key (envelope_to_row e) (rp_rows (am_repository m) s)
    | Inl _ \<Rightarrow> rp_rows (am_repository m) t = rp_rows (am_repository m) s"
    by (rule artifact_table.manager_write_run [OF table next_write.hyps(3) refl])
  then have "set (rp_rows (am_repository m) t)
      \<subseteq> insert (envelope_to_row e) (set (rp_rows (am_repository m) s))"
    using set_upsert [of row_key "envelope_to_row e" "rp_rows (am_repository m) s"]
    by (auto split: sum.splits)
  moreover have "valid_envelope e" using next_write.hyps(2) by (simp add: valid_envelope_def)
  ultimately show ?case using next_write.IH by blast
qed simp

text \<open>
  Whatever was written before, \<open>read_latest\<close> gives a valid envelope of the asked story, run, class and
  stage with the highest attempt stored for them; it raises exactly when there is none, and then
  the not-found error. No stored row is unreadable.
\<close>
theorem latest_attempt_is_read:
  assumes table: "artifact_table (am_repository m)" and history: "artifact_history m s"
  shows "case fst (manager_read_latest m sid run cls stage s) of
      Inr e \<Rightarrow> new_artifact_envelope e = Inr e
        \<and> envelope_to_row e \<in> set (rp_rows (am_repository m) s)
        \<and> in_scope sid run cls stage (envelope_to_row e)
        \<and> (\<forall>r \<in> set (rp_rows (am_repository m) s). in_scope sid run cls stage r \<longrightarrow> aw_attempt r \<le> ae_attempt e)
    | Inl x \<Rightarrow> (\<exists>msg. x = ArtifactNotFoundError msg)
        \<and> (\<forall>r \<in> set (rp_rows (am_repository m) s). \<not> in_scope sid run cls stage r)"
  using artifact_table.find_latest_run [OF table history_rows [OF table history], of sid run cls stage]
  by (cases "find_latest_envelope (am_repository m) sid run cls stage s")
    (auto simp: manager_read_latest_def bind_io_def io_run valid_envelope_def split: sum.splits option.splits)

lemma latest_attempt_is_read_witness:
  "case fst (manager_read_latest demo_manager ''AG3-42'' None Class_QA ''qa-layer-structural''
      [envelope_to_row (demo_envelope ''r1'' 1), envelope_to_row (demo_envelope ''r1'' 2)]) of
      Inr e \<Rightarrow> ae_attempt e = 2
    | Inl _ \<Rightarrow> False"
proof -
  let ?s = "[envelope_to_row (demo_envelope ''r1'' 1), envelope_to_row (demo_envelope ''r1'' 2)]"
  have "artifact_history demo_manager []"
    by (rule empty_table) (simp add: demo_manager_def sqlite_repository_def)
  from next_write [OF this demo_envelope_ok demo_write, of "''r1''" 1]
  have "artifact_history demo_manager [envelope_to_row (demo_envelope ''r1'' 1)]" by (simp add: upsert_def)
  from next_write [OF this demo_envelope_ok demo_write, of "''r1''" 2]
  have "artifact_history demo_manager ?s" by (simp add: upsert_def row_key_def envelope_to_row_def demo_envelope_def)
  from latest_attempt_is_read [OF demo_table this, of "''AG3-42''" None Class_QA "''qa-layer-structural''"]
  show ?thesis
    by (auto simp: demo_manager_def sqlite_repository_def in_scope_def envelope_to_row_def demo_envelope_def
        split: sum.splits)
qed

section \<open>Refusals\<close>

text \<open>
  A write is accepted exactly when the producer is registered for the class with its type, the status
  is allowed for the class and the counters are in order; a refused one leaves the table alone.
\<close>
lemma envelope_validate_ok:
  "envelope_validate g e = Inr () \<longleftrightarrow>
    g (ae_artifact_class e) (pr_name (ae_producer e)) = Some (pr_type (ae_producer e))
    \<and> 1 \<le> ae_attempt e \<and> ae_status e \<in> set (ALLOWED_STATUSES (ae_artifact_class e))
    \<and> ae_started_at e \<le> ae_finished_at e"
  by (auto simp: envelope_validate_def registry_validate_def and_then_def Let_def split: option.splits)

lemma register_again: "register_producer c n t (register_producer c n t g) = register_producer c n t g"
  by (simp add: register_producer_def)

end
