(* ===== verification/Llm_Evaluator.thy ===== *)
theory Llm_Evaluator
  imports Review_Bundle Qa_Cycle Artifacts
begin

text \<open>
  The structured evaluator (\<open>verify_system/llm_evaluator/\<close>: \<open>roles.py\<close>, \<open>structured_evaluator.py\<close>,
  \<open>structured_evaluator_parsing.py\<close>, \<open>parallel_runner.py\<close>): one role asks a language model, reads the
  checks out of its answer in two stages, demands that they cover the required checks exactly, and
  turns them into findings, resolutions and a verdict.

  The language model, the materialisation of prompts, the monotonic clock, the telemetry emitter and
  SHA-256 are parameters. Searches see bytes; word boundaries and case are those of ASCII. Error messages
  are kept to what tells the branches apart.
\<close>

section \<open>Roles\<close>

datatype llm_verdict = Llm_PASS | Llm_FAIL | Llm_PASS_WITH_CONCERNS

fun llm_verdict_value :: "llm_verdict \<Rightarrow> string" where
  "llm_verdict_value Llm_PASS = ''PASS''"
| "llm_verdict_value Llm_FAIL = ''FAIL''"
| "llm_verdict_value Llm_PASS_WITH_CONCERNS = ''PASS_WITH_CONCERNS''"

definition llm_verdicts :: "llm_verdict list" where
  "llm_verdicts = [Llm_PASS, Llm_FAIL, Llm_PASS_WITH_CONCERNS]"

interpretation llm_verdict: str_enum llm_verdict_value llm_verdicts
proof unfold_locales
  show "x \<in> set llm_verdicts" for x by (cases x) (simp_all add: llm_verdicts_def)
qed (simp add: llm_verdicts_def)

datatype reviewer_role = Role_QA_REVIEW | Role_SEMANTIC_REVIEW | Role_DOC_FIDELITY | Role_STORY_CREATION_REVIEW

fun role_value :: "reviewer_role \<Rightarrow> string" where
  "role_value Role_QA_REVIEW = ''qa_review''"
| "role_value Role_SEMANTIC_REVIEW = ''semantic_review''"
| "role_value Role_DOC_FIDELITY = ''doc_fidelity''"
| "role_value Role_STORY_CREATION_REVIEW = ''story_creation_review''"

text \<open>A frozen set is the list of its members in code point order.\<close>

fun ROLE_CHECK_IDS :: "reviewer_role \<Rightarrow> string list" where
  "ROLE_CHECK_IDS Role_QA_REVIEW = [''ac_fulfilled'', ''arch_conformity'', ''authz_logic'',
     ''backward_compat'', ''doc_impact'', ''error_handling'', ''impact_violation'', ''impl_fidelity'',
     ''observability'', ''proportionality'', ''scope_compliance'', ''silent_data_loss'']"
| "ROLE_CHECK_IDS Role_SEMANTIC_REVIEW = [''systemic_adequacy'']"
| "ROLE_CHECK_IDS Role_DOC_FIDELITY = [''impl_fidelity'']"
| "ROLE_CHECK_IDS Role_STORY_CREATION_REVIEW = [''conflict_assessment'']"

text \<open>A \<open>PASS\<close> has no severity: the lookup is only made for the other two.\<close>

fun STATUS_SEVERITY :: "llm_verdict \<Rightarrow> severity option" where
  "STATUS_SEVERITY Llm_FAIL = Some Severity_BLOCKING"
| "STATUS_SEVERITY Llm_PASS_WITH_CONCERNS = Some Severity_MINOR"
| "STATUS_SEVERITY Llm_PASS = None"

section \<open>Checks of a response\<close>

record llm_check =
  ck_check_id :: string
  ck_status :: llm_verdict
  ck_reason :: string
  ck_description :: string
  ck_resolution :: "string option"

text \<open>\<open>json.loads\<close> with \<open>_reject_duplicate_keys\<close>: an object anywhere with a repeated key is refused.\<close>

fun repeats_a_key :: "wire \<Rightarrow> bool" where
  "repeats_a_key (WList vs) = (\<exists>v \<in> set vs. repeats_a_key v)"
| "repeats_a_key (WObj m) = (\<not> distinct (map fst m) \<or> (\<exists>kv \<in> set m. repeats_a_key (snd kv)))"
| "repeats_a_key _ = False"

definition loads_without_duplicates :: "string \<Rightarrow> wire option" where
  "loads_without_duplicates s = (case json_loads s of
      None \<Rightarrow> None
    | Some v \<Rightarrow> if repeats_a_key v then None else Some v)"

text \<open>The validation of one check: no unknown field, texts where texts are expected.\<close>

definition text_field :: "(string \<times> wire) list \<Rightarrow> string \<Rightarrow> string option \<Rightarrow> string option" where
  "text_field m k dflt = (case map_of m k of
      None \<Rightarrow> dflt
    | Some (WStr s) \<Rightarrow> Some s
    | Some _ \<Rightarrow> None)"

definition check_of_wire :: "wire \<Rightarrow> llm_check option" where
  "check_of_wire w = (case w of
      WObj m \<Rightarrow>
        if \<not> set (map fst m) \<subseteq> {''check_id'', ''status'', ''reason'', ''description'', ''resolution''} then None
        else (case (text_field m ''check_id'' None, text_field m ''status'' None, text_field m ''reason'' (Some []),
                    text_field m ''description'' (Some [])) of
            (Some i, Some st, Some r, Some d) \<Rightarrow> (case enum_of llm_verdict_value llm_verdicts st of
                None \<Rightarrow> None
              | Some v \<Rightarrow> (case map_of m ''resolution'' of
                    None \<Rightarrow> Some \<lparr>ck_check_id = i, ck_status = v, ck_reason = r, ck_description = d, ck_resolution = None\<rparr>
                  | Some WNull \<Rightarrow> Some \<lparr>ck_check_id = i, ck_status = v, ck_reason = r, ck_description = d, ck_resolution = None\<rparr>
                  | Some (WStr x) \<Rightarrow> Some \<lparr>ck_check_id = i, ck_status = v, ck_reason = r, ck_description = d, ck_resolution = Some x\<rparr>
                  | Some _ \<Rightarrow> None))
          | _ \<Rightarrow> None)
    | _ \<Rightarrow> None)"

fun checks_of_wires :: "wire list \<Rightarrow> llm_check list option" where
  "checks_of_wires [] = Some []"
| "checks_of_wires (w # ws) = (case check_of_wire w of
      None \<Rightarrow> None
    | Some c \<Rightarrow> map_option (Cons c) (checks_of_wires ws))"

subsection \<open>Stage 2: the JSON in the answer\<close>

definition json_fence_open :: string where
  "json_fence_open = ''```json''"

definition fence_close :: string where
  "fence_close = ''```''"

definition extract_json_fence :: "string \<Rightarrow> string option" where
  "extract_json_fence s = (case py_find json_fence_open s of
      None \<Rightarrow> None
    | Some i \<Rightarrow> (let inner = dropWhile is_space (drop (i + length json_fence_open) s) in
        (case py_find fence_close inner of
           None \<Rightarrow> None
         | Some j \<Rightarrow> Some (py_strip (take j inner)))))"

text \<open>From the first opening to the last closing, the closing included.\<close>

definition bracketed :: "string \<Rightarrow> string \<Rightarrow> string \<Rightarrow> string option" where
  "bracketed opening closing s = (case (py_find opening s, py_rfind closing s) of
      (Some i, Some j) \<Rightarrow> if i < j then Some (slice i (j + length closing) s) else None
    | _ \<Rightarrow> None)"

definition candidates :: "string \<Rightarrow> string list" where
  "candidates s =
    [s] @ (case extract_json_fence s of None \<Rightarrow> [] | Some t \<Rightarrow> [t])
      @ (case bracketed ''[{'' ''}]'' s of None \<Rightarrow> [] | Some t \<Rightarrow> [py_strip t])
      @ (case bracketed ''['' '']'' s of None \<Rightarrow> [] | Some t \<Rightarrow> [t])"

definition candidate_checks :: "string \<Rightarrow> llm_check list option" where
  "candidate_checks s = (case loads_without_duplicates s of
      Some (WList ws) \<Rightarrow> checks_of_wires ws
    | _ \<Rightarrow> None)"

text \<open>The first candidate that is an array of checks; \<open>None\<close> is the error of stage 2.\<close>

fun first_checks :: "string list \<Rightarrow> llm_check list option" where
  "first_checks [] = None"
| "first_checks (s # ss) = (case candidate_checks s of Some cs \<Rightarrow> Some cs | None \<Rightarrow> first_checks ss)"

definition stage2_extract_json :: "string \<Rightarrow> llm_check list option" where
  "stage2_extract_json raw = first_checks (candidates (py_strip raw))"

subsection \<open>Stage 3: the words of the answer\<close>

definition word_char :: "char \<Rightarrow> bool" where
  "word_char c = (let n = of_char c in (48::nat) \<le> n \<and> n \<le> 57 \<or> 65 \<le> n \<and> n \<le> 90 \<or> 97 \<le> n \<and> n \<le> 122 \<or> n = 95)"

text \<open>\<open>\b(PASS_WITH_CONCERNS|PASS|FAIL)\b\<close>, in any case\<close>

definition status_words :: "(string \<times> llm_verdict) list" where
  "status_words = [(''PASS_WITH_CONCERNS'', Llm_PASS_WITH_CONCERNS), (''PASS'', Llm_PASS), (''FAIL'', Llm_FAIL)]"

definition ends_word :: "string \<Rightarrow> bool" where
  "ends_word rest = (rest = [] \<or> \<not> word_char (hd rest))"

definition status_at :: "string \<Rightarrow> (string \<times> llm_verdict) option" where
  "status_at s = List.find (\<lambda>(w, v). py_upper (take (length w) s) = w \<and> ends_word (drop (length w) s)) status_words"

text \<open>\<open>search\<close>: the flag says whether the character before is one of a word.\<close>

fun status_search :: "bool \<Rightarrow> string \<Rightarrow> llm_verdict option" where
  "status_search in_word [] = None"
| "status_search in_word (c # cs) =
    (case (if in_word then None else status_at (c # cs)) of
       Some (w, v) \<Rightarrow> Some v
     | None \<Rightarrow> status_search (word_char c) cs)"

text \<open>\<open>findall\<close>: after a match, whose characters are all of a word, the search goes on behind it.\<close>

fun status_findall :: "nat \<Rightarrow> bool \<Rightarrow> string \<Rightarrow> llm_verdict list" where
  "status_findall skip in_word [] = []"
| "status_findall (Suc k) in_word (c # cs) = status_findall k (word_char c) cs"
| "status_findall 0 in_word (c # cs) =
    (case (if in_word then None else status_at (c # cs)) of
       Some (w, v) \<Rightarrow> v # status_findall (length w - 1) (word_char c) cs
     | None \<Rightarrow> status_findall 0 (word_char c) cs)"

text \<open>\<open>"name"\s*:\s*"([^"]*)"\<close>, in any case\<close>

definition field_at :: "string \<Rightarrow> string \<Rightarrow> string option" where
  "field_at name s =
    (let key = [dquote] @ name @ [dquote] in
     if py_lower (take (length key) s) \<noteq> key then None
     else (case dropWhile is_space (drop (length key) s) of
         c # cs \<Rightarrow> if c \<noteq> CHR '':'' then None
           else (case dropWhile is_space cs of
               d # ds \<Rightarrow> if d = dquote \<and> dquote \<in> set ds then Some (takeWhile (\<lambda>x. x \<noteq> dquote) ds) else None
             | [] \<Rightarrow> None)
       | [] \<Rightarrow> None))"

fun field_search :: "string \<Rightarrow> string \<Rightarrow> string option" where
  "field_search name [] = None"
| "field_search name (c # cs) = (case field_at name (c # cs) of Some t \<Rightarrow> Some t | None \<Rightarrow> field_search name cs)"

definition some_text :: "string option \<Rightarrow> string" where
  "some_text x = (case x of Some t \<Rightarrow> t | None \<Rightarrow> [])"

text \<open>
  The region of a check id: fifty characters before it and five hundred from it on. The word before
  the region is cut off, so that the region starts at a word boundary.
\<close>

definition extract_check_near_id :: "string \<Rightarrow> string \<Rightarrow> llm_check option" where
  "extract_check_near_id s check_id = (case py_find check_id s of
      None \<Rightarrow> None
    | Some pos \<Rightarrow> (let region = slice (pos - 50) (pos + 500) s in
        map_option (\<lambda>v. \<lparr>ck_check_id = check_id, ck_status = v,
             ck_reason = some_text (field_search ''reason'' region),
             ck_description = some_text (field_search ''description'' region), ck_resolution = None\<rparr>)
          (status_search False region)))"

definition sequential_status_checks :: "string \<Rightarrow> string list \<Rightarrow> llm_check list" where
  "sequential_status_checks s sorted_ids =
    (let statuses = status_findall 0 False s in
     if length statuses < length sorted_ids then []
     else map (\<lambda>(i, v). \<lparr>ck_check_id = i, ck_status = v, ck_reason = [], ck_description = [], ck_resolution = None\<rparr>)
            (zip sorted_ids statuses))"

definition sorted_ids :: "string list \<Rightarrow> string list" where
  "sorted_ids ids = sorted_list_of_set (set ids)"

definition stage3_regex_fallback :: "string \<Rightarrow> string list \<Rightarrow> llm_check list option" where
  "stage3_regex_fallback s expected_ids =
    (let ids = sorted_ids expected_ids;
         near = List.map_filter (extract_check_near_id s) ids;
         checks = (if near = [] then sequential_status_checks s ids else near) in
     if checks = [] then None else Some checks)"

definition parse_response_three_stage :: "string \<Rightarrow> reviewer_role \<Rightarrow> string list \<Rightarrow> exn + llm_check list" where
  "parse_response_three_stage raw role expected_ids = (case stage2_extract_json raw of
      Some cs \<Rightarrow> Inr cs
    | None \<Rightarrow> (case stage3_regex_fallback raw expected_ids of
        Some cs \<Rightarrow> Inr cs
      | None \<Rightarrow> Inl (StructuredEvaluatorError (''LLM response for role='' @ py_repr (role_value role)
          @ '' failed all parse stages (FK-11 '' @ section_sign @ ''11.4.4 fail-closed).''))))"

section \<open>The required checks\<close>

definition FINDING_RESOLUTION_PREFIX :: string where
  "FINDING_RESOLUTION_PREFIX = ''finding_resolution_''"

definition finding_resolution_id :: "finding \<Rightarrow> string" where
  "finding_resolution_id f = joined_key (finding_key f)"

definition parse_finding_resolution_key :: "string \<Rightarrow> exn + finding_key" where
  "parse_finding_resolution_key suffix = (case split_on (CHR '':'') suffix of
      [layer, check] \<Rightarrow>
        if layer \<noteq> [] \<and> check \<noteq> [] then Inr (layer, check)
        else Inl (StructuredEvaluatorError (''finding-resolution id suffix '' @ py_repr suffix @ '' is not a valid layer:check key''))
    | _ \<Rightarrow> Inl (StructuredEvaluatorError (''finding-resolution id suffix '' @ py_repr suffix @ '' is not a valid layer:check key'')))"

definition required_check_ids ::
  "reviewer_role \<Rightarrow> finding list option \<Rightarrow> int \<Rightarrow> string list option \<Rightarrow> string list \<times> string list" where
  "required_check_ids role previous qa_round expected =
    (let mandatory = (case expected of Some ids \<Rightarrow> ids | None \<Rightarrow> ROLE_CHECK_IDS role) in
     case previous of
       None \<Rightarrow> (mandatory, [])
     | Some fs \<Rightarrow>
         if qa_round < 2 \<or> fs = [] then (mandatory, [])
         else (mandatory, map (\<lambda>f. FINDING_RESOLUTION_PREFIX @ finding_resolution_id f)
                 (filter (\<lambda>f. fd_layer f = role_value role) fs)))"

definition validate_completeness ::
  "reviewer_role \<Rightarrow> llm_check list \<Rightarrow> string list \<Rightarrow> string list \<Rightarrow> exn + unit" where
  "validate_completeness role checks mandatory resolution_required =
    (let seen = map ck_check_id checks in
     if \<not> distinct seen
     then Inl (StructuredEvaluatorError (''LLM response for role='' @ py_repr (role_value role)
            @ '' has duplicate check_id(s)''))
     else if set seen \<noteq> set mandatory \<union> set resolution_required
     then Inl (StructuredEvaluatorError (''LLM response for role='' @ py_repr (role_value role)
            @ '' is not an exact cover of the required checks''))
     else Inr ())"

section \<open>From checks to findings\<close>

definition require_reason :: "reviewer_role \<Rightarrow> llm_check \<Rightarrow> exn + unit" where
  "require_reason role c =
    (if ck_status c \<noteq> Llm_PASS \<and> py_strip (ck_reason c) = []
     then Inl (StructuredEvaluatorError (''check '' @ py_repr (ck_check_id c) @ '' for role='' @ py_repr (role_value role)
            @ '' has status '' @ py_repr (llm_verdict_value (ck_status c)) @ '' but an empty reason''))
     else Inr ())"

definition is_resolution_check :: "llm_check \<Rightarrow> bool" where
  "is_resolution_check c = starts_with FINDING_RESOLUTION_PREFIX (ck_check_id c)"

definition resolution_of_check ::
  "reviewer_role \<Rightarrow> llm_check \<Rightarrow> exn + (finding_key \<times> finding_resolution_status)" where
  "resolution_of_check role c =
    (case (case ck_resolution c of None \<Rightarrow> None | Some r \<Rightarrow> enum_of resolution_value resolution_statuses r) of
       None \<Rightarrow> Inl (StructuredEvaluatorError (''finding-resolution check '' @ py_repr (ck_check_id c)
         @ '' for role='' @ py_repr (role_value role) @ '' has an invalid resolution''))
     | Some status \<Rightarrow> (case require_reason role c of
         Inl e \<Rightarrow> Inl e
       | Inr _ \<Rightarrow> (case parse_finding_resolution_key (drop (length FINDING_RESOLUTION_PREFIX) (ck_check_id c)) of
           Inl e \<Rightarrow> Inl e
         | Inr key \<Rightarrow> Inr (key, status))))"

definition check_message :: "llm_check \<Rightarrow> string \<Rightarrow> string" where
  "check_message c status =
    (if ck_reason c \<noteq> [] then ck_reason c
     else if ck_description c \<noteq> [] then ck_description c
     else ck_check_id c @ '': '' @ status)"

definition check_finding :: "reviewer_role \<Rightarrow> llm_check \<Rightarrow> severity \<Rightarrow> string \<Rightarrow> finding" where
  "check_finding role c severity status =
     new_finding (role_value role) (ck_check_id c) severity (check_message c status) Trust_VERIFIED_LLM"

definition finding_from_check :: "reviewer_role \<Rightarrow> llm_check \<Rightarrow> finding" where
  "finding_from_check role c =
     check_finding role c (the (STATUS_SEVERITY (ck_status c))) (llm_verdict_value (ck_status c))"

definition resolution_finding :: "reviewer_role \<Rightarrow> llm_check \<Rightarrow> finding_resolution_status \<Rightarrow> finding" where
  "resolution_finding role c status = check_finding role c Severity_BLOCKING (resolution_value status)"

definition verdict_of :: "bool \<Rightarrow> bool \<Rightarrow> llm_verdict" where
  "verdict_of has_blocking has_concern =
    (if has_blocking then Llm_FAIL else if has_concern then Llm_PASS_WITH_CONCERNS else Llm_PASS)"

text \<open>The loop over the checks, with what it has collected so far.\<close>

record aggregation =
  ag_findings :: "finding list"
  ag_resolutions :: resolution_map
  ag_blocking :: bool
  ag_concern :: bool

fun aggregate_checks :: "reviewer_role \<Rightarrow> aggregation \<Rightarrow> llm_check list \<Rightarrow> exn + aggregation" where
  "aggregate_checks role a [] = Inr a"
| "aggregate_checks role a (c # cs) =
    (if is_resolution_check c
     then (case resolution_of_check role c of
         Inl e \<Rightarrow> Inl e
       | Inr (key, status) \<Rightarrow>
           (let a = a\<lparr>ag_resolutions := AList.update key status (ag_resolutions a)\<rparr> in
            aggregate_checks role
              (if status \<noteq> FULLY_RESOLVED
               then a\<lparr>ag_blocking := True, ag_findings := ag_findings a @ [resolution_finding role c status]\<rparr>
               else a) cs))
     else (case require_reason role c of
         Inl e \<Rightarrow> Inl e
       | Inr _ \<Rightarrow> aggregate_checks role
           (case ck_status c of
              Llm_FAIL \<Rightarrow> a\<lparr>ag_blocking := True, ag_findings := ag_findings a @ [finding_from_check role c]\<rparr>
            | Llm_PASS_WITH_CONCERNS \<Rightarrow> a\<lparr>ag_concern := True, ag_findings := ag_findings a @ [finding_from_check role c]\<rparr>
            | Llm_PASS \<Rightarrow> a) cs))"

definition no_aggregation :: aggregation where
  "no_aggregation = \<lparr>ag_findings = [], ag_resolutions = [], ag_blocking = False, ag_concern = False\<rparr>"

definition aggregate ::
  "reviewer_role \<Rightarrow> llm_check list \<Rightarrow> exn + (finding list \<times> resolution_map \<times> llm_verdict)" where
  "aggregate role checks = (case aggregate_checks role no_aggregation checks of
      Inl e \<Rightarrow> Inl e
    | Inr a \<Rightarrow> Inr (ag_findings a, ag_resolutions a, verdict_of (ag_blocking a) (ag_concern a)))"

section \<open>One evaluation\<close>

record llm_call =
  lx_story_id :: string
  lx_pool :: string
  lx_role :: string
  lx_retry :: nat
  lx_check_count :: nat
  lx_status :: string

text \<open>
  The evaluator: the transport, the prompt of a role for a bundle (with its template override), the
  clock, the optional emitter and the optional artifact manager.
\<close>

record 'x structured_evaluator =
  se_complete :: "string \<Rightarrow> string \<Rightarrow> ('x, string) qa_action"
  se_render :: "reviewer_role \<Rightarrow> review_bundle \<Rightarrow> string option \<Rightarrow> ('x, string \<times> string) qa_action"
  se_monotonic :: "('x, int) qa_action"
  se_resolve_pool :: "(string \<Rightarrow> ('x, string) qa_action) option"
  se_event_emitter :: "(llm_call \<Rightarrow> ('x, unit) qa_action) option"
  se_artifact_manager :: "'x qa_state artifact_manager option"
  se_sha256 :: "string \<Rightarrow> string"

record evaluator_result =
  ev_role :: reviewer_role
  ev_verdict :: llm_verdict
  ev_findings :: "finding list"
  ev_finding_resolutions :: resolution_map
  ev_raw_response_hash :: string
  ev_template_sha256 :: string
  ev_rendered_prompt :: string
  ev_raw_response :: string
  ev_retry_count :: nat
  ev_prompt_audit_status :: string

definition TOTAL_TIMEOUT_SECONDS :: int where
  "TOTAL_TIMEOUT_SECONDS = 2500"

definition SCHEMA_RETRY_HINT :: string where
  "SCHEMA_RETRY_HINT = join newline [[], [], ''## Response Format Reminder (RETRY)'',
     ''The previous response could not be parsed as a JSON array of check objects.'',
     ''You MUST respond with ONLY a valid JSON array. Each entry must have:'',
     ''  {\"check_id\": \"<id>\", \"status\": \"PASS|PASS_WITH_CONCERNS|FAIL\", \"reason\": \"<one-liner>\", \"description\": \"<optional>\"}'',
     ''No prose, no markdown fences around the array, just the raw JSON array.'']"

text \<open>Telemetry never blocks: a failing emitter, or a failing pool lookup, is swallowed.\<close>

definition pool_name :: "'x structured_evaluator \<Rightarrow> reviewer_role \<Rightarrow> ('x, string) qa_action" where
  "pool_name se role = (case se_resolve_pool se of
      None \<Rightarrow> ret ''unknown''
    | Some f \<Rightarrow> try_io (f (role_value role)) (\<lambda>r. ret (case r of Inl _ \<Rightarrow> ''unknown'' | Inr p \<Rightarrow> p)))"

definition emit_llm_call_event ::
  "'x structured_evaluator \<Rightarrow> reviewer_role \<Rightarrow> string \<Rightarrow> nat \<Rightarrow> nat \<Rightarrow> string \<Rightarrow> ('x, unit) qa_action" where
  "emit_llm_call_event se role story_id retry check_count status = (case se_event_emitter se of
      None \<Rightarrow> ret ()
    | Some sink \<Rightarrow> try_io (bind_io (pool_name se role) (\<lambda>pool. sink
        \<lparr>lx_story_id = story_id, lx_pool = pool, lx_role = role_value role, lx_retry = retry, lx_check_count = check_count, lx_status = status\<rparr>))
        (\<lambda>_. ret ()))"

definition complete_attempt ::
  "'x structured_evaluator \<Rightarrow> reviewer_role \<Rightarrow> string \<Rightarrow> string \<Rightarrow> nat \<Rightarrow> ('x, string) qa_action" where
  "complete_attempt se role story_id prompt attempt = try_io (se_complete se (role_value role) prompt) (\<lambda>r. case r of
      Inl e \<Rightarrow>
        if exn_type_name e = ''LlmClientError''
        then seq_io (emit_llm_call_event se role story_id attempt 0 ''transport_error'') (raise e)
        else raise e
    | Inr raw \<Rightarrow>
        if py_strip raw \<noteq> [] then ret raw
        else seq_io (emit_llm_call_event se role story_id attempt 0 ''empty_response'')
          (raise (LlmClientError (''LlmClient returned empty completion for role='' @ py_repr (role_value role)
            @ '' (FK-34 '' @ section_sign @ ''34.5.1 fail-closed).''))))"

definition raise_if_retry_budget_exhausted ::
  "'x structured_evaluator \<Rightarrow> nat \<Rightarrow> int \<Rightarrow> ('x, unit) qa_action" where
  "raise_if_retry_budget_exhausted se attempt eval_start =
    (if attempt \<noteq> 1 then ret ()
     else bind_io (se_monotonic se) (\<lambda>t.
       if t - eval_start < TOTAL_TIMEOUT_SECONDS then ret ()
       else raise (LlmClientError (''StructuredEvaluator TOTAL_TIMEOUT_SECONDS budget exhausted after first complete() attempt''))))"

definition PROMPT_AUDIT_PRODUCER_NAME :: string where
  "PROMPT_AUDIT_PRODUCER_NAME = ''prompt-runtime.materialization''"

definition role_slug :: "reviewer_role \<Rightarrow> string" where
  "role_slug role = map (\<lambda>c. if c = CHR ''_'' then CHR ''-'' else c) (role_value role)"

definition audit_envelope ::
  "reviewer_role \<Rightarrow> string \<Rightarrow> string \<Rightarrow> int \<Rightarrow> string \<Rightarrow> string \<Rightarrow> string \<Rightarrow> string \<Rightarrow> nat \<Rightarrow> int \<Rightarrow> artifact_envelope" where
  "audit_envelope role story_id run_id attempt prompt raw raw_hash template_hash retries t =
    \<lparr>ae_schema_version = ''3.0'', ae_story_id = story_id, ae_run_id = run_id,
     ae_stage = ''layer2-prompt-audit-'' @ role_slug role, ae_attempt = attempt,
     ae_producer = \<lparr>pr_type = Producer_DETERMINISTIC, pr_name = PROMPT_AUDIT_PRODUCER_NAME,
       pr_id = ''verify-layer2-'' @ role_slug role @ ''-'' @ run_id @ ''-'' @ pad3 (nat attempt), pr_version = None\<rparr>,
     ae_started_at = t, ae_finished_at = t, ae_status = Envelope_PASS, ae_artifact_class = Class_PROMPT_AUDIT,
     ae_payload = Some [(''role'', JStr (role_value role)), (''rendered_prompt'', JStr prompt),
       (''raw_response'', JStr raw), (''raw_response_hash'', JStr raw_hash),
       (''template_sha256'', JStr template_hash), (''retry_count'', JInt (int retries))]\<rparr>"

definition persist_prompt_audit ::
  "'x structured_evaluator \<Rightarrow> reviewer_role \<Rightarrow> string \<Rightarrow> string option \<Rightarrow> int \<Rightarrow> string \<Rightarrow> string \<Rightarrow> string
     \<Rightarrow> nat \<Rightarrow> ('x, string) qa_action" where
  "persist_prompt_audit se role story_id run_id attempt prompt raw template_hash retries =
    (case (se_artifact_manager se, run_id) of
       (Some m, Some rid) \<Rightarrow>
         if rid = [] then ret ''skipped''
         else try_io (bind_io now (\<lambda>t. bind_io (lift_sum (new_artifact_envelope
             (audit_envelope role story_id rid attempt prompt raw (se_sha256 se raw) template_hash retries t)))
             (manager_write m)))
           (\<lambda>r. ret (case r of Inr _ \<Rightarrow> ''persisted'' | Inl _ \<Rightarrow> ''error''))
     | _ \<Rightarrow> ret ''skipped'')"

text \<open>What an attempt ends in: a result, or the prompt of the next one.\<close>

definition finish_evaluation ::
  "'x structured_evaluator \<Rightarrow> reviewer_role \<Rightarrow> review_bundle \<Rightarrow> string \<Rightarrow> string \<Rightarrow> string list \<Rightarrow> string list
     \<Rightarrow> string option \<Rightarrow> int \<Rightarrow> nat \<Rightarrow> string \<Rightarrow> llm_check list \<Rightarrow> ('x, evaluator_result) qa_action" where
  "finish_evaluation se role bundle full_prompt template_hash mandatory resolution_required run_id run_attempt
      attempt raw checks =
    seq_io (lift_sum (validate_completeness role checks mandatory resolution_required))
      (bind_io (lift_sum (aggregate role checks)) (\<lambda>(findings, resolutions, verdict).
       seq_io (emit_llm_call_event se role (rb_story_id bundle) attempt (length checks) ''pass'')
      (bind_io (persist_prompt_audit se role (rb_story_id bundle) run_id run_attempt full_prompt raw template_hash
          (Suc attempt)) (\<lambda>audit_status.
       ret \<lparr>ev_role = role, ev_verdict = verdict, ev_findings = findings, ev_finding_resolutions = resolutions,
            ev_raw_response_hash = se_sha256 se raw, ev_template_sha256 = template_hash,
            ev_rendered_prompt = full_prompt, ev_raw_response = raw, ev_retry_count = Suc attempt,
            ev_prompt_audit_status = audit_status\<rparr>))))"

definition unparseable :: "reviewer_role \<Rightarrow> exn \<Rightarrow> exn" where
  "unparseable role last_parse_error = StructuredEvaluatorError (''LLM response for role='' @ py_repr (role_value role)
     @ '' unparseable after 2 attempts (FK-11 '' @ section_sign @ ''11.4.4 fail-closed). Last parse error: ''
     @ exn_message last_parse_error)"

text \<open>\<open>for attempt in range(2)\<close>: the remaining attempts, the number of this one, its prompt.\<close>

fun attempt_loop ::
  "'x structured_evaluator \<Rightarrow> reviewer_role \<Rightarrow> string \<Rightarrow> string \<Rightarrow> string list
     \<Rightarrow> (nat \<Rightarrow> string \<Rightarrow> llm_check list \<Rightarrow> ('x, evaluator_result) qa_action) \<Rightarrow> int
     \<Rightarrow> nat \<Rightarrow> nat \<Rightarrow> string \<Rightarrow> exn \<Rightarrow> ('x, evaluator_result) qa_action" where
  "attempt_loop se role story_id full_prompt expected_ids finish eval_start 0 attempt prompt err = raise (unparseable role err)"
| "attempt_loop se role story_id full_prompt expected_ids finish eval_start (Suc left) attempt prompt err =
    seq_io (raise_if_retry_budget_exhausted se attempt eval_start)
      (bind_io (complete_attempt se role story_id prompt attempt) (\<lambda>raw.
       case parse_response_three_stage raw role expected_ids of
         Inl e \<Rightarrow> seq_io (emit_llm_call_event se role story_id attempt 0 ''parse_fail'')
           (attempt_loop se role story_id full_prompt expected_ids finish eval_start left (Suc attempt)
              (if attempt \<noteq> 0 then full_prompt else full_prompt @ SCHEMA_RETRY_HINT) e)
       | Inr checks \<Rightarrow> finish attempt raw checks))"

definition evaluate_with_retry ::
  "'x structured_evaluator \<Rightarrow> reviewer_role \<Rightarrow> review_bundle \<Rightarrow> string \<Rightarrow> string \<Rightarrow> string list \<Rightarrow> string list
     \<Rightarrow> string option \<Rightarrow> int \<Rightarrow> ('x, evaluator_result) qa_action" where
  "evaluate_with_retry se role bundle full_prompt template_hash mandatory resolution_required run_id run_attempt =
    bind_io (se_monotonic se) (\<lambda>eval_start.
      attempt_loop se role (rb_story_id bundle) full_prompt (mandatory @ resolution_required)
        (finish_evaluation se role bundle full_prompt template_hash mandatory resolution_required run_id run_attempt)
        eval_start 2 0 full_prompt (StructuredEvaluatorError []))"

definition prompt_of :: "string \<Rightarrow> review_bundle \<Rightarrow> string list option \<Rightarrow> string" where
  "prompt_of prompt_text bundle expected = prompt_text @ newline @ newline @ ''## Review Bundle (JSON)'' @ newline
     @ to_prompt_json bundle
     @ (case expected of None \<Rightarrow> []
        | Some ids \<Rightarrow> newline @ newline @ ''## Expected Check IDs'' @ newline
            @ json_dumps (JList (map JStr (sorted_ids ids))))"

definition evaluate ::
  "'x structured_evaluator \<Rightarrow> reviewer_role \<Rightarrow> review_bundle \<Rightarrow> finding list option \<Rightarrow> int \<Rightarrow> string list option
     \<Rightarrow> string option \<Rightarrow> string option \<Rightarrow> int \<Rightarrow> ('x, evaluator_result) qa_action" where
  "evaluate se role bundle previous qa_round expected template_override run_id run_attempt =
    bind_io (se_render se role bundle template_override) (\<lambda>(prompt_text, template_hash).
      (case required_check_ids role previous qa_round expected of (mandatory, resolution_required) \<Rightarrow>
        evaluate_with_retry se role bundle (prompt_of prompt_text bundle expected) template_hash
          mandatory resolution_required run_id run_attempt))"

section \<open>Several roles\<close>

text \<open>
  The roles run in a pool of threads; each evaluation is one step here, in the order of completion.
  All of them run to their end, also when one has failed; the first failure in that order is raised.
\<close>

definition parallel_error :: "reviewer_role \<Rightarrow> exn \<Rightarrow> exn" where
  "parallel_error role e = ParallelEvalError (''Layer-2 evaluation for role='' @ py_repr (role_value role)
     @ '' failed (FK-34 '' @ section_sign @ ''34.5.1 fail-closed): '' @ exn_type_name e @ '': '' @ exn_message e)"

fun run_in_order ::
  "(reviewer_role \<Rightarrow> ('x, evaluator_result) qa_action) \<Rightarrow> reviewer_role list
     \<Rightarrow> ('x, (reviewer_role \<times> exn + evaluator_result) list) qa_action" where
  "run_in_order f [] = ret []"
| "run_in_order f (r # rs) = try_io (f r) (\<lambda>x. bind_io (run_in_order f rs) (\<lambda>xs.
     ret ((case x of Inl e \<Rightarrow> Inl (r, e) | Inr v \<Rightarrow> Inr v) # xs)))"

fun first_failure :: "(reviewer_role \<times> exn + evaluator_result) list \<Rightarrow> exn + evaluator_result list" where
  "first_failure [] = Inr []"
| "first_failure (Inl (r, e) # xs) = Inl (parallel_error r e)"
| "first_failure (Inr v # xs) = (case first_failure xs of Inl e \<Rightarrow> Inl e | Inr vs \<Rightarrow> Inr (v # vs))"

definition run_roles ::
  "'x structured_evaluator \<Rightarrow> reviewer_role list \<Rightarrow> review_bundle \<Rightarrow> finding list option \<Rightarrow> int
     \<Rightarrow> string option \<Rightarrow> int \<Rightarrow> ('x, reviewer_role \<rightharpoonup> evaluator_result) qa_action" where
  "run_roles se completion bundle previous qa_round run_id run_attempt =
    bind_io (run_in_order (\<lambda>r. evaluate se r bundle previous qa_round None None run_id run_attempt) completion) (\<lambda>xs.
    bind_io (lift_sum (first_failure xs)) (\<lambda>vs. ret (map_of (map (\<lambda>v. (ev_role v, v)) vs))))"

section \<open>What a returned evaluation says\<close>

text \<open>The checks that become findings, and those of them that block.\<close>

definition reported :: "llm_check \<Rightarrow> bool" where
  "reported c = (if is_resolution_check c then ck_resolution c \<noteq> Some (resolution_value FULLY_RESOLVED)
     else ck_status c \<noteq> Llm_PASS)"

definition blocking_check :: "llm_check \<Rightarrow> bool" where
  "blocking_check c = (reported c \<and> (is_resolution_check c \<or> ck_status c = Llm_FAIL))"

definition finding_head :: "finding \<Rightarrow> string \<times> string \<times> severity \<times> trust_class" where
  "finding_head f = (fd_layer f, fd_check f, fd_severity f, fd_trust_class f)"

definition check_head :: "reviewer_role \<Rightarrow> llm_check \<Rightarrow> string \<times> string \<times> severity \<times> trust_class" where
  "check_head role c = (role_value role, ck_check_id c,
     if blocking_check c then Severity_BLOCKING else Severity_MINOR, Trust_VERIFIED_LLM)"

text \<open>The key of a resolution check\<close>

definition check_key :: "llm_check \<Rightarrow> finding_key" where
  "check_key c = (case parse_finding_resolution_key (drop (length FINDING_RESOLUTION_PREFIX) (ck_check_id c)) of
     Inl _ \<Rightarrow> ([], []) | Inr k \<Rightarrow> k)"

lemma parsed_key_plain: "parse_finding_resolution_key s = Inr k \<longleftrightarrow> plain_key k \<and> s = joined_key k"
proof
  assume parsed: "parse_finding_resolution_key s = Inr k"
  show "plain_key k \<and> s = joined_key k"
  proof (cases "CHR '':'' \<in> set s")
    case False
    then show ?thesis using parsed by (simp add: parse_finding_resolution_key_def split_on_none)
  next
    case True
    then obtain l r where s: "s = l @ CHR '':'' # r" "CHR '':'' \<notin> set l" by (meson split_list_first)
    show ?thesis
    proof (cases "CHR '':'' \<in> set r")
      case True
      then have "count_list r (CHR '':'') \<noteq> 0" by (simp add: count_list_0_iff)
      then have two: "length (split_on (CHR '':'') s) \<noteq> 2" by (simp add: length_split_on s)
      show ?thesis using parsed unfolding parse_finding_resolution_key_def case_not_two [OF two] by simp
    next
      case False
      then show ?thesis using parsed s
        by (auto simp: parse_finding_resolution_key_def split_on_append split_on_none plain_key_def
            joined_key_def split: if_splits)
    qed
  qed
next
  assume "plain_key k \<and> s = joined_key k"
  then show "parse_finding_resolution_key s = Inr k"
    by (cases k) (auto simp: parse_finding_resolution_key_def joined_key_def split_on_append split_on_none plain_key_def)
qed

lemma resolution_of_checkD:
  assumes "resolution_of_check role c = Inr (k, st)" and "is_resolution_check c"
  shows "ck_resolution c = Some (resolution_value st)" "plain_key k" "check_key c = k"
    "ck_check_id c = FINDING_RESOLUTION_PREFIX @ joined_key k"
proof -
  obtain r where r: "ck_resolution c = Some r" "enum_of resolution_value resolution_statuses r = Some st"
    "parse_finding_resolution_key (drop (length FINDING_RESOLUTION_PREFIX) (ck_check_id c)) = Inr k"
    using assms(1) by (auto simp: resolution_of_check_def split: option.splits sum.splits)
  show "ck_resolution c = Some (resolution_value st)" using r resolution.enum_ofD by auto
  show "plain_key k" using r(3) parsed_key_plain by blast
  show "check_key c = k" using r(3) by (simp add: check_key_def)
  show "ck_check_id c = FINDING_RESOLUTION_PREFIX @ joined_key k"
  proof -
    have "take (length FINDING_RESOLUTION_PREFIX) (ck_check_id c) = FINDING_RESOLUTION_PREFIX"
      using assms(2) unfolding is_resolution_check_def starts_with_def .
    then show ?thesis using r(3) [unfolded parsed_key_plain] append_take_drop_id by metis
  qed
qed

lemma aggregate_step:
  assumes "aggregate_checks role a (c # cs) = Inr b"
  obtains a' where "aggregate_checks role a' cs = Inr b"
    and "map finding_head (ag_findings a') = map finding_head (ag_findings a)
           @ (if reported c then [check_head role c] else [])"
    and "ag_blocking a' = (ag_blocking a \<or> blocking_check c)"
    and "ag_concern a' = (ag_concern a \<or> reported c \<and> \<not> blocking_check c)"
    and "fst ` set (ag_resolutions a') = fst ` set (ag_resolutions a) \<union> (if is_resolution_check c then {check_key c} else {})"
    and "is_resolution_check c \<Longrightarrow> plain_key (check_key c) \<and> ck_check_id c = FINDING_RESOLUTION_PREFIX @ joined_key (check_key c)"
proof (cases "is_resolution_check c")
  case True
  with assms obtain k st where k: "resolution_of_check role c = Inr (k, st)"
    by (cases "resolution_of_check role c") (auto simp: case_prod_beta)
  note facts = resolution_of_checkD [OF k True]
  let ?a = "a\<lparr>ag_resolutions := AList.update k st (ag_resolutions a)\<rparr>"
  let ?a' = "if st \<noteq> FULLY_RESOLVED then ?a\<lparr>ag_blocking := True,
       ag_findings := ag_findings ?a @ [resolution_finding role c st]\<rparr> else ?a"
  have rest: "aggregate_checks role ?a' cs = Inr b" using assms True k by (auto simp: Let_def)
  have rep: "reported c \<longleftrightarrow> st \<noteq> FULLY_RESOLVED" "blocking_check c \<longleftrightarrow> st \<noteq> FULLY_RESOLVED"
    using facts(1) True by (cases st; simp add: reported_def blocking_check_def)+
  have head: "finding_head (resolution_finding role c st) = check_head role c" if "st \<noteq> FULLY_RESOLVED"
    using that rep by (simp add: finding_head_def check_head_def resolution_finding_def check_finding_def)
  show ?thesis
    by (rule that [OF rest]) (use rep head facts True in \<open>auto simp: dom_update\<close>)
next
  case False
  let ?a' = "case ck_status c of
      Llm_FAIL \<Rightarrow> a\<lparr>ag_blocking := True, ag_findings := ag_findings a @ [finding_from_check role c]\<rparr>
    | Llm_PASS_WITH_CONCERNS \<Rightarrow> a\<lparr>ag_concern := True, ag_findings := ag_findings a @ [finding_from_check role c]\<rparr>
    | Llm_PASS \<Rightarrow> a"
  have rest: "aggregate_checks role ?a' cs = Inr b" using assms False by (auto split: sum.splits)
  show ?thesis
    by (rule that [OF rest])
      (use False in \<open>cases "ck_status c"; auto simp: reported_def blocking_check_def finding_head_def check_head_def
         finding_from_check_def check_finding_def\<close>)+
qed

lemma aggregate_checks_run:
  assumes "aggregate_checks role a cs = Inr b"
  shows "map finding_head (ag_findings b) = map finding_head (ag_findings a) @ map (check_head role) (filter reported cs)
    \<and> (ag_blocking b \<longleftrightarrow> ag_blocking a \<or> (\<exists>c \<in> set cs. blocking_check c))
    \<and> (ag_concern b \<longleftrightarrow> ag_concern a \<or> (\<exists>c \<in> set cs. reported c \<and> \<not> blocking_check c))
    \<and> fst ` set (ag_resolutions b) = fst ` set (ag_resolutions a) \<union> check_key ` set (filter is_resolution_check cs)
    \<and> (\<forall>c \<in> set cs. is_resolution_check c \<longrightarrow> plain_key (check_key c)
         \<and> ck_check_id c = FINDING_RESOLUTION_PREFIX @ joined_key (check_key c))"
  using assms
proof (induction cs arbitrary: a)
  case (Cons c cs)
  from Cons.prems show ?case
  proof (rule aggregate_step)
    fix a' assume "aggregate_checks role a' cs = Inr b"
    note IH = Cons.IH [OF this]
    assume step: "map finding_head (ag_findings a') = map finding_head (ag_findings a)
           @ (if reported c then [check_head role c] else [])"
      "ag_blocking a' = (ag_blocking a \<or> blocking_check c)"
      "ag_concern a' = (ag_concern a \<or> reported c \<and> \<not> blocking_check c)"
      "fst ` set (ag_resolutions a') = fst ` set (ag_resolutions a) \<union> (if is_resolution_check c then {check_key c} else {})"
      "is_resolution_check c \<Longrightarrow> plain_key (check_key c) \<and> ck_check_id c = FINDING_RESOLUTION_PREFIX @ joined_key (check_key c)"
    have key: "is_resolution_check c \<longrightarrow> plain_key (check_key c)
        \<and> ck_check_id c = FINDING_RESOLUTION_PREFIX @ joined_key (check_key c)" using step(5) by blast
    note IH1 = IH [THEN conjunct1] and IH' = IH [THEN conjunct2]
    note IH2 = IH' [THEN conjunct1] and IH3 = IH' [THEN conjunct2, THEN conjunct1]
      and IH4 = IH' [THEN conjunct2, THEN conjunct2, THEN conjunct1]
      and IH5 = IH' [THEN conjunct2, THEN conjunct2, THEN conjunct2]
    show ?thesis
      by (intro conjI) (simp_all add: IH1 IH2 IH3 IH4 IH5 key step(1-4) disj_assoc)
  qed
qed simp

lemma aggregate_checks_distinct:
  "aggregate_checks role a cs = Inr b \<Longrightarrow> distinct (map fst (ag_resolutions a)) \<Longrightarrow> distinct (map fst (ag_resolutions b))"
proof (induction cs arbitrary: a)
  case (Cons c cs)
  from Cons.prems show ?case
    by (auto split: if_splits sum.splits llm_verdict.splits simp: Let_def intro!: Cons.IH distinct_update)
qed simp

lemma aggregate_distinct: "aggregate role cs = Inr (fs, rs, v) \<Longrightarrow> distinct (map fst rs)"
  using aggregate_checks_distinct [of role no_aggregation cs]
  by (auto simp: aggregate_def no_aggregation_def split: sum.splits)

lemma aggregate_result:
  assumes "aggregate role cs = Inr (findings, resolutions, verdict)"
  shows "map finding_head findings = map (check_head role) (filter reported cs)"
    and "verdict = (if \<exists>c \<in> set cs. blocking_check c then Llm_FAIL
           else if \<exists>c \<in> set cs. reported c then Llm_PASS_WITH_CONCERNS else Llm_PASS)"
    and "fst ` set resolutions = check_key ` set (filter is_resolution_check cs)"
    and "\<forall>c \<in> set cs. is_resolution_check c \<longrightarrow> plain_key (check_key c)
           \<and> ck_check_id c = FINDING_RESOLUTION_PREFIX @ joined_key (check_key c)"
proof -
  obtain b where b: "aggregate_checks role no_aggregation cs = Inr b" "findings = ag_findings b"
    "resolutions = ag_resolutions b" "verdict = verdict_of (ag_blocking b) (ag_concern b)"
    using assms by (auto simp: aggregate_def split: sum.splits)
  note run = aggregate_checks_run [OF b(1)]
  show "map finding_head findings = map (check_head role) (filter reported cs)"
    and "fst ` set resolutions = check_key ` set (filter is_resolution_check cs)"
    and "\<forall>c \<in> set cs. is_resolution_check c \<longrightarrow> plain_key (check_key c)
           \<and> ck_check_id c = FINDING_RESOLUTION_PREFIX @ joined_key (check_key c)"
    using run b by (simp_all add: no_aggregation_def)
  show "verdict = (if \<exists>c \<in> set cs. blocking_check c then Llm_FAIL
           else if \<exists>c \<in> set cs. reported c then Llm_PASS_WITH_CONCERNS else Llm_PASS)"
    using run b by (auto simp: no_aggregation_def verdict_of_def)
qed

text \<open>What a result tells about the checks it was built from.\<close>

definition result_of_checks :: "reviewer_role \<Rightarrow> llm_check list \<Rightarrow> evaluator_result \<Rightarrow> bool" where
  "result_of_checks role cs ev \<longleftrightarrow> ev_role ev = role
     \<and> aggregate role cs = Inr (ev_findings ev, ev_finding_resolutions ev, ev_verdict ev)"

lemma returns_complete_attempt: "returns (\<lambda>raw. py_strip raw \<noteq> []) (complete_attempt se role sid prompt n)"
  unfolding complete_attempt_def
  by (rule returns_try) (auto intro: returns_seq split: sum.splits)

lemma returns_finish_evaluation:
  "returns (\<lambda>ev. result_of_checks role cs ev \<and> ev_raw_response ev = raw \<and> ev_retry_count ev = Suc attempt
       \<and> distinct (map ck_check_id cs) \<and> set (map ck_check_id cs) = set mandatory \<union> set res_ids)
     (finish_evaluation se role bundle full th mandatory res_ids run_id ra attempt raw cs)"
proof -
  let ?G = "distinct (map ck_check_id cs) \<and> set (map ck_check_id cs) = set mandatory \<union> set res_ids"
  have cover: "returns (\<lambda>_. ?G) (lift_sum (validate_completeness role cs mandatory res_ids))"
    by (auto simp: validate_completeness_def Let_def split: sum.splits if_splits)
  have agg: "returns (\<lambda>(f, r, v). aggregate role cs = Inr (f, r, v)) (lift_sum (aggregate role cs))"
    by (simp split: sum.splits)
  show ?thesis
    unfolding finish_evaluation_def seq_io_def
    by (rule returns_bind [OF cover], rule returns_bind [OF agg])
      (auto simp: result_of_checks_def intro!: returns_bind_any)
qed

lemma returns_attempt_loop:
  assumes "\<And>n raw cs. parse_response_three_stage raw role expected = Inr cs \<Longrightarrow> n < attempt + left
      \<Longrightarrow> returns (F raw cs) (finish n raw cs)"
  shows "returns (\<lambda>ev. \<exists>raw cs. parse_response_three_stage raw role expected = Inr cs \<and> F raw cs ev)
     (attempt_loop se role sid full expected finish t0 left attempt prompt err)"
  using assms
proof (induction left arbitrary: attempt prompt err)
  case (Suc left)
  have again: "returns (\<lambda>ev. \<exists>raw cs. parse_response_three_stage raw role expected = Inr cs \<and> F raw cs ev)
     (attempt_loop se role sid full expected finish t0 left (Suc attempt) p e)" for p e
    by (rule Suc.IH) (use Suc.prems in auto)
  have finished: "returns (\<lambda>ev. \<exists>raw cs. parse_response_three_stage raw role expected = Inr cs \<and> F raw cs ev)
     (finish attempt raw cs)" if "parse_response_three_stage raw role expected = Inr cs" for raw cs
    by (rule returns_mono [OF Suc.prems [OF that]]) (use that in auto)
  show ?case
    unfolding attempt_loop.simps
    by (intro returns_seq returns_bind_any, split sum.split, intro conjI allI impI)
      (simp_all only: finished returns_seq again)
qed simp

lemma returns_evaluate:
  assumes "required_check_ids role previous qa_round expected = (mandatory, res_ids)"
  shows "returns (\<lambda>ev. \<exists>cs. parse_response_three_stage (ev_raw_response ev) role (mandatory @ res_ids) = Inr cs
       \<and> result_of_checks role cs ev \<and> ev_retry_count ev \<le> 2
       \<and> distinct (map ck_check_id cs) \<and> set (map ck_check_id cs) = set mandatory \<union> set res_ids)
     (evaluate se role bundle previous qa_round expected template run_id ra)"
proof -
  have "returns (\<lambda>ev. \<exists>raw cs. parse_response_three_stage raw role (mandatory @ res_ids) = Inr cs
      \<and> result_of_checks role cs ev \<and> ev_raw_response ev = raw \<and> ev_retry_count ev \<le> 2
       \<and> distinct (map ck_check_id cs) \<and> set (map ck_check_id cs) = set mandatory \<union> set res_ids)
    (attempt_loop se role (rb_story_id bundle) full (mandatory @ res_ids)
      (finish_evaluation se role bundle full th mandatory res_ids run_id ra) t0 2 0 full e)" for full th t0 e
    by (rule returns_attempt_loop, rule returns_mono [OF returns_finish_evaluation]) auto
  then show ?thesis
    unfolding evaluate_def evaluate_with_retry_def assms
    by (auto intro!: returns_bind_any elim: returns_mono simp: case_prod_beta)
qed

lemma result_of_checks_sound:
  assumes "result_of_checks role cs ev"
  shows "map finding_head (ev_findings ev) = map (check_head role) (filter reported cs)"
    and "ev_verdict ev = Llm_FAIL \<longleftrightarrow> (\<exists>f \<in> set (ev_findings ev). fd_severity f = Severity_BLOCKING)"
    and "ev_verdict ev = Llm_PASS \<longleftrightarrow> ev_findings ev = []"
    and "\<forall>f \<in> set (ev_findings ev). fd_layer f = role_value role \<and> fd_trust_class f = Trust_VERIFIED_LLM"
proof -
  from assms have agg: "aggregate role cs = Inr (ev_findings ev, ev_finding_resolutions ev, ev_verdict ev)"
    by (simp add: result_of_checks_def)
  note heads = aggregate_result(1) [OF agg] and verdict = aggregate_result(2) [OF agg]
  show "map finding_head (ev_findings ev) = map (check_head role) (filter reported cs)" by (rule heads)
  have "finding_head ` set (ev_findings ev) = check_head role ` set (filter reported cs)"
    using heads by (metis set_map)
  then have from_check: "\<exists>c \<in> set cs. reported c \<and> finding_head f = check_head role c" if "f \<in> set (ev_findings ev)" for f
  proof -
    have "finding_head f \<in> check_head role ` set (filter reported cs)"
      using that \<open>finding_head ` set (ev_findings ev) = check_head role ` set (filter reported cs)\<close> by blast
    then show ?thesis by auto
  qed
  then show "\<forall>f \<in> set (ev_findings ev). fd_layer f = role_value role \<and> fd_trust_class f = Trust_VERIFIED_LLM"
    by (fastforce simp: finding_head_def check_head_def)
  have "fd_severity ` set (ev_findings ev) = (fst \<circ> snd \<circ> snd) ` (finding_head ` set (ev_findings ev))"
    by (simp add: finding_head_def image_image)
  also have "\<dots> = (\<lambda>c. if blocking_check c then Severity_BLOCKING else Severity_MINOR) ` set (filter reported cs)"
    unfolding \<open>finding_head ` set (ev_findings ev) = check_head role ` set (filter reported cs)\<close>
    by (simp add: check_head_def image_image)
  finally have sev: "fd_severity ` set (ev_findings ev)
      = (\<lambda>c. if blocking_check c then Severity_BLOCKING else Severity_MINOR) ` set (filter reported cs)" .
  have "(\<exists>f \<in> set (ev_findings ev). fd_severity f = Severity_BLOCKING) \<longleftrightarrow> Severity_BLOCKING \<in> fd_severity ` set (ev_findings ev)"
    by force
  also have "\<dots> \<longleftrightarrow> (\<exists>c \<in> set cs. blocking_check c)"
    unfolding sev by (auto simp: blocking_check_def)
  finally show "ev_verdict ev = Llm_FAIL \<longleftrightarrow> (\<exists>f \<in> set (ev_findings ev). fd_severity f = Severity_BLOCKING)"
    using verdict by (auto split: if_splits)
  have "ev_findings ev = [] \<longleftrightarrow> \<not> (\<exists>c \<in> set cs. reported c)"
    using heads by (metis filter_empty_conv map_is_Nil_conv)
  moreover have "blocking_check c \<Longrightarrow> reported c" for c by (simp add: blocking_check_def)
  ultimately show "ev_verdict ev = Llm_PASS \<longleftrightarrow> ev_findings ev = []"
    using verdict by (auto split: if_splits)
qed

text \<open>
  C24. A returned evaluation is exact: its checks were read from the answer it records, they are exactly
  the required ones, once each; its findings are, in order, the checks that did not pass and the
  resolutions that are not full; it fails exactly when one of its findings blocks and passes exactly when it
  has none; it took at most two answers.
\<close>
theorem evaluation_is_exact:
  assumes "evaluate se role bundle previous qa_round expected template run_id ra s = (Inr ev, t)"
    and "required_check_ids role previous qa_round expected = (mandatory, res_ids)"
  shows "\<exists>cs. parse_response_three_stage (ev_raw_response ev) role (mandatory @ res_ids) = Inr cs
    \<and> distinct (map ck_check_id cs) \<and> set (map ck_check_id cs) = set mandatory \<union> set res_ids
    \<and> map finding_head (ev_findings ev) = map (check_head role) (filter reported cs)
    \<and> (ev_verdict ev = Llm_FAIL \<longleftrightarrow> (\<exists>f \<in> set (ev_findings ev). fd_severity f = Severity_BLOCKING))
    \<and> (ev_verdict ev = Llm_PASS \<longleftrightarrow> ev_findings ev = [])
    \<and> ev_retry_count ev \<le> 2"
proof -
  obtain cs where cs: "parse_response_three_stage (ev_raw_response ev) role (mandatory @ res_ids) = Inr cs"
    "result_of_checks role cs ev" "ev_retry_count ev \<le> 2" "distinct (map ck_check_id cs)"
    "set (map ck_check_id cs) = set mandatory \<union> set res_ids"
    using returnsD [OF returns_evaluate [OF assms(2)] assms(1)] by blast
  then show ?thesis using result_of_checks_sound [OF cs(2)] by blast
qed

lemma joined_key_of_plain: "plain_key k \<Longrightarrow> joined_key l = joined_key k \<Longrightarrow> l = k"
  by (metis decode_joined_key decode_plain_key sum.distinct(1) sum.inject(2))

lemma no_role_check_is_a_resolution:
  "i \<in> set (ROLE_CHECK_IDS role) \<Longrightarrow> \<not> starts_with FINDING_RESOLUTION_PREFIX i"
  by (cases role) (auto simp: starts_with_def FINDING_RESOLUTION_PREFIX_def)

lemma resolved_keys:
  assumes "evaluate se role bundle (Some fs) qa_round None template run_id ra s = (Inr ev, t)"
    and "2 \<le> qa_round"
  shows "fst ` set (ev_finding_resolutions ev) = finding_key ` {f \<in> set fs. fd_layer f = role_value role}
    \<and> (\<forall>f \<in> set fs. fd_layer f = role_value role \<longrightarrow> plain_key (finding_key f))"
proof -
  let ?res = "map (\<lambda>f. FINDING_RESOLUTION_PREFIX @ finding_resolution_id f)
      (filter (\<lambda>f. fd_layer f = role_value role) fs)"
  have req: "required_check_ids role (Some fs) qa_round None = (ROLE_CHECK_IDS role, ?res)"
    using assms(2) by (cases fs) (simp_all add: required_check_ids_def)
  obtain cs where cs: "result_of_checks role cs ev"
    "set (map ck_check_id cs) = set (ROLE_CHECK_IDS role) \<union> set ?res"
    using returnsD [OF returns_evaluate [OF req] assms(1)] by blast
  from cs(1) have agg: "aggregate role cs = Inr (ev_findings ev, ev_finding_resolutions ev, ev_verdict ev)"
    by (simp add: result_of_checks_def)
  note keys = aggregate_result(3) [OF agg]
    and ids = aggregate_result(4) [OF agg, rule_format]
  have resolved: "\<exists>c \<in> set cs. is_resolution_check c \<and> check_key c = finding_key f \<and> plain_key (finding_key f)"
    if f: "f \<in> set fs" "fd_layer f = role_value role" for f
  proof -
    have "FINDING_RESOLUTION_PREFIX @ finding_resolution_id f \<in> set (map ck_check_id cs)"
      unfolding cs(2) using f by auto
    then obtain c where c: "c \<in> set cs" "ck_check_id c = FINDING_RESOLUTION_PREFIX @ finding_resolution_id f"
      by auto
    then have "is_resolution_check c" by (simp add: is_resolution_check_def)
    then show ?thesis
      using ids [OF c(1)] c joined_key_of_plain [of "check_key c" "finding_key f"]
      by (auto simp: finding_resolution_id_def)
  qed
  have known: "check_key c \<in> finding_key ` {f \<in> set fs. fd_layer f = role_value role}"
    if c: "c \<in> set cs" "is_resolution_check c" for c
  proof -
    have "ck_check_id c \<in> set (ROLE_CHECK_IDS role) \<union> set ?res" using c(1) cs(2) by auto
    moreover have "ck_check_id c \<notin> set (ROLE_CHECK_IDS role)"
      using c(2) no_role_check_is_a_resolution by (auto simp: is_resolution_check_def)
    ultimately obtain f where "f \<in> set fs" "fd_layer f = role_value role"
      "ck_check_id c = FINDING_RESOLUTION_PREFIX @ finding_resolution_id f" by auto
    then have "finding_key f = check_key c"
      using ids [OF c] joined_key_of_plain [of "check_key c" "finding_key f"]
      by (simp add: finding_resolution_id_def)
    then show ?thesis using \<open>f \<in> set fs\<close> \<open>fd_layer f = role_value role\<close>
      by (intro rev_image_eqI [of f]) simp_all
  qed
  show ?thesis
  proof (intro conjI equalityI subsetI ballI impI)
    fix k assume "k \<in> fst ` set (ev_finding_resolutions ev)"
    then obtain c where "c \<in> set cs" "is_resolution_check c" "k = check_key c" unfolding keys by auto
    then show "k \<in> finding_key ` {f \<in> set fs. fd_layer f = role_value role}" using known by simp
  next
    fix k assume "k \<in> finding_key ` {f \<in> set fs. fd_layer f = role_value role}"
    then obtain f where "f \<in> set fs" "fd_layer f = role_value role" "k = finding_key f" by auto
    from resolved [OF this(1,2)] this(3) obtain c where "c \<in> set cs" "is_resolution_check c" "k = check_key c"
      by metis
    then show "k \<in> fst ` set (ev_finding_resolutions ev)" unfolding keys by simp
  next
    show "plain_key (finding_key f)" if "f \<in> set fs" "fd_layer f = role_value role" for f
      using resolved [OF that] by blast
  qed
qed

lemma resolved_keys_plain:
  assumes "evaluate se role bundle (Some fs) qa_round None template run_id ra s = (Inr ev, t)"
    and "2 \<le> qa_round" and "f \<in> set fs" and "fd_layer f = role_value role"
  shows "plain_key (finding_key f)"
  using resolved_keys [OF assms(1,2)] assms(3,4) by blast

text \<open>
  In a remediation round a returned evaluation has resolved exactly the findings the role made in the
  round before: its resolution map has their keys and no others, and every one of those keys is a plain
  pair of layer and check.
\<close>
theorem resolutions_answer_the_findings:
  assumes "evaluate se role bundle (Some fs) qa_round None template run_id ra s = (Inr ev, t)"
    and "2 \<le> qa_round"
  shows "fst ` set (ev_finding_resolutions ev) = finding_key ` {f \<in> set fs. fd_layer f = role_value role}
    \<and> (\<forall>f \<in> set fs. fd_layer f = role_value role \<longrightarrow> plain_key (finding_key f))"
  using assms by (rule resolved_keys)

text \<open>The prefix of a resolution check is part of the check of its finding, and so is the colon of its key.\<close>

lemma resolution_finding_not_plain:
  assumes "evaluate se role bundle previous qa_round expected template run_id ra s = (Inr ev, t)"
    and "f \<in> set (ev_findings ev)" and "starts_with FINDING_RESOLUTION_PREFIX (fd_check f)"
  shows "fd_layer f = role_value role \<and> \<not> plain_key (finding_key f)"
proof -
  obtain mandatory res_ids where "required_check_ids role previous qa_round expected = (mandatory, res_ids)" by fastforce
  from returnsD [OF returns_evaluate [OF this] assms(1)] obtain cs where
    agg: "aggregate role cs = Inr (ev_findings ev, ev_finding_resolutions ev, ev_verdict ev)"
    by (auto simp: result_of_checks_def)
  have "finding_head f \<in> set (map finding_head (ev_findings ev))" using assms(2) by simp
  then obtain c where c: "c \<in> set cs" "fd_layer f = role_value role" "fd_check f = ck_check_id c"
    unfolding aggregate_result(1) [OF agg] by (auto simp: finding_head_def check_head_def)
  then have "ck_check_id c = FINDING_RESOLUTION_PREFIX @ joined_key (check_key c)"
    using aggregate_result(4) [OF agg] assms(3) by (auto simp: is_resolution_check_def)
  then show ?thesis using c by (auto simp: plain_key_def finding_key_def joined_key_def)
qed

text \<open>
  When a role has reported a finding as not fully resolved, every later evaluation of that role
  that is given this finding among the previous ones raises, whatever the model answers: the check of
  such a finding holds a colon, and the key of its own resolution is then not a pair.
\<close>
theorem open_resolution_blocks_every_later_review:
  assumes "evaluate se role bundle previous qa_round expected template run_id ra s = (Inr ev, t)"
    and "f \<in> set (ev_findings ev)" and "starts_with FINDING_RESOLUTION_PREFIX (fd_check f)"
    and "f \<in> set fs" and "2 \<le> later_round"
  shows "\<exists>e. fst (evaluate se' role bundle' (Some fs) later_round None template' run_id' ra' s') = Inl e"
proof (rule ccontr)
  assume "\<not> ?thesis"
  then obtain ev' t' where run: "evaluate se' role bundle' (Some fs) later_round None template' run_id' ra' s' = (Inr ev', t')"
    by (metis prod.exhaust_sel sum.exhaust)
  have "fd_layer f = role_value role" "\<not> plain_key (finding_key f)"
    using resolution_finding_not_plain [OF assms(1-3)] by simp_all
  then show False using resolved_keys_plain [OF run assms(5) assms(4)] by blast
qed

section \<open>How often the model is asked\<close>

text \<open>\<open>costs calls n m\<close>: running \<open>m\<close> raises the counter \<open>calls\<close> by at most \<open>n\<close>.\<close>

definition costs :: "('s \<Rightarrow> nat) \<Rightarrow> nat \<Rightarrow> ('s, 'e, 'a) io \<Rightarrow> bool" where
  "costs calls n m \<longleftrightarrow> (\<forall>s. calls (snd (m s)) \<le> calls s + n)"

named_theorems costs_intros

lemma costs_simple [costs_intros, simp]:
  "costs calls n (ret x)" "costs calls n (raise e)" "costs calls n (lift_sum r)"
  by (auto simp: costs_def ret_def raise_def lift_sum_def split: sum.splits)

lemma costs_mono: "costs calls m p \<Longrightarrow> m \<le> n \<Longrightarrow> costs calls n p"
  unfolding costs_def by (meson add_left_mono le_trans)

lemma costs_bind:
  assumes "costs calls m p" and "\<And>x. costs calls n (k x)"
  shows "costs calls (m + n) (bind_io p k)"
  unfolding costs_def
proof
  fix s
  obtain r t where p: "p s = (r, t)" by fastforce
  have "calls t \<le> calls s + m" using assms(1) p unfolding costs_def by (metis snd_conv)
  then show "calls (snd (bind_io p k s)) \<le> calls s + (m + n)"
    using assms(2) p unfolding costs_def bind_io_def
    by (cases r) (auto intro: order_trans [of _ "calls t + n"])
qed

lemma costs_try:
  assumes "costs calls m p" and "\<And>r. costs calls n (k r)"
  shows "costs calls (m + n) (try_io p k)"
  unfolding costs_def
proof
  fix s
  obtain r t where p: "p s = (r, t)" by fastforce
  have "calls t \<le> calls s + m" using assms(1) p unfolding costs_def by (metis snd_conv)
  then show "calls (snd (try_io p k s)) \<le> calls s + (m + n)"
    using assms(2) p unfolding costs_def try_io_def by (auto intro: order_trans [of _ "calls t + n"])
qed

lemma costs_then:
  "costs calls 0 p \<Longrightarrow> (\<And>x. costs calls n (k x)) \<Longrightarrow> costs calls n (bind_io p k)"
  "costs calls 0 p \<Longrightarrow> costs calls n q \<Longrightarrow> costs calls n (seq_io p q)"
  "costs calls 0 p \<Longrightarrow> (\<And>r. costs calls n (h r)) \<Longrightarrow> costs calls n (try_io p h)"
  using costs_bind [of calls 0 p n k] costs_bind [of calls 0 p n "\<lambda>_. q"] costs_try [of calls 0 p n h]
  by (simp_all add: seq_io_def)

text \<open>Only \<open>complete\<close> asks the model; nothing else the evaluator calls does.\<close>

definition asks_once :: "('x qa_state \<Rightarrow> nat) \<Rightarrow> 'x structured_evaluator \<Rightarrow> bool" where
  "asks_once calls se \<longleftrightarrow>
     (\<forall>r p. costs calls 1 (se_complete se r p)) \<and> (\<forall>r b tpl. costs calls 0 (se_render se r b tpl))
     \<and> costs calls 0 (se_monotonic se)
     \<and> (\<forall>f \<in> set_option (se_resolve_pool se). \<forall>r. costs calls 0 (f r))
     \<and> (\<forall>f \<in> set_option (se_event_emitter se). \<forall>c. costs calls 0 (f c))
     \<and> (\<forall>m \<in> set_option (se_artifact_manager se). costs calls 0 now \<and> (\<forall>e. costs calls 0 (manager_write m e)))"

lemma costs_emit:
  assumes "asks_once calls se"
  shows "costs calls 0 (emit_llm_call_event se role sid n k status)"
  using assms unfolding emit_llm_call_event_def pool_name_def asks_once_def
  by (auto intro!: costs_then split: option.splits sum.splits)

lemma costs_audit:
  assumes "asks_once calls se"
  shows "costs calls 0 (persist_prompt_audit se role sid run_id n prompt raw th k)"
  using assms unfolding persist_prompt_audit_def asks_once_def
  by (auto intro!: costs_then split: option.splits sum.splits)

lemma costs_finish:
  assumes "asks_once calls se"
  shows "costs calls 0 (finish_evaluation se role bundle full th mandatory res_ids run_id ra n raw cs)"
  unfolding finish_evaluation_def
  by (auto intro!: costs_then costs_emit [OF assms] costs_audit [OF assms] simp: case_prod_beta)

lemma costs_complete:
  assumes "asks_once calls se"
  shows "costs calls 1 (complete_attempt se role sid prompt n)"
proof -
  have "costs calls (1 + 0) (complete_attempt se role sid prompt n)"
    unfolding complete_attempt_def
  proof (rule costs_try)
    show "costs calls 1 (se_complete se (role_value role) prompt)" using assms by (simp add: asks_once_def)
  qed (auto split: sum.splits intro!: costs_then costs_emit [OF assms])
  then show ?thesis by simp
qed

lemma costs_loop:
  assumes "asks_once calls se" and "\<And>n raw cs. costs calls 0 (finish n raw cs)"
  shows "costs calls left (attempt_loop se role sid full expected finish t0 left n prompt err)"
proof (induction left arbitrary: n prompt err)
  case (Suc left)
  have clock: "costs calls 0 (raise_if_retry_budget_exhausted se n t0)"
    unfolding raise_if_retry_budget_exhausted_def
    using assms(1) by (auto simp: asks_once_def intro!: costs_then)
  have ask: "costs calls (1 + left) (bind_io (complete_attempt se role sid prompt n) (\<lambda>raw.
       case parse_response_three_stage raw role expected of
         Inl e \<Rightarrow> seq_io (emit_llm_call_event se role sid n 0 ''parse_fail'')
           (attempt_loop se role sid full expected finish t0 left (Suc n)
              (if n \<noteq> 0 then full else full @ SCHEMA_RETRY_HINT) e)
       | Inr checks \<Rightarrow> finish n raw checks))"
    by (rule costs_bind [OF costs_complete [OF assms(1)]])
      (auto intro!: costs_then costs_emit [OF assms(1)] Suc.IH intro: costs_mono [OF assms(2)] split: sum.split)
  show ?case using costs_then(2) [OF clock ask] by simp
qed simp

text \<open>
  One evaluation asks the model at most twice, whatever it answers and however the other ports
  behave: \<open>calls\<close> is any counter that only \<open>complete\<close> raises, by at most one.
\<close>
theorem at_most_two_llm_calls:
  assumes "asks_once calls se"
  shows "calls (snd (evaluate se role bundle previous qa_round expected template run_id ra s)) \<le> calls s + 2"
proof -
  have "costs calls 2 (evaluate se role bundle previous qa_round expected template run_id ra)"
    unfolding evaluate_def evaluate_with_retry_def
    using assms by (auto simp: asks_once_def case_prod_beta
        intro!: costs_then costs_loop [OF assms, of _ 2] costs_finish [OF assms])
  then show ?thesis by (simp add: costs_def)
qed

section \<open>The words of the answer may be those of another check\<close>

definition prose_answer :: string where
  "prose_answer = ''arch_conformity: PASS'' @ newline @ ''authz_logic: FAIL''"

definition passed_check :: "string \<Rightarrow> llm_check" where
  "passed_check i = \<lparr>ck_check_id = i, ck_status = Llm_PASS, ck_reason = [], ck_description = [], ck_resolution = None\<rparr>"

lemma in_dropWhile_tl: "dropWhile P xs = x # zs \<Longrightarrow> y \<in> set zs \<Longrightarrow> y \<in> set xs"
  by (metis list.set_intros(2) set_dropWhileD)

lemma field_search_no_quote: "dquote \<notin> set s \<Longrightarrow> field_search nm s = None"
proof (induction s)
  case (Cons c cs)
  then have "field_at nm (c # cs) = None"
    by (auto simp: field_at_def Let_def split: if_splits list.splits dest: in_dropWhile_tl in_set_dropD)
  then show ?case using Cons by simp
qed simp

lemma prose_no_quote: "dquote \<notin> set prose_answer"
  by code_simp

lemma prose_ids_sorted: "sorted_ids [''arch_conformity'', ''authz_logic''] = [''arch_conformity'', ''authz_logic'']"
  by code_simp

lemma prose_stage2: "stage2_extract_json prose_answer = None"
  by code_simp

lemma prose_found:
  "py_find ''arch_conformity'' prose_answer = Some 0" "py_find ''authz_logic'' prose_answer = Some 22"
  "status_search False prose_answer = Some Llm_PASS" "length prose_answer = 39"
  by code_simp+

lemma extract_near_prose:
  "extract_check_near_id prose_answer ''arch_conformity'' = Some (passed_check ''arch_conformity'')"
  "extract_check_near_id prose_answer ''authz_logic'' = Some (passed_check ''authz_logic'')"
  by (simp_all add: extract_check_near_id_def prose_found slice_def some_text_def passed_check_def
      field_search_no_quote [OF prose_no_quote])

text \<open>
  The fallback on the words of an answer can turn a failed check into a passed one: the answer that
  says \<open>PASS\<close> of \<open>arch_conformity\<close> and, on the next line, \<open>FAIL\<close> of \<open>authz_logic\<close> is read as two passes, because the
  fifty characters before the id of a check hold the word of the check before.
\<close>
theorem fallback_reads_the_previous_check:
  "parse_response_three_stage prose_answer Role_QA_REVIEW [''arch_conformity'', ''authz_logic'']
   = Inr [passed_check ''arch_conformity'', passed_check ''authz_logic'']"
  by (simp add: parse_response_three_stage_def stage3_regex_fallback_def prose_stage2 prose_ids_sorted
      List.map_filter_def extract_near_prose)

section \<open>A concrete evaluator\<close>

text \<open>It answers every prompt alike and counts the answers in the ticks of the clock.\<close>

definition demo_evaluator :: "string \<Rightarrow> 'x structured_evaluator" where
  "demo_evaluator answer = \<lparr>se_complete = \<lambda>_ _. bind_io now (\<lambda>_. ret answer),
     se_render = \<lambda>_ _ _. ret ([], []), se_monotonic = ret 0, se_resolve_pool = None,
     se_event_emitter = None, se_artifact_manager = None, se_sha256 = \<lambda>s. s\<rparr>"

definition demo_bundle :: review_bundle where
  "demo_bundle = \<lparr>rb_story_id = ''AG3-1'', rb_story_brief_excerpt = [], rb_acceptance_criteria = [],
     rb_diff_summary = [], rb_diff_content = [], rb_concept_excerpt = [], rb_concept_refs = [],
     rb_arch_references = [], rb_evidence_manifest = None, rb_packing_protocol = [],
     rb_previous_findings = None, rb_qa_cycle_round = 1\<rparr>"

lemma at_most_two_llm_calls_witness:
  "\<forall>s. st_ticks (snd (evaluate (demo_evaluator ''?'') Role_QA_REVIEW demo_bundle None 1 None None None 1 s))
     \<le> st_ticks (s :: unit qa_state) + 2"
proof
  have "costs st_ticks 1 (bind_io now (\<lambda>_. ret answer) :: (unit, string) qa_action)" for answer
    by (simp add: costs_def now_def io_app io_run)
  then have "asks_once st_ticks (demo_evaluator ''?'' :: unit structured_evaluator)"
    by (simp add: asks_once_def demo_evaluator_def)
  then show "st_ticks (snd (evaluate (demo_evaluator ''?'') Role_QA_REVIEW demo_bundle None 1 None None None 1 s))
     \<le> st_ticks (s :: unit qa_state) + 2" for s
    by (rule at_most_two_llm_calls)
qed

lemma demo_evaluates:
  assumes "required_check_ids role previous n expected = (mandatory, res_ids)"
    and "py_strip answer \<noteq> []" and "parse_response_three_stage answer role (mandatory @ res_ids) = Inr cs"
    and "validate_completeness role cs mandatory res_ids = Inr ()"
    and "aggregate role cs = Inr (fs, rs, v)"
  shows "\<exists>ev t. evaluate (demo_evaluator answer) role demo_bundle previous n expected None None 1 s = (Inr ev, t)
    \<and> ev_findings ev = fs \<and> ev_finding_resolutions ev = rs \<and> ev_verdict ev = v \<and> ev_raw_response ev = answer"
  using assms
  by (simp add: evaluate_def evaluate_with_retry_def demo_evaluator_def io_app io_run numeral_2_eq_2
      raise_if_retry_budget_exhausted_def complete_attempt_def now_def finish_evaluation_def
      emit_llm_call_event_def persist_prompt_audit_def)

definition failing_answer :: string where
  "failing_answer = json_dumps (JList [JObj [(''check_id'', JStr ''systemic_adequacy''),
     (''status'', JStr ''FAIL''), (''reason'', JStr ''no'')]])"

definition failing_check :: llm_check where
  "failing_check = \<lparr>ck_check_id = ''systemic_adequacy'', ck_status = Llm_FAIL, ck_reason = ''no'',
     ck_description = [], ck_resolution = None\<rparr>"

lemma failing_answer_parses:
  "parse_response_three_stage failing_answer Role_SEMANTIC_REVIEW [''systemic_adequacy''] = Inr [failing_check]"
  by code_simp

lemma failing_evaluation:
  "\<exists>ev t. evaluate (demo_evaluator failing_answer) Role_SEMANTIC_REVIEW demo_bundle None 1 None None None 1 (s :: unit qa_state)
      = (Inr ev, t) \<and> ev_findings ev = [finding_from_check Role_SEMANTIC_REVIEW failing_check]"
proof -
  have "aggregate Role_SEMANTIC_REVIEW [failing_check]
      = Inr ([finding_from_check Role_SEMANTIC_REVIEW failing_check], [], Llm_FAIL)"
    by (simp add: aggregate_def no_aggregation_def failing_check_def is_resolution_check_def starts_with_def
        FINDING_RESOLUTION_PREFIX_def require_reason_def verdict_of_def not_blank_Cons [unfolded blank_def] is_space_def)
  moreover have "validate_completeness Role_SEMANTIC_REVIEW [failing_check] [''systemic_adequacy''] [] = Inr ()"
    by (simp add: validate_completeness_def failing_check_def)
  moreover have "py_strip failing_answer \<noteq> []" by code_simp
  ultimately show ?thesis
    using demo_evaluates [of Role_SEMANTIC_REVIEW None 1 None "[''systemic_adequacy'']" "[]" failing_answer]
      failing_answer_parses by (fastforce simp: required_check_ids_def)
qed

lemma evaluation_is_exact_witness:
  "\<forall>s :: unit qa_state. \<exists>ev t. evaluate (demo_evaluator failing_answer) Role_SEMANTIC_REVIEW demo_bundle None 1 None None None 1 s
      = (Inr ev, t) \<and> ev_verdict ev = Llm_FAIL"
proof
  fix s :: "unit qa_state"
  obtain ev t where run: "evaluate (demo_evaluator failing_answer) Role_SEMANTIC_REVIEW demo_bundle None 1 None None None 1 s
      = (Inr ev, t)" and findings: "ev_findings ev = [finding_from_check Role_SEMANTIC_REVIEW failing_check]"
    using failing_evaluation by blast
  have "required_check_ids Role_SEMANTIC_REVIEW None 1 None = ([''systemic_adequacy''], [])"
    by (simp add: required_check_ids_def)
  from evaluation_is_exact [OF run this] findings have "ev_verdict ev = Llm_FAIL"
    by (auto simp: finding_from_check_def check_finding_def failing_check_def)
  with run show "\<exists>ev t. evaluate (demo_evaluator failing_answer) Role_SEMANTIC_REVIEW demo_bundle None 1 None None None 1 s
      = (Inr ev, t) \<and> ev_verdict ev = Llm_FAIL" by blast
qed

definition adequacy_finding :: finding where
  "adequacy_finding = new_finding ''semantic_review'' ''systemic_adequacy'' Severity_BLOCKING ''no'' Trust_VERIFIED_LLM"

definition open_answer :: string where
  "open_answer = json_dumps (JList [JObj [(''check_id'', JStr ''systemic_adequacy''), (''status'', JStr ''PASS'')],
     JObj [(''check_id'', JStr ''finding_resolution_semantic_review:systemic_adequacy''),
       (''status'', JStr ''FAIL''), (''reason'', JStr ''no''), (''resolution'', JStr ''not_resolved'')]])"

definition open_check :: llm_check where
  "open_check = \<lparr>ck_check_id = ''finding_resolution_semantic_review:systemic_adequacy'', ck_status = Llm_FAIL,
     ck_reason = ''no'', ck_description = [], ck_resolution = Some ''not_resolved''\<rparr>"

lemma open_answer_parses:
  "parse_response_three_stage open_answer Role_SEMANTIC_REVIEW
     [''systemic_adequacy'', ''finding_resolution_semantic_review:systemic_adequacy'']
   = Inr [passed_check ''systemic_adequacy'', open_check]"
  by code_simp

lemma open_evaluation:
  "\<exists>ev t. evaluate (demo_evaluator open_answer) Role_SEMANTIC_REVIEW demo_bundle (Some [adequacy_finding]) 2 None None None 1
       (s :: unit qa_state) = (Inr ev, t)
     \<and> ev_findings ev = [resolution_finding Role_SEMANTIC_REVIEW open_check NOT_RESOLVED]
     \<and> ev_finding_resolutions ev = [((''semantic_review'', ''systemic_adequacy''), NOT_RESOLVED)]"
proof -
  have "aggregate Role_SEMANTIC_REVIEW [passed_check ''systemic_adequacy'', open_check]
      = Inr ([resolution_finding Role_SEMANTIC_REVIEW open_check NOT_RESOLVED],
          [((''semantic_review'', ''systemic_adequacy''), NOT_RESOLVED)], Llm_FAIL)"
    by code_simp
  moreover have "validate_completeness Role_SEMANTIC_REVIEW [passed_check ''systemic_adequacy'', open_check]
      [''systemic_adequacy''] [''finding_resolution_semantic_review:systemic_adequacy''] = Inr ()"
    by (auto simp: validate_completeness_def passed_check_def open_check_def)
  moreover have "py_strip open_answer \<noteq> []" by code_simp
  moreover have "required_check_ids Role_SEMANTIC_REVIEW (Some [adequacy_finding]) 2 None
      = ([''systemic_adequacy''], [''finding_resolution_semantic_review:systemic_adequacy''])"
    by (simp add: required_check_ids_def adequacy_finding_def finding_resolution_id_def finding_key_def
        joined_key_def FINDING_RESOLUTION_PREFIX_def new_finding_def)
  ultimately show ?thesis
    using demo_evaluates [of Role_SEMANTIC_REVIEW "Some [adequacy_finding]" 2 None "[''systemic_adequacy'']"
        "[''finding_resolution_semantic_review:systemic_adequacy'']" open_answer] open_answer_parses by fastforce
qed

lemma resolutions_answer_the_findings_witness:
  "\<forall>s :: unit qa_state. \<exists>ev t. evaluate (demo_evaluator open_answer) Role_SEMANTIC_REVIEW demo_bundle
       (Some [adequacy_finding]) 2 None None None 1 s = (Inr ev, t)
     \<and> fst ` set (ev_finding_resolutions ev) = {finding_key adequacy_finding}"
proof
  fix s :: "unit qa_state"
  obtain ev t where run: "evaluate (demo_evaluator open_answer) Role_SEMANTIC_REVIEW demo_bundle
       (Some [adequacy_finding]) 2 None None None 1 s = (Inr ev, t)"
    using open_evaluation by blast
  have "fd_layer adequacy_finding = role_value Role_SEMANTIC_REVIEW" by (simp add: adequacy_finding_def)
  then have one: "{f \<in> set [adequacy_finding]. fd_layer f = role_value Role_SEMANTIC_REVIEW} = {adequacy_finding}" by auto
  from resolutions_answer_the_findings [OF run] one
  have "fst ` set (ev_finding_resolutions ev) = {finding_key adequacy_finding}" by simp
  with run show "\<exists>ev t. evaluate (demo_evaluator open_answer) Role_SEMANTIC_REVIEW demo_bundle
       (Some [adequacy_finding]) 2 None None None 1 s = (Inr ev, t)
     \<and> fst ` set (ev_finding_resolutions ev) = {finding_key adequacy_finding}" by blast
qed

lemma open_resolution_blocks_every_later_review_witness:
  "\<forall>s :: unit qa_state. \<exists>f e. fd_check f = ck_check_id open_check
     \<and> fst (evaluate (demo_evaluator open_answer :: unit structured_evaluator) Role_SEMANTIC_REVIEW demo_bundle
           (Some [f]) 3 None None None 1 s) = Inl e"
proof
  fix s :: "unit qa_state"
  let ?f = "resolution_finding Role_SEMANTIC_REVIEW open_check NOT_RESOLVED"
  obtain ev t where run: "evaluate (demo_evaluator open_answer) Role_SEMANTIC_REVIEW demo_bundle
       (Some [adequacy_finding]) 2 None None None 1 s = (Inr ev, t)" "ev_findings ev = [?f]"
    using open_evaluation by blast
  have check: "fd_check ?f = ck_check_id open_check" by (simp add: resolution_finding_def check_finding_def)
  have "starts_with FINDING_RESOLUTION_PREFIX (ck_check_id open_check)" by code_simp
  then have "\<exists>e. fst (evaluate (demo_evaluator open_answer) Role_SEMANTIC_REVIEW demo_bundle
           (Some [?f]) 3 None None None 1 s) = Inl e"
    using run(2) check
    by (intro open_resolution_blocks_every_later_review [OF run(1), of ?f]) simp_all
  with check show "\<exists>f e. fd_check f = ck_check_id open_check
     \<and> fst (evaluate (demo_evaluator open_answer :: unit structured_evaluator) Role_SEMANTIC_REVIEW demo_bundle
           (Some [f]) 3 None None None 1 s) = Inl e" by blast
qed

end
