(* ===== verification/Layer2_Review.thy ===== *)
theory Layer2_Review
  imports Llm_Evaluator
begin

text \<open>
  The second layer on a language model: the conformance service for the implementation level
  (\<open>verify_system/conformance_service/\<close>), and the run of the reviewers that turns their results, or their
  failure, into three layer results (\<open>llm_evaluator/layer2_integration.py\<close>, \<open>layer2_conformance.py\<close>).

  The files of the project, the identifier of an assessment and the telemetry emitter are parameters.
\<close>

section \<open>Fidelity\<close>

datatype fidelity_level = Level_GOAL | Level_DESIGN | Level_IMPL | Level_FEEDBACK

fun fidelity_level_value :: "fidelity_level \<Rightarrow> string" where
  "fidelity_level_value Level_GOAL = ''goal''"
| "fidelity_level_value Level_DESIGN = ''design''"
| "fidelity_level_value Level_IMPL = ''impl''"
| "fidelity_level_value Level_FEEDBACK = ''feedback''"

datatype conformance_verdict = Conformance_PASS | Conformance_PASS_WITH_CONCERNS | Conformance_FAIL

datatype fidelity_failure_action =
    Action_STORY_REVISION_REQUIRED | Action_ESCALATED | Action_IMPLEMENTATION_BLOCKED | Action_FEEDBACK_WARNING

fun verdict_from_llm :: "llm_verdict \<Rightarrow> conformance_verdict" where
  "verdict_from_llm Llm_PASS = Conformance_PASS"
| "verdict_from_llm Llm_PASS_WITH_CONCERNS = Conformance_PASS_WITH_CONCERNS"
| "verdict_from_llm Llm_FAIL = Conformance_FAIL"

definition failure_action :: "fidelity_level \<Rightarrow> conformance_verdict \<Rightarrow> fidelity_failure_action option" where
  "failure_action level v =
    (if v \<noteq> Conformance_FAIL then None
     else Some (case level of
         Level_GOAL \<Rightarrow> Action_STORY_REVISION_REQUIRED
       | Level_DESIGN \<Rightarrow> Action_ESCALATED
       | Level_IMPL \<Rightarrow> Action_IMPLEMENTATION_BLOCKED
       | Level_FEEDBACK \<Rightarrow> Action_FEEDBACK_WARNING))"

record reference_document =
  rd_path :: string
  rd_scope :: string
  rd_content :: string

record fidelity_context =
  fc_story_id :: string
  fc_run_id :: string
  fc_project_root :: string
  fc_story_type :: string
  fc_module :: string
  fc_subject :: string
  fc_story_description :: string
  fc_tags :: "string list"
  fc_review_bundle :: "review_bundle option"
  fc_previous_findings :: "finding list"
  fc_qa_cycle_round :: int

record fidelity_result =
  fr_level :: fidelity_level
  fr_conformance_verdict :: conformance_verdict
  fr_reason :: string
  fr_description :: string
  fr_references_used :: "string list"
  fr_findings :: "finding list"
  fr_failure_action :: "fidelity_failure_action option"
  fr_evaluator_result :: "evaluator_result option"

section \<open>The references of an assessment\<close>

record manifest_document =
  md_path :: string
  md_scope :: string
  md_modules :: "string list"
  md_story_types :: "string list"
  md_tags :: "string list"

text \<open>
  \<open>json.loads\<close> keeps the last value of a repeated key. The index refuses unknown fields, and the lists
  of modules, of story types and of documents must not be empty.
\<close>

definition wire_field :: "(string \<times> wire) list \<Rightarrow> string \<Rightarrow> wire option" where
  "wire_field m k = map_of (rev m) k"

definition wire_string :: "wire option \<Rightarrow> string option" where
  "wire_string w = (case w of Some (WStr s) \<Rightarrow> Some s | _ \<Rightarrow> None)"

definition wire_strings :: "wire option \<Rightarrow> string list option" where
  "wire_strings w = (case w of Some (WList vs) \<Rightarrow> those (map (\<lambda>v. wire_string (Some v)) vs) | _ \<Rightarrow> None)"

definition manifest_document_of_wire :: "wire \<Rightarrow> manifest_document option" where
  "manifest_document_of_wire w = (case w of
      WObj m \<Rightarrow>
        if \<not> set (map fst m) \<subseteq> {''path'', ''scope'', ''modules'', ''story_types'', ''tags''} then None
        else (case (wire_string (wire_field m ''path''), wire_string (wire_field m ''scope''),
                    wire_strings (wire_field m ''modules''), wire_strings (wire_field m ''story_types''),
                    if wire_field m ''tags'' = None then Some [] else wire_strings (wire_field m ''tags'')) of
            (Some p, Some sc, Some ms, Some ts, Some gs) \<Rightarrow>
              if ms = [] \<or> ts = [] then None
              else Some \<lparr>md_path = p, md_scope = sc, md_modules = ms, md_story_types = ts, md_tags = gs\<rparr>
          | _ \<Rightarrow> None)
    | _ \<Rightarrow> None)"

definition manifest_index :: "string \<Rightarrow> manifest_document list option" where
  "manifest_index s = (case json_loads s of
      Some (WObj m) \<Rightarrow>
        if \<not> set (map fst m) \<subseteq> {''documents''} then None
        else (case wire_field m ''documents'' of
            Some (WList ws) \<Rightarrow> if ws = [] then None else those (map manifest_document_of_wire ws)
          | _ \<Rightarrow> None)
    | _ \<Rightarrow> None)"

text \<open>The project as the service sees it: the manifest, and what a manifest path leads to.\<close>

datatype 'a file_state = File_missing | File_unreadable | File_text 'a

datatype path_state = Path_outside | Path_inside "string file_state"

record project_files =
  pf_manifest :: "string file_state"
  pf_path :: "string \<Rightarrow> path_state"

definition matches :: "string list \<Rightarrow> string \<Rightarrow> bool" where
  "matches values actual = (''*'' \<in> set values \<or> actual \<in> set values)"

definition tags_match :: "string list \<Rightarrow> string list \<Rightarrow> bool" where
  "tags_match document_tags context_tags =
    (if document_tags = [] \<or> ''*'' \<in> set document_tags then True
     else if context_tags = [] then False
     else set document_tags \<inter> set context_tags \<noteq> {})"

definition manifest_error :: "string \<Rightarrow> exn + 'a" where
  "manifest_error msg = Inl (ConformanceManifestError msg)"

definition read_reference :: "project_files \<Rightarrow> manifest_document \<Rightarrow> exn + reference_document" where
  "read_reference fs d = (case pf_path fs (md_path d) of
      Path_outside \<Rightarrow> manifest_error (''manifest reference escapes project root: '' @ md_path d)
    | Path_inside File_missing \<Rightarrow> manifest_error (''manifest reference does not exist: '' @ md_path d)
    | Path_inside File_unreadable \<Rightarrow> manifest_error (''manifest reference is unreadable: '' @ md_path d)
    | Path_inside (File_text c) \<Rightarrow> Inr \<lparr>rd_path = md_path d, rd_scope = md_scope d, rd_content = c\<rparr>)"

definition document_matches :: "fidelity_context \<Rightarrow> manifest_document \<Rightarrow> bool" where
  "document_matches ctx d = (matches (md_modules d) (fc_module ctx)
     \<and> matches (md_story_types d) (fc_story_type ctx) \<and> tags_match (md_tags d) (fc_tags ctx))"

fun collect_references ::
  "project_files \<Rightarrow> fidelity_context \<Rightarrow> manifest_document list \<Rightarrow> exn + reference_document list" where
  "collect_references fs ctx [] = Inr []"
| "collect_references fs ctx (d # ds) =
    (if \<not> document_matches ctx d then collect_references fs ctx ds
     else (case read_reference fs d of
         Inl e \<Rightarrow> Inl e
       | Inr r \<Rightarrow> (case collect_references fs ctx ds of Inl e \<Rightarrow> Inl e | Inr rs \<Rightarrow> Inr (r # rs))))"

definition identify_references :: "project_files \<Rightarrow> fidelity_context \<Rightarrow> exn + reference_document list" where
  "identify_references fs ctx = (case pf_manifest fs of
      File_missing \<Rightarrow> manifest_error ''missing curated manifest index: _guardrails/manifest-index.json''
    | File_unreadable \<Rightarrow> manifest_error ''broken curated manifest index: _guardrails/manifest-index.json''
    | File_text t \<Rightarrow> (case manifest_index t of
        None \<Rightarrow> manifest_error ''broken curated manifest index: _guardrails/manifest-index.json''
      | Some ds \<Rightarrow> (case collect_references fs ctx ds of
          Inl e \<Rightarrow> Inl e
        | Inr [] \<Rightarrow> manifest_error (''manifest index produced no references for module='' @ py_repr (fc_module ctx)
            @ '', story_type='' @ py_repr (fc_story_type ctx))
        | Inr (r # rs) \<Rightarrow> Inr (sort_key rd_path (r # rs)))))"

definition format_references :: "reference_document list \<Rightarrow> string" where
  "format_references rs = join (newline @ newline) (map (\<lambda>r. ''## '' @ rd_path r @ newline @ ''Scope: '' @ rd_scope r
     @ newline @ rd_content r) rs)"

section \<open>The evaluator of a fidelity level\<close>

fun conformance_template_for_level :: "fidelity_level \<Rightarrow> string" where
  "conformance_template_for_level Level_GOAL = ''qa-conformance-goal''"
| "conformance_template_for_level Level_DESIGN = ''qa-conformance-design''"
| "conformance_template_for_level Level_IMPL = ''qa-doc-fidelity''"
| "conformance_template_for_level Level_FEEDBACK = ''doc-fidelity-feedback''"

definition bundle_for_context :: "fidelity_context \<Rightarrow> string \<Rightarrow> string \<Rightarrow> review_bundle" where
  "bundle_for_context ctx subject references =
    (let brief = (if fc_story_description ctx \<noteq> [] then fc_story_description ctx else subject) in
     case fc_review_bundle ctx of
       Some b \<Rightarrow> b\<lparr>rb_story_brief_excerpt := brief, rb_diff_content := subject, rb_concept_refs := [references]\<rparr>
     | None \<Rightarrow> \<lparr>rb_story_id = fc_story_id ctx, rb_story_brief_excerpt = brief, rb_acceptance_criteria = [],
         rb_diff_summary = fc_module ctx @ '' '' @ fc_story_type ctx @ '' conformance'', rb_diff_content = subject,
         rb_concept_excerpt = [], rb_concept_refs = [references], rb_arch_references = [],
         rb_evidence_manifest = None, rb_packing_protocol = [], rb_previous_findings = None,
         rb_qa_cycle_round = 1\<rparr>)"

definition reason_from_result :: "evaluator_result \<Rightarrow> string" where
  "reason_from_result ev = (case ev_findings ev of
      f # _ \<Rightarrow> fd_message f
    | [] \<Rightarrow> ''doc_fidelity returned '' @ llm_verdict_value (ev_verdict ev))"

record conformance_evaluation =
  cv_verdict :: conformance_verdict
  cv_reason :: string
  cv_description :: string
  cv_findings :: "finding list"
  cv_evaluator_result :: "evaluator_result option"

text \<open>The adapter on the structured evaluator: no file upload, and always the first run attempt.\<close>

definition supports_file_upload :: bool where
  "supports_file_upload = False"

definition adapter_evaluate ::
  "'x structured_evaluator \<Rightarrow> fidelity_level \<Rightarrow> fidelity_context \<Rightarrow> string \<Rightarrow> string \<Rightarrow> string \<Rightarrow> string list
     \<Rightarrow> ('x, conformance_evaluation) qa_action" where
  "adapter_evaluate se level ctx subject references expected_check_id merge_paths =
    (if merge_paths \<noteq> []
     then raise (ConformanceTier2NotSupportedError ''Tier-2 file upload is not supported by StructuredEvaluatorConformanceAdapter'')
     else bind_io (evaluate se Role_DOC_FIDELITY (bundle_for_context ctx subject references)
        (if fc_previous_findings ctx \<noteq> [] then Some (fc_previous_findings ctx) else None)
        (fc_qa_cycle_round ctx) (Some [expected_check_id]) (Some (conformance_template_for_level level))
        (Some (fc_run_id ctx)) 1)
      (\<lambda>ev. ret \<lparr>cv_verdict = verdict_from_llm (ev_verdict ev), cv_reason = reason_from_result ev,
         cv_description = fidelity_level_value level @ '' fidelity evaluated by doc_fidelity'',
         cv_findings = ev_findings ev, cv_evaluator_result = Some ev\<rparr>))"

section \<open>The conformance service\<close>

datatype conformance_event =
    Assessment_started string fidelity_level
  | Level_evaluated string fidelity_level conformance_verdict string
  | Assessment_completed string fidelity_level conformance_verdict "string list"
  | Conformance_llm_call fidelity_level conformance_verdict

record 'x conformance_service =
  cs_evaluator :: "'x structured_evaluator"
  cs_files :: "string \<Rightarrow> ('x, project_files) qa_action"
  cs_uuid4 :: "('x, string) qa_action"
  cs_emit :: "fidelity_context \<Rightarrow> conformance_event \<Rightarrow> ('x, unit) qa_action"
  cs_file_upload_threshold :: int
  cs_hard_limit :: int

definition FILE_UPLOAD_THRESHOLD_BYTES :: int where
  "FILE_UPLOAD_THRESHOLD_BYTES = 50 * 1024"

definition HARD_LIMIT_BYTES :: int where
  "HARD_LIMIT_BYTES = 500 * 1024"

definition new_conformance_service :: "'x conformance_service \<Rightarrow> exn + 'x conformance_service" where
  "new_conformance_service cs =
    (if cs_file_upload_threshold cs \<le> 0
     then Inl (ValueError ''conformance.file_upload_threshold must be > 0'')
     else if cs_hard_limit cs \<le> cs_file_upload_threshold cs
     then Inl (ValueError ''conformance.hard_limit must be greater than conformance.file_upload_threshold'')
     else Inr cs)"

definition fail_result :: "fidelity_level \<Rightarrow> string \<Rightarrow> string \<Rightarrow> string list \<Rightarrow> fidelity_result" where
  "fail_result level why descr references_used = \<lparr>fr_level = level,
     fr_conformance_verdict = Conformance_FAIL, fr_reason = why, fr_description = descr,
     fr_references_used = references_used, fr_findings = [],
     fr_failure_action = failure_action level Conformance_FAIL, fr_evaluator_result = None\<rparr>"

definition emit_result ::
  "'x conformance_service \<Rightarrow> fidelity_context \<Rightarrow> string \<Rightarrow> fidelity_result \<Rightarrow> ('x, fidelity_result) qa_action" where
  "emit_result cs ctx aid r =
    seq_io (cs_emit cs ctx (Level_evaluated aid (fr_level r) (fr_conformance_verdict r) (fr_reason r)))
      (seq_io (cs_emit cs ctx (Assessment_completed aid (fr_level r) (fr_conformance_verdict r) (fr_references_used r)))
        (ret r))"

definition emit_llm_result ::
  "'x conformance_service \<Rightarrow> fidelity_level \<Rightarrow> fidelity_context \<Rightarrow> string \<Rightarrow> fidelity_result
     \<Rightarrow> ('x, fidelity_result) qa_action" where
  "emit_llm_result cs level ctx aid r =
    seq_io (cs_emit cs ctx (Conformance_llm_call level (fr_conformance_verdict r))) (emit_result cs ctx aid r)"

definition result_of_evaluation :: "fidelity_level \<Rightarrow> string list \<Rightarrow> conformance_evaluation \<Rightarrow> fidelity_result" where
  "result_of_evaluation level references_used cv = \<lparr>fr_level = level, fr_conformance_verdict = cv_verdict cv,
     fr_reason = cv_reason cv, fr_description = cv_description cv, fr_references_used = references_used,
     fr_findings = cv_findings cv, fr_failure_action = failure_action level (cv_verdict cv),
     fr_evaluator_result = cv_evaluator_result cv\<rparr>"

text \<open>
  \<open>check_fidelity\<close>. A payload from the upload threshold on needs an evaluator that takes files; the
  adapter takes none, so the temporary files are never written.
\<close>

definition check_fidelity ::
  "'x conformance_service \<Rightarrow> fidelity_level \<Rightarrow> fidelity_context \<Rightarrow> ('x, fidelity_result) qa_action" where
  "check_fidelity cs level ctx =
    bind_io (cs_uuid4 cs) (\<lambda>aid. seq_io (cs_emit cs ctx (Assessment_started aid level))
    (bind_io (cs_files cs (fc_project_root ctx)) (\<lambda>fs. case identify_references fs ctx of
       Inl e \<Rightarrow> emit_result cs ctx aid (fail_result level (exn_message e)
         ''Conformance assessment failed closed before LLM call.'' [])
     | Inr refs \<Rightarrow>
         (let text = format_references refs; used = map rd_path refs;
              size = int (length (fc_subject ctx)) + int (length text) in
          if cs_hard_limit cs \<le> size
          then emit_result cs ctx aid (fail_result level (''Payload ('' @ show_int size @ '' bytes) exceeds hard limit (''
            @ show_int (cs_hard_limit cs) @ '' bytes).'') ''LLM call blocked: payload too large for conformance.'' used)
          else if cs_file_upload_threshold cs \<le> size \<and> \<not> supports_file_upload
          then emit_result cs ctx aid (fail_result level (''Tier-2 file upload required ('' @ show_int size @ '' bytes >= threshold ''
            @ show_int (cs_file_upload_threshold cs) @ '' bytes) but the configured evaluator has no file-capable transport boundary. File-capable transport is deferred to AG3-065.'')
            ''Conformance Tier-2 blocked: no file-capable LLM transport (AG3-065 not yet built).'' used)
          else try_io (adapter_evaluate (cs_evaluator cs) level ctx (fc_subject ctx) text
              (fidelity_level_value level @ ''_fidelity'') [])
            (\<lambda>r. emit_llm_result cs level ctx aid (case r of
               Inl e \<Rightarrow> fail_result level (''Conformance evaluator failed: '' @ exn_type_name e @ '': '' @ exn_message e)
                 ''Conformance assessment failed closed during LLM evaluation.'' used
             | Inr cv \<Rightarrow> result_of_evaluation level used cv))))))"

section \<open>Layer results of the reviewers\<close>

definition executed_check_ids :: "string list \<Rightarrow> string \<times> json" where
  "executed_check_ids ids = (''executed_check_ids'', JList (map JStr ids))"

definition blocking_result :: "string \<Rightarrow> string \<Rightarrow> layer_result" where
  "blocking_result layer msg = \<lparr>lr_layer = layer, lr_passed = False,
     lr_findings = [new_finding layer ''layer2_llm.failure'' Severity_BLOCKING msg Trust_SYSTEM],
     lr_metadata = [(''layer2_llm_error'', JStr msg), executed_check_ids [''layer2_llm.failure'']],
     lr_artifact_reference = None\<rparr>"

definition blocking_layer2_results :: "string \<Rightarrow> layer_result list" where
  "blocking_layer2_results msg =
     [blocking_result ''qa_review'' msg, blocking_result ''semantic_review'' msg, blocking_result ''doc_fidelity'' msg]"

definition evaluation_metadata :: "evaluator_result \<Rightarrow> string list \<Rightarrow> metadata" where
  "evaluation_metadata ev ids = [(''verdict'', JStr (llm_verdict_value (ev_verdict ev))),
     (''raw_response_hash'', JStr (ev_raw_response_hash ev)), (''template_sha256'', JStr (ev_template_sha256 ev)),
     executed_check_ids ids]
     @ (if ev_finding_resolutions ev \<noteq> [] then resolution_metadata (ev_finding_resolutions ev) else [])"

definition to_layer_result :: "reviewer_role \<Rightarrow> evaluator_result \<Rightarrow> layer_result" where
  "to_layer_result role ev = \<lparr>lr_layer = role_value role, lr_passed = (ev_verdict ev \<noteq> Llm_FAIL),
     lr_findings = ev_findings ev, lr_metadata = evaluation_metadata ev (sorted_ids (ROLE_CHECK_IDS role)),
     lr_artifact_reference = None\<rparr>"

definition layer_result_from_structured_doc_fidelity :: "evaluator_result \<Rightarrow> layer_result" where
  "layer_result_from_structured_doc_fidelity ev = \<lparr>lr_layer = ''doc_fidelity'',
     lr_passed = (ev_verdict ev \<noteq> Llm_FAIL), lr_findings = ev_findings ev,
     lr_metadata = evaluation_metadata ev [''impl_fidelity''], lr_artifact_reference = None\<rparr>"

definition run_impl_fidelity :: "layer_result option \<Rightarrow> layer_result" where
  "run_impl_fidelity doc = (case doc of
      Some r \<Rightarrow> r
    | None \<Rightarrow> blocking_result ''doc_fidelity'' ''impl_fidelity layer failed closed: no FidelityContext was available for this run (StoryContext unresolvable). Implementation-fidelity must always be evaluated through ConformanceService.check_fidelity'')"

text \<open>The two roles of the runner complete in one of the two orders.\<close>

definition run_layer2_llm ::
  "'x structured_evaluator \<Rightarrow> reviewer_role list \<Rightarrow> layer2_review_input \<Rightarrow> string \<Rightarrow> int \<Rightarrow> finding list
     \<Rightarrow> layer_result option \<Rightarrow> string option \<Rightarrow> int \<Rightarrow> string \<Rightarrow> json option \<Rightarrow> int
     \<Rightarrow> ('x, layer_result list) qa_action" where
  "run_layer2_llm runner completion review_input story_id qa_round previous doc run_id run_attempt arch manifest limit =
    (let prev = (if previous \<noteq> [] then Some previous else None) in
     bind_io (lift_sum (build_review_bundle review_input story_id qa_round arch manifest limit prev)) (\<lambda>bundle.
     bind_io (run_roles runner completion bundle prev qa_round run_id run_attempt) (\<lambda>results.
       (case (results Role_QA_REVIEW, results Role_SEMANTIC_REVIEW) of
          (Some q, Some m) \<Rightarrow> ret [to_layer_result Role_QA_REVIEW q, to_layer_result Role_SEMANTIC_REVIEW m,
             run_impl_fidelity doc]
        | _ \<Rightarrow> raise (OtherException ''role'')))))"

definition run_layer2_llm_failclosed ::
  "'x structured_evaluator \<Rightarrow> reviewer_role list \<Rightarrow> layer2_review_input \<Rightarrow> string \<Rightarrow> int \<Rightarrow> finding list
     \<Rightarrow> layer_result option \<Rightarrow> string option \<Rightarrow> int \<Rightarrow> string \<Rightarrow> json option \<Rightarrow> int
     \<Rightarrow> ('x, layer_result list) qa_action" where
  "run_layer2_llm_failclosed runner completion review_input story_id qa_round previous doc run_id run_attempt arch manifest limit =
    try_io (run_layer2_llm runner completion review_input story_id qa_round previous doc run_id run_attempt arch manifest limit)
      (\<lambda>r. ret (case r of
         Inr results \<Rightarrow> results
       | Inl e \<Rightarrow> blocking_layer2_results (''Layer 2 LLM evaluation failed: '' @ exn_type_name e @ '': '' @ exn_message e)))"

section \<open>One run of the layer on a language model\<close>

text \<open>What the owning system lends to the layer.\<close>

record 'x layer2_ports =
  lp_files :: "string \<Rightarrow> ('x, project_files) qa_action"
  lp_uuid4 :: "('x, string) qa_action"
  lp_emit :: "fidelity_context \<Rightarrow> conformance_event \<Rightarrow> ('x, unit) qa_action"
  lp_conformance_config :: "(int \<times> int) option"
  lp_bundle_token_limit :: int

text \<open>What one run of the layer reviews.\<close>

record layer2_run =
  lq_story_id :: string
  lq_run_id :: string
  lq_story_dir :: string
  lq_attempt :: int
  lq_review_input :: layer2_review_input
  lq_story_ctx :: "story_context option"
  lq_qa_cycle_round :: int
  lq_previous_findings :: "finding list"
  lq_arch_references :: string
  lq_evidence_manifest :: "json option"

definition previous_of :: "finding list \<Rightarrow> finding list option" where
  "previous_of fs = (if fs \<noteq> [] then Some fs else None)"

definition impl_conformance_subject :: "layer2_review_input \<Rightarrow> string" where
  "impl_conformance_subject i =
     join (newline @ newline) [li_story_spec i, li_diff_summary i, li_concept_excerpt i, li_handover i]"

definition build_impl_conformance_context :: "layer2_run \<Rightarrow> int \<Rightarrow> exn + fidelity_context option" where
  "build_impl_conformance_context q limit = (case lq_story_ctx q of
      None \<Rightarrow> Inr None
    | Some ctx \<Rightarrow> (case build_review_bundle (lq_review_input q) (lq_story_id q) (lq_qa_cycle_round q)
          (lq_arch_references q) (lq_evidence_manifest q) limit (previous_of (lq_previous_findings q)) of
        Inl e \<Rightarrow> Inl e
      | Inr bundle \<Rightarrow> Inr (Some \<lparr>fc_story_id = lq_story_id q, fc_run_id = lq_run_id q,
          fc_project_root = (case sc_project_root ctx of None \<Rightarrow> lq_story_dir q | Some r \<Rightarrow> r),
          fc_story_type = story_type_value (sc_story_type ctx),
          fc_module = (case sc_participating_repos ctx of [] \<Rightarrow> ''*'' | r # _ \<Rightarrow> r),
          fc_subject = impl_conformance_subject (lq_review_input q), fc_story_description = sc_title ctx,
          fc_tags = [''impl'', ''document-fidelity''], fc_review_bundle = Some bundle,
          fc_previous_findings = lq_previous_findings q, fc_qa_cycle_round = lq_qa_cycle_round q\<rparr>)))"

definition conformance_service_of ::
  "'x layer2_ports \<Rightarrow> 'x structured_evaluator \<Rightarrow> exn + 'x conformance_service" where
  "conformance_service_of lp runner = new_conformance_service \<lparr>cs_evaluator = runner, cs_files = lp_files lp,
     cs_uuid4 = lp_uuid4 lp, cs_emit = lp_emit lp,
     cs_file_upload_threshold = (case lp_conformance_config lp of None \<Rightarrow> FILE_UPLOAD_THRESHOLD_BYTES | Some (t, _) \<Rightarrow> t),
     cs_hard_limit = (case lp_conformance_config lp of None \<Rightarrow> HARD_LIMIT_BYTES | Some (_, l) \<Rightarrow> l)\<rparr>"

definition layer_result_of_fidelity :: "fidelity_result \<Rightarrow> layer_result" where
  "layer_result_of_fidelity r = (case fr_evaluator_result r of
      Some ev \<Rightarrow> layer_result_from_structured_doc_fidelity ev
    | None \<Rightarrow> \<lparr>lr_layer = role_value Role_DOC_FIDELITY, lr_passed = False,
        lr_findings = (if fr_findings r \<noteq> [] then fr_findings r
          else [new_finding (role_value Role_DOC_FIDELITY) ''impl_fidelity'' Severity_BLOCKING (fr_reason r) Trust_SYSTEM]),
        lr_metadata = [(''verdict'', JStr ''FAIL''), (''reason'', JStr (fr_reason r)), executed_check_ids [''impl_fidelity'']],
        lr_artifact_reference = None\<rparr>)"

definition run_impl_conformance ::
  "'x layer2_ports \<Rightarrow> 'x structured_evaluator \<Rightarrow> fidelity_context option \<Rightarrow> ('x, layer_result option) qa_action" where
  "run_impl_conformance lp runner c = (case c of
      None \<Rightarrow> ret None
    | Some ctx \<Rightarrow> bind_io (lift_sum (conformance_service_of lp runner)) (\<lambda>cs.
        bind_io (check_fidelity cs Level_IMPL ctx) (\<lambda>r. ret (Some (layer_result_of_fidelity r)))))"

text \<open>\<open>_run_layer2\<close> once a runner is there; the roles complete in the order given.\<close>

definition run_layer2_reviews ::
  "'x layer2_ports \<Rightarrow> 'x structured_evaluator \<Rightarrow> reviewer_role list \<Rightarrow> layer2_run \<Rightarrow> ('x, layer_result list) qa_action" where
  "run_layer2_reviews lp runner completion q =
    bind_io (lift_sum (build_impl_conformance_context q (lp_bundle_token_limit lp))) (\<lambda>c.
    bind_io (run_impl_conformance lp runner c) (\<lambda>doc.
      run_layer2_llm_failclosed runner completion (lq_review_input q) (lq_story_id q) (lq_qa_cycle_round q)
        (lq_previous_findings q) doc (Some (lq_run_id q)) (lq_attempt q) (lq_arch_references q)
        (lq_evidence_manifest q) (lp_bundle_token_limit lp)))"

section \<open>What the layer reports\<close>

text \<open>A result of the layer that passes exactly when none of its findings blocks.\<close>

definition blocks :: "finding \<Rightarrow> bool" where
  "blocks f \<longleftrightarrow> fd_severity f = Severity_BLOCKING \<and> trust_can_block f"

definition honest :: "layer_result \<Rightarrow> bool" where
  "honest lr \<longleftrightarrow> (lr_passed lr \<longleftrightarrow> \<not> (\<exists>f \<in> set (lr_findings lr). blocks f))"

lemma honest_evaluation:
  assumes "result_of_checks role cs ev"
  shows "honest \<lparr>lr_layer = l, lr_passed = (ev_verdict ev \<noteq> Llm_FAIL), lr_findings = ev_findings ev,
     lr_metadata = m, lr_artifact_reference = r\<rparr>"
  using result_of_checks_sound(2,4) [OF assms] by (auto simp: honest_def blocks_def trust_can_block_def)

lemma honest_blocking [simp]: "honest (blocking_result l msg)" "lr_layer (blocking_result l msg) = l"
  by (simp_all add: honest_def blocks_def trust_can_block_def blocking_result_def)

lemma returns_evaluate_any:
  "returns (\<lambda>ev. \<exists>cs. result_of_checks role cs ev) (evaluate se role bundle previous n expected tpl rid ra)"
proof -
  obtain mandatory res_ids where "required_check_ids role previous n expected = (mandatory, res_ids)" by fastforce
  from returns_evaluate [OF this] show ?thesis by (rule returns_mono) blast
qed

text \<open>A result of the service carries an evaluation, or it failed with no findings.\<close>

definition service_result :: "fidelity_result \<Rightarrow> bool" where
  "service_result r \<longleftrightarrow> (case fr_evaluator_result r of
      None \<Rightarrow> fr_conformance_verdict r = Conformance_FAIL \<and> fr_findings r = []
    | Some ev \<Rightarrow> (\<exists>cs. result_of_checks Role_DOC_FIDELITY cs ev)
        \<and> fr_conformance_verdict r = verdict_from_llm (ev_verdict ev) \<and> fr_findings r = ev_findings ev)"

lemma returns_emit_result: "F r \<Longrightarrow> returns F (emit_result cs ctx aid r)"
  by (simp add: emit_result_def returns_seq)

lemma returns_emit_llm_result: "F r \<Longrightarrow> returns F (emit_llm_result cs level ctx aid r)"
  by (simp add: emit_llm_result_def returns_seq returns_emit_result)

lemma service_fail_result [simp]: "service_result (fail_result level a b used)"
  by (simp add: service_result_def fail_result_def)

lemma returns_try_value:
  assumes "returns G m" and "\<And>e. returns F (k (Inl e))" and "\<And>x. G x \<Longrightarrow> returns F (k (Inr x))"
  shows "returns F (try_io m k)"
  unfolding returns_def
proof (intro allI impI)
  fix s x t assume run: "try_io m k s = (Inr x, t)"
  obtain r u where m: "m s = (r, u)" by fastforce
  with run have k: "k r u = (Inr x, t)" by (simp add: try_io_def)
  show "F x"
  proof (cases r)
    case (Inl e)
    then show ?thesis using k assms(2) by (auto dest: returnsD)
  next
    case (Inr y)
    then have "G y" using m assms(1) by (auto dest: returnsD)
    then show ?thesis using k assms(3) Inr by (auto dest: returnsD)
  qed
qed

lemma returns_adapter:
  "returns (\<lambda>cv. service_result (result_of_evaluation level used cv)) (adapter_evaluate se level ctx sub refs i ps)"
proof (cases "ps = []")
  case True
  have made: "service_result (result_of_evaluation level used \<lparr>cv_verdict = verdict_from_llm (ev_verdict ev),
      cv_reason = reason_from_result ev, cv_description = d, cv_findings = ev_findings ev,
      cv_evaluator_result = Some ev\<rparr>)" if "\<exists>cs. result_of_checks Role_DOC_FIDELITY cs ev" for ev d
    using that by (simp add: service_result_def result_of_evaluation_def)
  show ?thesis
    unfolding adapter_evaluate_def True
    by (simp only: simp_thms if_False, rule returns_bind [OF returns_evaluate_any]) (simp only: returns_ret made)
qed (simp add: adapter_evaluate_def)

lemma returns_check_fidelity: "returns service_result (check_fidelity cs level ctx)"
proof -
  have late: "returns service_result (try_io (adapter_evaluate (cs_evaluator cs) level ctx sub tx i ps)
      (\<lambda>r. emit_llm_result cs level ctx aid (case r of Inl e \<Rightarrow> fail_result level (why e) d used
         | Inr cv \<Rightarrow> result_of_evaluation level used cv)))" for sub tx i ps aid why d used
    by (rule returns_try_value [OF returns_adapter [of level used]]) (simp_all add: returns_emit_llm_result)
  show ?thesis
    unfolding check_fidelity_def Let_def
    by (intro returns_bind_any returns_seq, split sum.split, intro conjI allI impI)
      (simp_all add: returns_emit_result late)
qed

subsection \<open>The metadata of an evaluation can always be read back\<close>

definition readable :: "layer_result \<Rightarrow> bool" where
  "readable lr \<longleftrightarrow> (\<exists>m. resolution_map_from_metadata (Some (lr_metadata lr)) = Inr m)"

lemma readable_plain:
  assumes "distinct (map fst m)" and "list_all plain_key (map fst m)"
    and "LLM_RESOLUTION_METADATA_KEY \<notin> fst ` set pre"
  shows "resolution_map_from_metadata (Some (pre @ resolution_metadata m)) = Inr (sort_key fst m)"
proof -
  have "distinct (map fst (sort_key fst m))" "list_all plain_key (map fst (sort_key fst m))"
    using distinct_sort_key [OF assms(1)] assms(2) by (simp_all add: list_all_iff)
  moreover have "map_of pre LLM_RESOLUTION_METADATA_KEY = None"
    using assms(3) by (simp add: map_of_eq_None_iff)
  ultimately show ?thesis
    using decode_entries_distinct [of "[]" "sort_key fst m"] serialize_plain [OF assms(1,2)]
    by (simp add: resolution_map_from_metadata_def resolution_metadata_def comp_def case_prod_unfold map_add_def)
qed

lemma no_resolution_readable:
  "LLM_RESOLUTION_METADATA_KEY \<notin> fst ` set (lr_metadata lr) \<Longrightarrow> readable lr"
  by (auto simp: readable_def resolution_map_from_metadata_def map_of_eq_None_iff [THEN iffD2])

lemma readable_evaluation:
  assumes "result_of_checks role cs ev"
  shows "readable \<lparr>lr_layer = l, lr_passed = b, lr_findings = fs, lr_metadata = evaluation_metadata ev ids,
    lr_artifact_reference = r\<rparr>"
proof -
  let ?pre = "[(''verdict'', JStr (llm_verdict_value (ev_verdict ev))),
     (''raw_response_hash'', JStr (ev_raw_response_hash ev)), (''template_sha256'', JStr (ev_template_sha256 ev)),
     executed_check_ids ids]"
  have pre: "LLM_RESOLUTION_METADATA_KEY \<notin> fst ` set ?pre"
    by (simp add: LLM_RESOLUTION_METADATA_KEY_def executed_check_ids_def)
  from assms have agg: "aggregate role cs = Inr (ev_findings ev, ev_finding_resolutions ev, ev_verdict ev)"
    by (simp add: result_of_checks_def)
  have "list_all plain_key (map fst (ev_finding_resolutions ev))"
    using aggregate_result(3,4) [OF agg] by (auto simp: list_all_iff)
  from readable_plain [OF aggregate_distinct [OF agg] this pre] show ?thesis
    using no_resolution_readable [of "\<lparr>lr_layer = l, lr_passed = b, lr_findings = fs, lr_metadata = ?pre,
      lr_artifact_reference = r\<rparr>"] pre
    by (auto simp: readable_def evaluation_metadata_def)
qed

lemma readable_blocking [simp]: "readable (blocking_result l msg)"
  by (rule no_resolution_readable)
    (simp add: blocking_result_def LLM_RESOLUTION_METADATA_KEY_def executed_check_ids_def)

subsection \<open>The three results\<close>

definition reports :: "string \<Rightarrow> layer_result \<Rightarrow> bool" where
  "reports l lr \<longleftrightarrow> lr_layer lr = l \<and> honest lr \<and> readable lr"

lemma reports_blocking [simp]: "reports l (blocking_result l msg)"
  by (simp add: reports_def)

lemma reports_evaluation:
  "result_of_checks role cs ev \<Longrightarrow> reports (role_value role) (to_layer_result role ev)"
  "result_of_checks role cs ev \<Longrightarrow> reports ''doc_fidelity'' (layer_result_from_structured_doc_fidelity ev)"
  unfolding reports_def to_layer_result_def layer_result_from_structured_doc_fidelity_def
  by (simp_all add: honest_evaluation readable_evaluation)

lemma reports_fidelity:
  assumes "service_result r"
  shows "reports ''doc_fidelity'' (layer_result_of_fidelity r)"
proof (cases "fr_evaluator_result r")
  case None
  have "readable (layer_result_of_fidelity r)"
    by (rule no_resolution_readable)
      (simp add: layer_result_of_fidelity_def None LLM_RESOLUTION_METADATA_KEY_def executed_check_ids_def)
  then show ?thesis
    using assms None by (simp add: reports_def layer_result_of_fidelity_def service_result_def honest_def blocks_def
        trust_can_block_def)
next
  case (Some ev)
  then show ?thesis
    using assms reports_evaluation(2) by (auto simp: layer_result_of_fidelity_def service_result_def)
qed

lemma returns_impl_conformance:
  "returns (\<lambda>doc. \<forall>lr \<in> set_option doc. reports ''doc_fidelity'' lr) (run_impl_conformance lp runner c)"
  unfolding run_impl_conformance_def
  by (cases c) (auto intro!: returns_bind_any returns_bind [OF returns_check_fidelity] simp: reports_fidelity)

lemma returns_run_in_order:
  "returns (\<lambda>xs. \<forall>v. Inr v \<in> set xs \<longrightarrow> (\<exists>cs. result_of_checks (ev_role v) cs v))
     (run_in_order (\<lambda>r. evaluate se r b p n e o' i a) rs)"
proof (induction rs)
  case (Cons r rs)
  have one: "returns (\<lambda>v. \<exists>cs. result_of_checks (ev_role v) cs v) (evaluate se r b p n e o' i a)"
    by (rule returns_mono [OF returns_evaluate_any]) (auto simp: result_of_checks_def)
  show ?case
    unfolding run_in_order.simps
    by (rule returns_try_value [OF one]; rule returns_bind [OF Cons.IH]) auto
qed simp

lemma first_failure_members: "first_failure xs = Inr vs \<Longrightarrow> v \<in> set vs \<Longrightarrow> Inr v \<in> set xs"
  by (induction xs arbitrary: vs rule: first_failure.induct) (auto split: sum.splits)

lemma returns_run_roles:
  "returns (\<lambda>m. \<forall>r v. m r = Some v \<longrightarrow> (\<exists>cs. result_of_checks r cs v)) (run_roles se completion b p n i a)"
  unfolding run_roles_def
proof (rule returns_bind [OF returns_run_in_order])
  fix xs :: "(reviewer_role \<times> exn + evaluator_result) list"
  assume sound: "\<forall>v. Inr v \<in> set xs \<longrightarrow> (\<exists>cs. result_of_checks (ev_role v) cs v)"
  show "returns (\<lambda>m. \<forall>r v. m r = Some v \<longrightarrow> (\<exists>cs. result_of_checks r cs v))
     (bind_io (lift_sum (first_failure xs)) (\<lambda>vs. ret (map_of (map (\<lambda>v. (ev_role v, v)) vs))))"
    by (rule returns_bind [where G = "\<lambda>vs. first_failure xs = Inr vs"])
      (auto split: sum.splits dest!: map_of_SomeD first_failure_members simp: sound)
qed

definition layer2_results :: "layer_result list \<Rightarrow> bool" where
  "layer2_results lrs \<longleftrightarrow> list_all2 reports [''qa_review'', ''semantic_review'', ''doc_fidelity''] lrs"

lemma returns_layer2_llm:
  assumes "\<forall>lr \<in> set_option doc. reports ''doc_fidelity'' lr"
  shows "returns layer2_results (run_layer2_llm runner completion ri sid n prev doc i a arch man limit)"
proof -
  have doc: "reports ''doc_fidelity'' (run_impl_fidelity doc)"
    using assms by (cases doc) (simp_all add: run_impl_fidelity_def)
  show ?thesis
    unfolding run_layer2_llm_def Let_def
    by (rule returns_bind_any, rule returns_bind [OF returns_run_roles])
      (auto simp: layer2_results_def doc split: option.splits
        dest: reports_evaluation(1) [of Role_QA_REVIEW, simplified] reports_evaluation(1) [of Role_SEMANTIC_REVIEW, simplified])
qed

lemma layer2_results_blocking [simp]: "layer2_results (blocking_layer2_results msg)"
  by (simp add: layer2_results_def blocking_layer2_results_def)

lemma returns_layer2_failclosed:
  assumes "\<forall>lr \<in> set_option doc. reports ''doc_fidelity'' lr"
  shows "returns layer2_results (run_layer2_llm_failclosed runner completion ri sid n prev doc i a arch man limit)"
  unfolding run_layer2_llm_failclosed_def
  by (rule returns_try_value [OF returns_layer2_llm [OF assms]]) simp_all

lemma returns_layer2_reviews: "returns layer2_results (run_layer2_reviews lp runner completion q)"
  unfolding run_layer2_reviews_def
  by (rule returns_bind_any, rule returns_bind [OF returns_impl_conformance], rule returns_layer2_failclosed)

text \<open>
  C25. When the second layer returns, it returns one result for each of the three reviewers, in the order
  of their artefacts; each of them passes exactly when none of its findings is a blocking one that
  the policy engine counts; and the resolutions in its metadata can be decoded, so that none of them is lost on
  the way to the closure block.
\<close>
theorem layer2_reports_honestly:
  assumes "run_layer2_reviews lp runner completion q s = (Inr lrs, t)"
  shows "map lr_layer lrs = [''qa_review'', ''semantic_review'', ''doc_fidelity'']
    \<and> (\<forall>lr \<in> set lrs. (lr_passed lr \<longleftrightarrow>
          \<not> (\<exists>f \<in> set (lr_findings lr). fd_severity f = Severity_BLOCKING \<and> trust_can_block f))
        \<and> (\<exists>m. resolution_map_from_metadata (Some (lr_metadata lr)) = Inr m))"
proof -
  from returnsD [OF returns_layer2_reviews assms] obtain a b c where
    "lrs = [a, b, c]" "reports ''qa_review'' a" "reports ''semantic_review'' b" "reports ''doc_fidelity'' c"
    by (auto simp: layer2_results_def list_all2_Cons1)
  then show ?thesis by (simp add: reports_def honest_def blocks_def readable_def)
qed

subsection \<open>One failing reviewer\<close>

lemma run_in_order_fails:
  assumes "r \<in> set rs" and "\<And>s. \<exists>e t. f r s = (Inl e, t)"
  shows "\<exists>xs t. run_in_order f rs s = (Inr xs, t) \<and> (\<exists>e. Inl (r, e) \<in> set xs)"
  using assms(1)
proof (induction rs arbitrary: s)
  case (Cons r' rs)
  have runs: "\<exists>xs t. run_in_order f rs' u = (Inr xs, t)" for rs' u
  proof (induction rs' arbitrary: u)
    case (Cons a as)
    obtain x v where "f a u = (x, v)" by fastforce
    moreover obtain xs t where "run_in_order f as v = (Inr xs, t)" using Cons.IH by blast
    ultimately show ?case by (simp add: io_app io_run)
  qed (simp add: io_run)
  obtain x u where x: "f r' s = (x, u)" by fastforce
  show ?case
  proof (cases "r' = r")
    case True
    obtain xs t where "run_in_order f rs u = (Inr xs, t)" using runs by blast
    moreover obtain e where "x = Inl e" using assms(2) [of s] x True by auto
    ultimately show ?thesis using x True by (auto simp: io_app io_run)
  next
    case False
    then obtain xs t e where "run_in_order f rs u = (Inr xs, t)" "Inl (r, e) \<in> set xs"
      using Cons by fastforce
    then show ?thesis using x by (auto simp: io_app io_run)
  qed
qed simp

lemma first_failure_fails: "Inl (r, e) \<in> set xs \<Longrightarrow> \<exists>x. first_failure xs = Inl x"
  by (induction xs rule: first_failure.induct) (auto split: sum.splits)

lemma failing_reviewer:
  assumes "role \<in> set completion"
    and "\<And>bundle s. \<exists>e t. evaluate runner role bundle (previous_of previous) qa_round None None run_id run_attempt s = (Inl e, t)"
  shows "\<exists>msg t. run_layer2_llm_failclosed runner completion review_input story_id qa_round previous doc run_id
      run_attempt arch manifest limit s
    = (Inr [blocking_result ''qa_review'' msg, blocking_result ''semantic_review'' msg, blocking_result ''doc_fidelity'' msg], t)"
proof -
  have "\<exists>e t. run_layer2_llm runner completion review_input story_id qa_round previous doc run_id run_attempt arch manifest limit s
      = (Inl e, t)"
  proof (cases "build_review_bundle review_input story_id qa_round arch manifest limit (previous_of previous)")
    case (Inl e)
    then show ?thesis by (simp add: run_layer2_llm_def previous_of_def io_app io_run)
  next
    case (Inr rb)
    obtain xs t e where xs: "run_in_order (\<lambda>r. evaluate runner r rb (previous_of previous) qa_round None None run_id run_attempt)
        completion s = (Inr xs, t)" "Inl (role, e) \<in> set xs"
      using run_in_order_fails [OF assms(1), of "\<lambda>r. evaluate runner r rb (previous_of previous) qa_round None None
        run_id run_attempt"] assms(2) by blast
    obtain x where "first_failure xs = Inl x" using first_failure_fails [OF xs(2)] by blast
    then show ?thesis
      using Inr xs(1) by (simp add: run_layer2_llm_def run_roles_def previous_of_def [symmetric] io_app io_run)
  qed
  then show ?thesis
    by (auto simp: run_layer2_llm_failclosed_def blocking_layer2_results_def io_app io_run)
qed

text \<open>
  One reviewer that cannot answer fails the whole layer, whatever the others found and whatever
  conformance said: the layer still returns its three results, and each of them fails with the one blocking
  finding of the system.
\<close>
theorem one_failing_reviewer_blocks_the_layer:
  assumes "role \<in> set completion"
    and "\<And>bundle s. \<exists>e t. evaluate runner role bundle (previous_of previous) qa_round None None run_id run_attempt s = (Inl e, t)"
  shows "\<exists>msg t. run_layer2_llm_failclosed runner completion review_input story_id qa_round previous doc run_id
      run_attempt arch manifest limit s
    = (Inr [blocking_result ''qa_review'' msg, blocking_result ''semantic_review'' msg, blocking_result ''doc_fidelity'' msg], t)"
  using assms by (rule failing_reviewer)

subsection \<open>A pass of the conformance service\<close>

lemma collect_references_read:
  "collect_references fs ctx ds = Inr rs \<Longrightarrow> r \<in> set rs
    \<Longrightarrow> pf_path fs (rd_path r) = Path_inside (File_text (rd_content r))"
  by (induction ds arbitrary: rs)
    (auto simp: read_reference_def manifest_error_def split: if_splits sum.splits path_state.splits file_state.splits)

lemma identified_references:
  assumes "identify_references fs ctx = Inr refs"
  shows "refs \<noteq> [] \<and> (\<forall>r \<in> set refs. pf_path fs (rd_path r) = Path_inside (File_text (rd_content r)))"
proof -
  obtain ds rs where rs: "collect_references fs ctx ds = Inr rs" "rs \<noteq> []" "refs = sort_key rd_path rs"
    using assms by (auto simp: identify_references_def manifest_error_def
        split: file_state.splits option.splits sum.splits list.splits)
  then have "set refs = set rs" by simp
  then show ?thesis using collect_references_read [OF rs(1)] rs(2) by (metis set_empty)
qed

definition shown_references :: "'x conformance_service \<Rightarrow> project_files \<Rightarrow> fidelity_context \<Rightarrow> reference_document list \<Rightarrow> bool" where
  "shown_references cs fs ctx refs \<longleftrightarrow> identify_references fs ctx = Inr refs
     \<and> int (length (fc_subject ctx) + length (format_references refs)) < min (cs_hard_limit cs) (cs_file_upload_threshold cs)"

definition fails_or_shown :: "'x conformance_service \<Rightarrow> project_files \<Rightarrow> fidelity_context \<Rightarrow> fidelity_result \<Rightarrow> bool" where
  "fails_or_shown cs fs ctx r \<longleftrightarrow> fr_conformance_verdict r = Conformance_FAIL
     \<or> (\<exists>refs. shown_references cs fs ctx refs \<and> fr_references_used r = map rd_path refs)"

lemma fails_or_shown_simps [simp]:
  "fails_or_shown cs fs ctx (fail_result level a b used)"
  "shown_references cs fs ctx refs \<Longrightarrow> fails_or_shown cs fs ctx (result_of_evaluation level (map rd_path refs) cv)"
  by (auto simp: fails_or_shown_def fail_result_def result_of_evaluation_def)

lemma returns_fails_or_shown:
  assumes "\<And>s. cs_files cs (fc_project_root ctx) s = (Inr fs, s)"
  shows "returns (fails_or_shown cs fs ctx) (check_fidelity cs level ctx)"
proof -
  have files: "returns (\<lambda>x. x = fs) (cs_files cs (fc_project_root ctx))" using assms by (auto simp: returns_def)
  have late: "returns (fails_or_shown cs fs ctx) (try_io m
      (\<lambda>r. emit_llm_result cs level ctx aid (case r of Inl e \<Rightarrow> fail_result level (why e) d (map rd_path refs)
         | Inr cv \<Rightarrow> result_of_evaluation level (map rd_path refs) cv)))"
    if "shown_references cs fs ctx refs" for m :: "('a, conformance_evaluation) qa_action" and aid why d refs
    by (intro returns_try returns_emit_llm_result) (use that in \<open>simp split: sum.split\<close>)
  have small: "shown_references cs fs ctx refs"
    if "identify_references fs ctx = Inr refs" "\<not> cs_hard_limit cs \<le> int (length (fc_subject ctx)) + int (length (format_references refs))"
      "\<not> (cs_file_upload_threshold cs \<le> int (length (fc_subject ctx)) + int (length (format_references refs)) \<and> \<not> supports_file_upload)"
    for refs
    using that by (simp add: shown_references_def supports_file_upload_def)
  show ?thesis
    unfolding check_fidelity_def Let_def
    apply (rule returns_bind_any, rule returns_seq, rule returns_bind [OF files], hypsubst, split sum.split, intro conjI allI impI)
     apply (rule returns_emit_result, simp)
    apply (split if_split, intro conjI impI, rule returns_emit_result, simp)
    apply (split if_split, intro conjI impI, rule returns_emit_result, simp)
    apply (rule late, rule small, assumption+)
    done
qed

text \<open>
  A conformance assessment that does not fail was earned: there is an evaluation that did not fail,
  the references it was shown exist, are readable and lie inside the project, and subject and references
  together are below both size limits. An unreadable manifest, an oversized payload or a failing reviewer never
  pass.
\<close>
theorem conformance_pass_is_earned:
  assumes "\<And>s. cs_files cs (fc_project_root ctx) s = (Inr fs, s)"
    and "check_fidelity cs level ctx s = (Inr r, t)"
    and "fr_conformance_verdict r \<noteq> Conformance_FAIL"
  shows "\<exists>ev refs. fr_evaluator_result r = Some ev \<and> ev_verdict ev \<noteq> Llm_FAIL
    \<and> identify_references fs ctx = Inr refs \<and> refs \<noteq> [] \<and> fr_references_used r = map rd_path refs
    \<and> (\<forall>d \<in> set refs. pf_path fs (rd_path d) = Path_inside (File_text (rd_content d)))
    \<and> int (length (fc_subject ctx) + length (format_references refs))
        < min (cs_hard_limit cs) (cs_file_upload_threshold cs)"
proof -
  obtain refs where refs: "shown_references cs fs ctx refs" "fr_references_used r = map rd_path refs"
    using returnsD [OF returns_fails_or_shown [OF assms(1)] assms(2)] assms(3) by (auto simp: fails_or_shown_def)
  obtain ev where ev: "fr_evaluator_result r = Some ev" "fr_conformance_verdict r = verdict_from_llm (ev_verdict ev)"
    using returnsD [OF returns_check_fidelity assms(2)] assms(3) by (auto simp: service_result_def split: option.splits)
  then have "ev_verdict ev \<noteq> Llm_FAIL" using assms(3) by auto
  then show ?thesis using refs ev identified_references [of fs ctx refs] by (auto simp: shown_references_def)
qed

section \<open>Concrete runs\<close>

definition demo_ports :: "unit layer2_ports" where
  "demo_ports = \<lparr>lp_files = \<lambda>_. ret \<lparr>pf_manifest = File_missing, pf_path = \<lambda>_. Path_outside\<rparr>,
     lp_uuid4 = ret ''u'', lp_emit = \<lambda>_ _. ret (), lp_conformance_config = None, lp_bundle_token_limit = 32000\<rparr>"

definition demo_run :: layer2_run where
  "demo_run = \<lparr>lq_story_id = ''AG3-1'', lq_run_id = ''r1'', lq_story_dir = ''d'', lq_attempt = 1,
     lq_review_input = empty_review_input, lq_story_ctx = None, lq_qa_cycle_round = 1, lq_previous_findings = [],
     lq_arch_references = [], lq_evidence_manifest = None\<rparr>"

lemma mute_unparseable:
  "\<exists>e. parse_response_three_stage ''?'' Role_QA_REVIEW (ROLE_CHECK_IDS Role_QA_REVIEW) = Inl e"
proof -
  have "stage2_extract_json ''?'' = None" by code_simp
  moreover have "stage3_regex_fallback ''?'' (ROLE_CHECK_IDS Role_QA_REVIEW) = None" by code_simp
  ultimately show ?thesis by (simp add: parse_response_three_stage_def)
qed

lemma mute_evaluator_fails:
  "\<exists>e t. evaluate (demo_evaluator ''?'') Role_QA_REVIEW b None 1 None None i n (s :: unit qa_state) = (Inl e, t)"
proof -
  obtain e where e: "parse_response_three_stage ''?'' Role_QA_REVIEW (ROLE_CHECK_IDS Role_QA_REVIEW) = Inl e"
    using mute_unparseable by blast
  have "py_strip ''?'' \<noteq> []" by code_simp
  then show ?thesis
    using e by (simp add: evaluate_def evaluate_with_retry_def demo_evaluator_def io_app io_run numeral_2_eq_2
        raise_if_retry_budget_exhausted_def complete_attempt_def now_def required_check_ids_def
        emit_llm_call_event_def TOTAL_TIMEOUT_SECONDS_def)
qed

lemma one_failing_reviewer_blocks_the_layer_witness:
  "\<forall>s :: unit qa_state. \<exists>msg t. run_layer2_llm_failclosed (demo_evaluator ''?'') [Role_SEMANTIC_REVIEW, Role_QA_REVIEW]
      empty_review_input ''AG3-1'' 1 [] None None 1 [] None 32000 s
    = (Inr [blocking_result ''qa_review'' msg, blocking_result ''semantic_review'' msg, blocking_result ''doc_fidelity'' msg], t)"
proof
  fix s :: "unit qa_state"
  show "\<exists>msg t. run_layer2_llm_failclosed (demo_evaluator ''?'') [Role_SEMANTIC_REVIEW, Role_QA_REVIEW]
      empty_review_input ''AG3-1'' 1 [] None None 1 [] None 32000 s
    = (Inr [blocking_result ''qa_review'' msg, blocking_result ''semantic_review'' msg, blocking_result ''doc_fidelity'' msg], t)"
    by (rule one_failing_reviewer_blocks_the_layer [of Role_QA_REVIEW])
      (simp_all add: previous_of_def mute_evaluator_fails)
qed

lemma layer2_reports_honestly_witness:
  "\<forall>s :: unit qa_state. \<exists>lrs t. run_layer2_reviews demo_ports (demo_evaluator ''?'') [Role_SEMANTIC_REVIEW, Role_QA_REVIEW]
      demo_run s = (Inr lrs, t) \<and> map lr_layer lrs = [''qa_review'', ''semantic_review'', ''doc_fidelity'']"
proof
  fix s :: "unit qa_state"
  have doc: "run_layer2_reviews demo_ports (demo_evaluator ''?'') [Role_SEMANTIC_REVIEW, Role_QA_REVIEW] demo_run s
      = run_layer2_llm_failclosed (demo_evaluator ''?'') [Role_SEMANTIC_REVIEW, Role_QA_REVIEW]
          empty_review_input ''AG3-1'' 1 [] None (Some ''r1'') 1 [] None 32000 s"
    by (simp add: run_layer2_reviews_def build_impl_conformance_context_def demo_run_def demo_ports_def
        run_impl_conformance_def io_app io_run)
  have "\<exists>msg t. run_layer2_llm_failclosed (demo_evaluator ''?'') [Role_SEMANTIC_REVIEW, Role_QA_REVIEW]
      empty_review_input ''AG3-1'' 1 [] None (Some ''r1'') 1 [] None 32000 s
    = (Inr [blocking_result ''qa_review'' msg, blocking_result ''semantic_review'' msg, blocking_result ''doc_fidelity'' msg], t)"
    by (rule failing_reviewer [of Role_QA_REVIEW]) (simp_all add: previous_of_def mute_evaluator_fails)
  then obtain lrs t where run: "run_layer2_reviews demo_ports (demo_evaluator ''?'') [Role_SEMANTIC_REVIEW, Role_QA_REVIEW]
      demo_run s = (Inr lrs, t)" unfolding doc by blast
  from layer2_reports_honestly [OF run]
  have "map lr_layer lrs = [''qa_review'', ''semantic_review'', ''doc_fidelity'']" by (rule conjunct1)
  with run show "\<exists>lrs t. run_layer2_reviews demo_ports (demo_evaluator ''?'') [Role_SEMANTIC_REVIEW, Role_QA_REVIEW]
      demo_run s = (Inr lrs, t) \<and> map lr_layer lrs = [''qa_review'', ''semantic_review'', ''doc_fidelity'']"
    by (intro exI [of _ lrs] exI [of _ t] conjI)
qed

text \<open>A project with one reference for every module and story type.\<close>

definition demo_manifest :: string where
  "demo_manifest = json_dumps (JObj [(''documents'', JList [JObj [(''path'', JStr ''a.md''), (''scope'', JStr ''all''),
     (''modules'', JList [JStr ''*'']), (''story_types'', JList [JStr ''*''])]])])"

definition demo_project :: project_files where
  "demo_project = \<lparr>pf_manifest = File_text demo_manifest, pf_path = \<lambda>_. Path_inside (File_text ''ok'')\<rparr>"

definition fidelity_answer :: string where
  "fidelity_answer = json_dumps (JList [JObj [(''check_id'', JStr ''impl_fidelity''), (''status'', JStr ''PASS'')]])"

definition demo_service :: "unit conformance_service" where
  "demo_service = \<lparr>cs_evaluator = demo_evaluator fidelity_answer, cs_files = \<lambda>_. ret demo_project,
     cs_uuid4 = ret ''u'', cs_emit = \<lambda>_ _. ret (), cs_file_upload_threshold = 51200, cs_hard_limit = 512000\<rparr>"

definition demo_fidelity_context :: fidelity_context where
  "demo_fidelity_context = \<lparr>fc_story_id = ''AG3-1'', fc_run_id = ''r1'', fc_project_root = ''p'',
     fc_story_type = ''implementation'', fc_module = ''app'', fc_subject = ''s'', fc_story_description = ''t'',
     fc_tags = [], fc_review_bundle = None, fc_previous_findings = [], fc_qa_cycle_round = 1\<rparr>"

lemma demo_references:
  "identify_references demo_project demo_fidelity_context = Inr [\<lparr>rd_path = ''a.md'', rd_scope = ''all'', rd_content = ''ok''\<rparr>]"
  by code_simp

lemma fidelity_answer_parses:
  "parse_response_three_stage fidelity_answer Role_DOC_FIDELITY [''impl_fidelity''] = Inr [passed_check ''impl_fidelity'']"
  by code_simp

lemma fidelity_evaluation:
  "\<exists>ev t. evaluate (demo_evaluator fidelity_answer) Role_DOC_FIDELITY b None 1 (Some [''impl_fidelity'']) tpl i n
      (s :: unit qa_state) = (Inr ev, t) \<and> ev_verdict ev = Llm_PASS \<and> ev_findings ev = []"
proof -
  have "aggregate Role_DOC_FIDELITY [passed_check ''impl_fidelity''] = Inr ([], [], Llm_PASS)" by code_simp
  moreover have "py_strip fidelity_answer \<noteq> []" by code_simp
  ultimately show ?thesis
    using fidelity_answer_parses
    by (simp add: evaluate_def evaluate_with_retry_def demo_evaluator_def io_app io_run numeral_2_eq_2
        raise_if_retry_budget_exhausted_def complete_attempt_def now_def finish_evaluation_def required_check_ids_def
        emit_llm_call_event_def persist_prompt_audit_def validate_completeness_def passed_check_def)
qed

lemma conformance_pass_is_earned_witness:
  "\<forall>s :: unit qa_state. \<exists>r t ev. check_fidelity demo_service Level_IMPL demo_fidelity_context s = (Inr r, t)
     \<and> fr_evaluator_result r = Some ev \<and> fr_references_used r = [''a.md'']"
proof
  fix s :: "unit qa_state"
  have files: "cs_files demo_service (fc_project_root demo_fidelity_context) u = (Inr demo_project, u)" for u
    by (simp add: demo_service_def io_run)
  have size: "length (format_references [\<lparr>rd_path = ''a.md'', rd_scope = ''all'', rd_content = ''ok''\<rparr>]) = 21"
    by code_simp
  obtain ev u where ev: "evaluate (demo_evaluator fidelity_answer) Role_DOC_FIDELITY
      (bundle_for_context demo_fidelity_context ''s'' (format_references [\<lparr>rd_path = ''a.md'', rd_scope = ''all'', rd_content = ''ok''\<rparr>]))
      None 1 (Some [''impl_fidelity'']) (Some ''qa-doc-fidelity'') (Some ''r1'') 1 s = (Inr ev, u)" "ev_verdict ev = Llm_PASS"
    using fidelity_evaluation by blast
  then obtain r t where run: "check_fidelity demo_service Level_IMPL demo_fidelity_context s = (Inr r, t)"
    and pass: "fr_conformance_verdict r = Conformance_PASS"
    using demo_references size
    by (simp add: check_fidelity_def demo_service_def demo_fidelity_context_def io_app io_run Let_def
        adapter_evaluate_def emit_llm_result_def emit_result_def result_of_evaluation_def supports_file_upload_def)
  have "fr_conformance_verdict r \<noteq> Conformance_FAIL" using pass by simp
  from conformance_pass_is_earned [OF files run this] demo_references run
  show "\<exists>r t ev. check_fidelity demo_service Level_IMPL demo_fidelity_context s = (Inr r, t)
     \<and> fr_evaluator_result r = Some ev \<and> fr_references_used r = [''a.md'']" by auto
qed

end
