(* ===== verification/Context_Sufficiency.thy ===== *)
theory Context_Sufficiency
  imports Stabilization Layer2_Review
begin

text \<open>
  The context-sufficiency pre-step of layer 2 (\<open>verify_system/llm_evaluator/context_sufficiency.py\<close>):
  it completes the review input from the story directory, states for each of six fields whether it is
  there, and classifies the context. It warns and never blocks.

  What the builder reads is a record: \<open>context.json\<close> and \<open>handover.json\<close> as read and parsed (an
  exception the code does not catch, nothing, or a document; numbers are integers), text files by
  path (not a file is \<open>None\<close>, a file the system cannot read is empty), the resolution of a path, and
  the scope manifest when the stored story context has the stabilisation contract. How pydantic
  renders a valid bundle manifest is a parameter.
\<close>

section \<open>Fields and their status\<close>

datatype sufficiency_level = SUFFICIENT | REVIEWABLE_WITH_GAPS | PARTIALLY_REVIEWABLE

fun sufficiency_value :: "sufficiency_level \<Rightarrow> string" where
  "sufficiency_value SUFFICIENT = ''sufficient''"
| "sufficiency_value REVIEWABLE_WITH_GAPS = ''reviewable_with_gaps''"
| "sufficiency_value PARTIALLY_REVIEWABLE = ''partially_reviewable''"

record context_field_status =
  fs_status :: string
  fs_chars :: int
  fs_truncated :: bool
  fs_truncated_from :: "int option"
  fs_note :: "string option"

definition new_field_status :: "string \<Rightarrow> int \<Rightarrow> context_field_status" where
  "new_field_status status chars = \<lparr>fs_status = status, fs_chars = chars, fs_truncated = False,
     fs_truncated_from = None, fs_note = None\<rparr>"

definition looks_summary_only :: "string \<Rightarrow> bool" where
  "looks_summary_only v = (\<not> blank v \<and> \<not> contains [CHR 0x0A, CHR ''#''] v \<and> py_len v < 1500)"

text \<open>A value is a text, or a JSON value rendered by \<open>render\<close>; absent values render as nothing.\<close>

definition status_for :: "string \<Rightarrow> string \<Rightarrow> context_field_status" where
  "status_for field_name rendered =
    (if blank rendered then new_field_status ''missing'' 0
     else if field_name = ''diff_summary'' \<and> BUNDLE_TOKEN_LIMIT < int (py_len rendered)
     then (new_field_status ''truncated'' BUNDLE_TOKEN_LIMIT)
       \<lparr>fs_truncated := True, fs_truncated_from := Some (int (py_len rendered))\<rparr>
     else if field_name = ''concept_excerpt'' \<and> looks_summary_only rendered
     then (new_field_status ''summary_only'' (int (py_len rendered)))
       \<lparr>fs_note := Some ''Only summary text available; primary concept source was not loaded.''\<rparr>
     else new_field_status ''present'' (int (py_len rendered)))"

definition gaps_for :: "(string \<times> context_field_status) list \<Rightarrow> string list" where
  "gaps_for bundles = concat (map (\<lambda>(name, s).
     if fs_status s = ''missing'' then [name @ '': missing'']
     else if fs_status s \<in> {''truncated'', ''summary_only''} then [name @ '': '' @ fs_status s] else []) bundles)"

definition classify_context :: "(string \<times> context_field_status) list \<Rightarrow> sufficiency_level" where
  "classify_context bundles =
    (if list_ex (\<lambda>(_, s). fs_status s = ''missing'') bundles then PARTIALLY_REVIEWABLE
     else if list_ex (\<lambda>(_, s). fs_status s \<in> {''truncated'', ''summary_only''}) bundles then REVIEWABLE_WITH_GAPS
     else SUFFICIENT)"

section \<open>Loading\<close>

record story_sources =
  ss_story_id :: string
  ss_story_dir :: string
  ss_worktree_root :: "string option"
  ss_context_json :: "exn + json option"
  ss_handover_json :: "exn + json option"
  ss_resolve :: "string \<Rightarrow> string"
  ss_text :: "string \<Rightarrow> exn + string option"
  ss_is_manifest :: "scope_manifest option"

definition path_join :: "string \<Rightarrow> string \<Rightarrow> string" where
  "path_join base p = (if starts_with ''/'' p then p else base @ ''/'' @ p)"

text \<open>\<open>story_dir.parent.name == "stories"\<close>\<close>

definition infer_worktree_root :: "string \<Rightarrow> string" where
  "infer_worktree_root story_dir =
    (let parts = split_on slash story_dir; n = length parts in
     if 2 \<le> n \<and> parts ! (n - 2) = ''stories'' then join ''/'' (take (n - 2) parts) else story_dir)"

definition worktree_root :: "story_sources \<Rightarrow> string" where
  "worktree_root src = (case ss_worktree_root src of Some r \<Rightarrow> r | None \<Rightarrow> infer_worktree_root (ss_story_dir src))"

definition read_text :: "story_sources \<Rightarrow> string \<Rightarrow> exn + string" where
  "read_text src p = map_sum id (\<lambda>t. case t of None \<Rightarrow> [] | Some c \<Rightarrow> c) (ss_text src p)"

definition load_context_json :: "story_sources \<Rightarrow> exn + (string \<times> json) list" where
  "load_context_json src = map_sum id (\<lambda>d. case d of Some (JObj kvs) \<Rightarrow> kvs | _ \<Rightarrow> []) (ss_context_json src)"

definition load_handover :: "story_sources \<Rightarrow> exn + string" where
  "load_handover src = map_sum id (\<lambda>d. case d of None \<Rightarrow> [] | Some j \<Rightarrow> json_dumps j) (ss_handover_json src)"

definition is_file :: "story_sources \<Rightarrow> string \<Rightarrow> bool" where
  "is_file src p = (ss_text src p \<noteq> Inr None)"

definition resolve_concept_ref :: "story_sources \<Rightarrow> string \<Rightarrow> string option" where
  "resolve_concept_ref src raw =
    (let root = worktree_root src;
         concept_root = root @ ''/concept'' in
     List.find (is_file src) (map (\<lambda>base. ss_resolve src (path_join base raw))
       [root, concept_root, concept_root @ ''/domain-design'', concept_root @ ''/technical-design'']))"

fun concept_sections :: "story_sources \<Rightarrow> json list \<Rightarrow> exn + string list" where
  "concept_sections src [] = Inr []"
| "concept_sections src (j # js) = (case j of
      JStr raw \<Rightarrow>
       (if blank raw then concept_sections src js
        else case resolve_concept_ref src raw of
          None \<Rightarrow> concept_sections src js
        | Some p \<Rightarrow> (case read_text src p of
            Inl e \<Rightarrow> Inl e
          | Inr content \<Rightarrow> map_sum id (\<lambda>secs. (if content = [] then [] else [''## '' @ p @ newline @ content]) @ secs)
              (concept_sections src js)))
    | _ \<Rightarrow> concept_sections src js)"

definition blank_between :: string where
  "blank_between = newline @ newline"

definition load_concept_refs :: "story_sources \<Rightarrow> (string \<times> json) list \<Rightarrow> exn + string" where
  "load_concept_refs src ctx = (case map_of ctx ''concept_refs'' of
      Some (JList refs) \<Rightarrow> map_sum id (join blank_between) (concept_sections src refs)
    | _ \<Rightarrow> Inr [])"

definition non_blank_text :: "json option \<Rightarrow> string option" where
  "non_blank_text v = (case v of Some (JStr s) \<Rightarrow> if blank s then None else Some s | _ \<Rightarrow> None)"

definition load_concept_excerpt :: "story_sources \<Rightarrow> (string \<times> json) list \<Rightarrow> exn + string" where
  "load_concept_excerpt src ctx = map_sum id (\<lambda>loaded. if loaded \<noteq> [] then loaded
     else case List.find (\<lambda>k. non_blank_text (map_of ctx k) \<noteq> None) [''concept_excerpt'', ''concept_summary'', ''summary''] of
        Some k \<Rightarrow> the (non_blank_text (map_of ctx k))
      | None \<Rightarrow> []) (load_concept_refs src ctx)"

definition render_external_source :: "json \<Rightarrow> string" where
  "render_external_source j = (case j of JObj _ \<Rightarrow> json_dumps j | _ \<Rightarrow> json_show j)"

definition load_arch_references :: "story_sources \<Rightarrow> (string \<times> json) list \<Rightarrow> exn + string" where
  "load_arch_references src ctx = map_sum id (\<lambda>loaded. join blank_between
     ((if loaded \<noteq> [] then [loaded] else [])
      @ (case map_of ctx ''external_sources'' of
           Some (JList (x # xs)) \<Rightarrow>
             [''## External Sources'' @ newline @ join newline (map render_external_source (x # xs))]
         | _ \<Rightarrow> []))) (load_concept_refs src ctx)"

definition is_context_text :: "scope_manifest option \<Rightarrow> string" where
  "is_context_text m = (case m of None \<Rightarrow> [] | Some m \<Rightarrow> join newline
     ([''## Integration-Stabilization Context (FK-37 '' @ section_sign @ ''37.1.3)'',
       ''- **project_key**: '' @ im_project_key m, ''- **story_id**: '' @ im_story_id m,
       ''- **target_seams**: '' @ py_list_repr (im_target_seams m),
       ''- **allowed_repos_paths**: '' @ py_list_repr (im_allowed_repos_paths m),
       ''- **integration_targets**: '' @ py_list_repr (im_integration_targets m),
       ''- **allowed_contract_changes**: '' @ py_list_repr (im_allowed_contract_changes m),
       ''- **stabilization_budget**:'',
       ''  - max_loops: '' @ show_int (bc_max_loops (im_stabilization_budget m)),
       ''  - max_new_surfaces: '' @ show_int (bc_max_new_surfaces (im_stabilization_budget m)),
       ''  - max_contract_changes: '' @ show_int (bc_max_contract_changes (im_stabilization_budget m)),
       ''  - max_regressions_per_cycle: '' @ show_int (bc_max_regressions_per_cycle (im_stabilization_budget m))]
      @ (if im_out_of_contract_examples m = [] then []
         else [''- **out_of_contract_examples**: '' @ py_list_repr (im_out_of_contract_examples m)])))"

definition dock_is_context :: "string \<Rightarrow> string \<Rightarrow> string" where
  "dock_is_context excerpt is_context =
    (if is_context = [] then excerpt
     else if excerpt = [] then is_context else excerpt @ blank_between @ is_context)"

section \<open>The evidence manifest of the caller\<close>

text \<open>
  A dictionary of \<open>context.json\<close> that pydantic takes for a bundle manifest becomes one: its dump and its
  text are the parameter. Every other value stays as it is.
\<close>

datatype evidence_manifest = Bundle_manifest json string | Raw_manifest json

fun manifest_json :: "evidence_manifest \<Rightarrow> json" where
  "manifest_json (Bundle_manifest j t) = j"
| "manifest_json (Raw_manifest j) = j"

fun manifest_text :: "evidence_manifest \<Rightarrow> string" where
  "manifest_text (Bundle_manifest j t) = t"
| "manifest_text (Raw_manifest j) = (case j of JStr s \<Rightarrow> s | _ \<Rightarrow> json_dumps j)"

definition render_manifest :: "evidence_manifest option \<Rightarrow> string" where
  "render_manifest v = (case v of None \<Rightarrow> [] | Some m \<Rightarrow> manifest_text m)"

type_synonym bundle_reader = "(string \<times> json) list \<Rightarrow> (json \<times> string) option"

definition caller_evidence_manifest :: "bundle_reader \<Rightarrow> (string \<times> json) list \<Rightarrow> evidence_manifest option" where
  "caller_evidence_manifest as_bundle ctx = (case map_of ctx ''evidence_manifest'' of
      Some (JObj kvs) \<Rightarrow> Some (case as_bundle kvs of
         Some (j, t) \<Rightarrow> Bundle_manifest j t | None \<Rightarrow> Raw_manifest (JObj kvs))
    | Some (JStr s) \<Rightarrow> if blank s then None else Some (Raw_manifest (JStr s))
    | _ \<Rightarrow> None)"

definition caller_diff_summary :: "(string \<times> json) list \<Rightarrow> string option" where
  "caller_diff_summary ctx = non_blank_text (map_of ctx ''diff_summary'')"

section \<open>The result\<close>

record context_sufficiency_result =
  cr_enriched_input :: layer2_review_input
  cr_arch_references :: string
  cr_evidence_manifest :: "json option"
  cr_sufficiency :: sufficiency_level
  cr_bundles :: "(string \<times> context_field_status) list"
  cr_gaps :: "string list"
  cr_story_id :: string

definition or_load :: "string \<Rightarrow> exn + string \<Rightarrow> exn + string" where
  "or_load given loaded = (if given \<noteq> [] then Inr given else loaded)"

definition build_context_sufficiency ::
  "story_sources \<Rightarrow> (string \<times> json) list \<Rightarrow> layer2_review_input
     \<Rightarrow> string option \<Rightarrow> evidence_manifest option \<Rightarrow> exn + context_sufficiency_result" where
  "build_context_sufficiency src ctx ri diff manifest =
    (case or_load (li_story_spec ri) (read_text src (ss_story_dir src @ ''/story.md'')) of Inl e \<Rightarrow> Inl e | Inr spec \<Rightarrow>
    (case or_load (li_handover ri) (load_handover src) of Inl e \<Rightarrow> Inl e | Inr handover \<Rightarrow>
    (case or_load (li_concept_excerpt ri) (load_concept_excerpt src ctx) of Inl e \<Rightarrow> Inl e | Inr concept \<Rightarrow>
    (case load_arch_references src ctx of Inl e \<Rightarrow> Inl e | Inr arch \<Rightarrow>
     let excerpt = dock_is_context concept (is_context_text (ss_is_manifest src));
         diff_text = (case diff of None \<Rightarrow> [] | Some d \<Rightarrow> d);
         bundles = map (\<lambda>(name, v). (name, status_for name v))
           [(''story_spec'', spec), (''diff_summary'', diff_text), (''concept_excerpt'', excerpt),
            (''handover'', handover), (''arch_references'', arch),
            (''evidence_manifest'', render_manifest manifest)] in
     Inr \<lparr>cr_enriched_input = \<lparr>li_story_spec = spec,
            li_diff_summary = (if diff_text \<noteq> [] then diff_text else li_diff_summary ri),
            li_concept_excerpt = excerpt, li_handover = handover\<rparr>,
          cr_arch_references = arch, cr_evidence_manifest = map_option manifest_json manifest,
          cr_sufficiency = classify_context bundles, cr_bundles = bundles, cr_gaps = gaps_for bundles,
          cr_story_id = ss_story_id src\<rparr>))))"

definition status_json :: "context_field_status \<Rightarrow> json" where
  "status_json s = JObj [(''status'', JStr (fs_status s)), (''chars'', JInt (fs_chars s)),
     (''truncated'', JBool (fs_truncated s)), (''truncated_from'', json_opt JInt (fs_truncated_from s)),
     (''note'', json_opt JStr (fs_note s))]"

definition sufficiency_artifact :: "context_sufficiency_result \<Rightarrow> (string \<times> json) list" where
  "sufficiency_artifact r = [(''schema_version'', JStr ''1.0''), (''story_id'', JStr (cr_story_id r)),
     (''stage'', JStr ''context_sufficiency''),
     (''bundles'', JObj (map (\<lambda>(n, s). (n, status_json s)) (cr_bundles r))),
     (''sufficiency'', JStr (sufficiency_value (cr_sufficiency r))), (''gaps'', json_strs (cr_gaps r))]"

text \<open>The pre-step as the subflow runs it: the manifest of its own context comes first.\<close>

definition context_sufficiency_of ::
  "bundle_reader \<Rightarrow> story_sources \<Rightarrow> layer2_review_input \<Rightarrow> metadata option
     \<Rightarrow> exn + context_sufficiency_result" where
  "context_sufficiency_of as_bundle src ri manifest = (case load_context_json src of
      Inl e \<Rightarrow> Inl e
    | Inr ctx \<Rightarrow> build_context_sufficiency src ctx ri (caller_diff_summary ctx)
        (case manifest of Some m \<Rightarrow> Some (Raw_manifest (JObj m)) | None \<Rightarrow> caller_evidence_manifest as_bundle ctx))"

section \<open>What the verdict says\<close>

lemma status_present:
  "fs_status (status_for n v) = ''missing'' \<longleftrightarrow> blank v"
  "fs_status (status_for n v) \<in> {''truncated'', ''summary_only''} \<longleftrightarrow> \<not> blank v
     \<and> (n = ''diff_summary'' \<and> BUNDLE_TOKEN_LIMIT < int (py_len v) \<or> n = ''concept_excerpt'' \<and> looks_summary_only v)"
  by (auto simp: status_for_def new_field_status_def)

definition shortened :: "string \<Rightarrow> string \<Rightarrow> bool" where
  "shortened n v \<longleftrightarrow> n = ''diff_summary'' \<and> BUNDLE_TOKEN_LIMIT < int (py_len v) \<or> n = ''concept_excerpt'' \<and> looks_summary_only v"

definition complete_field :: "context_field_status \<Rightarrow> bool" where
  "complete_field s \<longleftrightarrow> fs_status s \<notin> {''missing'', ''truncated'', ''summary_only''}"

lemma complete_status_for: "complete_field (status_for n v) \<longleftrightarrow> \<not> blank v \<and> \<not> shortened n v"
  using status_present [of n v] by (auto simp: complete_field_def shortened_def)

lemma classify_complete: "classify_context bs = SUFFICIENT \<longleftrightarrow> list_all (\<lambda>(n, s). complete_field s) bs"
  by (induction bs) (auto simp: classify_context_def complete_field_def)

lemma classify_fields:
  "classify_context (map (\<lambda>(n, v). (n, status_for n v)) vs) = SUFFICIENT
     \<longleftrightarrow> list_all (\<lambda>(n, v). \<not> blank v \<and> \<not> shortened n v) vs"
  by (induction vs) (auto simp: classify_complete complete_status_for)

lemma gaps_Nil: "gaps_for bundles = [] \<longleftrightarrow> classify_context bundles = SUFFICIENT"
proof -
  have "gaps_for bundles = [] \<longleftrightarrow> (\<forall>(n, s) \<in> set bundles. fs_status s \<notin> {''missing'', ''truncated'', ''summary_only''})"
    by (auto simp: gaps_for_def)
  then show ?thesis by (auto simp: classify_context_def list_ex_iff)
qed

lemma warnings_artifact:
  "context_sufficiency_warnings (Some (sufficiency_artifact r)) = [] \<longleftrightarrow> cr_sufficiency r = SUFFICIENT"
  by (cases "cr_sufficiency r") (simp_all add: context_sufficiency_warnings_def sufficiency_artifact_def)

lemma or_load_given: "or_load given loaded = Inr v \<Longrightarrow> given \<noteq> [] \<Longrightarrow> v = given"
  by (simp add: or_load_def)

text \<open>
  The pre-step's verdict on the context is exact: it says \<open>sufficient\<close> if and only if the story
  specification, the handover, the concept excerpt and the architecture references that the reviewers
  then get are not blank, the caller gave a diff summary that is not blank and within the packing limit,
  an evidence manifest is there, and the excerpt is more than a bare summary; exactly then there are
  no gaps and the policy engine adds no warning, and no text that the caller supplied is replaced.\<close>
theorem sufficiency_verdict_exact:
  assumes "build_context_sufficiency src ctx ri diff manifest = Inr r"
  shows "(cr_sufficiency r = SUFFICIENT \<longleftrightarrow>
      \<not> blank (li_story_spec (cr_enriched_input r)) \<and> \<not> blank (li_handover (cr_enriched_input r))
      \<and> \<not> blank (li_concept_excerpt (cr_enriched_input r)) \<and> \<not> looks_summary_only (li_concept_excerpt (cr_enriched_input r))
      \<and> \<not> blank (cr_arch_references r) \<and> \<not> blank (render_manifest manifest)
      \<and> (\<exists>d. diff = Some d \<and> \<not> blank d \<and> int (py_len d) \<le> BUNDLE_TOKEN_LIMIT))
    \<and> (cr_gaps r = [] \<longleftrightarrow> cr_sufficiency r = SUFFICIENT)
    \<and> (context_sufficiency_warnings (Some (sufficiency_artifact r)) = [] \<longleftrightarrow> cr_sufficiency r = SUFFICIENT)
    \<and> (li_story_spec ri \<noteq> [] \<longrightarrow> li_story_spec (cr_enriched_input r) = li_story_spec ri)
    \<and> (li_handover ri \<noteq> [] \<longrightarrow> li_handover (cr_enriched_input r) = li_handover ri)"
proof -
  obtain spec handover concept arch where parts:
    "or_load (li_story_spec ri) (read_text src (ss_story_dir src @ ''/story.md'')) = Inr spec"
    "or_load (li_handover ri) (load_handover src) = Inr handover"
    "or_load (li_concept_excerpt ri) (load_concept_excerpt src ctx) = Inr concept"
    "load_arch_references src ctx = Inr arch"
    using assms by (auto simp: build_context_sufficiency_def split: sum.splits)
  define excerpt where "excerpt = dock_is_context concept (is_context_text (ss_is_manifest src))"
  define diff_text where "diff_text = (case diff of None \<Rightarrow> [] | Some d \<Rightarrow> d)"
  define bundles where "bundles = map (\<lambda>(name, v). (name, status_for name v))
    [(''story_spec'', spec), (''diff_summary'', diff_text), (''concept_excerpt'', excerpt),
     (''handover'', handover), (''arch_references'', arch), (''evidence_manifest'', render_manifest manifest)]"
  have r: "li_story_spec (cr_enriched_input r) = spec" "li_handover (cr_enriched_input r) = handover"
    "li_concept_excerpt (cr_enriched_input r) = excerpt" "cr_arch_references r = arch"
    "cr_sufficiency r = classify_context bundles" "cr_gaps r = gaps_for bundles"
    using assms parts by (auto simp: build_context_sufficiency_def Let_def excerpt_def diff_text_def bundles_def)
  have diff: "(\<exists>d. diff = Some d \<and> \<not> blank d \<and> int (py_len d) \<le> BUNDLE_TOKEN_LIMIT)
      \<longleftrightarrow> \<not> blank diff_text \<and> int (py_len diff_text) \<le> BUNDLE_TOKEN_LIMIT"
    by (cases diff) (simp_all add: diff_text_def blank_def py_strip_def)
  have verdict: "classify_context bundles = SUFFICIENT \<longleftrightarrow> \<not> blank spec \<and> \<not> blank handover \<and> \<not> blank excerpt
      \<and> \<not> looks_summary_only excerpt \<and> \<not> blank arch \<and> \<not> blank (render_manifest manifest) \<and> \<not> blank diff_text
      \<and> int (py_len diff_text) \<le> BUNDLE_TOKEN_LIMIT"
    unfolding bundles_def classify_fields by (auto simp: shortened_def not_less)
  show ?thesis
    using verdict diff r parts(1,2) gaps_Nil [of bundles] warnings_artifact [of r] or_load_given by auto
qed

section \<open>A concrete story\<close>

text \<open>The story asks for a concept outside its worktree \<open>/w\<close>.\<close>

definition demo_sources :: story_sources where
  "demo_sources = \<lparr>ss_story_id = ''S-1'', ss_story_dir = ''/w/stories/S-1'', ss_worktree_root = None,
     ss_context_json = Inr (Some (JObj [(''concept_refs'', JList [JStr ''../k.md'']), (''diff_summary'', JStr ''d''),
       (''evidence_manifest'', JStr ''m'')])),
     ss_handover_json = Inr (Some (JObj [])), ss_resolve = normpath,
     ss_text = (\<lambda>p. Inr (if p = ''/w/stories/S-1/story.md'' then Some ''s'' else if p = ''/k.md'' then Some [CHR 0x0A, CHR ''#''] else None)),
     ss_is_manifest = None\<rparr>"

definition demo_context :: "(string \<times> json) list" where
  "demo_context = (case load_context_json demo_sources of Inr c \<Rightarrow> c | Inl _ \<Rightarrow> [])"

definition demo_sufficiency :: "exn + context_sufficiency_result" where
  "demo_sufficiency = build_context_sufficiency demo_sources demo_context empty_review_input
     (caller_diff_summary demo_context) (caller_evidence_manifest (\<lambda>_. None) demo_context)"

lemma demo_sufficiency_evaluated:
  "case demo_sufficiency of Inl _ \<Rightarrow> False | Inr r \<Rightarrow>
     li_concept_excerpt (cr_enriched_input r) = ''## /k.md'' @ newline @ [CHR 0x0A, CHR ''#''] \<and> cr_gaps r = []"
  by code_simp

text \<open>
  A reference is not confined to the worktree: what a story's \<open>context.json\<close> names by \<open>..\<close> is read and
  handed to the reviewers.
\<close>

lemma concept_refs_leave_the_worktree:
  "\<exists>r. demo_sufficiency = Inr r
     \<and> li_concept_excerpt (cr_enriched_input r) = ''## /k.md'' @ newline @ [CHR 0x0A, CHR ''#'']
     \<and> \<not> within_dir ''/k.md'' (worktree_root demo_sources)"
proof -
  have "\<not> within_dir ''/k.md'' (worktree_root demo_sources)" by code_simp
  then show ?thesis using demo_sufficiency_evaluated by (auto split: sum.splits)
qed

lemma sufficiency_verdict_exact_witness:
  "\<exists>r. demo_sufficiency = Inr r \<and> cr_sufficiency r = SUFFICIENT \<and> \<not> blank (li_handover (cr_enriched_input r))"
proof -
  obtain r where r: "demo_sufficiency = Inr r" "cr_gaps r = []"
    using demo_sufficiency_evaluated by (auto split: sum.splits)
  from sufficiency_verdict_exact [OF r(1) [unfolded demo_sufficiency_def]] r show ?thesis by blast
qed

end
