(* ===== verification/Adversarial_Spawn.thy ===== *)
theory Adversarial_Spawn
  imports Qa_Cycle Artifacts
begin

text \<open>
  Orders for the adversarial worker (\<open>verify_system/adversarial_orchestrator/spawn.py\<close>): the
  mandatory targets taken from the findings of the reviewers, the sandbox with its envelope, the
  spawn orders, and the context bundle that every step of the subflow is given.

  The theorem on targets: they are exactly the assertion weaknesses the reviewers found, each once,
  in order, and each points back at the finding it was made of.
\<close>

record verify_context_bundle =
  vb_run_id :: string
  vb_story_dir :: string
  vb_attempt :: int
  vb_phase_envelope :: "phase_envelope_view option"
  vb_project_root :: "string option"
  vb_evidence_manifest :: "metadata option"

section \<open>Targets\<close>

record adversarial_target =
  at_finding_id :: string
  at_source_result_name :: string
  at_source_check_id :: string
  at_source_artifact_record_key :: string
  at_source_finding_index :: nat
  at_source :: string
  at_normative_ref :: string
  at_addressed_part :: string
  at_open_part :: string
  at_mandatory :: bool
  at_test_anchor :: string

definition ASSERTION_WEAKNESS_FINDING_TYPE :: string where
  "ASSERTION_WEAKNESS_FINDING_TYPE = ''assertion_weakness''"

definition new_adversarial_target :: "adversarial_target \<Rightarrow> exn + adversarial_target" where
  "new_adversarial_target t =
    (if blank (at_finding_id t) \<or> blank (at_source_result_name t) \<or> blank (at_source_check_id t)
        \<or> blank (at_source_artifact_record_key t)
     then Inl (ValueError ''adversarial target source evidence must be complete'') else Inr t)"

definition is_concern_status :: "severity \<Rightarrow> bool" where
  "is_concern_status v = (v \<in> {Severity_BLOCKING, Severity_MAJOR, Severity_MINOR})"

definition require_source_reference :: "layer_result \<Rightarrow> exn + artifact_reference" where
  "require_source_reference lr =
    (let missing = Inl (ValueError (''Layer-2 result '' @ py_repr (lr_layer lr)
           @ '' lacks its canonical QA artifact reference'')) in
     case lr_artifact_reference lr of
       None \<Rightarrow> missing
     | Some r \<Rightarrow> if af_artifact_class r = Class_QA then Inr r else missing)"

definition built_target :: "layer_result \<Rightarrow> artifact_reference \<Rightarrow> int \<Rightarrow> nat \<Rightarrow> finding \<Rightarrow> adversarial_target" where
  "built_target lr ref round i f = \<lparr>at_finding_id = fd_layer f @ ''.'' @ fd_check f,
     at_source_result_name = lr_layer lr, at_source_check_id = fd_check f,
     at_source_artifact_record_key = af_record_key ref, at_source_finding_index = i,
     at_source = fd_layer f @ '' round '' @ show_int round, at_normative_ref = fd_message f,
     at_addressed_part = fd_addressed_part f,
     at_open_part = (case fd_suggestion f of Some s \<Rightarrow> if s \<noteq> [] then s else fd_message f | None \<Rightarrow> fd_message f),
     at_mandatory = True, at_test_anchor = ''test_'' @ fd_check f @ ''_'' @ show_nat i @ ''.py''\<rparr>"

definition target_from_finding ::
  "layer_result \<Rightarrow> artifact_reference \<Rightarrow> int \<Rightarrow> nat \<Rightarrow> finding \<Rightarrow> exn + adversarial_target option" where
  "target_from_finding lr ref round i f =
    (if fd_finding_type f \<noteq> Some ASSERTION_WEAKNESS_FINDING_TYPE then Inr None
     else if \<not> is_concern_status (fd_severity f) then Inr None
     else if fd_layer f \<noteq> lr_layer lr
     then Inl (ValueError (''Layer-2 finding layer does not match its source result: result=''
            @ py_repr (lr_layer lr) @ '', finding='' @ py_repr (fd_layer f)))
     else map_sum id Some (new_adversarial_target (built_target lr ref round i f)))"

fun targets_of_findings ::
  "layer_result \<Rightarrow> artifact_reference \<Rightarrow> int \<Rightarrow> nat \<Rightarrow> finding list \<Rightarrow> exn + adversarial_target list" where
  "targets_of_findings lr ref round i [] = Inr []"
| "targets_of_findings lr ref round i (f # fs) = (case target_from_finding lr ref round i f of
      Inl x \<Rightarrow> Inl x
    | Inr t \<Rightarrow> map_sum id (\<lambda>ts. case t of None \<Rightarrow> ts | Some y \<Rightarrow> y # ts)
        (targets_of_findings lr ref round (Suc i) fs))"

fun targets_of_results :: "layer_result list \<Rightarrow> int \<Rightarrow> exn + adversarial_target list" where
  "targets_of_results [] round = Inr []"
| "targets_of_results (lr # lrs) round = (case require_source_reference lr of
      Inl x \<Rightarrow> Inl x
    | Inr ref \<Rightarrow> (case targets_of_findings lr ref round 0 (lr_findings lr) of
        Inl x \<Rightarrow> Inl x
      | Inr ts \<Rightarrow> map_sum id (\<lambda>us. ts @ us) (targets_of_results lrs round)))"

definition require_unique_target_ids :: "adversarial_target list \<Rightarrow> exn + unit" where
  "require_unique_target_ids ts =
    (if length (remdups (map at_finding_id ts)) \<noteq> length (map at_finding_id ts)
     then Inl (ValueError ''Layer-2 results produce duplicate adversarial target ids'') else Inr ())"

definition extract_mandatory_targets :: "layer_result list \<Rightarrow> int \<Rightarrow> exn + adversarial_target list" where
  "extract_mandatory_targets lrs round = (case targets_of_results lrs round of
      Inl x \<Rightarrow> Inl x
    | Inr ts \<Rightarrow> and_then (require_unique_target_ids ts) (Inr ts))"

section \<open>The prompt section\<close>

definition target_lines :: "adversarial_target \<Rightarrow> string list" where
  "target_lines t = [''### Target: '' @ at_finding_id t, ''- **Source:** '' @ at_source t,
     ''- **Normative reference:** '' @ at_normative_ref t, ''- **Already addressed:** '' @ at_addressed_part t,
     ''- **Open negative case:** '' @ at_open_part t, [],
     ''**Mandatory:** Write a test covering the named negative case. If the test is technically impossible, report explicitly: `UNRESOLVABLE: [reason]`'',
     []]"

definition render_mandatory_targets_section :: "adversarial_target list \<Rightarrow> string" where
  "render_mandatory_targets_section ts = (if ts = [] then [] else join newline
    ([''## Mandatory Targets (from Layer-2 findings)'', [],
      ''The following findings were identified in Layer 2 as assertion_weakness with a testable negative case. You MUST address each one individually.'',
      []] @ concat (map target_lines ts) @
     [''For each mandatory target your result MUST contain:'', ''- `target_id`: the finding id'',
      ''- `status`: \"TESTED\" | \"UNRESOLVABLE\"'', ''- `test_file`: path to the test (when TESTED) or null'',
      ''- `reason`: justification (when UNRESOLVABLE)'']))"

section \<open>The spawn order\<close>

text \<open>\<open>governance/guard_system/protected_paths.py\<close>\<close>

definition is_adversarial_sandbox_path :: "string \<Rightarrow> bool" where
  "is_adversarial_sandbox_path p =
     (take 18 (dropWhile (\<lambda>c. c \<in> {CHR ''.'', CHR ''/''}) (slashes p)) = ''_temp/adversarial/'')"

record adversarial_spawn_request =
  rq_story_id :: string
  rq_epoch :: string
  rq_sandbox_path :: string
  rq_targets :: "adversarial_target list"
  rq_agents_to_spawn :: "spawn_request list"

definition apply_to_state :: "adversarial_spawn_request \<Rightarrow> phase_state \<Rightarrow> phase_state" where
  "apply_to_state rq s = s\<lparr>ps_agents_to_spawn := rq_agents_to_spawn rq\<rparr>"

definition sandbox_rel_path :: "string \<Rightarrow> int \<Rightarrow> string" where
  "sandbox_rel_path story_id attempt = ''_temp/adversarial/'' @ story_id @ ''/'' @ show_int attempt"

definition spawn_orders :: "string \<Rightarrow> adversarial_target list \<Rightarrow> spawn_request list" where
  "spawn_orders sandbox ts =
    (if ts = []
     then [\<lparr>sq_kind = Spawn_ADVERSARIAL, sq_spawn_reason = Spawn_REMEDIATION, sq_target_id = None,
            sq_sandbox_path = Some sandbox\<rparr>]
     else map (\<lambda>t. \<lparr>sq_kind = Spawn_ADVERSARIAL, sq_spawn_reason = Spawn_REMEDIATION,
            sq_target_id = Some (at_finding_id t), sq_sandbox_path = Some (sandbox @ ''/'' @ at_test_anchor t)\<rparr>) ts)"

definition serialize_target :: "adversarial_target \<Rightarrow> (string \<times> json) list" where
  "serialize_target t = [(''finding_id'', JStr (at_finding_id t)),
     (''source_result_name'', JStr (at_source_result_name t)), (''source_check_id'', JStr (at_source_check_id t)),
     (''source_artifact_record_key'', JStr (at_source_artifact_record_key t)),
     (''source_finding_index'', JInt (int (at_source_finding_index t))), (''source'', JStr (at_source t)),
     (''normative_ref'', JStr (at_normative_ref t)), (''addressed_part'', JStr (at_addressed_part t)),
     (''open_part'', JStr (at_open_part t)), (''mandatory'', JBool (at_mandatory t)),
     (''test_anchor'', JStr (at_test_anchor t))]"

definition sandbox_envelope ::
  "verify_context_bundle \<Rightarrow> string \<Rightarrow> string \<Rightarrow> adversarial_target list \<Rightarrow> int \<Rightarrow> artifact_envelope" where
  "sandbox_envelope ctx story_id sandbox ts t = \<lparr>ae_schema_version = ENVELOPE_SCHEMA_VERSION, ae_story_id = story_id,
     ae_run_id = vb_run_id ctx, ae_stage = ''qa-adversarial'', ae_attempt = vb_attempt ctx,
     ae_producer = \<lparr>pr_type = Producer_WORKER, pr_name = ''qa-adversarial-sandbox'',
       pr_id = ''qa-adversarial-sandbox-'' @ vb_run_id ctx, pr_version = None\<rparr>,
     ae_started_at = t, ae_finished_at = t, ae_status = Envelope_PASS,
     ae_artifact_class = Class_ADVERSARIAL_TEST_SANDBOX,
     ae_payload = Some [(''sandbox_path'', JStr sandbox),
       (''targets'', JList (map (\<lambda>t. JObj (serialize_target t)) ts)),
       (''mandatory_targets_prompt_section'', JStr (render_mandatory_targets_section ts))]\<rparr>"

text \<open>An envelope is constructed, then written: \<open>ArtifactEnvelope(...)\<close> and \<open>write\<close>.\<close>

definition store_envelope :: "'s artifact_manager \<Rightarrow> artifact_envelope \<Rightarrow> ('s, exn, artifact_reference) io" where
  "store_envelope m e = bind_io (lift_sum (new_artifact_envelope e)) (manager_write m)"

definition write_sandbox_envelope ::
  "'x qa_state artifact_manager \<Rightarrow> verify_context_bundle \<Rightarrow> string \<Rightarrow> string \<Rightarrow> adversarial_target list
     \<Rightarrow> ('x, unit) qa_action" where
  "write_sandbox_envelope m ctx story_id sandbox ts = bind_io now (\<lambda>t.
     seq_io (store_envelope m (sandbox_envelope ctx story_id sandbox ts t)) (ret ()))"

definition story_id_from_ctx :: "verify_context_bundle \<Rightarrow> string" where
  "story_id_from_ctx ctx = (case rsplit_last CHR ''/'' (vb_story_dir ctx) of Some n \<Rightarrow> n | None \<Rightarrow> vb_story_dir ctx)"

definition request_spawn ::
  "'x qa_state artifact_manager \<Rightarrow> verify_context_bundle \<Rightarrow> adversarial_target list \<Rightarrow> string option
     \<Rightarrow> ('x, adversarial_spawn_request) qa_action" where
  "request_spawn m ctx ts story_id =
    (let sid = (case story_id of Some s \<Rightarrow> s | None \<Rightarrow> story_id_from_ctx ctx);
         sandbox = sandbox_rel_path sid (vb_attempt ctx) in
     if \<not> is_adversarial_sandbox_path sandbox
     then raise (ValueError (''adversarial sandbox path '' @ py_repr sandbox
            @ '' is not a Protected-Path (AG3-023 / FK-48 '' @ section_sign @ ''48.1)''))
     else seq_io (write_sandbox_envelope m ctx sid sandbox ts)
       (ret \<lparr>rq_story_id = sid, rq_epoch = show_int (vb_attempt ctx),
             rq_sandbox_path = vb_story_dir ctx @ ''/'' @ sandbox, rq_targets = ts,
             rq_agents_to_spawn = spawn_orders sandbox ts\<rparr>))"

section \<open>Facts about targets\<close>

definition weak :: "finding \<Rightarrow> bool" where
  "weak f \<longleftrightarrow> fd_finding_type f = Some ASSERTION_WEAKNESS_FINDING_TYPE"

lemma concern_total [simp]: "is_concern_status v"
  by (cases v) (simp_all add: is_concern_status_def)

lemma target_from_finding_Inr:
  "target_from_finding lr ref round i f = Inr t \<Longrightarrow>
     t = (if weak f then Some (built_target lr ref round i f) else None) \<and> (weak f \<longrightarrow> fd_layer f = lr_layer lr)"
  by (auto simp: target_from_finding_def weak_def new_adversarial_target_def split: if_splits)

lemma targets_of_findings_Inr:
  "targets_of_findings lr ref round i fs = Inr ts \<Longrightarrow>
    ts = map (\<lambda>(j, f). built_target lr ref round j f) (filter (\<lambda>(j, f). weak f) (enumerate i fs))
    \<and> (\<forall>f \<in> set fs. weak f \<longrightarrow> fd_layer f = lr_layer lr)"
proof (induction fs arbitrary: i ts)
  case (Cons f fs)
  obtain t where t: "target_from_finding lr ref round i f = Inr t"
    using Cons.prems by (auto split: sum.splits)
  obtain us where us: "targets_of_findings lr ref round (Suc i) fs = Inr us"
    using Cons.prems t by (cases "targets_of_findings lr ref round (Suc i) fs") auto
  from target_from_finding_Inr [OF t] Cons.IH [OF us] show ?case
    using Cons.prems t us by auto
qed simp

lemma targets_of_results_Inr:
  "targets_of_results lrs round = Inr ts \<Longrightarrow>
    ts = concat (map (\<lambda>lr. map (\<lambda>(i, f). built_target lr (the (lr_artifact_reference lr)) round i f)
        (filter (\<lambda>(i, f). weak f) (enumerate 0 (lr_findings lr)))) lrs)
    \<and> (\<forall>lr \<in> set lrs. (\<exists>r. lr_artifact_reference lr = Some r \<and> af_artifact_class r = Class_QA)
        \<and> (\<forall>f \<in> set (lr_findings lr). weak f \<longrightarrow> fd_layer f = lr_layer lr))"
proof (induction lrs arbitrary: ts)
  case (Cons lr lrs)
  obtain ref where ref: "require_source_reference lr = Inr ref"
    using Cons.prems by (auto split: sum.splits)
  obtain us where us: "targets_of_findings lr ref round 0 (lr_findings lr) = Inr us"
    using Cons.prems ref by (auto split: sum.splits)
  obtain vs where vs: "targets_of_results lrs round = Inr vs"
    using Cons.prems ref us by (cases "targets_of_results lrs round") auto
  have "lr_artifact_reference lr = Some ref \<and> af_artifact_class ref = Class_QA"
    using ref by (auto simp: require_source_reference_def Let_def split: option.splits if_splits)
  with targets_of_findings_Inr [OF us] Cons.IH [OF vs] show ?case
    using Cons.prems ref us vs by auto
qed simp

text \<open>
  The mandatory targets are exactly the assertion weaknesses among the findings of the reviewers, in
  order and each once: a target names the result, the record and the position of the finding it
  was made of, and carries that finding's check and message. Two findings never give the same
  target id, every result was stored as a QA artifact before, and no finding names another layer.
\<close>
theorem every_assertion_weakness_is_a_target:
  assumes "extract_mandatory_targets lrs round = Inr ts"
  shows "ts = concat (map (\<lambda>lr. map (\<lambda>(i, f). built_target lr (the (lr_artifact_reference lr)) round i f)
        (filter (\<lambda>(i, f). fd_finding_type f = Some ''assertion_weakness'') (enumerate 0 (lr_findings lr)))) lrs)
    \<and> distinct (map at_finding_id ts)
    \<and> (\<forall>t \<in> set ts. \<exists>lr \<in> set lrs. \<exists>r. lr_artifact_reference lr = Some r \<and> af_artifact_class r = Class_QA
        \<and> at_source_artifact_record_key t = af_record_key r
        \<and> at_source_finding_index t < length (lr_findings lr)
        \<and> (let f = lr_findings lr ! at_source_finding_index t in
            fd_finding_type f = Some ''assertion_weakness'' \<and> fd_layer f = lr_layer lr
            \<and> at_source_check_id t = fd_check f \<and> at_normative_ref t = fd_message f))"
proof -
  obtain us where us: "targets_of_results lrs round = Inr us" "require_unique_target_ids us = Inr ()" "ts = us"
    using assms by (auto simp: extract_mandatory_targets_def and_then_def split: sum.splits)
  note spec = targets_of_results_Inr [OF us(1)]
  have "distinct (map at_finding_id ts)"
    using us(2,3) by (auto simp: require_unique_target_ids_def length_remdups_eq distinct_card
        length_remdups_card_conv card_distinct split: if_splits)
  moreover have "\<exists>lr \<in> set lrs. \<exists>r. lr_artifact_reference lr = Some r \<and> af_artifact_class r = Class_QA
        \<and> at_source_artifact_record_key t = af_record_key r
        \<and> at_source_finding_index t < length (lr_findings lr)
        \<and> (let f = lr_findings lr ! at_source_finding_index t in weak f \<and> fd_layer f = lr_layer lr
            \<and> at_source_check_id t = fd_check f \<and> at_normative_ref t = fd_message f)"
    if "t \<in> set ts" for t
  proof -
    have "t \<in> set us" using that us(3) by simp
    then have "\<exists>lr \<in> set lrs. \<exists>p \<in> set (enumerate 0 (lr_findings lr)). weak (snd p)
        \<and> t = built_target lr (the (lr_artifact_reference lr)) round (fst p) (snd p)"
      unfolding spec [THEN conjunct1] by (auto simp: case_prod_unfold)
    then obtain lr i f where t: "lr \<in> set lrs" "(i, f) \<in> set (enumerate 0 (lr_findings lr))" "weak f"
      "t = built_target lr (the (lr_artifact_reference lr)) round i f"
      by auto
    moreover have "i < length (lr_findings lr) \<and> lr_findings lr ! i = f"
      using t(2) by (auto simp: in_set_enumerate_eq)
    moreover have "f \<in> set (lr_findings lr)" using calculation(5) nth_mem by blast
    ultimately show ?thesis using spec by (force simp: built_target_def Let_def)
  qed
  ultimately show ?thesis
    using spec us(3) by (simp add: weak_def [abs_def] ASSERTION_WEAKNESS_FINDING_TYPE_def case_prod_unfold)
qed

definition demo_review :: layer_result where
  "demo_review = \<lparr>lr_layer = ''qa_review'', lr_passed = False,
     lr_findings = [new_finding ''qa_review'' ''naming'' Severity_MINOR ''m'' Trust_VERIFIED_LLM,
       (new_finding ''qa_review'' ''empty_input'' Severity_BLOCKING ''no test'' Trust_VERIFIED_LLM)
         \<lparr>fd_finding_type := Some ''assertion_weakness''\<rparr>],
     lr_metadata = [], lr_artifact_reference = Some \<lparr>af_artifact_class = Class_QA, af_story_id = ''AG3-1'',
       af_run_id = ''r'', af_record_key = ''k''\<rparr>\<rparr>"

lemma demo_targets: "\<exists>ts. extract_mandatory_targets [demo_review] 1 = Inr ts"
  by (simp add: demo_review_def extract_mandatory_targets_def require_source_reference_def
      target_from_finding_def new_finding_def ASSERTION_WEAKNESS_FINDING_TYPE_def new_adversarial_target_def
      built_target_def not_blank_Cons is_space_def require_unique_target_ids_def and_then_def)

lemma every_assertion_weakness_is_a_target_witness:
  "\<exists>t. extract_mandatory_targets [demo_review] 1 = Inr [t] \<and> at_source_finding_index t = 1
     \<and> at_source_check_id t = ''empty_input''"
proof -
  obtain ts where ts: "extract_mandatory_targets [demo_review] 1 = Inr ts" using demo_targets by blast
  from every_assertion_weakness_is_a_target [OF ts] ts show ?thesis
    by (simp add: demo_review_def new_finding_def built_target_def)
qed

text \<open>The check of the sandbox path cannot fail, whatever the story id is.\<close>

lemma sandbox_check_never_fails: "is_adversarial_sandbox_path (sandbox_rel_path story_id n)"
  by (simp add: is_adversarial_sandbox_path_def sandbox_rel_path_def slashes_def)

end
