(* ===== verification/Implementation_Evidence.thy ===== *)
theory Implementation_Evidence
  imports Context_Sufficiency Adversarial_Spawn
begin

text \<open>
  What must be there before an implementation is reviewed at all: the worker's manifest
  (\<open>implementation/manifest/manifest.py\<close>) and the gate on delivered files and changed paths
  (\<open>verify_system/implementation_evidence_gate.py\<close>).

  The files of the story directory that the gate looks at are a record; what pydantic takes for an
  instant or a boolean are parameters, and the texts of its errors are abbreviated.
\<close>

section \<open>The worker's manifest\<close>

datatype worker_manifest_status = Worker_COMPLETED | Worker_COMPLETED_WITH_ISSUES | Worker_BLOCKED

fun worker_manifest_status_value :: "worker_manifest_status \<Rightarrow> string" where
  "worker_manifest_status_value Worker_COMPLETED = ''completed''"
| "worker_manifest_status_value Worker_COMPLETED_WITH_ISSUES = ''completed_with_issues''"
| "worker_manifest_status_value Worker_BLOCKED = ''blocked''"

definition worker_manifest_statuses :: "worker_manifest_status list" where
  "worker_manifest_statuses = [Worker_COMPLETED, Worker_COMPLETED_WITH_ISSUES, Worker_BLOCKED]"

interpretation worker_status: str_enum worker_manifest_status_value worker_manifest_statuses
proof unfold_locales
  show "x \<in> set worker_manifest_statuses" for x by (cases x) (simp_all add: worker_manifest_statuses_def)
qed (simp add: worker_manifest_statuses_def)

datatype blocking_category =
    Blocking_POLICY_CONFLICT | Blocking_ENVIRONMENTAL | Blocking_FIXABLE_LOCAL | Blocking_FIXABLE_CODE

fun blocking_category_value :: "blocking_category \<Rightarrow> string" where
  "blocking_category_value Blocking_POLICY_CONFLICT = ''POLICY_CONFLICT''"
| "blocking_category_value Blocking_ENVIRONMENTAL = ''ENVIRONMENTAL''"
| "blocking_category_value Blocking_FIXABLE_LOCAL = ''FIXABLE_LOCAL''"
| "blocking_category_value Blocking_FIXABLE_CODE = ''FIXABLE_CODE''"

definition blocking_categories :: "blocking_category list" where
  "blocking_categories = [Blocking_POLICY_CONFLICT, Blocking_ENVIRONMENTAL, Blocking_FIXABLE_LOCAL, Blocking_FIXABLE_CODE]"

interpretation blocking_category: str_enum blocking_category_value blocking_categories
proof unfold_locales
  show "x \<in> set blocking_categories" for x by (cases x) (simp_all add: blocking_categories_def)
qed (simp add: blocking_categories_def)

record worker_manifest =
  wm_story_id :: string
  wm_run_id :: string
  wm_status :: worker_manifest_status
  wm_commit_sha :: "string option"
  wm_files_changed :: "string list"
  wm_tests_added :: "string list"
  wm_acceptance_criteria_status :: "(string \<times> string) list"
  wm_blocking_category :: "blocking_category option"
  wm_blocking_issue :: "string option"
  wm_recommended_next_action :: "string option"
  wm_attempted_remediations :: "(string \<times> string) list"
  wm_partial_work_summary :: "string option"

text \<open>
  Fields of pydantic: a required text of at least one character, an optional text (\<open>null\<close> or absent),
  a list of texts and a dictionary of texts with a default.
\<close>

definition text_min_1 :: "wire option \<Rightarrow> string option" where
  "text_min_1 w = (case wire_string w of Some (c # cs) \<Rightarrow> Some (c # cs) | _ \<Rightarrow> None)"

definition nullable :: "(wire option \<Rightarrow> 'a option) \<Rightarrow> wire option \<Rightarrow> 'a option option" where
  "nullable read w = (if w = None \<or> w = Some WNull then Some None else map_option Some (read w))"

definition with_default :: "'a \<Rightarrow> (wire option \<Rightarrow> 'a option) \<Rightarrow> wire option \<Rightarrow> 'a option" where
  "with_default d read w = (if w = None then Some d else read w)"

definition text_pairs :: "wire option \<Rightarrow> (string \<times> string) list option" where
  "text_pairs w = (case w of
      Some (WObj kvs) \<Rightarrow> those (map (\<lambda>(k, v). map_option (Pair k) (wire_string (Some v))) (put_all [] kvs))
    | _ \<Rightarrow> None)"

definition remediation_of_wire :: "wire \<Rightarrow> (string \<times> string) option" where
  "remediation_of_wire w = (case w of
      WObj m \<Rightarrow>
        if \<not> set (map fst m) \<subseteq> {''approach'', ''result''} then None
        else (case (text_min_1 (wire_field m ''approach''), text_min_1 (wire_field m ''result'')) of
           (Some a, Some r) \<Rightarrow> Some (a, r) | _ \<Rightarrow> None)
    | _ \<Rightarrow> None)"

definition remediations :: "wire option \<Rightarrow> (string \<times> string) list option" where
  "remediations w = (case w of Some (WList ws) \<Rightarrow> those (map remediation_of_wire ws) | _ \<Rightarrow> None)"

definition worker_manifest_fields :: "string list" where
  "worker_manifest_fields = [''story_id'', ''run_id'', ''status'', ''completed_at'', ''commit_sha'', ''files_changed'',
     ''tests_added'', ''acceptance_criteria_status'', ''blocking_category'', ''blocking_issue'',
     ''recommended_next_action'', ''attempted_remediations'', ''partial_work_summary'', ''safe_to_snapshot_commit'']"

text \<open>The fields a blocked worker left out, in the order of the message.\<close>

definition missing_blocker_fields :: "worker_manifest \<Rightarrow> string list" where
  "missing_blocker_fields m =
    (if wm_blocking_category m = None then [''blocking_category''] else [])
    @ (if pred_option blank (wm_blocking_issue m) then [''blocking_issue''] else [])
    @ (if pred_option blank (wm_recommended_next_action m) then [''recommended_next_action''] else [])"

definition validate_blocked_required_fields :: "worker_manifest \<Rightarrow> exn + worker_manifest" where
  "validate_blocked_required_fields m =
    (if wm_status m \<noteq> Worker_BLOCKED then Inr m
     else if missing_blocker_fields m \<noteq> []
     then Inl (ValidationError (''BLOCKED worker-manifest requires non-empty '' @ py_list_repr (missing_blocker_fields m)))
     else Inr m)"

definition schema_error :: "exn + 'a" where
  "schema_error = Inl (ValidationError ''1 validation error for WorkerManifest'')"

definition parse_worker_manifest :: "(wire \<Rightarrow> bool) \<Rightarrow> (wire \<Rightarrow> bool) \<Rightarrow> wire \<Rightarrow> exn + worker_manifest" where
  "parse_worker_manifest is_instant is_boolean w = (case w of
      WObj m \<Rightarrow>
        (if \<not> set (map fst m) \<subseteq> set worker_manifest_fields
            \<or> \<not> (case wire_field m ''completed_at'' of Some v \<Rightarrow> is_instant v | None \<Rightarrow> False)
            \<or> \<not> (case wire_field m ''safe_to_snapshot_commit'' of
                  Some v \<Rightarrow> v = WNull \<or> is_boolean v | None \<Rightarrow> True)
         then schema_error
         else case (text_min_1 (wire_field m ''story_id''), text_min_1 (wire_field m ''run_id''),
             Option.bind (wire_string (wire_field m ''status'')) (enum_of worker_manifest_status_value worker_manifest_statuses),
             nullable wire_string (wire_field m ''commit_sha''),
             with_default [] wire_strings (wire_field m ''files_changed''),
             with_default [] wire_strings (wire_field m ''tests_added''),
             with_default [] text_pairs (wire_field m ''acceptance_criteria_status''),
             nullable (\<lambda>v. Option.bind (wire_string v) (enum_of blocking_category_value blocking_categories))
               (wire_field m ''blocking_category''),
             nullable wire_string (wire_field m ''blocking_issue''),
             nullable wire_string (wire_field m ''recommended_next_action''),
             with_default [] remediations (wire_field m ''attempted_remediations''),
             nullable wire_string (wire_field m ''partial_work_summary'')) of
           (Some sid, Some rid, Some st, Some sha, Some fs, Some ts, Some acs, Some cat, Some issue, Some nxt, Some rems, Some part) \<Rightarrow>
             validate_blocked_required_fields \<lparr>wm_story_id = sid, wm_run_id = rid, wm_status = st, wm_commit_sha = sha,
               wm_files_changed = fs, wm_tests_added = ts, wm_acceptance_criteria_status = acs, wm_blocking_category = cat,
               wm_blocking_issue = issue, wm_recommended_next_action = nxt, wm_attempted_remediations = rems,
               wm_partial_work_summary = part\<rparr>
         | _ \<Rightarrow> schema_error)
    | _ \<Rightarrow> schema_error)"

section \<open>The gate\<close>

record change_evidence =
  ce_available :: bool
  ce_changed_files :: "string list"

record delivery_files =
  df_handover :: bool
  df_protocol :: bool
  df_worker_manifest :: "string file_state"

record evidence_reader =
  er_is_instant :: "wire \<Rightarrow> bool"
  er_is_boolean :: "wire \<Rightarrow> bool"

definition gate_prefix :: string where
  "gate_prefix = ''Implementation-Evidence-Gate: ''"

definition gate_suffix :: string where
  "gate_suffix = '' (FK-24 '' @ section_sign @ ''24.6).''"

definition invalid_json :: string where
  "invalid_json = gate_prefix @ ''worker-manifest.json is not valid JSON: '' @ gate_suffix"

definition required_implementation_artifact_error :: "evidence_reader \<Rightarrow> delivery_files \<Rightarrow> string option" where
  "required_implementation_artifact_error er df =
    (if \<not> df_handover df
     then Some (gate_prefix @ ''primary delivery artifact handover.json is missing'' @ gate_suffix)
     else if \<not> df_protocol df
     then Some (gate_prefix @ ''required artifact protocol.md is missing'' @ gate_suffix)
     else (case df_worker_manifest df of
        File_missing \<Rightarrow> Some (gate_prefix @ ''required artifact worker-manifest.json is missing'' @ gate_suffix)
      | File_unreadable \<Rightarrow> Some invalid_json
      | File_text s \<Rightarrow> (case json_loads s of
          None \<Rightarrow> Some invalid_json
        | Some w \<Rightarrow> (case parse_worker_manifest (er_is_instant er) (er_is_boolean er) w of
            Inl e \<Rightarrow> Some (gate_prefix @ ''worker-manifest.json is not a valid WorkerManifest: '' @ exn_message e @ gate_suffix)
          | Inr _ \<Rightarrow> None))))"

definition EXPLORATION_ONLY_FILENAMES :: "string list" where
  "EXPLORATION_ONLY_FILENAMES = [''change_frame.json'', ''change_frame.draft.json'', ''exploration-summary.md'',
     ''entwurfsartefakt.json'', ''handover.json'', ''protocol.md'', ''worker-manifest.json'']"

definition file_name_of :: "string \<Rightarrow> string" where
  "file_name_of p = (case rsplit_last CHR ''/'' p of Some n \<Rightarrow> n | None \<Rightarrow> p)"

definition counts_as_implementation_change :: "string \<Rightarrow> bool" where
  "counts_as_implementation_change changed_path =
    (let normalized = slashes changed_path; n = file_name_of normalized in
     if n \<in> set EXPLORATION_ONLY_FILENAMES then False
     else \<not> (starts_with ''_temp/qa/'' normalized \<and> n \<in> {''change_frame.json'', ''change_frame.draft.json''}))"

text \<open>The blocking reason, if the gate does not pass.\<close>

definition evaluate_implementation_evidence_gate ::
  "evidence_reader \<Rightarrow> story_type \<Rightarrow> delivery_files \<Rightarrow> change_evidence \<Rightarrow> string option" where
  "evaluate_implementation_evidence_gate er st df ev =
    (if st \<notin> {StoryType_IMPLEMENTATION, StoryType_BUGFIX} then None
     else case required_implementation_artifact_error er df of
       Some e \<Rightarrow> Some e
     | None \<Rightarrow>
        (if \<not> ce_available ev
         then Some (gate_prefix @ ''independent System change evidence is unavailable; cannot confirm real implementation changes (FK-24 ''
           @ section_sign @ ''24.6 / FK-33 '' @ section_sign @ ''33.5).'')
         else if filter counts_as_implementation_change (ce_changed_files ev) = []
         then Some (gate_prefix @ ''no real implementation file change is confirmed by System git diff evidence; exploration artifacts and worker-manifest claims do not count''
           @ gate_suffix)
         else None))"

section \<open>What the gate asks for\<close>

text \<open>A blocked worker says what blocks it.\<close>

lemma blocked_manifest_is_explained:
  assumes "parse_worker_manifest is_instant is_boolean w = Inr m" and "wm_status m = Worker_BLOCKED"
  shows "\<exists>c issue nxt. wm_blocking_category m = Some c \<and> wm_blocking_issue m = Some issue \<and> \<not> blank issue
    \<and> wm_recommended_next_action m = Some nxt \<and> \<not> blank nxt"
proof -
  have "\<exists>m'. validate_blocked_required_fields m' = Inr m"
    using assms(1)
    by (auto simp: parse_worker_manifest_def schema_error_def split: wire.splits if_splits option.splits)
  then have "missing_blocker_fields m = []" using assms(2)
    by (auto simp: validate_blocked_required_fields_def split: if_splits)
  then show ?thesis
    by (cases "wm_blocking_category m"; cases "wm_blocking_issue m"; cases "wm_recommended_next_action m")
      (auto simp: missing_blocker_fields_def split: if_splits)
qed

text \<open>A file that counts: none of the documents the workflow itself writes.\<close>

lemma counts_iff: "counts_as_implementation_change p \<longleftrightarrow> file_name_of (slashes p) \<notin> set EXPLORATION_ONLY_FILENAMES"
  by (auto simp: counts_as_implementation_change_def Let_def EXPLORATION_ONLY_FILENAMES_def)

definition delivered :: "evidence_reader \<Rightarrow> delivery_files \<Rightarrow> bool" where
  "delivered er df \<longleftrightarrow> df_handover df \<and> df_protocol df
     \<and> (\<exists>s w m. df_worker_manifest df = File_text s \<and> json_loads s = Some w
           \<and> parse_worker_manifest (er_is_instant er) (er_is_boolean er) w = Inr m)"

lemma delivered_iff: "required_implementation_artifact_error er df = None \<longleftrightarrow> delivered er df"
  by (cases "df_worker_manifest df")
    (auto simp: required_implementation_artifact_error_def delivered_def split: option.splits sum.splits)

lemma evidence_gate_passes:
  assumes "st \<in> {StoryType_IMPLEMENTATION, StoryType_BUGFIX}"
  shows "evaluate_implementation_evidence_gate er st df ev = None \<longleftrightarrow>
    delivered er df \<and> ce_available ev
    \<and> (\<exists>p \<in> set (ce_changed_files ev). file_name_of (slashes p) \<notin> set EXPLORATION_ONLY_FILENAMES)"
  using assms
  by (auto simp: evaluate_implementation_evidence_gate_def delivered_iff counts_iff filter_empty_conv
      simp flip: delivered_iff split: option.splits)

end
