(* ===== verification/Adversarial_Runtime.thy ===== *)
theory Adversarial_Runtime
  imports Implementation_Evidence
begin

text \<open>
  The runtime of the adversarial layer (\<open>verify_system/adversarial_orchestrator/runtime/\<close>): reading what
  the adversarial agent left in its sandbox, the mandatory sparring call, the promotion of its tests
  into the test suite, the artifact, the verdict of the layer and the feedback to the reviewers.

  The files of the project are a list of normalised paths with their text (\<open>None\<close>: not UTF-8), read
  and written through the two ports of the runtime; directories are what files lie in, links do not
  exist, and a path is resolved by its text. Parsing Python (\<open>ast\<close>) and pydantic's coercions to an
  integer or a truth value are parameters, as are the language model and the event sink.
  \<open>str.upper\<close> is that of ASCII. The texts of the JSON parser and of pydantic, which the messages of
  refused results quote, are left out of these messages.
\<close>

section \<open>Models\<close>

record sandbox_test =
  tt_sandbox_relpath :: string
  tt_qualified_name :: string
  tt_outcome :: string
  tt_schema_valid :: bool
  tt_target_id :: "string option"

record mandatory_target_result =
  mr_target_id :: string
  mr_status :: string
  mr_test_file :: "string option"
  mr_reason :: "string option"

record adversarial_target_source =
  ts_target_id :: string
  ts_source_result_name :: string
  ts_source_check_id :: string
  ts_source_artifact_record_key :: string
  ts_source_finding_index :: nat

record sparring_proof =
  sf_pool :: string
  sf_adversarial_sparring_events :: nat
  sf_llm_call_sparring_events :: nat
  sf_edge_cases_received :: nat
  sf_edge_cases_implemented :: nat

record telemetry_counts =
  tc_start :: nat
  tc_end :: nat
  tc_sparring :: nat
  tc_test_created :: nat
  tc_test_executed :: nat

record promotion_summary =
  pm_promoted_to_suite :: nat
  pm_promoted_to_quarantine :: nat
  pm_not_promoted :: nat
  pm_not_promoted_reasons :: "string list"

record sandbox_result =
  sx_story_id :: string
  sx_status :: string
  sx_tests_executed :: nat
  sx_tests :: "sandbox_test list"
  sx_mandatory_target_results :: "mandatory_target_result list"
  sx_findings :: "string list"

record adversarial_artifact =
  aa_story_id :: string
  aa_run_id :: string
  aa_status :: string
  aa_tests_created :: nat
  aa_tests_executed :: nat
  aa_tests_passed :: nat
  aa_tests_failed :: nat
  aa_sparring :: sparring_proof
  aa_promotion :: promotion_summary
  aa_telemetry :: telemetry_counts
  aa_tests :: "sandbox_test list"
  aa_mandatory_target_results :: "mandatory_target_result list"
  aa_findings :: "string list"

definition ADVERSARIAL_RESULT_SCHEMA_VERSION :: string where
  "ADVERSARIAL_RESULT_SCHEMA_VERSION = ''3.1''"

definition ADVERSARIAL_SANDBOX_RESULT_FILENAME :: string where
  "ADVERSARIAL_SANDBOX_RESULT_FILENAME = ''result.json''"

definition new_target_source :: "adversarial_target_source \<Rightarrow> exn + adversarial_target_source" where
  "new_target_source s =
    (if blank (ts_target_id s) \<or> blank (ts_source_result_name s) \<or> blank (ts_source_check_id s)
        \<or> blank (ts_source_artifact_record_key s)
     then Inl (ValidationError ''adversarial target source identity must not be empty'') else Inr s)"

section \<open>Reading the result of the sandbox\<close>

record coercions =
  co_int :: "wire \<Rightarrow> int option"
  co_bool :: "wire \<Rightarrow> bool option"

definition sandbox_test_of_wire :: "coercions \<Rightarrow> wire \<Rightarrow> sandbox_test option" where
  "sandbox_test_of_wire co w = (case w of
      WObj m \<Rightarrow>
        (if \<not> set (map fst m) \<subseteq> {''sandbox_relpath'', ''qualified_name'', ''outcome'', ''schema_valid'', ''target_id''}
         then None
         else case (wire_string (wire_field m ''sandbox_relpath''), wire_string (wire_field m ''qualified_name''),
             wire_string (wire_field m ''outcome''),
             with_default True (\<lambda>v. Option.bind v (co_bool co)) (wire_field m ''schema_valid''),
             nullable wire_string (wire_field m ''target_id'')) of
           (Some p, Some q, Some oc, Some v, Some t) \<Rightarrow>
             Some \<lparr>tt_sandbox_relpath = p, tt_qualified_name = q, tt_outcome = oc, tt_schema_valid = v, tt_target_id = t\<rparr>
         | _ \<Rightarrow> None)
    | _ \<Rightarrow> None)"

definition target_result_of_wire :: "wire \<Rightarrow> mandatory_target_result option" where
  "target_result_of_wire w = (case w of
      WObj m \<Rightarrow>
        (if \<not> set (map fst m) \<subseteq> {''target_id'', ''status'', ''test_file'', ''reason''} then None
         else case (wire_string (wire_field m ''target_id''), wire_string (wire_field m ''status''),
             nullable wire_string (wire_field m ''test_file''), nullable wire_string (wire_field m ''reason'')) of
           (Some t, Some st, Some f, Some r) \<Rightarrow>
             Some \<lparr>mr_target_id = t, mr_status = st, mr_test_file = f, mr_reason = r\<rparr>
         | _ \<Rightarrow> None)
    | _ \<Rightarrow> None)"

definition wire_items :: "(wire \<Rightarrow> 'a option) \<Rightarrow> wire option \<Rightarrow> 'a list option" where
  "wire_items read w = (case w of Some (WList ws) \<Rightarrow> those (map read ws) | _ \<Rightarrow> None)"

definition non_negative :: "int \<Rightarrow> nat option" where
  "non_negative i = (if i < 0 then None else Some (nat i))"

text \<open>\<open>SandboxResult.model_validate\<close>\<close>

definition sandbox_result_of_wire :: "coercions \<Rightarrow> wire \<Rightarrow> sandbox_result option" where
  "sandbox_result_of_wire co w = (case w of
      WObj m \<Rightarrow>
        (if \<not> set (map fst m) \<subseteq> {''story_id'', ''status'', ''tests_executed'', ''tests'', ''mandatory_target_results'', ''findings''}
         then None
         else case (wire_string (wire_field m ''story_id''), with_default ''PASS'' wire_string (wire_field m ''status''),
             with_default 0 (\<lambda>v. Option.bind (Option.bind v (co_int co)) non_negative) (wire_field m ''tests_executed''),
             with_default [] (wire_items (sandbox_test_of_wire co)) (wire_field m ''tests''),
             with_default [] (wire_items target_result_of_wire) (wire_field m ''mandatory_target_results''),
             with_default [] wire_strings (wire_field m ''findings'')) of
           (Some sid, Some st, Some n, Some ts, Some rs, Some fs) \<Rightarrow>
             Some \<lparr>sx_story_id = sid, sx_status = st, sx_tests_executed = n, sx_tests = ts,
               sx_mandatory_target_results = rs, sx_findings = fs\<rparr>
         | _ \<Rightarrow> None)
    | _ \<Rightarrow> None)"

type_synonym project_tree = "(string \<times> string option) list"

definition file_at :: "project_tree \<Rightarrow> string \<Rightarrow> string option option" where
  "file_at tree p = map_of tree (normpath p)"

definition sandbox_result_error :: "string \<Rightarrow> string \<Rightarrow> exn + 'a" where
  "sandbox_result_error path what = Inl (AdversarialResultReadError
     (''adversarial sandbox result '' @ path @ what @ '' (FAIL-CLOSED, FK-48 '' @ section_sign @ ''48.1.7).''))"

definition read_sandbox_result :: "coercions \<Rightarrow> project_tree \<Rightarrow> string \<Rightarrow> exn + sandbox_result" where
  "read_sandbox_result co tree dir =
    (let p = path_join dir ADVERSARIAL_SANDBOX_RESULT_FILENAME in
     case file_at tree p of
       None \<Rightarrow> sandbox_result_error p ('' is absent '' @ em_dash @ '' the Harness-Sub-Agent produced no evidence'')
     | Some None \<Rightarrow> Inl (ValueError ''invalid utf-8'')
     | Some (Some txt) \<Rightarrow> (case json_loads txt of
         None \<Rightarrow> sandbox_result_error p '' is unreadable/invalid JSON''
       | Some w \<Rightarrow> (case sandbox_result_of_wire co w of
           None \<Rightarrow> sandbox_result_error p '' failed schema validation''
         | Some r \<Rightarrow> Inr r)))"

section \<open>The artifact\<close>

definition test_passed :: "sandbox_test \<Rightarrow> bool" where
  "test_passed t = (py_upper (tt_outcome t) = ''PASS'')"

definition sorted_repr :: "string list \<Rightarrow> string" where
  "sorted_repr xs = py_list_repr (sorted_list_of_set (set xs))"

definition unknown_test_targets :: "string list \<Rightarrow> sandbox_test list \<Rightarrow> string list" where
  "unknown_test_targets expected ts =
     filter (\<lambda>i. i \<notin> set expected) (concat (map (\<lambda>t. opt_list (tt_target_id t)) ts))"

definition build_result_artifact ::
  "sandbox_result \<Rightarrow> string \<Rightarrow> sparring_proof \<Rightarrow> promotion_summary \<Rightarrow> telemetry_counts \<Rightarrow> string list
     \<Rightarrow> exn + adversarial_artifact" where
  "build_result_artifact sx run_id sparring promotion telemetry expected =
    (let reported = map mr_target_id (sx_mandatory_target_results sx);
         unknown = unknown_test_targets expected (sx_tests sx);
         failed = length (filter (\<lambda>t. \<not> test_passed t) (sx_tests sx)) in
     if \<not> distinct expected
     then Inl (AdversarialResultReadError ''typed Layer-2 target set contains duplicate target ids'')
     else if \<not> distinct reported
     then Inl (AdversarialResultReadError ''adversarial sandbox result contains duplicate mandatory target ids'')
     else if set reported \<noteq> set expected
     then Inl (AdversarialResultReadError (''adversarial mandatory-target membership does not match the typed Layer-2 target set: expected=''
            @ sorted_repr expected @ '', reported='' @ sorted_repr reported))
     else if unknown \<noteq> []
     then Inl (AdversarialResultReadError (''adversarial tests reference targets outside the typed Layer-2 set: ''
            @ sorted_repr unknown))
     else Inr \<lparr>aa_story_id = sx_story_id sx, aa_run_id = run_id,
       aa_status = (if 1 \<le> sx_tests_executed sx \<and> failed = 0 then ''PASS'' else ''FAIL''),
       aa_tests_created = length (sx_tests sx), aa_tests_executed = sx_tests_executed sx,
       aa_tests_passed = length (filter test_passed (sx_tests sx)), aa_tests_failed = failed,
       aa_sparring = sparring, aa_promotion = promotion, aa_telemetry = telemetry, aa_tests = sx_tests sx,
       aa_mandatory_target_results = sx_mandatory_target_results sx, aa_findings = sx_findings sx\<rparr>)"

text \<open>\<open>model_dump(mode="json")\<close>\<close>

definition json_nat :: "nat \<Rightarrow> json" where
  "json_nat n = JInt (int n)"

definition dump_test :: "sandbox_test \<Rightarrow> json" where
  "dump_test t = JObj [(''sandbox_relpath'', JStr (tt_sandbox_relpath t)), (''qualified_name'', JStr (tt_qualified_name t)),
     (''outcome'', JStr (tt_outcome t)), (''schema_valid'', JBool (tt_schema_valid t)),
     (''target_id'', json_opt JStr (tt_target_id t))]"

definition dump_target_result :: "mandatory_target_result \<Rightarrow> json" where
  "dump_target_result r = JObj [(''target_id'', JStr (mr_target_id r)), (''status'', JStr (mr_status r)),
     (''test_file'', json_opt JStr (mr_test_file r)), (''reason'', json_opt JStr (mr_reason r))]"

definition dump_target_source :: "adversarial_target_source \<Rightarrow> json" where
  "dump_target_source s = JObj [(''target_id'', JStr (ts_target_id s)),
     (''source_result_name'', JStr (ts_source_result_name s)), (''source_check_id'', JStr (ts_source_check_id s)),
     (''source_artifact_record_key'', JStr (ts_source_artifact_record_key s)),
     (''source_finding_index'', json_nat (ts_source_finding_index s))]"

definition dump_artifact :: "adversarial_artifact \<Rightarrow> metadata" where
  "dump_artifact a = [(''schema_version'', JStr ADVERSARIAL_RESULT_SCHEMA_VERSION), (''story_id'', JStr (aa_story_id a)),
     (''run_id'', JStr (aa_run_id a)), (''status'', JStr (aa_status a)), (''tests_created'', json_nat (aa_tests_created a)),
     (''tests_executed'', json_nat (aa_tests_executed a)), (''tests_passed'', json_nat (aa_tests_passed a)),
     (''tests_failed'', json_nat (aa_tests_failed a)),
     (''sparring'', JObj [(''pool'', JStr (sf_pool (aa_sparring a))),
        (''adversarial_sparring_events'', json_nat (sf_adversarial_sparring_events (aa_sparring a))),
        (''llm_call_sparring_events'', json_nat (sf_llm_call_sparring_events (aa_sparring a))),
        (''edge_cases_received'', json_nat (sf_edge_cases_received (aa_sparring a))),
        (''edge_cases_implemented'', json_nat (sf_edge_cases_implemented (aa_sparring a)))]),
     (''promotion'', JObj [(''promoted_to_suite'', json_nat (pm_promoted_to_suite (aa_promotion a))),
        (''promoted_to_quarantine'', json_nat (pm_promoted_to_quarantine (aa_promotion a))),
        (''not_promoted'', json_nat (pm_not_promoted (aa_promotion a))),
        (''not_promoted_reasons'', JList (map JStr (pm_not_promoted_reasons (aa_promotion a))))]),
     (''telemetry'', JObj [(''adversarial_start'', json_nat (tc_start (aa_telemetry a))),
        (''adversarial_end'', json_nat (tc_end (aa_telemetry a))),
        (''adversarial_sparring'', json_nat (tc_sparring (aa_telemetry a))),
        (''adversarial_test_created'', json_nat (tc_test_created (aa_telemetry a))),
        (''adversarial_test_executed'', json_nat (tc_test_executed (aa_telemetry a)))]),
     (''tests'', JList (map dump_test (aa_tests a))),
     (''mandatory_target_results'', JList (map dump_target_result (aa_mandatory_target_results a))),
     (''findings'', JList (map JStr (aa_findings a)))]"

definition adversarial_envelope :: "adversarial_artifact \<Rightarrow> int \<Rightarrow> int \<Rightarrow> artifact_envelope" where
  "adversarial_envelope a attempt t = \<lparr>ae_schema_version = ENVELOPE_SCHEMA_VERSION, ae_story_id = aa_story_id a,
     ae_run_id = aa_run_id a, ae_stage = ''qa-layer-adversarial'', ae_attempt = attempt,
     ae_producer = \<lparr>pr_type = Producer_LLM_REVIEWER, pr_name = ADVERSARIAL_PRODUCER,
       pr_id = ADVERSARIAL_PRODUCER @ ''-'' @ aa_run_id a @ ''-'' @ pad3 (nat attempt), pr_version = None\<rparr>,
     ae_started_at = t, ae_finished_at = t,
     ae_status = (if aa_status a = ''PASS'' then Envelope_PASS else Envelope_FAIL),
     ae_artifact_class = Class_QA, ae_payload = Some (dump_artifact a)\<rparr>"

definition materialize_adversarial_artifact ::
  "'x qa_state artifact_manager \<Rightarrow> adversarial_artifact \<Rightarrow> int \<Rightarrow> ('x, artifact_reference) qa_action" where
  "materialize_adversarial_artifact m a attempt =
     bind_io now (\<lambda>t. store_envelope m (adversarial_envelope a attempt t))"

section \<open>Promotion\<close>

definition QUARANTINE_DIRNAME :: string where
  "QUARANTINE_DIRNAME = ''adversarial_quarantine''"

datatype promotion_path = Path_SUITE | Path_QUARANTINE | Path_EPHEMERAL

record promotion_decision =
  pd_test :: sandbox_test
  pd_path :: promotion_path
  pd_reason :: string
  pd_destination :: "string option"

text \<open>The error of a text that does not parse, and the names of the functions of one that does.\<close>

record python_parser =
  pp_syntax_error :: "string \<Rightarrow> string option"
  pp_functions :: "string \<Rightarrow> string list"

text \<open>\<open>Path(p).name\<close>\<close>

definition path_name :: "string \<Rightarrow> string" where
  "path_name p = (case rev (filter (\<lambda>c. c \<noteq> [] \<and> c \<noteq> ''.'') (split_on slash p)) of [] \<Rightarrow> [] | c # cs \<Rightarrow> c)"

text \<open>A path that ends in \<open>..\<close> is a directory.\<close>

definition is_file :: "project_tree \<Rightarrow> string \<Rightarrow> bool" where
  "is_file tree p = (path_name p \<noteq> ''..'' \<and> file_at tree p \<noteq> None)"

definition dry_run_error :: "python_parser \<Rightarrow> project_tree \<Rightarrow> string \<Rightarrow> string option" where
  "dry_run_error py tree p = (case file_at tree p of
      Some (Some txt) \<Rightarrow> map_option (\<lambda>m. ''SyntaxError: '' @ m) (pp_syntax_error py txt)
    | Some None \<Rightarrow> Some ''UnicodeDecodeError: invalid utf-8''
    | None \<Rightarrow> Some ''FileNotFoundError: no such file'')"

text \<open>The components of a path below a directory.\<close>

definition relative_parts :: "string \<Rightarrow> string \<Rightarrow> string list" where
  "relative_parts root p = drop (length (snd (norm_parts root))) (snd (norm_parts p))"

definition below :: "string \<Rightarrow> string \<Rightarrow> bool" where
  "below root p = (fst (norm_parts p) = fst (norm_parts root) \<and> strict_prefix (snd (norm_parts root)) (snd (norm_parts p)))"

definition drop_suffix :: "nat \<Rightarrow> 'a list \<Rightarrow> 'a list" where
  "drop_suffix n xs = take (length xs - n) xs"

definition is_test_file :: "string \<Rightarrow> bool" where
  "is_test_file n = (starts_with ''test_'' n \<and> drop (length n - 3) n = ''.py'' \<and> 8 \<le> length n)"

definition module_qualifier :: "string \<Rightarrow> string \<Rightarrow> string" where
  "module_qualifier root p = (let cs = relative_parts root p in join ''.'' (butlast cs @ [drop_suffix 3 (last cs)]))"

definition is_test_function :: "string \<Rightarrow> bool" where
  "is_test_function n = (starts_with ''test_'' n \<or> drop (length n - 5) n = ''_test'')"

definition qualified_names_in_file :: "python_parser \<Rightarrow> string \<Rightarrow> string \<times> string option \<Rightarrow> string list" where
  "qualified_names_in_file py root f = (case snd f of
      None \<Rightarrow> []
    | Some txt \<Rightarrow>
        if pp_syntax_error py txt \<noteq> None then []
        else map (\<lambda>n. module_qualifier root (fst f) @ ''::'' @ n) (filter is_test_function (pp_functions py txt)))"

definition existing_qualified_names :: "python_parser \<Rightarrow> project_tree \<Rightarrow> string \<Rightarrow> string list" where
  "existing_qualified_names py tree root =
     concat (map (qualified_names_in_file py root)
       (filter (\<lambda>(p, _). below root p \<and> is_test_file (path_name p) \<and> \<not> below (path_join root QUARANTINE_DIRNAME) p) tree))"

definition is_directory :: "project_tree \<Rightarrow> string \<Rightarrow> bool" where
  "is_directory tree p = list_ex (\<lambda>(q, _). below p q) tree"

text \<open>\<open>mkdir(parents=True, exist_ok=True)\<close> and \<open>shutil.copyfile\<close>, which raises before it writes.\<close>

definition copy_into :: "project_tree \<Rightarrow> string \<Rightarrow> string \<Rightarrow> string \<Rightarrow> exn + project_tree \<times> string" where
  "copy_into tree source dest_root relpath =
    (let dest = path_join dest_root (path_name relpath) in
     if list_ex (\<lambda>(q, _). below q dest) tree then Inl (OSError ''not a directory'')
     else if normpath dest = normpath source then Inl (OSError ''are the same file'')
     else if is_directory tree dest then Inl (OSError ''is a directory'')
     else (case file_at tree source of
         None \<Rightarrow> Inl (OSError ''no such file'')
       | Some txt \<Rightarrow> Inr (AList.update (normpath dest) txt tree, dest)))"

definition ephemeral :: "sandbox_test \<Rightarrow> string \<Rightarrow> promotion_decision" where
  "ephemeral t why = \<lparr>pd_test = t, pd_path = Path_EPHEMERAL, pd_reason = why, pd_destination = None\<rparr>"

definition decide_promotion ::
  "python_parser \<Rightarrow> string \<Rightarrow> string \<Rightarrow> string list \<Rightarrow> project_tree \<Rightarrow> sandbox_test
     \<Rightarrow> exn + project_tree \<times> promotion_decision" where
  "decide_promotion py sandbox_dir tests_root existing tree t =
    (let source = path_join sandbox_dir (tt_sandbox_relpath t) in
     if \<not> tt_schema_valid t \<or> \<not> is_file tree source
     then Inr (tree, ephemeral t (''schema-invalid ('' @ tt_sandbox_relpath t @ '')''))
     else (case dry_run_error py tree source of
         Some e \<Rightarrow> Inr (tree, ephemeral t (''dry-run-error ('' @ e @ '')''))
       | None \<Rightarrow>
           if tt_qualified_name t \<in> set existing
           then Inr (tree, ephemeral t (''duplicate ('' @ tt_qualified_name t @ '')''))
           else if test_passed t
           then map_sum id (\<lambda>(tree', d). (tree', \<lparr>pd_test = t, pd_path = Path_SUITE,
               pd_reason = ''promoted to tests/ (PASS)'', pd_destination = Some d\<rparr>))
             (copy_into tree source tests_root (tt_sandbox_relpath t))
           else map_sum id (\<lambda>(tree', d). (tree', \<lparr>pd_test = t, pd_path = Path_QUARANTINE,
               pd_reason = ''quarantined (proven finding, test FAIL)'', pd_destination = Some d\<rparr>))
             (copy_into tree source (path_join tests_root QUARANTINE_DIRNAME) (tt_sandbox_relpath t))))"

text \<open>
  The loop over the tests; the names promoted so far count as existing. A test whose copy fails ends
  it, with the files as they are by then.
\<close>

fun promote_tests ::
  "python_parser \<Rightarrow> string \<Rightarrow> string \<Rightarrow> string list \<Rightarrow> project_tree \<Rightarrow> sandbox_test list
     \<Rightarrow> (exn + promotion_decision list) \<times> project_tree" where
  "promote_tests py sandbox_dir tests_root existing tree [] = (Inr [], tree)"
| "promote_tests py sandbox_dir tests_root existing tree (t # ts) =
    (case decide_promotion py sandbox_dir tests_root existing tree t of
       Inl e \<Rightarrow> (Inl e, tree)
     | Inr (tree', d) \<Rightarrow>
        (let existing' = (if pd_path d = Path_EPHEMERAL then existing else tt_qualified_name t # existing) in
         case promote_tests py sandbox_dir tests_root existing' tree' ts of
           (r, tree'') \<Rightarrow> (map_sum id (Cons d) r, tree'')))"

definition promotion_summary_of :: "promotion_decision list \<Rightarrow> promotion_summary" where
  "promotion_summary_of ds = \<lparr>pm_promoted_to_suite = length (filter (\<lambda>d. pd_path d = Path_SUITE) ds),
     pm_promoted_to_quarantine = length (filter (\<lambda>d. pd_path d = Path_QUARANTINE) ds),
     pm_not_promoted = length (filter (\<lambda>d. pd_path d = Path_EPHEMERAL) ds),
     pm_not_promoted_reasons = map pd_reason (filter (\<lambda>d. pd_path d = Path_EPHEMERAL) ds)\<rparr>"

definition promote_sandbox_tests ::
  "python_parser \<Rightarrow> string \<Rightarrow> string \<Rightarrow> project_tree \<Rightarrow> sandbox_test list
     \<Rightarrow> (exn + promotion_decision list \<times> promotion_summary) \<times> project_tree" where
  "promote_sandbox_tests py sandbox_dir tests_root tree ts =
    (case promote_tests py sandbox_dir tests_root (existing_qualified_names py tree tests_root) tree ts of
       (r, tree') \<Rightarrow> (map_sum id (\<lambda>ds. (ds, promotion_summary_of ds)) r, tree'))"

section \<open>Fulfilled targets and feedback\<close>

definition has_passing_test :: "sandbox_test list \<Rightarrow> string \<Rightarrow> bool" where
  "has_passing_test ts i = (let own = filter (\<lambda>t. tt_target_id t = Some i) ts in own \<noteq> [] \<and> list_all test_passed own)"

definition is_fulfilled :: "sandbox_test list \<Rightarrow> mandatory_target_result \<Rightarrow> bool" where
  "is_fulfilled ts r =
    (let st = py_upper (mr_status r) in
     if st = ''TESTED'' then has_passing_test ts (mr_target_id r)
     else if st = ''UNRESOLVABLE'' then (case mr_reason r of Some s \<Rightarrow> \<not> blank s | None \<Rightarrow> False)
     else False)"

definition fulfilled_mandatory_target_ids :: "adversarial_artifact \<Rightarrow> string list" where
  "fulfilled_mandatory_target_ids a =
     map mr_target_id (filter (is_fulfilled (aa_tests a)) (aa_mandatory_target_results a))"

definition source_of_target :: "adversarial_target_source list \<Rightarrow> string \<Rightarrow> finding_key option" where
  "source_of_target srcs i =
     map_of (map (\<lambda>s. (ts_target_id s, (ts_source_result_name s, ts_source_check_id s))) srcs) i"

fun feedback_of_targets ::
  "adversarial_target_source list \<Rightarrow> resolution_map \<Rightarrow> mandatory_target_result list \<Rightarrow> exn + resolution_map" where
  "feedback_of_targets srcs acc [] = Inr acc"
| "feedback_of_targets srcs acc (r # rs) = (case source_of_target srcs (mr_target_id r) of
      None \<Rightarrow> Inl (ValueError (''adversarial mandatory target has no typed Layer-2 source: '' @ py_repr (mr_target_id r)))
    | Some k \<Rightarrow> feedback_of_targets srcs (AList.update k PARTIALLY_RESOLVED acc) rs)"

definition mandatory_target_resolution_feedback ::
  "adversarial_artifact \<Rightarrow> adversarial_target_source list \<Rightarrow> exn + resolution_map" where
  "mandatory_target_resolution_feedback a srcs =
    (if \<not> distinct (map ts_target_id srcs)
     then Inl (ValueError ''adversarial target_sources contains duplicate target ids'')
     else feedback_of_targets srcs []
       (filter (\<lambda>r. mr_target_id r \<notin> set (fulfilled_mandatory_target_ids a)) (aa_mandatory_target_results a)))"

section \<open>Telemetry\<close>

datatype adversarial_event_type =
    ADVERSARIAL_START | ADVERSARIAL_END | ADVERSARIAL_SPARRING | ADVERSARIAL_TEST_CREATED | ADVERSARIAL_TEST_EXECUTED
  | ADVERSARIAL_LLM_CALL

record adversarial_event =
  xe_type :: adversarial_event_type
  xe_story_id :: string
  xe_run_id :: string
  xe_payload :: metadata

text \<open>
  \<open>_LifecycleEmitter\<close>: a tally of what the wrapped emitter accepted, and whether the end was tried.
  It lives for one run; a step of the run works on it and on the state of the process.
\<close>

record lifecycle =
  lf_counts :: "adversarial_event_type \<Rightarrow> nat"
  lf_end_emitted :: bool

definition new_lifecycle :: lifecycle where
  "new_lifecycle = \<lparr>lf_counts = (\<lambda>_. 0), lf_end_emitted = False\<rparr>"

type_synonym ('x, 'a) run_action = "(lifecycle \<times> 'x qa_state, exn, 'a) io"

definition outside :: "('x, 'a) qa_action \<Rightarrow> ('x, 'a) run_action" where
  "outside m = (\<lambda>(l, s). case m s of (r, t) \<Rightarrow> (r, (l, t)))"

type_synonym 'x event_emitter = "adversarial_event \<Rightarrow> ('x, unit) qa_action"

definition tally :: "adversarial_event_type \<Rightarrow> lifecycle \<Rightarrow> lifecycle" where
  "tally ty l = l\<lparr>lf_counts := (lf_counts l)(ty := Suc (lf_counts l ty))\<rparr>"

definition emit_counted :: "'x event_emitter \<Rightarrow> adversarial_event \<Rightarrow> ('x, unit) run_action" where
  "emit_counted em e = seq_io (outside (em e)) (modify (\<lambda>(l, s). (tally (xe_type e) l, s)))"

definition lifecycle_event :: "adversarial_event_type \<Rightarrow> string \<Rightarrow> string \<Rightarrow> adversarial_event" where
  "lifecycle_event ty story_id run_id = \<lparr>xe_type = ty, xe_story_id = story_id, xe_run_id = run_id,
     xe_payload = [(''story_id'', JStr story_id)]\<rparr>"

definition emit_end_once :: "'x event_emitter \<Rightarrow> string \<Rightarrow> string \<Rightarrow> ('x, unit) run_action" where
  "emit_end_once em story_id run_id = bind_io (gets (\<lambda>(l, s). lf_end_emitted l)) (\<lambda>done_before.
     if done_before then ret ()
     else seq_io (modify (\<lambda>(l, s). (l\<lparr>lf_end_emitted := True\<rparr>, s)))
       (emit_counted em (lifecycle_event ADVERSARIAL_END story_id run_id)))"

fun emit_times :: "nat \<Rightarrow> 'x event_emitter \<Rightarrow> adversarial_event \<Rightarrow> ('x, unit) run_action" where
  "emit_times 0 em e = ret ()"
| "emit_times (Suc n) em e = seq_io (emit_counted em e) (emit_times n em e)"

section \<open>Sparring\<close>

definition ADVERSARIAL_SPARRING_ROLE :: string where
  "ADVERSARIAL_SPARRING_ROLE = ''adversarial_sparring''"

definition DEFAULT_SPARRING_PROMPT :: string where
  "DEFAULT_SPARRING_PROMPT = ''I have written and executed adversarial edge-case tests against the implementation. Which edge cases, boundary values, error paths, race conditions or misuse scenarios have I likely missed? List concrete, testable negative cases.''"

definition count_edge_cases :: "string \<Rightarrow> nat" where
  "count_edge_cases response = length (filter (\<lambda>l. \<not> blank l) (splitlines response))"

text \<open>
  A failure of the transport is a failure of the sparring, with a text \<open>before\<close> and \<open>after\<close> its own;
  any other exception passes through.
\<close>

definition sparring_transport :: "string \<Rightarrow> string \<Rightarrow> ('x, 'a) run_action \<Rightarrow> ('x, 'a) run_action" where
  "sparring_transport before after m = try_io m (\<lambda>r. case r of
      Inr x \<Rightarrow> ret x
    | Inl e \<Rightarrow> raise (if exn_type_name e = ''LlmClientError''
        then AdversarialSparringError (before @ exn_type_name e @ '': '' @ exn_message e @ after) else e))"

definition run_mandatory_sparring ::
  "(string \<Rightarrow> string \<Rightarrow> ('x, string) qa_action) \<Rightarrow> (string \<Rightarrow> ('x, string) qa_action) option \<Rightarrow> 'x event_emitter
     \<Rightarrow> string \<Rightarrow> string \<Rightarrow> string \<Rightarrow> ('x, sparring_proof) run_action" where
  "run_mandatory_sparring complete resolver em story_id run_id prompt =
    bind_io (sparring_transport
      (''Mandatory adversarial sparring pool could not be resolved over the verify-LLM transport (role=''
        @ py_repr ADVERSARIAL_SPARRING_ROLE @ ''): '')
      (''. FAIL-CLOSED: an unresolvable sparring pool is a Layer-3 FAIL, never a fallback to a default pool label (FK-48 ''
        @ section_sign @ ''48.1.6, story '' @ section_sign @ ''2.2 NO FALLBACK).'')
      (case resolver of None \<Rightarrow> ret ADVERSARIAL_SPARRING_ROLE | Some f \<Rightarrow> outside (f ADVERSARIAL_SPARRING_ROLE))) (\<lambda>pool.
    bind_io (sparring_transport
      (''Mandatory adversarial sparring call failed over the verify-LLM transport (role=''
        @ py_repr ADVERSARIAL_SPARRING_ROLE @ '', pool='' @ py_repr pool @ ''): '')
      (''. FAIL-CLOSED: a missing sparring call is a Layer-3 FAIL, never a silent skip (FK-48 '' @ section_sign @ ''48.1.6).'')
      (outside (complete ADVERSARIAL_SPARRING_ROLE prompt))) (\<lambda>response.
    seq_io (emit_counted em \<lparr>xe_type = ADVERSARIAL_LLM_CALL, xe_story_id = story_id, xe_run_id = run_id,
        xe_payload = [(''role'', JStr ADVERSARIAL_SPARRING_ROLE), (''pool'', JStr pool)]\<rparr>)
    (seq_io (emit_counted em \<lparr>xe_type = ADVERSARIAL_SPARRING, xe_story_id = story_id, xe_run_id = run_id,
        xe_payload = [(''pool'', JStr pool), (''role'', JStr ADVERSARIAL_SPARRING_ROLE)]\<rparr>)
    (ret \<lparr>sf_pool = pool, sf_adversarial_sparring_events = 1, sf_llm_call_sparring_events = 1,
       sf_edge_cases_received = count_edge_cases response, sf_edge_cases_implemented = 0\<rparr>))))"

section \<open>The verdict of the layer\<close>

definition adversarial_finding :: "string \<Rightarrow> trust_class \<Rightarrow> string \<Rightarrow> string \<Rightarrow> finding" where
  "adversarial_finding check trust msg advice =
     (new_finding ''adversarial'' check Severity_BLOCKING msg trust)\<lparr>fd_suggestion := Some advice\<rparr>"

definition unfulfilled_finding :: "mandatory_target_result \<Rightarrow> finding" where
  "unfulfilled_finding r = adversarial_finding (mr_target_id r) Trust_VERIFIED_LLM
     (''Mandatory adversarial target not fulfilled: '' @ mr_target_id r @ '' (status=''
       @ (if py_upper (mr_status r) = [] then ''MISSING'' else py_upper (mr_status r)) @ '').'')
     ''Cover this mandatory adversarial target or mark it UNRESOLVABLE with evidence.''"

definition layer_findings :: "adversarial_artifact \<Rightarrow> string option \<Rightarrow> finding list" where
  "layer_findings a sparring_failure =
    (if aa_tests_executed a < 1
     then [adversarial_finding ''no_test_executed'' Trust_SYSTEM
       (''Layer 3 (Adversarial) executed no test '' @ em_dash @ '' the mandatory >= 1 executed-test duty was violated (FK-48 ''
         @ section_sign @ ''48.1.8).'') ''The adversarial agent must execute at least one test.''] else [])
    @ (case sparring_failure of None \<Rightarrow> []
       | Some why \<Rightarrow> [adversarial_finding ''sparring_missing'' Trust_SYSTEM
           (''Layer 3 (Adversarial) mandatory sparring did not run: '' @ why)
           ''The adversarial agent must complete one sparring call.''])
    @ (if 0 < aa_tests_failed a
       then [adversarial_finding ''proven_finding'' Trust_VERIFIED_LLM
         (''Layer 3 (Adversarial) proved '' @ show_nat (aa_tests_failed a) @ '' failing test(s) '' @ em_dash
           @ '' quarantined as proven findings (FK-48 '' @ section_sign @ ''48.1.5).'')
         ''Fix the implementation so the quarantined test(s) pass.''] else [])
    @ map unfulfilled_finding
        (filter (\<lambda>r. mr_target_id r \<notin> set (fulfilled_mandatory_target_ids a)) (aa_mandatory_target_results a))"

definition derive_layer_result ::
  "adversarial_artifact \<Rightarrow> string option \<Rightarrow> adversarial_target_source list \<Rightarrow> layer_result" where
  "derive_layer_result a sparring_failure srcs =
    (let fs = layer_findings a sparring_failure in
     \<lparr>lr_layer = ''adversarial'', lr_passed = (fs = []), lr_findings = fs,
      lr_metadata = [(''adversarial_status'', JStr (aa_status a)), (''tests_executed'', json_nat (aa_tests_executed a)),
        (''tests_failed'', json_nat (aa_tests_failed a)), (''sparring_pool'', JStr (sf_pool (aa_sparring a))),
        executed_check_ids ([''no_test_executed'', ''sparring_missing'', ''proven_finding'']
          @ map mr_target_id (aa_mandatory_target_results a)),
        (''adversarial_target_sources'', JList (map dump_target_source srcs))],
      lr_artifact_reference = None\<rparr>)"

section \<open>The runtime\<close>

record 'x adversarial_runtime =
  ar_artifact_manager :: "'x qa_state artifact_manager"
  ar_emitter :: "'x event_emitter"
  ar_complete :: "string \<Rightarrow> string \<Rightarrow> ('x, string) qa_action"
  ar_resolver :: "(string \<Rightarrow> ('x, string) qa_action) option"
  ar_files :: "'x qa_state \<Rightarrow> project_tree"
  ar_set_files :: "project_tree \<Rightarrow> 'x qa_state \<Rightarrow> 'x qa_state"
  ar_python :: python_parser
  ar_coercions :: coercions

record runtime_result =
  rr_layer_result :: layer_result
  rr_artifact :: adversarial_artifact
  rr_promotion_decisions :: "promotion_decision list"
  rr_resolution_feedback :: resolution_map
  rr_artifact_reference :: artifact_reference

text \<open>What one run of the runtime works on.\<close>

record runtime_order =
  ro_sandbox_dir :: string
  ro_tests_root :: string
  ro_story_id :: string
  ro_run_id :: string
  ro_attempt :: int
  ro_expected :: "adversarial_target_source list"

definition promote_in_files ::
  "'x adversarial_runtime \<Rightarrow> runtime_order \<Rightarrow> sandbox_test list \<Rightarrow> ('x, promotion_decision list \<times> promotion_summary) run_action" where
  "promote_in_files ar q ts = outside (\<lambda>s.
     case promote_sandbox_tests (ar_python ar) (ro_sandbox_dir q) (ro_tests_root q) (ar_files ar s) ts of
       (r, tree) \<Rightarrow> (r, ar_set_files ar tree s))"

definition sparring_or_failure ::
  "'x adversarial_runtime \<Rightarrow> runtime_order \<Rightarrow> ('x, sparring_proof \<times> string option) run_action" where
  "sparring_or_failure ar q = try_io (run_mandatory_sparring (ar_complete ar) (ar_resolver ar) (ar_emitter ar)
       (ro_story_id q) (ro_run_id q) DEFAULT_SPARRING_PROMPT) (\<lambda>r. case r of
      Inr p \<Rightarrow> ret (p, None)
    | Inl (AdversarialSparringError why) \<Rightarrow>
        ret (\<lparr>sf_pool = ADVERSARIAL_SPARRING_ROLE, sf_adversarial_sparring_events = 0, sf_llm_call_sparring_events = 0,
          sf_edge_cases_received = 0, sf_edge_cases_implemented = 0\<rparr>, Some why)
    | Inl e \<Rightarrow> raise e)"

definition counts_of :: "lifecycle \<Rightarrow> telemetry_counts" where
  "counts_of l = \<lparr>tc_start = lf_counts l ADVERSARIAL_START, tc_end = lf_counts l ADVERSARIAL_END,
     tc_sparring = lf_counts l ADVERSARIAL_SPARRING, tc_test_created = lf_counts l ADVERSARIAL_TEST_CREATED,
     tc_test_executed = lf_counts l ADVERSARIAL_TEST_EXECUTED\<rparr>"

fun all_or_error :: "(exn + 'a) list \<Rightarrow> exn + 'a list" where
  "all_or_error [] = Inr []"
| "all_or_error (Inl e # xs) = Inl e"
| "all_or_error (Inr x # xs) = map_sum id (Cons x) (all_or_error xs)"

text \<open>From the end event on: the artifact, the feedback and the verdict.\<close>

definition conclude_runtime ::
  "'x adversarial_runtime \<Rightarrow> runtime_order \<Rightarrow> sandbox_result \<Rightarrow> sparring_proof \<Rightarrow> string option
     \<Rightarrow> promotion_decision list \<Rightarrow> promotion_summary \<Rightarrow> ('x, runtime_result) run_action" where
  "conclude_runtime ar q sx sparring failure decisions promotion =
    seq_io (emit_end_once (ar_emitter ar) (ro_story_id q) (ro_run_id q))
    (bind_io (gets (\<lambda>(l, s). counts_of l)) (\<lambda>telemetry.
     bind_io (lift_sum (build_result_artifact sx (ro_run_id q) sparring promotion telemetry (map ts_target_id (ro_expected q)))) (\<lambda>a.
     bind_io (outside (materialize_adversarial_artifact (ar_artifact_manager ar) a (ro_attempt q))) (\<lambda>ref.
     bind_io (lift_sum (all_or_error (map new_target_source (ro_expected q)))) (\<lambda>srcs.
     bind_io (lift_sum (mandatory_target_resolution_feedback a srcs)) (\<lambda>feedback.
     ret \<lparr>rr_layer_result = derive_layer_result a failure srcs, rr_artifact = a, rr_promotion_decisions = decisions,
       rr_resolution_feedback = feedback, rr_artifact_reference = ref\<rparr>))))))"

definition runtime_body :: "'x adversarial_runtime \<Rightarrow> runtime_order \<Rightarrow> ('x, runtime_result) run_action" where
  "runtime_body ar q =
    (let event = (\<lambda>ty. lifecycle_event ty (ro_story_id q) (ro_run_id q)) in
     bind_io (outside (gets (ar_files ar))) (\<lambda>tree.
     bind_io (lift_sum (read_sandbox_result (ar_coercions ar) tree (ro_sandbox_dir q))) (\<lambda>sx.
     seq_io (emit_times (length (sx_tests sx)) (ar_emitter ar) (event ADVERSARIAL_TEST_CREATED))
     (seq_io (emit_times (sx_tests_executed sx) (ar_emitter ar) (event ADVERSARIAL_TEST_EXECUTED))
     (bind_io (sparring_or_failure ar q) (\<lambda>sp.
     bind_io (promote_in_files ar q (sx_tests sx)) (\<lambda>dp.
     conclude_runtime ar q sx (fst sp) (snd sp) (fst dp) (snd dp))))))))"

text \<open>\<open>try: ... finally: _emit_end_once(...)\<close>\<close>

definition runtime_in_lifecycle :: "'x adversarial_runtime \<Rightarrow> runtime_order \<Rightarrow> ('x, runtime_result) run_action" where
  "runtime_in_lifecycle ar q =
     seq_io (emit_counted (ar_emitter ar) (lifecycle_event ADVERSARIAL_START (ro_story_id q) (ro_run_id q)))
       (try_io (runtime_body ar q) (\<lambda>r. seq_io (emit_end_once (ar_emitter ar) (ro_story_id q) (ro_run_id q)) (lift_sum r)))"

definition run_adversarial_runtime :: "'x adversarial_runtime \<Rightarrow> runtime_order \<Rightarrow> ('x, runtime_result) qa_action" where
  "run_adversarial_runtime ar q = (\<lambda>s. case runtime_in_lifecycle ar q (new_lifecycle, s) of (r, (l, t)) \<Rightarrow> (r, t))"

end
