(* ===== verification/Sonar_Gate.thy ===== *)
theory Sonar_Gate
  imports Finding_Resolution
begin

text \<open>
  The SonarQube gate (\<open>verify_system/sonarqube_gate/\<close>): its applicability, the commit-bound attestation,
  the ledger of accepted exceptions with the single-match reconciler, the gate itself and the stage
  of the subflow built on it.

  Regular expressions are a parameter: \<open>rx p\<close> is the search function of the compiled pattern, or
  nothing when \<open>re.compile\<close> raises. SHA-256 is one too. The callbacks to SonarQube (accepting an
  issue, re-reading the quality gate) are computations over the state that may raise.

  The theorems: the gate is green exactly when the attestation is of the current head, every ledger
  entry matches exactly one issue, all of them could be accepted and the gate re-read afterwards is
  OK with no open issue; nothing is accepted in SonarQube while some entry fails to match; and the
  stage is dropped or skipped exactly in the modes and for the stories it does not apply to.
\<close>

section \<open>Applicability\<close>

datatype sonar_applicability = APPLICABLE | NOT_APPLICABLE_UNAVAILABLE | NOT_APPLICABLE_FAST

fun applicability_value :: "sonar_applicability \<Rightarrow> string" where
  "applicability_value APPLICABLE = ''APPLICABLE''"
| "applicability_value NOT_APPLICABLE_UNAVAILABLE = ''NOT_APPLICABLE_UNAVAILABLE''"
| "applicability_value NOT_APPLICABLE_FAST = ''NOT_APPLICABLE_FAST''"

definition is_code_producing_story :: "story_type \<Rightarrow> bool" where
  "is_code_producing_story st = (st \<in> {StoryType_IMPLEMENTATION, StoryType_BUGFIX})"

definition resolve_applicability :: "bool \<Rightarrow> bool \<Rightarrow> story_type \<Rightarrow> sonar_applicability" where
  "resolve_applicability available fast st =
    (if fast then NOT_APPLICABLE_FAST
     else if \<not> available then NOT_APPLICABLE_UNAVAILABLE
     else if \<not> is_code_producing_story st then NOT_APPLICABLE_UNAVAILABLE
     else APPLICABLE)"

section \<open>The attestation\<close>

record sonar_attestation =
  sa_commit_sha :: string
  sa_tree_hash :: string
  sa_analysis_id :: string
  sa_ce_task_id :: string
  sa_quality_gate_status :: string
  sa_quality_gate_hash :: string
  sa_quality_profile_hash :: string
  sa_analysis_scope_hash :: string
  sa_new_code_definition :: string
  sa_exception_ledger_hash :: string
  sa_last_analyzed_revision :: string
  sa_sonarqube_version :: string
  sa_branch_plugin_version :: string
  sa_scanner_version :: string
  sa_status :: string

definition mandatory_read_fields :: "sonar_attestation \<Rightarrow> (string \<times> string) list" where
  "mandatory_read_fields a =
    [(''commit_sha'', sa_commit_sha a), (''tree_hash'', sa_tree_hash a), (''analysis_id'', sa_analysis_id a),
     (''ce_task_id'', sa_ce_task_id a), (''quality_gate_status'', sa_quality_gate_status a),
     (''quality_gate_hash'', sa_quality_gate_hash a), (''quality_profile_hash'', sa_quality_profile_hash a),
     (''analysis_scope_hash'', sa_analysis_scope_hash a), (''new_code_definition'', sa_new_code_definition a),
     (''exception_ledger_hash'', sa_exception_ledger_hash a),
     (''last_analyzed_revision'', sa_last_analyzed_revision a),
     (''sonarqube_version'', sa_sonarqube_version a), (''branch_plugin_version'', sa_branch_plugin_version a),
     (''scanner_version'', sa_scanner_version a)]"

definition new_sonar_attestation :: "sonar_attestation \<Rightarrow> exn + sonar_attestation" where
  "new_sonar_attestation a =
    (let missing = map fst (filter (\<lambda>(_, v). blank v) (mandatory_read_fields a)) in
     if sa_status a = ''READ'' \<and> missing \<noteq> []
     then Inl (ValidationError (''READ SonarAttestation is missing mandatory FK-33 '' @ section_sign
            @ ''33.6.3 binding fields (fail-closed, ERROR-1): '' @ join '', '' missing))
     else Inr a)"

definition unit_separator :: string where
  "unit_separator = [CHR 0x1F]"

definition config_hash :: "(string \<Rightarrow> string) \<Rightarrow> sonar_attestation \<Rightarrow> string" where
  "config_hash sha256 a = sha256 (join unit_separator
     [sa_quality_gate_hash a, sa_quality_profile_hash a, sa_sonarqube_version a,
      sa_branch_plugin_version a, sa_scanner_version a])"

definition is_bound_to :: "sonar_attestation \<Rightarrow> string \<Rightarrow> bool" where
  "is_bound_to a main_head = (sa_last_analyzed_revision a = main_head)"

definition is_green_status :: "string \<Rightarrow> int \<Rightarrow> bool" where
  "is_green_status status open_count = (status = ''OK'' \<and> open_count = 0)"

section \<open>The ledger and the reconciler\<close>

record ledger_entry =
  le_rule_key :: string
  le_file_path :: string
  le_normalized_code_fingerprint :: string
  le_expected_message_pattern :: string
  le_rationale :: string
  le_approved_by :: "string list"
  le_approved_commit :: string
  le_expiry :: string
  le_scope :: string

definition new_ledger_entry :: "ledger_entry \<Rightarrow> exn + ledger_entry" where
  "new_ledger_entry e =
    (if length (le_approved_by e) \<noteq> 3
     then Inl (LedgerInvalidError (''approved_by requires exactly 3 approvers (six-eyes, FK-33 ''
            @ section_sign @ ''33.6.4); got '' @ show_nat (length (le_approved_by e))))
     else if list_ex blank (le_approved_by e)
     then Inl (LedgerInvalidError (''approved_by entries must be non-empty (FK-33 '' @ section_sign @ ''33.6.4)''))
     else if length (remdups (le_approved_by e)) \<noteq> 3
     then Inl (LedgerInvalidError (''approved_by must be three DISTINCT approvers; no agent may approve its own exception (FK-33 ''
            @ section_sign @ ''33.6.4)''))
     else if le_scope e \<notin> {''branch-only'', ''main-eligible''}
     then Inl (LedgerInvalidError (''scope must be branch-only or main-eligible; got '' @ py_repr (le_scope e)))
     else Inr e)"

record sonar_issue =
  si_issue_key :: string
  si_rule_key :: string
  si_normalized_code_fingerprint :: string
  si_message :: string

definition entry_matches :: "string \<Rightarrow> string \<Rightarrow> (string \<Rightarrow> bool) \<Rightarrow> sonar_issue \<Rightarrow> bool" where
  "entry_matches rule fingerprint search i =
     (si_rule_key i = rule \<and> si_normalized_code_fingerprint i = fingerprint \<and> search (si_message i))"

type_synonym regex_engine = "string \<Rightarrow> (string \<Rightarrow> bool) option"

definition matching_issues :: "(string \<Rightarrow> bool) \<Rightarrow> ledger_entry \<Rightarrow> sonar_issue list \<Rightarrow> sonar_issue list" where
  "matching_issues search e issues =
     filter (entry_matches (le_rule_key e) (le_normalized_code_fingerprint e) search) issues"

definition reconcile_entry :: "regex_engine \<Rightarrow> sonar_issue list \<Rightarrow> ledger_entry \<Rightarrow> exn + string" where
  "reconcile_entry rx issues e = (case rx (le_expected_message_pattern e) of
      None \<Rightarrow> Inl (ReconcilerFailClosedError (''ledger entry for rule '' @ py_repr (le_rule_key e)
        @ '' has an invalid expected_message_pattern '' @ py_repr (le_expected_message_pattern e)))
    | Some search \<Rightarrow> (case matching_issues search e issues of
        [i] \<Rightarrow> Inr (si_issue_key i)
      | matches \<Rightarrow> Inl (ReconcilerFailClosedError (''accepted-exception ledger entry (rule=''
          @ py_repr (le_rule_key e) @ '', fingerprint='' @ py_repr (le_normalized_code_fingerprint e)
          @ '') matched '' @ show_nat (length matches) @ '' current Sonar issues; exactly 1 required''))))"

fun reconcile_single_match :: "regex_engine \<Rightarrow> ledger_entry list \<Rightarrow> sonar_issue list \<Rightarrow> exn + string list" where
  "reconcile_single_match rx [] issues = Inr []"
| "reconcile_single_match rx (e # es) issues = (case reconcile_entry rx issues e of
      Inl x \<Rightarrow> Inl x
    | Inr k \<Rightarrow> (case reconcile_single_match rx es issues of Inl x \<Rightarrow> Inl x | Inr ks \<Rightarrow> Inr (k # ks)))"

section \<open>The gate\<close>

record post_apply_gate_state =
  pa_quality_gate_status :: string
  pa_overall_open_issue_count :: int

record 's sonar_gate_inputs =
  gi_applicability :: sonar_applicability
  gi_attestation :: "sonar_attestation option"
  gi_main_head_revision :: string
  gi_ledger_entries :: "ledger_entry list"
  gi_current_issues :: "sonar_issue list"
  gi_issue_applier :: "string \<Rightarrow> ('s, exn, unit) io"
  gi_post_apply_reader :: "('s, exn, post_apply_gate_state) io option"

record sonar_gate_outcome =
  so_applicability :: sonar_applicability
  so_passed :: "bool option"
  so_gate_status :: string
  so_accepted_issue_keys :: "string list"
  so_failure_reason :: "string option"

definition gate_not_applicable :: "sonar_applicability \<Rightarrow> exn + sonar_gate_outcome" where
  "gate_not_applicable a =
    (if a \<noteq> NOT_APPLICABLE_UNAVAILABLE
     then Inl (ValueError (''evaluate_sonarqube_gate must not be invoked for '' @ applicability_value a))
     else Inr \<lparr>so_applicability = a, so_passed = None, so_gate_status = ''sonarqube_gate_not_applicable'',
            so_accepted_issue_keys = [], so_failure_reason = None\<rparr>)"

definition gate_failed :: "sonar_applicability \<Rightarrow> string \<Rightarrow> sonar_gate_outcome" where
  "gate_failed a reason = \<lparr>so_applicability = a, so_passed = Some False, so_gate_status = ''failed'',
     so_accepted_issue_keys = [], so_failure_reason = Some reason\<rparr>"

fun apply_issues :: "(string \<Rightarrow> ('s, exn, unit) io) \<Rightarrow> string list \<Rightarrow> ('s, exn, unit) io" where
  "apply_issues applier [] = ret ()"
| "apply_issues applier (k # ks) = seq_io (applier k) (apply_issues applier ks)"

definition gate_verdict ::
  "sonar_applicability \<Rightarrow> string list \<Rightarrow> post_apply_gate_state \<Rightarrow> sonar_gate_outcome" where
  "gate_verdict a keys post =
    (if \<not> is_green_status (pa_quality_gate_status post) (pa_overall_open_issue_count post)
     then gate_failed a (''red_gate: quality_gate_status='' @ py_repr (pa_quality_gate_status post)
            @ '', overall_open_issues_post='' @ show_int (pa_overall_open_issue_count post)
            @ '', accepted='' @ show_nat (length keys))
     else \<lparr>so_applicability = a, so_passed = Some True, so_gate_status = ''sonarqube_gate_passed'',
            so_accepted_issue_keys = keys, so_failure_reason = None\<rparr>)"

definition reread_gate ::
  "sonar_applicability \<Rightarrow> string list \<Rightarrow> ('s, exn, post_apply_gate_state) io option
     \<Rightarrow> ('s, exn, sonar_gate_outcome) io" where
  "reread_gate a keys reader = (case reader of
      None \<Rightarrow> ret (gate_failed a (''post_apply_reread_unavailable: cannot confirm green without re-reading the post-apply quality gate (FK-33 ''
        @ section_sign @ ''33.6.4)''))
    | Some rd \<Rightarrow> try_io rd (\<lambda>r. (case r of
        Inl e \<Rightarrow>
          if exn_type_name e \<in> {''OSError'', ''ValueError'', ''ValidationError''}
          then ret (gate_failed a (''post_apply_reread_failed: '' @ exn_message e))
          else raise e
      | Inr post \<Rightarrow> ret (gate_verdict a keys post))))"

text \<open>The reconciliation and the acceptance of the issues, under one \<open>try\<close>.\<close>

definition accept_exceptions ::
  "regex_engine \<Rightarrow> 's sonar_gate_inputs \<Rightarrow> ('s, exn, string list) io" where
  "accept_exceptions rx i = bind_io (lift_sum (reconcile_single_match rx (gi_ledger_entries i) (gi_current_issues i)))
     (\<lambda>keys. seq_io (apply_issues (gi_issue_applier i) keys) (ret keys))"

text \<open>\<open>ValidationError\<close> is a \<open>ValueError\<close> above; here the two \<open>except\<close> clauses of the reconciler.\<close>

definition catch_reconciler :: "exn \<Rightarrow> ('s, exn, sonar_gate_outcome) io" where
  "catch_reconciler e =
    (if exn_type_name e = ''ReconcilerFailClosedError''
     then ret (gate_failed APPLICABLE (''ledger_reconcile_fail_closed: '' @ exn_message e))
     else if exn_type_name e = ''ReconcilerApplyError''
     then ret (gate_failed APPLICABLE (''ledger_apply_fail_closed: '' @ exn_message e))
     else raise e)"

definition evaluate_sonarqube_gate ::
  "regex_engine \<Rightarrow> 's sonar_gate_inputs \<Rightarrow> ('s, exn, sonar_gate_outcome) io" where
  "evaluate_sonarqube_gate rx i =
    (if gi_applicability i \<noteq> APPLICABLE then lift_sum (gate_not_applicable (gi_applicability i))
     else (case gi_attestation i of
        None \<Rightarrow> ret (gate_failed APPLICABLE ''attestation_unreadable'')
      | Some a \<Rightarrow>
          if \<not> is_bound_to a (gi_main_head_revision i)
          then ret (gate_failed APPLICABLE (''stale_attestation: last_analyzed_revision=''
                 @ py_repr (sa_last_analyzed_revision a) @ '' != main_head='' @ py_repr (gi_main_head_revision i)))
          else try_io (accept_exceptions rx i) (\<lambda>r. (case r of
             Inl e \<Rightarrow> catch_reconciler e
           | Inr keys \<Rightarrow> reread_gate APPLICABLE keys (gi_post_apply_reader i)))))"

section \<open>The stage\<close>

record sonar_stage_result =
  sr_layer_result :: layer_result
  sr_short_circuit_failed :: bool

definition sonar_stage_name :: string where
  "sonar_stage_name = ''sonarqube_gate''"

definition executed_gate_check :: "string \<times> json" where
  "executed_gate_check = (''executed_check_ids'', JList [JStr ''sonarqube_green_gate''])"

definition skip_result :: sonar_stage_result where
  "skip_result = \<lparr>sr_layer_result = \<lparr>lr_layer = sonar_stage_name, lr_passed = True, lr_findings = [],
     lr_metadata = [(''stage'', JStr sonar_stage_name),
       (''applicability'', JStr (applicability_value NOT_APPLICABLE_UNAVAILABLE)),
       (''gate_status'', JStr ''sonarqube_gate_not_applicable''), (''skipped'', JBool True), executed_gate_check],
     lr_artifact_reference = None\<rparr>, sr_short_circuit_failed = False\<rparr>"

definition gate_finding :: "string option \<Rightarrow> finding" where
  "gate_finding reason = new_finding sonar_stage_name ''sonarqube_green_gate'' Severity_BLOCKING
     (''SonarQube-Green-Gate fail-closed: '' @ (case reason of Some r \<Rightarrow> r | None \<Rightarrow> ''None'')) Trust_SYSTEM"

text \<open>\<open>if outcome.passed\<close>: neither \<open>None\<close> nor \<open>False\<close>.\<close>

definition stage_of_outcome :: "sonar_gate_outcome \<Rightarrow> sonar_stage_result" where
  "stage_of_outcome oc =
    (if so_passed oc = Some True
     then \<lparr>sr_layer_result = \<lparr>lr_layer = sonar_stage_name, lr_passed = True, lr_findings = [],
       lr_metadata = [(''stage'', JStr sonar_stage_name),
         (''applicability'', JStr (applicability_value (so_applicability oc))),
         (''gate_status'', JStr (so_gate_status oc)),
         (''accepted_issue_keys'', JList (map JStr (so_accepted_issue_keys oc))), executed_gate_check],
       lr_artifact_reference = None\<rparr>, sr_short_circuit_failed = False\<rparr>
     else \<lparr>sr_layer_result = \<lparr>lr_layer = sonar_stage_name, lr_passed = False,
       lr_findings = [gate_finding (so_failure_reason oc)],
       lr_metadata = [(''stage'', JStr sonar_stage_name),
         (''applicability'', JStr (applicability_value (so_applicability oc))),
         (''gate_status'', JStr (so_gate_status oc)),
         (''failure_reason'', json_opt JStr (so_failure_reason oc)), executed_gate_check],
       lr_artifact_reference = None\<rparr>, sr_short_circuit_failed = True\<rparr>)"

definition evaluate_sonar_stage ::
  "regex_engine \<Rightarrow> 's sonar_gate_inputs \<Rightarrow> ('s, exn, sonar_stage_result) io" where
  "evaluate_sonar_stage rx i = bind_io (evaluate_sonarqube_gate rx i) (\<lambda>oc. ret (stage_of_outcome oc))"

definition run_sonarqube_gate_stage ::
  "regex_engine \<Rightarrow> ('s, exn, 's sonar_gate_inputs) io \<Rightarrow> ('s, exn, sonar_stage_result option) io" where
  "run_sonarqube_gate_stage rx port = bind_io port (\<lambda>i.
     if gi_applicability i = NOT_APPLICABLE_FAST then ret None
     else if gi_applicability i = NOT_APPLICABLE_UNAVAILABLE then ret (Some skip_result)
     else bind_io (evaluate_sonar_stage rx i) (\<lambda>r. ret (Some r)))"

text \<open>The default port: SonarQube deliberately absent.\<close>

definition absent_sonar_gate_inputs :: "'s sonar_gate_inputs" where
  "absent_sonar_gate_inputs = \<lparr>gi_applicability = NOT_APPLICABLE_UNAVAILABLE, gi_attestation = None,
     gi_main_head_revision = [], gi_ledger_entries = [], gi_current_issues = [],
     gi_issue_applier = (\<lambda>_. ret ()), gi_post_apply_reader = None\<rparr>"

section \<open>The reconciler\<close>

definition single_match :: "regex_engine \<Rightarrow> sonar_issue list \<Rightarrow> ledger_entry \<Rightarrow> string \<Rightarrow> bool" where
  "single_match rx issues e k \<longleftrightarrow> (\<exists>search i. rx (le_expected_message_pattern e) = Some search
     \<and> matching_issues search e issues = [i] \<and> k = si_issue_key i)"

lemma reconcile_entry_Inr: "reconcile_entry rx issues e = Inr k \<longleftrightarrow> single_match rx issues e k"
  by (auto simp: reconcile_entry_def single_match_def split: option.splits list.splits)

lemma reconcile_entry_Inl: "reconcile_entry rx issues e = Inl x \<Longrightarrow> \<exists>m. x = ReconcilerFailClosedError m"
  by (auto simp: reconcile_entry_def split: option.splits list.splits)

lemma reconcile_Inr: "reconcile_single_match rx es issues = Inr ks \<longleftrightarrow> list_all2 (single_match rx issues) es ks"
proof (induction es arbitrary: ks)
  case (Cons e es)
  have "single_match rx issues e k \<longleftrightarrow> reconcile_entry rx issues e = Inr k" for k
    by (simp add: reconcile_entry_Inr)
  then show ?case by (auto simp: Cons.IH [symmetric] list_all2_Cons1 split: sum.splits)
qed auto

lemma reconcile_Inl:
  "reconcile_single_match rx es issues = Inl x \<Longrightarrow> \<exists>m. x = ReconcilerFailClosedError m"
  by (induction es) (auto split: sum.splits dest: reconcile_entry_Inl)

lemma single_match_count:
  "(\<exists>k. single_match rx issues e k) \<longleftrightarrow>
    (\<exists>search. rx (le_expected_message_pattern e) = Some search
      \<and> length (filter (\<lambda>i. si_rule_key i = le_rule_key e
          \<and> si_normalized_code_fingerprint i = le_normalized_code_fingerprint e \<and> search (si_message i)) issues) = 1)"
  by (auto simp: single_match_def matching_issues_def entry_matches_def [abs_def] length_Suc_conv)

lemma reconcile_total:
  "(\<exists>ks. list_all2 (single_match rx issues) es ks) \<longleftrightarrow> (\<forall>e \<in> set es. \<exists>k. single_match rx issues e k)"
proof (induction es)
  case (Cons e es)
  have "(\<exists>ks. list_all2 (single_match rx issues) (e # es) ks)
      \<longleftrightarrow> (\<exists>k. single_match rx issues e k) \<and> (\<exists>ks. list_all2 (single_match rx issues) es ks)"
    by (auto simp: list_all2_Cons1)
  with Cons.IH show ?case by simp
qed simp

section \<open>The gate\<close>

lemma gate_failed_not_passed [simp]: "so_passed (gate_failed a m) \<noteq> Some True"
  by (simp add: gate_failed_def)

lemma gate_verdict_passed:
  "so_passed (gate_verdict a ks post) = Some True \<longleftrightarrow>
    pa_quality_gate_status post = ''OK'' \<and> pa_overall_open_issue_count post = 0"
  by (auto simp: gate_verdict_def is_green_status_def)

lemma reread_gate_passed:
  "(\<exists>oc. reread_gate a ks reader s = (Inr oc, t) \<and> so_passed oc = Some True) \<longleftrightarrow>
    (\<exists>rd post. reader = Some rd \<and> rd s = (Inr post, t)
      \<and> pa_quality_gate_status post = ''OK'' \<and> pa_overall_open_issue_count post = 0)"
  by (auto simp: reread_gate_def try_io_def ret_def raise_def gate_verdict_passed
      split: option.splits prod.splits sum.splits)

lemma accept_exceptions_run:
  "accept_exceptions rx i s = (Inr ks, t) \<longleftrightarrow>
    list_all2 (single_match rx (gi_current_issues i)) (gi_ledger_entries i) ks
    \<and> apply_issues (gi_issue_applier i) ks s = (Inr (), t)"
  unfolding reconcile_Inr [symmetric]
  by (cases "reconcile_single_match rx (gi_ledger_entries i) (gi_current_issues i)")
    (auto simp: accept_exceptions_def bind_io_def seq_io_def io_run split: sum.splits prod.splits)

lemma accept_exceptions_unmatched:
  "\<not> (\<forall>e \<in> set (gi_ledger_entries i). \<exists>k. single_match rx (gi_current_issues i) e k) \<Longrightarrow>
    \<exists>m. accept_exceptions rx i s = (Inl (ReconcilerFailClosedError m), s)"
proof -
  assume "\<not> (\<forall>e \<in> set (gi_ledger_entries i). \<exists>k. single_match rx (gi_current_issues i) e k)"
  then have "\<nexists>ks. reconcile_single_match rx (gi_ledger_entries i) (gi_current_issues i) = Inr ks"
    unfolding reconcile_Inr using reconcile_total by blast
  then obtain x where x: "reconcile_single_match rx (gi_ledger_entries i) (gi_current_issues i) = Inl x"
    by (cases "reconcile_single_match rx (gi_ledger_entries i) (gi_current_issues i)") auto
  then obtain m where "x = ReconcilerFailClosedError m" using reconcile_Inl by blast
  then show ?thesis using x by (simp add: accept_exceptions_def bind_io_def io_run)
qed

lemma evaluate_gate_passed:
  assumes "gi_applicability i = APPLICABLE"
  shows "(\<exists>oc. evaluate_sonarqube_gate rx i s = (Inr oc, t) \<and> so_passed oc = Some True) \<longleftrightarrow>
    (\<exists>a. gi_attestation i = Some a \<and> sa_last_analyzed_revision a = gi_main_head_revision i)
    \<and> (\<exists>ks u rd post. list_all2 (single_match rx (gi_current_issues i)) (gi_ledger_entries i) ks
        \<and> apply_issues (gi_issue_applier i) ks s = (Inr (), u)
        \<and> gi_post_apply_reader i = Some rd \<and> rd u = (Inr post, t)
        \<and> pa_quality_gate_status post = ''OK'' \<and> pa_overall_open_issue_count post = 0)"
proof (cases "\<exists>a. gi_attestation i = Some a \<and> sa_last_analyzed_revision a = gi_main_head_revision i")
  case True
  then obtain a where a: "gi_attestation i = Some a" "sa_last_analyzed_revision a = gi_main_head_revision i"
    by blast
  have ev: "evaluate_sonarqube_gate rx i = try_io (accept_exceptions rx i) (\<lambda>r. (case r of
             Inl e \<Rightarrow> catch_reconciler e
           | Inr keys \<Rightarrow> reread_gate APPLICABLE keys (gi_post_apply_reader i)))"
    using assms a by (simp add: evaluate_sonarqube_gate_def is_bound_to_def)
  show ?thesis
  proof (cases "accept_exceptions rx i s")
    case (Pair r u)
    show ?thesis
    proof (cases r)
      case (Inl e)
      then have "\<not> (\<exists>oc. evaluate_sonarqube_gate rx i s = (Inr oc, t) \<and> so_passed oc = Some True)"
        using Pair by (auto simp: ev try_io_def catch_reconciler_def ret_def raise_def)
      moreover have "\<not> (\<exists>ks v. accept_exceptions rx i s = (Inr ks, v))" using Pair Inl by simp
      ultimately show ?thesis by (auto simp: accept_exceptions_run)
    next
      case (Inr ks)
      then have "(\<exists>oc. evaluate_sonarqube_gate rx i s = (Inr oc, t) \<and> so_passed oc = Some True) \<longleftrightarrow>
          (\<exists>rd post. gi_post_apply_reader i = Some rd \<and> rd u = (Inr post, t)
            \<and> pa_quality_gate_status post = ''OK'' \<and> pa_overall_open_issue_count post = 0)"
        using Pair by (simp add: ev try_io_def reread_gate_passed)
      moreover have "(\<exists>ks' u' rd post. accept_exceptions rx i s = (Inr ks', u')
          \<and> gi_post_apply_reader i = Some rd \<and> rd u' = (Inr post, t)
          \<and> pa_quality_gate_status post = ''OK'' \<and> pa_overall_open_issue_count post = 0)
        \<longleftrightarrow> (\<exists>rd post. gi_post_apply_reader i = Some rd \<and> rd u = (Inr post, t)
          \<and> pa_quality_gate_status post = ''OK'' \<and> pa_overall_open_issue_count post = 0)"
        using Pair Inr by simp
      ultimately show ?thesis using a by (simp add: accept_exceptions_run)
    qed
  qed
next
  case False
  then show ?thesis
    using assms by (auto simp: evaluate_sonarqube_gate_def is_bound_to_def ret_def split: option.splits)
qed

lemma stage_passed [simp]:
  "lr_passed (sr_layer_result (stage_of_outcome oc)) \<longleftrightarrow> so_passed oc = Some True"
  "sr_short_circuit_failed (stage_of_outcome oc) \<longleftrightarrow> so_passed oc \<noteq> Some True"
  by (simp_all add: stage_of_outcome_def)

lemma applicable_gate:
  assumes port: "port s = (Inr i, s')" and applicable: "gi_applicability i = APPLICABLE"
  shows "((\<exists>r. run_sonarqube_gate_stage rx port s = (Inr (Some r), t) \<and> lr_passed (sr_layer_result r)
          \<and> \<not> sr_short_circuit_failed r) \<longleftrightarrow>
      (\<exists>a. gi_attestation i = Some a \<and> sa_last_analyzed_revision a = gi_main_head_revision i)
      \<and> (\<exists>ks u rd post. list_all2 (single_match rx (gi_current_issues i)) (gi_ledger_entries i) ks
          \<and> apply_issues (gi_issue_applier i) ks s' = (Inr (), u)
          \<and> gi_post_apply_reader i = Some rd \<and> rd u = (Inr post, t)
          \<and> pa_quality_gate_status post = ''OK'' \<and> pa_overall_open_issue_count post = 0))
    \<and> (\<not> (\<forall>e \<in> set (gi_ledger_entries i). \<exists>k. single_match rx (gi_current_issues i) e k) \<longrightarrow>
        (\<exists>r. run_sonarqube_gate_stage rx port s = (Inr (Some r), s') \<and> sr_short_circuit_failed r))"
proof -
  have run: "run_sonarqube_gate_stage rx port s = (case evaluate_sonarqube_gate rx i s' of
      (Inl e, v) \<Rightarrow> (Inl e, v) | (Inr oc, v) \<Rightarrow> (Inr (Some (stage_of_outcome oc)), v))"
    using port applicable
    by (auto simp: run_sonarqube_gate_stage_def evaluate_sonar_stage_def bind_io_def io_run
        split: sum.splits prod.splits)
  have "(\<exists>r. run_sonarqube_gate_stage rx port s = (Inr (Some r), t) \<and> lr_passed (sr_layer_result r)
          \<and> \<not> sr_short_circuit_failed r)
      \<longleftrightarrow> (\<exists>oc. evaluate_sonarqube_gate rx i s' = (Inr oc, t) \<and> so_passed oc = Some True)"
    unfolding run by (auto split: sum.splits prod.splits)
  moreover have "\<exists>r. run_sonarqube_gate_stage rx port s = (Inr (Some r), s') \<and> sr_short_circuit_failed r"
    if unmatched: "\<not> (\<forall>e \<in> set (gi_ledger_entries i). \<exists>k. single_match rx (gi_current_issues i) e k)"
  proof -
    obtain m where "accept_exceptions rx i s' = (Inl (ReconcilerFailClosedError m), s')"
      using accept_exceptions_unmatched [OF unmatched] by blast
    then have "\<exists>oc. evaluate_sonarqube_gate rx i s' = (Inr oc, s') \<and> so_passed oc \<noteq> Some True"
      using applicable
      by (auto simp: evaluate_sonarqube_gate_def try_io_def catch_reconciler_def ret_def split: option.splits)
    then show ?thesis unfolding run by auto
  qed
  ultimately show ?thesis using evaluate_gate_passed [OF applicable, of rx s' t] by blast
qed

text \<open>
  C23. The gate never fails open, whatever the applicability the port resolved from the project's
  SonarQube setting, the mode and the story type. In fast mode the stage is dropped without a result.
  Otherwise it is skipped, passed and marked as not applicable without having read or accepted
  anything, exactly when SonarQube is not available or the story does not produce code. For a
  code-producing story with SonarQube available it passes exactly when the attestation was read and is
  of the current head, every accepted exception matches exactly one current issue, all of these issues
  could be accepted, and the gate re-read afterwards is OK without open issues; and if some exception
  does not match exactly one issue, it fails without having accepted anything in SonarQube.
\<close>
theorem sonar_gate_never_fails_open:
  assumes "port s = (Inr i, s')" and "gi_applicability i = resolve_applicability available fast st"
  shows "if fast then run_sonarqube_gate_stage rx port s = (Inr None, s')
    else if \<not> (available \<and> st \<in> {StoryType_IMPLEMENTATION, StoryType_BUGFIX}) then
      \<exists>r. run_sonarqube_gate_stage rx port s = (Inr (Some r), s') \<and> lr_passed (sr_layer_result r) \<and> \<not> sr_short_circuit_failed r
        \<and> map_of (lr_metadata (sr_layer_result r)) ''applicability'' = Some (JStr ''NOT_APPLICABLE_UNAVAILABLE'')
        \<and> map_of (lr_metadata (sr_layer_result r)) ''skipped'' = Some (JBool True)
    else ((\<exists>r. run_sonarqube_gate_stage rx port s = (Inr (Some r), t) \<and> lr_passed (sr_layer_result r)
          \<and> \<not> sr_short_circuit_failed r) \<longleftrightarrow>
      (\<exists>a. gi_attestation i = Some a \<and> sa_last_analyzed_revision a = gi_main_head_revision i)
      \<and> (\<exists>ks u rd post. list_all2 (single_match rx (gi_current_issues i)) (gi_ledger_entries i) ks
          \<and> apply_issues (gi_issue_applier i) ks s' = (Inr (), u)
          \<and> gi_post_apply_reader i = Some rd \<and> rd u = (Inr post, t)
          \<and> pa_quality_gate_status post = ''OK'' \<and> pa_overall_open_issue_count post = 0))
    \<and> (\<not> (\<forall>e \<in> set (gi_ledger_entries i). \<exists>k. single_match rx (gi_current_issues i) e k) \<longrightarrow>
        (\<exists>r. run_sonarqube_gate_stage rx port s = (Inr (Some r), s') \<and> sr_short_circuit_failed r))"
proof -
  consider (dropped) fast | (skipped) "\<not> fast" "\<not> (available \<and> st \<in> {StoryType_IMPLEMENTATION, StoryType_BUGFIX})"
    | (evaluated) "\<not> fast" "available" "st \<in> {StoryType_IMPLEMENTATION, StoryType_BUGFIX}" by blast
  then show ?thesis
  proof cases
    case dropped
    then show ?thesis
      using assms by (simp add: resolve_applicability_def run_sonarqube_gate_stage_def bind_io_def ret_def)
  next
    case skipped
    then have "gi_applicability i = NOT_APPLICABLE_UNAVAILABLE"
      using assms(2) by (simp add: resolve_applicability_def is_code_producing_story_def)
    then have "run_sonarqube_gate_stage rx port s = (Inr (Some skip_result), s')"
      using assms(1) by (simp add: run_sonarqube_gate_stage_def bind_io_def ret_def)
    then show ?thesis using skipped by (simp add: skip_result_def)
  next
    case evaluated
    then have "gi_applicability i = APPLICABLE"
      using assms(2) by (auto simp: resolve_applicability_def is_code_producing_story_def)
    from applicable_gate [where port = port and s = s and s' = s' and i = i and rx = rx and t = t, OF assms(1) this] show ?thesis using evaluated by simp
  qed
qed

text \<open>A SonarQube whose state is the keys accepted so far: the gate turns green once \<open>I1\<close> is accepted.\<close>

definition demo_gate_inputs :: "sonar_issue list \<Rightarrow> string list sonar_gate_inputs" where
  "demo_gate_inputs issues = \<lparr>gi_applicability = APPLICABLE,
     gi_attestation = Some \<lparr>sa_commit_sha = ''c'', sa_tree_hash = ''t'', sa_analysis_id = ''a'', sa_ce_task_id = ''x'',
       sa_quality_gate_status = ''ERROR'', sa_quality_gate_hash = ''q'', sa_quality_profile_hash = ''p'',
       sa_analysis_scope_hash = ''s'', sa_new_code_definition = ''n'', sa_exception_ledger_hash = ''l'',
       sa_last_analyzed_revision = ''head'', sa_sonarqube_version = ''1'', sa_branch_plugin_version = ''1'',
       sa_scanner_version = ''1'', sa_status = ''READ''\<rparr>,
     gi_main_head_revision = ''head'',
     gi_ledger_entries = [\<lparr>le_rule_key = ''S1'', le_file_path = ''f'', le_normalized_code_fingerprint = ''fp'',
       le_expected_message_pattern = ''dup'', le_rationale = ''r'', le_approved_by = [''a'', ''b'', ''c''],
       le_approved_commit = ''c'', le_expiry = [], le_scope = ''branch-only''\<rparr>],
     gi_current_issues = issues,
     gi_issue_applier = (\<lambda>k. modify (\<lambda>ks. k # ks)),
     gi_post_apply_reader = Some (gets (\<lambda>ks. \<lparr>pa_quality_gate_status = if ''I1'' \<in> set ks then ''OK'' else ''ERROR'',
       pa_overall_open_issue_count = if ''I1'' \<in> set ks then 0 else 1\<rparr>))\<rparr>"

definition demo_issue :: sonar_issue where
  "demo_issue = \<lparr>si_issue_key = ''I1'', si_rule_key = ''S1'', si_normalized_code_fingerprint = ''fp'',
     si_message = ''dup''\<rparr>"

definition demo_rx :: regex_engine where
  "demo_rx p = Some (\<lambda>m. m = p)"

lemma demo_match:
  "list_all2 (single_match demo_rx (gi_current_issues (demo_gate_inputs [demo_issue])))
     (gi_ledger_entries (demo_gate_inputs [demo_issue])) [''I1'']"
  by (simp add: demo_gate_inputs_def single_match_def matching_issues_def entry_matches_def demo_issue_def demo_rx_def)

lemma sonar_gate_never_fails_open_witness:
  "(\<exists>r. run_sonarqube_gate_stage demo_rx (ret (demo_gate_inputs [demo_issue])) [] = (Inr (Some r), [''I1''])
       \<and> lr_passed (sr_layer_result r))
   \<and> (\<exists>r. run_sonarqube_gate_stage demo_rx (ret (demo_gate_inputs [demo_issue, demo_issue])) [] = (Inr (Some r), [])
       \<and> sr_short_circuit_failed r)
   \<and> (\<exists>r. run_sonarqube_gate_stage demo_rx (ret absent_sonar_gate_inputs) [] = (Inr (Some r), ([] :: string list))
       \<and> lr_passed (sr_layer_result r))"
proof (intro conjI)
  let ?i = "demo_gate_inputs [demo_issue]" and ?j = "demo_gate_inputs [demo_issue, demo_issue]"
  have app: "gi_applicability ?i = resolve_applicability True False StoryType_BUGFIX"
      "gi_applicability ?j = resolve_applicability True False StoryType_BUGFIX"
    by (simp_all add: demo_gate_inputs_def resolve_applicability_def is_code_producing_story_def)
  have "ret ?i [] = (Inr ?i, [])" "ret ?j [] = (Inr ?j, [])" by (simp_all add: ret_def)
  note gate =
    sonar_gate_never_fails_open [where port = "ret ?i" and s = "[]" and i = ?i and rx = demo_rx and t = "[''I1'']"
      and available = True and fast = False and st = StoryType_BUGFIX, OF this(1) app(1), simplified insert_iff simp_thms if_False]
    sonar_gate_never_fails_open [where port = "ret ?j" and s = "[]" and i = ?j and rx = demo_rx and t = "[]"
      and available = True and fast = False and st = StoryType_BUGFIX, OF this(2) app(2), simplified insert_iff simp_thms if_False]
  have "\<exists>a. gi_attestation ?i = Some a \<and> sa_last_analyzed_revision a = gi_main_head_revision ?i"
    by (simp add: demo_gate_inputs_def)
  moreover have "\<exists>u rd post. apply_issues (gi_issue_applier ?i) [''I1''] [] = (Inr (), u)
      \<and> gi_post_apply_reader ?i = Some rd \<and> rd u = (Inr post, [''I1''])
      \<and> pa_quality_gate_status post = ''OK'' \<and> pa_overall_open_issue_count post = 0"
    by (simp add: demo_gate_inputs_def seq_io_def bind_io_def io_run)
  ultimately show "\<exists>r. run_sonarqube_gate_stage demo_rx (ret ?i) [] = (Inr (Some r), [''I1''])
       \<and> lr_passed (sr_layer_result r)"
    using gate(1) demo_match by blast
  have "\<not> (\<exists>k. single_match demo_rx [demo_issue, demo_issue] e k)"
    if "e \<in> set (gi_ledger_entries ?j)" for e
    using that by (simp add: demo_gate_inputs_def single_match_def matching_issues_def entry_matches_def
        demo_issue_def demo_rx_def)
  moreover have "gi_ledger_entries ?j \<noteq> []" "gi_current_issues ?j = [demo_issue, demo_issue]"
    by (simp_all add: demo_gate_inputs_def)
  ultimately have "\<not> (\<forall>e \<in> set (gi_ledger_entries ?j). \<exists>k. single_match demo_rx (gi_current_issues ?j) e k)"
    by (metis list.set_sel(1))
  then show "\<exists>r. run_sonarqube_gate_stage demo_rx (ret ?j) [] = (Inr (Some r), []) \<and> sr_short_circuit_failed r"
    using gate(2) by blast
  show "\<exists>r. run_sonarqube_gate_stage demo_rx (ret absent_sonar_gate_inputs) [] = (Inr (Some r), ([] :: string list))
      \<and> lr_passed (sr_layer_result r)"
    using sonar_gate_never_fails_open [of "ret absent_sonar_gate_inputs" "[] :: string list" absent_sonar_gate_inputs "[]"
      False False StoryType_BUGFIX demo_rx]
    by (auto simp: ret_def absent_sonar_gate_inputs_def resolve_applicability_def)
qed

end
