(* ===== verification/Qa_Subflow.thy ===== *)
theory Qa_Subflow
  imports Implementation_Evidence Sonar_Gate
begin

text \<open>
  One run of the quality subflow (\<open>verify_system/system.py\<close>, \<open>qa_execution.py\<close>,
  \<open>routed_layer_execution.py\<close>, \<open>fast_mode_floor.py\<close>, \<open>implementation_evidence_precondition.py\<close>,
  \<open>stability_gate_verdict.py\<close>, \<open>remediation_feedback.py\<close>, \<open>layer2_conformance.py\<close>): the evidence
  precondition, the fast floor, the layers in the order of the route with the artifact each of them
  leaves, the gates, the decision, the feedback and the outcome.

  The system is the record of its ports. The layers are arbitrary computations that may raise.
  \<open>uuid4\<close> is an argument. The state holds the documents of a campaign next to the artifact files.
\<close>

section \<open>The system\<close>

record 'x qa_layer =
  ly_name :: string
  ly_evaluate :: "story_context \<Rightarrow> string \<Rightarrow> layer2_review_input option \<Rightarrow> ('x, layer_result) qa_action"

text \<open>
  \<open>vs_client_runner\<close> is the runner that \<open>_resolve_layer2_runner\<close> builds from the language model client
  for a story context; \<open>vs_are_enabled\<close> the flag of a structural checker, \<open>False\<close> of any other first
  layer; \<open>vs_completion_order\<close> the order in which the parallel reviews end.
\<close>

record 'x verify_system =
  vs_layer_1 :: "'x qa_layer"
  vs_layer_2a :: "'x qa_layer"
  vs_layer_2b :: "'x qa_layer"
  vs_layer_2c :: "'x qa_layer"
  vs_layer_3 :: "'x qa_layer"
  vs_are_enabled :: bool
  vs_policy_engine :: policy_engine
  vs_artifact_manager :: "'x qa_state artifact_manager"
  vs_load_story_context :: "string \<Rightarrow> ('x, story_context option) qa_action"
  vs_sonar_gate_port :: "string \<Rightarrow> string \<Rightarrow> ('x, 'x qa_state sonar_gate_inputs) qa_action"
  vs_regex_engine :: regex_engine
  vs_layer2_runner :: "'x structured_evaluator option"
  vs_client_runner :: "(story_context \<Rightarrow> string \<Rightarrow> 'x structured_evaluator) option"
  vs_completion_order :: "reviewer_role list"
  vs_layer2_ports :: "'x layer2_ports"
  vs_fast_test_runner :: "(string \<Rightarrow> ('x, bool \<times> string option) qa_action) option"
  vs_qa_cycle_lifecycle :: "'x qa_cycle_lifecycle"
  vs_remediation_loop_controller :: int
  vs_review_completed :: "string \<Rightarrow> string \<Rightarrow> string \<Rightarrow> ('x, unit) qa_action"
  vs_adversarial_spawner :: "'x qa_state artifact_manager option"
  vs_change_evidence :: "string \<Rightarrow> ('x, change_evidence) qa_action"
  vs_delivery_files :: "string \<Rightarrow> 'x qa_state \<Rightarrow> delivery_files"
  vs_evidence_reader :: evidence_reader
  vs_story_sources :: "string \<Rightarrow> string \<Rightarrow> ('x, story_sources) qa_action"
  vs_bundle_reader :: bundle_reader
  vs_emitting :: bool
  vs_digest :: "json \<Rightarrow> string"

section \<open>Artifact specifications\<close>

record layer_artifact_spec =
  as_filename :: string
  as_stage :: string
  as_producer_name :: string
  as_producer_type :: producer_type

definition artifact_spec :: "string \<Rightarrow> string \<Rightarrow> string \<Rightarrow> producer_type \<Rightarrow> layer_artifact_spec" where
  "artifact_spec f st p ty = \<lparr>as_filename = f, as_stage = st, as_producer_name = p, as_producer_type = ty\<rparr>"

definition LAYER_1_ARTIFACT :: layer_artifact_spec where
  "LAYER_1_ARTIFACT = artifact_spec ''structural.json'' ''qa-layer-structural'' STRUCTURAL_PRODUCER Producer_DETERMINISTIC"

definition LAYER_2_SPECS :: "layer_artifact_spec list" where
  "LAYER_2_SPECS =
    [artifact_spec ''qa_review.json'' ''qa-layer-qa-review'' QA_REVIEW_PRODUCER Producer_LLM_REVIEWER,
     artifact_spec ''semantic_review.json'' ''qa-layer-semantic-review'' SEMANTIC_REVIEW_PRODUCER Producer_LLM_REVIEWER,
     artifact_spec ''doc_fidelity.json'' ''qa-layer-doc-fidelity'' DOC_FIDELITY_PRODUCER Producer_LLM_REVIEWER]"

definition CONTEXT_SUFFICIENCY_ARTIFACT :: layer_artifact_spec where
  "CONTEXT_SUFFICIENCY_ARTIFACT =
     artifact_spec ''context_sufficiency.json'' ''context_sufficiency'' CONTEXT_SUFFICIENCY_PRODUCER Producer_DETERMINISTIC"

definition LAYER_3_ARTIFACT :: layer_artifact_spec where
  "LAYER_3_ARTIFACT = artifact_spec ''adversarial.json'' ''qa-layer-adversarial'' ADVERSARIAL_PRODUCER Producer_LLM_REVIEWER"

definition SONARQUBE_GATE_ARTIFACT :: layer_artifact_spec where
  "SONARQUBE_GATE_ARTIFACT =
     artifact_spec ''sonarqube_gate.json'' ''sonarqube_gate'' SONARQUBE_GATE_PRODUCER Producer_DETERMINISTIC"

definition POLICY_ARTIFACT :: layer_artifact_spec where
  "POLICY_ARTIFACT = artifact_spec ''decision.json'' ''qa-policy-decision'' POLICY_PRODUCER Producer_DETERMINISTIC"

definition STABILITY_GATE_ARTIFACT :: layer_artifact_spec where
  "STABILITY_GATE_ARTIFACT =
     artifact_spec ''integration_stability_gate.json'' ''stability_gate'' STABILITY_GATE_PRODUCER Producer_DETERMINISTIC"

section \<open>Writing artifacts\<close>

definition qa_envelope ::
  "layer_artifact_spec \<Rightarrow> verify_context_bundle \<Rightarrow> string \<Rightarrow> int \<Rightarrow> envelope_status \<Rightarrow> metadata \<Rightarrow> artifact_envelope" where
  "qa_envelope spec b sid t st payload = \<lparr>ae_schema_version = ''3.0'', ae_story_id = sid, ae_run_id = vb_run_id b,
     ae_stage = as_stage spec, ae_attempt = vb_attempt b,
     ae_producer = \<lparr>pr_type = as_producer_type spec, pr_name = as_producer_name spec,
       pr_id = as_producer_name spec @ ''-'' @ vb_run_id b @ ''-'' @ show_int (vb_attempt b), pr_version = None\<rparr>,
     ae_started_at = t, ae_finished_at = t, ae_status = st, ae_artifact_class = Class_QA, ae_payload = Some payload\<rparr>"

definition write_layer_envelope ::
  "'x verify_system \<Rightarrow> layer_artifact_spec \<Rightarrow> layer_result \<Rightarrow> verify_context_bundle \<Rightarrow> string \<Rightarrow> int \<Rightarrow> metadata
     \<Rightarrow> ('x, artifact_reference) qa_action" where
  "write_layer_envelope vs spec lr b sid t cyc = store_envelope (vs_artifact_manager vs)
     (qa_envelope spec b sid t (if lr_passed lr then Envelope_PASS else Envelope_FAIL)
       (put_all (serialize_layer_result lr (vb_attempt b)) cyc))"

definition write_policy_artifact ::
  "'x verify_system \<Rightarrow> verify_decision \<Rightarrow> verify_context_bundle \<Rightarrow> string \<Rightarrow> int \<Rightarrow> metadata
     \<Rightarrow> ('x, string) qa_action" where
  "write_policy_artifact vs d b sid t cyc = seq_io (store_envelope (vs_artifact_manager vs)
     (qa_envelope POLICY_ARTIFACT b sid t (if vd_passed d then Envelope_PASS else Envelope_FAIL)
       (put_all (build_verify_decision_artifact d (vb_attempt b)) cyc)))
     (ret (as_filename POLICY_ARTIFACT))"

section \<open>Executing a layer\<close>

definition story_number_from_id :: "string \<Rightarrow> int option" where
  "story_number_from_id sid =
    (let suffix = (case rsplit_last CHR ''-'' sid of Some d \<Rightarrow> d | None \<Rightarrow> sid) in
     if list_all (\<lambda>c. digit_val c \<noteq> None) suffix then map_option int (read_nat suffix) else None)"

text \<open>The context of a story whose context cannot be resolved.\<close>

definition stub_context :: "string \<Rightarrow> story_context" where
  "stub_context sid = \<lparr>sc_project_key = ''verify-system-run'',
     sc_story_number = (case story_number_from_id sid of Some n \<Rightarrow> n | None \<Rightarrow> 0), sc_story_id = sid,
     sc_story_type = StoryType_IMPLEMENTATION, sc_execution_route = Some StoryMode_EXECUTION,
     sc_mode = Mode_STANDARD, sc_implementation_contract = None, sc_title = [], sc_project_root = None,
     sc_participating_repos = [], sc_labels = [], sc_implementation_required = None, sc_closure_allowed = None,
     sc_story_done = None, sc_exploration_completed = None, sc_execution_pending = None\<rparr>"

fun kind_repr :: "qa_layer_kind \<Rightarrow> string" where
  "kind_repr Kind_STRUCTURAL = enum_repr ''QALayerKind'' ''STRUCTURAL'' ''structural''"
| "kind_repr Kind_LLM_EVALUATOR = enum_repr ''QALayerKind'' ''LLM_EVALUATOR'' ''llm_evaluator''"
| "kind_repr Kind_ADVERSARIAL = enum_repr ''QALayerKind'' ''ADVERSARIAL'' ''adversarial''"
| "kind_repr Kind_SONARQUBE_GATE = enum_repr ''QALayerKind'' ''SONARQUBE_GATE'' ''sonarqube_gate''"
| "kind_repr Kind_POLICY = enum_repr ''QALayerKind'' ''POLICY'' ''policy''"

definition crashed_result :: "string \<Rightarrow> qa_layer_kind \<Rightarrow> exn \<Rightarrow> layer_result" where
  "crashed_result layer_name kind e =
    (let msg = ''Layer '' @ kind_repr kind @ '' raised an unexpected exception: '' @ exn_type_name e @ '': '' @ exn_message e in
     \<lparr>lr_layer = layer_name, lr_passed = False,
      lr_findings = [new_finding layer_name ''layer_execution'' Severity_BLOCKING msg Trust_SYSTEM],
      lr_metadata = [(''layer_execution_error'', JStr msg), executed_check_ids [''layer_execution'']],
      lr_artifact_reference = None\<rparr>)"

definition execute_layer ::
  "'x qa_layer \<Rightarrow> verify_context_bundle \<Rightarrow> string \<Rightarrow> qa_layer_kind \<Rightarrow> layer2_review_input option
     \<Rightarrow> story_context option \<Rightarrow> ('x, layer_result) qa_action" where
  "execute_layer ly b sid kind ri sctx =
    try_io (bind_io (lift_sum (case sctx of Some c \<Rightarrow> Inr c | None \<Rightarrow> story_context_of (stub_context sid)))
       (\<lambda>c. ly_evaluate ly c (vb_story_dir b) ri))
     (\<lambda>r. case r of Inr lr \<Rightarrow> ret lr | Inl e \<Rightarrow> ret (crashed_result (ly_name ly) kind e))"

section \<open>The second layer\<close>

definition resolve_layer2_runner :: "'x verify_system \<Rightarrow> story_context option \<Rightarrow> string \<Rightarrow> 'x structured_evaluator option" where
  "resolve_layer2_runner vs sctx story_dir = (case vs_layer2_runner vs of
      Some r \<Rightarrow> Some r
    | None \<Rightarrow> (case (vs_client_runner vs, sctx) of
        (Some mk, Some c) \<Rightarrow> Some (mk c story_dir)
      | _ \<Rightarrow> None))"

record data_layer_inputs =
  di_review_input :: layer2_review_input
  di_story_ctx :: "story_context option"
  di_qa_cycle_round :: int
  di_previous_findings :: "finding list"
  di_arch_references :: string
  di_evidence_manifest :: "json option"

definition layer2_run_of :: "verify_context_bundle \<Rightarrow> string \<Rightarrow> data_layer_inputs \<Rightarrow> layer2_run" where
  "layer2_run_of b sid i = \<lparr>lq_story_id = sid, lq_run_id = vb_run_id b, lq_story_dir = vb_story_dir b,
     lq_attempt = vb_attempt b, lq_review_input = di_review_input i, lq_story_ctx = di_story_ctx i,
     lq_qa_cycle_round = di_qa_cycle_round i, lq_previous_findings = di_previous_findings i,
     lq_arch_references = di_arch_references i, lq_evidence_manifest = di_evidence_manifest i\<rparr>"

definition run_layer2 ::
  "'x verify_system \<Rightarrow> verify_context_bundle \<Rightarrow> string \<Rightarrow> data_layer_inputs \<Rightarrow> ('x, layer_result list) qa_action" where
  "run_layer2 vs b sid i =
    (let exec = (\<lambda>ly. execute_layer ly b sid Kind_LLM_EVALUATOR (Some (di_review_input i)) (di_story_ctx i)) in
     case resolve_layer2_runner vs (di_story_ctx i) (vb_story_dir b) of
       Some r \<Rightarrow> run_layer2_reviews (vs_layer2_ports vs) r (vs_completion_order vs) (layer2_run_of b sid i)
     | None \<Rightarrow>
        (if vs_client_runner vs = None
         then bind_io (exec (vs_layer_2a vs)) (\<lambda>r1. bind_io (exec (vs_layer_2b vs)) (\<lambda>r2.
              bind_io (exec (vs_layer_2c vs)) (\<lambda>r3. ret [r1, r2, r3])))
         else ret (blocking_layer2_results (''Layer 2 LLM client is wired but the run StoryContext is unresolvable; reviews fail-closed (FK-27 ''
           @ section_sign @ ''27.5).''))))"

section \<open>Recording the results of a layer\<close>

text \<open>The accumulators \<open>layer_results\<close> and \<open>artifact_refs_written\<close>.\<close>

type_synonym layer_log = "layer_result list \<times> string list"

definition record_result ::
  "'x verify_system \<Rightarrow> verify_context_bundle \<Rightarrow> string \<Rightarrow> int \<Rightarrow> metadata \<Rightarrow> qa_layer_kind
     \<Rightarrow> layer_log \<Rightarrow> layer_result \<Rightarrow> layer_artifact_spec \<Rightarrow> ('x, layer_log) qa_action" where
  "record_result vs b sid t cyc kind log lr spec =
    (if map_of (lr_metadata lr) ''artifact_materialized'' = Some (JBool True)
     then if lr_artifact_reference lr = None
          then raise (ValueError (''LayerResult '' @ py_repr (lr_layer lr)
            @ '' claims a materialized artifact without its canonical ArtifactReference''))
          else ret (fst log @ [lr], snd log @ [as_filename spec])
     else bind_io (write_layer_envelope vs spec lr b sid t cyc) (\<lambda>ref.
       let lr' = lr\<lparr>lr_artifact_reference := Some ref\<rparr> in
       seq_io (if kind = Kind_LLM_EVALUATOR \<and> map_of (lr_metadata lr') ''layer_execution_error'' = None
               then vs_review_completed vs sid (lr_layer lr') (as_filename spec) else ret ())
         (ret (fst log @ [lr'], snd log @ [as_filename spec]))))"

fun record_results ::
  "'x verify_system \<Rightarrow> verify_context_bundle \<Rightarrow> string \<Rightarrow> int \<Rightarrow> metadata \<Rightarrow> qa_layer_kind
     \<Rightarrow> layer_log \<Rightarrow> (layer_result \<times> layer_artifact_spec) list \<Rightarrow> ('x, layer_log) qa_action" where
  "record_results vs b sid t cyc kind log [] = ret log"
| "record_results vs b sid t cyc kind log ((lr, spec) # pairs) =
     bind_io (record_result vs b sid t cyc kind log lr spec) (\<lambda>log'.
       record_results vs b sid t cyc kind log' pairs)"

text \<open>\<open>_run_data_layer_kind\<close>: a layer other than the gate and the policy.\<close>

definition run_data_layer_kind ::
  "'x verify_system \<Rightarrow> qa_layer_kind \<Rightarrow> verify_context_bundle \<Rightarrow> string \<Rightarrow> int \<Rightarrow> metadata \<Rightarrow> layer_log
     \<Rightarrow> data_layer_inputs \<Rightarrow> ('x, layer_log) qa_action" where
  "run_data_layer_kind vs kind b sid t cyc log i =
    (if kind = Kind_LLM_EVALUATOR
     then bind_io (run_layer2 vs b sid i) (\<lambda>lrs.
       if length lrs \<noteq> length LAYER_2_SPECS
       then raise (ValueError ''zip() argument 2 is not as long as argument 1'')
       else record_results vs b sid t cyc kind log (zip lrs LAYER_2_SPECS))
     else if kind = Kind_STRUCTURAL
     then bind_io (execute_layer (vs_layer_1 vs) b sid kind (Some (di_review_input i)) (di_story_ctx i)) (\<lambda>lr.
       record_results vs b sid t cyc kind log [(lr, LAYER_1_ARTIFACT)])
     else if kind = Kind_ADVERSARIAL
     then bind_io (execute_layer (vs_layer_3 vs) b sid kind (Some (di_review_input i)) (di_story_ctx i)) (\<lambda>lr.
       record_results vs b sid t cyc kind log [(lr, LAYER_3_ARTIFACT)])
     else raise (ValueError (''No single-layer instance for kind '' @ kind_repr kind)))"

section \<open>The SonarQube gate in the run\<close>

definition py_repr_opt :: "json option \<Rightarrow> string" where
  "py_repr_opt j = (case j of None \<Rightarrow> ''None'' | Some v \<Rightarrow> json_repr v)"

definition sonarqube_gate_failed_decision :: "layer_result \<Rightarrow> layer_result list \<Rightarrow> verify_decision" where
  "sonarqube_gate_failed_decision gate lrs =
    (let fs = concat (map lr_findings (lrs @ [gate])) in
     \<lparr>vd_passed = False, vd_verdict = Verdict_FAIL, vd_layer_results = lrs @ [gate], vd_all_findings = fs,
      vd_blocking_findings = filter (\<lambda>f. fd_severity f = Severity_BLOCKING \<and> fd_trust_class f = Trust_SYSTEM) fs,
      vd_summary = ''FAIL: SonarQube-Green-Gate fail-closed ('' @ py_repr_opt (map_of (lr_metadata gate) ''failure_reason'')
        @ ''); routed directly to failed without policy aggregation, fed into the remediation loop (FK-33 ''
        @ section_sign @ ''33.6.3 / FK-27 '' @ section_sign @ ''27.6a.2).'',
      vd_max_major_findings = 0, vd_warnings = []\<rparr>)"

definition run_sonarqube_gate_kind ::
  "'x verify_system \<Rightarrow> verify_context_bundle \<Rightarrow> string \<Rightarrow> int \<Rightarrow> metadata \<Rightarrow> layer_log
     \<Rightarrow> ('x, layer_log \<times> verify_decision option) qa_action" where
  "run_sonarqube_gate_kind vs b sid t cyc log =
    bind_io (run_sonarqube_gate_stage (vs_regex_engine vs) (vs_sonar_gate_port vs sid (vb_story_dir b))) (\<lambda>stage.
     case stage of
       None \<Rightarrow> ret (log, None)
     | Some st \<Rightarrow> bind_io (write_layer_envelope vs SONARQUBE_GATE_ARTIFACT (sr_layer_result st) b sid t cyc) (\<lambda>ref.
         let gate = (sr_layer_result st)\<lparr>lr_artifact_reference := Some ref\<rparr>;
             refs = snd log @ [as_filename SONARQUBE_GATE_ARTIFACT] in
         if sr_short_circuit_failed st
         then ret ((fst log, refs), Some (sonarqube_gate_failed_decision gate (fst log)))
         else ret ((fst log @ [gate], refs), None)))"

section \<open>The context pre-step in the run\<close>

definition run_context_sufficiency_pre_step ::
  "'x verify_system \<Rightarrow> verify_context_bundle \<Rightarrow> string \<Rightarrow> int \<Rightarrow> metadata \<Rightarrow> layer2_review_input
     \<Rightarrow> story_context option \<Rightarrow> ('x, context_sufficiency_result) qa_action" where
  "run_context_sufficiency_pre_step vs b sid t cyc ri sctx =
    bind_io (vs_story_sources vs sid (vb_story_dir b)) (\<lambda>src.
    bind_io (lift_sum (context_sufficiency_of (vs_bundle_reader vs)
        (src\<lparr>ss_worktree_root := Option.bind sctx sc_project_root\<rparr>) ri (vb_evidence_manifest b))) (\<lambda>r.
    seq_io (store_envelope (vs_artifact_manager vs) (qa_envelope CONTEXT_SUFFICIENCY_ARTIFACT b sid t
        (if cr_sufficiency r = SUFFICIENT then Envelope_PASS else Envelope_WARN)
        (put_all (sufficiency_artifact r) cyc)))
      (ret r)))"

section \<open>The data layers in order\<close>

record layer_loop_result =
  ll_log :: layer_log
  ll_inputs :: data_layer_inputs
  ll_sufficiency :: "(string \<times> json) list option"

fun execute_data_layers ::
  "'x verify_system \<Rightarrow> verify_context_bundle \<Rightarrow> string \<Rightarrow> int \<Rightarrow> metadata \<Rightarrow> qa_layer_kind list \<Rightarrow> layer_loop_result
     \<Rightarrow> ('x, layer_loop_result \<times> verify_decision option) qa_action" where
  "execute_data_layers vs b sid t cyc [] ll = ret (ll, None)"
| "execute_data_layers vs b sid t cyc (kind # kinds) ll =
    (if kind = Kind_POLICY then execute_data_layers vs b sid t cyc kinds ll
     else if kind = Kind_SONARQUBE_GATE
     then bind_io (run_sonarqube_gate_kind vs b sid t cyc (ll_log ll)) (\<lambda>(log, failed).
       let ll' = ll\<lparr>ll_log := log\<rparr> in
       if failed \<noteq> None then ret (ll', failed) else execute_data_layers vs b sid t cyc kinds ll')
     else bind_io (if kind = Kind_LLM_EVALUATOR
         then bind_io (run_context_sufficiency_pre_step vs b sid t cyc (di_review_input (ll_inputs ll))
             (di_story_ctx (ll_inputs ll))) (\<lambda>r.
           ret (ll\<lparr>ll_log := (fst (ll_log ll), snd (ll_log ll) @ [as_filename CONTEXT_SUFFICIENCY_ARTIFACT]),
             ll_inputs := (ll_inputs ll)\<lparr>di_review_input := cr_enriched_input r,
               di_arch_references := cr_arch_references r, di_evidence_manifest := cr_evidence_manifest r\<rparr>,
             ll_sufficiency := Some (sufficiency_artifact r)\<rparr>))
         else ret ll) (\<lambda>ll'.
       bind_io (run_data_layer_kind vs kind b sid t cyc (ll_log ll') (ll_inputs ll')) (\<lambda>log.
         execute_data_layers vs b sid t cyc kinds (ll'\<lparr>ll_log := log\<rparr>))))"

section \<open>The outcome\<close>

record qa_outcome =
  qo_verdict :: policy_verdict
  qo_decision :: verify_decision
  qo_artifact_refs :: "string list"
  qo_attempt_nr :: int
  qo_qa_cycle_round :: int
  qo_feedback :: "remediation_feedback option"
  qo_cycle :: "qa_cycle_state option"
  qo_escalated :: bool
  qo_closure_blocked :: bool
  qo_adversarial_spawn :: "spawn_request list"

fun verify_target_type :: "artifact_class \<Rightarrow> string option" where
  "verify_target_type Class_WORKER = Some ''IMPLEMENTATION''"
| "verify_target_type Class_QA = Some ''IMPLEMENTATION''"
| "verify_target_type Class_ENTWURF = Some ''EXPLORATION''"
| "verify_target_type Class_HANDOVER = Some ''IMPLEMENTATION''"
| "verify_target_type Class_ADVERSARIAL_TEST_SANDBOX = Some ''IMPLEMENTATION''"
| "verify_target_type _ = None"

definition resolve_verify_target :: "artifact_reference \<Rightarrow> exn + string" where
  "resolve_verify_target r = (case verify_target_type (af_artifact_class r) of
      Some t \<Rightarrow> Inr t
    | None \<Rightarrow> Inl (VerifyTargetUnknownError (''Cannot resolve VerifyTargetType for artifact_class=''
        @ artifact_class_value (af_artifact_class r))))"

text \<open>\<open>story_contract_resolution.py\<close>\<close>

definition effective_story_type :: "story_context option \<Rightarrow> story_type" where
  "effective_story_type sctx = (case sctx of Some c \<Rightarrow> sc_story_type c | None \<Rightarrow> StoryType_IMPLEMENTATION)"

definition effective_implementation_contract :: "story_context option \<Rightarrow> implementation_contract option" where
  "effective_implementation_contract sctx = Option.bind sctx sc_implementation_contract"

definition is_fast_mode :: "story_context option \<Rightarrow> bool" where
  "is_fast_mode sctx = (case sctx of Some c \<Rightarrow> sc_mode c = Mode_FAST | None \<Rightarrow> False)"

section \<open>The evidence precondition\<close>

definition evidence_check_name :: string where
  "evidence_check_name = ''implementation_evidence.required_after_exploration''"

definition terminality_finding :: "verify_context_bundle \<Rightarrow> string \<Rightarrow> finding" where
  "terminality_finding b msg = (new_finding ''structural'' evidence_check_name Severity_BLOCKING msg Trust_SYSTEM)
     \<lparr>fd_file_path := Some (vb_story_dir b)\<rparr>"

definition terminality_result :: "verify_context_bundle \<Rightarrow> string \<Rightarrow> layer_result" where
  "terminality_result b msg = \<lparr>lr_layer = ''structural'', lr_passed = False, lr_findings = [terminality_finding b msg],
     lr_metadata = [(''terminality_precondition'', JStr ''implementation_evidence''), executed_check_ids [evidence_check_name]],
     lr_artifact_reference = None\<rparr>"

definition terminality_blocked_outcome ::
  "'x verify_system \<Rightarrow> verify_context_bundle \<Rightarrow> string \<Rightarrow> string \<Rightarrow> ('x, qa_outcome) qa_action" where
  "terminality_blocked_outcome vs b sid msg =
    bind_io now (\<lambda>t. bind_io (write_layer_envelope vs LAYER_1_ARTIFACT (terminality_result b msg) b sid t []) (\<lambda>ref.
    ret \<lparr>qo_verdict = Verdict_FAIL,
      qo_decision = \<lparr>vd_passed = False, vd_verdict = Verdict_FAIL,
        vd_layer_results = [(terminality_result b msg)\<lparr>lr_artifact_reference := Some ref\<rparr>],
        vd_all_findings = [terminality_finding b msg], vd_blocking_findings = [terminality_finding b msg],
        vd_summary = msg, vd_max_major_findings = 0, vd_warnings = []\<rparr>,
      qo_artifact_refs = [as_filename LAYER_1_ARTIFACT], qo_attempt_nr = vb_attempt b, qo_qa_cycle_round = 0,
      qo_feedback = None, qo_cycle = None, qo_escalated = True, qo_closure_blocked = False,
      qo_adversarial_spawn = []\<rparr>))"

definition no_context_reason :: string where
  "no_context_reason = gate_prefix @ ''StoryContext is missing for implementation QA; cannot prove FK-24 implementation terminality -> fail-closed (IMPLEMENTATION_REQUIRED_AFTER_EXPLORATION).''"

definition evaluate_terminality_precondition ::
  "'x verify_system \<Rightarrow> verify_context_bundle \<Rightarrow> string \<Rightarrow> story_context option \<Rightarrow> qa_context
     \<Rightarrow> ('x, qa_outcome option) qa_action" where
  "evaluate_terminality_precondition vs b sid sctx qa =
    (if qa \<notin> {IMPLEMENTATION_INITIAL, IMPLEMENTATION_REMEDIATION} then ret None
     else case sctx of
       None \<Rightarrow> bind_io (terminality_blocked_outcome vs b sid no_context_reason) (\<lambda>oc. ret (Some oc))
     | Some c \<Rightarrow> bind_io (vs_change_evidence vs (vb_story_dir b)) (\<lambda>ev.
         bind_io (gets (vs_delivery_files vs (vb_story_dir b))) (\<lambda>df.
         case evaluate_implementation_evidence_gate (vs_evidence_reader vs) (sc_story_type c) df ev of
           None \<Rightarrow> ret None
         | Some msg \<Rightarrow> bind_io (terminality_blocked_outcome vs b sid msg) (\<lambda>oc. ret (Some oc)))))"

section \<open>The fast floor\<close>

definition fast_finding :: "string \<Rightarrow> finding" where
  "fast_finding msg = new_finding ''structural'' ''fast_tests_green'' Severity_BLOCKING msg Trust_SYSTEM"

definition fast_tests_green_finding :: "'x verify_system \<Rightarrow> string \<Rightarrow> ('x, finding option) qa_action" where
  "fast_tests_green_finding vs story_dir = (case vs_fast_test_runner vs of
      None \<Rightarrow> ret (Some (fast_finding (''fast-mode tests-green floor has no live test runner wired (AG3-018); cannot confirm tests green -> fail-closed (FK-24 ''
        @ section_sign @ ''24.3.4, NO ERROR BYPASSING)'')))
    | Some run \<Rightarrow> bind_io (run story_dir) (\<lambda>(green, msg).
        ret (if green then None
          else Some (fast_finding (case msg of Some (c # cs) \<Rightarrow> c # cs | _ \<Rightarrow> ''fast-mode tests are not green'')))))"

text \<open>The check ids of the floor: those of the structural layer and the tests, when it names a list.\<close>

definition floor_metadata :: "metadata \<Rightarrow> bool \<Rightarrow> metadata" where
  "floor_metadata m green = put_all m
    [(''fast_mode'', JBool True), (''tests_green'', JBool green),
     (''executed_check_ids'', case map_of m ''executed_check_ids'' of
        Some (JList ids) \<Rightarrow> JList (ids @ [JStr ''fast_tests_green''])
      | Some v \<Rightarrow> v | None \<Rightarrow> JNull)]"

definition floor_result :: "string \<Rightarrow> layer_result \<Rightarrow> finding option \<Rightarrow> layer_result" where
  "floor_result layer_name structural tests = \<lparr>lr_layer = layer_name,
     lr_passed = (lr_passed structural \<and> tests = None), lr_findings = lr_findings structural @ opt_list tests,
     lr_metadata = floor_metadata (lr_metadata structural) (tests = None), lr_artifact_reference = None\<rparr>"

definition run_fast_floor ::
  "'x verify_system \<Rightarrow> string \<Rightarrow> verify_context_bundle \<Rightarrow> string \<Rightarrow> story_context option \<Rightarrow> ('x, qa_outcome) qa_action" where
  "run_fast_floor vs cid b sid sctx =
    bind_io now (\<lambda>t. bind_io (start_cycle (vs_qa_cycle_lifecycle vs) cid) (\<lambda>c.
    bind_io (execute_layer (vs_layer_1 vs) b sid Kind_STRUCTURAL None sctx) (\<lambda>structural.
    bind_io (fast_tests_green_finding vs (vb_story_dir b)) (\<lambda>tests.
    let lr = floor_result (ly_name (vs_layer_1 vs)) structural tests in
    bind_io (write_layer_envelope vs LAYER_1_ARTIFACT lr b sid t (qa_cycle_state_to_fields c)) (\<lambda>ref.
    ret \<lparr>qo_verdict = (if lr_passed lr then Verdict_PASS else Verdict_FAIL),
      qo_decision = \<lparr>vd_passed = lr_passed lr, vd_verdict = (if lr_passed lr then Verdict_PASS else Verdict_FAIL),
        vd_layer_results = [lr\<lparr>lr_artifact_reference := Some ref\<rparr>], vd_all_findings = lr_findings lr,
        vd_blocking_findings = filter (\<lambda>f. fd_severity f = Severity_BLOCKING) (lr_findings lr),
        vd_summary = (if lr_passed lr then ''fast-mode QA floor PASS (structural + tests green)''
          else ''fast-mode QA floor FAIL (structural or tests-green floor not met)''),
        vd_max_major_findings = 0, vd_warnings = []\<rparr>,
      qo_artifact_refs = [as_filename LAYER_1_ARTIFACT], qo_attempt_nr = vb_attempt b,
      qo_qa_cycle_round = qc_round c, qo_feedback = None, qo_cycle = Some c, qo_escalated = False,
      qo_closure_blocked = False, qo_adversarial_spawn = []\<rparr>)))))"

section \<open>Feedback, spawn and the stability gate\<close>

definition layer_escalation_requested :: "layer_result list \<Rightarrow> bool" where
  "layer_escalation_requested lrs = list_ex (\<lambda>lr. map_of (lr_metadata lr) ''escalated'' = Some (JBool True)) lrs"

definition adversarial_stage :: string where
  "adversarial_stage = as_stage LAYER_3_ARTIFACT"

definition mandatory_target_feedback_findings ::
  "'x verify_system \<Rightarrow> string \<Rightarrow> string \<Rightarrow> int \<Rightarrow> ('x, finding list) qa_action" where
  "mandatory_target_feedback_findings vs sid run_id qa_round =
    (if qa_round < 2 then ret []
     else try_io (manager_read_latest (vs_artifact_manager vs) sid (Some run_id) Class_QA adversarial_stage) (\<lambda>r. case r of
        Inl (ArtifactNotFoundError _) \<Rightarrow> ret []
      | Inl e \<Rightarrow> raise (MandatoryTargetReadError (''Failed to read the Layer-3 adversarial artifact for mandatory-target feedback (story=''
          @ py_repr sid @ '', run='' @ py_repr run_id @ ''): '' @ exn_type_name e @ '': '' @ exn_message e))
      | Inr env \<Rightarrow> (case ae_payload env of
          None \<Rightarrow> raise (MandatoryTargetReadError (''The Layer-3 adversarial artifact is present but its payload is unusable (story=''
            @ py_repr sid @ '', run='' @ py_repr run_id @ '')''))
        | Some payload \<Rightarrow> lift_sum (mandatory_target_findings_from_adversarial payload))))"

definition derive_adversarial_spawn ::
  "'x verify_system \<Rightarrow> verify_context_bundle \<Rightarrow> string \<Rightarrow> qa_layer_kind list \<Rightarrow> layer_result list
     \<Rightarrow> ('x, spawn_request list) qa_action" where
  "derive_adversarial_spawn vs b sid kinds lrs =
    (if Kind_ADVERSARIAL \<notin> set kinds then ret []
     else case vs_adversarial_spawner vs of
       None \<Rightarrow> ret []
     | Some m \<Rightarrow>
        (let names = result_names_for_layer (pe_registry (vs_policy_engine vs)) 2 in
         bind_io (lift_sum (extract_mandatory_targets (filter (\<lambda>lr. lr_layer lr \<in> set names) lrs) (vb_attempt b))) (\<lambda>ts.
         bind_io (request_spawn m b ts (Some sid)) (\<lambda>rq. ret (rq_agents_to_spawn rq)))))"

text \<open>The world of a run: the artifact files and the documents of the campaign.\<close>

record subflow_world = qa_world +
  sw_campaign :: is_world

definition in_campaign :: "'a is_action \<Rightarrow> ('z subflow_world_ext, 'a) qa_action" where
  "in_campaign m = (\<lambda>s. case m (sw_campaign (st_world s)) of
     (r, w) \<Rightarrow> (r, s\<lparr>st_world := (st_world s)\<lparr>sw_campaign := w\<rparr>\<rparr>))"

definition maybe_produce_is_stability_gate ::
  "'z subflow_world_ext verify_system \<Rightarrow> verify_context_bundle \<Rightarrow> string \<Rightarrow> story_context option \<Rightarrow> layer_log
     \<Rightarrow> int \<Rightarrow> metadata \<Rightarrow> ('z subflow_world_ext, layer_log) qa_action" where
  "maybe_produce_is_stability_gate vs b sid sctx log t cyc = (case sctx of
      None \<Rightarrow> ret log
    | Some c \<Rightarrow>
       (if sc_implementation_contract c \<noteq> Some Contract_INTEGRATION_STABILIZATION then ret log
        else bind_io (vs_change_evidence vs (vb_story_dir b)) (\<lambda>ev.
          bind_io (in_campaign (produce_stability_gate_layer_result (vs_digest vs) (vb_run_id b)
              (if ce_available ev then ce_changed_files ev else []) (vs_emitting vs) sid (sc_project_key c))) (\<lambda>lr.
          bind_io (write_layer_envelope vs STABILITY_GATE_ARTIFACT lr b sid t cyc) (\<lambda>ref.
          ret (fst log @ [lr\<lparr>lr_artifact_reference := Some ref\<rparr>], snd log @ [as_filename STABILITY_GATE_ARTIFACT]))))))"

section \<open>The subflow\<close>

text \<open>Steps 5 and 6: the decision, and its artifact unless the SonarQube gate short-circuited.\<close>

definition reach_decision ::
  "'z subflow_world_ext verify_system \<Rightarrow> verify_context_bundle \<Rightarrow> string \<Rightarrow> story_context option
     \<Rightarrow> qa_layer_kind list \<Rightarrow> layer_log \<Rightarrow> (string \<times> json) list option \<Rightarrow> verify_decision option \<Rightarrow> int \<Rightarrow> metadata
     \<Rightarrow> ('z subflow_world_ext, layer_log \<times> verify_decision) qa_action" where
  "reach_decision vs b sid sctx kinds log sufficiency failed t cyc = (case failed of
      Some d \<Rightarrow> ret (log, d)
    | None \<Rightarrow> bind_io (maybe_produce_is_stability_gate vs b sid sctx log t cyc) (\<lambda>log'.
        bind_io (lift_sum (case traversed_layers kinds of
            Inl e \<Rightarrow> Inl e
          | Inr layers \<Rightarrow> decide (vs_policy_engine vs) (fst log') (effective_story_type sctx) layers (vs_are_enabled vs)
              sufficiency (effective_implementation_contract sctx))) (\<lambda>d.
        bind_io (write_policy_artifact vs d b sid t cyc) (\<lambda>f.
        ret ((fst log', snd log' @ [f]), d)))))"

text \<open>Steps 7 to 9: resolution, feedback, escalation, spawn and the outcome.\<close>

definition conclude ::
  "'z subflow_world_ext verify_system \<Rightarrow> verify_context_bundle \<Rightarrow> string \<Rightarrow> qa_context \<Rightarrow> finding list
     \<Rightarrow> qa_layer_kind list \<Rightarrow> qa_cycle_state \<Rightarrow> layer_log \<Rightarrow> verify_decision
     \<Rightarrow> ('z subflow_world_ext, qa_outcome) qa_action" where
  "conclude vs b sid qa previous kinds c log d =
    bind_io (lift_sum (merge_llm_finding_resolutions
        (assess_finding_resolution qa previous (vd_all_findings d)) (vd_layer_results d))) (\<lambda>resolution.
    bind_io (mandatory_target_feedback_findings vs sid (vb_run_id b) (qc_round c)) (\<lambda>extra.
    let escalated = (layer_escalation_requested (vd_layer_results d)
          \<or> evaluate_escalation (vs_remediation_loop_controller vs) c (vd_verdict d)) in
    bind_io (derive_adversarial_spawn vs b sid kinds (fst log)) (\<lambda>spawn.
    ret \<lparr>qo_verdict = (if escalated then Verdict_FAIL else vd_verdict d), qo_decision = d,
      qo_artifact_refs = snd log, qo_attempt_nr = vb_attempt b, qo_qa_cycle_round = qc_round c,
      qo_feedback = build_feedback d sid (vb_attempt b) resolution extra, qo_cycle = Some c,
      qo_escalated = escalated, qo_closure_blocked = resolution_map_has_open_findings resolution,
      qo_adversarial_spawn = spawn\<rparr>)))"

definition run_layers_and_decide ::
  "'z subflow_world_ext verify_system \<Rightarrow> string \<Rightarrow> verify_context_bundle \<Rightarrow> string \<Rightarrow> qa_context
     \<Rightarrow> story_context option \<Rightarrow> layer2_review_input \<Rightarrow> finding list \<Rightarrow> ('z subflow_world_ext, qa_outcome) qa_action" where
  "run_layers_and_decide vs cid b sid qa sctx ri previous =
    (let kinds = select_layers qa in
     bind_io now (\<lambda>t.
     bind_io (resolve_qa_cycle_state (vs_qa_cycle_lifecycle vs) cid (vb_phase_envelope b) sid qa) (\<lambda>c.
     let cyc = qa_cycle_state_to_fields c in
     bind_io (execute_data_layers vs b sid t cyc kinds
       \<lparr>ll_log = ([], []), ll_inputs = \<lparr>di_review_input = ri, di_story_ctx = sctx, di_qa_cycle_round = qc_round c,
          di_previous_findings = previous, di_arch_references = [], di_evidence_manifest = None\<rparr>,
        ll_sufficiency = None\<rparr>) (\<lambda>(ll, failed).
     bind_io (reach_decision vs b sid sctx kinds (ll_log ll) (ll_sufficiency ll) failed t cyc) (\<lambda>(log, d).
     conclude vs b sid qa previous kinds c log d)))))"

definition run_qa_subflow ::
  "'z subflow_world_ext verify_system \<Rightarrow> string \<Rightarrow> verify_context_bundle \<Rightarrow> string \<Rightarrow> qa_context
     \<Rightarrow> artifact_reference \<Rightarrow> layer2_review_input option \<Rightarrow> finding list \<Rightarrow> ('z subflow_world_ext, qa_outcome) qa_action" where
  "run_qa_subflow vs cid b sid qa target ri previous =
    bind_io (lift_sum (resolve_verify_target target)) (\<lambda>_.
    bind_io (vs_load_story_context vs (vb_story_dir b)) (\<lambda>sctx.
    bind_io (evaluate_terminality_precondition vs b sid sctx qa) (\<lambda>blocked.
    case blocked of
      Some oc \<Rightarrow> ret oc
    | None \<Rightarrow>
       (if is_fast_mode sctx then run_fast_floor vs cid b sid sctx
        else run_layers_and_decide vs cid b sid qa sctx (case ri of Some i \<Rightarrow> i | None \<Rightarrow> empty_review_input) previous))))"

section \<open>What each step returns\<close>

text \<open>A layer result after its artifact was settled: the result itself with a reference.\<close>

definition settled :: "layer_result \<Rightarrow> layer_result \<Rightarrow> bool" where
  "settled lr lr' \<longleftrightarrow> (\<exists>r. lr' = lr\<lparr>lr_artifact_reference := Some r\<rparr>)"

lemma settled_sel:
  assumes "settled lr lr'"
  shows "lr_layer lr' = lr_layer lr" "lr_passed lr' = lr_passed lr" "lr_findings lr' = lr_findings lr"
    "lr_metadata lr' = lr_metadata lr" "lr_artifact_reference lr' \<noteq> None"
  using assms by (auto simp: settled_def)

definition logged :: "layer_log \<Rightarrow> layer_result list \<Rightarrow> string list \<Rightarrow> layer_log \<Rightarrow> bool" where
  "logged log lrs refs log' \<longleftrightarrow> (\<exists>new. list_all2 settled lrs new \<and> log' = (fst log @ new, snd log @ refs))"

lemma returns_cong: "returns F m \<Longrightarrow> (\<And>x. F x = G x) \<Longrightarrow> returns G m"
  by (simp add: returns_def)

lemma settled_keep: "lr_artifact_reference lr \<noteq> None \<Longrightarrow> settled lr lr"
  by (cases lr) (auto simp: settled_def)

lemma settled_set: "settled lr (lr\<lparr>lr_artifact_reference := Some r\<rparr>)"
  by (auto simp: settled_def)

lemma record_result_returns:
  "returns (logged log [lr] [as_filename spec]) (record_result vs b sid t cyc kind log lr spec)"
  unfolding record_result_def
  by (auto simp: Let_def logged_def settled_keep settled_set intro!: returns_bind_any returns_seq)

lemma logged_trans:
  "logged log xs fs log' \<Longrightarrow> logged log' ys gs log'' \<Longrightarrow> logged log (xs @ ys) (fs @ gs) log''"
  by (fastforce simp: logged_def intro: list_all2_appendI)

lemma logged_refl [simp]: "logged log [] [] log' \<longleftrightarrow> log' = log"
  by (auto simp: logged_def)

lemma record_results_returns:
  "returns (logged log (map fst pairs) (map (\<lambda>p. as_filename (snd p)) pairs)) (record_results vs b sid t cyc kind log pairs)"
proof (induction pairs arbitrary: log)
  case (Cons p pairs)
  show ?case
  proof (cases p)
    case (Pair lr spec)
    have "returns (logged log [lr] [as_filename spec]) (record_result vs b sid t cyc kind log lr spec)"
      by (rule record_result_returns)
    then have "returns (logged log ([lr] @ map fst pairs) ([as_filename spec] @ map (\<lambda>p. as_filename (snd p)) pairs))
        (bind_io (record_result vs b sid t cyc kind log lr spec)
          (\<lambda>log'. record_results vs b sid t cyc kind log' pairs))"
      by (rule returns_bind) (rule returns_mono [OF Cons.IH], erule (1) logged_trans)
    then show ?thesis using Pair by simp
  qed
qed simp

text \<open>Where a result of a layer comes from: the layer returned it, or it raised.\<close>

definition result_of_layer :: "'x qa_layer \<Rightarrow> qa_layer_kind \<Rightarrow> layer_result \<Rightarrow> bool" where
  "result_of_layer ly kind lr \<longleftrightarrow> (\<exists>c dir ri s t. ly_evaluate ly c dir ri s = (Inr lr, t)) \<or> (\<exists>e. lr = crashed_result (ly_name ly) kind e)"

lemma execute_layer_returns: "returns (result_of_layer ly kind) (execute_layer ly b sid kind ri sctx)"
  unfolding returns_def
proof (intro allI impI)
  fix s lr t assume run: "execute_layer ly b sid kind ri sctx s = (Inr lr, t)"
  show "result_of_layer ly kind lr"
  proof (cases "bind_io (lift_sum (case sctx of Some c \<Rightarrow> Inr c | None \<Rightarrow> story_context_of (stub_context sid)))
       (\<lambda>c. ly_evaluate ly c (vb_story_dir b) ri) s")
    case (Pair r u)
    show ?thesis
    proof (cases r)
      case (Inl e)
      then show ?thesis using run Pair by (auto simp: execute_layer_def try_io_def io_run result_of_layer_def)
    next
      case (Inr x)
      then have "x = lr" using run Pair by (simp add: execute_layer_def try_io_def io_run)
      with Pair Inr have "\<exists>c u'. ly_evaluate ly c (vb_story_dir b) ri u' = (Inr lr, u)"
        by (auto elim!: bind_io_cases)
      then show ?thesis unfolding result_of_layer_def by blast
    qed
  qed
qed

lemma execute_layer_never_raises: "never_raises (execute_layer ly b sid kind ri sctx)"
  by (auto simp: never_raises_def execute_layer_def try_io_def io_run split: prod.splits sum.splits)

end
