(* ===== verification/Adversarial_Challenger.thy ===== *)
theory Adversarial_Challenger
  imports Adversarial_Runtime Qa_Subflow
begin

text \<open>
  The adversarial layer of the quality subflow (\<open>adversarial_orchestrator/challenger.py\<close>): the mandatory
  targets are read from the spawn envelope of the round before, each is proved against the finding
  it was made of, as the artifact of the reviewer carries it, and the runtime then judges what the
  agent left. JSON values of an artifact are compared as values; the text of a \<open>TypeError\<close> of the
  constructor of a target is the model's own.
\<close>

section \<open>The targets of the spawn envelope\<close>

text \<open>A target as the envelope gives it: only its identity is typed.\<close>

record raw_target =
  rt_finding_id :: string
  rt_source_result_name :: string
  rt_source_check_id :: string
  rt_source_artifact_record_key :: string
  rt_source_finding_index :: nat
  rt_source :: json
  rt_normative_ref :: json
  rt_addressed_part :: json
  rt_open_part :: json
  rt_mandatory :: json
  rt_test_anchor :: json

definition target_fields :: "string list" where
  "target_fields = [''finding_id'', ''source_result_name'', ''source_check_id'', ''source_artifact_record_key'',
     ''source_finding_index'', ''source'', ''normative_ref'', ''addressed_part'', ''open_part'', ''mandatory'', ''test_anchor'']"

text \<open>\<open>d.get(k)\<close>\<close>

definition json_get :: "(string \<times> json) list \<Rightarrow> string \<Rightarrow> json" where
  "json_get m k = (case map_of m k of Some v \<Rightarrow> v | None \<Rightarrow> JNull)"

definition present_text :: "json \<Rightarrow> string option" where
  "present_text j = (case j of JStr s \<Rightarrow> if blank s then None else Some s | _ \<Rightarrow> None)"

definition index_of_json :: "json \<Rightarrow> nat option" where
  "index_of_json j = (case j of JInt i \<Rightarrow> non_negative i | _ \<Rightarrow> None)"

definition invalid_mapping :: "string \<Rightarrow> exn" where
  "invalid_mapping why = AdversarialResultReadError (''adversarial sandbox envelope target mapping is invalid: '' @ why)"

text \<open>\<open>AdversarialTarget(**raw)\<close>\<close>

definition raw_target_of_json :: "(string \<times> json) list \<Rightarrow> exn + raw_target" where
  "raw_target_of_json m =
    (if set (map fst m) \<noteq> set target_fields
     then Inl (invalid_mapping ''unexpected or missing argument'')
     else case (present_text (json_get m ''finding_id''), present_text (json_get m ''source_result_name''),
         present_text (json_get m ''source_check_id''), present_text (json_get m ''source_artifact_record_key'')) of
       (Some fid, Some name, Some check, Some key) \<Rightarrow> (case index_of_json (json_get m ''source_finding_index'') of
           None \<Rightarrow> Inl (invalid_mapping ''adversarial target source finding index must be non-negative'')
         | Some i \<Rightarrow> Inr \<lparr>rt_finding_id = fid, rt_source_result_name = name, rt_source_check_id = check,
             rt_source_artifact_record_key = key, rt_source_finding_index = i, rt_source = json_get m ''source'',
             rt_normative_ref = json_get m ''normative_ref'', rt_addressed_part = json_get m ''addressed_part'',
             rt_open_part = json_get m ''open_part'', rt_mandatory = json_get m ''mandatory'',
             rt_test_anchor = json_get m ''test_anchor''\<rparr>)
     | _ \<Rightarrow> Inl (invalid_mapping ''adversarial target source evidence must be complete''))"

definition json_object :: "json \<Rightarrow> (string \<times> json) list option" where
  "json_object j = (case j of JObj m \<Rightarrow> Some m | _ \<Rightarrow> None)"

definition targets_from_spawn_payload :: "metadata \<Rightarrow> exn + raw_target list" where
  "targets_from_spawn_payload payload = (case json_get payload ''targets'' of
      JList xs \<Rightarrow> (case those (map json_object xs) of
          None \<Rightarrow> Inl (AdversarialResultReadError ''adversarial sandbox envelope contains a non-object target'')
        | Some ms \<Rightarrow> all_or_error (map raw_target_of_json ms))
    | _ \<Rightarrow> Inl (AdversarialResultReadError ''adversarial sandbox envelope targets must be a list''))"

definition payload_of :: "artifact_envelope \<Rightarrow> metadata" where
  "payload_of e = (case ae_payload e of Some m \<Rightarrow> m | None \<Rightarrow> [])"

definition read_preceding_spawn_envelope ::
  "'x qa_state artifact_manager \<Rightarrow> string \<Rightarrow> string \<Rightarrow> int \<Rightarrow> ('x, artifact_envelope \<times> string) qa_action" where
  "read_preceding_spawn_envelope m story_id run_id expected =
    try_io (manager_read_latest m story_id (Some run_id) Class_ADVERSARIAL_TEST_SANDBOX ''qa-adversarial'') (\<lambda>r. case r of
      Inl (ArtifactNotFoundError _) \<Rightarrow>
        raise (AdversarialResultReadError ''adversarial remediation has no preceding typed spawn envelope'')
    | Inl e \<Rightarrow> raise e
    | Inr env \<Rightarrow>
        if ae_attempt env \<noteq> expected
        then raise (AdversarialResultReadError
          (''adversarial spawn envelope attempt does not precede the current remediation: expected=''
            @ show_int expected @ '', actual='' @ show_int (ae_attempt env)))
        else if json_get (payload_of env) ''sandbox_path'' \<noteq> JStr (sandbox_rel_path story_id expected)
        then raise (AdversarialResultReadError ''adversarial spawn envelope carries a non-canonical sandbox path'')
        else ret (env, sandbox_rel_path story_id expected))"

section \<open>Proving a target against its finding\<close>

definition invalid_source_artifact :: exn where
  "invalid_source_artifact =
     AdversarialResultReadError ''adversarial target does not reference its exact canonical Layer-2 artifact''"

definition invalid_source_finding :: exn where
  "invalid_source_finding =
     AdversarialResultReadError ''adversarial target source finding is not an exact executed Layer-2 member''"

definition require :: "bool \<Rightarrow> exn \<Rightarrow> exn + unit" where
  "require b e = (if b then Inr () else Inl e)"

text \<open>The maps \<open>_LAYER_TO_STAGE\<close> and \<open>_LAYER_TO_PRODUCER\<close>.\<close>

definition LAYER_ARTIFACT_SCOPES :: "(string \<times> string \<times> string) list" where
  "LAYER_ARTIFACT_SCOPES =
    [(''structural'', ''qa-layer-structural'', STRUCTURAL_PRODUCER),
     (''qa_review'', ''qa-layer-qa-review'', QA_REVIEW_PRODUCER),
     (''semantic_review'', ''qa-layer-semantic-review'', SEMANTIC_REVIEW_PRODUCER),
     (''doc_fidelity'', ''qa-layer-doc-fidelity'', DOC_FIDELITY_PRODUCER),
     (''adversarial'', ''qa-layer-adversarial'', ADVERSARIAL_PRODUCER)]"

definition expected_source_artifact_scope :: "raw_target \<Rightarrow> string \<Rightarrow> string \<Rightarrow> int \<Rightarrow> exn + string \<times> string" where
  "expected_source_artifact_scope t story_id run_id expected =
    (case new_stage_registry default_registry_args of
       Inl e \<Rightarrow> Inl e
     | Inr registry \<Rightarrow>
        (if rt_source_result_name t \<notin> set (result_names_for_layer registry 2) then Inl invalid_source_artifact
         else case map_of LAYER_ARTIFACT_SCOPES (rt_source_result_name t) of
           None \<Rightarrow> Inl invalid_source_artifact
         | Some (stage, artifact_producer) \<Rightarrow> (case producer_for_result_name registry (rt_source_result_name t) of
             Inl _ \<Rightarrow> Inl invalid_source_artifact
           | Inr registry_producer \<Rightarrow>
              (if artifact_producer \<noteq> registry_producer then Inl invalid_source_artifact
               else if rt_source_artifact_record_key t
                   \<noteq> record_key story_id run_id stage expected Class_QA registry_producer
               then Inl invalid_source_artifact
               else Inr (stage, registry_producer)))))"

definition validate_source_envelope_scope ::
  "artifact_envelope \<Rightarrow> string \<Rightarrow> string \<Rightarrow> int \<Rightarrow> string \<Rightarrow> string \<Rightarrow> exn + unit" where
  "validate_source_envelope_scope e story_id run_id expected stage producer_name = require
     (ae_story_id e = story_id \<and> ae_run_id e = run_id \<and> ae_attempt e = expected \<and> ae_artifact_class e = Class_QA
       \<and> ae_stage e = stage \<and> pr_name (ae_producer e) = producer_name) invalid_source_artifact"

definition validate_source_result_payload :: "raw_target \<Rightarrow> metadata \<Rightarrow> exn + json list \<times> metadata" where
  "validate_source_result_payload t payload =
    (let bad = Inl (AdversarialResultReadError ''adversarial target source does not identify an exact Layer-2 result'') in
     case (json_get payload ''findings'', json_get payload ''metadata'') of
       (JList fs, JObj md) \<Rightarrow>
         if json_get payload ''layer'' \<noteq> JStr (rt_source_result_name t) \<or> length fs \<le> rt_source_finding_index t then bad
         else Inr (fs, md)
     | _ \<Rightarrow> bad)"

definition validate_source_finding_identity :: "raw_target \<Rightarrow> metadata \<Rightarrow> exn + unit" where
  "validate_source_finding_identity t f = require
     (json_get f ''layer'' = JStr (rt_source_result_name t) \<and> json_get f ''check'' = JStr (rt_source_check_id t)
       \<and> json_get f ''message'' = rt_normative_ref t
       \<and> rt_finding_id t = rt_source_result_name t @ ''.'' @ rt_source_check_id t) invalid_source_finding"

text \<open>Membership in a set raises for a value that cannot be hashed.\<close>

definition concern_severities :: "string list" where
  "concern_severities = map severity_value [Severity_BLOCKING, Severity_MAJOR, Severity_MINOR]"

definition hashable :: "json \<Rightarrow> bool" where
  "hashable j = (case j of JList _ \<Rightarrow> False | JObj _ \<Rightarrow> False | _ \<Rightarrow> True)"

definition validate_target_derivation :: "raw_target \<Rightarrow> metadata \<Rightarrow> int \<Rightarrow> exn + unit" where
  "validate_target_derivation t f expected =
    (let open_part = (if truthy (json_get f ''suggestion'') then json_get f ''suggestion'' else json_get f ''message'') in
     if json_get f ''finding_type'' \<noteq> JStr ASSERTION_WEAKNESS_FINDING_TYPE then Inl invalid_source_finding
     else if \<not> hashable (json_get f ''severity'') then Inl (TypeError ''unhashable type'')
     else require
       (json_get f ''severity'' \<in> JStr ` set concern_severities \<and> json_get f ''addressed_part'' = rt_addressed_part t
         \<and> open_part = rt_open_part t \<and> rt_source t = JStr (rt_source_result_name t @ '' round '' @ show_int expected)
         \<and> rt_mandatory t = JBool True
         \<and> rt_test_anchor t = JStr (''test_'' @ rt_source_check_id t @ ''_'' @ show_nat (rt_source_finding_index t) @ ''.py''))
       invalid_source_finding)"

definition validate_source_finding :: "raw_target \<Rightarrow> json \<Rightarrow> metadata \<Rightarrow> int \<Rightarrow> exn + unit" where
  "validate_source_finding t f md expected = (case f of
      JObj m \<Rightarrow> and_then (validate_source_finding_identity t m)
        (and_then (validate_target_derivation t m expected)
        (require (case json_get md ''executed_check_ids'' of
            JList ids \<Rightarrow> JStr (rt_source_check_id t) \<in> set ids | _ \<Rightarrow> False) invalid_source_finding))
    | _ \<Rightarrow> Inl invalid_source_finding)"

definition validate_target_source ::
  "'x qa_state artifact_manager \<Rightarrow> string \<Rightarrow> string \<Rightarrow> int \<Rightarrow> raw_target \<Rightarrow> ('x, unit) qa_action" where
  "validate_target_source m story_id run_id expected t =
    bind_io (lift_sum (expected_source_artifact_scope t story_id run_id expected)) (\<lambda>(stage, producer_name).
    bind_io (try_io (manager_read m \<lparr>af_artifact_class = Class_QA, af_story_id = story_id, af_run_id = run_id,
        af_record_key = rt_source_artifact_record_key t\<rparr>) (\<lambda>r. case r of
          Inl (ArtifactNotFoundError _) \<Rightarrow>
            raise (AdversarialResultReadError ''adversarial target references an absent canonical Layer-2 artifact'')
        | Inl e \<Rightarrow> raise e
        | Inr env \<Rightarrow> ret env)) (\<lambda>env.
    seq_io (lift_sum (validate_source_envelope_scope env story_id run_id expected stage producer_name))
    (bind_io (lift_sum (validate_source_result_payload t (payload_of env))) (\<lambda>(fs, md).
     lift_sum (validate_source_finding t (fs ! rt_source_finding_index t) md expected)))))"

fun validate_target_sources ::
  "'x qa_state artifact_manager \<Rightarrow> string \<Rightarrow> string \<Rightarrow> int \<Rightarrow> raw_target list \<Rightarrow> ('x, unit) qa_action" where
  "validate_target_sources m story_id run_id expected [] = ret ()"
| "validate_target_sources m story_id run_id expected (t # ts) =
     seq_io (validate_target_source m story_id run_id expected t) (validate_target_sources m story_id run_id expected ts)"

section \<open>The layer\<close>

text \<open>
  The challenger with its ports: \<open>ch_prompt_audit\<close> is the audit of the prompt, \<open>ch_run_scope\<close> the
  correlation of the run, both of the context port.
\<close>

record 'x challenger =
  ch_artifact_manager :: "'x qa_state artifact_manager option"
  ch_sparring_client :: "(string \<Rightarrow> string \<Rightarrow> ('x, string) qa_action) option"
  ch_telemetry_emitter :: "'x event_emitter option"
  ch_sparring_resolver :: "(string \<Rightarrow> ('x, string) qa_action) option"
  ch_context_port :: "((story_context \<Rightarrow> string \<Rightarrow> ('x, metadata) qa_action) \<times> (string \<Rightarrow> ('x, (string \<times> int) option) qa_action)) option"
  ch_files :: "'x qa_state \<Rightarrow> project_tree"
  ch_set_files :: "project_tree \<Rightarrow> 'x qa_state \<Rightarrow> 'x qa_state"
  ch_python :: python_parser
  ch_coercions :: coercions

definition materialize_prompt_audit :: "'x challenger \<Rightarrow> story_context \<Rightarrow> string \<Rightarrow> ('x, metadata) qa_action" where
  "materialize_prompt_audit ch c story_dir = (case ch_context_port ch of
      None \<Rightarrow> ret [(''status'', JStr ''skipped''), (''reason'', JStr ''story_context_port_unavailable'')]
    | Some (audit, _) \<Rightarrow> audit c story_dir)"

definition resolve_run_scope :: "'x challenger \<Rightarrow> string \<Rightarrow> ('x, string \<times> int) qa_action" where
  "resolve_run_scope ch story_dir = (case ch_context_port ch of
      None \<Rightarrow> ret (''adversarial-run'', 1)
    | Some (_, scope) \<Rightarrow> bind_io (scope story_dir) (\<lambda>r. ret (case r of Some x \<Rightarrow> x | None \<Rightarrow> (''adversarial-run'', 1))))"

definition tests_root_of :: "story_context \<Rightarrow> string" where
  "tests_root_of c = (case sc_project_root c of
      Some root \<Rightarrow> path_join root ''tests'' | None \<Rightarrow> ''/__agentkit_no_tests_root__'')"

definition load_spawn_evidence ::
  "'x qa_state artifact_manager \<Rightarrow> string \<Rightarrow> string \<Rightarrow> string \<Rightarrow> int \<Rightarrow> ('x, raw_target list \<times> string) qa_action" where
  "load_spawn_evidence m story_dir story_id run_id attempt =
    (if attempt = 1 then ret ([], path_join story_dir (sandbox_rel_path story_id attempt))
     else bind_io (read_preceding_spawn_envelope m story_id run_id (attempt - 1)) (\<lambda>(env, sandbox).
       bind_io (lift_sum (targets_from_spawn_payload (payload_of env))) (\<lambda>ts.
       seq_io (validate_target_sources m story_id run_id (attempt - 1) ts)
         (ret (ts, path_join story_dir sandbox)))))"

definition source_of_raw :: "raw_target \<Rightarrow> adversarial_target_source" where
  "source_of_raw t = \<lparr>ts_target_id = rt_finding_id t, ts_source_result_name = rt_source_result_name t,
     ts_source_check_id = rt_source_check_id t, ts_source_artifact_record_key = rt_source_artifact_record_key t,
     ts_source_finding_index = rt_source_finding_index t\<rparr>"

definition fail_closed :: "string \<Rightarrow> metadata \<Rightarrow> layer_result" where
  "fail_closed why audit = \<lparr>lr_layer = ''adversarial'', lr_passed = False,
     lr_findings = [new_finding ''adversarial'' ''adversarial_runtime'' Severity_BLOCKING why Trust_SYSTEM],
     lr_metadata = [(''prompt_audit'', JObj audit), executed_check_ids [''adversarial_runtime'']],
     lr_artifact_reference = None\<rparr>"

definition not_wired :: string where
  "not_wired = ''adversarial runtime is not wired (no sparring transport / telemetry emitter / artifact manager) ''
     @ em_dash @ '' FAIL-CLOSED, no passthrough PASS (FK-48 '' @ section_sign @ ''48.1).''"

definition materialized_result :: "metadata \<Rightarrow> runtime_result \<Rightarrow> layer_result" where
  "materialized_result audit rr = (rr_layer_result rr)
     \<lparr>lr_metadata := put_all (lr_metadata (rr_layer_result rr))
        [(''prompt_audit'', JObj audit), (''artifact_materialized'', JBool True),
         (''resolution_feedback'', JObj (put_all [] (map (\<lambda>((layer, check), st).
            (layer @ '':'' @ check, JStr (resolution_value st))) (rr_resolution_feedback rr))))],
      lr_artifact_reference := Some (rr_artifact_reference rr)\<rparr>"

definition challenger_evaluate ::
  "'x challenger \<Rightarrow> story_context \<Rightarrow> string \<Rightarrow> layer2_review_input option \<Rightarrow> ('x, layer_result) qa_action" where
  "challenger_evaluate ch c story_dir ri =
    bind_io (materialize_prompt_audit ch c story_dir) (\<lambda>audit.
    case (ch_sparring_client ch, ch_telemetry_emitter ch, ch_artifact_manager ch) of
      (Some client, Some emitter, Some m) \<Rightarrow>
        bind_io (resolve_run_scope ch story_dir) (\<lambda>(run_id, attempt).
        try_io (bind_io (load_spawn_evidence m story_dir (sc_story_id c) run_id attempt) (\<lambda>(ts, sandbox).
            run_adversarial_runtime
              \<lparr>ar_artifact_manager = m, ar_emitter = emitter, ar_complete = client, ar_resolver = ch_sparring_resolver ch,
               ar_files = ch_files ch, ar_set_files = ch_set_files ch, ar_python = ch_python ch, ar_coercions = ch_coercions ch\<rparr>
              \<lparr>ro_sandbox_dir = sandbox, ro_tests_root = tests_root_of c, ro_story_id = sc_story_id c, ro_run_id = run_id,
               ro_attempt = attempt, ro_expected = map source_of_raw ts\<rparr>))
          (\<lambda>r. case r of
             Inl (AdversarialResultReadError why) \<Rightarrow> ret (fail_closed why audit)
           | Inl e \<Rightarrow> raise e
           | Inr rr \<Rightarrow> ret (materialized_result audit rr)))
    | _ \<Rightarrow> ret (fail_closed not_wired audit))"

definition challenger_layer :: "'x challenger \<Rightarrow> 'x qa_layer" where
  "challenger_layer ch = \<lparr>ly_name = ''adversarial'', ly_evaluate = challenger_evaluate ch\<rparr>"

end
