(* ===== verification/Adversarial_Props.thy ===== *)
theory Adversarial_Props
  imports Adversarial_Challenger
begin

text \<open>
  What the adversarial layer guarantees: when its verdict is a PASS, that its telemetry counts what
  happened, which files a promotion can touch, and which mandatory targets it takes from a spawn
  envelope.
\<close>

section \<open>The artifact\<close>

lemma build_result_artifactE:
  assumes "build_result_artifact sx rid sp pm tc expected = Inr a"
  obtains "distinct (map mr_target_id (aa_mandatory_target_results a))"
    "set (map mr_target_id (aa_mandatory_target_results a)) = set expected"
    "aa_tests_failed a = length (filter (\<lambda>t. \<not> test_passed t) (aa_tests a))"
    "aa_tests a = sx_tests sx" "aa_tests_executed a = sx_tests_executed sx" "aa_story_id a = sx_story_id sx"
    "aa_sparring a = sp" "aa_telemetry a = tc" "aa_tests_created a = length (sx_tests sx)" "aa_promotion a = pm"
    "aa_mandatory_target_results a = sx_mandatory_target_results sx"
  using assms by (auto simp: build_result_artifact_def Let_def split: if_splits)

text \<open>What a fulfilled target is: a passing test of its own and no failing one, or a reason.\<close>

definition covered_target :: "adversarial_artifact \<Rightarrow> mandatory_target_result \<Rightarrow> bool" where
  "covered_target a r \<longleftrightarrow>
     (py_upper (mr_status r) = ''TESTED'' \<and> (\<exists>t \<in> set (aa_tests a). tt_target_id t = Some (mr_target_id r))
       \<and> (\<forall>t \<in> set (aa_tests a). tt_target_id t = Some (mr_target_id r) \<longrightarrow> test_passed t))
     \<or> (py_upper (mr_status r) = ''UNRESOLVABLE'' \<and> (\<exists>why. mr_reason r = Some why \<and> \<not> blank why))"

lemma is_fulfilled_covered: "is_fulfilled (aa_tests a) r \<longleftrightarrow> covered_target a r"
  by (auto simp: is_fulfilled_def covered_target_def has_passing_test_def Let_def list_all_iff filter_empty_conv
      split: option.splits)

lemma fulfilled_ids:
  assumes "distinct (map mr_target_id (aa_mandatory_target_results a))" and "r \<in> set (aa_mandatory_target_results a)"
  shows "mr_target_id r \<in> set (fulfilled_mandatory_target_ids a) \<longleftrightarrow> covered_target a r"
  using assms by (auto simp: fulfilled_mandatory_target_ids_def is_fulfilled_covered dest: inj_onD [OF distinct_map [THEN iffD1, THEN conjunct2]])

lemma derived_verdict:
  assumes "distinct (map mr_target_id (aa_mandatory_target_results a))"
    and "aa_tests_failed a = length (filter (\<lambda>t. \<not> test_passed t) (aa_tests a))"
  shows "lr_passed (derive_layer_result a failure srcs) \<longleftrightarrow> 1 \<le> aa_tests_executed a \<and> failure = None
    \<and> (\<forall>t \<in> set (aa_tests a). test_passed t) \<and> (\<forall>r \<in> set (aa_mandatory_target_results a). covered_target a r)"
  using fulfilled_ids [OF assms(1)] assms(2)
  by (auto simp: derive_layer_result_def layer_findings_def Let_def filter_empty_conv split: option.splits)

section \<open>The lifecycle\<close>

lemma wp_outside:
  "wp (outside m) Q E (l, s) \<longleftrightarrow> wp m (\<lambda>x t. Q x (l, t)) (\<lambda>e t. E e (l, t)) s"
  by (simp add: wp_def outside_def split: prod.splits sum.splits)

lemma wp_always: "(\<And>x t. Q x t) \<Longrightarrow> (\<And>e t. E e t) \<Longrightarrow> wp m Q E s"
  by (auto intro: wpI)

lemma wp_emit_counted:
  assumes "\<And>t. Q () (tally (xe_type e) l, t)" and "\<And>x t. E x (l, t)"
  shows "wp (emit_counted em e) Q E (l, s)"
  using assms by (auto simp: emit_counted_def wp_simps wp_outside intro!: wp_always)

lemma tally_counts [simp]:
  "lf_counts (tally ty l) ty' = (if ty' = ty then Suc (lf_counts l ty) else lf_counts l ty')"
  "lf_end_emitted (tally ty l) = lf_end_emitted l"
  by (simp_all add: tally_def)

text \<open>What a part of the run between start and end does to the tally.\<close>

definition same_ends :: "lifecycle \<Rightarrow> lifecycle \<Rightarrow> bool" where
  "same_ends l l' \<longleftrightarrow> lf_end_emitted l' = lf_end_emitted l
     \<and> (\<forall>ty \<in> {ADVERSARIAL_START, ADVERSARIAL_END}. lf_counts l' ty = lf_counts l ty)"

lemma same_ends_refl [simp]: "same_ends l l"
  by (simp add: same_ends_def)

lemma same_ends_trans: "same_ends l l' \<Longrightarrow> same_ends l' l'' \<Longrightarrow> same_ends l l''"
  by (simp add: same_ends_def)

lemma same_ends_tally: "ty \<notin> {ADVERSARIAL_START, ADVERSARIAL_END} \<Longrightarrow> same_ends l (tally ty l)"
  by (auto simp: same_ends_def)

lemma tally_times:
  "lf_counts ((tally ty ^^ n) l) ty' = (if ty' = ty then lf_counts l ty + n else lf_counts l ty')"
  "lf_end_emitted ((tally ty ^^ n) l) = lf_end_emitted l"
  by (induction n) auto

lemma wp_emit_times:
  assumes "\<And>t. Q () ((tally (xe_type e) ^^ n) l, t)" and "\<And>x t k. E x ((tally (xe_type e) ^^ k) l, t)"
  shows "wp (emit_times n em e) Q E (l, s)"
  using assms
proof (induction n arbitrary: l s)
  case 0
  then show ?case by (simp add: wp_simps)
next
  case (Suc n)
  show ?case
    unfolding emit_times.simps wp_seq
  proof (rule wp_emit_counted)
    fix t
    show "wp (emit_times n em e) Q E (tally (xe_type e) l, t)"
      by (rule Suc.IH) (use Suc.prems(1) Suc.prems(2) [of _ "Suc _"] in \<open>simp_all add: funpow_swap1\<close>)
  next
    fix x t show "E x (l, t)" using Suc.prems(2) [of x 0] by simp
  qed
qed

definition sparred :: "lifecycle \<Rightarrow> sparring_proof \<times> string option \<Rightarrow> lifecycle \<Rightarrow> bool" where
  "sparred l r l' \<longleftrightarrow> same_ends l l' \<and> lf_counts l' ADVERSARIAL_TEST_CREATED = lf_counts l ADVERSARIAL_TEST_CREATED
     \<and> lf_counts l' ADVERSARIAL_TEST_EXECUTED = lf_counts l ADVERSARIAL_TEST_EXECUTED
     \<and> lf_counts l' ADVERSARIAL_SPARRING = lf_counts l ADVERSARIAL_SPARRING + sf_adversarial_sparring_events (fst r)
     \<and> sf_adversarial_sparring_events (fst r) = (if snd r = None then 1 else 0)"

text \<open>Up to its last step a sparring that fails has counted no sparring.\<close>

definition before_sparring :: "lifecycle \<Rightarrow> lifecycle \<Rightarrow> bool" where
  "before_sparring l l' \<longleftrightarrow> same_ends l l' \<and> (\<forall>ty \<in> {ADVERSARIAL_TEST_CREATED, ADVERSARIAL_TEST_EXECUTED, ADVERSARIAL_SPARRING}.
     lf_counts l' ty = lf_counts l ty)"

lemma wp_sparring_transport:
  assumes "wp m Q (\<lambda>e t. \<forall>e'. E e' t) s"
  shows "wp (sparring_transport before after m) Q E s"
  using assms unfolding sparring_transport_def wp_try
  by (rule wp_cong_result) (auto simp: wp_simps)

lemma wp_run_mandatory_sparring:
  "wp (run_mandatory_sparring complete resolver em sid rid prompt)
     (\<lambda>p (l', _). sparred l (p, None) l') (\<lambda>_ (l', _). before_sparring l l') (l, s)"
proof -
  have pool: "wp (case resolver of None \<Rightarrow> ret ADVERSARIAL_SPARRING_ROLE | Some f \<Rightarrow> outside (f ADVERSARIAL_SPARRING_ROLE)) Q E (l, s)"
    if "\<And>x t. Q x (l, t)" "\<And>e t. E e (l, t)" for Q E s
    using that by (cases resolver) (auto simp: wp_simps wp_outside intro!: wp_always)
  have call: "wp (outside m) Q E (l, s)" if "\<And>x t. Q x (l, t)" "\<And>e t. E e (l, t)" for m Q E s
    using that by (auto simp: wp_outside intro!: wp_always)
  show ?thesis
    unfolding run_mandatory_sparring_def wp_bind wp_seq
    by (rule wp_sparring_transport, rule pool, rule wp_sparring_transport, rule call, rule wp_emit_counted, rule wp_emit_counted)
      (auto simp: wp_simps sparred_def before_sparring_def same_ends_def)
qed

lemma wp_sparring_or_failure:
  "wp (sparring_or_failure ar q) (\<lambda>r (l', _). sparred l r l') (\<lambda>_ (l', _). same_ends l l') (l, s)"
  unfolding sparring_or_failure_def wp_try
  by (rule wp_cong_result [OF wp_run_mandatory_sparring [of _ _ _ _ _ _ l]])
    (auto simp: wp_simps sparred_def before_sparring_def split: exn.splits)

lemma wp_emit_end_once:
  assumes "\<not> lf_end_emitted l" and "\<And>t. Q () (tally ADVERSARIAL_END (l\<lparr>lf_end_emitted := True\<rparr>), t)"
    and "\<And>x t. E x (l\<lparr>lf_end_emitted := True\<rparr>, t)"
  shows "wp (emit_end_once em sid rid) Q E (l, s)"
  using assms(1) unfolding emit_end_once_def
  by (auto simp: wp_simps lifecycle_event_def intro!: wp_emit_counted assms(2,3)
      simp del: tally_counts split: if_splits)

text \<open>The state of the tally in a run that has started, and in one that returns.\<close>

definition started :: "lifecycle \<Rightarrow> bool" where
  "started l \<longleftrightarrow> lf_counts l ADVERSARIAL_START = 1 \<and> lf_counts l ADVERSARIAL_END \<le> (if lf_end_emitted l then 1 else 0)"

definition exact_counts :: "adversarial_artifact \<Rightarrow> bool" where
  "exact_counts a \<longleftrightarrow> aa_telemetry a = \<lparr>tc_start = 1, tc_end = 1,
     tc_sparring = sf_adversarial_sparring_events (aa_sparring a), tc_test_created = length (aa_tests a),
     tc_test_executed = aa_tests_executed a\<rparr>"

definition judged :: "runtime_order \<Rightarrow> runtime_result \<Rightarrow> bool" where
  "judged q rr \<longleftrightarrow> (\<exists>sx pm failure srcs. build_result_artifact sx (ro_run_id q) (aa_sparring (rr_artifact rr)) pm
        (aa_telemetry (rr_artifact rr)) (map ts_target_id (ro_expected q)) = Inr (rr_artifact rr)
     \<and> rr_layer_result rr = derive_layer_result (rr_artifact rr) failure srcs
     \<and> sf_adversarial_sparring_events (aa_sparring (rr_artifact rr)) = (if failure = None then 1 else 0))"

definition finished :: "runtime_order \<Rightarrow> runtime_result \<Rightarrow> lifecycle \<Rightarrow> bool" where
  "finished q rr l \<longleftrightarrow> lf_end_emitted l \<and> aa_telemetry (rr_artifact rr) = counts_of l \<and> exact_counts (rr_artifact rr) \<and> judged q rr"

definition begun :: lifecycle where
  "begun = tally ADVERSARIAL_START new_lifecycle"

lemma wp_all_same: "(\<And>x t. Q x (l, t)) \<Longrightarrow> (\<And>e t. E e (l, t)) \<Longrightarrow> wp (outside m) Q E (l, s)"
  by (auto simp: wp_outside intro!: wp_always)

lemma wp_lift_cases: "(\<And>x. r = Inr x \<Longrightarrow> Q x s) \<Longrightarrow> (\<And>e. r = Inl e \<Longrightarrow> E e s) \<Longrightarrow> wp (lift_sum r) Q E s"
  by (auto simp: wp_simps split: sum.splits)

lemma wp_runtime_body: "wp (runtime_body ar q) (\<lambda>rr (l, _). finished q rr l) (\<lambda>_ (l, _). started l) (begun, s)"
proof -
  let ?sid = "ro_story_id q" and ?rid = "ro_run_id q"
  have begun [simp]: "started begun" "\<not> lf_end_emitted begun" "lf_counts begun ADVERSARIAL_START = 1"
      "lf_counts begun ADVERSARIAL_END = 0"
      "ty \<noteq> ADVERSARIAL_START \<Longrightarrow> lf_counts begun ty = 0" for ty
    by (simp_all add: begun_def started_def new_lifecycle_def)
  have after: "wp (conclude_runtime ar q sx sparring failure decisions promotion)
     (\<lambda>rr (l, _). finished q rr l) (\<lambda>_ (l, _). started l) (l, s)"
    if l: "sparred l0 (sparring, failure) l" "\<not> lf_end_emitted l0" "lf_counts l0 ADVERSARIAL_START = 1"
      "lf_counts l0 ADVERSARIAL_END = 0" "lf_counts l0 ADVERSARIAL_SPARRING = 0"
      "lf_counts l0 ADVERSARIAL_TEST_CREATED = length (sx_tests sx)"
      "lf_counts l0 ADVERSARIAL_TEST_EXECUTED = sx_tests_executed sx"
    for l0 l s sx sparring failure promotion decisions
  proof -
    let ?l = "tally ADVERSARIAL_END (l\<lparr>lf_end_emitted := True\<rparr>)"
    have flag: "\<not> lf_end_emitted l" and ends: "started ?l" "started (l\<lparr>lf_end_emitted := True\<rparr>)"
      using l by (auto simp: sparred_def same_ends_def started_def)
    have counts: "counts_of ?l = \<lparr>tc_start = 1, tc_end = 1, tc_sparring = sf_adversarial_sparring_events sparring,
        tc_test_created = length (sx_tests sx), tc_test_executed = sx_tests_executed sx\<rparr>"
      using l by (simp add: counts_of_def sparred_def same_ends_def)
    have complete: "finished q \<lparr>rr_layer_result = derive_layer_result a failure srcs, rr_artifact = a, rr_promotion_decisions = decisions,
        rr_resolution_feedback = feedback, rr_artifact_reference = ref\<rparr> ?l"
      if a: "build_result_artifact sx ?rid sparring promotion (counts_of ?l) (map ts_target_id (ro_expected q)) = Inr a"
      for a srcs feedback ref
    proof -
      have facts: "aa_telemetry a = counts_of ?l" "aa_sparring a = sparring" "aa_tests a = sx_tests sx"
        "aa_tests_executed a = sx_tests_executed sx" using build_result_artifactE [OF a] by blast+
      have "exact_counts a" using facts counts by (simp add: exact_counts_def)
      moreover have "judged q \<lparr>rr_layer_result = derive_layer_result a failure srcs, rr_artifact = a,
          rr_promotion_decisions = decisions, rr_resolution_feedback = feedback, rr_artifact_reference = ref\<rparr>"
        unfolding judged_def
        by (rule exI [of _ sx], rule exI [of _ promotion], rule exI [of _ failure], rule exI [of _ srcs])
          (use a facts l(1) in \<open>simp add: sparred_def\<close>)
      ultimately show ?thesis using facts(1) by (simp add: finished_def)
    qed
    have rest: "wp (bind_io (lift_sum (build_result_artifact sx ?rid sparring promotion (counts_of ?l) (map ts_target_id (ro_expected q)))) (\<lambda>a.
       bind_io (outside (materialize_adversarial_artifact (ar_artifact_manager ar) a (ro_attempt q))) (\<lambda>ref.
       bind_io (lift_sum (all_or_error (map new_target_source (ro_expected q)))) (\<lambda>srcs.
       bind_io (lift_sum (mandatory_target_resolution_feedback a srcs)) (\<lambda>feedback.
       ret \<lparr>rr_layer_result = derive_layer_result a failure srcs, rr_artifact = a, rr_promotion_decisions = decisions,
         rr_resolution_feedback = feedback, rr_artifact_reference = ref\<rparr>)))))
       (\<lambda>rr (l, _). finished q rr l) (\<lambda>_ (l, _). started l) (?l, t)" for t
      unfolding wp_bind
      by (rule wp_lift_cases, rule wp_all_same, rule wp_lift_cases, rule wp_lift_cases)
        (simp_all only: wp_basic complete ends prod.case)
    show ?thesis
      unfolding conclude_runtime_def wp_seq
    proof (rule wp_emit_end_once [OF flag])
      fix t
      show "wp (bind_io (gets (\<lambda>(l, s). counts_of l)) (\<lambda>telemetry.
         bind_io (lift_sum (build_result_artifact sx ?rid sparring promotion telemetry (map ts_target_id (ro_expected q)))) (\<lambda>a.
         bind_io (outside (materialize_adversarial_artifact (ar_artifact_manager ar) a (ro_attempt q))) (\<lambda>ref.
         bind_io (lift_sum (all_or_error (map new_target_source (ro_expected q)))) (\<lambda>srcs.
         bind_io (lift_sum (mandatory_target_resolution_feedback a srcs)) (\<lambda>feedback.
         ret \<lparr>rr_layer_result = derive_layer_result a failure srcs, rr_artifact = a, rr_promotion_decisions = decisions,
           rr_resolution_feedback = feedback, rr_artifact_reference = ref\<rparr>))))))
         (\<lambda>rr (l, _). finished q rr l) (\<lambda>_ (l, _). started l) (?l, t)"
        unfolding wp_bind wp_basic(3) prod.case by (rule rest [unfolded wp_bind])
    qed (simp only: prod.case ends)
  qed
  have middle: "wp (seq_io (emit_times (length (sx_tests sx)) (ar_emitter ar) (lifecycle_event ADVERSARIAL_TEST_CREATED ?sid ?rid))
     (seq_io (emit_times (sx_tests_executed sx) (ar_emitter ar) (lifecycle_event ADVERSARIAL_TEST_EXECUTED ?sid ?rid))
     (bind_io (sparring_or_failure ar q) (\<lambda>sp.
     bind_io (promote_in_files ar q (sx_tests sx)) (\<lambda>dp.
     conclude_runtime ar q sx (fst sp) (snd sp) (fst dp) (snd dp))))))
     (\<lambda>rr (l, _). finished q rr l) (\<lambda>_ (l, _). started l) (begun, s)" for sx s
  proof -
    let ?l0 = "\<lambda>m n. (tally ADVERSARIAL_TEST_EXECUTED ^^ n) ((tally ADVERSARIAL_TEST_CREATED ^^ m) begun)"
    have l0: "started (?l0 m n)" "\<not> lf_end_emitted (?l0 m n)" "lf_counts (?l0 m n) ADVERSARIAL_START = 1"
      "lf_counts (?l0 m n) ADVERSARIAL_END = 0" "lf_counts (?l0 m n) ADVERSARIAL_SPARRING = 0"
      "lf_counts (?l0 m n) ADVERSARIAL_TEST_CREATED = m" "lf_counts (?l0 m n) ADVERSARIAL_TEST_EXECUTED = n" for m n
      by (simp_all add: tally_times started_def)
    have promoted: "wp (bind_io (promote_in_files ar q (sx_tests sx)) (\<lambda>dp.
        conclude_runtime ar q sx (fst sp) (snd sp) (fst dp) (snd dp)))
        (\<lambda>rr (l, _). finished q rr l) (\<lambda>_ (l, _). started l) (l, t)"
      if "sparred (?l0 (length (sx_tests sx)) (sx_tests_executed sx)) sp l" for sp l t
    proof -
      have l: "sparred (?l0 (length (sx_tests sx)) (sx_tests_executed sx)) (fst sp, snd sp) l" using that by simp
      have "started l" using that l0 by (auto simp: sparred_def same_ends_def started_def)
      then show ?thesis
        unfolding promote_in_files_def wp_bind
        by (intro wp_all_same after [OF l l0(2-7)]) simp_all
    qed
    have failing: "started l" if "same_ends (?l0 m n) l" for l m n
      using that l0 by (auto simp: same_ends_def started_def)
    have s1: "started ((tally ADVERSARIAL_TEST_CREATED ^^ k) begun)" for k
      by (simp add: tally_times started_def)
    show ?thesis
      unfolding wp_seq
    proof (rule wp_emit_times)
      fix t
      have "wp (emit_times (sx_tests_executed sx) (ar_emitter ar) (lifecycle_event ADVERSARIAL_TEST_EXECUTED ?sid ?rid))
         (\<lambda>_. wp (bind_io (sparring_or_failure ar q) (\<lambda>sp. bind_io (promote_in_files ar q (sx_tests sx)) (\<lambda>dp.
            conclude_runtime ar q sx (fst sp) (snd sp) (fst dp) (snd dp))))
            (\<lambda>rr (l, _). finished q rr l) (\<lambda>_ (l, _). started l))
         (\<lambda>_ (l, _). started l) ((tally ADVERSARIAL_TEST_CREATED ^^ length (sx_tests sx)) begun, t)"
      proof (rule wp_emit_times)
        fix u
        show "wp (bind_io (sparring_or_failure ar q) (\<lambda>sp. bind_io (promote_in_files ar q (sx_tests sx)) (\<lambda>dp.
            conclude_runtime ar q sx (fst sp) (snd sp) (fst dp) (snd dp))))
            (\<lambda>rr (l, _). finished q rr l) (\<lambda>_ (l, _). started l)
            ((tally (xe_type (lifecycle_event ADVERSARIAL_TEST_EXECUTED ?sid ?rid)) ^^ sx_tests_executed sx)
              ((tally ADVERSARIAL_TEST_CREATED ^^ length (sx_tests sx)) begun), u)"
          unfolding wp_bind lifecycle_event_def adversarial_event.select_convs
          by (rule wp_cong_result [OF wp_sparring_or_failure])
            (auto simp: promoted [unfolded wp_bind, of "(_, _)", simplified] failing)
      qed (simp add: lifecycle_event_def l0)
      then show "wp (emit_times (sx_tests_executed sx) (ar_emitter ar) (lifecycle_event ADVERSARIAL_TEST_EXECUTED ?sid ?rid))
         (\<lambda>_. wp (bind_io (sparring_or_failure ar q) (\<lambda>sp. bind_io (promote_in_files ar q (sx_tests sx)) (\<lambda>dp.
            conclude_runtime ar q sx (fst sp) (snd sp) (fst dp) (snd dp))))
            (\<lambda>rr (l, _). finished q rr l) (\<lambda>_ (l, _). started l))
         (\<lambda>_ (l, _). started l)
         ((tally (xe_type (lifecycle_event ADVERSARIAL_TEST_CREATED ?sid ?rid)) ^^ length (sx_tests sx)) begun, t)"
        by (simp add: lifecycle_event_def)
    qed (simp add: lifecycle_event_def s1)
  qed
  show ?thesis
    unfolding runtime_body_def Let_def wp_bind
    by (rule wp_all_same, rule wp_lift_cases) (simp_all add: middle)
qed

section \<open>The whole run\<close>

definition closed :: "lifecycle \<Rightarrow> bool" where
  "closed l \<longleftrightarrow> lf_counts l ADVERSARIAL_START \<le> 1 \<and> lf_counts l ADVERSARIAL_END \<le> lf_counts l ADVERSARIAL_START
     \<and> (lf_counts l ADVERSARIAL_START = 1 \<longrightarrow> lf_end_emitted l)"

lemma wp_after_body:
  assumes "finished q rr l \<Longrightarrow> Q rr (l, s)"
    and "finished q rr l"
  shows "wp (seq_io (emit_end_once em sid rid) (lift_sum (Inr rr))) Q E (l, s)"
  using assms by (simp add: emit_end_once_def finished_def wp_simps)

lemma wp_after_failure:
  assumes "started l" and "\<And>x l t. closed l \<Longrightarrow> E x (l, t)"
  shows "wp (seq_io (emit_end_once em sid rid) (lift_sum (Inl e))) Q E (l, s)"
proof (cases "lf_end_emitted l")
  case True
  then show ?thesis using assms by (simp add: emit_end_once_def wp_simps started_def closed_def)
next
  case False
  then have "closed (l\<lparr>lf_end_emitted := True\<rparr>)" "closed (tally ADVERSARIAL_END (l\<lparr>lf_end_emitted := True\<rparr>))"
    using assms(1) by (auto simp: started_def closed_def)
  then show ?thesis
    unfolding wp_seq by (intro wp_emit_end_once [OF False]) (auto simp: wp_simps intro: assms(2))
qed

lemma wp_runtime_in_lifecycle:
  "wp (runtime_in_lifecycle ar q) (\<lambda>rr (l, _). finished q rr l \<and> closed l) (\<lambda>_ (l, _). closed l) (new_lifecycle, s)"
proof -
  have new: "closed new_lifecycle" by (simp add: closed_def new_lifecycle_def)
  have fin: "closed l" if "finished q rr l" for rr l
    using that by (auto simp: finished_def exact_counts_def counts_of_def closed_def)
  have body: "wp (try_io (runtime_body ar q)
      (\<lambda>r. seq_io (emit_end_once (ar_emitter ar) (ro_story_id q) (ro_run_id q)) (lift_sum r)))
      (\<lambda>rr (l, _). finished q rr l \<and> closed l) (\<lambda>_ (l, _). closed l) (begun, t)" for t
    unfolding wp_try
    by (rule wp_cong_result [OF wp_runtime_body]) (auto intro!: wp_after_body wp_after_failure simp: fin)
  show ?thesis
    unfolding runtime_in_lifecycle_def wp_seq
    by (rule wp_emit_counted) (use body new in \<open>simp_all add: lifecycle_event_def begun_def\<close>)
qed

lemma run_judged:
  assumes "run_adversarial_runtime ar q s = (Inr rr, t)"
  obtains l where "finished q rr l"
  using wp_return [OF wp_runtime_in_lifecycle, of ar q s rr] assms
  by (auto simp: run_adversarial_runtime_def split: prod.splits)

end
