(* ===== verification/Qa_Subflow_Props.thy ===== *)
theory Qa_Subflow_Props
  imports Qa_Subflow
begin

text \<open>
  What a run of the quality subflow guarantees: which results and artifacts its route leaves, when
  its verdict can be PASS, and that neither missing evidence, nor a layer that raises, nor a fast
  story without green tests can get there.
\<close>

section \<open>The log of a route\<close>

fun files_of_kind :: "qa_layer_kind \<Rightarrow> string list" where
  "files_of_kind Kind_STRUCTURAL = [''structural.json'']"
| "files_of_kind Kind_LLM_EVALUATOR = [''qa_review.json'', ''semantic_review.json'', ''doc_fidelity.json'']"
| "files_of_kind Kind_ADVERSARIAL = [''adversarial.json'']"
| "files_of_kind _ = []"

fun results_of_kind :: "'x verify_system \<Rightarrow> qa_layer_kind \<Rightarrow> layer_result list \<Rightarrow> bool" where
  "results_of_kind vs Kind_STRUCTURAL lrs \<longleftrightarrow> (\<exists>lr. lrs = [lr] \<and> result_of_layer (vs_layer_1 vs) Kind_STRUCTURAL lr)"
| "results_of_kind vs Kind_ADVERSARIAL lrs \<longleftrightarrow> (\<exists>lr. lrs = [lr] \<and> result_of_layer (vs_layer_3 vs) Kind_ADVERSARIAL lr)"
| "results_of_kind vs _ lrs \<longleftrightarrow> length lrs = 3"

lemma spec_files [simp]:
  "as_filename LAYER_1_ARTIFACT = ''structural.json''" "as_filename LAYER_3_ARTIFACT = ''adversarial.json''"
  "as_filename CONTEXT_SUFFICIENCY_ARTIFACT = ''context_sufficiency.json''"
  "as_filename SONARQUBE_GATE_ARTIFACT = ''sonarqube_gate.json''" "as_filename POLICY_ARTIFACT = ''decision.json''"
  "as_filename STABILITY_GATE_ARTIFACT = ''integration_stability_gate.json''"
  by (simp_all add: LAYER_1_ARTIFACT_def LAYER_3_ARTIFACT_def CONTEXT_SUFFICIENCY_ARTIFACT_def
      SONARQUBE_GATE_ARTIFACT_def POLICY_ARTIFACT_def STABILITY_GATE_ARTIFACT_def artifact_spec_def)

lemma layer_2_specs [simp]: "length LAYER_2_SPECS = 3"
  "map as_filename LAYER_2_SPECS = [''qa_review.json'', ''semantic_review.json'', ''doc_fidelity.json'']"
  by (simp_all add: LAYER_2_SPECS_def artifact_spec_def)

lemma run_data_layer_kind_returns:
  "returns (\<lambda>log'. \<exists>lrs. logged log lrs (files_of_kind kind) log' \<and> results_of_kind vs kind lrs)
     (run_data_layer_kind vs kind b sid t cyc log i)"
proof -
  have llm: "returns (\<lambda>log'. \<exists>xs. logged log xs (files_of_kind Kind_LLM_EVALUATOR) log' \<and> length xs = 3)
      (record_results vs b sid t cyc k log (zip lrs LAYER_2_SPECS))" if "length lrs = 3" for lrs k
    using that record_results_returns [of log "zip lrs LAYER_2_SPECS" vs b sid t cyc k]
    by (auto simp: map_snd_zip_take simp flip: map_map [unfolded comp_def] elim!: returns_mono)
  have one: "returns (\<lambda>log'. \<exists>xs. logged log xs [as_filename spec] log' \<and> (\<exists>lr. xs = [lr] \<and> P lr))
      (record_results vs b sid t cyc k log [(lr, spec)])" if "P lr" for lr spec P k
    using that record_results_returns [of log "[(lr, spec)]" vs b sid t cyc k] by (auto elim!: returns_mono)
  show ?thesis
    by (cases kind) (auto simp: run_data_layer_kind_def simp del: record_results.simps
        intro!: returns_bind_any llm [simplified files_of_kind.simps] returns_bind [OF execute_layer_returns] one [where spec = LAYER_1_ARTIFACT, simplified spec_files]
          one [where spec = LAYER_3_ARTIFACT, simplified spec_files])
qed

section \<open>The gate and the order of the layers\<close>

definition sonar_log :: "layer_result list \<Rightarrow> string list \<Rightarrow> bool" where
  "sonar_log lrs fns \<longleftrightarrow> lrs = [] \<and> fns = [] \<or> length lrs = 1 \<and> fns = [''sonarqube_gate.json'']"

text \<open>The failure of the gate: the decision is made of the results so far and the gate's own.\<close>

definition gate_failure :: "layer_log \<Rightarrow> layer_log \<Rightarrow> verify_decision \<Rightarrow> bool" where
  "gate_failure log log' d \<longleftrightarrow> log' = (fst log, snd log @ [''sonarqube_gate.json''])
     \<and> (\<exists>gate. lr_artifact_reference gate \<noteq> None \<and> d = sonarqube_gate_failed_decision gate (fst log))"

lemma run_sonarqube_gate_kind_returns:
  "returns (\<lambda>(log', failed). case failed of
       None \<Rightarrow> \<exists>lrs fns. logged log lrs fns log' \<and> sonar_log lrs fns
     | Some d \<Rightarrow> gate_failure log log' d) (run_sonarqube_gate_kind vs b sid t cyc log)"
proof -
  have none: "\<exists>lrs fns. logged log lrs fns log \<and> sonar_log lrs fns"
    by (rule exI [of _ "[]"], rule exI [of _ "[]"]) (simp add: sonar_log_def)
  have one: "\<exists>lrs fns. logged log lrs fns (fst log @ [lr\<lparr>lr_artifact_reference := Some r\<rparr>], snd log @ [''sonarqube_gate.json''])
      \<and> sonar_log lrs fns" for lr r
    by (rule exI [of _ "[lr]"], rule exI [of _ "[''sonarqube_gate.json'']"])
      (auto simp: sonar_log_def logged_def settled_set)
  have gate: "gate_failure log (fst log, snd log @ [''sonarqube_gate.json''])
      (sonarqube_gate_failed_decision (lr\<lparr>lr_artifact_reference := Some r\<rparr>) (fst log))" for lr r
    unfolding gate_failure_def
    by (intro conjI refl exI [of _ "lr\<lparr>lr_artifact_reference := Some r\<rparr>"]) simp_all
  show ?thesis
    by (auto simp: run_sonarqube_gate_kind_def Let_def none one gate intro!: returns_bind_any split: option.splits)
qed

fun kind_log :: "'x verify_system \<Rightarrow> qa_layer_kind \<Rightarrow> layer_result list \<Rightarrow> string list \<Rightarrow> bool" where
  "kind_log vs Kind_POLICY lrs fns \<longleftrightarrow> lrs = [] \<and> fns = []"
| "kind_log vs Kind_SONARQUBE_GATE lrs fns \<longleftrightarrow> sonar_log lrs fns"
| "kind_log vs Kind_LLM_EVALUATOR lrs fns \<longleftrightarrow> length lrs = 3 \<and> fns = ''context_sufficiency.json'' # files_of_kind Kind_LLM_EVALUATOR"
| "kind_log vs kind lrs fns \<longleftrightarrow> results_of_kind vs kind lrs \<and> fns = files_of_kind kind"

fun route_log :: "'x verify_system \<Rightarrow> qa_layer_kind list \<Rightarrow> layer_result list \<Rightarrow> string list \<Rightarrow> bool" where
  "route_log vs [] lrs fns \<longleftrightarrow> lrs = [] \<and> fns = []"
| "route_log vs (kind # kinds) lrs fns \<longleftrightarrow> (\<exists>lrs1 lrs2 fns1 fns2. lrs = lrs1 @ lrs2 \<and> fns = fns1 @ fns2
     \<and> kind_log vs kind lrs1 fns1 \<and> route_log vs kinds lrs2 fns2)"

text \<open>The layers of a route, until its end or the failure of the gate.\<close>

definition ran :: "'x verify_system \<Rightarrow> qa_layer_kind list \<Rightarrow> layer_log \<Rightarrow> layer_log \<Rightarrow> verify_decision option \<Rightarrow> bool" where
  "ran vs kinds log log' failed \<longleftrightarrow> (case failed of
      None \<Rightarrow> \<exists>lrs fns. route_log vs kinds lrs fns \<and> logged log lrs fns log'
    | Some d \<Rightarrow> \<exists>before after lrs fns log1. kinds = before @ Kind_SONARQUBE_GATE # after
        \<and> route_log vs before lrs fns \<and> logged log lrs fns log1 \<and> gate_failure log1 log' d)"

lemma ran_step:
  assumes "kind_log vs kind lrs fns" and "logged log lrs fns log1" and "ran vs kinds log1 log' failed"
  shows "ran vs (kind # kinds) log log' failed"
proof (cases failed)
  case None
  then obtain lrs2 fns2 where "route_log vs kinds lrs2 fns2" "logged log1 lrs2 fns2 log'"
    using assms(3) by (auto simp: ran_def)
  then show ?thesis using None assms(1) logged_trans [OF assms(2)]
    by (simp add: ran_def) blast
next
  case (Some d)
  then obtain before after lrs2 fns2 log2 where
    "kinds = before @ Kind_SONARQUBE_GATE # after" "route_log vs before lrs2 fns2"
    "logged log1 lrs2 fns2 log2" "gate_failure log2 log' d"
    using assms(3) by (auto simp: ran_def)
  then have "kind # kinds = (kind # before) @ Kind_SONARQUBE_GATE # after
      \<and> route_log vs (kind # before) (lrs @ lrs2) (fns @ fns2) \<and> logged log (lrs @ lrs2) (fns @ fns2) log2
      \<and> gate_failure log2 log' d"
    using assms(1) logged_trans [OF assms(2)] by auto
  then show ?thesis using Some unfolding ran_def by (simp only: option.case) blast
qed


lemma logged_prefix:
  "logged (fst log, snd log @ gs) lrs fns log' \<Longrightarrow> logged log lrs (gs @ fns) log'"
  by (auto simp: logged_def)

lemma ran_end [simp]: "ran vs [] log log' failed \<longleftrightarrow> failed = None \<and> log' = log"
  by (auto simp: ran_def split: option.splits)

lemma ran_gate_failed: "gate_failure log log' d \<Longrightarrow> ran vs (Kind_SONARQUBE_GATE # kinds) log log' (Some d)"
  unfolding ran_def option.case
  by (rule exI [of _ "[]"], rule exI [of _ kinds], rule exI [of _ "[]"], rule exI [of _ "[]"], rule exI [of _ log])
    simp

lemma execute_data_layers_returns:
  "returns (\<lambda>(ll', failed). ran vs kinds (ll_log ll) (ll_log ll') failed)
     (execute_data_layers vs b sid t cyc kinds ll)"
proof (induction kinds arbitrary: ll)
  case (Cons kind kinds)
  let ?goal = "\<lambda>(ll', failed). ran vs (kind # kinds) (ll_log ll) (ll_log ll') failed"
  have rest: "returns ?goal (execute_data_layers vs b sid t cyc kinds ll1)"
    if "kind_log vs kind lrs fns" "logged (ll_log ll) lrs fns (ll_log ll1)" for lrs fns ll1
    by (rule returns_mono [OF Cons.IH]) (auto intro: ran_step [OF that])
  have layer: "returns ?goal (bind_io (run_data_layer_kind vs kind b sid t cyc (ll_log ll1) (ll_inputs ll1))
      (\<lambda>log. execute_data_layers vs b sid t cyc kinds (ll1\<lparr>ll_log := log\<rparr>)))"
    if "\<And>lrs log. logged (ll_log ll1) lrs (files_of_kind kind) log \<Longrightarrow> results_of_kind vs kind lrs \<Longrightarrow>
      \<exists>xs fns. kind_log vs kind xs fns \<and> logged (ll_log ll) xs fns log" for ll1
    by (rule returns_bind [OF run_data_layer_kind_returns]) (use that rest in fastforce)
  consider (policy) "kind = Kind_POLICY" | (sonar) "kind = Kind_SONARQUBE_GATE" | (llm) "kind = Kind_LLM_EVALUATOR"
    | (single) "kind \<in> {Kind_STRUCTURAL, Kind_ADVERSARIAL}" by (cases kind) auto
  then show ?case
  proof cases
    case policy
    then show ?thesis using rest [of "[]" "[]" ll] by simp
  next
    case sonar
    show ?thesis unfolding execute_data_layers.simps
      by (simp add: sonar, rule returns_bind [OF run_sonarqube_gate_kind_returns])
        (use sonar rest in \<open>fastforce simp: Let_def ran_gate_failed split: option.splits\<close>)
  next
    case llm
    let ?pre = "(fst (ll_log ll), snd (ll_log ll) @ [''context_sufficiency.json''])"
    have step: "returns ?goal (bind_io (run_data_layer_kind vs kind b sid t cyc (ll_log ll1) (ll_inputs ll1))
        (\<lambda>log. execute_data_layers vs b sid t cyc kinds (ll1\<lparr>ll_log := log\<rparr>)))" if "ll_log ll1 = ?pre" for ll1
    proof (rule layer)
      fix lrs log assume "logged (ll_log ll1) lrs (files_of_kind kind) log" "results_of_kind vs kind lrs"
      then have "kind_log vs kind lrs (''context_sufficiency.json'' # files_of_kind kind)"
        "logged (ll_log ll) lrs (''context_sufficiency.json'' # files_of_kind kind) log"
        using llm that by (auto dest: logged_prefix)
      then show "\<exists>xs fns. kind_log vs kind xs fns \<and> logged (ll_log ll) xs fns log" by blast
    qed
    show ?thesis
      by (simp add: llm, rule returns_bind [where G = "\<lambda>ll1. ll_log ll1 = ?pre"], rule returns_bind_any, simp)
        (use step llm in simp)
  next
    case single
    have "returns ?goal (bind_io (run_data_layer_kind vs kind b sid t cyc (ll_log ll) (ll_inputs ll))
        (\<lambda>log. execute_data_layers vs b sid t cyc kinds (ll\<lparr>ll_log := log\<rparr>)))"
      by (rule layer) (use single in fastforce)
    then show ?thesis using single by (auto simp: bind_ret)
  qed
qed simp

section \<open>The decision and the outcome\<close>

definition campaign :: "story_context option \<Rightarrow> bool" where
  "campaign sctx \<longleftrightarrow> effective_implementation_contract sctx = Some Contract_INTEGRATION_STABILIZATION"

lemma maybe_produce_is_stability_gate_returns:
  "returns (\<lambda>log'. \<exists>lrs. logged log lrs (if campaign sctx then [''integration_stability_gate.json''] else []) log'
      \<and> (campaign sctx \<longrightarrow> length lrs = 1) \<and> (\<not> campaign sctx \<longrightarrow> lrs = []))
    (maybe_produce_is_stability_gate vs b sid sctx log t cyc)"
proof -
  have one: "\<exists>lrs. logged log lrs [f] (fst log @ [lr\<lparr>lr_artifact_reference := Some r\<rparr>], snd log @ [f]) \<and> length lrs = Suc 0" for lr r f
    by (rule exI [of _ "[lr]"]) (auto simp: logged_def settled_set)
  show ?thesis
    by (cases sctx) (auto simp: maybe_produce_is_stability_gate_def campaign_def effective_implementation_contract_def one
        intro!: returns_bind_any)
qed

text \<open>The decision of the policy engine on what a route left.\<close>

definition decided ::
  "'x verify_system \<Rightarrow> story_context option \<Rightarrow> qa_layer_kind list \<Rightarrow> layer_result list \<Rightarrow> verify_decision \<Rightarrow> bool" where
  "decided vs sctx kinds lrs d \<longleftrightarrow> (\<exists>layers suff. traversed_layers kinds = Inr layers
     \<and> decide (vs_policy_engine vs) lrs (effective_story_type sctx) layers (vs_are_enabled vs) suff
         (effective_implementation_contract sctx) = Inr d)"

definition closing_files :: "story_context option \<Rightarrow> string list" where
  "closing_files sctx = (if campaign sctx then [''integration_stability_gate.json''] else []) @ [''decision.json'']"

lemma reach_decision_returns:
  "returns (\<lambda>(log', d). case failed of
       Some d' \<Rightarrow> d = d' \<and> log' = log
     | None \<Rightarrow> (\<exists>lrs. logged log lrs (closing_files sctx) log') \<and> decided vs sctx kinds (fst log') d)
    (reach_decision vs b sid sctx kinds log suff failed t cyc)"
proof (cases failed)
  case None
  have policy: "returns (\<lambda>f. f = ''decision.json'') (write_policy_artifact vs d b sid t cyc)" for d
    by (simp add: write_policy_artifact_def returns_seq)
  have log: "\<exists>lrs. logged log lrs (closing_files sctx) (fst log', snd log' @ [''decision.json''])"
    if "\<exists>lrs. logged log lrs (if campaign sctx then [''integration_stability_gate.json''] else []) log'
      \<and> (campaign sctx \<longrightarrow> length lrs = 1) \<and> (\<not> campaign sctx \<longrightarrow> lrs = [])" for log'
    using that by (auto simp: logged_def closing_files_def)
  show ?thesis
    unfolding reach_decision_def None option.case
  proof (rule returns_bind [OF maybe_produce_is_stability_gate_returns])
    fix log' assume "\<exists>lrs. logged log lrs (if campaign sctx then [''integration_stability_gate.json''] else []) log'
      \<and> (campaign sctx \<longrightarrow> length lrs = 1) \<and> (\<not> campaign sctx \<longrightarrow> lrs = [])"
    note log = log [OF this]
    show "returns (\<lambda>(log', d). (\<exists>lrs. logged log lrs (closing_files sctx) log') \<and> decided vs sctx kinds (fst log') d)
        (bind_io (lift_sum (case traversed_layers kinds of Inl e \<Rightarrow> Inl e
          | Inr layers \<Rightarrow> decide (vs_policy_engine vs) (fst log') (effective_story_type sctx) layers (vs_are_enabled vs)
              suff (effective_implementation_contract sctx))) (\<lambda>d.
          bind_io (write_policy_artifact vs d b sid t cyc) (\<lambda>f. ret ((fst log', snd log' @ [f]), d))))"
      by (rule returns_bind [where G = "decided vs sctx kinds (fst log')"])
        (auto simp: decided_def log split: sum.splits intro!: returns_bind [OF policy])
  qed
qed (simp add: reach_decision_def)

lemma conclude_returns:
  "returns (\<lambda>oc. qo_decision oc = d \<and> qo_artifact_refs oc = snd log \<and> qo_cycle oc = Some c
      \<and> qo_qa_cycle_round oc = qc_round c
      \<and> (qo_escalated oc \<longleftrightarrow> layer_escalation_requested (vd_layer_results d)
            \<or> evaluate_escalation (vs_remediation_loop_controller vs) c (vd_verdict d))
      \<and> qo_verdict oc = (if qo_escalated oc then Verdict_FAIL else vd_verdict d))
    (conclude vs b sid qa previous kinds c log d)"
  by (auto simp: conclude_def Let_def intro!: returns_bind_any)

text \<open>What a run of the layers returns, in one piece.\<close>

definition standard_outcome :: "'x verify_system \<Rightarrow> qa_context \<Rightarrow> story_context option \<Rightarrow> qa_outcome \<Rightarrow> bool" where
  "standard_outcome vs qa sctx oc \<longleftrightarrow> (\<exists>log log' failed c. ran vs (select_layers qa) ([], []) log failed
     \<and> (case failed of
          Some d \<Rightarrow> qo_decision oc = d \<and> log' = log
        | None \<Rightarrow> (\<exists>lrs. logged log lrs (closing_files sctx) log') \<and> decided vs sctx (select_layers qa) (fst log') (qo_decision oc))
     \<and> qo_artifact_refs oc = snd log' \<and> qo_cycle oc = Some c \<and> qo_qa_cycle_round oc = qc_round c
     \<and> (qo_escalated oc \<longleftrightarrow> layer_escalation_requested (vd_layer_results (qo_decision oc))
           \<or> evaluate_escalation (vs_remediation_loop_controller vs) c (vd_verdict (qo_decision oc)))
     \<and> qo_verdict oc = (if qo_escalated oc then Verdict_FAIL else vd_verdict (qo_decision oc)))"

lemma run_layers_and_decide_returns:
  "returns (standard_outcome vs qa sctx) (run_layers_and_decide vs cid b sid qa sctx ri previous)"
proof -
  have last: "returns (standard_outcome vs qa sctx) (conclude vs b sid qa previous (select_layers qa) c log' d)"
    if "ran vs (select_layers qa) ([], []) log failed"
      "case failed of Some d' \<Rightarrow> d = d' \<and> log' = log
        | None \<Rightarrow> (\<exists>lrs. logged log lrs (closing_files sctx) log') \<and> decided vs sctx (select_layers qa) (fst log') d"
    for c log log' failed d
  proof (rule returns_mono [OF conclude_returns])
    fix oc :: qa_outcome assume oc: "qo_decision oc = d \<and> qo_artifact_refs oc = snd log' \<and> qo_cycle oc = Some c
      \<and> qo_qa_cycle_round oc = qc_round c
      \<and> (qo_escalated oc \<longleftrightarrow> layer_escalation_requested (vd_layer_results d)
            \<or> evaluate_escalation (vs_remediation_loop_controller vs) c (vd_verdict d))
      \<and> qo_verdict oc = (if qo_escalated oc then Verdict_FAIL else vd_verdict d)"
    show "standard_outcome vs qa sctx oc"
      unfolding standard_outcome_def
      by (rule exI [of _ log], rule exI [of _ log'], rule exI [of _ failed], rule exI [of _ c])
        (use oc that in \<open>simp split: option.splits\<close>)
  qed
  show ?thesis
    unfolding run_layers_and_decide_def Let_def
    by (rule returns_bind_any, rule returns_bind_any, rule returns_bind [OF execute_data_layers_returns], clarify, unfold prod.case layer_loop_result.simps,
        rule returns_bind [OF reach_decision_returns], clarify)
      (rule last, assumption+)
qed

section \<open>The precondition\<close>

definition implementation_contexts :: "qa_context list" where
  "implementation_contexts = [IMPLEMENTATION_INITIAL, IMPLEMENTATION_REMEDIATION]"

definition blocked_outcome :: "qa_outcome \<Rightarrow> bool" where
  "blocked_outcome oc \<longleftrightarrow> qo_verdict oc = Verdict_FAIL \<and> qo_escalated oc \<and> qo_cycle oc = None
     \<and> qo_artifact_refs oc = [''structural.json''] \<and> qo_qa_cycle_round oc = 0
     \<and> (\<forall>lr \<in> set (vd_layer_results (qo_decision oc)). lr_artifact_reference lr \<noteq> None)"

lemma terminality_blocked_returns: "returns blocked_outcome (terminality_blocked_outcome vs b sid msg)"
  by (auto simp: terminality_blocked_outcome_def blocked_outcome_def intro!: returns_bind_any)

lemma precondition_blocks:
  "returns (\<lambda>r. \<forall>oc. r = Some oc \<longrightarrow> blocked_outcome oc \<and> qa \<in> set implementation_contexts)
     (evaluate_terminality_precondition vs b sid sctx qa)"
proof -
  have stop: "returns (\<lambda>r. \<forall>oc. r = Some oc \<longrightarrow> blocked_outcome oc)
      (bind_io (terminality_blocked_outcome vs b sid msg) (\<lambda>oc. ret (Some oc)))" for msg
    by (rule returns_bind [OF terminality_blocked_returns]) simp
  show ?thesis
    by (cases sctx) (auto simp: evaluate_terminality_precondition_def implementation_contexts_def stop returns_bind_any
        split: option.splits)
qed

lemma precondition_passes:
  assumes "evaluate_terminality_precondition vs b sid sctx qa u = (Inr None, v)" and "qa \<in> set implementation_contexts"
  shows "\<exists>c ev w. sctx = Some c \<and> vs_change_evidence vs (vb_story_dir b) u = (Inr ev, w)
    \<and> evaluate_implementation_evidence_gate (vs_evidence_reader vs) (sc_story_type c)
        (vs_delivery_files vs (vb_story_dir b) w) ev = None"
  using assms
  by (auto simp: evaluate_terminality_precondition_def implementation_contexts_def io_run
      split: option.splits if_splits elim!: bind_io_cases)

lemma run_qa_subflow_cases:
  assumes "run_qa_subflow vs cid b sid qa target ri previous s = (Inr oc, t)"
  obtains (blocked) sctx u v where "vs_load_story_context vs (vb_story_dir b) s = (Inr sctx, u)" "blocked_outcome oc"
      "qa \<in> set implementation_contexts" "evaluate_terminality_precondition vs b sid sctx qa u = (Inr (Some oc), v)"
    | (fast) sctx u v where "vs_load_story_context vs (vb_story_dir b) s = (Inr sctx, u)" "is_fast_mode sctx"
      "evaluate_terminality_precondition vs b sid sctx qa u = (Inr None, v)"
      "run_fast_floor vs cid b sid sctx v = (Inr oc, t)"
    | (standard) sctx u v where "vs_load_story_context vs (vb_story_dir b) s = (Inr sctx, u)" "\<not> is_fast_mode sctx"
      "evaluate_terminality_precondition vs b sid sctx qa u = (Inr None, v)" "standard_outcome vs qa sctx oc"
proof -
  obtain sctx u r v where load: "vs_load_story_context vs (vb_story_dir b) s = (Inr sctx, u)"
    and pre: "evaluate_terminality_precondition vs b sid sctx qa u = (Inr r, v)"
    and rest: "(case r of Some oc' \<Rightarrow> ret oc' | None \<Rightarrow> if is_fast_mode sctx then run_fast_floor vs cid b sid sctx
        else run_layers_and_decide vs cid b sid qa sctx (case ri of Some i \<Rightarrow> i | None \<Rightarrow> empty_review_input) previous) v = (Inr oc, t)"
    using assms unfolding run_qa_subflow_def by (auto simp: io_run elim!: bind_io_cases)
  show thesis
  proof (cases r)
    case (Some oc')
    then have "oc' = oc" using rest by (simp add: io_run)
    then show thesis using returnsD [OF precondition_blocks pre] Some pre load by (intro blocked) auto
  next
    case None
    show thesis
    proof (cases "is_fast_mode sctx")
      case True
      then show thesis using fast [OF load True] pre rest None by simp
    next
      case False
      then have "run_layers_and_decide vs cid b sid qa sctx (case ri of Some i \<Rightarrow> i | None \<Rightarrow> empty_review_input) previous v
          = (Inr oc, t)" using rest None by simp
      then show thesis
        using standard [OF load False] pre None returnsD [OF run_layers_and_decide_returns] by blast
    qed
  qed
qed

lemma not_blocked: "blocked_outcome oc \<Longrightarrow> qo_verdict oc \<noteq> Verdict_PASS"
  by (simp add: blocked_outcome_def)

section \<open>What a PASS means\<close>

text \<open>
  C30. There is no PASS without delivery: when a run for an implementation context returns PASS, fast or
  not, its story context was resolved and, for a story that produces code, the worker had delivered
  handover, protocol and a valid manifest, and the version control system, not the worker, confirmed
  a change to a file that is none of the documents the workflow writes itself.
\<close>
theorem no_pass_without_delivery:
  assumes "run_qa_subflow vs cid b sid qa target ri previous s = (Inr oc, t)"
    and "qa \<in> {IMPLEMENTATION_INITIAL, IMPLEMENTATION_REMEDIATION}" and "qo_verdict oc = Verdict_PASS"
  shows "\<exists>c u ev w. vs_load_story_context vs (vb_story_dir b) s = (Inr (Some c), u)
    \<and> vs_change_evidence vs (vb_story_dir b) u = (Inr ev, w)
    \<and> (sc_story_type c \<in> {StoryType_IMPLEMENTATION, StoryType_BUGFIX} \<longrightarrow>
        delivered (vs_evidence_reader vs) (vs_delivery_files vs (vb_story_dir b) w) \<and> ce_available ev
        \<and> (\<exists>p \<in> set (ce_changed_files ev). file_name_of (slashes p) \<notin> set EXPLORATION_ONLY_FILENAMES))"
proof -
  have impl: "qa \<in> set implementation_contexts" using assms(2) by (auto simp: implementation_contexts_def)
  obtain sctx u v where load: "vs_load_story_context vs (vb_story_dir b) s = (Inr sctx, u)"
    and pre: "evaluate_terminality_precondition vs b sid sctx qa u = (Inr None, v)"
    using assms(1) by (cases rule: run_qa_subflow_cases) (use assms(3) not_blocked in auto)
  from precondition_passes [OF pre impl] load show ?thesis
    by (auto simp: evidence_gate_passes)
qed

lemma decided_facts:
  assumes "decided vs sctx kinds lrs d"
  shows "vd_layer_results d = lrs"
    and "vd_verdict d = Verdict_PASS \<Longrightarrow> lr \<in> set lrs \<Longrightarrow> f \<in> set (lr_findings lr) \<Longrightarrow> \<not> hard_blocker f"
    and "vd_verdict d = Verdict_PASS \<Longrightarrow> \<exists>layers produced. traversed_layers kinds = Inr layers
       \<and> produced_stage_ids (pe_registry (vs_policy_engine vs)) lrs (map sd_stage_id (planned_stages (vs_policy_engine vs)
            (effective_story_type sctx) layers (vs_are_enabled vs) (effective_implementation_contract sctx))) = Inr produced
       \<and> (\<forall>st \<in> set (planned_stages (vs_policy_engine vs) (effective_story_type sctx) layers (vs_are_enabled vs)
            (effective_implementation_contract sctx)). effective_blocking st \<longrightarrow> sd_stage_id st \<in> set produced)"
proof -
  obtain layers suff where layers: "traversed_layers kinds = Inr layers"
    and decide: "decide (vs_policy_engine vs) lrs (effective_story_type sctx) layers (vs_are_enabled vs) suff
      (effective_implementation_contract sctx) = Inr d"
    using assms by (auto simp: decided_def)
  from decide obtain missing max_major where d:
    "missing_stage_findings (vs_policy_engine vs) lrs (effective_story_type sctx) layers (vs_are_enabled vs)
      (effective_implementation_contract sctx) = Inr missing"
    "vd_all_findings d = concat (map lr_findings lrs) @ missing" "vd_layer_results d = lrs"
    "vd_blocking_findings d = compute_blocking (vd_all_findings d) max_major"
    "vd_passed d \<longleftrightarrow> vd_blocking_findings d = []" "vd_verdict d = (if vd_passed d then Verdict_PASS else Verdict_FAIL)"
    by (elim decideE)
  show "vd_layer_results d = lrs" by (rule d)
  have clean: "\<forall>f \<in> set (concat (map lr_findings lrs) @ missing). \<not> hard_blocker f" if "vd_verdict d = Verdict_PASS"
    using that d by (auto simp: compute_blocking_Nil split: if_splits)
  then show "\<not> hard_blocker f" if "vd_verdict d = Verdict_PASS" "lr \<in> set lrs" "f \<in> set (lr_findings lr)"
    using that by auto
  obtain produced where produced: "produced_stage_ids (pe_registry (vs_policy_engine vs)) lrs (map sd_stage_id
      (planned_stages (vs_policy_engine vs) (effective_story_type sctx) layers (vs_are_enabled vs)
        (effective_implementation_contract sctx))) = Inr produced"
    using d(1) by (auto simp: missing_stage_findings_def Let_def split: sum.splits)
  show "\<exists>layers produced. traversed_layers kinds = Inr layers
       \<and> produced_stage_ids (pe_registry (vs_policy_engine vs)) lrs (map sd_stage_id (planned_stages (vs_policy_engine vs)
            (effective_story_type sctx) layers (vs_are_enabled vs) (effective_implementation_contract sctx))) = Inr produced
       \<and> (\<forall>st \<in> set (planned_stages (vs_policy_engine vs) (effective_story_type sctx) layers (vs_are_enabled vs)
            (effective_implementation_contract sctx)). effective_blocking st \<longrightarrow> sd_stage_id st \<in> set produced)"
    if "vd_verdict d = Verdict_PASS"
    using clean [OF that] layers produced d(1) by (fastforce simp: missing_stage_findings_Inr [OF produced] ball_Un)
qed

lemma failed_gate_decision: "gate_failure log log' d \<Longrightarrow> vd_verdict d = Verdict_FAIL"
  by (auto simp: gate_failure_def sonarqube_gate_failed_decision_def Let_def)

lemma settled_list: "list_all2 settled lrs new \<Longrightarrow> \<forall>lr' \<in> set new. lr_artifact_reference lr' \<noteq> None"
  by (induction rule: list_all2_induct) (auto dest: settled_sel(5))

lemma settled_member: "list_all2 settled lrs new \<Longrightarrow> lr \<in> set lrs \<Longrightarrow> \<exists>lr' \<in> set new. settled lr lr'"
  by (induction rule: list_all2_induct) auto

lemma logged_member: "logged log lrs fns log' \<Longrightarrow> lr \<in> set lrs \<Longrightarrow> \<exists>lr' \<in> set (fst log'). settled lr lr'"
  by (auto simp: logged_def dest!: settled_member)

lemma logged_kept: "logged log lrs fns log' \<Longrightarrow> lr \<in> set (fst log) \<Longrightarrow> lr \<in> set (fst log')"
  by (auto simp: logged_def)

lemma logged_refs:
  "logged log lrs fns log' \<Longrightarrow> lr \<in> set (fst log') \<Longrightarrow> lr \<notin> set (fst log) \<Longrightarrow> lr_artifact_reference lr \<noteq> None"
  by (auto simp: logged_def dest!: settled_list)

lemma standard_pass:
  assumes "standard_outcome vs qa sctx oc" and "qo_verdict oc = Verdict_PASS"
  obtains log log' lrs fns xs where "route_log vs (select_layers qa) lrs fns" "logged ([], []) lrs fns log"
    "logged log xs (closing_files sctx) log'" "decided vs sctx (select_layers qa) (fst log') (qo_decision oc)"
    "qo_artifact_refs oc = snd log'" "vd_verdict (qo_decision oc) = Verdict_PASS" "\<not> qo_escalated oc"
proof -
  have pass: "vd_verdict (qo_decision oc) = Verdict_PASS" "\<not> qo_escalated oc"
    using assms by (auto simp: standard_outcome_def split: if_splits)
  from assms(1) obtain log log' failed where ran: "ran vs (select_layers qa) ([], []) log failed"
    and d: "case failed of Some d \<Rightarrow> qo_decision oc = d \<and> log' = log
        | None \<Rightarrow> (\<exists>lrs. logged log lrs (closing_files sctx) log') \<and> decided vs sctx (select_layers qa) (fst log') (qo_decision oc)"
    and refs: "qo_artifact_refs oc = snd log'"
    unfolding standard_outcome_def by blast
  have "failed = None"
    using ran d pass(1) by (cases failed) (auto simp: ran_def dest!: failed_gate_decision)
  then obtain lrs fns xs where "route_log vs (select_layers qa) lrs fns" "logged ([], []) lrs fns log"
    "logged log xs (closing_files sctx) log'" "decided vs sctx (select_layers qa) (fst log') (qo_decision oc)"
    using ran d by (auto simp: ran_def)
  then show thesis using refs pass by (rule that)
qed

text \<open>
  C31. A PASS of a standard run is earned: the decision itself is PASS and nothing escalated it, no
  result of a layer, a gate or a reviewer carries a finding that blocks, every blocking stage that the
  registry plans for this story type, contract and route has been produced, each result points to its
  artifact, and the last artifact written is the decision.
\<close>
theorem pass_is_earned:
  assumes "run_qa_subflow vs cid b sid qa target ri previous s = (Inr oc, t)"
    and "vs_load_story_context vs (vb_story_dir b) s = (Inr sctx, u)" and "\<not> is_fast_mode sctx"
    and "qo_verdict oc = Verdict_PASS"
  shows "vd_verdict (qo_decision oc) = Verdict_PASS \<and> \<not> qo_escalated oc
    \<and> (\<forall>lr \<in> set (vd_layer_results (qo_decision oc)). lr_artifact_reference lr \<noteq> None
        \<and> (\<forall>f \<in> set (lr_findings lr). \<not> hard_blocker f))
    \<and> last (qo_artifact_refs oc) = ''decision.json''
    \<and> (\<exists>layers produced. traversed_layers (select_layers qa) = Inr layers
        \<and> produced_stage_ids (pe_registry (vs_policy_engine vs)) (vd_layer_results (qo_decision oc))
            (map sd_stage_id (planned_stages (vs_policy_engine vs) (effective_story_type sctx) layers (vs_are_enabled vs)
              (effective_implementation_contract sctx))) = Inr produced
        \<and> (\<forall>st \<in> set (planned_stages (vs_policy_engine vs) (effective_story_type sctx) layers (vs_are_enabled vs)
             (effective_implementation_contract sctx)). effective_blocking st \<longrightarrow> sd_stage_id st \<in> set produced))"
proof -
  have out: "standard_outcome vs qa sctx oc"
    using assms(1) by (cases rule: run_qa_subflow_cases) (use assms not_blocked in auto)
  obtain log log' lrs fns xs where r: "logged ([], []) lrs fns log" "logged log xs (closing_files sctx) log'"
    and d: "decided vs sctx (select_layers qa) (fst log') (qo_decision oc)"
    and rest: "qo_artifact_refs oc = snd log'" "vd_verdict (qo_decision oc) = Verdict_PASS" "\<not> qo_escalated oc"
    using standard_pass [OF out assms(4)] by metis
  have refs: "lr_artifact_reference lr \<noteq> None" if "lr \<in> set (fst log')" for lr
    using logged_refs [OF r(1), of lr] logged_refs [OF r(2), of lr] that by auto
  have last: "last (qo_artifact_refs oc) = ''decision.json''"
    using r(2) rest(1) by (auto simp: logged_def closing_files_def)
  show ?thesis
    using rest refs last decided_facts(2) [OF d] decided_facts(3) [OF d] unfolding decided_facts(1) [OF d] by blast
qed

lemma implementation_route:
  assumes "route_log vs implementation_layers lrs fns"
  shows "\<exists>lr \<in> set lrs. result_of_layer (vs_layer_1 vs) Kind_STRUCTURAL lr"
    and "\<exists>lr \<in> set lrs. result_of_layer (vs_layer_3 vs) Kind_ADVERSARIAL lr"
    and "\<exists>sonar. (sonar = [] \<or> sonar = [''sonarqube_gate.json'']) \<and> fns = [''structural.json'', ''context_sufficiency.json'',
      ''qa_review.json'', ''semantic_review.json'', ''doc_fidelity.json'', ''adversarial.json''] @ sonar"
  using assms by (auto simp: implementation_layers_def sonar_log_def)

text \<open>
  C32. A layer that raises never gets past the run: when the structural checks raise whatever they are
  given, or the adversarial layer does in a standard run, every run for an implementation context
  that returns is FAIL.
\<close>
theorem crashing_layer_fails_the_run:
  assumes "run_qa_subflow vs cid b sid qa target ri previous s = (Inr oc, t)"
    and "qa \<in> {IMPLEMENTATION_INITIAL, IMPLEMENTATION_REMEDIATION}"
    and "vs_load_story_context vs (vb_story_dir b) s = (Inr sctx, u)"
    and "ly = vs_layer_1 vs \<or> ly = vs_layer_3 vs \<and> \<not> is_fast_mode sctx"
    and "\<And>c dir i v. \<exists>e w. ly_evaluate ly c dir i v = (Inl e, w)"
  shows "qo_verdict oc = Verdict_FAIL"
proof -
  have raises: "\<not> (\<exists>c dir i v lr w. ly_evaluate ly c dir i v = (Inr lr, w))"
    using assms(5) by (metis Inl_Inr_False fst_conv)
  have blocks: "\<exists>f \<in> set (lr_findings lr). hard_blocker f" and fails: "\<not> lr_passed lr" if "result_of_layer ly kind lr" for kind lr
    using that raises
    by (auto simp: result_of_layer_def crashed_result_def Let_def hard_blocker_def new_finding_def trust_can_block_def)
  show ?thesis using assms(1)
  proof (cases rule: run_qa_subflow_cases)
    case blocked
    then show ?thesis by (simp add: blocked_outcome_def)
  next
    case (fast sctx' u' v)
    then have ly: "ly = vs_layer_1 vs" using assms(3,4) by auto
    have "returns (\<lambda>oc. qo_verdict oc = Verdict_FAIL) (run_fast_floor vs cid b sid sctx')"
      unfolding run_fast_floor_def Let_def
      by (rule returns_bind_any, rule returns_bind_any, rule returns_bind [OF execute_layer_returns])
        (auto simp: floor_result_def fails [unfolded ly] intro!: returns_bind_any)
    then show ?thesis using fast(4) by (rule returnsD)
  next
    case (standard sctx' u' v)
    show ?thesis
    proof (rule ccontr)
      assume "qo_verdict oc \<noteq> Verdict_FAIL"
      then have "qo_verdict oc = Verdict_PASS" by (cases "qo_verdict oc") auto
      then obtain log log' lrs fns xs where r: "route_log vs (select_layers qa) lrs fns" "logged ([], []) lrs fns log"
        "logged log xs (closing_files sctx') log'" and d: "decided vs sctx' (select_layers qa) (fst log') (qo_decision oc)"
        and pass: "vd_verdict (qo_decision oc) = Verdict_PASS"
        using standard_pass [OF standard(4)] by metis
      have "route_log vs implementation_layers lrs fns" using r(1) assms(2) by auto
      then have "\<exists>kind lr. lr \<in> set lrs \<and> result_of_layer ly kind lr"
        using implementation_route(1,2) assms(4) by blast
      then obtain kind lr where lr: "lr \<in> set lrs" "result_of_layer ly kind lr" by blast
      then obtain lr' where "lr' \<in> set (fst log')" "settled lr lr'"
        using logged_member [OF r(2)] logged_kept [OF r(3)] by blast
      then show False
        using blocks [OF lr(2)] decided_facts(2) [OF d pass] by (auto simp: settled_sel(3))
    qed
  qed
qed

section \<open>Artifacts, escalation and the fast floor\<close>

text \<open>A returned run had the answer of the evidence precondition, whatever its mode: stopped by it, or let through.\<close>

lemma standard_runs:
  assumes "run_qa_subflow vs cid b sid qa target ri previous s = (Inr oc, t)"
    and "vs_load_story_context vs (vb_story_dir b) s = (Inr sctx, u)" and "\<not> is_fast_mode sctx"
  obtains (stopped) v where "evaluate_terminality_precondition vs b sid sctx qa u = (Inr (Some oc), v)" "blocked_outcome oc"
      "qa \<in> set implementation_contexts"
    | (let_through) v where "evaluate_terminality_precondition vs b sid sctx qa u = (Inr None, v)" "standard_outcome vs qa sctx oc"
  using assms(1) by (cases rule: run_qa_subflow_cases) (use assms(2,3) that in auto)

lemma exploration_route:
  "route_log vs exploration_layers lrs fns \<Longrightarrow>
     fns = [''context_sufficiency.json'', ''qa_review.json'', ''semantic_review.json'', ''doc_fidelity.json'']"
  by (auto simp: exploration_layers_def)

lemma gate_splits:
  "implementation_layers = before @ Kind_SONARQUBE_GATE # after \<Longrightarrow> before = [Kind_STRUCTURAL, Kind_LLM_EVALUATOR, Kind_ADVERSARIAL]"
  "exploration_layers \<noteq> before @ Kind_SONARQUBE_GATE # after"
  by (auto simp: implementation_layers_def exploration_layers_def append_eq_Cons_conv Cons_eq_append_conv)

text \<open>The files of the layers before the gate.\<close>

definition layer_files :: "qa_context \<Rightarrow> string list" where
  "layer_files qa = (if qa \<in> set implementation_contexts
     then [''structural.json'', ''context_sufficiency.json'', ''qa_review.json'', ''semantic_review.json'',
       ''doc_fidelity.json'', ''adversarial.json'']
     else [''context_sufficiency.json'', ''qa_review.json'', ''semantic_review.json'', ''doc_fidelity.json''])"

lemma context_route: "select_layers qa = (if qa \<in> set implementation_contexts then implementation_layers else exploration_layers)"
  by (cases qa) (simp_all add: implementation_contexts_def)

lemma complete_route_files:
  assumes "route_log vs (select_layers qa) lrs fns"
  shows "\<exists>sonar. fns = layer_files qa @ sonar \<and> (sonar = [] \<or> sonar = [''sonarqube_gate.json''])"
proof (cases "qa \<in> set implementation_contexts")
  case True
  then have "route_log vs implementation_layers lrs fns" using assms by (simp add: context_route)
  from implementation_route(3) [OF this] obtain sonar where "sonar = [] \<or> sonar = [''sonarqube_gate.json'']"
    "fns = layer_files qa @ sonar" using True unfolding layer_files_def by auto
  then show ?thesis by blast
next
  case False
  then have "route_log vs exploration_layers lrs fns" using assms by (simp add: context_route)
  then show ?thesis using exploration_route False by (auto simp: layer_files_def)
qed

lemma stopped_route_files:
  assumes "select_layers qa = before @ Kind_SONARQUBE_GATE # after" and "route_log vs before lrs fns"
  shows "fns = layer_files qa"
proof -
  have impl: "qa \<in> set implementation_contexts" "before = [Kind_STRUCTURAL, Kind_LLM_EVALUATOR, Kind_ADVERSARIAL]"
    using assms(1) gate_splits by (auto simp: context_route split: if_splits)
  show ?thesis using assms(2) by (auto simp: impl layer_files_def)
qed

lemma route_artifacts:
  assumes out: "standard_outcome vs qa sctx oc"
  shows "(\<exists>sonar closing. qo_artifact_refs oc = layer_files qa @ sonar @ closing
      \<and> (sonar = [] \<or> sonar = [''sonarqube_gate.json''])
      \<and> (closing = (if effective_implementation_contract sctx = Some Contract_INTEGRATION_STABILIZATION
            then [''integration_stability_gate.json''] else []) @ [''decision.json'']
         \<or> closing = [] \<and> sonar \<noteq> [] \<and> qo_verdict oc = Verdict_FAIL))
    \<and> (\<forall>lr \<in> set (vd_layer_results (qo_decision oc)). lr_artifact_reference lr \<noteq> None)"
proof -
  obtain log log' failed where ran: "ran vs (select_layers qa) ([], []) log failed"
    and d: "case failed of Some d \<Rightarrow> qo_decision oc = d \<and> log' = log
        | None \<Rightarrow> (\<exists>lrs. logged log lrs (closing_files sctx) log') \<and> decided vs sctx (select_layers qa) (fst log') (qo_decision oc)"
    and refs: "qo_artifact_refs oc = snd log'"
    and verdict: "qo_verdict oc = (if qo_escalated oc then Verdict_FAIL else vd_verdict (qo_decision oc))"
    using out unfolding standard_outcome_def by blast
  show ?thesis
  proof (cases failed)
    case None
    obtain lrs fns xs where r: "route_log vs (select_layers qa) lrs fns" "logged ([], []) lrs fns log"
        "logged log xs (closing_files sctx) log'"
      using ran d None by (auto simp: ran_def)
    obtain sonar where sonar: "fns = layer_files qa @ sonar" "sonar = [] \<or> sonar = [''sonarqube_gate.json'']"
      using complete_route_files [OF r(1)] by blast
    have "qo_artifact_refs oc = layer_files qa @ sonar @ closing_files sctx"
      using r(2,3) refs sonar(1) by (auto simp: logged_def)
    moreover have "vd_layer_results (qo_decision oc) = fst log'"
      using d None decided_facts(1) by auto
    then have "\<forall>lr \<in> set (vd_layer_results (qo_decision oc)). lr_artifact_reference lr \<noteq> None"
      using logged_refs [OF r(2)] logged_refs [OF r(3)] by fastforce
    ultimately show ?thesis using sonar(2) unfolding closing_files_def campaign_def by blast
  next
    case (Some d')
    obtain before after lrs fns log1 where r: "select_layers qa = before @ Kind_SONARQUBE_GATE # after"
        "route_log vs before lrs fns" "logged ([], []) lrs fns log1" and gate: "gate_failure log1 log d'"
      using ran Some by (auto simp: ran_def)
    have eqs: "qo_decision oc = d'" "log' = log" using d Some by simp_all
    have "qo_artifact_refs oc = layer_files qa @ [''sonarqube_gate.json''] @ []"
      using r(3) gate stopped_route_files [OF r(1,2)] refs eqs by (auto simp: logged_def gate_failure_def)
    moreover have "qo_verdict oc = Verdict_FAIL" using verdict failed_gate_decision [OF gate] eqs by simp
    moreover have "\<forall>lr \<in> set (vd_layer_results (qo_decision oc)). lr_artifact_reference lr \<noteq> None"
      using gate logged_refs [OF r(3)] eqs by (auto simp: gate_failure_def sonarqube_gate_failed_decision_def Let_def)
    ultimately show ?thesis by (intro conjI exI [of _ "[''sonarqube_gate.json'']"] exI [of _ "[]"]) simp_all
  qed
qed


text \<open>
  C34. Escalation is bounded and final. A standard run the evidence precondition stops (only in an
  implementation context) is escalated in round 0, FAIL and without a cycle. One it lets through is in
  the round of its cycle and escalates exactly when a layer asked for it or the decision is FAIL with
  the round at or above the ceiling; escalated it is FAIL whatever the decision, otherwise it has the
  verdict of its decision.
\<close>
theorem escalation_exact:
  assumes "run_qa_subflow vs cid b sid qa target ri previous s = (Inr oc, t)"
    and "vs_load_story_context vs (vb_story_dir b) s = (Inr sctx, u)" and "\<not> is_fast_mode sctx"
  shows "\<exists>r v. evaluate_terminality_precondition vs b sid sctx qa u = (Inr r, v)
    \<and> (case r of
        Some _ \<Rightarrow> qa \<in> {IMPLEMENTATION_INITIAL, IMPLEMENTATION_REMEDIATION} \<and> qo_cycle oc = None \<and> qo_qa_cycle_round oc = 0
          \<and> qo_escalated oc \<and> qo_verdict oc = Verdict_FAIL
      | None \<Rightarrow> \<exists>c. qo_cycle oc = Some c \<and> qo_qa_cycle_round oc = qc_round c
          \<and> (qo_escalated oc \<longleftrightarrow> (\<exists>lr \<in> set (vd_layer_results (qo_decision oc)). map_of (lr_metadata lr) ''escalated'' = Some (JBool True))
               \<or> vd_verdict (qo_decision oc) = Verdict_FAIL \<and> vs_remediation_loop_controller vs \<le> qc_round c)
          \<and> qo_verdict oc = (if qo_escalated oc then Verdict_FAIL else vd_verdict (qo_decision oc)))"
  using assms
proof (cases rule: standard_runs)
  case (stopped v)
  then show ?thesis by (auto simp: blocked_outcome_def implementation_contexts_def)
next
  case (let_through v)
  then show ?thesis
    by (cases "vd_verdict (qo_decision oc)")
      (auto simp: standard_outcome_def layer_escalation_requested_def list_ex_iff evaluate_escalation_def check_and_advance_def)
qed

lemma fast_runs:
  assumes "run_qa_subflow vs cid b sid qa target ri previous s = (Inr oc, t)"
    and "vs_load_story_context vs (vb_story_dir b) s = (Inr sctx, u)" and "is_fast_mode sctx"
    and "evaluate_terminality_precondition vs b sid sctx qa u = (Inr None, v)"
  shows "run_fast_floor vs cid b sid sctx v = (Inr oc, t)"
  using assms(1) by (cases rule: run_qa_subflow_cases) (use assms in auto)

lemma tests_green:
  assumes "fast_tests_green_finding vs dir v = (Inr f, w)"
  shows "case vs_fast_test_runner vs of None \<Rightarrow> f \<noteq> None \<and> w = v
    | Some run \<Rightarrow> \<exists>green msg. run dir v = (Inr (green, msg), w) \<and> (f = None \<longleftrightarrow> green)"
  using assms
  by (auto simp: fast_tests_green_finding_def io_run split: option.splits if_splits elim!: bind_io_cases)

text \<open>
  C35. The fast floor is exact: in a fast run that the evidence precondition lets through, the clock is
  read and the cycle started, then the structural layer runs in the state that leaves and the test
  runner in the state the layer leaves. The run is FAIL when no runner is wired; otherwise the runner
  reported and the run is PASS if and only if the layer passed and the report was green. It never
  escalates, gives no feedback and reports the one structural artifact.
\<close>
theorem fast_floor_exact:
  assumes "run_qa_subflow vs cid b sid qa target ri previous s = (Inr oc, t)"
    and "vs_load_story_context vs (vb_story_dir b) s = (Inr sctx, u)" and "is_fast_mode sctx"
    and "evaluate_terminality_precondition vs b sid sctx qa u = (Inr None, v)"
  shows "\<not> qo_escalated oc \<and> qo_feedback oc = None \<and> qo_artifact_refs oc = [''structural.json'']
    \<and> (\<exists>c w lr x. start_cycle (vs_qa_cycle_lifecycle vs) cid (snd (now v)) = (Inr c, w) \<and> qo_cycle oc = Some c
        \<and> execute_layer (vs_layer_1 vs) b sid Kind_STRUCTURAL None sctx w = (Inr lr, x)
        \<and> (case vs_fast_test_runner vs of
              None \<Rightarrow> qo_verdict oc = Verdict_FAIL
            | Some run \<Rightarrow> \<exists>green msg y. run (vb_story_dir b) x = (Inr (green, msg), y)
                \<and> qo_verdict oc = (if lr_passed lr \<and> green then Verdict_PASS else Verdict_FAIL)))"
proof -
  have "run_fast_floor vs cid b sid sctx v = (Inr oc, t)" by (rule fast_runs [OF assms])
  then obtain c w lr x f y where run: "start_cycle (vs_qa_cycle_lifecycle vs) cid (snd (now v)) = (Inr c, w)"
    "execute_layer (vs_layer_1 vs) b sid Kind_STRUCTURAL None sctx w = (Inr lr, x)"
    "fast_tests_green_finding vs (vb_story_dir b) x = (Inr f, y)"
    and oc: "\<not> qo_escalated oc" "qo_feedback oc = None" "qo_artifact_refs oc = [''structural.json'']" "qo_cycle oc = Some c"
      "qo_verdict oc = (if lr_passed (floor_result (ly_name (vs_layer_1 vs)) lr f) then Verdict_PASS else Verdict_FAIL)"
    unfolding run_fast_floor_def Let_def by (auto simp: io_run elim!: bind_io_cases)
  have verdict: "qo_verdict oc = (if lr_passed lr \<and> f = None then Verdict_PASS else Verdict_FAIL)"
    using oc(5) by (simp add: floor_result_def)
  have "case vs_fast_test_runner vs of
      None \<Rightarrow> qo_verdict oc = Verdict_FAIL
    | Some run \<Rightarrow> \<exists>green msg y. run (vb_story_dir b) x = (Inr (green, msg), y)
        \<and> qo_verdict oc = (if lr_passed lr \<and> green then Verdict_PASS else Verdict_FAIL)"
  proof (cases "vs_fast_test_runner vs")
    case None
    then show ?thesis using tests_green [OF run(3)] verdict by simp
  next
    case (Some r)
    then obtain green msg where "r (vb_story_dir b) x = (Inr (green, msg), y)" "f = None \<longleftrightarrow> green"
      using tests_green [OF run(3)] by auto
    then show ?thesis using Some verdict by simp
  qed
  then show ?thesis using run(1,2) oc(1-4) by (intro conjI exI [of _ c] exI [of _ w] exI [of _ lr] exI [of _ x]) assumption+
qed

section \<open>A system at work\<close>

text \<open>A world with a table of artifacts and the events sent, and a system whose layers find nothing.\<close>

record demo_world = subflow_world +
  dw_rows :: "artifact_row list"
  dw_sent :: "(nat \<times> string \<times> string \<times> metadata) list"

type_synonym 'a demo_action = "(demo_world st, exn, 'a) io"

definition demo_artifacts :: "demo_world st artifact_manager" where
  "demo_artifacts = \<lparr>am_repository = \<lparr>rp_rows = (\<lambda>s. dw_rows (st_world s)),
       rp_set_rows = (\<lambda>rows s. s\<lparr>st_world := (st_world s)\<lparr>dw_rows := rows\<rparr>\<rparr>), rp_fence = (\<lambda>_. ret ()), rp_pick = hd\<rparr>,
     am_registry = register_verify_producers new_producer_registry\<rparr>"

definition clean_result :: "string \<Rightarrow> layer_result" where
  "clean_result n = \<lparr>lr_layer = n, lr_passed = True, lr_findings = [], lr_metadata = [], lr_artifact_reference = None\<rparr>"

definition clean_layer :: "string \<Rightarrow> 'x qa_layer" where
  "clean_layer n = \<lparr>ly_name = n, ly_evaluate = (\<lambda>_ _ _. ret (clean_result n))\<rparr>"

definition broken_layer :: "string \<Rightarrow> 'x qa_layer" where
  "broken_layer n = \<lparr>ly_name = n, ly_evaluate = (\<lambda>_ _ _. raise (OtherException ''boom''))\<rparr>"

text \<open>What the worker delivered, and what the version control system confirms.\<close>

definition demo_worker_manifest :: json where
  "demo_worker_manifest = JObj [(''completed_at'', JStr ''2026-01-01T00:00:00Z''), (''run_id'', JStr ''r1''),
     (''status'', JStr ''completed''), (''story_id'', JStr ''AG3-007'')]"

definition demo_delivery :: delivery_files where
  "demo_delivery = \<lparr>df_handover = True, df_protocol = True, df_worker_manifest = File_text (json_dumps demo_worker_manifest)\<rparr>"

definition demo_reader :: evidence_reader where
  "demo_reader = \<lparr>er_is_instant = (\<lambda>v. v = WStr ''2026-01-01T00:00:00Z''), er_is_boolean = (\<lambda>v. False)\<rparr>"

definition demo_change :: change_evidence where
  "demo_change = \<lparr>ce_available = True, ce_changed_files = [''handover.json'', ''src/a.py'']\<rparr>"

definition demo_system :: "story_context \<Rightarrow> unit demo_world_ext subflow_world_ext qa_layer
    \<Rightarrow> unit demo_world_ext subflow_world_ext verify_system" where
  "demo_system c structural = \<lparr>vs_layer_1 = structural, vs_layer_2a = clean_layer ''qa_review'',
     vs_layer_2b = clean_layer ''semantic_review'', vs_layer_2c = clean_layer ''doc_fidelity'',
     vs_layer_3 = clean_layer ''adversarial'', vs_are_enabled = False, vs_policy_engine = default_engine,
     vs_artifact_manager = demo_artifacts, vs_load_story_context = (\<lambda>_. ret (Some c)),
     vs_sonar_gate_port = (\<lambda>_ _. raise (OtherException ''not wired'')), vs_regex_engine = demo_rx,
     vs_layer2_runner = None, vs_client_runner = None, vs_completion_order = [],
     vs_layer2_ports = \<lparr>lp_files = \<lambda>_. ret \<lparr>pf_manifest = File_missing, pf_path = \<lambda>_. Path_outside\<rparr>,
       lp_uuid4 = ret ''u'', lp_emit = \<lambda>_ _. ret (), lp_conformance_config = None, lp_bundle_token_limit = 32000\<rparr>,
     vs_fast_test_runner = Some (\<lambda>_. ret (True, None)), vs_qa_cycle_lifecycle = demo_lifecycle,
     vs_remediation_loop_controller = 3, vs_review_completed = (\<lambda>_ _ _. ret ()), vs_adversarial_spawner = None,
     vs_change_evidence = (\<lambda>_. ret demo_change), vs_delivery_files = (\<lambda>_ _. demo_delivery),
     vs_evidence_reader = demo_reader, vs_story_sources = (\<lambda>_ _. ret demo_sources),
     vs_bundle_reader = (\<lambda>_. None), vs_emitting = False, vs_digest = (\<lambda>_. [])\<rparr>"

definition verify_bundle :: verify_context_bundle where
  "verify_bundle = \<lparr>vb_run_id = ''r1'', vb_story_dir = ''/w/stories/S-1'', vb_attempt = 1, vb_phase_envelope = None,
     vb_project_root = None, vb_evidence_manifest = None\<rparr>"

definition demo_target :: artifact_reference where
  "demo_target = \<lparr>af_artifact_class = Class_WORKER, af_story_id = ''AG3-007'', af_run_id = ''r1'', af_record_key = ''k''\<rparr>"

definition sample_run ::
  "story_context \<Rightarrow> unit demo_world_ext subflow_world_ext qa_layer \<Rightarrow> qa_context \<Rightarrow> qa_outcome demo_action" where
  "sample_run c structural qa = run_qa_subflow (demo_system c structural) ''c1'' verify_bundle ''AG3-007'' qa demo_target None []"

text \<open>Writing its artifacts, step by step.\<close>

definition demo_put :: "layer_artifact_spec \<Rightarrow> int \<Rightarrow> envelope_status \<Rightarrow> metadata \<Rightarrow> demo_world st \<Rightarrow> demo_world st" where
  "demo_put spec t st p s = snd (store_envelope demo_artifacts (qa_envelope spec verify_bundle ''AG3-007'' t st p) s)"

definition demo_ref :: "layer_artifact_spec \<Rightarrow> artifact_reference" where
  "demo_ref spec = reference_from_envelope (qa_envelope spec verify_bundle ''AG3-007'' 0 Envelope_PASS [])"

lemma demo_registered:
  "register_verify_producers g Class_QA (as_producer_name spec) = Some (as_producer_type spec)"
  if "spec \<in> set ([LAYER_1_ARTIFACT, CONTEXT_SUFFICIENCY_ARTIFACT, POLICY_ARTIFACT] @ LAYER_2_SPECS)"
  using that
  by (auto simp: register_verify_producers_def VERIFY_PRODUCERS_def register_producer_def LAYER_1_ARTIFACT_def LAYER_2_SPECS_def
      CONTEXT_SUFFICIENCY_ARTIFACT_def POLICY_ARTIFACT_def artifact_spec_def STRUCTURAL_PRODUCER_def QA_REVIEW_PRODUCER_def
      SEMANTIC_REVIEW_PRODUCER_def DOC_FIDELITY_PRODUCER_def CONTEXT_SUFFICIENCY_PRODUCER_def POLICY_PRODUCER_def)

lemma demo_stage:
  "STAGE_ID_PATTERN (as_stage spec)"
  if "spec \<in> set ([LAYER_1_ARTIFACT, CONTEXT_SUFFICIENCY_ARTIFACT, POLICY_ARTIFACT] @ LAYER_2_SPECS)"
  using that
  by (auto simp: STAGE_ID_PATTERN_def lower_ascii_def digit_ascii_def digit_val_def LAYER_1_ARTIFACT_def LAYER_2_SPECS_def
      CONTEXT_SUFFICIENCY_ARTIFACT_def POLICY_ARTIFACT_def artifact_spec_def)

lemma demo_story_id: "STORY_ID_PATTERN ''AG3-007''"
  by (simp add: STORY_ID_PATTERN_def upper_ascii_def digit_ascii_def digit_val_def)

lemma demo_envelope_stored:
  assumes "spec \<in> set ([LAYER_1_ARTIFACT, CONTEXT_SUFFICIENCY_ARTIFACT, POLICY_ARTIFACT] @ LAYER_2_SPECS)"
    and "st \<in> {Envelope_PASS, Envelope_WARN, Envelope_FAIL}"
  shows "store_envelope demo_artifacts (qa_envelope spec verify_bundle ''AG3-007'' t st p) s
    = (Inr (demo_ref spec), demo_put spec t st p s)"
proof -
  have "fst (store_envelope demo_artifacts (qa_envelope spec verify_bundle ''AG3-007'' t st p) s) = Inr (demo_ref spec)"
    using assms(2) demo_registered [OF assms(1)] demo_stage [OF assms(1)] demo_story_id
    by (auto simp: store_envelope_def new_artifact_envelope_def ENVELOPE_SCHEMA_VERSION_def qa_envelope_def verify_bundle_def
        manager_write_def envelope_validate_def registry_validate_def and_then_def demo_artifacts_def write_envelope_def
        demo_ref_def reference_from_envelope_def io_app io_run)
  then show ?thesis by (simp add: demo_put_def prod_eq_iff)
qed

lemma demo_context_step:
  "\<exists>r. context_sufficiency_of (\<lambda>_. None) (demo_sources\<lparr>ss_worktree_root := sc_project_root sample_context\<rparr>)
     empty_review_input None = Inr r"
proof -
  have "case context_sufficiency_of (\<lambda>_. None) (demo_sources\<lparr>ss_worktree_root := sc_project_root sample_context\<rparr>)
     empty_review_input None of Inl _ \<Rightarrow> False | Inr _ \<Rightarrow> True"
    by code_simp
  then show ?thesis by (auto split: sum.splits)
qed

definition demo_results :: "layer_result list" where
  "demo_results = map (\<lambda>(n, spec). (clean_result n)\<lparr>lr_artifact_reference := Some (demo_ref spec)\<rparr>)
     (zip [''qa_review'', ''semantic_review'', ''doc_fidelity''] LAYER_2_SPECS)"

lemma demo_decision:
  "\<exists>d. decide default_engine demo_results StoryType_IMPLEMENTATION [2, 4] False suff (Some Contract_STANDARD) = Inr d
     \<and> vd_verdict d = Verdict_PASS \<and> vd_layer_results d = demo_results \<and> vd_all_findings d = []"
proof -
  have "missing_stage_findings default_engine demo_results StoryType_IMPLEMENTATION [2, 4] False (Some Contract_STANDARD) = Inr []"
    by code_simp
  moreover have "validate_traversed_layers [2, 4] = Inr ()" by code_simp
  moreover have "threshold_for default_engine StoryType_IMPLEMENTATION = Inr 3" by code_simp
  moreover have "concat (map lr_findings demo_results) = []" by code_simp
  ultimately show ?thesis by (simp add: decide_def and_then_def Let_def compute_blocking_def)
qed

lemma demo_traversed: "traversed_layers exploration_layers = Inr [2, 4]"
  by (simp add: traversed_layers_def default_registry) code_simp

lemma demo_no_resolutions: "merge_llm_finding_resolutions None demo_results = Inr None"
  by code_simp

lemma demo_sel [simp]:
  "vs_artifact_manager (demo_system c l) = demo_artifacts" "vs_layer_1 (demo_system c l) = l"
  "vs_policy_engine (demo_system c l) = default_engine" "vs_are_enabled (demo_system c l) = False"
  "vs_qa_cycle_lifecycle (demo_system c l) = demo_lifecycle" "vs_remediation_loop_controller (demo_system c l) = 3"
  "vs_load_story_context (demo_system c l) d = ret (Some c)" "vs_change_evidence (demo_system c l) d = ret demo_change"
  "vs_delivery_files (demo_system c l) d s = demo_delivery" "vs_evidence_reader (demo_system c l) = demo_reader"
  "vs_story_sources (demo_system c l) sid d = ret demo_sources" "vs_bundle_reader (demo_system c l) = (\<lambda>_. None)"
  "vs_fast_test_runner (demo_system c l) = Some (\<lambda>_. ret (True, None))" "vs_review_completed (demo_system c l) sid n f = ret ()"
  by (simp_all add: demo_system_def)

lemma demo_specs: "set LAYER_2_SPECS \<subseteq> set ([LAYER_1_ARTIFACT, CONTEXT_SUFFICIENCY_ARTIFACT, POLICY_ARTIFACT] @ LAYER_2_SPECS)"
  by auto

lemma demo_pre_step:
  "\<exists>r u. run_context_sufficiency_pre_step (demo_system sample_context l) verify_bundle ''AG3-007'' t cyc
     empty_review_input (Some sample_context) s = (Inr r, u)"
proof -
  have "vb_evidence_manifest verify_bundle = None" by (simp add: verify_bundle_def)
  then show ?thesis using demo_context_step
    by (auto simp: run_context_sufficiency_pre_step_def io_app io_run demo_envelope_stored)
qed

lemma clean_layer_runs:
  "execute_layer (clean_layer n) b sid kind ri (Some c) s = (Inr (clean_result n), s)"
  by (simp add: execute_layer_def clean_layer_def io_app io_run)

lemma demo_records:
  assumes "spec \<in> set ([LAYER_1_ARTIFACT, CONTEXT_SUFFICIENCY_ARTIFACT, POLICY_ARTIFACT] @ LAYER_2_SPECS)"
  shows "\<exists>u. record_result (demo_system c l) verify_bundle ''AG3-007'' t cyc kind log (clean_result n) spec s
    = (Inr (fst log @ [(clean_result n)\<lparr>lr_artifact_reference := Some (demo_ref spec)\<rparr>], snd log @ [as_filename spec]), u)"
  using demo_envelope_stored [OF assms]
  by (simp add: record_result_def write_layer_envelope_def clean_result_def io_app io_run Let_def)

lemma demo_record_all:
  assumes "set specs \<subseteq> set ([LAYER_1_ARTIFACT, CONTEXT_SUFFICIENCY_ARTIFACT, POLICY_ARTIFACT] @ LAYER_2_SPECS)"
    and "length ns = length specs"
  shows "\<exists>u. record_results (demo_system c l) verify_bundle ''AG3-007'' t cyc kind log (zip (map clean_result ns) specs) s
    = (Inr (fst log @ map (\<lambda>(n, spec). (clean_result n)\<lparr>lr_artifact_reference := Some (demo_ref spec)\<rparr>) (zip ns specs),
        snd log @ map as_filename specs), u)"
  using assms(2,1)
proof (induction ns specs arbitrary: log s rule: list_induct2)
  case (Cons n ns spec specs)
  have spec: "spec \<in> set ([LAYER_1_ARTIFACT, CONTEXT_SUFFICIENCY_ARTIFACT, POLICY_ARTIFACT] @ LAYER_2_SPECS)"
    and rest: "set specs \<subseteq> set ([LAYER_1_ARTIFACT, CONTEXT_SUFFICIENCY_ARTIFACT, POLICY_ARTIFACT] @ LAYER_2_SPECS)"
    using Cons.prems by auto
  obtain u where "record_result (demo_system c l) verify_bundle ''AG3-007'' t cyc kind log (clean_result n) spec s
    = (Inr (fst log @ [(clean_result n)\<lparr>lr_artifact_reference := Some (demo_ref spec)\<rparr>], snd log @ [as_filename spec]), u)"
    using demo_records [OF spec] by blast
  moreover from Cons.IH [OF rest, of "(fst log @ [(clean_result n)\<lparr>lr_artifact_reference := Some (demo_ref spec)\<rparr>],
      snd log @ [as_filename spec])" u]
  obtain v where "record_results (demo_system c l) verify_bundle ''AG3-007'' t cyc kind
      (fst log @ [(clean_result n)\<lparr>lr_artifact_reference := Some (demo_ref spec)\<rparr>], snd log @ [as_filename spec])
      (zip (map clean_result ns) specs) u
    = (Inr (fst log @ (clean_result n)\<lparr>lr_artifact_reference := Some (demo_ref spec)\<rparr>
          # map (\<lambda>(n, spec). (clean_result n)\<lparr>lr_artifact_reference := Some (demo_ref spec)\<rparr>) (zip ns specs),
        snd log @ as_filename spec # map as_filename specs), v)" by auto
  ultimately show ?case by (simp add: io_app)
qed (simp add: io_run)

lemma demo_layer_2:
  assumes "di_story_ctx i = Some c'"
  shows "\<exists>u. run_data_layer_kind (demo_system c l) Kind_LLM_EVALUATOR verify_bundle ''AG3-007'' t cyc log i s
    = (Inr (fst log @ demo_results, snd log @ map as_filename LAYER_2_SPECS), u)"
proof -
  have "run_layer2 (demo_system c l) verify_bundle ''AG3-007'' i s
      = (Inr (map clean_result [''qa_review'', ''semantic_review'', ''doc_fidelity'']), s)"
    using assms by (simp add: run_layer2_def resolve_layer2_runner_def demo_system_def io_app io_run clean_layer_runs)
  moreover have "\<exists>u. record_results (demo_system c l) verify_bundle ''AG3-007'' t cyc Kind_LLM_EVALUATOR log
      (zip (map clean_result [''qa_review'', ''semantic_review'', ''doc_fidelity'']) LAYER_2_SPECS) s
    = (Inr (fst log @ demo_results, snd log @ map as_filename LAYER_2_SPECS), u)"
    unfolding demo_results_def by (rule demo_record_all [OF demo_specs]) simp
  ultimately show ?thesis by (simp add: run_data_layer_kind_def io_app)
qed

lemma demo_layers:
  assumes "di_review_input (ll_inputs ll) = empty_review_input" and "di_story_ctx (ll_inputs ll) = Some sample_context"
    and "ll_log ll = ([], [])"
  shows "\<exists>ll' fs u. execute_data_layers (demo_system sample_context l) verify_bundle ''AG3-007'' t cyc exploration_layers ll s
    = (Inr (ll', None), u) \<and> ll_log ll' = (demo_results, fs)"
proof -
  obtain r v where pre: "run_context_sufficiency_pre_step (demo_system sample_context l) verify_bundle ''AG3-007'' t cyc
     empty_review_input (Some sample_context) s = (Inr r, v)" using demo_pre_step by blast
  show ?thesis
    using assms demo_layer_2 [of "(ll_inputs ll)\<lparr>di_review_input := cr_enriched_input r,
        di_arch_references := cr_arch_references r, di_evidence_manifest := cr_evidence_manifest r\<rparr>" sample_context
        sample_context l t cyc "([], [''context_sufficiency.json''])" v]
    by (auto simp: exploration_layers_def io_app io_run pre)
qed

lemma demo_decides:
  "\<exists>d log u. reach_decision (demo_system sample_context l) verify_bundle ''AG3-007'' (Some sample_context) exploration_layers
      (demo_results, fs) suff None t cyc s = (Inr (log, d), u)
    \<and> vd_verdict d = Verdict_PASS \<and> vd_layer_results d = demo_results \<and> vd_all_findings d = []"
proof -
  have "sc_implementation_contract sample_context = Some Contract_STANDARD" "sc_story_type sample_context = StoryType_IMPLEMENTATION"
    by (simp_all add: sample_context_def)
  moreover obtain d where d: "decide default_engine demo_results StoryType_IMPLEMENTATION [2, 4] False suff (Some Contract_STANDARD) = Inr d"
    "vd_verdict d = Verdict_PASS" "vd_layer_results d = demo_results" "vd_all_findings d = []"
    using demo_decision by blast
  ultimately show ?thesis
    by (simp add: reach_decision_def maybe_produce_is_stability_gate_def demo_traversed effective_story_type_def
        effective_implementation_contract_def write_policy_artifact_def io_app io_run demo_envelope_stored)
qed

lemma demo_concludes:
  assumes "vd_verdict d = Verdict_PASS" "vd_layer_results d = demo_results" "vd_all_findings d = []" "qc_round c = 1"
  shows "\<exists>oc u. conclude (demo_system sample_context l) verify_bundle ''AG3-007'' EXPLORATION_INITIAL [] exploration_layers
      c log d s = (Inr oc, u) \<and> qo_verdict oc = Verdict_PASS \<and> qo_cycle oc = Some c"
proof -
  have "\<not> layer_escalation_requested demo_results" by code_simp
  then show ?thesis
    using assms
    by (simp add: conclude_def assess_finding_resolution_def remediation_contexts_def demo_no_resolutions
        mandatory_target_feedback_findings_def derive_adversarial_spawn_def exploration_layers_def evaluate_escalation_def
        check_and_advance_def io_app io_run)
qed

lemma demo_starts:
  fixes s :: "'x qa_state"
  shows "\<exists>c u. start_cycle demo_lifecycle cid s = (Inr c, u)"
proof -
  have "\<exists>fp. \<forall>s :: 'x qa_state. fingerprint_now demo_lifecycle s = (Inr fp, s)" by (rule demo_fingerprint)
  then obtain fp where "\<And>s :: 'x qa_state. fingerprint_now demo_lifecycle s = (Inr fp, s)" by blast
  then show ?thesis by (simp add: start_cycle_def now_def io_app io_run)
qed

text \<open>A review of an exploration passes; the fast run of an implementation does what its structural layer says.\<close>

lemma exploration_passes:
  "\<exists>oc c t. sample_run sample_context l EXPLORATION_INITIAL s = (Inr oc, t) \<and> qo_verdict oc = Verdict_PASS \<and> qo_cycle oc = Some c"
proof -
  have target: "resolve_verify_target demo_target = Inr ''IMPLEMENTATION''"
    by (simp add: resolve_verify_target_def demo_target_def)
  have view: "vb_phase_envelope verify_bundle = None" by (simp add: verify_bundle_def)
  have mode: "\<not> is_fast_mode (Some sample_context)" by (simp add: is_fast_mode_def sample_context_def)
  obtain t s1 where t: "now s = (Inr t, s1)" by (simp add: now_def io_app io_run)
  obtain c s2 where c: "start_cycle demo_lifecycle ''c1'' s1 = (Inr c, s2)" using demo_starts by blast
  let ?cyc = "qa_cycle_state_to_fields c"
  let ?ll = "\<lparr>ll_log = ([], []), ll_inputs = \<lparr>di_review_input = empty_review_input, di_story_ctx = Some sample_context,
      di_qa_cycle_round = qc_round c, di_previous_findings = [], di_arch_references = [], di_evidence_manifest = None\<rparr>,
    ll_sufficiency = None\<rparr>"
  obtain ll fs s3 where layers: "execute_data_layers (demo_system sample_context l) verify_bundle ''AG3-007'' t ?cyc
      exploration_layers ?ll s2 = (Inr (ll, None), s3)" "ll_log ll = (demo_results, fs)"
    using demo_layers [of ?ll l t ?cyc s2] by auto
  obtain d log s4 where d: "reach_decision (demo_system sample_context l) verify_bundle ''AG3-007'' (Some sample_context)
      exploration_layers (demo_results, fs) (ll_sufficiency ll) None t ?cyc s3 = (Inr (log, d), s4)"
    "vd_verdict d = Verdict_PASS" "vd_layer_results d = demo_results" "vd_all_findings d = []"
    using demo_decides by blast
  obtain oc s5 where oc: "conclude (demo_system sample_context l) verify_bundle ''AG3-007'' EXPLORATION_INITIAL []
      exploration_layers c log d s4 = (Inr oc, s5)" "qo_verdict oc = Verdict_PASS" "qo_cycle oc = Some c"
    using demo_concludes [OF d(2-4)] start_cycle_round [OF c] by blast
  show ?thesis
    using oc(2,3)
    by (simp add: sample_run_def run_qa_subflow_def evaluate_terminality_precondition_def run_layers_and_decide_def
        resolve_qa_cycle_state_def target view mode io_app io_run Let_def t c layers d oc(1))
qed

definition fast_context :: story_context where
  "fast_context = sample_context\<lparr>sc_mode := Mode_FAST\<rparr>"

lemma fast_context_sel [simp]: "sc_mode fast_context = Mode_FAST" "sc_story_type fast_context = StoryType_IMPLEMENTATION"
  by (simp_all add: fast_context_def sample_context_def)

lemma demo_is_delivered: "evaluate_implementation_evidence_gate demo_reader StoryType_IMPLEMENTATION demo_delivery demo_change = None"
proof -
  have "case parse_worker_manifest (er_is_instant demo_reader) (er_is_boolean demo_reader) (wire_of demo_worker_manifest) of
      Inl _ \<Rightarrow> False | Inr _ \<Rightarrow> True" by code_simp
  then have "delivered demo_reader demo_delivery"
    by (auto simp: delivered_def demo_delivery_def json_text_roundtrip split: sum.splits)
  moreover have "file_name_of (slashes ''src/a.py'') \<notin> set EXPLORATION_ONLY_FILENAMES" by code_simp
  ultimately show ?thesis by (simp add: evidence_gate_passes demo_change_def)
qed

lemma fast_run:
  assumes "\<And>s. \<exists>u. execute_layer l verify_bundle ''AG3-007'' Kind_STRUCTURAL None (Some fast_context) s = (Inr lr, u)"
  shows "\<exists>oc c t. sample_run fast_context l IMPLEMENTATION_INITIAL s = (Inr oc, t) \<and> qo_cycle oc = Some c
    \<and> qo_verdict oc = (if lr_passed lr then Verdict_PASS else Verdict_FAIL)"
proof -
  have target: "resolve_verify_target demo_target = Inr ''IMPLEMENTATION''"
    by (simp add: resolve_verify_target_def demo_target_def)
  have mode: "is_fast_mode (Some fast_context)" by (simp add: is_fast_mode_def)
  obtain t s1 where t: "now s = (Inr t, s1)" by (simp add: now_def io_app io_run)
  obtain c s2 where c: "start_cycle demo_lifecycle ''c1'' s1 = (Inr c, s2)" using demo_starts by blast
  obtain s3 where layer: "execute_layer l verify_bundle ''AG3-007'' Kind_STRUCTURAL None (Some fast_context) s2 = (Inr lr, s3)"
    using assms by blast
  show ?thesis
    by (simp add: sample_run_def run_qa_subflow_def evaluate_terminality_precondition_def run_fast_floor_def
        target mode demo_is_delivered fast_tests_green_finding_def write_layer_envelope_def floor_result_def
        demo_envelope_stored io_app io_run Let_def t c layer)
qed

lemma clean_fast_run:
  "\<exists>oc c t. sample_run fast_context (clean_layer ''structural'') IMPLEMENTATION_INITIAL s = (Inr oc, t) \<and> qo_cycle oc = Some c
     \<and> qo_verdict oc = Verdict_PASS"
  using fast_run [of "clean_layer ''structural''" "clean_result ''structural''" s]
  by (simp add: clean_layer_runs clean_result_def)

lemma broken_fast_run: "\<exists>oc t. sample_run fast_context (broken_layer ''structural'') IMPLEMENTATION_INITIAL s = (Inr oc, t)"
  using fast_run [of "broken_layer ''structural''" "crashed_result ''structural'' Kind_STRUCTURAL (OtherException ''boom'')" s]
  by (auto simp: execute_layer_def broken_layer_def io_app io_run)

lemma no_pass_without_delivery_witness:
  "\<forall>s. \<exists>oc t. sample_run fast_context (clean_layer ''structural'') IMPLEMENTATION_INITIAL s = (Inr oc, t)
     \<and> qo_verdict oc = Verdict_PASS \<and> delivered demo_reader demo_delivery"
proof
  fix s :: "demo_world st"
  obtain oc t where run: "sample_run fast_context (clean_layer ''structural'') IMPLEMENTATION_INITIAL s = (Inr oc, t)"
    "qo_verdict oc = Verdict_PASS" using clean_fast_run by blast
  from no_pass_without_delivery [OF run(1) [unfolded sample_run_def] _ run(2)] have "delivered demo_reader demo_delivery"
    by (auto simp: io_run)
  with run show "\<exists>oc t. sample_run fast_context (clean_layer ''structural'') IMPLEMENTATION_INITIAL s = (Inr oc, t)
     \<and> qo_verdict oc = Verdict_PASS \<and> delivered demo_reader demo_delivery" by blast
qed

lemma pass_is_earned_witness:
  "\<forall>s. \<exists>oc t. sample_run sample_context (clean_layer ''structural'') EXPLORATION_INITIAL s = (Inr oc, t)
     \<and> qo_verdict oc = Verdict_PASS \<and> last (qo_artifact_refs oc) = ''decision.json''"
proof
  fix s :: "demo_world st"
  obtain oc t where run: "sample_run sample_context (clean_layer ''structural'') EXPLORATION_INITIAL s = (Inr oc, t)"
    "qo_verdict oc = Verdict_PASS" using exploration_passes by blast
  have "vs_load_story_context (demo_system sample_context (clean_layer ''structural'')) (vb_story_dir verify_bundle) s
      = (Inr (Some sample_context), s)" "\<not> is_fast_mode (Some sample_context)"
    by (simp_all add: io_run is_fast_mode_def sample_context_def)
  from pass_is_earned [OF run(1) [unfolded sample_run_def] this run(2)] run
  show "\<exists>oc t. sample_run sample_context (clean_layer ''structural'') EXPLORATION_INITIAL s = (Inr oc, t)
     \<and> qo_verdict oc = Verdict_PASS \<and> last (qo_artifact_refs oc) = ''decision.json''" by blast
qed

lemma crashing_layer_fails_the_run_witness:
  "\<forall>s. \<exists>oc t. sample_run fast_context (broken_layer ''structural'') IMPLEMENTATION_INITIAL s = (Inr oc, t)
     \<and> qo_verdict oc = Verdict_FAIL"
proof
  fix s :: "demo_world st"
  let ?vs = "demo_system fast_context (broken_layer ''structural'')"
  obtain oc t where run: "sample_run fast_context (broken_layer ''structural'') IMPLEMENTATION_INITIAL s = (Inr oc, t)"
    using broken_fast_run by blast
  have load: "vs_load_story_context ?vs (vb_story_dir verify_bundle) s = (Inr (Some fast_context), s)" by (simp add: io_run)
  have "\<exists>e w. ly_evaluate (vs_layer_1 ?vs) c dir i v = (Inl e, w)" for c dir i v
    by (simp add: broken_layer_def io_run)
  from crashing_layer_fails_the_run [OF run [unfolded sample_run_def] _ load _ this]
  have "qo_verdict oc = Verdict_FAIL" by simp
  with run show "\<exists>oc t. sample_run fast_context (broken_layer ''structural'') IMPLEMENTATION_INITIAL s = (Inr oc, t)
     \<and> qo_verdict oc = Verdict_FAIL" by blast
qed


lemma escalation_exact_witness:
  "\<forall>s. \<exists>oc t. sample_run sample_context (clean_layer ''structural'') EXPLORATION_INITIAL s = (Inr oc, t)
     \<and> vd_verdict (qo_decision oc) = Verdict_PASS \<and> \<not> qo_escalated oc"
proof
  fix s :: "demo_world st"
  obtain oc c t where run: "sample_run sample_context (clean_layer ''structural'') EXPLORATION_INITIAL s = (Inr oc, t)"
    "qo_cycle oc = Some c" "qo_verdict oc = Verdict_PASS" using exploration_passes by blast
  have no_stop: "evaluate_terminality_precondition (demo_system sample_context (clean_layer ''structural'')) verify_bundle
      ''AG3-007'' (Some sample_context) EXPLORATION_INITIAL s = (Inr None, s)"
    by (simp add: evaluate_terminality_precondition_def io_run)
  have "vs_load_story_context (demo_system sample_context (clean_layer ''structural'')) (vb_story_dir verify_bundle) s
      = (Inr (Some sample_context), s)" "\<not> is_fast_mode (Some sample_context)"
    by (simp_all add: io_run is_fast_mode_def sample_context_def)
  from escalation_exact [OF run(1) [unfolded sample_run_def] this] no_stop run(3)
  have "vd_verdict (qo_decision oc) = Verdict_PASS \<and> \<not> qo_escalated oc" by (auto split: if_splits)
  with run(1) show "\<exists>oc t. sample_run sample_context (clean_layer ''structural'') EXPLORATION_INITIAL s = (Inr oc, t)
     \<and> vd_verdict (qo_decision oc) = Verdict_PASS \<and> \<not> qo_escalated oc" by blast
qed

lemma fast_floor_exact_witness:
  "\<forall>s. \<exists>oc t. sample_run fast_context (clean_layer ''structural'') IMPLEMENTATION_INITIAL s = (Inr oc, t)
     \<and> qo_verdict oc = Verdict_PASS \<and> qo_artifact_refs oc = [''structural.json'']"
proof
  fix s :: "demo_world st"
  obtain oc c t where run: "sample_run fast_context (clean_layer ''structural'') IMPLEMENTATION_INITIAL s = (Inr oc, t)"
    "qo_cycle oc = Some c" "qo_verdict oc = Verdict_PASS" using clean_fast_run by blast
  have "vs_load_story_context (demo_system fast_context (clean_layer ''structural'')) (vb_story_dir verify_bundle) s
      = (Inr (Some fast_context), s)" "is_fast_mode (Some fast_context)"
    by (simp_all add: io_run is_fast_mode_def)
  moreover have "evaluate_terminality_precondition (demo_system fast_context (clean_layer ''structural'')) verify_bundle
      ''AG3-007'' (Some fast_context) IMPLEMENTATION_INITIAL s = (Inr None, s)"
    by (simp add: evaluate_terminality_precondition_def demo_is_delivered io_app io_run)
  ultimately have "qo_artifact_refs oc = [''structural.json'']"
    using fast_floor_exact [OF run(1) [unfolded sample_run_def]] by blast
  with run show "\<exists>oc t. sample_run fast_context (clean_layer ''structural'') IMPLEMENTATION_INITIAL s = (Inr oc, t)
     \<and> qo_verdict oc = Verdict_PASS \<and> qo_artifact_refs oc = [''structural.json'']" by blast
qed

end
