(* ===== verification/Adversarial_Verdict.thy ===== *)
theory Adversarial_Verdict
  imports Adversarial_Props Qa_Subflow_Props
begin

text \<open>
  The guarantees of the adversarial layer: when it passes, that its telemetry is exact, and which
  files the promotion of its tests can touch.
\<close>

section \<open>The verdict\<close>

lemma judged_verdict:
  assumes "finished q rr l"
  shows "lr_passed (rr_layer_result rr) \<longleftrightarrow> 1 \<le> aa_tests_executed (rr_artifact rr)
      \<and> (\<forall>x \<in> set (aa_tests (rr_artifact rr)). test_passed x)
      \<and> sf_adversarial_sparring_events (aa_sparring (rr_artifact rr)) = 1
      \<and> (\<forall>r \<in> set (aa_mandatory_target_results (rr_artifact rr)). covered_target (rr_artifact rr) r)"
    and "distinct (map mr_target_id (aa_mandatory_target_results (rr_artifact rr)))"
    and "mr_target_id ` set (aa_mandatory_target_results (rr_artifact rr)) = ts_target_id ` set (ro_expected q)"
proof -
  obtain sx pm failure srcs
    where a: "build_result_artifact sx (ro_run_id q) (aa_sparring (rr_artifact rr)) pm
        (aa_telemetry (rr_artifact rr)) (map ts_target_id (ro_expected q)) = Inr (rr_artifact rr)"
      and lr: "rr_layer_result rr = derive_layer_result (rr_artifact rr) failure srcs"
      and sp: "sf_adversarial_sparring_events (aa_sparring (rr_artifact rr)) = (if failure = None then 1 else 0)"
    using assms unfolding finished_def judged_def by blast
  let ?rs = "aa_mandatory_target_results (rr_artifact rr)"
  have ids: "distinct (map mr_target_id ?rs)" "mr_target_id ` set ?rs = ts_target_id ` set (ro_expected q)"
    and failed: "aa_tests_failed (rr_artifact rr) = length (filter (\<lambda>t. \<not> test_passed t) (aa_tests (rr_artifact rr)))"
    by (rule build_result_artifactE [OF a], simp, rule build_result_artifactE [OF a], simp only: set_map,
        rule build_result_artifactE [OF a], simp)
  show "distinct (map mr_target_id ?rs)" "mr_target_id ` set ?rs = ts_target_id ` set (ro_expected q)" by (rule ids)+
  show "lr_passed (rr_layer_result rr) \<longleftrightarrow> 1 \<le> aa_tests_executed (rr_artifact rr)
      \<and> (\<forall>x \<in> set (aa_tests (rr_artifact rr)). test_passed x)
      \<and> sf_adversarial_sparring_events (aa_sparring (rr_artifact rr)) = 1 \<and> (\<forall>r \<in> set ?rs. covered_target (rr_artifact rr) r)"
    unfolding lr derived_verdict [OF ids(1) failed] sp by (cases "failure = None") simp_all
qed

text \<open>
  C36. The verdict of the adversarial layer is exact: a run that returns passes if and only if at
  least one test was executed, every test passed, the one mandatory sparring call took place, and
  every mandatory target of the reviewers was answered: by tests of its own that all pass, or by a
  stated reason why it cannot be tested.
\<close>
theorem adversarial_verdict_exact:
  assumes "run_adversarial_runtime ar q s = (Inr rr, t)"
  shows "lr_passed (rr_layer_result rr) \<longleftrightarrow>
     1 \<le> aa_tests_executed (rr_artifact rr)
     \<and> (\<forall>x \<in> set (aa_tests (rr_artifact rr)). py_upper (tt_outcome x) = ''PASS'')
     \<and> sf_adversarial_sparring_events (aa_sparring (rr_artifact rr)) = 1
     \<and> (\<forall>src \<in> set (ro_expected q). \<exists>r \<in> set (aa_mandatory_target_results (rr_artifact rr)).
         mr_target_id r = ts_target_id src
         \<and> (py_upper (mr_status r) = ''TESTED''
              \<and> (\<exists>x \<in> set (aa_tests (rr_artifact rr)). tt_target_id x = Some (ts_target_id src)
                   \<and> py_upper (tt_outcome x) = ''PASS'')
            \<or> py_upper (mr_status r) = ''UNRESOLVABLE'' \<and> (\<exists>why. mr_reason r = Some why \<and> \<not> blank why)))"
proof -
  obtain l where l: "finished q rr l" using run_judged [OF assms] .
  let ?rs = "aa_mandatory_target_results (rr_artifact rr)"
  note ids = judged_verdict(2,3) [OF l]
  have cover: "(\<forall>r \<in> set ?rs. P (mr_target_id r) r)
      \<longleftrightarrow> (\<forall>src \<in> set (ro_expected q). \<exists>r \<in> set ?rs. mr_target_id r = ts_target_id src \<and> P (ts_target_id src) r)" for P
  proof -
    have "(\<forall>r \<in> set ?rs. P (mr_target_id r) r) \<longleftrightarrow> (\<forall>i \<in> mr_target_id ` set ?rs. \<exists>r \<in> set ?rs. mr_target_id r = i \<and> P i r)"
      using ids(1) unfolding distinct_map inj_on_def by (simp only: ball_simps) metis
    also have "\<dots> \<longleftrightarrow> (\<forall>src \<in> set (ro_expected q). \<exists>r \<in> set ?rs. mr_target_id r = ts_target_id src \<and> P (ts_target_id src) r)"
      unfolding ids(2) by (rule ball_simps)
    finally show ?thesis .
  qed
  let ?P = "\<lambda>i r. py_upper (mr_status r) = ''TESTED''
         \<and> (\<exists>x \<in> set (aa_tests (rr_artifact rr)). tt_target_id x = Some i \<and> py_upper (tt_outcome x) = ''PASS'')
       \<or> py_upper (mr_status r) = ''UNRESOLVABLE'' \<and> (\<exists>why. mr_reason r = Some why \<and> \<not> blank why)"
  have passing: "covered_target (rr_artifact rr) r \<longleftrightarrow> ?P (mr_target_id r) r"
    if "\<forall>x \<in> set (aa_tests (rr_artifact rr)). py_upper (tt_outcome x) = ''PASS''" for r
    using that by (auto simp: covered_target_def test_passed_def)
  define A where "A \<longleftrightarrow> (\<forall>r \<in> set ?rs. covered_target (rr_artifact rr) r)"
  define B where "B \<longleftrightarrow> (\<forall>r \<in> set ?rs. ?P (mr_target_id r) r)"
  have "(\<forall>x \<in> set (aa_tests (rr_artifact rr)). py_upper (tt_outcome x) = ''PASS'') \<Longrightarrow> A \<longleftrightarrow> B"
    unfolding A_def B_def by (intro ball_cong refl passing) blast
  then show ?thesis
    unfolding judged_verdict(1) [OF l] cover [of ?P, symmetric] test_passed_def A_def [symmetric] B_def [symmetric] by auto
qed

section \<open>The lifecycle events\<close>

text \<open>
  The sink behind the wrapped emitter, as a log in the state: an event that is accepted is appended, one
  that is refused is not, and none of the other ports of the run touches the log.
\<close>

definition event_sink :: "'x adversarial_runtime \<Rightarrow> ('x qa_state \<Rightarrow> adversarial_event list) \<Rightarrow> bool" where
  "event_sink ar log \<longleftrightarrow>
     (\<forall>e s. log (snd (ar_emitter ar e s)) = log s @ (if isl (fst (ar_emitter ar e s)) then [] else [e]))
   \<and> (\<forall>r p s. log (snd (ar_complete ar r p s)) = log s)
   \<and> (\<forall>f r s. ar_resolver ar = Some f \<longrightarrow> log (snd (f r s)) = log s)
   \<and> (\<forall>e s. log (snd (store_envelope (ar_artifact_manager ar) e s)) = log s)
   \<and> (\<forall>tree s. log (ar_set_files ar tree s) = log s) \<and> (\<forall>s. log (snd (now s)) = log s)"

text \<open>Across every step, the log grows by the events the tally counts, all of the story and run.\<close>

definition recorded_in :: "('x qa_state \<Rightarrow> adversarial_event list) \<Rightarrow> runtime_order
    \<Rightarrow> lifecycle \<times> 'x qa_state \<Rightarrow> lifecycle \<times> 'x qa_state \<Rightarrow> bool" where
  "recorded_in log q x y \<longleftrightarrow> (\<exists>es. log (snd y) = log (snd x) @ es
     \<and> (\<forall>ty. lf_counts (fst y) ty = lf_counts (fst x) ty + length (filter (\<lambda>e. xe_type e = ty) es))
     \<and> (\<forall>e \<in> set es. xe_story_id e = ro_story_id q \<and> xe_run_id e = ro_run_id q))"

interpretation sink: frame "recorded_in log q" for log q
proof unfold_locales
  fix s show "recorded_in log q s s" by (simp add: recorded_in_def)
next
  fix s t u assume "recorded_in log q s t" "recorded_in log q t u"
  then obtain es fs where "log (snd t) = log (snd s) @ es" "log (snd u) = log (snd t) @ fs"
    "\<forall>ty. lf_counts (fst t) ty = lf_counts (fst s) ty + length (filter (\<lambda>e. xe_type e = ty) es)"
    "\<forall>ty. lf_counts (fst u) ty = lf_counts (fst t) ty + length (filter (\<lambda>e. xe_type e = ty) fs)"
    "\<forall>e \<in> set es \<union> set fs. xe_story_id e = ro_story_id q \<and> xe_run_id e = ro_run_id q"
    unfolding recorded_in_def by blast
  then show "recorded_in log q s u" unfolding recorded_in_def by (intro exI [of _ "es @ fs"]) simp
qed

lemma sink_outside:
  assumes "\<And>s. log (snd (m s)) = log s"
  shows "sink.keeps log q (outside m)"
  unfolding sink.keeps_def
proof
  fix x :: "lifecycle \<times> 'a qa_state"
  obtain l s where x: "x = (l, s)" by (cases x)
  obtain r t where m: "m s = (r, t)" by (cases "m s")
  have "log t = log s" using assms [of s] m by simp
  then show "recorded_in log q x (snd (outside m x))" by (simp add: x outside_def m recorded_in_def)
qed

lemma sink_emit:
  assumes "event_sink ar log" and "xe_story_id e = ro_story_id q" "xe_run_id e = ro_run_id q"
  shows "sink.keeps log q (emit_counted (ar_emitter ar) e)"
  unfolding sink.keeps_def
proof
  fix x :: "lifecycle \<times> 'a qa_state"
  obtain l s where x: "x = (l, s)" by (cases x)
  obtain r t where r: "ar_emitter ar e s = (r, t)" by (cases "ar_emitter ar e s")
  have log: "log t = log s @ (if isl r then [] else [e])"
    using assms(1) r unfolding event_sink_def by (metis fst_conv snd_conv)
  show "recorded_in log q x (snd (emit_counted (ar_emitter ar) e x))"
    using log assms(2,3)
    by (cases r) (auto simp: x emit_counted_def seq_io_def bind_io_def outside_def r modify_def recorded_in_def)
qed

lemma sink_times:
  "event_sink ar log \<Longrightarrow> xe_story_id e = ro_story_id q \<Longrightarrow> xe_run_id e = ro_run_id q \<Longrightarrow>
    sink.keeps log q (emit_times n (ar_emitter ar) e)"
  by (induction n) (auto intro: sink.keeps_seq sink_emit)

lemma lifecycle_event_sel [simp]:
  "xe_type (lifecycle_event ty sid rid) = ty" "xe_story_id (lifecycle_event ty sid rid) = sid" "xe_run_id (lifecycle_event ty sid rid) = rid"
  by (simp_all add: lifecycle_event_def)

lemma sink_end:
  assumes "event_sink ar log"
  shows "sink.keeps log q (emit_end_once (ar_emitter ar) (ro_story_id q) (ro_run_id q))"
proof -
  have flag: "sink.keeps log q (modify (\<lambda>(l, s). (l\<lparr>lf_end_emitted := True\<rparr>, s)))"
    by (rule sink.keeps_modify) (simp add: recorded_in_def split: prod.split)
  show ?thesis
    unfolding emit_end_once_def
    by (rule sink.keeps_bind) (simp_all add: sink.keeps_seq [OF flag] sink_emit [OF assms])
qed

lemma sink_transport: "sink.keeps log q m \<Longrightarrow> sink.keeps log q (sparring_transport before after m)"
  unfolding sparring_transport_def by (rule sink.keeps_try) (simp_all split: sum.split)

lemma sink_sparring:
  assumes sink: "event_sink ar log"
  shows "sink.keeps log q (sparring_or_failure ar q)"
proof -
  have "sink.keeps log q (outside (ar_complete ar r p))" for r p
    using sink by (intro sink_outside) (simp add: event_sink_def)
  moreover have "sink.keeps log q (case ar_resolver ar of None \<Rightarrow> ret ADVERSARIAL_SPARRING_ROLE
      | Some f \<Rightarrow> outside (f ADVERSARIAL_SPARRING_ROLE))"
    using sink by (cases "ar_resolver ar") (auto simp: event_sink_def intro!: sink_outside)
  ultimately show ?thesis
    unfolding sparring_or_failure_def run_mandatory_sparring_def
    by (auto intro!: sink.keeps_try sink.keeps_bind sink.keeps_seq sink_transport sink_emit [OF sink] split: sum.splits exn.splits)
qed

lemma sink_conclude:
  assumes sink: "event_sink ar log"
  shows "sink.keeps log q (conclude_runtime ar q sx sparring failure decisions promotion)"
proof -
  have stored: "log (snd (materialize_adversarial_artifact (ar_artifact_manager ar) a n s)) = log s" for a n s
    using sink by (auto simp: materialize_adversarial_artifact_def bind_io_def event_sink_def split: prod.split sum.split)
      (metis snd_conv)+
  show ?thesis
    unfolding conclude_runtime_def
    by (intro sink.keeps_seq sink.keeps_bind sink_end [OF sink] sink.keeps_lift_sum sink.keeps_gets sink.keeps_ret
        sink_outside stored)
qed

lemma sink_run:
  assumes sink: "event_sink ar log"
  shows "sink.keeps log q (runtime_in_lifecycle ar q)"
proof -
  have files: "sink.keeps log q (promote_in_files ar q ts)" for ts
    unfolding promote_in_files_def
    by (rule sink_outside) (use sink in \<open>auto simp: event_sink_def split: prod.split\<close>)
  have tree: "sink.keeps log q (outside (gets (ar_files ar)))" by (rule sink_outside) (simp add: gets_def)
  show ?thesis
    unfolding runtime_in_lifecycle_def runtime_body_def Let_def
    by (intro sink.keeps_seq sink.keeps_try sink.keeps_bind sink_emit [OF sink] sink_times [OF sink] sink_end [OF sink]
        sink_sparring [OF sink] sink_conclude [OF sink] files tree sink.keeps_lift_sum) simp_all
qed

text \<open>
  C37. The lifecycle of the adversarial run is recorded once and counted exactly. Whatever fails on the
  way, at most one start and one end event are emitted, no end without a start, and once a start was
  emitted the end is tried. A run that returns has emitted both, one creation event for each test,
  one execution event for each test it says to have run and one sparring event for its sparring call,
  and these numbers are the telemetry of its artifact. And these are the events that the sink behind
  the emitter received: for every log that an accepted event is appended to and the other ports leave
  alone, the run appends events of its own story and run only, of each type as many as were counted.
\<close>
theorem adversarial_lifecycle_exact:
  assumes "runtime_in_lifecycle ar q (new_lifecycle, s) = (r, (l, t))"
  shows "lf_counts l ADVERSARIAL_START \<le> 1 \<and> lf_counts l ADVERSARIAL_END \<le> lf_counts l ADVERSARIAL_START
    \<and> (lf_counts l ADVERSARIAL_START = 1 \<longrightarrow> lf_end_emitted l)
    \<and> (\<forall>rr. r = Inr rr \<longrightarrow> lf_counts l ADVERSARIAL_START = 1 \<and> lf_counts l ADVERSARIAL_END = 1
        \<and> lf_counts l ADVERSARIAL_TEST_CREATED = length (aa_tests (rr_artifact rr))
        \<and> lf_counts l ADVERSARIAL_TEST_EXECUTED = aa_tests_executed (rr_artifact rr)
        \<and> lf_counts l ADVERSARIAL_SPARRING = sf_adversarial_sparring_events (aa_sparring (rr_artifact rr))
        \<and> aa_telemetry (rr_artifact rr) = counts_of l)
    \<and> (\<forall>log. event_sink ar log \<longrightarrow> (\<exists>es. log t = log s @ es
        \<and> (\<forall>ty. length (filter (\<lambda>e. xe_type e = ty) es) = lf_counts l ty)
        \<and> (\<forall>e \<in> set es. xe_story_id e = ro_story_id q \<and> xe_run_id e = ro_run_id q)))"
proof -
  have "\<exists>es. log t = log s @ es \<and> (\<forall>ty. length (filter (\<lambda>e. xe_type e = ty) es) = lf_counts l ty)
      \<and> (\<forall>e \<in> set es. xe_story_id e = ro_story_id q \<and> xe_run_id e = ro_run_id q)" if "event_sink ar log" for log
    using sink.keepsD [OF sink_run [OF that] assms] by (auto simp: recorded_in_def new_lifecycle_def)
  moreover have "lf_counts l ADVERSARIAL_START \<le> 1 \<and> lf_counts l ADVERSARIAL_END \<le> lf_counts l ADVERSARIAL_START
    \<and> (lf_counts l ADVERSARIAL_START = 1 \<longrightarrow> lf_end_emitted l)
    \<and> (\<forall>rr. r = Inr rr \<longrightarrow> lf_counts l ADVERSARIAL_START = 1 \<and> lf_counts l ADVERSARIAL_END = 1
        \<and> lf_counts l ADVERSARIAL_TEST_CREATED = length (aa_tests (rr_artifact rr))
        \<and> lf_counts l ADVERSARIAL_TEST_EXECUTED = aa_tests_executed (rr_artifact rr)
        \<and> lf_counts l ADVERSARIAL_SPARRING = sf_adversarial_sparring_events (aa_sparring (rr_artifact rr))
        \<and> aa_telemetry (rr_artifact rr) = counts_of l)"
    using wp_runtime_in_lifecycle [of ar q s] assms
    by (cases r) (auto simp: wp_def closed_def finished_def exact_counts_def counts_of_def)
  ultimately show ?thesis by blast
qed

section \<open>Promotion\<close>

text \<open>What one test may do to the files.\<close>

definition promoted_to :: "string \<Rightarrow> sandbox_test \<Rightarrow> string" where
  "promoted_to tests_root t = path_join (if test_passed t then tests_root else path_join tests_root QUARANTINE_DIRNAME)
     (path_name (tt_sandbox_relpath t))"

lemma file_at_update:
  "file_at (AList.update (normpath d) content tree) p = (if normpath p = normpath d then Some content else file_at tree p)"
  by (simp add: file_at_def update_conv')

lemma copy_intoD:
  assumes "copy_into tree source dest_root relpath = Inr (tree', d)"
  obtains content where "file_at tree source = Some content" "d = path_join dest_root (path_name relpath)"
    "tree' = AList.update (normpath d) content tree"
  using assms by (auto simp: copy_into_def Let_def split: if_splits option.splits)

lemma dry_run_ok:
  assumes "dry_run_error py tree p = None"
  obtains content where "file_at tree p = Some (Some content)" "pp_syntax_error py content = None"
  using assms by (auto simp: dry_run_error_def split: option.splits)

lemma map_sum_Inr_iff: "map_sum id f x = Inr y \<longleftrightarrow> (\<exists>z. x = Inr z \<and> y = f z)"
  by (cases x) auto

lemma decide_promotionD:
  assumes "decide_promotion py sb root existing tree t = Inr (tree', d)"
  shows "pd_test d = t
    \<and> (if pd_path d = Path_EPHEMERAL then tree' = tree
       else tt_schema_valid t \<and> tt_qualified_name t \<notin> set existing
         \<and> pd_path d = (if test_passed t then Path_SUITE else Path_QUARANTINE)
         \<and> (\<exists>content. tree' = AList.update (normpath (promoted_to root t)) (Some content) tree \<and> pp_syntax_error py content = None))"
proof -
  let ?src = "path_join sb (tt_sandbox_relpath t)"
  consider (kept) "tree' = tree" "d = ephemeral t (pd_reason d)"
    | (copied) dest p why where "tt_schema_valid t" "dry_run_error py tree ?src = None" "tt_qualified_name t \<notin> set existing"
      "copy_into tree ?src (if test_passed t then root else path_join root QUARANTINE_DIRNAME) (tt_sandbox_relpath t)
        = Inr (tree', dest)"
      "d = \<lparr>pd_test = t, pd_path = (if test_passed t then Path_SUITE else Path_QUARANTINE), pd_reason = why, pd_destination = p\<rparr>"
  proof (cases "tt_schema_valid t \<and> is_file tree ?src \<and> dry_run_error py tree ?src = None \<and> tt_qualified_name t \<notin> set existing")
    case True
    then show ?thesis
      using assms copied by (cases "test_passed t") (auto simp: decide_promotion_def Let_def map_sum_Inr_iff)
  next
    case False
    then show ?thesis
      using assms kept by (auto simp: decide_promotion_def ephemeral_def Let_def split: if_splits option.splits)
  qed
  then show ?thesis
  proof cases
    case kept
    then have "pd_test d = t" "pd_path d = Path_EPHEMERAL" by (metis ephemeral_def promotion_decision.select_convs)+
    then show ?thesis using kept(1) by simp
  next
    case copied
    obtain content where content: "file_at tree ?src = Some (Some content)" "pp_syntax_error py content = None"
      using dry_run_ok [OF copied(2)] .
    have "tree' = AList.update (normpath (promoted_to root t)) (Some content) tree"
      using copy_intoD [OF copied(4)] content(1) unfolding promoted_to_def by (metis option.inject)
    then show ?thesis using copied content(2) by auto
  qed
qed

text \<open>A changed file is the destination of a promoted test and holds a text that parses.\<close>

definition promoted_file :: "python_parser \<Rightarrow> string \<Rightarrow> string list \<Rightarrow> sandbox_test list \<Rightarrow> project_tree \<Rightarrow> string \<Rightarrow> bool" where
  "promoted_file py root existing ts tree p \<longleftrightarrow>
     (\<exists>t \<in> set ts. tt_schema_valid t \<and> tt_qualified_name t \<notin> set existing \<and> normpath p = normpath (promoted_to root t))
     \<and> (\<exists>content. file_at tree p = Some (Some content) \<and> pp_syntax_error py content = None)"

lemma promote_tests_files:
  assumes "promote_tests py sb root existing tree ts = (r, tree')"
  shows "file_at tree' p = file_at tree p \<or> promoted_file py root existing ts tree' p"
  using assms
proof (induction ts arbitrary: existing tree r)
  case (Cons t ts)
  show ?case
  proof (cases "decide_promotion py sb root existing tree t")
    case (Inl e)
    then show ?thesis using Cons.prems by simp
  next
    case (Inr td)
    obtain tree1 d where td: "td = (tree1, d)" by (cases td)
    note dec = decide_promotionD [OF Inr [unfolded td]]
    obtain r' where rest: "promote_tests py sb root (if pd_path d = Path_EPHEMERAL then existing else tt_qualified_name t # existing)
        tree1 ts = (r', tree')"
      using Cons.prems Inr td by (auto simp: Let_def split: prod.splits)
    from Cons.IH [OF rest] show ?thesis
    proof
      assume "promoted_file py root (if pd_path d = Path_EPHEMERAL then existing else tt_qualified_name t # existing) ts tree' p"
      then show ?thesis by (auto simp: promoted_file_def split: if_splits)
    next
      assume same: "file_at tree' p = file_at tree1 p"
      show ?thesis
      proof (cases "file_at tree1 p = file_at tree p")
        case False
        then have "promoted_file py root existing (t # ts) tree1 p"
          using dec by (auto simp: promoted_file_def file_at_update split: if_splits)
        then show ?thesis using same by (simp add: promoted_file_def)
      qed (use same in \<open>simp\<close>)
    qed
  qed
qed simp

lemma promote_tests_decisions:
  assumes "promote_tests py sb root existing tree ts = (Inr ds, tree')"
  shows "map pd_test ds = ts"
  using assms
proof (induction ts arbitrary: existing tree ds)
  case (Cons t ts)
  obtain tree1 d where td: "decide_promotion py sb root existing tree t = Inr (tree1, d)"
    using Cons.prems by (auto split: sum.splits)
  then obtain ds' where "promote_tests py sb root (if pd_path d = Path_EPHEMERAL then existing else tt_qualified_name t # existing)
      tree1 ts = (Inr ds', tree')" "ds = d # ds'"
    using Cons.prems td by (auto simp: Let_def map_sum_Inr_iff split: prod.splits)
  then show ?case using Cons.IH decide_promotionD [OF td] by simp
qed simp

lemma promotion_paths_partition:
  "pm_promoted_to_suite (promotion_summary_of ds) + pm_promoted_to_quarantine (promotion_summary_of ds)
     + pm_not_promoted (promotion_summary_of ds) = length ds"
proof (induction ds)
  case (Cons d ds)
  then show ?case by (cases "pd_path d") (simp_all add: promotion_summary_of_def)
qed (simp add: promotion_summary_of_def)

text \<open>
  C38. Promotion is confined: whether or not it comes to its end, a file of the project differs
  afterwards only if some test claimed to be valid, under a name no test of the suite bears, has that
  file as its destination, directly in the test root for a test that passed and directly in the
  quarantine for one that failed; and the file then holds a text that parses. When it comes to its
  end there is one decision for each test, in order, and the three counts add up to their number.
\<close>
theorem promotion_confined:
  assumes "promote_sandbox_tests py sandbox tests_root tree ts = (r, tree')"
  shows "(\<forall>p. file_at tree' p \<noteq> file_at tree p \<longrightarrow>
        (\<exists>t \<in> set ts. tt_schema_valid t \<and> tt_qualified_name t \<notin> set (existing_qualified_names py tree tests_root)
          \<and> normpath p = normpath (path_join
              (if test_passed t then tests_root else path_join tests_root ''adversarial_quarantine'')
              (path_name (tt_sandbox_relpath t))))
        \<and> (\<exists>content. file_at tree' p = Some (Some content) \<and> pp_syntax_error py content = None))
    \<and> (\<forall>ds pm. r = Inr (ds, pm) \<longrightarrow> map pd_test ds = ts
        \<and> pm_promoted_to_suite pm + pm_promoted_to_quarantine pm + pm_not_promoted pm = length ts)"
proof -
  obtain q where q: "promote_tests py sandbox tests_root (existing_qualified_names py tree tests_root) tree ts = (q, tree')"
    and r: "r = map_sum id (\<lambda>ds. (ds, promotion_summary_of ds)) q"
    using assms by (auto simp: promote_sandbox_tests_def split: prod.splits)
  have "promoted_file py tests_root (existing_qualified_names py tree tests_root) ts tree' p"
    if "file_at tree' p \<noteq> file_at tree p" for p
    using promote_tests_files [OF q] that by blast
  then have files: "\<forall>p. file_at tree' p \<noteq> file_at tree p \<longrightarrow>
      promoted_file py tests_root (existing_qualified_names py tree tests_root) ts tree' p" by blast
  have ends: "map pd_test ds = ts \<and> pm_promoted_to_suite pm + pm_promoted_to_quarantine pm + pm_not_promoted pm = length ts"
    if "r = Inr (ds, pm)" for ds pm
  proof -
    have "q = Inr ds" "pm = promotion_summary_of ds" using that r by (cases q; auto)+
    then show ?thesis
      using promote_tests_decisions q promotion_paths_partition [of ds] by (metis length_map)
  qed
  show ?thesis
    using files ends unfolding promoted_file_def promoted_to_def QUARANTINE_DIRNAME_def by blast
qed

text \<open>
  The name a test gives itself decides whether it is a duplicate, its file name where it goes: a test
  under a new name replaces an existing test file, and the file may come from outside the sandbox.
\<close>

definition any_python :: python_parser where
  "any_python = \<lparr>pp_syntax_error = (\<lambda>_. None), pp_functions = (\<lambda>_. [''test_f''])\<rparr>"

definition demo_test :: "string \<Rightarrow> string \<Rightarrow> string \<Rightarrow> sandbox_test" where
  "demo_test relpath name outcome = \<lparr>tt_sandbox_relpath = relpath, tt_qualified_name = name, tt_outcome = outcome,
     tt_schema_valid = True, tt_target_id = None\<rparr>"

definition demo_tree :: project_tree where
  "demo_tree = [(''/w/tests/test_a.py'', Some ''old''), (''/w/sb/test_a.py'', Some ''new''), (''/w/src/secret.py'', Some ''s'')]"

lemma promotion_overwrites_an_existing_test:
  "file_at (snd (promote_sandbox_tests any_python ''/w/sb'' ''/w/tests'' demo_tree [demo_test ''test_a.py'' ''mine'' ''PASS'']))
     ''/w/tests/test_a.py'' = Some (Some ''new'')"
  "file_at (snd (promote_sandbox_tests any_python ''/w/sb'' ''/w/tests'' demo_tree [demo_test ''../src/secret.py'' ''mine'' ''PASS'']))
     ''/w/tests/secret.py'' = Some (Some ''s'')"
  by code_simp+

lemma promotion_confined_witness:
  "\<exists>r tree'. promote_sandbox_tests any_python ''/w/sb'' ''/w/tests'' demo_tree [demo_test ''test_a.py'' ''mine'' ''FAIL''] = (r, tree')
     \<and> file_at tree' ''/w/tests/adversarial_quarantine/test_a.py'' = Some (Some ''new'')
     \<and> file_at tree' ''/w/src/secret.py'' = Some (Some ''s'')"
proof -
  obtain r tree' where p: "promote_sandbox_tests any_python ''/w/sb'' ''/w/tests'' demo_tree [demo_test ''test_a.py'' ''mine'' ''FAIL''] = (r, tree')"
    by (cases "promote_sandbox_tests any_python ''/w/sb'' ''/w/tests'' demo_tree [demo_test ''test_a.py'' ''mine'' ''FAIL'']")
  have "normpath ''/w/src/secret.py'' \<noteq> normpath (path_join (path_join ''/w/tests'' ''adversarial_quarantine'') (path_name ''test_a.py''))"
    by code_simp
  moreover have "\<not> test_passed (demo_test ''test_a.py'' ''mine'' ''FAIL'')" "tt_sandbox_relpath (demo_test ''test_a.py'' ''mine'' ''FAIL'') = ''test_a.py''"
    by code_simp+
  ultimately have "file_at tree' ''/w/src/secret.py'' = file_at demo_tree ''/w/src/secret.py''"
    using promotion_confined [OF p, THEN conjunct1, rule_format, of "''/w/src/secret.py''"] by fastforce
  moreover have "file_at demo_tree ''/w/src/secret.py'' = Some (Some ''s'')" by code_simp
  moreover have "file_at (snd (promote_sandbox_tests any_python ''/w/sb'' ''/w/tests'' demo_tree [demo_test ''test_a.py'' ''mine'' ''FAIL'']))
     ''/w/tests/adversarial_quarantine/test_a.py'' = Some (Some ''new'')"
    by code_simp
  ultimately show ?thesis using p by simp
qed

section \<open>A run at work\<close>

definition demo_result_file :: json where
  "demo_result_file = JObj [(''story_id'', JStr ''AG3-007''), (''tests_executed'', JInt 1),
     (''tests'', JList [JObj [(''sandbox_relpath'', JStr ''test_a.py''), (''qualified_name'', JStr ''mine''),
        (''outcome'', JStr ''PASS''), (''target_id'', JStr ''qa_review.empty_input'')]]),
     (''mandatory_target_results'', JList [JObj [(''target_id'', JStr ''qa_review.empty_input''), (''status'', JStr ''TESTED'')]])]"

definition demo_coercions :: coercions where
  "demo_coercions = \<lparr>co_int = (\<lambda>w. case w of WNumber n \<Rightarrow> py_int n | _ \<Rightarrow> None),
     co_bool = (\<lambda>w. case w of WBool b \<Rightarrow> Some b | _ \<Rightarrow> None)\<rparr>"

definition demo_sandbox :: project_tree where
  "demo_sandbox = [(''/w/_temp/adversarial/AG3-007/1/result.json'', Some (json_dumps demo_result_file)), (''/w/_temp/adversarial/AG3-007/1/test_a.py'', Some ''new'')]"

text \<open>The events sent are kept in the world, their types by number.\<close>

definition event_types :: "adversarial_event_type list" where
  "event_types = [ADVERSARIAL_START, ADVERSARIAL_END, ADVERSARIAL_SPARRING, ADVERSARIAL_TEST_CREATED, ADVERSARIAL_TEST_EXECUTED,
     ADVERSARIAL_LLM_CALL]"

definition event_code :: "adversarial_event \<Rightarrow> nat \<times> string \<times> string \<times> metadata" where
  "event_code e = ((case xe_type e of ADVERSARIAL_START \<Rightarrow> 0 | ADVERSARIAL_END \<Rightarrow> 1 | ADVERSARIAL_SPARRING \<Rightarrow> 2
     | ADVERSARIAL_TEST_CREATED \<Rightarrow> 3 | ADVERSARIAL_TEST_EXECUTED \<Rightarrow> 4 | ADVERSARIAL_LLM_CALL \<Rightarrow> 5),
     xe_story_id e, xe_run_id e, xe_payload e)"

definition event_of_code :: "nat \<times> string \<times> string \<times> metadata \<Rightarrow> adversarial_event" where
  "event_of_code = (\<lambda>(n, sid, rid, p). \<lparr>xe_type = event_types ! n, xe_story_id = sid, xe_run_id = rid, xe_payload = p\<rparr>)"

lemma event_of_code [simp]: "event_of_code (event_code e) = e"
  by (cases e; cases "xe_type e") (simp_all add: event_of_code_def event_code_def event_types_def numeral_eq_Suc)

definition demo_sent :: "adversarial_event \<Rightarrow> demo_world st \<Rightarrow> demo_world st" where
  "demo_sent e s = s\<lparr>st_world := (st_world s)\<lparr>dw_sent := dw_sent (st_world s) @ [event_code e]\<rparr>\<rparr>"

definition demo_emit :: "unit demo_world_ext subflow_world_ext event_emitter" where
  "demo_emit e = modify (demo_sent e)"

definition demo_log :: "demo_world st \<Rightarrow> adversarial_event list" where
  "demo_log s = map event_of_code (dw_sent (st_world s))"

definition demo_runtime :: "unit demo_world_ext subflow_world_ext adversarial_runtime" where
  "demo_runtime = \<lparr>ar_artifact_manager = demo_artifacts, ar_emitter = demo_emit, ar_complete = (\<lambda>_ _. ret ''none''),
     ar_resolver = None, ar_files = (\<lambda>_. demo_sandbox), ar_set_files = (\<lambda>_ s. s), ar_python = any_python,
     ar_coercions = demo_coercions\<rparr>"

definition demo_source :: adversarial_target_source where
  "demo_source = \<lparr>ts_target_id = ''qa_review.empty_input'', ts_source_result_name = ''qa_review'',
     ts_source_check_id = ''empty_input'', ts_source_artifact_record_key = ''k'', ts_source_finding_index = 0\<rparr>"

definition demo_order :: "int \<Rightarrow> adversarial_target_source \<Rightarrow> runtime_order" where
  "demo_order n src = \<lparr>ro_sandbox_dir = ''/w/_temp/adversarial/AG3-007/1'', ro_tests_root = ''/work/ag3/tests'', ro_story_id = ''AG3-007'', ro_run_id = ''r1'',
     ro_attempt = n, ro_expected = [src]\<rparr>"

definition demo_sx :: sandbox_result where
  "demo_sx = \<lparr>sx_story_id = ''AG3-007'', sx_status = ''PASS'', sx_tests_executed = 1,
     sx_tests = [\<lparr>tt_sandbox_relpath = ''test_a.py'', tt_qualified_name = ''mine'', tt_outcome = ''PASS'',
        tt_schema_valid = True, tt_target_id = Some ''qa_review.empty_input''\<rparr>],
     sx_mandatory_target_results = [\<lparr>mr_target_id = ''qa_review.empty_input'', mr_status = ''TESTED'', mr_test_file = None,
        mr_reason = None\<rparr>], sx_findings = []\<rparr>"

lemma demo_sandbox_read: "read_sandbox_result demo_coercions demo_sandbox ''/w/_temp/adversarial/AG3-007/1'' = Inr demo_sx"
  by code_simp

lemma demo_adversarial_stored:
  assumes "aa_story_id a = ''AG3-007''" "aa_run_id a = ''r1''" "1 \<le> n"
  shows "\<exists>ref u. store_envelope demo_artifacts (adversarial_envelope a n t) s = (Inr ref, u)"
proof -
  have "register_verify_producers g Class_QA ADVERSARIAL_PRODUCER = Some Producer_LLM_REVIEWER" for g
    by (simp add: register_verify_producers_def VERIFY_PRODUCERS_def register_producer_def ADVERSARIAL_PRODUCER_def)
  moreover have "STAGE_ID_PATTERN ''qa-layer-adversarial''"
    by (simp add: STAGE_ID_PATTERN_def lower_ascii_def digit_ascii_def digit_val_def)
  ultimately have "isl (fst (store_envelope demo_artifacts (adversarial_envelope a n t) s)) = False"
    using assms demo_story_id
    by (auto simp: store_envelope_def new_artifact_envelope_def ENVELOPE_SCHEMA_VERSION_def adversarial_envelope_def
        manager_write_def envelope_validate_def registry_validate_def and_then_def demo_artifacts_def write_envelope_def
        reference_from_envelope_def io_app io_run)
  then show ?thesis by (metis isl_def prod.collapse sum.exhaust)
qed

definition demo_answers :: "adversarial_artifact \<Rightarrow> bool" where
  "demo_answers a \<longleftrightarrow> aa_story_id a = ''AG3-007'' \<and> aa_run_id a = ''r1'' \<and> aa_tests_executed a = 1
     \<and> aa_tests a = sx_tests demo_sx \<and> aa_mandatory_target_results a = sx_mandatory_target_results demo_sx"

lemma demo_built:
  "\<exists>a. build_result_artifact demo_sx ''r1'' sp pm tc [''qa_review.empty_input''] = Inr a \<and> demo_answers a \<and> aa_sparring a = sp"
  by (simp add: build_result_artifact_def demo_sx_def unknown_test_targets_def opt_list_def demo_answers_def test_passed_def)

lemma demo_promoted:
  "\<exists>dp tree. promote_sandbox_tests any_python ''/w/_temp/adversarial/AG3-007/1'' ''/work/ag3/tests'' demo_sandbox (sx_tests demo_sx) = (Inr dp, tree)"
proof -
  have "\<not> isl (fst (promote_sandbox_tests any_python ''/w/_temp/adversarial/AG3-007/1'' ''/work/ag3/tests'' demo_sandbox (sx_tests demo_sx)))" by code_simp
  then show ?thesis by (metis isl_def prod.collapse sum.exhaust)
qed

lemma demo_feedback:
  assumes "demo_answers a"
  shows "\<exists>fb. mandatory_target_resolution_feedback a [src] = Inr fb"
proof -
  have "is_fulfilled (sx_tests demo_sx) r" if "r \<in> set (sx_mandatory_target_results demo_sx)" for r
  proof -
    have "list_all (is_fulfilled (sx_tests demo_sx)) (sx_mandatory_target_results demo_sx)" by code_simp
    then show ?thesis using that by (simp add: list_all_iff)
  qed
  then show ?thesis
    using assms by (simp add: mandatory_target_resolution_feedback_def demo_answers_def fulfilled_mandatory_target_ids_def filter_False)
qed

lemma demo_materialized:
  assumes "demo_answers a" and n: "1 \<le> n" and "\<And>ref l t. Q ref (l, t)"
  shows "wp (outside (materialize_adversarial_artifact demo_artifacts a n)) Q E (l, s)"
proof -
  have stored: "\<exists>ref u. store_envelope demo_artifacts (adversarial_envelope a n t) v = (Inr ref, u)" for t v
    using demo_adversarial_stored assms(1) n by (simp add: demo_answers_def)
  show ?thesis
    unfolding wp_outside materialize_adversarial_artifact_def wp_bind
  proof (rule wp_now)
    fix t
    obtain ref u where "store_envelope demo_artifacts (adversarial_envelope a n t) (s\<lparr>st_ticks := Suc (st_ticks s)\<rparr>) = (Inr ref, u)"
      using stored by blast
    then show "wp (store_envelope demo_artifacts (adversarial_envelope a n t)) (\<lambda>x t. Q x (l, t)) (\<lambda>e t. E e (l, t))
        (s\<lparr>st_ticks := Suc (st_ticks s)\<rparr>)" by (simp add: wp_def assms(3))
  qed
qed

lemma demo_emits: "wp (emit_counted demo_emit e) Q E (l, s) = Q () (tally (xe_type e) l, demo_sent e s)"
  by (simp add: emit_counted_def wp_simps wp_outside demo_emit_def)

lemma demo_ends: "wp (emit_end_once demo_emit sid rid) Q E (l, s) =
    (if lf_end_emitted l then Q () (l, s)
     else Q () (tally ADVERSARIAL_END (l\<lparr>lf_end_emitted := True\<rparr>), demo_sent (lifecycle_event ADVERSARIAL_END sid rid) s))"
  by (simp add: emit_end_once_def wp_simps demo_emits)

lemma demo_sparring:
  "wp (sparring_or_failure demo_runtime (demo_order n src)) Q E (l, s)" if "\<And>p l s. sf_adversarial_sparring_events p = 1 \<Longrightarrow> Q (p, None) (l, s)"
  using that
  by (simp add: sparring_or_failure_def run_mandatory_sparring_def demo_runtime_def sparring_transport_def wp_simps wp_outside demo_emits)

lemma demo_order_sel [simp]:
  "ro_sandbox_dir (demo_order n src) = ''/w/_temp/adversarial/AG3-007/1''" "ro_tests_root (demo_order n src) = ''/work/ag3/tests''"
  "ro_story_id (demo_order n src) = ''AG3-007''" "ro_run_id (demo_order n src) = ''r1''" "ro_attempt (demo_order n src) = n"
  "ro_expected (demo_order n src) = [src]"
  by (simp_all add: demo_order_def)

text \<open>Any source of the one target that the sandbox answers.\<close>

definition demo_asked :: "adversarial_target_source \<Rightarrow> bool" where
  "demo_asked src \<longleftrightarrow> ts_target_id src = ''qa_review.empty_input'' \<and> new_target_source src = Inr src"

lemma demo_source_asked: "demo_asked demo_source"
  by code_simp

lemma demo_runtime_sel [simp]:
  "ar_artifact_manager demo_runtime = demo_artifacts" "ar_emitter demo_runtime = demo_emit"
  "ar_files demo_runtime = (\<lambda>_. demo_sandbox)" "ar_set_files demo_runtime = (\<lambda>_ s. s)"
  "ar_python demo_runtime = any_python" "ar_coercions demo_runtime = demo_coercions"
  by (simp_all add: demo_runtime_def)

definition demo_end :: "runtime_result \<Rightarrow> bool" where
  "demo_end rr \<longleftrightarrow> demo_answers (rr_artifact rr) \<and> sf_adversarial_sparring_events (aa_sparring (rr_artifact rr)) = 1"

lemma demo_concluded:
  assumes "sf_adversarial_sparring_events sp = 1" and src: "demo_asked src" and n: "1 \<le> n"
  shows "wp (conclude_runtime demo_runtime (demo_order n src) demo_sx sp f ds pm) (\<lambda>rr _. demo_end rr) (\<lambda>_ _. False) (l, s)"
proof -
  have srcs: "all_or_error (map new_target_source [src]) = Inr [src]" using src by (simp add: demo_asked_def)
  define l' where "l' = (if lf_end_emitted l then l else tally ADVERSARIAL_END (l\<lparr>lf_end_emitted := True\<rparr>))"
  define s' where "s' = (if lf_end_emitted l then s else demo_sent (lifecycle_event ADVERSARIAL_END ''AG3-007'' ''r1'') s)"
  have ends: "wp (emit_end_once demo_emit ''AG3-007'' ''r1'') Q E (l, s) = Q () (l', s')" for Q E
    by (simp add: demo_ends l'_def s'_def)
  obtain a where a: "build_result_artifact demo_sx ''r1'' sp pm (counts_of l') [''qa_review.empty_input''] = Inr a"
    "demo_answers a" "aa_sparring a = sp" using demo_built by blast
  obtain fb where fb: "mandatory_target_resolution_feedback a [src] = Inr fb" using demo_feedback [OF a(2)] by blast
  have "demo_end \<lparr>rr_layer_result = x, rr_artifact = a, rr_promotion_decisions = ds, rr_resolution_feedback = fb,
      rr_artifact_reference = ref\<rparr>" for x ref
    using a(2,3) assms by (simp add: demo_end_def)
  then have rest: "wp (outside (materialize_adversarial_artifact demo_artifacts a n)) (\<lambda>ref. wp
      (bind_io (lift_sum (all_or_error (map new_target_source [src]))) (\<lambda>srcs.
       bind_io (lift_sum (mandatory_target_resolution_feedback a srcs)) (\<lambda>feedback.
       ret \<lparr>rr_layer_result = derive_layer_result a f srcs, rr_artifact = a, rr_promotion_decisions = ds,
         rr_resolution_feedback = feedback, rr_artifact_reference = ref\<rparr>))) (\<lambda>rr _. demo_end rr) (\<lambda>_ _. False))
      (\<lambda>_ _. False) (l', s')"
    by (intro demo_materialized [OF a(2) n]) (simp add: wp_bind wp_lift_sum srcs fb wp_basic del: list.map)
  show ?thesis
    using rest
    by (simp add: conclude_runtime_def wp_seq wp_bind ends wp_basic wp_lift_sum a(1) src [unfolded demo_asked_def])
qed

lemma demo_adversarial_run:
  assumes "demo_asked src" and "1 \<le> n"
  shows "wp (runtime_in_lifecycle demo_runtime (demo_order n src)) (\<lambda>rr _. demo_end rr) (\<lambda>_ _. False) (new_lifecycle, s)"
proof -
  obtain dp tree where promoted: "promote_sandbox_tests any_python ''/w/_temp/adversarial/AG3-007/1'' ''/work/ag3/tests'' demo_sandbox (sx_tests demo_sx) = (Inr dp, tree)"
    using demo_promoted by blast
  have emits: "wp (emit_times n demo_emit e) Q E (l, s) = Q () ((tally (xe_type e) ^^ n) l, (demo_sent e ^^ n) s)" for n e Q E l s
    by (induction n arbitrary: l s) (simp_all add: wp_simps demo_emits funpow_swap1)
  have promotes: "wp (promote_in_files demo_runtime (demo_order n src) (sx_tests demo_sx)) Q E (l, s) = Q dp (l, s)" for Q E l s
    by (simp add: promote_in_files_def wp_def outside_def promoted)
  show ?thesis
    unfolding runtime_in_lifecycle_def runtime_body_def Let_def wp_seq wp_bind wp_try demo_runtime_sel demo_order_sel demo_emits emits
      wp_outside wp_basic wp_lift_sum demo_sandbox_read sum.case prod.case
    by (rule demo_sparring) (simp add: promotes, rule wp_cong_result [OF demo_concluded [OF _ assms]], auto simp: demo_ends)
qed

lemma demo_passes:
  assumes "demo_asked src" and "1 \<le> n"
  shows "\<exists>rr t. run_adversarial_runtime demo_runtime (demo_order n src) s = (Inr rr, t) \<and> lr_passed (rr_layer_result rr)"
proof -
  obtain rr t where run: "run_adversarial_runtime demo_runtime (demo_order n src) s = (Inr rr, t)" and e: "demo_end rr"
    using demo_adversarial_run [OF assms, of s] by (auto simp: run_adversarial_runtime_def wp_def split: prod.splits sum.splits)
  obtain l where "finished (demo_order n src) rr l" using run_judged [OF run] .
  moreover have "list_all test_passed (sx_tests demo_sx)"
    "list_all (\<lambda>r. is_fulfilled (sx_tests demo_sx) r) (sx_mandatory_target_results demo_sx)" by code_simp+
  ultimately have "lr_passed (rr_layer_result rr)"
    using e by (simp add: judged_verdict(1) demo_end_def demo_answers_def list_all_iff flip: is_fulfilled_covered)
  then show ?thesis using run by blast
qed

lemma demo_sink: "event_sink demo_runtime demo_log"
proof -
  have stored: "demo_log (snd (store_envelope demo_artifacts e s)) = demo_log s" for e s
    by (auto simp: store_envelope_def manager_write_def write_envelope_def demo_artifacts_def seq_io_def bind_io_def
        io_run lift_sum_def ret_def modify_def demo_log_def split: sum.splits)
  show ?thesis
    unfolding event_sink_def demo_runtime_sel
    using stored by (simp add: demo_runtime_def demo_emit_def demo_log_def demo_sent_def now_def io_app io_run modify_def)
qed

lemma adversarial_lifecycle_exact_witness:
  "\<forall>s. \<exists>rr l t es. runtime_in_lifecycle demo_runtime (demo_order 1 demo_source) (new_lifecycle, s) = (Inr rr, (l, t))
     \<and> demo_log t = demo_log s @ es \<and> length (filter (\<lambda>e. xe_type e = ADVERSARIAL_END) es) = 1
     \<and> length (filter (\<lambda>e. xe_type e = ADVERSARIAL_TEST_CREATED) es) = 1
     \<and> length (filter (\<lambda>e. xe_type e = ADVERSARIAL_SPARRING) es) = 1"
proof
  fix s
  obtain r l t where run: "runtime_in_lifecycle demo_runtime (demo_order 1 demo_source) (new_lifecycle, s) = (r, (l, t))"
    by (metis prod_cases3)
  then obtain rr where rr: "r = Inr rr" "demo_end rr" using demo_adversarial_run [OF demo_source_asked, of 1 s, simplified] by (cases r) (simp_all add: wp_def)
  then have "length (aa_tests (rr_artifact rr)) = 1" by (simp add: demo_end_def demo_answers_def demo_sx_def)
  moreover obtain es where es: "demo_log t = demo_log s @ es" "\<forall>ty. length (filter (\<lambda>e. xe_type e = ty) es) = lf_counts l ty"
    using adversarial_lifecycle_exact [OF run] demo_sink by blast
  moreover have "lf_counts l ADVERSARIAL_END = 1 \<and> lf_counts l ADVERSARIAL_TEST_CREATED = length (aa_tests (rr_artifact rr))
      \<and> lf_counts l ADVERSARIAL_SPARRING = sf_adversarial_sparring_events (aa_sparring (rr_artifact rr))"
    using adversarial_lifecycle_exact [OF run] rr(1) by blast
  ultimately show "\<exists>rr l t es. runtime_in_lifecycle demo_runtime (demo_order 1 demo_source) (new_lifecycle, s) = (Inr rr, (l, t))
     \<and> demo_log t = demo_log s @ es \<and> length (filter (\<lambda>e. xe_type e = ADVERSARIAL_END) es) = 1
     \<and> length (filter (\<lambda>e. xe_type e = ADVERSARIAL_TEST_CREATED) es) = 1
     \<and> length (filter (\<lambda>e. xe_type e = ADVERSARIAL_SPARRING) es) = 1"
    using run rr by (intro exI [of _ rr] exI [of _ l] exI [of _ t] exI [of _ es]) (simp add: demo_end_def)
qed

lemma adversarial_verdict_exact_witness:
  "\<forall>s. \<exists>rr t. run_adversarial_runtime demo_runtime (demo_order 1 demo_source) s = (Inr rr, t) \<and> lr_passed (rr_layer_result rr)"
proof
  fix s
  obtain rr t where run: "run_adversarial_runtime demo_runtime (demo_order 1 demo_source) s = (Inr rr, t)" and e: "demo_end rr"
    using demo_adversarial_run [OF demo_source_asked, of 1 s, simplified] by (auto simp: run_adversarial_runtime_def wp_def split: prod.splits sum.splits)
  have "lr_passed (rr_layer_result rr)"
    unfolding adversarial_verdict_exact [OF run]
    using e by (simp add: demo_end_def demo_answers_def demo_sx_def) code_simp
  then show "\<exists>rr t. run_adversarial_runtime demo_runtime (demo_order 1 demo_source) s = (Inr rr, t) \<and> lr_passed (rr_layer_result rr)"
    using run by blast
qed

end
