(* ===== verification/Adversarial_Targets.thy ===== *)
theory Adversarial_Targets
  imports Adversarial_Verdict
begin

text \<open>
  Mandatory targets from one round to the next: what a spawn envelope orders proves itself against
  the stored reviews it was made of, and a layer that passes has answered only such targets.
\<close>

section \<open>Serialised targets\<close>

definition raw_of :: "adversarial_target \<Rightarrow> raw_target" where
  "raw_of t = \<lparr>rt_finding_id = at_finding_id t, rt_source_result_name = at_source_result_name t,
     rt_source_check_id = at_source_check_id t, rt_source_artifact_record_key = at_source_artifact_record_key t,
     rt_source_finding_index = at_source_finding_index t, rt_source = JStr (at_source t),
     rt_normative_ref = JStr (at_normative_ref t), rt_addressed_part = JStr (at_addressed_part t),
     rt_open_part = JStr (at_open_part t), rt_mandatory = JBool (at_mandatory t), rt_test_anchor = JStr (at_test_anchor t)\<rparr>"

text \<open>A dict as it is read back from the JSON text of its row.\<close>

abbreviation read_dict :: "metadata \<Rightarrow> metadata" where
  "read_dict m \<equiv> map (apsnd canon) (sort_key fst m)"

lemma json_get_read: "distinct (map fst m) \<Longrightarrow> json_get (read_dict m) k = canon (json_get m k)"
  by (simp add: json_get_def canon_member split: option.split)

lemma read_dict_keys: "set (map fst (read_dict m)) = set (map fst m)"
  by (simp add: image_image)

lemma canon_opt [simp]: "canon (json_opt JStr x) = json_opt JStr x"
  by (cases x) (simp_all add: json_opt_def)

lemma canon_text_iff [simp]: "canon v = JStr x \<longleftrightarrow> v = JStr x"
  by (cases v) simp_all

lemma payload_of_stored [simp]: "payload_of (stored_form e) = read_dict (payload_of e)"
  by (simp add: payload_of_def split: option.split)

lemma serialized_target_keys: "distinct (map fst (serialize_target t))"
  by (simp add: serialize_target_def)

lemma serialized_target_read:
  assumes "new_adversarial_target t = Inr t"
  shows "raw_target_of_json (read_dict (serialize_target t)) = Inr (raw_of t)"
  using assms
  unfolding raw_target_of_json_def json_get_read [OF serialized_target_keys] read_dict_keys
  by (simp add: new_adversarial_target_def raw_target_of_json_def serialize_target_def target_fields_def json_get_def
      present_text_def index_of_json_def non_negative_def raw_of_def split: if_splits)

lemma all_or_error_Inr: "(\<And>x. x \<in> set xs \<Longrightarrow> f x = Inr (g x)) \<Longrightarrow> all_or_error (map f xs) = Inr (map g xs)"
  by (induction xs) simp_all

lemma those_objects: "those (map (\<lambda>x. json_object (JObj (f x))) xs) = Some (map f xs)"
  by (induction xs) (simp_all add: json_object_def)

lemma spawn_payload_keys: "distinct (map fst (payload_of (sandbox_envelope b sid sandbox ts clock)))"
  by (simp add: payload_of_def sandbox_envelope_def)

lemma spawn_payload_read:
  assumes "\<forall>t \<in> set ts. new_adversarial_target t = Inr t"
  shows "targets_from_spawn_payload (payload_of (stored_form (sandbox_envelope b sid sandbox ts clock))) = Inr (map raw_of ts)"
proof -
  have all: "all_or_error (map (\<lambda>t. raw_target_of_json (read_dict (serialize_target t))) ts) = Inr (map raw_of ts)"
    by (rule all_or_error_Inr) (simp add: serialized_target_read assms)
  have "json_get (payload_of (stored_form (sandbox_envelope b sid sandbox ts clock))) ''targets''
      = JList (map (\<lambda>t. JObj (read_dict (serialize_target t))) ts)"
    unfolding payload_of_stored json_get_read [OF spawn_payload_keys]
    by (simp add: payload_of_def sandbox_envelope_def json_get_def canon_JObj o_def del: canon.simps(2))
  then show ?thesis
    using all by (simp add: targets_from_spawn_payload_def comp_def those_objects)
qed

text \<open>Every extracted target passed its own check.\<close>

lemma targets_of_findings_checked:
  "targets_of_findings lr ref n i fs = Inr ts \<Longrightarrow> \<forall>t \<in> set ts. new_adversarial_target t = Inr t"
proof (induction fs arbitrary: i ts)
  case (Cons f fs)
  obtain x where x: "target_from_finding lr ref n i f = Inr x" using Cons.prems by (auto split: sum.splits)
  obtain us where us: "targets_of_findings lr ref n (Suc i) fs = Inr us"
    using Cons.prems x by (cases "targets_of_findings lr ref n (Suc i) fs") auto
  have "\<forall>t. x = Some t \<longrightarrow> new_adversarial_target t = Inr t"
    using x by (auto simp: target_from_finding_def new_adversarial_target_def split: if_splits)
  then show ?case using Cons.IH [OF us] Cons.prems x us by (auto split: option.splits)
qed simp

lemma targets_checked:
  "targets_of_results lrs n = Inr ts \<Longrightarrow> \<forall>t \<in> set ts. new_adversarial_target t = Inr t"
proof (induction lrs arbitrary: ts)
  case (Cons lr lrs)
  obtain ref where ref: "require_source_reference lr = Inr ref" using Cons.prems by (auto split: sum.splits)
  obtain us where us: "targets_of_findings lr ref n 0 (lr_findings lr) = Inr us"
    using Cons.prems ref by (auto split: sum.splits)
  obtain vs where vs: "targets_of_results lrs n = Inr vs"
    using Cons.prems ref us by (cases "targets_of_results lrs n") auto
  show ?case using targets_of_findings_checked [OF us] Cons.IH [OF vs] Cons.prems ref us vs by auto
qed simp

section \<open>Stored reviews\<close>

definition review_specs :: "(string \<times> layer_artifact_spec) list" where
  "review_specs = zip [''qa_review'', ''semantic_review'', ''doc_fidelity''] LAYER_2_SPECS"

lemma review_scopes:
  assumes "(n, spec) \<in> set review_specs"
  shows "n \<in> set (result_names_for_layer default_registry 2)"
    "map_of LAYER_ARTIFACT_SCOPES n = Some (as_stage spec, as_producer_name spec)"
    "producer_for_result_name default_registry n = Inr (as_producer_name spec)"
proof -
  have "list_all (\<lambda>(n, spec). n \<in> set (result_names_for_layer default_registry 2)
     \<and> map_of LAYER_ARTIFACT_SCOPES n = Some (as_stage spec, as_producer_name spec)
     \<and> producer_for_result_name default_registry n = Inr (as_producer_name spec)) review_specs" by code_simp
  then show "n \<in> set (result_names_for_layer default_registry 2)"
    "map_of LAYER_ARTIFACT_SCOPES n = Some (as_stage spec, as_producer_name spec)"
    "producer_for_result_name default_registry n = Inr (as_producer_name spec)"
    using assms by (auto simp: list_all_iff)
qed

text \<open>
  The envelope a review is stored in, and that it is stored: what is read under its reference is that
  envelope, back from its row. Metadata is a dict. A check was executed when the result says so.
\<close>

definition review_envelope ::
  "layer_artifact_spec \<Rightarrow> verify_context_bundle \<Rightarrow> string \<Rightarrow> int \<Rightarrow> metadata \<Rightarrow> layer_result \<Rightarrow> artifact_envelope" where
  "review_envelope spec b sid t cyc lr = qa_envelope spec b sid t (if lr_passed lr then Envelope_PASS else Envelope_FAIL)
     (put_all (serialize_layer_result lr (vb_attempt b)) cyc)"

definition stored_review ::
  "'x qa_state artifact_manager \<Rightarrow> verify_context_bundle \<Rightarrow> string \<Rightarrow> 'x qa_state \<Rightarrow> layer_result \<Rightarrow> bool" where
  "stored_review m b sid s lr \<longleftrightarrow> (\<exists>spec t cyc. (lr_layer lr, spec) \<in> set review_specs
     \<and> set (map fst cyc) \<inter> {''layer'', ''findings'', ''metadata''} = {}
     \<and> lr_artifact_reference lr = Some (reference_from_envelope (review_envelope spec b sid t cyc lr))
     \<and> fst (manager_read m (reference_from_envelope (review_envelope spec b sid t cyc lr)) s)
         = Inr (stored_form (review_envelope spec b sid t cyc lr))
     \<and> distinct (map fst (lr_metadata lr)))"

definition executed :: "layer_result \<Rightarrow> string \<Rightarrow> bool" where
  "executed lr check \<longleftrightarrow> (\<exists>ids. map_of (lr_metadata lr) ''executed_check_ids'' = Some (JList ids) \<and> JStr check \<in> set ids)"

lemma map_of_put_all: "k \<notin> set (map fst kvs) \<Longrightarrow> map_of (put_all acc kvs) k = map_of acc k"
  by (induction acc kvs rule: put_all.induct) (simp_all add: update_conv')

lemma manager_read_keeps: "fst (manager_read m ref s) = Inr e \<Longrightarrow> manager_read m ref s = (Inr e, s)"
  by (auto simp: manager_read_def bind_io_def io_run read_envelope_run split: sum.splits option.splits prod.splits)

lemma distinct_put_all: "distinct (map fst acc) \<Longrightarrow> distinct (map fst (put_all acc kvs))"
  by (induction acc kvs rule: put_all.induct) (simp_all add: distinct_update)

lemma review_payload:
  assumes "set (map fst cyc) \<inter> {''layer'', ''findings'', ''metadata''} = {}"
  shows "json_get (payload_of (stored_form (review_envelope spec b sid t cyc lr))) ''layer'' = JStr (lr_layer lr)"
    "json_get (payload_of (stored_form (review_envelope spec b sid t cyc lr))) ''findings''
       = JList (map (\<lambda>f. JObj (read_dict (serialize_finding f))) (lr_findings lr))"
    "json_get (payload_of (stored_form (review_envelope spec b sid t cyc lr))) ''metadata'' = JObj (read_dict (lr_metadata lr))"
proof -
  have keys: "distinct (map fst (payload_of (review_envelope spec b sid t cyc lr)))"
    by (simp add: payload_of_def review_envelope_def qa_envelope_def distinct_put_all serialize_layer_result_def del: set_map)
  have "k \<notin> set (map fst cyc)" if "k \<in> {''layer'', ''findings'', ''metadata''}" for k using assms that by blast
  then have get: "json_get (payload_of (review_envelope spec b sid t cyc lr)) k = json_get (serialize_layer_result lr (vb_attempt b)) k"
    if "k \<in> {''layer'', ''findings'', ''metadata''}" for k
    using that by (simp add: json_get_def payload_of_def review_envelope_def qa_envelope_def map_of_put_all del: set_map)
  show "json_get (payload_of (stored_form (review_envelope spec b sid t cyc lr))) ''layer'' = JStr (lr_layer lr)"
    "json_get (payload_of (stored_form (review_envelope spec b sid t cyc lr))) ''findings''
       = JList (map (\<lambda>f. JObj (read_dict (serialize_finding f))) (lr_findings lr))"
    "json_get (payload_of (stored_form (review_envelope spec b sid t cyc lr))) ''metadata'' = JObj (read_dict (lr_metadata lr))"
    unfolding payload_of_stored json_get_read [OF keys]
    by (simp_all add: get) (simp_all add: json_get_def serialize_layer_result_def canon_JObj o_def del: canon.simps(2))
qed

lemma executed_read:
  assumes "distinct (map fst (lr_metadata lr))"
  shows "(case json_get (read_dict (lr_metadata lr)) ''executed_check_ids'' of JList ids \<Rightarrow> JStr check \<in> set ids | _ \<Rightarrow> False)
    \<longleftrightarrow> executed lr check"
proof -
  have ids: "JStr check \<in> set (map canon ids) \<longleftrightarrow> JStr check \<in> set ids" for ids
    by (induction ids) (auto simp: eq_commute [of "JStr check"])
  note get = json_get_read [OF assms, of "''executed_check_ids''"]
  show ?thesis
  proof (cases "map_of (lr_metadata lr) ''executed_check_ids''")
    case None
    then have "json_get (lr_metadata lr) ''executed_check_ids'' = JNull" by (simp add: json_get_def)
    then show ?thesis using None by (simp add: get executed_def)
  next
    case (Some v)
    then have "json_get (lr_metadata lr) ''executed_check_ids'' = v" by (simp add: json_get_def)
    then show ?thesis using Some ids by (cases v) (simp_all add: get executed_def)
  qed
qed

lemma finding_keys: "distinct (map fst (serialize_finding f))"
  by (simp add: serialize_finding_def)

lemma built_target_proven:
  assumes "fd_finding_type f = Some ''assertion_weakness''" and "fd_layer f = lr_layer lr"
    and "distinct (map fst (lr_metadata lr))"
  shows "validate_source_finding (raw_of (built_target lr ref n i f)) (JObj (read_dict (serialize_finding f)))
      (read_dict (lr_metadata lr)) n = (if executed lr (fd_check f) then Inr () else Inl invalid_source_finding)"
proof -
  let ?t = "raw_of (built_target lr ref n i f)" and ?f = "read_dict (serialize_finding f)"
  have severity: "severity_value (fd_severity f) \<in> set concern_severities"
    by (cases "fd_severity f") (simp_all add: concern_severities_def)
  note facts = raw_of_def built_target_def serialize_finding_def json_get_def ASSERTION_WEAKNESS_FINDING_TYPE_def
  have identity: "validate_source_finding_identity ?t ?f = Inr ()"
    unfolding validate_source_finding_identity_def json_get_read [OF finding_keys]
    using assms(1,2) by (simp add: require_def facts)
  have derivation: "validate_target_derivation ?t ?f n = Inr ()"
    unfolding validate_target_derivation_def json_get_read [OF finding_keys]
    using assms(1,2) severity
    by (simp add: require_def facts json_opt_def hashable_def Let_def split: option.splits)
  have check: "rt_source_check_id ?t = fd_check f" by (simp add: raw_of_def built_target_def)
  show ?thesis
    unfolding validate_source_finding_def json.case identity derivation and_then_def sum.case check executed_read [OF assms(3)]
    by (simp add: require_def)
qed

lemma stored_target_proven:
  assumes stored: "stored_review m b sid s lr" and ref: "lr_artifact_reference lr = Some ref"
    and f: "i < length (lr_findings lr)" "lr_findings lr ! i = f"
    and weak: "fd_finding_type f = Some ''assertion_weakness''" and layer: "fd_layer f = lr_layer lr"
  shows "validate_target_source m sid (vb_run_id b) (vb_attempt b) (raw_of (built_target lr ref (vb_attempt b) i f)) s
    = (if executed lr (fd_check f) then Inr () else Inl invalid_source_finding, s)"
proof -
  let ?t = "built_target lr ref (vb_attempt b) i f"
  obtain spec t cyc where spec: "(lr_layer lr, spec) \<in> set review_specs"
    and cyc: "set (map fst cyc) \<inter> {''layer'', ''findings'', ''metadata''} = {}"
    and e: "lr_artifact_reference lr = Some (reference_from_envelope (review_envelope spec b sid t cyc lr))"
      "fst (manager_read m (reference_from_envelope (review_envelope spec b sid t cyc lr)) s)
        = Inr (stored_form (review_envelope spec b sid t cyc lr))"
    and md: "distinct (map fst (lr_metadata lr))"
    using stored unfolding stored_review_def by (elim exE conjE) (rule that, assumption+)
  let ?e = "review_envelope spec b sid t cyc lr"
  have ref_e: "ref = reference_from_envelope ?e" using ref e(1) by simp
  have key: "af_record_key ref = record_key sid (vb_run_id b) (as_stage spec) (vb_attempt b) Class_QA (as_producer_name spec)"
    by (simp add: ref_e reference_from_envelope_def review_envelope_def qa_envelope_def)
  have same_ref: "\<lparr>af_artifact_class = Class_QA, af_story_id = sid, af_run_id = vb_run_id b, af_record_key = af_record_key ref\<rparr>
      = reference_from_envelope ?e"
    by (simp add: ref_e reference_from_envelope_def review_envelope_def qa_envelope_def)
  have scope: "expected_source_artifact_scope (raw_of ?t) sid (vb_run_id b) (vb_attempt b) = Inr (as_stage spec, as_producer_name spec)"
    using review_scopes [OF spec] by (simp add: expected_source_artifact_scope_def default_registry raw_of_def built_target_def key)
  have envelope: "validate_source_envelope_scope (stored_form ?e) sid (vb_run_id b) (vb_attempt b) (as_stage spec) (as_producer_name spec)
      = Inr ()"
    by (simp add: validate_source_envelope_scope_def require_def) (simp add: review_envelope_def qa_envelope_def)
  have payload: "validate_source_result_payload (raw_of ?t) (payload_of (stored_form ?e))
      = Inr (map (\<lambda>f. JObj (read_dict (serialize_finding f))) (lr_findings lr), read_dict (lr_metadata lr))"
    unfolding validate_source_result_payload_def review_payload [OF cyc]
    using f(1) by (simp add: Let_def raw_of_def built_target_def)
  have finding: "validate_source_finding (raw_of ?t) (map (\<lambda>f. JObj (read_dict (serialize_finding f))) (lr_findings lr) ! i)
      (read_dict (lr_metadata lr)) (vb_attempt b) = (if executed lr (fd_check f) then Inr () else Inl invalid_source_finding)"
    using built_target_proven [OF weak layer md] f by simp
  have raw: "rt_source_artifact_record_key (raw_of ?t) = af_record_key ref" "rt_source_finding_index (raw_of ?t) = i"
    by (simp_all add: raw_of_def built_target_def)
  show ?thesis
    unfolding validate_target_source_def raw same_ref
    using manager_read_keeps [OF e(2)]
    by (simp add: io_app io_run scope envelope payload finding del: payload_of_stored)
qed

text \<open>A list of targets is proved to its end, or up to the first that does not hold.\<close>

lemma validate_sources_run:
  assumes "\<And>t. t \<in> set ts \<Longrightarrow> validate_target_source m sid rid n t s = (if P t then Inr () else Inl x, s)"
  shows "validate_target_sources m sid rid n ts s = (if \<forall>t \<in> set ts. P t then Inr () else Inl x, s)"
  using assms by (induction ts) (simp_all add: io_app io_run)

definition all_executed :: "layer_result list \<Rightarrow> bool" where
  "all_executed lrs \<longleftrightarrow> (\<forall>lr \<in> set lrs. \<forall>f \<in> set (lr_findings lr).
     fd_finding_type f = Some ''assertion_weakness'' \<longrightarrow> executed lr (fd_check f))"

lemma stored_targets_proven:
  assumes "targets_of_results lrs (vb_attempt b) = Inr ts" and "\<forall>lr \<in> set lrs. stored_review m b sid s lr"
  shows "validate_target_sources m sid (vb_run_id b) (vb_attempt b) (map raw_of ts) s
    = (if all_executed lrs then Inr () else Inl invalid_source_finding, s)"
proof -
  note spec = targets_of_results_Inr [OF assms(1)]
  let ?v = "\<lambda>t. validate_target_source m sid (vb_run_id b) (vb_attempt b) t s"
  have origin: "\<exists>lr i f. lr \<in> set lrs \<and> i < length (lr_findings lr) \<and> lr_findings lr ! i = f
      \<and> fd_finding_type f = Some ''assertion_weakness'' \<and> fd_layer f = lr_layer lr
      \<and> lr_artifact_reference lr = Some (the (lr_artifact_reference lr))
      \<and> t = built_target lr (the (lr_artifact_reference lr)) (vb_attempt b) i f" if "t \<in> set ts" for t
  proof -
    obtain lr i f where lr: "lr \<in> set lrs" and p: "(i, f) \<in> set (enumerate 0 (lr_findings lr))" "weak f"
      and t: "t = built_target lr (the (lr_artifact_reference lr)) (vb_attempt b) i f"
      using \<open>t \<in> set ts\<close> unfolding spec [THEN conjunct1] by auto
    have i: "i < length (lr_findings lr)" "lr_findings lr ! i = f" using p(1) by (auto simp: in_set_enumerate_eq)
    moreover have "fd_layer f = lr_layer lr" using spec lr p(2) i nth_mem by metis
    moreover have "fd_finding_type f = Some ''assertion_weakness''"
      using p(2) by (simp add: weak_def ASSERTION_WEAKNESS_FINDING_TYPE_def)
    moreover have "lr_artifact_reference lr = Some (the (lr_artifact_reference lr))" using spec lr by fastforce
    ultimately show ?thesis using lr t by blast
  qed
  have built: "?v (raw_of (built_target lr (the (lr_artifact_reference lr)) (vb_attempt b) i f))
      = (if executed lr (fd_check f) then Inr () else Inl invalid_source_finding, s)"
    if "lr \<in> set lrs" "i < length (lr_findings lr)" "lr_findings lr ! i = f" "fd_finding_type f = Some ''assertion_weakness''"
      "fd_layer f = lr_layer lr" "lr_artifact_reference lr = Some (the (lr_artifact_reference lr))" for lr i f
    using assms(2) that by (intro stored_target_proven) auto
  have each: "?v t = (if ?v t = (Inr (), s) then Inr () else Inl invalid_source_finding, s)" if "t \<in> set (map raw_of ts)" for t
  proof -
    obtain u where "u \<in> set ts" "t = raw_of u" using \<open>t \<in> set (map raw_of ts)\<close> by auto
    with origin [of u] built show ?thesis by (auto split: if_splits)
  qed
  have "(\<forall>t \<in> set (map raw_of ts). ?v t = (Inr (), s)) \<longleftrightarrow> all_executed lrs"
  proof
    assume all: "\<forall>t \<in> set (map raw_of ts). ?v t = (Inr (), s)"
    show "all_executed lrs"
      unfolding all_executed_def
    proof (intro ballI impI)
      fix lr f assume lr: "lr \<in> set lrs" "f \<in> set (lr_findings lr)" and w: "fd_finding_type f = Some ''assertion_weakness''"
      then obtain i where i: "i < length (lr_findings lr)" "lr_findings lr ! i = f" by (auto simp: in_set_conv_nth)
      then have "(i, f) \<in> set (enumerate 0 (lr_findings lr))" "weak f"
        using w by (auto simp: in_set_enumerate_eq weak_def ASSERTION_WEAKNESS_FINDING_TYPE_def)
      then have "built_target lr (the (lr_artifact_reference lr)) (vb_attempt b) i f \<in> set ts"
        using lr(1) unfolding spec [THEN conjunct1] by force
      then have "?v (raw_of (built_target lr (the (lr_artifact_reference lr)) (vb_attempt b) i f)) = (Inr (), s)" using all by simp
      moreover have "fd_layer f = lr_layer lr" using spec lr \<open>weak f\<close> by blast
      moreover have "lr_artifact_reference lr = Some (the (lr_artifact_reference lr))" using spec lr by fastforce
      ultimately show "executed lr (fd_check f)" using built [OF lr(1) i w] by (auto split: if_splits)
    qed
  next
    assume all: "all_executed lrs"
    show "\<forall>t \<in> set (map raw_of ts). ?v t = (Inr (), s)"
    proof
      fix t assume "t \<in> set (map raw_of ts)"
      then obtain u where u: "u \<in> set ts" "t = raw_of u" by auto
      obtain lr i f where f: "lr \<in> set lrs" "i < length (lr_findings lr)" "lr_findings lr ! i = f"
        "fd_finding_type f = Some ''assertion_weakness''" "fd_layer f = lr_layer lr"
        "lr_artifact_reference lr = Some (the (lr_artifact_reference lr))"
        "u = built_target lr (the (lr_artifact_reference lr)) (vb_attempt b) i f" using origin [OF u(1)] by blast
      have "f \<in> set (lr_findings lr)" using f(2,3) nth_mem by blast
      then have "executed lr (fd_check f)" using all f(1,4) by (simp add: all_executed_def)
      then show "?v t = (Inr (), s)" using built [OF f(1-6)] f(7) u(2) by simp
    qed
  qed
  then show ?thesis using validate_sources_run [of "map raw_of ts", OF each] by simp
qed

lemma ordered_targets_loaded:
  assumes us: "targets_of_results lrs (vb_attempt b) = Inr ts"
    and reviews: "\<forall>lr \<in> set lrs. stored_review m b sid s lr"
    and latest: "manager_read_latest m sid (Some (vb_run_id b)) Class_ADVERSARIAL_TEST_SANDBOX ''qa-adversarial'' s
      = (Inr (stored_form (sandbox_envelope b sid (sandbox_rel_path sid (vb_attempt b)) ts t)), s)"
    and round: "1 \<le> vb_attempt b"
  shows "load_spawn_evidence m dir sid (vb_run_id b) (vb_attempt b + 1) s
    = (if all_executed lrs then Inr (map raw_of ts, path_join dir (sandbox_rel_path sid (vb_attempt b)))
       else Inl invalid_source_finding, s)"
proof -
  let ?e = "stored_form (sandbox_envelope b sid (sandbox_rel_path sid (vb_attempt b)) ts t)"
  have path: "json_get (payload_of ?e) ''sandbox_path'' = JStr (sandbox_rel_path sid (vb_attempt b))"
    unfolding payload_of_stored json_get_read [OF spawn_payload_keys]
    by (simp add: sandbox_envelope_def payload_of_def json_get_def)
  have "read_preceding_spawn_envelope m sid (vb_run_id b) (vb_attempt b) s = (Inr (?e, sandbox_rel_path sid (vb_attempt b)), s)"
    by (simp add: read_preceding_spawn_envelope_def io_app io_run latest path del: payload_of_stored) (simp add: sandbox_envelope_def)
  moreover have "targets_from_spawn_payload (payload_of ?e) = Inr (map raw_of ts)"
    by (rule spawn_payload_read [OF targets_checked [OF us]])
  ultimately show ?thesis
    using stored_targets_proven [OF us reviews] round by (simp add: load_spawn_evidence_def io_app io_run del: payload_of_stored)
qed

text \<open>
  C39. Targets survive the round exactly when their checks were executed. Let the reviews of a round be
  stored and its mandatory targets be ordered in a spawn envelope that is the latest of the run. If
  every assertion weakness is under a check its result lists as executed, the next round reads exactly
  these targets back, proves every one against the stored review it was made of, and looks for the
  agent's work in the sandbox that was ordered. If a single one is not, which the extraction of the
  targets does not ask for, the next round refuses the whole envelope as not proven.
\<close>
theorem spawned_targets_prove_themselves:
  assumes ordered: "extract_mandatory_targets lrs (vb_attempt b) = Inr ts"
    and reviews: "\<forall>lr \<in> set lrs. stored_review m b sid s lr"
    and latest: "manager_read_latest m sid (Some (vb_run_id b)) Class_ADVERSARIAL_TEST_SANDBOX ''qa-adversarial'' s
      = (Inr (stored_form (sandbox_envelope b sid (sandbox_rel_path sid (vb_attempt b)) ts t)), s)"
    and round: "1 \<le> vb_attempt b"
  shows "load_spawn_evidence m dir sid (vb_run_id b) (vb_attempt b + 1) s
    = (if \<forall>lr \<in> set lrs. \<forall>f \<in> set (lr_findings lr). fd_finding_type f = Some ''assertion_weakness'' \<longrightarrow>
            (\<exists>ids. map_of (lr_metadata lr) ''executed_check_ids'' = Some (JList ids) \<and> JStr (fd_check f) \<in> set ids)
       then Inr (map raw_of ts, path_join dir (sandbox_rel_path sid (vb_attempt b)))
       else Inl (AdversarialResultReadError ''adversarial target source finding is not an exact executed Layer-2 member''), s)"
proof -
  have "targets_of_results lrs (vb_attempt b) = Inr ts"
    using ordered by (auto simp: extract_mandatory_targets_def and_then_def split: sum.splits)
  from ordered_targets_loaded [OF this reviews latest round] show ?thesis
    unfolding all_executed_def executed_def invalid_source_finding_def .
qed


section \<open>What a passing layer has answered\<close>

text \<open>
  The finding a target names, in a state of the store: its reviewer stored it in the round before as an
  assertion weakness, at the position and under the check it names, and lists the check as executed.
\<close>

definition proven_source ::
  "'x qa_state artifact_manager \<Rightarrow> string \<Rightarrow> string \<Rightarrow> int \<Rightarrow> 'x qa_state \<Rightarrow> raw_target \<Rightarrow> bool" where
  "proven_source m sid rid n s x \<longleftrightarrow> (\<exists>env fs f md ids.
     fst (manager_read m \<lparr>af_artifact_class = Class_QA, af_story_id = sid, af_run_id = rid,
        af_record_key = rt_source_artifact_record_key x\<rparr> s) = Inr env
     \<and> ae_story_id env = sid \<and> ae_run_id env = rid \<and> ae_attempt env = n \<and> ae_artifact_class env = Class_QA
     \<and> json_get (payload_of env) ''layer'' = JStr (rt_source_result_name x)
     \<and> json_get (payload_of env) ''findings'' = JList fs \<and> rt_source_finding_index x < length fs
     \<and> fs ! rt_source_finding_index x = JObj f
     \<and> json_get f ''finding_type'' = JStr ''assertion_weakness''
     \<and> json_get f ''check'' = JStr (rt_source_check_id x)
     \<and> json_get (payload_of env) ''metadata'' = JObj md \<and> json_get md ''executed_check_ids'' = JList ids
     \<and> JStr (rt_source_check_id x) \<in> set ids
     \<and> rt_finding_id x = rt_source_result_name x @ ''.'' @ rt_source_check_id x)"

lemma require_Inr [simp]: "require b e = Inr () \<longleftrightarrow> b"
  by (simp add: require_def)

lemma and_then_Inr_iff: "and_then x y = Inr z \<longleftrightarrow> (\<exists>u. x = Inr u) \<and> y = Inr z"
  by (cases x) (simp_all add: and_then_def)

lemma validate_source_findingD:
  assumes "validate_source_finding t f md n = Inr ()"
  obtains m ids where "f = JObj m" "json_get m ''finding_type'' = JStr ''assertion_weakness''"
    "json_get m ''check'' = JStr (rt_source_check_id t)" "rt_finding_id t = rt_source_result_name t @ ''.'' @ rt_source_check_id t"
    "json_get md ''executed_check_ids'' = JList ids" "JStr (rt_source_check_id t) \<in> set ids"
  using assms
  by (auto simp: validate_source_finding_def and_then_Inr_iff validate_source_finding_identity_def validate_target_derivation_def
      Let_def ASSERTION_WEAKNESS_FINDING_TYPE_def split: json.splits if_splits)

lemma validate_source_result_payloadD:
  assumes "validate_source_result_payload t payload = Inr (fs, md)"
  shows "json_get payload ''layer'' = JStr (rt_source_result_name t)" "json_get payload ''findings'' = JList fs"
    "rt_source_finding_index t < length fs" "json_get payload ''metadata'' = JObj md"
  using assms by (auto simp: validate_source_result_payload_def Let_def split: json.splits if_splits)

lemma manager_read_state: "snd (manager_read m ref s) = s"
  by (auto simp: manager_read_def bind_io_def io_run read_envelope_run split: sum.splits option.splits prod.splits)

lemma validated_target_proven:
  assumes "validate_target_source m sid rid n t s = (Inr (), s')"
  shows "proven_source m sid rid n s t \<and> s' = s"
proof -
  obtain stage pname where sc: "expected_source_artifact_scope t sid rid n = Inr (stage, pname)"
    using assms by (auto simp: validate_target_source_def io_run elim!: bind_io_cases)
  let ?ref = "\<lparr>af_artifact_class = Class_QA, af_story_id = sid, af_run_id = rid, af_record_key = rt_source_artifact_record_key t\<rparr>"
  obtain r u where r: "manager_read m ?ref s = (r, u)" by (cases "manager_read m ?ref s")
  have u: "u = s" using manager_read_state [of m ?ref s] r by simp
  obtain env fs md where env: "r = Inr env" "s' = u"
    and scope: "validate_source_envelope_scope env sid rid n stage pname = Inr ()"
    and payload: "validate_source_result_payload t (payload_of env) = Inr (fs, md)"
    and finding: "validate_source_finding t (fs ! rt_source_finding_index t) md n = Inr ()"
    using assms sc r
    by (auto simp: validate_target_source_def io_run io_app split: prod.splits sum.splits exn.splits)
  obtain f ids where f: "fs ! rt_source_finding_index t = JObj f" "json_get f ''finding_type'' = JStr ''assertion_weakness''"
    "json_get f ''check'' = JStr (rt_source_check_id t)" "rt_finding_id t = rt_source_result_name t @ ''.'' @ rt_source_check_id t"
    "json_get md ''executed_check_ids'' = JList ids" "JStr (rt_source_check_id t) \<in> set ids"
    using validate_source_findingD [OF finding] .
  note payload_facts = validate_source_result_payloadD [OF payload]
  have "ae_story_id env = sid" "ae_run_id env = rid" "ae_attempt env = n" "ae_artifact_class env = Class_QA"
    using scope by (simp_all add: validate_source_envelope_scope_def)
  moreover have "fst (manager_read m ?ref s) = Inr env" using r env(1) by simp
  ultimately show ?thesis
    unfolding proven_source_def using env(2) u
    by (intro conjI exI [of _ env] exI [of _ fs] exI [of _ f] exI [of _ md] exI [of _ ids] f payload_facts) simp_all
qed

lemma validated_targets_proven:
  assumes "validate_target_sources m sid rid n ts s = (Inr (), s')"
  shows "\<forall>t \<in> set ts. proven_source m sid rid n s t"
  using assms
proof (induction ts)
  case (Cons t ts)
  then obtain u where "validate_target_source m sid rid n t s = (Inr (), u)"
      "validate_target_sources m sid rid n ts u = (Inr (), s')"
    by (auto simp: io_app split: prod.splits sum.splits)
  with validated_target_proven [OF this(1)] Cons.IH show ?case by simp
qed simp

lemma manager_read_latest_state: "snd (manager_read_latest m sid run cls stage s) = s"
  by (simp add: manager_read_latest_def find_latest_envelope_def bind_io_def io_run split: sum.split option.split)

lemma read_preceding_state:
  assumes "read_preceding_spawn_envelope m sid rid n s = (r, t)"
  shows "t = s"
proof -
  obtain x u where x: "manager_read_latest m sid (Some rid) Class_ADVERSARIAL_TEST_SANDBOX ''qa-adversarial'' s = (x, u)"
    by (cases "manager_read_latest m sid (Some rid) Class_ADVERSARIAL_TEST_SANDBOX ''qa-adversarial'' s")
  then have "u = s" using manager_read_latest_state by (metis snd_conv)
  then show ?thesis
    using assms x by (auto simp: read_preceding_spawn_envelope_def try_io_def ret_def raise_def split: sum.splits exn.splits if_splits)
qed

lemma loaded_targets_proven:
  assumes "load_spawn_evidence m dir sid rid n s = (Inr (ts, sandbox), t)"
  shows "if n = 1 then ts = [] else \<forall>x \<in> set ts. proven_source m sid rid (n - 1) s x"
proof (cases "n = 1")
  case False
  then obtain e u v where "read_preceding_spawn_envelope m sid rid (n - 1) s = (Inr e, u)"
    "validate_target_sources m sid rid (n - 1) ts u = (Inr (), v)"
    using assms by (auto simp: load_spawn_evidence_def io_run io_app split: prod.splits sum.splits)
  then show ?thesis using False read_preceding_state validated_targets_proven by simp blast
qed (use assms in \<open>simp add: load_spawn_evidence_def io_run\<close>)

text \<open>The runtime and the order the challenger makes of its ports and of what it loaded.\<close>

definition runtime_of ::
  "'x challenger \<Rightarrow> 'x qa_state artifact_manager \<Rightarrow> 'x event_emitter \<Rightarrow> (string \<Rightarrow> string \<Rightarrow> ('x, string) qa_action) \<Rightarrow> 'x adversarial_runtime" where
  "runtime_of ch m emitter client = \<lparr>ar_artifact_manager = m, ar_emitter = emitter, ar_complete = client,
     ar_resolver = ch_sparring_resolver ch, ar_files = ch_files ch, ar_set_files = ch_set_files ch, ar_python = ch_python ch,
     ar_coercions = ch_coercions ch\<rparr>"

definition order_of :: "story_context \<Rightarrow> string \<Rightarrow> int \<Rightarrow> raw_target list \<Rightarrow> string \<Rightarrow> runtime_order" where
  "order_of c rid n ts sandbox = \<lparr>ro_sandbox_dir = sandbox, ro_tests_root = tests_root_of c, ro_story_id = sc_story_id c,
     ro_run_id = rid, ro_attempt = n, ro_expected = map source_of_raw ts\<rparr>"

text \<open>
  C40. A passing adversarial layer has answered exactly the proven targets. When the challenger returns
  a pass, every port was wired; the story's run and round n were resolved, and the targets ts were
  loaded: none in the first round, and in a later one targets each of which is, in the store it was
  loaded from, an assertion weakness of an executed check, stored by a reviewer in the artifact of the
  round before, at the position and under the check it names. The runtime made of these very ports was
  then run for exactly these targets and passed: the artifact it made, whose reference the layer
  carries, answers every one of them and no other, with tests of its own that all pass or with a stated
  reason why it cannot be tested.
\<close>
theorem passing_layer_answers_proven_targets:
  assumes "challenger_evaluate ch c dir ri s = (Inr lr, t)" and "lr_passed lr"
  shows "\<exists>m emitter client audit v rid n w ts sandbox u rr.
      ch_artifact_manager ch = Some m \<and> ch_telemetry_emitter ch = Some emitter \<and> ch_sparring_client ch = Some client
    \<and> materialize_prompt_audit ch c dir s = (Inr audit, v) \<and> resolve_run_scope ch dir v = (Inr (rid, n), w)
    \<and> load_spawn_evidence m dir (sc_story_id c) rid n w = (Inr (ts, sandbox), u)
    \<and> (if n = 1 then ts = [] else \<forall>x \<in> set ts. proven_source m (sc_story_id c) rid (n - 1) w x)
    \<and> run_adversarial_runtime (runtime_of ch m emitter client) (order_of c rid n ts sandbox) u = (Inr rr, t)
    \<and> lr_passed (rr_layer_result rr) \<and> lr_artifact_reference lr = Some (rr_artifact_reference rr)
    \<and> mr_target_id ` set (aa_mandatory_target_results (rr_artifact rr)) = rt_finding_id ` set ts
    \<and> (\<forall>r \<in> set (aa_mandatory_target_results (rr_artifact rr)). covered_target (rr_artifact rr) r)"
proof -
  obtain audit v where audit: "materialize_prompt_audit ch c dir s = (Inr audit, v)"
    using assms(1) by (auto simp: challenger_evaluate_def elim!: bind_io_cases)
  obtain client emitter m where wired: "ch_sparring_client ch = Some client" "ch_telemetry_emitter ch = Some emitter"
      "ch_artifact_manager ch = Some m"
    using assms audit by (auto simp: challenger_evaluate_def io_app io_run fail_closed_def split: option.splits)
  obtain rid n w where scope: "resolve_run_scope ch dir v = (Inr (rid, n), w)"
    using assms(1) audit wired by (auto simp: challenger_evaluate_def io_app split: prod.splits sum.splits)
  obtain ts sandbox u where loaded: "load_spawn_evidence m dir (sc_story_id c) rid n w = (Inr (ts, sandbox), u)"
    using assms audit wired scope
    by (auto simp: challenger_evaluate_def io_app io_run fail_closed_def split: prod.splits sum.splits exn.splits)
  obtain rr where run: "run_adversarial_runtime (runtime_of ch m emitter client) (order_of c rid n ts sandbox) u = (Inr rr, t)"
    and lr: "lr = materialized_result audit rr"
    using assms audit wired scope loaded
    by (auto simp: challenger_evaluate_def io_app io_run fail_closed_def runtime_of_def order_of_def
        split: prod.splits sum.splits exn.splits)
  have passed: "lr_passed (rr_layer_result rr)" "lr_artifact_reference lr = Some (rr_artifact_reference rr)"
    using assms(2) lr by (simp_all add: materialized_result_def)
  obtain l where l: "finished (order_of c rid n ts sandbox) rr l" using run_judged [OF run] .
  have "ts_target_id ` set (ro_expected (order_of c rid n ts sandbox)) = rt_finding_id ` set ts"
    by (simp add: order_of_def image_image source_of_raw_def)
  then have "mr_target_id ` set (aa_mandatory_target_results (rr_artifact rr)) = rt_finding_id ` set ts"
    using judged_verdict(3) [OF l] by simp
  moreover have "\<forall>r \<in> set (aa_mandatory_target_results (rr_artifact rr)). covered_target (rr_artifact rr) r"
    using judged_verdict(1) [OF l] passed(1) by blast
  ultimately show ?thesis
    using wired audit scope loaded run passed loaded_targets_proven [OF loaded]
    by (intro exI [of _ m] exI [of _ emitter] exI [of _ client] exI [of _ audit] exI [of _ v] exI [of _ rid] exI [of _ n]
        exI [of _ w] exI [of _ ts] exI [of _ sandbox] exI [of _ u] exI [of _ rr] conjI) assumption+
qed

section \<open>Two rounds at work\<close>

text \<open>A review with one assertion weakness is stored, its target ordered, and answered in the next round.\<close>

definition demo_spec :: layer_artifact_spec where
  "demo_spec = hd LAYER_2_SPECS"

definition demo_weakness :: finding where
  "demo_weakness = (new_finding ''qa_review'' ''empty_input'' Severity_BLOCKING ''no test'' Trust_VERIFIED_LLM)
     \<lparr>fd_finding_type := Some ''assertion_weakness''\<rparr>"

definition demo_unstored :: layer_result where
  "demo_unstored = \<lparr>lr_layer = ''qa_review'', lr_passed = False, lr_findings = [demo_weakness],
     lr_metadata = [executed_check_ids [''empty_input'']], lr_artifact_reference = None\<rparr>"

definition demo_review_stored :: artifact_envelope where
  "demo_review_stored = review_envelope demo_spec verify_bundle ''AG3-007'' 0 [] demo_unstored"

definition demo_reviewed :: layer_result where
  "demo_reviewed = demo_unstored\<lparr>lr_artifact_reference := Some (reference_from_envelope demo_review_stored)\<rparr>"

definition demo_ordered :: "adversarial_target list" where
  "demo_ordered = [built_target demo_reviewed (reference_from_envelope demo_review_stored) 1 0 demo_weakness]"

definition demo_spawn_stored :: artifact_envelope where
  "demo_spawn_stored = sandbox_envelope verify_bundle ''AG3-007'' (sandbox_rel_path ''AG3-007'' 1) demo_ordered 0"

definition second_round :: "demo_world st \<Rightarrow> demo_world st" where
  "second_round s = s\<lparr>st_world := (st_world s)\<lparr>dw_rows := [envelope_to_row demo_review_stored, envelope_to_row demo_spawn_stored]\<rparr>\<rparr>"

lemma demo_extracted: "extract_mandatory_targets [demo_reviewed] 1 = Inr demo_ordered"
  by code_simp

lemma demo_results_targets: "targets_of_results [demo_reviewed] 1 = Inr demo_ordered"
  by code_simp

lemma demo_valid: "valid_envelope demo_review_stored" "valid_envelope demo_spawn_stored"
  unfolding valid_envelope_def by code_simp+

lemma demo_rows: "rp_rows (am_repository demo_artifacts) (second_round s)
    = [envelope_to_row demo_review_stored, envelope_to_row demo_spawn_stored]"
  by (simp add: demo_artifacts_def second_round_def)

lemma demo_review_read: "fst (manager_read demo_artifacts (reference_from_envelope demo_review_stored) (second_round s)) = Inr (stored_form demo_review_stored)"
proof -
  have "CHR ''|'' \<notin> set (ae_run_id demo_review_stored)" by code_simp
  then show ?thesis
    using parse_key_of_reference [OF demo_valid(1)] row_roundtrip [OF demo_valid(1)]
    by (simp add: manager_read_run read_envelope_run demo_rows)
qed

lemma demo_review_envelope: "review_envelope demo_spec verify_bundle ''AG3-007'' 0 [] demo_reviewed = demo_review_stored"
  by (simp add: review_envelope_def demo_review_stored_def demo_reviewed_def serialize_layer_result_def)

lemma demo_review_is_stored: "stored_review demo_artifacts verify_bundle ''AG3-007'' (second_round s) demo_reviewed"
proof -
  have ref: "lr_artifact_reference demo_reviewed = Some (reference_from_envelope demo_review_stored)"
    by (simp add: demo_reviewed_def)
  have meta: "distinct (map fst (lr_metadata demo_reviewed))"
    by (simp add: demo_reviewed_def demo_unstored_def)
  have "(lr_layer demo_reviewed, demo_spec) \<in> set review_specs"
    by (simp add: demo_reviewed_def demo_unstored_def demo_spec_def review_specs_def LAYER_2_SPECS_def)
  then show ?thesis
    unfolding stored_review_def
    by (intro exI [of _ demo_spec] exI [of _ 0] exI [of _ "[]"])
      (use demo_review_read ref meta in \<open>auto simp: demo_review_envelope\<close>)
qed

lemma demo_all_executed: "all_executed [demo_reviewed]"
  by (simp add: all_executed_def executed_def demo_reviewed_def demo_unstored_def executed_check_ids_def demo_weakness_def
      new_finding_def)

lemma demo_spawn_read: "manager_read_latest demo_artifacts ''AG3-007'' (Some ''r1'') Class_ADVERSARIAL_TEST_SANDBOX ''qa-adversarial'' (second_round s)
    = (Inr (stored_form demo_spawn_stored), second_round s)"
proof -
  let ?in = "in_scope ''AG3-007'' (Some ''r1'') Class_ADVERSARIAL_TEST_SANDBOX ''qa-adversarial''"
  have "\<not> ?in (envelope_to_row demo_review_stored)" "?in (envelope_to_row demo_spawn_stored)" by (simp_all add: in_scope_def envelope_to_row_def demo_review_stored_def demo_spawn_stored_def review_envelope_def qa_envelope_def
        sandbox_envelope_def demo_spec_def LAYER_2_SPECS_def verify_bundle_def)
  moreover have "rp_pick (am_repository demo_artifacts) (newest [envelope_to_row demo_spawn_stored]) = envelope_to_row demo_spawn_stored"
    by (simp add: demo_artifacts_def newest_def)
  ultimately show ?thesis
    using row_roundtrip [OF demo_valid(2)]
    by (simp add: manager_read_latest_def find_latest_envelope_def io_app io_run demo_rows)
qed

lemma verify_bundle_sel [simp]: "vb_run_id verify_bundle = ''r1''" "vb_attempt verify_bundle = 1"
  by (simp_all add: verify_bundle_def)

lemma spawned_targets_prove_themselves_witness:
  "\<forall>s. \<exists>x. load_spawn_evidence demo_artifacts ''/w'' ''AG3-007'' ''r1'' 2 (second_round s)
     = (Inr ([x], ''/w/_temp/adversarial/AG3-007/1''), second_round s) \<and> rt_finding_id x = ''qa_review.empty_input''"
proof
  fix s
  have "path_join ''/w'' (sandbox_rel_path ''AG3-007'' 1) = ''/w/_temp/adversarial/AG3-007/1''" by code_simp
  moreover have "map rt_finding_id (map raw_of demo_ordered) = [''qa_review.empty_input'']" by code_simp
  moreover have "demo_ordered = [hd demo_ordered]" by (simp add: demo_ordered_def)
  ultimately show "\<exists>x. load_spawn_evidence demo_artifacts ''/w'' ''AG3-007'' ''r1'' 2 (second_round s)
     = (Inr ([x], ''/w/_temp/adversarial/AG3-007/1''), second_round s) \<and> rt_finding_id x = ''qa_review.empty_input''"
    using spawned_targets_prove_themselves [of "[demo_reviewed]" verify_bundle demo_ordered demo_artifacts "''AG3-007''" "second_round s" 0 "''/w''"]
      demo_extracted demo_review_is_stored demo_spawn_read demo_all_executed [unfolded all_executed_def executed_def]
    by (intro exI [of _ "raw_of (hd demo_ordered)"]) (simp flip: demo_spawn_stored_def, simp add: demo_ordered_def)
qed

definition demo_challenger :: "unit demo_world_ext subflow_world_ext challenger" where
  "demo_challenger = \<lparr>ch_artifact_manager = Some demo_artifacts, ch_sparring_client = Some (\<lambda>_ _. ret ''none''),
     ch_telemetry_emitter = Some demo_emit, ch_sparring_resolver = None,
     ch_context_port = Some (\<lambda>_ _. ret [], \<lambda>_. ret (Some (''r1'', 2))), ch_files = (\<lambda>_. demo_sandbox),
     ch_set_files = (\<lambda>_ s. s), ch_python = any_python, ch_coercions = demo_coercions\<rparr>"

lemma demo_challenger_passes:
  "\<exists>lr t. challenger_evaluate demo_challenger sample_context ''/w'' ri (second_round s) = (Inr lr, t) \<and> lr_passed lr"
proof -
  let ?src = "source_of_raw (raw_of (hd demo_ordered))"
  have asked: "demo_asked ?src" by code_simp
  obtain rr t where run: "run_adversarial_runtime demo_runtime (demo_order 2 ?src) (second_round s) = (Inr rr, t)"
    "lr_passed (rr_layer_result rr)" using demo_passes [OF asked, of 2 "second_round s"] by auto
  have sandbox: "path_join ''/w'' (sandbox_rel_path ''AG3-007'' 1) = ''/w/_temp/adversarial/AG3-007/1''" by code_simp
  have loaded: "load_spawn_evidence demo_artifacts ''/w'' ''AG3-007'' ''r1'' 2 (second_round s)
     = (Inr (map raw_of demo_ordered, ''/w/_temp/adversarial/AG3-007/1''), second_round s)"
    using ordered_targets_loaded [of "[demo_reviewed]" verify_bundle demo_ordered demo_artifacts "''AG3-007''" "second_round s" 0 "''/w''"]
      demo_results_targets demo_review_is_stored demo_spawn_read demo_all_executed
    by (simp add: sandbox flip: demo_spawn_stored_def)
  have order: "\<lparr>ro_sandbox_dir = ''/w/_temp/adversarial/AG3-007/1'', ro_tests_root = tests_root_of sample_context,
      ro_story_id = ''AG3-007'', ro_run_id = ''r1'', ro_attempt = 2, ro_expected = map source_of_raw (map raw_of demo_ordered)\<rparr>
      = demo_order 2 ?src"
    by (simp add: demo_order_def demo_ordered_def tests_root_of_def sample_context_def path_join_def starts_with_def)
  have sid: "sc_story_id sample_context = ''AG3-007''" by (simp add: sample_context_def)
  have ports: "ch_artifact_manager demo_challenger = Some demo_artifacts" "ch_sparring_client demo_challenger = Some (\<lambda>_ _. ret ''none'')"
    "ch_telemetry_emitter demo_challenger = Some demo_emit"
    "ch_context_port demo_challenger = Some (\<lambda>_ _. ret [], \<lambda>_. ret (Some (''r1'', 2)))"
    and runtime: "\<lparr>ar_artifact_manager = demo_artifacts, ar_emitter = demo_emit, ar_complete = (\<lambda>_ _. ret ''none''),
       ar_resolver = ch_sparring_resolver demo_challenger, ar_files = ch_files demo_challenger,
       ar_set_files = ch_set_files demo_challenger, ar_python = ch_python demo_challenger,
       ar_coercions = ch_coercions demo_challenger\<rparr> = demo_runtime"
    by (simp_all add: demo_challenger_def demo_runtime_def)
  have audit: "materialize_prompt_audit demo_challenger sample_context ''/w'' = ret []"
    and scope: "resolve_run_scope demo_challenger ''/w'' = ret (''r1'', 2)"
    by (simp_all add: materialize_prompt_audit_def resolve_run_scope_def ports bind_ret)
  have "challenger_evaluate demo_challenger sample_context ''/w'' ri (second_round s) = (Inr (materialized_result [] rr), t)"
    unfolding challenger_evaluate_def audit scope ports bind_ret option.case prod.case io_app sid loaded sum.case order runtime run(1) io_run
    by (rule refl)
  then show ?thesis using run(2) by (simp add: materialized_result_def)
qed

lemma passing_layer_answers_proven_targets_witness:
  "\<forall>s. \<exists>lr t w ts sandbox u. challenger_evaluate demo_challenger sample_context ''/w'' None (second_round s) = (Inr lr, t)
     \<and> lr_passed lr \<and> load_spawn_evidence demo_artifacts ''/w'' ''AG3-007'' ''r1'' 2 w = (Inr (ts, sandbox), u)
     \<and> (\<forall>x \<in> set ts. proven_source demo_artifacts ''AG3-007'' ''r1'' 1 w x)"
proof
  fix s
  obtain lr t where pass: "challenger_evaluate demo_challenger sample_context ''/w'' None (second_round s) = (Inr lr, t)" "lr_passed lr"
    using demo_challenger_passes by blast
  have demo: "ch_artifact_manager demo_challenger = Some demo_artifacts" "sc_story_id sample_context = ''AG3-007''"
    "ch_context_port demo_challenger = Some (\<lambda>_ _. ret [], \<lambda>_. ret (Some (''r1'', 2)))"
    by (simp_all add: demo_challenger_def sample_context_def)
  have scope: "resolve_run_scope demo_challenger ''/w'' = ret (''r1'', 2)"
    by (simp add: resolve_run_scope_def demo(3) bind_ret)
  obtain m v rid n w ts sandbox u where "ch_artifact_manager demo_challenger = Some m"
    "resolve_run_scope demo_challenger ''/w'' v = (Inr (rid, n), w)"
    "load_spawn_evidence m ''/w'' (sc_story_id sample_context) rid n w = (Inr (ts, sandbox), u)"
    "if n = 1 then ts = [] else \<forall>x \<in> set ts. proven_source m (sc_story_id sample_context) rid (n - 1) w x"
    using passing_layer_answers_proven_targets [OF pass] by (elim exE conjE) (rule that)
  then have "load_spawn_evidence demo_artifacts ''/w'' ''AG3-007'' ''r1'' 2 w = (Inr (ts, sandbox), u)"
    "\<forall>x \<in> set ts. proven_source demo_artifacts ''AG3-007'' ''r1'' 1 w x"
    by (auto simp: demo scope ret_def)
  with pass show "\<exists>lr t w ts sandbox u. challenger_evaluate demo_challenger sample_context ''/w'' None (second_round s) = (Inr lr, t)
     \<and> lr_passed lr \<and> load_spawn_evidence demo_artifacts ''/w'' ''AG3-007'' ''r1'' 2 w = (Inr (ts, sandbox), u)
     \<and> (\<forall>x \<in> set ts. proven_source demo_artifacts ''AG3-007'' ''r1'' 1 w x)"
    by blast
qed

end
