(* ===== verification/Dep_Graph.thy ===== *)
theory Dep_Graph
  imports Prelude
begin

text \<open>
  The dependency graph of execution planning (\<open>execution_planning/dependency_graph.py\<close>): its
  construction from the edges, reachability, cycle detection and topological layers.
\<close>

section \<open>Dependencies\<close>

datatype story_dependency_kind =
    HARD_STORY_DEPENDENCY | SOFT_STORY_DEPENDENCY | SERIAL_EXECUTION_CONSTRAINT | MUTEX_CONSTRAINT
  | SHARED_CONTRACT_DEPENDENCY | SHARED_FILE_CONFLICT | EXTERNAL_DEPENDENCY | HUMAN_GATE_DEPENDENCY

fun dependency_kind_value :: "story_dependency_kind \<Rightarrow> string" where
  "dependency_kind_value HARD_STORY_DEPENDENCY = ''hard_story_dependency''"
| "dependency_kind_value SOFT_STORY_DEPENDENCY = ''soft_story_dependency''"
| "dependency_kind_value SERIAL_EXECUTION_CONSTRAINT = ''serial_execution_constraint''"
| "dependency_kind_value MUTEX_CONSTRAINT = ''mutex_constraint''"
| "dependency_kind_value SHARED_CONTRACT_DEPENDENCY = ''shared_contract_dependency''"
| "dependency_kind_value SHARED_FILE_CONFLICT = ''shared_file_conflict''"
| "dependency_kind_value EXTERNAL_DEPENDENCY = ''external_dependency''"
| "dependency_kind_value HUMAN_GATE_DEPENDENCY = ''human_gate_dependency''"

text \<open>\<open>sd_created_at\<close> is the time stamp in its ISO form, the only form the graph looks at.\<close>

record story_dependency =
  sd_story_id :: string
  sd_depends_on :: string
  sd_kind :: story_dependency_kind
  sd_created_at :: string

definition hard_blocking_dependency_kinds :: "story_dependency_kind set" where
  "hard_blocking_dependency_kinds = {HARD_STORY_DEPENDENCY, SERIAL_EXECUTION_CONSTRAINT,
     MUTEX_CONSTRAINT, SHARED_CONTRACT_DEPENDENCY, SHARED_FILE_CONFLICT, EXTERNAL_DEPENDENCY,
     HUMAN_GATE_DEPENDENCY}"

lemma hard_blocking_iff [simp]: "k \<in> hard_blocking_dependency_kinds \<longleftrightarrow> k \<noteq> SOFT_STORY_DEPENDENCY"
  by (cases k) (simp_all add: hard_blocking_dependency_kinds_def)

section \<open>Construction\<close>

text \<open>
  The attributes of a \<open>DependencyGraph\<close>. They are filled by the constructor and never changed,
  so a graph is given by the edges it was built from: the operations below take the edges and
  read the attributes of \<open>dependency_graph es\<close>. A \<open>defaultdict\<close> is a total function.
\<close>

record graph_fields =
  dg_nodes :: "string set"
  dg_successors :: "string \<Rightarrow> string set"
  dg_predecessors :: "string \<Rightarrow> string set"
  dg_predecessor_edges :: "string \<Rightarrow> story_dependency list"

definition add_edge :: "graph_fields \<Rightarrow> story_dependency \<Rightarrow> graph_fields" where
  "add_edge g e = g\<lparr>
     dg_nodes := insert (sd_depends_on e) (insert (sd_story_id e) (dg_nodes g)),
     dg_successors := (dg_successors g)
       (sd_depends_on e := insert (sd_story_id e) (dg_successors g (sd_depends_on e))),
     dg_predecessors := (dg_predecessors g)
       (sd_story_id e := insert (sd_depends_on e) (dg_predecessors g (sd_story_id e))),
     dg_predecessor_edges := (dg_predecessor_edges g)
       (sd_story_id e := dg_predecessor_edges g (sd_story_id e) @ [e])\<rparr>"

definition dependency_graph :: "story_dependency list \<Rightarrow> graph_fields" where
  "dependency_graph es = foldl add_edge \<lparr>dg_nodes = {}, dg_successors = (\<lambda>_. {}),
     dg_predecessors = (\<lambda>_. {}), dg_predecessor_edges = (\<lambda>_. [])\<rparr> es"

definition nodes_of :: "story_dependency list \<Rightarrow> string set" where
  "nodes_of es = dg_nodes (dependency_graph es)"

definition successors :: "story_dependency list \<Rightarrow> string \<Rightarrow> string set" where
  "successors es n = dg_successors (dependency_graph es) n"

definition direct_predecessors :: "story_dependency list \<Rightarrow> string \<Rightarrow> string set" where
  "direct_predecessors es n = dg_predecessors (dependency_graph es) n"

definition edge_order :: "story_dependency \<Rightarrow> string \<times> string \<times> string \<times> string" where
  "edge_order e = (sd_depends_on e, sd_story_id e, dependency_kind_value (sd_kind e), sd_created_at e)"

definition direct_predecessor_edges :: "story_dependency list \<Rightarrow> string \<Rightarrow> story_dependency list" where
  "direct_predecessor_edges es n = sort_key edge_order (dg_predecessor_edges (dependency_graph es) n)"

definition direct_hard_predecessors :: "story_dependency list \<Rightarrow> string \<Rightarrow> string set" where
  "direct_hard_predecessors es n = sd_depends_on `
     {e \<in> set (dg_predecessor_edges (dependency_graph es) n). sd_kind e \<in> hard_blocking_dependency_kinds}"

text \<open>The relation the edges stand for: from a story to the stories that depend on it.\<close>

definition dep_rel :: "story_dependency list \<Rightarrow> (string \<times> string) set" where
  "dep_rel es = {(sd_depends_on e, sd_story_id e) | e. e \<in> set es}"

lemma add_edge_fold:
  "dg_nodes (foldl add_edge g es) = dg_nodes g \<union> sd_depends_on ` set es \<union> sd_story_id ` set es"
  "dg_successors (foldl add_edge g es) n = dg_successors g n \<union> {m. (n, m) \<in> dep_rel es}"
  "dg_predecessors (foldl add_edge g es) n = dg_predecessors g n \<union> {m. (m, n) \<in> dep_rel es}"
  "dg_predecessor_edges (foldl add_edge g es) n
     = dg_predecessor_edges g n @ filter (\<lambda>e. sd_story_id e = n) es"
  by (induction es arbitrary: g) (auto simp: add_edge_def dep_rel_def)

lemma graph_fields_of [simp]:
  "nodes_of es = sd_depends_on ` set es \<union> sd_story_id ` set es"
  "successors es n = {m. (n, m) \<in> dep_rel es}"
  "direct_predecessors es n = {m. (m, n) \<in> dep_rel es}"
  "dg_predecessor_edges (dependency_graph es) n = filter (\<lambda>e. sd_story_id e = n) es"
  by (simp_all add: nodes_of_def successors_def direct_predecessors_def dependency_graph_def add_edge_fold)

lemma dep_rel_nodes: "dep_rel es \<subseteq> nodes_of es \<times> nodes_of es"
  by (auto simp: dep_rel_def)

lemma finite_dep_rel: "finite (dep_rel es)"
proof -
  have "dep_rel es = (\<lambda>e. (sd_depends_on e, sd_story_id e)) ` set es" by (auto simp: dep_rel_def)
  then show ?thesis by simp
qed

lemma finite_nodes [simp]: "finite (nodes_of es)"
  by simp

lemma finite_successors: "finite (successors es n)"
  by (rule finite_subset [OF _ finite_nodes [of es]]) (use dep_rel_nodes in auto)

definition hard_rel :: "story_dependency list \<Rightarrow> (string \<times> string) set" where
  "hard_rel es = {(sd_depends_on e, sd_story_id e) | e. e \<in> set es \<and> sd_kind e \<noteq> SOFT_STORY_DEPENDENCY}"

lemma direct_hard_predecessors_iff [simp]:
  "direct_hard_predecessors es n = {m. (m, n) \<in> hard_rel es}"
  by (auto simp: direct_hard_predecessors_def hard_rel_def)

lemma hard_rel_sub: "hard_rel es \<subseteq> dep_rel es"
  by (auto simp: hard_rel_def dep_rel_def)

section \<open>Reachability\<close>

text \<open>The two adjacency maps that \<open>_walk\<close> is called with.\<close>

datatype direction = Along | Against

fun adjacency :: "story_dependency list \<Rightarrow> direction \<Rightarrow> string \<Rightarrow> string set" where
  "adjacency es Along n = successors es n"
| "adjacency es Against n = direct_predecessors es n"

fun step_rel :: "story_dependency list \<Rightarrow> direction \<Rightarrow> (string \<times> string) set" where
  "step_rel es Along = dep_rel es"
| "step_rel es Against = (dep_rel es)\<inverse>"

lemma adjacency_iff: "m \<in> adjacency es d n \<longleftrightarrow> (n, m) \<in> step_rel es d"
  by (cases d) simp_all

lemma step_rel_nodes: "step_rel es d \<subseteq> nodes_of es \<times> nodes_of es"
  using dep_rel_nodes by (cases d) auto

lemma finite_adjacency: "finite (adjacency es d n)"
  by (rule finite_subset [OF _ finite_nodes [of es]]) (use step_rel_nodes adjacency_iff in blast)

lemma set_adjacency [simp]: "set (sorted_list_of_set (adjacency es d n)) = adjacency es d n"
  by (simp add: finite_adjacency)

text \<open>
  The loop of \<open>_walk\<close>. Its stack is kept here with the top first, so extending it by the
  adjacent nodes in reverse order puts them in ascending order in front.
\<close>

function walk_loop :: "story_dependency list \<Rightarrow> direction \<Rightarrow> string list \<Rightarrow> string set \<Rightarrow> string set" where
  "walk_loop es d [] seen = seen"
| "walk_loop es d (n # stack) seen =
    (if n \<in> seen then walk_loop es d stack seen
     else walk_loop es d (sorted_list_of_set (adjacency es d n) @ stack) (insert n seen))"
  by pat_completeness auto

lemma adjacency_outside: "n \<notin> nodes_of es \<Longrightarrow> adjacency es d n = {}"
  using step_rel_nodes [of es d] by (auto simp: adjacency_iff simp del: graph_fields_of)

termination walk_loop
proof (relation "inv_image (less_than <*lex*> less_than)
    (\<lambda>(es, d, stack, seen). (card (nodes_of es - seen), length stack))"; (simp only: in_inv_image case_prod_conv)?)
  fix es d n and stack :: "string list" and seen :: "string set" assume new: "n \<notin> seen"
  show "((card (nodes_of es - insert n seen), length (sorted_list_of_set (adjacency es d n) @ stack)),
      (card (nodes_of es - seen), length (n # stack))) \<in> less_than <*lex*> less_than"
  proof (cases "n \<in> nodes_of es")
    case True
    then have "nodes_of es - insert n seen \<subset> nodes_of es - seen" using new by blast
    then show ?thesis using psubset_card_mono finite_nodes by (metis finite_Diff in_lex_prod less_than_iff)
  next
    case False
    then have "nodes_of es - insert n seen = nodes_of es - seen" by blast
    then show ?thesis using False by (simp add: adjacency_outside del: graph_fields_of)
  qed
qed (auto simp del: graph_fields_of)

definition walk :: "story_dependency list \<Rightarrow> direction \<Rightarrow> string \<Rightarrow> string set" where
  "walk es d start = walk_loop es d (sorted_list_of_set (adjacency es d start)) {}"

definition transitive_predecessors :: "story_dependency list \<Rightarrow> string \<Rightarrow> string set" where
  "transitive_predecessors es n = walk es Against n"

definition transitive_successors :: "story_dependency list \<Rightarrow> string \<Rightarrow> string set" where
  "transitive_successors es n = walk es Along n"

lemma walk_loop_sound:
  "walk_loop es d stack seen \<subseteq> seen \<union> (step_rel es d)\<^sup>* `` set stack"
proof (induction es d stack seen rule: walk_loop.induct)
  case (2 es d n stack seen)
  have "(step_rel es d)\<^sup>* `` set (sorted_list_of_set (adjacency es d n) @ stack)
      \<subseteq> (step_rel es d)\<^sup>* `` set (n # stack)"
    by (auto simp: adjacency_iff Image_iff intro: converse_rtrancl_into_rtrancl)
  moreover have "n \<in> (step_rel es d)\<^sup>* `` set (n # stack)" by auto
  moreover have "W \<subseteq> S \<union> B" if "W \<subseteq> insert n S \<union> A" "A \<subseteq> B" "n \<in> B" for W S A B :: "string set"
    using that by blast
  ultimately show ?case using 2 by (cases "n \<in> seen") (auto simp del: set_append)
qed simp

lemma walk_loop_closed:
  assumes "step_rel es d `` seen \<subseteq> seen \<union> set stack"
  shows "seen \<union> set stack \<subseteq> walk_loop es d stack seen
    \<and> step_rel es d `` walk_loop es d stack seen \<subseteq> walk_loop es d stack seen"
  using assms
proof (induction es d stack seen rule: walk_loop.induct)
  case (2 es d n stack seen)
  show ?case
  proof (cases "n \<in> seen")
    case True
    then show ?thesis using 2 by auto
  next
    case False
    have "step_rel es d `` insert n seen
        \<subseteq> insert n seen \<union> set (sorted_list_of_set (adjacency es d n) @ stack)"
      using 2(3) by (auto simp: adjacency_iff)
    from "2.IH"(2) [OF False this] show ?thesis using False by auto
  qed
qed simp

lemma walk_eq: "walk es d n = (step_rel es d)\<^sup>+ `` {n}"
proof
  show "walk es d n \<subseteq> (step_rel es d)\<^sup>+ `` {n}"
    unfolding walk_def
    by (rule order_trans [OF walk_loop_sound]) (auto simp: adjacency_iff intro: rtrancl_into_trancl2)
  have closed: "adjacency es d n \<subseteq> walk es d n" "step_rel es d `` walk es d n \<subseteq> walk es d n"
    using walk_loop_closed [of es d "{}" "sorted_list_of_set (adjacency es d n)"]
    by (simp_all add: walk_def)
  have "m \<in> walk es d n" if "(n, m) \<in> (step_rel es d)\<^sup>+" for m
    using that by induction (use closed in \<open>auto simp: adjacency_iff\<close>)
  then show "(step_rel es d)\<^sup>+ `` {n} \<subseteq> walk es d n" by auto
qed

lemma transitive_successors_eq [simp]: "transitive_successors es n = {m. (n, m) \<in> (dep_rel es)\<^sup>+}"
  by (auto simp: transitive_successors_def walk_eq)

lemma transitive_predecessors_eq [simp]: "transitive_predecessors es n = {m. (m, n) \<in> (dep_rel es)\<^sup>+}"
  by (auto simp: transitive_predecessors_def walk_eq trancl_converse)

section \<open>Cycle detection\<close>

datatype visit = Visiting | Visited

text \<open>\<open>stack.index(x)\<close>, for an \<open>x\<close> on the stack.\<close>

fun stack_index :: "string \<Rightarrow> string list \<Rightarrow> nat" where
  "stack_index x [] = 0"
| "stack_index x (y # ys) = (if x = y then 0 else Suc (stack_index x ys))"

lemma stack_index_drop:
  "x \<in> set ys \<Longrightarrow> \<exists>zs. drop (stack_index x ys) ys = x # zs"
  by (induction ys) auto

text \<open>
  The loop over the successors in \<open>_visit_cycle\<close>, with the body of \<open>_cycle_from_successor\<close>: a
  successor that is being visited closes a cycle, one already visited is passed over, a new one
  is visited. The stack after the loop is the stack before, since every visit pops what it
  pushed; after a cycle is found nobody reads it.
\<close>

function visit_successors ::
  "story_dependency list \<Rightarrow> string list \<Rightarrow> (string \<rightharpoonup> visit) \<Rightarrow> string list
     \<Rightarrow> string list option \<times> (string \<rightharpoonup> visit)" where
  "visit_successors es [] st stack = (None, st)"
| "visit_successors es (n # ns) st stack = (case st n of
      Some Visiting \<Rightarrow> (Some (drop (stack_index n stack) stack @ [n]), st)
    | Some Visited \<Rightarrow> visit_successors es ns st stack
    | None \<Rightarrow> (case visit_successors es (sorted_list_of_set (successors es n)) (st(n \<mapsto> Visiting)) (stack @ [n]) of
          (Some c, st') \<Rightarrow> (Some c, st')
        | (None, st') \<Rightarrow> visit_successors es ns (st'(n \<mapsto> Visited)) stack))"
  by pat_completeness auto

lemma visit_successors_dom:
  "visit_successors_dom (es, ns, st, stack) \<Longrightarrow>
     dom st \<subseteq> dom (snd (visit_successors es ns st stack))"
proof (induction es ns st stack rule: visit_successors.pinduct)
  case (2 es n ns st stack)
  show ?case
  proof (cases "st n")
    case None
    then show ?thesis using 2
      by (fastforce simp: visit_successors.psimps split: prod.splits option.splits)
  next
    case (Some v)
    then show ?thesis using 2 by (cases v) (auto simp: visit_successors.psimps)
  qed
qed (simp add: visit_successors.psimps)

lemma successors_outside: "n \<notin> nodes_of es \<Longrightarrow> successors es n = {}"
  using adjacency_outside [of n es Along] by simp

lemma card_unvisited:
  "dom st \<subseteq> D \<Longrightarrow> card (nodes_of es - D) \<le> card (nodes_of es - dom st)"
  by (rule card_mono) (auto simp del: graph_fields_of)

termination visit_successors
proof (relation "inv_image (less_than <*lex*> less_than)
    (\<lambda>(es, ns, st, stack). (card (nodes_of es - dom st), length ns))"; (simp only: in_inv_image case_prod_conv)?)
  fix es n ns and st :: "string \<rightharpoonup> visit" assume new: "st n = None"
  have dom: "dom (st(n \<mapsto> Visiting)) = insert n (dom st)" by simp
  show "((card (nodes_of es - dom (st(n \<mapsto> Visiting))), length (sorted_list_of_set (successors es n))),
      card (nodes_of es - dom st), length (n # ns)) \<in> less_than <*lex*> less_than"
  proof (cases "n \<in> nodes_of es")
    case True
    then have "nodes_of es - insert n (dom st) \<subset> nodes_of es - dom st" using new by blast
    then show ?thesis unfolding dom using psubset_card_mono finite_nodes
      by (metis finite_Diff in_lex_prod less_than_iff)
  next
    case False
    then have "nodes_of es - insert n (dom st) = nodes_of es - dom st" by blast
    then show ?thesis unfolding dom using False by (simp add: successors_outside del: graph_fields_of)
  qed
next
  fix es n ns stack and st st' :: "string \<rightharpoonup> visit" and c :: "string list option"
  assume new: "st n = None" and p: "(None, st') = visit_successors es (sorted_list_of_set (successors es n)) (st(n \<mapsto> Visiting)) (stack @ [n])"
    and "c = None" and dom: "visit_successors_dom (es, sorted_list_of_set (successors es n), st(n \<mapsto> Visiting), stack @ [n])"
  have "dom (st(n \<mapsto> Visiting)) \<subseteq> dom st'" using visit_successors_dom [OF dom] p by (metis snd_conv)
  then have "card (nodes_of es - dom (st'(n \<mapsto> Visited))) \<le> card (nodes_of es - dom st)"
    by (intro card_unvisited) auto
  then show "((card (nodes_of es - dom (st'(n \<mapsto> Visited))), length ns),
      card (nodes_of es - dom st), length (n # ns)) \<in> less_than <*lex*> less_than"
    by (auto simp del: graph_fields_of)
qed (auto simp del: graph_fields_of)

definition visit_cycle ::
  "story_dependency list \<Rightarrow> string \<Rightarrow> (string \<rightharpoonup> visit) \<Rightarrow> string list
     \<Rightarrow> string list option \<times> (string \<rightharpoonup> visit)" where
  "visit_cycle es n st stack =
    (case visit_successors es (sorted_list_of_set (successors es n)) (st(n \<mapsto> Visiting)) (stack @ [n]) of
        (Some c, st') \<Rightarrow> (Some c, st')
      | (None, st') \<Rightarrow> (None, st'(n \<mapsto> Visited)))"

fun cycle_from :: "story_dependency list \<Rightarrow> string list \<Rightarrow> (string \<rightharpoonup> visit) \<Rightarrow> string list option" where
  "cycle_from es [] st = None"
| "cycle_from es (n # ns) st =
    (if st n = None
     then (case visit_cycle es n st [] of (Some c, _) \<Rightarrow> Some c | (None, st') \<Rightarrow> cycle_from es ns st')
     else cycle_from es ns st)"

definition has_cycle :: "story_dependency list \<Rightarrow> bool \<times> string list" where
  "has_cycle es = (case cycle_from es (sorted_list_of_set (nodes_of es)) Map.empty of
      Some c \<Rightarrow> (True, c) | None \<Rightarrow> (False, []))"

text \<open>
  The invariant of the search: the stack is a path of the nodes being visited, and a visited
  node has only visited successors and lies on no cycle.
\<close>

definition search_ok :: "story_dependency list \<Rightarrow> (string \<rightharpoonup> visit) \<Rightarrow> string list \<Rightarrow> bool" where
  "search_ok es st stack \<longleftrightarrow> {n. st n = Some Visiting} = set stack
     \<and> successively (\<lambda>a b. (a, b) \<in> dep_rel es) stack
     \<and> (\<forall>n m. st n = Some Visited \<longrightarrow> (n, m) \<in> dep_rel es \<longrightarrow> st m = Some Visited)
     \<and> (\<forall>n. st n = Some Visited \<longrightarrow> (n, n) \<notin> (dep_rel es)\<^sup>+)"

definition real_cycle :: "story_dependency list \<Rightarrow> string list \<Rightarrow> bool" where
  "real_cycle es c \<longleftrightarrow> (\<exists>n zs. c = n # zs @ [n]) \<and> successively (\<lambda>a b. (a, b) \<in> dep_rel es) c"

definition search_result ::
  "story_dependency list \<Rightarrow> string list \<Rightarrow> (string \<rightharpoonup> visit) \<Rightarrow> string list
     \<Rightarrow> string list option \<times> (string \<rightharpoonup> visit) \<Rightarrow> bool" where
  "search_result es ns st stack r \<longleftrightarrow> (case r of (Some c, _) \<Rightarrow> real_cycle es c
     | (None, st') \<Rightarrow> search_ok es st' stack \<and> st \<subseteq>\<^sub>m st' \<and> (\<forall>n \<in> set ns. st' n = Some Visited))"

lemma map_le_Some: "st \<subseteq>\<^sub>m st' \<Longrightarrow> st n = Some v \<Longrightarrow> st' n = Some v"
  by (metis domI map_le_def)

lemma search_result_Cons:
  assumes "st \<subseteq>\<^sub>m st'" and "st' n = Some Visited" and "search_result es ns st' stack r"
  shows "search_result es (n # ns) st stack r"
proof (cases r)
  case (Pair c st'')
  show ?thesis
  proof (cases c)
    case None
    then have r: "search_ok es st'' stack" "st' \<subseteq>\<^sub>m st''" "\<forall>n \<in> set ns. st'' n = Some Visited"
      using assms(3) Pair by (simp_all add: search_result_def)
    then show ?thesis using None Pair map_le_trans [OF assms(1) r(2)] map_le_Some [OF r(2) assms(2)]
      by (simp add: search_result_def)
  qed (use assms(3) Pair in \<open>simp add: search_result_def\<close>)
qed

lemma visited_closed:
  assumes "search_ok es st stack" and "(n, m) \<in> (dep_rel es)\<^sup>+" and "st n = Some Visited"
  shows "st m = Some Visited"
  using assms(2,3) by induction (use assms(1) in \<open>auto simp: search_ok_def\<close>)

lemma push_ok:
  assumes "search_ok es st stack" and "st n = None" and "stack \<noteq> [] \<Longrightarrow> (last stack, n) \<in> dep_rel es"
  shows "search_ok es (st(n \<mapsto> Visiting)) (stack @ [n])"
  using assms by (auto simp: search_ok_def successively_append_iff)

lemma pop_ok:
  assumes new: "st n = None" and ok: "search_ok es st stack"
    and r: "search_result es (sorted_list_of_set (successors es n)) (st(n \<mapsto> Visiting)) (stack @ [n]) (None, st')"
  shows "search_ok es (st'(n \<mapsto> Visited)) stack \<and> st \<subseteq>\<^sub>m st'(n \<mapsto> Visited)"
proof -
  have ok': "search_ok es st' (stack @ [n])" and ext: "st(n \<mapsto> Visiting) \<subseteq>\<^sub>m st'"
    and succ: "\<And>m. (n, m) \<in> dep_rel es \<Longrightarrow> st' m = Some Visited"
    using r finite_successors [of es n] by (auto simp: search_result_def)
  have n: "st' n = Some Visiting" using ext by (auto simp: map_le_def split: if_splits)
  have "(n, n) \<notin> (dep_rel es)\<^sup>+"
  proof
    assume "(n, n) \<in> (dep_rel es)\<^sup>+"
    then obtain m where m: "(n, m) \<in> dep_rel es" "(m, n) \<in> (dep_rel es)\<^sup>*" by (meson tranclD)
    then have "st' m = Some Visited" using succ by blast
    moreover have "m \<noteq> n" using calculation n by auto
    ultimately have "st' n = Some Visited" using visited_closed [OF ok'] m(2) by (metis rtranclD)
    then show False using n by simp
  qed
  moreover have "n \<notin> set stack"
  proof
    assume "n \<in> set stack"
    then have "n \<in> {n. st n = Some Visiting}" using ok by (simp add: search_ok_def)
    then show False using new by simp
  qed
  ultimately have acyc: "(n, n) \<notin> (dep_rel es)\<^sup>+" and out: "n \<notin> set stack" by blast+
  have visiting: "{m. (st'(n \<mapsto> Visited)) m = Some Visiting} = set stack"
  proof -
    have "{m. st' m = Some Visiting} = insert n (set stack)" using ok' by (simp add: search_ok_def)
    moreover have "{m. (st'(n \<mapsto> Visited)) m = Some Visiting} = {m. st' m = Some Visiting} - {n}" by auto
    ultimately show ?thesis using out by simp
  qed
  have closed: "(st'(n \<mapsto> Visited)) b = Some Visited"
    if "(st'(n \<mapsto> Visited)) a = Some Visited" "(a, b) \<in> dep_rel es" for a b
    using that succ ok' by (cases "a = n") (auto simp: search_ok_def)
  have free: "(a, a) \<notin> (dep_rel es)\<^sup>+" if "(st'(n \<mapsto> Visited)) a = Some Visited" for a
    using that acyc ok' by (cases "a = n") (auto simp: search_ok_def)
  have "search_ok es (st'(n \<mapsto> Visited)) stack"
    unfolding search_ok_def using ok visiting closed free by (auto simp: search_ok_def)
  moreover have "st \<subseteq>\<^sub>m st'(n \<mapsto> Visited)"
    using ext new by (auto simp: map_le_def) (metis domI domIff fun_upd_apply)
  ultimately show ?thesis ..
qed

lemma visit_successors_result:
  assumes "search_ok es st stack" and "stack \<noteq> []" and "\<forall>n \<in> set ns. (last stack, n) \<in> dep_rel es"
  shows "search_result es ns st stack (visit_successors es ns st stack)"
  using assms
proof (induction es ns st stack rule: visit_successors.induct)
  case (1 es st stack)
  then show ?case by (simp add: search_result_def)
next
  case (2 es n ns st stack)
  show ?case
  proof (cases "st n")
    case None
    let ?ss = "sorted_list_of_set (successors es n)" and ?st = "st(n \<mapsto> Visiting)"
    obtain c st' where run: "visit_successors es ?ss ?st (stack @ [n]) = (c, st')" by (cases "visit_successors es ?ss ?st (stack @ [n])")
    have push: "search_ok es ?st (stack @ [n])" by (rule push_ok) (use "2.prems" None in auto)
    have "\<forall>m \<in> set ?ss. (last (stack @ [n]), m) \<in> dep_rel es" using finite_successors [of es n] by simp
    then have inner: "search_result es ?ss ?st (stack @ [n]) (c, st')"
      using "2.IH"(1) [OF None push] unfolding run by blast
    show ?thesis
    proof (cases c)
      case (Some x)
      then show ?thesis using inner None run by (simp add: search_result_def)
    next
      case c: None
      have "search_ok es (st'(n \<mapsto> Visited)) stack \<and> st \<subseteq>\<^sub>m st'(n \<mapsto> Visited)"
        using pop_ok [OF None "2.prems"(1)] inner c by simp
      moreover from this have "search_result es ns (st'(n \<mapsto> Visited)) stack
          (visit_successors es ns (st'(n \<mapsto> Visited)) stack)"
        using "2.IH"(2) [OF None run [symmetric]] c "2.prems"(2,3) by (meson list.set_intros(2))
      ultimately have "search_result es (n # ns) st stack
          (visit_successors es ns (st'(n \<mapsto> Visited)) stack)"
        by (intro search_result_Cons [where st' = "st'(n \<mapsto> Visited)"]) auto
      then show ?thesis using None run c by simp
    qed
  next
    case (Some v)
    show ?thesis
    proof (cases v)
      case Visited
      then have "search_result es ns st stack (visit_successors es ns st stack)"
        using "2.IH"(3) [OF Some] "2.prems" by simp
      then have "search_result es (n # ns) st stack (visit_successors es ns st stack)"
        by (intro search_result_Cons [where st' = st]) (use Some Visited in auto)
      then show ?thesis using Some Visited by simp
    next
      case Visiting
      then have "n \<in> set stack" using "2.prems"(1) Some by (auto simp: search_ok_def)
      then obtain zs where zs: "drop (stack_index n stack) stack = n # zs" using stack_index_drop by blast
      then have "stack = take (stack_index n stack) stack @ n # zs" by (metis append_take_drop_id)
      then have "successively (\<lambda>a b. (a, b) \<in> dep_rel es) (n # zs)" "last (n # zs) = last stack"
        using "2.prems"(1) by (metis search_ok_def successively_append_iff, metis last_appendR list.distinct(1))
      then have "real_cycle es ((n # zs) @ [n])"
        using "2.prems"(3) unfolding real_cycle_def successively_append_iff by auto
      then show ?thesis using Some Visiting zs by (simp add: search_result_def)
    qed
  qed
qed

lemma visit_cycle_result:
  assumes "search_ok es st []" and "st n = None"
  shows "search_result es [n] st [] (visit_cycle es n st [])"
proof -
  obtain c st' where run: "visit_successors es (sorted_list_of_set (successors es n)) (st(n \<mapsto> Visiting)) ([] @ [n]) = (c, st')"
    by (cases "visit_successors es (sorted_list_of_set (successors es n)) (st(n \<mapsto> Visiting)) ([] @ [n])")
  have "search_ok es (st(n \<mapsto> Visiting)) ([] @ [n])" by (rule push_ok) (use assms in auto)
  moreover have "\<forall>m \<in> set (sorted_list_of_set (successors es n)). (last ([] @ [n]), m) \<in> dep_rel es"
    using finite_successors [of es n] by simp
  ultimately have inner: "search_result es (sorted_list_of_set (successors es n)) (st(n \<mapsto> Visiting)) ([] @ [n]) (c, st')"
    using visit_successors_result [of es "st(n \<mapsto> Visiting)" "[] @ [n]"] unfolding run [symmetric] by blast
  show ?thesis
  proof (cases c)
    case None
    then show ?thesis using pop_ok [OF assms(2,1)] inner run
      by (simp add: visit_cycle_def search_result_def)
  next
    case (Some x)
    then show ?thesis using inner run by (simp add: visit_cycle_def search_result_def)
  qed
qed

lemma cycle_from_result:
  assumes "search_ok es st []"
  shows "\<exists>st'. search_result es ns st [] (cycle_from es ns st, st')"
  using assms
proof (induction ns arbitrary: st)
  case (Cons n ns)
  show ?case
  proof (cases "st n")
    case None
    obtain c st' where run: "visit_cycle es n st [] = (c, st')" by (cases "visit_cycle es n st []")
    have r: "search_result es [n] st [] (c, st')" using visit_cycle_result [OF Cons.prems None] run by simp
    show ?thesis
    proof (cases c)
      case c: None
      have ok: "search_ok es st' []" "st \<subseteq>\<^sub>m st'" "st' n = Some Visited" using r c by (simp_all add: search_result_def)
      have "cycle_from es (n # ns) st = cycle_from es ns st'" using None run c by simp
      then show ?thesis using Cons.IH [OF ok(1)] search_result_Cons [OF ok(2,3)] by metis
    qed (use r None run in \<open>simp add: search_result_def\<close>)
  next
    case (Some v)
    then have "st n = Some Visited" using Cons.prems by (cases v) (auto simp: search_ok_def)
    moreover have "cycle_from es (n # ns) st = cycle_from es ns st" using Some by simp
    ultimately show ?thesis using Cons.IH [OF Cons.prems] search_result_Cons [OF map_le_refl] by metis
  qed
qed (auto simp: search_result_def)

lemma successively_trancl: "successively (\<lambda>a b. (a, b) \<in> R) (n # zs @ [m]) \<Longrightarrow> (n, m) \<in> R\<^sup>+"
  by (induction zs arbitrary: n) (auto intro: trancl_into_trancl2)

lemma successively_rtrancl: "successively (\<lambda>a b. (a, b) \<in> R) (n # zs) \<Longrightarrow> m \<in> set (n # zs) \<Longrightarrow> (n, m) \<in> R\<^sup>*"
  by (induction zs arbitrary: n) (auto intro: converse_rtrancl_into_rtrancl)

lemma has_cycle_correct:
  "(fst (has_cycle es) \<longleftrightarrow> \<not> acyclic (dep_rel es))
   \<and> (fst (has_cycle es) \<longleftrightarrow> real_cycle es (snd (has_cycle es)))"
proof -
  have "search_ok es Map.empty []" by (simp add: search_ok_def)
  from cycle_from_result [OF this, of "sorted_list_of_set (nodes_of es)"]
  obtain st where r: "search_result es (sorted_list_of_set (nodes_of es)) Map.empty []
      (cycle_from es (sorted_list_of_set (nodes_of es)) Map.empty, st)" ..
  have cyc: "\<not> acyclic (dep_rel es)" if c: "real_cycle es c" for c
  proof -
    obtain n zs where c': "c = n # zs @ [n]" "successively (\<lambda>a b. (a, b) \<in> dep_rel es) (n # zs @ [n])"
      using c by (auto simp: real_cycle_def)
    then show ?thesis using successively_trancl [OF c'(2)] by (auto simp: acyclic_def)
  qed
  have acyc: "acyclic (dep_rel es)" if "search_ok es st' []" "\<forall>n \<in> nodes_of es. st' n = Some Visited" for st'
  proof -
    have "n \<in> nodes_of es" if "(n, n) \<in> (dep_rel es)\<^sup>+" for n
      using that dep_rel_nodes by (metis SigmaD1 subsetD tranclD)
    then show ?thesis using that unfolding acyclic_def search_ok_def by blast
  qed
  show ?thesis
  proof (cases "cycle_from es (sorted_list_of_set (nodes_of es)) Map.empty")
    case None
    then have "search_ok es st []" "\<forall>n \<in> nodes_of es. st n = Some Visited"
      using r set_sorted_list_of_set [OF finite_nodes [of es]]
      by (simp_all add: search_result_def del: graph_fields_of)
    from acyc [OF this] show ?thesis using None by (simp add: has_cycle_def real_cycle_def)
  next
    case (Some c)
    then have "real_cycle es c" using r by (simp only: search_result_def prod.case option.case)
    then show ?thesis using Some cyc by (simp add: has_cycle_def)
  qed
qed

lemma has_cycle_acyclic: "fst (has_cycle es) \<longleftrightarrow> \<not> acyclic (dep_rel es)"
  using has_cycle_correct by blast

section \<open>Cycle detection: the property\<close>

text \<open>
  C10. Cycle detection is exact: it reports a cycle exactly when some story depends on itself
  through dependencies of any kind, and the path it reports is a real cycle, each story followed
  by one that directly depends on it, with the first repeated at the end. The search always ends.
\<close>
theorem has_cycle_exact:
  "(fst (has_cycle es) \<longleftrightarrow> \<not> acyclic (dep_rel es))
   \<and> (fst (has_cycle es) \<longleftrightarrow> real_cycle es (snd (has_cycle es)))"
  by (rule has_cycle_correct)

end
