(* ===== verification/Dep_Layers.thy ===== *)
theory Dep_Layers
  imports Dep_Graph
begin

text \<open>Kahn's layers (\<open>DependencyGraph.topological_layers\<close>).\<close>

section \<open>The algorithm\<close>

text \<open>
  The in-degrees are a dictionary over the nodes of the graph; every successor is a node, so no
  lookup fails. One node's successors lose one in-degree each, those that reach zero are ready
  next.
\<close>

fun relax_successors :: "string list \<Rightarrow> (string \<Rightarrow> int) \<Rightarrow> string list \<Rightarrow> (string \<Rightarrow> int) \<times> string list" where
  "relax_successors [] indegree next_ready = (indegree, next_ready)"
| "relax_successors (m # ms) indegree next_ready =
    (let indegree' = indegree(m := indegree m - 1) in
     relax_successors ms indegree' (if indegree' m = 0 then next_ready @ [m] else next_ready))"

fun relax_layer ::
  "story_dependency list \<Rightarrow> string list \<Rightarrow> (string \<Rightarrow> int) \<Rightarrow> string list \<Rightarrow> (string \<Rightarrow> int) \<times> string list" where
  "relax_layer es [] indegree next_ready = (indegree, next_ready)"
| "relax_layer es (n # ns) indegree next_ready =
    (case relax_successors (sorted_list_of_set (successors es n)) indegree next_ready of
       (indegree', next_ready') \<Rightarrow> relax_layer es ns indegree' next_ready')"

lemma relax_successors_eq:
  "distinct ms \<Longrightarrow> relax_successors ms indegree next_ready
    = (\<lambda>n. indegree n - of_bool (n \<in> set ms), next_ready @ filter (\<lambda>m. indegree m = 1) ms)"
proof (induction ms arbitrary: indegree next_ready)
  case (Cons m ms)
  have "filter (\<lambda>x. (indegree(m := indegree m - 1)) x = 1) ms = filter (\<lambda>x. indegree x = 1) ms"
    using Cons.prems by (intro filter_cong) auto
  then show ?case using Cons by (auto simp: Let_def fun_eq_iff)
qed simp

definition from_layer :: "story_dependency list \<Rightarrow> string list \<Rightarrow> string \<Rightarrow> string set" where
  "from_layer es ns m = {n \<in> set ns. (n, m) \<in> dep_rel es}"

lemma from_layer_Cons:
  "n \<notin> set ns \<Longrightarrow> card (from_layer es (n # ns) m)
    = (if (n, m) \<in> dep_rel es then 1 else 0) + card (from_layer es ns m)"
proof -
  assume "n \<notin> set ns"
  moreover have "finite (from_layer es ns m)" by (simp add: from_layer_def)
  moreover have "from_layer es (n # ns) m = (if (n, m) \<in> dep_rel es then insert n (from_layer es ns m)
      else from_layer es ns m)" by (auto simp: from_layer_def)
  ultimately show ?thesis by (simp add: from_layer_def)
qed

lemma relax_layer_eq:
  assumes "distinct ns" and "distinct nr" and "\<forall>m \<in> set nr. indegree m \<le> 0"
  shows "\<exists>nr'. relax_layer es ns indegree nr = (\<lambda>m. indegree m - int (card (from_layer es ns m)), nr')
    \<and> distinct nr' \<and> set nr' = set nr \<union> {m. 0 < indegree m \<and> indegree m \<le> int (card (from_layer es ns m))}"
  using assms
proof (induction ns arbitrary: indegree nr)
  case Nil
  then show ?case by (auto simp: from_layer_def)
next
  case (Cons n ns)
  let ?ss = "sorted_list_of_set (successors es n)"
  have ss: "m \<in> set ?ss \<longleftrightarrow> (n, m) \<in> dep_rel es" for m using finite_successors [of es n] by simp
  let ?ind = "\<lambda>m. indegree m - of_bool ((n, m) \<in> dep_rel es)"
  let ?nr = "nr @ filter (\<lambda>m. indegree m = 1) ?ss"
  have relax: "relax_successors ?ss indegree nr = (?ind, ?nr)"
    using relax_successors_eq [of ?ss indegree nr] by (simp only: ss distinct_sorted_list_of_set)
  have "distinct ?nr" using Cons.prems(2,3) by (auto simp: distinct_sorted_list_of_set)
  moreover have "\<forall>m \<in> set ?nr. ?ind m \<le> 0" using Cons.prems(3) by (auto simp: ss simp del: graph_fields_of)
  moreover have "distinct ns" using Cons.prems(1) by simp
  ultimately obtain nr' where nr': "relax_layer es ns ?ind ?nr
        = (\<lambda>m. ?ind m - int (card (from_layer es ns m)), nr')" "distinct nr'"
      "set nr' = set ?nr \<union> {m. 0 < ?ind m \<and> ?ind m \<le> int (card (from_layer es ns m))}"
    using Cons.IH [of ?nr ?ind] by blast
  have c: "int (card (from_layer es (n # ns) m)) = of_bool ((n, m) \<in> dep_rel es) + int (card (from_layer es ns m))" for m
    using Cons.prems(1) by (simp add: from_layer_Cons)
  have "set nr' = set nr \<union> {m. 0 < indegree m \<and> indegree m \<le> int (card (from_layer es (n # ns) m))}"
    unfolding nr'(3) c set_append set_filter ss by (auto simp: of_bool_def split: if_splits)
  moreover have "(\<lambda>m. ?ind m - int (card (from_layer es ns m)))
      = (\<lambda>m. indegree m - int (card (from_layer es (n # ns) m)))"
    by (simp add: c fun_eq_iff)
  ultimately show ?case using nr'(1,2) by (intro exI [of _ nr']) (simp only: relax_layer.simps relax prod.case)
qed

function layer_loop :: "story_dependency list \<Rightarrow> (string \<Rightarrow> int) \<Rightarrow> string list \<Rightarrow> string list list" where
  "layer_loop es indegree ready =
    (if ready = [] then []
     else (case relax_layer es ready indegree [] of
        (indegree', next_ready) \<Rightarrow> ready # layer_loop es indegree' (sort next_ready)))"
  by pat_completeness auto

text \<open>It ends: a node becomes ready only when its in-degree stops being positive.\<close>

lemma relax_successors_mono:
  "relax_successors ms ind nr = (ind', nr') \<Longrightarrow> (\<forall>m. ind' m \<le> ind m)
    \<and> (\<forall>m \<in> set nr' - set nr. m \<in> set ms \<and> 0 < ind m \<and> ind' m \<le> 0)"
proof (induction ms arbitrary: ind nr)
  case (Cons m ms)
  let ?ind = "ind(m := ind m - 1)" and ?nr = "if ind m = 1 then nr @ [m] else nr"
  have "relax_successors ms ?ind ?nr = (ind', nr')" using Cons.prems by (simp add: Let_def)
  from Cons.IH [OF this] have le: "\<forall>x. ind' x \<le> ?ind x"
    and new: "\<forall>x \<in> set nr' - set ?nr. x \<in> set ms \<and> 0 < ?ind x \<and> ind' x \<le> 0" by auto
  have "ind' x \<le> ind x" for x using le [rule_format, of x] by (auto split: if_splits)
  moreover have "x \<in> set (m # ms) \<and> 0 < ind x \<and> ind' x \<le> 0" if x: "x \<in> set nr' - set nr" for x
  proof (cases "x \<in> set ?nr")
    case True
    then have "x = m" "ind m = 1" using x by (auto split: if_splits)
    then show ?thesis using le [rule_format, of m] by simp
  next
    case False
    then have "x \<in> set ms" "0 < ?ind x" "ind' x \<le> 0" using new x by auto
    then show ?thesis by (auto split: if_splits)
  qed
  ultimately show ?case by blast
qed simp

lemma relax_layer_mono:
  "relax_layer es ns ind nr = (ind', nr') \<Longrightarrow> (\<forall>m. ind' m \<le> ind m)
    \<and> (\<forall>m \<in> set nr' - set nr. m \<in> nodes_of es \<and> 0 < ind m \<and> ind' m \<le> 0)"
proof (induction ns arbitrary: ind nr)
  case (Cons n ns)
  obtain i1 n1 where step: "relax_successors (sorted_list_of_set (successors es n)) ind nr = (i1, n1)"
    by (cases "relax_successors (sorted_list_of_set (successors es n)) ind nr")
  have rest: "relax_layer es ns i1 n1 = (ind', nr')" using Cons.prems step by simp
  have m1: "\<forall>m. i1 m \<le> ind m"
      "\<forall>m \<in> set n1 - set nr. m \<in> set (sorted_list_of_set (successors es n)) \<and> 0 < ind m \<and> i1 m \<le> 0"
    using relax_successors_mono [OF step] by blast+
  have m2: "\<forall>m. ind' m \<le> i1 m" "\<forall>m \<in> set nr' - set n1. m \<in> nodes_of es \<and> 0 < i1 m \<and> ind' m \<le> 0"
    using Cons.IH [OF rest] by blast+
  have node: "m \<in> set (sorted_list_of_set (successors es n)) \<Longrightarrow> m \<in> nodes_of es" for m
    using finite_successors [of es n] dep_rel_nodes [of es] by (auto simp del: graph_fields_of(1))
  show ?case using m1 m2 node by (meson DiffD1 DiffD2 DiffI order_trans less_le_trans)
qed simp

termination layer_loop
proof (relation "inv_image (less_than <*lex*> less_than)
    (\<lambda>(es, ind, ready). (card {n \<in> nodes_of es. 0 < ind n}, length ready))"; (simp only: in_inv_image case_prod_conv)?)
  fix es ind ready ind' nr'
  assume "ready \<noteq> []" and p: "(ind', nr') = relax_layer es ready ind []"
  have le: "\<forall>m. ind' m \<le> ind m" and new: "\<forall>m \<in> set nr'. m \<in> nodes_of es \<and> 0 < ind m \<and> ind' m \<le> 0"
    using relax_layer_mono [of es ready ind "[]" ind' nr'] p by auto
  have sub: "{n \<in> nodes_of es. 0 < ind' n} \<subseteq> {n \<in> nodes_of es. 0 < ind n}"
    using le by (auto intro: less_le_trans simp del: graph_fields_of)
  have fin: "finite {n \<in> nodes_of es. 0 < ind n}" by simp
  show "((card {n \<in> nodes_of es. 0 < ind' n}, length (sort nr')),
      card {n \<in> nodes_of es. 0 < ind n}, length ready) \<in> less_than <*lex*> less_than"
  proof (cases nr')
    case Nil
    then show ?thesis using \<open>ready \<noteq> []\<close> card_mono [OF fin sub] by (auto simp del: graph_fields_of)
  next
    case (Cons m ms)
    then have "m \<in> {n \<in> nodes_of es. 0 < ind n}" "m \<notin> {n \<in> nodes_of es. 0 < ind' n}" using new by auto
    then show ?thesis using psubset_card_mono [OF fin] sub by (auto simp del: graph_fields_of)
  qed
qed (auto simp del: graph_fields_of)

declare layer_loop.simps [simp del]

definition topological_layers :: "story_dependency list \<Rightarrow> string list list" where
  "topological_layers es =
    (let indegree = (\<lambda>n. int (card (direct_predecessors es n))) in
     layer_loop es indegree (sorted_list_of_set {n \<in> nodes_of es. indegree n = 0}))"

section \<open>What the layers are\<close>

text \<open>
  The layering a graph determines: given the stories \<open>E\<close> already placed, the next layer is
  the sorted list of all stories not placed yet whose direct predecessors are all placed, and
  the layering ends when there are none.
\<close>

definition placeable :: "story_dependency list \<Rightarrow> string set \<Rightarrow> string set" where
  "placeable es E = {n \<in> nodes_of es - E. direct_predecessors es n \<subseteq> E}"

fun greedy_layers :: "story_dependency list \<Rightarrow> string set \<Rightarrow> string list list \<Rightarrow> bool" where
  "greedy_layers es E [] = (placeable es E = {})"
| "greedy_layers es E (L # Ls) =
    (L \<noteq> [] \<and> L = sorted_list_of_set (placeable es E) \<and> greedy_layers es (E \<union> set L) Ls)"

lemma finite_placeable [simp]: "finite (placeable es E)"
  by (rule finite_subset [OF _ finite_nodes [of es]]) (auto simp: placeable_def)

lemma finite_predecessors: "finite (direct_predecessors es n)"
  using finite_adjacency [of es Against n] by simp

lemma set_placeable: "set (sorted_list_of_set (placeable es E)) = placeable es E"
  by simp

lemma placed_from_layer:
  assumes "finite E" and "L \<inter> E = {}"
  shows "int (card (direct_predecessors es n - E)) - int (card {m \<in> L. (m, n) \<in> dep_rel es})
    = int (card (direct_predecessors es n - (E \<union> L)))"
proof -
  let ?P = "direct_predecessors es n - E" and ?Q = "{m \<in> L. (m, n) \<in> dep_rel es}"
  have Q: "?Q \<subseteq> ?P" "direct_predecessors es n - (E \<union> L) = ?P - ?Q" using assms(2) by auto
  have fin: "finite ?P" using finite_predecessors [of es n] by blast
  have "card ?Q \<le> card ?P" by (rule card_mono [OF fin Q(1)])
  moreover have "card (?P - ?Q) = card ?P - card ?Q"
    by (rule card_Diff_subset [OF finite_subset [OF Q(1) fin] Q(1)])
  ultimately show ?thesis unfolding Q(2) by linarith
qed

lemma next_placeable:
  assumes closed: "\<forall>n \<in> E. direct_predecessors es n \<subseteq> E"
  shows "placeable es (E \<union> placeable es E)
    = {n. 0 < card (direct_predecessors es n - E)
        \<and> direct_predecessors es n - (E \<union> placeable es E) = {}}" (is "?A = ?B")
proof
  show "?A \<subseteq> ?B"
  proof
    fix n assume n: "n \<in> ?A"
    then have "direct_predecessors es n - E \<noteq> {}" by (auto simp: placeable_def)
    moreover have "finite (direct_predecessors es n - E)" using finite_predecessors [of es n] by blast
    ultimately have "0 < card (direct_predecessors es n - E)" using card_gt_0_iff by blast
    then show "n \<in> ?B" using n by (auto simp: placeable_def)
  qed
  show "?B \<subseteq> ?A"
  proof
    fix n assume n: "n \<in> ?B"
    then have ne: "direct_predecessors es n - E \<noteq> {}" by (metis (mono_tags, lifting) card.empty mem_Collect_eq less_irrefl)
    then have "n \<in> nodes_of es" using dep_rel_nodes [of es] by (auto simp del: graph_fields_of(1))
    moreover have "n \<notin> E" using closed ne by blast
    moreover have "n \<notin> placeable es E" using ne by (auto simp: placeable_def)
    ultimately show "n \<in> ?A" using n by (auto simp: placeable_def)
  qed
qed

lemma layer_loop_greedy:
  assumes "finite E" and "\<forall>n \<in> E. direct_predecessors es n \<subseteq> E"
    and "ind = (\<lambda>n. int (card (direct_predecessors es n - E)))"
    and "ready = sorted_list_of_set (placeable es E)"
  shows "greedy_layers es E (layer_loop es ind ready)"
  using assms
proof (induction es ind ready arbitrary: E rule: layer_loop.induct)
  case (1 es ind ready)
  show ?case
  proof (cases "ready = []")
    case True
    then have "placeable es E = {}" using "1.prems"(4) by simp
    then show ?thesis using True by (subst layer_loop.simps) simp
  next
    case False
    let ?L = "placeable es E"
    have L: "set ready = ?L" "distinct ready" using "1.prems"(4) by simp_all
    obtain nr where nr: "relax_layer es ready ind [] = (\<lambda>m. ind m - int (card (from_layer es ready m)), nr)"
      "distinct nr" "set nr = {m. 0 < ind m \<and> ind m \<le> int (card (from_layer es ready m))}"
      using relax_layer_eq [OF L(2), of "[]" ind] by auto
    have disj: "?L \<inter> E = {}" by (auto simp: placeable_def)
    have ind': "(\<lambda>m. ind m - int (card (from_layer es ready m)))
        = (\<lambda>n. int (card (direct_predecessors es n - (E \<union> ?L))))"
      unfolding "1.prems"(3) from_layer_def L(1) using placed_from_layer [OF "1.prems"(1) disj] by (simp add: fun_eq_iff)
    have "set nr = placeable es (E \<union> ?L)"
    proof -
      have fin: "finite (direct_predecessors es m - (E \<union> ?L))" for m using finite_predecessors [of es m] by blast
      have "ind m \<le> int (card (from_layer es ready m)) \<longleftrightarrow> direct_predecessors es m - (E \<union> ?L) = {}" for m
      proof -
        have "ind m - int (card (from_layer es ready m)) = int (card (direct_predecessors es m - (E \<union> ?L)))"
          using fun_cong [OF ind', of m] .
        then have "ind m \<le> int (card (from_layer es ready m)) \<longleftrightarrow> card (direct_predecessors es m - (E \<union> ?L)) = 0"
          by linarith
        then show ?thesis using fin [of m] by (simp only: card_eq_0_iff) blast
      qed
      then show ?thesis unfolding nr(3) next_placeable [OF "1.prems"(2)] "1.prems"(3) by simp
    qed
    then have ready': "sort nr = sorted_list_of_set (placeable es (E \<union> ?L))"
      using nr(2) by (metis sorted_list_of_set_sort_remdups distinct_remdups_id)
    have closed: "\<forall>n \<in> E \<union> ?L. direct_predecessors es n \<subseteq> E \<union> ?L"
      using "1.prems"(2) by (auto simp: placeable_def)
    have "greedy_layers es (E \<union> ?L) (layer_loop es (\<lambda>m. ind m - int (card (from_layer es ready m))) (sort nr))"
      by (rule "1.IH" [OF False nr(1) [symmetric] _ closed ind' ready']) (use "1.prems"(1) in simp)
    then show ?thesis using False nr(1) L(1) "1.prems"(4) by (subst layer_loop.simps) simp
  qed
qed

text \<open>The stories no cycle leads to.\<close>

definition uncycled :: "story_dependency list \<Rightarrow> string set" where
  "uncycled es = {n \<in> nodes_of es. \<forall>m. (m, n) \<in> (dep_rel es)\<^sup>* \<longrightarrow> (m, m) \<notin> (dep_rel es)\<^sup>+}"

lemma uncycled_placeable:
  assumes "E \<subseteq> uncycled es"
  shows "placeable es E \<subseteq> uncycled es"
proof
  fix n assume n: "n \<in> placeable es E"
  have anc: "(m, m) \<notin> (dep_rel es)\<^sup>+" if p: "(p, n) \<in> dep_rel es" "(m, p) \<in> (dep_rel es)\<^sup>*" for m p
    using n that assms by (auto simp: placeable_def uncycled_def)
  have "(m, m) \<notin> (dep_rel es)\<^sup>+" if "(m, n) \<in> (dep_rel es)\<^sup>*" for m
  proof (cases "m = n")
    case True
    show ?thesis
    proof
      assume c: "(m, m) \<in> (dep_rel es)\<^sup>+"
      then obtain p where "(m, p) \<in> (dep_rel es)\<^sup>*" "(p, n) \<in> dep_rel es" using True by (metis tranclD2)
      then show False using anc c by blast
    qed
  next
    case False
    with that obtain p where "(m, p) \<in> (dep_rel es)\<^sup>*" "(p, n) \<in> dep_rel es" by (cases rule: rtranclE) auto
    then show ?thesis using anc by blast
  qed
  then show "n \<in> uncycled es" using n by (auto simp: uncycled_def placeable_def)
qed

lemma stuck_is_cycled:
  assumes "placeable es E = {}" and "n \<in> nodes_of es - E"
  shows "n \<notin> uncycled es"
proof
  assume u: "n \<in> uncycled es"
  let ?A = "{m \<in> nodes_of es - E. (m, n) \<in> (dep_rel es)\<^sup>*}"
  let ?R = "dep_rel es \<inter> ?A \<times> ?A"
  have "acyclic ?R"
  proof (unfold acyclic_def, intro allI notI)
    fix m assume c: "(m, m) \<in> ?R\<^sup>+"
    then have "m \<in> ?A" by (metis (no_types, lifting) IntD2 SigmaD1 tranclD)
    moreover have "(m, m) \<in> (dep_rel es)\<^sup>+" using c by (rule trancl_mono) blast
    ultimately show False using u by (auto simp: uncycled_def)
  qed
  moreover have "finite ?R" using finite_dep_rel by blast
  ultimately have wf: "wf ?R" by (rule finite_acyclic_wf [rotated])
  have "n \<in> ?A" using assms(2) by auto
  from wfE_min [OF wf this] obtain z where z: "z \<in> ?A" "\<And>y. (y, z) \<in> ?R \<Longrightarrow> y \<notin> ?A" by blast
  have "z \<notin> placeable es E" using assms(1) by blast
  moreover have "z \<in> nodes_of es - E" using z(1) by blast
  ultimately obtain y where y: "(y, z) \<in> dep_rel es" "y \<notin> E"
    unfolding placeable_def graph_fields_of(3) by blast
  have "(z, n) \<in> (dep_rel es)\<^sup>*" using z(1) by blast
  then have "(y, n) \<in> (dep_rel es)\<^sup>*" by (rule converse_rtrancl_into_rtrancl [OF y(1)])
  moreover have "y \<in> nodes_of es" using y(1) dep_rel_nodes [of es] by blast
  ultimately have "y \<in> ?A" using y(2) by blast
  then show False using z y(1) by blast
qed

lemma greedy_layers_set:
  "greedy_layers es E Ls \<Longrightarrow> E \<subseteq> uncycled es \<Longrightarrow>
    set (concat Ls) = uncycled es - E \<and> distinct (concat Ls)"
proof (induction Ls arbitrary: E)
  case Nil
  have "uncycled es \<subseteq> E" using stuck_is_cycled [of es E] Nil by (auto simp: uncycled_def simp del: graph_fields_of)
  then show ?case by auto
next
  case (Cons L Ls)
  have L: "L = sorted_list_of_set (placeable es E)" "greedy_layers es (E \<union> set L) Ls"
    using Cons.prems(1) unfolding greedy_layers.simps by blast+
  then have sub: "set L \<subseteq> uncycled es" using uncycled_placeable [OF Cons.prems(2)] by simp
  have disj: "set L \<inter> E = {}" using L(1) by (auto simp: placeable_def)
  have "distinct L" using L(1) by simp
  then show ?case using Cons.IH [OF L(2)] sub disj Cons.prems(2) by auto
qed

lemma topological_layers_greedy: "greedy_layers es {} (topological_layers es)"
proof -
  have "{n \<in> nodes_of es. int (card (direct_predecessors es n)) = 0} = placeable es {}"
    using finite_predecessors [of es] by (auto simp: placeable_def card_eq_0_iff)
  then show ?thesis unfolding topological_layers_def Let_def by (intro layer_loop_greedy) simp_all
qed

lemma uncycled_acyclic: "uncycled es = nodes_of es \<longleftrightarrow> acyclic (dep_rel es)"
proof
  assume all: "uncycled es = nodes_of es"
  show "acyclic (dep_rel es)"
    unfolding acyclic_def
  proof (intro allI notI)
    fix n assume c: "(n, n) \<in> (dep_rel es)\<^sup>+"
    then have "n \<in> uncycled es" unfolding all using dep_rel_nodes [of es] by (metis SigmaD1 subsetD tranclD)
    then show False using c by (auto simp: uncycled_def)
  qed
qed (auto simp: uncycled_def acyclic_def)

section \<open>The property\<close>

text \<open>
  C11. The layers are the greedy layering: each layer is the sorted list of exactly those stories
  whose direct predecessors all lie in earlier layers and that are not placed yet. So every
  story comes after all stories it depends on, and as early as possible; no story appears twice;
  and the stories placed are exactly those that no dependency cycle leads to, all of them when
  the graph has no cycle.
\<close>
theorem topological_layers_refine_greedy_layering:
  "greedy_layers es {} (topological_layers es) \<and> distinct (concat (topological_layers es))
   \<and> set (concat (topological_layers es)) = uncycled es
   \<and> (\<not> fst (has_cycle es) \<longleftrightarrow> set (concat (topological_layers es)) = nodes_of es)"
  using greedy_layers_set [OF topological_layers_greedy [of es]] topological_layers_greedy [of es]
    uncycled_acyclic [of es] has_cycle_acyclic [of es]
  by (auto simp del: graph_fields_of)

end
