(* ===== verification/Planning.thy ===== *)
theory Planning
  imports Dep_Layers
begin

text \<open>
  Execution planning: the planning entities (\<open>execution_planning/entities.py\<close>) and the derivation
  of a plan (\<open>execution_planning/readiness.py\<close>).
\<close>

section \<open>Entities\<close>

datatype planning_status = Planning_UNSTARTED | Planning_READY | Planning_FLIGHT | Planning_DONE
  | Planning_BLOCKED_EXTERNAL | Planning_BLOCKED_HUMAN | Planning_BLOCKED_CAPACITY | Planning_BLOCKED_CONFLICT

datatype blocking_condition_kind = BLOCKED_INTERNAL_DEPENDENCY | BLOCKED_EXTERNAL | BLOCKED_HUMAN
  | BLOCKED_CAPACITY | BLOCKED_CONFLICT | BLOCKED_CONTRACT

fun blocking_kind_value :: "blocking_condition_kind \<Rightarrow> string" where
  "blocking_kind_value BLOCKED_INTERNAL_DEPENDENCY = ''blocked_internal_dependency''"
| "blocking_kind_value BLOCKED_EXTERNAL = ''blocked_external''"
| "blocking_kind_value BLOCKED_HUMAN = ''blocked_human''"
| "blocking_kind_value BLOCKED_CAPACITY = ''blocked_capacity''"
| "blocking_kind_value BLOCKED_CONFLICT = ''blocked_conflict''"
| "blocking_kind_value BLOCKED_CONTRACT = ''blocked_contract''"

datatype blocking_condition_provenance = Prov_DEPENDENCY_GRAPH | Prov_HUMAN_GATE | Prov_EXTERNAL_GATE
  | Prov_SCHEDULING_POLICY | Prov_CONFLICT_EVALUATION | Prov_CONTRACT_EVALUATION

fun provenance_value :: "blocking_condition_provenance \<Rightarrow> string" where
  "provenance_value Prov_DEPENDENCY_GRAPH = ''dependency_graph''"
| "provenance_value Prov_HUMAN_GATE = ''human_gate''"
| "provenance_value Prov_EXTERNAL_GATE = ''external_gate''"
| "provenance_value Prov_SCHEDULING_POLICY = ''scheduling_policy''"
| "provenance_value Prov_CONFLICT_EVALUATION = ''conflict_evaluation''"
| "provenance_value Prov_CONTRACT_EVALUATION = ''contract_evaluation''"

datatype gate_state = Gate_OPEN | Gate_RESOLVED
datatype human_gate_kind = BLOCKING_GATE | OPTIONAL_REVIEW
datatype execution_wave_lifecycle = Wave_PLANNED | Wave_ACTIVE | Wave_COMPLETED | Wave_COLLAPSED

record parallelization_config =
  plc_project_key :: string
  plc_max_parallel_stories :: nat
  plc_max_parallel_stories_per_repo :: "nat option"

record blocking_condition =
  bc_story_id :: string
  bc_kind :: blocking_condition_kind
  bc_provenance :: blocking_condition_provenance
  bc_reason_code :: string
  bc_source_story_id :: "string option"
  bc_source_gate_id :: "string option"
  bc_detail :: "string option"

text \<open>A \<open>StoryRefForPlanning\<close>, with the fields the planning calculations read.\<close>

record story_ref =
  sr_project_key :: string
  sr_story_id :: string
  sr_story_number :: nat
  sr_title :: string
  sr_lifecycle_status :: string
  sr_repo :: "string option"

record wave_story =
  ws_story_id :: string
  ws_story_number :: nat
  ws_title :: string
  ws_wave :: nat
  ws_is_ready :: bool
  ws_blocked_by :: "blocking_condition list"

record execution_capacity_budgets =
  repo_parallel_cap :: nat
  merge_risk_cap :: nat
  api_rate_limit_cap :: nat
  llm_pool_cap :: nat
  ci_capacity_cap :: nat

definition max_allowed_batch_of :: "execution_capacity_budgets \<Rightarrow> nat" where
  "max_allowed_batch_of b = min (repo_parallel_cap b) (min (merge_risk_cap b)
     (min (api_rate_limit_cap b) (min (llm_pool_cap b) (ci_capacity_cap b))))"

record scheduling_hint =
  sh_recommended_batch_limit :: "nat option"
  sh_reason_code :: string

record execution_feasibility =
  ef_project_key :: string
  ef_can_parallelize :: bool
  ef_feasible_story_ids :: "string list"
  ef_blocked_conditions :: "blocking_condition list"

record execution_scheduling_policy =
  sp_project_key' :: string
  sp_may_parallelize_now :: bool
  sp_budgets :: execution_capacity_budgets
  sp_hint :: "scheduling_hint option"

record human_gate =
  hg_project_key :: string
  hg_story_id :: string
  hg_gate_id :: string
  hg_kind :: human_gate_kind
  hg_state :: gate_state
  hg_reason_code :: string

definition human_gate_blocking_open :: "human_gate \<Rightarrow> bool" where
  "human_gate_blocking_open g \<longleftrightarrow> hg_kind g = BLOCKING_GATE \<and> hg_state g = Gate_OPEN"

record external_gate =
  xg_project_key :: string
  xg_story_id :: string
  xg_gate_id :: string
  xg_state :: gate_state
  xg_reason_code :: string

definition external_gate_blocking_open :: "external_gate \<Rightarrow> bool" where
  "external_gate_blocking_open g \<longleftrightarrow> xg_state g = Gate_OPEN"

record execution_wave =
  ew_project_key :: string
  ew_wave_id :: string
  ew_lifecycle :: execution_wave_lifecycle
  ew_stories :: "wave_story list"

record plan_derivation =
  pd_project_key :: string
  pd_critical_path :: "string list"
  pd_ready_set :: "wave_story list"
  pd_blocked_set :: "wave_story list"
  pd_execution_wave :: execution_wave
  pd_recommended_batch :: nat
  pd_max_allowed_batch :: nat
  pd_feasibility :: execution_feasibility
  pd_scheduling_policy :: execution_scheduling_policy

fun blocking_condition_status :: "blocking_condition_kind \<Rightarrow> planning_status" where
  "blocking_condition_status BLOCKED_INTERNAL_DEPENDENCY = Planning_UNSTARTED"
| "blocking_condition_status BLOCKED_EXTERNAL = Planning_BLOCKED_EXTERNAL"
| "blocking_condition_status BLOCKED_HUMAN = Planning_BLOCKED_HUMAN"
| "blocking_condition_status BLOCKED_CAPACITY = Planning_BLOCKED_CAPACITY"
| "blocking_condition_status BLOCKED_CONFLICT = Planning_BLOCKED_CONFLICT"
| "blocking_condition_status BLOCKED_CONTRACT = Planning_BLOCKED_CONFLICT"

definition planning_status_from_blockers :: "blocking_condition list \<Rightarrow> planning_status" where
  "planning_status_from_blockers blockers =
    (let kinds = map bc_kind blockers in
     if BLOCKED_HUMAN \<in> set kinds then Planning_BLOCKED_HUMAN
     else if BLOCKED_EXTERNAL \<in> set kinds then Planning_BLOCKED_EXTERNAL
     else if BLOCKED_CONFLICT \<in> set kinds \<or> BLOCKED_CONTRACT \<in> set kinds then Planning_BLOCKED_CONFLICT
     else if BLOCKED_CAPACITY \<in> set kinds then Planning_BLOCKED_CAPACITY
     else if BLOCKED_INTERNAL_DEPENDENCY \<in> set kinds then Planning_UNSTARTED
     else Planning_READY)"

datatype replan_change_kind = Change_STORY_DONE | Change_BLOCKER_CHANGED | Change_GATE_CHANGED
  | Change_CAPACITY_BUDGET_CHANGED | Change_RULEBOOK_CHANGED | Change_SCHEDULING_POLICY_CHANGED
  | Change_CONFLICT_REEVALUATED | Change_CONTRACT_REEVALUATED

datatype replan_trigger = Trigger_STORY_DONE | Trigger_BLOCKER_OR_GATE_CHANGED
  | Trigger_CAPACITY_BUDGET_CHANGED | Trigger_RULEBOOK_OR_POLICY_CHANGED
  | Trigger_CONFLICT_OR_CONTRACT_REEVALUATED

fun classify_replan_trigger :: "replan_change_kind \<Rightarrow> replan_trigger" where
  "classify_replan_trigger Change_STORY_DONE = Trigger_STORY_DONE"
| "classify_replan_trigger Change_BLOCKER_CHANGED = Trigger_BLOCKER_OR_GATE_CHANGED"
| "classify_replan_trigger Change_GATE_CHANGED = Trigger_BLOCKER_OR_GATE_CHANGED"
| "classify_replan_trigger Change_CAPACITY_BUDGET_CHANGED = Trigger_CAPACITY_BUDGET_CHANGED"
| "classify_replan_trigger Change_RULEBOOK_CHANGED = Trigger_RULEBOOK_OR_POLICY_CHANGED"
| "classify_replan_trigger Change_SCHEDULING_POLICY_CHANGED = Trigger_RULEBOOK_OR_POLICY_CHANGED"
| "classify_replan_trigger Change_CONFLICT_REEVALUATED = Trigger_CONFLICT_OR_CONTRACT_REEVALUATED"
| "classify_replan_trigger Change_CONTRACT_REEVALUATED = Trigger_CONFLICT_OR_CONTRACT_REEVALUATED"

section \<open>Blockers\<close>

definition done_statuses :: "string list" where
  "done_statuses = [''done'', ''completed'', ''pass'', ''pass_with_warnings'']"

definition is_done :: "story_ref \<Rightarrow> bool" where
  "is_done s \<longleftrightarrow> py_lower (sr_lifecycle_status s) \<in> set done_statuses"

definition blocker_order ::
  "blocking_condition \<Rightarrow> string \<times> string \<times> string \<times> string \<times> string \<times> string" where
  "blocker_order b = (bc_story_id b, blocking_kind_value (bc_kind b), provenance_value (bc_provenance b),
     bc_reason_code b, (case bc_source_story_id b of None \<Rightarrow> [] | Some x \<Rightarrow> x),
     (case bc_source_gate_id b of None \<Rightarrow> [] | Some x \<Rightarrow> x))"

definition sorted_blockers :: "blocking_condition list \<Rightarrow> blocking_condition list" where
  "sorted_blockers bs = sort_key blocker_order bs"

text \<open>The kind of a hard dependency; the remaining kind, the soft one, raises in the source.\<close>

fun blocker_kind_from_edge_kind :: "story_dependency_kind \<Rightarrow> blocking_condition_kind option" where
  "blocker_kind_from_edge_kind HARD_STORY_DEPENDENCY = Some BLOCKED_INTERNAL_DEPENDENCY"
| "blocker_kind_from_edge_kind SERIAL_EXECUTION_CONSTRAINT = Some BLOCKED_INTERNAL_DEPENDENCY"
| "blocker_kind_from_edge_kind MUTEX_CONSTRAINT = Some BLOCKED_CONFLICT"
| "blocker_kind_from_edge_kind SHARED_CONTRACT_DEPENDENCY = Some BLOCKED_CONTRACT"
| "blocker_kind_from_edge_kind SHARED_FILE_CONFLICT = Some BLOCKED_CONFLICT"
| "blocker_kind_from_edge_kind EXTERNAL_DEPENDENCY = Some BLOCKED_EXTERNAL"
| "blocker_kind_from_edge_kind HUMAN_GATE_DEPENDENCY = Some BLOCKED_HUMAN"
| "blocker_kind_from_edge_kind SOFT_STORY_DEPENDENCY = None"

fun provenance_for_blocker_kind :: "blocking_condition_kind \<Rightarrow> blocking_condition_provenance" where
  "provenance_for_blocker_kind BLOCKED_EXTERNAL = Prov_EXTERNAL_GATE"
| "provenance_for_blocker_kind BLOCKED_HUMAN = Prov_HUMAN_GATE"
| "provenance_for_blocker_kind BLOCKED_CONTRACT = Prov_CONTRACT_EVALUATION"
| "provenance_for_blocker_kind BLOCKED_CONFLICT = Prov_CONFLICT_EVALUATION"
| "provenance_for_blocker_kind BLOCKED_CAPACITY = Prov_DEPENDENCY_GRAPH"
| "provenance_for_blocker_kind BLOCKED_INTERNAL_DEPENDENCY = Prov_DEPENDENCY_GRAPH"

definition blocker_from_edge :: "story_dependency_kind \<Rightarrow> string \<Rightarrow> string \<Rightarrow> blocking_condition option" where
  "blocker_from_edge kind story_id depends_on = map_option (\<lambda>k. \<lparr>bc_story_id = story_id, bc_kind = k,
     bc_provenance = provenance_for_blocker_kind k, bc_reason_code = dependency_kind_value kind,
     bc_source_story_id = Some depends_on, bc_source_gate_id = None, bc_detail = None\<rparr>)
     (blocker_kind_from_edge_kind kind)"

text \<open>Only hard edges are turned into blockers, so the raise for soft ones is never reached.\<close>

lemma hard_edge_has_blocker:
  "k \<in> hard_blocking_dependency_kinds \<Longrightarrow> \<exists>b. blocker_from_edge k s d = Some b"
  by (cases k) (auto simp: blocker_from_edge_def)

definition edge_blockers :: "story_dependency list \<Rightarrow> string \<Rightarrow> string set \<Rightarrow> blocking_condition list" where
  "edge_blockers es story_id completed = List.map_filter
     (\<lambda>e. if sd_kind e \<notin> hard_blocking_dependency_kinds then None
          else if sd_depends_on e \<in> completed then None
          else blocker_from_edge (sd_kind e) story_id (sd_depends_on e))
     (direct_predecessor_edges es story_id)"

definition blocking_conditions_for_story ::
  "story_dependency list \<Rightarrow> story_ref \<Rightarrow> string set \<Rightarrow> human_gate list \<Rightarrow> external_gate list
     \<Rightarrow> blocking_condition list \<Rightarrow> string \<Rightarrow> blocking_condition list" where
  "blocking_conditions_for_story es story completed human_gates external_gates conditions project_key =
    sorted_blockers (edge_blockers es (sr_story_id story) completed
      @ map (\<lambda>g. \<lparr>bc_story_id = sr_story_id story, bc_kind = BLOCKED_HUMAN, bc_provenance = Prov_HUMAN_GATE,
            bc_reason_code = hg_reason_code g, bc_source_story_id = None,
            bc_source_gate_id = Some (hg_gate_id g), bc_detail = None\<rparr>)
          (filter (\<lambda>g. hg_project_key g = project_key \<and> hg_story_id g = sr_story_id story
             \<and> human_gate_blocking_open g) human_gates)
      @ map (\<lambda>g. \<lparr>bc_story_id = sr_story_id story, bc_kind = BLOCKED_EXTERNAL, bc_provenance = Prov_EXTERNAL_GATE,
            bc_reason_code = xg_reason_code g, bc_source_story_id = None,
            bc_source_gate_id = Some (xg_gate_id g), bc_detail = None\<rparr>)
          (filter (\<lambda>g. xg_project_key g = project_key \<and> xg_story_id g = sr_story_id story
             \<and> external_gate_blocking_open g) external_gates)
      @ filter (\<lambda>b. bc_story_id b = sr_story_id story) conditions)"

definition non_feasibility_blockers :: "blocking_condition_kind list" where
  "non_feasibility_blockers = [BLOCKED_CAPACITY]"

section \<open>Ready and blocked stories\<close>

definition layer_index_by_story_id :: "story_dependency list \<Rightarrow> string list \<Rightarrow> string \<rightharpoonup> nat" where
  "layer_index_by_story_id es story_ids =
    (\<lambda>s. if s \<in> set story_ids then Some 0 else None)
      ++ map_of (rev (concat (map (\<lambda>(i, layer). map (\<lambda>s. (s, i)) layer)
           (enumerate 0 (topological_layers es)))))"

definition wave_story_of ::
  "story_dependency list \<Rightarrow> string set \<Rightarrow> (string \<rightharpoonup> nat) \<Rightarrow> human_gate list \<Rightarrow> external_gate list
     \<Rightarrow> blocking_condition list \<Rightarrow> string \<Rightarrow> story_ref \<Rightarrow> wave_story" where
  "wave_story_of es completed layers human_gates external_gates conditions project_key story =
    (let blocked_by = blocking_conditions_for_story es story completed human_gates external_gates
                        conditions project_key in
     \<lparr>ws_story_id = sr_story_id story, ws_story_number = sr_story_number story, ws_title = sr_title story,
      ws_wave = (case layers (sr_story_id story) of Some i \<Rightarrow> i | None \<Rightarrow> 0),
      ws_is_ready = (\<not> list_ex (\<lambda>b. bc_kind b \<notin> set non_feasibility_blockers) blocked_by),
      ws_blocked_by = blocked_by\<rparr>)"

definition derive_ready_and_blocked_sets ::
  "story_dependency list \<Rightarrow> story_ref list \<Rightarrow> string set \<Rightarrow> (string \<rightharpoonup> nat) \<Rightarrow> human_gate list
     \<Rightarrow> external_gate list \<Rightarrow> blocking_condition list \<Rightarrow> string \<Rightarrow> wave_story list \<times> wave_story list" where
  "derive_ready_and_blocked_sets es stories completed layers human_gates external_gates conditions project_key =
    (let wave_stories = map (wave_story_of es completed layers human_gates external_gates conditions project_key)
           (filter (\<lambda>s. sr_story_id s \<notin> completed)
             (sort_key (\<lambda>s. (sr_story_number s, sr_story_id s)) stories)) in
     (filter ws_is_ready wave_stories, filter (\<lambda>w. \<not> ws_is_ready w) wave_stories))"

section \<open>The critical path\<close>

text \<open>\<open>max(paths, key=lambda path: (len(path), path))\<close>: the first of the greatest.\<close>

definition path_key :: "string list \<Rightarrow> nat \<times> string list" where
  "path_key p = (length p, p)"

fun max_path :: "string list \<Rightarrow> string list list \<Rightarrow> string list" where
  "max_path best [] = best"
| "max_path best (p # ps) = max_path (if path_key best < path_key p then p else best) ps"

definition path_to ::
  "story_dependency list \<Rightarrow> string list \<Rightarrow> (string \<rightharpoonup> string list) \<Rightarrow> string \<Rightarrow> string list" where
  "path_to es story_ids paths s =
    (let predecessors = sorted_list_of_set {p \<in> direct_hard_predecessors es s. p \<in> set story_ids} in
     case map (\<lambda>p. (case paths p of Some q \<Rightarrow> q | None \<Rightarrow> [p]) @ [s]) predecessors of
       [] \<Rightarrow> [s]
     | c # cs \<Rightarrow> max_path c cs)"

definition extend_paths ::
  "story_dependency list \<Rightarrow> string list \<Rightarrow> (string \<rightharpoonup> string list) \<Rightarrow> string \<Rightarrow> (string \<rightharpoonup> string list)" where
  "extend_paths es story_ids paths s = paths(s \<mapsto> path_to es story_ids paths s)"

definition layer_paths ::
  "story_dependency list \<Rightarrow> string list \<Rightarrow> (string \<rightharpoonup> string list) \<Rightarrow> string list \<Rightarrow> (string \<rightharpoonup> string list)" where
  "layer_paths es story_ids paths layer =
     foldl (extend_paths es story_ids) paths (sort (filter (\<lambda>s. s \<in> set story_ids) layer))"

definition critical_paths :: "story_dependency list \<Rightarrow> string list \<Rightarrow> (string \<rightharpoonup> string list)" where
  "critical_paths es story_ids =
     foldl (layer_paths es story_ids) (\<lambda>s. if s \<in> set story_ids then Some [s] else None) (topological_layers es)"

text \<open>\<open>story_ids\<close> are the keys of \<open>stories_by_id\<close>, sorted; the dictionary keeps that order.\<close>

definition critical_path :: "story_dependency list \<Rightarrow> string list \<Rightarrow> string list" where
  "critical_path es story_ids =
    (case map (\<lambda>s. the (critical_paths es story_ids s)) story_ids of [] \<Rightarrow> [] | p # ps \<Rightarrow> max_path p ps)"

section \<open>Deriving a plan\<close>

definition derive_budgets :: "parallelization_config \<Rightarrow> execution_capacity_budgets" where
  "derive_budgets c =
    (let m = plc_max_parallel_stories c;
         repo_cap = (case plc_max_parallel_stories_per_repo c of
            None \<Rightarrow> m | Some r \<Rightarrow> if r = 0 then m else r) in
     \<lparr>repo_parallel_cap = repo_cap, merge_risk_cap = m, api_rate_limit_cap = m, llm_pool_cap = m,
      ci_capacity_cap = m\<rparr>)"

definition wave_id :: "string \<Rightarrow> wave_story list \<Rightarrow> string" where
  "wave_id project_key stories =
    (let story_ids = join '','' (map ws_story_id stories) in
     if story_ids \<noteq> [] then project_key @ '':planned:'' @ story_ids else project_key @ '':planned:empty'')"

text \<open>What \<open>derive_plan\<close> is called with.\<close>

record plan_input =
  pi_edges :: "story_dependency list"
  pi_completed :: "string set"
  pi_stories :: "story_ref list"
  pi_project_key :: string
  pi_budgets :: execution_capacity_budgets
  pi_hint :: "scheduling_hint option"
  pi_human_gates :: "human_gate list"
  pi_external_gates :: "external_gate list"
  pi_conditions :: "blocking_condition list"

definition project_stories :: "plan_input \<Rightarrow> story_ref list" where
  "project_stories i = filter (\<lambda>s. sr_project_key s = pi_project_key i) (pi_stories i)"

definition active_stories :: "plan_input \<Rightarrow> story_ref list" where
  "active_stories i = filter (\<lambda>s. sr_story_id s \<notin> pi_completed i \<and> \<not> is_done s) (project_stories i)"

definition plan_story_ids :: "plan_input \<Rightarrow> string list" where
  "plan_story_ids i = sorted_list_of_set (sr_story_id ` set (project_stories i))"

definition plan_sets :: "plan_input \<Rightarrow> wave_story list \<times> wave_story list" where
  "plan_sets i = derive_ready_and_blocked_sets (pi_edges i) (active_stories i) (pi_completed i)
     (layer_index_by_story_id (pi_edges i) (plan_story_ids i)) (pi_human_gates i) (pi_external_gates i)
     (pi_conditions i) (pi_project_key i)"

definition derive_plan :: "plan_input \<Rightarrow> plan_derivation" where
  "derive_plan i =
    (let ready_set = fst (plan_sets i); blocked_set = snd (plan_sets i);
         hard_blockers = filter (\<lambda>b. bc_kind b \<notin> set non_feasibility_blockers)
           (concat (map ws_blocked_by blocked_set));
         feasibility = \<lparr>ef_project_key = pi_project_key i, ef_can_parallelize = (length ready_set > 1),
           ef_feasible_story_ids = map ws_story_id ready_set,
           ef_blocked_conditions = sorted_blockers hard_blockers\<rparr>;
         max_allowed_batch = min (length ready_set) (max_allowed_batch_of (pi_budgets i));
         recommended_batch = (case pi_hint i of
             None \<Rightarrow> max_allowed_batch
           | Some h \<Rightarrow> (case sh_recommended_batch_limit h of
                None \<Rightarrow> max_allowed_batch | Some limit \<Rightarrow> min max_allowed_batch limit));
         policy = \<lparr>sp_project_key' = pi_project_key i,
           sp_may_parallelize_now = (ef_can_parallelize feasibility \<and> max_allowed_batch > 1),
           sp_budgets = pi_budgets i, sp_hint = pi_hint i\<rparr>;
         execution_stories = take recommended_batch ready_set in
     \<lparr>pd_project_key = pi_project_key i, pd_critical_path = critical_path (pi_edges i) (plan_story_ids i),
      pd_ready_set = ready_set, pd_blocked_set = blocked_set,
      pd_execution_wave = \<lparr>ew_project_key = pi_project_key i,
        ew_wave_id = wave_id (pi_project_key i) execution_stories, ew_lifecycle = Wave_PLANNED,
        ew_stories = execution_stories\<rparr>,
      pd_recommended_batch = recommended_batch, pd_max_allowed_batch = max_allowed_batch,
      pd_feasibility = feasibility, pd_scheduling_policy = policy\<rparr>)"

definition completed_story_ids_from_statuses :: "story_ref list \<Rightarrow> string set" where
  "completed_story_ids_from_statuses stories = sr_story_id ` {s \<in> set stories. is_done s}"

record readiness_assessment =
  ra_next_ready :: "wave_story list"
  ra_next_wave_after :: "wave_story list"
  ra_theoretical_parallelism :: nat
  ra_practical_parallelism :: nat
  ra_reason :: string
  ra_plan :: plan_derivation

definition readiness_reason :: "nat \<Rightarrow> nat \<Rightarrow> nat \<Rightarrow> string" where
  "readiness_reason theoretical max_allowed recommended =
    (if theoretical = recommended then show_nat recommended @ '' ready stories selected''
     else show_nat recommended @ '' of '' @ show_nat theoretical @ '' ready stories selected; max_allowed_batch=''
       @ show_nat max_allowed)"

definition readiness_input ::
  "story_dependency list \<Rightarrow> string set \<Rightarrow> story_ref list \<Rightarrow> parallelization_config \<Rightarrow> plan_input" where
  "readiness_input es completed stories config = \<lparr>pi_edges = es, pi_completed = completed, pi_stories = stories,
     pi_project_key = plc_project_key config, pi_budgets = derive_budgets config, pi_hint = None,
     pi_human_gates = [], pi_external_gates = [], pi_conditions = []\<rparr>"

definition compute_readiness ::
  "story_dependency list \<Rightarrow> string set \<Rightarrow> story_ref list \<Rightarrow> parallelization_config \<Rightarrow> readiness_assessment" where
  "compute_readiness es completed stories config =
    (let plan = derive_plan (readiness_input es completed stories config);
         next_ready = ew_stories (pd_execution_wave plan);
         next_ready_ids = set (map ws_story_id next_ready);
         following = derive_plan (readiness_input es (completed \<union> next_ready_ids) stories config) in
     \<lparr>ra_next_ready = next_ready,
      ra_next_wave_after = filter (\<lambda>w. ws_story_id w \<notin> next_ready_ids) (pd_ready_set following),
      ra_theoretical_parallelism = length (pd_ready_set plan),
      ra_practical_parallelism = pd_recommended_batch plan,
      ra_reason = readiness_reason (length (pd_ready_set plan)) (pd_max_allowed_batch plan)
        (pd_recommended_batch plan),
      ra_plan = plan\<rparr>)"

end
