(* ===== verification/Planning_Props.thy ===== *)
theory Planning_Props
  imports Planning "HOL-Library.Sublist"
begin

text \<open>Properties of plan derivation: the ready set, the batch bounds, the critical path.\<close>

section \<open>The ready set\<close>

text \<open>When a story may be started, said without the list of blockers.\<close>

definition startable :: "plan_input \<Rightarrow> story_ref \<Rightarrow> bool" where
  "startable i s \<longleftrightarrow> (\<forall>p. (p, sr_story_id s) \<in> hard_rel (pi_edges i) \<longrightarrow> p \<in> pi_completed i)
     \<and> (\<forall>g \<in> set (pi_human_gates i). hg_project_key g = pi_project_key i \<and> hg_story_id g = sr_story_id s
          \<longrightarrow> \<not> human_gate_blocking_open g)
     \<and> (\<forall>g \<in> set (pi_external_gates i). xg_project_key g = pi_project_key i \<and> xg_story_id g = sr_story_id s
          \<longrightarrow> \<not> external_gate_blocking_open g)
     \<and> (\<forall>b \<in> set (pi_conditions i). bc_story_id b = sr_story_id s \<longrightarrow> bc_kind b = BLOCKED_CAPACITY)"

definition story_order :: "story_ref \<Rightarrow> nat \<times> string" where
  "story_order s = (sr_story_number s, sr_story_id s)"

lemma set_sorted_blockers [simp]: "set (sorted_blockers bs) = set bs"
  by (simp add: sorted_blockers_def)

lemma map_filter_set: "set (List.map_filter f xs) = {y. \<exists>x \<in> set xs. f x = Some y}"
  by (induction xs) (auto split: option.splits)

lemma edge_blockers_hard:
  "(\<exists>b \<in> set (edge_blockers es s completed). bc_kind b \<noteq> BLOCKED_CAPACITY)
    \<longleftrightarrow> (\<exists>p. (p, s) \<in> hard_rel es \<and> p \<notin> completed)"
proof
  assume "\<exists>b \<in> set (edge_blockers es s completed). bc_kind b \<noteq> BLOCKED_CAPACITY"
  then show "\<exists>p. (p, s) \<in> hard_rel es \<and> p \<notin> completed"
    by (auto simp: edge_blockers_def map_filter_set direct_predecessor_edges_def hard_rel_def split: if_splits)
next
  assume "\<exists>p. (p, s) \<in> hard_rel es \<and> p \<notin> completed"
  then obtain e where e: "e \<in> set es" "sd_story_id e = s" "sd_kind e \<noteq> SOFT_STORY_DEPENDENCY"
      "sd_depends_on e \<notin> completed" by (auto simp: hard_rel_def)
  then obtain b where b: "blocker_from_edge (sd_kind e) s (sd_depends_on e) = Some b"
    using hard_edge_has_blocker [of "sd_kind e"] by auto
  then have "bc_kind b \<noteq> BLOCKED_CAPACITY" by (cases "sd_kind e") (auto simp: blocker_from_edge_def)
  moreover have "b \<in> set (edge_blockers es s completed)"
    using e b by (auto simp: edge_blockers_def map_filter_set direct_predecessor_edges_def)
  ultimately show "\<exists>b \<in> set (edge_blockers es s completed). bc_kind b \<noteq> BLOCKED_CAPACITY" by blast
qed

lemma ready_iff_startable:
  "ws_is_ready (wave_story_of (pi_edges i) (pi_completed i) layers (pi_human_gates i) (pi_external_gates i)
     (pi_conditions i) (pi_project_key i) s) \<longleftrightarrow> startable i s"
proof -
  have "ws_is_ready (wave_story_of (pi_edges i) (pi_completed i) layers (pi_human_gates i) (pi_external_gates i)
      (pi_conditions i) (pi_project_key i) s)
    \<longleftrightarrow> \<not> (\<exists>b \<in> set (edge_blockers (pi_edges i) (sr_story_id s) (pi_completed i)). bc_kind b \<noteq> BLOCKED_CAPACITY)
      \<and> \<not> (\<exists>g \<in> set (pi_human_gates i). hg_project_key g = pi_project_key i \<and> hg_story_id g = sr_story_id s
             \<and> human_gate_blocking_open g)
      \<and> \<not> (\<exists>g \<in> set (pi_external_gates i). xg_project_key g = pi_project_key i \<and> xg_story_id g = sr_story_id s
             \<and> external_gate_blocking_open g)
      \<and> \<not> (\<exists>b \<in> set (pi_conditions i). bc_story_id b = sr_story_id s \<and> bc_kind b \<noteq> BLOCKED_CAPACITY)"
    unfolding wave_story_of_def blocking_conditions_for_story_def Let_def wave_story.select_convs list_ex_iff
      set_sorted_blockers set_append bex_Un set_map bex_simps(7) set_filter non_feasibility_blockers_def
    by simp blast
  then show ?thesis unfolding edge_blockers_hard startable_def by blast
qed

lemma plan_sets_eq:
  "map ws_story_id (fst (plan_sets i)) = map sr_story_id (filter (startable i) (sort_key story_order (active_stories i)))"
  "map ws_story_id (snd (plan_sets i)) = map sr_story_id (filter (\<lambda>s. \<not> startable i s) (sort_key story_order (active_stories i)))"
proof -
  have all: "filter (\<lambda>s. sr_story_id s \<notin> pi_completed i) (sort_key (\<lambda>s. (sr_story_number s, sr_story_id s)) (active_stories i))
      = sort_key story_order (active_stories i)"
    unfolding story_order_def by (rule filter_True) (simp add: active_stories_def)
  have id: "ws_story_id (wave_story_of a b c d e f g s) = sr_story_id s" for a b c d e f g s
    by (simp add: wave_story_of_def Let_def)
  show "map ws_story_id (fst (plan_sets i)) = map sr_story_id (filter (startable i) (sort_key story_order (active_stories i)))"
    "map ws_story_id (snd (plan_sets i)) = map sr_story_id (filter (\<lambda>s. \<not> startable i s) (sort_key story_order (active_stories i)))"
    unfolding plan_sets_def derive_ready_and_blocked_sets_def Let_def all fst_conv snd_conv filter_map
    by (simp_all add: o_def ready_iff_startable id)
qed

lemma derive_plan_sets [simp]:
  "pd_ready_set (derive_plan i) = fst (plan_sets i)" "pd_blocked_set (derive_plan i) = snd (plan_sets i)"
  "pd_critical_path (derive_plan i) = critical_path (pi_edges i) (plan_story_ids i)"
  by (simp_all add: derive_plan_def Let_def)

text \<open>
  C12. The ready set is exactly the set of startable stories: of the project's stories that are
  neither completed nor done, in order of number and id, a story is ready when every hard
  predecessor is completed, no open blocking human gate and no open external gate holds it, and
  every further condition on it is one of capacity; the others are blocked. A soft dependency, an
  optional review and a full capacity never block.
\<close>
theorem ready_set_is_the_startable_stories:
  "map ws_story_id (pd_ready_set (derive_plan i))
      = map sr_story_id (filter (startable i) (sort_key story_order (active_stories i)))
   \<and> map ws_story_id (pd_blocked_set (derive_plan i))
      = map sr_story_id (filter (\<lambda>s. \<not> startable i s) (sort_key story_order (active_stories i)))"
  by (simp add: plan_sets_eq)

section \<open>Bounds of the batch\<close>

text \<open>
  C13. The execution wave is the first stories of the ready set, as many as recommended; the
  recommendation is within the allowed batch and the hint, the allowed batch within the ready
  set and within every capacity budget.
\<close>
theorem batch_within_budgets:
  "length (ew_stories (pd_execution_wave (derive_plan i))) = pd_recommended_batch (derive_plan i)
   \<and> prefix (ew_stories (pd_execution_wave (derive_plan i))) (pd_ready_set (derive_plan i))
   \<and> pd_recommended_batch (derive_plan i) \<le> pd_max_allowed_batch (derive_plan i)
   \<and> pd_max_allowed_batch (derive_plan i) \<le> Min {length (pd_ready_set (derive_plan i)),
       repo_parallel_cap (pi_budgets i), merge_risk_cap (pi_budgets i), api_rate_limit_cap (pi_budgets i),
       llm_pool_cap (pi_budgets i), ci_capacity_cap (pi_budgets i)}
   \<and> (case pi_hint i of Some h \<Rightarrow> (case sh_recommended_batch_limit h of
        Some l \<Rightarrow> pd_recommended_batch (derive_plan i) \<le> l | None \<Rightarrow> True) | None \<Rightarrow> True)"
proof -
  have "pd_recommended_batch (derive_plan i) \<le> length (fst (plan_sets i))"
    by (auto simp: derive_plan_def Let_def split: option.splits)
  then have "length (ew_stories (pd_execution_wave (derive_plan i))) = pd_recommended_batch (derive_plan i)"
    by (simp add: derive_plan_def Let_def min_absorb2)
  moreover have "prefix (ew_stories (pd_execution_wave (derive_plan i))) (pd_ready_set (derive_plan i))"
    by (simp add: derive_plan_def Let_def take_is_prefix)
  moreover have "pd_recommended_batch (derive_plan i) \<le> pd_max_allowed_batch (derive_plan i)"
    by (auto simp: derive_plan_def Let_def split: option.splits)
  moreover have "pd_max_allowed_batch (derive_plan i) = min (length (fst (plan_sets i))) (max_allowed_batch_of (pi_budgets i))"
    by (simp add: derive_plan_def Let_def)
  moreover have "case pi_hint i of Some h \<Rightarrow> (case sh_recommended_batch_limit h of
      Some l \<Rightarrow> pd_recommended_batch (derive_plan i) \<le> l | None \<Rightarrow> True) | None \<Rightarrow> True"
    by (auto simp: derive_plan_def Let_def split: option.splits)
  moreover have "min n (max_allowed_batch_of b) \<le> Min {n, repo_parallel_cap b, merge_risk_cap b,
      api_rate_limit_cap b, llm_pool_cap b, ci_capacity_cap b}" for n b
    by (simp add: max_allowed_batch_of_def)
  ultimately show ?thesis by simp
qed

section \<open>The critical path\<close>

text \<open>A chain of stories of the plan, each a hard predecessor of the next.\<close>

definition hard_chain :: "story_dependency list \<Rightarrow> string list \<Rightarrow> string list \<Rightarrow> bool" where
  "hard_chain es ids c \<longleftrightarrow> c \<noteq> [] \<and> set c \<subseteq> set ids \<and> successively (\<lambda>a b. (a, b) \<in> hard_rel es) c"

definition longest_to :: "story_dependency list \<Rightarrow> string list \<Rightarrow> string \<Rightarrow> string list \<Rightarrow> bool" where
  "longest_to es ids s p \<longleftrightarrow> hard_chain es ids p \<and> last p = s
     \<and> (\<forall>q. hard_chain es ids q \<longrightarrow> last q = s \<longrightarrow> length q \<le> length p)"

lemma max_path_in: "max_path best ps \<in> set (best # ps)"
  by (induction best ps rule: max_path.induct) (auto split: if_splits)

lemma max_path_key_ge: "q \<in> set (best # ps) \<Longrightarrow> path_key q \<le> path_key (max_path best ps)"
proof (induction best ps arbitrary: q rule: max_path.induct)
  case (2 best p ps)
  let ?b = "if path_key best < path_key p then p else best"
  have "path_key ?b \<le> path_key (max_path best (p # ps))" using "2.IH" [of ?b] by simp
  moreover have "path_key best \<le> path_key ?b" "path_key p \<le> path_key ?b" by auto
  moreover have "q \<in> set ps \<Longrightarrow> path_key q \<le> path_key (max_path best (p # ps))" using "2.IH" [of q] by simp
  ultimately show ?case using "2.prems" by (metis order_trans set_ConsD)
qed simp

lemma max_path_longest: "q \<in> set (best # ps) \<Longrightarrow> length q \<le> length (max_path best ps)"
  using max_path_key_ge [of q best ps] by (auto simp: path_key_def less_eq_prod_def)

lemma hard_chain_snoc:
  "hard_chain es ids (q @ [s]) \<longleftrightarrow> s \<in> set ids
     \<and> (q = [] \<or> hard_chain es ids q \<and> (last q, s) \<in> hard_rel es)"
  by (cases "q = []") (auto simp: hard_chain_def successively_append_iff)

lemma path_to_longest:
  assumes s: "s \<in> set ids"
    and preds: "\<And>p. (p, s) \<in> hard_rel es \<Longrightarrow> p \<in> set ids \<Longrightarrow> \<exists>q. paths p = Some q \<and> longest_to es ids p q"
  shows "longest_to es ids s (path_to es ids paths s)"
proof -
  let ?P = "{p \<in> direct_hard_predecessors es s. p \<in> set ids}"
  let ?f = "\<lambda>p. (case paths p of Some q \<Rightarrow> q | None \<Rightarrow> [p]) @ [s]"
  have fin: "finite ?P" by (rule finite_subset [of _ "set ids"]) auto
  have P: "set (sorted_list_of_set ?P) = {p. (p, s) \<in> hard_rel es \<and> p \<in> set ids}" using fin by auto
  have cand: "\<exists>q. ?f p = q @ [s] \<and> longest_to es ids p q" if "p \<in> set (sorted_list_of_set ?P)" for p
    using preds [of p] that unfolding P by auto
  show ?thesis
  proof (cases "sorted_list_of_set ?P")
    case Nil
    then have none: "\<not> ((p, s) \<in> hard_rel es \<and> p \<in> set ids)" for p using P by auto
    have "length q \<le> 1" if q: "hard_chain es ids q" "last q = s" for q
    proof -
      obtain r where r: "q = r @ [s]" using q by (metis append_butlast_last_id hard_chain_def)
      have "r = [] \<or> last r \<in> set ids \<and> (last r, s) \<in> hard_rel es"
        using q(1) unfolding r hard_chain_snoc by (auto simp: hard_chain_def)
      then have "r = []" using none by blast
      then show ?thesis using r by simp
    qed
    moreover have "path_to es ids paths s = [s]" unfolding path_to_def Let_def Nil by simp
    moreover have "hard_chain es ids [s]" using s by (simp add: hard_chain_def)
    ultimately show ?thesis by (simp add: longest_to_def)
  next
    case (Cons p ps)
    let ?m = "max_path (?f p) (map ?f ps)"
    have to: "path_to es ids paths s = ?m" using Cons by (simp add: path_to_def Let_def)
    have "?m \<in> ?f ` set (p # ps)" using max_path_in [of "?f p" "map ?f ps"] by simp
    then obtain p' where p': "p' \<in> set (sorted_list_of_set ?P)" "?m = ?f p'" unfolding Cons by blast
    obtain q where q: "?m = q @ [s]" "longest_to es ids p' q" using cand [OF p'(1)] p'(2) by auto
    have "hard_chain es ids ?m" "last ?m = s"
      using q p'(1) s unfolding P q(1) hard_chain_snoc by (auto simp: longest_to_def)
    moreover have "length c \<le> length ?m" if c: "hard_chain es ids c" "last c = s" for c
    proof -
      obtain r where r: "c = r @ [s]" using c by (metis append_butlast_last_id hard_chain_def)
      show ?thesis
      proof (cases "r = []")
        case True
        then show ?thesis using r q(1) by simp
      next
        case False
        then have l: "hard_chain es ids r" "(last r, s) \<in> hard_rel es" using c(1) unfolding r hard_chain_snoc by auto
        have "last r \<in> set ids" using l(1) False by (auto simp: hard_chain_def)
        then have "last r \<in> set (sorted_list_of_set ?P)" using l(2) unfolding P by blast
        then have mem: "?f (last r) \<in> ?f ` set (p # ps)" and in_P: "last r \<in> set (sorted_list_of_set ?P)"
          unfolding Cons by blast+
        obtain u where u: "?f (last r) = u @ [s]" "longest_to es ids (last r) u" using cand [OF in_P] by blast
        have "length r \<le> length u" using u(2) l(1) by (auto simp: longest_to_def)
        moreover have "length (u @ [s]) \<le> length ?m" using max_path_longest [of "?f (last r)" "?f p" "map ?f ps"] mem
          unfolding u(1) by (simp only: image_set list.map)
        ultimately show ?thesis using r by simp
      qed
    qed
    ultimately show ?thesis unfolding to longest_to_def by blast
  qed
qed

lemma path_to_cong:
  assumes "\<And>p. (p, s) \<in> hard_rel es \<Longrightarrow> p \<in> set ids \<Longrightarrow> f p = g p"
  shows "path_to es ids f s = path_to es ids g s"
proof -
  let ?P = "{p \<in> direct_hard_predecessors es s. p \<in> set ids}"
  have "finite ?P" by (rule finite_subset [of _ "set ids"]) auto
  then have "map (\<lambda>p. (case f p of Some q \<Rightarrow> q | None \<Rightarrow> [p]) @ [s]) (sorted_list_of_set ?P)
      = map (\<lambda>p. (case g p of Some q \<Rightarrow> q | None \<Rightarrow> [p]) @ [s]) (sorted_list_of_set ?P)"
    by (intro map_cong refl) (use assms in auto)
  then show ?thesis unfolding path_to_def Let_def by (simp only:)
qed

lemma extend_paths_layer:
  assumes "\<And>s p. s \<in> set xs \<Longrightarrow> (p, s) \<in> hard_rel es \<Longrightarrow> p \<notin> set xs" and "distinct xs"
  shows "foldl (extend_paths es ids) paths xs
    = (\<lambda>s. if s \<in> set xs then Some (path_to es ids paths s) else paths s)"
  using assms
proof (induction xs rule: rev_induct)
  case (snoc x xs)
  let ?p = "\<lambda>s. if s \<in> set xs then Some (path_to es ids paths s) else paths s"
  have IH: "foldl (extend_paths es ids) paths xs = ?p"
  proof (rule snoc.IH)
    show "p \<notin> set xs" if "s \<in> set xs" "(p, s) \<in> hard_rel es" for s p
      using snoc.prems(1) [of s p] that by simp
    show "distinct xs" using snoc.prems(2) by simp
  qed
  have "x \<notin> set xs" using snoc.prems(2) by simp
  have "path_to es ids ?p x = path_to es ids paths x"
    by (rule path_to_cong) (use snoc.prems(1) [of x] in simp)
  then have "extend_paths es ids ?p x = ?p(x \<mapsto> path_to es ids paths x)" by (simp only: extend_paths_def)
  then show ?case unfolding foldl_append IH foldl.simps by (simp add: fun_eq_iff)
qed simp

text \<open>What the paths say once the stories \<open>E\<close> are placed.\<close>

definition paths_ok :: "story_dependency list \<Rightarrow> string list \<Rightarrow> string set \<Rightarrow> (string \<rightharpoonup> string list) \<Rightarrow> bool" where
  "paths_ok es ids E paths \<longleftrightarrow>
     (\<forall>s \<in> set ids. if s \<in> E then \<exists>q. paths s = Some q \<and> longest_to es ids s q else paths s = Some [s])"

lemma hard_rel_dep_rel: "(p, s) \<in> hard_rel es \<Longrightarrow> (p, s) \<in> dep_rel es"
  by (auto simp: hard_rel_def dep_rel_def)

lemma layer_paths_ok:
  assumes L: "L = sorted_list_of_set (placeable es E)" and ok: "paths_ok es ids E paths"
  shows "paths_ok es ids (E \<union> set L) (layer_paths es ids paths L)"
proof -
  let ?xs = "sort (filter (\<lambda>s. s \<in> set ids) L)"
  have xs: "set ?xs = set L \<inter> set ids" by auto
  have pred: "p \<in> E" if "s \<in> set L" "(p, s) \<in> hard_rel es" for s p
    using that hard_rel_dep_rel [of p s es] unfolding L by (auto simp: placeable_def)
  have disj: "s \<notin> E" if "s \<in> set L" for s using that unfolding L by (simp add: placeable_def)
  have eq: "layer_paths es ids paths L
      = (\<lambda>s. if s \<in> set ?xs then Some (path_to es ids paths s) else paths s)"
    unfolding layer_paths_def
  proof (rule extend_paths_layer)
    show "p \<notin> set ?xs" if "s \<in> set ?xs" "(p, s) \<in> hard_rel es" for s p
      using pred [of s p] disj [of p] that unfolding xs by blast
    show "distinct ?xs" unfolding L by simp
  qed
  have new: "longest_to es ids s (path_to es ids paths s)" if s: "s \<in> set L" "s \<in> set ids" for s
  proof (rule path_to_longest [OF s(2)])
    fix p assume p: "(p, s) \<in> hard_rel es" "p \<in> set ids"
    then show "\<exists>q. paths p = Some q \<and> longest_to es ids p q"
      using ok pred [OF s(1) p(1)] unfolding paths_ok_def by simp
  qed
  show ?thesis
    unfolding paths_ok_def
  proof
    fix s assume s: "s \<in> set ids"
    show "if s \<in> E \<union> set L then \<exists>q. layer_paths es ids paths L s = Some q \<and> longest_to es ids s q
      else layer_paths es ids paths L s = Some [s]"
      using ok s new [of s] unfolding eq xs paths_ok_def by (cases "s \<in> set L") simp_all
  qed
qed

lemma layers_paths_ok:
  "greedy_layers es E Ls \<Longrightarrow> paths_ok es ids E paths \<Longrightarrow>
    paths_ok es ids (E \<union> set (concat Ls)) (foldl (layer_paths es ids) paths Ls)"
proof (induction Ls arbitrary: E paths)
  case (Cons L Ls)
  have L: "L = sorted_list_of_set (placeable es E)" "greedy_layers es (E \<union> set L) Ls"
    using Cons.prems(1) unfolding greedy_layers.simps by blast+
  show ?case
    using Cons.IH [OF L(2) layer_paths_ok [OF L(1) Cons.prems(2)]] by (simp add: Un_assoc)
qed simp

lemma critical_paths_longest:
  assumes "\<not> fst (has_cycle es)" and s: "s \<in> set ids"
  shows "\<exists>q. critical_paths es ids s = Some q \<and> longest_to es ids s q"
proof -
  have ac: "uncycled es = nodes_of es" using assms(1) uncycled_acyclic [of es] has_cycle_acyclic [of es] by blast
  have "set (concat (topological_layers es)) = nodes_of es"
    using greedy_layers_set [OF topological_layers_greedy [of es]] ac by (simp del: graph_fields_of)
  moreover have "paths_ok es ids {} (\<lambda>s. if s \<in> set ids then Some [s] else None)"
    by (simp add: paths_ok_def)
  ultimately have ok: "paths_ok es ids (nodes_of es) (critical_paths es ids)"
    using layers_paths_ok [OF topological_layers_greedy [of es]] unfolding critical_paths_def by fastforce
  show ?thesis
  proof (cases "s \<in> nodes_of es")
    case True
    then show ?thesis using ok s unfolding paths_ok_def by meson
  next
    case False
    then have none: "(p, s) \<notin> hard_rel es" for p
      using hard_rel_dep_rel [of p s es] dep_rel_nodes [of es] by blast
    have "longest_to es ids s (path_to es ids (\<lambda>_. None) s)" by (rule path_to_longest [OF s]) (simp add: none)
    moreover have "path_to es ids (\<lambda>_. None) s = [s]"
    proof -
      have "direct_hard_predecessors es s = {}" using none by auto
      then show ?thesis by (simp add: path_to_def del: direct_hard_predecessors_iff)
    qed
    moreover have "critical_paths es ids s = Some [s]" using ok s False unfolding paths_ok_def by meson
    ultimately show ?thesis by simp
  qed
qed

text \<open>
  Where the graph has no cycle, the critical path of a plan is a chain of its stories, each
  hard-blocking the next, and no chain of hard-blocking dependencies among the stories of the
  plan is longer.
\<close>
theorem critical_path_is_longest_hard_chain:
  assumes "\<not> fst (has_cycle es)" and "ids \<noteq> []"
  shows "hard_chain es ids (critical_path es ids)
    \<and> (\<forall>c. hard_chain es ids c \<longrightarrow> length c \<le> length (critical_path es ids))"
proof -
  let ?f = "\<lambda>s. the (critical_paths es ids s)"
  have f: "longest_to es ids s (?f s)" if "s \<in> set ids" for s
    using critical_paths_longest [OF assms(1) that] by force
  obtain i js where ids: "ids = i # js" using assms(2) by (cases ids) auto
  have cp: "critical_path es ids = max_path (?f i) (map ?f js)" by (simp add: critical_path_def ids)
  have "critical_path es ids \<in> ?f ` set ids"
    using max_path_in [of "?f i" "map ?f js"] unfolding cp by (simp add: ids)
  then have chain: "hard_chain es ids (critical_path es ids)" using f by (auto simp: longest_to_def)
  have "length c \<le> length (critical_path es ids)" if c: "hard_chain es ids c" for c
  proof -
    have l: "last c \<in> set ids" using c by (auto simp: hard_chain_def)
    then have "length c \<le> length (?f (last c))" using f [OF l] c by (simp add: longest_to_def)
    moreover have "?f (last c) \<in> set (?f i # map ?f js)" using l by (auto simp: ids)
    then have "length (?f (last c)) \<le> length (critical_path es ids)"
      unfolding cp by (rule max_path_longest)
    ultimately show ?thesis by simp
  qed
  then show ?thesis using chain by blast
qed

definition demo_edges :: "story_dependency list" where
  "demo_edges =
    [\<lparr>sd_story_id = ''B'', sd_depends_on = ''A'', sd_kind = HARD_STORY_DEPENDENCY, sd_created_at = ''t''\<rparr>,
     \<lparr>sd_story_id = ''C'', sd_depends_on = ''B'', sd_kind = SHARED_FILE_CONFLICT, sd_created_at = ''t''\<rparr>]"

lemma demo_edges_acyclic: "\<not> fst (has_cycle demo_edges)"
proof -
  have "dep_rel demo_edges \<subseteq> measure (\<lambda>s. if s = ''A'' then 0 else if s = ''B'' then 1 else 2)"
    by (auto simp: dep_rel_def demo_edges_def)
  then have "acyclic (dep_rel demo_edges)" by (rule acyclic_subset [OF wf_acyclic [OF wf_measure]])
  then show ?thesis by (simp add: has_cycle_acyclic)
qed

lemma hard_rel_bex: "(a, b) \<in> hard_rel es
    \<longleftrightarrow> (\<exists>e \<in> set es. sd_depends_on e = a \<and> sd_story_id e = b \<and> sd_kind e \<noteq> SOFT_STORY_DEPENDENCY)"
  by (auto simp: hard_rel_def)

theorem critical_path_is_longest_hard_chain_witness:
  "hard_chain demo_edges [''A'', ''B'', ''C''] (critical_path demo_edges [''A'', ''B'', ''C''])
   \<and> 3 \<le> length (critical_path demo_edges [''A'', ''B'', ''C''])"
proof -
  have "hard_chain demo_edges [''A'', ''B'', ''C''] [''A'', ''B'', ''C'']"
    by (simp add: hard_chain_def hard_rel_bex demo_edges_def)
  then show ?thesis
    using critical_path_is_longest_hard_chain [OF demo_edges_acyclic, of "[''A'', ''B'', ''C'']"] by fastforce
qed

end
