(* ===== verification/Plan_Lifecycle.thy ===== *)
theory Plan_Lifecycle
  imports Planning Core_Types
begin

text \<open>
  The services of execution planning (\<open>execution_planning/lifecycle.py\<close>) over the stored
  dependency edges (\<open>state_backend/store/story_dependency_repository.py\<close> and the rows of the
  table \<open>story_dependencies\<close>). The services see the store through the protocol
  \<open>StoryDependencyRepository\<close>: its operations are arguments of \<open>add_dependency\<close>, what they
  promise is the locale \<open>dependency_repository\<close>, and the rows of the table provide it.
\<close>

section \<open>The table\<close>

text \<open>
  A row is a project key and an edge. The primary key is (project, story, depends on, kind); the
  foreign keys point to tables this model does not have.
\<close>

type_synonym dependency_table = "(string \<times> story_dependency) list"

definition edge_key :: "story_dependency \<Rightarrow> string \<times> string \<times> string" where
  "edge_key e = (sd_story_id e, sd_depends_on e, dependency_kind_value (sd_kind e))"

definition dependency_row_key :: "string \<times> story_dependency \<Rightarrow> string \<times> string \<times> string \<times> string" where
  "dependency_row_key r = (fst r, edge_key (snd r))"

definition save_story_dependency_row ::
  "dependency_table \<Rightarrow> string \<Rightarrow> story_dependency \<Rightarrow> exn + dependency_table" where
  "save_story_dependency_row t project_key e =
    (if dependency_row_key (project_key, e) \<in> dependency_row_key ` set t then Inl (OtherException ''UNIQUE constraint failed'') else Inr (t @ [(project_key, e)]))"

definition load_story_dependency_rows :: "dependency_table \<Rightarrow> string \<Rightarrow> story_dependency list" where
  "load_story_dependency_rows t project_key =
     sort_key edge_key (map snd (filter (\<lambda>r. fst r = project_key) t))"

definition load_story_dependency_rows_for_story :: "dependency_table \<Rightarrow> string \<Rightarrow> story_dependency list" where
  "load_story_dependency_rows_for_story t story_id = map snd
     (sort_key (\<lambda>(p, e). (p, sd_depends_on e, dependency_kind_value (sd_kind e)))
       (filter (\<lambda>r. sd_story_id (snd r) = story_id) t))"

text \<open>The rows left and the number of rows deleted.\<close>

definition delete_story_dependency_row ::
  "dependency_table \<Rightarrow> string \<Rightarrow> string \<Rightarrow> string \<Rightarrow> dependency_table \<times> nat" where
  "delete_story_dependency_row t story_id depends_on kind =
    (let hit = (\<lambda>r. edge_key (snd r) = (story_id, depends_on, kind)) in
     (filter (\<lambda>r. \<not> hit r) t, length (filter hit t)))"

section \<open>The repository\<close>

definition repo_add :: "dependency_table \<Rightarrow> story_dependency \<Rightarrow> string \<Rightarrow> exn + dependency_table" where
  "repo_add t e project_key =
    (if filter (\<lambda>c. sd_story_id c = sd_story_id e \<and> sd_depends_on c = sd_depends_on e \<and> sd_kind c = sd_kind e)
          (load_story_dependency_rows t project_key) \<noteq> []
     then Inl (StoryDependencyConflictError ''Story dependency already exists'')
     else save_story_dependency_row t project_key e)"

definition repo_remove ::
  "dependency_table \<Rightarrow> string \<Rightarrow> string \<Rightarrow> story_dependency_kind \<Rightarrow> exn + dependency_table" where
  "repo_remove t story_id depends_on kind =
    (case delete_story_dependency_row t story_id depends_on (dependency_kind_value kind) of (t', removed) \<Rightarrow>
       if removed = 0 then Inl (StoryDependencyNotFoundError ''Story dependency not found'') else Inr t')"

section \<open>The services\<close>

text \<open>
  \<open>story_repo\<close> is \<open>PlanningStoryRepository.get\<close>, \<open>list_for_project\<close> and \<open>add\<close> the operations of
  the dependency repository, \<open>now\<close> the current time.
\<close>

definition add_dependency ::
  "(string \<Rightarrow> string \<Rightarrow> story_ref option) \<Rightarrow> ('r \<Rightarrow> string \<Rightarrow> story_dependency list)
     \<Rightarrow> ('r \<Rightarrow> story_dependency \<Rightarrow> string \<Rightarrow> exn + 'r)
     \<Rightarrow> string \<Rightarrow> string \<Rightarrow> story_dependency_kind \<Rightarrow> string \<Rightarrow> string \<Rightarrow> 'r
     \<Rightarrow> exn + (story_dependency \<times> 'r)" where
  "add_dependency story_repo list_for_project add story_id depends_on kind project_key now r =
    (if story_id = depends_on then Inl (StoryDependencyConflictError ''Story dependency must not point to itself'')
     else case (story_repo project_key story_id, story_repo project_key depends_on) of
       (Some story, Some dep) \<Rightarrow>
         if sr_project_key story \<noteq> sr_project_key dep \<or> sr_project_key story \<noteq> project_key
         then Inl (StoryDependencyNotFoundError ''Dependency endpoint story not found in project'')
         else let edge = \<lparr>sd_story_id = story_id, sd_depends_on = depends_on, sd_kind = kind, sd_created_at = now\<rparr> in
           (case has_cycle (list_for_project r project_key @ [edge]) of
              (True, path) \<Rightarrow> Inl (StoryDependencyCycleError ''Story dependency would create a cycle'' path)
            | (False, _) \<Rightarrow> (case add r edge project_key of Inl err \<Rightarrow> Inl err | Inr r' \<Rightarrow> Inr (edge, r')))
     | _ \<Rightarrow> Inl (StoryDependencyNotFoundError ''Dependency endpoint story not found''))"

definition remove_dependency ::
  "('r \<Rightarrow> string \<Rightarrow> string \<Rightarrow> story_dependency_kind \<Rightarrow> exn + 'r)
     \<Rightarrow> string \<Rightarrow> string \<Rightarrow> story_dependency_kind \<Rightarrow> 'r \<Rightarrow> exn + 'r" where
  "remove_dependency remove story_id depends_on kind r = remove r story_id depends_on kind"

text \<open>
  The readiness of a project, with the default configuration when none is stored; and the audit
  events it emits, in order: \<open>None\<close> as reason for a ready story.
\<close>

definition default_config :: "string \<Rightarrow> story_ref list \<Rightarrow> parallelization_config" where
  "default_config project_key stories = \<lparr>plc_project_key = project_key,
     plc_max_parallel_stories = max 1 (length (filter (\<lambda>s. \<not> is_done s) stories)),
     plc_max_parallel_stories_per_repo = None\<rparr>"

definition assess_readiness ::
  "string \<Rightarrow> story_ref list \<Rightarrow> story_dependency list \<Rightarrow> parallelization_config option \<Rightarrow> readiness_assessment" where
  "assess_readiness project_key stories edges config =
     compute_readiness edges (completed_story_ids_from_statuses stories) stories
       (case config of Some c \<Rightarrow> c | None \<Rightarrow> default_config project_key stories)"

definition emit_readiness_audit :: "readiness_assessment \<Rightarrow> (string \<times> string option) list" where
  "emit_readiness_audit a =
     map (\<lambda>w. (ws_story_id w, None)) (ra_next_ready a)
     @ map (\<lambda>w. (ws_story_id w, Some (case ws_blocked_by w of b # _ \<Rightarrow> bc_reason_code b | [] \<Rightarrow> ''blocked'')))
         (pd_blocked_set (ra_plan a))"

definition mark_wave_after_results :: "execution_wave \<Rightarrow> string set \<Rightarrow> string set \<Rightarrow> execution_wave" where
  "mark_wave_after_results wave completed failed =
    (let ids = set (map ws_story_id (ew_stories wave)) in
     if ids \<inter> failed \<noteq> {} then wave\<lparr>ew_lifecycle := Wave_COLLAPSED\<rparr>
     else if ids \<noteq> {} \<and> ids \<subseteq> completed then wave\<lparr>ew_lifecycle := Wave_COMPLETED\<rparr>
     else if ids \<inter> completed \<noteq> {} then wave\<lparr>ew_lifecycle := Wave_ACTIVE\<rparr>
     else wave)"

section \<open>What a dependency repository promises\<close>

lemma has_cycle_False: "has_cycle es = (False, path) \<Longrightarrow> acyclic (dep_rel es)"
  using has_cycle_acyclic [of es] by simp

text \<open>
  The laws are about the edges listed for a project, as sets: an added edge appears in its project
  and nowhere else, a removed edge disappears, and nothing else changes.
\<close>

locale dependency_repository =
  fixes list_for_project :: "'r \<Rightarrow> string \<Rightarrow> story_dependency list"
    and add :: "'r \<Rightarrow> story_dependency \<Rightarrow> string \<Rightarrow> exn + 'r"
    and remove :: "'r \<Rightarrow> string \<Rightarrow> string \<Rightarrow> story_dependency_kind \<Rightarrow> exn + 'r"
  assumes add_lists: "add r e p = Inr r' \<Longrightarrow>
      set (list_for_project r' q) = (if q = p then insert e (set (list_for_project r q)) else set (list_for_project r q))"
    and remove_lists: "remove r s d k = Inr r' \<Longrightarrow>
      set (list_for_project r' q) = {e \<in> set (list_for_project r q). \<not> (sd_story_id e = s \<and> sd_depends_on e = d \<and> sd_kind e = k)}"
begin

text \<open>The invariant of the stored graphs: no project's graph has a cycle.\<close>

definition acyclic_graphs :: "'r \<Rightarrow> bool" where
  "acyclic_graphs r \<longleftrightarrow> (\<forall>p. acyclic (dep_rel (list_for_project r p)))"

lemma add_dependency_cases:
  assumes "add_dependency story_repo list_for_project add s d k p now r = Inr (e, r')"
  shows "e = \<lparr>sd_story_id = s, sd_depends_on = d, sd_kind = k, sd_created_at = now\<rparr>
    \<and> add r e p = Inr r' \<and> acyclic (dep_rel (list_for_project r p @ [e]))"
  using assms
  by (auto simp: add_dependency_def Let_def dest: has_cycle_False
      split: if_splits option.splits prod.splits bool.splits sum.splits)

lemma dep_rel_set: "set es = set fs \<Longrightarrow> dep_rel es = dep_rel fs"
  by (simp add: dep_rel_def)

lemma add_dependency_acyclic:
  assumes "acyclic_graphs r" and "add_dependency story_repo list_for_project add s d k p now r = Inr (e, r')"
  shows "acyclic_graphs r'"
proof -
  have e: "add r e p = Inr r'" "acyclic (dep_rel (list_for_project r p @ [e]))"
    using add_dependency_cases [OF assms(2)] by blast+
  have "acyclic (dep_rel (list_for_project r' q))" for q
  proof (cases "q = p")
    case True
    have "dep_rel (list_for_project r' q) = dep_rel (list_for_project r p @ [e])"
      by (rule dep_rel_set) (use add_lists [OF e(1), of q] True in simp)
    then show ?thesis using e(2) by simp
  next
    case False
    have "dep_rel (list_for_project r' q) = dep_rel (list_for_project r q)"
      by (rule dep_rel_set) (use add_lists [OF e(1), of q] False in simp)
    then show ?thesis using assms(1) by (simp add: acyclic_graphs_def)
  qed
  then show ?thesis by (simp add: acyclic_graphs_def)
qed

lemma remove_dependency_acyclic:
  assumes "acyclic_graphs r" and "remove_dependency remove s d k r = Inr r'"
  shows "acyclic_graphs r'"
proof -
  have "dep_rel (list_for_project r' q) \<subseteq> dep_rel (list_for_project r q)" for q
    using remove_lists [of r s d k r' q] assms(2) by (auto simp: remove_dependency_def dep_rel_def)
  then show ?thesis using assms(1) unfolding acyclic_graphs_def by (meson acyclic_subset)
qed

end

section \<open>The rows provide it\<close>

lemma kind_value_inject [simp]: "dependency_kind_value k = dependency_kind_value k' \<longleftrightarrow> k = k'"
  by (cases k; cases k') simp_all

lemma set_load_rows [simp]: "set (load_story_dependency_rows t p) = {e. (p, e) \<in> set t}"
  by (force simp: load_story_dependency_rows_def)

lemma repo_add_iff:
  "repo_add t e p = (if \<exists>c. (p, c) \<in> set t \<and> edge_key c = edge_key e
     then Inl (StoryDependencyConflictError ''Story dependency already exists'') else Inr (t @ [(p, e)]))"
proof -
  have "filter (\<lambda>c. sd_story_id c = sd_story_id e \<and> sd_depends_on c = sd_depends_on e \<and> sd_kind c = sd_kind e)
      (load_story_dependency_rows t p) \<noteq> [] \<longleftrightarrow> (\<exists>c. (p, c) \<in> set t \<and> edge_key c = edge_key e)"
    by (auto simp: filter_empty_conv edge_key_def)
  moreover have "dependency_row_key (p, e) \<in> dependency_row_key ` set t \<longleftrightarrow> (\<exists>c. (p, c) \<in> set t \<and> edge_key c = edge_key e)"
    by (force simp: dependency_row_key_def)
  ultimately show ?thesis by (simp add: repo_add_def save_story_dependency_row_def)
qed

lemma repo_remove_iff:
  "repo_remove t s d k = (if \<exists>p e. (p, e) \<in> set t \<and> sd_story_id e = s \<and> sd_depends_on e = d \<and> sd_kind e = k
     then Inr (filter (\<lambda>(p, e). \<not> (sd_story_id e = s \<and> sd_depends_on e = d \<and> sd_kind e = k)) t)
     else Inl (StoryDependencyNotFoundError ''Story dependency not found''))"
proof -
  have hit: "edge_key e = (s, d, dependency_kind_value k) \<longleftrightarrow> sd_story_id e = s \<and> sd_depends_on e = d \<and> sd_kind e = k" for e
    by (simp add: edge_key_def)
  have "filter (\<lambda>r. sd_story_id (snd r) = s \<and> sd_depends_on (snd r) = d \<and> sd_kind (snd r) = k) t = []
      \<longleftrightarrow> \<not> (\<exists>p e. (p, e) \<in> set t \<and> sd_story_id e = s \<and> sd_depends_on e = d \<and> sd_kind e = k)"
    unfolding filter_empty_conv by force
  then show ?thesis
    unfolding repo_remove_def delete_story_dependency_row_def Let_def hit prod.case length_0_conv case_prod_unfold
      fst_conv snd_conv by (simp only: simp_thms split: if_split) blast
qed

interpretation rows: dependency_repository load_story_dependency_rows repo_add repo_remove
  by unfold_locales (auto simp: repo_add_iff repo_remove_iff split: if_splits)

section \<open>Histories of the store\<close>

text \<open>
  Requests to the services, each with the story reader it meets; a request that is refused leaves
  the rows as they are.
\<close>

datatype dep_request =
    Request_add "string \<Rightarrow> string \<Rightarrow> story_ref option" string string story_dependency_kind string string
  | Request_remove string string story_dependency_kind

fun dep_step :: "dependency_table \<Rightarrow> dep_request \<Rightarrow> dependency_table" where
  "dep_step t (Request_add story_repo s d k p now) =
    (case add_dependency story_repo load_story_dependency_rows repo_add s d k p now t of
       Inl _ \<Rightarrow> t | Inr (_, t') \<Rightarrow> t')"
| "dep_step t (Request_remove s d k) =
    (case remove_dependency repo_remove s d k t of Inl _ \<Rightarrow> t | Inr t' \<Rightarrow> t')"

definition dep_history :: "dep_request list \<Rightarrow> dependency_table" where
  "dep_history requests = foldl dep_step [] requests"

lemma dep_step_acyclic: "rows.acyclic_graphs t \<Longrightarrow> rows.acyclic_graphs (dep_step t rq)"
  by (cases rq) (auto intro: rows.add_dependency_acyclic rows.remove_dependency_acyclic split: sum.splits)

lemma no_rows_acyclic: "rows.acyclic_graphs []"
  by (simp add: rows.acyclic_graphs_def dep_rel_def acyclic_def)

lemma dep_history_acyclic: "acyclic (dep_rel (load_story_dependency_rows (dep_history requests) p))"
proof -
  have "rows.acyclic_graphs (dep_history requests)"
    unfolding dep_history_def
    by (induction requests rule: rev_induct) (simp_all add: dep_step_acyclic no_rows_acyclic)
  then show ?thesis by (simp add: rows.acyclic_graphs_def)
qed

lemma dep_step_distinct:
  assumes "distinct (map dependency_row_key t)"
  shows "distinct (map dependency_row_key (dep_step t rq))"
proof (cases rq)
  case (Request_add story_repo s d k p now)
  show ?thesis
  proof (cases "add_dependency story_repo load_story_dependency_rows repo_add s d k p now t")
    case (Inr q)
    obtain e t' where q: "q = (e, t')" by (cases q)
    have "repo_add t e p = Inr t'" using rows.add_dependency_cases [OF Inr [unfolded q]] by blast
    then have "t' = t @ [(p, e)]" "dependency_row_key (p, e) \<notin> dependency_row_key ` set t"
      by (auto simp: repo_add_iff dependency_row_key_def split: if_splits)
    then show ?thesis using assms Request_add Inr q by simp
  qed (use assms Request_add in simp)
next
  case (Request_remove s d k)
  then show ?thesis using assms
    by (auto simp: remove_dependency_def repo_remove_iff distinct_map_filter)
qed

lemma dep_history_distinct: "distinct (map dependency_row_key (dep_history requests))"
  unfolding dep_history_def by (induction requests rule: rev_induct) (simp_all add: dep_step_distinct)

text \<open>
  C14. After any history of requests the dependency graph of every project has no cycle, no story
  depends on itself, and no edge is stored twice.
\<close>
theorem stored_graphs_stay_acyclic:
  "fst (has_cycle (load_story_dependency_rows (dep_history requests) p)) = False
   \<and> distinct (map dependency_row_key (dep_history requests))"
  using dep_history_acyclic [of requests p] dep_history_distinct [of requests] by (simp add: has_cycle_acyclic)

section \<open>Which edges are accepted\<close>

definition endpoints_ok :: "(string \<Rightarrow> string \<Rightarrow> story_ref option) \<Rightarrow> string \<Rightarrow> string \<Rightarrow> string \<Rightarrow> bool" where
  "endpoints_ok story_repo p s d \<longleftrightarrow> (case (story_repo p s, story_repo p d) of
     (Some a, Some b) \<Rightarrow> sr_project_key a = p \<and> sr_project_key b = p | _ \<Rightarrow> False)"

lemma add_edge_acyclic:
  assumes "acyclic (dep_rel es)"
  shows "acyclic (dep_rel (es @ [e])) \<longleftrightarrow> (sd_story_id e, sd_depends_on e) \<notin> (dep_rel es)\<^sup>*"
proof -
  have "dep_rel (es @ [e]) = insert (sd_depends_on e, sd_story_id e) (dep_rel es)" by (auto simp: dep_rel_def)
  then show ?thesis using assms by (simp add: acyclic_insert)
qed

text \<open>
  A request to add a dependency is answered by exactly one case: a conflict when the story is
  its own predecessor or, all else being well, the edge is stored already; not found when an
  endpoint is missing or of another project; a cycle error, with a cycle of the graph in question,
  exactly when the predecessor already depends on the story; and otherwise the edge is stored, as
  the only change. Nothing else is raised, a violated primary key in particular.
\<close>
theorem add_dependency_decides:
  "let t = dep_history requests; es = load_story_dependency_rows t p;
       e = \<lparr>sd_story_id = s, sd_depends_on = d, sd_kind = k, sd_created_at = now\<rparr>;
       reaches = ((s, d) \<in> (dep_rel es)\<^sup>*); present = (\<exists>c. (p, c) \<in> set t \<and> edge_key c = edge_key e) in
   case add_dependency story_repo load_story_dependency_rows repo_add s d k p now t of
     Inl (StoryDependencyConflictError _) \<Rightarrow> s = d \<or> endpoints_ok story_repo p s d \<and> \<not> reaches \<and> present
   | Inl (StoryDependencyNotFoundError _) \<Rightarrow> s \<noteq> d \<and> \<not> endpoints_ok story_repo p s d
   | Inl (StoryDependencyCycleError _ path) \<Rightarrow>
       s \<noteq> d \<and> endpoints_ok story_repo p s d \<and> reaches \<and> real_cycle (es @ [e]) path
   | Inl _ \<Rightarrow> False
   | Inr (e', t') \<Rightarrow> s \<noteq> d \<and> endpoints_ok story_repo p s d \<and> \<not> reaches \<and> \<not> present \<and> e' = e \<and> t' = t @ [(p, e)]"
proof -
  define t where "t = dep_history requests"
  define es where "es = load_story_dependency_rows t p"
  define e where "e = \<lparr>sd_story_id = s, sd_depends_on = d, sd_kind = k, sd_created_at = now\<rparr>"
  have ac: "acyclic (dep_rel es)" unfolding es_def t_def by (rule dep_history_acyclic)
  have cyc: "fst (has_cycle (es @ [e])) \<longleftrightarrow> (s, d) \<in> (dep_rel es)\<^sup>*"
    unfolding has_cycle_acyclic add_edge_acyclic [OF ac] by (simp add: e_def)
  obtain c path where hc: "has_cycle (es @ [e]) = (c, path)" by (cases "has_cycle (es @ [e])")
  have real: "c \<Longrightarrow> real_cycle (es @ [e]) path" using has_cycle_correct [of "es @ [e]"] hc by auto
  consider "s = d" | "s \<noteq> d" "\<not> endpoints_ok story_repo p s d" | "s \<noteq> d" "endpoints_ok story_repo p s d" by blast
  then show ?thesis
  proof cases
    case 3
    then obtain a b where ab: "story_repo p s = Some a" "story_repo p d = Some b"
        "sr_project_key a = p" "sr_project_key b = p"
      by (auto simp: endpoints_ok_def split: option.splits)
    have "add_dependency story_repo load_story_dependency_rows repo_add s d k p now t
      = (if c then Inl (StoryDependencyCycleError ''Story dependency would create a cycle'' path)
         else case repo_add t e p of Inl err \<Rightarrow> Inl err | Inr r' \<Rightarrow> Inr (e, r'))"
      using 3 ab hc unfolding add_dependency_def es_def e_def Let_def by simp
    then show ?thesis
      using 3 cyc real hc unfolding Let_def t_def [symmetric] es_def [symmetric] e_def [symmetric]
      by (simp add: repo_add_iff)
  qed (auto simp: add_dependency_def endpoints_ok_def Let_def split: option.splits if_splits)
qed

section \<open>Removing an edge\<close>

lemma load_filter:
  "load_story_dependency_rows (filter (\<lambda>(p, e). P e) t) q = filter P (load_story_dependency_rows t q)"
  by (simp add: load_story_dependency_rows_def filter_sort filter_map o_def case_prod_beta conj_commute)

text \<open>
  Removing an edge just added gives back the project's edges as they were. But the rows are
  deleted by story, predecessor and kind alone: any other project loses its edge of that name too.
\<close>
theorem remove_undoes_add:
  assumes "add_dependency story_repo load_story_dependency_rows repo_add s d k p now t = Inr (e, t')"
  shows "\<exists>t''. remove_dependency repo_remove s d k t' = Inr t''
    \<and> load_story_dependency_rows t'' p = load_story_dependency_rows t p
    \<and> (\<forall>q. load_story_dependency_rows t'' q = filter (\<lambda>c. edge_key c \<noteq> edge_key e) (load_story_dependency_rows t q))"
proof -
  have e: "e = \<lparr>sd_story_id = s, sd_depends_on = d, sd_kind = k, sd_created_at = now\<rparr>" "repo_add t e p = Inr t'"
    using rows.add_dependency_cases [OF assms] by blast+
  then have t': "t' = t @ [(p, e)]" "\<forall>c. (p, c) \<in> set t \<longrightarrow> edge_key c \<noteq> edge_key e"
    by (auto simp: repo_add_iff split: if_splits)
  have key: "sd_story_id c = s \<and> sd_depends_on c = d \<and> sd_kind c = k \<longleftrightarrow> edge_key c = edge_key e" for c
    using e(1) by (auto simp: edge_key_def)
  have "remove_dependency repo_remove s d k t' = Inr (filter (\<lambda>(p, c). edge_key c \<noteq> edge_key e) t)"
    unfolding remove_dependency_def repo_remove_iff key t'(1) by auto
  moreover have "filter (\<lambda>c. edge_key c \<noteq> edge_key e) (load_story_dependency_rows t p) = load_story_dependency_rows t p"
    using t'(2) by (intro filter_True) auto
  ultimately show ?thesis using load_filter [of "\<lambda>c. edge_key c \<noteq> edge_key e" t] by metis
qed

definition demo_ref :: "string \<Rightarrow> string \<Rightarrow> story_ref option" where
  "demo_ref p s = Some \<lparr>sr_project_key = p, sr_story_id = s, sr_story_number = 1, sr_title = s,
     sr_lifecycle_status = ''approved'', sr_repo = None\<rparr>"

definition demo_edge :: "string \<Rightarrow> story_dependency" where
  "demo_edge now = \<lparr>sd_story_id = ''B'', sd_depends_on = ''A'', sd_kind = HARD_STORY_DEPENDENCY, sd_created_at = now\<rparr>"

lemma demo_add:
  "add_dependency demo_ref load_story_dependency_rows repo_add ''B'' ''A'' HARD_STORY_DEPENDENCY ''P'' ''t1''
     [(''Q'', demo_edge ''t0'')] = Inr (demo_edge ''t1'', [(''Q'', demo_edge ''t0''), (''P'', demo_edge ''t1'')])"
proof -
  have "acyclic (dep_rel [demo_edge ''t1''])"
    using add_edge_acyclic [of "[]" "demo_edge ''t1''"] by (simp add: dep_rel_def acyclic_def demo_edge_def)
  then obtain path where "has_cycle [demo_edge ''t1''] = (False, path)"
    using has_cycle_acyclic [of "[demo_edge ''t1'']"] by (cases "has_cycle [demo_edge ''t1'']") auto
  moreover have "load_story_dependency_rows [(''Q'', demo_edge ''t0'')] ''P'' = []"
    by (simp add: load_story_dependency_rows_def)
  ultimately show ?thesis
    by (simp add: add_dependency_def Let_def demo_ref_def demo_edge_def repo_add_iff)
qed

theorem remove_undoes_add_witness:
  "\<exists>t''. remove_dependency repo_remove ''B'' ''A'' HARD_STORY_DEPENDENCY
       [(''Q'', demo_edge ''t0''), (''P'', demo_edge ''t1'')] = Inr t''
     \<and> load_story_dependency_rows t'' ''P'' = []
     \<and> load_story_dependency_rows t'' ''Q'' = []"
proof -
  have "load_story_dependency_rows [(''Q'', demo_edge ''t0'')] ''P'' = []"
    "filter (\<lambda>c. edge_key c \<noteq> edge_key (demo_edge ''t1''))
      (load_story_dependency_rows [(''Q'', demo_edge ''t0'')] ''Q'') = []"
    by (simp_all add: load_story_dependency_rows_def edge_key_def demo_edge_def)
  then show ?thesis using remove_undoes_add [OF demo_add] by metis
qed

end
