(* ===== verification/Scheduling.thy ===== *)
theory Scheduling
  imports Planning_Props
begin

text \<open>
  Scheduling (\<open>execution_planning/scheduling.py\<close>): the admission decision for every story
  (\<open>evaluate_scheduling\<close>) and the selector that fills the free slots
  (\<open>select_execution_input\<close>, \<open>next_from_snapshot\<close>).
\<close>

section \<open>Results\<close>

datatype scheduling_decision_kind = Decision_READY | Decision_BLOCKED | Decision_DEFER

record why_not_now =
  wn_story_id :: string
  wn_decision :: scheduling_decision_kind
  wn_reason_code :: string
  wn_detail :: "string option"

text \<open>A stack card holds one story reference; its neighbours are never set by the selector.\<close>

record story_card =
  card_story_id :: string
  card_story_number :: nat
  card_title :: string
  card_repo :: "string option"

record next_reason =
  nr_repo_bucket :: string
  nr_on_critical_path :: bool
  nr_global_slots_left :: nat
  nr_repo_slots :: "(string \<times> nat) list"
  nr_active_tiebreaker :: string

record execution_input_snapshot =
  es_project_key :: string
  es_running :: "story_card list"
  es_eligible_ready :: "story_card list"
  es_total_ready :: nat
  es_global_slots_left :: nat

record execution_input_next =
  en_project_key' :: string
  en_story :: "story_card option"
  en_reason :: "next_reason option"

record evaluate_scheduling_result =
  sv_project_key :: string
  sv_ready_candidates :: "string list"
  sv_blocked_stories :: "string list"
  sv_recommended_batch :: nat
  sv_max_allowed_batch :: nat
  sv_critical_path :: "string list"
  sv_next_wave :: execution_wave
  sv_why_not_now :: "why_not_now list"
  sv_quarantined_story_ids :: "string list"
  sv_escalated :: bool
  sv_feasibility :: execution_feasibility
  sv_scheduling_policy :: execution_scheduling_policy

definition is_ready :: "evaluate_scheduling_result \<Rightarrow> string \<Rightarrow> bool" where
  "is_ready r story_id \<longleftrightarrow> story_id \<in> set (sv_ready_candidates r)"

section \<open>The admission decision\<close>

definition quarantine_cyclic_subgraph :: "story_dependency list \<Rightarrow> string list \<times> bool" where
  "quarantine_cyclic_subgraph es = (case has_cycle es of
      (False, _) \<Rightarrow> ([], False)
    | (True, path) \<Rightarrow>
        (sorted_list_of_set (set path \<union> (\<Union>n \<in> set path. transitive_successors es n)), True))"

definition blocked_reason :: "wave_story \<Rightarrow> why_not_now" where
  "blocked_reason w = (case ws_blocked_by w of
      b # _ \<Rightarrow> \<lparr>wn_story_id = ws_story_id w, wn_decision = Decision_BLOCKED,
         wn_reason_code = bc_reason_code b, wn_detail = Some (blocking_kind_value (bc_kind b))\<rparr>
    | [] \<Rightarrow> \<lparr>wn_story_id = ws_story_id w, wn_decision = Decision_BLOCKED,
         wn_reason_code = ''blocked'', wn_detail = None\<rparr>)"

definition why_not_now_of :: "plan_derivation \<Rightarrow> string list \<Rightarrow> why_not_now list" where
  "why_not_now_of plan quarantined = sort_key wn_story_id
    (map blocked_reason (filter (\<lambda>w. ws_story_id w \<notin> set quarantined) (pd_blocked_set plan))
     @ map (\<lambda>s. \<lparr>wn_story_id = s, wn_decision = Decision_BLOCKED, wn_reason_code = ''quarantined_cycle'',
         wn_detail = Some (''cycle/deadlock quarantine (FK-70 '' @ section_sign @ ''70.11 #9)'')\<rparr>) quarantined)"

text \<open>
  The input of \<open>evaluate_scheduling\<close>: the one of \<open>derive_plan\<close>, with the completed stories
  optional. \<open>derive_plan\<close> filters the stories by project once more, without effect.
\<close>

definition scheduling_plan_input :: "plan_input \<Rightarrow> string set option \<Rightarrow> plan_input" where
  "scheduling_plan_input i completed =
    (let stories = project_stories i in
     i\<lparr>pi_stories := stories,
       pi_completed := (case completed of Some c \<Rightarrow> c | None \<Rightarrow> completed_story_ids_from_statuses stories)\<rparr>)"

definition evaluate_scheduling :: "plan_input \<Rightarrow> string set option \<Rightarrow> evaluate_scheduling_result" where
  "evaluate_scheduling i completed =
    (let (quarantined, escalated) = quarantine_cyclic_subgraph (pi_edges i);
         plan = derive_plan (scheduling_plan_input i completed);
         ready_ids = map ws_story_id (pd_ready_set plan);
         quarantined_ready = {s \<in> set ready_ids. s \<in> set quarantined} in
     \<lparr>sv_project_key = pi_project_key i,
      sv_ready_candidates = filter (\<lambda>s. s \<notin> set quarantined) ready_ids,
      sv_blocked_stories = sorted_list_of_set (ws_story_id ` set (pd_blocked_set plan) \<union> quarantined_ready),
      sv_recommended_batch = pd_recommended_batch plan, sv_max_allowed_batch = pd_max_allowed_batch plan,
      sv_critical_path = pd_critical_path plan, sv_next_wave = pd_execution_wave plan,
      sv_why_not_now = why_not_now_of plan quarantined, sv_quarantined_story_ids = quarantined,
      sv_escalated = escalated, sv_feasibility = pd_feasibility plan,
      sv_scheduling_policy = pd_scheduling_policy plan\<rparr>)"

section \<open>The selector\<close>

definition running_statuses :: "string list" where
  "running_statuses = [''in progress'', ''in_progress'', ''flight'', ''running'']"

definition no_repo :: string where "no_repo = ''(no-repo)''"
definition tiebreaker :: string where "tiebreaker = ''critical_path_desc_then_story_number_asc''"

definition global_cap :: "execution_capacity_budgets \<Rightarrow> nat" where
  "global_cap b = min (merge_risk_cap b) (min (api_rate_limit_cap b) (min (llm_pool_cap b) (ci_capacity_cap b)))"

text \<open>\<open>x or _NO_REPO\<close>: the empty name counts as none.\<close>

definition repo_name :: "string option \<Rightarrow> string" where
  "repo_name r = (case r of Some x \<Rightarrow> if x = [] then no_repo else x | None \<Rightarrow> no_repo)"

definition repo_of :: "story_ref \<Rightarrow> string" where
  "repo_of s = repo_name (sr_repo s)"

text \<open>The dictionary of the project's stories: the last story of an id wins.\<close>

definition stories_by_id :: "string \<Rightarrow> story_ref list \<Rightarrow> (string \<rightharpoonup> story_ref)" where
  "stories_by_id project_key stories = map_of (rev
     (map (\<lambda>s. (sr_story_id s, s)) (filter (\<lambda>s. sr_project_key s = project_key) stories)))"

definition running_ids_of :: "string \<Rightarrow> story_ref list \<Rightarrow> string list" where
  "running_ids_of project_key stories = (let by_id = stories_by_id project_key stories in
     sorted_list_of_set {s \<in> dom by_id. py_lower (sr_lifecycle_status (the (by_id s))) \<in> set running_statuses})"

text \<open>The counts of \<open>running_in_repo\<close>; a repository not in the dictionary reads as 0.\<close>

fun count_in_repo :: "(string \<rightharpoonup> story_ref) \<Rightarrow> string list \<Rightarrow> string \<Rightarrow> nat" where
  "count_in_repo by_id [] r = 0"
| "count_in_repo by_id (s # ss) r =
    (if repo_of (the (by_id s)) = r then Suc (count_in_repo by_id ss r) else count_in_repo by_id ss r)"

definition bucket_order :: "(string \<rightharpoonup> story_ref) \<Rightarrow> string set \<Rightarrow> string \<Rightarrow> nat \<times> nat \<times> string" where
  "bucket_order by_id critical s =
     (if s \<in> critical then 0 else 1, sr_story_number (the (by_id s)), s)"

definition repo_buckets ::
  "string list \<Rightarrow> (string \<rightharpoonup> story_ref) \<Rightarrow> string set \<Rightarrow> (string \<rightharpoonup> string list)" where
  "repo_buckets ready_ids by_id critical = (\<lambda>r.
     if r \<in> (\<lambda>s. repo_of (the (by_id s))) ` set ready_ids
     then Some (sort_key (bucket_order by_id critical) (filter (\<lambda>s. repo_of (the (by_id s)) = r) ready_ids))
     else None)"

text \<open>
  The state of the round robin: what is left of each bucket (the bucket from its cursor on), how
  many were picked in each repository, what is picked and the slots left.
\<close>

record pick_state =
  ps_rest :: "string \<Rightarrow> string list"
  ps_in_repo :: "string \<Rightarrow> nat"
  ps_picked :: "string list"
  ps_left :: nat

text \<open>The body for one repository; \<open>break\<close> at no slots is the same as \<open>continue\<close> to the end.\<close>

definition pick_from :: "nat \<Rightarrow> (string \<Rightarrow> nat) \<Rightarrow> pick_state \<Rightarrow> string \<Rightarrow> pick_state" where
  "pick_from cap running st r =
    (if ps_left st = 0 then st
     else if int cap - int (running r) - int (ps_in_repo st r) \<le> 0 then st
     else case ps_rest st r of
         [] \<Rightarrow> st
       | s # rest \<Rightarrow> st\<lparr>ps_picked := ps_picked st @ [s], ps_rest := (ps_rest st)(r := rest),
           ps_in_repo := (ps_in_repo st)(r := Suc (ps_in_repo st r)), ps_left := ps_left st - 1\<rparr>)"

definition pick_round :: "nat \<Rightarrow> (string \<Rightarrow> nat) \<Rightarrow> string list \<Rightarrow> pick_state \<Rightarrow> pick_state" where
  "pick_round cap running repos st = foldl (pick_from cap running) st repos"

lemma pick_from_left: "ps_left (pick_from cap running st r) \<le> ps_left st"
  by (simp add: pick_from_def split: list.splits)

lemma pick_round_left: "ps_left (pick_round cap running repos st) \<le> ps_left st"
  unfolding pick_round_def
  by (induction repos arbitrary: st) (auto intro: order_trans [OF _ pick_from_left])

text \<open>
  The while loop: a round has progressed when it picked a story, that is when slots are used up.
\<close>

function pick_loop :: "nat \<Rightarrow> (string \<Rightarrow> nat) \<Rightarrow> string list \<Rightarrow> pick_state \<Rightarrow> pick_state" where
  "pick_loop cap running repos st =
    (if ps_left st = 0 then st
     else let st' = pick_round cap running repos st in
       if ps_left st' = ps_left st then st' else pick_loop cap running repos st')"
  by pat_completeness auto
termination
  by (relation "measure (\<lambda>(cap, running, repos, st). ps_left st)")
    (auto simp: Let_def le_neq_implies_less [OF pick_round_left])

declare pick_loop.simps [simp del]

definition round_robin_pick ::
  "(string \<rightharpoonup> string list) \<Rightarrow> string list \<Rightarrow> nat \<Rightarrow> nat \<Rightarrow> (string \<Rightarrow> nat) \<Rightarrow> string list" where
  "round_robin_pick buckets repos slots cap running = ps_picked (pick_loop cap running repos
     \<lparr>ps_rest = (\<lambda>r. case buckets r of Some b \<Rightarrow> b | None \<Rightarrow> []), ps_in_repo = (\<lambda>_. 0), ps_picked = [],
      ps_left = slots\<rparr>)"

definition stack_card :: "story_ref \<Rightarrow> story_card" where
  "stack_card s = \<lparr>card_story_id = sr_story_id s, card_story_number = sr_story_number s, card_title = sr_title s,
     card_repo = sr_repo s\<rparr>"

definition ready_ids_of :: "(string \<rightharpoonup> story_ref) \<Rightarrow> string list \<Rightarrow> string list \<Rightarrow> string list" where
  "ready_ids_of by_id running candidates = filter (\<lambda>s. s \<in> dom by_id \<and> s \<notin> set running) candidates"

definition select_execution_input ::
  "string \<Rightarrow> story_ref list \<Rightarrow> evaluate_scheduling_result \<Rightarrow> execution_capacity_budgets \<Rightarrow> execution_input_snapshot" where
  "select_execution_input project_key stories evaluation budgets =
    (let by_id = stories_by_id project_key stories; running_ids = running_ids_of project_key stories;
         ready_ids = ready_ids_of by_id running_ids (sv_ready_candidates evaluation);
         slots = global_cap budgets - length running_ids;
         buckets = repo_buckets ready_ids by_id (set (sv_critical_path evaluation));
         picked = round_robin_pick buckets (sorted_list_of_set (dom buckets)) slots (repo_parallel_cap budgets)
           (count_in_repo by_id running_ids) in
     \<lparr>es_project_key = project_key, es_running = map (\<lambda>s. stack_card (the (by_id s))) running_ids,
      es_eligible_ready = map (\<lambda>s. stack_card (the (by_id s))) picked, es_total_ready = length ready_ids,
      es_global_slots_left = slots\<rparr>)"

definition next_from_snapshot ::
  "string \<Rightarrow> story_ref list \<Rightarrow> evaluate_scheduling_result \<Rightarrow> execution_capacity_budgets \<Rightarrow> execution_input_next" where
  "next_from_snapshot project_key stories evaluation budgets =
    (let snapshot = select_execution_input project_key stories evaluation budgets in
     case es_eligible_ready snapshot of
       [] \<Rightarrow> \<lparr>en_project_key' = project_key, en_story = None, en_reason = None\<rparr>
     | first # _ \<Rightarrow>
        let repo = repo_name (card_repo first);
            running_in_repo = length (filter (\<lambda>c. repo_name (card_repo c) = repo) (es_running snapshot)) in
        \<lparr>en_project_key' = project_key, en_story = Some first,
         en_reason = Some \<lparr>nr_repo_bucket = repo,
           nr_on_critical_path = (card_story_id first \<in> set (sv_critical_path evaluation)),
           nr_global_slots_left = es_global_slots_left snapshot,
           nr_repo_slots = [(repo, repo_parallel_cap budgets - running_in_repo - 1)],
           nr_active_tiebreaker = tiebreaker\<rparr>\<rparr>)"

end
