(* ===== verification/Scheduling_Props.thy ===== *)
theory Scheduling_Props
  imports Scheduling
begin

text \<open>
  Properties of scheduling: what is admitted, what is quarantined, and what the selector picks.
\<close>

section \<open>The round robin\<close>

text \<open>
  The invariant of the round robin over buckets \<open>bs\<close> that hold, for each repository \<open>r\<close>, stories
  of \<open>r\<close> only: what is picked of a repository and what is left of its bucket make up the bucket.
\<close>

definition pick_inv ::
  "(string \<Rightarrow> string) \<Rightarrow> (string \<Rightarrow> string list) \<Rightarrow> nat \<Rightarrow> (string \<Rightarrow> nat) \<Rightarrow> nat \<Rightarrow> pick_state \<Rightarrow> bool" where
  "pick_inv repo bs cap running slots st \<longleftrightarrow>
     (\<forall>r. bs r = filter (\<lambda>s. repo s = r) (ps_picked st) @ ps_rest st r)
   \<and> (\<forall>r. ps_in_repo st r = length (filter (\<lambda>s. repo s = r) (ps_picked st)))
   \<and> (\<forall>r. running r + ps_in_repo st r \<le> max cap (running r))
   \<and> length (ps_picked st) + ps_left st = slots"

text \<open>A repository has nothing to give: its bucket is empty or its cap is reached.\<close>

definition exhausted :: "nat \<Rightarrow> (string \<Rightarrow> nat) \<Rightarrow> pick_state \<Rightarrow> string \<Rightarrow> bool" where
  "exhausted cap running st r \<longleftrightarrow> cap \<le> running r + ps_in_repo st r \<or> ps_rest st r = []"

lemma pick_from_inv:
  assumes own: "\<forall>r. \<forall>s \<in> set (bs r). repo s = r" and inv: "pick_inv repo bs cap running slots st"
  shows "pick_inv repo bs cap running slots (pick_from cap running st r)"
proof (cases "ps_left st = 0 \<or> cap \<le> running r + ps_in_repo st r \<or> ps_rest st r = []")
  case True
  then have "pick_from cap running st r = st" by (auto simp: pick_from_def split: list.splits)
  then show ?thesis using inv by simp
next
  case False
  then obtain s rest where s: "ps_rest st r = s # rest" by (cases "ps_rest st r") auto
  have st: "pick_from cap running st r = st\<lparr>ps_picked := ps_picked st @ [s], ps_rest := (ps_rest st)(r := rest),
      ps_in_repo := (ps_in_repo st)(r := Suc (ps_in_repo st r)), ps_left := ps_left st - 1\<rparr>"
    using False s by (simp add: pick_from_def)
  have "s \<in> set (bs r)" using inv s by (auto simp: pick_inv_def)
  then have "repo s = r" using own by blast
  have bucket: "bs q = filter (\<lambda>s. repo s = q) (ps_picked st @ [s]) @ ((ps_rest st)(r := rest)) q" for q
    using inv s \<open>repo s = r\<close> by (simp add: pick_inv_def)
  have count: "((ps_in_repo st)(r := Suc (ps_in_repo st r))) q = length (filter (\<lambda>s. repo s = q) (ps_picked st @ [s]))" for q
    using inv \<open>repo s = r\<close> by (simp add: pick_inv_def)
  have bound: "running q + ((ps_in_repo st)(r := Suc (ps_in_repo st r))) q \<le> max cap (running q)" for q
    using inv False by (cases "q = r") (auto simp: pick_inv_def)
  show ?thesis using bucket count bound inv False unfolding st pick_inv_def by simp
qed

lemma pick_from_same:
  assumes "ps_left (pick_from cap running st r) = ps_left st"
  shows "pick_from cap running st r = st \<and> (ps_left st = 0 \<or> exhausted cap running st r)"
  using assms by (auto simp: pick_from_def exhausted_def split: if_splits list.splits)

lemma pick_round_inv:
  assumes own: "\<forall>r. \<forall>s \<in> set (bs r). repo s = r"
  shows "pick_inv repo bs cap running slots st \<Longrightarrow> pick_inv repo bs cap running slots (pick_round cap running repos st)"
  unfolding pick_round_def by (induction repos arbitrary: st) (simp_all add: pick_from_inv [OF own])

lemma pick_round_Cons: "pick_round cap running (r # rs) st = pick_round cap running rs (pick_from cap running st r)"
  by (simp add: pick_round_def)

lemma pick_round_same:
  "ps_left (pick_round cap running repos st) = ps_left st \<Longrightarrow>
    pick_round cap running repos st = st \<and> (ps_left st = 0 \<or> (\<forall>r \<in> set repos. exhausted cap running st r))"
proof (induction repos arbitrary: st)
  case Nil
  then show ?case by (simp add: pick_round_def)
next
  case (Cons r rs)
  let ?st = "pick_from cap running st r"
  have left: "ps_left (pick_round cap running rs ?st) = ps_left st" using Cons.prems by (simp add: pick_round_Cons)
  then have "ps_left ?st = ps_left st"
    using pick_from_left [of cap running st r] pick_round_left [of cap running rs ?st] by linarith
  then have st: "?st = st" "ps_left st = 0 \<or> exhausted cap running st r" using pick_from_same by blast+
  have "pick_round cap running rs st = st" "ps_left st = 0 \<or> (\<forall>r \<in> set rs. exhausted cap running st r)"
    using Cons.IH [of st] left unfolding st(1) by blast+
  then show ?case using st by (auto simp: pick_round_Cons)
qed

lemma pick_loop_inv:
  assumes own: "\<forall>r. \<forall>s \<in> set (bs r). repo s = r"
  shows "pick_inv repo bs cap running slots st \<Longrightarrow> pick_inv repo bs cap running slots (pick_loop cap running repos st)"
proof (induction cap running repos st rule: pick_loop.induct)
  case (1 cap running repos st)
  show ?case
    using 1 pick_round_inv [OF own, of cap running slots st repos]
    by (subst pick_loop.simps) (auto simp: Let_def)
qed

lemma pick_loop_exhausted:
  "ps_left (pick_loop cap running repos st) = 0
    \<or> (\<forall>r \<in> set repos. exhausted cap running (pick_loop cap running repos st) r)"
proof (induction cap running repos st rule: pick_loop.induct)
  case (1 cap running repos st)
  show ?case
  proof (cases "ps_left st = 0")
    case True
    then show ?thesis by (subst pick_loop.simps) simp
  next
    case False
    let ?st = "pick_round cap running repos st"
    show ?thesis
    proof (cases "ps_left ?st = ps_left st")
      case True
      then have "pick_loop cap running repos st = st"
        using False pick_round_same [OF True] by (subst pick_loop.simps) (simp add: Let_def)
      moreover have "\<forall>r \<in> set repos. exhausted cap running st r" using False conjunct2 [OF pick_round_same [OF True]] by simp
      ultimately show ?thesis by simp
    next
      case neq: False
      then have "pick_loop cap running repos st = pick_loop cap running repos ?st"
        using False by (subst pick_loop.simps) (simp add: Let_def)
      then show ?thesis using "1.IH" [OF False refl neq] by simp
    qed
  qed
qed

lemma distinct_by_class:
  "(\<And>r. distinct (filter (\<lambda>s. f s = r) xs)) \<Longrightarrow> distinct xs"
proof (induction xs)
  case (Cons x xs)
  have "distinct (filter (\<lambda>s. f s = r) xs)" for r using Cons.prems [of r] by (auto split: if_splits)
  moreover have "x \<notin> set xs" using Cons.prems [of "f x"] by auto
  ultimately show ?case using Cons.IH by simp
qed simp

text \<open>What the round robin picks, for buckets of the stories of their own repository.\<close>

lemma round_robin_pick_spec:
  fixes running :: "string \<Rightarrow> nat" and cap slots :: nat
  assumes own: "\<forall>r b. buckets r = Some b \<longrightarrow> (\<forall>s \<in> set b. repo s = r)"
    and all: "dom buckets \<subseteq> set repos"
  defines "picked \<equiv> round_robin_pick buckets repos slots cap running"
  shows "length picked \<le> slots"
    and "\<And>r. running r + length (filter (\<lambda>s. repo s = r) picked) \<le> max cap (running r)"
    and "\<And>r b. buckets r = Some b \<Longrightarrow> prefix (filter (\<lambda>s. repo s = r) picked) b"
    and "\<And>s. s \<in> set picked \<Longrightarrow> \<exists>b. buckets (repo s) = Some b \<and> s \<in> set b"
    and "\<And>r b s. length picked < slots \<Longrightarrow> buckets r = Some b \<Longrightarrow> s \<in> set b \<Longrightarrow> s \<notin> set picked
      \<Longrightarrow> cap \<le> running r + length (filter (\<lambda>s. repo s = r) picked)"
proof -
  let ?bs = "\<lambda>r. case buckets r of Some b \<Rightarrow> b | None \<Rightarrow> []"
  let ?st0 = "\<lparr>ps_rest = ?bs, ps_in_repo = (\<lambda>_. 0), ps_picked = [], ps_left = slots\<rparr>"
  define st where "st = pick_loop cap running repos ?st0"
  have own': "\<forall>r. \<forall>s \<in> set (?bs r). repo s = r" 
  proof (intro allI ballI)
    show "repo s = r" if "s \<in> set (?bs r)" for r s using own that by (cases "buckets r") auto
  qed
  have "pick_inv repo ?bs cap running slots ?st0" by (simp add: pick_inv_def)
  then have inv: "pick_inv repo ?bs cap running slots st" unfolding st_def by (rule pick_loop_inv [OF own'])
  have picked: "picked = ps_picked st" by (simp add: picked_def round_robin_pick_def st_def)
  show "length picked \<le> slots" using inv by (simp add: picked pick_inv_def)
  show "running r + length (filter (\<lambda>s. repo s = r) picked) \<le> max cap (running r)" for r
    using inv unfolding picked pick_inv_def by metis
  show "prefix (filter (\<lambda>s. repo s = r) picked) b" if "buckets r = Some b" for r b
  proof -
    have "?bs r = filter (\<lambda>s. repo s = r) picked @ ps_rest st r" using inv by (simp add: picked pick_inv_def)
    then show ?thesis using that by simp
  qed
  show "\<exists>b. buckets (repo s) = Some b \<and> s \<in> set b" if "s \<in> set picked" for s
  proof -
    have "?bs (repo s) = filter (\<lambda>x. repo x = repo s) picked @ ps_rest st (repo s)"
      using inv by (simp add: picked pick_inv_def)
    moreover have "s \<in> set (filter (\<lambda>x. repo x = repo s) picked)" using that by simp
    ultimately have "s \<in> set (?bs (repo s))" by (metis UnI1 set_append)
    then show ?thesis by (cases "buckets (repo s)") simp_all
  qed
  show "cap \<le> running r + length (filter (\<lambda>s. repo s = r) picked)"
    if h: "length picked < slots" "buckets r = Some b" "s \<in> set b" "s \<notin> set picked" for r b s
  proof -
    have "ps_left st \<noteq> 0" using inv h(1) by (auto simp: picked pick_inv_def)
    moreover have "ps_left st = 0 \<or> (\<forall>r \<in> set repos. exhausted cap running st r)"
      unfolding st_def by (rule pick_loop_exhausted)
    moreover have "r \<in> set repos" using all h(2) by blast
    ultimately have "exhausted cap running st r" by simp
    moreover have "ps_rest st r \<noteq> []"
    proof
      assume "ps_rest st r = []"
      moreover have "?bs r = filter (\<lambda>s. repo s = r) picked @ ps_rest st r"
        using inv unfolding picked pick_inv_def by blast
      ultimately have "b = filter (\<lambda>s. repo s = r) picked" using h(2) by simp
      then show False using h(3,4) by auto
    qed
    ultimately show ?thesis using inv by (simp add: exhausted_def picked pick_inv_def)
  qed
qed

section \<open>The selector\<close>

lemma stories_by_id_id: "stories_by_id p ss s = Some x \<Longrightarrow> sr_story_id x = s"
  unfolding stories_by_id_def by (drule map_of_SomeD) auto

lemma count_in_repo_eq: "count_in_repo by_id ss r = length (filter (\<lambda>s. repo_of (the (by_id s)) = r) ss)"
  by (induction ss) simp_all

lemma dom_repo_buckets: "dom (repo_buckets ready by_id critical) = (\<lambda>s. repo_of (the (by_id s))) ` set ready"
  by (auto simp: repo_buckets_def split: if_splits)

lemma prefix_of_sorted:
  assumes "prefix xs (sort_key f ys)" and "x \<in> set xs" and "y \<in> set ys" and "y \<notin> set xs"
  shows "f x \<le> f y"
proof -
  obtain zs where zs: "sort_key f ys = xs @ zs" using assms(1) by (auto elim: prefixE)
  have "y \<in> set (xs @ zs)" using assms(3) unfolding zs [symmetric] by simp
  then have "y \<in> set zs" using assms(4) by simp
  moreover have "sorted (map f (xs @ zs))" unfolding zs [symmetric] by simp
  ultimately show ?thesis using assms(2) by (auto simp: sorted_append)
qed

text \<open>The stories of a snapshot, and the quantities the selector goes by.\<close>

definition picked_ids :: "execution_input_snapshot \<Rightarrow> string list" where
  "picked_ids snapshot = map card_story_id (es_eligible_ready snapshot)"

definition in_repo :: "(string \<rightharpoonup> story_ref) \<Rightarrow> string \<Rightarrow> string list \<Rightarrow> nat" where
  "in_repo by_id r ss = length (filter (\<lambda>s. repo_of (the (by_id s)) = r) ss)"

lemma selector_spec:
  fixes p ss ev b
  defines "by_id \<equiv> stories_by_id p ss"
  defines "running \<equiv> running_ids_of p ss"
  defines "ready \<equiv> ready_ids_of by_id running (sv_ready_candidates ev)"
  defines "snap \<equiv> select_execution_input p ss ev b"
  defines "picked \<equiv> picked_ids snap"
  shows "length picked \<le> es_global_slots_left snap"
    and "in_repo by_id r running + in_repo by_id r picked \<le> max (repo_parallel_cap b) (in_repo by_id r running)"
    and "set picked \<subseteq> set ready"
    and "distinct (sv_ready_candidates ev) \<Longrightarrow> distinct picked"
    and "length picked < es_global_slots_left snap \<Longrightarrow> s \<in> set ready - set picked \<Longrightarrow>
      repo_parallel_cap b \<le> in_repo by_id (repo_of (the (by_id s))) running + in_repo by_id (repo_of (the (by_id s))) picked"
    and "s \<in> set picked \<Longrightarrow> s' \<in> set ready - set picked \<Longrightarrow> repo_of (the (by_id s)) = repo_of (the (by_id s'))
      \<Longrightarrow> bucket_order by_id (set (sv_critical_path ev)) s \<le> bucket_order by_id (set (sv_critical_path ev)) s'"
    and "sorted (map (bucket_order by_id (set (sv_critical_path ev))) (filter (\<lambda>s. repo_of (the (by_id s)) = r) picked))"
    and "c \<in> set (es_eligible_ready snap) \<Longrightarrow> \<exists>x. by_id (card_story_id c) = Some x \<and> c = stack_card x"
proof -
  let ?repo = "\<lambda>s. repo_of (the (by_id s))"
  let ?bs = "repo_buckets ready by_id (set (sv_critical_path ev))"
  let ?rp = "round_robin_pick ?bs (sorted_list_of_set (dom ?bs)) (es_global_slots_left snap)
    (repo_parallel_cap b) (count_in_repo by_id running)"
  have own: "\<forall>r b. ?bs r = Some b \<longrightarrow> (\<forall>s \<in> set b. ?repo s = r)"
    by (auto simp: repo_buckets_def split: if_splits)
  have all: "dom ?bs \<subseteq> set (sorted_list_of_set (dom ?bs))" by (simp add: dom_repo_buckets)
  note spec = round_robin_pick_spec [where buckets = ?bs and repo = ?repo and slots = "es_global_slots_left snap"
      and cap = "repo_parallel_cap b" and running = "count_in_repo by_id running", OF own all]
  have bucket: "?bs (?repo s) = Some (sort_key (bucket_order by_id (set (sv_critical_path ev)))
      (filter (\<lambda>x. ?repo x = ?repo s) ready))" if "s \<in> set ready" for s
    using that by (simp add: repo_buckets_def)
  have sub: "set ?rp \<subseteq> set ready"
  proof
    fix s assume "s \<in> set ?rp"
    then obtain bk where "?bs (?repo s) = Some bk" "s \<in> set bk" using spec(4) by blast
    then show "s \<in> set ready" by (auto simp: repo_buckets_def split: if_splits)
  qed
  have eligible: "es_eligible_ready snap = map (\<lambda>s. stack_card (the (by_id s))) ?rp"
    by (simp add: snap_def select_execution_input_def Let_def by_id_def running_def ready_def)
  have card: "\<exists>x. by_id s = Some x \<and> card_story_id (stack_card x) = s" if "s \<in> set ?rp" for s
  proof -
    have "s \<in> dom by_id" using sub that by (auto simp: ready_def ready_ids_of_def)
    then show ?thesis using stories_by_id_id by (auto simp: by_id_def stack_card_def)
  qed
  show "\<exists>x. by_id (card_story_id c) = Some x \<and> c = stack_card x" if "c \<in> set (es_eligible_ready snap)"
  proof -
    obtain s where "s \<in> set ?rp" "c = stack_card (the (by_id s))" using \<open>c \<in> _\<close> unfolding eligible by auto
    then show ?thesis using card [of s] by force
  qed
  from card have "card_story_id (stack_card (the (by_id s))) = s" if "s \<in> set ?rp" for s
    using that by force
  then have "map (card_story_id \<circ> (\<lambda>s. stack_card (the (by_id s)))) ?rp = map (\<lambda>s. s) ?rp"
    by (intro map_cong refl) simp
  then have picked: "picked = ?rp" by (simp add: picked_def picked_ids_def eligible)
  show "length picked \<le> es_global_slots_left snap" unfolding picked by (rule spec(1))
  show "in_repo by_id r running + in_repo by_id r picked \<le> max (repo_parallel_cap b) (in_repo by_id r running)"
    using spec(2) [of r] unfolding picked in_repo_def count_in_repo_eq .
  show "set picked \<subseteq> set ready" using sub unfolding picked .
  show "distinct picked" if "distinct (sv_ready_candidates ev)"
    unfolding picked
  proof (rule distinct_by_class [of ?repo])
    fix r
    show "distinct (filter (\<lambda>s. ?repo s = r) ?rp)"
    proof (cases "?bs r")
      case None
      have "filter (\<lambda>s. ?repo s = r) ?rp = []"
        using spec(4) None by (fastforce simp: filter_empty_conv)
      then show ?thesis by simp
    next
      case (Some bk)
      have "distinct bk" using Some that by (auto simp: repo_buckets_def ready_def ready_ids_of_def split: if_splits)
      then show ?thesis using spec(3) [OF Some] by (auto elim!: prefixE)
    qed
  qed
  show "repo_parallel_cap b \<le> in_repo by_id (?repo s) running + in_repo by_id (?repo s) picked"
    if h: "length picked < es_global_slots_left snap" "s \<in> set ready - set picked"
  proof -
    have "s \<in> set ready" using h(2) by blast
    then show ?thesis
      using spec(5) [OF h(1) [unfolded picked] bucket [of s], of s] h(2) unfolding picked in_repo_def count_in_repo_eq by simp
  qed
  show "bucket_order by_id (set (sv_critical_path ev)) s \<le> bucket_order by_id (set (sv_critical_path ev)) s'"
    if h: "s \<in> set picked" "s' \<in> set ready - set picked" "?repo s = ?repo s'"
  proof -
    have s': "s' \<in> set ready" using h(2) by blast
    show ?thesis
      by (rule prefix_of_sorted [OF spec(3) [OF bucket [OF s']]]) (use h s' picked in auto)
  qed
  show "sorted (map (bucket_order by_id (set (sv_critical_path ev))) (filter (\<lambda>s. ?repo s = r) picked))"
  proof (cases "?bs r")
    case None
    then have "filter (\<lambda>s. ?repo s = r) ?rp = []" using spec(4) by (fastforce simp: filter_empty_conv)
    then show ?thesis by (simp add: picked)
  next
    case (Some bk)
    then obtain zs where "bk = filter (\<lambda>s. ?repo s = r) picked @ zs" using spec(3) [OF Some] picked by (auto elim: prefixE)
    moreover have "sorted (map (bucket_order by_id (set (sv_critical_path ev))) bk)"
      using Some by (auto simp: repo_buckets_def split: if_splits)
    ultimately show ?thesis by (simp add: sorted_append)
  qed
qed

section \<open>The properties of scheduling\<close>

lemma quarantine_spec:
  "(snd (quarantine_cyclic_subgraph es) \<longleftrightarrow> \<not> acyclic (dep_rel es))
   \<and> set (fst (quarantine_cyclic_subgraph es)) \<subseteq> {s. \<exists>m. (m, m) \<in> (dep_rel es)\<^sup>+ \<and> (m, s) \<in> (dep_rel es)\<^sup>*}
   \<and> (fst (quarantine_cyclic_subgraph es) = [] \<longleftrightarrow> acyclic (dep_rel es))"
proof (cases "has_cycle es")
  case (Pair c path)
  show ?thesis
  proof (cases c)
    case False
    then have "acyclic (dep_rel es)" using has_cycle_acyclic [of es] Pair by simp
    then show ?thesis using Pair False by (simp add: quarantine_cyclic_subgraph_def)
  next
    case True
    then have cyc: "\<not> acyclic (dep_rel es)" "real_cycle es path" using has_cycle_correct [of es] Pair by auto
    then obtain n zs where p: "path = n # zs @ [n]" "successively (\<lambda>a b. (a, b) \<in> dep_rel es) path"
      by (auto simp: real_cycle_def)
    let ?Q = "set path \<union> (\<Union>m \<in> set path. transitive_successors es m)"
    have fin: "finite ((dep_rel es)\<^sup>+)" using finite_dep_rel [of es] by (simp add: finite_trancl)
    have "finite {m. (k, m) \<in> (dep_rel es)\<^sup>+}" for k
      by (rule finite_subset [OF _ finite_imageI [OF fin, of snd]]) force
    then have Q: "set (fst (quarantine_cyclic_subgraph es)) = ?Q"
      using Pair True by (simp add: quarantine_cyclic_subgraph_def)
    have cyclic: "(n, n) \<in> (dep_rel es)\<^sup>+" using successively_trancl [OF p(2) [unfolded p(1)]] .
    have reach: "(n, m) \<in> (dep_rel es)\<^sup>*" if "m \<in> set path" for m
      using successively_rtrancl [OF p(2) [unfolded p(1)]] that p(1) by blast
    have "?Q \<subseteq> {s. (n, s) \<in> (dep_rel es)\<^sup>*}"
      using reach by (auto intro: rtrancl_trans trancl_into_rtrancl)
    then have "set (fst (quarantine_cyclic_subgraph es)) \<subseteq> {s. \<exists>m. (m, m) \<in> (dep_rel es)\<^sup>+ \<and> (m, s) \<in> (dep_rel es)\<^sup>*}"
      unfolding Q using cyclic by blast
    moreover have "fst (quarantine_cyclic_subgraph es) \<noteq> []" using Q p(1) by auto
    ultimately show ?thesis using Pair True cyc(1) by (simp add: quarantine_cyclic_subgraph_def)
  qed
qed

lemma evaluate_scheduling_sets:
  fixes i completed
  defines "i' \<equiv> scheduling_plan_input i completed"
  defines "q \<equiv> set (fst (quarantine_cyclic_subgraph (pi_edges i)))"
  defines "r \<equiv> evaluate_scheduling i completed"
  shows "set (sv_ready_candidates r) = sr_story_id ` {x \<in> set (active_stories i'). startable i' x} - q"
    and "set (sv_blocked_stories r) = sr_story_id ` {x \<in> set (active_stories i'). \<not> startable i' x}
      \<union> sr_story_id ` {x \<in> set (active_stories i'). startable i' x} \<inter> q"
    and "set (sv_quarantined_story_ids r) = q" and "sv_escalated r = snd (quarantine_cyclic_subgraph (pi_edges i))"
proof -
  let ?A = "sr_story_id ` {x \<in> set (active_stories i'). startable i' x}"
  let ?B = "sr_story_id ` {x \<in> set (active_stories i'). \<not> startable i' x}"
  have ready: "set (map ws_story_id (pd_ready_set (derive_plan i'))) = ?A"
    unfolding derive_plan_sets plan_sets_eq by auto
  have blocked: "ws_story_id ` set (pd_blocked_set (derive_plan i')) = ?B"
    unfolding derive_plan_sets set_map [symmetric] plan_sets_eq by auto
  obtain l e where qe: "quarantine_cyclic_subgraph (pi_edges i) = (l, e)" by (cases "quarantine_cyclic_subgraph (pi_edges i)")
  have r: "sv_ready_candidates r = filter (\<lambda>s. s \<notin> set l) (map ws_story_id (pd_ready_set (derive_plan i')))"
    "sv_blocked_stories r = sorted_list_of_set (ws_story_id ` set (pd_blocked_set (derive_plan i'))
      \<union> {s \<in> set (map ws_story_id (pd_ready_set (derive_plan i'))). s \<in> set l})"
    "sv_quarantined_story_ids r = l" "sv_escalated r = e"
    unfolding r_def i'_def by (simp_all only: evaluate_scheduling_def Let_def qe prod.case evaluate_scheduling_result.simps)
  have q: "q = set l" by (simp add: q_def qe)
  show "set (sv_ready_candidates r) = ?A - q" unfolding r(1) q set_filter ready by blast
  show "set (sv_blocked_stories r) = ?B \<union> ?A \<inter> q"
    unfolding r(2) q ready blocked by (subst set_sorted_list_of_set) auto
  show "set (sv_quarantined_story_ids r) = q" "sv_escalated r = snd (quarantine_cyclic_subgraph (pi_edges i))"
    by (simp_all add: r q qe)
qed

lemma startable_id: "sr_story_id x = sr_story_id y \<Longrightarrow> startable i x = startable i y"
  by (simp add: startable_def)

text \<open>
  C15. The stories admitted are exactly the startable active stories that are not quarantined, and
  every other active story is reported blocked. Quarantined are only stories on a cycle or
  downstream of one; there are some, and the result is escalated, exactly when the dependency
  graph has a cycle.
\<close>
theorem admission_decision:
  "let i' = scheduling_plan_input i completed; r = evaluate_scheduling i completed in
     {s. is_ready r s} = sr_story_id ` {x \<in> set (active_stories i'). startable i' x} - set (sv_quarantined_story_ids r)
   \<and> set (sv_ready_candidates r) \<union> set (sv_blocked_stories r) = sr_story_id ` set (active_stories i')
   \<and> set (sv_ready_candidates r) \<inter> set (sv_blocked_stories r) = {}
   \<and> set (sv_quarantined_story_ids r)
       \<subseteq> {s. \<exists>m. (m, m) \<in> (dep_rel (pi_edges i))\<^sup>+ \<and> (m, s) \<in> (dep_rel (pi_edges i))\<^sup>*}
   \<and> (sv_escalated r \<longleftrightarrow> \<not> acyclic (dep_rel (pi_edges i)))
   \<and> (sv_quarantined_story_ids r = [] \<longleftrightarrow> acyclic (dep_rel (pi_edges i)))"
proof -
  define i' where "i' = scheduling_plan_input i completed"
  define r where "r = evaluate_scheduling i completed"
  let ?A = "sr_story_id ` {x \<in> set (active_stories i'). startable i' x}"
  let ?B = "sr_story_id ` {x \<in> set (active_stories i'). \<not> startable i' x}"
  note sets = evaluate_scheduling_sets [of i completed, folded i'_def r_def]
  have AB: "?A \<inter> ?B = {}" "?A \<union> ?B = sr_story_id ` set (active_stories i')"
  proof -
    show "?A \<inter> ?B = {}"
    proof (rule equals0I)
      fix s assume "s \<in> ?A \<inter> ?B"
      then obtain x y where "sr_story_id x = s" "startable i' x" "sr_story_id y = s" "\<not> startable i' y"
        by (elim IntE imageE CollectE conjE) simp
      then show False using startable_id [of x y i'] by simp
    qed
    show "?A \<union> ?B = sr_story_id ` set (active_stories i')" by blast
  qed
  have "{s. is_ready r s} = ?A - set (sv_quarantined_story_ids r)"
    unfolding is_ready_def Collect_mem_eq sets(1) sets(3) ..
  moreover have "set (sv_ready_candidates r) \<union> set (sv_blocked_stories r) = sr_story_id ` set (active_stories i')"
    unfolding sets(1,2) AB(2) [symmetric] by blast
  moreover have "set (sv_ready_candidates r) \<inter> set (sv_blocked_stories r) = {}"
    unfolding sets(1,2) using AB(1) by blast
  moreover have "sv_quarantined_story_ids r = [] \<longleftrightarrow> fst (quarantine_cyclic_subgraph (pi_edges i)) = []"
    using sets(3) by (metis set_empty)
  moreover note quarantine_spec [of "pi_edges i"]
  ultimately show ?thesis
    unfolding Let_def i'_def [symmetric] r_def [symmetric] sets(3,4) by (intro conjI) (elim conjE, assumption | simp only:)+
qed

text \<open>Of a snapshot: is there a free slot for a story, of the repository and over all?\<close>

lemma in_repo_pos: "s \<in> set xs \<Longrightarrow> 1 \<le> in_repo by_id (repo_of (the (by_id s))) xs"
  by (induction xs) (auto simp: in_repo_def)

text \<open>
  The selector, given candidates without duplicates, picks distinct ready stories, no more
  than there are global slots, and in no repository more than its cap leaves beside the running
  ones. It wastes no slot: while global slots are left, a ready story is passed over only if its
  repository is full. And within a repository, a story picked never comes after one passed over,
  in the order of critical path, number and id.
\<close>
theorem selector_fills_the_slots:
  assumes "distinct (sv_ready_candidates ev)"
  shows "let by_id = stories_by_id p ss; running = running_ids_of p ss;
      ready = ready_ids_of by_id running (sv_ready_candidates ev); repo = (\<lambda>s. repo_of (the (by_id s)));
      snap = select_execution_input p ss ev b; picked = picked_ids snap;
      order = bucket_order by_id (set (sv_critical_path ev)) in
    distinct picked \<and> set picked \<subseteq> set ready \<and> length picked \<le> es_global_slots_left snap
    \<and> (\<forall>r. in_repo by_id r running + in_repo by_id r picked \<le> max (repo_parallel_cap b) (in_repo by_id r running))
    \<and> (\<forall>s \<in> set ready - set picked. length picked < es_global_slots_left snap \<longrightarrow>
        repo_parallel_cap b \<le> in_repo by_id (repo s) running + in_repo by_id (repo s) picked)
    \<and> (\<forall>s \<in> set picked. \<forall>s' \<in> set ready - set picked. repo s = repo s' \<longrightarrow> order s \<le> order s')"
  unfolding Let_def
  using selector_spec(1-6) [where p = p and ss = ss and ev = ev and b = b] assms by (intro conjI allI ballI impI) simp_all

definition demo_result :: evaluate_scheduling_result where
  "demo_result = \<lparr>sv_project_key = ''P'', sv_ready_candidates = [''P-1'', ''P-2''], sv_blocked_stories = [],
     sv_recommended_batch = 1, sv_max_allowed_batch = 1, sv_critical_path = [''P-2''],
     sv_next_wave = \<lparr>ew_project_key = ''P'', ew_wave_id = ''w'', ew_lifecycle = Wave_PLANNED, ew_stories = []\<rparr>,
     sv_why_not_now = [], sv_quarantined_story_ids = [], sv_escalated = False,
     sv_feasibility = \<lparr>ef_project_key = ''P'', ef_can_parallelize = True, ef_feasible_story_ids = [''P-1'', ''P-2''],
       ef_blocked_conditions = []\<rparr>,
     sv_scheduling_policy = \<lparr>sp_project_key' = ''P'', sp_may_parallelize_now = False,
       sp_budgets = \<lparr>repo_parallel_cap = 1, merge_risk_cap = 2, api_rate_limit_cap = 2, llm_pool_cap = 2,
         ci_capacity_cap = 2\<rparr>, sp_hint = None\<rparr>\<rparr>"

definition demo_story :: "string \<Rightarrow> nat \<Rightarrow> story_ref" where
  "demo_story s n = \<lparr>sr_project_key = ''P'', sr_story_id = s, sr_story_number = n, sr_title = s,
     sr_lifecycle_status = ''Approved'', sr_repo = None\<rparr>"

theorem selector_fills_the_slots_witness:
  "let stories = [demo_story ''P-1'' 1, demo_story ''P-2'' 2];
     picked = picked_ids (select_execution_input ''P'' stories demo_result (sp_budgets (sv_scheduling_policy demo_result))) in
   distinct picked \<and> set picked \<subseteq> {''P-1'', ''P-2''}"
proof -
  have "distinct (sv_ready_candidates demo_result)" by (simp add: demo_result_def)
  note w = selector_fills_the_slots [OF this, where p = "''P''" and ss = "[demo_story ''P-1'' 1, demo_story ''P-2'' 2]"
      and b = "sp_budgets (sv_scheduling_policy demo_result)", unfolded Let_def]
  have "set (ready_ids_of f rs (sv_ready_candidates demo_result)) \<subseteq> {''P-1'', ''P-2''}" for f rs
    by (simp add: ready_ids_of_def demo_result_def)
  then show ?thesis unfolding Let_def using conjunct1 [OF w] conjunct1 [OF conjunct2 [OF w]] by blast
qed

text \<open>The first card of a snapshot, and when there is none.\<close>

lemma eligible_none:
  fixes p ss ev b
  defines "by_id \<equiv> stories_by_id p ss" and "running \<equiv> running_ids_of p ss"
  defines "snap \<equiv> select_execution_input p ss ev b"
  assumes "es_eligible_ready snap = []"
  shows "es_global_slots_left snap = 0
    \<or> filter (\<lambda>s. in_repo by_id (repo_of (the (by_id s))) running < repo_parallel_cap b)
        (ready_ids_of by_id running (sv_ready_candidates ev)) = []"
proof -
  note spec = selector_spec [where p = p and ss = ss and ev = ev and b = b, folded by_id_def running_def snap_def]
  have none: "picked_ids snap = []" using assms(4) by (simp add: picked_ids_def)
  have "\<not> in_repo by_id (repo_of (the (by_id s))) running < repo_parallel_cap b"
    if "es_global_slots_left snap \<noteq> 0" "s \<in> set (ready_ids_of by_id running (sv_ready_candidates ev))" for s
    using spec(5) [of s] that unfolding none by (simp add: in_repo_def)
  then show ?thesis by (auto simp: filter_empty_conv)
qed

lemma eligible_first:
  fixes p ss ev b
  defines "by_id \<equiv> stories_by_id p ss" and "running \<equiv> running_ids_of p ss"
  defines "snap \<equiv> select_execution_input p ss ev b"
  defines "ready \<equiv> ready_ids_of by_id running (sv_ready_candidates ev)"
    and "order \<equiv> bucket_order by_id (set (sv_critical_path ev))"
  assumes first: "es_eligible_ready snap = c # cs"
  shows "0 < es_global_slots_left snap" and "card_story_id c \<in> set ready"
    and "repo_name (card_repo c) = repo_of (the (by_id (card_story_id c)))"
    and "in_repo by_id (repo_of (the (by_id (card_story_id c)))) running < repo_parallel_cap b"
    and "\<And>s. s \<in> set ready \<Longrightarrow> repo_of (the (by_id s)) = repo_of (the (by_id (card_story_id c))) \<Longrightarrow>
      order (card_story_id c) \<le> order s"
proof -
  let ?s = "card_story_id c" and ?repo = "\<lambda>s. repo_of (the (by_id s))"
  note spec = selector_spec [where p = p and ss = ss and ev = ev and b = b,
      folded by_id_def running_def snap_def, folded ready_def order_def]
  have picked: "picked_ids snap = ?s # map card_story_id cs" using first by (simp add: picked_ids_def)
  show "?s \<in> set ready" using spec(3) unfolding picked by simp
  show "0 < es_global_slots_left snap" using spec(1) unfolding picked by simp
  have "1 \<le> in_repo by_id (?repo ?s) (picked_ids snap)"
    unfolding picked by (rule in_repo_pos) simp
  then show "in_repo by_id (?repo ?s) running < repo_parallel_cap b"
    using spec(2) [of "?repo ?s"] by simp
  show "order ?s \<le> order s" if "s \<in> set ready" "?repo s = ?repo ?s" for s
  proof (cases "s \<in> set (picked_ids snap)")
    case True
    then have "s \<in> set (filter (\<lambda>x. ?repo x = ?repo ?s) (picked_ids snap))" using that(2) by simp
    then show ?thesis using spec(7) [of "?repo ?s"] unfolding picked by auto
  next
    case False
    then show ?thesis using spec(6) [of ?s s] that unfolding picked by simp
  qed
  obtain x where "by_id ?s = Some x" "c = stack_card x" using spec(8) [of c] first by auto
  then show "repo_name (card_repo c) = ?repo ?s" by (simp add: stack_card_def repo_of_def)
qed

text \<open>
  The next story is chosen exactly when a global slot is left and some ready story's
  repository is below its cap. It is a ready story, the first of its repository in the order of
  critical path, number and id; and the slots reported as left in its repository are the cap less
  the running stories and this one, never less than zero.
\<close>
theorem next_story_is_found:
  "let by_id = stories_by_id p ss; running = running_ids_of p ss;
     ready = ready_ids_of by_id running (sv_ready_candidates ev); repo = (\<lambda>s. repo_of (the (by_id s)));
     free = (\<lambda>s. in_repo by_id (repo s) running < repo_parallel_cap b);
     order = bucket_order by_id (set (sv_critical_path ev));
     slots = es_global_slots_left (select_execution_input p ss ev b) in
   case en_story (next_from_snapshot p ss ev b) of
     None \<Rightarrow> slots = 0 \<or> filter free ready = []
   | Some c \<Rightarrow> 0 < slots \<and> card_story_id c \<in> set (filter free ready)
       \<and> set (filter (\<lambda>s. repo s = repo (card_story_id c)) ready) \<subseteq> {s. order (card_story_id c) \<le> order s}
       \<and> map_option (\<lambda>r. map (\<lambda>(q, n). (q, int n)) (nr_repo_slots r)) (en_reason (next_from_snapshot p ss ev b))
          = Some [(repo (card_story_id c),
              int (repo_parallel_cap b) - int (in_repo by_id (repo (card_story_id c)) running) - 1)]"
proof (cases "es_eligible_ready (select_execution_input p ss ev b)")
  case Nil
  moreover have "en_story (next_from_snapshot p ss ev b) = None"
    using Nil by (simp add: next_from_snapshot_def Let_def)
  ultimately show ?thesis unfolding Let_def using eligible_none by simp
next
  case (Cons c cs)
  let ?by_id = "stories_by_id p ss" and ?snap = "select_execution_input p ss ev b"
  let ?repo = "repo_of (the (?by_id (card_story_id c)))"
  note first = eligible_first [OF Cons]
  have "es_running ?snap = map (\<lambda>s. stack_card (the (?by_id s))) (running_ids_of p ss)"
    by (simp add: select_execution_input_def Let_def)
  then have count: "length (filter (\<lambda>k. repo_name (card_repo k) = r) (es_running ?snap))
      = in_repo ?by_id r (running_ids_of p ss)" for r
    by (simp add: in_repo_def filter_map o_def stack_card_def repo_of_def)
  have "en_story (next_from_snapshot p ss ev b) = Some c"
    "map_option nr_repo_slots (en_reason (next_from_snapshot p ss ev b))
      = Some [(?repo, repo_parallel_cap b - in_repo ?by_id ?repo (running_ids_of p ss) - 1)]"
    using Cons by (simp_all add: next_from_snapshot_def Let_def first(3) count)
  then show ?thesis
    unfolding Let_def using first by auto
qed

end
