(* ===== verification/Runner.thy ===== *)
theory Runner
  imports Engine_Gates
begin

text \<open>
  The pipeline runner (\<open>pipeline_engine/runner.py\<close>): the loop that drives the engine from phase
  to phase, and the envelope store it starts from (\<open>phase_envelope/store.py\<close>). It is run in a
  loop of at most 20 iterations; for the shipped workflows the limit is never met.
\<close>

section \<open>The envelope store\<close>

text \<open>The repository ignores story id and phase: a story directory holds one phase state.\<close>

definition load_state :: "string \<Rightarrow> ('w, phase_state option) action" where
  "load_state d = load_phase_state d"

definition exists_state :: "string \<Rightarrow> ('w, bool) action" where
  "exists_state d = bind_io (load_phase_state d) (\<lambda>s. ret (s \<noteq> None))"

definition load_envelope :: "string \<Rightarrow> ('w, phase_envelope option) action" where
  "load_envelope d = bind_io (load_state d)
     (\<lambda>s. ret (map_option (\<lambda>q. \<lparr>pe_state = q, pe_origin = Origin_LOADED\<rparr>) s))"

definition save_envelope :: "phase_envelope \<Rightarrow> ('w, unit) action" where
  "save_envelope v = save_phase_state (pe_state v)"

definition make_fresh_envelope :: "phase_state \<Rightarrow> phase_envelope" where
  "make_fresh_envelope q = \<lparr>pe_state = q, pe_origin = Origin_NEW\<rparr>"

section \<open>The loop\<close>

record pipeline_run_result =
  prr_story_id :: string
  prr_phases_executed :: "string list"
  prr_final_status :: string
  prr_final_phase :: string
  prr_errors :: "string list"
  prr_yielded :: bool
  prr_yield_status :: "yield_status option"
  prr_suggested_reaction :: "string option"

definition run_result_of :: "string \<Rightarrow> string list \<Rightarrow> string \<Rightarrow> string \<Rightarrow> pipeline_run_result" where
  "run_result_of sid phases status phase = \<lparr>prr_story_id = sid, prr_phases_executed = phases,
     prr_final_status = status, prr_final_phase = phase, prr_errors = [], prr_yielded = False,
     prr_yield_status = None, prr_suggested_reaction = None\<rparr>"

definition check_terminal_result ::
  "story_context \<Rightarrow> engine_result \<Rightarrow> string list \<Rightarrow> pipeline_run_result option" where
  "check_terminal_result ctx result phases =
    (if res_status result = ''yielded'' then Some ((run_result_of (sc_story_id ctx) phases ''yielded'' (res_phase result))
       \<lparr>prr_yielded := True, prr_yield_status := res_yield_status result\<rparr>)
     else if res_status result \<in> {''failed'', ''escalated''}
     then Some ((run_result_of (sc_story_id ctx) phases (res_status result) (res_phase result))
       \<lparr>prr_errors := res_errors result, prr_suggested_reaction := res_suggested_reaction result\<rparr>)
     else if res_next_phase result = None
     then Some (run_result_of (sc_story_id ctx) phases ''completed'' (res_phase result))
     else None)"

definition run_pipeline_producer :: phase_state_producer where
  "run_pipeline_producer = \<lparr>pp_type = ''script'', pp_name = ''run-pipeline''\<rparr>"

text \<open>The state of the phase the loop advances to, from the context and the state it leaves.\<close>

definition next_state_spec :: "story_context \<Rightarrow> phase_state \<Rightarrow> string \<Rightarrow> int \<Rightarrow> phase_state_spec" where
  "next_state_spec ctx q next_phase t = \<lparr>sp_story_id = sc_story_id ctx, sp_run_id = ps_run_id q,
     sp_phase = next_phase, sp_status = PhaseStatus_PENDING, sp_mode = ps_mode q,
     sp_story_type' = sc_story_type ctx, sp_attempt = 1, sp_started_at = ps_started_at q,
     sp_phase_entered_at = t, sp_producer = run_pipeline_producer\<rparr>"

fun run_phase_loop ::
  "nat \<Rightarrow> 'w pipeline_engine \<Rightarrow> story_context \<Rightarrow> phase_envelope \<Rightarrow> string list
     \<Rightarrow> ('w, pipeline_run_result) action" where
  "run_phase_loop 0 e ctx env phases = ret ((run_result_of (sc_story_id ctx) phases ''failed''
       (if phases = [] then [] else last phases))\<lparr>prr_errors := [''Max iteration limit reached'']\<rparr>)"
| "run_phase_loop (Suc n) e ctx env phases =
    bind_io (run_phase e ctx env) (\<lambda>result.
      let phases' = phases @ [res_phase result];
          ctx' = (case res_updated_context result of Some c \<Rightarrow> c | None \<Rightarrow> ctx) in
      case check_terminal_result ctx' result phases' of
        Some r \<Rightarrow> ret r
      | None \<Rightarrow>
          bind_io now (\<lambda>t.
          bind_io (lift_sum (build_phase_state_from_spec
            (next_state_spec ctx' (pe_state env) (the (res_next_phase result)) t))) (\<lambda>next_state.
          seq_io (save_phase_state next_state)
            (run_phase_loop n e ctx' (make_fresh_envelope next_state) phases'))))"

definition max_iterations :: nat where "max_iterations = 20"

section \<open>The start\<close>

definition corrupt_result :: "story_context \<Rightarrow> pipeline_run_result" where
  "corrupt_result ctx = (run_result_of (sc_story_id ctx) [] ''failed'' [])
     \<lparr>prr_errors := [''Corrupt phase-state.json '' @ em_dash @ '' cannot continue. Manual investigation required.'']\<rparr>"

definition fresh_state_spec :: "story_context \<Rightarrow> string \<Rightarrow> string \<Rightarrow> int \<Rightarrow> phase_state_spec" where
  "fresh_state_spec ctx run_id phase t = \<lparr>sp_story_id = sc_story_id ctx, sp_run_id = run_id, sp_phase = phase,
     sp_status = PhaseStatus_PENDING,
     sp_mode = phase_state_mode_from_context (sc_execution_route ctx) (sc_mode ctx = Mode_FAST),
     sp_story_type' = sc_story_type ctx, sp_attempt = 1, sp_started_at = t, sp_phase_entered_at = t,
     sp_producer = run_pipeline_producer\<rparr>"

text \<open>\<open>Inl\<close> is a run result that ends the run, \<open>Inr\<close> the envelope to start from.\<close>

definition load_or_create_initial_envelope ::
  "'w pipeline_engine \<Rightarrow> story_context \<Rightarrow> ('w, pipeline_run_result + phase_envelope) action" where
  "load_or_create_initial_envelope e ctx = (case flow_nodes (en_workflow e) of
      [] \<Rightarrow> raise (OtherException ''tuple index out of range'')
    | nd # _ \<Rightarrow>
      try_io (if phase_name_of (nd_name nd) \<noteq> None then load_envelope (en_story_dir e) else ret None)
        (\<lambda>r. case r of
          Inl (CorruptStateError _) \<Rightarrow> ret (Inl (corrupt_result ctx))
        | Inl exc \<Rightarrow> raise exc
        | Inr (Some env) \<Rightarrow> ret (Inr env)
        | Inr None \<Rightarrow>
            bind_io now (\<lambda>t.
            bind_io (resolve_run_id (en_runtime e) ctx) (\<lambda>run_id.
            bind_io (lift_sum (build_phase_state_from_spec (fresh_state_spec ctx run_id (nd_name nd) t))) (\<lambda>q.
            seq_io (save_phase_state q) (ret (Inr (make_fresh_envelope q))))))))"

text \<open>
  \<open>run_pipeline\<close>: the engine is built on the given or the resolved workflow. \<open>uid\<close> is the
  identifier that the engine's runtime state draws.
\<close>

definition run_pipeline ::
  "is_env \<Rightarrow> story_context \<Rightarrow> string \<Rightarrow> 'w handler_registry \<Rightarrow> flow_definition option \<Rightarrow> string
     \<Rightarrow> ('w, pipeline_run_result) action" where
  "run_pipeline env ctx story_dir registry given uid =
    bind_io (lift_sum (case given of Some w \<Rightarrow> Inr w | None \<Rightarrow> resolve_workflow env (sc_story_type ctx))) (\<lambda>w.
      let e = \<lparr>en_workflow = w, en_registry = registry, en_story_dir = story_dir, en_run_id = uid\<rparr> in
      bind_io (load_or_create_initial_envelope e ctx) (\<lambda>initial. case initial of
          Inl r \<Rightarrow> ret r
        | Inr v \<Rightarrow> run_phase_loop max_iterations e ctx v []))"

end
