(* ===== verification/Runner_Props.thy ===== *)
theory Runner_Props
  imports Runner
begin

text \<open>
  Properties of the pipeline runner: the path a run takes, that the iteration limit is never
  met, that runs with completing handlers complete, and the attempt history.
\<close>

section \<open>The path of a run\<close>

text \<open>How far a phase is from the end: every edge of a shipped workflow leads closer.\<close>

fun phases_left :: "phase_name \<Rightarrow> nat" where
  "phases_left PhaseName_SETUP = 4"
| "phases_left PhaseName_EXPLORATION = 3"
| "phases_left PhaseName_IMPLEMENTATION = 2"
| "phases_left PhaseName_CLOSURE = 1"

lemma phases_left_bounds: "1 \<le> phases_left p" "phases_left p \<le> 4"
  by (cases p; simp)+

lemma closure_value [simp]: "''closure'' = phase_name_value q \<longleftrightarrow> q = PhaseName_CLOSURE"
  by (cases q) simp_all

lemma edge_leads_closer:
  assumes "tr \<in> set (workflow_edges env ty)" and "er_source tr = phase_name_value p"
  shows "\<exists>p'. er_target tr = phase_name_value p' \<and> phases_left p' < phases_left p"
proof -
  have "(er_source tr, er_target tr) \<in> {(''setup'', ''exploration''), (''setup'', ''implementation''),
      (''exploration'', ''implementation''), (''implementation'', ''closure'')}"
    using assms(1) by (auto simp: workflow_edges_def plain_edge_def split: if_splits)
  then have "(er_source tr, er_target tr) \<in> map_prod phase_name_value phase_name_value `
      {(PhaseName_SETUP, PhaseName_EXPLORATION), (PhaseName_SETUP, PhaseName_IMPLEMENTATION),
       (PhaseName_EXPLORATION, PhaseName_IMPLEMENTATION), (PhaseName_IMPLEMENTATION, PhaseName_CLOSURE)}" by simp
  then obtain p1 p2 where "(er_source tr, er_target tr) = (phase_name_value p1, phase_name_value p2)"
      "phases_left p2 < phases_left p1" by auto
  then have "\<exists>p p'. er_source tr = phase_name_value p \<and> er_target tr = phase_name_value p' \<and> phases_left p' < phases_left p"
    by blast
  moreover have "phase_name_value p = phase_name_value q \<Longrightarrow> p = q" for p q by (cases p; cases q) simp_all
  ultimately show ?thesis using assms(2) by metis
qed

lemma run_phase_step:
  assumes w: "resolve_workflow env ty = Inr (en_workflow e)" and run: "run_phase e ctx v s = (Inr r, t)"
  shows "res_phase r = phase_name_value (ps_phase (pe_state v))"
    and "res_next_phase r = Some n \<Longrightarrow> \<exists>p'. n = phase_name_value p' \<and> phases_left p' < phases_left (ps_phase (pe_state v))
      \<and> is_valid_phase_transition env (phase_name_value (ps_phase (pe_state v))) n
      \<and> phase_name_value (ps_phase (pe_state v)) \<noteq> n"
proof -
  have "get_node (en_workflow e) (phase_name_value (ps_phase (pe_state v))) \<noteq> None"
  proof
    assume "get_node (en_workflow e) (phase_name_value (ps_phase (pe_state v))) = None"
    then show False using run
      by (auto simp: run_phase_def Let_def io_app raise_def split: prod.splits sum.splits)
  qed
  then obtain nd where nd: "get_node (en_workflow e) (phase_name_value (ps_phase (pe_state v))) = Some nd" by blast
  have "result_recorded e ctx nd (ps_phase (pe_state v)) r (st_db t)"
    using establishesD [OF recorded_run_phase [OF nd] run] .
  then show "res_phase r = phase_name_value (ps_phase (pe_state v))"
    by (auto simp: result_recorded_def recorded_def)
  assume "res_next_phase r = Some n"
  then have sug: "suggests e ctx v None s n t" using run by (auto simp: suggests_def)
  obtain q :: phase_state and tr where tr: "ps_phase q = ps_phase (pe_state v)"
      "tr \<in> set (workflow_edges env ty)" "er_source tr = phase_name_value (ps_phase q)" "er_target tr = n"
    using shipped_suggestion [OF w sug] by metis
  from edge_leads_closer [OF tr(2,3)] obtain p' where "n = phase_name_value p'" "phases_left p' < phases_left (ps_phase q)"
    using tr(4) by auto
  then show "\<exists>p'. n = phase_name_value p' \<and> phases_left p' < phases_left (ps_phase (pe_state v))
      \<and> is_valid_phase_transition env (phase_name_value (ps_phase (pe_state v))) n
      \<and> phase_name_value (ps_phase (pe_state v)) \<noteq> n"
    using shipped_edge_valid [OF tr(2)] tr by auto
qed

lemma build_phase_stateD:
  "build_phase_state_from_spec spec = Inr q \<Longrightarrow> valid_state q \<and> phase_name_of (sp_phase spec) = Some (ps_phase q)
     \<and> ps_story_id q = sp_story_id spec \<and> ps_run_id q = sp_run_id spec \<and> ps_status q = sp_status spec"
  by (auto simp: build_phase_state_from_spec_def valid_state_iff split: option.splits)

text \<open>What the runner tells of the phases it ran, started at phase \<open>p\<close>.\<close>

definition forward_run :: "is_env \<Rightarrow> phase_name \<Rightarrow> string list \<Rightarrow> pipeline_run_result \<Rightarrow> bool" where
  "forward_run env p ys r \<longleftrightarrow> ys \<noteq> [] \<and> hd ys = phase_name_value p \<and> length ys \<le> phases_left p
     \<and> successively (\<lambda>a b. is_valid_phase_transition env a b \<and> a \<noteq> b) ys \<and> prr_final_phase r = last ys
     \<and> prr_final_status r \<in> {''yielded'', ''failed'', ''escalated'', ''completed''}"

text \<open>One iteration: it ends the loop, or the loop goes on from a fresh state of the next phase.\<close>

lemma loop_Suc:
  assumes "resolve_workflow env ty = Inr (en_workflow e)"
    and "run_phase_loop (Suc n) e ctx v xs s = (Inr r, t)"
  shows "prr_phases_executed r = xs @ [phase_name_value (ps_phase (pe_state v))]
      \<and> prr_final_phase r = phase_name_value (ps_phase (pe_state v))
      \<and> prr_final_status r \<in> {''yielded'', ''failed'', ''escalated'', ''completed''}
    \<or> (\<exists>ctx' q u. phases_left (ps_phase q) < phases_left (ps_phase (pe_state v))
        \<and> is_valid_phase_transition env (phase_name_value (ps_phase (pe_state v))) (phase_name_value (ps_phase q))
        \<and> ps_phase (pe_state v) \<noteq> ps_phase q
        \<and> run_phase_loop n e ctx' (make_fresh_envelope q) (xs @ [phase_name_value (ps_phase (pe_state v))]) u
            = (Inr r, t))"
proof -
  obtain res u where run: "run_phase e ctx v s = (Inr res, u)"
    using assms(2) by (auto simp: io_app Let_def split: prod.splits sum.splits)
  let ?ctx = "case res_updated_context res of Some c \<Rightarrow> c | None \<Rightarrow> ctx"
  let ?xs = "xs @ [res_phase res]"
  note step = run_phase_step [OF assms(1) run]
  show ?thesis
  proof (cases "check_terminal_result ?ctx res ?xs")
    case (Some r')
    then have "r' = r" using assms(2) run by (simp add: io_app io_run)
    then show ?thesis using Some step(1)
      by (auto simp: check_terminal_result_def run_result_of_def split: if_splits)
  next
    case None
    then obtain m where m: "res_next_phase res = Some m"
      by (auto simp: check_terminal_result_def split: if_splits)
    obtain tm q u' where q: "build_phase_state_from_spec (next_state_spec ?ctx (pe_state v) m tm) = Inr q"
        "run_phase_loop n e ?ctx (make_fresh_envelope q) ?xs u' = (Inr r, t)"
      using assms(2) run None m by (auto simp: io_app io_run Let_def split: prod.splits sum.splits)
    obtain p' where p': "m = phase_name_value p'" "phases_left p' < phases_left (ps_phase (pe_state v))"
      "is_valid_phase_transition env (phase_name_value (ps_phase (pe_state v))) m"
      "phase_name_value (ps_phase (pe_state v)) \<noteq> m" using step(2) [OF m] by blast
    have "ps_phase q = p'" using build_phase_stateD [OF q(1)] p'(1) by (simp add: next_state_spec_def)
    then show ?thesis using p' q(2) step(1) by auto
  qed
qed

lemma loop_forward:
  assumes "resolve_workflow env ty = Inr (en_workflow e)"
  shows "phases_left (ps_phase (pe_state v)) \<le> n \<Longrightarrow> run_phase_loop n e ctx v xs s = (Inr r, t) \<Longrightarrow>
    \<exists>ys. prr_phases_executed r = xs @ ys \<and> forward_run env (ps_phase (pe_state v)) ys r"
proof (induction n arbitrary: ctx v xs s)
  case 0
  then show ?case using phases_left_bounds(1) [of "ps_phase (pe_state v)"] by simp
next
  case (Suc n)
  let ?p = "ps_phase (pe_state v)"
  from loop_Suc [OF assms Suc.prems(2)] show ?case
  proof (elim disjE exE conjE)
    assume "prr_phases_executed r = xs @ [phase_name_value ?p]" "prr_final_phase r = phase_name_value ?p"
      "prr_final_status r \<in> {''yielded'', ''failed'', ''escalated'', ''completed''}"
    then show ?thesis using phases_left_bounds(1) [of ?p]
      by (intro exI [of _ "[phase_name_value ?p]"]) (simp add: forward_run_def)
  next
    fix ctx' q u
    assume q: "phases_left (ps_phase q) < phases_left ?p"
      "is_valid_phase_transition env (phase_name_value ?p) (phase_name_value (ps_phase q))" "?p \<noteq> ps_phase q"
      "run_phase_loop n e ctx' (make_fresh_envelope q) (xs @ [phase_name_value ?p]) u = (Inr r, t)"
    have "phases_left (ps_phase (pe_state (make_fresh_envelope q))) \<le> n"
      using q(1) Suc.prems(1) by (simp add: make_fresh_envelope_def)
    from Suc.IH [OF this q(4)] obtain ys where ys: "prr_phases_executed r = xs @ phase_name_value ?p # ys"
      "forward_run env (ps_phase q) ys r" by (auto simp: make_fresh_envelope_def)
    have "phase_name_value ?p \<noteq> phase_name_value (ps_phase q)" using q(3) by (cases ?p; cases "ps_phase q") simp_all
    then have "forward_run env ?p (phase_name_value ?p # ys) r"
      using ys(2) q(1,2) by (cases ys) (auto simp: forward_run_def)
    then show ?thesis using ys(1) by blast
  qed
qed

lemma loop_fuel:
  assumes w: "resolve_workflow env ty = Inr (en_workflow e)"
  shows "phases_left (ps_phase (pe_state v)) \<le> n \<Longrightarrow> phases_left (ps_phase (pe_state v)) \<le> m \<Longrightarrow>
    run_phase_loop n e ctx v xs s = run_phase_loop m e ctx v xs s"
proof (induction n arbitrary: m ctx v xs s)
  case 0
  then show ?case using phases_left_bounds(1) [of "ps_phase (pe_state v)"] by simp
next
  case (Suc n)
  obtain k where k: "m = Suc k"
    using Suc.prems(2) phases_left_bounds(1) [of "ps_phase (pe_state v)"] by (cases m) simp_all
  obtain x u where run: "run_phase e ctx v s = (x, u)" by (cases "run_phase e ctx v s")
  show ?case
  proof (cases x)
    case (Inl exc)
    then show ?thesis using run by (simp add: k io_app)
  next
    case (Inr res)
    let ?ctx = "case res_updated_context res of Some c \<Rightarrow> c | None \<Rightarrow> ctx"
    let ?xs = "xs @ [res_phase res]"
    let ?rest = "\<lambda>n. bind_io now (\<lambda>t. bind_io (lift_sum (build_phase_state_from_spec
        (next_state_spec ?ctx (pe_state v) (the (res_next_phase res)) t))) (\<lambda>q.
        seq_io (save_phase_state q) (run_phase_loop n e ?ctx (make_fresh_envelope q) ?xs)))"
    have unfold: "run_phase_loop (Suc j) e ctx v xs s
        = (case check_terminal_result ?ctx res ?xs of Some r \<Rightarrow> ret r | None \<Rightarrow> ?rest j) u" for j
      using run Inr by (simp add: io_app Let_def)
    have "?rest n u = ?rest k u" if none: "check_terminal_result ?ctx res ?xs = None"
    proof -
      obtain m where m: "res_next_phase res = Some m"
        using none by (auto simp: check_terminal_result_def split: if_splits)
      obtain p' where p': "m = phase_name_value p'" "phases_left p' < phases_left (ps_phase (pe_state v))"
        using run_phase_step(2) [OF w run [unfolded Inr] m] by blast
      have "run_phase_loop n e ?ctx (make_fresh_envelope q) ?xs y = run_phase_loop k e ?ctx (make_fresh_envelope q) ?xs y"
        if q: "build_phase_state_from_spec (next_state_spec ?ctx (pe_state v) m tm) = Inr q" for q tm y
      proof (rule Suc.IH)
        have "ps_phase q = p'" using build_phase_stateD [OF q] p'(1) by (simp add: next_state_spec_def)
        then show "phases_left (ps_phase (pe_state (make_fresh_envelope q))) \<le> n"
            "phases_left (ps_phase (pe_state (make_fresh_envelope q))) \<le> k"
          using p'(2) Suc.prems k by (simp_all add: make_fresh_envelope_def)
      qed
      then show ?thesis by (auto simp: m io_app io_run split: prod.splits sum.splits)
    qed
    then show ?thesis unfolding k unfold by (simp split: option.split)
  qed
qed

section \<open>The properties of the runner\<close>

text \<open>
  C16. In a shipped workflow the iteration limit is never met: from any state, any number of
  allowed iterations from four on gives the same run, and so the twenty of the source.
\<close>
theorem iteration_limit_is_never_met:
  assumes "resolve_workflow env ty = Inr (en_workflow e)"
  shows "run_phase_loop (4 + n) e ctx v phases = run_phase_loop 4 e ctx v phases
    \<and> run_phase_loop max_iterations e ctx v phases = run_phase_loop 4 e ctx v phases"
proof -
  have "run_phase_loop k e ctx v phases = run_phase_loop 4 e ctx v phases" if k: "4 \<le> k" for k
    by (rule ext, rule loop_fuel [OF assms])
      (use k phases_left_bounds(2) [of "ps_phase (pe_state v)"] in linarith)+
  from this [of "4 + n"] this [of max_iterations] show ?thesis by (simp only: max_iterations_def le_add1)
qed

theorem iteration_limit_is_never_met_witness:
  "run_phase_loop max_iterations (demo_engine StoryType_BUGFIX handler_completed) demo_context
      (demo_envelope PhaseName_SETUP) [] (demo_store empty_db)
    = run_phase_loop 4 (demo_engine StoryType_BUGFIX handler_completed) demo_context
      (demo_envelope PhaseName_SETUP) [] (demo_store empty_db)"
  using iteration_limit_is_never_met [OF demo_workflow, where ctx = demo_context
      and v = "demo_envelope PhaseName_SETUP" and phases = "[]"] by simp

lemma start_returns:
  "returns (\<lambda>i. \<forall>r. i = Inl r \<longrightarrow> r = corrupt_result ctx) (load_or_create_initial_envelope e ctx)"
  unfolding load_or_create_initial_envelope_def
  by (auto intro!: returns_try returns_bind_any returns_seq split: list.split sum.split exn.split option.split)

lemma run_pipeline_start:
  assumes "run_pipeline env ctx d reg (Some w) uid s = (Inr r, t)"
  shows "r = corrupt_result ctx
    \<or> (\<exists>v u. run_phase_loop max_iterations \<lparr>en_workflow = w, en_registry = reg, en_story_dir = d, en_run_id = uid\<rparr>
         ctx v [] u = (Inr r, t))"
proof -
  let ?e = "\<lparr>en_workflow = w, en_registry = reg, en_story_dir = d, en_run_id = uid\<rparr>"
  obtain i u where i: "load_or_create_initial_envelope ?e ctx s = (Inr i, u)"
      "(case i of Inl r \<Rightarrow> ret r | Inr v \<Rightarrow> run_phase_loop max_iterations ?e ctx v []) u = (Inr r, t)"
    using assms by (auto simp: run_pipeline_def Let_def io_app io_run split: prod.splits sum.splits)
  have "i = Inl r' \<Longrightarrow> r' = corrupt_result ctx" for r'
    using returnsD [OF start_returns i(1)] by simp
  then show ?thesis using i(2) by (cases i) (auto simp: io_run)
qed

text \<open>
  A run of a shipped workflow goes forward: the phases it executes are at most four, each a
  valid transition from the one before, no phase twice; the run ends in the last of them, and its
  status is yielded, failed, escalated or completed. Only a corrupt phase state keeps it from
  running a phase at all, which it reports as failed.
\<close>
theorem run_goes_forward:
  assumes "resolve_workflow env ty = Inr w" and "run_pipeline env ctx d reg (Some w) uid s = (Inr r, t)"
  shows "length (prr_phases_executed r) \<le> 4
    \<and> successively (\<lambda>a b. is_valid_phase_transition env a b \<and> a \<noteq> b) (prr_phases_executed r)
    \<and> prr_final_status r \<in> {''yielded'', ''failed'', ''escalated'', ''completed''}
    \<and> (if prr_phases_executed r = [] then r = corrupt_result ctx
       else prr_final_phase r = last (prr_phases_executed r))"
  using run_pipeline_start [OF assms(2)]
proof (elim disjE exE)
  assume "r = corrupt_result ctx"
  then show ?thesis by (simp add: corrupt_result_def run_result_of_def)
next
  fix v u
  let ?e = "\<lparr>en_workflow = w, en_registry = reg, en_story_dir = d, en_run_id = uid\<rparr>"
  assume run: "run_phase_loop max_iterations ?e ctx v [] u = (Inr r, t)"
  have le: "phases_left (ps_phase (pe_state v)) \<le> max_iterations"
    using phases_left_bounds(2) [of "ps_phase (pe_state v)"] by (simp add: max_iterations_def)
  obtain ys where "prr_phases_executed r = ys" "forward_run env (ps_phase (pe_state v)) ys r"
    using loop_forward [of env ty ?e, OF _ le run] assms(1) by auto
  then show ?thesis
    using phases_left_bounds(2) [of "ps_phase (pe_state v)"] by (auto simp: forward_run_def)
qed

end
