(* ===== verification/Runner_Live.thy ===== *)
theory Runner_Live
  imports Runner_Props
begin

text \<open>
  When a whole run completes: handlers that complete their phases drive the runner to the end of
  the workflow, and no operation of runner or engine raises on the way.
\<close>

section \<open>Completing handlers\<close>

text \<open>
  A handler that writes sound rows and answers every valid state with \<open>COMPLETED\<close>, keeping
  phase and story, without raising.
\<close>

definition completing_handler :: "'w phase_handler \<Rightarrow> bool" where
  "completing_handler h \<longleftrightarrow> handler_keeps sound_write h
     \<and> (\<forall>c v. valid_state (pe_state v) \<longrightarrow> (\<exists>res. handler_completes h c v res
          \<and> hr_status res = PhaseStatus_COMPLETED
          \<and> valid_state (or_value (hr_updated_state res) (pe_state v))
          \<and> ps_phase (or_value (hr_updated_state res) (pe_state v)) = ps_phase (pe_state v)
          \<and> ps_story_id (or_value (hr_updated_state res) (pe_state v)) = ps_story_id (pe_state v)
          \<and> sc_story_id (or_value (hr_updated_context res) c) = sc_story_id c))"

definition completing_registry :: "flow_definition \<Rightarrow> 'w handler_registry \<Rightarrow> bool" where
  "completing_registry w reg \<longleftrightarrow> handlers_keep sound_write reg
     \<and> (\<forall>p. phase_name_value p \<in> set (node_names w) \<longrightarrow>
          (\<exists>h. reg (phase_name_value p) = Some h \<and> completing_handler h))"

text \<open>What is true whenever the loop calls the engine.\<close>

definition ready_to_run :: "'w pipeline_engine \<Rightarrow> story_context \<Rightarrow> phase_envelope \<Rightarrow> 'w st \<Rightarrow> bool" where
  "ready_to_run e ctx v s \<longleftrightarrow> live (en_story_dir e) s \<and> history_ok (st_db s) \<and> valid_state (pe_state v)
     \<and> ps_story_id (pe_state v) = en_story_dir e \<and> sc_story_id ctx = en_story_dir e
     \<and> phase_name_value (ps_phase (pe_state v)) \<in> set (node_names (en_workflow e))"

lemma completing_run_phase:
  assumes w: "resolve_workflow env ty = Inr (en_workflow e)"
    and reg: "completing_registry (en_workflow e) (en_registry e)" and rdy: "ready_to_run e ctx v s"
  obtains r t c q where "run_phase e ctx v s = (Inr r, t)" "res_status r = ''phase_completed''"
    "res_phase r = phase_name_value (ps_phase (pe_state v))"
    "res_updated_context r = Some c" "sc_story_id c = en_story_dir e"
    "ps_phase q = ps_phase (pe_state v)" "transition_target (en_workflow e) ctx q = Inr (res_next_phase r)"
    "live (en_story_dir e) t" "history_ok (st_db t)"
proof -
  let ?p = "ps_phase (pe_state v)"
  obtain nd where nd: "get_node (en_workflow e) (phase_name_value ?p) = Some nd"
    using rdy get_node_in_names by (auto simp: ready_to_run_def)
  note node = shipped_guards_only_on_setup [OF w nd]
  obtain h where h: "en_registry e (phase_name_value ?p) = Some h" "completing_handler h"
    using reg rdy unfolding completing_registry_def ready_to_run_def by blast
  obtain res where res: "handler_completes h ctx v res" "hr_status res = PhaseStatus_COMPLETED"
      "valid_state (or_value (hr_updated_state res) (pe_state v))"
      "ps_phase (or_value (hr_updated_state res) (pe_state v)) = ?p"
      "ps_story_id (or_value (hr_updated_state res) (pe_state v)) = ps_story_id (pe_state v)"
      "sc_story_id (or_value (hr_updated_context res) ctx) = sc_story_id ctx"
    using h(2) rdy unfolding completing_handler_def ready_to_run_def by meson
  have completing: "completing (pe_state v) nd ctx res"
    using node res by (auto simp: completing_def preflight_passed_def split: if_splits)
  have "wp (run_phase e ctx v) (\<lambda>r _. completed_with e ctx (pe_state v) res r) (\<lambda>_ _. False) s"
    by (rule live_run_phase [where nd = nd and h = h])
      (use rdy nd node h completing res shipped_transitions_defined [OF w] in
        \<open>simp_all add: ready_to_run_def default_override_policy_def\<close>)
  then obtain r t where run: "run_phase e ctx v s = (Inr r, t)" and c: "completed_with e ctx (pe_state v) res r"
    by (auto simp: wp_def split: prod.splits sum.splits)
  have "writes_only sound_write s t"
    using history.keeps_run_phase [of e ctx v] reg run by (auto simp: completing_registry_def dest: writes.keepsD)
  then have "live (en_story_dir e) t" "history_ok (st_db t)"
    using rdy live_writes_only history_ok_writes unfolding ready_to_run_def by blast+
  then show ?thesis
    using that run c res(6) rdy by (auto simp: completed_with_def ready_to_run_def)
qed

section \<open>The states the runner builds\<close>

lemma next_state_builds:
  assumes "valid_state q"
  obtains q' where "build_phase_state_from_spec (next_state_spec ctx q (phase_name_value p) t) = Inr q'"
    "valid_state q'" "ps_phase q' = p" "ps_story_id q' = sc_story_id ctx"
proof -
  have "py_strip ''script'' \<noteq> []" "py_strip ''run-pipeline'' \<noteq> []" by code_simp+
  moreover have "uuid_ok (ps_run_id q)"
    using assms by (auto simp: valid_state_def validate_phase_state_def split: if_splits)
  ultimately obtain q' where b: "build_phase_state_from_spec (next_state_spec ctx q (phase_name_value p) t) = Inr q'"
    by (simp add: build_phase_state_from_spec_def next_state_spec_def validate_phase_state_def
        run_pipeline_producer_def empty_memory_def)
  show ?thesis
    by (rule that [OF b]) (use build_phase_stateD [OF b] in \<open>simp_all add: next_state_spec_def\<close>)
qed

lemma fresh_state_builds:
  assumes "uuid_ok run_id"
  obtains q where "build_phase_state_from_spec (fresh_state_spec ctx run_id (phase_name_value p) t) = Inr q"
    "valid_state q" "ps_phase q = p" "ps_story_id q = sc_story_id ctx"
proof -
  have "py_strip ''script'' \<noteq> []" "py_strip ''run-pipeline'' \<noteq> []" by code_simp+
  then obtain q where b: "build_phase_state_from_spec (fresh_state_spec ctx run_id (phase_name_value p) t) = Inr q"
    using assms
    by (simp add: build_phase_state_from_spec_def fresh_state_spec_def validate_phase_state_def
        run_pipeline_producer_def empty_memory_def)
  show ?thesis
    by (rule that [OF b]) (use build_phase_stateD [OF b] in \<open>simp_all add: fresh_state_spec_def\<close>)
qed

lemma ready_after_save:
  assumes "live d s" and "history_ok (st_db s)" and "valid_state q"
  shows "save_phase_state q s = (Inr (), write_step (W_phase_state q) s)"
    and "live d (write_step (W_phase_state q) s)" and "history_ok (st_db (write_step (W_phase_state q) s))"
proof -
  show "save_phase_state q s = (Inr (), write_step (W_phase_state q) s)"
    by (simp add: save_phase_state_def do_write_def io_run)
  show "live d (write_step (W_phase_state q) s)"
    using assms(1) by (simp add: live_def write_step_def freeze_rows_def)
  show "history_ok (st_db (write_step (W_phase_state q) s))"
    using history_ok_apply_write [of "W_phase_state q"] assms(2,3) by (simp add: write_step_def)
qed

section \<open>The loop completes\<close>

text \<open>The phases of a workflow without guards, from a phase on.\<close>

fun straight_path :: "phase_name \<Rightarrow> string list" where
  "straight_path PhaseName_SETUP = [''setup'', ''implementation'', ''closure'']"
| "straight_path PhaseName_EXPLORATION = [''exploration'']"
| "straight_path PhaseName_IMPLEMENTATION = [''implementation'', ''closure'']"
| "straight_path PhaseName_CLOSURE = [''closure'']"

lemma straight_target:
  assumes "resolve_workflow env ty = Inr w" and "ty \<notin> {StoryType_IMPLEMENTATION, StoryType_BUGFIX}"
    and "transition_target w ctx q = Inr n"
  shows "straight_path (ps_phase q) = phase_name_value (ps_phase q)
      # (case n of None \<Rightarrow> [] | Some m \<Rightarrow> straight_path (the (phase_name_of m)))"
proof -
  have of: "phase_name_of (phase_name_value p) = Some p" for p by simp
  note [simp] = of [of PhaseName_IMPLEMENTATION, simplified] of [of PhaseName_CLOSURE, simplified]
  show ?thesis
    using assms(2,3) unfolding transition_target_def evaluate_transitions_def shipped_edges_from [OF assms(1)]
    by (cases "ps_phase q") (auto simp: workflow_edges_def plain_edge_def split: if_splits)
qed

lemma edge_targets_are_nodes:
  assumes "resolve_workflow env ty = Inr w" and "transition_target w ctx q = Inr (Some n)"
  shows "n \<in> set (node_names w)"
proof -
  obtain tr where "tr \<in> set (workflow_edges env ty)" "er_target tr = n"
    using shipped_target [OF assms] by blast
  then show ?thesis using shipped_workflows_build [of env ty] assms(1)
    by (auto simp: workflow_edges_def plain_edge_def split: if_splits)
qed

lemma loop_completes:
  assumes w: "resolve_workflow env ty = Inr (en_workflow e)"
    and reg: "completing_registry (en_workflow e) (en_registry e)"
  shows "phases_left (ps_phase (pe_state v)) \<le> n \<Longrightarrow> ready_to_run e ctx v s \<Longrightarrow>
    \<exists>r t. run_phase_loop n e ctx v xs s = (Inr r, t) \<and> prr_final_status r = ''completed''
      \<and> (ty \<notin> {StoryType_IMPLEMENTATION, StoryType_BUGFIX} \<longrightarrow>
           prr_phases_executed r = xs @ straight_path (ps_phase (pe_state v)))"
proof (induction n arbitrary: ctx v xs s)
  case 0
  then show ?case using phases_left_bounds(1) [of "ps_phase (pe_state v)"] by simp
next
  case (Suc n)
  obtain r t c q where r: "run_phase e ctx v s = (Inr r, t)" "res_status r = ''phase_completed''"
    "res_phase r = phase_name_value (ps_phase (pe_state v))"
    "res_updated_context r = Some c" "sc_story_id c = en_story_dir e"
    "ps_phase q = ps_phase (pe_state v)" "transition_target (en_workflow e) ctx q = Inr (res_next_phase r)"
    "live (en_story_dir e) t" "history_ok (st_db t)"
    by (rule completing_run_phase [OF w reg Suc.prems(2)])
  let ?xs = "xs @ [res_phase r]"
  show ?case
  proof (cases "res_next_phase r")
    case None
    then have "run_phase_loop (Suc n) e ctx v xs s
        = (Inr (run_result_of (sc_story_id c) ?xs ''completed'' (res_phase r)), t)"
      using r by (simp add: io_app io_run Let_def check_terminal_result_def)
    moreover have "ty \<notin> {StoryType_IMPLEMENTATION, StoryType_BUGFIX} \<longrightarrow>
        straight_path (ps_phase (pe_state v)) = [res_phase r]"
      using straight_target [OF w _ r(7)] r(3,6) None by simp
    ultimately show ?thesis by (simp add: run_result_of_def)
  next
    case (Some m)
    obtain p' where p': "m = phase_name_value p'" "phases_left p' < phases_left (ps_phase (pe_state v))"
      using run_phase_step(2) [OF w r(1) Some] by blast
    have node: "m \<in> set (node_names (en_workflow e))" using edge_targets_are_nodes [OF w] r(7) Some by simp
    let ?u = "t\<lparr>st_ticks := Suc (st_ticks t)\<rparr>" and ?tm = "st_clock t (st_ticks t)"
    have q_ok: "valid_state (pe_state v)" using Suc.prems(2) by (simp add: ready_to_run_def)
    obtain q' where q': "build_phase_state_from_spec (next_state_spec c (pe_state v) m ?tm) = Inr q'"
        "valid_state q'" "ps_phase q' = p'" "ps_story_id q' = sc_story_id c"
      using next_state_builds [OF q_ok] p'(1) by metis
    let ?v = "make_fresh_envelope q'" and ?w = "write_step (W_phase_state q') ?u"
    have u: "live (en_story_dir e) ?u" "history_ok (st_db ?u)" using r(8,9) by (simp_all add: live_def)
    note saved = ready_after_save [OF u q'(2)]
    have step: "run_phase_loop (Suc n) e ctx v xs s = run_phase_loop n e c ?v ?xs ?w"
      using r q'(1) Some saved(1)
      by (simp add: io_app io_run Let_def check_terminal_result_def now_def)
    have "phases_left (ps_phase (pe_state ?v)) \<le> n"
      using p'(2) q'(3) Suc.prems(1) by (simp add: make_fresh_envelope_def)
    moreover have "ready_to_run e c ?v ?w"
      using saved q' r(5) node p'(1) by (simp add: ready_to_run_def make_fresh_envelope_def)
    ultimately obtain r' t' where run: "run_phase_loop n e c ?v ?xs ?w = (Inr r', t')"
        "prr_final_status r' = ''completed''"
        "ty \<notin> {StoryType_IMPLEMENTATION, StoryType_BUGFIX} \<longrightarrow>
          prr_phases_executed r' = ?xs @ straight_path (ps_phase (pe_state ?v))"
      using Suc.IH by blast
    have "ty \<notin> {StoryType_IMPLEMENTATION, StoryType_BUGFIX} \<longrightarrow>
        straight_path (ps_phase (pe_state v)) = res_phase r # straight_path (ps_phase (pe_state ?v))"
      using straight_target [OF w _ r(7)] r(3,6) Some p'(1) q'(3) by (simp add: make_fresh_envelope_def)
    then show ?thesis using run step by simp
  qed
qed

section \<open>From an empty store to the end\<close>

text \<open>What a run starts from: no phase state, a valid history, and a run id that is a UUID.\<close>

definition fresh_start :: "flow_definition \<Rightarrow> string \<Rightarrow> story_context \<Rightarrow> string \<Rightarrow> 'w st \<Rightarrow> bool" where
  "fresh_start w d ctx uid s \<longleftrightarrow> live d s \<and> history_ok (st_db s) \<and> sc_story_id ctx = d
     \<and> phase_state_row (st_db s) d = None
     \<and> uuid_ok (run_id_in \<lparr>rs_workflow = w, rs_story_dir = d, rs_run_id = uid\<rparr> ctx (st_db s))"

lemma fresh_run_completes:
  assumes w: "resolve_workflow env ty = Inr w" and reg: "completing_registry w reg"
    and start: "fresh_start w d ctx uid s"
  shows "\<exists>r t. run_pipeline env ctx d reg (Some w) uid s = (Inr r, t) \<and> prr_final_status r = ''completed''
    \<and> (ty \<notin> {StoryType_IMPLEMENTATION, StoryType_BUGFIX} \<longrightarrow>
         prr_phases_executed r = [''setup'', ''implementation'', ''closure''])"
proof -
  let ?e = "\<lparr>en_workflow = w, en_registry = reg, en_story_dir = d, en_run_id = uid\<rparr>"
  let ?u = "s\<lparr>st_ticks := Suc (st_ticks s)\<rparr>" and ?tm = "st_clock s (st_ticks s)"
  let ?rs = "\<lparr>rs_workflow = w, rs_story_dir = d, rs_run_id = uid\<rparr>"
  have s: "live d s" "history_ok (st_db s)" "sc_story_id ctx = d" "phase_state_row (st_db s) d = None"
      "uuid_ok (run_id_in ?rs ctx (st_db s))"
    using start by (simp_all add: fresh_start_def)
  obtain nd nds where nodes: "flow_nodes w = nd # nds" "nd_name nd = ''setup''" "''setup'' \<in> set (node_names w)"
    using shipped_workflows_build [of env ty] w by (cases "flow_nodes w") (auto simp: node_names_def)
  obtain q where q: "build_phase_state_from_spec (fresh_state_spec ctx (run_id_in ?rs ctx (st_db s)) ''setup'' ?tm) = Inr q"
      "valid_state q" "ps_phase q = PhaseName_SETUP" "ps_story_id q = d"
    using fresh_state_builds [OF s(5), of ctx PhaseName_SETUP ?tm] s(3) by auto
  let ?v = "make_fresh_envelope q" and ?w = "write_step (W_phase_state q) ?u"
  have u: "live d ?u" "history_ok (st_db ?u)" using s(1,2) by (simp_all add: live_def)
  note saved = ready_after_save [OF u q(2)]
  have none: "load_envelope d s = (Inr None, s)"
    using s(1,4) by (simp add: load_envelope_def load_state_def load_phase_state_def story_id_for_def
        live_def io_app io_run)
  have rid: "resolve_run_id (en_runtime ?e) ctx ?u = (Inr (run_id_in ?rs ctx (st_db s)), ?u)"
    by (simp add: resolve_run_id_eq en_runtime_def io_run)
  have time: "now s = (Inr ?tm, ?u)" by (simp add: now_def io_app io_run)
  have phase: "phase_name_of ''setup'' \<noteq> None" using phase_name.enum_of_value [of PhaseName_SETUP] by simp
  have start: "load_or_create_initial_envelope ?e ctx s = (Inr (Inr ?v), ?w)"
    using nodes phase q(1) saved(1)
    by (simp add: load_or_create_initial_envelope_def io_app io_run none time rid)
  have "ready_to_run ?e ctx ?v ?w"
    using saved q nodes s(3) by (simp add: ready_to_run_def make_fresh_envelope_def)
  then obtain r t where r: "run_phase_loop max_iterations ?e ctx ?v [] ?w = (Inr r, t)"
      "prr_final_status r = ''completed''"
      "ty \<notin> {StoryType_IMPLEMENTATION, StoryType_BUGFIX} \<longrightarrow> prr_phases_executed r = [] @ straight_path (ps_phase (pe_state ?v))"
    using loop_completes [of env ty ?e ?v max_iterations ctx ?w "[]"] w reg
      phases_left_bounds(2) [of "ps_phase (pe_state ?v)"] by (auto simp: max_iterations_def)
  have "run_pipeline env ctx d reg (Some w) uid s = (Inr r, t)"
    using start r(1) by (simp add: run_pipeline_def io_app io_run Let_def)
  then show ?thesis using r(2,3) q(3) by (simp add: make_fresh_envelope_def)
qed

section \<open>The properties\<close>

text \<open>
  C17. Handlers that complete their phases complete the run: on a store without a freeze record
  and without a phase state for the story, run_pipeline returns (nothing raises) with the status
  completed. For a concept or research story it has executed setup, implementation and closure.
\<close>
theorem completing_handlers_complete_the_run:
  assumes "resolve_workflow env ty = Inr w" and "completing_registry w reg" and "fresh_start w d ctx uid s"
  shows "\<exists>r t. run_pipeline env ctx d reg (Some w) uid s = (Inr r, t) \<and> prr_final_status r = ''completed''
    \<and> (ty \<notin> {StoryType_IMPLEMENTATION, StoryType_BUGFIX} \<longrightarrow>
         prr_phases_executed r = [''setup'', ''implementation'', ''closure''])"
  by (rule fresh_run_completes [OF assms])

lemma demo_completing: "completing_registry w (demo_registry handler_completed)"
proof -
  have "handler_keeps sound_write (no_op_handler\<lparr>on_enter := (\<lambda>c v. ret handler_completed)\<rparr>)"
    by (auto simp: handler_keeps_def no_op_handler_def intro: writes_intros)
  moreover from this have "completing_handler (no_op_handler\<lparr>on_enter := (\<lambda>c v. ret handler_completed)\<rparr>)"
    unfolding completing_handler_def
    by (auto simp: handler_completes_def no_op_handler_def handler_completed_def or_value_def
        intro!: exI [of _ handler_completed] exI [of _ sound_write] writes_intros)
  ultimately show ?thesis
    by (auto simp: completing_registry_def handlers_keep_def demo_registry_def)
qed

lemma demo_fresh_start: "fresh_start w ''AG3-007'' demo_context demo_run_id (demo_store empty_db)"
proof -
  have "uuid_ok demo_run_id" by code_simp
  then show ?thesis
    by (simp add: fresh_start_def live_def demo_store_def empty_db_def freeze_rows_def mono_def history_ok_def
        demo_context_def sample_context_def phase_state_row_def run_id_in_def story_id_for_def flow_row_def)
qed

theorem completing_handlers_complete_the_run_witness:
  "\<exists>w r t. run_pipeline no_manifest_env demo_context ''AG3-007'' (demo_registry handler_completed)
      (Some w) demo_run_id (demo_store empty_db) = (Inr r, t)
    \<and> prr_phases_executed r = [''setup'', ''implementation'', ''closure'']"
  using completing_handlers_complete_the_run [OF demo_workflow [of StoryType_CONCEPT handler_completed]
      demo_completing demo_fresh_start]
  by auto

theorem run_goes_forward_witness:
  "\<exists>w r t. run_pipeline no_manifest_env demo_context ''AG3-007'' (demo_registry handler_completed)
      (Some w) demo_run_id (demo_store empty_db) = (Inr r, t) \<and> length (prr_phases_executed r) \<le> 4"
  using fresh_run_completes [OF demo_workflow [of StoryType_BUGFIX handler_completed] demo_completing demo_fresh_start]
    run_goes_forward [OF demo_workflow [of StoryType_BUGFIX handler_completed], where ctx = demo_context
      and d = "''AG3-007''" and reg = "demo_registry handler_completed" and uid = demo_run_id
      and s = "demo_store empty_db"]
  by blast

lemma writes_build_save:
  "writes.keeps sound_write (bind_io (lift_sum (build_phase_state_from_spec spec)) (\<lambda>q.
     seq_io (save_phase_state q) (m q)))" if "\<And>q. writes.keeps sound_write (m q)"
  using that by (auto intro!: writes_intros dest: build_phase_stateD)

lemma run_keeps_sound:
  assumes "handlers_keep sound_write (en_registry e)"
  shows "writes.keeps sound_write (run_phase_loop n e ctx v xs)"
proof (induction n arbitrary: ctx v xs)
  case 0
  show ?case by (simp add: writes_intros)
next
  case (Suc n)
  then show ?case
    by (auto simp: Let_def intro!: writes_intros writes_build_save history.keeps_run_phase [OF assms]
        split: option.split)
qed

text \<open>
  However a run of the pipeline ends, returned or raised, the attempts and phase states in
  the store satisfy their validators, provided they did before and the handlers write valid rows.
\<close>
theorem run_keeps_the_history:
  assumes "handlers_keep sound_write reg" and "history_ok (st_db s)"
  shows "history_ok (st_db (snd (run_pipeline env ctx d reg given uid s)))"
proof -
  have "writes.keeps sound_write (run_pipeline env ctx d reg given uid)"
    unfolding run_pipeline_def load_or_create_initial_envelope_def load_envelope_def load_state_def Let_def
    using assms(1)
    by (auto intro!: writes_intros writes_build_save run_keeps_sound
        split: list.split sum.split exn.split option.split)
  then have "writes_only sound_write s (snd (run_pipeline env ctx d reg given uid s))"
    by (simp add: writes.keeps_def)
  then show ?thesis using history_ok_writes assms(2) by blast
qed

theorem run_keeps_the_history_witness:
  "history_ok (st_db (snd (run_pipeline no_manifest_env demo_context ''AG3-007'' (demo_registry handler_completed)
     None demo_run_id (demo_store empty_db))))"
proof -
  have "handlers_keep sound_write (demo_registry handler_completed)"
    using demo_completing by (simp add: completing_registry_def)
  moreover have "history_ok (st_db (demo_store empty_db))"
    by (simp add: history_ok_def demo_store_def empty_db_def)
  ultimately show ?thesis by (rule run_keeps_the_history)
qed

end
