(* ===== verification/Runtime_Purge.thy ===== *)
theory Runtime_Purge
  imports Runner_Live
begin

text \<open>
  The purge of a run (\<open>state_backend/store/runtime_execution_purge.py\<close>) with the deletes of
  \<open>sqlite_store/_purge_rows.py\<close>, and the residue probe. Every delete is a transaction of its own,
  so the purge is a sequence of steps that may be cut off after any of them. What a purge has to remove
  is stated on the owners of the rows, their project, story and run as far as their table has the
  column, and not on the clauses of the deletes.
\<close>

section \<open>The deletes\<close>

text \<open>The rows left and \<open>cursor.rowcount\<close>.\<close>

definition delete_where :: "('r \<Rightarrow> bool) \<Rightarrow> 'r list \<Rightarrow> 'r list \<times> nat" where
  "delete_where P t = (filter (\<lambda>r. \<not> P r) t, length (filter P t))"

definition purge_flow_executions_row :: "string \<Rightarrow> string \<Rightarrow> string \<Rightarrow> db \<Rightarrow> db \<times> nat" where
  "purge_flow_executions_row pk sid rid D = (case delete_where
     (\<lambda>r. fe_project_key r = pk \<and> fe_story_id r = sid \<and> fe_run_id r = rid) (t_flows D) of
     (t, n) \<Rightarrow> (D\<lparr>t_flows := t\<rparr>, n))"

definition purge_node_execution_ledgers_row :: "string \<Rightarrow> string \<Rightarrow> string \<Rightarrow> db \<Rightarrow> db \<times> nat" where
  "purge_node_execution_ledgers_row pk sid rid D = (case delete_where
     (\<lambda>r. nl_project_key r = pk \<and> nl_story_id r = sid \<and> nl_run_id r = rid) (t_ledgers D) of
     (t, n) \<Rightarrow> (D\<lparr>t_ledgers := t\<rparr>, n))"

definition purge_attempts_row :: "string \<Rightarrow> string \<Rightarrow> db \<Rightarrow> db \<times> nat" where
  "purge_attempts_row sid rid D = (case delete_where
     (\<lambda>r. fst r = sid \<and> ar_run_id (snd r) = rid) (t_attempts D) of
     (t, n) \<Rightarrow> (D\<lparr>t_attempts := t\<rparr>, n))"

definition purge_override_records_row :: "string \<Rightarrow> string \<Rightarrow> string \<Rightarrow> db \<Rightarrow> db \<times> nat" where
  "purge_override_records_row pk sid rid D = (case delete_where
     (\<lambda>r. ov_project_key r = pk \<and> ov_story_id r = sid \<and> ov_run_id r = rid) (t_overrides D) of
     (t, n) \<Rightarrow> (D\<lparr>t_overrides := t\<rparr>, n))"

definition purge_guard_decisions_row :: "string \<Rightarrow> string \<Rightarrow> string \<Rightarrow> db \<Rightarrow> db \<times> nat" where
  "purge_guard_decisions_row pk sid rid D = (case delete_where
     (\<lambda>r. rr_project_key r = pk \<and> rr_story_id r = sid \<and> rr_run_id r = rid) (t_guard_decisions D) of
     (t, n) \<Rightarrow> (D\<lparr>t_guard_decisions := t\<rparr>, n))"

definition purge_phase_states_row :: "string \<Rightarrow> db \<Rightarrow> db \<times> nat" where
  "purge_phase_states_row sid D = (case delete_where (\<lambda>r. fst r = sid) (t_phase_states D) of
     (t, n) \<Rightarrow> (D\<lparr>t_phase_states := t\<rparr>, n))"

definition purge_phase_snapshots_row :: "string \<Rightarrow> db \<Rightarrow> db \<times> nat" where
  "purge_phase_snapshots_row sid D = (case delete_where (\<lambda>r. sn_story_id r = sid) (t_snapshots D) of
     (t, n) \<Rightarrow> (D\<lparr>t_snapshots := t\<rparr>, n))"

definition purge_decision_records_row :: "string \<Rightarrow> db \<Rightarrow> db \<times> nat" where
  "purge_decision_records_row sid D = (case delete_where (\<lambda>r. r = sid) (t_decision_records D) of
     (t, n) \<Rightarrow> (D\<lparr>t_decision_records := t\<rparr>, n))"

definition purge_execution_events_row :: "string \<Rightarrow> string \<Rightarrow> string \<Rightarrow> db \<Rightarrow> db \<times> nat" where
  "purge_execution_events_row pk sid rid D = (case delete_where
     (\<lambda>r. ev_project_key r = pk \<and> ev_story_id r = sid \<and> ev_run_id r = rid) (t_events D) of
     (t, n) \<Rightarrow> (D\<lparr>t_events := t\<rparr>, n))"

definition purge_run_bound_artifact_envelopes_row :: "string \<Rightarrow> string \<Rightarrow> db \<Rightarrow> db \<times> nat" where
  "purge_run_bound_artifact_envelopes_row sid rid D = (case delete_where
     (\<lambda>r. rr_story_id r = sid \<and> rr_run_id r = rid) (t_artifact_envelopes D) of
     (t, n) \<Rightarrow> (D\<lparr>t_artifact_envelopes := t\<rparr>, n))"

section \<open>Purge and probe\<close>

definition validate_scope :: "string \<Rightarrow> string \<Rightarrow> string \<Rightarrow> exn + unit" where
  "validate_scope pk sid rid =
    (let missing = map fst (filter (\<lambda>(n, v). v = [])
        [(''project_key'', pk), (''story_id'', sid), (''run_id'', rid)]) in
     if missing \<noteq> [] then Inl (ValueError
       (''Runtime-Execution purge requires a complete scope; missing/empty: '' @ join '', '' missing))
     else Inr ())"

definition purge_steps :: "string \<Rightarrow> string \<Rightarrow> string \<Rightarrow> (string \<times> (db \<Rightarrow> db \<times> nat)) list" where
  "purge_steps pk sid rid =
    [(''flow_executions'', purge_flow_executions_row pk sid rid),
     (''node_execution_ledgers'', purge_node_execution_ledgers_row pk sid rid),
     (''attempts'', purge_attempts_row sid rid),
     (''override_records'', purge_override_records_row pk sid rid),
     (''guard_decisions'', purge_guard_decisions_row pk sid rid),
     (''decision_records'', purge_decision_records_row sid),
     (''phase_states'', purge_phase_states_row sid),
     (''phase_snapshots'', purge_phase_snapshots_row sid),
     (''execution_events'', purge_execution_events_row pk sid rid),
     (''artifact_envelopes'', purge_run_bound_artifact_envelopes_row sid rid)]"

fun run_steps :: "(string \<times> (db \<Rightarrow> db \<times> nat)) list \<Rightarrow> db \<Rightarrow> (string \<times> nat) list \<times> db" where
  "run_steps [] D = ([], D)"
| "run_steps ((domain, step) # steps) D =
    (case step D of (D', n) \<Rightarrow> (case run_steps steps D' of (rows, D'') \<Rightarrow> ((domain, n) # rows, D'')))"

definition purge_run :: "string \<Rightarrow> string \<Rightarrow> string \<Rightarrow> db \<Rightarrow> exn + (string \<times> nat) list \<times> db" where
  "purge_run pk sid rid D =
    (case validate_scope pk sid rid of Inl e \<Rightarrow> Inl e | Inr _ \<Rightarrow> Inr (run_steps (purge_steps pk sid rid) D))"

definition total_purged :: "(string \<times> nat) list \<Rightarrow> nat" where
  "total_purged rows = sum_list (map snd rows)"

definition count_runtime_execution_residue :: "string \<Rightarrow> string \<Rightarrow> db \<Rightarrow> (string \<times> nat) list" where
  "count_runtime_execution_residue sid rid D =
    [(''flow_executions'', length (filter (\<lambda>r. fe_story_id r = sid \<and> fe_run_id r = rid) (t_flows D))),
     (''node_execution_ledgers'', length (filter (\<lambda>r. nl_story_id r = sid \<and> nl_run_id r = rid) (t_ledgers D))),
     (''attempts'', length (filter (\<lambda>r. fst r = sid \<and> ar_run_id (snd r) = rid) (t_attempts D))),
     (''override_records'', length (filter (\<lambda>r. ov_story_id r = sid \<and> ov_run_id r = rid) (t_overrides D))),
     (''guard_decisions'', length (filter (\<lambda>r. rr_story_id r = sid \<and> rr_run_id r = rid) (t_guard_decisions D))),
     (''decision_records'', length (filter (\<lambda>r. r = sid) (t_decision_records D))),
     (''phase_states'', length (filter (\<lambda>r. fst r = sid) (t_phase_states D))),
     (''phase_snapshots'', length (filter (\<lambda>r. sn_story_id r = sid) (t_snapshots D))),
     (''execution_events'', length (filter (\<lambda>r. ev_story_id r = sid \<and> ev_run_id r = rid) (t_events D))),
     (''artifact_envelopes'', length (filter (\<lambda>r. rr_story_id r = sid \<and> rr_run_id r = rid) (t_artifact_envelopes D)))]"

definition is_clean :: "(string \<times> nat) list \<Rightarrow> bool" where
  "is_clean residue = list_all (\<lambda>(_, count). count = 0) residue"

definition check_run :: "string \<Rightarrow> string \<Rightarrow> string \<Rightarrow> db \<Rightarrow> exn + (string \<times> nat) list" where
  "check_run pk sid rid D = (case validate_scope pk sid rid of
     Inl e \<Rightarrow> Inl e | Inr _ \<Rightarrow> Inr (count_runtime_execution_residue sid rid D))"

section \<open>What a purge leaves\<close>

text \<open>
  The owner of a row: its project, its story and its run. A table that has no column for the project
  or for the run leaves it open: attempts and artifact envelopes name no project; phase states,
  snapshots and decisions name the story only.
\<close>

type_synonym owner = "string option \<times> string \<times> string option"

definition table_owners :: "db \<Rightarrow> (string \<times> owner list) list" where
  "table_owners D =
    [(''flow_executions'', map (\<lambda>r. (Some (fe_project_key r), fe_story_id r, Some (fe_run_id r))) (t_flows D)),
     (''node_execution_ledgers'', map (\<lambda>r. (Some (nl_project_key r), nl_story_id r, Some (nl_run_id r))) (t_ledgers D)),
     (''attempts'', map (\<lambda>(sid, a). (None, sid, Some (ar_run_id a))) (t_attempts D)),
     (''override_records'', map (\<lambda>r. (Some (ov_project_key r), ov_story_id r, Some (ov_run_id r))) (t_overrides D)),
     (''guard_decisions'', map (\<lambda>r. (Some (rr_project_key r), rr_story_id r, Some (rr_run_id r))) (t_guard_decisions D)),
     (''decision_records'', map (\<lambda>sid. (None, sid, None)) (t_decision_records D)),
     (''phase_states'', map (\<lambda>r. (None, fst r, None)) (t_phase_states D)),
     (''phase_snapshots'', map (\<lambda>r. (None, sn_story_id r, None)) (t_snapshots D)),
     (''execution_events'', map (\<lambda>r. (Some (ev_project_key r), ev_story_id r, Some (ev_run_id r))) (t_events D)),
     (''artifact_envelopes'', map (\<lambda>r. (None, rr_story_id r, Some (rr_run_id r))) (t_artifact_envelopes D))]"

definition keep_owned :: "(owner \<Rightarrow> bool) \<Rightarrow> db \<Rightarrow> db" where
  "keep_owned P D = D\<lparr>
     t_flows := filter (\<lambda>r. P (Some (fe_project_key r), fe_story_id r, Some (fe_run_id r))) (t_flows D),
     t_ledgers := filter (\<lambda>r. P (Some (nl_project_key r), nl_story_id r, Some (nl_run_id r))) (t_ledgers D),
     t_attempts := filter (\<lambda>r. P (None, fst r, Some (ar_run_id (snd r)))) (t_attempts D),
     t_overrides := filter (\<lambda>r. P (Some (ov_project_key r), ov_story_id r, Some (ov_run_id r))) (t_overrides D),
     t_guard_decisions := filter (\<lambda>r. P (Some (rr_project_key r), rr_story_id r, Some (rr_run_id r))) (t_guard_decisions D),
     t_decision_records := filter (\<lambda>sid. P (None, sid, None)) (t_decision_records D),
     t_phase_states := filter (\<lambda>r. P (None, fst r, None)) (t_phase_states D),
     t_snapshots := filter (\<lambda>r. P (None, sn_story_id r, None)) (t_snapshots D),
     t_events := filter (\<lambda>r. P (Some (ev_project_key r), ev_story_id r, Some (ev_run_id r))) (t_events D),
     t_artifact_envelopes := filter (\<lambda>r. P (None, rr_story_id r, Some (rr_run_id r))) (t_artifact_envelopes D)\<rparr>"

text \<open>A row may be of the run: its story is the run's, and no column it has names another project or run.\<close>

fun of_run :: "string \<Rightarrow> string \<Rightarrow> string \<Rightarrow> owner \<Rightarrow> bool" where
  "of_run pk sid rid (p, story, r) \<longleftrightarrow> p \<in> {None, Some pk} \<and> story = sid \<and> r \<in> {None, Some rid}"

definition outside_scope :: "string \<Rightarrow> string \<Rightarrow> string \<Rightarrow> db \<Rightarrow> db" where
  "outside_scope pk sid rid = keep_owned (\<lambda>w. \<not> of_run pk sid rid w)"

lemma outside_scope_eq:
  "outside_scope pk sid rid D = D\<lparr>
     t_flows := filter (\<lambda>r. \<not> (fe_project_key r = pk \<and> fe_story_id r = sid \<and> fe_run_id r = rid)) (t_flows D),
     t_ledgers := filter (\<lambda>r. \<not> (nl_project_key r = pk \<and> nl_story_id r = sid \<and> nl_run_id r = rid)) (t_ledgers D),
     t_attempts := filter (\<lambda>r. \<not> (fst r = sid \<and> ar_run_id (snd r) = rid)) (t_attempts D),
     t_overrides := filter (\<lambda>r. \<not> (ov_project_key r = pk \<and> ov_story_id r = sid \<and> ov_run_id r = rid)) (t_overrides D),
     t_guard_decisions := filter (\<lambda>r. \<not> (rr_project_key r = pk \<and> rr_story_id r = sid \<and> rr_run_id r = rid)) (t_guard_decisions D),
     t_decision_records := filter (\<lambda>r. r \<noteq> sid) (t_decision_records D),
     t_phase_states := filter (\<lambda>r. fst r \<noteq> sid) (t_phase_states D),
     t_snapshots := filter (\<lambda>r. sn_story_id r \<noteq> sid) (t_snapshots D),
     t_events := filter (\<lambda>r. \<not> (ev_project_key r = pk \<and> ev_story_id r = sid \<and> ev_run_id r = rid)) (t_events D),
     t_artifact_envelopes := filter (\<lambda>r. \<not> (rr_story_id r = sid \<and> rr_run_id r = rid)) (t_artifact_envelopes D)\<rparr>"
  by (simp add: outside_scope_def keep_owned_def)

text \<open>The tables agree with the owners: what is kept is what the owners of the rows say.\<close>

lemma table_owners_keep: "table_owners (keep_owned P D) = map (\<lambda>(d, ws). (d, filter P ws)) (table_owners D)"
  by (simp add: table_owners_def keep_owned_def filter_map o_def case_prod_unfold)

lemmas purge_row_defs = purge_flow_executions_row_def purge_node_execution_ledgers_row_def
  purge_attempts_row_def purge_override_records_row_def purge_guard_decisions_row_def
  purge_decision_records_row_def purge_phase_states_row_def purge_phase_snapshots_row_def
  purge_execution_events_row_def purge_run_bound_artifact_envelopes_row_def delete_where_def

lemma run_steps_db: "snd (run_steps steps D) = fold (\<lambda>(_, step) D. fst (step D)) steps D"
proof (induction steps arbitrary: D)
  case (Cons p steps)
  show ?case using Cons.IH [of "fst (snd p D)"] by (cases p) (simp add: case_prod_unfold)
qed simp

lemma purge_leaves: "snd (run_steps (purge_steps pk sid rid) D) = outside_scope pk sid rid D"
  unfolding run_steps_db by (simp add: purge_steps_def purge_row_defs outside_scope_eq)

lemma purge_counts: "fst (run_steps (purge_steps pk sid rid) D)
    = map (\<lambda>(d, ws). (d, length (filter (of_run pk sid rid) ws))) (table_owners D)"
  by (simp add: purge_steps_def purge_row_defs table_owners_def filter_map o_def case_prod_unfold conj_ac)

text \<open>A step changes nothing that the whole purge would not change as well.\<close>

lemma purge_after_step:
  assumes "(domain, step) \<in> set (purge_steps pk sid rid)"
  shows "outside_scope pk sid rid (fst (step D)) = outside_scope pk sid rid D"
  using assms by (auto simp: purge_steps_def purge_row_defs outside_scope_eq conj_commute)

lemma purge_after_steps:
  "set steps \<subseteq> set (purge_steps pk sid rid) \<Longrightarrow>
    outside_scope pk sid rid (snd (run_steps steps D)) = outside_scope pk sid rid D"
proof (induction steps arbitrary: D)
  case (Cons p steps)
  obtain domain step where p: "p = (domain, step)" by (cases p)
  show ?case
    using Cons purge_after_step [of domain step pk sid rid D] unfolding run_steps_db by (simp add: p)
qed simp

lemma nothing_left: "map snd (fst (run_steps (purge_steps pk sid rid) (outside_scope pk sid rid D))) = replicate 10 0"
  by (simp add: purge_steps_def purge_row_defs outside_scope_eq filter_empty_conv numeral_eq_Suc)

lemma validate_scope_iff: "validate_scope pk sid rid = Inr () \<longleftrightarrow> pk \<noteq> [] \<and> sid \<noteq> [] \<and> rid \<noteq> []"
  by (simp add: validate_scope_def Let_def)

text \<open>No row of the run is filed under another project.\<close>

definition scope_agrees :: "string \<Rightarrow> string \<Rightarrow> string \<Rightarrow> db \<Rightarrow> bool" where
  "scope_agrees pk sid rid D \<longleftrightarrow>
     (\<forall>r \<in> set (t_flows D). fe_story_id r = sid \<and> fe_run_id r = rid \<longrightarrow> fe_project_key r = pk)
   \<and> (\<forall>r \<in> set (t_ledgers D). nl_story_id r = sid \<and> nl_run_id r = rid \<longrightarrow> nl_project_key r = pk)
   \<and> (\<forall>r \<in> set (t_overrides D). ov_story_id r = sid \<and> ov_run_id r = rid \<longrightarrow> ov_project_key r = pk)
   \<and> (\<forall>r \<in> set (t_guard_decisions D). rr_story_id r = sid \<and> rr_run_id r = rid \<longrightarrow> rr_project_key r = pk)
   \<and> (\<forall>r \<in> set (t_events D). ev_story_id r = sid \<and> ev_run_id r = rid \<longrightarrow> ev_project_key r = pk)"

lemma filter_filter_Nil: "filter P (filter Q xs) = [] \<longleftrightarrow> (\<forall>x \<in> set xs. Q x \<longrightarrow> \<not> P x)"
  by (auto simp: filter_empty_conv)

lemma residue_clean:
  "is_clean (count_runtime_execution_residue sid rid (outside_scope pk sid rid D)) \<longleftrightarrow> scope_agrees pk sid rid D"
  unfolding is_clean_def count_runtime_execution_residue_def outside_scope_eq scope_agrees_def
  by (simp add: filter_filter_Nil del: filter_filter) blast

text \<open>
  C18. A purge with a complete scope is exact on what the tables can tell apart: it deletes a row if
  and only if its story is the scope's and no column it has names another project or run, keeps all
  others in their order, and reports per table how many rows that were. So in the tables with a run
  column the rows of other runs stay; phase states, snapshots and decisions have none, and there the
  rows of every run of the story go. It converges: cut off after any number of its deletes and run
  again, it leaves the same tables, and a second purge deletes nothing. The residue probe then reports
  clean exactly when no row of the run was filed under another project, the case the purge does not
  reach.
\<close>
theorem purge_is_exact_and_converges:
  assumes "pk \<noteq> []" and "sid \<noteq> []" and "rid \<noteq> []"
  shows "(\<exists>D'. purge_run pk sid rid D = Inr (map (\<lambda>(d, ws). (d, length (filter (of_run pk sid rid) ws))) (table_owners D), D')
      \<and> D' = keep_owned (\<lambda>w. \<not> of_run pk sid rid w) D
      \<and> table_owners D' = map (\<lambda>(d, ws). (d, filter (\<lambda>w. \<not> of_run pk sid rid w) ws)) (table_owners D)
      \<and> (\<exists>rows. purge_run pk sid rid (snd (run_steps (take k (purge_steps pk sid rid)) D)) = Inr (rows, D'))
      \<and> (\<exists>rows. purge_run pk sid rid D' = Inr (rows, D') \<and> total_purged rows = 0)
      \<and> (\<exists>residue. check_run pk sid rid D' = Inr residue \<and> (is_clean residue \<longleftrightarrow> scope_agrees pk sid rid D)))"
proof -
  have ok: "validate_scope pk sid rid = Inr ()" using assms by (simp add: validate_scope_iff)
  have run: "purge_run pk sid rid D = Inr (map (\<lambda>(d, ws). (d, length (filter (of_run pk sid rid) ws))) (table_owners D),
      outside_scope pk sid rid D)" for D
    using ok purge_leaves [of pk sid rid D] purge_counts [of pk sid rid D]
    by (cases "run_steps (purge_steps pk sid rid) D") (simp add: purge_run_def)
  have sub: "set (take k (purge_steps pk sid rid)) \<subseteq> set (purge_steps pk sid rid)" by (rule set_take_subset)
  have again: "\<exists>rows. purge_run pk sid rid (snd (run_steps (take k (purge_steps pk sid rid)) D))
      = Inr (rows, outside_scope pk sid rid D)"
    using run [of "snd (run_steps (take k (purge_steps pk sid rid)) D)"] unfolding purge_after_steps [OF sub] by blast
  have idem: "outside_scope pk sid rid (outside_scope pk sid rid D) = outside_scope pk sid rid D"
    using purge_after_steps [OF order_refl, of pk sid rid D] unfolding purge_leaves .
  have "total_purged (fst (run_steps (purge_steps pk sid rid) (outside_scope pk sid rid D))) = 0"
    using nothing_left [of pk sid rid D] by (simp add: total_purged_def)
  then have twice: "\<exists>rows. purge_run pk sid rid (outside_scope pk sid rid D) = Inr (rows, outside_scope pk sid rid D)
      \<and> total_purged rows = 0"
    using run [of "outside_scope pk sid rid D"] unfolding idem purge_counts by blast
  have probe: "\<exists>residue. check_run pk sid rid (outside_scope pk sid rid D) = Inr residue
      \<and> (is_clean residue \<longleftrightarrow> scope_agrees pk sid rid D)"
    using ok by (simp add: check_run_def residue_clean)
  show ?thesis
    using run [of D] again twice probe table_owners_keep [of "\<lambda>w. \<not> of_run pk sid rid w" D]
    unfolding outside_scope_def by blast
qed

definition demo_flow :: "string \<Rightarrow> flow_execution" where
  "demo_flow pk = \<lparr>fe_project_key = pk, fe_story_id = ''AG3-007'', fe_run_id = demo_run_id, fe_flow_id = ''concept'',
     fe_level = ''pipeline'', fe_owner = ''pipeline_engine'', fe_parent_flow_id = None, fe_status = ''COMPLETED'',
     fe_current_node_id = None, fe_attempt_no = 1, fe_started_at = 0, fe_finished_at = None\<rparr>"

definition purge_demo_db :: db where
  "purge_demo_db = empty_db\<lparr>t_flows := [demo_flow ''ag3'', demo_flow ''other''], t_decision_records := [''AG3-007'', ''AG3-008'']\<rparr>"

theorem purge_is_exact_and_converges_witness:
  "\<exists>rows. purge_run ''ag3'' ''AG3-007'' demo_run_id purge_demo_db
      = Inr (rows, empty_db\<lparr>t_flows := [demo_flow ''other''], t_decision_records := [''AG3-008'']\<rparr>)
    \<and> total_purged rows = 2"
proof -
  have "demo_run_id \<noteq> []" by (simp add: demo_run_id_def)
  moreover have "keep_owned (\<lambda>w. \<not> of_run ''ag3'' ''AG3-007'' demo_run_id w) purge_demo_db
      = empty_db\<lparr>t_flows := [demo_flow ''other''], t_decision_records := [''AG3-008'']\<rparr>"
    by (simp add: keep_owned_def purge_demo_db_def empty_db_def demo_flow_def)
  moreover have "total_purged (map (\<lambda>(d, ws). (d, length (filter (of_run ''ag3'' ''AG3-007'' demo_run_id) ws)))
      (table_owners purge_demo_db)) = 2"
    by (simp add: total_purged_def table_owners_def purge_demo_db_def empty_db_def demo_flow_def)
  ultimately show ?thesis
    using purge_is_exact_and_converges [of "''ag3''" "''AG3-007''" demo_run_id purge_demo_db] by auto
qed

section \<open>A run after a purge\<close>

definition with_db :: "db \<Rightarrow> 'w st \<Rightarrow> 'w st" where
  "with_db D s = s\<lparr>st_db := D\<rparr>"

lemma purged_run_id:
  assumes "\<forall>f \<in> set (t_flows D). fe_story_id f = d \<longrightarrow> fe_project_key f = pk \<and> fe_run_id f = rid"
  shows "run_id_in \<lparr>rs_workflow = w, rs_story_dir = d, rs_run_id = uid\<rparr> ctx (outside_scope pk d rid D) = uid"
proof -
  have "flow_row (outside_scope pk d rid D) d = None"
    using assms by (auto simp: flow_row_def outside_scope_eq find_None_iff)
  then show ?thesis by (auto simp: run_id_in_def story_id_for_def)
qed

lemma purged_store_is_a_fresh_start:
  assumes "live d s" and "history_ok (st_db s)" and "sc_story_id ctx = d" and "uuid_ok uid"
    and old: "\<forall>f \<in> set (t_flows (st_db s)). fe_story_id f = d \<longrightarrow> fe_project_key f = pk \<and> fe_run_id f = rid"
  shows "fresh_start w d ctx uid (with_db (outside_scope pk d rid (st_db s)) s)"
proof -
  let ?D = "outside_scope pk d rid (st_db s)"
  have "phase_state_row ?D d = None"
    by (auto simp: phase_state_row_def outside_scope_eq find_None_iff)
  moreover note purged_run_id [OF old, of w uid ctx]
  moreover have "history_ok ?D" using assms(2) by (auto simp: history_ok_def outside_scope_eq)
  moreover have "live d (with_db ?D s)"
    using assms(1) by (simp add: live_def with_db_def freeze_rows_def outside_scope_eq)
  ultimately show ?thesis using assms(3,4) by (simp add: fresh_start_def with_db_def)
qed

text \<open>
  A purged run influences no later one: when the only flow row of a story is that of the run,
  a purge is enough for a new run to start from the setup phase under its own run id and, with
  completing handlers, to complete, whatever phase states, snapshots and attempts there were.
\<close>
theorem purge_enables_a_fresh_run:
  assumes "resolve_workflow env ty = Inr w" and "completing_registry w reg"
    and "live d s" and "history_ok (st_db s)" and "sc_story_id ctx = d" and "uuid_ok uid"
    and "\<forall>f \<in> set (t_flows (st_db s)). fe_story_id f = d \<longrightarrow> fe_project_key f = pk \<and> fe_run_id f = rid"
    and "purge_run pk d rid (st_db s) = Inr (rows, D)"
  shows "run_id_in \<lparr>rs_workflow = w, rs_story_dir = d, rs_run_id = uid\<rparr> ctx D = uid
    \<and> (\<exists>r t. run_pipeline env ctx d reg (Some w) uid (with_db D s) = (Inr r, t) \<and> prr_final_status r = ''completed''
       \<and> (ty \<notin> {StoryType_IMPLEMENTATION, StoryType_BUGFIX} \<longrightarrow>
            prr_phases_executed r = [''setup'', ''implementation'', ''closure'']))"
proof -
  have D: "D = outside_scope pk d rid (st_db s)"
    using assms(8) purge_leaves [of pk d rid "st_db s"] by (auto simp: purge_run_def split: sum.splits)
  have start: "fresh_start w d ctx uid (with_db D s)"
    unfolding D by (rule purged_store_is_a_fresh_start [OF assms(3-7)])
  have "run_id_in \<lparr>rs_workflow = w, rs_story_dir = d, rs_run_id = uid\<rparr> ctx D = uid"
    unfolding D by (rule purged_run_id [OF assms(7)])
  then show ?thesis using fresh_run_completes [OF assms(1,2) start] by blast
qed

theorem purge_enables_a_fresh_run_witness:
  "\<exists>w D rows r t. purge_run ''ag3'' ''AG3-007'' demo_run_id (empty_db\<lparr>t_flows := [demo_flow ''ag3'']\<rparr>) = Inr (rows, D)
    \<and> run_pipeline no_manifest_env demo_context ''AG3-007'' (demo_registry handler_completed) (Some w) demo_run_id
        (with_db D (demo_store (empty_db\<lparr>t_flows := [demo_flow ''ag3'']\<rparr>))) = (Inr r, t)
    \<and> prr_phases_executed r = [''setup'', ''implementation'', ''closure'']"
proof -
  let ?D = "empty_db\<lparr>t_flows := [demo_flow ''ag3'']\<rparr>"
  have uid: "uuid_ok demo_run_id" by code_simp
  have "demo_run_id \<noteq> []" by (simp add: demo_run_id_def)
  then have "validate_scope ''ag3'' ''AG3-007'' demo_run_id = Inr ()" by (simp add: validate_scope_iff)
  then obtain rows D where purge: "purge_run ''ag3'' ''AG3-007'' demo_run_id (st_db (demo_store ?D)) = Inr (rows, D)"
    by (cases "run_steps (purge_steps ''ag3'' ''AG3-007'' demo_run_id) ?D") (simp add: purge_run_def demo_store_def)
  have "live ''AG3-007'' (demo_store ?D)" "history_ok (st_db (demo_store ?D))" "sc_story_id demo_context = ''AG3-007''"
    "\<forall>f \<in> set (t_flows (st_db (demo_store ?D))). fe_story_id f = ''AG3-007'' \<longrightarrow>
       fe_project_key f = ''ag3'' \<and> fe_run_id f = demo_run_id"
    by (simp_all add: live_def demo_store_def empty_db_def freeze_rows_def mono_def history_ok_def demo_context_def
        sample_context_def demo_flow_def)
  from purge_enables_a_fresh_run [OF demo_workflow [of StoryType_CONCEPT handler_completed] demo_completing
      this(1-3) uid this(4) purge]
  show ?thesis using purge by (auto simp: demo_store_def)
qed

end
