(* ===== verification/Spec2Isabelle.thy ===== *)
theory Spec2Isabelle
  imports Engine_Overrides Adversarial_Targets Planning_Props Plan_Lifecycle Scheduling_Props Runner_Live Runtime_Purge
begin

text \<open>
  A verification development for the orchestration core of AgentKit (the Python package under
  \<open>src/src/agentkit/backend\<close>): the workflow language and the engine that interprets it, the
  runner that drives a story through its phases, the store they write, the purge of a run,
  execution planning, which decides which story may start, and the verify system, which decides
  whether an implementation is good enough, with the guard rails of integration stabilisation.

  \<^bold>\<open>How the program works.\<close> A story has a context (type, route, mode, contract). Its type selects a
  workflow: a graph of phases (setup, exploration, implementation, closure) with guards, yield
  points and policies. The runner (\<open>run_pipeline\<close>) starts from the stored phase state or a new one
  and calls the engine phase by phase. The engine (\<open>run_phase\<close>, \<open>resume_phase\<close>) checks overrides,
  policies and preconditions, calls the phase handler, and turns its result into an attempt record,
  a phase state, flow and ledger rows, events and the next phase. Before that, execution planning
  derives from the stored dependency graph which stories are ready, and a selector fills the free
  slots. A reset purges the rows of a run.

  The handler of the implementation phase runs the quality subflow: the stages that the registry
  plans for the story's type and context produce layer results (structural checks, three reviewers
  on a language model, an adversarial layer, the SonarQube gate, the stability gate of a campaign);
  the policy engine turns them into a verdict; a FAIL opens a further round of the QA cycle with
  feedback, until the ceiling escalates; every result is an artifact that only its registered
  producer may write. Integration stabilisation is the contract under which a story may touch
  several components: an approved manifest with declared paths and a budget, enforced by guards on
  every tool call, by the stability gate and before closure.

  \<^bold>\<open>The theories.\<close>
  \<^item> \<open>Prelude\<close>: computations over a state that return or raise (\<open>io\<close>), with a weakest precondition,
    frames, what a computation returns, establishes or never raises; Python strings and integers.
  \<^item> \<open>Core_Types\<close> (\<open>core_types/\<close>, \<open>exceptions.py\<close>): enumerations with their wire values, exceptions,
    the freeze rules. The locale \<open>str_enum\<close> states what a \<open>StrEnum\<close> promises.
  \<^item> \<open>Story_Context\<close> (\<open>story_context_manager/\<close>): the context, its validation and the routing rules.
  \<^item> \<open>Phase_State\<close> (\<open>pipeline_engine/phase_executor/\<close>): phase states, payloads, attempts and their
    validators, as functions to a sum of exception and value.
  \<^item> \<open>Flow_Model\<close>, \<open>Flow_Validator\<close>, \<open>Workflow_Defs\<close> (\<open>process/language/\<close>): the workflow DSL, its
    validator against a relational specification, the guards, the four shipped workflows and the
    transition graph derived from them. The order in which Python iterates a set is the parameter
    \<open>it\<close> of the validator (locale \<open>set_order\<close>).
  \<^item> \<open>Runtime_Store\<close> (\<open>state_backend/\<close>, \<open>pipeline_engine/runtime_state.py\<close>): the tables as lists of
    rows, every write as a journalled value, the bookkeeping operations.
  \<^item> \<open>Engine\<close> (\<open>pipeline_engine/engine.py\<close>, \<open>result_handling.py\<close>, \<open>lifecycle.py\<close>): the engine, each
    Python function one definition. Handlers are arbitrary computations that may raise.
  \<^item> \<open>Engine_Safety\<close>, \<open>Engine_Crash\<close>, \<open>Engine_Results\<close>, \<open>Engine_Live\<close>: which writes the engine makes
    (locale \<open>write_policy\<close>), in which order (crash consistency), what a result says of the store,
    and when a phase completes. \<open>Engine_Props\<close>, \<open>Engine_Gates\<close>, \<open>Engine_Overrides\<close> draw the
    properties from them: validity of the history, the freeze fence, crash safety, the gates between
    phases, resumption (against a table of pause reasons and triggers), pauses, overrides, attempt
    identifiers.
  \<^item> \<open>Runner\<close>, \<open>Runner_Props\<close>, \<open>Runner_Live\<close> (\<open>pipeline_engine/runner.py\<close>, \<open>phase_envelope/store.py\<close>):
    the phase loop with its limit of twenty iterations. In the shipped workflows every suggested
    phase is closer to the end (\<open>phases_left\<close>, at most four), so the limit is never met and the
    loop is total without it; with completing handlers a run completes.
  \<^item> \<open>Runtime_Purge\<close> (\<open>store/runtime_execution_purge.py\<close>, \<open>sqlite_store/_purge_rows.py\<close>): the ten
    deletes, the purge as a sequence of steps that may be cut off anywhere, the residue probe. What
    belongs to a run is said by the owner of a row (\<open>owner\<close>, \<open>of_run\<close>), apart from the deletes; three
    tables have no run column, and there the rows of the whole story go. A purge followed by a run
    starts afresh.
  \<^item> \<open>Dep_Graph\<close>, \<open>Dep_Layers\<close> (\<open>execution_planning/dependency_graph.py\<close>): the graph, its walks, the
    depth-first cycle search (exact) and Kahn's layers (they refine the greedy layering).
  \<^item> \<open>Planning\<close>, \<open>Planning_Props\<close> (\<open>entities.py\<close>, \<open>readiness.py\<close>): blockers, ready and blocked stories,
    the critical path (a longest hard chain), the plan and its bounds.
  \<^item> \<open>Plan_Lifecycle\<close> (\<open>lifecycle.py\<close>, \<open>store/story_dependency_repository.py\<close>, the rows of
    \<open>story_dependencies\<close>): adding and removing edges. The services are clients of the locale
    \<open>dependency_repository\<close>, which the table interprets; stored graphs stay acyclic.
  \<^item> \<open>Scheduling\<close>, \<open>Scheduling_Props\<close> (\<open>scheduling.py\<close>): the admission decision with quarantine, and the
    selector, whose round robin is proved within the slots, fair in its order and work conserving.
  \<^item> \<open>Qa_Types\<close>, \<open>Stage_Registry\<close> (\<open>verify_system/protocols.py\<close>, \<open>stage_registry/\<close>, \<open>routing.py\<close>):
    findings and layer results, the canonical catalogue of stages, the validated registry and which
    stages it plans for a story type and a context.
  \<^item> \<open>Policy_Engine\<close> (\<open>policy_engine/\<close>, \<open>stage_coverage_mapping.py\<close>): the decision is exactly its three
    rules; the locale \<open>verdict_source\<close> states what a caller relies on.
  \<^item> \<open>Finding_Resolution\<close>, \<open>Qa_Cycle\<close> (\<open>remediation/\<close>, \<open>qa_cycle/\<close>): what becomes of the findings of the
    previous round, the feedback, the identities of a cycle, the invalidation of its artifacts and
    the ceiling of the remediation loop.
  \<^item> \<open>Artifacts\<close> (\<open>artifacts/\<close>, \<open>store/artifact_repository.py\<close>): envelopes, the producer registry, the
    repository (locale \<open>artifact_table\<close>, interpreted on the SQLite rows) and the manager. The payload
    stands in its row as JSON text, printed and parsed by \<open>Json_Text\<close>.
  \<^item> \<open>Adversarial_Spawn\<close> (\<open>adversarial_orchestrator/spawn.py\<close>): mandatory targets, the section of the
    prompt, the spawn orders and their sandbox. \<open>Sonar_Gate\<close> (\<open>sonarqube_gate/\<close>): attestation, ledger
    of accepted exceptions, reconciliation, the gate and when it is dropped or skipped, against an
    arbitrary SonarQube.
  \<^item> \<open>Json_Text\<close>, \<open>Py_Text\<close>, \<open>Py_Path\<close>: what the program uses of Python's \<open>json\<close>, of its string methods
    and of \<open>os.path.normpath\<close>, with the facts about printing and parsing, lengths, and containment of
    paths (\<open>within_dir_iff_covers\<close>: the textual test is containment by components).
  \<^item> \<open>Review_Bundle\<close>, \<open>Llm_Evaluator\<close>, \<open>Layer2_Review\<close> (\<open>llm_evaluator/\<close>, \<open>conformance_service/\<close>,
    \<open>layer2_conformance.py\<close>): packing the material of a review within its limit, the prompt's JSON,
    reading an answer in three stages, the coverage of the required checks, the retry, the parallel
    run of the reviewers, the conformance assessment and the fail-closed adapter.
  \<^item> \<open>Stabilization\<close> (\<open>integration_stabilization/\<close>, the guards of \<open>governance/guard_evaluation.py\<close>, the
    precondition of \<open>closure/phase.py\<close>): manifest, hash, approval, budget, gate and guards; the gate,
    the guards and closure agree on what a campaign may touch.
  \<^item> \<open>Context_Sufficiency\<close> (\<open>llm_evaluator/context_sufficiency.py\<close>): the pre-step that completes the
    input of the reviewers from the story directory and says what is missing.
  \<^item> \<open>Implementation_Evidence\<close> (\<open>implementation_evidence_gate.py\<close>, \<open>implementation/manifest/manifest.py\<close>):
    what the worker must have delivered and version control must confirm before a review begins.
  \<^item> \<open>Qa_Subflow\<close>, \<open>Qa_Subflow_Props\<close> (\<open>verify_system/system.py\<close>, \<open>qa_execution.py\<close>,
    \<open>routed_layer_execution.py\<close>, \<open>fast_mode_floor.py\<close>): the run of the quality subflow, which composes
    the theories above. A layer is an arbitrary computation that may raise. The lemmas follow the log
    of a run, results and artifacts, through its route; the properties say what a PASS rests on, what
    a run leaves behind, when it escalates, and that a layer that raises fails it.
  \<^item> \<open>Adversarial_Runtime\<close>, \<open>Adversarial_Challenger\<close> (\<open>adversarial_orchestrator/runtime/\<close>,
    \<open>challenger.py\<close>): the adversarial layer: the result the agent left in its sandbox, the sparring
    call, the promotion of tests into the suite, the artifact and its telemetry, the verdict, and the
    proof of every mandatory target against the stored finding it was made of. \<open>Adversarial_Props\<close>
    follows the tally of events through a run with weakest preconditions; \<open>Adversarial_Verdict\<close> and
    \<open>Adversarial_Targets\<close> say when the layer passes, that its telemetry is exact and is what the sink
    behind the emitter received, which files a promotion touches, and which targets survive from the
    round that orders them to the next, where a pass answers them.

  \<^bold>\<open>Conventions.\<close> Time is an integer, read from a clock that the state holds; identifiers drawn by
  the program (\<open>uuid4\<close>) are arguments. A validated pydantic model is a record and a validator.
  Numbers are unbounded, as in Python; counts that are bounded below by zero are natural numbers.
  Sorting strings compares code points, as Python does. A SQL statement is one atomic step.
  Strings are the bytes of their UTF-8 encoding; \<open>py_len\<close> and the slices count characters, as Python
  does. Paths are POSIX paths. SHA-256, regular expressions, the language model, SonarQube and every
  other service are parameters of the definitions that use them; nothing is assumed of an answer.

  \<^bold>\<open>Loops and bounds.\<close> Every loop is a total function with a termination proof (the walks and the
  cycle search by the nodes not yet seen, the layers by the nodes not yet placed, the round robin by
  the slots left) or structural. The JSON decoder has fuel twice the length of the text, which is
  enough: more fuel gives the same scan (\<open>scan_value_fuel\<close> in \<open>Json_Text\<close>). The recursion limit of
  CPython, which a cycle search on a chain of some thousand stories would meet, is not modelled.

  \<^bold>\<open>Not modelled.\<close> Phase handlers, which are parameters of the engine: what they do in git, language
  models or the file system is outside. The structural checks and the assembly of evidence, which
  read worktrees: the layers of the quality subflow are parameters of it, and the challenger is one
  instance (\<open>challenger_layer\<close>). Links between files, which promotion would follow, and the audit of
  a prompt. PostgreSQL's statements, which mirror the SQLite ones.
  Interleavings of two processes on one store, other than a crash between two writes: in particular
  \<open>add_dependency\<close> reads and inserts in two transactions, and the invariant is of sequential
  histories. Of governance only the guards of integration stabilisation, of closure only their
  precondition. The control plane, the story services (creation, split, exit, reset), telemetry
  export, KPIs, task management, the failure corpus, installer, CLI, configuration, HTTP and the
  frontend, which are services and I/O around tables of their own.
\<close>

end
